(* ===== verification/Prelude.thy ===== *)
theory Prelude
  imports Complex_Main
begin

text \<open>
  What every component shares: results (a Python call either raises or returns), the
  order-preserving removal of duplicates that \<^verbatim>\<open>dict.fromkeys\<close> performs, and loops
  whose body may raise.

  A computation that may raise has type \<open>'e + 'a\<close>: \<open>Inl e\<close> is the exception, \<open>Inr x\<close> the
  returned value.
\<close>

section \<open>Results\<close>

definition rbind :: "'e + 'a \<Rightarrow> ('a \<Rightarrow> 'e + 'b) \<Rightarrow> 'e + 'b" where
  "rbind m f = (case m of Inl e \<Rightarrow> Inl e | Inr x \<Rightarrow> f x)"

lemma rbind_Inl [simp]: "rbind (Inl e) f = Inl e"
  by (simp add: rbind_def)

lemma rbind_Inr [simp]: "rbind (Inr x) f = f x"
  by (simp add: rbind_def)

lemma rbind_eq_Inr_iff:
  "rbind m f = Inr y \<longleftrightarrow> (\<exists>x. m = Inr x \<and> f x = Inr y)"
  by (cases m) simp_all

lemma rbind_InrE:
  assumes "rbind m f = Inr y"
  obtains x where "m = Inr x" and "f x = Inr y"
  using assms by (cases m) simp_all

lemma rbind_eq_Inl_iff:
  "rbind m f = Inl e \<longleftrightarrow> m = Inl e \<or> (\<exists>x. m = Inr x \<and> f x = Inl e)"
  by (cases m) simp_all

lemma rbind_assoc: "rbind (rbind m f) g = rbind m (\<lambda>x. rbind (f x) g)"
  by (cases m) simp_all

text \<open>\<^verbatim>\<open>if bad: raise e\<close>, as a step of its own.\<close>

definition reject_if :: "bool \<Rightarrow> 'e \<Rightarrow> 'e + unit" where
  "reject_if bad e = (if bad then Inl e else Inr ())"

lemma reject_if_True [simp]: "reject_if True e = Inl e"
  by (simp add: reject_if_def)

lemma reject_if_False [simp]: "reject_if False e = Inr ()"
  by (simp add: reject_if_def)

lemma reject_if_eq_Inr [simp]: "reject_if bad e = Inr u \<longleftrightarrow> \<not> bad"
  by (simp add: reject_if_def)

lemma reject_if_eq_Inl [simp]: "reject_if bad e = Inl e' \<longleftrightarrow> bad \<and> e' = e"
  by (auto simp: reject_if_def)

lemma rbind_reject_eq_Inr [simp]:
  "rbind (reject_if bad e) f = Inr y \<longleftrightarrow> \<not> bad \<and> f () = Inr y"
  by (simp add: reject_if_def)

text \<open>\<^verbatim>\<open>try: ... except: default\<close> around a computation of an option.\<close>

definition to_option :: "'e + 'a \<Rightarrow> 'a option" where
  "to_option m = (case m of Inl e \<Rightarrow> None | Inr x \<Rightarrow> Some x)"

lemma to_option_simps [simp]:
  "to_option (Inl e) = None" "to_option (Inr x) = Some x"
  by (simp_all add: to_option_def)

lemma to_option_eq_Some [simp]: "to_option m = Some x \<longleftrightarrow> m = Inr x"
  by (cases m) simp_all

section \<open>Loops that may raise\<close>

text \<open>A \<^verbatim>\<open>for\<close> loop whose body updates a state or raises, and its contract: an invariant that
  every iteration on an admissible element keeps, and the exceptions an iteration may raise.\<close>

fun run_steps :: "('x \<Rightarrow> 's \<Rightarrow> 'e + 's) \<Rightarrow> 'x list \<Rightarrow> 's \<Rightarrow> 'e + 's" where
  "run_steps step [] s = Inr s"
| "run_steps step (x # xs) s = rbind (step x s) (run_steps step xs)"

lemma run_steps_append:
  "run_steps step (xs @ ys) s = rbind (run_steps step xs s) (run_steps step ys)"
proof (induction xs arbitrary: s)
  case (Cons x xs)
  then show ?case by (cases "step x s") simp_all
qed simp

locale raising_loop =
  fixes step :: "'x \<Rightarrow> 's \<Rightarrow> 'e + 's" and admissible :: "'x \<Rightarrow> bool" and inv :: "'s \<Rightarrow> bool"
    and raises :: "'e \<Rightarrow> bool"
  assumes step_keeps: "admissible x \<Longrightarrow> inv s \<Longrightarrow> step x s = Inr s' \<Longrightarrow> inv s'"
    and step_raises: "admissible x \<Longrightarrow> inv s \<Longrightarrow> step x s = Inl e \<Longrightarrow> raises e"
begin

lemma steps_keep:
  "list_all admissible xs \<Longrightarrow> inv s \<Longrightarrow> run_steps step xs s = Inr s' \<Longrightarrow> inv s'"
  by (induction xs arbitrary: s) (auto elim!: rbind_InrE dest: step_keeps)

lemma steps_raise:
  assumes "list_all admissible xs" "inv s" "run_steps step xs s = Inl e"
  shows "raises e"
  using assms
proof (induction xs arbitrary: s)
  case (Cons x xs)
  then show ?case
    by (cases "step x s") (auto dest: step_keeps step_raises)
qed simp

end

section \<open>First occurrences\<close>

text \<open>\<^verbatim>\<open>tuple(dict.fromkeys(xs))\<close>: each element once, at its first position.\<close>

fun dedup_from :: "'a list \<Rightarrow> 'a list \<Rightarrow> 'a list" where
  "dedup_from seen [] = []"
| "dedup_from seen (x # xs) =
     (if x \<in> set seen then dedup_from seen xs else x # dedup_from (x # seen) xs)"

definition dedup :: "'a list \<Rightarrow> 'a list" where
  "dedup xs = dedup_from [] xs"

lemma set_dedup_from: "set (dedup_from seen xs) = set xs - set seen"
  by (induction seen xs rule: dedup_from.induct) auto

lemma set_dedup [simp]: "set (dedup xs) = set xs"
  by (simp add: dedup_def set_dedup_from)

lemma distinct_dedup_from: "distinct (dedup_from seen xs)"
  by (induction seen xs rule: dedup_from.induct) (auto simp: set_dedup_from)

lemma distinct_dedup [simp]: "distinct (dedup xs)"
  by (simp add: dedup_def distinct_dedup_from)

lemma dedup_eq_Nil [simp]: "dedup xs = [] \<longleftrightarrow> xs = []"
  by (metis set_dedup set_empty)

lemma dedup_from_id: "distinct xs \<Longrightarrow> set xs \<inter> set seen = {} \<Longrightarrow> dedup_from seen xs = xs"
  by (induction seen xs rule: dedup_from.induct) auto

lemma dedup_id: "distinct xs \<Longrightarrow> dedup xs = xs"
  by (simp add: dedup_def dedup_from_id)

section \<open>Lookups in lists\<close>

lemma find_append:
  "List.find P (xs @ ys) = (case List.find P xs of None \<Rightarrow> List.find P ys | Some x \<Rightarrow> Some x)"
  by (induction xs) auto

lemma find_map_keep:
  "(\<And>x. P (g x) = P x) \<Longrightarrow> List.find P (map g xs) = map_option g (List.find P xs)"
  by (induction xs) simp_all

lemma find_Some_mem: "List.find P xs = Some x \<Longrightarrow> x \<in> set xs \<and> P x"
  by (auto simp: find_Some_iff)

lemma list_all2_map_eq:
  "list_all2 P xs ys \<Longrightarrow> (\<And>x y. P x y \<Longrightarrow> f y = g x) \<Longrightarrow> map f ys = map g xs"
  by (induction rule: list_all2_induct) simp_all

lemma list_all2_right: "list_all2 P xs ys \<Longrightarrow> y \<in> set ys \<Longrightarrow> \<exists>x \<in> set xs. P x y"
  by (induction rule: list_all2_induct) auto

lemma list_all2_left: "list_all2 P xs ys \<Longrightarrow> x \<in> set xs \<Longrightarrow> \<exists>y \<in> set ys. P x y"
  by (induction rule: list_all2_induct) auto

section \<open>Mapping a function that may raise\<close>

fun map_results :: "('a \<Rightarrow> 'e + 'b) \<Rightarrow> 'a list \<Rightarrow> 'e + 'b list" where
  "map_results f [] = Inr []"
| "map_results f (x # xs) = rbind (f x) (\<lambda>y. rbind (map_results f xs) (\<lambda>ys. Inr (y # ys)))"

lemma map_results_Inr_iff:
  "map_results f xs = Inr ys \<longleftrightarrow> list_all2 (\<lambda>x y. f x = Inr y) xs ys"
  by (induction xs arbitrary: ys) (auto simp: rbind_eq_Inr_iff list_all2_Cons1)

lemma map_results_Inl:
  "map_results f xs = Inl e \<Longrightarrow> \<exists>x \<in> set xs. f x = Inl e"
  by (induction xs) (auto simp: rbind_eq_Inl_iff)

lemma map_results_map:
  "(\<And>x. x \<in> set xs \<Longrightarrow> f (g x) = Inr (h x)) \<Longrightarrow> map_results f (map g xs) = Inr (map h xs)"
  by (induction xs) simp_all

end
