(* ===== verification/Rounding.thy ===== *)
theory Rounding
  imports Prelude
begin

text \<open>
  Correctly rounded arithmetic. Python's \<^verbatim>\<open>decimal\<close> module and its binary floats compute
  the exact result of an operation and round it to a fixed number of significant digits, ties to
  even. \<open>round_sig b p\<close> is that rounding for base \<open>b\<close> and precision \<open>p\<close>. The locale
  \<open>monotone_rounding\<close> is what every rounding promises, also one that underflows to zero, as that of binary64 does; the locale
  \<open>correct_rounding\<close> extends it to the interface the accounting code relies on, and every law of it is
  proved for \<open>round_sig\<close> in the locale \<open>significant_digits\<close>.
\<close>

section \<open>Round half even\<close>

definition rhe :: "rat \<Rightarrow> int" where
  "rhe y =
     (let f = \<lfloor>y\<rfloor>; r = y - of_int f
      in if r < 1 / 2 then f
         else if 1 / 2 < r then f + 1
         else if even f then f else f + 1)"

lemma rhe_of_int [simp]: "rhe (of_int k) = k"
  by (simp add: rhe_def)

lemma rhe_bounds: "\<lfloor>y\<rfloor> \<le> rhe y" "rhe y \<le> \<lfloor>y\<rfloor> + 1"
  by (auto simp: rhe_def Let_def)

lemma rhe_error: "\<bar>of_int (rhe y) - y\<bar> \<le> 1 / 2"
proof -
  have "of_int \<lfloor>y\<rfloor> \<le> y" "y < of_int \<lfloor>y\<rfloor> + 1"
    by linarith+
  then show ?thesis
    by (auto simp: rhe_def Let_def abs_le_iff)
qed

lemma rhe_mono:
  assumes "x \<le> y"
  shows "rhe x \<le> rhe y"
proof (cases "\<lfloor>x\<rfloor> = \<lfloor>y\<rfloor>")
  case True
  with assms show ?thesis
    by (auto simp: rhe_def Let_def)
next
  case False
  from floor_mono [OF assms] False have "\<lfloor>x\<rfloor> + 1 \<le> \<lfloor>y\<rfloor>"
    by linarith
  then show ?thesis
    using rhe_bounds(2) [of x] rhe_bounds(1) [of y] by linarith
qed

lemma rhe_minus: "rhe (- y) = - rhe y"
proof -
  have below: "\<lfloor>- y\<rfloor> = (if y = of_int \<lfloor>y\<rfloor> then - \<lfloor>y\<rfloor> else - \<lfloor>y\<rfloor> - 1)"
    by (simp add: floor_minus ceiling_altdef)
  show ?thesis
  proof (cases "y = of_int \<lfloor>y\<rfloor>")
    case True
    then show ?thesis by (metis of_int_minus rhe_of_int)
  next
    case False
    then show ?thesis by (auto simp: rhe_def Let_def below)
  qed
qed

section \<open>The leading exponent\<close>

function ndigits :: "int \<Rightarrow> int \<Rightarrow> nat" where
  "ndigits b n = (if b < 2 \<or> n < b then 1 else Suc (ndigits b (n div b)))"
  by pat_completeness auto
termination
proof (relation "measure (\<lambda>(b, n). nat n)", simp)
  fix b n :: int
  assume "\<not> (b < 2 \<or> n < b)"
  then have "n div b < n" by (intro int_div_less_self) simp_all
  then show "((b, n div b), b, n) \<in> measure (\<lambda>(b, n). nat n)"
    using \<open>\<not> (b < 2 \<or> n < b)\<close> by simp
qed

declare ndigits.simps [simp del]

text \<open>\<open>lead_exp b p x\<close> scales a positive \<open>x\<close> to \<open>p\<close> digits before the point.\<close>

definition lead_exp :: "nat \<Rightarrow> nat \<Rightarrow> rat \<Rightarrow> int" where
  "lead_exp b p x =
     (let (n, d) = quotient_of x;
          e = int (ndigits (int b) n) - int (ndigits (int b) d) - int p
      in if of_nat b ^ p \<le> x / (of_nat b powi e) then e + 1 else e)"

definition round_sig :: "nat \<Rightarrow> nat \<Rightarrow> rat \<Rightarrow> rat" where
  "round_sig b p x =
     (if x = 0 then 0
      else let e = lead_exp b p \<bar>x\<bar>
           in sgn x * of_int (rhe (\<bar>x\<bar> / of_nat b powi e)) * of_nat b powi e)"

lemma ndigits_pos: "0 < ndigits b n"
  by (subst ndigits.simps) simp

lemma ndigits_bounds:
  assumes "2 \<le> b"
  shows "n < b ^ ndigits b n \<and> (0 < n \<longrightarrow> b ^ (ndigits b n - 1) \<le> n)"
  using assms
proof (induction b n rule: ndigits.induct)
  case (1 b n)
  show ?case
  proof (cases "n < b")
    case True
    with "1.prems" show ?thesis by (simp add: ndigits.simps [of b n])
  next
    case False
    let ?k = "ndigits b (n div b)"
    from False "1.prems" have pos: "0 < n div b"
      by (simp add: pos_imp_zdiv_pos_iff)
    with "1.IH" "1.prems" False
    have up: "n div b < b ^ ?k" and lo: "b ^ (?k - 1) \<le> n div b"
      by simp_all
    have split: "n = b * (n div b) + n mod b" and m: "0 \<le> n mod b" "n mod b < b"
      using "1.prems" by simp_all
    from up have "b * (n div b + 1) \<le> b * b ^ ?k"
      using "1.prems" by (intro mult_left_mono) simp_all
    then have "n < b * b ^ ?k"
      using split m by (simp only: distrib_left mult_1_right)
    moreover have "b * b ^ (?k - 1) \<le> b * (n div b)"
      using lo "1.prems" by (intro mult_left_mono) simp_all
    then have "b * b ^ (?k - 1) \<le> n"
      using split m by linarith
    moreover have "b * b ^ (?k - 1) = b ^ ?k"
      using ndigits_pos [of b "n div b"] by (cases ?k) simp_all
    ultimately show ?thesis
      using False "1.prems" by (simp add: ndigits.simps [of b n])
  qed
qed

lemma base_power_shift:
  fixes b :: rat
  assumes "b \<noteq> 0"
  shows "b powi (int k - int l - int p) * b ^ l * b ^ p = b ^ k"
proof -
  have "b powi (int k - int l - int p) * b powi int l * b powi int p
      = b powi ((int k - int l - int p) + int l + int p)"
    by (metis assms power_int_add)
  moreover have "(int k - int l - int p) + int l + int p = int k" by simp
  ultimately show ?thesis by (metis power_int_of_nat)
qed

lemma ndigits_bounds_rat:
  assumes "2 \<le> b" "0 < n"
  shows "of_int n < (of_nat b :: rat) ^ ndigits (int b) n"
    and "(of_nat b :: rat) ^ (ndigits (int b) n - 1) \<le> of_int n"
proof -
  have "n < int b ^ ndigits (int b) n" "int b ^ (ndigits (int b) n - 1) \<le> n"
    using ndigits_bounds [of "int b" n] assms by simp_all
  then have "of_int n < (of_int (int b ^ ndigits (int b) n) :: rat)"
    "(of_int (int b ^ (ndigits (int b) n - 1)) :: rat) \<le> of_int n"
    by (simp_all only: of_int_less_iff of_int_le_iff)
  then show "of_int n < (of_nat b :: rat) ^ ndigits (int b) n"
    "(of_nat b :: rat) ^ (ndigits (int b) n - 1) \<le> of_int n"
    by simp_all
qed

lemma lead_exp_bounds:
  assumes b: "2 \<le> b" and p: "1 \<le> p" and x: "0 < x"
  shows "of_nat b ^ (p - 1) \<le> x / of_nat b powi (lead_exp b p x)"
    and "x / of_nat b powi (lead_exp b p x) < of_nat b ^ p"
proof -
  let ?B = "of_nat b :: rat"
  obtain n d where q: "quotient_of x = (n, d)" by fastforce
  have d: "0 < d" and xq: "x = of_int n / of_int d"
    using q quotient_of_denom_pos quotient_of_div by auto
  have n: "0 < n" using x xq d by (simp add: zero_less_divide_iff)
  define k where "k = ndigits (int b) n"
  define l where "l = ndigits (int b) d"
  define e where "e = int k - int l - int p"
  have Bpos: "0 < ?B" and B2: "2 \<le> ?B" using b by auto
  have N: "of_int n < ?B ^ k" "?B ^ (k - 1) \<le> of_int n"
    and D: "of_int d < ?B ^ l" "?B ^ (l - 1) \<le> of_int d"
    unfolding k_def l_def by (intro ndigits_bounds_rat b n d)+
  have suc: "m \<noteq> 0 \<Longrightarrow> ?B ^ m = ?B * ?B ^ (m - 1)" for m by (cases m) simp_all
  have kp: "?B ^ k = ?B * ?B ^ (k - 1)" "?B ^ l = ?B * ?B ^ (l - 1)" "?B ^ p = ?B * ?B ^ (p - 1)"
    using ndigits_pos [of "int b" n] ndigits_pos [of "int b" d] p
    by (auto simp only: k_def l_def intro!: suc)
  have pe: "0 < ?B powi e" using Bpos by simp
  have shift: "?B powi e * ?B ^ l * ?B ^ p = ?B ^ k"
    unfolding e_def using Bpos by (intro base_power_shift) simp
  have dpos: "0 < (of_int d :: rat)" using d by simp
  \<comment> \<open>the scaled value is above \<open>b ^ (p - 1)\<close> already before the adjustment\<close>
  have low: "?B ^ (p - 1) < x / ?B powi e"
  proof -
    have "?B * (?B powi e * of_int d * ?B ^ (p - 1)) < ?B * of_int n"
    proof -
      have "?B powi e * of_int d * ?B ^ p < ?B powi e * ?B ^ l * ?B ^ p"
        using D(1) pe Bpos by simp
      also have "\<dots> = ?B * ?B ^ (k - 1)" using shift kp(1) by simp
      also have "\<dots> \<le> ?B * of_int n" using N(2) Bpos by simp
      finally show ?thesis using kp(3) by (simp add: mult_ac)
    qed
    then have "?B powi e * of_int d * ?B ^ (p - 1) < of_int n" using Bpos by simp
    then show ?thesis using pe dpos by (simp add: xq field_simps)
  qed
  have high: "x / ?B powi e < ?B * ?B ^ p"
  proof -
    have "of_int n < ?B powi e * ?B ^ l * ?B ^ p" using N(1) shift by simp
    also have "\<dots> = ?B powi e * ?B ^ (l - 1) * (?B * ?B ^ p)" using kp(2) by (simp add: mult_ac)
    also have "\<dots> \<le> ?B powi e * of_int d * (?B * ?B ^ p)"
      using D(2) pe Bpos by simp
    finally show ?thesis using pe dpos by (simp add: xq field_simps)
  qed
  have step: "?B powi (e + 1) = ?B powi e * ?B" using Bpos by (simp add: power_int_add)
  have le: "lead_exp b p x = (if ?B ^ p \<le> x / ?B powi e then e + 1 else e)"
    by (simp add: lead_exp_def q e_def k_def l_def Let_def)
  show "?B ^ (p - 1) \<le> x / ?B powi (lead_exp b p x)"
  proof (cases "?B ^ p \<le> x / ?B powi e")
    case True
    then have "?B ^ p / ?B \<le> x / ?B powi e / ?B" using Bpos by (intro divide_right_mono) simp_all
    then show ?thesis using True le step kp(3) Bpos by simp
  next
    case False
    then show ?thesis using le low by simp
  qed
  show "x / ?B powi (lead_exp b p x) < ?B ^ p"
  proof (cases "?B ^ p \<le> x / ?B powi e")
    case True
    have "x / ?B powi e / ?B < ?B * ?B ^ p / ?B"
      using high Bpos by (intro divide_strict_right_mono) simp_all
    then show ?thesis using True le step Bpos by simp
  next
    case False
    then show ?thesis using le by simp
  qed
qed

section \<open>The interface: correctly rounded arithmetic\<close>

text \<open>
  What the accounting code may assume of the rounding of its number type, whatever the base and
  the precision: it is monotone, odd, idempotent, keeps the sign of a non-zero value and is exact
  at one.
\<close>

locale monotone_rounding =
  fixes rnd :: "rat \<Rightarrow> rat"
  assumes mono: "x \<le> y \<Longrightarrow> rnd x \<le> rnd y"
    and odd: "rnd (- x) = - rnd x"
    and idem: "rnd (rnd x) = rnd x"
    and one: "rnd 1 = 1"
begin

lemma zero: "rnd 0 = 0"
  using odd [of 0] by simp

lemma le_fixed: "x \<le> y \<Longrightarrow> rnd y = y \<Longrightarrow> rnd x \<le> y"
  using mono [of x y] by simp

lemma fixed_le: "y \<le> x \<Longrightarrow> rnd y = y \<Longrightarrow> y \<le> rnd x"
  using mono [of y x] by simp

text \<open>What is positive after rounding was positive before.\<close>

lemma posD: "0 < rnd x \<Longrightarrow> 0 < x"
  using mono [of x 0] zero by (cases "x \<le> 0") simp_all

lemma gt_oneD: "1 < rnd x \<Longrightarrow> 1 < x"
  using mono [of x 1] one by (cases "x \<le> 1") simp_all

text \<open>Scaling a fixed point by a factor on one side of one stays on that side of it.\<close>

lemma shrink: "0 \<le> y \<Longrightarrow> rnd y = y \<Longrightarrow> m \<le> 1 \<Longrightarrow> rnd (y * m) \<le> y"
  by (rule le_fixed) (simp_all add: mult_left_le)

lemma grow: "0 \<le> y \<Longrightarrow> rnd y = y \<Longrightarrow> 1 \<le> m \<Longrightarrow> y \<le> rnd (y * m)"
  by (rule fixed_le) (simp_all add: mult_le_cancel_left1)

end

locale correct_rounding = monotone_rounding +
  assumes pos: "0 < x \<Longrightarrow> 0 < rnd x"
begin

lemma neg: "x < 0 \<Longrightarrow> rnd x < 0"
  using pos [of "- x"] odd [of x] by simp

lemma nonneg_iff: "0 \<le> rnd x \<longleftrightarrow> 0 \<le> x"
  using pos [of x] neg [of x] zero by (cases x "0 :: rat" rule: linorder_cases) auto

lemma pos_iff: "0 < rnd x \<longleftrightarrow> 0 < x"
  using pos [of x] neg [of x] zero by (cases x "0 :: rat" rule: linorder_cases) auto

lemma neg_iff: "rnd x < 0 \<longleftrightarrow> x < 0"
  using nonneg_iff [of x] by linarith

lemma nonpos_iff: "rnd x \<le> 0 \<longleftrightarrow> x \<le> 0"
  using pos_iff [of x] by linarith

lemma eq_zero_iff: "rnd x = 0 \<longleftrightarrow> x = 0"
  using pos [of x] neg [of x] zero by (cases x "0 :: rat" rule: linorder_cases) auto

text \<open>Spending within the available cash leaves no debt, and conversely.\<close>

lemma diff_nonneg_iff: "0 \<le> rnd (cash - spent) \<longleftrightarrow> spent \<le> cash"
  by (simp add: nonneg_iff)

text \<open>A holding is at most the whole equity when the cash beside it is not negative.\<close>

lemma weight_le_one:
  assumes "0 \<le> cash" "0 \<le> holding" "rnd holding = holding" "0 < rnd (cash + holding)"
  shows "rnd (holding / rnd (cash + holding)) \<le> 1"
proof -
  have "holding \<le> rnd (cash + holding)"
    using assms(1,3) by (intro fixed_le) simp_all
  then have "holding / rnd (cash + holding) \<le> 1"
    using assms(4) by (simp add: divide_le_eq)
  then show ?thesis by (intro le_fixed one)
qed

end

section \<open>Significant digits implement the interface\<close>

definition representable :: "nat \<Rightarrow> nat \<Rightarrow> rat \<Rightarrow> bool" where
  "representable b p x \<longleftrightarrow>
     (\<exists>c k. x = of_int c * of_nat b powi k \<and> \<bar>c\<bar> \<le> int b ^ p)"

locale significant_digits =
  fixes b p :: nat
  assumes b2: "2 \<le> b" and p1: "1 \<le> p"
begin

lemma base_pos: "0 < (of_nat b :: rat)" "1 < (of_nat b :: rat)"
  using b2 by auto

lemma powi_pos: "0 < (of_nat b :: rat) powi k"
  using base_pos by simp

lemma suc_precision: "(of_nat b :: rat) ^ p = of_nat b * of_nat b ^ (p - 1)"
  using p1 by (cases p) simp_all

lemma round_sig_pos_eq:
  "0 < x \<Longrightarrow> round_sig b p x =
     of_int (rhe (x / of_nat b powi lead_exp b p x)) * of_nat b powi lead_exp b p x"
  by (simp add: round_sig_def Let_def)

lemma round_sig_minus: "round_sig b p (- x) = - round_sig b p x"
  by (simp add: round_sig_def Let_def sgn_minus)

lemma significand_bounds:
  assumes "0 < x"
  shows "(of_nat b :: rat) ^ (p - 1) \<le> of_int (rhe (x / of_nat b powi lead_exp b p x))"
    and "of_int (rhe (x / of_nat b powi lead_exp b p x)) \<le> (of_nat b :: rat) ^ p"
proof -
  let ?y = "x / of_nat b powi lead_exp b p x"
  have y: "(of_int (int b ^ (p - 1)) :: rat) \<le> ?y" "?y \<le> of_int (int b ^ p)"
    using lead_exp_bounds [OF b2 p1 assms] by simp_all
  have "int b ^ (p - 1) \<le> rhe ?y" "rhe ?y \<le> int b ^ p"
    using rhe_mono [OF y(1)] rhe_mono [OF y(2)] by (simp_all only: rhe_of_int)
  then have "(of_int (int b ^ (p - 1)) :: rat) \<le> of_int (rhe ?y)"
    "(of_int (rhe ?y) :: rat) \<le> of_int (int b ^ p)"
    by (simp_all only: of_int_le_iff)
  then show "(of_nat b :: rat) ^ (p - 1) \<le> of_int (rhe ?y)"
    "of_int (rhe ?y) \<le> (of_nat b :: rat) ^ p"
    by simp_all
qed

lemma round_sig_pos:
  assumes "0 < x"
  shows "0 < round_sig b p x"
proof -
  have "0 < (of_nat b :: rat) ^ (p - 1)" using base_pos by simp
  then have "0 < (of_int (rhe (x / of_nat b powi lead_exp b p x)) :: rat)"
    using significand_bounds(1) [OF assms] by linarith
  then show ?thesis
    using powi_pos by (simp add: round_sig_pos_eq assms)
qed

lemma lead_exp_mono:
  assumes "0 < x" "x \<le> y"
  shows "lead_exp b p x \<le> lead_exp b p y"
proof (rule ccontr)
  let ?B = "of_nat b :: rat"
  assume "\<not> ?thesis"
  then have "lead_exp b p y + 1 \<le> lead_exp b p x" by simp
  then have "?B powi (lead_exp b p y + 1) \<le> ?B powi lead_exp b p x"
    using base_pos by (intro power_int_increasing) simp_all
  then have le: "?B powi lead_exp b p y * ?B \<le> ?B powi lead_exp b p x"
    using base_pos by (simp add: power_int_add)
  have "y < ?B ^ p * ?B powi lead_exp b p y"
    using lead_exp_bounds(2) [OF b2 p1, of y] assms powi_pos [of "lead_exp b p y"]
    by (simp add: divide_less_eq)
  also have "\<dots> = ?B ^ (p - 1) * (?B powi lead_exp b p y * ?B)"
    by (simp add: suc_precision mult_ac)
  also have "\<dots> \<le> ?B ^ (p - 1) * ?B powi lead_exp b p x"
    using le base_pos by (intro mult_left_mono) simp_all
  also have "\<dots> \<le> x"
    using lead_exp_bounds(1) [OF b2 p1 assms(1)] powi_pos [of "lead_exp b p x"]
    by (simp add: le_divide_eq)
  finally show False using assms(2) by simp
qed

lemma round_sig_mono_pos:
  assumes "0 < x" "x \<le> y"
  shows "round_sig b p x \<le> round_sig b p y"
proof -
  let ?B = "of_nat b :: rat"
  define e where "e = lead_exp b p x"
  define e' where "e' = lead_exp b p y"
  have y: "0 < y" using assms by linarith
  have rx: "round_sig b p x = of_int (rhe (x / ?B powi e)) * ?B powi e"
    and ry: "round_sig b p y = of_int (rhe (y / ?B powi e')) * ?B powi e'"
    using assms y by (simp_all add: round_sig_pos_eq e_def e'_def)
  show ?thesis
  proof (cases "e = e'")
    case True
    have "x / ?B powi e \<le> y / ?B powi e"
      using assms powi_pos by (simp add: divide_right_mono less_imp_le)
    then have "(of_int (rhe (x / ?B powi e)) :: rat) \<le> of_int (rhe (y / ?B powi e))"
      by (simp add: rhe_mono)
    then show ?thesis
      using powi_pos [of e] True by (simp add: rx ry mult_right_mono)
  next
    case False
    with lead_exp_mono [OF assms] have "e + 1 \<le> e'" by (simp add: e_def e'_def)
    then have "?B powi (e + 1) \<le> ?B powi e'"
      using base_pos by (intro power_int_increasing) simp_all
    then have le: "?B * ?B powi e \<le> ?B powi e'"
      using base_pos by (simp add: power_int_add mult.commute)
    have "round_sig b p x \<le> ?B ^ p * ?B powi e"
      unfolding rx e_def using significand_bounds(2) [OF assms(1)] powi_pos
      by (intro mult_right_mono) (simp_all add: less_imp_le)
    also have "\<dots> = ?B ^ (p - 1) * (?B * ?B powi e)"
      by (simp add: suc_precision mult_ac)
    also have "\<dots> \<le> ?B ^ (p - 1) * ?B powi e'"
      using le base_pos by (intro mult_left_mono) simp_all
    also have "\<dots> \<le> round_sig b p y"
      unfolding ry e'_def using significand_bounds(1) [OF y] powi_pos
      by (intro mult_right_mono) (simp_all add: less_imp_le)
    finally show ?thesis .
  qed
qed

lemma round_sig_mono:
  assumes "x \<le> y"
  shows "round_sig b p x \<le> round_sig b p y"
proof -
  have zero: "round_sig b p 0 = 0" by (simp add: round_sig_def)
  have neg: "z < 0 \<Longrightarrow> round_sig b p z < 0" for z
    using round_sig_pos [of "- z"] by (simp add: round_sig_minus)
  consider "0 < x" | "x \<le> 0" "0 \<le> y" | "y < 0" using assms by linarith
  then show ?thesis
  proof cases
    case 1
    then show ?thesis using assms by (rule round_sig_mono_pos)
  next
    case 2
    then show ?thesis
      using zero neg [of x] round_sig_pos [of y] by (cases "x = 0"; cases "y = 0") auto
  next
    case 3
    then have "round_sig b p (- y) \<le> round_sig b p (- x)"
      using assms by (intro round_sig_mono_pos) simp_all
    then show ?thesis by (simp add: round_sig_minus)
  qed
qed

end

text \<open>Values of at most \<open>p\<close> digits are fixed points, and every result is one of them.\<close>

context significant_digits
begin

lemma representable_minus: "representable b p (- x) = representable b p x"
proof -
  have "representable b p (- z)" if "representable b p z" for z
  proof -
    from that obtain c k where z: "z = of_int c * of_nat b powi k" "\<bar>c\<bar> \<le> int b ^ p"
      unfolding representable_def by blast
    show ?thesis
      unfolding representable_def by (rule exI [of _ "- c"], rule exI [of _ k]) (use z in auto)
  qed
  from this [of x] this [of "- x"] show ?thesis by auto
qed

lemma representable_round_sig: "representable b p (round_sig b p x)"
proof -
  have pos: "representable b p (round_sig b p z)" if "0 < z" for z
  proof -
    let ?c = "rhe (z / of_nat b powi lead_exp b p z)"
    have "(of_int 0 :: rat) < of_nat b ^ (p - 1)" using base_pos by simp
    with significand_bounds(1) [OF that] have "(of_int 0 :: rat) < of_int ?c" by linarith
    moreover have "(of_int ?c :: rat) \<le> of_int (int b ^ p)"
      using significand_bounds(2) [OF that] by simp
    ultimately have "\<bar>?c\<bar> \<le> int b ^ p" by (simp only: of_int_less_iff of_int_le_iff)
    then show ?thesis
      unfolding representable_def round_sig_pos_eq [OF that] by blast
  qed
  consider "0 < x" | "x = 0" | "0 < - x" by linarith
  then show ?thesis
  proof cases
    case 2
    then show ?thesis
      unfolding representable_def by (intro exI [of _ 0]) (simp add: round_sig_def)
  next
    case 3
    from pos [OF this] show ?thesis by (simp add: round_sig_minus representable_minus)
  qed (rule pos)
qed

lemma round_sig_exact_pos:
  assumes x: "x = of_int c * of_nat b powi k" and c: "0 < c" "c < int b ^ p"
  shows "round_sig b p x = x"
proof -
  let ?B = "of_nat b :: rat"
  define e where "e = lead_exp b p x"
  have xpos: "0 < x" using x c powi_pos by simp
  have cr: "(of_int c :: rat) < ?B ^ p"
    using c(2) by (metis of_int_less_iff of_int_of_nat_eq of_int_power)
  have "?B ^ (p - 1) * ?B powi e \<le> x"
    using lead_exp_bounds(1) [OF b2 p1 xpos] powi_pos [of e] by (simp add: e_def le_divide_eq)
  also have "x < ?B ^ p * ?B powi k"
    using cr powi_pos [of k] by (simp add: x mult_strict_right_mono)
  also have "\<dots> = ?B ^ (p - 1) * ?B powi (k + 1)"
    using base_pos by (simp add: suc_precision power_int_add mult_ac)
  finally have "?B powi e < ?B powi (k + 1)" using base_pos by simp
  then have "e < k + 1"
    using power_int_increasing [of "k + 1" e ?B] base_pos by (meson less_imp_le linorder_not_le)
  then have ke: "0 \<le> k - e" by simp
  have "x / ?B powi e = of_int c * (?B powi k / ?B powi e)"
    by (simp add: x)
  also have "?B powi k / ?B powi e = ?B powi (k - e)"
    using base_pos by (simp add: power_int_diff)
  also have "\<dots> = of_int (int b ^ nat (k - e))"
    using ke by (simp add: power_int_nonneg_exp)
  finally have "x / ?B powi e = of_int (c * int b ^ nat (k - e))" by simp
  then have "of_int (rhe (x / ?B powi e)) = x / ?B powi e" by (metis rhe_of_int)
  then show ?thesis
    using powi_pos [of e] base_pos by (simp add: round_sig_pos_eq [OF xpos] flip: e_def)
qed

lemma round_sig_exact:
  assumes "representable b p x"
  shows "round_sig b p x = x"
proof -
  have pos: "round_sig b p z = z" if rz: "representable b p z" "0 < z" for z
  proof -
    from rz obtain c k where z: "z = of_int c * of_nat b powi k" and c: "\<bar>c\<bar> \<le> int b ^ p"
      unfolding representable_def by blast
    have c0: "0 < c"
      using rz(2) z powi_pos [of k] by (auto simp: zero_less_mult_iff)
    show ?thesis
    proof (cases "c = int b ^ p")
      case True
      have "z = of_int (int b ^ (p - 1)) * of_nat b powi (k + 1)"
        using base_pos by (simp add: z True suc_precision power_int_add mult_ac)
      moreover have "int b ^ (p - 1) < int b ^ p" using b2 p1 by (simp add: power_strict_increasing)
      ultimately show ?thesis
        using b2 by (intro round_sig_exact_pos [where c = "int b ^ (p - 1)"]) simp_all
    next
      case False
      then have "c < int b ^ p" using c by simp
      then show ?thesis by (rule round_sig_exact_pos [OF z c0])
    qed
  qed
  consider "0 < x" | "x = 0" | "0 < - x" by linarith
  then show ?thesis
  proof cases
    case 1
    then show ?thesis using pos assms by simp
  next
    case 2
    then show ?thesis by (simp add: round_sig_def)
  next
    case 3
    then show ?thesis
      using pos [of "- x"] assms by (simp add: representable_minus round_sig_minus)
  qed
qed

lemma representable_of_int: "\<bar>n\<bar> \<le> int b ^ p \<Longrightarrow> representable b p (of_int n)"
  unfolding representable_def by (intro exI [of _ n] exI [of _ 0]) simp

text \<open>The relative error is at most half a unit in the last of \<open>p\<close> digits.\<close>

lemma round_sig_error:
  "2 * of_nat b ^ (p - 1) * \<bar>round_sig b p x - x\<bar> \<le> \<bar>x\<bar>"
proof -
  let ?B = "of_nat b :: rat"
  have pos: "2 * ?B ^ (p - 1) * \<bar>round_sig b p z - z\<bar> \<le> z" if z: "0 < z" for z
  proof -
    define E where "E = ?B powi lead_exp b p z"
    have E: "0 < E" using powi_pos by (simp add: E_def)
    have "\<bar>round_sig b p z - z\<bar> = \<bar>of_int (rhe (z / E)) - z / E\<bar> * E"
      using E by (simp add: round_sig_pos_eq [OF z] E_def [symmetric] abs_mult_pos' algebra_simps
          flip: abs_mult_pos)
    also have "\<dots> \<le> 1 / 2 * E" using rhe_error [of "z / E"] E by (intro mult_right_mono) simp_all
    finally have "2 * ?B ^ (p - 1) * \<bar>round_sig b p z - z\<bar> \<le> ?B ^ (p - 1) * E"
      using base_pos by (simp add: mult_ac)
    also have "\<dots> \<le> z"
      using lead_exp_bounds(1) [OF b2 p1 z] E by (simp add: E_def le_divide_eq)
    finally show ?thesis .
  qed
  consider "0 < x" | "x = 0" | "0 < - x" by linarith
  then show ?thesis
  proof cases
    case 3
    then show ?thesis using pos [of "- x"] by (simp add: round_sig_minus abs_if split: if_splits)
  qed (use pos in \<open>auto simp: round_sig_def\<close>)
qed

end

sublocale significant_digits \<subseteq> correct_rounding "round_sig b p"
proof unfold_locales
  show "round_sig b p (round_sig b p x) = round_sig b p x" for x
    by (intro round_sig_exact representable_round_sig)
  show "round_sig b p 1 = 1"
    using round_sig_exact [OF representable_of_int [of 1]] b2 by simp
qed (simp_all add: round_sig_mono round_sig_minus round_sig_pos)

end
