(* ===== verification/Decimals.thy ===== *)
theory Decimals
  imports Rounding
begin

text \<open>
  Python's \<^verbatim>\<open>decimal.Decimal\<close> under the default context: precision 28, ties to even. A finite
  decimal is its value, a \<open>rat\<close>; every arithmetic operation rounds the exact result. The
  representation (trailing zeros, the sign of zero) and the exponent limits of the context
  (about \<open>10 ^ 999999\<close>) are not part of the model. The interpretation gives the laws of
  \<open>correct_rounding\<close> for \<open>dround\<close>, on which the accounting properties rest.
\<close>

definition dround :: "rat \<Rightarrow> rat" where
  "dround = round_sig 10 28"

definition dec_add :: "rat \<Rightarrow> rat \<Rightarrow> rat" where
  "dec_add x y = dround (x + y)"

definition dec_sub :: "rat \<Rightarrow> rat \<Rightarrow> rat" where
  "dec_sub x y = dround (x - y)"

definition dec_mul :: "rat \<Rightarrow> rat \<Rightarrow> rat" where
  "dec_mul x y = dround (x * y)"

definition dec_div :: "rat \<Rightarrow> rat \<Rightarrow> rat" where
  "dec_div x y = dround (x / y)"

definition dec_neg :: "rat \<Rightarrow> rat" where
  "dec_neg x = dround (- x)"

definition dec_abs :: "rat \<Rightarrow> rat" where
  "dec_abs x = dround \<bar>x\<bar>"

text \<open>\<^verbatim>\<open>Decimal // Decimal\<close>: the integer part of the quotient, or \<^verbatim>\<open>DivisionImpossible\<close> when
  it needs more than 28 digits. Only used with a positive divisor.\<close>

definition dec_trunc_div :: "rat \<Rightarrow> rat \<Rightarrow> int option" where
  "dec_trunc_div x y =
     (let q = (if 0 \<le> x / y then \<lfloor>x / y\<rfloor> else \<lceil>x / y\<rceil>)
      in if 10 ^ 28 \<le> \<bar>q\<bar> then None else Some q)"

interpretation digits28: significant_digits 10 28
  by unfold_locales simp_all

interpretation dec: correct_rounding dround
  unfolding dround_def by unfold_locales

lemma dround_dround [simp]: "dround (dround x) = dround x"
  by (rule dec.idem)

lemma dround_zero [simp]: "dround 0 = 0"
  by (rule dec.zero)

lemma dround_one [simp]: "dround 1 = 1"
  by (rule dec.one)

lemma dround_of_int: "\<bar>n\<bar> \<le> 10 ^ 28 \<Longrightarrow> dround (of_int n) = of_int n"
  unfolding dround_def
  by (rule digits28.round_sig_exact, rule digits28.representable_of_int) simp

lemma dec_results_fixed [simp]:
  "dround (dec_add x y) = dec_add x y"
  "dround (dec_sub x y) = dec_sub x y"
  "dround (dec_mul x y) = dec_mul x y"
  "dround (dec_div x y) = dec_div x y"
  "dround (dec_neg x) = dec_neg x"
  "dround (dec_abs x) = dec_abs x"
  by (simp_all add: dec_add_def dec_sub_def dec_mul_def dec_div_def dec_neg_def dec_abs_def)

lemma dec_neg_eq: "dround x = x \<Longrightarrow> dec_neg x = - x"
  by (simp add: dec_neg_def dec.odd)

lemma dec_abs_eq: "dround x = x \<Longrightarrow> dec_abs x = \<bar>x\<bar>"
  using dec.odd [of x] by (auto simp: dec_abs_def abs_if)

lemma dec_add_nonneg: "0 \<le> x + y \<Longrightarrow> 0 \<le> dec_add x y"
  by (simp add: dec_add_def dec.nonneg_iff)

lemma dec_add_pos: "0 < x + y \<Longrightarrow> 0 < dec_add x y"
  by (simp add: dec_add_def dec.pos_iff)

lemma dec_sub_nonneg_iff: "0 \<le> dec_sub x y \<longleftrightarrow> y \<le> x"
  unfolding dec_sub_def by (rule dec.diff_nonneg_iff)

lemma dec_sub_pos_iff: "0 < dec_sub x y \<longleftrightarrow> y < x"
  by (simp add: dec_sub_def dec.pos_iff)

lemma dec_mul_nonneg: "0 \<le> x \<Longrightarrow> 0 \<le> y \<Longrightarrow> 0 \<le> dec_mul x y"
  by (simp add: dec_mul_def dec.nonneg_iff)

lemma dec_mul_pos: "0 < x \<Longrightarrow> 0 < y \<Longrightarrow> 0 < dec_mul x y"
  by (simp add: dec_mul_def dec.pos_iff)

lemma dec_div_nonneg: "0 \<le> x \<Longrightarrow> 0 < y \<Longrightarrow> 0 \<le> dec_div x y"
  by (simp add: dec_div_def dec.nonneg_iff)

lemma dec_mul_mono: "0 \<le> x \<Longrightarrow> x \<le> x' \<Longrightarrow> 0 \<le> y \<Longrightarrow> y \<le> y' \<Longrightarrow> dec_mul x y \<le> dec_mul x' y'"
  unfolding dec_mul_def by (intro dec.mono mult_mono) linarith+

lemma dec_add_mono: "x \<le> x' \<Longrightarrow> y \<le> y' \<Longrightarrow> dec_add x y \<le> dec_add x' y'"
  unfolding dec_add_def by (intro dec.mono) linarith

text \<open>Each operation is within half a unit of the 28th digit of the exact result.\<close>

lemma dround_error: "2 * 10 ^ 27 * \<bar>dround x - x\<bar> \<le> \<bar>x\<bar>"
  using digits28.round_sig_error [of x] by (simp add: dround_def)

section \<open>Evaluation on short decimals\<close>

text \<open>
  A value of at most 8 digits before the point and 20 after it is exact in 28 digits. The rules
  below let the simplifier evaluate the arithmetic of concrete decimals, written as a numeral or a
  quotient of numerals.
\<close>

lemma dround_short:
  assumes "0 < b" "b dvd 10 ^ 20" "\<bar>a\<bar> \<le> 10 ^ 8 * b"
  shows "dround (of_int a / of_int b) = of_int a / of_int b"
proof -
  from assms(2) obtain m where m: "10 ^ 20 = b * m" by (auto simp: dvd_def)
  then have m0: "0 < m" using assms(1) by (smt (verit) zero_less_mult_iff zero_less_power)
  have mr: "(10 ^ 20 :: rat) = of_int b * of_int m"
    using m by (metis of_int_mult of_int_numeral of_int_power)
  then have "(of_int a / of_int b :: rat) = of_int (a * m) * of_nat 10 powi (- 20)"
    using assms(1) m0 by (simp add: power_int_minus field_simps)
  moreover have "\<bar>a * m\<bar> \<le> int 10 ^ 28"
  proof -
    have "\<bar>a * m\<bar> \<le> 10 ^ 8 * b * m"
      using assms(3) m0 by (simp add: abs_mult mult_right_mono)
    also have "\<dots> = 10 ^ 8 * 10 ^ 20" by (simp only: m mult.assoc)
    finally show ?thesis by simp
  qed
  ultimately show ?thesis
    unfolding dround_def representable_def
    by (intro digits28.round_sig_exact) (unfold representable_def, blast)
qed

lemma dround_numeral_frac:
  "(numeral b :: int) dvd 10 ^ 20 \<Longrightarrow> (numeral a :: int) \<le> 10 ^ 8 * numeral b \<Longrightarrow>
    dround (numeral a / numeral b) = numeral a / numeral b"
  "(numeral b :: int) dvd 10 ^ 20 \<Longrightarrow>
    dround (1 / numeral b) = 1 / numeral b"
  "(numeral a :: int) \<le> 10 ^ 8 \<Longrightarrow> dround (numeral a) = numeral a"
  using dround_short [of "numeral b" "numeral a"] dround_short [of "numeral b" 1]
    dround_short [of 1 "numeral a"] by simp_all

lemma dround_neg_numeral_frac:
  "(numeral b :: int) dvd 10 ^ 20 \<Longrightarrow> (numeral a :: int) \<le> 10 ^ 8 * numeral b \<Longrightarrow>
    dround (- (numeral a / numeral b)) = - (numeral a / numeral b)"
  "(numeral b :: int) dvd 10 ^ 20 \<Longrightarrow> dround (- (1 / numeral b)) = - (1 / numeral b)"
  "(numeral a :: int) \<le> 10 ^ 8 \<Longrightarrow> dround (- numeral a) = - numeral a"
  by (simp_all only: dec.odd dround_numeral_frac)

lemmas dec_eval =
  dec_add_def dec_sub_def dec_mul_def dec_div_def dec_neg_def dec_abs_def
  dround_numeral_frac dround_neg_numeral_frac

end
