(* ===== verification/Py_Values.thy ===== *)
theory Py_Values
  imports Decimals "HOL-Library.Char_ord"
begin

text \<open>
  The Python values that cross a validating boundary, the exceptions the code raises, and the
  coercions of the standard library the validators use.

  A dataclass field whose validator inspects the object it is given holds a \<open>pyval\<close>; after
  validation it is a HOL value of the field's type. Instants are microseconds since 1970-01-01
  UTC, dates are proleptic ordinals, so that both compare as Python compares them. Strings are
  lists of 8-bit characters, read as the code points 0 to 255. A float carries its exact value and the text \<^verbatim>\<open>repr\<close> prints for it, the only
  two things the code reads from one. Signalling NaNs are not modelled.
\<close>

type_synonym date = int
type_synonym instant = int

datatype dec = Fin rat | Infinite bool | NaN

datatype pyval =
    PyNone
  | PyBool bool
  | PyInt int
  | PyFloat dec string
  | PyDecimal dec
  | PyStr string
  | PyDate date
  | PyAware instant
  | PyNaive instant
  | PyOther string \<comment> \<open>any other object, with its \<^verbatim>\<open>str()\<close>\<close>

section \<open>Exceptions\<close>

text \<open>The exception classes of the program, each with the code of its (first) issue, and the
  built-in ones that can reach a handler.\<close>

datatype exn =
    RiskInputError string
  | BacktestInputError string
  | BacktestAccountingError string
  | BacktestMetricError string
  | PaperExecutionInputError string
  | PaperExecutionConfigurationError string
  | PaperExecutionPermissionError string
  | PaperExecutionApprovalError string
  | PaperExecutionRiskError string
  | PaperExecutionDuplicateError string
  | PaperExecutionStaleSignalError string
  | PaperExecutionKillSwitchError string
  | PaperExecutionBrokerStateError string
  | PaperExecutionBrokerTransportError string
  | PaperExecutionBrokerRequestError string
  | PaperExecutionBrokerRejectionError string
  | PaperExecutionSubmissionUnknownError string
  | PaperExecutionIntegrityError string
  | PaperExecutionNotFoundError string
  | PersistenceSchemaError string
  | PersistenceInputError string
  | DecimalInvalidOperation
  | RuntimeError string
  | CancelledError
  | OtherException string

fun is_paper_execution_error :: "exn \<Rightarrow> bool" where
  "is_paper_execution_error (PaperExecutionInputError _) = True"
| "is_paper_execution_error (PaperExecutionConfigurationError _) = True"
| "is_paper_execution_error (PaperExecutionPermissionError _) = True"
| "is_paper_execution_error (PaperExecutionApprovalError _) = True"
| "is_paper_execution_error (PaperExecutionRiskError _) = True"
| "is_paper_execution_error (PaperExecutionDuplicateError _) = True"
| "is_paper_execution_error (PaperExecutionStaleSignalError _) = True"
| "is_paper_execution_error (PaperExecutionKillSwitchError _) = True"
| "is_paper_execution_error (PaperExecutionBrokerStateError _) = True"
| "is_paper_execution_error (PaperExecutionBrokerTransportError _) = True"
| "is_paper_execution_error (PaperExecutionBrokerRequestError _) = True"
| "is_paper_execution_error (PaperExecutionBrokerRejectionError _) = True"
| "is_paper_execution_error (PaperExecutionSubmissionUnknownError _) = True"
| "is_paper_execution_error (PaperExecutionIntegrityError _) = True"
| "is_paper_execution_error (PaperExecutionNotFoundError _) = True"
| "is_paper_execution_error _ = False"

text \<open>\<^verbatim>\<open>except Exception\<close> catches everything but \<^verbatim>\<open>asyncio.CancelledError\<close>, which is a
  \<^verbatim>\<open>BaseException\<close>.\<close>

definition is_exception :: "exn \<Rightarrow> bool" where
  "is_exception e \<longleftrightarrow> e \<noteq> CancelledError"

fun exn_code :: "exn \<Rightarrow> string" where
  "exn_code (RiskInputError c) = c"
| "exn_code (BacktestInputError c) = c"
| "exn_code (BacktestAccountingError c) = c"
| "exn_code (BacktestMetricError c) = c"
| "exn_code (PaperExecutionInputError c) = c"
| "exn_code (PaperExecutionConfigurationError c) = c"
| "exn_code (PaperExecutionPermissionError c) = c"
| "exn_code (PaperExecutionApprovalError c) = c"
| "exn_code (PaperExecutionRiskError c) = c"
| "exn_code (PaperExecutionDuplicateError c) = c"
| "exn_code (PaperExecutionStaleSignalError c) = c"
| "exn_code (PaperExecutionKillSwitchError c) = c"
| "exn_code (PaperExecutionBrokerStateError c) = c"
| "exn_code (PaperExecutionBrokerTransportError c) = c"
| "exn_code (PaperExecutionBrokerRequestError c) = c"
| "exn_code (PaperExecutionBrokerRejectionError c) = c"
| "exn_code (PaperExecutionSubmissionUnknownError c) = c"
| "exn_code (PaperExecutionIntegrityError c) = c"
| "exn_code (PaperExecutionNotFoundError c) = c"
| "exn_code (PersistenceSchemaError c) = c"
| "exn_code (PersistenceInputError c) = c"
| "exn_code DecimalInvalidOperation = ''InvalidOperation''"
| "exn_code (RuntimeError c) = c"
| "exn_code CancelledError = ''CancelledError''"
| "exn_code (OtherException c) = c"

section \<open>Text\<close>

definition is_space :: "char \<Rightarrow> bool" where
  "is_space c \<longleftrightarrow>
     (let n = (of_char c :: nat)
      in 9 \<le> n \<and> n \<le> 13 \<or> 28 \<le> n \<and> n \<le> 32 \<or> n = 133 \<or> n = 160)"

definition is_digit :: "char \<Rightarrow> bool" where
  "is_digit c \<longleftrightarrow> (let n = (of_char c :: nat) in 48 \<le> n \<and> n \<le> 57)"

definition is_alpha :: "char \<Rightarrow> bool" where
  "is_alpha c \<longleftrightarrow> (let n = (of_char c :: nat) in 65 \<le> n \<and> n \<le> 90 \<or> 97 \<le> n \<and> n \<le> 122)"

definition lower_char :: "char \<Rightarrow> char" where
  "lower_char c =
     (let n = (of_char c :: nat)
      in if 65 \<le> n \<and> n \<le> 90 \<or> 192 \<le> n \<and> n \<le> 222 \<and> n \<noteq> 215 then char_of (n + 32) else c)"

definition lower :: "string \<Rightarrow> string" where
  "lower s = map lower_char s"

definition strip :: "string \<Rightarrow> string" where
  "strip s = rev (dropWhile is_space (rev (dropWhile is_space s)))"

text \<open>\<^verbatim>\<open>needle in haystack\<close> for strings.\<close>

fun contains_text :: "string \<Rightarrow> string \<Rightarrow> bool" where
  "contains_text needle [] \<longleftrightarrow> needle = []"
| "contains_text needle (c # cs) \<longleftrightarrow>
     take (length needle) (c # cs) = needle \<or> contains_text needle cs"

section \<open>Decimal literals\<close>

definition digits_value :: "string \<Rightarrow> int" where
  "digits_value s = foldl (\<lambda>v c. 10 * v + (of_char c - 48)) 0 s"

definition parse_exponent :: "string \<Rightarrow> int option" where
  "parse_exponent s =
     (case s of
        [] \<Rightarrow> Some 0
      | c # r \<Rightarrow>
          if c = CHR ''e'' \<or> c = CHR ''E'' then
            (let neg = (r \<noteq> [] \<and> hd r = CHR ''-'');
                 ds = (if r \<noteq> [] \<and> (hd r = CHR ''-'' \<or> hd r = CHR ''+'') then tl r else r)
             in if ds = [] \<or> \<not> list_all is_digit ds then None
                else Some (if neg then - digits_value ds else digits_value ds))
          else None)"

definition parse_unsigned :: "string \<Rightarrow> rat option" where
  "parse_unsigned s =
     (let ip = takeWhile is_digit s;
          r = dropWhile is_digit s;
          point = (r \<noteq> [] \<and> hd r = CHR ''.'');
          fp = (if point then takeWhile is_digit (tl r) else []);
          rest = (if point then dropWhile is_digit (tl r) else r)
      in if ip = [] \<and> fp = [] then None
         else map_option
                (\<lambda>e. of_int (digits_value (ip @ fp)) * 10 powi (e - int (length fp)))
                (parse_exponent rest))"

definition parse_special :: "string \<Rightarrow> dec option" where
  "parse_special s =
     (let l = lower s
      in if l = ''inf'' \<or> l = ''infinity'' then Some (Infinite False)
         else if take 3 l = ''nan'' \<and> list_all is_digit (drop 3 l) then Some NaN
         else if take 4 l = ''snan'' \<and> list_all is_digit (drop 4 l) then Some NaN
         else None)"

text \<open>\<^verbatim>\<open>Decimal(text.strip())\<close>; \<open>None\<close> is \<^verbatim>\<open>InvalidOperation\<close>.\<close>

definition parse_decimal :: "string \<Rightarrow> dec option" where
  "parse_decimal text =
     (let s = filter (\<lambda>c. c \<noteq> CHR ''_'') (strip text);
          neg = (s \<noteq> [] \<and> hd s = CHR ''-'');
          body = (if s \<noteq> [] \<and> (hd s = CHR ''-'' \<or> hd s = CHR ''+'') then tl s else s)
      in case parse_special body of
           Some (Infinite _) \<Rightarrow> Some (Infinite neg)
         | Some d \<Rightarrow> Some d
         | None \<Rightarrow> map_option (\<lambda>v. Fin (if neg then - v else v)) (parse_unsigned body))"

text \<open>How the parser evaluates on a concrete literal.\<close>

lemmas parse_eval = parse_decimal_def strip_def is_space_def is_digit_def parse_special_def
  lower_def lower_char_def parse_unsigned_def parse_exponent_def digits_value_def Let_def
  power_int_minus

text \<open>\<^verbatim>\<open>value if isinstance(value, Decimal) else Decimal(str(value).strip())\<close> for a value that is
  not a bool. The \<^verbatim>\<open>str\<close> of \<^verbatim>\<open>None\<close>, of a date and of a datetime is no decimal literal.\<close>

fun decimal_of :: "pyval \<Rightarrow> dec option" where
  "decimal_of (PyDecimal d) = Some d"
| "decimal_of (PyInt i) = Some (Fin (of_int i))"
| "decimal_of (PyFloat d text) = parse_decimal text"
| "decimal_of (PyStr s) = parse_decimal s"
| "decimal_of (PyOther s) = parse_decimal s"
| "decimal_of _ = None"

text \<open>The number a value compares as under \<^verbatim>\<open>==\<close>; \<open>None\<close> for values that are not finite
  numbers, which are equal to no finite number.\<close>

fun py_num :: "pyval \<Rightarrow> rat option" where
  "py_num (PyBool b) = Some (if b then 1 else 0)"
| "py_num (PyInt i) = Some (of_int i)"
| "py_num (PyFloat (Fin v) _) = Some v"
| "py_num (PyDecimal (Fin v)) = Some v"
| "py_num _ = None"

section \<open>Run identifiers (\<^verbatim>\<open>run_ids.py\<close>)\<close>

definition run_id_start :: "char \<Rightarrow> bool" where
  "run_id_start c \<longleftrightarrow> is_alpha c \<or> is_digit c"

definition run_id_char :: "char \<Rightarrow> bool" where
  "run_id_char c \<longleftrightarrow> is_alpha c \<or> is_digit c \<or> c = CHR ''.'' \<or> c = CHR ''_'' \<or> c = CHR ''-''"

definition is_run_id :: "string \<Rightarrow> bool" where
  "is_run_id s \<longleftrightarrow>
     s \<noteq> [] \<and> length s \<le> 128 \<and> run_id_start (hd s) \<and> list_all run_id_char (tl s)"

definition validate_run_id :: "pyval \<Rightarrow> string option" where
  "validate_run_id v =
     (case v of PyStr s \<Rightarrow> if is_run_id s then Some s else None | _ \<Rightarrow> None)"

lemma validate_run_id_Some [simp]:
  "validate_run_id v = Some s \<longleftrightarrow> v = PyStr s \<and> is_run_id s"
  by (auto simp: validate_run_id_def split: pyval.splits)

end
