(* ===== verification/Risk_Models.thy ===== *)
theory Risk_Models
  imports Py_Values
begin

text \<open>
  \<^verbatim>\<open>risk/models.py\<close>: the validators and the frozen dataclasses of the risk layer.

  The code passes \<^verbatim>\<open>ProposedOrder\<close>, \<^verbatim>\<open>PortfolioState\<close> and \<^verbatim>\<open>RiskConfig\<close> instances around
  and validates them again where it uses them, because an instance can be altered after its
  construction. So each class is two records: the object as it lies in memory (prefix \<open>raw_\<close>, every
  field a \<open>pyval\<close>), and what its \<^verbatim>\<open>__post_init__\<close> has accepted (typed fields). The \<open>mk_\<close>
  functions are the \<^verbatim>\<open>__post_init__\<close> methods, with the checks in their order. A check that
  only rejects a value of another Python type is discharged by the HOL type of a typed argument.
\<close>

datatype order_side = BUY_SIDE | SELL_SIDE

definition side_text :: "order_side \<Rightarrow> string" where
  "side_text s = (case s of BUY_SIDE \<Rightarrow> ''buy'' | SELL_SIDE \<Rightarrow> ''sell'')"

definition side_of :: "pyval \<Rightarrow> order_side option" where
  "side_of v =
     (case v of
        PyStr s \<Rightarrow> if s = ''buy'' then Some BUY_SIDE
                    else if s = ''sell'' then Some SELL_SIDE else None
      | _ \<Rightarrow> None)"

definition SUPPORTED_SYMBOL :: string where
  "SUPPORTED_SYMBOL = ''SPY''"

datatype reason_code =
    APPROVED_REASON
  | UNSUPPORTED_SYMBOL
  | SHORT_SELLING_FORBIDDEN
  | LEVERAGE_FORBIDDEN
  | FRACTIONAL_QUANTITY_FORBIDDEN
  | INSUFFICIENT_CASH
  | SELL_QUANTITY_EXCEEDS_POSITION
  | INVALID_TARGET_TRANSITION
  | EXECUTION_NOT_AFTER_SIGNAL
  | MAXIMUM_POSITION_EXCEEDED
  | MISSING_REQUIRED_INFORMATION
  | INVALID_PRICE
  | INVALID_PORTFOLIO_STATE
  | PYRAMIDING_FORBIDDEN
  | FULL_EXIT_REQUIRED
  | ORDER_COST_ESTIMATE_MISMATCH

section \<open>Field validators\<close>

definition require_plain_date :: "(string \<Rightarrow> exn) \<Rightarrow> string \<Rightarrow> pyval \<Rightarrow> exn + date" where
  "require_plain_date error_type field_name value =
     (case value of
        PyDate d \<Rightarrow> Inr d
      | _ \<Rightarrow> Inl (error_type (''invalid_'' @ field_name)))"

definition require_decimal ::
  "(string \<Rightarrow> exn) \<Rightarrow> bool \<Rightarrow> bool \<Rightarrow> string \<Rightarrow> pyval \<Rightarrow> exn + rat" where
  "require_decimal error_type allow_negative strictly_positive field_name value =
     (case value of
        PyBool _ \<Rightarrow> Inl (error_type (''invalid_'' @ field_name))
      | _ \<Rightarrow>
          (case decimal_of value of
             None \<Rightarrow> Inl (error_type (''invalid_'' @ field_name))
           | Some (Fin parsed) \<Rightarrow>
               if strictly_positive \<and> parsed \<le> 0
               then Inl (error_type (''non_positive_'' @ field_name))
               else if \<not> allow_negative \<and> \<not> strictly_positive \<and> parsed < 0
               then Inl (error_type (''negative_'' @ field_name))
               else Inr parsed
           | Some _ \<Rightarrow> Inl (error_type (''non_finite_'' @ field_name))))"

definition require_non_negative_int :: "string \<Rightarrow> pyval \<Rightarrow> exn + int" where
  "require_non_negative_int field_name value =
     (case value of
        PyInt i \<Rightarrow> if i < 0 then Inl (RiskInputError (''invalid_'' @ field_name)) else Inr i
      | _ \<Rightarrow> Inl (RiskInputError (''invalid_'' @ field_name)))"

definition require_positive_int :: "string \<Rightarrow> pyval \<Rightarrow> exn + int" where
  "require_positive_int field_name value =
     (case value of
        PyInt i \<Rightarrow> if i \<le> 0 then Inl (RiskInputError (''invalid_'' @ field_name)) else Inr i
      | _ \<Rightarrow> Inl (RiskInputError (''invalid_'' @ field_name)))"

definition require_target_position :: "pyval \<Rightarrow> exn + int" where
  "require_target_position value =
     (case value of
        PyInt i \<Rightarrow> if i = 0 \<or> i = 1 then Inr i
                    else Inl (RiskInputError ''invalid_target_position'')
      | _ \<Rightarrow> Inl (RiskInputError ''invalid_target_position''))"

definition require_symbol :: "pyval \<Rightarrow> exn + string" where
  "require_symbol value =
     (case value of
        PyStr s \<Rightarrow> if s = [] then Inl (RiskInputError ''invalid_symbol'') else Inr s
      | _ \<Rightarrow> Inl (RiskInputError ''invalid_symbol''))"

definition require_order_side :: "pyval \<Rightarrow> exn + order_side" where
  "require_order_side value =
     (case side_of value of
        None \<Rightarrow> Inl (RiskInputError ''invalid_order_side'')
      | Some s \<Rightarrow> Inr s)"

text \<open>What an accepted value tells.\<close>

lemma require_plain_date_Inr [simp]:
  "require_plain_date et f v = Inr d \<longleftrightarrow> v = PyDate d"
  by (auto simp: require_plain_date_def split: pyval.splits)

lemma require_decimal_Inr:
  "require_decimal et neg strict f v = Inr r \<longleftrightarrow>
     (\<forall>b. v \<noteq> PyBool b) \<and> decimal_of v = Some (Fin r) \<and> (strict \<longrightarrow> 0 < r) \<and>
     (\<not> neg \<longrightarrow> 0 \<le> r)"
  by (auto simp: require_decimal_def split: pyval.splits option.splits dec.splits if_splits)

lemma require_decimal_nonneg: "require_decimal et False strict f v = Inr r \<Longrightarrow> 0 \<le> r"
  by (simp add: require_decimal_Inr)

lemma require_decimal_pos: "require_decimal et neg True f v = Inr r \<Longrightarrow> 0 < r"
  by (simp add: require_decimal_Inr)

lemma require_decimal_PyDecimal:
  "require_decimal et neg strict f (PyDecimal (Fin r)) =
     (if strict \<and> r \<le> 0 then Inl (et (''non_positive_'' @ f))
      else if \<not> neg \<and> \<not> strict \<and> r < 0 then Inl (et (''negative_'' @ f)) else Inr r)"
  by (simp add: require_decimal_def)

lemma require_non_negative_int_Inr [simp]:
  "require_non_negative_int f v = Inr i \<longleftrightarrow> v = PyInt i \<and> 0 \<le> i"
  by (auto simp: require_non_negative_int_def split: pyval.splits if_splits)

lemma require_positive_int_Inr [simp]:
  "require_positive_int f v = Inr i \<longleftrightarrow> v = PyInt i \<and> 0 < i"
  by (auto simp: require_positive_int_def split: pyval.splits if_splits)

lemma require_target_position_Inr [simp]:
  "require_target_position v = Inr i \<longleftrightarrow> v = PyInt i \<and> (i = 0 \<or> i = 1)"
  by (auto simp: require_target_position_def split: pyval.splits if_splits)

lemma require_symbol_Inr [simp]: "require_symbol v = Inr s \<longleftrightarrow> v = PyStr s \<and> s \<noteq> []"
  by (auto simp: require_symbol_def split: pyval.splits if_splits)

lemma side_text_inject [simp]: "side_text s = side_text s' \<longleftrightarrow> s = s'"
  by (cases s; cases s') (simp_all add: side_text_def)

lemma side_of_text [simp]: "side_of (PyStr (side_text s)) = Some s"
  by (cases s) (simp_all add: side_of_def side_text_def)

lemma side_of_eq_Some [simp]: "side_of v = Some s \<longleftrightarrow> v = PyStr (side_text s)"
  by (cases s) (auto simp: side_of_def side_text_def split: pyval.splits if_splits)

lemma require_order_side_Inr [simp]:
  "require_order_side v = Inr s \<longleftrightarrow> v = PyStr (side_text s)"
  using side_of_eq_Some [of v] by (auto simp: require_order_side_def split: option.splits)

lemma int_validators_eval [simp]:
  "0 < i \<Longrightarrow> require_positive_int f (PyInt i) = Inr i"
  "0 \<le> i \<Longrightarrow> require_non_negative_int f (PyInt i) = Inr i"
  by (simp_all add: require_positive_int_def require_non_negative_int_def)

section \<open>\<^verbatim>\<open>RiskConfig\<close>\<close>

record risk_config =
  rc_supported_symbol :: pyval
  rc_allow_short_selling :: pyval
  rc_allow_leverage :: pyval
  rc_allow_fractional_shares :: pyval
  rc_maximum_position_weight :: pyval

definition default_risk_config :: risk_config where
  "default_risk_config =
     \<lparr>rc_supported_symbol = PyStr SUPPORTED_SYMBOL, rc_allow_short_selling = PyBool False,
      rc_allow_leverage = PyBool False, rc_allow_fractional_shares = PyBool False,
      rc_maximum_position_weight = PyFloat (Fin 1) ''1.0''\<rparr>"

definition mk_risk_config :: "risk_config \<Rightarrow> exn + risk_config" where
  "mk_risk_config c =
     (case rc_supported_symbol c of
        PyStr s \<Rightarrow>
          if s \<noteq> SUPPORTED_SYMBOL then Inl (RiskInputError ''unsupported_symbol_configuration'')
          else if rc_allow_short_selling c \<noteq> PyBool False
          then Inl (RiskInputError ''invalid_allow_short_selling'')
          else if rc_allow_leverage c \<noteq> PyBool False
          then Inl (RiskInputError ''invalid_allow_leverage'')
          else if rc_allow_fractional_shares c \<noteq> PyBool False
          then Inl (RiskInputError ''invalid_allow_fractional_shares'')
          else (case rc_maximum_position_weight c of
                  PyInt i \<Rightarrow> if i = 1 then Inr c
                              else Inl (RiskInputError ''invalid_maximum_position_weight'')
                | PyFloat v text \<Rightarrow> if v = Fin 1 then Inr c
                              else Inl (RiskInputError ''invalid_maximum_position_weight'')
                | _ \<Rightarrow> Inl (RiskInputError ''invalid_maximum_position_weight''))
      | _ \<Rightarrow> Inl (RiskInputError ''invalid_supported_symbol''))"

lemma mk_risk_config_Inr:
  assumes "mk_risk_config c = Inr c'"
  shows "c' = c \<and> rc_supported_symbol c = PyStr SUPPORTED_SYMBOL \<and>
    rc_allow_short_selling c = PyBool False \<and> rc_allow_leverage c = PyBool False \<and>
    rc_allow_fractional_shares c = PyBool False \<and> py_num (rc_maximum_position_weight c) = Some 1"
  using assms by (auto simp: mk_risk_config_def split: pyval.splits if_splits)

lemma mk_default_risk_config [simp]:
  "mk_risk_config default_risk_config = Inr default_risk_config"
  by (simp add: mk_risk_config_def default_risk_config_def)

section \<open>\<^verbatim>\<open>PortfolioState\<close>\<close>

record raw_portfolio =
  pso_session :: pyval
  pso_cash :: pyval
  pso_shares :: pyval
  pso_reference_price :: pyval
  pso_market_value :: pyval
  pso_equity :: pyval

record portfolio_state =
  ps_session :: date
  ps_cash :: rat
  ps_shares :: int
  ps_reference_price :: rat
  ps_market_value :: rat
  ps_equity :: rat

definition mk_portfolio_state :: "raw_portfolio \<Rightarrow> exn + portfolio_state" where
  "mk_portfolio_state obj =
     rbind (require_plain_date RiskInputError ''session'' (pso_session obj)) (\<lambda>session.
     rbind (require_decimal RiskInputError False False ''cash'' (pso_cash obj)) (\<lambda>cash.
     rbind (require_non_negative_int ''shares'' (pso_shares obj)) (\<lambda>shares.
     rbind (require_decimal RiskInputError False True ''reference_price''
              (pso_reference_price obj)) (\<lambda>reference_price.
     rbind (require_decimal RiskInputError False False ''market_value''
              (pso_market_value obj)) (\<lambda>market_value.
     rbind (require_decimal RiskInputError False False ''equity'' (pso_equity obj)) (\<lambda>equity.
       if market_value \<noteq> dec_mul (of_int shares) reference_price
       then Inl (RiskInputError ''portfolio_market_value_mismatch'')
       else if equity \<noteq> dec_add cash market_value
       then Inl (RiskInputError ''portfolio_equity_mismatch'')
       else Inr \<lparr>ps_session = session, ps_cash = cash, ps_shares = shares,
                 ps_reference_price = reference_price, ps_market_value = market_value,
                 ps_equity = equity\<rparr>))))))"

text \<open>A validated state, as an object again.\<close>

definition portfolio_obj :: "portfolio_state \<Rightarrow> raw_portfolio" where
  "portfolio_obj s =
     \<lparr>pso_session = PyDate (ps_session s), pso_cash = PyDecimal (Fin (ps_cash s)),
      pso_shares = PyInt (ps_shares s),
      pso_reference_price = PyDecimal (Fin (ps_reference_price s)),
      pso_market_value = PyDecimal (Fin (ps_market_value s)),
      pso_equity = PyDecimal (Fin (ps_equity s))\<rparr>"

definition wf_portfolio :: "portfolio_state \<Rightarrow> bool" where
  "wf_portfolio s \<longleftrightarrow>
     0 \<le> ps_cash s \<and> 0 \<le> ps_shares s \<and> 0 < ps_reference_price s \<and>
     0 \<le> ps_market_value s \<and> 0 \<le> ps_equity s \<and>
     ps_market_value s = dec_mul (of_int (ps_shares s)) (ps_reference_price s) \<and>
     ps_equity s = dec_add (ps_cash s) (ps_market_value s)"

lemma mk_portfolio_state_wf: "mk_portfolio_state obj = Inr s \<Longrightarrow> wf_portfolio s"
  by (auto simp: mk_portfolio_state_def wf_portfolio_def rbind_eq_Inr_iff require_decimal_Inr
      split: if_splits)

lemma mk_portfolio_state_obj: "wf_portfolio s \<Longrightarrow> mk_portfolio_state (portfolio_obj s) = Inr s"
  by (auto simp: mk_portfolio_state_def portfolio_obj_def wf_portfolio_def
      require_decimal_PyDecimal require_plain_date_def require_non_negative_int_def)

section \<open>\<^verbatim>\<open>ProposedOrder\<close>\<close>

record raw_order =
  poo_sequence_number :: pyval
  poo_symbol :: pyval
  poo_side :: pyval
  poo_quantity :: pyval
  poo_signal_session :: pyval
  poo_execution_session :: pyval
  poo_target_position :: pyval
  poo_reference_open :: pyval
  poo_estimated_execution_price :: pyval
  poo_estimated_commission :: pyval
  poo_estimated_cash_change :: pyval
  poo_current_cash :: pyval
  poo_current_shares :: pyval

record proposed_order =
  po_sequence_number :: int
  po_symbol :: string
  po_side :: order_side
  po_quantity :: int
  po_signal_session :: date
  po_execution_session :: date
  po_target_position :: int
  po_reference_open :: rat
  po_estimated_execution_price :: rat
  po_estimated_commission :: rat
  po_estimated_cash_change :: rat
  po_current_cash :: rat
  po_current_shares :: int

definition mk_proposed_order :: "raw_order \<Rightarrow> exn + proposed_order" where
  "mk_proposed_order obj =
     rbind (require_positive_int ''sequence_number'' (poo_sequence_number obj)) (\<lambda>sequence_number.
     rbind (require_symbol (poo_symbol obj)) (\<lambda>symbol.
     rbind (require_order_side (poo_side obj)) (\<lambda>side.
     rbind (require_positive_int ''quantity'' (poo_quantity obj)) (\<lambda>quantity.
     rbind (require_plain_date RiskInputError ''signal_session''
              (poo_signal_session obj)) (\<lambda>signal_session.
     rbind (require_plain_date RiskInputError ''execution_session''
              (poo_execution_session obj)) (\<lambda>execution_session.
     rbind (reject_if (execution_session \<le> signal_session)
              (RiskInputError ''execution_not_after_signal'')) (\<lambda>_.
     rbind (require_target_position (poo_target_position obj)) (\<lambda>target_position.
     rbind (reject_if (side = BUY_SIDE \<and> target_position \<noteq> 1)
              (RiskInputError ''invalid_target_transition'')) (\<lambda>_.
     rbind (reject_if (side = SELL_SIDE \<and> target_position \<noteq> 0)
              (RiskInputError ''invalid_target_transition'')) (\<lambda>_.
     rbind (require_decimal RiskInputError False True ''reference_open''
              (poo_reference_open obj)) (\<lambda>reference_open.
     rbind (require_decimal RiskInputError False True ''estimated_execution_price''
              (poo_estimated_execution_price obj)) (\<lambda>estimated_execution_price.
     rbind (require_decimal RiskInputError False False ''estimated_commission''
              (poo_estimated_commission obj)) (\<lambda>estimated_commission.
     rbind (require_decimal RiskInputError True False ''estimated_cash_change''
              (poo_estimated_cash_change obj)) (\<lambda>estimated_cash_change.
     rbind (require_decimal RiskInputError False False ''current_cash''
              (poo_current_cash obj)) (\<lambda>current_cash.
     rbind (require_non_negative_int ''current_shares'' (poo_current_shares obj)) (\<lambda>current_shares.
     rbind (reject_if (side = BUY_SIDE \<and> 0 \<le> estimated_cash_change)
              (RiskInputError ''invalid_buy_cash_change'')) (\<lambda>_.
     rbind (reject_if (side = SELL_SIDE \<and> estimated_cash_change \<le> 0)
              (RiskInputError ''invalid_sell_cash_change'')) (\<lambda>_.
     Inr \<lparr>po_sequence_number = sequence_number, po_symbol = symbol, po_side = side,
          po_quantity = quantity, po_signal_session = signal_session,
          po_execution_session = execution_session, po_target_position = target_position,
          po_reference_open = reference_open,
          po_estimated_execution_price = estimated_execution_price,
          po_estimated_commission = estimated_commission,
          po_estimated_cash_change = estimated_cash_change,
          po_current_cash = current_cash, po_current_shares = current_shares\<rparr>))))))))))))))))))"

definition order_obj :: "proposed_order \<Rightarrow> raw_order" where
  "order_obj p =
     \<lparr>poo_sequence_number = PyInt (po_sequence_number p), poo_symbol = PyStr (po_symbol p),
      poo_side = PyStr (side_text (po_side p)), poo_quantity = PyInt (po_quantity p),
      poo_signal_session = PyDate (po_signal_session p),
      poo_execution_session = PyDate (po_execution_session p),
      poo_target_position = PyInt (po_target_position p),
      poo_reference_open = PyDecimal (Fin (po_reference_open p)),
      poo_estimated_execution_price = PyDecimal (Fin (po_estimated_execution_price p)),
      poo_estimated_commission = PyDecimal (Fin (po_estimated_commission p)),
      poo_estimated_cash_change = PyDecimal (Fin (po_estimated_cash_change p)),
      poo_current_cash = PyDecimal (Fin (po_current_cash p)),
      poo_current_shares = PyInt (po_current_shares p)\<rparr>"

definition wf_order :: "proposed_order \<Rightarrow> bool" where
  "wf_order p \<longleftrightarrow>
     0 < po_sequence_number p \<and> po_symbol p \<noteq> [] \<and> 0 < po_quantity p \<and>
     po_signal_session p < po_execution_session p \<and>
     po_target_position p = (case po_side p of BUY_SIDE \<Rightarrow> 1 | SELL_SIDE \<Rightarrow> 0) \<and>
     0 < po_reference_open p \<and> 0 < po_estimated_execution_price p \<and>
     0 \<le> po_estimated_commission p \<and> 0 \<le> po_current_cash p \<and> 0 \<le> po_current_shares p \<and>
     (case po_side p of BUY_SIDE \<Rightarrow> po_estimated_cash_change p < 0
                      | SELL_SIDE \<Rightarrow> 0 < po_estimated_cash_change p)"

lemma mk_proposed_order_wf: "mk_proposed_order obj = Inr p \<Longrightarrow> wf_order p"
  unfolding mk_proposed_order_def
  apply (elim rbind_InrE)
  apply (simp only: require_positive_int_Inr require_symbol_Inr require_order_side_Inr
      require_plain_date_Inr reject_if_eq_Inr require_target_position_Inr require_decimal_Inr
      require_non_negative_int_Inr sum.inject)
  apply (clarsimp simp: wf_order_def split: order_side.splits)
  apply auto
  done

lemma mk_proposed_order_obj:
  assumes "wf_order p"
  shows "mk_proposed_order (order_obj p) = Inr p"
  using assms
  by (cases "po_side p")
     (simp_all add: mk_proposed_order_def order_obj_def wf_order_def
       require_decimal_PyDecimal require_plain_date_def require_order_side_def
       require_non_negative_int_def require_positive_int_def require_symbol_def
       require_target_position_def not_less not_le)

section \<open>\<^verbatim>\<open>RiskDecision\<close>\<close>

record risk_decision =
  rd_order_sequence_number :: int
  rd_approved :: bool
  rd_reason_codes :: "reason_code list"
  rd_evaluated_session :: date
  rd_projected_cash :: rat
  rd_projected_shares :: int
  rd_projected_market_value :: rat
  rd_projected_equity :: rat

text \<open>\<^verbatim>\<open>RiskDecision.__post_init__\<close>; that every code is a known one is the type.\<close>

definition mk_risk_decision :: "risk_decision \<Rightarrow> exn + risk_decision" where
  "mk_risk_decision d =
     (if rd_order_sequence_number d \<le> 0
      then Inl (RiskInputError ''invalid_order_sequence_number'')
      else if rd_reason_codes d = [] then Inl (RiskInputError ''invalid_reason_codes'')
      else if \<not> distinct (rd_reason_codes d) then Inl (RiskInputError ''duplicate_reason_codes'')
      else if rd_approved d \<and> rd_reason_codes d \<noteq> [APPROVED_REASON]
      then Inl (RiskInputError ''invalid_approval_reason_codes'')
      else if \<not> rd_approved d \<and> APPROVED_REASON \<in> set (rd_reason_codes d)
      then Inl (RiskInputError ''invalid_rejection_reason_codes'')
      else if rd_projected_cash d < 0 then Inl (RiskInputError ''negative_projected_cash'')
      else if rd_projected_shares d < 0 then Inl (RiskInputError ''invalid_projected_shares'')
      else if rd_projected_market_value d < 0
      then Inl (RiskInputError ''negative_projected_market_value'')
      else if rd_projected_equity d < 0 then Inl (RiskInputError ''negative_projected_equity'')
      else if rd_projected_equity d
                \<noteq> dec_add (rd_projected_cash d) (rd_projected_market_value d)
      then Inl (RiskInputError ''projected_equity_mismatch'')
      else Inr d)"

definition wf_decision :: "risk_decision \<Rightarrow> bool" where
  "wf_decision d \<longleftrightarrow>
     0 < rd_order_sequence_number d \<and> rd_reason_codes d \<noteq> [] \<and> distinct (rd_reason_codes d) \<and>
     (rd_approved d \<longleftrightarrow> rd_reason_codes d = [APPROVED_REASON]) \<and>
     (\<not> rd_approved d \<longrightarrow> APPROVED_REASON \<notin> set (rd_reason_codes d)) \<and>
     0 \<le> rd_projected_cash d \<and> 0 \<le> rd_projected_shares d \<and>
     0 \<le> rd_projected_market_value d \<and> 0 \<le> rd_projected_equity d \<and>
     rd_projected_equity d = dec_add (rd_projected_cash d) (rd_projected_market_value d)"

lemma mk_risk_decision_iff: "mk_risk_decision d = Inr d' \<longleftrightarrow> d' = d \<and> wf_decision d"
  by (auto simp: mk_risk_decision_def wf_decision_def split: if_splits)

end
