(* ===== verification/Risk_Rules.thy ===== *)
theory Risk_Rules
  imports Risk_Models
begin

text \<open>
  \<^verbatim>\<open>risk/rules.py\<close>: \<^verbatim>\<open>evaluate_order_risk\<close>, the independent long-only check that stands
  before every simulated and every paper order. The function is cut along its own sections: the
  revalidation of its arguments, the reading of the order's fields (\<open>read_order\<close>), the comparison
  of the order's cost estimate (\<open>cost_estimate_ok\<close>), and the rules of a buy and of a sell. The
  order is an object whose fields may hold anything; the state is validated first.
\<close>

record raw_costs =
  co_commission_bps_per_side :: pyval
  co_slippage_bps_per_side :: pyval

definition cost_rate_from_assumptions :: "string \<Rightarrow> pyval \<Rightarrow> exn + rat" where
  "cost_rate_from_assumptions field_name value =
     rbind (require_decimal RiskInputError False False field_name value)
       (\<lambda>v. Inr (dec_div v 10000))"

definition unchanged_projection ::
  "int \<Rightarrow> date \<Rightarrow> portfolio_state \<Rightarrow> reason_code list \<Rightarrow> exn + risk_decision" where
  "unchanged_projection order_sequence_number evaluated_session portfolio_state reason_codes =
     mk_risk_decision
       \<lparr>rd_order_sequence_number = order_sequence_number, rd_approved = False,
        rd_reason_codes = reason_codes, rd_evaluated_session = evaluated_session,
        rd_projected_cash = ps_cash portfolio_state,
        rd_projected_shares = ps_shares portfolio_state,
        rd_projected_market_value = ps_market_value portfolio_state,
        rd_projected_equity = ps_equity portfolio_state\<rparr>"

definition decimal_order_value :: "bool \<Rightarrow> string \<Rightarrow> pyval \<Rightarrow> rat option" where
  "decimal_order_value is_reference_open field_name value =
     to_option (require_decimal RiskInputError False is_reference_open field_name value)"

definition decimal_order_cash_change :: "pyval \<Rightarrow> rat option" where
  "decimal_order_cash_change value =
     to_option (require_decimal RiskInputError True False ''estimated_cash_change'' value)"

definition cost_values_match :: "rat option \<Rightarrow> rat \<Rightarrow> bool" where
  "cost_values_match left right \<longleftrightarrow> left = Some right"

section \<open>Reading the order\<close>

text \<open>The local variables of the function once the order's fields are read, with the reason codes
  collected so far.\<close>

record order_view =
  ov_side :: "order_side option"
  ov_quantity :: int
  ov_execution_date :: date
  ov_target_position :: "rat option"
  ov_reference_open :: rat
  ov_codes :: "reason_code list"

definition read_sessions ::
  "portfolio_state \<Rightarrow> raw_order \<Rightarrow> date \<times> date \<times> reason_code list" where
  "read_sessions state order =
     (case (poo_signal_session order, poo_execution_session order) of
        (PyDate signal_date, PyDate execution_date) \<Rightarrow> (signal_date, execution_date, [])
      | _ \<Rightarrow> (ps_session state, ps_session state, [MISSING_REQUIRED_INFORMATION]))"

definition read_order ::
  "risk_config \<Rightarrow> portfolio_state \<Rightarrow> raw_order \<Rightarrow> order_view" where
  "read_order config state order =
     (let symbol_codes =
            (case poo_symbol order of
               PyStr s \<Rightarrow> if PyStr s \<noteq> rc_supported_symbol config \<or> s \<noteq> SUPPORTED_SYMBOL
                           then [UNSUPPORTED_SYMBOL] else []
             | _ \<Rightarrow> [UNSUPPORTED_SYMBOL]);
          side = side_of (poo_side order);
          side_codes = (if side = None then [MISSING_REQUIRED_INFORMATION] else []);
          (quantity, quantity_codes) =
            (case require_positive_int ''quantity'' (poo_quantity order) of
               Inl _ \<Rightarrow> (0, [FRACTIONAL_QUANTITY_FORBIDDEN])
             | Inr q \<Rightarrow> (q, []));
          (signal_date, execution_date, session_codes) = read_sessions state order;
          order_codes = (if execution_date \<le> signal_date then [EXECUTION_NOT_AFTER_SIGNAL] else []);
          target_position = py_num (poo_target_position order);
          target_codes =
            (if target_position \<notin> {Some 0, Some 1} \<or> (\<exists>b. poo_target_position order = PyBool b)
             then [INVALID_TARGET_TRANSITION] else []);
          (reference_open, price_codes) =
            (case decimal_order_value True ''reference_open'' (poo_reference_open order) of
               None \<Rightarrow> (ps_reference_price state, [INVALID_PRICE])
             | Some r \<Rightarrow> (r, []));
          state_codes =
            (if py_num (poo_current_cash order) \<noteq> Some (ps_cash state) \<or>
                py_num (poo_current_shares order) \<noteq> Some (of_int (ps_shares state))
             then [INVALID_PORTFOLIO_STATE] else [])
      in \<lparr>ov_side = side, ov_quantity = quantity, ov_execution_date = execution_date,
          ov_target_position = target_position, ov_reference_open = reference_open,
          ov_codes = symbol_codes @ side_codes @ quantity_codes @ session_codes @ order_codes @
            target_codes @ price_codes @ state_codes\<rparr>)"

text \<open>The cost the rules recompute for a side, a quantity and a price.\<close>

definition execution_price_of :: "order_side \<Rightarrow> rat \<Rightarrow> rat \<Rightarrow> rat" where
  "execution_price_of side reference_open slippage_rate =
     (case side of
        BUY_SIDE \<Rightarrow> dec_mul reference_open (dec_add 1 slippage_rate)
      | SELL_SIDE \<Rightarrow> dec_mul reference_open (dec_sub 1 slippage_rate))"

definition cost_estimate_ok ::
  "rat \<Rightarrow> rat \<Rightarrow> raw_order \<Rightarrow> order_side \<Rightarrow> int \<Rightarrow> rat \<Rightarrow> bool" where
  "cost_estimate_ok commission_rate slippage_rate order side quantity reference_open \<longleftrightarrow>
     (let expected_execution_price = execution_price_of side reference_open slippage_rate;
          expected_execution_notional = dec_mul (of_int quantity) expected_execution_price;
          expected_commission = dec_mul expected_execution_notional commission_rate;
          expected_cash_change =
            (case side of
               BUY_SIDE \<Rightarrow> dec_neg (dec_add expected_execution_notional expected_commission)
             | SELL_SIDE \<Rightarrow> dec_sub expected_execution_notional expected_commission)
      in cost_values_match
           (decimal_order_value False ''estimated_execution_price''
              (poo_estimated_execution_price order)) expected_execution_price \<and>
         cost_values_match
           (decimal_order_value False ''estimated_commission''
              (poo_estimated_commission order)) expected_commission \<and>
         cost_values_match (decimal_order_cash_change (poo_estimated_cash_change order))
           expected_cash_change)"

section \<open>The rules\<close>

record projection =
  pj_cash :: rat
  pj_shares :: int
  pj_market_value :: rat
  pj_equity :: rat

text \<open>\<^verbatim>\<open>left > Decimal(str(weight))\<close>; a NaN or an unparsable weight raises.\<close>

definition exceeds_weight :: "rat \<Rightarrow> pyval \<Rightarrow> exn + bool" where
  "exceeds_weight left weight =
     (case decimal_of weight of
        Some (Fin w) \<Rightarrow> Inr (w < left)
      | Some (Infinite negative) \<Rightarrow> Inr negative
      | _ \<Rightarrow> Inl DecimalInvalidOperation)"

definition buy_rules ::
  "risk_config \<Rightarrow> rat \<Rightarrow> rat \<Rightarrow> portfolio_state \<Rightarrow> order_view \<Rightarrow>
     exn + reason_code list \<times> projection" where
  "buy_rules config commission_rate slippage_rate state v =
     (let quantity = ov_quantity v;
          reference_open = ov_reference_open v;
          target_codes = (if ov_target_position v \<noteq> Some 1 then [INVALID_TARGET_TRANSITION] else []);
          pyramiding_codes = (if 0 < ps_shares state then [PYRAMIDING_FORBIDDEN] else []);
          execution_price = dec_mul reference_open (dec_add 1 slippage_rate);
          execution_notional = dec_mul (of_int quantity) execution_price;
          commission = dec_mul execution_notional commission_rate;
          cash_required = dec_add execution_notional commission;
          projected_cash = dec_sub (ps_cash state) cash_required;
          projected_shares = ps_shares state + quantity;
          projected_market_value = dec_mul (of_int projected_shares) reference_open;
          projected_equity = dec_add projected_cash projected_market_value;
          cash_codes = (if ps_cash state < cash_required then [INSUFFICIENT_CASH] else []);
          leverage_codes = (if projected_cash < 0 then [LEVERAGE_FORBIDDEN] else []);
          projected =
            \<lparr>pj_cash = projected_cash, pj_shares = projected_shares,
             pj_market_value = projected_market_value, pj_equity = projected_equity\<rparr>;
          codes = target_codes @ pyramiding_codes @ cash_codes @ leverage_codes
      in if projected_equity \<le> 0 then Inr (codes @ [LEVERAGE_FORBIDDEN], projected)
         else rbind
           (exceeds_weight (dec_div projected_market_value projected_equity)
              (rc_maximum_position_weight config))
           (\<lambda>exceeds.
             Inr (codes @ (if exceeds then [MAXIMUM_POSITION_EXCEEDED] else []), projected)))"

definition sell_rules ::
  "rat \<Rightarrow> rat \<Rightarrow> portfolio_state \<Rightarrow> order_view \<Rightarrow> reason_code list \<times> projection" where
  "sell_rules commission_rate slippage_rate state v =
     (let quantity = ov_quantity v;
          reference_open = ov_reference_open v;
          target_codes = (if ov_target_position v \<noteq> Some 0 then [INVALID_TARGET_TRANSITION] else []);
          exit_codes = (if quantity \<noteq> ps_shares state then [FULL_EXIT_REQUIRED] else []);
          execution_price = dec_mul reference_open (dec_sub 1 slippage_rate);
          price_codes = (if execution_price \<le> 0 then [INVALID_PRICE] else []);
          execution_notional = dec_mul (of_int quantity) execution_price;
          commission = dec_mul execution_notional commission_rate;
          cash_proceeds = dec_sub execution_notional commission;
          projected_cash = dec_add (ps_cash state) cash_proceeds;
          projected_shares = ps_shares state - quantity;
          projected_market_value = dec_mul (of_int (max projected_shares 0)) reference_open;
          projected_equity = dec_add projected_cash projected_market_value;
          excess_codes =
            (if ps_shares state < quantity
             then [SELL_QUANTITY_EXCEEDS_POSITION, SHORT_SELLING_FORBIDDEN] else []);
          short_codes = (if projected_shares < 0 then [SHORT_SELLING_FORBIDDEN] else [])
      in (target_codes @ exit_codes @ price_codes @ excess_codes @ short_codes,
          \<lparr>pj_cash = projected_cash, pj_shares = projected_shares,
           pj_market_value = projected_market_value, pj_equity = projected_equity\<rparr>))"

definition apply_side_rules ::
  "risk_config \<Rightarrow> rat \<Rightarrow> rat \<Rightarrow> portfolio_state \<Rightarrow> order_view \<Rightarrow>
     exn + reason_code list \<times> projection" where
  "apply_side_rules config commission_rate slippage_rate state v =
     (if ov_side v = Some BUY_SIDE
      then buy_rules config commission_rate slippage_rate state v
      else Inr (sell_rules commission_rate slippage_rate state v))"

definition field_codes ::
  "rat \<Rightarrow> rat \<Rightarrow> raw_order \<Rightarrow> order_view \<Rightarrow> reason_code list" where
  "field_codes commission_rate slippage_rate order v =
     ov_codes v @
     (case ov_side v of
        None \<Rightarrow> []
      | Some side \<Rightarrow>
          if 0 < ov_quantity v \<and>
             \<not> cost_estimate_ok commission_rate slippage_rate order side (ov_quantity v)
                 (ov_reference_open v)
          then [ORDER_COST_ESTIMATE_MISMATCH] else [])"

definition evaluate_order_risk ::
  "raw_order \<Rightarrow> raw_portfolio \<Rightarrow> risk_config \<Rightarrow> raw_costs \<Rightarrow> exn + risk_decision" where
  "evaluate_order_risk order portfolio_state risk_config cost_assumptions =
     (case mk_portfolio_state portfolio_state of
        Inl _ \<Rightarrow> Inl (RiskInputError ''invalid_portfolio_state'')
      | Inr state \<Rightarrow>
     rbind (mk_risk_config risk_config) (\<lambda>config.
     rbind (cost_rate_from_assumptions ''commission_bps_per_side''
              (co_commission_bps_per_side cost_assumptions)) (\<lambda>commission_rate.
     rbind (cost_rate_from_assumptions ''slippage_bps_per_side''
              (co_slippage_bps_per_side cost_assumptions)) (\<lambda>slippage_rate.
     rbind (require_positive_int ''sequence_number'' (poo_sequence_number order)) (\<lambda>sequence_number.
     let v = read_order config state order;
         codes = field_codes commission_rate slippage_rate order v
     in if codes \<noteq> []
        then unchanged_projection sequence_number (ov_execution_date v) state (dedup codes)
        else rbind (apply_side_rules config commission_rate slippage_rate state v)
               (\<lambda>(rule_codes, projected).
          if rule_codes \<noteq> []
          then unchanged_projection sequence_number (ov_execution_date v) state (dedup rule_codes)
          else mk_risk_decision
                 \<lparr>rd_order_sequence_number = sequence_number, rd_approved = True,
                  rd_reason_codes = [APPROVED_REASON],
                  rd_evaluated_session = ov_execution_date v,
                  rd_projected_cash = pj_cash projected,
                  rd_projected_shares = pj_shares projected,
                  rd_projected_market_value = pj_market_value projected,
                  rd_projected_equity = pj_equity projected\<rparr>))))))"

section \<open>What a decision tells\<close>

lemma cost_rate_nonneg: "cost_rate_from_assumptions f v = Inr r \<Longrightarrow> 0 \<le> r"
  unfolding cost_rate_from_assumptions_def
  by (elim rbind_InrE) (auto dest: require_decimal_nonneg intro: dec_div_nonneg)

text \<open>Every decision comes from validated inputs; it is a rejection that keeps the state, or an
  approval that no check objected to.\<close>

lemma evaluate_order_riskE:
  assumes "evaluate_order_risk order ps rc costs = Inr d"
  obtains state config commission_rate slippage_rate seq where
    "mk_portfolio_state ps = Inr state" "wf_portfolio state" "mk_risk_config rc = Inr config"
    "0 \<le> commission_rate" "0 \<le> slippage_rate"
    "cost_rate_from_assumptions ''commission_bps_per_side''
       (co_commission_bps_per_side costs) = Inr commission_rate"
    "cost_rate_from_assumptions ''slippage_bps_per_side''
       (co_slippage_bps_per_side costs) = Inr slippage_rate"
    "poo_sequence_number order = PyInt seq" "0 < seq" "wf_decision d"
    "rd_order_sequence_number d = seq"
    "rd_approved d \<Longrightarrow>
       field_codes commission_rate slippage_rate order (read_order config state order) = [] \<and>
       (\<exists>pj. apply_side_rules config commission_rate slippage_rate state
               (read_order config state order) = Inr ([], pj) \<and>
          rd_projected_cash d = pj_cash pj \<and> rd_projected_shares d = pj_shares pj \<and>
          rd_projected_market_value d = pj_market_value pj \<and>
          rd_projected_equity d = pj_equity pj)"
    "\<not> rd_approved d \<Longrightarrow>
       rd_projected_cash d = ps_cash state \<and> rd_projected_shares d = ps_shares state \<and>
       rd_projected_market_value d = ps_market_value state \<and>
       rd_projected_equity d = ps_equity state"
proof -
  from assms obtain state where state: "mk_portfolio_state ps = Inr state"
    by (cases "mk_portfolio_state ps") (auto simp: evaluate_order_risk_def)
  from assms obtain config commission_rate slippage_rate seq where
    config: "mk_risk_config rc = Inr config" and
    cr: "cost_rate_from_assumptions ''commission_bps_per_side''
       (co_commission_bps_per_side costs) = Inr commission_rate" and
    sr: "cost_rate_from_assumptions ''slippage_bps_per_side''
       (co_slippage_bps_per_side costs) = Inr slippage_rate" and
    seq: "poo_sequence_number order = PyInt seq" "0 < seq"
    by (auto simp: evaluate_order_risk_def state elim!: rbind_InrE)
  let ?v = "read_order config state order"
  let ?codes = "field_codes commission_rate slippage_rate order ?v"
  have run: "(if ?codes \<noteq> []
      then unchanged_projection seq (ov_execution_date ?v) state (dedup ?codes)
      else rbind (apply_side_rules config commission_rate slippage_rate state ?v)
             (\<lambda>(rule_codes, projected).
        if rule_codes \<noteq> []
        then unchanged_projection seq (ov_execution_date ?v) state (dedup rule_codes)
        else mk_risk_decision
               \<lparr>rd_order_sequence_number = seq, rd_approved = True,
                rd_reason_codes = [APPROVED_REASON],
                rd_evaluated_session = ov_execution_date ?v,
                rd_projected_cash = pj_cash projected,
                rd_projected_shares = pj_shares projected,
                rd_projected_market_value = pj_market_value projected,
                rd_projected_equity = pj_equity projected\<rparr>)) = Inr d"
    using assms seq by (simp add: evaluate_order_risk_def state config cr sr Let_def
        require_positive_int_def)
  show ?thesis
  proof (rule that [OF state mk_portfolio_state_wf [OF state] config
        cost_rate_nonneg [OF cr] cost_rate_nonneg [OF sr] cr sr seq])
    show "wf_decision d" "rd_order_sequence_number d = seq"
      using run by (auto simp: unchanged_projection_def mk_risk_decision_iff
          split: if_splits elim!: rbind_InrE)
    show "?codes = [] \<and>
       (\<exists>pj. apply_side_rules config commission_rate slippage_rate state ?v = Inr ([], pj) \<and>
          rd_projected_cash d = pj_cash pj \<and> rd_projected_shares d = pj_shares pj \<and>
          rd_projected_market_value d = pj_market_value pj \<and>
          rd_projected_equity d = pj_equity pj)" if "rd_approved d"
      using run that by (auto simp: unchanged_projection_def mk_risk_decision_iff
          split: if_splits elim!: rbind_InrE)
    show "rd_projected_cash d = ps_cash state \<and> rd_projected_shares d = ps_shares state \<and>
       rd_projected_market_value d = ps_market_value state \<and>
       rd_projected_equity d = ps_equity state" if "\<not> rd_approved d"
      using run that by (auto simp: unchanged_projection_def mk_risk_decision_iff
          split: if_splits elim!: rbind_InrE)
  qed
qed

text \<open>No reason code from the fields: the order is a well-formed SPY order for this state.\<close>

lemma read_sessions_cases:
  obtains sd ed where "poo_signal_session order = PyDate sd" "poo_execution_session order = PyDate ed"
    "read_sessions state order = (sd, ed, [])"
  | "read_sessions state order =
       (ps_session state, ps_session state, [MISSING_REQUIRED_INFORMATION])"
  by (cases "poo_signal_session order"; cases "poo_execution_session order")
     (auto simp: read_sessions_def)

lemma read_order_no_codes:
  assumes "ov_codes (read_order config state order) = []"
  obtains side q sd ed r tp where
    "poo_symbol order = PyStr SUPPORTED_SYMBOL"
    "poo_side order = PyStr (side_text side)" "ov_side (read_order config state order) = Some side"
    "poo_quantity order = PyInt q" "0 < q" "ov_quantity (read_order config state order) = q"
    "poo_signal_session order = PyDate sd" "poo_execution_session order = PyDate ed" "sd < ed"
    "ov_execution_date (read_order config state order) = ed"
    "py_num (poo_target_position order) = Some tp" "tp = 0 \<or> tp = 1"
    "ov_target_position (read_order config state order) = Some tp"
    "require_decimal RiskInputError False True ''reference_open'' (poo_reference_open order) = Inr r"
    "0 < r" "ov_reference_open (read_order config state order) = r"
    "py_num (poo_current_cash order) = Some (ps_cash state)"
    "py_num (poo_current_shares order) = Some (of_int (ps_shares state))"
proof -
  note eq = assms [unfolded read_order_def Let_def]
  have symbol: "poo_symbol order = PyStr SUPPORTED_SYMBOL"
    using eq by (auto split: pyval.splits if_splits prod.splits)
  obtain side where side: "side_of (poo_side order) = Some side"
    using eq by (cases "side_of (poo_side order)") (auto split: prod.splits)
  obtain q where q: "require_positive_int ''quantity'' (poo_quantity order) = Inr q"
    using eq by (cases "require_positive_int ''quantity'' (poo_quantity order)") (auto split: prod.splits)
  obtain sd ed where ses: "poo_signal_session order = PyDate sd"
    "poo_execution_session order = PyDate ed" "read_sessions state order = (sd, ed, [])"
    using eq by (cases rule: read_sessions_cases [of order state]) (auto split: prod.splits)
  have lt: "sd < ed" using eq ses by (auto split: prod.splits if_splits)
  obtain tp where tp: "py_num (poo_target_position order) = Some tp" "tp = 0 \<or> tp = 1"
    using eq by (auto split: prod.splits if_splits)
  obtain r where r: "require_decimal RiskInputError False True ''reference_open''
      (poo_reference_open order) = Inr r"
    using eq by (cases "decimal_order_value True ''reference_open'' (poo_reference_open order)")
      (auto simp: decimal_order_value_def split: prod.splits)
  have cash: "py_num (poo_current_cash order) = Some (ps_cash state)"
    "py_num (poo_current_shares order) = Some (of_int (ps_shares state))"
    using eq by (auto split: prod.splits if_splits)
  show ?thesis
    by (rule that [OF symbol, of side q sd ed tp r])
       (use side q ses lt tp r cash in
         \<open>auto simp: read_order_def Let_def decimal_order_value_def
            dest: require_decimal_pos split: prod.splits\<close>)
qed

section \<open>The rules against their specification\<close>

text \<open>What the rules demand, stated on validated values: the amounts an order moves, and the
  conditions under which it may be executed.\<close>

definition execution_notional_of :: "order_side \<Rightarrow> int \<Rightarrow> rat \<Rightarrow> rat \<Rightarrow> rat" where
  "execution_notional_of side q r slippage_rate =
     dec_mul (of_int q) (execution_price_of side r slippage_rate)"

definition commission_of :: "order_side \<Rightarrow> int \<Rightarrow> rat \<Rightarrow> rat \<Rightarrow> rat \<Rightarrow> rat" where
  "commission_of side q r commission_rate slippage_rate =
     dec_mul (execution_notional_of side q r slippage_rate) commission_rate"

definition buy_cash_required :: "int \<Rightarrow> rat \<Rightarrow> rat \<Rightarrow> rat \<Rightarrow> rat" where
  "buy_cash_required q r commission_rate slippage_rate =
     dec_add (execution_notional_of BUY_SIDE q r slippage_rate)
       (commission_of BUY_SIDE q r commission_rate slippage_rate)"

definition sell_cash_proceeds :: "int \<Rightarrow> rat \<Rightarrow> rat \<Rightarrow> rat \<Rightarrow> rat" where
  "sell_cash_proceeds q r commission_rate slippage_rate =
     dec_sub (execution_notional_of SELL_SIDE q r slippage_rate)
       (commission_of SELL_SIDE q r commission_rate slippage_rate)"

definition cash_change_of :: "order_side \<Rightarrow> int \<Rightarrow> rat \<Rightarrow> rat \<Rightarrow> rat \<Rightarrow> rat" where
  "cash_change_of side q r commission_rate slippage_rate =
     (case side of
        BUY_SIDE \<Rightarrow> - buy_cash_required q r commission_rate slippage_rate
      | SELL_SIDE \<Rightarrow> sell_cash_proceeds q r commission_rate slippage_rate)"

lemmas cost_spec_defs = execution_notional_of_def commission_of_def buy_cash_required_def
  sell_cash_proceeds_def cash_change_of_def execution_price_of_def

lemma dec_neg_dec_add [simp]: "dec_neg (dec_add x y) = - dec_add x y"
  by (simp add: dec_neg_eq)

lemma cost_estimate_ok_iff:
  "cost_estimate_ok commission_rate slippage_rate order side q r \<longleftrightarrow>
     require_decimal RiskInputError False False ''estimated_execution_price''
       (poo_estimated_execution_price order) = Inr (execution_price_of side r slippage_rate) \<and>
     require_decimal RiskInputError False False ''estimated_commission''
       (poo_estimated_commission order) = Inr (commission_of side q r commission_rate slippage_rate) \<and>
     require_decimal RiskInputError True False ''estimated_cash_change''
       (poo_estimated_cash_change order) = Inr (cash_change_of side q r commission_rate slippage_rate)"
  by (cases side) (simp_all add: cost_estimate_ok_def Let_def cost_values_match_def
      decimal_order_value_def decimal_order_cash_change_def cost_spec_defs)

lemma execution_price_buy_pos: "0 < r \<Longrightarrow> 0 \<le> s \<Longrightarrow> 0 < execution_price_of BUY_SIDE r s"
  by (simp add: execution_price_of_def dec_mul_pos dec_add_pos)

lemma buy_notional_pos:
  "0 < q \<Longrightarrow> 0 < r \<Longrightarrow> 0 \<le> s \<Longrightarrow> 0 < execution_notional_of BUY_SIDE q r s"
  by (simp add: execution_notional_of_def dec_mul_pos execution_price_buy_pos)

lemma buy_cash_required_pos:
  "0 < q \<Longrightarrow> 0 < r \<Longrightarrow> 0 \<le> c \<Longrightarrow> 0 \<le> s \<Longrightarrow> 0 < buy_cash_required q r c s"
  unfolding buy_cash_required_def commission_of_def
  by (intro dec_add_pos add_pos_nonneg buy_notional_pos dec_mul_nonneg)
     (auto intro: less_imp_le buy_notional_pos)

lemma sell_cash_proceeds_nonneg:
  assumes "c \<le> 1" "0 < execution_price_of SELL_SIDE r s" "0 < q"
  shows "0 \<le> sell_cash_proceeds q r c s"
proof -
  let ?n = "execution_notional_of SELL_SIDE q r s"
  have "0 \<le> ?n" using assms by (simp add: execution_notional_of_def dec_mul_nonneg)
  then have "?n * c \<le> ?n" using assms(1) by (simp add: mult_left_le)
  then have "dec_mul ?n c \<le> ?n"
    unfolding dec_mul_def by (rule dec.le_fixed) (simp add: execution_notional_of_def)
  then show ?thesis
    by (simp add: sell_cash_proceeds_def commission_of_def dec_sub_nonneg_iff)
qed

text \<open>A buy that raises no reason code.\<close>

lemma buy_rules_no_codes:
  assumes "buy_rules config c s state v = Inr ([], pj)"
  shows "ps_shares state \<le> 0" and "buy_cash_required (ov_quantity v) (ov_reference_open v) c s \<le> ps_cash state"
    and "ov_target_position v = Some 1"
    and "pj_cash pj = dec_sub (ps_cash state) (buy_cash_required (ov_quantity v) (ov_reference_open v) c s)"
    and "pj_shares pj = ps_shares state + ov_quantity v"
    and "pj_market_value pj = dec_mul (of_int (pj_shares pj)) (ov_reference_open v)"
  using assms
  by (auto simp: buy_rules_def Let_def cost_spec_defs split: if_splits elim!: rbind_InrE)

lemma sell_rules_no_codes:
  assumes "sell_rules c s state v = ([], pj)"
  shows "ov_quantity v = ps_shares state"
    and "0 < execution_price_of SELL_SIDE (ov_reference_open v) s"
    and "ov_target_position v = Some 0"
    and "pj_cash pj = dec_add (ps_cash state) (sell_cash_proceeds (ov_quantity v) (ov_reference_open v) c s)"
    and "pj_shares pj = 0" and "pj_market_value pj = 0"
  using assms
  by (auto simp: sell_rules_def Let_def cost_spec_defs dec_mul_def split: if_splits)

text \<open>The position-weight rule never objects to a buy the account can pay.\<close>

lemma affordable_buy_weight:
  assumes "0 \<le> cash" "0 < n" "0 < r"
  shows "dec_div (dec_mul (of_int n) r) (dec_add cash (dec_mul (of_int n) r)) \<le> 1"
    and "0 < dec_add cash (dec_mul (of_int n) r)"
proof -
  have h: "0 < dec_mul (of_int n) r" using assms by (simp add: dec_mul_pos)
  show e: "0 < dec_add cash (dec_mul (of_int n) r)"
    using assms h by (intro dec_add_pos) simp
  show "dec_div (dec_mul (of_int n) r) (dec_add cash (dec_mul (of_int n) r)) \<le> 1"
    using dec.weight_le_one [of cash "dec_mul (of_int n) r"] assms h e
    by (simp add: dec_div_def dec_add_def)
qed

lemma buy_rules_affordable:
  assumes "ps_shares state = 0" "0 < ov_quantity v" "0 < ov_reference_open v"
    and "buy_cash_required (ov_quantity v) (ov_reference_open v) c s \<le> ps_cash state"
    and "ov_target_position v = Some 1" "decimal_of (rc_maximum_position_weight config) = Some (Fin 1)"
  shows "\<exists>pj. buy_rules config c s state v = Inr ([], pj)"
proof -
  define req where "req = buy_cash_required (ov_quantity v) (ov_reference_open v) c s"
  have cash: "0 \<le> dec_sub (ps_cash state) req" using assms(4) by (simp add: req_def dec_sub_nonneg_iff)
  note w = affordable_buy_weight [OF cash assms(2,3)]
  have req: "dec_add (dec_mul (of_int (ov_quantity v)) (dec_mul (ov_reference_open v) (dec_add 1 s)))
     (dec_mul (dec_mul (of_int (ov_quantity v)) (dec_mul (ov_reference_open v) (dec_add 1 s))) c) = req"
    by (simp add: req_def cost_spec_defs)
  show ?thesis
    using assms w cash by (simp add: buy_rules_def Let_def req exceeds_weight_def not_less not_le
        flip: req_def)
qed

end
