(* ===== verification/Risk_Properties.thy ===== *)
theory Risk_Properties
  imports Risk_Rules
begin

text \<open>
  What the independent risk check guarantees: an approved order is a long-only, fully paid SPY
  order whatever the object holds; a rejected order changes nothing; and on validated inputs the check decides exactly
  \<open>order_permitted\<close>.
\<close>

section \<open>Approved orders\<close>

text \<open>C8: an approved buy, whatever object is handed in and however it was altered, is a whole-share
  buy of SPY from a flat position, executed strictly after its signal, whose recomputed cash
  requirement is at most the account's cash, so that the projected cash is not negative.\<close>

theorem approved_buy_is_fully_paid:
  assumes "evaluate_order_risk order ps rc costs = Inr d" and "rd_approved d"
    and "poo_side order = PyStr ''buy''"
  shows "\<exists>state c s q r sd ed.
     mk_portfolio_state ps = Inr state \<and>
     cost_rate_from_assumptions ''commission_bps_per_side'' (co_commission_bps_per_side costs) = Inr c \<and>
     cost_rate_from_assumptions ''slippage_bps_per_side'' (co_slippage_bps_per_side costs) = Inr s \<and>
     poo_symbol order = PyStr ''SPY'' \<and> poo_quantity order = PyInt q \<and> 0 < q \<and>
     require_decimal RiskInputError False True ''reference_open'' (poo_reference_open order) = Inr r \<and>
     poo_signal_session order = PyDate sd \<and> poo_execution_session order = PyDate ed \<and> sd < ed \<and>
     ps_shares state = 0 \<and> rd_projected_shares d = q \<and>
     0 < buy_cash_required q r c s \<and> buy_cash_required q r c s \<le> ps_cash state \<and>
     rd_projected_cash d = dec_sub (ps_cash state) (buy_cash_required q r c s) \<and>
     0 \<le> rd_projected_cash d"
  using assms(1)
proof (rule evaluate_order_riskE)
  fix state config c s seq
  assume state: "mk_portfolio_state ps = Inr state" "wf_portfolio state"
    and rates: "0 \<le> c" "0 \<le> s"
    and cr: "cost_rate_from_assumptions ''commission_bps_per_side''
       (co_commission_bps_per_side costs) = Inr c"
    and sr: "cost_rate_from_assumptions ''slippage_bps_per_side''
       (co_slippage_bps_per_side costs) = Inr s"
    and appr: "rd_approved d \<Longrightarrow>
       field_codes c s order (read_order config state order) = [] \<and>
       (\<exists>pj. apply_side_rules config c s state (read_order config state order) = Inr ([], pj) \<and>
          rd_projected_cash d = pj_cash pj \<and> rd_projected_shares d = pj_shares pj \<and>
          rd_projected_market_value d = pj_market_value pj \<and> rd_projected_equity d = pj_equity pj)"
  let ?v = "read_order config state order"
  from appr [OF assms(2)] obtain pj where
    codes: "field_codes c s order ?v = []" and
    rules: "apply_side_rules config c s state ?v = Inr ([], pj)" and
    proj: "rd_projected_cash d = pj_cash pj" "rd_projected_shares d = pj_shares pj"
    by blast
  from codes have "ov_codes ?v = []" by (simp add: field_codes_def)
  then obtain side q sd ed r tp where
    view: "poo_symbol order = PyStr SUPPORTED_SYMBOL" "poo_side order = PyStr (side_text side)"
      "ov_side ?v = Some side" "poo_quantity order = PyInt q" "0 < q" "ov_quantity ?v = q"
      "poo_signal_session order = PyDate sd" "poo_execution_session order = PyDate ed" "sd < ed"
      "require_decimal RiskInputError False True ''reference_open'' (poo_reference_open order) = Inr r"
      "0 < r" "ov_reference_open ?v = r"
    by (rule read_order_no_codes) blast
  have side: "side = BUY_SIDE" using assms(3) view(2) by (cases side) (simp_all add: side_text_def)
  from rules have "buy_rules config c s state ?v = Inr ([], pj)"
    using view side by (simp add: apply_side_rules_def)
  note buy = buy_rules_no_codes [OF this, unfolded view(6,12)]
  have shares: "ps_shares state = 0" using buy(1) state(2) by (simp add: wf_portfolio_def)
  have "0 < buy_cash_required q r c s" using view rates by (intro buy_cash_required_pos)
  moreover have "0 \<le> rd_projected_cash d" using buy(2,4) proj by (simp add: dec_sub_nonneg_iff)
  ultimately show ?thesis
    using state(1) cr sr view buy proj shares by (auto simp: SUPPORTED_SYMBOL_def)
qed

text \<open>C9: an approved sell liquidates exactly the whole SPY position at a positive execution price:
  no short position can be projected, and the cash grows by the recomputed proceeds.\<close>

theorem approved_sell_is_full_exit:
  assumes "evaluate_order_risk order ps rc costs = Inr d" and "rd_approved d"
    and "poo_side order = PyStr ''sell''"
  shows "\<exists>state c s q r sd ed.
     mk_portfolio_state ps = Inr state \<and>
     cost_rate_from_assumptions ''commission_bps_per_side'' (co_commission_bps_per_side costs) = Inr c \<and>
     cost_rate_from_assumptions ''slippage_bps_per_side'' (co_slippage_bps_per_side costs) = Inr s \<and>
     poo_symbol order = PyStr ''SPY'' \<and> poo_quantity order = PyInt q \<and> 0 < q \<and>
     require_decimal RiskInputError False True ''reference_open'' (poo_reference_open order) = Inr r \<and>
     poo_signal_session order = PyDate sd \<and> poo_execution_session order = PyDate ed \<and> sd < ed \<and>
     ps_shares state = q \<and> rd_projected_shares d = 0 \<and> rd_projected_market_value d = 0 \<and>
     0 < execution_price_of SELL_SIDE r s \<and>
     rd_projected_cash d = dec_add (ps_cash state) (sell_cash_proceeds q r c s)"
  using assms(1)
proof (rule evaluate_order_riskE)
  fix state config c s seq
  assume state: "mk_portfolio_state ps = Inr state"
    and cr: "cost_rate_from_assumptions ''commission_bps_per_side''
       (co_commission_bps_per_side costs) = Inr c"
    and sr: "cost_rate_from_assumptions ''slippage_bps_per_side''
       (co_slippage_bps_per_side costs) = Inr s"
    and appr: "rd_approved d \<Longrightarrow>
       field_codes c s order (read_order config state order) = [] \<and>
       (\<exists>pj. apply_side_rules config c s state (read_order config state order) = Inr ([], pj) \<and>
          rd_projected_cash d = pj_cash pj \<and> rd_projected_shares d = pj_shares pj \<and>
          rd_projected_market_value d = pj_market_value pj \<and> rd_projected_equity d = pj_equity pj)"
  let ?v = "read_order config state order"
  from appr [OF assms(2)] obtain pj where
    codes: "field_codes c s order ?v = []" and
    rules: "apply_side_rules config c s state ?v = Inr ([], pj)" and
    proj: "rd_projected_cash d = pj_cash pj" "rd_projected_shares d = pj_shares pj"
      "rd_projected_market_value d = pj_market_value pj"
    by blast
  from codes have "ov_codes ?v = []" by (simp add: field_codes_def)
  then obtain side q sd ed r tp where
    view: "poo_symbol order = PyStr SUPPORTED_SYMBOL" "poo_side order = PyStr (side_text side)"
      "ov_side ?v = Some side" "poo_quantity order = PyInt q" "0 < q" "ov_quantity ?v = q"
      "poo_signal_session order = PyDate sd" "poo_execution_session order = PyDate ed" "sd < ed"
      "require_decimal RiskInputError False True ''reference_open'' (poo_reference_open order) = Inr r"
      "ov_reference_open ?v = r"
    by (rule read_order_no_codes) blast
  have side: "side = SELL_SIDE" using assms(3) view(2) by (cases side) (simp_all add: side_text_def)
  from rules have "sell_rules c s state ?v = ([], pj)"
    using view side by (simp add: apply_side_rules_def)
  note sell = sell_rules_no_codes [OF this, unfolded view(6,11)]
  show ?thesis
    using state cr sr view sell proj by (auto simp: SUPPORTED_SYMBOL_def)
qed

text \<open>C10: every decision is well formed: a decision is approved exactly when its only reason code
  is \<^verbatim>\<open>approved\<close>, and a rejected order leaves cash, shares, market value and equity as they were.\<close>

theorem rejection_changes_nothing:
  assumes "evaluate_order_risk order ps rc costs = Inr d"
  shows "wf_decision d \<and>
     (rd_approved d \<longleftrightarrow> rd_reason_codes d = [APPROVED_REASON]) \<and>
     (\<not> rd_approved d \<longrightarrow>
        (\<exists>state. mk_portfolio_state ps = Inr state \<and>
           rd_projected_cash d = ps_cash state \<and> rd_projected_shares d = ps_shares state \<and>
           rd_projected_market_value d = ps_market_value state \<and>
           rd_projected_equity d = ps_equity state))"
  using assms
  by (rule evaluate_order_riskE) (auto simp: wf_decision_def)

section \<open>The check decides its specification\<close>

text \<open>When a validated order may execute: it is for SPY, it was made for this very account state,
  its cost estimate is the recomputed one, and it is either a buy from a flat position that the
  cash covers or a full exit at a positive price.\<close>

definition order_permitted :: "rat \<Rightarrow> rat \<Rightarrow> portfolio_state \<Rightarrow> proposed_order \<Rightarrow> bool" where
  "order_permitted c s state p \<longleftrightarrow>
     (let side = po_side p; q = po_quantity p; r = po_reference_open p
      in po_symbol p = SUPPORTED_SYMBOL \<and>
         po_current_cash p = ps_cash state \<and> po_current_shares p = ps_shares state \<and>
         po_estimated_execution_price p = execution_price_of side r s \<and>
         po_estimated_commission p = commission_of side q r c s \<and>
         po_estimated_cash_change p = cash_change_of side q r c s \<and>
         (case side of
            BUY_SIDE \<Rightarrow> ps_shares state = 0 \<and> buy_cash_required q r c s \<le> ps_cash state
          | SELL_SIDE \<Rightarrow> q = ps_shares state))"

definition decimal_costs :: "rat \<Rightarrow> rat \<Rightarrow> raw_costs" where
  "decimal_costs commission_bps slippage_bps =
     \<lparr>co_commission_bps_per_side = PyDecimal (Fin commission_bps),
      co_slippage_bps_per_side = PyDecimal (Fin slippage_bps)\<rparr>"

lemma read_order_validated:
  assumes "wf_order p"
  shows "read_order default_risk_config state (order_obj p) =
    \<lparr>ov_side = Some (po_side p), ov_quantity = po_quantity p,
     ov_execution_date = po_execution_session p,
     ov_target_position = Some (of_int (po_target_position p)),
     ov_reference_open = po_reference_open p,
     ov_codes =
       (if po_symbol p \<noteq> SUPPORTED_SYMBOL then [UNSUPPORTED_SYMBOL] else []) @
       (if po_current_cash p \<noteq> ps_cash state \<or> po_current_shares p \<noteq> ps_shares state
        then [INVALID_PORTFOLIO_STATE] else [])\<rparr>"
proof -
  have "po_target_position p = 0 \<or> po_target_position p = 1"
    using assms by (auto simp: wf_order_def split: order_side.splits)
  then show ?thesis
    using assms
    by (auto simp: read_order_def Let_def order_obj_def default_risk_config_def
        read_sessions_def wf_order_def decimal_order_value_def require_decimal_PyDecimal)
qed

lemma estimate_ok_validated:
  assumes "wf_order p"
  shows "cost_estimate_ok c s (order_obj p) side q r \<longleftrightarrow>
    po_estimated_execution_price p = execution_price_of side r s \<and>
    po_estimated_commission p = commission_of side q r c s \<and>
    po_estimated_cash_change p = cash_change_of side q r c s"
  using assms
  by (auto simp: cost_estimate_ok_iff order_obj_def require_decimal_PyDecimal wf_order_def)

lemma rejection_codes:
  "APPROVED_REASON \<notin> set (field_codes c s order (read_order config state order))"
  "apply_side_rules config c s state v = Inr (codes, pj) \<Longrightarrow> APPROVED_REASON \<notin> set codes"
proof -
  have "APPROVED_REASON \<notin> set (ov_codes (read_order config state order))"
    by (cases rule: read_sessions_cases [of order state])
       (auto simp: read_order_def Let_def split: pyval.splits sum.splits option.splits prod.splits)
  then show "APPROVED_REASON \<notin> set (field_codes c s order (read_order config state order))"
    by (auto simp: field_codes_def split: option.splits)
  show "APPROVED_REASON \<notin> set codes" if "apply_side_rules config c s state v = Inr (codes, pj)"
    using that
    by (auto simp: apply_side_rules_def buy_rules_def sell_rules_def Let_def
        split: if_splits elim!: rbind_InrE)
qed

lemma unchanged_projection_ok:
  assumes "wf_portfolio state" "0 < seq" "codes \<noteq> []" "APPROVED_REASON \<notin> set codes"
  shows "\<exists>d. unchanged_projection seq ed state (dedup codes) = Inr d \<and> \<not> rd_approved d"
proof -
  have "dedup codes \<noteq> [APPROVED_REASON]"
    using assms(4) by (metis set_dedup list.set_intros(1))
  then show ?thesis
    using assms
    by (auto simp: unchanged_projection_def mk_risk_decision_iff wf_decision_def wf_portfolio_def)
qed

lemma default_weight: "decimal_of (rc_maximum_position_weight default_risk_config) = Some (Fin 1)"
  by (simp add: default_risk_config_def parse_decimal_def strip_def is_space_def parse_special_def
      parse_unsigned_def parse_exponent_def digits_value_def lower_def lower_char_def is_digit_def)

lemma buy_rules_returns:
  "decimal_of (rc_maximum_position_weight config) = Some (Fin 1) \<Longrightarrow>
    \<exists>codes pj. buy_rules config c s state v = Inr (codes, pj)"
  by (simp add: buy_rules_def Let_def exceeds_weight_def)

lemma approved_projection_wf:
  assumes "0 < seq" "0 \<le> pj_cash pj" "0 \<le> pj_shares pj" "0 \<le> pj_market_value pj"
    "pj_equity pj = dec_add (pj_cash pj) (pj_market_value pj)"
  shows "wf_decision \<lparr>rd_order_sequence_number = seq, rd_approved = True,
    rd_reason_codes = [APPROVED_REASON], rd_evaluated_session = ed,
    rd_projected_cash = pj_cash pj, rd_projected_shares = pj_shares pj,
    rd_projected_market_value = pj_market_value pj, rd_projected_equity = pj_equity pj\<rparr>"
  using assms by (auto simp: wf_decision_def intro: dec_add_nonneg)

lemma rules_equity:
  "buy_rules config c s state v = Inr (codes, pj) \<Longrightarrow> pj_equity pj = dec_add (pj_cash pj) (pj_market_value pj)"
  "sell_rules c s state v = (codes', pj') \<Longrightarrow> pj_equity pj' = dec_add (pj_cash pj') (pj_market_value pj')"
  by (auto simp: buy_rules_def sell_rules_def Let_def split: if_splits elim!: rbind_InrE)

text \<open>On a validated order whose fields agree with the state and whose estimate is the recomputed
  one, the side rules return no code exactly under the side's condition.\<close>

lemma side_rules_validated:
  assumes "wf_order p" "wf_portfolio state" "0 \<le> c" "0 \<le> s"
    and "po_estimated_execution_price p = execution_price_of (po_side p) (po_reference_open p) s"
    and "po_estimated_cash_change p = cash_change_of (po_side p) (po_quantity p) (po_reference_open p) c s"
  defines "v \<equiv> read_order default_risk_config state (order_obj p)"
  obtains codes pj where "apply_side_rules default_risk_config c s state v = Inr (codes, pj)"
    and "codes = [] \<longleftrightarrow> (case po_side p of
            BUY_SIDE \<Rightarrow> ps_shares state = 0 \<and>
              buy_cash_required (po_quantity p) (po_reference_open p) c s \<le> ps_cash state
          | SELL_SIDE \<Rightarrow> po_quantity p = ps_shares state)"
    and "codes = [] \<Longrightarrow> 0 \<le> pj_cash pj \<and> 0 \<le> pj_shares pj \<and> 0 \<le> pj_market_value pj \<and>
           pj_equity pj = dec_add (pj_cash pj) (pj_market_value pj)"
proof (cases "po_side p")
  case BUY_SIDE
  have v: "ov_side v = Some BUY_SIDE" "ov_quantity v = po_quantity p"
    "ov_reference_open v = po_reference_open p" "ov_target_position v = Some 1"
    using assms(1) BUY_SIDE by (simp_all add: v_def read_order_validated wf_order_def)
  have q: "0 < po_quantity p" "0 < po_reference_open p" "0 \<le> ps_shares state"
    using assms(1,2) by (simp_all add: wf_order_def wf_portfolio_def)
  obtain codes pj where run: "buy_rules default_risk_config c s state v = Inr (codes, pj)"
    using buy_rules_returns [OF default_weight] by blast
  have none: "codes = [] \<longleftrightarrow> ps_shares state = 0 \<and>
      buy_cash_required (po_quantity p) (po_reference_open p) c s \<le> ps_cash state"
  proof
    assume "codes = []"
    with run have "buy_rules default_risk_config c s state v = Inr ([], pj)" by simp
    from buy_rules_no_codes(1,2) [OF this] show "ps_shares state = 0 \<and>
      buy_cash_required (po_quantity p) (po_reference_open p) c s \<le> ps_cash state"
      using q v by simp
  next
    assume "ps_shares state = 0 \<and>
      buy_cash_required (po_quantity p) (po_reference_open p) c s \<le> ps_cash state"
    then have "\<exists>pj. buy_rules default_risk_config c s state v = Inr ([], pj)"
      using v q by (intro buy_rules_affordable default_weight) simp_all
    with run show "codes = []" by auto
  qed
  show thesis
  proof (rule that)
    show "apply_side_rules default_risk_config c s state v = Inr (codes, pj)"
      using run v by (simp add: apply_side_rules_def)
    show "codes = [] \<Longrightarrow> 0 \<le> pj_cash pj \<and> 0 \<le> pj_shares pj \<and> 0 \<le> pj_market_value pj \<and>
           pj_equity pj = dec_add (pj_cash pj) (pj_market_value pj)"
      using buy_rules_no_codes [of default_risk_config c s state v pj] run rules_equity(1) [OF run] q v
      by (auto simp: dec_sub_nonneg_iff intro!: dec_mul_nonneg)
  qed (use none BUY_SIDE in simp)
next
  case SELL_SIDE
  have v: "ov_side v = Some SELL_SIDE" "ov_quantity v = po_quantity p"
    "ov_reference_open v = po_reference_open p" "ov_target_position v = Some 0"
    using assms(1) SELL_SIDE by (simp_all add: v_def read_order_validated wf_order_def)
  have price: "0 < execution_price_of SELL_SIDE (po_reference_open p) s"
    and proceeds: "0 < sell_cash_proceeds (po_quantity p) (po_reference_open p) c s"
    using assms(1,5,6) SELL_SIDE by (simp_all add: wf_order_def cash_change_of_def)
  obtain codes pj where run: "sell_rules c s state v = (codes, pj)" by fastforce
  have none: "codes = [] \<longleftrightarrow> po_quantity p = ps_shares state"
    using run v price by (auto simp: sell_rules_def Let_def execution_price_of_def split: if_splits)
  show thesis
  proof (rule that)
    show "apply_side_rules default_risk_config c s state v = Inr (codes, pj)"
      using run v by (simp add: apply_side_rules_def)
    show "codes = [] \<Longrightarrow> 0 \<le> pj_cash pj \<and> 0 \<le> pj_shares pj \<and> 0 \<le> pj_market_value pj \<and>
           pj_equity pj = dec_add (pj_cash pj) (pj_market_value pj)"
      using sell_rules_no_codes [of c s state v pj] run rules_equity(2) [OF run] v proceeds assms(2)
      by (auto simp: wf_portfolio_def intro!: dec_add_nonneg)
  qed (use none SELL_SIDE in simp)
qed

text \<open>The function on validated inputs, with the revalidation steps discharged.\<close>

definition risk_outcome ::
  "rat \<Rightarrow> rat \<Rightarrow> portfolio_state \<Rightarrow> proposed_order \<Rightarrow> exn + risk_decision" where
  "risk_outcome c s state p =
     (let v = read_order default_risk_config state (order_obj p);
          codes = field_codes c s (order_obj p) v
      in if codes \<noteq> []
         then unchanged_projection (po_sequence_number p) (po_execution_session p) state (dedup codes)
         else rbind (apply_side_rules default_risk_config c s state v) (\<lambda>(rule_codes, pj).
           if rule_codes \<noteq> []
           then unchanged_projection (po_sequence_number p) (po_execution_session p) state
                  (dedup rule_codes)
           else mk_risk_decision \<lparr>rd_order_sequence_number = po_sequence_number p,
                  rd_approved = True, rd_reason_codes = [APPROVED_REASON],
                  rd_evaluated_session = po_execution_session p,
                  rd_projected_cash = pj_cash pj, rd_projected_shares = pj_shares pj,
                  rd_projected_market_value = pj_market_value pj,
                  rd_projected_equity = pj_equity pj\<rparr>))"

lemma evaluate_validated:
  assumes "wf_order p" "wf_portfolio state" "0 \<le> commission_bps" "0 \<le> slippage_bps"
  shows "evaluate_order_risk (order_obj p) (portfolio_obj state) default_risk_config
     (decimal_costs commission_bps slippage_bps) =
   risk_outcome (dec_div commission_bps 10000) (dec_div slippage_bps 10000) state p"
proof -
  have "ov_execution_date (read_order default_risk_config state (order_obj p))
      = po_execution_session p"
    using assms(1) by (simp add: read_order_validated)
  moreover have "poo_sequence_number (order_obj p) = PyInt (po_sequence_number p)"
    by (simp add: order_obj_def)
  moreover have "0 < po_sequence_number p" using assms(1) by (simp add: wf_order_def)
  ultimately show ?thesis
    using assms(2-4)
    by (simp add: evaluate_order_risk_def risk_outcome_def mk_portfolio_state_obj
        cost_rate_from_assumptions_def decimal_costs_def require_decimal_PyDecimal Let_def not_less
        split_def cong: if_cong)
qed

lemma field_codes_validated:
  assumes "wf_order p"
  shows "field_codes c s (order_obj p)
       (read_order default_risk_config state (order_obj p)) = [] \<longleftrightarrow>
     po_symbol p = SUPPORTED_SYMBOL \<and>
     po_current_cash p = ps_cash state \<and> po_current_shares p = ps_shares state \<and>
     po_estimated_execution_price p = execution_price_of (po_side p) (po_reference_open p) s \<and>
     po_estimated_commission p = commission_of (po_side p) (po_quantity p) (po_reference_open p) c s \<and>
     po_estimated_cash_change p = cash_change_of (po_side p) (po_quantity p) (po_reference_open p) c s"
proof -
  have "0 < po_quantity p" using assms by (simp add: wf_order_def)
  then show ?thesis
    by (auto simp: field_codes_def read_order_validated [OF assms] estimate_ok_validated [OF assms])
qed

lemma risk_outcome_decides:
  assumes "wf_order p" "wf_portfolio state" "0 \<le> c" "0 \<le> s"
  shows "\<exists>d. risk_outcome c s state p = Inr d \<and> (rd_approved d \<longleftrightarrow> order_permitted c s state p)"
proof (cases "field_codes c s (order_obj p)
    (read_order default_risk_config state (order_obj p)) = []")
  case False
  have seq: "0 < po_sequence_number p" using assms(1) by (simp add: wf_order_def)
  from unchanged_projection_ok [OF assms(2) seq False rejection_codes(1)] show ?thesis
    using False field_codes_validated [OF assms(1), of c s state]
    by (auto simp: risk_outcome_def order_permitted_def Let_def)
next
  case True
  have seq: "0 < po_sequence_number p" using assms(1) by (simp add: wf_order_def)
  note match = True [unfolded field_codes_validated [OF assms(1)]]
  show ?thesis
  proof (rule side_rules_validated [OF assms])
    fix codes pj
    assume rules: "apply_side_rules default_risk_config c s state
        (read_order default_risk_config state (order_obj p)) = Inr (codes, pj)"
      and none: "codes = [] \<longleftrightarrow> (case po_side p of
            BUY_SIDE \<Rightarrow> ps_shares state = 0 \<and>
              buy_cash_required (po_quantity p) (po_reference_open p) c s \<le> ps_cash state
          | SELL_SIDE \<Rightarrow> po_quantity p = ps_shares state)"
      and pj: "codes = [] \<Longrightarrow> 0 \<le> pj_cash pj \<and> 0 \<le> pj_shares pj \<and> 0 \<le> pj_market_value pj \<and>
           pj_equity pj = dec_add (pj_cash pj) (pj_market_value pj)"
    have permitted: "order_permitted c s state p \<longleftrightarrow> codes = []"
      using match none by (auto simp: order_permitted_def Let_def split: order_side.splits)
    show ?thesis
    proof (cases "codes = []")
      case None: True
      then have "0 \<le> pj_cash pj" "0 \<le> pj_shares pj" "0 \<le> pj_market_value pj"
        "pj_equity pj = dec_add (pj_cash pj) (pj_market_value pj)" using pj by simp_all
      note approved_projection_wf [OF seq this]
      then show ?thesis
        using rules True permitted None by (simp add: risk_outcome_def mk_risk_decision_iff)
    next
      case False
      from unchanged_projection_ok [OF assms(2) seq False rejection_codes(2) [OF rules]]
      show ?thesis
        using rules True permitted False by (auto simp: risk_outcome_def)
    qed
  qed (use match in simp_all)
qed

text \<open>C11: on a validated order, a validated account state, the default configuration and
  non-negative costs, the check always returns a decision, and it approves exactly the orders that
  \<open>order_permitted\<close> allows. In particular the position-weight rule never rejects an order
  that the cash covers, whatever the rounding.\<close>

theorem risk_check_decides_order_permitted:
  assumes "wf_order p" "wf_portfolio state" "0 \<le> commission_bps" "0 \<le> slippage_bps"
  shows "\<exists>d. evaluate_order_risk (order_obj p) (portfolio_obj state) default_risk_config
               (decimal_costs commission_bps slippage_bps) = Inr d \<and>
             (rd_approved d \<longleftrightarrow>
                order_permitted (dec_div commission_bps 10000) (dec_div slippage_bps 10000) state p)"
  unfolding evaluate_validated [OF assms]
  using assms by (intro risk_outcome_decides) (simp_all add: dec_div_nonneg)

section \<open>Concrete orders\<close>

text \<open>A buy of 99 shares at 100 from 10000 in cash with 1 and 2 basis points of commission and
  slippage, and the later full exit at 110 with the same costs.\<close>

definition sample_flat :: portfolio_state where
  "sample_flat = \<lparr>ps_session = 20, ps_cash = 10000, ps_shares = 0, ps_reference_price = 100,
     ps_market_value = 0, ps_equity = 10000\<rparr>"

definition sample_buy :: proposed_order where
  "sample_buy = \<lparr>po_sequence_number = 1, po_symbol = ''SPY'', po_side = BUY_SIDE,
     po_quantity = 99, po_signal_session = 19, po_execution_session = 20, po_target_position = 1,
     po_reference_open = 100, po_estimated_execution_price = 10002 / 100,
     po_estimated_commission = 990198 / 1000000,
     po_estimated_cash_change = - (9902970198 / 1000000),
     po_current_cash = 10000, po_current_shares = 0\<rparr>"

definition sample_long :: portfolio_state where
  "sample_long = \<lparr>ps_session = 30, ps_cash = 97, ps_shares = 99, ps_reference_price = 110,
     ps_market_value = 10890, ps_equity = 10987\<rparr>"

definition sample_sell :: proposed_order where
  "sample_sell = \<lparr>po_sequence_number = 2, po_symbol = ''SPY'', po_side = SELL_SIDE,
     po_quantity = 99, po_signal_session = 29, po_execution_session = 30, po_target_position = 0,
     po_reference_open = 110, po_estimated_execution_price = 109978 / 1000,
     po_estimated_commission = 10887822 / 10000000,
     po_estimated_cash_change = 108867332178 / 10000000,
     po_current_cash = 97, po_current_shares = 99\<rparr>"

lemmas sample_defs = sample_flat_def sample_buy_def sample_long_def sample_sell_def

lemma samples_wf: "wf_order sample_buy" "wf_portfolio sample_flat"
  "wf_order sample_sell" "wf_portfolio sample_long"
  by (simp_all add: sample_defs wf_order_def wf_portfolio_def dec_eval)

lemma sample_buy_approved:
  "\<exists>d. evaluate_order_risk (order_obj sample_buy) (portfolio_obj sample_flat)
     default_risk_config (decimal_costs 1 2) = Inr d \<and> rd_approved d"
proof -
  have "order_permitted (dec_div 1 10000) (dec_div 2 10000) sample_flat sample_buy"
    by (simp add: order_permitted_def sample_defs SUPPORTED_SYMBOL_def cost_spec_defs dec_eval)
  then show ?thesis
    using risk_outcome_decides [OF samples_wf(1,2), of "dec_div 1 10000" "dec_div 2 10000"]
    by (simp add: evaluate_validated samples_wf dec_div_nonneg)
qed

lemma sample_sell_approved:
  "\<exists>d. evaluate_order_risk (order_obj sample_sell) (portfolio_obj sample_long)
     default_risk_config (decimal_costs 1 2) = Inr d \<and> rd_approved d"
proof -
  have "order_permitted (dec_div 1 10000) (dec_div 2 10000) sample_long sample_sell"
    by (simp add: order_permitted_def sample_defs SUPPORTED_SYMBOL_def cost_spec_defs dec_eval)
  then show ?thesis
    using risk_outcome_decides [OF samples_wf(3,4), of "dec_div 1 10000" "dec_div 2 10000"]
    by (simp add: evaluate_validated samples_wf dec_div_nonneg)
qed

lemma sample_sides: "poo_side (order_obj sample_buy) = PyStr ''buy''"
  "poo_side (order_obj sample_sell) = PyStr ''sell''"
  by (simp_all add: order_obj_def sample_defs side_text_def)

theorem approved_buy_is_fully_paid_witness:
  "\<exists>d. evaluate_order_risk (order_obj sample_buy) (portfolio_obj sample_flat)
     default_risk_config (decimal_costs 1 2) = Inr d \<and> rd_projected_shares d = 99 \<and>
     0 \<le> rd_projected_cash d"
proof -
  obtain d where d: "evaluate_order_risk (order_obj sample_buy)
      (portfolio_obj sample_flat) default_risk_config (decimal_costs 1 2) = Inr d" "rd_approved d"
    using sample_buy_approved by blast
  from approved_buy_is_fully_paid [OF d sample_sides(1)] d(1) show ?thesis
    by (auto simp: order_obj_def sample_buy_def)
qed

theorem approved_sell_is_full_exit_witness:
  "\<exists>d. evaluate_order_risk (order_obj sample_sell) (portfolio_obj sample_long)
     default_risk_config (decimal_costs 1 2) = Inr d \<and> rd_projected_shares d = 0 \<and>
     rd_projected_market_value d = 0"
proof -
  obtain d where d: "evaluate_order_risk (order_obj sample_sell)
      (portfolio_obj sample_long) default_risk_config (decimal_costs 1 2) = Inr d" "rd_approved d"
    using sample_sell_approved by blast
  from approved_sell_is_full_exit [OF d sample_sides(2)] d(1) show ?thesis by auto
qed

text \<open>The buy again, without the cash for it: rejected, and nothing moves.\<close>

lemma sample_buy_without_cash:
  "\<exists>d. evaluate_order_risk (order_obj (sample_buy\<lparr>po_current_cash := 5000\<rparr>))
     (portfolio_obj (sample_flat\<lparr>ps_cash := 5000, ps_equity := 5000\<rparr>))
     default_risk_config (decimal_costs 1 2) = Inr d \<and> \<not> rd_approved d"
proof -
  let ?p = "sample_buy\<lparr>po_current_cash := 5000\<rparr>"
  let ?s = "sample_flat\<lparr>ps_cash := 5000, ps_equity := 5000\<rparr>"
  have wf: "wf_order ?p" "wf_portfolio ?s"
    by (simp_all add: sample_defs wf_order_def wf_portfolio_def dec_eval)
  have "\<not> order_permitted (dec_div 1 10000) (dec_div 2 10000) ?s ?p"
    by (simp add: order_permitted_def sample_defs cost_spec_defs dec_eval)
  then show ?thesis
    using risk_outcome_decides [OF wf, of "dec_div 1 10000" "dec_div 2 10000"]
    by (simp add: evaluate_validated wf dec_div_nonneg)
qed

theorem rejection_changes_nothing_witness:
  "\<exists>d. evaluate_order_risk (order_obj (sample_buy\<lparr>po_current_cash := 5000\<rparr>))
     (portfolio_obj (sample_flat\<lparr>ps_cash := 5000, ps_equity := 5000\<rparr>))
     default_risk_config (decimal_costs 1 2) = Inr d \<and> \<not> rd_approved d \<and>
     rd_projected_cash d = 5000 \<and> rd_projected_shares d = 0"
proof -
  let ?s = "sample_flat\<lparr>ps_cash := 5000, ps_equity := 5000\<rparr>"
  have wf: "wf_portfolio ?s"
    by (simp add: sample_defs wf_portfolio_def dec_eval)
  from sample_buy_without_cash obtain d where
    d: "evaluate_order_risk (order_obj (sample_buy\<lparr>po_current_cash := 5000\<rparr>))
     (portfolio_obj ?s) default_risk_config (decimal_costs 1 2) = Inr d" "\<not> rd_approved d"
    by blast
  from rejection_changes_nothing [OF d(1)] d(2) mk_portfolio_state_obj [OF wf]
  have "rd_projected_cash d = ps_cash ?s" "rd_projected_shares d = ps_shares ?s" by auto
  then have "rd_projected_cash d = 5000" "rd_projected_shares d = 0"
    by (simp_all add: sample_flat_def)
  with d show ?thesis by blast
qed

theorem risk_check_decides_order_permitted_witness:
  "\<exists>d. evaluate_order_risk (order_obj sample_buy) (portfolio_obj sample_flat)
     default_risk_config (decimal_costs 1 2) = Inr d \<and>
     (rd_approved d \<longleftrightarrow>
        order_permitted (dec_div 1 10000) (dec_div 2 10000) sample_flat sample_buy)"
  by (rule risk_check_decides_order_permitted [OF samples_wf(1,2)]) simp_all

end
