(* ===== verification/Backtest_Models.thy ===== *)
theory Backtest_Models
  imports Risk_Rules
begin

text \<open>
  \<^verbatim>\<open>backtesting/models.py\<close>: the validators of the simulated execution, its cost assumptions
  and configuration, the conversion of a decimal to a binary64 float, and the fill record with the
  accounting identities its constructor checks. As in the risk layer, a \<open>raw_\<close> record is the object
  whose fields are checked and the \<open>mk_\<close> function is \<^verbatim>\<open>__post_init__\<close>.
\<close>

section \<open>Validators\<close>

definition bt_require_plain_date :: "(string \<Rightarrow> exn) \<Rightarrow> string \<Rightarrow> pyval \<Rightarrow> exn + date" where
  "bt_require_plain_date error_type field_name value =
     (case value of
        PyDate d \<Rightarrow> Inr d
      | _ \<Rightarrow> Inl (error_type (''invalid_'' @ field_name)))"

text \<open>A copy of the risk layer's validator, with the same branches and codes.\<close>

definition bt_require_decimal ::
  "(string \<Rightarrow> exn) \<Rightarrow> bool \<Rightarrow> bool \<Rightarrow> string \<Rightarrow> pyval \<Rightarrow> exn + rat" where
  "bt_require_decimal error_type allow_negative strictly_positive field_name value =
     require_decimal error_type allow_negative strictly_positive field_name value"

definition require_int :: "(string \<Rightarrow> exn) \<Rightarrow> int \<Rightarrow> string \<Rightarrow> pyval \<Rightarrow> exn + int" where
  "require_int error_type minimum field_name value =
     (case value of
        PyInt i \<Rightarrow> if i < minimum then Inl (error_type (''invalid_'' @ field_name)) else Inr i
      | _ \<Rightarrow> Inl (error_type (''invalid_'' @ field_name)))"

definition require_aware_utc :: "(string \<Rightarrow> exn) \<Rightarrow> string \<Rightarrow> pyval \<Rightarrow> exn + instant" where
  "require_aware_utc error_type field_name value =
     (case value of
        PyAware t \<Rightarrow> Inr t
      | _ \<Rightarrow> Inl (error_type (''invalid_'' @ field_name)))"

definition is_hex_digit :: "char \<Rightarrow> bool" where
  "is_hex_digit c \<longleftrightarrow> c \<in> set ''0123456789abcdef''"

definition validate_backtest_checksum ::
  "(string \<Rightarrow> exn) \<Rightarrow> string \<Rightarrow> pyval \<Rightarrow> exn + string" where
  "validate_backtest_checksum error_type field_name value =
     (case value of
        PyStr s \<Rightarrow>
          if length s \<noteq> 64 \<or> (\<exists>c \<in> set s. \<not> is_hex_digit c)
          then Inl (error_type (''invalid_'' @ field_name)) else Inr s
      | _ \<Rightarrow> Inl (error_type (''invalid_'' @ field_name)))"

lemma bt_require_plain_date_Inr [simp]:
  "bt_require_plain_date et f v = Inr d \<longleftrightarrow> v = PyDate d"
  by (auto simp: bt_require_plain_date_def split: pyval.splits)

lemma bt_require_decimal_Inr:
  "bt_require_decimal et neg strict f v = Inr r \<longleftrightarrow>
     (\<forall>b. v \<noteq> PyBool b) \<and> decimal_of v = Some (Fin r) \<and> (strict \<longrightarrow> 0 < r) \<and>
     (\<not> neg \<longrightarrow> 0 \<le> r)"
  by (simp add: bt_require_decimal_def require_decimal_Inr)

lemma require_int_Inr [simp]:
  "require_int et m f v = Inr i \<longleftrightarrow> v = PyInt i \<and> m \<le> i"
  by (auto simp: require_int_def split: pyval.splits if_splits)

lemma require_aware_utc_Inr [simp]: "require_aware_utc et f v = Inr t \<longleftrightarrow> v = PyAware t"
  by (auto simp: require_aware_utc_def split: pyval.splits)

lemma validate_backtest_checksum_Inr [simp]:
  "validate_backtest_checksum et f v = Inr s \<longleftrightarrow>
     v = PyStr s \<and> length s = 64 \<and> list_all is_hex_digit s"
  by (auto simp: validate_backtest_checksum_def list_all_iff split: pyval.splits if_splits)

text \<open>How the validators evaluate on values of the right type.\<close>

lemma bt_validators_eval [simp]:
  "bt_require_plain_date et f (PyDate d) = Inr d"
  "m \<le> i \<Longrightarrow> require_int et m f (PyInt i) = Inr i"
  "bt_require_decimal et True False f (PyDecimal (Fin r)) = Inr r"
  "0 \<le> r \<Longrightarrow> bt_require_decimal et False False f (PyDecimal (Fin r)) = Inr r"
  "0 < r \<Longrightarrow> bt_require_decimal et False True f (PyDecimal (Fin r)) = Inr r"
  by (simp_all add: bt_require_plain_date_def require_int_def bt_require_decimal_def
      require_decimal_PyDecimal)

section \<open>Binary64\<close>

text \<open>\<^verbatim>\<open>float(Decimal)\<close>: the nearest binary64 value, ties to even, with gradual underflow below
  \<open>2 ^ (-1022)\<close>. A value that rounds to \<open>2 ^ 1024\<close> or more becomes an infinity, which
  \<^verbatim>\<open>decimal_to_float\<close> refuses.\<close>

definition float_round :: "rat \<Rightarrow> rat" where
  "float_round x =
     (if \<bar>x\<bar> * 2 ^ 1022 < 1 then of_int (rhe (x * 2 ^ 1074)) / 2 ^ 1074 else round_sig 2 53 x)"

definition decimal_to_float :: "rat \<Rightarrow> exn + rat" where
  "decimal_to_float value =
     (let parsed = float_round value
      in if 2 ^ 1024 \<le> \<bar>parsed\<bar> then Inl (BacktestAccountingError ''non_finite_float_conversion'')
         else Inr parsed)"

interpretation digits53: significant_digits 2 53
  by unfold_locales simp_all

text \<open>Below \<open>2 ^ (-1022)\<close> the spacing of the floats is fixed. The two scales are kept folded.\<close>

definition normal_scale :: rat where "normal_scale = 2 ^ 1022"
definition ulp_scale :: rat where "ulp_scale = 2 ^ 1074"

lemma scales: "ulp_scale = normal_scale * 2 ^ 52" "0 < normal_scale" "1 \<le> normal_scale" "0 < ulp_scale"
  by (simp_all add: normal_scale_def ulp_scale_def)

lemma scale_ratio: "of_int (2 ^ 52) / ulp_scale = 1 / normal_scale"
  using scales(2) by (simp add: scales(1) del: power_numeral)

lemma scale_up: "\<bar>x\<bar> * normal_scale \<le> 1 \<Longrightarrow> \<bar>x * ulp_scale\<bar> \<le> 2 ^ 52"
  using scales(2) by (simp add: scales(1) abs_mult mult.assoc [symmetric] mult_left_le_one_le mult_le_cancel_right1 del: power_numeral)

definition subnormal :: "rat \<Rightarrow> bool" where
  "subnormal x \<longleftrightarrow> \<bar>x\<bar> * normal_scale < 1"

lemma float_round_normal: "\<not> subnormal x \<Longrightarrow> float_round x = round_sig 2 53 x"
  by (simp only: float_round_def subnormal_def normal_scale_def if_False)

lemma float_round_subnormal: "subnormal x \<Longrightarrow> float_round x = of_int (rhe (x * ulp_scale)) / ulp_scale"
  by (simp only: float_round_def subnormal_def normal_scale_def ulp_scale_def if_True)

lemma subnormal_minus [simp]: "subnormal (- x) = subnormal x"
  by (simp add: subnormal_def)

lemma not_subnormal: "\<not> subnormal x \<longleftrightarrow> 1 / normal_scale \<le> \<bar>x\<bar>"
  using scales(2) by (simp add: subnormal_def not_less divide_le_eq)

lemma float_round_minus: "float_round (- x) = - float_round x"
proof (cases "subnormal x")
  case True
  have "- x * ulp_scale = - (x * ulp_scale)" by simp
  then show ?thesis
    using True by (simp only: float_round_subnormal subnormal_minus rhe_minus of_int_minus minus_divide_left)
qed (simp add: float_round_normal digits53.odd)

lemma representable_scaled: "\<bar>k\<bar> \<le> 2 ^ 53 \<Longrightarrow> representable 2 53 (of_int k / ulp_scale)"
proof -
  assume "\<bar>k\<bar> \<le> 2 ^ 53"
  moreover have "of_int k / ulp_scale = of_int k * (of_nat 2 powi (- 1074) :: rat)"
    by (simp only: ulp_scale_def power_int_minus power_int_numeral divide_inverse of_nat_numeral)
  moreover have "int 2 ^ 53 = 2 ^ 53" by simp
  ultimately show ?thesis
    unfolding representable_def by (intro exI [of _ k] exI [of _ "- 1074"]) (simp only: simp_thms)
qed

lemma smallest_normal: "round_sig 2 53 (1 / normal_scale) = 1 / normal_scale"
proof (rule digits53.round_sig_exact)
  have "representable 2 53 (of_int (2 ^ 52) / ulp_scale)" by (rule representable_scaled) simp
  then show "representable 2 53 (1 / normal_scale)" unfolding scale_ratio .
qed

lemma subnormal_scaled: "subnormal x \<Longrightarrow> \<bar>rhe (x * ulp_scale)\<bar> \<le> 2 ^ 52"
proof -
  assume "subnormal x"
  then have "\<bar>x * ulp_scale\<bar> \<le> 2 ^ 52" by (simp only: subnormal_def scale_up less_imp_le)
  then have "x * ulp_scale \<le> of_int (2 ^ 52)" "of_int (- (2 ^ 52)) \<le> x * ulp_scale"
    by (simp_all add: abs_le_iff)
  from rhe_mono [OF this(1)] rhe_mono [OF this(2)] show ?thesis
    unfolding rhe_of_int by (simp add: abs_le_iff)
qed

lemma subnormal_rounds_low:
  assumes "subnormal x" "\<not> subnormal y" "x \<le> y"
  shows "float_round x \<le> float_round y"
proof -
  have "rhe (x * ulp_scale) \<le> 2 ^ 52" using subnormal_scaled [OF assms(1)] by simp
  then have "(of_int (rhe (x * ulp_scale)) :: rat) \<le> of_int (2 ^ 52)" by (simp only: of_int_le_iff)
  then have "float_round x \<le> of_int (2 ^ 52) / ulp_scale"
    using assms(1) scales(4) by (simp only: float_round_subnormal divide_right_mono less_imp_le)
  also have "\<dots> = 1 / normal_scale" by (rule scale_ratio)
  also have "\<dots> \<le> float_round y"
  proof -
    have "\<bar>x * normal_scale\<bar> < 1" "\<not> \<bar>y\<bar> * normal_scale < 1"
      using assms(1,2) scales(2) by (simp_all add: subnormal_def abs_mult)
    then have "- 1 < x * normal_scale" "\<not> \<bar>y\<bar> * normal_scale < 1" by (simp_all add: abs_less_iff)
    moreover have "x * normal_scale \<le> y * normal_scale" using assms(3) scales(2) by simp
    ultimately have "1 \<le> y * normal_scale" by (simp add: abs_if split: if_splits)
    then have "1 / normal_scale \<le> y" using scales(2) by (simp add: divide_le_eq)
    from digits53.fixed_le [OF this smallest_normal] show ?thesis
      using assms(2) by (simp add: float_round_normal)
  qed
  finally show ?thesis .
qed

lemma float_round_mono:
  assumes "x \<le> y"
  shows "float_round x \<le> float_round y"
proof -
  have "rhe (x * ulp_scale) \<le> rhe (y * ulp_scale)"
    using assms scales(4) by (intro rhe_mono) simp
  then have "of_int (rhe (x * ulp_scale)) / ulp_scale \<le> of_int (rhe (y * ulp_scale)) / ulp_scale"
    using scales(4) by (simp add: divide_right_mono)
  moreover have "float_round x \<le> float_round y" if "\<not> subnormal x" "subnormal y"
    using subnormal_rounds_low [of "- y" "- x"] that assms by (simp add: float_round_minus)
  ultimately show ?thesis
    using assms subnormal_rounds_low [of x y] digits53.mono [OF assms]
    by (cases "subnormal x"; cases "subnormal y") (simp_all add: float_round_normal float_round_subnormal)
qed

lemma float_round_idem: "float_round (float_round x) = float_round x"
proof (cases "subnormal x")
  case True
  define k where "k = rhe (x * ulp_scale)"
  have k: "float_round x = of_int k / ulp_scale" using True by (simp add: float_round_subnormal k_def)
  have "\<bar>k\<bar> \<le> 2 ^ 52" using subnormal_scaled [OF True] by (simp add: k_def)
  then have "representable 2 53 (of_int k / ulp_scale)" by (intro representable_scaled) simp
  then show ?thesis
    using scales(4) by (cases "subnormal (of_int k / ulp_scale)")
      (simp_all add: k float_round_subnormal float_round_normal digits53.round_sig_exact)
next
  case False
  have "\<not> subnormal (round_sig 2 53 x)"
  proof (cases "0 \<le> x")
    case True
    then have "1 / normal_scale \<le> x" using False by (simp add: not_subnormal)
    from digits53.fixed_le [OF this smallest_normal] show ?thesis
      unfolding not_subnormal by linarith
  next
    case neg: False
    then have "1 / normal_scale \<le> - x" using False by (simp add: not_subnormal)
    from digits53.fixed_le [OF this smallest_normal] show ?thesis
      unfolding not_subnormal digits53.odd by linarith
  qed
  then show ?thesis using False by (simp add: float_round_normal digits53.idem)
qed

interpretation binary64: monotone_rounding float_round
proof unfold_locales
  have "\<not> subnormal 1" using scales(3) by (simp add: subnormal_def)
  then show "float_round 1 = 1" by (simp add: float_round_normal digits53.one)
qed (simp_all add: float_round_mono float_round_minus float_round_idem)

lemma float_round_nonneg: "0 \<le> x \<Longrightarrow> 0 \<le> float_round x"
  by (rule binary64.fixed_le) (simp_all add: binary64.zero)

lemma float_round_nonpos: "x \<le> 0 \<Longrightarrow> float_round x \<le> 0"
  by (rule binary64.le_fixed) (simp_all add: binary64.zero)

lemma float_round_ge_minus_one: "- 1 \<le> x \<Longrightarrow> - 1 \<le> float_round x"
  by (rule binary64.fixed_le) (simp_all add: binary64.odd binary64.one)
lemma decimal_to_float_Inr: "decimal_to_float x = Inr y \<Longrightarrow> y = float_round x"
  by (simp add: decimal_to_float_def Let_def split: if_splits)

lemma decimal_to_float_Inl:
  "decimal_to_float x = Inl e \<Longrightarrow> e = BacktestAccountingError ''non_finite_float_conversion''"
  by (simp add: decimal_to_float_def Let_def split: if_splits)

section \<open>Cost assumptions and configuration\<close>

record cost_assumptions =
  ca_commission_bps_per_side :: rat
  ca_slippage_bps_per_side :: rat

definition mk_cost_assumptions :: "raw_costs \<Rightarrow> exn + cost_assumptions" where
  "mk_cost_assumptions obj =
     rbind (bt_require_decimal BacktestInputError False False ''commission_bps_per_side''
              (co_commission_bps_per_side obj)) (\<lambda>commission.
     rbind (bt_require_decimal BacktestInputError False False ''slippage_bps_per_side''
              (co_slippage_bps_per_side obj)) (\<lambda>slippage.
     Inr \<lparr>ca_commission_bps_per_side = commission, ca_slippage_bps_per_side = slippage\<rparr>))"

definition commission_rate :: "cost_assumptions \<Rightarrow> rat" where
  "commission_rate costs = dec_div (ca_commission_bps_per_side costs) 10000"

definition slippage_rate :: "cost_assumptions \<Rightarrow> rat" where
  "slippage_rate costs = dec_div (ca_slippage_bps_per_side costs) 10000"

definition costs_obj :: "cost_assumptions \<Rightarrow> raw_costs" where
  "costs_obj c = \<lparr>co_commission_bps_per_side = PyDecimal (Fin (ca_commission_bps_per_side c)),
                  co_slippage_bps_per_side = PyDecimal (Fin (ca_slippage_bps_per_side c))\<rparr>"

definition wf_costs :: "cost_assumptions \<Rightarrow> bool" where
  "wf_costs c \<longleftrightarrow> 0 \<le> ca_commission_bps_per_side c \<and> 0 \<le> ca_slippage_bps_per_side c"

lemma mk_cost_assumptions_wf: "mk_cost_assumptions obj = Inr c \<Longrightarrow> wf_costs c"
  by (auto simp: mk_cost_assumptions_def wf_costs_def rbind_eq_Inr_iff bt_require_decimal_Inr)

lemma mk_cost_assumptions_obj [simp]: "wf_costs c \<Longrightarrow> mk_cost_assumptions (costs_obj c) = Inr c"
  by (simp add: mk_cost_assumptions_def costs_obj_def wf_costs_def)

lemma cost_rates_nonneg [simp]:
  "wf_costs c \<Longrightarrow> 0 \<le> commission_rate c" "wf_costs c \<Longrightarrow> 0 \<le> slippage_rate c"
  by (simp_all add: wf_costs_def commission_rate_def slippage_rate_def dec_div_nonneg)

definition INITIAL_SIMULATED_CASH :: rat where
  "INITIAL_SIMULATED_CASH = 10000"

record raw_backtest_config =
  bco_cost_assumptions :: raw_costs
  bco_initial_cash :: pyval

record backtest_config =
  bc_cost_assumptions :: cost_assumptions
  bc_initial_cash :: rat

definition mk_backtest_config :: "raw_backtest_config \<Rightarrow> exn + backtest_config" where
  "mk_backtest_config obj =
     rbind (mk_cost_assumptions (bco_cost_assumptions obj)) (\<lambda>costs.
     rbind (bt_require_decimal BacktestInputError False True ''initial_cash''
              (bco_initial_cash obj)) (\<lambda>initial_cash.
     rbind (reject_if (initial_cash \<noteq> INITIAL_SIMULATED_CASH)
              (BacktestInputError ''invalid_initial_cash'')) (\<lambda>_.
     Inr \<lparr>bc_cost_assumptions = costs, bc_initial_cash = initial_cash\<rparr>)))"

definition wf_backtest_config :: "backtest_config \<Rightarrow> bool" where
  "wf_backtest_config c \<longleftrightarrow> wf_costs (bc_cost_assumptions c) \<and> bc_initial_cash c = 10000"

lemma mk_backtest_config_wf: "mk_backtest_config obj = Inr c \<Longrightarrow> wf_backtest_config c"
  unfolding mk_backtest_config_def
  by (elim rbind_InrE) (auto simp: wf_backtest_config_def INITIAL_SIMULATED_CASH_def
      dest: mk_cost_assumptions_wf)

section \<open>\<^verbatim>\<open>FillRecord\<close>\<close>

record raw_fill =
  fio_order_sequence_number :: pyval
  fio_symbol :: pyval
  fio_side :: pyval
  fio_quantity :: pyval
  fio_signal_session :: pyval
  fio_execution_session :: pyval
  fio_reference_open :: pyval
  fio_execution_price :: pyval
  fio_reference_notional :: pyval
  fio_execution_notional :: pyval
  fio_commission :: pyval
  fio_slippage_cost :: pyval
  fio_total_transaction_cost :: pyval
  fio_cash_change :: pyval
  fio_shares_before :: pyval
  fio_shares_after :: pyval
  fio_cash_before :: pyval
  fio_cash_after :: pyval
  fio_risk_approved :: pyval

record fill_record =
  fi_order_sequence_number :: int
  fi_symbol :: string
  fi_side :: order_side
  fi_quantity :: int
  fi_signal_session :: date
  fi_execution_session :: date
  fi_reference_open :: rat
  fi_execution_price :: rat
  fi_reference_notional :: rat
  fi_execution_notional :: rat
  fi_commission :: rat
  fi_slippage_cost :: rat
  fi_total_transaction_cost :: rat
  fi_cash_change :: rat
  fi_shares_before :: int
  fi_shares_after :: int
  fi_cash_before :: rat
  fi_cash_after :: rat
  fi_risk_approved :: bool

text \<open>The fields, checked one by one.\<close>

abbreviation fill_decimal :: "bool \<Rightarrow> bool \<Rightarrow> string \<Rightarrow> pyval \<Rightarrow> exn + rat" where
  "fill_decimal \<equiv> bt_require_decimal BacktestAccountingError"

definition read_fill :: "raw_fill \<Rightarrow> exn + fill_record" where
  "read_fill obj =
     rbind (require_int BacktestAccountingError 1 ''order_sequence_number''
              (fio_order_sequence_number obj)) (\<lambda>order_sequence_number.
     rbind (reject_if (fio_symbol obj \<noteq> PyStr SUPPORTED_SYMBOL)
              (BacktestAccountingError ''invalid_fill_symbol'')) (\<lambda>_.
     rbind (case side_of (fio_side obj) of
              None \<Rightarrow> Inl (BacktestAccountingError ''invalid_fill_side'')
            | Some s \<Rightarrow> Inr s) (\<lambda>side.
     rbind (require_int BacktestAccountingError 1 ''quantity'' (fio_quantity obj)) (\<lambda>quantity.
     rbind (bt_require_plain_date BacktestAccountingError ''signal_session''
              (fio_signal_session obj)) (\<lambda>signal_session.
     rbind (bt_require_plain_date BacktestAccountingError ''execution_session''
              (fio_execution_session obj)) (\<lambda>execution_session.
     rbind (reject_if (execution_session \<le> signal_session)
              (BacktestAccountingError ''same_candle_fill'')) (\<lambda>_.
     rbind (fill_decimal False True ''reference_open'' (fio_reference_open obj)) (\<lambda>reference_open.
     rbind (fill_decimal False True ''execution_price'' (fio_execution_price obj)) (\<lambda>execution_price.
     rbind (fill_decimal False False ''reference_notional''
              (fio_reference_notional obj)) (\<lambda>reference_notional.
     rbind (fill_decimal False False ''execution_notional''
              (fio_execution_notional obj)) (\<lambda>execution_notional.
     rbind (fill_decimal False False ''commission'' (fio_commission obj)) (\<lambda>commission.
     rbind (fill_decimal False False ''slippage_cost'' (fio_slippage_cost obj)) (\<lambda>slippage_cost.
     rbind (fill_decimal False False ''total_transaction_cost''
              (fio_total_transaction_cost obj)) (\<lambda>total_transaction_cost.
     rbind (fill_decimal True False ''cash_change'' (fio_cash_change obj)) (\<lambda>cash_change.
     rbind (require_int BacktestAccountingError 0 ''shares_before''
              (fio_shares_before obj)) (\<lambda>shares_before.
     rbind (require_int BacktestAccountingError 0 ''shares_after''
              (fio_shares_after obj)) (\<lambda>shares_after.
     rbind (fill_decimal False False ''cash_before'' (fio_cash_before obj)) (\<lambda>cash_before.
     rbind (fill_decimal False False ''cash_after'' (fio_cash_after obj)) (\<lambda>cash_after.
     rbind (reject_if (fio_risk_approved obj \<noteq> PyBool True)
              (BacktestAccountingError ''fill_without_approved_risk_decision'')) (\<lambda>_.
     Inr \<lparr>fi_order_sequence_number = order_sequence_number, fi_symbol = SUPPORTED_SYMBOL,
          fi_side = side, fi_quantity = quantity, fi_signal_session = signal_session,
          fi_execution_session = execution_session, fi_reference_open = reference_open,
          fi_execution_price = execution_price, fi_reference_notional = reference_notional,
          fi_execution_notional = execution_notional, fi_commission = commission,
          fi_slippage_cost = slippage_cost,
          fi_total_transaction_cost = total_transaction_cost, fi_cash_change = cash_change,
          fi_shares_before = shares_before, fi_shares_after = shares_after,
          fi_cash_before = cash_before, fi_cash_after = cash_after,
          fi_risk_approved = True\<rparr>))))))))))))))))))))"

text \<open>The accounting identities between them.\<close>

definition check_fill :: "fill_record \<Rightarrow> exn + fill_record" where
  "check_fill f =
     (let quantity = of_int (fi_quantity f)
      in if fi_reference_notional f \<noteq> dec_mul quantity (fi_reference_open f)
         then Inl (BacktestAccountingError ''fill_reference_notional_mismatch'')
         else if fi_execution_notional f \<noteq> dec_mul quantity (fi_execution_price f)
         then Inl (BacktestAccountingError ''fill_execution_notional_mismatch'')
         else if fi_slippage_cost f \<noteq>
           dec_mul (dec_abs (dec_sub (fi_execution_price f) (fi_reference_open f))) quantity
         then Inl (BacktestAccountingError ''fill_slippage_cost_mismatch'')
         else if fi_total_transaction_cost f \<noteq> dec_add (fi_commission f) (fi_slippage_cost f)
         then Inl (BacktestAccountingError ''fill_total_cost_mismatch'')
         else if fi_side f = BUY_SIDE \<and> fi_shares_after f \<noteq> fi_shares_before f + fi_quantity f
         then Inl (BacktestAccountingError ''buy_share_transition_mismatch'')
         else if fi_side f = BUY_SIDE \<and>
           fi_cash_change f \<noteq> dec_neg (dec_add (fi_execution_notional f) (fi_commission f))
         then Inl (BacktestAccountingError ''buy_cash_change_mismatch'')
         else if fi_side f = SELL_SIDE \<and> fi_shares_after f \<noteq> fi_shares_before f - fi_quantity f
         then Inl (BacktestAccountingError ''sell_share_transition_mismatch'')
         else if fi_side f = SELL_SIDE \<and>
           fi_cash_change f \<noteq> dec_sub (fi_execution_notional f) (fi_commission f)
         then Inl (BacktestAccountingError ''sell_cash_change_mismatch'')
         else if fi_cash_after f \<noteq> dec_add (fi_cash_before f) (fi_cash_change f)
         then Inl (BacktestAccountingError ''fill_cash_after_mismatch'')
         else if fi_cash_after f < 0
         then Inl (BacktestAccountingError ''negative_cash_after_fill'')
         else Inr f)"

definition mk_fill :: "raw_fill \<Rightarrow> exn + fill_record" where
  "mk_fill obj = rbind (read_fill obj) check_fill"

text \<open>What a fill record guarantees to whoever holds one.\<close>

definition wf_fill :: "fill_record \<Rightarrow> bool" where
  "wf_fill f \<longleftrightarrow>
     1 \<le> fi_order_sequence_number f \<and> fi_symbol f = SUPPORTED_SYMBOL \<and> 1 \<le> fi_quantity f \<and>
     fi_signal_session f < fi_execution_session f \<and>
     0 < fi_reference_open f \<and> 0 < fi_execution_price f \<and>
     0 \<le> fi_reference_notional f \<and> 0 \<le> fi_execution_notional f \<and> 0 \<le> fi_commission f \<and>
     0 \<le> fi_slippage_cost f \<and> 0 \<le> fi_total_transaction_cost f \<and>
     0 \<le> fi_shares_before f \<and> 0 \<le> fi_shares_after f \<and>
     0 \<le> fi_cash_before f \<and> 0 \<le> fi_cash_after f \<and> fi_risk_approved f \<and>
     check_fill f = Inr f"

definition fill_obj :: "fill_record \<Rightarrow> raw_fill" where
  "fill_obj f =
     \<lparr>fio_order_sequence_number = PyInt (fi_order_sequence_number f),
      fio_symbol = PyStr (fi_symbol f), fio_side = PyStr (side_text (fi_side f)),
      fio_quantity = PyInt (fi_quantity f), fio_signal_session = PyDate (fi_signal_session f),
      fio_execution_session = PyDate (fi_execution_session f),
      fio_reference_open = PyDecimal (Fin (fi_reference_open f)),
      fio_execution_price = PyDecimal (Fin (fi_execution_price f)),
      fio_reference_notional = PyDecimal (Fin (fi_reference_notional f)),
      fio_execution_notional = PyDecimal (Fin (fi_execution_notional f)),
      fio_commission = PyDecimal (Fin (fi_commission f)),
      fio_slippage_cost = PyDecimal (Fin (fi_slippage_cost f)),
      fio_total_transaction_cost = PyDecimal (Fin (fi_total_transaction_cost f)),
      fio_cash_change = PyDecimal (Fin (fi_cash_change f)),
      fio_shares_before = PyInt (fi_shares_before f), fio_shares_after = PyInt (fi_shares_after f),
      fio_cash_before = PyDecimal (Fin (fi_cash_before f)),
      fio_cash_after = PyDecimal (Fin (fi_cash_after f)),
      fio_risk_approved = PyBool (fi_risk_approved f)\<rparr>"

lemma check_fill_Inr: "check_fill f = Inr f' \<Longrightarrow> f' = f"
  by (auto simp: check_fill_def Let_def split: if_splits)

lemma mk_fill_obj: "wf_fill f \<Longrightarrow> mk_fill (fill_obj f) = Inr f"
  by (cases f) (auto simp: mk_fill_def wf_fill_def read_fill_def fill_obj_def)

lemma read_fill_wf:
  assumes "read_fill obj = Inr f" "check_fill f = Inr f"
  shows "wf_fill f"
  using assms(1) unfolding read_fill_def
  apply (elim rbind_InrE)
  apply (simp only: require_int_Inr bt_require_plain_date_Inr reject_if_eq_Inr
      bt_require_decimal_Inr sum.inject)
  apply (clarsimp simp: wf_fill_def simp del: side_of_eq_Some)
  using assms(2) apply auto
  done

lemma mk_fill_wf: "mk_fill obj = Inr f \<Longrightarrow> wf_fill f"
  unfolding mk_fill_def
  by (elim rbind_InrE) (metis check_fill_Inr read_fill_wf)

end
