(* ===== verification/Backtest_Costs.thy ===== *)
theory Backtest_Costs
  imports Backtest_Models
begin

text \<open>
  \<^verbatim>\<open>backtesting/costs.py\<close>: the cost estimate of a simulated order, with the identities its
  constructor checks, and the largest buy the cash affords. The estimate is compared with the amounts
  the risk layer recomputes on its own (\<open>execution_price_of\<close> and the definitions after it in \<open>Risk_Rules\<close>).
\<close>

section \<open>\<^verbatim>\<open>OrderCostEstimate\<close>\<close>

record raw_estimate =
  oco_side :: pyval
  oco_quantity :: pyval
  oco_reference_open :: pyval
  oco_execution_price :: pyval
  oco_reference_notional :: pyval
  oco_execution_notional :: pyval
  oco_commission :: pyval
  oco_slippage_cost :: pyval
  oco_total_transaction_cost :: pyval
  oco_cash_change :: pyval

record cost_estimate =
  oc_side :: order_side
  oc_quantity :: int
  oc_reference_open :: rat
  oc_execution_price :: rat
  oc_reference_notional :: rat
  oc_execution_notional :: rat
  oc_commission :: rat
  oc_slippage_cost :: rat
  oc_total_transaction_cost :: rat
  oc_cash_change :: rat

abbreviation cost_decimal :: "bool \<Rightarrow> bool \<Rightarrow> string \<Rightarrow> pyval \<Rightarrow> exn + rat" where
  "cost_decimal \<equiv> bt_require_decimal BacktestInputError"

definition require_cost_side :: "pyval \<Rightarrow> exn + order_side" where
  "require_cost_side value =
     (case side_of value of
        None \<Rightarrow> Inl (BacktestInputError ''invalid_order_side'')
      | Some s \<Rightarrow> Inr s)"

definition read_estimate :: "raw_estimate \<Rightarrow> exn + cost_estimate" where
  "read_estimate obj =
     rbind (require_cost_side (oco_side obj)) (\<lambda>side.
     rbind (require_int BacktestInputError 1 ''quantity'' (oco_quantity obj)) (\<lambda>quantity.
     rbind (cost_decimal False True ''reference_open'' (oco_reference_open obj)) (\<lambda>reference_open.
     rbind (cost_decimal False True ''execution_price'' (oco_execution_price obj)) (\<lambda>execution_price.
     rbind (cost_decimal False False ''reference_notional''
              (oco_reference_notional obj)) (\<lambda>reference_notional.
     rbind (cost_decimal False False ''execution_notional''
              (oco_execution_notional obj)) (\<lambda>execution_notional.
     rbind (cost_decimal False False ''commission'' (oco_commission obj)) (\<lambda>commission.
     rbind (cost_decimal False False ''slippage_cost'' (oco_slippage_cost obj)) (\<lambda>slippage_cost.
     rbind (cost_decimal False False ''total_transaction_cost''
              (oco_total_transaction_cost obj)) (\<lambda>total_transaction_cost.
     rbind (cost_decimal True False ''cash_change'' (oco_cash_change obj)) (\<lambda>cash_change.
     Inr \<lparr>oc_side = side, oc_quantity = quantity, oc_reference_open = reference_open,
          oc_execution_price = execution_price, oc_reference_notional = reference_notional,
          oc_execution_notional = execution_notional, oc_commission = commission,
          oc_slippage_cost = slippage_cost,
          oc_total_transaction_cost = total_transaction_cost,
          oc_cash_change = cash_change\<rparr>))))))))))"

definition check_estimate :: "cost_estimate \<Rightarrow> exn + cost_estimate" where
  "check_estimate e =
     (let quantity_decimal = of_int (oc_quantity e);
          expected_cash_change =
            (if oc_side e = BUY_SIDE
             then dec_neg (dec_add (oc_execution_notional e) (oc_commission e))
             else dec_sub (oc_execution_notional e) (oc_commission e))
      in if oc_reference_notional e \<noteq> dec_mul quantity_decimal (oc_reference_open e)
         then Inl (BacktestAccountingError ''order_reference_notional_mismatch'')
         else if oc_execution_notional e \<noteq> dec_mul quantity_decimal (oc_execution_price e)
         then Inl (BacktestAccountingError ''order_execution_notional_mismatch'')
         else if oc_slippage_cost e \<noteq>
           dec_mul (dec_abs (dec_sub (oc_execution_price e) (oc_reference_open e))) quantity_decimal
         then Inl (BacktestAccountingError ''order_slippage_cost_mismatch'')
         else if oc_total_transaction_cost e \<noteq> dec_add (oc_commission e) (oc_slippage_cost e)
         then Inl (BacktestAccountingError ''order_total_cost_mismatch'')
         else if oc_cash_change e \<noteq> expected_cash_change
         then Inl (BacktestAccountingError ''order_cash_change_mismatch'')
         else Inr e)"

definition mk_estimate :: "raw_estimate \<Rightarrow> exn + cost_estimate" where
  "mk_estimate obj = rbind (read_estimate obj) check_estimate"

definition estimate_obj :: "cost_estimate \<Rightarrow> raw_estimate" where
  "estimate_obj e =
     \<lparr>oco_side = PyStr (side_text (oc_side e)), oco_quantity = PyInt (oc_quantity e),
      oco_reference_open = PyDecimal (Fin (oc_reference_open e)),
      oco_execution_price = PyDecimal (Fin (oc_execution_price e)),
      oco_reference_notional = PyDecimal (Fin (oc_reference_notional e)),
      oco_execution_notional = PyDecimal (Fin (oc_execution_notional e)),
      oco_commission = PyDecimal (Fin (oc_commission e)),
      oco_slippage_cost = PyDecimal (Fin (oc_slippage_cost e)),
      oco_total_transaction_cost = PyDecimal (Fin (oc_total_transaction_cost e)),
      oco_cash_change = PyDecimal (Fin (oc_cash_change e))\<rparr>"

section \<open>\<^verbatim>\<open>estimate_order_cost\<close>\<close>

definition estimate_order_cost ::
  "pyval \<Rightarrow> pyval \<Rightarrow> pyval \<Rightarrow> raw_costs \<Rightarrow> exn + cost_estimate" where
  "estimate_order_cost side quantity reference_open cost_assumptions =
     rbind (require_cost_side side) (\<lambda>side.
     rbind (require_int BacktestInputError 1 ''quantity'' quantity) (\<lambda>quantity.
     rbind (cost_decimal False True ''reference_open'' reference_open) (\<lambda>reference.
     rbind (mk_cost_assumptions cost_assumptions) (\<lambda>costs.
     let quantity_decimal = of_int quantity;
         execution_price =
           (if side = BUY_SIDE then dec_mul reference (dec_add 1 (slippage_rate costs))
            else dec_mul reference (dec_sub 1 (slippage_rate costs)))
     in rbind (reject_if (side = SELL_SIDE \<and> execution_price \<le> 0)
                (BacktestAccountingError ''non_positive_sell_execution_price'')) (\<lambda>_.
        let reference_notional = dec_mul quantity_decimal reference;
            execution_notional = dec_mul quantity_decimal execution_price;
            commission = dec_mul execution_notional (commission_rate costs);
            slippage_cost = dec_mul (dec_abs (dec_sub execution_price reference)) quantity_decimal;
            total_transaction_cost = dec_add commission slippage_cost;
            cash_change =
              (if side = BUY_SIDE then dec_neg (dec_add execution_notional commission)
               else dec_sub execution_notional commission)
        in mk_estimate (estimate_obj
             \<lparr>oc_side = side, oc_quantity = quantity, oc_reference_open = reference,
              oc_execution_price = execution_price, oc_reference_notional = reference_notional,
              oc_execution_notional = execution_notional, oc_commission = commission,
              oc_slippage_cost = slippage_cost,
              oc_total_transaction_cost = total_transaction_cost,
              oc_cash_change = cash_change\<rparr>))))))"

definition maximum_affordable_buy_quantity ::
  "pyval \<Rightarrow> pyval \<Rightarrow> raw_costs \<Rightarrow> exn + int" where
  "maximum_affordable_buy_quantity available_cash reference_open cost_assumptions =
     rbind (cost_decimal False False ''available_cash'' available_cash) (\<lambda>cash.
     rbind (cost_decimal False True ''reference_open'' reference_open) (\<lambda>reference.
     rbind (mk_cost_assumptions cost_assumptions) (\<lambda>costs.
     let execution_price = dec_mul reference (dec_add 1 (slippage_rate costs));
         per_share_cash_required = dec_mul execution_price (dec_add 1 (commission_rate costs))
     in if per_share_cash_required \<le> 0
        then Inl (BacktestAccountingError ''invalid_per_share_cash_required'')
        else case dec_trunc_div cash per_share_cash_required of
               None \<Rightarrow> Inl DecimalInvalidOperation
             | Some q \<Rightarrow> Inr q)))"

section \<open>The estimate against the risk layer's amounts\<close>

text \<open>The estimate in terms of the amounts the risk layer recomputes.\<close>

definition estimate_of :: "order_side \<Rightarrow> int \<Rightarrow> rat \<Rightarrow> rat \<Rightarrow> rat \<Rightarrow> cost_estimate" where
  "estimate_of side q r c s =
     (let price = execution_price_of side r s;
          slippage = dec_mul (dec_abs (dec_sub price r)) (of_int q)
      in \<lparr>oc_side = side, oc_quantity = q, oc_reference_open = r, oc_execution_price = price,
          oc_reference_notional = dec_mul (of_int q) r,
          oc_execution_notional = execution_notional_of side q r s,
          oc_commission = commission_of side q r c s, oc_slippage_cost = slippage,
          oc_total_transaction_cost = dec_add (commission_of side q r c s) slippage,
          oc_cash_change = cash_change_of side q r c s\<rparr>)"

lemma estimate_of_simps [simp]:
  "oc_execution_price (estimate_of side q r c s) = execution_price_of side r s"
  "oc_execution_notional (estimate_of side q r c s) = execution_notional_of side q r s"
  "oc_commission (estimate_of side q r c s) = commission_of side q r c s"
  "oc_cash_change (estimate_of side q r c s) = cash_change_of side q r c s"
  "oc_reference_notional (estimate_of side q r c s) = dec_mul (of_int q) r"
  "oc_slippage_cost (estimate_of side q r c s) =
     dec_mul (dec_abs (dec_sub (execution_price_of side r s) r)) (of_int q)"
  "oc_total_transaction_cost (estimate_of side q r c s) =
     dec_add (commission_of side q r c s)
       (dec_mul (dec_abs (dec_sub (execution_price_of side r s) r)) (of_int q))"
  by (simp_all add: estimate_of_def Let_def)

lemma dec_abs_nonneg [simp]: "0 \<le> dec_abs x"
  by (simp add: dec_abs_def dec.nonneg_iff)

lemma notional_nonneg:
  "0 < q \<Longrightarrow> 0 < execution_price_of side r s \<Longrightarrow> 0 \<le> execution_notional_of side q r s"
  by (simp add: execution_notional_of_def dec_mul_nonneg)

lemma commission_nonneg:
  "0 < q \<Longrightarrow> 0 < execution_price_of side r s \<Longrightarrow> 0 \<le> c \<Longrightarrow> 0 \<le> commission_of side q r c s"
  by (simp add: commission_of_def notional_nonneg dec_mul_nonneg)

lemma check_estimate_of [simp]:
  "check_estimate (estimate_of side q r c s) = Inr (estimate_of side q r c s)"
  by (cases side) (simp_all add: check_estimate_def estimate_of_def Let_def cash_change_of_def
      buy_cash_required_def sell_cash_proceeds_def execution_notional_of_def)

lemma mk_estimate_of:
  assumes "0 < q" "0 < r" "0 < execution_price_of side r s" "0 \<le> c"
  shows "mk_estimate (estimate_obj (estimate_of side q r c s)) = Inr (estimate_of side q r c s)"
proof -
  have "0 \<le> execution_notional_of side q r s" "0 \<le> commission_of side q r c s"
    using assms by (simp_all add: notional_nonneg commission_nonneg)
  moreover have "0 \<le> dec_mul (of_int q) r"
    "0 \<le> dec_mul (dec_abs (dec_sub (execution_price_of side r s) r)) (of_int q)"
    using assms by (simp_all add: dec_mul_nonneg)
  moreover from calculation have "0 \<le> dec_add (commission_of side q r c s)
      (dec_mul (dec_abs (dec_sub (execution_price_of side r s) r)) (of_int q))"
    by (intro dec_add_nonneg add_nonneg_nonneg)
  ultimately have "read_estimate (estimate_obj (estimate_of side q r c s)) =
      Inr (estimate_of side q r c s)"
    using assms
    by (simp add: read_estimate_def estimate_obj_def require_cost_side_def)
       (simp add: estimate_of_def Let_def)
  then show ?thesis by (simp add: mk_estimate_def)
qed

text \<open>On validated arguments the estimate always exists, except when slippage takes the whole price
  of a sell; the checks of its own constructor never fire.\<close>

lemma estimate_order_cost_eq:
  assumes "0 < q" "0 < r" "wf_costs costs"
  shows "estimate_order_cost (PyStr (side_text side)) (PyInt q) (PyDecimal (Fin r)) (costs_obj costs) =
    (if execution_price_of side r (slippage_rate costs) \<le> 0
     then Inl (BacktestAccountingError ''non_positive_sell_execution_price'')
     else Inr (estimate_of side q r (commission_rate costs) (slippage_rate costs)))"
proof (cases "execution_price_of side r (slippage_rate costs) \<le> 0")
  case True
  have "side = SELL_SIDE"
    using True execution_price_buy_pos [of r "slippage_rate costs"] assms by (cases side) auto
  then show ?thesis
    using assms True
    by (simp add: estimate_order_cost_def require_cost_side_def Let_def execution_price_of_def)
next
  case False
  then have ok: "mk_estimate (estimate_obj (estimate_of side q r (commission_rate costs)
      (slippage_rate costs))) = Inr (estimate_of side q r (commission_rate costs) (slippage_rate costs))"
    using assms by (intro mk_estimate_of) simp_all
  show ?thesis
    using assms False ok [unfolded estimate_of_def Let_def]
    by (cases side) (simp_all add: estimate_order_cost_def require_cost_side_def Let_def
        estimate_of_def cost_spec_defs)
qed

section \<open>The affordable quantity\<close>

definition per_share_cash :: "rat \<Rightarrow> rat \<Rightarrow> rat \<Rightarrow> rat" where
  "per_share_cash r c s = dec_mul (execution_price_of BUY_SIDE r s) (dec_add 1 c)"

lemma per_share_cash_pos: "0 < r \<Longrightarrow> 0 \<le> c \<Longrightarrow> 0 \<le> s \<Longrightarrow> 0 < per_share_cash r c s"
  by (simp add: per_share_cash_def dec_mul_pos execution_price_buy_pos dec_add_pos)

lemma maximum_affordable_eq:
  assumes "0 \<le> cash" "0 < r" "wf_costs costs"
  shows "maximum_affordable_buy_quantity (PyDecimal (Fin cash)) (PyDecimal (Fin r)) (costs_obj costs) =
    (let q = \<lfloor>cash / per_share_cash r (commission_rate costs) (slippage_rate costs)\<rfloor>
     in if 10 ^ 28 \<le> q then Inl DecimalInvalidOperation else Inr q)"
proof -
  let ?p = "per_share_cash r (commission_rate costs) (slippage_rate costs)"
  have p: "0 < ?p" using assms by (intro per_share_cash_pos) simp_all
  then have q: "0 \<le> cash / ?p" using assms by simp
  then have "dec_trunc_div cash ?p =
      (if 10 ^ 28 \<le> \<lfloor>cash / ?p\<rfloor> then None else Some \<lfloor>cash / ?p\<rfloor>)"
    by (simp add: dec_trunc_div_def Let_def abs_of_nonneg)
  then show ?thesis
    using assms p by (simp add: maximum_affordable_buy_quantity_def Let_def per_share_cash_def
        execution_price_of_def)
qed

end
