(* ===== verification/Backtest_Engine.thy ===== *)
theory Backtest_Engine
  imports Backtest_Costs
begin

text \<open>
  \<^verbatim>\<open>backtesting/engine.py\<close>: the next-open, long-or-cash simulation. For each signal, in
  order, the engine proposes at most one order, has the risk layer decide it, applies an approved
  order as a fill, and marks the portfolio to the close. The four \<^verbatim>\<open>list[dict]\<close> accumulators of
  \<^verbatim>\<open>_run_validated_signal_backtest\<close> are lists of records; the float fields hold the binary64 value
  of the decimal. The data frames, the metrics and \<^verbatim>\<open>BacktestResult\<close> built from them are not part
  of this theory.
\<close>

section \<open>Orders\<close>

definition portfolio_state_at :: "date \<Rightarrow> rat \<Rightarrow> int \<Rightarrow> rat \<Rightarrow> exn + portfolio_state" where
  "portfolio_state_at session cash shares reference_price =
     (let market_value = dec_mul (of_int shares) reference_price
      in mk_portfolio_state (portfolio_obj
           \<lparr>ps_session = session, ps_cash = cash, ps_shares = shares,
            ps_reference_price = reference_price, ps_market_value = market_value,
            ps_equity = dec_add cash market_value\<rparr>))"

text \<open>The order for a side and a quantity, with the estimate of its costs.\<close>

definition order_with_estimate ::
  "int \<Rightarrow> date \<Rightarrow> date \<Rightarrow> int \<Rightarrow> rat \<Rightarrow> rat \<Rightarrow> int \<Rightarrow> cost_assumptions \<Rightarrow> order_side \<Rightarrow> int \<Rightarrow>
     exn + proposed_order" where
  "order_with_estimate sequence_number signal_session execution_session target_position
     reference_open cash shares costs side quantity =
     rbind (estimate_order_cost (PyStr (side_text side)) (PyInt quantity)
              (PyDecimal (Fin reference_open)) (costs_obj costs)) (\<lambda>estimate.
     mk_proposed_order (order_obj
       \<lparr>po_sequence_number = sequence_number, po_symbol = ''SPY'', po_side = side,
        po_quantity = quantity, po_signal_session = signal_session,
        po_execution_session = execution_session, po_target_position = target_position,
        po_reference_open = reference_open,
        po_estimated_execution_price = oc_execution_price estimate,
        po_estimated_commission = oc_commission estimate,
        po_estimated_cash_change = oc_cash_change estimate,
        po_current_cash = cash, po_current_shares = shares\<rparr>))"

definition propose_order ::
  "int \<Rightarrow> date \<Rightarrow> date \<Rightarrow> int \<Rightarrow> rat \<Rightarrow> rat \<Rightarrow> int \<Rightarrow> backtest_config \<Rightarrow> exn + proposed_order option" where
  "propose_order sequence_number signal_session execution_session target_position reference_open
     cash shares backtest_config =
     (let costs = bc_cost_assumptions backtest_config;
          order = order_with_estimate sequence_number signal_session execution_session
                    target_position reference_open cash shares costs
      in if target_position = 1 then
           if 0 < shares then Inr None
           else rbind (maximum_affordable_buy_quantity (PyDecimal (Fin cash))
                         (PyDecimal (Fin reference_open)) (costs_obj costs)) (\<lambda>affordable.
                let quantity = (if affordable \<le> 0 then 1 else affordable)
                in rbind (order BUY_SIDE quantity) (\<lambda>o'. Inr (Some o')))
         else if shares = 0 then Inr None
         else rbind (order SELL_SIDE shares) (\<lambda>o'. Inr (Some o')))"

definition fill_from_approved_order ::
  "proposed_order \<Rightarrow> rat \<Rightarrow> int \<Rightarrow> backtest_config \<Rightarrow> exn + fill_record" where
  "fill_from_approved_order order cash_before shares_before backtest_config =
     rbind (estimate_order_cost (PyStr (side_text (po_side order))) (PyInt (po_quantity order))
              (PyDecimal (Fin (po_reference_open order)))
              (costs_obj (bc_cost_assumptions backtest_config))) (\<lambda>estimate.
     let shares_after =
           (if po_side order = BUY_SIDE then shares_before + po_quantity order
            else shares_before - po_quantity order);
         cash_after = dec_add cash_before (oc_cash_change estimate)
     in mk_fill (fill_obj
          \<lparr>fi_order_sequence_number = po_sequence_number order, fi_symbol = po_symbol order,
           fi_side = po_side order, fi_quantity = po_quantity order,
           fi_signal_session = po_signal_session order,
           fi_execution_session = po_execution_session order,
           fi_reference_open = po_reference_open order,
           fi_execution_price = oc_execution_price estimate,
           fi_reference_notional = oc_reference_notional estimate,
           fi_execution_notional = oc_execution_notional estimate,
           fi_commission = oc_commission estimate, fi_slippage_cost = oc_slippage_cost estimate,
           fi_total_transaction_cost = oc_total_transaction_cost estimate,
           fi_cash_change = oc_cash_change estimate, fi_shares_before = shares_before,
           fi_shares_after = shares_after, fi_cash_before = cash_before,
           fi_cash_after = cash_after, fi_risk_approved = True\<rparr>))"

section \<open>The records of a run\<close>

text \<open>\<^verbatim>\<open>_order_record\<close>, \<^verbatim>\<open>_decision_record\<close> and \<^verbatim>\<open>_fill_record\<close> copy the object's
  fields, every decimal through \<^verbatim>\<open>decimal_to_float\<close>, in this order.\<close>

definition order_record :: "proposed_order \<Rightarrow> exn + proposed_order" where
  "order_record order =
     rbind (decimal_to_float (po_reference_open order)) (\<lambda>reference_open.
     rbind (decimal_to_float (po_estimated_execution_price order)) (\<lambda>execution_price.
     rbind (decimal_to_float (po_estimated_commission order)) (\<lambda>commission.
     rbind (decimal_to_float (po_estimated_cash_change order)) (\<lambda>cash_change.
     rbind (decimal_to_float (po_current_cash order)) (\<lambda>current_cash.
     Inr (order\<lparr>po_reference_open := reference_open,
                po_estimated_execution_price := execution_price,
                po_estimated_commission := commission,
                po_estimated_cash_change := cash_change,
                po_current_cash := current_cash\<rparr>))))))"

definition decision_record :: "risk_decision \<Rightarrow> exn + risk_decision" where
  "decision_record decision =
     rbind (decimal_to_float (rd_projected_cash decision)) (\<lambda>cash.
     rbind (decimal_to_float (rd_projected_market_value decision)) (\<lambda>market_value.
     rbind (decimal_to_float (rd_projected_equity decision)) (\<lambda>equity.
     Inr (decision\<lparr>rd_projected_cash := cash, rd_projected_market_value := market_value,
                   rd_projected_equity := equity\<rparr>))))"

definition fill_row :: "fill_record \<Rightarrow> exn + fill_record" where
  "fill_row fill =
     rbind (decimal_to_float (fi_reference_open fill)) (\<lambda>reference_open.
     rbind (decimal_to_float (fi_execution_price fill)) (\<lambda>execution_price.
     rbind (decimal_to_float (fi_reference_notional fill)) (\<lambda>reference_notional.
     rbind (decimal_to_float (fi_execution_notional fill)) (\<lambda>execution_notional.
     rbind (decimal_to_float (fi_commission fill)) (\<lambda>commission.
     rbind (decimal_to_float (fi_slippage_cost fill)) (\<lambda>slippage_cost.
     rbind (decimal_to_float (fi_total_transaction_cost fill)) (\<lambda>total_cost.
     rbind (decimal_to_float (fi_cash_change fill)) (\<lambda>cash_change.
     rbind (decimal_to_float (fi_cash_before fill)) (\<lambda>cash_before.
     rbind (decimal_to_float (fi_cash_after fill)) (\<lambda>cash_after.
     Inr (fill\<lparr>fi_reference_open := reference_open, fi_execution_price := execution_price,
               fi_reference_notional := reference_notional,
               fi_execution_notional := execution_notional, fi_commission := commission,
               fi_slippage_cost := slippage_cost, fi_total_transaction_cost := total_cost,
               fi_cash_change := cash_change, fi_cash_before := cash_before,
               fi_cash_after := cash_after\<rparr>)))))))))))"

record portfolio_row =
  pr_session :: date
  pr_signal_session :: date
  pr_target_position :: int
  pr_cash :: rat
  pr_shares :: int
  pr_close_price :: rat
  pr_market_value :: rat
  pr_equity :: rat
  pr_daily_return :: rat
  pr_drawdown :: rat

section \<open>The run\<close>

record market_row =
  mr_reference_open :: pyval
  mr_close_price :: pyval

record signal =
  sg_signal_session :: date
  sg_execution_session :: date
  sg_target_position :: int

text \<open>The local variables of \<^verbatim>\<open>_run_validated_signal_backtest\<close>.\<close>

record run_state =
  rs_cash :: rat
  rs_shares :: int
  rs_previous_equity :: rat
  rs_running_peak :: rat
  rs_next_order_sequence :: int
  rs_proposed_records :: "proposed_order list"
  rs_decision_records :: "risk_decision list"
  rs_fill_records :: "fill_record list"
  rs_portfolio_records :: "portfolio_row list"

definition initial_run_state :: "backtest_config \<Rightarrow> run_state" where
  "initial_run_state config =
     \<lparr>rs_cash = bc_initial_cash config, rs_shares = 0,
      rs_previous_equity = bc_initial_cash config, rs_running_peak = bc_initial_cash config,
      rs_next_order_sequence = 1, rs_proposed_records = [], rs_decision_records = [],
      rs_fill_records = [], rs_portfolio_records = []\<rparr>"

text \<open>\<^verbatim>\<open>Decimal(str(price))\<close> for a price that may not be finite.\<close>

definition price_decimal :: "pyval \<Rightarrow> exn + rat" where
  "price_decimal value =
     (case decimal_of value of
        Some (Fin r) \<Rightarrow> Inr r
      | _ \<Rightarrow> Inl DecimalInvalidOperation)"

text \<open>The order part of an iteration: propose, decide, fill.\<close>

definition trade_at_open ::
  "backtest_config \<Rightarrow> risk_config \<Rightarrow> signal \<Rightarrow> rat \<Rightarrow> run_state \<Rightarrow> exn + run_state" where
  "trade_at_open config risk signal reference_open st =
     rbind (propose_order (rs_next_order_sequence st) (sg_signal_session signal)
              (sg_execution_session signal) (sg_target_position signal) reference_open
              (rs_cash st) (rs_shares st) config) (\<lambda>proposal.
     case proposal of
       None \<Rightarrow> Inr st
     | Some order \<Rightarrow>
         rbind (order_record order) (\<lambda>order_row.
         rbind (portfolio_state_at (sg_execution_session signal) (rs_cash st) (rs_shares st)
                  reference_open) (\<lambda>open_state.
         rbind (evaluate_order_risk (order_obj order) (portfolio_obj open_state) risk
                  (costs_obj (bc_cost_assumptions config))) (\<lambda>decision.
         rbind (decision_record decision) (\<lambda>decision_row.
         let st1 = st\<lparr>rs_next_order_sequence := rs_next_order_sequence st + 1,
                      rs_proposed_records := rs_proposed_records st @ [order_row],
                      rs_decision_records := rs_decision_records st @ [decision_row]\<rparr>
         in if \<not> rd_approved decision then Inr st1
            else rbind (fill_from_approved_order order (rs_cash st) (rs_shares st) config) (\<lambda>fill.
                 rbind (fill_row fill) (\<lambda>row.
                 Inr (st1\<lparr>rs_cash := fi_cash_after fill, rs_shares := fi_shares_after fill,
                          rs_fill_records := rs_fill_records st1 @ [row]\<rparr>))))))))"

text \<open>The mark to the close. A division by zero raises.\<close>

definition decimal_divide :: "rat \<Rightarrow> rat \<Rightarrow> exn + rat" where
  "decimal_divide x y =
     (if y = 0
      then Inl (if x = 0 then DecimalInvalidOperation else OtherException ''DivisionByZero'')
      else Inr (dec_div x y))"

definition mark_to_close ::
  "backtest_config \<Rightarrow> signal \<Rightarrow> rat \<Rightarrow> run_state \<Rightarrow> exn + run_state" where
  "mark_to_close config signal close_price st =
     (let market_value = dec_mul (of_int (rs_shares st)) close_price;
          equity = dec_add (rs_cash st) market_value;
          base = (if rs_portfolio_records st \<noteq> [] then rs_previous_equity st
                  else bc_initial_cash config);
          running_peak = max (rs_running_peak st) equity
      in rbind (decimal_divide equity base) (\<lambda>growth.
         rbind (decimal_divide equity running_peak) (\<lambda>of_peak.
         let daily_return = dec_sub growth 1; drawdown = dec_sub of_peak 1
         in rbind (decimal_to_float (rs_cash st)) (\<lambda>cash_f.
            rbind (decimal_to_float close_price) (\<lambda>close_f.
            rbind (decimal_to_float market_value) (\<lambda>market_value_f.
            rbind (decimal_to_float equity) (\<lambda>equity_f.
            rbind (decimal_to_float daily_return) (\<lambda>daily_return_f.
            rbind (decimal_to_float drawdown) (\<lambda>drawdown_f.
            Inr (st\<lparr>rs_running_peak := running_peak, rs_previous_equity := equity,
                    rs_portfolio_records := rs_portfolio_records st @
                      [\<lparr>pr_session = sg_execution_session signal,
                        pr_signal_session = sg_signal_session signal,
                        pr_target_position = sg_target_position signal,
                        pr_cash = cash_f, pr_shares = rs_shares st, pr_close_price = close_f,
                        pr_market_value = market_value_f, pr_equity = equity_f,
                        pr_daily_return = daily_return_f,
                        pr_drawdown = drawdown_f\<rparr>]\<rparr>)))))))))) "

definition run_signal ::
  "(date \<Rightarrow> market_row option) \<Rightarrow> backtest_config \<Rightarrow> risk_config \<Rightarrow> signal \<Rightarrow> run_state \<Rightarrow>
     exn + run_state" where
  "run_signal price_by_session config risk signal st =
     (case price_by_session (sg_execution_session signal) of
        None \<Rightarrow> Inl (OtherException ''KeyError'')
      | Some market_row \<Rightarrow>
          rbind (price_decimal (mr_reference_open market_row)) (\<lambda>reference_open.
          rbind (price_decimal (mr_close_price market_row)) (\<lambda>close_price.
          rbind (trade_at_open config risk signal reference_open st) (\<lambda>st1.
          mark_to_close config signal close_price st1))))"

definition run_signals ::
  "(date \<Rightarrow> market_row option) \<Rightarrow> backtest_config \<Rightarrow> risk_config \<Rightarrow> signal list \<Rightarrow> run_state \<Rightarrow>
     exn + run_state" where
  "run_signals price_by_session config risk = run_steps (run_signal price_by_session config risk)"

definition run_validated_signal_backtest ::
  "(date \<Rightarrow> market_row option) \<Rightarrow> backtest_config \<Rightarrow> risk_config \<Rightarrow> signal list \<Rightarrow>
     exn + run_state" where
  "run_validated_signal_backtest price_by_session config risk signals =
     run_signals price_by_session config risk signals (initial_run_state config)"

end
