(* ===== verification/Backtest_Runs.thy ===== *)
theory Backtest_Runs
  imports Backtest_Engine Risk_Properties
begin

text \<open>
  The cash requirement of a buy, with every operation rounded, against its exact value: the rounding
  errors that bound the affordable quantity.

  Whole runs of the simulation: the order an iteration makes, what an iteration does to the
  account, the invariant of the loop and the exceptions it can end with. The loop is an instance of
  \<open>raising_loop\<close>, so that every statement about an iteration carries over to a run.
\<close>

section \<open>The affordable quantity\<close>

text \<open>Rounding relative to the value; \<open>unit28\<close> is the relative error of one operation.\<close>

definition unit28 :: rat where
  "unit28 = 1 / (2 * 10 ^ 27)"

lemma unit28_bounds: "0 \<le> unit28" "unit28 \<le> 1"
  by (simp_all add: unit28_def)

lemma dround_between:
  assumes "0 \<le> x"
  shows "x * (1 - unit28) \<le> dround x" "dround x \<le> x * (1 + unit28)"
  using dround_error [of x] assms
  by (auto simp: unit28_def abs_le_iff abs_if field_simps split: if_splits)

lemma dround_within:
  assumes "0 \<le> low" "low \<le> x" "x \<le> high"
  shows "low * (1 - unit28) \<le> dround x" "dround x \<le> high * (1 + unit28)"
proof -
  have x: "0 \<le> x" using assms by simp
  show "low * (1 - unit28) \<le> dround x"
    by (rule order.trans [OF mult_right_mono [OF assms(2)] dround_between(1) [OF x]])
       (use unit28_bounds in simp)
  show "dround x \<le> high * (1 + unit28)"
    by (rule order.trans [OF dround_between(2) [OF x] mult_right_mono [OF assms(3)]])
       (use unit28_bounds in simp)
qed

text \<open>The cash a buy needs is the price per share times the quantity, up to the roundings on the
  way: three in the requirement and two in the price per share.\<close>

lemma requirement_within:
  assumes "0 < q" "0 < r" "0 \<le> c" "0 \<le> s" and x: "x = of_int q * execution_price_of BUY_SIDE r s * (1 + c)"
  shows "x * (1 - unit28) ^ 3 \<le> buy_cash_required q r c s"
    and "buy_cash_required q r c s \<le> x * (1 + unit28) ^ 3"
proof -
  define b n where "b = of_int q * execution_price_of BUY_SIDE r s"
    and "n = execution_notional_of BUY_SIDE q r s"
  have b: "0 \<le> b" using assms by (simp add: b_def execution_price_buy_pos less_imp_le)
  have n: "b * (1 - unit28) \<le> n" "n \<le> b * (1 + unit28)"
    using dround_between [OF b] by (simp_all add: b_def n_def execution_notional_of_def dec_mul_def)
  have n0: "0 \<le> n" using assms execution_price_buy_pos [of r s] by (simp add: n_def notional_nonneg)
  define m where "m = commission_of BUY_SIDE q r c s"
  have m: "n * c * (1 - unit28) \<le> m" "m \<le> n * c * (1 + unit28)"
    using dround_between [of "n * c"] n0 assms
    by (simp_all add: n_def m_def commission_of_def dec_mul_def)
  have nu: "0 \<le> n * unit28" using n0 unit28_bounds by simp
  have "n + m \<le> n * ((1 + c) * (1 + unit28))"
    using m(2) nu by (simp add: algebra_simps)
  also have "\<dots> \<le> b * (1 + unit28) * ((1 + c) * (1 + unit28))"
    using n(2) assms unit28_bounds by (intro mult_right_mono) simp_all
  finally have up: "n + m \<le> x * (1 + unit28) ^ 2" by (simp add: x b_def power2_eq_square mult_ac)
  have "b * (1 - unit28) * ((1 + c) * (1 - unit28)) \<le> n * ((1 + c) * (1 - unit28))"
    using n(1) assms unit28_bounds by (intro mult_right_mono) simp_all
  also have "\<dots> \<le> n + m" using m(1) nu by (simp add: algebra_simps)
  finally have low: "x * (1 - unit28) ^ 2 \<le> n + m" by (simp add: x b_def power2_eq_square mult_ac)
  have "0 \<le> x * (1 - unit28) ^ 2" using b assms unit28_bounds by (simp add: x flip: b_def)
  note dround_within [OF this low up]
  then show "x * (1 - unit28) ^ 3 \<le> buy_cash_required q r c s"
    "buy_cash_required q r c s \<le> x * (1 + unit28) ^ 3"
    by (simp_all add: buy_cash_required_def dec_add_def n_def m_def power3_eq_cube
        power2_eq_square mult_ac)
qed

lemma per_share_within:
  assumes "0 < r" "0 \<le> c" "0 \<le> s" and x: "x = execution_price_of BUY_SIDE r s * (1 + c)"
  shows "x * (1 - unit28) ^ 2 \<le> per_share_cash r c s" "per_share_cash r c s \<le> x * (1 + unit28) ^ 2"
proof -
  let ?e = "execution_price_of BUY_SIDE r s"
  have e: "0 \<le> ?e" using assms by (simp add: execution_price_buy_pos less_imp_le)
  have "?e * ((1 + c) * (1 - unit28)) \<le> ?e * dec_add 1 c" "?e * dec_add 1 c \<le> ?e * ((1 + c) * (1 + unit28))"
    using dround_between [of "1 + c"] assms e by (simp_all add: dec_add_def mult_left_mono)
  moreover have "0 \<le> ?e * ((1 + c) * (1 - unit28))" using e assms unit28_bounds by simp
  ultimately show "x * (1 - unit28) ^ 2 \<le> per_share_cash r c s"
    "per_share_cash r c s \<le> x * (1 + unit28) ^ 2"
    using dround_within [of "?e * ((1 + c) * (1 - unit28))" "?e * dec_add 1 c"
        "?e * ((1 + c) * (1 + unit28))"]
    by (simp_all add: per_share_cash_def dec_mul_def x power2_eq_square mult_ac)
qed

lemma requirement_near_product:
  assumes "0 < q" "0 < r" "0 \<le> c" "0 \<le> s"
  shows "buy_cash_required q r c s \<le> of_int q * per_share_cash r c s * (1 + 1 / 10 ^ 26)"
    and "of_int q * per_share_cash r c s \<le> buy_cash_required q r c s * (1 + 1 / 10 ^ 26)"
proof -
  define y where "y = execution_price_of BUY_SIDE r s * (1 + c)"
  have y: "0 \<le> of_int q * y" using assms by (simp add: y_def execution_price_buy_pos less_imp_le)
  have q: "0 \<le> (of_int q :: rat)" using assms by simp
  note req = requirement_within [OF assms, of "of_int q * y"]
  note per = per_share_within [OF assms(2-4) y_def]
  have "buy_cash_required q r c s \<le> of_int q * y * (1 + unit28) ^ 3"
    using req by (simp add: y_def mult_ac)
  also have "\<dots> \<le> of_int q * y * ((1 - unit28) ^ 2 * (1 + 1 / 10 ^ 26))"
    by (rule mult_left_mono [OF _ y]) (simp add: unit28_def power_divide)
  also have "\<dots> = of_int q * (y * (1 - unit28) ^ 2) * (1 + 1 / 10 ^ 26)" by (simp only: mult.assoc)
  also have "\<dots> \<le> of_int q * per_share_cash r c s * (1 + 1 / 10 ^ 26)"
    by (rule mult_right_mono [OF mult_left_mono [OF per(1) q]]) simp
  finally show "buy_cash_required q r c s \<le> of_int q * per_share_cash r c s * (1 + 1 / 10 ^ 26)" .
  have "of_int q * per_share_cash r c s \<le> of_int q * (y * (1 + unit28) ^ 2)"
    by (rule mult_left_mono [OF per(2) q])
  also have "\<dots> \<le> of_int q * y * ((1 - unit28) ^ 3 * (1 + 1 / 10 ^ 26))"
    unfolding mult.assoc [of "of_int q" y, symmetric]
    by (rule mult_left_mono [OF _ y, folded mult.assoc]) (simp add: unit28_def power_divide)
  also have "\<dots> = of_int q * y * (1 - unit28) ^ 3 * (1 + 1 / 10 ^ 26)" by (simp only: mult.assoc)
  also have "\<dots> \<le> buy_cash_required q r c s * (1 + 1 / 10 ^ 26)"
    by (rule mult_right_mono) (use req in \<open>simp_all add: y_def mult_ac\<close>)
  finally show "of_int q * per_share_cash r c s \<le> buy_cash_required q r c s * (1 + 1 / 10 ^ 26)" .
qed

section \<open>Constructors applied to validated values\<close>

lemma require_decimal_same:
  "require_decimal et neg strict f (PyDecimal (Fin r)) = Inr r' \<Longrightarrow> r' = r"
  by (simp add: require_decimal_PyDecimal split: if_splits)

lemma mk_proposed_order_same: "mk_proposed_order (order_obj p) = Inr p' \<Longrightarrow> p' = p"
  unfolding mk_proposed_order_def
  apply (elim rbind_InrE)
  apply (simp only: order_obj_def raw_order.simps require_positive_int_Inr require_symbol_Inr
      require_order_side_Inr require_plain_date_Inr reject_if_eq_Inr require_target_position_Inr
      require_non_negative_int_Inr pyval.inject sum.inject side_text_inject)
  apply (drule require_decimal_same)+
  apply auto
  done

lemma mk_portfolio_state_same: "mk_portfolio_state (portfolio_obj s) = Inr s' \<Longrightarrow> s' = s"
  unfolding mk_portfolio_state_def
  by (elim rbind_InrE) (auto simp: portfolio_obj_def dest!: require_decimal_same split: if_splits)

lemma mk_fill_same: "mk_fill (fill_obj f) = Inr f' \<Longrightarrow> fi_symbol f = SUPPORTED_SYMBOL \<Longrightarrow> f' = f"
  unfolding mk_fill_def read_fill_def
  apply (elim rbind_InrE)
  apply (simp only: fill_obj_def raw_fill.simps require_int_Inr bt_require_plain_date_Inr
      reject_if_eq_Inr side_of_text option.case pyval.inject sum.inject bt_require_decimal_def)
  apply (drule require_decimal_same)+
  apply (drule check_fill_Inr)
  apply (auto simp: not_not)
  done

section \<open>The order of an iteration\<close>

text \<open>The order the engine makes for a side and a quantity, in the amounts of the risk layer.\<close>

definition engine_order ::
  "int \<Rightarrow> date \<Rightarrow> date \<Rightarrow> int \<Rightarrow> rat \<Rightarrow> rat \<Rightarrow> int \<Rightarrow> rat \<Rightarrow> rat \<Rightarrow> order_side \<Rightarrow> int \<Rightarrow> proposed_order" where
  "engine_order seq sd ed target r cash shares c s side q =
     \<lparr>po_sequence_number = seq, po_symbol = SUPPORTED_SYMBOL, po_side = side, po_quantity = q,
      po_signal_session = sd, po_execution_session = ed, po_target_position = target,
      po_reference_open = r, po_estimated_execution_price = execution_price_of side r s,
      po_estimated_commission = commission_of side q r c s,
      po_estimated_cash_change = cash_change_of side q r c s,
      po_current_cash = cash, po_current_shares = shares\<rparr>"

lemma order_with_estimate_eq:
  assumes "0 < q" "0 < r" "wf_costs costs"
  shows "order_with_estimate seq sd ed target r cash shares costs side q =
    (if execution_price_of side r (slippage_rate costs) \<le> 0
     then Inl (BacktestAccountingError ''non_positive_sell_execution_price'')
     else mk_proposed_order (order_obj (engine_order seq sd ed target r cash shares
            (commission_rate costs) (slippage_rate costs) side q)))"
  by (simp add: order_with_estimate_def estimate_order_cost_eq [OF assms] engine_order_def
      SUPPORTED_SYMBOL_def)

lemma order_with_estimate_Inr:
  assumes "0 < q" "0 < r" "wf_costs costs"
    and "order_with_estimate seq sd ed target r cash shares costs side q = Inr p"
  shows "p = engine_order seq sd ed target r cash shares (commission_rate costs)
      (slippage_rate costs) side q" and "wf_order p"
    and "0 < execution_price_of side r (slippage_rate costs)"
  using assms(4) mk_proposed_order_same mk_proposed_order_wf
  by (auto simp: order_with_estimate_eq [OF assms(1-3)] split: if_splits)

text \<open>An iteration proposes nothing when the position is already the target; otherwise it
  buys from a flat position or sells the whole holding.\<close>

abbreviation order_of :: "backtest_config \<Rightarrow> signal \<Rightarrow> rat \<Rightarrow> run_state \<Rightarrow> order_side \<Rightarrow> int \<Rightarrow> proposed_order" where
  "order_of config sg r st \<equiv> engine_order (rs_next_order_sequence st) (sg_signal_session sg)
     (sg_execution_session sg) (sg_target_position sg) r (rs_cash st) (rs_shares st)
     (commission_rate (bc_cost_assumptions config)) (slippage_rate (bc_cost_assumptions config))"

abbreviation proposal_of :: "backtest_config \<Rightarrow> signal \<Rightarrow> rat \<Rightarrow> run_state \<Rightarrow> exn + proposed_order option" where
  "proposal_of config sg r st \<equiv> propose_order (rs_next_order_sequence st) (sg_signal_session sg)
     (sg_execution_session sg) (sg_target_position sg) r (rs_cash st) (rs_shares st) config"

definition holds_target :: "signal \<Rightarrow> run_state \<Rightarrow> bool" where
  "holds_target sg st \<longleftrightarrow> (if sg_target_position sg = 1 then 0 < rs_shares st else rs_shares st = 0)"

lemma propose_order_cases:
  assumes "proposal_of config sg r st = Inr (Some p)" "0 \<le> rs_shares st"
  shows "\<exists>side q. 0 < q \<and> order_with_estimate (rs_next_order_sequence st)
      (sg_signal_session sg) (sg_execution_session sg) (sg_target_position sg) r (rs_cash st)
      (rs_shares st) (bc_cost_assumptions config) side q = Inr p \<and> \<not> holds_target sg st \<and>
    (side = BUY_SIDE \<longleftrightarrow> sg_target_position sg = 1) \<and>
    (side = BUY_SIDE \<longrightarrow> rs_shares st = 0) \<and> (side = SELL_SIDE \<longrightarrow> q = rs_shares st)"
proof (cases "sg_target_position sg = 1")
  case True
  obtain n where n: "order_with_estimate (rs_next_order_sequence st)
      (sg_signal_session sg) (sg_execution_session sg) (sg_target_position sg) r (rs_cash st)
      (rs_shares st) (bc_cost_assumptions config) BUY_SIDE (if n \<le> 0 then 1 else n) = Inr p"
    and flat: "rs_shares st = 0"
    using assms True by (auto simp: propose_order_def Let_def split: if_splits elim!: rbind_InrE)
  show ?thesis
    by (rule exI [of _ BUY_SIDE], rule exI [of _ "if n \<le> 0 then 1 else n"])
       (use n flat True in \<open>simp add: holds_target_def\<close>)
next
  case False
  then show ?thesis
    using assms
    by (intro exI [of _ SELL_SIDE] exI [of _ "rs_shares st"])
       (auto simp: propose_order_def holds_target_def Let_def split: if_splits elim!: rbind_InrE)
qed

lemma propose_order_Inr:
  assumes "proposal_of config sg r st = Inr (Some p)"
    and "wf_costs (bc_cost_assumptions config)" "0 < r" "0 \<le> rs_shares st"
  shows "\<not> holds_target sg st" and "wf_order p"
    and "p = order_of config sg r st (po_side p) (po_quantity p)"
    and "0 < execution_price_of (po_side p) r (slippage_rate (bc_cost_assumptions config))"
    and "po_side p = BUY_SIDE \<longleftrightarrow> sg_target_position sg = 1"
    and "po_side p = BUY_SIDE \<Longrightarrow> rs_shares st = 0"
    and "po_side p = SELL_SIDE \<Longrightarrow> po_quantity p = rs_shares st"
proof -
  let ?costs = "bc_cost_assumptions config"
  obtain side q where q: "0 < q" and order: "order_with_estimate (rs_next_order_sequence st)
      (sg_signal_session sg) (sg_execution_session sg) (sg_target_position sg) r (rs_cash st)
      (rs_shares st) ?costs side q = Inr p"
    and not: "\<not> holds_target sg st" and side: "side = BUY_SIDE \<longleftrightarrow> sg_target_position sg = 1"
    and flat: "side = BUY_SIDE \<Longrightarrow> rs_shares st = 0" and exit: "side = SELL_SIDE \<Longrightarrow> q = rs_shares st"
    using propose_order_cases [OF assms(1,4)] by blast
  note p = order_with_estimate_Inr [OF q assms(3,2) order]
  have "po_side p = side" "po_quantity p = q" using p(1) by (simp_all add: engine_order_def)
  then show "\<not> holds_target sg st" "wf_order p"
    "p = order_of config sg r st (po_side p) (po_quantity p)"
    "0 < execution_price_of (po_side p) r (slippage_rate ?costs)"
    "po_side p = BUY_SIDE \<longleftrightarrow> sg_target_position sg = 1"
    "po_side p = BUY_SIDE \<Longrightarrow> rs_shares st = 0" "po_side p = SELL_SIDE \<Longrightarrow> po_quantity p = rs_shares st"
    using p not side flat exit by simp_all
qed

lemma propose_order_None:
  assumes "proposal_of config sg r st = Inr None" "0 \<le> rs_shares st"
  shows "holds_target sg st"
  using assms
  by (auto simp: propose_order_def holds_target_def Let_def split: if_splits elim!: rbind_InrE)

section \<open>The fill of an approved order\<close>

definition engine_fill :: "proposed_order \<Rightarrow> rat \<Rightarrow> int \<Rightarrow> rat \<Rightarrow> rat \<Rightarrow> fill_record" where
  "engine_fill p cash shares c s =
     (let e = estimate_of (po_side p) (po_quantity p) (po_reference_open p) c s
      in \<lparr>fi_order_sequence_number = po_sequence_number p, fi_symbol = po_symbol p,
          fi_side = po_side p, fi_quantity = po_quantity p,
          fi_signal_session = po_signal_session p, fi_execution_session = po_execution_session p,
          fi_reference_open = po_reference_open p,
          fi_execution_price = oc_execution_price e,
          fi_reference_notional = oc_reference_notional e,
          fi_execution_notional = oc_execution_notional e,
          fi_commission = oc_commission e, fi_slippage_cost = oc_slippage_cost e,
          fi_total_transaction_cost = oc_total_transaction_cost e,
          fi_cash_change = oc_cash_change e, fi_shares_before = shares,
          fi_shares_after = (if po_side p = BUY_SIDE then shares + po_quantity p
                             else shares - po_quantity p),
          fi_cash_before = cash,
          fi_cash_after = dec_add cash (oc_cash_change e), fi_risk_approved = True\<rparr>)"

lemma fill_from_approved_order_eq:
  assumes "wf_order p" "wf_costs (bc_cost_assumptions config)"
    and "0 < execution_price_of (po_side p) (po_reference_open p)
               (slippage_rate (bc_cost_assumptions config))"
  shows "fill_from_approved_order p cash shares config =
    mk_fill (fill_obj (engine_fill p cash shares (commission_rate (bc_cost_assumptions config))
      (slippage_rate (bc_cost_assumptions config))))"
proof -
  have "0 < po_quantity p" "0 < po_reference_open p" using assms(1) by (simp_all add: wf_order_def)
  then show ?thesis
    using assms by (simp add: fill_from_approved_order_def estimate_order_cost_eq engine_fill_def Let_def)
qed

lemma engine_fill_simps [simp]:
  "fi_order_sequence_number (engine_fill p cash shares c s) = po_sequence_number p"
  "fi_symbol (engine_fill p cash shares c s) = po_symbol p"
  "fi_side (engine_fill p cash shares c s) = po_side p"
  "fi_quantity (engine_fill p cash shares c s) = po_quantity p"
  "fi_shares_before (engine_fill p cash shares c s) = shares"
  "fi_shares_after (engine_fill p cash shares c s) =
     (if po_side p = BUY_SIDE then shares + po_quantity p else shares - po_quantity p)"
  "fi_cash_before (engine_fill p cash shares c s) = cash"
  "fi_cash_change (engine_fill p cash shares c s) =
     cash_change_of (po_side p) (po_quantity p) (po_reference_open p) c s"
  "fi_cash_after (engine_fill p cash shares c s) =
     dec_add cash (cash_change_of (po_side p) (po_quantity p) (po_reference_open p) c s)"
  by (simp_all add: engine_fill_def Let_def)

text \<open>The constructor of the fill record accepts the engine's fill whenever the account stays out of
  debt: none of its accounting identities can fail.\<close>

lemma wf_engine_fill:
  assumes "wf_order p" "po_symbol p = SUPPORTED_SYMBOL" "0 \<le> c" "0 \<le> cash" "0 \<le> shares"
    and price: "0 < execution_price_of (po_side p) (po_reference_open p) s"
    and "po_side p = SELL_SIDE \<Longrightarrow> po_quantity p \<le> shares"
    and "0 \<le> dec_add cash (cash_change_of (po_side p) (po_quantity p) (po_reference_open p) c s)"
  shows "wf_fill (engine_fill p cash shares c s)"
proof -
  let ?e = "estimate_of (po_side p) (po_quantity p) (po_reference_open p) c s"
  have p: "0 < po_quantity p" "0 < po_reference_open p" "0 < po_sequence_number p"
    "po_signal_session p < po_execution_session p"
    using assms(1) by (simp_all add: wf_order_def)
  have e: "0 \<le> oc_reference_notional ?e" "0 \<le> oc_execution_notional ?e" "0 \<le> oc_commission ?e"
    "0 \<le> oc_slippage_cost ?e"
    using p price assms(3) by (simp_all add: dec_mul_nonneg notional_nonneg commission_nonneg)
  then have "0 \<le> oc_total_transaction_cost ?e"
    by (simp add: dec_add_nonneg add_nonneg_nonneg)
  moreover have "check_fill (engine_fill p cash shares c s) = Inr (engine_fill p cash shares c s)"
    using assms(8) unfolding check_fill_def
    by (cases "po_side p") (simp_all add: engine_fill_def Let_def cash_change_of_def
        buy_cash_required_def sell_cash_proceeds_def execution_notional_of_def)
  ultimately show ?thesis
    using e p assms by (cases "po_side p") (simp_all add: wf_fill_def engine_fill_def Let_def)
qed

section \<open>What an iteration does to the account\<close>

lemma record_keys:
  "order_record p = Inr p' \<Longrightarrow> po_sequence_number p' = po_sequence_number p"
  "decision_record d = Inr d' \<Longrightarrow> rd_order_sequence_number d' = rd_order_sequence_number d \<and>
     rd_approved d' = rd_approved d \<and> rd_reason_codes d' = rd_reason_codes d"
  "fill_row f = Inr f' \<Longrightarrow> fi_order_sequence_number f' = fi_order_sequence_number f \<and>
     fi_side f' = fi_side f \<and> fi_quantity f' = fi_quantity f \<and>
     fi_shares_before f' = fi_shares_before f \<and> fi_shares_after f' = fi_shares_after f"
  by (auto simp: order_record_def decision_record_def fill_row_def elim!: rbind_InrE)

lemma decision_sequence:
  assumes "evaluate_order_risk (order_obj p) ps rc costs = Inr d"
  shows "rd_order_sequence_number d = po_sequence_number p"
  using assms by (rule evaluate_order_riskE) (auto simp: order_obj_def)

text \<open>The records that a decided order adds.\<close>

definition with_decision :: "run_state \<Rightarrow> proposed_order \<Rightarrow> risk_decision \<Rightarrow> run_state" where
  "with_decision st order_row decision_row =
     st\<lparr>rs_next_order_sequence := rs_next_order_sequence st + 1,
        rs_proposed_records := rs_proposed_records st @ [order_row],
        rs_decision_records := rs_decision_records st @ [decision_row]\<rparr>"

definition with_fill :: "run_state \<Rightarrow> fill_record \<Rightarrow> fill_record \<Rightarrow> run_state" where
  "with_fill st fill row =
     st\<lparr>rs_cash := fi_cash_after fill, rs_shares := fi_shares_after fill,
        rs_fill_records := rs_fill_records st @ [row]\<rparr>"

lemma trade_at_openE:
  assumes "trade_at_open config risk sg r st = Inr st'"
    and "wf_costs (bc_cost_assumptions config)" "0 < r" "0 \<le> rs_shares st"
  obtains (idle) "holds_target sg st" "st' = st"
  | (rejected) p orow drow where
      "proposal_of config sg r st = Inr (Some p)" "order_record p = Inr orow"
      "rd_order_sequence_number drow = po_sequence_number p" "\<not> rd_approved drow"
      "st' = with_decision st orow drow"
  | (filled) p orow drow fill row where
      "proposal_of config sg r st = Inr (Some p)" "order_record p = Inr orow"
      "rd_order_sequence_number drow = po_sequence_number p" "rd_approved drow"
      "fill = engine_fill p (rs_cash st) (rs_shares st)
         (commission_rate (bc_cost_assumptions config)) (slippage_rate (bc_cost_assumptions config))"
      "wf_fill fill" "fill_row fill = Inr row"
      "st' = with_fill (with_decision st orow drow) fill row"
proof -
  obtain proposal where made: "proposal_of config sg r st = Inr proposal"
    using assms(1) by (auto simp: trade_at_open_def elim: rbind_InrE)
  show thesis
  proof (cases proposal)
    case None
    have "st' = st" using assms(1) made None by (simp add: trade_at_open_def)
    then show thesis by (rule idle [OF propose_order_None [OF made [unfolded None] assms(4)]])
  next
    case (Some p)
    note p = propose_order_Inr [OF made [unfolded Some] assms(2-4)]
    obtain orow os d drow where orow: "order_record p = Inr orow"
      and d: "evaluate_order_risk (order_obj p) (portfolio_obj os) risk
          (costs_obj (bc_cost_assumptions config)) = Inr d"
      and drow: "decision_record d = Inr drow"
      and rest: "(if \<not> rd_approved d then Inr (with_decision st orow drow)
          else rbind (fill_from_approved_order p (rs_cash st) (rs_shares st) config) (\<lambda>fill.
               rbind (fill_row fill) (\<lambda>row.
               Inr (with_fill (with_decision st orow drow) fill row)))) = Inr st'"
      using assms(1) made Some
      by (auto simp: trade_at_open_def with_decision_def with_fill_def Let_def elim!: rbind_InrE
          cong: if_cong)
    have key: "rd_order_sequence_number drow = po_sequence_number p" "rd_approved drow = rd_approved d"
      using record_keys(2) [OF drow] decision_sequence [OF d] by simp_all
    have symbol: "po_symbol p = SUPPORTED_SYMBOL" "po_reference_open p = r"
      by (subst p(3), simp add: engine_order_def)+
    show thesis
    proof (cases "rd_approved d")
      case False
      have "st' = with_decision st orow drow" using rest False by simp
      from rejected [OF made [unfolded Some] orow key(1) _ this] show thesis
        using False key by simp
    next
      case True
      obtain fill row where f: "mk_fill (fill_obj (engine_fill p (rs_cash st) (rs_shares st)
           (commission_rate (bc_cost_assumptions config))
           (slippage_rate (bc_cost_assumptions config)))) = Inr fill"
        "fill_row fill = Inr row" "st' = with_fill (with_decision st orow drow) fill row"
        using rest True p(2,4) symbol
        by (auto simp: fill_from_approved_order_eq [OF p(2) assms(2)] elim!: rbind_InrE)
      show thesis
        using filled [OF made [unfolded Some] orow key(1) _ mk_fill_same [OF f(1)] mk_fill_wf [OF f(1)] f(2,3)]
          symbol True key by simp
    qed
  qed
qed

section \<open>The invariant of the loop\<close>

text \<open>The fills, read as a path of the share count: a buy starts from a flat position, a sell
  closes it.\<close>

fun fills_chain :: "int \<Rightarrow> fill_record list \<Rightarrow> int \<Rightarrow> bool" where
  "fills_chain a [] b \<longleftrightarrow> a = b"
| "fills_chain a (f # fs) b \<longleftrightarrow>
     fi_shares_before f = a \<and> 0 < fi_quantity f \<and>
     (case fi_side f of
        BUY_SIDE \<Rightarrow> a = 0 \<and> fi_shares_after f = fi_quantity f
      | SELL_SIDE \<Rightarrow> a = fi_quantity f \<and> fi_shares_after f = 0) \<and>
     fills_chain (fi_shares_after f) fs b"

lemma fills_chain_snoc:
  "fills_chain a (fs @ [f]) b \<longleftrightarrow>
     fills_chain a fs (fi_shares_before f) \<and> fills_chain (fi_shares_before f) [f] b"
  by (induction fs arbitrary: a) auto

definition run_inv :: "run_state \<Rightarrow> bool" where
  "run_inv st \<longleftrightarrow>
     0 \<le> rs_cash st \<and> 0 \<le> rs_shares st \<and> (0 < rs_cash st \<or> 0 < rs_shares st) \<and>
     0 < rs_previous_equity st \<and> 0 < rs_running_peak st \<and>
     1 \<le> rs_next_order_sequence st \<and>
     map po_sequence_number (rs_proposed_records st) = [1..rs_next_order_sequence st - 1] \<and>
     map rd_order_sequence_number (rs_decision_records st) = [1..rs_next_order_sequence st - 1] \<and>
     map fi_order_sequence_number (rs_fill_records st) =
       map rd_order_sequence_number (filter rd_approved (rs_decision_records st)) \<and>
     fills_chain 0 (rs_fill_records st) (rs_shares st) \<and>
     (\<forall>row \<in> set (rs_portfolio_records st).
        0 \<le> pr_cash row \<and> 0 \<le> pr_shares row \<and> - 1 \<le> pr_drawdown row \<and> pr_drawdown row \<le> 0)"

lemma run_inv_initial: "wf_backtest_config config \<Longrightarrow> run_inv (initial_run_state config)"
  by (simp add: run_inv_def initial_run_state_def wf_backtest_config_def)

text \<open>The fill of the engine leaves money or shares, and continues the path of the share count.\<close>

lemma wf_order_sell: "wf_order p \<Longrightarrow> po_side p = SELL_SIDE \<Longrightarrow> 0 < po_estimated_cash_change p"
  by (simp add: wf_order_def)

lemma engine_fill_path:
  assumes "proposal_of config sg r st = Inr (Some p)" "wf_costs (bc_cost_assumptions config)"
    "0 < r" "0 \<le> rs_shares st" "0 \<le> rs_cash st"
    and fill: "fill = engine_fill p (rs_cash st) (rs_shares st) c s" "wf_fill fill"
    and "c = commission_rate (bc_cost_assumptions config)"
      "s = slippage_rate (bc_cost_assumptions config)"
  shows "0 \<le> fi_cash_after fill" "0 \<le> fi_shares_after fill"
    "0 < fi_cash_after fill \<or> 0 < fi_shares_after fill"
    "fills_chain (rs_shares st) [fill] (fi_shares_after fill)"
    "fi_shares_after fill = (if sg_target_position sg = 1 then fi_quantity fill else 0)"
proof -
  note p = propose_order_Inr [OF assms(1-4)]
  have q: "0 < po_quantity p" using p(2) by (simp add: wf_order_def)
  have est: "po_reference_open p = r" "po_estimated_cash_change p =
      cash_change_of (po_side p) (po_quantity p) r c s"
    by (subst p(3), simp add: engine_order_def assms(8,9))+
  have change: "po_side p = SELL_SIDE \<Longrightarrow>
      0 < cash_change_of (po_side p) (po_quantity p) (po_reference_open p) c s"
    using wf_order_sell [OF p(2)] by (simp add: est)
  show "0 \<le> fi_cash_after fill" "0 \<le> fi_shares_after fill"
    using fill(2) by (simp_all add: wf_fill_def)
  show "0 < fi_cash_after fill \<or> 0 < fi_shares_after fill"
    using p(6) q change assms(5) by (cases "po_side p") (auto simp: fill(1) intro!: dec_add_pos)
  show "fills_chain (rs_shares st) [fill] (fi_shares_after fill)"
    using p(6,7) q by (cases "po_side p") (simp_all add: fill(1))
  show "fi_shares_after fill = (if sg_target_position sg = 1 then fi_quantity fill else 0)"
    using p(5-7) by (cases "po_side p") (simp_all add: fill(1))
qed

lemma trade_keeps:
  assumes "trade_at_open config risk sg r st = Inr st'" "run_inv st"
    "wf_costs (bc_cost_assumptions config)" "0 < r"
  shows "run_inv st'"
proof -
  have inv: "0 \<le> rs_cash st" "0 \<le> rs_shares st" "1 \<le> rs_next_order_sequence st"
    using assms(2) by (simp_all add: run_inv_def)
  have next_id: "[1..rs_next_order_sequence st] =
      [1..rs_next_order_sequence st - 1] @ [rs_next_order_sequence st]"
    using inv(3) by (rule upto_rec2)
  have seq: "po_sequence_number p = rs_next_order_sequence st"
    if "proposal_of config sg r st = Inr (Some p)" for p
    by (subst propose_order_Inr(3) [OF that assms(3,4) inv(2)]) (simp add: engine_order_def)
  show ?thesis
    using assms(1,3,4) inv(2)
  proof (cases rule: trade_at_openE)
    case idle
    then show ?thesis using assms(2) by simp
  next
    case (rejected p orow drow)
    have "po_sequence_number orow = rs_next_order_sequence st"
      "rd_order_sequence_number drow = rs_next_order_sequence st"
      using rejected(2,3) seq [OF rejected(1)] record_keys(1) by simp_all
    then show ?thesis
      using assms(2) next_id rejected(4,5) by (auto simp: run_inv_def with_decision_def)
  next
    case (filled p orow drow fill row)
    have key: "po_sequence_number orow = rs_next_order_sequence st"
      "rd_order_sequence_number drow = rs_next_order_sequence st"
      "fi_order_sequence_number row = rs_next_order_sequence st"
      using filled(2,3,5,7) seq [OF filled(1)] record_keys(1,3) by simp_all
    note path = engine_fill_path [OF filled(1) assms(3,4) inv(2,1) filled(5,6) refl refl]
    have "fills_chain (rs_shares st) [row] (rs_shares st')"
      using path(4) record_keys(3) [OF filled(7)] by (auto simp: filled(8) with_fill_def split: order_side.splits)
    then have "fills_chain 0 (rs_fill_records st @ [row]) (rs_shares st')"
      using assms(2) by (simp add: fills_chain_snoc run_inv_def)
    then show ?thesis
      using assms(2) next_id key filled(4) path(1-3)
      by (auto simp: run_inv_def with_decision_def with_fill_def filled(8))
  qed
qed

lemma equity_pos:
  assumes "run_inv st" "0 < close_price"
  shows "0 < dec_add (rs_cash st) (dec_mul (of_int (rs_shares st)) close_price)"
proof -
  have "0 < rs_cash st \<or> 0 < dec_mul (of_int (rs_shares st)) close_price"
    "0 \<le> rs_cash st" "0 \<le> dec_mul (of_int (rs_shares st)) close_price"
    using assms by (auto simp: run_inv_def intro: dec_mul_pos dec_mul_nonneg)
  then show ?thesis by (auto intro!: dec_add_pos)
qed

lemma drawdown_bounds:
  assumes "0 < equity" "0 < peak" "equity \<le> peak"
  shows "- 1 \<le> dec_sub (dec_div equity peak) 1" "dec_sub (dec_div equity peak) 1 \<le> 0"
proof -
  have "0 \<le> dec_div equity peak" using assms by (simp add: dec_div_nonneg)
  moreover have "dec_div equity peak \<le> 1"
    unfolding dec_div_def by (rule dec.le_fixed) (use assms in simp_all)
  ultimately show "- 1 \<le> dec_sub (dec_div equity peak) 1" "dec_sub (dec_div equity peak) 1 \<le> 0"
    using dec.mono [of "- 1" "dec_div equity peak - 1"]
    by (simp_all add: dec_sub_def dec.nonpos_iff dec.odd dec.one)
qed

lemma mark_to_closeE:
  assumes "mark_to_close config sg close_price st = Inr st'"
  obtains row where
    "st' = st\<lparr>rs_running_peak := max (rs_running_peak st)
                (dec_add (rs_cash st) (dec_mul (of_int (rs_shares st)) close_price)),
              rs_previous_equity := dec_add (rs_cash st) (dec_mul (of_int (rs_shares st)) close_price),
              rs_portfolio_records := rs_portfolio_records st @ [row]\<rparr>"
    "pr_session row = sg_execution_session sg" "pr_target_position row = sg_target_position sg"
    "pr_shares row = rs_shares st" "pr_cash row = float_round (rs_cash st)"
    "pr_drawdown row = float_round (dec_sub (dec_div
       (dec_add (rs_cash st) (dec_mul (of_int (rs_shares st)) close_price))
       (max (rs_running_peak st)
          (dec_add (rs_cash st) (dec_mul (of_int (rs_shares st)) close_price)))) 1)"
  using assms unfolding mark_to_close_def Let_def
  by (elim rbind_InrE) (auto simp: decimal_divide_def split: if_splits
      dest!: decimal_to_float_Inr intro: that)

lemma mark_keeps:
  assumes "mark_to_close config sg close_price st = Inr st'" "run_inv st" "0 < close_price"
  shows "run_inv st'"
proof -
  let ?e = "dec_add (rs_cash st) (dec_mul (of_int (rs_shares st)) close_price)"
  have e: "0 < ?e" by (rule equity_pos [OF assms(2,3)])
  have peak: "0 < max (rs_running_peak st) ?e" using e by simp
  note d = drawdown_bounds [OF e peak max.cobounded2]
  from assms(1) show ?thesis
    by (rule mark_to_closeE)
       (use assms(2) e d in \<open>auto simp: run_inv_def float_round_nonneg
          intro: float_round_ge_minus_one float_round_nonpos\<close>)
qed

end
