(* ===== verification/Backtest_Safety.thy ===== *)
theory Backtest_Safety
  imports Backtest_Runs
begin

text \<open>
  The exceptions of a run and the properties of the simulation. For costs below the whole price
  the risk layer decides every order the engine makes, every sell is approved, and no constructor
  of the accounting layer raises: a run ends only with its result, with a float conversion that
  overflows, or with a quantity of more than 28 digits.
\<close>

section \<open>The engine's order before the risk layer\<close>

definition moderate_costs :: "cost_assumptions \<Rightarrow> bool" where
  "moderate_costs costs \<longleftrightarrow> wf_costs costs \<and>
     ca_commission_bps_per_side costs \<le> 9999 \<and> ca_slippage_bps_per_side costs \<le> 9999"

lemma moderate_rate: "bps \<le> 9999 \<Longrightarrow> dec_div bps 10000 \<le> 9999 / 10000"
  unfolding dec_div_def by (rule dec.le_fixed) (simp_all add: dround_numeral_frac)

lemma moderate_rates:
  assumes "moderate_costs costs"
  shows "commission_rate costs \<le> 9999 / 10000" "slippage_rate costs \<le> 9999 / 10000"
    "wf_costs costs"
  using assms by (auto simp only: moderate_costs_def commission_rate_def slippage_rate_def
      intro!: moderate_rate)

lemma moderate_price_pos:
  assumes "0 < r" "0 \<le> s" "s \<le> 9999 / 10000"
  shows "0 < execution_price_of side r s"
proof (cases side)
  case SELL_SIDE
  have "0 < dec_sub 1 s" using assms by (simp add: dec_sub_pos_iff)
  then show ?thesis using SELL_SIDE assms by (simp add: execution_price_of_def dec_mul_pos)
qed (use assms execution_price_buy_pos in simp)

lemma moderate_proceeds_pos:
  assumes "0 < q" "0 < r" "0 \<le> c" "c \<le> 9999 / 10000" "0 \<le> s" "s \<le> 9999 / 10000"
  shows "0 < sell_cash_proceeds q r c s"
proof -
  define n where "n = execution_notional_of SELL_SIDE q r s"
  have n: "0 < n" using assms moderate_price_pos [of r s SELL_SIDE]
    by (simp add: n_def execution_notional_of_def dec_mul_pos)
  have "dec_mul n c \<le> n * c * (1 + unit28)"
    using dround_between(2) [of "n * c"] n assms by (simp add: dec_mul_def)
  also have "\<dots> \<le> n * (9999 / 10000) * (1 + unit28)"
    using n assms unit28_bounds by (intro mult_right_mono mult_left_mono) simp_all
  also have "\<dots> < n" using n by (simp add: unit28_def)
  finally show ?thesis by (simp add: sell_cash_proceeds_def commission_of_def dec_sub_pos_iff n_def)
qed

lemma wf_engine_order:
  assumes "0 < seq" "sd < ed" "0 < r" "0 \<le> cash" "0 \<le> shares" "0 < q" "moderate_costs costs"
    "target = (case side of BUY_SIDE \<Rightarrow> 1 | SELL_SIDE \<Rightarrow> 0)"
  shows "wf_order (engine_order seq sd ed target r cash shares (commission_rate costs)
    (slippage_rate costs) side q)"
proof -
  note m = moderate_rates [OF assms(7)]
  have price: "0 < execution_price_of side r (slippage_rate costs)"
    using moderate_price_pos assms m by simp
  have "0 \<le> commission_of side q r (commission_rate costs) (slippage_rate costs)"
    using commission_nonneg price assms m by simp
  moreover have "case side of
      BUY_SIDE \<Rightarrow> cash_change_of side q r (commission_rate costs) (slippage_rate costs) < 0
    | SELL_SIDE \<Rightarrow> 0 < cash_change_of side q r (commission_rate costs) (slippage_rate costs)"
    using buy_cash_required_pos [of q r "commission_rate costs" "slippage_rate costs"]
      moderate_proceeds_pos [of q r "commission_rate costs" "slippage_rate costs"] assms m
    by (cases side) (simp_all add: cash_change_of_def)
  ultimately show ?thesis
    using assms price
    by (cases side) (simp_all add: wf_order_def engine_order_def SUPPORTED_SYMBOL_def)
qed

lemma order_with_estimate_moderate:
  assumes "0 < seq" "sd < ed" "0 < r" "0 \<le> cash" "0 \<le> shares" "0 < q" "moderate_costs costs"
    "target = (case side of BUY_SIDE \<Rightarrow> 1 | SELL_SIDE \<Rightarrow> 0)"
  shows "order_with_estimate seq sd ed target r cash shares costs side q =
    Inr (engine_order seq sd ed target r cash shares (commission_rate costs) (slippage_rate costs) side q)"
proof -
  note m = moderate_rates [OF assms(7)]
  have "0 < execution_price_of side r (slippage_rate costs)"
    using moderate_price_pos assms m by simp
  then show ?thesis
    using assms m wf_engine_order [OF assms]
    by (simp add: order_with_estimate_eq mk_proposed_order_obj)
qed

text \<open>The risk layer approves the engine's order exactly when the account can pay it: it never
  disagrees with the engine's cost estimate, and a full exit is always approved.\<close>

lemma costs_obj_decimal:
  "costs_obj c = decimal_costs (ca_commission_bps_per_side c) (ca_slippage_bps_per_side c)"
  by (simp add: costs_obj_def decimal_costs_def)

lemma open_state:
  assumes "0 < r" "0 \<le> cash" "0 \<le> shares"
  obtains os where "portfolio_state_at ed cash shares r = Inr os" "wf_portfolio os"
    "ps_cash os = cash" "ps_shares os = shares"
proof -
  let ?os = "\<lparr>ps_session = ed, ps_cash = cash, ps_shares = shares, ps_reference_price = r,
     ps_market_value = dec_mul (of_int shares) r, ps_equity = dec_add cash (dec_mul (of_int shares) r)\<rparr>"
  have mv: "0 \<le> dec_mul (of_int shares) r" using assms by (simp add: dec_mul_nonneg)
  then have "0 \<le> dec_add cash (dec_mul (of_int shares) r)" using assms by (simp add: dec_add_nonneg)
  with mv have wf: "wf_portfolio ?os" using assms by (simp add: wf_portfolio_def)
  from mk_portfolio_state_obj [OF this] have "portfolio_state_at ed cash shares r = Inr ?os"
    by (simp add: portfolio_state_at_def Let_def)
  then show thesis by (rule that [OF _ wf]) simp_all
qed

lemma engine_order_decided:
  assumes "wf_order p" "wf_portfolio os" "wf_costs costs"
    and p: "p = engine_order seq sd ed target r (ps_cash os) (ps_shares os)
           (commission_rate costs) (slippage_rate costs) side q"
  obtains d where "evaluate_order_risk (order_obj p) (portfolio_obj os) default_risk_config
      (costs_obj costs) = Inr d"
    "rd_approved d \<longleftrightarrow> (case side of
        BUY_SIDE \<Rightarrow> ps_shares os = 0 \<and>
          buy_cash_required q r (commission_rate costs) (slippage_rate costs) \<le> ps_cash os
      | SELL_SIDE \<Rightarrow> q = ps_shares os)"
proof -
  have bps: "0 \<le> ca_commission_bps_per_side costs" "0 \<le> ca_slippage_bps_per_side costs"
    using assms(3) by (simp_all add: wf_costs_def)
  obtain d where d: "risk_outcome (commission_rate costs) (slippage_rate costs) os p = Inr d"
    "rd_approved d \<longleftrightarrow> order_permitted (commission_rate costs) (slippage_rate costs) os p"
    using risk_outcome_decides [OF assms(1,2)] assms(3) by (metis cost_rates_nonneg)
  show thesis
  proof (rule that)
    show "evaluate_order_risk (order_obj p) (portfolio_obj os) default_risk_config
        (costs_obj costs) = Inr d"
      using d(1) evaluate_validated [OF assms(1,2) bps]
      by (simp add: costs_obj_decimal commission_rate_def slippage_rate_def)
  qed (unfold d(2), simp add: order_permitted_def p engine_order_def)
qed

section \<open>An iteration under moderate costs\<close>

definition run_failure :: "exn \<Rightarrow> bool" where
  "run_failure e \<longleftrightarrow> e = BacktestAccountingError ''non_finite_float_conversion'' \<or>
     e = DecimalInvalidOperation"

definition valid_signal :: "signal \<Rightarrow> bool" where
  "valid_signal sg \<longleftrightarrow> sg_signal_session sg < sg_execution_session sg \<and>
     (sg_target_position sg = 0 \<or> sg_target_position sg = 1)"

text \<open>The price rows a run reads: floats whose printed form is a positive decimal.\<close>

definition positive_price :: "pyval \<Rightarrow> bool" where
  "positive_price v \<longleftrightarrow> (\<exists>r. decimal_of v = Some (Fin r) \<and> 0 < r)"

definition priced_signal :: "(date \<Rightarrow> market_row option) \<Rightarrow> signal \<Rightarrow> bool" where
  "priced_signal prices sg \<longleftrightarrow> valid_signal sg \<and>
     (\<exists>row. prices (sg_execution_session sg) = Some row \<and>
        positive_price (mr_reference_open row) \<and> positive_price (mr_close_price row))"

lemma records_fail:
  "order_record p = Inl e \<Longrightarrow> run_failure e"
  "decision_record d = Inl e \<Longrightarrow> run_failure e"
  "fill_row f = Inl e \<Longrightarrow> run_failure e"
  by (auto simp: run_failure_def order_record_def decision_record_def fill_row_def
      rbind_eq_Inl_iff dest: decimal_to_float_Inl)

text \<open>What the engine proposes: the order to reach the target, when it is not held.\<close>

lemma propose_order_total:
  assumes "run_inv st" "valid_signal sg" "0 < r" "moderate_costs (bc_cost_assumptions config)"
  shows "proposal_of config sg r st = Inl DecimalInvalidOperation \<or>
    proposal_of config sg r st = Inr None \<and> holds_target sg st \<or>
    (\<exists>n. sg_target_position sg = 1 \<and> rs_shares st = 0 \<and>
       maximum_affordable_buy_quantity (PyDecimal (Fin (rs_cash st))) (PyDecimal (Fin r))
         (costs_obj (bc_cost_assumptions config)) = Inr n \<and>
       proposal_of config sg r st = Inr (Some (order_of config sg r st BUY_SIDE (max 1 n)))) \<or>
    sg_target_position sg = 0 \<and> 0 < rs_shares st \<and>
      proposal_of config sg r st = Inr (Some (order_of config sg r st SELL_SIDE (rs_shares st)))"
proof -
  let ?costs = "bc_cost_assumptions config"
  have inv: "0 < rs_next_order_sequence st" "0 \<le> rs_cash st" "0 \<le> rs_shares st"
    using assms(1) by (simp_all add: run_inv_def)
  note order = order_with_estimate_moderate [OF inv(1) _ assms(3) inv(2,3) _ assms(4)]
  have sessions: "sg_signal_session sg < sg_execution_session sg"
    and target: "sg_target_position sg = 0 \<or> sg_target_position sg = 1"
    using assms(2) by (simp_all add: valid_signal_def)
  consider "holds_target sg st" | "sg_target_position sg = 1" "rs_shares st = 0"
    | "sg_target_position sg = 0" "0 < rs_shares st"
    using target inv(3) by (force simp: holds_target_def)
  then show ?thesis
  proof cases
    case 1
    then have "proposal_of config sg r st = Inr None"
      using target by (auto simp: propose_order_def holds_target_def Let_def)
    with 1 show ?thesis by simp
  next
    case 2
    note max = maximum_affordable_eq [OF inv(2) assms(3) moderate_rates(3) [OF assms(4)]]
    show ?thesis
    proof (cases "maximum_affordable_buy_quantity (PyDecimal (Fin (rs_cash st)))
        (PyDecimal (Fin r)) (costs_obj ?costs)")
      case (Inl e)
      then have "e = DecimalInvalidOperation" using max by (simp add: Let_def split: if_splits)
      then show ?thesis using 2 Inl by (simp add: propose_order_def)
    next
      case (Inr n)
      have "(if n \<le> 0 then 1 else n) = max 1 n" by simp
      then have "proposal_of config sg r st = Inr (Some (order_of config sg r st BUY_SIDE (max 1 n)))"
        using 2 Inr order [OF sessions, of "max 1 n" _ BUY_SIDE] by (simp add: propose_order_def Let_def)
      with 2 Inr show ?thesis by blast
    qed
  next
    case 3
    then have "proposal_of config sg r st =
        Inr (Some (order_of config sg r st SELL_SIDE (rs_shares st)))"
      using order [OF sessions, of "rs_shares st" _ SELL_SIDE] by (simp add: propose_order_def Let_def)
    with 3 show ?thesis by blast
  qed
qed

text \<open>Whether the account can pay the order.\<close>

definition payable :: "cost_assumptions \<Rightarrow> rat \<Rightarrow> run_state \<Rightarrow> proposed_order \<Rightarrow> bool" where
  "payable costs r st p \<longleftrightarrow>
     (po_side p = BUY_SIDE \<longrightarrow>
        buy_cash_required (po_quantity p) r (commission_rate costs) (slippage_rate costs) \<le> rs_cash st)"

text \<open>An order that is made is decided; it is filled exactly when it is payable.\<close>

lemma trade_decided:
  assumes "run_inv st" "valid_signal sg" "0 < r" "moderate_costs (bc_cost_assumptions config)"
    and made: "proposal_of config sg r st = Inr (Some p)"
    and "trade_at_open config default_risk_config sg r st = res"
  shows "(\<exists>e. res = Inl e \<and> run_failure e) \<or>
    (\<exists>orow drow. res = Inr (with_decision st orow drow) \<and> \<not> payable (bc_cost_assumptions config) r st p) \<or>
    (\<exists>orow drow fill row. res = Inr (with_fill (with_decision st orow drow) fill row) \<and>
       payable (bc_cost_assumptions config) r st p \<and>
       fill = engine_fill p (rs_cash st) (rs_shares st) (commission_rate (bc_cost_assumptions config))
         (slippage_rate (bc_cost_assumptions config)))"
proof -
  let ?costs = "bc_cost_assumptions config"
  let ?c = "commission_rate ?costs" and ?s = "slippage_rate ?costs"
  have inv: "0 \<le> rs_cash st" "0 \<le> rs_shares st" using assms(1) by (simp_all add: run_inv_def)
  note m = moderate_rates [OF assms(4)]
  note p = propose_order_Inr [OF made m(3) assms(3) inv(2)]
  have pf: "po_symbol p = SUPPORTED_SYMBOL" "po_reference_open p = r"
    by (subst p(3), simp add: engine_order_def)+
  obtain os where os: "portfolio_state_at (sg_execution_session sg) (rs_cash st) (rs_shares st) r = Inr os"
    "wf_portfolio os" "ps_cash os = rs_cash st" "ps_shares os = rs_shares st"
    by (rule open_state [OF assms(3) inv])
  obtain d where d: "evaluate_order_risk (order_obj p) (portfolio_obj os) default_risk_config
      (costs_obj ?costs) = Inr d"
    "rd_approved d \<longleftrightarrow> (case po_side p of
        BUY_SIDE \<Rightarrow> ps_shares os = 0 \<and> buy_cash_required (po_quantity p) r ?c ?s \<le> ps_cash os
      | SELL_SIDE \<Rightarrow> po_quantity p = ps_shares os)"
    by (rule engine_order_decided [OF p(2) os(2) m(3), of "rs_next_order_sequence st"
        "sg_signal_session sg" "sg_execution_session sg" "sg_target_position sg" r "po_side p"
        "po_quantity p"]) (simp only: os(3,4) p(3) [symmetric])
  have approved: "rd_approved d \<longleftrightarrow> payable ?costs r st p"
    using d(2) p(6,7) os by (cases "po_side p") (auto simp: payable_def)
  let ?fill = "engine_fill p (rs_cash st) (rs_shares st) ?c ?s"
  have fill: "fill_from_approved_order p (rs_cash st) (rs_shares st) config = Inr ?fill"
    if "payable ?costs r st p"
  proof -
    have "0 \<le> dec_add (rs_cash st) (cash_change_of (po_side p) (po_quantity p) r ?c ?s)"
      using that inv p(7) moderate_proceeds_pos [of "po_quantity p" r ?c ?s] m p(2) assms(3)
      by (cases "po_side p")
         (auto intro!: dec_add_nonneg simp: payable_def cash_change_of_def wf_order_def)
    then have "wf_fill ?fill"
      using p(2,4,7) pf inv m by (intro wf_engine_fill) simp_all
    then show ?thesis
      using p(2,4) m(3) pf by (simp add: fill_from_approved_order_eq mk_fill_obj)
  qed
  have run: "trade_at_open config default_risk_config sg r st =
      rbind (order_record p) (\<lambda>orow. rbind (decision_record d) (\<lambda>drow.
        if \<not> payable ?costs r st p then Inr (with_decision st orow drow)
        else rbind (fill_row ?fill) (\<lambda>row. Inr (with_fill (with_decision st orow drow) ?fill row))))"
    by (cases "payable ?costs r st p")
       (simp_all add: trade_at_open_def made os d(1) approved fill Let_def
          with_decision_def with_fill_def)
  show ?thesis
  proof (cases "order_record p")
    case (Inl e)
    then show ?thesis using records_fail(1) by (simp add: assms(6) [symmetric] run)
  next
    case orow: (Inr orow)
    show ?thesis
    proof (cases "decision_record d")
      case (Inl e)
      then show ?thesis using orow records_fail(2) by (simp add: assms(6) [symmetric] run)
    next
      case drow: (Inr drow)
      show ?thesis
        by (cases "payable ?costs r st p"; cases "fill_row ?fill")
           (use orow drow records_fail(3) in \<open>simp_all add: assms(6) [symmetric] run\<close>, blast+)
    qed
  qed
qed

lemma mark_total:
  assumes "run_inv st" "0 < close_price" "mark_to_close config sg close_price st = Inl e"
    "wf_backtest_config config"
  shows "run_failure e"
proof -
  let ?e = "dec_add (rs_cash st) (dec_mul (of_int (rs_shares st)) close_price)"
  have "0 < ?e" by (rule equity_pos [OF assms(1,2)])
  then have "max (rs_running_peak st) ?e \<noteq> 0" "rs_previous_equity st \<noteq> 0" "bc_initial_cash config \<noteq> 0"
    using assms(1,4) by (auto simp: run_inv_def wf_backtest_config_def max_def)
  then show ?thesis
    using assms(3) unfolding mark_to_close_def Let_def run_failure_def
    by (auto simp: rbind_eq_Inl_iff decimal_divide_def split: if_splits dest!: decimal_to_float_Inl)
qed

lemma run_signalE:
  assumes "run_signal prices config risk sg st = res" "priced_signal prices sg"
  obtains r cp where "0 < r" "0 < cp"
    "res = rbind (trade_at_open config risk sg r st) (mark_to_close config sg cp)"
    "\<And>row. prices (sg_execution_session sg) = Some row \<Longrightarrow>
       decimal_of (mr_reference_open row) = Some (Fin r)"
  using assms by (auto simp: run_signal_def priced_signal_def positive_price_def price_decimal_def)

text \<open>The loop of the simulation keeps the invariant, whatever the risk configuration; with
  moderate costs and the default risk configuration it ends only with a \<open>run_failure\<close>.\<close>

interpretation accounting: raising_loop "run_signal prices config risk"
    "\<lambda>sg. priced_signal prices sg \<and> wf_backtest_config config" run_inv "\<lambda>_. True"
  for prices config risk
proof
  fix sg st st'
  assume ok: "priced_signal prices sg \<and> wf_backtest_config config" and inv: "run_inv st"
    and run: "run_signal prices config risk sg st = Inr st'"
  then have "priced_signal prices sg" and wf: "wf_costs (bc_cost_assumptions config)"
    by (simp_all add: wf_backtest_config_def)
  from run this(1) show "run_inv st'"
  proof (rule run_signalE)
    fix r cp
    assume pos: "0 < r" "0 < cp" and "Inr st' = rbind (trade_at_open config risk sg r st)
        (mark_to_close config sg cp)"
    then obtain st1 where "trade_at_open config risk sg r st = Inr st1"
      "mark_to_close config sg cp st1 = Inr st'" by (metis rbind_InrE)
    then show ?thesis using mark_keeps [OF _ trade_keeps [OF _ inv wf pos(1)] pos(2)] by blast
  qed
qed simp

lemma trade_raises:
  assumes "run_inv st" "valid_signal sg" "0 < r" "moderate_costs (bc_cost_assumptions config)"
    "trade_at_open config default_risk_config sg r st = Inl e"
  shows "run_failure e"
  using propose_order_total [OF assms(1-4)]
proof (elim disjE conjE exE)
  assume "proposal_of config sg r st = Inl DecimalInvalidOperation"
  then show ?thesis using assms(5) by (simp add: trade_at_open_def run_failure_def)
next
  assume "proposal_of config sg r st = Inr None"
  then show ?thesis using assms(5) by (simp add: trade_at_open_def)
next
  fix n
  assume "proposal_of config sg r st = Inr (Some (order_of config sg r st BUY_SIDE (max 1 n)))"
  from trade_decided [OF assms(1-4) this assms(5)] show ?thesis by auto
next
  assume "proposal_of config sg r st = Inr (Some (order_of config sg r st SELL_SIDE (rs_shares st)))"
  from trade_decided [OF assms(1-4) this assms(5)] show ?thesis by auto
qed

interpretation simulation: raising_loop "run_signal prices config default_risk_config"
    "\<lambda>sg. priced_signal prices sg \<and> wf_backtest_config config \<and>
       moderate_costs (bc_cost_assumptions config)" run_inv run_failure
  for prices config
proof
  fix sg st st'
  assume "priced_signal prices sg \<and> wf_backtest_config config \<and>
      moderate_costs (bc_cost_assumptions config)" "run_inv st"
    "run_signal prices config default_risk_config sg st = Inr st'"
  then show "run_inv st'" using accounting.step_keeps by blast
next
  fix sg st e
  assume ok: "priced_signal prices sg \<and> wf_backtest_config config \<and>
      moderate_costs (bc_cost_assumptions config)" and inv: "run_inv st"
    and run: "run_signal prices config default_risk_config sg st = Inl e"
  then have sg: "priced_signal prices sg" "valid_signal sg" by (simp_all add: priced_signal_def)
  show "run_failure e"
  proof (rule run_signalE [OF run sg(1)])
    fix r cp
    assume pos: "0 < r" "0 < cp"
      and res: "Inl e = rbind (trade_at_open config default_risk_config sg r st)
          (mark_to_close config sg cp)"
    show ?thesis
    proof (cases "trade_at_open config default_risk_config sg r st")
      case (Inl e')
      then show ?thesis using trade_raises [OF inv sg(2) pos(1) _ Inl] ok res by simp
    next
      case (Inr st1)
      then have "run_inv st1"
        using trade_keeps [OF Inr inv _ pos(1)] ok by (simp add: wf_backtest_config_def)
      then show ?thesis using mark_total [OF _ pos(2)] Inr ok res by simp
    qed
  qed
qed

section \<open>The position follows the signals\<close>

definition follows_signal ::
  "(date \<Rightarrow> market_row option) \<Rightarrow> cost_assumptions \<Rightarrow> signal \<Rightarrow> run_state \<Rightarrow> bool" where
  "follows_signal prices costs sg st \<longleftrightarrow>
     (sg_target_position sg = 0 \<longrightarrow> rs_shares st = 0) \<and>
     (sg_target_position sg = 1 \<longrightarrow> 0 < rs_shares st \<or>
        (\<exists>row r n. prices (sg_execution_session sg) = Some row \<and>
           decimal_of (mr_reference_open row) = Some (Fin r) \<and>
           maximum_affordable_buy_quantity (PyDecimal (Fin (rs_cash st))) (PyDecimal (Fin r))
             (costs_obj costs) = Inr n \<and>
           rs_cash st < buy_cash_required (max 1 n) r (commission_rate costs) (slippage_rate costs)))"

lemma mark_keeps_account:
  "mark_to_close config sg cp st = Inr st' \<Longrightarrow> rs_cash st' = rs_cash st \<and> rs_shares st' = rs_shares st"
  by (erule mark_to_closeE) simp

lemma trade_follows:
  assumes "run_inv st" "valid_signal sg" "0 < r" "moderate_costs (bc_cost_assumptions config)"
    and run: "trade_at_open config default_risk_config sg r st = Inr st'"
    and row: "prices (sg_execution_session sg) = Some row"
      "decimal_of (mr_reference_open row) = Some (Fin r)"
  shows "follows_signal prices (bc_cost_assumptions config) sg st'"
  using propose_order_total [OF assms(1-4)]
proof (elim disjE conjE exE)
  assume "proposal_of config sg r st = Inl DecimalInvalidOperation"
  then show ?thesis using run by (simp add: trade_at_open_def)
next
  assume "proposal_of config sg r st = Inr None" "holds_target sg st"
  then show ?thesis
    using run by (auto simp: trade_at_open_def follows_signal_def holds_target_def)
next
  fix n
  let ?p = "order_of config sg r st BUY_SIDE (max 1 n)"
  assume target: "sg_target_position sg = 1" and flat: "rs_shares st = 0"
    and n: "maximum_affordable_buy_quantity (PyDecimal (Fin (rs_cash st))) (PyDecimal (Fin r))
         (costs_obj (bc_cost_assumptions config)) = Inr n"
    and made: "proposal_of config sg r st = Inr (Some ?p)"
  from trade_decided [OF assms(1-4) made run] target flat n row show ?thesis
    by (auto simp: with_decision_def with_fill_def payable_def follows_signal_def
        engine_order_def not_le)
next
  let ?p = "order_of config sg r st SELL_SIDE (rs_shares st)"
  assume target: "sg_target_position sg = 0"
    and made: "proposal_of config sg r st = Inr (Some ?p)"
  from trade_decided [OF assms(1-4) made run] target show ?thesis
    by (auto simp: with_fill_def payable_def follows_signal_def engine_order_def)
qed

lemma signal_followed:
  assumes "run_signal prices config default_risk_config sg st = Inr st'" "run_inv st"
    "priced_signal prices sg" "moderate_costs (bc_cost_assumptions config)"
  shows "follows_signal prices (bc_cost_assumptions config) sg st'"
  using assms(1,3)
proof (rule run_signalE)
  fix r cp
  assume r: "0 < r" and run: "Inr st' = rbind (trade_at_open config default_risk_config sg r st)
      (mark_to_close config sg cp)"
    and price: "\<And>row. prices (sg_execution_session sg) = Some row \<Longrightarrow>
       decimal_of (mr_reference_open row) = Some (Fin r)"
  from run obtain st1 where st1: "trade_at_open config default_risk_config sg r st = Inr st1"
    "mark_to_close config sg cp st1 = Inr st'" by (metis rbind_InrE)
  obtain row where row: "prices (sg_execution_session sg) = Some row" and sg: "valid_signal sg"
    using assms(3) by (auto simp: priced_signal_def)
  from trade_follows [OF assms(2) sg r assms(4) st1(1), of prices row, OF row price [OF row]]
  show ?thesis using mark_keeps_account [OF st1(2)] by (simp add: follows_signal_def)
qed

section \<open>Properties of the simulation\<close>

text \<open>C29: whatever the signals and the risk configuration, on positive prices a finished run never
  owes cash or shares: cash and shares are not negative, every order was numbered and decided once, in order, exactly the
  approved orders were filled, the fills alternate between a buy from a flat position and the sale
  of the whole holding, and every reported drawdown lies between -1 and 0.\<close>

theorem simulation_account_invariant:
  assumes "run_validated_signal_backtest prices config risk signals = Inr st"
    and "list_all (priced_signal prices) signals" and "wf_backtest_config config"
  shows "0 \<le> rs_cash st \<and> 0 \<le> rs_shares st \<and>
     (let n = rs_next_order_sequence st - 1
      in map po_sequence_number (rs_proposed_records st) = [1..n] \<and>
         map rd_order_sequence_number (rs_decision_records st) = [1..n]) \<and>
     map fi_order_sequence_number (rs_fill_records st) =
       map rd_order_sequence_number (filter rd_approved (rs_decision_records st)) \<and>
     fills_chain 0 (rs_fill_records st) (rs_shares st) \<and>
     (\<forall>row \<in> set (rs_portfolio_records st). - 1 \<le> pr_drawdown row \<and> pr_drawdown row \<le> 0)"
proof -
  have "run_inv st"
    using accounting.steps_keep [of prices config signals "initial_run_state config" risk st] assms
    by (simp add: run_inv_initial run_validated_signal_backtest_def run_signals_def list_all_iff)
  then show ?thesis by (simp add: run_inv_def Let_def)
qed

text \<open>C30: with costs of at most 9999 basis points per side, on positive prices and under the default
  risk configuration, a run raises nothing but the refusal of a value too large for a float or of a
  quantity too large for a decimal division. In particular no constructor of the accounting layer and
  no check of the risk layer can raise on what the engine hands it.\<close>

theorem simulation_raises_only_overflow:
  assumes "run_validated_signal_backtest prices config default_risk_config signals = Inl e"
    and "list_all (priced_signal prices) signals" and "wf_backtest_config config"
    and "moderate_costs (bc_cost_assumptions config)"
  shows "e = BacktestAccountingError ''non_finite_float_conversion'' \<or> e = DecimalInvalidOperation"
  using simulation.steps_raise [of prices config signals "initial_run_state config" e] assms
  by (simp add: run_inv_initial run_validated_signal_backtest_def run_signals_def list_all_iff
      run_failure_def)

text \<open>C34: under the same conditions the account does what the last signal says. A signal for cash leaves
  no share behind: the sale of the whole holding is always approved and filled. A signal for the long
  position leaves shares, unless the cash does not cover the costs of the quantity the engine asks
  for.\<close>

theorem simulation_follows_signals:
  assumes "run_validated_signal_backtest prices config default_risk_config (signals @ [sg]) = Inr st"
    and "list_all (priced_signal prices) (signals @ [sg])" and "wf_backtest_config config"
    and "moderate_costs (bc_cost_assumptions config)"
  shows "follows_signal prices (bc_cost_assumptions config) sg st"
proof -
  obtain st1 where st1: "run_steps (run_signal prices config default_risk_config) signals
      (initial_run_state config) = Inr st1"
    and last: "run_signal prices config default_risk_config sg st1 = Inr st"
    using assms(1) by (auto simp: run_validated_signal_backtest_def run_signals_def
        run_steps_append elim!: rbind_InrE)
  have "run_inv st1"
    using accounting.steps_keep [OF _ run_inv_initial st1] assms(2,3) by (simp add: list_all_iff)
  then show ?thesis using signal_followed [OF last] assms(2,4) by simp
qed

text \<open>C39: the cost estimate of the simulation and the independent recomputation of the risk layer never
  disagree: an order built from the estimate is always decided, and it is approved exactly when it
  is a buy from a flat position that the cash covers or the sale of the whole holding.\<close>

theorem engine_order_approved_iff_payable:
  assumes "order_with_estimate seq sd ed target r cash shares costs side q = Inr p"
    and "portfolio_state_at ed cash shares r = Inr os" and "wf_costs costs" and "0 < q"
  shows "\<exists>d. evaluate_order_risk (order_obj p) (portfolio_obj os) default_risk_config
       (costs_obj costs) = Inr d \<and>
     (rd_approved d \<longleftrightarrow> (case side of
        BUY_SIDE \<Rightarrow> shares = 0 \<and>
          buy_cash_required q r (commission_rate costs) (slippage_rate costs) \<le> cash
      | SELL_SIDE \<Rightarrow> q = shares))"
proof -
  have os: "wf_portfolio os" "os = \<lparr>ps_session = ed, ps_cash = cash, ps_shares = shares,
      ps_reference_price = r, ps_market_value = dec_mul (of_int shares) r,
      ps_equity = dec_add cash (dec_mul (of_int shares) r)\<rparr>"
    using mk_portfolio_state_wf mk_portfolio_state_same assms(2)
    by (auto simp: portfolio_state_at_def Let_def)
  then have r: "0 < r" by (simp add: wf_portfolio_def)
  note p = order_with_estimate_Inr [OF assms(4) r assms(3,1)]
  have account: "ps_cash os = cash" "ps_shares os = shares" by (simp_all add: os(2))
  obtain d where "evaluate_order_risk (order_obj p) (portfolio_obj os) default_risk_config
      (costs_obj costs) = Inr d"
    "rd_approved d \<longleftrightarrow> (case side of
        BUY_SIDE \<Rightarrow> ps_shares os = 0 \<and>
          buy_cash_required q r (commission_rate costs) (slippage_rate costs) \<le> ps_cash os
      | SELL_SIDE \<Rightarrow> q = ps_shares os)"
    by (rule engine_order_decided [OF p(2) os(1) assms(3), of seq sd ed target r side q])
       (simp_all only: account p(1))
  then show ?thesis unfolding account by blast
qed

text \<open>C40: \<^verbatim>\<open>maximum_affordable_buy_quantity\<close> is the largest quantity whose cost at the rounded price
  per share the cash covers; the requirement the risk layer computes for it exceeds the cash by at
  most one part in \<open>10 ^ 26\<close>, and the requirement for one share more is not below the cash by more
  than that.\<close>

theorem affordable_quantity_tight:
  assumes "maximum_affordable_buy_quantity (PyDecimal (Fin cash)) (PyDecimal (Fin r))
      (costs_obj costs) = Inr n"
    and "0 \<le> cash" and "0 < r" and "wf_costs costs"
  shows "let c = commission_rate costs; s = slippage_rate costs; p = per_share_cash r c s
     in 0 \<le> n \<and> of_int n * p \<le> cash \<and> cash < of_int (n + 1) * p \<and>
        (0 < n \<longrightarrow> buy_cash_required n r c s \<le> cash * (1 + 1 / 10 ^ 26)) \<and>
        cash < buy_cash_required (n + 1) r c s * (1 + 1 / 10 ^ 26)"
proof -
  define c s where "c = commission_rate costs" and "s = slippage_rate costs"
  define p where "p = per_share_cash r c s"
  have cs: "0 \<le> c" "0 \<le> s" using assms(4) by (simp_all add: c_def s_def)
  have p: "0 < p" using assms(3) cs by (simp add: p_def per_share_cash_pos)
  have n: "n = \<lfloor>cash / p\<rfloor>"
    using assms(1) maximum_affordable_eq [OF assms(2-4)]
    by (simp add: Let_def p_def c_def s_def split: if_splits)
  have n0: "0 \<le> n" using assms(2) p by (simp add: n)
  have low: "of_int n * p \<le> cash" using p by (simp add: n pos_le_divide_eq [symmetric])
  have "cash / p < of_int (n + 1)" unfolding n by linarith
  then have high: "cash < of_int (n + 1) * p" using p by (simp add: pos_divide_less_eq)
  have below: "buy_cash_required n r c s \<le> cash * (1 + 1 / 10 ^ 26)" if "0 < n"
    using requirement_near_product(1) [OF that assms(3) cs] mult_right_mono [OF low, of "1 + 1 / 10 ^ 26"]
    by (simp add: p_def)
  have "of_int (n + 1) * p \<le> buy_cash_required (n + 1) r c s * (1 + 1 / 10 ^ 26)"
    using requirement_near_product(2) [of "n + 1" r c s] n0 assms(3) cs by (simp add: p_def)
  then have above: "cash < buy_cash_required (n + 1) r c s * (1 + 1 / 10 ^ 26)"
    using high by (rule order.strict_trans2 [rotated])
  show ?thesis
    using n0 low high below above unfolding Let_def c_def s_def p_def by blast
qed

text \<open>A fill record that was constructed balances: the shares move by the quantity, the cash by the
  notional and the commission, the totals add up, no debt is left, and the record is accepted again
  as it is.\<close>

theorem fill_record_balances:
  assumes "mk_fill obj = Inr f"
  shows "mk_fill (fill_obj f) = Inr f \<and>
     fi_shares_after f = fi_shares_before f +
       (case fi_side f of BUY_SIDE \<Rightarrow> fi_quantity f | SELL_SIDE \<Rightarrow> - fi_quantity f) \<and>
     fi_execution_notional f = dec_mul (of_int (fi_quantity f)) (fi_execution_price f) \<and>
     fi_cash_change f =
       (case fi_side f of
          BUY_SIDE \<Rightarrow> - dec_add (fi_execution_notional f) (fi_commission f)
        | SELL_SIDE \<Rightarrow> dec_sub (fi_execution_notional f) (fi_commission f)) \<and>
     fi_cash_after f = dec_add (fi_cash_before f) (fi_cash_change f) \<and>
     fi_total_transaction_cost f = dec_add (fi_commission f) (fi_slippage_cost f) \<and>
     0 \<le> fi_shares_after f \<and> 0 \<le> fi_cash_after f"
proof -
  have wf: "wf_fill f" using assms by (rule mk_fill_wf)
  then have "check_fill f = Inr f" by (simp add: wf_fill_def)
  then show ?thesis
    using wf mk_fill_obj [OF wf]
    by (cases "fi_side f") (auto simp: check_fill_def Let_def wf_fill_def split: if_splits)
qed

end
