(* ===== verification/Backtest_Examples.thy ===== *)
theory Backtest_Examples
  imports Backtest_Safety
begin

text \<open>
  Concrete runs of the simulation: a buy on the first signal and the exit on the second, with 50
  basis points of commission and 100 of slippage.
\<close>

lemma fixed53: "round_sig 2 53 (2 ^ 60) = 2 ^ 60"
  by (rule digits53.round_sig_exact)
     (unfold representable_def, intro exI [of _ 1] exI [of _ 60], simp)

lemma float_round_le_one:
  assumes "x \<le> 1" "\<bar>x\<bar> * 2 ^ 1022 < 1"
  shows "float_round x \<le> 1"
proof -
  have "x * 2 ^ 1074 \<le> of_int (2 ^ 1074)" using assms(1) by simp
  from rhe_mono [OF this] have "rhe (x * 2 ^ 1074) \<le> 2 ^ 1074" by (simp only: rhe_of_int)
  then have "(of_int (rhe (x * 2 ^ 1074)) :: rat) \<le> of_int (2 ^ 1074)" by (simp only: of_int_le_iff)
  then have "(of_int (rhe (x * 2 ^ 1074)) :: rat) \<le> 2 ^ 1074" by simp
  from divide_right_mono [OF this, of "2 ^ 1074"] show ?thesis
    using assms(2) by (simp add: float_round_def)
qed

lemma tiny_le_one:
  fixes y :: rat
  assumes "0 \<le> y" "y * 2 ^ 1022 < 1"
  shows "y \<le> 1"
proof (rule ccontr)
  assume "\<not> y \<le> 1"
  then have "1 * 1 \<le> y * 2 ^ 1022" by (intro mult_mono) simp_all
  then show False using assms(2) by simp
qed

lemma decimal_to_float_small:
  assumes "\<bar>x\<bar> \<le> 2 ^ 60"
  shows "decimal_to_float x = Inr (float_round x)"
proof -
  have "\<bar>float_round x\<bar> \<le> 2 ^ 60"
  proof (cases "\<bar>x\<bar> * 2 ^ 1022 < 1")
    case True
    have "\<bar>x\<bar> \<le> 1" by (rule tiny_le_one [OF _ True]) simp
    then have "- 1 \<le> float_round x" "float_round x \<le> 1"
      using float_round_ge_minus_one [of x] float_round_le_one [OF _ True] by linarith+
    then show ?thesis by (simp add: abs_le_iff)
  next
    case False
    have "round_sig 2 53 x \<le> 2 ^ 60" "- (2 ^ 60) \<le> round_sig 2 53 x"
      using digits53.le_fixed [of x "2 ^ 60"] digits53.fixed_le [of "- (2 ^ 60)" x] assms
        fixed53 digits53.odd [of "2 ^ 60"]
      by (auto simp only: abs_le_iff)
    then show ?thesis using False by (simp add: float_round_def abs_le_iff)
  qed
  moreover have "(2 ^ 60 :: rat) < 2 ^ 1024" by (rule power_strict_increasing) simp_all
  ultimately have "\<not> 2 ^ 1024 \<le> \<bar>float_round x\<bar>" by linarith
  then show ?thesis by (simp only: decimal_to_float_def Let_def if_False)
qed

definition sample_prices :: "date \<Rightarrow> market_row option" where
  "sample_prices d =
     (if d = 2 then Some \<lparr>mr_reference_open = PyFloat (Fin (95367431640625 / 10 ^ 12)) ''95.367431640625'',
                         mr_close_price = PyFloat (Fin 100) ''100.0''\<rparr>
      else if d = 4 then Some \<lparr>mr_reference_open = PyFloat (Fin 125) ''125.0'',
                              mr_close_price = PyFloat (Fin 125) ''125.0''\<rparr>
      else None)"

definition sample_config :: backtest_config where
  "sample_config = \<lparr>bc_cost_assumptions = \<lparr>ca_commission_bps_per_side = 240, ca_slippage_bps_per_side = 240\<rparr>,
     bc_initial_cash = 10000\<rparr>"

definition sample_buy_signal :: signal where
  "sample_buy_signal = \<lparr>sg_signal_session = 1, sg_execution_session = 2, sg_target_position = 1\<rparr>"

definition sample_exit_signal :: signal where
  "sample_exit_signal = \<lparr>sg_signal_session = 3, sg_execution_session = 4, sg_target_position = 0\<rparr>"

lemma sample_price_values: "parse_decimal ''100.0'' = Some (Fin 100)"
  "parse_decimal ''95.367431640625'' = Some (Fin (95367431640625 / 1000000000000))"
  "parse_decimal ''125.0'' = Some (Fin 125)" "parse_decimal ''1.0'' = Some (Fin 1)"
  by (simp_all add: parse_eval)

lemma floor_frac: "\<lfloor>numeral a / numeral b :: rat\<rfloor> = numeral a div numeral b"
  using floor_divide_of_int_eq [of "numeral a" "numeral b", where ?'a = rat] by simp

text \<open>An iteration from its parts.\<close>

lemma records_small:
  assumes "\<bar>po_reference_open p\<bar> \<le> 2 ^ 60" "\<bar>po_estimated_execution_price p\<bar> \<le> 2 ^ 60"
    "\<bar>po_estimated_commission p\<bar> \<le> 2 ^ 60" "\<bar>po_estimated_cash_change p\<bar> \<le> 2 ^ 60"
    "\<bar>po_current_cash p\<bar> \<le> 2 ^ 60"
  shows "\<exists>row. order_record p = Inr row"
  using assms by (simp add: order_record_def decimal_to_float_small)

lemma trade_filled:
  assumes "proposal_of config sg r st = Inr (Some p)" "\<exists>orow. order_record p = Inr orow"
    "portfolio_state_at (sg_execution_session sg) (rs_cash st) (rs_shares st) r = Inr os"
    "evaluate_order_risk (order_obj p) (portfolio_obj os) risk
       (costs_obj (bc_cost_assumptions config)) = Inr d"
    "rd_approved d" "\<exists>drow. decision_record d = Inr drow"
    "fill_from_approved_order p (rs_cash st) (rs_shares st) config = Inr fill"
    "\<exists>row. fill_row fill = Inr row"
  shows "\<exists>orow drow row. trade_at_open config risk sg r st =
    Inr (with_fill (with_decision st orow drow) fill row)"
proof -
  obtain orow drow row where "order_record p = Inr orow" "decision_record d = Inr drow"
    "fill_row fill = Inr row" using assms(2,6,8) by blast
  then have "trade_at_open config risk sg r st = Inr (with_fill (with_decision st orow drow) fill row)"
    using assms(1,3-5,7) by (simp add: trade_at_open_def with_decision_def with_fill_def Let_def)
  then show ?thesis by blast
qed

abbreviation sample_open :: rat where
  "sample_open \<equiv> 390625 / 4096"

definition sample_buy_order :: proposed_order where
  "sample_buy_order = engine_order 1 1 2 1 sample_open 10000 0 (3 / 125) (3 / 125) BUY_SIDE 100"

definition sample_exit_order :: proposed_order where
  "sample_exit_order = engine_order 2 3 4 0 125 0 100 (3 / 125) (3 / 125) SELL_SIDE 100"

lemmas sample_order_defs = sample_buy_order_def sample_exit_order_def engine_order_def
  cost_spec_defs SUPPORTED_SYMBOL_def

lemma sample_costs: "commission_rate (bc_cost_assumptions sample_config) = 3 / 125"
  "slippage_rate (bc_cost_assumptions sample_config) = 3 / 125"
  "wf_costs (bc_cost_assumptions sample_config)" "wf_backtest_config sample_config"
  "moderate_costs (bc_cost_assumptions sample_config)"
  by (simp_all add: sample_config_def wf_costs_def moderate_costs_def wf_backtest_config_def
      commission_rate_def slippage_rate_def dec_eval)

lemma sample_affordable:
  "maximum_affordable_buy_quantity (PyDecimal (Fin 10000)) (PyDecimal (Fin sample_open))
      (costs_obj (bc_cost_assumptions sample_config)) = Inr 100"
proof -
  have "per_share_cash sample_open (3 / 125) (3 / 125) = 100"
    by (simp add: per_share_cash_def execution_price_of_def dec_eval)
  then show ?thesis by (simp add: maximum_affordable_eq Let_def sample_costs)
qed

lemma sample_proposals:
  "propose_order 1 1 2 1 sample_open 10000 0 sample_config = Inr (Some sample_buy_order)"
  "propose_order 2 3 4 0 125 0 100 sample_config = Inr (Some sample_exit_order)"
proof -
  show "propose_order 1 1 2 1 sample_open 10000 0 sample_config = Inr (Some sample_buy_order)"
    by (simp add: propose_order_def Let_def order_with_estimate_moderate sample_buy_order_def
        sample_costs sample_affordable)
  show "propose_order 2 3 4 0 125 0 100 sample_config = Inr (Some sample_exit_order)"
    by (simp add: propose_order_def Let_def order_with_estimate_moderate sample_exit_order_def
        sample_costs)
qed

lemma sample_orders_wf: "wf_order sample_buy_order" "wf_order sample_exit_order"
  by (simp_all add: sample_order_defs wf_order_def dec_eval)

lemma sample_order_records: "\<exists>row. order_record sample_buy_order = Inr row"
  "\<exists>row. order_record sample_exit_order = Inr row"
  by (rule records_small; simp add: sample_order_defs dec_eval)+

definition sample_state :: "date \<Rightarrow> rat \<Rightarrow> int \<Rightarrow> rat \<Rightarrow> portfolio_state" where
  "sample_state d cash shares r = \<lparr>ps_session = d, ps_cash = cash, ps_shares = shares,
     ps_reference_price = r, ps_market_value = dec_mul (of_int shares) r,
     ps_equity = dec_add cash (dec_mul (of_int shares) r)\<rparr>"

lemma sample_states:
  "portfolio_state_at 2 10000 0 sample_open = Inr (sample_state 2 10000 0 sample_open)"
  "portfolio_state_at 4 0 100 125 = Inr (sample_state 4 0 100 125)"
  "wf_portfolio (sample_state 2 10000 0 sample_open)" "wf_portfolio (sample_state 4 0 100 125)"
  by (simp_all add: portfolio_state_at_def sample_state_def mk_portfolio_state_obj Let_def
      wf_portfolio_def dec_eval)

definition sample_decision :: "int \<Rightarrow> date \<Rightarrow> rat \<Rightarrow> int \<Rightarrow> rat \<Rightarrow> risk_decision" where
  "sample_decision n d cash shares mv = \<lparr>rd_order_sequence_number = n, rd_approved = True,
     rd_reason_codes = [APPROVED_REASON], rd_evaluated_session = d, rd_projected_cash = cash,
     rd_projected_shares = shares, rd_projected_market_value = mv,
     rd_projected_equity = dec_add cash mv\<rparr>"

lemma sample_views:
  "read_order default_risk_config (sample_state 2 10000 0 sample_open) (order_obj sample_buy_order) =
     \<lparr>ov_side = Some BUY_SIDE, ov_quantity = 100, ov_execution_date = 2,
      ov_target_position = Some 1, ov_reference_open = sample_open, ov_codes = []\<rparr>"
  "read_order default_risk_config (sample_state 4 0 100 125) (order_obj sample_exit_order) =
     \<lparr>ov_side = Some SELL_SIDE, ov_quantity = 100, ov_execution_date = 4,
      ov_target_position = Some 0, ov_reference_open = 125, ov_codes = []\<rparr>"
  by (simp_all add: read_order_validated sample_orders_wf)
     (simp_all add: sample_order_defs sample_state_def)

lemma sample_codes:
  "field_codes (3 / 125) (3 / 125) (order_obj sample_buy_order) \<lparr>ov_side = Some BUY_SIDE,
      ov_quantity = 100, ov_execution_date = 2, ov_target_position = Some 1,
      ov_reference_open = sample_open, ov_codes = []\<rparr> = []"
  "field_codes (3 / 125) (3 / 125) (order_obj sample_exit_order) \<lparr>ov_side = Some SELL_SIDE,
      ov_quantity = 100, ov_execution_date = 4, ov_target_position = Some 0,
      ov_reference_open = 125, ov_codes = []\<rparr> = []"
  by (simp_all add: field_codes_def estimate_ok_validated sample_orders_wf)
     (simp_all add: sample_order_defs)

lemma sample_rules:
  "apply_side_rules default_risk_config (3 / 125) (3 / 125) (sample_state 2 10000 0 sample_open)
     \<lparr>ov_side = Some BUY_SIDE, ov_quantity = 100, ov_execution_date = 2,
      ov_target_position = Some 1, ov_reference_open = sample_open, ov_codes = []\<rparr> =
   Inr ([], \<lparr>pj_cash = 0, pj_shares = 100, pj_market_value = 9765625 / 1024,
             pj_equity = 9765625 / 1024\<rparr>)"
  "apply_side_rules default_risk_config (3 / 125) (3 / 125) (sample_state 4 0 100 125)
     \<lparr>ov_side = Some SELL_SIDE, ov_quantity = 100, ov_execution_date = 4,
      ov_target_position = Some 0, ov_reference_open = 125, ov_codes = []\<rparr> =
   Inr ([], \<lparr>pj_cash = 59536 / 5, pj_shares = 0, pj_market_value = 0, pj_equity = 59536 / 5\<rparr>)"
  by (simp_all add: apply_side_rules_def buy_rules_def sell_rules_def Let_def sample_state_def
      default_risk_config_def exceeds_weight_def sample_price_values dec_eval)

lemma sample_decisions:
  "evaluate_order_risk (order_obj sample_buy_order) (portfolio_obj (sample_state 2 10000 0 sample_open))
     default_risk_config (costs_obj (bc_cost_assumptions sample_config)) =
   Inr (sample_decision 1 2 0 100 (9765625 / 1024))"
  "evaluate_order_risk (order_obj sample_exit_order) (portfolio_obj (sample_state 4 0 100 125))
     default_risk_config (costs_obj (bc_cost_assumptions sample_config)) =
   Inr (sample_decision 2 4 (59536 / 5) 0 0)"
proof -
  have rate: "dec_div 240 10000 = 3 / 125" by (simp add: dec_eval)
  have fields: "po_sequence_number sample_buy_order = 1" "po_execution_session sample_buy_order = 2"
    "po_sequence_number sample_exit_order = 2" "po_execution_session sample_exit_order = 4"
    by (simp_all add: sample_order_defs)
  have costs: "costs_obj (bc_cost_assumptions sample_config) = decimal_costs 240 240"
    by (simp add: costs_obj_decimal sample_config_def)
  note eval = evaluate_validated sample_orders_wf sample_states(3,4) risk_outcome_def Let_def
    sample_views sample_codes sample_rules mk_risk_decision_iff sample_decision_def rate fields
  show "evaluate_order_risk (order_obj sample_buy_order) (portfolio_obj (sample_state 2 10000 0 sample_open))
     default_risk_config (costs_obj (bc_cost_assumptions sample_config)) =
   Inr (sample_decision 1 2 0 100 (9765625 / 1024))"
    unfolding costs by (simp add: eval) (simp add: wf_decision_def dec_eval)
  show "evaluate_order_risk (order_obj sample_exit_order) (portfolio_obj (sample_state 4 0 100 125))
     default_risk_config (costs_obj (bc_cost_assumptions sample_config)) =
   Inr (sample_decision 2 4 (59536 / 5) 0 0)"
    unfolding costs by (simp add: eval) (simp add: wf_decision_def dec_eval)
qed

lemma sample_decision_records:
  "\<exists>row. decision_record (sample_decision 1 2 0 100 (9765625 / 1024)) = Inr row"
  "\<exists>row. decision_record (sample_decision 2 4 (59536 / 5) 0 0) = Inr row"
  by (simp_all add: decision_record_def sample_decision_def decimal_to_float_small dec_eval)

definition sample_buy_fill :: fill_record where
  "sample_buy_fill = engine_fill sample_buy_order 10000 0 (3 / 125) (3 / 125)"

definition sample_exit_fill :: fill_record where
  "sample_exit_fill = engine_fill sample_exit_order 0 100 (3 / 125) (3 / 125)"

lemmas sample_fill_defs = sample_buy_fill_def sample_exit_fill_def engine_fill_def sample_order_defs

lemma sample_prices_pos:
  "0 < execution_price_of (po_side sample_buy_order) (po_reference_open sample_buy_order) (3 / 125)"
  "0 < execution_price_of (po_side sample_exit_order) (po_reference_open sample_exit_order) (3 / 125)"
  by (simp_all add: sample_order_defs dec_eval)

lemma sample_fills_wf: "wf_fill sample_buy_fill" "wf_fill sample_exit_fill"
proof -
  show "wf_fill sample_buy_fill" unfolding sample_buy_fill_def
    by (rule wf_engine_fill, simp_all add: sample_prices_pos sample_orders_wf,
        simp_all add: sample_order_defs dec_eval)
  show "wf_fill sample_exit_fill" unfolding sample_exit_fill_def
    by (rule wf_engine_fill, simp_all add: sample_prices_pos sample_orders_wf,
        simp_all add: sample_order_defs dec_eval)
qed

lemma sample_fills:
  "fill_from_approved_order sample_buy_order 10000 0 sample_config = Inr sample_buy_fill"
  "fill_from_approved_order sample_exit_order 0 100 sample_config = Inr sample_exit_fill"
  using mk_fill_obj [OF sample_fills_wf(1)] mk_fill_obj [OF sample_fills_wf(2)]
  by (simp_all add: fill_from_approved_order_eq sample_orders_wf sample_costs sample_prices_pos
      sample_buy_fill_def sample_exit_fill_def)

lemma sample_fill_rows: "\<exists>row. fill_row sample_buy_fill = Inr row"
  "\<exists>row. fill_row sample_exit_fill = Inr row"
  by (simp_all add: fill_row_def sample_fill_defs Let_def decimal_to_float_small dec_eval
      estimate_of_def)

lemma sample_buy_trade:
  "\<exists>orow drow row. trade_at_open sample_config default_risk_config sample_buy_signal sample_open
     (initial_run_state sample_config) =
   Inr (with_fill (with_decision (initial_run_state sample_config) orow drow) sample_buy_fill row)"
proof -
  have st: "rs_cash (initial_run_state sample_config) = 10000"
    "rs_shares (initial_run_state sample_config) = 0"
    "rs_next_order_sequence (initial_run_state sample_config) = 1"
    by (simp_all add: initial_run_state_def sample_config_def)
  show ?thesis
    by (rule trade_filled [where p = sample_buy_order and os = "sample_state 2 10000 0 sample_open"
          and d = "sample_decision 1 2 0 100 (9765625 / 1024)"])
       (simp_all add: st sample_buy_signal_def sample_proposals sample_order_records sample_states
          sample_decisions sample_decision_records sample_fills sample_fill_rows,
        simp add: sample_decision_def)
qed

lemma sample_exit_trade:
  assumes "rs_cash st = 0" "rs_shares st = 100" "rs_next_order_sequence st = 2"
  shows "\<exists>orow drow row. trade_at_open sample_config default_risk_config sample_exit_signal 125 st =
     Inr (with_fill (with_decision st orow drow) sample_exit_fill row)"
  by (rule trade_filled [where p = sample_exit_order and os = "sample_state 4 0 100 125"
        and d = "sample_decision 2 4 (59536 / 5) 0 0"])
     (simp_all add: assms sample_exit_signal_def sample_proposals sample_order_records sample_states
        sample_decisions sample_decision_records sample_fills sample_fill_rows,
      simp add: sample_decision_def)

lemma sample_fill_account:
  "fi_cash_after sample_buy_fill = 0" "fi_shares_after sample_buy_fill = 100"
  "fi_cash_after sample_exit_fill = 59536 / 5" "fi_shares_after sample_exit_fill = 0"
  by (simp_all add: sample_fill_defs Let_def estimate_of_def dec_eval)

lemma sample_buy_run:
  "\<exists>st. run_signal sample_prices sample_config default_risk_config sample_buy_signal
     (initial_run_state sample_config) = Inr st \<and> rs_cash st = 0 \<and> rs_shares st = 100 \<and>
   rs_next_order_sequence st = 2 \<and> rs_previous_equity st = 10000 \<and> rs_running_peak st = 10000 \<and>
   rs_portfolio_records st \<noteq> []"
proof -
  obtain orow drow row where "trade_at_open sample_config default_risk_config sample_buy_signal
      sample_open (initial_run_state sample_config) =
     Inr (with_fill (with_decision (initial_run_state sample_config) orow drow) sample_buy_fill row)"
    using sample_buy_trade by blast
  then show ?thesis
    by (simp add: run_signal_def sample_prices_def price_decimal_def sample_price_values
        sample_buy_signal_def mark_to_close_def Let_def with_fill_def with_decision_def
        initial_run_state_def sample_config_def sample_fill_account decimal_divide_def
        decimal_to_float_small dec_eval)
qed

lemma sample_exit_run:
  assumes "rs_cash st = 0" "rs_shares st = 100" "rs_next_order_sequence st = 2"
    "rs_previous_equity st = 10000" "rs_running_peak st = 10000" "rs_portfolio_records st \<noteq> []"
  shows "\<exists>st'. run_signal sample_prices sample_config default_risk_config sample_exit_signal st =
     Inr st' \<and> rs_cash st' = 59536 / 5 \<and> rs_shares st' = 0"
proof -
  obtain orow drow row where "trade_at_open sample_config default_risk_config sample_exit_signal
      125 st = Inr (with_fill (with_decision st orow drow) sample_exit_fill row)"
    using sample_exit_trade [OF assms(1-3)] by blast
  then show ?thesis
    using assms(4-6)
    by (simp add: run_signal_def sample_prices_def price_decimal_def sample_price_values
        sample_exit_signal_def mark_to_close_def Let_def with_fill_def with_decision_def
        sample_fill_account decimal_divide_def decimal_to_float_small dec_eval)
qed

lemma sample_run:
  "\<exists>st. run_validated_signal_backtest sample_prices sample_config default_risk_config
     ([sample_buy_signal] @ [sample_exit_signal]) = Inr st \<and>
   rs_cash st = 59536 / 5 \<and> rs_shares st = 0"
proof -
  obtain st1 where st1: "run_signal sample_prices sample_config default_risk_config sample_buy_signal
     (initial_run_state sample_config) = Inr st1" and "rs_cash st1 = 0" "rs_shares st1 = 100"
     "rs_next_order_sequence st1 = 2" "rs_previous_equity st1 = 10000"
     "rs_running_peak st1 = 10000" "rs_portfolio_records st1 \<noteq> []"
    using sample_buy_run by blast
  then obtain st2 where "run_signal sample_prices sample_config default_risk_config
     sample_exit_signal st1 = Inr st2" "rs_cash st2 = 59536 / 5" "rs_shares st2 = 0"
    using sample_exit_run by blast
  with st1 show ?thesis by (simp add: run_validated_signal_backtest_def run_signals_def)
qed

lemma positive_priceI: "decimal_of v = Some (Fin r) \<Longrightarrow> 0 < r \<Longrightarrow> positive_price v"
  by (auto simp: positive_price_def)

lemma literal_positive:
  "parse_decimal text' = Some (Fin r) \<Longrightarrow> 0 < r \<Longrightarrow> positive_price (PyFloat d text')"
  by (rule positive_priceI) simp_all

lemmas sample_prices_positive = sample_price_values(1) [THEN literal_positive, simplified]
  sample_price_values(2) [THEN literal_positive, simplified]
  sample_price_values(3) [THEN literal_positive, simplified]

lemma sample_signals_priced:
  "list_all (priced_signal sample_prices) ([sample_buy_signal] @ [sample_exit_signal])"
  by (simp add: priced_signal_def valid_signal_def sample_buy_signal_def sample_exit_signal_def
      sample_prices_def sample_prices_positive)

section \<open>The properties on the sample run\<close>

theorem simulation_account_invariant_witness:
  "\<exists>st. run_validated_signal_backtest sample_prices sample_config default_risk_config
     ([sample_buy_signal] @ [sample_exit_signal]) = Inr st \<and>
   fills_chain 0 (rs_fill_records st) 0 \<and> rs_cash st = 59536 / 5"
proof -
  obtain st where st: "run_validated_signal_backtest sample_prices sample_config default_risk_config
     ([sample_buy_signal] @ [sample_exit_signal]) = Inr st" "rs_cash st = 59536 / 5" "rs_shares st = 0"
    using sample_run by blast
  from simulation_account_invariant [OF st(1) sample_signals_priced sample_costs(4)] st show ?thesis
    by auto
qed

theorem simulation_follows_signals_witness:
  "\<exists>st. run_validated_signal_backtest sample_prices sample_config default_risk_config
     ([sample_buy_signal] @ [sample_exit_signal]) = Inr st \<and>
   follows_signal sample_prices (bc_cost_assumptions sample_config) sample_exit_signal st"
  using sample_run
    simulation_follows_signals [OF _ sample_signals_priced sample_costs(4,5)] by blast

text \<open>A price of \<open>1e-24\<close>: the affordable quantity has more than 28 digits.\<close>

definition tiny_prices :: "date \<Rightarrow> market_row option" where
  "tiny_prices d = (if d = 2 then Some \<lparr>mr_reference_open = PyFloat (Fin (1 / 1000000000000000000000000)) ''1e-24'',
                         mr_close_price = PyFloat (Fin 100) ''100.0''\<rparr> else None)"

definition free_config :: backtest_config where
  "free_config = \<lparr>bc_cost_assumptions = \<lparr>ca_commission_bps_per_side = 0, ca_slippage_bps_per_side = 0\<rparr>,
     bc_initial_cash = 10000\<rparr>"

lemma dround_tiny: "dround (1 / 1000000000000000000000000) = 1 / 1000000000000000000000000"
  unfolding dround_def
  by (rule digits28.round_sig_exact, unfold representable_def, rule exI [of _ 1], rule exI [of _ "-24"])
     (simp add: power_int_minus field_simps)

lemma tiny_run_raises:
  "run_validated_signal_backtest tiny_prices free_config default_risk_config [sample_buy_signal] =
     Inl DecimalInvalidOperation"
proof -
  have lit: "parse_decimal ''1e-24'' = Some (Fin (1 / 1000000000000000000000000))"
    by (simp add: parse_eval)
  have rate: "commission_rate (bc_cost_assumptions free_config) = 0"
    "slippage_rate (bc_cost_assumptions free_config) = 0" "wf_costs (bc_cost_assumptions free_config)"
    by (simp_all add: commission_rate_def slippage_rate_def free_config_def dec_div_def wf_costs_def)
  have per: "per_share_cash (1 / 1000000000000000000000000) 0 0 = 1 / 1000000000000000000000000"
    using dround_tiny by (simp add: per_share_cash_def execution_price_of_def dec_mul_def dec_add_def)
  have "maximum_affordable_buy_quantity (PyDecimal (Fin 10000)) (PyDecimal (Fin (1 / 1000000000000000000000000)))
      (costs_obj (bc_cost_assumptions free_config)) = Inl DecimalInvalidOperation"
    by (simp add: maximum_affordable_eq rate Let_def per)
  then show ?thesis
    by (simp add: run_validated_signal_backtest_def run_signals_def run_signal_def tiny_prices_def
        sample_buy_signal_def price_decimal_def lit sample_price_values trade_at_open_def
        propose_order_def initial_run_state_def free_config_def)
qed

theorem simulation_raises_only_overflow_witness:
  "\<exists>e. run_validated_signal_backtest tiny_prices free_config default_risk_config
     [sample_buy_signal] = Inl e \<and>
   (e = BacktestAccountingError ''non_finite_float_conversion'' \<or> e = DecimalInvalidOperation)"
proof -
  have lit: "parse_decimal ''1e-24'' = Some (Fin (1 / 1000000000000000000000000))"
    by (simp add: parse_eval)
  have "list_all (priced_signal tiny_prices) [sample_buy_signal]"
    using literal_positive [OF lit]
    by (simp add: priced_signal_def valid_signal_def sample_buy_signal_def tiny_prices_def
        sample_prices_positive)
  moreover have "wf_backtest_config free_config" "moderate_costs (bc_cost_assumptions free_config)"
    by (simp_all add: free_config_def wf_backtest_config_def moderate_costs_def wf_costs_def)
  ultimately show ?thesis
    using simulation_raises_only_overflow [OF tiny_run_raises] tiny_run_raises by blast
qed

theorem engine_order_approved_iff_payable_witness:
  "\<exists>d. evaluate_order_risk (order_obj sample_buy_order) (portfolio_obj (sample_state 2 10000 0 sample_open))
     default_risk_config (costs_obj (bc_cost_assumptions sample_config)) = Inr d \<and>
   (rd_approved d \<longleftrightarrow> buy_cash_required 100 sample_open (3 / 125) (3 / 125) \<le> 10000)"
proof -
  have "order_with_estimate 1 1 2 1 sample_open 10000 0 (bc_cost_assumptions sample_config) BUY_SIDE 100 =
      Inr sample_buy_order"
    by (simp add: order_with_estimate_moderate sample_buy_order_def sample_costs)
  from engine_order_approved_iff_payable [OF this sample_states(1) sample_costs(3)]
  show ?thesis by (simp add: sample_costs)
qed

theorem affordable_quantity_tight_witness:
  "let p = per_share_cash sample_open (3 / 125) (3 / 125)
   in 100 * p \<le> 10000 \<and> 10000 < 101 * p \<and>
      buy_cash_required 100 sample_open (3 / 125) (3 / 125) \<le> 10000 * (1 + 1 / 10 ^ 26)"
  using affordable_quantity_tight [OF sample_affordable _ _ sample_costs(3)]
  by (simp add: Let_def sample_costs)

theorem fill_record_balances_witness:
  "mk_fill (fill_obj sample_buy_fill) = Inr sample_buy_fill \<and>
   fi_shares_after sample_buy_fill = fi_shares_before sample_buy_fill + fi_quantity sample_buy_fill"
  using fill_record_balances [OF mk_fill_obj [OF sample_fills_wf(1)]]
  by (simp add: sample_buy_fill_def sample_buy_order_def engine_order_def)

end
