(* ===== verification/Exec_Values.thy ===== *)
theory Exec_Values
  imports Backtest_Models
begin

text \<open>
  The validators of \<^verbatim>\<open>execution/models.py\<close> and \<^verbatim>\<open>execution/identifiers.py\<close>, the states
  of a paper-execution attempt, and the storage conversions of
  \<^verbatim>\<open>persistence/serialization.py\<close> the ledger uses.

  A stored column is a \<open>pyval\<close> too. A TEXT column that holds an ISO timestamp with a UTC offset or
  an ISO date is represented by the instant (\<open>PyAware\<close>) or the date (\<open>PyDate\<close>) it parses to, any
  other text by \<open>PyStr\<close>, NULL by \<open>PyNone\<close>.
\<close>

section \<open>Validators\<close>

definition require_execution_id :: "string \<Rightarrow> pyval \<Rightarrow> exn + string" where
  "require_execution_id field_name value =
     (case validate_run_id value of
        None \<Rightarrow> Inl (PaperExecutionInputError (''invalid_'' @ field_name))
      | Some s \<Rightarrow> Inr s)"

definition is_sha256_text :: "string \<Rightarrow> bool" where
  "is_sha256_text s \<longleftrightarrow> length s = 64 \<and> list_all is_hex_digit s"

definition require_sha256 :: "string \<Rightarrow> pyval \<Rightarrow> exn + string" where
  "require_sha256 field_name value =
     (case value of
        PyStr s \<Rightarrow> if is_sha256_text s then Inr s
                    else Inl (PaperExecutionInputError (''invalid_'' @ field_name))
      | _ \<Rightarrow> Inl (PaperExecutionInputError (''invalid_'' @ field_name)))"

definition utc_datetime :: "string \<Rightarrow> pyval \<Rightarrow> exn + instant" where
  "utc_datetime field_name value =
     (case value of
        PyAware t \<Rightarrow> Inr t
      | _ \<Rightarrow> Inl (PaperExecutionInputError (''invalid_'' @ field_name)))"

definition finite_decimal :: "bool \<Rightarrow> bool \<Rightarrow> string \<Rightarrow> pyval \<Rightarrow> exn + rat" where
  "finite_decimal allow_negative strictly_positive field_name value =
     (case value of
        PyBool _ \<Rightarrow> Inl (PaperExecutionInputError (''invalid_'' @ field_name))
      | _ \<Rightarrow>
          (case decimal_of value of
             None \<Rightarrow> Inl (PaperExecutionInputError (''invalid_'' @ field_name))
           | Some (Fin parsed) \<Rightarrow>
               if strictly_positive \<and> parsed \<le> 0
               then Inl (PaperExecutionInputError (''non_positive_'' @ field_name))
               else if \<not> allow_negative \<and> \<not> strictly_positive \<and> parsed < 0
               then Inl (PaperExecutionInputError (''negative_'' @ field_name))
               else Inr parsed
           | Some _ \<Rightarrow> Inl (PaperExecutionInputError (''non_finite_'' @ field_name))))"

definition whole_quantity :: "bool \<Rightarrow> string \<Rightarrow> pyval \<Rightarrow> exn + int" where
  "whole_quantity allow_zero field_name value =
     (let minimum = (if allow_zero then 0 else 1)
      in case value of
           PyInt i \<Rightarrow> if i < minimum
                       then Inl (PaperExecutionInputError (''invalid_'' @ field_name)) else Inr i
         | _ \<Rightarrow> Inl (PaperExecutionInputError (''invalid_'' @ field_name)))"

definition credential_markers :: "string list" where
  "credential_markers = [''secret'', ''api_key'', ''apikey'', ''password'', ''token='']"

definition is_trimmed_text :: "string \<Rightarrow> bool" where
  "is_trimmed_text s \<longleftrightarrow> strip s = s \<and> s \<noteq> []"

definition is_safe_text :: "string \<Rightarrow> bool" where
  "is_safe_text s \<longleftrightarrow>
     is_trimmed_text s \<and> \<not> list_ex (\<lambda>marker. contains_text marker (lower s)) credential_markers"

definition nonblank_text :: "string \<Rightarrow> pyval \<Rightarrow> exn + string" where
  "nonblank_text field_name value =
     (case value of
        PyStr s \<Rightarrow>
          if \<not> is_trimmed_text s then Inl (PaperExecutionInputError (''invalid_'' @ field_name))
          else if list_ex (\<lambda>marker. contains_text marker (lower s)) credential_markers
          then Inl (PaperExecutionInputError (''unsafe_'' @ field_name))
          else Inr s
      | _ \<Rightarrow> Inl (PaperExecutionInputError (''invalid_'' @ field_name)))"

definition side_value :: "string \<Rightarrow> pyval \<Rightarrow> exn + order_side" where
  "side_value field_name value =
     (case side_of value of
        None \<Rightarrow> Inl (PaperExecutionInputError (''invalid_'' @ field_name))
      | Some s \<Rightarrow> Inr s)"

definition boolean_value :: "string \<Rightarrow> pyval \<Rightarrow> exn + bool" where
  "boolean_value field_name value =
     (case value of
        PyBool b \<Rightarrow> Inr b
      | _ \<Rightarrow> Inl (PaperExecutionInputError (''invalid_'' @ field_name)))"

text \<open>\<^verbatim>\<open>if value is not None: ... require(value)\<close>.\<close>

definition optional_value :: "(pyval \<Rightarrow> exn + 'a) \<Rightarrow> pyval \<Rightarrow> exn + 'a option" where
  "optional_value require value =
     (if value = PyNone then Inr None else rbind (require value) (\<lambda>x. Inr (Some x)))"

definition of_optional :: "('a \<Rightarrow> pyval) \<Rightarrow> 'a option \<Rightarrow> pyval" where
  "of_optional f v = (case v of None \<Rightarrow> PyNone | Some x \<Rightarrow> f x)"

lemma exec_validators_Inr [simp]:
  "require_execution_id f v = Inr s \<longleftrightarrow> v = PyStr s \<and> is_run_id s"
  "require_sha256 f v = Inr s \<longleftrightarrow> v = PyStr s \<and> is_sha256_text s"
  "utc_datetime f v = Inr t \<longleftrightarrow> v = PyAware t"
  "whole_quantity z f v = Inr i \<longleftrightarrow> v = PyInt i \<and> (if z then 0 else 1) \<le> i"
  "nonblank_text f v = Inr s \<longleftrightarrow> v = PyStr s \<and> is_safe_text s"
  "side_value f v = Inr sd \<longleftrightarrow> v = PyStr (side_text sd)"
  "boolean_value f v = Inr b \<longleftrightarrow> v = PyBool b"
proof -
  show "require_execution_id f v = Inr s \<longleftrightarrow> v = PyStr s \<and> is_run_id s"
    by (auto simp: require_execution_id_def validate_run_id_def split: pyval.splits if_splits)
  show "side_value f v = Inr sd \<longleftrightarrow> v = PyStr (side_text sd)"
    using side_of_eq_Some [of v] by (auto simp: side_value_def split: option.splits)
qed (auto simp: require_sha256_def utc_datetime_def whole_quantity_def nonblank_text_def
    is_safe_text_def boolean_value_def Let_def split: pyval.splits if_splits)

lemma finite_decimal_Inr:
  "finite_decimal neg strict f v = Inr r \<longleftrightarrow>
     (\<forall>b. v \<noteq> PyBool b) \<and> decimal_of v = Some (Fin r) \<and> (strict \<longrightarrow> 0 < r) \<and> (\<not> neg \<longrightarrow> 0 \<le> r)"
  by (auto simp: finite_decimal_def split: pyval.splits option.splits dec.splits if_splits)

lemma finite_decimal_PyDecimal [simp]:
  "finite_decimal neg strict f (PyDecimal (Fin r)) = Inr r' \<longleftrightarrow>
     r' = r \<and> (strict \<longrightarrow> 0 < r) \<and> (\<not> neg \<longrightarrow> 0 \<le> r)"
  by (auto simp: finite_decimal_Inr)

lemma optional_value_Inr:
  "optional_value require v = Inr x \<longleftrightarrow>
     (v = PyNone \<and> x = None) \<or> (v \<noteq> PyNone \<and> (\<exists>y. x = Some y \<and> require v = Inr y))"
  by (auto simp: optional_value_def rbind_eq_Inr_iff)

section \<open>Attempt states\<close>

datatype attempt_state =
    PAPER_ATTEMPT_RESERVED
  | PAPER_ATTEMPT_BROKER_EXISTING_ORDER_FOUND
  | PAPER_ATTEMPT_ACCEPTED
  | PAPER_ATTEMPT_REJECTED
  | PAPER_ATTEMPT_SUBMISSION_UNKNOWN
  | PAPER_ATTEMPT_RECONCILED
  | PAPER_ATTEMPT_BLOCKED

definition PAPER_ATTEMPT_STATES :: "attempt_state list" where
  "PAPER_ATTEMPT_STATES =
     [PAPER_ATTEMPT_RESERVED, PAPER_ATTEMPT_BROKER_EXISTING_ORDER_FOUND, PAPER_ATTEMPT_ACCEPTED,
      PAPER_ATTEMPT_REJECTED, PAPER_ATTEMPT_SUBMISSION_UNKNOWN, PAPER_ATTEMPT_RECONCILED,
      PAPER_ATTEMPT_BLOCKED]"

fun state_text :: "attempt_state \<Rightarrow> string" where
  "state_text PAPER_ATTEMPT_RESERVED = ''reserved''"
| "state_text PAPER_ATTEMPT_BROKER_EXISTING_ORDER_FOUND = ''broker_existing_order_found''"
| "state_text PAPER_ATTEMPT_ACCEPTED = ''accepted''"
| "state_text PAPER_ATTEMPT_REJECTED = ''rejected''"
| "state_text PAPER_ATTEMPT_SUBMISSION_UNKNOWN = ''submission_unknown''"
| "state_text PAPER_ATTEMPT_RECONCILED = ''reconciled''"
| "state_text PAPER_ATTEMPT_BLOCKED = ''blocked''"

definition state_of_text :: "string \<Rightarrow> attempt_state option" where
  "state_of_text s = List.find (\<lambda>st. state_text st = s) PAPER_ATTEMPT_STATES"

lemma state_of_state_text [simp]: "state_of_text (state_text st) = Some st"
  by (cases st) (simp_all add: state_of_text_def PAPER_ATTEMPT_STATES_def)

lemma state_of_text_Some: "state_of_text s = Some st \<longleftrightarrow> s = state_text st"
proof
  assume "state_of_text s = Some st"
  then have "state_text st = s"
    unfolding state_of_text_def by (auto simp only: find_Some_iff)
  then show "s = state_text st" by simp
qed simp

lemma state_text_inject [simp]: "state_text a = state_text b \<longleftrightarrow> a = b"
  by (metis option.inject state_of_state_text)

section \<open>Reading stored columns\<close>

definition required_text :: "pyval \<Rightarrow> exn + string" where
  "required_text value =
     (case value of
        PyStr s \<Rightarrow> if s = [] then Inl (OtherException ''PersistenceIntegrityError'') else Inr s
      | _ \<Rightarrow> Inl (OtherException ''PersistenceIntegrityError''))"

definition optional_text :: "pyval \<Rightarrow> exn + string option" where
  "optional_text value =
     (case value of
        PyNone \<Rightarrow> Inr None
      | PyStr s \<Rightarrow> Inr (Some s)
      | _ \<Rightarrow> Inl (OtherException ''PersistenceIntegrityError''))"

definition text_to_datetime :: "pyval \<Rightarrow> exn + instant" where
  "text_to_datetime value =
     (case value of
        PyAware t \<Rightarrow> Inr t
      | _ \<Rightarrow> Inl (OtherException ''PersistenceIntegrityError''))"

definition text_to_date :: "pyval \<Rightarrow> exn + date" where
  "text_to_date value =
     (case value of
        PyDate d \<Rightarrow> Inr d
      | _ \<Rightarrow> Inl (OtherException ''PersistenceIntegrityError''))"

definition bool_to_int :: "bool \<Rightarrow> pyval" where
  "bool_to_int b = PyInt (if b then 1 else 0)"

definition int_to_bool :: "pyval \<Rightarrow> exn + bool" where
  "int_to_bool value =
     (case value of
        PyInt i \<Rightarrow> if i = 0 \<or> i = 1 then Inr (i = 1)
                    else Inl (OtherException ''PersistenceIntegrityError'')
      | _ \<Rightarrow> Inl (OtherException ''PersistenceIntegrityError''))"

definition validate_checksum :: "pyval \<Rightarrow> exn + string" where
  "validate_checksum value =
     (case value of
        PyStr s \<Rightarrow> if is_sha256_text s then Inr s
                    else Inl (OtherException ''PersistenceIntegrityError'')
      | _ \<Rightarrow> Inl (OtherException ''PersistenceIntegrityError''))"

text \<open>Exact integer text: an optional sign and decimal digits.\<close>

definition integer_text :: "string \<Rightarrow> int option" where
  "integer_text s =
     (let neg = (s \<noteq> [] \<and> hd s = CHR ''-'');
          digits = (if s \<noteq> [] \<and> (hd s = CHR ''-'' \<or> hd s = CHR ''+'') then tl s else s)
      in if digits = [] \<or> \<not> list_all is_digit digits then None
         else Some (if neg then - digits_value digits else digits_value digits))"

definition int_from_storage :: "int \<Rightarrow> pyval \<Rightarrow> exn + int" where
  "int_from_storage minimum value =
     (let parsed =
            (case value of
               PyInt i \<Rightarrow> Some i
             | PyFloat (Fin v) _ \<Rightarrow> if of_int \<lfloor>v\<rfloor> = v then Some \<lfloor>v\<rfloor> else None
             | PyStr s \<Rightarrow> integer_text s
             | _ \<Rightarrow> None)
      in case parsed of
           None \<Rightarrow> Inl (OtherException ''PersistenceIntegrityError'')
         | Some i \<Rightarrow> if i < minimum then Inl (OtherException ''PersistenceIntegrityError'') else Inr i)"

lemma stored_columns_Inr [simp]:
  "required_text v = Inr s \<longleftrightarrow> v = PyStr s \<and> s \<noteq> []"
  "text_to_datetime v = Inr t \<longleftrightarrow> v = PyAware t"
  "text_to_date v = Inr d \<longleftrightarrow> v = PyDate d"
  "int_to_bool v = Inr b \<longleftrightarrow> v = bool_to_int b"
  "validate_checksum v = Inr s \<longleftrightarrow> v = PyStr s \<and> is_sha256_text s"
  "optional_text v = Inr ot \<longleftrightarrow> v = of_optional PyStr ot"
  by (auto simp: required_text_def text_to_datetime_def text_to_date_def int_to_bool_def
      bool_to_int_def validate_checksum_def optional_text_def of_optional_def
      split: pyval.splits if_splits option.splits)

lemma int_from_storage_PyInt [simp]: "m \<le> i \<Longrightarrow> int_from_storage m (PyInt i) = Inr i"
  by (simp add: int_from_storage_def)

end
