(* ===== verification/Exec_Models.thy ===== *)
theory Exec_Models
  imports Exec_Values
begin

text \<open>
  The data classes of \<^verbatim>\<open>execution/models.py\<close>: the snapshots the broker adapter returns, the
  receipt, the human approval and the order instruction. The convention is that of the risk layer: a \<open>raw_\<close>
  record holds whatever the caller passed, the \<open>mk_\<close> function is \<^verbatim>\<open>__post_init__\<close>, and the
  \<open>_obj\<close> function turns an accepted value into an object again.
\<close>

text \<open>\<^verbatim>\<open>value == value.to_integral_value()\<close>.\<close>

definition is_integral :: "rat \<Rightarrow> bool" where
  "is_integral r \<longleftrightarrow> of_int \<lfloor>r\<rfloor> = r"

definition exceeds_submitted :: "int \<Rightarrow> int option \<Rightarrow> bool" where
  "exceeds_submitted submitted filled = (case filled of None \<Rightarrow> False | Some q \<Rightarrow> submitted < q)"

section \<open>\<^verbatim>\<open>BrokerEnvironmentSnapshot\<close>\<close>

record raw_broker_environment =
  beo_environment_name :: pyval
  beo_endpoint_identity :: pyval
  beo_is_paper :: pyval
  beo_verified_at_utc :: pyval

record broker_environment =
  be_environment_name :: string
  be_endpoint_identity :: string
  be_is_paper :: bool
  be_verified_at_utc :: instant

definition mk_broker_environment :: "raw_broker_environment \<Rightarrow> exn + broker_environment" where
  "mk_broker_environment obj =
     rbind (nonblank_text ''environment_name'' (beo_environment_name obj)) (\<lambda>environment_name.
     rbind (nonblank_text ''endpoint_identity''
              (beo_endpoint_identity obj)) (\<lambda>endpoint_identity.
     rbind (boolean_value ''is_paper'' (beo_is_paper obj)) (\<lambda>is_paper.
     rbind (utc_datetime ''verified_at_utc'' (beo_verified_at_utc obj)) (\<lambda>verified_at_utc.
     Inr \<lparr>be_environment_name = environment_name, be_endpoint_identity = endpoint_identity,
          be_is_paper = is_paper, be_verified_at_utc = verified_at_utc\<rparr>))))"

definition broker_environment_obj :: "broker_environment \<Rightarrow> raw_broker_environment" where
  "broker_environment_obj x =
     \<lparr>beo_environment_name = PyStr (be_environment_name x),
      beo_endpoint_identity = PyStr (be_endpoint_identity x),
      beo_is_paper = PyBool (be_is_paper x),
      beo_verified_at_utc = PyAware (be_verified_at_utc x)\<rparr>"

section \<open>\<^verbatim>\<open>BrokerAccountSnapshot\<close>\<close>

record raw_broker_account =
  bao_status :: pyval
  bao_currency :: pyval
  bao_cash :: pyval
  bao_equity :: pyval
  bao_buying_power :: pyval
  bao_trading_blocked :: pyval
  bao_account_blocked :: pyval
  bao_trade_suspended_by_user :: pyval
  bao_account_id_fingerprint :: pyval
  bao_retrieved_at_utc :: pyval

record broker_account =
  ba_status :: string
  ba_currency :: string
  ba_cash :: rat
  ba_equity :: rat
  ba_buying_power :: rat
  ba_trading_blocked :: bool
  ba_account_blocked :: bool
  ba_trade_suspended_by_user :: bool
  ba_account_id_fingerprint :: string
  ba_retrieved_at_utc :: instant

definition mk_broker_account :: "raw_broker_account \<Rightarrow> exn + broker_account" where
  "mk_broker_account obj =
     rbind (nonblank_text ''status'' (bao_status obj)) (\<lambda>status.
     rbind (nonblank_text ''currency'' (bao_currency obj)) (\<lambda>currency.
     rbind (finite_decimal False False ''cash'' (bao_cash obj)) (\<lambda>cash.
     rbind (finite_decimal False False ''equity'' (bao_equity obj)) (\<lambda>equity.
     rbind (finite_decimal False False ''buying_power'' (bao_buying_power obj)) (\<lambda>buying_power.
     rbind (boolean_value ''trading_blocked'' (bao_trading_blocked obj)) (\<lambda>trading_blocked.
     rbind (boolean_value ''account_blocked'' (bao_account_blocked obj)) (\<lambda>account_blocked.
     rbind (boolean_value ''trade_suspended_by_user''
              (bao_trade_suspended_by_user obj)) (\<lambda>trade_suspended_by_user.
     rbind (require_sha256 ''account_id_fingerprint''
              (bao_account_id_fingerprint obj)) (\<lambda>account_id_fingerprint.
     rbind (utc_datetime ''retrieved_at_utc'' (bao_retrieved_at_utc obj)) (\<lambda>retrieved_at_utc.
     Inr \<lparr>ba_status = status, ba_currency = currency, ba_cash = cash, ba_equity = equity,
          ba_buying_power = buying_power, ba_trading_blocked = trading_blocked,
          ba_account_blocked = account_blocked,
          ba_trade_suspended_by_user = trade_suspended_by_user,
          ba_account_id_fingerprint = account_id_fingerprint,
          ba_retrieved_at_utc = retrieved_at_utc\<rparr>))))))))))"

definition broker_account_obj :: "broker_account \<Rightarrow> raw_broker_account" where
  "broker_account_obj x =
     \<lparr>bao_status = PyStr (ba_status x), bao_currency = PyStr (ba_currency x),
      bao_cash = PyDecimal (Fin (ba_cash x)), bao_equity = PyDecimal (Fin (ba_equity x)),
      bao_buying_power = PyDecimal (Fin (ba_buying_power x)),
      bao_trading_blocked = PyBool (ba_trading_blocked x),
      bao_account_blocked = PyBool (ba_account_blocked x),
      bao_trade_suspended_by_user = PyBool (ba_trade_suspended_by_user x),
      bao_account_id_fingerprint = PyStr (ba_account_id_fingerprint x),
      bao_retrieved_at_utc = PyAware (ba_retrieved_at_utc x)\<rparr>"

section \<open>\<^verbatim>\<open>BrokerAccountConfigurationSnapshot\<close>\<close>

record raw_broker_account_config =
  bfo_no_shorting :: pyval
  bfo_fractional_trading_enabled :: pyval
  bfo_suspend_trade :: pyval
  bfo_max_margin_multiplier :: pyval
  bfo_retrieved_at_utc :: pyval

record broker_account_config =
  bf_no_shorting :: bool
  bf_fractional_trading_enabled :: bool
  bf_suspend_trade :: bool
  bf_max_margin_multiplier :: rat
  bf_retrieved_at_utc :: instant

definition mk_broker_account_config :: "raw_broker_account_config \<Rightarrow> exn + broker_account_config" where
  "mk_broker_account_config obj =
     rbind (boolean_value ''no_shorting'' (bfo_no_shorting obj)) (\<lambda>no_shorting.
     rbind (boolean_value ''fractional_trading_enabled''
              (bfo_fractional_trading_enabled obj)) (\<lambda>fractional_trading_enabled.
     rbind (boolean_value ''suspend_trade'' (bfo_suspend_trade obj)) (\<lambda>suspend_trade.
     rbind (finite_decimal False False ''max_margin_multiplier''
              (bfo_max_margin_multiplier obj)) (\<lambda>max_margin_multiplier.
     rbind (utc_datetime ''retrieved_at_utc'' (bfo_retrieved_at_utc obj)) (\<lambda>retrieved_at_utc.
     Inr \<lparr>bf_no_shorting = no_shorting,
          bf_fractional_trading_enabled = fractional_trading_enabled,
          bf_suspend_trade = suspend_trade, bf_max_margin_multiplier = max_margin_multiplier,
          bf_retrieved_at_utc = retrieved_at_utc\<rparr>)))))"

definition broker_account_config_obj :: "broker_account_config \<Rightarrow> raw_broker_account_config" where
  "broker_account_config_obj x =
     \<lparr>bfo_no_shorting = PyBool (bf_no_shorting x),
      bfo_fractional_trading_enabled = PyBool (bf_fractional_trading_enabled x),
      bfo_suspend_trade = PyBool (bf_suspend_trade x),
      bfo_max_margin_multiplier = PyDecimal (Fin (bf_max_margin_multiplier x)),
      bfo_retrieved_at_utc = PyAware (bf_retrieved_at_utc x)\<rparr>"

section \<open>\<^verbatim>\<open>BrokerClockSnapshot\<close>\<close>

record raw_broker_clock =
  bko_timestamp :: pyval
  bko_is_open :: pyval
  bko_next_open :: pyval
  bko_next_close :: pyval

record broker_clock =
  bk_timestamp :: instant
  bk_is_open :: bool
  bk_next_open :: instant
  bk_next_close :: instant

definition mk_broker_clock :: "raw_broker_clock \<Rightarrow> exn + broker_clock" where
  "mk_broker_clock obj =
     rbind (utc_datetime ''timestamp'' (bko_timestamp obj)) (\<lambda>timestamp.
     rbind (boolean_value ''is_open'' (bko_is_open obj)) (\<lambda>is_open.
     rbind (utc_datetime ''next_open'' (bko_next_open obj)) (\<lambda>next_open.
     rbind (utc_datetime ''next_close'' (bko_next_close obj)) (\<lambda>next_close.
     Inr \<lparr>bk_timestamp = timestamp, bk_is_open = is_open, bk_next_open = next_open,
          bk_next_close = next_close\<rparr>))))"

definition broker_clock_obj :: "broker_clock \<Rightarrow> raw_broker_clock" where
  "broker_clock_obj x =
     \<lparr>bko_timestamp = PyAware (bk_timestamp x), bko_is_open = PyBool (bk_is_open x),
      bko_next_open = PyAware (bk_next_open x), bko_next_close = PyAware (bk_next_close x)\<rparr>"

section \<open>\<^verbatim>\<open>BrokerAssetSnapshot\<close>\<close>

record raw_broker_asset =
  bso_symbol :: pyval
  bso_active :: pyval
  bso_tradable :: pyval
  bso_fractionable :: pyval
  bso_asset_class :: pyval

record broker_asset =
  bs_symbol :: string
  bs_active :: bool
  bs_tradable :: bool
  bs_fractionable :: bool
  bs_asset_class :: string

definition mk_broker_asset :: "raw_broker_asset \<Rightarrow> exn + broker_asset" where
  "mk_broker_asset obj =
     rbind (reject_if (bso_symbol obj \<noteq> PyStr SUPPORTED_SYMBOL)
              (PaperExecutionInputError ''unsupported_asset_symbol'')) (\<lambda>_.
     rbind (boolean_value ''active'' (bso_active obj)) (\<lambda>active.
     rbind (boolean_value ''tradable'' (bso_tradable obj)) (\<lambda>tradable.
     rbind (boolean_value ''fractionable'' (bso_fractionable obj)) (\<lambda>fractionable.
     rbind (nonblank_text ''asset_class'' (bso_asset_class obj)) (\<lambda>asset_class.
     Inr \<lparr>bs_symbol = SUPPORTED_SYMBOL, bs_active = active, bs_tradable = tradable,
          bs_fractionable = fractionable, bs_asset_class = asset_class\<rparr>)))))"

definition broker_asset_obj :: "broker_asset \<Rightarrow> raw_broker_asset" where
  "broker_asset_obj x =
     \<lparr>bso_symbol = PyStr (bs_symbol x), bso_active = PyBool (bs_active x),
      bso_tradable = PyBool (bs_tradable x), bso_fractionable = PyBool (bs_fractionable x),
      bso_asset_class = PyStr (bs_asset_class x)\<rparr>"

section \<open>\<^verbatim>\<open>BrokerPositionSnapshot\<close>\<close>

record raw_broker_position =
  bpo_symbol :: pyval
  bpo_side :: pyval
  bpo_quantity :: pyval
  bpo_available_quantity :: pyval
  bpo_current_price :: pyval

record broker_position =
  bp_symbol :: string
  bp_side :: string
  bp_quantity :: rat
  bp_available_quantity :: rat
  bp_current_price :: "rat option"

definition mk_broker_position :: "raw_broker_position \<Rightarrow> exn + broker_position" where
  "mk_broker_position obj =
     rbind (nonblank_text ''position_symbol'' (bpo_symbol obj)) (\<lambda>symbol.
     rbind (nonblank_text ''position_side'' (bpo_side obj)) (\<lambda>side.
     rbind (finite_decimal False False ''position_quantity'' (bpo_quantity obj)) (\<lambda>quantity.
     rbind (finite_decimal False False ''available_quantity''
              (bpo_available_quantity obj)) (\<lambda>available_quantity.
     rbind (reject_if (\<not> is_integral quantity \<or> \<not> is_integral available_quantity)
              (PaperExecutionInputError ''fractional_position'')) (\<lambda>_.
     rbind (reject_if (quantity < available_quantity)
              (PaperExecutionInputError ''position_available_exceeds_quantity'')) (\<lambda>_.
     rbind (reject_if (quantity = 0 \<and> available_quantity \<noteq> 0)
              (PaperExecutionInputError ''invalid_zero_position_available_quantity'')) (\<lambda>_.
     rbind (optional_value (finite_decimal False True ''current_price'')
              (bpo_current_price obj)) (\<lambda>current_price.
     Inr \<lparr>bp_symbol = symbol, bp_side = side, bp_quantity = quantity,
          bp_available_quantity = available_quantity, bp_current_price = current_price\<rparr>))))))))"

definition broker_position_obj :: "broker_position \<Rightarrow> raw_broker_position" where
  "broker_position_obj x =
     \<lparr>bpo_symbol = PyStr (bp_symbol x), bpo_side = PyStr (bp_side x),
      bpo_quantity = PyDecimal (Fin (bp_quantity x)),
      bpo_available_quantity = PyDecimal (Fin (bp_available_quantity x)),
      bpo_current_price = of_optional (\<lambda>r. PyDecimal (Fin r)) (bp_current_price x)\<rparr>"

section \<open>\<^verbatim>\<open>BrokerOpenOrderSnapshot\<close>\<close>

record raw_broker_open_order =
  boo_broker_order_id :: pyval
  boo_client_order_id :: pyval
  boo_symbol :: pyval
  boo_side :: pyval
  boo_quantity :: pyval
  boo_filled_quantity :: pyval
  boo_status :: pyval
  boo_submitted_at_utc :: pyval

record broker_open_order =
  bo_broker_order_id :: string
  bo_client_order_id :: string
  bo_symbol :: string
  bo_side :: order_side
  bo_quantity :: rat
  bo_filled_quantity :: rat
  bo_status :: string
  bo_submitted_at_utc :: "instant option"

definition mk_broker_open_order :: "raw_broker_open_order \<Rightarrow> exn + broker_open_order" where
  "mk_broker_open_order obj =
     rbind (nonblank_text ''broker_order_id'' (boo_broker_order_id obj)) (\<lambda>broker_order_id.
     rbind (require_execution_id ''client_order_id''
              (boo_client_order_id obj)) (\<lambda>client_order_id.
     rbind (nonblank_text ''order_symbol'' (boo_symbol obj)) (\<lambda>symbol.
     rbind (side_value ''side'' (boo_side obj)) (\<lambda>side.
     rbind (finite_decimal False True ''order_quantity'' (boo_quantity obj)) (\<lambda>quantity.
     rbind (finite_decimal False False ''filled_quantity''
              (boo_filled_quantity obj)) (\<lambda>filled_quantity.
     rbind (reject_if (\<not> is_integral quantity \<or> \<not> is_integral filled_quantity)
              (PaperExecutionInputError ''fractional_open_order'')) (\<lambda>_.
     rbind (reject_if (quantity < filled_quantity)
              (PaperExecutionInputError ''open_order_filled_exceeds_quantity'')) (\<lambda>_.
     rbind (nonblank_text ''order_status'' (boo_status obj)) (\<lambda>status.
     rbind (optional_value (utc_datetime ''submitted_at_utc'')
              (boo_submitted_at_utc obj)) (\<lambda>submitted_at_utc.
     Inr \<lparr>bo_broker_order_id = broker_order_id, bo_client_order_id = client_order_id,
          bo_symbol = symbol, bo_side = side, bo_quantity = quantity,
          bo_filled_quantity = filled_quantity, bo_status = status,
          bo_submitted_at_utc = submitted_at_utc\<rparr>))))))))))"

definition broker_open_order_obj :: "broker_open_order \<Rightarrow> raw_broker_open_order" where
  "broker_open_order_obj x =
     \<lparr>boo_broker_order_id = PyStr (bo_broker_order_id x),
      boo_client_order_id = PyStr (bo_client_order_id x), boo_symbol = PyStr (bo_symbol x),
      boo_side = PyStr (side_text (bo_side x)), boo_quantity = PyDecimal (Fin (bo_quantity x)),
      boo_filled_quantity = PyDecimal (Fin (bo_filled_quantity x)),
      boo_status = PyStr (bo_status x),
      boo_submitted_at_utc = of_optional PyAware (bo_submitted_at_utc x)\<rparr>"

section \<open>\<^verbatim>\<open>BrokerOrderSnapshot\<close>\<close>

record raw_broker_order =
  bdo_broker_order_id :: pyval
  bdo_client_order_id :: pyval
  bdo_broker_order_status :: pyval
  bdo_symbol :: pyval
  bdo_side :: pyval
  bdo_submitted_quantity :: pyval
  bdo_filled_quantity :: pyval
  bdo_order_type :: pyval
  bdo_time_in_force :: pyval
  bdo_extended_hours :: pyval
  bdo_submitted_at_utc :: pyval
  bdo_broker_response_at_utc :: pyval
  bdo_sanitized_request_id :: pyval
  bdo_execution_environment :: pyval

record broker_order =
  bd_broker_order_id :: string
  bd_client_order_id :: string
  bd_broker_order_status :: string
  bd_symbol :: string
  bd_side :: order_side
  bd_submitted_quantity :: int
  bd_filled_quantity :: "int option"
  bd_order_type :: string
  bd_time_in_force :: string
  bd_extended_hours :: bool
  bd_submitted_at_utc :: instant
  bd_broker_response_at_utc :: "instant option"
  bd_sanitized_request_id :: "string option"
  bd_execution_environment :: string

definition mk_broker_order :: "raw_broker_order \<Rightarrow> exn + broker_order" where
  "mk_broker_order obj =
     rbind (nonblank_text ''broker_order_id'' (bdo_broker_order_id obj)) (\<lambda>broker_order_id.
     rbind (require_execution_id ''client_order_id''
              (bdo_client_order_id obj)) (\<lambda>client_order_id.
     rbind (nonblank_text ''broker_order_status''
              (bdo_broker_order_status obj)) (\<lambda>broker_order_status.
     rbind (nonblank_text ''symbol'' (bdo_symbol obj)) (\<lambda>symbol.
     rbind (side_value ''side'' (bdo_side obj)) (\<lambda>side.
     rbind (whole_quantity False ''submitted_quantity''
              (bdo_submitted_quantity obj)) (\<lambda>submitted_quantity.
     rbind (optional_value (whole_quantity True ''filled_quantity'')
              (bdo_filled_quantity obj)) (\<lambda>filled_quantity.
     rbind (reject_if (exceeds_submitted submitted_quantity filled_quantity)
              (PaperExecutionInputError ''filled_quantity_exceeds_submitted_quantity'')) (\<lambda>_.
     rbind (nonblank_text ''order_type'' (bdo_order_type obj)) (\<lambda>order_type.
     rbind (nonblank_text ''time_in_force'' (bdo_time_in_force obj)) (\<lambda>time_in_force.
     rbind (boolean_value ''extended_hours'' (bdo_extended_hours obj)) (\<lambda>extended_hours.
     rbind (utc_datetime ''submitted_at_utc'' (bdo_submitted_at_utc obj)) (\<lambda>submitted_at_utc.
     rbind (optional_value (utc_datetime ''broker_response_at_utc'')
              (bdo_broker_response_at_utc obj)) (\<lambda>broker_response_at_utc.
     rbind (optional_value (nonblank_text ''sanitized_request_id'')
              (bdo_sanitized_request_id obj)) (\<lambda>sanitized_request_id.
     rbind (nonblank_text ''execution_environment''
              (bdo_execution_environment obj)) (\<lambda>execution_environment.
     Inr \<lparr>bd_broker_order_id = broker_order_id, bd_client_order_id = client_order_id,
          bd_broker_order_status = broker_order_status, bd_symbol = symbol, bd_side = side,
          bd_submitted_quantity = submitted_quantity, bd_filled_quantity = filled_quantity,
          bd_order_type = order_type, bd_time_in_force = time_in_force,
          bd_extended_hours = extended_hours, bd_submitted_at_utc = submitted_at_utc,
          bd_broker_response_at_utc = broker_response_at_utc,
          bd_sanitized_request_id = sanitized_request_id,
          bd_execution_environment = execution_environment\<rparr>)))))))))))))))"

definition broker_order_obj :: "broker_order \<Rightarrow> raw_broker_order" where
  "broker_order_obj x =
     \<lparr>bdo_broker_order_id = PyStr (bd_broker_order_id x),
      bdo_client_order_id = PyStr (bd_client_order_id x),
      bdo_broker_order_status = PyStr (bd_broker_order_status x),
      bdo_symbol = PyStr (bd_symbol x), bdo_side = PyStr (side_text (bd_side x)),
      bdo_submitted_quantity = PyInt (bd_submitted_quantity x),
      bdo_filled_quantity = of_optional PyInt (bd_filled_quantity x),
      bdo_order_type = PyStr (bd_order_type x), bdo_time_in_force = PyStr (bd_time_in_force x),
      bdo_extended_hours = PyBool (bd_extended_hours x),
      bdo_submitted_at_utc = PyAware (bd_submitted_at_utc x),
      bdo_broker_response_at_utc = of_optional PyAware (bd_broker_response_at_utc x),
      bdo_sanitized_request_id = of_optional PyStr (bd_sanitized_request_id x),
      bdo_execution_environment = PyStr (bd_execution_environment x)\<rparr>"

section \<open>\<^verbatim>\<open>PaperOrderReceipt\<close>\<close>

record raw_receipt =
  reo_signal_id :: pyval
  reo_client_order_id :: pyval
  reo_instruction_fingerprint :: pyval
  reo_broker_order_id :: pyval
  reo_broker_order_status :: pyval
  reo_symbol :: pyval
  reo_side :: pyval
  reo_submitted_quantity :: pyval
  reo_filled_quantity :: pyval
  reo_order_type :: pyval
  reo_time_in_force :: pyval
  reo_extended_hours :: pyval
  reo_submitted_at_utc :: pyval
  reo_broker_response_at_utc :: pyval
  reo_sanitized_request_id :: pyval
  reo_execution_environment :: pyval
  reo_reconciliation_status :: pyval

record receipt =
  re_signal_id :: string
  re_client_order_id :: string
  re_instruction_fingerprint :: string
  re_broker_order_id :: string
  re_broker_order_status :: string
  re_symbol :: string
  re_side :: order_side
  re_submitted_quantity :: int
  re_filled_quantity :: "int option"
  re_order_type :: string
  re_time_in_force :: string
  re_extended_hours :: bool
  re_submitted_at_utc :: instant
  re_broker_response_at_utc :: "instant option"
  re_sanitized_request_id :: "string option"
  re_execution_environment :: string
  re_reconciliation_status :: string

definition mk_receipt :: "raw_receipt \<Rightarrow> exn + receipt" where
  "mk_receipt obj =
     rbind (require_execution_id ''signal_id'' (reo_signal_id obj)) (\<lambda>signal_id.
     rbind (require_execution_id ''client_order_id''
              (reo_client_order_id obj)) (\<lambda>client_order_id.
     rbind (require_sha256 ''instruction_fingerprint''
              (reo_instruction_fingerprint obj)) (\<lambda>instruction_fingerprint.
     rbind (nonblank_text ''broker_order_id'' (reo_broker_order_id obj)) (\<lambda>broker_order_id.
     rbind (nonblank_text ''broker_order_status''
              (reo_broker_order_status obj)) (\<lambda>broker_order_status.
     rbind (reject_if (reo_symbol obj \<noteq> PyStr SUPPORTED_SYMBOL)
              (PaperExecutionInputError ''unsupported_symbol'')) (\<lambda>_.
     rbind (side_value ''side'' (reo_side obj)) (\<lambda>side.
     rbind (whole_quantity False ''submitted_quantity''
              (reo_submitted_quantity obj)) (\<lambda>submitted_quantity.
     rbind (optional_value (whole_quantity True ''filled_quantity'')
              (reo_filled_quantity obj)) (\<lambda>filled_quantity.
     rbind (reject_if (exceeds_submitted submitted_quantity filled_quantity)
              (PaperExecutionInputError ''filled_quantity_exceeds_submitted_quantity'')) (\<lambda>_.
     rbind (reject_if (reo_order_type obj \<noteq> PyStr ''market'' \<or> reo_time_in_force obj \<noteq> PyStr ''day'' \<or>
              reo_extended_hours obj \<noteq> PyBool False)
              (PaperExecutionInputError ''unsupported_order_contract'')) (\<lambda>_.
     rbind (utc_datetime ''submitted_at_utc'' (reo_submitted_at_utc obj)) (\<lambda>submitted_at_utc.
     rbind (optional_value (utc_datetime ''broker_response_at_utc'')
              (reo_broker_response_at_utc obj)) (\<lambda>broker_response_at_utc.
     rbind (optional_value (nonblank_text ''sanitized_request_id'')
              (reo_sanitized_request_id obj)) (\<lambda>sanitized_request_id.
     rbind (nonblank_text ''execution_environment''
              (reo_execution_environment obj)) (\<lambda>execution_environment.
     rbind (nonblank_text ''reconciliation_status''
              (reo_reconciliation_status obj)) (\<lambda>reconciliation_status.
     Inr \<lparr>re_signal_id = signal_id, re_client_order_id = client_order_id,
          re_instruction_fingerprint = instruction_fingerprint,
          re_broker_order_id = broker_order_id, re_broker_order_status = broker_order_status,
          re_symbol = SUPPORTED_SYMBOL, re_side = side,
          re_submitted_quantity = submitted_quantity, re_filled_quantity = filled_quantity,
          re_order_type = ''market'', re_time_in_force = ''day'', re_extended_hours = False,
          re_submitted_at_utc = submitted_at_utc,
          re_broker_response_at_utc = broker_response_at_utc,
          re_sanitized_request_id = sanitized_request_id,
          re_execution_environment = execution_environment,
          re_reconciliation_status = reconciliation_status\<rparr>))))))))))))))))"

definition receipt_obj :: "receipt \<Rightarrow> raw_receipt" where
  "receipt_obj x =
     \<lparr>reo_signal_id = PyStr (re_signal_id x),
      reo_client_order_id = PyStr (re_client_order_id x),
      reo_instruction_fingerprint = PyStr (re_instruction_fingerprint x),
      reo_broker_order_id = PyStr (re_broker_order_id x),
      reo_broker_order_status = PyStr (re_broker_order_status x),
      reo_symbol = PyStr (re_symbol x), reo_side = PyStr (side_text (re_side x)),
      reo_submitted_quantity = PyInt (re_submitted_quantity x),
      reo_filled_quantity = of_optional PyInt (re_filled_quantity x),
      reo_order_type = PyStr (re_order_type x), reo_time_in_force = PyStr (re_time_in_force x),
      reo_extended_hours = PyBool (re_extended_hours x),
      reo_submitted_at_utc = PyAware (re_submitted_at_utc x),
      reo_broker_response_at_utc = of_optional PyAware (re_broker_response_at_utc x),
      reo_sanitized_request_id = of_optional PyStr (re_sanitized_request_id x),
      reo_execution_environment = PyStr (re_execution_environment x),
      reo_reconciliation_status = PyStr (re_reconciliation_status x)\<rparr>"

section \<open>\<^verbatim>\<open>PaperOrderApproval\<close>\<close>

record raw_approval =
  apo_approval_id :: pyval
  apo_signal_id :: pyval
  apo_client_order_id :: pyval
  apo_instruction_fingerprint :: pyval
  apo_approved :: pyval
  apo_approved_at_utc :: pyval
  apo_approved_by :: pyval
  apo_approval_reason :: pyval

record approval =
  ap_approval_id :: string
  ap_signal_id :: string
  ap_client_order_id :: string
  ap_instruction_fingerprint :: string
  ap_approved :: bool
  ap_approved_at_utc :: instant
  ap_approved_by :: string
  ap_approval_reason :: string

definition mk_approval :: "raw_approval \<Rightarrow> exn + approval" where
  "mk_approval obj =
     rbind (require_execution_id ''approval_id'' (apo_approval_id obj)) (\<lambda>approval_id.
     rbind (require_execution_id ''signal_id'' (apo_signal_id obj)) (\<lambda>signal_id.
     rbind (require_execution_id ''client_order_id''
              (apo_client_order_id obj)) (\<lambda>client_order_id.
     rbind (require_sha256 ''instruction_fingerprint''
              (apo_instruction_fingerprint obj)) (\<lambda>instruction_fingerprint.
     rbind (reject_if (apo_approved obj \<noteq> PyBool True)
              (PaperExecutionInputError ''approval_not_true'')) (\<lambda>_.
     rbind (utc_datetime ''approved_at_utc'' (apo_approved_at_utc obj)) (\<lambda>approved_at_utc.
     rbind (nonblank_text ''approved_by'' (apo_approved_by obj)) (\<lambda>approved_by.
     rbind (nonblank_text ''approval_reason'' (apo_approval_reason obj)) (\<lambda>approval_reason.
     Inr \<lparr>ap_approval_id = approval_id, ap_signal_id = signal_id,
          ap_client_order_id = client_order_id,
          ap_instruction_fingerprint = instruction_fingerprint, ap_approved = True,
          ap_approved_at_utc = approved_at_utc, ap_approved_by = approved_by,
          ap_approval_reason = approval_reason\<rparr>))))))))"

definition approval_obj :: "approval \<Rightarrow> raw_approval" where
  "approval_obj x =
     \<lparr>apo_approval_id = PyStr (ap_approval_id x), apo_signal_id = PyStr (ap_signal_id x),
      apo_client_order_id = PyStr (ap_client_order_id x),
      apo_instruction_fingerprint = PyStr (ap_instruction_fingerprint x),
      apo_approved = PyBool (ap_approved x),
      apo_approved_at_utc = PyAware (ap_approved_at_utc x),
      apo_approved_by = PyStr (ap_approved_by x),
      apo_approval_reason = PyStr (ap_approval_reason x)\<rparr>"

section \<open>\<^verbatim>\<open>PaperOrderInstruction\<close>\<close>

text \<open>The payload of the instruction fingerprint. The code hashes its canonical JSON with SHA-256; the
  digest is a parameter of the model, a function of everything the payload is made of.
  \<open>ic_decimal_texts\<close> are the \<^verbatim>\<open>format(d, "f")\<close> texts of the decimals in it, which tell apart
  representations of one value.\<close>

definition PAPER_EXECUTION_SCHEMA_VERSION :: string where
  "PAPER_EXECUTION_SCHEMA_VERSION = ''spy-paper-execution-v1''"

record instruction_content =
  ic_schema_version :: string
  ic_signal_id :: string
  ic_client_order_id :: string
  ic_proposed_order :: proposed_order
  ic_risk_decision :: risk_decision
  ic_cost_assumptions :: cost_assumptions
  ic_decimal_texts :: "string list"
  ic_created_at_utc :: instant
  ic_expires_at_utc :: instant

record raw_instruction =
  ino_schema_version :: pyval
  ino_signal_id :: pyval
  ino_client_order_id :: pyval
  ino_proposed_order :: proposed_order
  ino_original_risk_decision :: risk_decision
  ino_cost_assumptions :: cost_assumptions
  ino_decimal_texts :: "string list"
  ino_created_at_utc :: pyval
  ino_expires_at_utc :: pyval
  ino_instruction_fingerprint :: pyval

record instruction =
  in_schema_version :: string
  in_signal_id :: string
  in_client_order_id :: string
  in_proposed_order :: proposed_order
  in_original_risk_decision :: risk_decision
  in_cost_assumptions :: cost_assumptions
  in_decimal_texts :: "string list"
  in_created_at_utc :: instant
  in_expires_at_utc :: instant
  in_instruction_fingerprint :: string

definition compute_instruction_fingerprint ::
  "(instruction_content \<Rightarrow> string) \<Rightarrow> raw_instruction \<Rightarrow> exn + string" where
  "compute_instruction_fingerprint digest obj =
     rbind (utc_datetime ''created_at_utc'' (ino_created_at_utc obj)) (\<lambda>created_at.
     rbind (utc_datetime ''expires_at_utc'' (ino_expires_at_utc obj)) (\<lambda>expires_at.
     rbind (require_execution_id ''signal_id'' (ino_signal_id obj)) (\<lambda>signal_id.
     rbind (require_execution_id ''client_order_id'' (ino_client_order_id obj)) (\<lambda>client_order_id.
     Inr (digest
       \<lparr>ic_schema_version = PAPER_EXECUTION_SCHEMA_VERSION, ic_signal_id = signal_id,
        ic_client_order_id = client_order_id, ic_proposed_order = ino_proposed_order obj,
        ic_risk_decision = ino_original_risk_decision obj,
        ic_cost_assumptions = ino_cost_assumptions obj,
        ic_decimal_texts = ino_decimal_texts obj, ic_created_at_utc = created_at,
        ic_expires_at_utc = expires_at\<rparr>)))))"

definition mk_instruction ::
  "(instruction_content \<Rightarrow> string) \<Rightarrow> raw_instruction \<Rightarrow> exn + instruction" where
  "mk_instruction digest obj =
     rbind (reject_if (ino_schema_version obj \<noteq> PyStr PAPER_EXECUTION_SCHEMA_VERSION)
              (PaperExecutionInputError ''invalid_execution_schema_version'')) (\<lambda>_.
     rbind (require_execution_id ''signal_id'' (ino_signal_id obj)) (\<lambda>signal_id.
     rbind (require_execution_id ''client_order_id'' (ino_client_order_id obj)) (\<lambda>client_order_id.
     rbind (reject_if (\<not> rd_approved (ino_original_risk_decision obj))
              (PaperExecutionInputError ''original_risk_not_approved'')) (\<lambda>_.
     rbind (reject_if (rd_order_sequence_number (ino_original_risk_decision obj) \<noteq>
                       po_sequence_number (ino_proposed_order obj))
              (PaperExecutionInputError ''risk_order_mismatch'')) (\<lambda>_.
     rbind (reject_if (po_symbol (ino_proposed_order obj) \<noteq> SUPPORTED_SYMBOL)
              (PaperExecutionInputError ''unsupported_symbol'')) (\<lambda>_.
     rbind (whole_quantity False ''quantity''
              (PyInt (po_quantity (ino_proposed_order obj)))) (\<lambda>quantity.
     rbind (utc_datetime ''created_at_utc'' (ino_created_at_utc obj)) (\<lambda>created_at.
     rbind (utc_datetime ''expires_at_utc'' (ino_expires_at_utc obj)) (\<lambda>expires_at.
     rbind (reject_if (expires_at \<le> created_at)
              (PaperExecutionInputError ''invalid_expiration'')) (\<lambda>_.
     rbind (require_sha256 ''instruction_fingerprint''
              (ino_instruction_fingerprint obj)) (\<lambda>fingerprint.
     rbind (compute_instruction_fingerprint digest obj) (\<lambda>computed.
     rbind (reject_if (fingerprint \<noteq> computed)
              (PaperExecutionInputError ''instruction_fingerprint_mismatch'')) (\<lambda>_.
     Inr \<lparr>in_schema_version = PAPER_EXECUTION_SCHEMA_VERSION, in_signal_id = signal_id,
          in_client_order_id = client_order_id, in_proposed_order = ino_proposed_order obj,
          in_original_risk_decision = ino_original_risk_decision obj,
          in_cost_assumptions = ino_cost_assumptions obj,
          in_decimal_texts = ino_decimal_texts obj, in_created_at_utc = created_at,
          in_expires_at_utc = expires_at,
          in_instruction_fingerprint = fingerprint\<rparr>)))))))))))))"

definition build_paper_order_instruction ::
  "(instruction_content \<Rightarrow> string) \<Rightarrow> raw_instruction \<Rightarrow> exn + instruction" where
  "build_paper_order_instruction digest arguments =
     rbind (compute_instruction_fingerprint digest arguments) (\<lambda>fingerprint.
     mk_instruction digest
       (arguments\<lparr>ino_schema_version := PyStr PAPER_EXECUTION_SCHEMA_VERSION,
                  ino_instruction_fingerprint := PyStr fingerprint\<rparr>))"

definition instruction_obj :: "instruction \<Rightarrow> raw_instruction" where
  "instruction_obj i =
     \<lparr>ino_schema_version = PyStr (in_schema_version i), ino_signal_id = PyStr (in_signal_id i),
      ino_client_order_id = PyStr (in_client_order_id i),
      ino_proposed_order = in_proposed_order i,
      ino_original_risk_decision = in_original_risk_decision i,
      ino_cost_assumptions = in_cost_assumptions i, ino_decimal_texts = in_decimal_texts i,
      ino_created_at_utc = PyAware (in_created_at_utc i),
      ino_expires_at_utc = PyAware (in_expires_at_utc i),
      ino_instruction_fingerprint = PyStr (in_instruction_fingerprint i)\<rparr>"

definition instruction_content_of :: "instruction \<Rightarrow> instruction_content" where
  "instruction_content_of i =
     \<lparr>ic_schema_version = in_schema_version i, ic_signal_id = in_signal_id i,
      ic_client_order_id = in_client_order_id i, ic_proposed_order = in_proposed_order i,
      ic_risk_decision = in_original_risk_decision i,
      ic_cost_assumptions = in_cost_assumptions i, ic_decimal_texts = in_decimal_texts i,
      ic_created_at_utc = in_created_at_utc i, ic_expires_at_utc = in_expires_at_utc i\<rparr>"

definition wf_instruction :: "(instruction_content \<Rightarrow> string) \<Rightarrow> instruction \<Rightarrow> bool" where
  "wf_instruction digest i \<longleftrightarrow>
     in_schema_version i = PAPER_EXECUTION_SCHEMA_VERSION \<and>
     is_run_id (in_signal_id i) \<and> is_run_id (in_client_order_id i) \<and>
     rd_approved (in_original_risk_decision i) \<and>
     rd_order_sequence_number (in_original_risk_decision i) =
       po_sequence_number (in_proposed_order i) \<and>
     po_symbol (in_proposed_order i) = SUPPORTED_SYMBOL \<and> 1 \<le> po_quantity (in_proposed_order i) \<and>
     in_created_at_utc i < in_expires_at_utc i \<and>
     is_sha256_text (in_instruction_fingerprint i) \<and>
     in_instruction_fingerprint i = digest (instruction_content_of i)"

lemma mk_instruction_wf:
  assumes "mk_instruction digest obj = Inr i"
  shows "wf_instruction digest i"
  using assms unfolding mk_instruction_def compute_instruction_fingerprint_def
  by (elim rbind_InrE) (auto simp: wf_instruction_def instruction_content_of_def)

lemma mk_instruction_obj: "wf_instruction digest i \<Longrightarrow> mk_instruction digest (instruction_obj i) = Inr i"
  by (cases i) (auto simp: wf_instruction_def instruction_content_of_def mk_instruction_def
      compute_instruction_fingerprint_def instruction_obj_def rbind_eq_Inr_iff)

section \<open>Well-formed snapshots, receipts and approvals\<close>

definition wf_broker_order :: "broker_order \<Rightarrow> bool" where
  "wf_broker_order d \<longleftrightarrow> mk_broker_order (broker_order_obj d) = Inr d"

definition wf_receipt :: "receipt \<Rightarrow> bool" where
  "wf_receipt r \<longleftrightarrow> mk_receipt (receipt_obj r) = Inr r"

definition wf_approval :: "approval \<Rightarrow> bool" where
  "wf_approval a \<longleftrightarrow> mk_approval (approval_obj a) = Inr a"

lemma of_optional_simps [simp]:
  "of_optional f None = PyNone" "of_optional f (Some x) = f x"
  by (simp_all add: of_optional_def)

lemma optional_value_of [simp]:
  "optional_value require (of_optional f x) = Inr y \<longleftrightarrow>
     (case x of None \<Rightarrow> y = None
              | Some v \<Rightarrow> if f v = PyNone then y = None
                          else \<exists>w. y = Some w \<and> require (f v) = Inr w)"
  by (cases x) (auto simp: optional_value_Inr)

lemma wf_broker_order_iff:
  "wf_broker_order d \<longleftrightarrow>
     is_safe_text (bd_broker_order_id d) \<and> is_run_id (bd_client_order_id d) \<and>
     is_safe_text (bd_broker_order_status d) \<and> is_safe_text (bd_symbol d) \<and>
     1 \<le> bd_submitted_quantity d \<and>
     (\<forall>q. bd_filled_quantity d = Some q \<longrightarrow> 0 \<le> q \<and> q \<le> bd_submitted_quantity d) \<and>
     is_safe_text (bd_order_type d) \<and> is_safe_text (bd_time_in_force d) \<and>
     (\<forall>s. bd_sanitized_request_id d = Some s \<longrightarrow> is_safe_text s) \<and>
     is_safe_text (bd_execution_environment d)"
  by (cases d) (auto simp: wf_broker_order_def mk_broker_order_def broker_order_obj_def
      rbind_eq_Inr_iff exceeds_submitted_def split: option.splits)

lemma mk_broker_order_wf: "mk_broker_order obj = Inr d \<Longrightarrow> wf_broker_order d"
  unfolding mk_broker_order_def
  by (elim rbind_InrE) (auto simp: wf_broker_order_iff optional_value_Inr exceeds_submitted_def
      split: option.splits)

lemma wf_receipt_iff:
  "wf_receipt r \<longleftrightarrow>
     is_run_id (re_signal_id r) \<and> is_run_id (re_client_order_id r) \<and>
     is_sha256_text (re_instruction_fingerprint r) \<and> is_safe_text (re_broker_order_id r) \<and>
     is_safe_text (re_broker_order_status r) \<and> re_symbol r = SUPPORTED_SYMBOL \<and>
     1 \<le> re_submitted_quantity r \<and>
     (\<forall>q. re_filled_quantity r = Some q \<longrightarrow> 0 \<le> q \<and> q \<le> re_submitted_quantity r) \<and>
     re_order_type r = ''market'' \<and> re_time_in_force r = ''day'' \<and> \<not> re_extended_hours r \<and>
     (\<forall>s. re_sanitized_request_id r = Some s \<longrightarrow> is_safe_text s) \<and>
     is_safe_text (re_execution_environment r) \<and> is_safe_text (re_reconciliation_status r)"
  by (cases r) (auto simp: wf_receipt_def mk_receipt_def receipt_obj_def
      rbind_eq_Inr_iff exceeds_submitted_def split: option.splits)

lemma mk_receipt_same: "mk_receipt (receipt_obj r) = Inr r' \<Longrightarrow> r' = r"
  by (cases r) (auto simp: mk_receipt_def receipt_obj_def rbind_eq_Inr_iff split: option.splits)

lemma wf_approval_iff:
  "wf_approval a \<longleftrightarrow>
     is_run_id (ap_approval_id a) \<and> is_run_id (ap_signal_id a) \<and> is_run_id (ap_client_order_id a) \<and>
     is_sha256_text (ap_instruction_fingerprint a) \<and> ap_approved a \<and>
     is_safe_text (ap_approved_by a) \<and> is_safe_text (ap_approval_reason a)"
  by (cases a) (auto simp: wf_approval_def mk_approval_def approval_obj_def rbind_eq_Inr_iff)

lemma mk_approval_wf: "mk_approval obj = Inr a \<Longrightarrow> wf_approval a"
  unfolding mk_approval_def by (elim rbind_InrE) (auto simp: wf_approval_iff)

section \<open>Matching an approval (\<^verbatim>\<open>execution/approvals.py\<close>)\<close>

definition validate_matching_approval :: "instruction \<Rightarrow> approval \<Rightarrow> instant \<Rightarrow> exn + unit" where
  "validate_matching_approval i a now =
     (if ap_signal_id a \<noteq> in_signal_id i
      then Inl (PaperExecutionApprovalError ''approval_signal_mismatch'')
      else if ap_client_order_id a \<noteq> in_client_order_id i
      then Inl (PaperExecutionApprovalError ''approval_client_order_mismatch'')
      else if ap_instruction_fingerprint a \<noteq> in_instruction_fingerprint i
      then Inl (PaperExecutionApprovalError ''approval_fingerprint_mismatch'')
      else if ap_approved_at_utc a \<le> in_created_at_utc i
      then Inl (PaperExecutionApprovalError ''approval_before_instruction'')
      else if now < ap_approved_at_utc a
      then Inl (PaperExecutionApprovalError ''approval_from_future'')
      else if in_expires_at_utc i \<le> now
      then Inl (PaperExecutionApprovalError ''approval_expired'')
      else Inr ())"

text \<open>An approval that covers the instruction at a time.\<close>

definition approval_covers :: "instruction \<Rightarrow> approval \<Rightarrow> instant \<Rightarrow> bool" where
  "approval_covers i a now \<longleftrightarrow>
     ap_signal_id a = in_signal_id i \<and> ap_client_order_id a = in_client_order_id i \<and>
     ap_instruction_fingerprint a = in_instruction_fingerprint i \<and>
     in_created_at_utc i < ap_approved_at_utc a \<and> ap_approved_at_utc a \<le> now \<and>
     now < in_expires_at_utc i"

lemma validate_matching_approval_Inr [simp]:
  "validate_matching_approval i a now = Inr u \<longleftrightarrow> approval_covers i a now"
  by (auto simp: validate_matching_approval_def approval_covers_def not_less not_le)

lemma validate_matching_approval_Inl:
  "validate_matching_approval i a now = Inl e \<Longrightarrow> \<exists>c. e = PaperExecutionApprovalError c"
  by (auto simp: validate_matching_approval_def split: if_splits)

end
