(* ===== verification/Exec_Ledger.thy ===== *)
theory Exec_Ledger
  imports Exec_Models
begin

text \<open>
  \<^verbatim>\<open>execution/repository.py\<close>: the SQLite ledger of paper execution. The state is the three
  tables: the control row, the attempts (rows in insertion order, columns as stored) and the events
  (in the order of their ids). Every operation runs in one transaction: it returns a result, or it
  raises and the transaction is rolled back.

  What can go wrong in the database is an argument of each operation: the file is missing
  (\<^verbatim>\<open>connect_database\<close> raises, outside of every handler), the schema is not the expected one, the
  first statement fails (a locked database), the commit fails, or only the read after the commit fails. The constraints of the
  schema (primary key, unique columns and index, checks) are evaluated on the tables.
\<close>

datatype db_fault =
    No_fault
  | Database_missing
  | Ledger_invalid
  | Begin_failure
  | Commit_failure
  | Read_back_failure

section \<open>Tables\<close>

record attempt_row =
  ar_signal_id :: pyval
  ar_client_order_id :: pyval
  ar_approval_id :: pyval
  ar_instruction_fingerprint :: pyval
  ar_execution_schema_version :: pyval
  ar_symbol :: pyval
  ar_side :: pyval
  ar_quantity :: pyval
  ar_signal_session :: pyval
  ar_execution_session :: pyval
  ar_instruction_created_at_utc :: pyval
  ar_expires_at_utc :: pyval
  ar_approval_at_utc :: pyval
  ar_approval_source :: pyval
  ar_original_risk_approved :: pyval
  ar_execution_risk_approved :: pyval
  ar_attempt_status :: pyval
  ar_broker_order_id :: pyval
  ar_broker_status :: pyval
  ar_broker_environment :: pyval
  ar_account_id_fingerprint :: pyval
  ar_sanitized_request_id :: pyval
  ar_created_at_utc :: pyval
  ar_updated_at_utc :: pyval
  ar_failure_code :: pyval

record attempt =
  pa_signal_id :: string
  pa_client_order_id :: string
  pa_approval_id :: string
  pa_instruction_fingerprint :: string
  pa_execution_schema_version :: string
  pa_symbol :: string
  pa_side :: order_side
  pa_quantity :: int
  pa_signal_session :: date
  pa_execution_session :: date
  pa_instruction_created_at_utc :: instant
  pa_expires_at_utc :: instant
  pa_approval_at_utc :: instant
  pa_approval_source :: string
  pa_original_risk_approved :: bool
  pa_execution_risk_approved :: bool
  pa_attempt_status :: attempt_state
  pa_broker_order_id :: "string option"
  pa_broker_status :: "string option"
  pa_broker_environment :: "string option"
  pa_account_id_fingerprint :: "string option"
  pa_sanitized_request_id :: "string option"
  pa_created_at_utc :: instant
  pa_updated_at_utc :: instant
  pa_failure_code :: "string option"

record event =
  ev_signal_id :: "string option"
  ev_client_order_id :: "string option"
  ev_event_type :: string
  ev_prior_state :: "string option"
  ev_new_state :: "string option"
  ev_timestamp_utc :: instant
  ev_safe_reason_code :: string
  ev_safe_metadata :: "(string \<times> pyval) list"

record control_row =
  cr_kill_switch_engaged :: pyval
  cr_updated_at_utc :: pyval
  cr_reason :: pyval
  cr_control_schema_version :: pyval

record control_state =
  cs_kill_switch_engaged :: bool
  cs_updated_at_utc :: instant
  cs_reason :: string
  cs_control_schema_version :: string

record ledger =
  lg_control :: "control_row option"
  lg_attempts :: "attempt_row list"
  lg_events :: "event list"

section \<open>Reading rows\<close>

definition or_integrity_error :: "string \<Rightarrow> exn + 'a \<Rightarrow> exn + 'a" where
  "or_integrity_error code m =
     (case m of Inl _ \<Rightarrow> Inl (PaperExecutionIntegrityError code) | Inr x \<Rightarrow> Inr x)"

lemma or_integrity_error_Inr [simp]: "or_integrity_error code m = Inr x \<longleftrightarrow> m = Inr x"
  by (cases m) (simp_all add: or_integrity_error_def)

lemma or_integrity_error_Inl:
  "or_integrity_error code m = Inl e \<Longrightarrow> e = PaperExecutionIntegrityError code"
  by (cases m) (simp_all add: or_integrity_error_def)

definition invalid_stored :: exn where
  "invalid_stored = OtherException ''PersistenceIntegrityError''"

definition optional_checksum :: "pyval \<Rightarrow> exn + string option" where
  "optional_checksum value = optional_value validate_checksum value"

definition read_attempt :: "attempt_row \<Rightarrow> exn + attempt" where
  "read_attempt row =
     rbind (required_text (ar_attempt_status row)) (\<lambda>status_text.
     rbind (case state_of_text status_text of None \<Rightarrow> Inl invalid_stored | Some s \<Rightarrow> Inr s) (\<lambda>status.
     rbind (required_text (ar_symbol row)) (\<lambda>symbol.
     rbind (reject_if (symbol \<noteq> SUPPORTED_SYMBOL) invalid_stored) (\<lambda>_.
     rbind (required_text (ar_side row)) (\<lambda>side_text.
     rbind (case side_of (PyStr side_text) of None \<Rightarrow> Inl invalid_stored | Some s \<Rightarrow> Inr s) (\<lambda>side.
     rbind (required_text (ar_execution_schema_version row)) (\<lambda>version.
     rbind (reject_if (version \<noteq> PAPER_EXECUTION_SCHEMA_VERSION) invalid_stored) (\<lambda>_.
     rbind (require_execution_id ''signal_id'' (ar_signal_id row)) (\<lambda>signal_id.
     rbind (require_execution_id ''client_order_id'' (ar_client_order_id row)) (\<lambda>client_order_id.
     rbind (require_execution_id ''approval_id'' (ar_approval_id row)) (\<lambda>approval_id.
     rbind (validate_checksum (ar_instruction_fingerprint row)) (\<lambda>fingerprint.
     rbind (int_from_storage 1 (ar_quantity row)) (\<lambda>quantity.
     rbind (text_to_date (ar_signal_session row)) (\<lambda>signal_session.
     rbind (text_to_date (ar_execution_session row)) (\<lambda>execution_session.
     rbind (text_to_datetime (ar_instruction_created_at_utc row)) (\<lambda>instruction_created_at.
     rbind (text_to_datetime (ar_expires_at_utc row)) (\<lambda>expires_at.
     rbind (text_to_datetime (ar_approval_at_utc row)) (\<lambda>approval_at.
     rbind (required_text (ar_approval_source row)) (\<lambda>approval_source.
     rbind (int_to_bool (ar_original_risk_approved row)) (\<lambda>original_risk.
     rbind (int_to_bool (ar_execution_risk_approved row)) (\<lambda>execution_risk.
     rbind (optional_text (ar_broker_order_id row)) (\<lambda>broker_order_id.
     rbind (optional_text (ar_broker_status row)) (\<lambda>broker_status.
     rbind (optional_text (ar_broker_environment row)) (\<lambda>broker_environment.
     rbind (optional_checksum (ar_account_id_fingerprint row)) (\<lambda>account.
     rbind (optional_text (ar_sanitized_request_id row)) (\<lambda>request_id.
     rbind (text_to_datetime (ar_created_at_utc row)) (\<lambda>created_at.
     rbind (text_to_datetime (ar_updated_at_utc row)) (\<lambda>updated_at.
     rbind (optional_text (ar_failure_code row)) (\<lambda>failure_code.
     Inr \<lparr>pa_signal_id = signal_id, pa_client_order_id = client_order_id,
          pa_approval_id = approval_id, pa_instruction_fingerprint = fingerprint,
          pa_execution_schema_version = version, pa_symbol = symbol, pa_side = side,
          pa_quantity = quantity, pa_signal_session = signal_session,
          pa_execution_session = execution_session,
          pa_instruction_created_at_utc = instruction_created_at,
          pa_expires_at_utc = expires_at, pa_approval_at_utc = approval_at,
          pa_approval_source = approval_source, pa_original_risk_approved = original_risk,
          pa_execution_risk_approved = execution_risk, pa_attempt_status = status,
          pa_broker_order_id = broker_order_id, pa_broker_status = broker_status,
          pa_broker_environment = broker_environment, pa_account_id_fingerprint = account,
          pa_sanitized_request_id = request_id, pa_created_at_utc = created_at,
          pa_updated_at_utc = updated_at,
          pa_failure_code = failure_code\<rparr>)))))))))))))))))))))))))))))"

definition attempt_from_row :: "attempt_row \<Rightarrow> exn + attempt" where
  "attempt_from_row row = or_integrity_error ''invalid_paper_execution_attempt'' (read_attempt row)"

definition get_attempt_from_connection :: "ledger \<Rightarrow> string \<Rightarrow> exn + attempt" where
  "get_attempt_from_connection l client_order_id =
     (case List.find (\<lambda>row. ar_client_order_id row = PyStr client_order_id) (lg_attempts l) of
        None \<Rightarrow> Inl (PaperExecutionNotFoundError ''paper_order_not_found'')
      | Some row \<Rightarrow> attempt_from_row row)"

section \<open>Connecting\<close>

definition connect :: "db_fault \<Rightarrow> exn + unit" where
  "connect fault =
     (case fault of
        Database_missing \<Rightarrow> Inl (PersistenceSchemaError ''database_unavailable'')
      | Ledger_invalid \<Rightarrow>
          Inl (PaperExecutionIntegrityError ''paper_execution_ledger_unavailable'')
      | _ \<Rightarrow> Inr ())"

text \<open>A write transaction: the connection, \<^verbatim>\<open>BEGIN\<close>, the body and the commit. The body
  returns a result with the new tables, or raises and the tables are as before.\<close>

definition transaction ::
  "db_fault \<Rightarrow> exn \<Rightarrow> (ledger \<Rightarrow> exn + 'a \<times> ledger) \<Rightarrow> ledger \<Rightarrow> (exn + 'a) \<times> ledger" where
  "transaction fault sql_error body l =
     (case connect fault of
        Inl e \<Rightarrow> (Inl e, l)
      | Inr _ \<Rightarrow>
          if fault = Begin_failure then (Inl sql_error, l)
          else case body l of
                 Inl e \<Rightarrow> (Inl e, l)
               | Inr (x, l') \<Rightarrow>
                   if fault = Commit_failure then (Inl sql_error, l) else (Inr x, l'))"

text \<open>A read outside of a handler for SQLite errors.\<close>

definition read_only :: "db_fault \<Rightarrow> exn + 'a \<Rightarrow> exn + 'a" where
  "read_only fault m =
     rbind (connect fault) (\<lambda>_.
       if fault = Begin_failure then Inl (OtherException ''sqlite3.Error'') else m)"

section \<open>The kill switch\<close>

definition read_control :: "control_row option \<Rightarrow> exn + control_state" where
  "read_control control =
     (case control of
        None \<Rightarrow> Inr \<lparr>cs_kill_switch_engaged = True, cs_updated_at_utc = 0,
                     cs_reason = ''missing_state'', cs_control_schema_version = ''missing''\<rparr>
      | Some row \<Rightarrow> or_integrity_error ''invalid_kill_switch_state'' (
          rbind (int_to_bool (cr_kill_switch_engaged row)) (\<lambda>engaged.
          rbind (text_to_datetime (cr_updated_at_utc row)) (\<lambda>updated_at.
          rbind (required_text (cr_reason row)) (\<lambda>reason.
          rbind (required_text (cr_control_schema_version row)) (\<lambda>version.
          Inr \<lparr>cs_kill_switch_engaged = engaged, cs_updated_at_utc = updated_at,
               cs_reason = reason, cs_control_schema_version = version\<rparr>))))))"

definition get_kill_switch_state :: "db_fault \<Rightarrow> ledger \<Rightarrow> exn + control_state" where
  "get_kill_switch_state fault l = read_only fault (read_control (lg_control l))"

definition insert_event :: "event \<Rightarrow> ledger \<Rightarrow> exn + ledger" where
  "insert_event e l =
     rbind (nonblank_text ''event_type'' (PyStr (ev_event_type e))) (\<lambda>_.
     rbind (nonblank_text ''safe_reason_code'' (PyStr (ev_safe_reason_code e))) (\<lambda>_.
     Inr (l\<lparr>lg_events := lg_events l @ [e]\<rparr>)))"

definition switch_text :: "bool \<Rightarrow> string" where
  "switch_text engaged = (if engaged then ''engaged'' else ''disengaged'')"

definition DISENGAGE_KILL_SWITCH_CONFIRMATION :: string where
  "DISENGAGE_KILL_SWITCH_CONFIRMATION = ''DISENGAGE_PAPER_EXECUTION_KILL_SWITCH''"

definition update_control :: "bool \<Rightarrow> string \<Rightarrow> instant \<Rightarrow> ledger \<Rightarrow> exn + unit \<times> ledger" where
  "update_control engaged safe_reason now l =
     rbind (read_control (lg_control l)) (\<lambda>prior.
     rbind (insert_event
              \<lparr>ev_signal_id = None, ev_client_order_id = None,
               ev_event_type = ''kill_switch_updated'',
               ev_prior_state = Some (switch_text (cs_kill_switch_engaged prior)),
               ev_new_state = Some (switch_text engaged), ev_timestamp_utc = now,
               ev_safe_reason_code = safe_reason,
               ev_safe_metadata = [(''engaged'', PyBool engaged)]\<rparr> l) (\<lambda>l'.
     Inr ((), l'\<lparr>lg_control := Some
       \<lparr>cr_kill_switch_engaged = bool_to_int engaged, cr_updated_at_utc = PyAware now,
        cr_reason = PyStr safe_reason,
        cr_control_schema_version = PyStr ''spy-paper-execution-control-v1''\<rparr>\<rparr>)))"

definition set_paper_execution_kill_switch ::
  "db_fault \<Rightarrow> bool \<Rightarrow> pyval \<Rightarrow> instant \<Rightarrow> string option \<Rightarrow> ledger \<Rightarrow>
     (exn + control_state) \<times> ledger" where
  "set_paper_execution_kill_switch fault engaged reason now confirmation l =
     (case nonblank_text ''reason'' reason of
        Inl e \<Rightarrow> (Inl e, l)
      | Inr safe_reason \<Rightarrow>
          if \<not> engaged \<and> confirmation \<noteq> Some DISENGAGE_KILL_SWITCH_CONFIRMATION
          then (Inl (PaperExecutionInputError ''missing_kill_switch_confirmation''), l)
          else case transaction fault (PaperExecutionIntegrityError ''kill_switch_update_failed'')
                      (update_control engaged safe_reason now) l of
                 (Inl e, l') \<Rightarrow> (Inl e, l')
               | (Inr _, l') \<Rightarrow>
                   if fault = Read_back_failure
                   then (Inl (PaperExecutionIntegrityError ''kill_switch_update_failed''), l')
                   else (read_control (lg_control l'), l'))"

section \<open>Reserving an attempt\<close>

definition row_of_reservation ::
  "instruction \<Rightarrow> approval \<Rightarrow> bool \<Rightarrow> instant \<Rightarrow> attempt_row" where
  "row_of_reservation i a execution_risk_approved now =
     \<lparr>ar_signal_id = PyStr (in_signal_id i), ar_client_order_id = PyStr (in_client_order_id i),
      ar_approval_id = PyStr (ap_approval_id a),
      ar_instruction_fingerprint = PyStr (in_instruction_fingerprint i),
      ar_execution_schema_version = PyStr (in_schema_version i),
      ar_symbol = PyStr (po_symbol (in_proposed_order i)),
      ar_side = PyStr (side_text (po_side (in_proposed_order i))),
      ar_quantity = PyInt (po_quantity (in_proposed_order i)),
      ar_signal_session = PyDate (po_signal_session (in_proposed_order i)),
      ar_execution_session = PyDate (po_execution_session (in_proposed_order i)),
      ar_instruction_created_at_utc = PyAware (in_created_at_utc i),
      ar_expires_at_utc = PyAware (in_expires_at_utc i),
      ar_approval_at_utc = PyAware (ap_approved_at_utc a),
      ar_approval_source = PyStr (ap_approved_by a),
      ar_original_risk_approved = bool_to_int (rd_approved (in_original_risk_decision i)),
      ar_execution_risk_approved = bool_to_int execution_risk_approved,
      ar_attempt_status = PyStr (state_text PAPER_ATTEMPT_RESERVED),
      ar_broker_order_id = PyNone, ar_broker_status = PyNone, ar_broker_environment = PyNone,
      ar_account_id_fingerprint = PyNone, ar_sanitized_request_id = PyNone,
      ar_created_at_utc = PyAware now, ar_updated_at_utc = PyAware now,
      ar_failure_code = PyNone\<rparr>"

definition session_taken :: "ledger \<Rightarrow> pyval \<Rightarrow> pyval \<Rightarrow> bool" where
  "session_taken l symbol execution_session \<longleftrightarrow>
     list_ex (\<lambda>row. ar_symbol row = symbol \<and> ar_execution_session row = execution_session)
       (lg_attempts l)"

definition identifier_taken :: "ledger \<Rightarrow> attempt_row \<Rightarrow> bool" where
  "identifier_taken l new \<longleftrightarrow>
     list_ex (\<lambda>row. ar_client_order_id row = ar_client_order_id new \<or>
                    ar_signal_id row = ar_signal_id new \<or>
                    ar_approval_id row = ar_approval_id new) (lg_attempts l)"

definition insert_reservation ::
  "instruction \<Rightarrow> approval \<Rightarrow> bool \<Rightarrow> instant \<Rightarrow> ledger \<Rightarrow> exn + attempt \<times> ledger" where
  "insert_reservation i a execution_risk_approved now l =
     (let new = row_of_reservation i a execution_risk_approved now
      in rbind (reject_if (session_taken l (ar_symbol new) (ar_execution_session new))
                  (PaperExecutionDuplicateError ''execution_session_already_reserved'')) (\<lambda>_.
         rbind (reject_if (po_quantity (in_proposed_order i) \<le> 0)
                  (PaperExecutionIntegrityError ''attempt_reservation_failed'')) (\<lambda>_.
         rbind (reject_if (identifier_taken l new)
                  (PaperExecutionDuplicateError ''duplicate_execution_identifier'')) (\<lambda>_.
         rbind (insert_event
                  \<lparr>ev_signal_id = Some (in_signal_id i),
                   ev_client_order_id = Some (in_client_order_id i),
                   ev_event_type = ''attempt_reserved'', ev_prior_state = None,
                   ev_new_state = Some (state_text PAPER_ATTEMPT_RESERVED),
                   ev_timestamp_utc = now, ev_safe_reason_code = ''reserved'',
                   ev_safe_metadata = [(''approval_id'', PyStr (ap_approval_id a))]\<rparr>
                  (l\<lparr>lg_attempts := lg_attempts l @ [new]\<rparr>)) (\<lambda>l'.
         rbind (case get_attempt_from_connection l' (in_client_order_id i) of
                  Inl (PaperExecutionNotFoundError c) \<Rightarrow>
                    Inl (PaperExecutionIntegrityError ''attempt_reservation_failed'')
                | m \<Rightarrow> m) (\<lambda>reserved.
         Inr (reserved, l')))))))"

definition reserve_attempt ::
  "db_fault \<Rightarrow> instruction \<Rightarrow> approval \<Rightarrow> bool \<Rightarrow> instant \<Rightarrow> ledger \<Rightarrow> (exn + attempt) \<times> ledger" where
  "reserve_attempt fault i a execution_risk_approved now =
     transaction fault (PaperExecutionIntegrityError ''attempt_reservation_failed'')
       (insert_reservation i a execution_risk_approved now)"

section \<open>Updating an attempt\<close>

text \<open>\<^verbatim>\<open>UPDATE ... WHERE client_order_id = ?\<close>, with the check of the row count.\<close>

definition update_attempt ::
  "string \<Rightarrow> (attempt_row \<Rightarrow> attempt_row) \<Rightarrow> ledger \<Rightarrow> exn + ledger" where
  "update_attempt client_order_id f l =
     (let matches = (\<lambda>row. ar_client_order_id row = PyStr client_order_id)
      in rbind (reject_if (length (filter matches (lg_attempts l)) \<noteq> 1)
                  (PaperExecutionIntegrityError ''attempt_update_row_count_mismatch'')) (\<lambda>_.
         Inr (l\<lparr>lg_attempts := map (\<lambda>row. if matches row then f row else row) (lg_attempts l)\<rparr>)))"

text \<open>\<open>_RECEIPT_TRANSITIONS\<close>; \<open>None\<close> for a status no receipt may set.\<close>

definition receipt_transitions :: "attempt_state \<Rightarrow> attempt_state list option" where
  "receipt_transitions status =
     (case status of
        PAPER_ATTEMPT_ACCEPTED \<Rightarrow> Some [PAPER_ATTEMPT_RESERVED]
      | PAPER_ATTEMPT_BROKER_EXISTING_ORDER_FOUND \<Rightarrow> Some [PAPER_ATTEMPT_RESERVED]
      | PAPER_ATTEMPT_RECONCILED \<Rightarrow>
          Some [PAPER_ATTEMPT_RESERVED, PAPER_ATTEMPT_SUBMISSION_UNKNOWN]
      | _ \<Rightarrow> None)"

definition submission_unknown_prior_states :: "attempt_state list" where
  "submission_unknown_prior_states = [PAPER_ATTEMPT_RESERVED, PAPER_ATTEMPT_SUBMISSION_UNKNOWN]"

definition failure_target_states :: "attempt_state list" where
  "failure_target_states = [PAPER_ATTEMPT_BLOCKED, PAPER_ATTEMPT_REJECTED]"

definition validate_receipt_against_attempt ::
  "receipt \<Rightarrow> attempt \<Rightarrow> attempt_state \<Rightarrow> exn + unit" where
  "validate_receipt_against_attempt r prior status =
     rbind (reject_if (case receipt_transitions status of
                         None \<Rightarrow> True
                       | Some allowed \<Rightarrow> pa_attempt_status prior \<notin> set allowed)
              (PaperExecutionIntegrityError ''invalid_receipt_state_transition'')) (\<lambda>_.
     rbind (reject_if (re_signal_id r \<noteq> pa_signal_id prior \<or>
                       re_client_order_id r \<noteq> pa_client_order_id prior \<or>
                       re_instruction_fingerprint r \<noteq> pa_instruction_fingerprint prior \<or>
                       re_symbol r \<noteq> pa_symbol prior \<or> re_side r \<noteq> pa_side prior \<or>
                       re_submitted_quantity r \<noteq> pa_quantity prior)
              (PaperExecutionIntegrityError ''receipt_lineage_mismatch'')) (\<lambda>_.
     rbind (reject_if (re_order_type r \<noteq> ''market'' \<or> re_time_in_force r \<noteq> ''day'' \<or>
                       re_extended_hours r)
              (PaperExecutionIntegrityError ''receipt_contract_mismatch'')) (\<lambda>_.
     reject_if (re_execution_environment r \<noteq> ''alpaca_paper'')
       (PaperExecutionIntegrityError ''receipt_environment_mismatch''))))"

definition write_receipt ::
  "receipt \<Rightarrow> attempt_state \<Rightarrow> string option \<Rightarrow> instant \<Rightarrow> string \<Rightarrow> ledger \<Rightarrow> exn + attempt \<times> ledger" where
  "write_receipt r status account now event_type l =
     rbind (case get_attempt_from_connection l (re_client_order_id r) of
              Inl (PaperExecutionNotFoundError c) \<Rightarrow>
                Inl (PaperExecutionIntegrityError ''receipt_lineage_mismatch'')
            | m \<Rightarrow> m) (\<lambda>prior.
     rbind (validate_receipt_against_attempt r prior status) (\<lambda>_.
     rbind (update_attempt (re_client_order_id r) (\<lambda>row. row
              \<lparr>ar_attempt_status := PyStr (state_text status),
               ar_broker_order_id := PyStr (re_broker_order_id r),
               ar_broker_status := PyStr (re_broker_order_status r),
               ar_broker_environment := PyStr (re_execution_environment r),
               ar_account_id_fingerprint := of_optional PyStr account,
               ar_sanitized_request_id := of_optional PyStr (re_sanitized_request_id r),
               ar_updated_at_utc := PyAware now, ar_failure_code := PyNone\<rparr>) l) (\<lambda>l1.
     rbind (insert_event
              \<lparr>ev_signal_id = Some (pa_signal_id prior),
               ev_client_order_id = Some (pa_client_order_id prior),
               ev_event_type = event_type,
               ev_prior_state = Some (state_text (pa_attempt_status prior)),
               ev_new_state = Some (state_text status), ev_timestamp_utc = now,
               ev_safe_reason_code = state_text status,
               ev_safe_metadata = [(''broker_status'', PyStr (re_broker_order_status r))]\<rparr> l1) (\<lambda>l2.
     rbind (get_attempt_from_connection l2 (re_client_order_id r)) (\<lambda>updated.
     Inr (updated, l2))))))"

definition record_receipt ::
  "db_fault \<Rightarrow> receipt \<Rightarrow> attempt_state \<Rightarrow> string option \<Rightarrow> instant \<Rightarrow> string \<Rightarrow> ledger \<Rightarrow>
     (exn + attempt) \<times> ledger" where
  "record_receipt fault r status account now event_type =
     transaction fault (PaperExecutionIntegrityError ''attempt_update_failed'')
       (write_receipt r status account now event_type)"

text \<open>The common part of \<^verbatim>\<open>mark_submission_unknown\<close> and \<^verbatim>\<open>mark_failure\<close>: the lineage, the
  transition, the update and the event.\<close>

definition write_status ::
  "string \<Rightarrow> string \<Rightarrow> (attempt_state \<Rightarrow> exn + unit) \<Rightarrow> attempt_state \<Rightarrow> string \<Rightarrow> instant \<Rightarrow> string \<Rightarrow>
     ledger \<Rightarrow> exn + unit \<times> ledger" where
  "write_status client_order_id signal_id transition status failure_code now event_type l =
     rbind (get_attempt_from_connection l client_order_id) (\<lambda>prior.
     rbind (reject_if (signal_id \<noteq> pa_signal_id prior)
              (PaperExecutionIntegrityError ''attempt_lineage_mismatch'')) (\<lambda>_.
     rbind (transition (pa_attempt_status prior)) (\<lambda>_.
     rbind (update_attempt client_order_id (\<lambda>row. row
              \<lparr>ar_attempt_status := PyStr (state_text status),
               ar_failure_code := PyStr failure_code, ar_updated_at_utc := PyAware now\<rparr>) l) (\<lambda>l1.
     rbind (insert_event
              \<lparr>ev_signal_id = Some (pa_signal_id prior),
               ev_client_order_id = Some (pa_client_order_id prior),
               ev_event_type = event_type,
               ev_prior_state = Some (state_text (pa_attempt_status prior)),
               ev_new_state = Some (state_text status), ev_timestamp_utc = now,
               ev_safe_reason_code = failure_code, ev_safe_metadata = []\<rparr> l1) (\<lambda>l2.
     Inr ((), l2))))))"

definition require_submission_unknown_transition :: "attempt_state \<Rightarrow> exn + unit" where
  "require_submission_unknown_transition prior =
     reject_if (prior \<notin> set submission_unknown_prior_states)
       (PaperExecutionIntegrityError ''invalid_submission_unknown_transition'')"

definition require_failure_transition :: "attempt_state \<Rightarrow> attempt_state \<Rightarrow> exn + unit" where
  "require_failure_transition target_status prior =
     (if target_status \<notin> set failure_target_states
      then Inl (PaperExecutionIntegrityError ''invalid_failure_transition'')
      else reject_if (prior \<noteq> PAPER_ATTEMPT_RESERVED)
             (PaperExecutionIntegrityError ''invalid_failure_transition''))"

text \<open>The commit, then the read of the attempt that is returned.\<close>

definition read_back ::
  "db_fault \<Rightarrow> exn \<Rightarrow> string \<Rightarrow> (exn + unit) \<times> ledger \<Rightarrow> (exn + attempt) \<times> ledger" where
  "read_back fault sql_error client_order_id outcome =
     (case outcome of
        (Inl e, l) \<Rightarrow> (Inl e, l)
      | (Inr _, l) \<Rightarrow>
          (if fault = Read_back_failure then Inl sql_error
           else get_attempt_from_connection l client_order_id, l))"

text \<open>The arguments of both, checked before the database is opened.\<close>

definition status_arguments :: "pyval \<Rightarrow> pyval \<Rightarrow> pyval \<Rightarrow> exn + string \<times> string \<times> string" where
  "status_arguments client_order_id signal_id failure_code =
     rbind (require_execution_id ''client_order_id'' client_order_id) (\<lambda>client.
     rbind (require_execution_id ''signal_id'' signal_id) (\<lambda>signal.
     rbind (nonblank_text ''failure_code'' failure_code) (\<lambda>code.
     Inr (client, signal, code))))"

lemma status_arguments_Inr [simp]:
  "status_arguments c s f = Inr (c', s', f') \<longleftrightarrow>
     c = PyStr c' \<and> is_run_id c' \<and> s = PyStr s' \<and> is_run_id s' \<and> f = PyStr f' \<and> is_safe_text f'"
  by (auto simp: status_arguments_def rbind_eq_Inr_iff)

definition mark_submission_unknown ::
  "db_fault \<Rightarrow> pyval \<Rightarrow> pyval \<Rightarrow> pyval \<Rightarrow> instant \<Rightarrow> string \<Rightarrow> ledger \<Rightarrow> (exn + attempt) \<times> ledger" where
  "mark_submission_unknown fault client_order_id signal_id failure_code now event_type l =
     (case status_arguments client_order_id signal_id failure_code of
        Inl e \<Rightarrow> (Inl e, l)
      | Inr (client, signal, code) \<Rightarrow>
          let sql_error = PaperExecutionIntegrityError ''attempt_unknown_update_failed''
          in read_back fault sql_error client
               (transaction fault sql_error
                  (write_status client signal require_submission_unknown_transition
                     PAPER_ATTEMPT_SUBMISSION_UNKNOWN code now event_type) l))"

definition mark_failure ::
  "db_fault \<Rightarrow> pyval \<Rightarrow> pyval \<Rightarrow> attempt_state \<Rightarrow> pyval \<Rightarrow> instant \<Rightarrow> string \<Rightarrow> ledger \<Rightarrow>
     (exn + attempt) \<times> ledger" where
  "mark_failure fault client_order_id signal_id status failure_code now event_type l =
     (if status \<notin> set failure_target_states
      then (Inl (PaperExecutionInputError ''invalid_attempt_status''), l)
      else case status_arguments client_order_id signal_id failure_code of
        Inl e \<Rightarrow> (Inl e, l)
      | Inr (client, signal, code) \<Rightarrow>
          let sql_error = PaperExecutionIntegrityError ''attempt_failure_update_failed''
          in read_back fault sql_error client
               (transaction fault sql_error
                  (write_status client signal (require_failure_transition status) status code now
                     event_type) l))"

section \<open>Queries\<close>

definition get_attempt :: "db_fault \<Rightarrow> pyval \<Rightarrow> ledger \<Rightarrow> exn + attempt" where
  "get_attempt fault client_order_id l =
     rbind (require_execution_id ''client_order_id'' client_order_id) (\<lambda>client.
     read_only fault (get_attempt_from_connection l client))"

definition count_attempts :: "db_fault \<Rightarrow> ledger \<Rightarrow> exn + nat" where
  "count_attempts fault l = read_only fault (Inr (length (lg_attempts l)))"

definition list_events :: "db_fault \<Rightarrow> string option \<Rightarrow> ledger \<Rightarrow> exn + event list" where
  "list_events fault client_order_id l =
     read_only fault
       (case client_order_id of
          None \<Rightarrow> Inr (lg_events l)
        | Some c \<Rightarrow> rbind (require_execution_id ''client_order_id'' (PyStr c)) (\<lambda>client.
            Inr (filter (\<lambda>e. ev_client_order_id e = Some client) (lg_events l))))"

text \<open>The \<^verbatim>\<open>unresolved_submission_count\<close> of \<^verbatim>\<open>status\<close>.\<close>

definition unresolved_submission_count :: "ledger \<Rightarrow> nat" where
  "unresolved_submission_count l =
     length (filter (\<lambda>row. ar_attempt_status row \<in>
               {PyStr (state_text PAPER_ATTEMPT_RESERVED),
                PyStr (state_text PAPER_ATTEMPT_SUBMISSION_UNKNOWN)}) (lg_attempts l))"

text \<open>The tables of a freshly initialized database: the kill switch is engaged.\<close>

definition initialized_ledger :: "instant \<Rightarrow> ledger" where
  "initialized_ledger now =
     \<lparr>lg_control = Some \<lparr>cr_kill_switch_engaged = PyInt 1, cr_updated_at_utc = PyAware now,
        cr_reason = PyStr ''default_engaged'',
        cr_control_schema_version = PyStr ''spy-paper-execution-control-v1''\<rparr>,
      lg_attempts = [], lg_events = []\<rparr>"

end
