(* ===== verification/Exec_Ledger_Inv.thy ===== *)
theory Exec_Ledger_Inv
  imports Exec_Ledger
begin

text \<open>
  The ledger as a state machine: the transitions of an attempt, what the rows store, and the invariant of the
  tables. The invariant says that every stored attempt reads back, that no client order id, signal id,
  approval id or execution session is used twice, and that the events of each attempt, in order, are
  the legal transitions that lead to its status.
\<close>

section \<open>The transitions of an attempt\<close>

inductive attempt_step :: "attempt_state option \<Rightarrow> attempt_state \<Rightarrow> bool" where
  step_reserve: "attempt_step None PAPER_ATTEMPT_RESERVED"
| step_accept: "attempt_step (Some PAPER_ATTEMPT_RESERVED) PAPER_ATTEMPT_ACCEPTED"
| step_existing:
    "attempt_step (Some PAPER_ATTEMPT_RESERVED) PAPER_ATTEMPT_BROKER_EXISTING_ORDER_FOUND"
| step_reconcile_reserved: "attempt_step (Some PAPER_ATTEMPT_RESERVED) PAPER_ATTEMPT_RECONCILED"
| step_reconcile_unknown:
    "attempt_step (Some PAPER_ATTEMPT_SUBMISSION_UNKNOWN) PAPER_ATTEMPT_RECONCILED"
| step_unknown: "attempt_step (Some PAPER_ATTEMPT_RESERVED) PAPER_ATTEMPT_SUBMISSION_UNKNOWN"
| step_unknown_again:
    "attempt_step (Some PAPER_ATTEMPT_SUBMISSION_UNKNOWN) PAPER_ATTEMPT_SUBMISSION_UNKNOWN"
| step_block: "attempt_step (Some PAPER_ATTEMPT_RESERVED) PAPER_ATTEMPT_BLOCKED"
| step_reject: "attempt_step (Some PAPER_ATTEMPT_RESERVED) PAPER_ATTEMPT_REJECTED"

code_pred attempt_step .

inductive_cases attempt_step_fromE [elim!]: "attempt_step (Some s) t"
inductive_simps attempt_step_None [simp]: "attempt_step None t"
inductive_simps attempt_step_Reserved: "attempt_step (Some PAPER_ATTEMPT_RESERVED) t"
inductive_simps attempt_step_Unknown: "attempt_step (Some PAPER_ATTEMPT_SUBMISSION_UNKNOWN) t"

definition terminal :: "attempt_state \<Rightarrow> bool" where
  "terminal s \<longleftrightarrow> s \<noteq> PAPER_ATTEMPT_RESERVED \<and> s \<noteq> PAPER_ATTEMPT_SUBMISSION_UNKNOWN"

lemma terminal_no_step: "terminal s \<Longrightarrow> \<not> attempt_step (Some s) t"
  by (auto simp: terminal_def)

lemma transitions_are_steps:
  "receipt_transitions t = Some allowed \<Longrightarrow> s \<in> set allowed \<Longrightarrow> attempt_step (Some s) t"
  "require_submission_unknown_transition s = Inr u \<Longrightarrow>
     attempt_step (Some s) PAPER_ATTEMPT_SUBMISSION_UNKNOWN"
  "require_failure_transition t s = Inr u \<Longrightarrow> attempt_step (Some s) t"
  by (auto simp: receipt_transitions_def require_submission_unknown_transition_def
      submission_unknown_prior_states_def require_failure_transition_def failure_target_states_def
      intro: attempt_step.intros split: attempt_state.splits if_splits)

section \<open>What a row stores\<close>

lemma optional_checksum_Inr [simp]:
  "optional_checksum v = Inr x \<longleftrightarrow>
     v = of_optional PyStr x \<and> (\<forall>s. x = Some s \<longrightarrow> is_sha256_text s)"
  by (cases x) (auto simp: optional_checksum_def optional_value_Inr)

lemma state_column [simp]:
  "(case state_of_text s of None \<Rightarrow> Inl invalid_stored | Some st \<Rightarrow> Inr st) = Inr t \<longleftrightarrow> s = state_text t"
  by (auto simp: state_of_text_Some split: option.splits)

lemma side_column [simp]:
  "(case side_of (PyStr s) of None \<Rightarrow> Inl invalid_stored | Some sd \<Rightarrow> Inr sd) = Inr t \<longleftrightarrow>
     s = side_text t"
  using side_of_eq_Some [of "PyStr s"] by (auto split: option.splits)

lemma text_columns_nonempty [simp]: "state_text st \<noteq> []" "side_text sd \<noteq> []"
  "SUPPORTED_SYMBOL \<noteq> []" "PAPER_EXECUTION_SCHEMA_VERSION \<noteq> []"
  by (cases st; simp) (cases sd; simp add: side_text_def SUPPORTED_SYMBOL_def PAPER_EXECUTION_SCHEMA_VERSION_def)+

lemma read_attempt_iff:
  "read_attempt row = Inr a \<longleftrightarrow>
     ar_attempt_status row = PyStr (state_text (pa_attempt_status a)) \<and>
     ar_symbol row = PyStr SUPPORTED_SYMBOL \<and> pa_symbol a = SUPPORTED_SYMBOL \<and>
     ar_side row = PyStr (side_text (pa_side a)) \<and>
     ar_execution_schema_version row = PyStr PAPER_EXECUTION_SCHEMA_VERSION \<and>
     pa_execution_schema_version a = PAPER_EXECUTION_SCHEMA_VERSION \<and>
     ar_signal_id row = PyStr (pa_signal_id a) \<and> is_run_id (pa_signal_id a) \<and>
     ar_client_order_id row = PyStr (pa_client_order_id a) \<and> is_run_id (pa_client_order_id a) \<and>
     ar_approval_id row = PyStr (pa_approval_id a) \<and> is_run_id (pa_approval_id a) \<and>
     ar_instruction_fingerprint row = PyStr (pa_instruction_fingerprint a) \<and>
     is_sha256_text (pa_instruction_fingerprint a) \<and>
     int_from_storage 1 (ar_quantity row) = Inr (pa_quantity a) \<and>
     ar_signal_session row = PyDate (pa_signal_session a) \<and>
     ar_execution_session row = PyDate (pa_execution_session a) \<and>
     ar_instruction_created_at_utc row = PyAware (pa_instruction_created_at_utc a) \<and>
     ar_expires_at_utc row = PyAware (pa_expires_at_utc a) \<and>
     ar_approval_at_utc row = PyAware (pa_approval_at_utc a) \<and>
     ar_approval_source row = PyStr (pa_approval_source a) \<and> pa_approval_source a \<noteq> [] \<and>
     ar_original_risk_approved row = bool_to_int (pa_original_risk_approved a) \<and>
     ar_execution_risk_approved row = bool_to_int (pa_execution_risk_approved a) \<and>
     ar_broker_order_id row = of_optional PyStr (pa_broker_order_id a) \<and>
     ar_broker_status row = of_optional PyStr (pa_broker_status a) \<and>
     ar_broker_environment row = of_optional PyStr (pa_broker_environment a) \<and>
     ar_account_id_fingerprint row = of_optional PyStr (pa_account_id_fingerprint a) \<and>
     (\<forall>s. pa_account_id_fingerprint a = Some s \<longrightarrow> is_sha256_text s) \<and>
     ar_sanitized_request_id row = of_optional PyStr (pa_sanitized_request_id a) \<and>
     ar_created_at_utc row = PyAware (pa_created_at_utc a) \<and>
     ar_updated_at_utc row = PyAware (pa_updated_at_utc a) \<and>
     ar_failure_code row = of_optional PyStr (pa_failure_code a)"
  by (cases a) (auto simp: read_attempt_def rbind_eq_Inr_iff)

lemmas attempt_row_iff = attempt_from_row_def or_integrity_error_Inr read_attempt_iff

lemma attempt_columns:
  assumes "attempt_from_row row = Inr a"
  shows "ar_client_order_id row = PyStr (pa_client_order_id a)"
    "ar_signal_id row = PyStr (pa_signal_id a)" "ar_approval_id row = PyStr (pa_approval_id a)"
    "ar_attempt_status row = PyStr (state_text (pa_attempt_status a))"
    "ar_execution_session row = PyDate (pa_execution_session a)"
    "ar_symbol row = PyStr SUPPORTED_SYMBOL" "pa_symbol a = SUPPORTED_SYMBOL"
    "is_run_id (pa_client_order_id a)" "is_run_id (pa_signal_id a)"
  using assms by (simp_all add: attempt_row_iff)

text \<open>The attempt a reservation stores.\<close>

definition attempt_of_reservation :: "instruction \<Rightarrow> approval \<Rightarrow> bool \<Rightarrow> instant \<Rightarrow> attempt" where
  "attempt_of_reservation i a execution_risk_approved now =
     \<lparr>pa_signal_id = in_signal_id i, pa_client_order_id = in_client_order_id i,
      pa_approval_id = ap_approval_id a,
      pa_instruction_fingerprint = in_instruction_fingerprint i,
      pa_execution_schema_version = in_schema_version i,
      pa_symbol = po_symbol (in_proposed_order i), pa_side = po_side (in_proposed_order i),
      pa_quantity = po_quantity (in_proposed_order i),
      pa_signal_session = po_signal_session (in_proposed_order i),
      pa_execution_session = po_execution_session (in_proposed_order i),
      pa_instruction_created_at_utc = in_created_at_utc i, pa_expires_at_utc = in_expires_at_utc i,
      pa_approval_at_utc = ap_approved_at_utc a, pa_approval_source = ap_approved_by a,
      pa_original_risk_approved = rd_approved (in_original_risk_decision i),
      pa_execution_risk_approved = execution_risk_approved,
      pa_attempt_status = PAPER_ATTEMPT_RESERVED, pa_broker_order_id = None,
      pa_broker_status = None, pa_broker_environment = None, pa_account_id_fingerprint = None,
      pa_sanitized_request_id = None, pa_created_at_utc = now, pa_updated_at_utc = now,
      pa_failure_code = None\<rparr>"

lemma reservation_reads_back:
  assumes "wf_instruction digest i" "wf_approval a"
  shows "attempt_from_row (row_of_reservation i a ok now) = Inr (attempt_of_reservation i a ok now)"
  using assms
  by (auto simp: attempt_row_iff row_of_reservation_def attempt_of_reservation_def
      wf_instruction_def wf_approval_iff is_safe_text_def is_trimmed_text_def)

text \<open>A status update and a receipt keep a row readable.\<close>

lemma status_update_reads_back:
  assumes "attempt_from_row row = Inr a"
  shows "attempt_from_row (row\<lparr>ar_attempt_status := PyStr (state_text st),
       ar_failure_code := PyStr code, ar_updated_at_utc := PyAware now\<rparr>) =
     Inr (a\<lparr>pa_attempt_status := st, pa_failure_code := Some code, pa_updated_at_utc := now\<rparr>)"
  using assms by (simp add: attempt_row_iff)

lemma receipt_update_reads_back:
  assumes "attempt_from_row row = Inr a" "\<And>s. account = Some s \<Longrightarrow> is_sha256_text s"
  shows "attempt_from_row (row\<lparr>ar_attempt_status := PyStr (state_text st),
       ar_broker_order_id := PyStr (re_broker_order_id r),
       ar_broker_status := PyStr (re_broker_order_status r),
       ar_broker_environment := PyStr (re_execution_environment r),
       ar_account_id_fingerprint := of_optional PyStr account,
       ar_sanitized_request_id := of_optional PyStr (re_sanitized_request_id r),
       ar_updated_at_utc := PyAware now, ar_failure_code := PyNone\<rparr>) =
     Inr (a\<lparr>pa_attempt_status := st, pa_broker_order_id := Some (re_broker_order_id r),
       pa_broker_status := Some (re_broker_order_status r),
       pa_broker_environment := Some (re_execution_environment r),
       pa_account_id_fingerprint := account,
       pa_sanitized_request_id := re_sanitized_request_id r,
       pa_updated_at_utc := now, pa_failure_code := None\<rparr>)"
  using assms by (simp add: attempt_row_iff)

section \<open>The invariant\<close>

definition status_of :: "ledger \<Rightarrow> string \<Rightarrow> attempt_state option" where
  "status_of l client_order_id =
     map_option pa_attempt_status (to_option (get_attempt_from_connection l client_order_id))"

text \<open>A list of events leads, by legal transitions, from one status to another.\<close>

fun event_chain :: "attempt_state option \<Rightarrow> event list \<Rightarrow> attempt_state option \<Rightarrow> bool" where
  "event_chain s [] s' \<longleftrightarrow> s = s'"
| "event_chain s (e # es) s' \<longleftrightarrow>
     ev_prior_state e = map_option state_text s \<and>
     (case Option.bind (ev_new_state e) state_of_text of
        None \<Rightarrow> False
      | Some t \<Rightarrow> attempt_step s t \<and> event_chain (Some t) es s')"

lemma event_chain_snoc:
  assumes "event_chain s es s'" "ev_prior_state e = map_option state_text s'"
    "ev_new_state e = Some (state_text t)" "attempt_step s' t"
  shows "event_chain s (es @ [e]) (Some t)"
  using assms
proof (induction es arbitrary: s)
  case (Cons f fs)
  then show ?case by (cases "Option.bind (ev_new_state f) state_of_text") auto
qed simp

definition history :: "ledger \<Rightarrow> string \<Rightarrow> event list" where
  "history l client_order_id =
     filter (\<lambda>e. ev_client_order_id e = Some client_order_id) (lg_events l)"

definition session_key :: "attempt_row \<Rightarrow> pyval \<times> pyval" where
  "session_key row = (ar_symbol row, ar_execution_session row)"

definition ledger_inv :: "ledger \<Rightarrow> bool" where
  "ledger_inv l \<longleftrightarrow>
     (\<forall>row \<in> set (lg_attempts l). \<exists>a. attempt_from_row row = Inr a) \<and>
     distinct (map ar_client_order_id (lg_attempts l)) \<and>
     distinct (map ar_signal_id (lg_attempts l)) \<and>
     distinct (map ar_approval_id (lg_attempts l)) \<and>
     distinct (map session_key (lg_attempts l)) \<and>
     (\<forall>c. event_chain None (history l c) (status_of l c))"

lemma ledger_inv_initialized: "ledger_inv (initialized_ledger now)"
  by (simp add: ledger_inv_def initialized_ledger_def history_def status_of_def
      get_attempt_from_connection_def)

lemma find_client:
  assumes "distinct (map ar_client_order_id rows)"
  shows "List.find (\<lambda>row. ar_client_order_id row = PyStr c) rows = Some row \<longleftrightarrow>
     row \<in> set rows \<and> ar_client_order_id row = PyStr c"
proof
  assume "List.find (\<lambda>row. ar_client_order_id row = PyStr c) rows = Some row"
  then show "row \<in> set rows \<and> ar_client_order_id row = PyStr c"
    by (auto simp: find_Some_iff)
next
  assume row: "row \<in> set rows \<and> ar_client_order_id row = PyStr c"
  then obtain r where r: "List.find (\<lambda>row. ar_client_order_id row = PyStr c) rows = Some r"
    by (cases "List.find (\<lambda>row. ar_client_order_id row = PyStr c) rows") (auto simp: find_None_iff)
  then have "r \<in> set rows \<and> ar_client_order_id r = PyStr c" by (auto simp: find_Some_iff)
  then have "r = row" using row assms by (metis (mono_tags) distinct_map inj_onD)
  then show "List.find (\<lambda>row. ar_client_order_id row = PyStr c) rows = Some row" using r by simp
qed

text \<open>Looking an attempt up, under the invariant.\<close>

lemma get_attempt_Inr:
  assumes "ledger_inv l"
  shows "get_attempt_from_connection l c = Inr a \<longleftrightarrow>
     (\<exists>row \<in> set (lg_attempts l). attempt_from_row row = Inr a \<and> pa_client_order_id a = c)"
proof -
  have d: "distinct (map ar_client_order_id (lg_attempts l))"
    using assms by (simp add: ledger_inv_def)
  show ?thesis
    unfolding get_attempt_from_connection_def
    using attempt_columns(1) find_client [OF d, of c]
    by (auto split: option.splits)
       (metis find_client [OF d] option.inject option.distinct(1) pyval.inject(5))+
qed

lemma status_of_Some:
  assumes "ledger_inv l"
  shows "status_of l c = Some s \<longleftrightarrow>
     (\<exists>row \<in> set (lg_attempts l). \<exists>a. attempt_from_row row = Inr a \<and>
        pa_client_order_id a = c \<and> pa_attempt_status a = s)"
  unfolding status_of_def
  by (auto simp: get_attempt_Inr [OF assms])

section \<open>Inserting and updating\<close>

lemma status_of_None:
  assumes "ledger_inv l"
  shows "status_of l c = None \<longleftrightarrow> (\<forall>row \<in> set (lg_attempts l). ar_client_order_id row \<noteq> PyStr c)"
proof -
  have "status_of l c = None \<longleftrightarrow> (\<nexists>s. status_of l c = Some s)" by auto
  then show ?thesis
    using assms attempt_columns(1) unfolding status_of_Some [OF assms] ledger_inv_def
    by (metis pyval.inject(5))
qed

text \<open>The tables after an insertion: the new attempt is reserved, the others are as before.\<close>

lemma insert_reservationE:
  assumes "insert_reservation i a ok now l = Inr (att, l')" "ledger_inv l"
    "wf_instruction digest i" "wf_approval a"
  shows "ledger_inv l'" "att = attempt_of_reservation i a ok now"
    "status_of l (in_client_order_id i) = None"
    "status_of l' = (status_of l)(in_client_order_id i \<mapsto> PAPER_ATTEMPT_RESERVED)"
    "\<not> session_taken l (PyStr (po_symbol (in_proposed_order i)))
         (PyDate (po_execution_session (in_proposed_order i)))"
    "lg_control l' = lg_control l"
    "lg_attempts l' = lg_attempts l @ [row_of_reservation i a ok now]"
proof -
  let ?c = "in_client_order_id i" and ?new = "row_of_reservation i a ok now"
  let ?e = "\<lparr>ev_signal_id = Some (in_signal_id i), ev_client_order_id = Some ?c,
     ev_event_type = ''attempt_reserved'', ev_prior_state = None,
     ev_new_state = Some (state_text PAPER_ATTEMPT_RESERVED), ev_timestamp_utc = now,
     ev_safe_reason_code = ''reserved'',
     ev_safe_metadata = [(''approval_id'', PyStr (ap_approval_id a))]\<rparr>"
  have l': "lg_attempts l' = lg_attempts l @ [?new]" "lg_events l' = lg_events l @ [?e]"
    "lg_control l' = lg_control l"
    and free: "\<not> session_taken l (ar_symbol ?new) (ar_execution_session ?new)"
      "\<not> identifier_taken l ?new"
    and read: "(case get_attempt_from_connection l' ?c of
         Inl (PaperExecutionNotFoundError c) \<Rightarrow>
           Inl (PaperExecutionIntegrityError ''attempt_reservation_failed'')
       | m \<Rightarrow> m) = Inr att"
    using assms(1) by (auto simp: insert_reservation_def insert_event_def Let_def elim!: rbind_InrE)
  note new = reservation_reads_back [OF assms(3,4), of ok now]
  have columns: "ar_client_order_id ?new = PyStr ?c" "ar_symbol ?new = PyStr (po_symbol (in_proposed_order i))"
    "ar_execution_session ?new = PyDate (po_execution_session (in_proposed_order i))"
    by (simp_all add: row_of_reservation_def)
  have fresh: "\<forall>row \<in> set (lg_attempts l). ar_client_order_id row \<noteq> PyStr ?c"
    using free(2) columns by (auto simp: identifier_taken_def list_ex_iff)
  show none: "status_of l ?c = None" using fresh status_of_None [OF assms(2)] by blast
  show "\<not> session_taken l (PyStr (po_symbol (in_proposed_order i)))
         (PyDate (po_execution_session (in_proposed_order i)))"
    using free(1) columns by simp
  have find: "List.find (\<lambda>row. ar_client_order_id row = PyStr d) (lg_attempts l') =
     (if d = ?c then Some ?new
      else List.find (\<lambda>row. ar_client_order_id row = PyStr d) (lg_attempts l))" for d
    using fresh columns(1) by (auto simp: l'(1) find_append split: option.splits dest!: find_Some_mem)
  have get: "get_attempt_from_connection l' d =
     (if d = ?c then Inr (attempt_of_reservation i a ok now) else get_attempt_from_connection l d)" for d
    by (simp add: get_attempt_from_connection_def find new)
  show "att = attempt_of_reservation i a ok now" using read by (simp add: get)
  show st: "status_of l' = (status_of l)(?c \<mapsto> PAPER_ATTEMPT_RESERVED)"
    by (rule ext) (simp add: status_of_def get attempt_of_reservation_def)
  have hist: "history l' d = history l d @ (if d = ?c then [?e] else [])" for d
    by (simp add: history_def l')
  have chain: "event_chain None (history l d) (status_of l d)" for d
    using assms(2) by (simp add: ledger_inv_def)
  have "event_chain None (history l' d) (status_of l' d)" for d
    using chain [of d] none event_chain_snoc [OF chain [of ?c], of ?e PAPER_ATTEMPT_RESERVED]
    by (simp add: hist st)
  then show "ledger_inv l'"
    using assms(2) new free columns
    by (auto simp: ledger_inv_def l' session_taken_def identifier_taken_def list_ex_iff session_key_def)
  show "lg_control l' = lg_control l" by (rule l'(3))
  show "lg_attempts l' = lg_attempts l @ [row_of_reservation i a ok now]" by (rule l'(1))
qed

text \<open>An update of one attempt that keeps its identifiers, and what the tables tell afterwards.\<close>

definition keeps_keys :: "(attempt_row \<Rightarrow> attempt_row) \<Rightarrow> bool" where
  "keeps_keys f \<longleftrightarrow> (\<forall>row. ar_client_order_id (f row) = ar_client_order_id row \<and>
     ar_signal_id (f row) = ar_signal_id row \<and> ar_approval_id (f row) = ar_approval_id row \<and>
     session_key (f row) = session_key row)"

lemma update_attempt_tables:
  assumes "update_attempt c f l = Inr l1" "keeps_keys f"
  shows "map ar_client_order_id (lg_attempts l1) = map ar_client_order_id (lg_attempts l)"
    "map ar_signal_id (lg_attempts l1) = map ar_signal_id (lg_attempts l)"
    "map ar_approval_id (lg_attempts l1) = map ar_approval_id (lg_attempts l)"
    "map session_key (lg_attempts l1) = map session_key (lg_attempts l)"
    "lg_attempts l1 =
       map (\<lambda>row. if ar_client_order_id row = PyStr c then f row else row) (lg_attempts l)"
    "lg_events l1 = lg_events l" "lg_control l1 = lg_control l"
  using assms by (auto simp: update_attempt_def Let_def keeps_keys_def)

lemma update_attempt_lookup:
  assumes inv: "ledger_inv l" and prior: "get_attempt_from_connection l c = Inr prior"
    and upd: "update_attempt c f l = Inr l1" "keeps_keys f"
    and reads: "\<And>row. attempt_from_row row = Inr prior \<Longrightarrow> attempt_from_row (f row) = Inr a'"
  shows "get_attempt_from_connection l1 d =
     (if d = c then Inr a' else get_attempt_from_connection l d)"
    and "\<forall>row \<in> set (lg_attempts l1). \<exists>a. attempt_from_row row = Inr a"
proof -
  let ?g = "\<lambda>row. if ar_client_order_id row = PyStr c then f row else row"
  note tables = update_attempt_tables [OF upd]
  have distinct: "distinct (map ar_client_order_id (lg_attempts l))"
    using inv by (simp add: ledger_inv_def)
  obtain row where row: "row \<in> set (lg_attempts l)" "attempt_from_row row = Inr prior"
    "pa_client_order_id prior = c" using prior by (auto simp: get_attempt_Inr [OF inv])
  then have client: "ar_client_order_id row = PyStr c" using attempt_columns(1) by simp
  have g: "(ar_client_order_id (?g r) = PyStr d) = (ar_client_order_id r = PyStr d)" for r
    using upd(2) by (simp add: keeps_keys_def)
  note find_g = find_map_keep [of "\<lambda>r. ar_client_order_id r = PyStr d", OF g]
  show "get_attempt_from_connection l1 d =
     (if d = c then Inr a' else get_attempt_from_connection l d)"
  proof (cases "d = c")
    case True
    have "List.find (\<lambda>r. ar_client_order_id r = PyStr c) (lg_attempts l) = Some row"
      using row(1) client find_client [OF distinct] by blast
    then show ?thesis using True client reads [OF row(2)] find_g
      by (simp add: get_attempt_from_connection_def tables(5))
  next
    case False
    then show ?thesis using find_g
      by (auto simp: get_attempt_from_connection_def tables(5)
          split: option.splits dest!: find_Some_mem)
  qed
  have only: "r = row" if "r \<in> set (lg_attempts l)" "ar_client_order_id r = PyStr c" for r
    using that row(1) client distinct by (metis (mono_tags) distinct_map inj_onD)
  then show "\<forall>row \<in> set (lg_attempts l1). \<exists>a. attempt_from_row row = Inr a"
    using inv reads [OF row(2)] by (auto simp: tables(5) ledger_inv_def)
qed

text \<open>With a legal event for the new status, the invariant is kept.\<close>

lemma update_keeps_inv:
  assumes inv: "ledger_inv l" and prior: "get_attempt_from_connection l c = Inr prior"
    and upd: "update_attempt c f l = Inr l1" "keeps_keys f"
    and reads: "\<And>row. attempt_from_row row = Inr prior \<Longrightarrow> attempt_from_row (f row) = Inr a'"
    and step: "attempt_step (Some (pa_attempt_status prior)) (pa_attempt_status a')"
    and ev: "ev_client_order_id e = Some c"
      "ev_prior_state e = Some (state_text (pa_attempt_status prior))"
      "ev_new_state e = Some (state_text (pa_attempt_status a'))"
    and l': "l' = l1\<lparr>lg_events := lg_events l1 @ [e]\<rparr>"
  shows "ledger_inv l'" "status_of l' = (status_of l)(c \<mapsto> pa_attempt_status a')"
    "get_attempt_from_connection l' c = Inr a'"
    "lg_control l' = lg_control l" "map session_key (lg_attempts l') = map session_key (lg_attempts l)"
    "map ar_client_order_id (lg_attempts l') = map ar_client_order_id (lg_attempts l)"
    "\<forall>d. d \<noteq> c \<longrightarrow> get_attempt_from_connection l' d = get_attempt_from_connection l d"
proof -
  note tables = update_attempt_tables [OF upd]
  have get: "get_attempt_from_connection l' d =
     (if d = c then Inr a' else get_attempt_from_connection l d)" for d
    using update_attempt_lookup(1) [OF inv prior upd reads, of d]
    by (simp add: l' get_attempt_from_connection_def)
  then show "get_attempt_from_connection l' c = Inr a'"
    "\<forall>d. d \<noteq> c \<longrightarrow> get_attempt_from_connection l' d = get_attempt_from_connection l d" by simp_all
  show st: "status_of l' = (status_of l)(c \<mapsto> pa_attempt_status a')"
    by (rule ext) (simp add: status_of_def get)
  have now: "status_of l c = Some (pa_attempt_status prior)" by (simp add: status_of_def prior)
  have hist: "history l' d = history l d @ (if d = c then [e] else [])" for d
    using ev(1) by (auto simp: history_def l' tables)
  have chain: "event_chain None (history l d) (status_of l d)" for d
    using inv by (simp add: ledger_inv_def)
  have "event_chain None (history l' d) (status_of l' d)" for d
    using chain [of d] event_chain_snoc [OF chain [of c], of e "pa_attempt_status a'"] ev step now
    by (simp add: hist st)
  then show "ledger_inv l'"
    using inv update_attempt_lookup(2) [OF inv prior upd reads]
    by (simp add: ledger_inv_def l' tables(1-4))
qed (simp_all add: l' update_attempt_tables(1,4,7) [OF upd])

end
