(* ===== verification/Exec_Ledger_Ops.thy ===== *)
theory Exec_Ledger_Ops
  imports Exec_Ledger_Inv
begin

text \<open>
  Any history of the ledger: a sequence of the five write operations of
  \<^verbatim>\<open>SQLitePaperExecutionRepository\<close>, each with its own database fault. The contract of a ledger of
  attempts is the locale \<open>attempt_ledger\<close>; the model of the repository is its instance.
\<close>

section \<open>The contract\<close>

text \<open>A store whose operations keep an invariant and change the status of a key only by legal
  transitions.\<close>

locale attempt_ledger =
  fixes step :: "'op \<Rightarrow> 's \<Rightarrow> 's" and admissible :: "'op \<Rightarrow> bool" and inv :: "'s \<Rightarrow> bool"
    and status :: "'s \<Rightarrow> 'k \<Rightarrow> attempt_state option"
  assumes step_inv: "inv s \<Longrightarrow> admissible x \<Longrightarrow> inv (step x s)"
    and step_status: "inv s \<Longrightarrow> admissible x \<Longrightarrow>
      status (step x s) k = status s k \<or>
      (\<exists>t. status (step x s) k = Some t \<and> attempt_step (status s k) t)"
begin

lemma run_inv: "inv s \<Longrightarrow> list_all admissible xs \<Longrightarrow> inv (fold step xs s)"
  by (induction xs arbitrary: s) (auto intro: step_inv)

lemma step_known: "inv s \<Longrightarrow> admissible x \<Longrightarrow> status s k \<noteq> None \<Longrightarrow> status (step x s) k \<noteq> None"
  using step_status [of s x k] by auto

lemma run_known:
  "inv s \<Longrightarrow> list_all admissible xs \<Longrightarrow> status s k \<noteq> None \<Longrightarrow> status (fold step xs s) k \<noteq> None"
proof (induction xs arbitrary: s)
  case (Cons x xs)
  then show ?case using step_known [of s x k] step_inv [of s x] by simp
qed simp

lemma step_terminal:
  "inv s \<Longrightarrow> admissible x \<Longrightarrow> status s k = Some t \<Longrightarrow> terminal t \<Longrightarrow> status (step x s) k = Some t"
  using step_status [of s x k] terminal_no_step by fastforce

lemma run_terminal:
  "inv s \<Longrightarrow> list_all admissible xs \<Longrightarrow> status s k = Some t \<Longrightarrow> terminal t \<Longrightarrow>
     status (fold step xs s) k = Some t"
proof (induction xs arbitrary: s)
  case (Cons x xs)
  then show ?case using step_terminal [of s x k t] step_inv [of s x] by simp
qed simp

text \<open>Once the outcome of a submission is unknown, only a reconciliation settles it.\<close>

lemma step_unknown_state:
  "inv s \<Longrightarrow> admissible x \<Longrightarrow>
     status s k \<in> {Some PAPER_ATTEMPT_SUBMISSION_UNKNOWN, Some PAPER_ATTEMPT_RECONCILED} \<Longrightarrow>
     status (step x s) k \<in> {Some PAPER_ATTEMPT_SUBMISSION_UNKNOWN, Some PAPER_ATTEMPT_RECONCILED}"
  using step_status [of s x k] by auto

lemma run_unknown_state:
  "inv s \<Longrightarrow> list_all admissible xs \<Longrightarrow>
     status s k \<in> {Some PAPER_ATTEMPT_SUBMISSION_UNKNOWN, Some PAPER_ATTEMPT_RECONCILED} \<Longrightarrow>
     status (fold step xs s) k \<in>
       {Some PAPER_ATTEMPT_SUBMISSION_UNKNOWN, Some PAPER_ATTEMPT_RECONCILED}"
proof (induction xs arbitrary: s)
  case (Cons x xs)
  then show ?case using step_unknown_state [of s x k] step_inv [of s x] by simp
qed simp

end

lemma of_optional_PyStr [simp]:
  "of_optional PyStr x = PyStr s \<longleftrightarrow> x = Some s" "PyStr s = of_optional PyStr x \<longleftrightarrow> x = Some s"
  "of_optional PyStr x = PyNone \<longleftrightarrow> x = None" "of_optional PyStr x = of_optional PyStr y \<longleftrightarrow> x = y"
  by (cases x; cases y; auto)+

section \<open>Transactions\<close>

lemma transaction_cases:
  obtains (failed) e where "transaction fault sql_error body l = (Inl e, l)"
  | (committed) x l' where "transaction fault sql_error body l = (Inr x, l')" "body l = Inr (x, l')"
      "fault = No_fault \<or> fault = Read_back_failure"
  by (cases fault; cases "body l")
     (auto simp: transaction_def connect_def split: prod.splits)

lemma transaction_Inr_iff:
  "transaction fault sql_error body l = (Inr x, l') \<longleftrightarrow>
     body l = Inr (x, l') \<and> (fault = No_fault \<or> fault = Read_back_failure)"
  by (cases fault; cases "body l") (auto simp: transaction_def connect_def)

lemma transaction_Inl:
  "transaction fault sql_error body l = (Inl e, l') \<Longrightarrow> l' = l"
  by (cases rule: transaction_cases [of fault sql_error body l]) auto

lemma transaction_No_fault [simp]:
  "transaction No_fault sql_error body l =
     (case body l of Inl e \<Rightarrow> (Inl e, l) | Inr (x, l') \<Rightarrow> (Inr x, l'))"
  by (simp add: transaction_def connect_def split: sum.splits)

section \<open>What a written status and a written receipt do\<close>

text \<open>What every successful update of one attempt leaves behind.\<close>

definition updated_attempt :: "ledger \<Rightarrow> string \<Rightarrow> attempt \<Rightarrow> ledger \<Rightarrow> bool" where
  "updated_attempt l c a l' \<longleftrightarrow>
     ledger_inv l' \<and> status_of l' = (status_of l)(c \<mapsto> pa_attempt_status a) \<and>
     attempt_step (status_of l c) (pa_attempt_status a) \<and>
     get_attempt_from_connection l' c = Inr a \<and>
     (\<forall>d. d \<noteq> c \<longrightarrow> get_attempt_from_connection l' d = get_attempt_from_connection l d) \<and>
     lg_control l' = lg_control l \<and>
     map session_key (lg_attempts l') = map session_key (lg_attempts l) \<and>
     (\<exists>e. lg_events l' = lg_events l @ [e])"

lemma event_of_update:
  assumes "insert_event e l1 = Inr l2"
  shows "l2 = l1\<lparr>lg_events := lg_events l1 @ [e]\<rparr>"
  using assms by (auto simp: insert_event_def elim!: rbind_InrE)

lemma write_statusE:
  assumes inv: "ledger_inv l"
    and body: "write_status c signal transition st code now event_type l = Inr (u, l')"
    and step: "\<And>s u. transition s = Inr u \<Longrightarrow> attempt_step (Some s) st"
  obtains prior where "get_attempt_from_connection l c = Inr prior" "pa_signal_id prior = signal"
    "updated_attempt l c (prior\<lparr>pa_attempt_status := st, pa_failure_code := Some code,
       pa_updated_at_utc := now\<rparr>) l'"
proof -
  obtain prior l1 l2 where get: "get_attempt_from_connection l c = Inr prior"
    and signal: "signal = pa_signal_id prior" and tr: "transition (pa_attempt_status prior) = Inr ()"
    and upd: "update_attempt c (\<lambda>row. row\<lparr>ar_attempt_status := PyStr (state_text st),
         ar_failure_code := PyStr code, ar_updated_at_utc := PyAware now\<rparr>) l = Inr l1"
    and ev: "insert_event
              \<lparr>ev_signal_id = Some (pa_signal_id prior),
               ev_client_order_id = Some (pa_client_order_id prior), ev_event_type = event_type,
               ev_prior_state = Some (state_text (pa_attempt_status prior)),
               ev_new_state = Some (state_text st), ev_timestamp_utc = now,
               ev_safe_reason_code = code, ev_safe_metadata = []\<rparr> l1 = Inr l2" and "l2 = l'"
    using body unfolding write_status_def by (elim rbind_InrE) auto
  have c: "pa_client_order_id prior = c" using get by (auto simp: get_attempt_Inr [OF inv])
  have now: "status_of l c = Some (pa_attempt_status prior)" by (simp add: status_of_def get)
  note keep = update_keeps_inv [OF inv get upd _ status_update_reads_back, OF _ _ _ _ _ _ event_of_update [OF ev]]
  have "updated_attempt l c (prior\<lparr>pa_attempt_status := st, pa_failure_code := Some code,
       pa_updated_at_utc := now\<rparr>) l'"
    unfolding updated_attempt_def \<open>l2 = l'\<close> [symmetric]
    by (intro conjI keep)
       (simp_all add: keeps_keys_def session_key_def step [OF tr] c now event_of_update [OF ev]
         update_attempt_tables(6) [OF upd])
  then show ?thesis using get signal that by simp
qed

definition row_with_receipt ::
  "receipt \<Rightarrow> attempt_state \<Rightarrow> string option \<Rightarrow> instant \<Rightarrow> attempt_row \<Rightarrow> attempt_row" where
  "row_with_receipt r st account now row = row
     \<lparr>ar_attempt_status := PyStr (state_text st),
      ar_broker_order_id := PyStr (re_broker_order_id r),
      ar_broker_status := PyStr (re_broker_order_status r),
      ar_broker_environment := PyStr (re_execution_environment r),
      ar_account_id_fingerprint := of_optional PyStr account,
      ar_sanitized_request_id := of_optional PyStr (re_sanitized_request_id r),
      ar_updated_at_utc := PyAware now, ar_failure_code := PyNone\<rparr>"

definition attempt_with_receipt ::
  "receipt \<Rightarrow> attempt_state \<Rightarrow> string option \<Rightarrow> instant \<Rightarrow> attempt \<Rightarrow> attempt" where
  "attempt_with_receipt r st account now a = a
     \<lparr>pa_attempt_status := st, pa_broker_order_id := Some (re_broker_order_id r),
      pa_broker_status := Some (re_broker_order_status r),
      pa_broker_environment := Some (re_execution_environment r),
      pa_account_id_fingerprint := account,
      pa_sanitized_request_id := re_sanitized_request_id r,
      pa_updated_at_utc := now, pa_failure_code := None\<rparr>"

text \<open>A receipt that names no valid account fingerprint is not written: the row would not read
  back.\<close>

lemma written_account_valid:
  assumes inv: "ledger_inv l" and upd: "update_attempt c (row_with_receipt r st account now) l = Inr l1"
    and get: "get_attempt_from_connection (l1\<lparr>lg_events := es\<rparr>) c = Inr a"
    and acc: "account = Some s"
  shows "is_sha256_text s"
proof -
  have keep: "keeps_keys (row_with_receipt r st account now)"
    by (simp add: keeps_keys_def session_key_def row_with_receipt_def)
  obtain row where row: "List.find (\<lambda>row. ar_client_order_id row = PyStr c) (lg_attempts l1) = Some row"
    "attempt_from_row row = Inr a"
    using get by (auto simp: get_attempt_from_connection_def split: option.splits)
  from find_Some_mem [OF row(1)] obtain row0 where
    "row = row_with_receipt r st account now row0"
    by (auto simp: update_attempt_tables(5) [OF upd keep] split: if_splits)
  then show ?thesis using row(2) acc by (simp add: attempt_row_iff row_with_receipt_def)
qed

definition receipt_matches :: "receipt \<Rightarrow> attempt \<Rightarrow> bool" where
  "receipt_matches r a \<longleftrightarrow>
     re_signal_id r = pa_signal_id a \<and> re_client_order_id r = pa_client_order_id a \<and>
     re_instruction_fingerprint r = pa_instruction_fingerprint a \<and> re_symbol r = pa_symbol a \<and>
     re_side r = pa_side a \<and> re_submitted_quantity r = pa_quantity a \<and>
     re_order_type r = ''market'' \<and> re_time_in_force r = ''day'' \<and> \<not> re_extended_hours r \<and>
     re_execution_environment r = ''alpaca_paper''"

lemma validate_receipt_Inr:
  "validate_receipt_against_attempt r a st = Inr u \<longleftrightarrow>
     (\<exists>allowed. receipt_transitions st = Some allowed \<and> pa_attempt_status a \<in> set allowed) \<and>
     receipt_matches r a"
  by (auto simp: validate_receipt_against_attempt_def receipt_matches_def split: option.splits)

lemma write_receiptE:
  assumes inv: "ledger_inv l"
    and body: "write_receipt r st account now event_type l = Inr (att, l')"
  obtains prior where "get_attempt_from_connection l (re_client_order_id r) = Inr prior"
    "receipt_matches r prior" "att = attempt_with_receipt r st account now prior"
    "updated_attempt l (re_client_order_id r) att l'"
proof -
  let ?c = "re_client_order_id r"
  obtain prior l1 l2 where get: "get_attempt_from_connection l ?c = Inr prior"
    and valid: "validate_receipt_against_attempt r prior st = Inr ()"
    and upd: "update_attempt ?c (row_with_receipt r st account now) l = Inr l1"
    and ev: "insert_event
              \<lparr>ev_signal_id = Some (pa_signal_id prior),
               ev_client_order_id = Some (pa_client_order_id prior), ev_event_type = event_type,
               ev_prior_state = Some (state_text (pa_attempt_status prior)),
               ev_new_state = Some (state_text st), ev_timestamp_utc = now,
               ev_safe_reason_code = state_text st,
               ev_safe_metadata = [(''broker_status'', PyStr (re_broker_order_status r))]\<rparr> l1 = Inr l2"
    and att: "get_attempt_from_connection l2 ?c = Inr att" and "l2 = l'"
    using body unfolding write_receipt_def row_with_receipt_def [abs_def]
    by (elim rbind_InrE) (auto split: sum.splits exn.splits)
  note l2 = event_of_update [OF ev]
  have c: "pa_client_order_id prior = ?c" using get by (auto simp: get_attempt_Inr [OF inv])
  have matches: "receipt_matches r prior"
    and step: "attempt_step (Some (pa_attempt_status prior)) st"
    using valid transitions_are_steps(1) by (auto simp: validate_receipt_Inr)
  have now: "status_of l ?c = Some (pa_attempt_status prior)" by (simp add: status_of_def get)
  have reads: "attempt_from_row (row_with_receipt r st account now row) =
       Inr (attempt_with_receipt r st account now prior)" if "attempt_from_row row = Inr prior" for row
    using receipt_update_reads_back [OF that written_account_valid [OF inv upd att [unfolded l2]]]
    by (simp add: row_with_receipt_def attempt_with_receipt_def)
  have keep: "keeps_keys (row_with_receipt r st account now)"
    by (simp add: keeps_keys_def session_key_def row_with_receipt_def)
  have status: "pa_attempt_status (attempt_with_receipt r st account now prior) = st"
    by (simp add: attempt_with_receipt_def)
  note keeps = update_keeps_inv [OF inv get upd keep reads, OF _ _ _ _ _ l2, unfolded status]
  have a: "att = attempt_with_receipt r st account now prior"
    using att keeps(3) step c by simp
  have "updated_attempt l ?c att l'"
    unfolding updated_attempt_def \<open>l2 = l'\<close> [symmetric] a status
    by (intro conjI keeps) (simp_all add: step c now l2 update_attempt_tables(6) [OF upd keep])
  then show ?thesis using get matches a that by simp
qed

section \<open>Histories\<close>

datatype ledger_op =
    Set_kill_switch bool pyval instant "string option"
  | Reserve_attempt instruction approval bool instant
  | Record_receipt receipt attempt_state "string option" instant string
  | Mark_submission_unknown pyval pyval pyval instant string
  | Mark_failure pyval pyval attempt_state pyval instant string

definition failure_of :: "exn + 'a \<Rightarrow> exn option" where
  "failure_of m = (case m of Inl e \<Rightarrow> Some e | Inr _ \<Rightarrow> None)"

lemma failure_of_simps [simp]: "failure_of (Inl e) = Some e" "failure_of (Inr x) = None"
  by (simp_all add: failure_of_def)

fun run_op :: "db_fault \<Rightarrow> ledger_op \<Rightarrow> ledger \<Rightarrow> exn option \<times> ledger" where
  "run_op fault (Set_kill_switch engaged reason now confirmation) l =
     map_prod failure_of id (set_paper_execution_kill_switch fault engaged reason now confirmation l)"
| "run_op fault (Reserve_attempt i a ok now) l =
     map_prod failure_of id (reserve_attempt fault i a ok now l)"
| "run_op fault (Record_receipt r st account now event_type) l =
     map_prod failure_of id (record_receipt fault r st account now event_type l)"
| "run_op fault (Mark_submission_unknown c signal code now event_type) l =
     map_prod failure_of id (mark_submission_unknown fault c signal code now event_type l)"
| "run_op fault (Mark_failure c signal st code now event_type) l =
     map_prod failure_of id (mark_failure fault c signal st code now event_type l)"

definition apply_op :: "db_fault \<times> ledger_op \<Rightarrow> ledger \<Rightarrow> ledger" where
  "apply_op x l = snd (run_op (fst x) (snd x) l)"

text \<open>The instructions and approvals of a history are objects the constructors accepted.\<close>

fun valid_op :: "(instruction_content \<Rightarrow> string) \<Rightarrow> ledger_op \<Rightarrow> bool" where
  "valid_op digest (Reserve_attempt i a ok now) \<longleftrightarrow> wf_instruction digest i \<and> wf_approval a"
| "valid_op digest _ \<longleftrightarrow> True"

definition admissible_op :: "(instruction_content \<Rightarrow> string) \<Rightarrow> db_fault \<times> ledger_op \<Rightarrow> bool" where
  "admissible_op digest x \<longleftrightarrow> valid_op digest (snd x)"

text \<open>What one operation may do: nothing, or a new control row, or a new attempt, or a legal
  change of one attempt.\<close>

definition control_updated :: "ledger \<Rightarrow> ledger \<Rightarrow> bool" where
  "control_updated l l' \<longleftrightarrow>
     lg_attempts l' = lg_attempts l \<and>
     (\<exists>e. lg_events l' = lg_events l @ [e] \<and> ev_client_order_id e = None)"

lemma update_controlE:
  assumes "update_control engaged reason now l = Inr (u, l')"
  shows "control_updated l l'"
    "lg_control l' = Some \<lparr>cr_kill_switch_engaged = bool_to_int engaged, cr_updated_at_utc = PyAware now,
        cr_reason = PyStr reason,
        cr_control_schema_version = PyStr ''spy-paper-execution-control-v1''\<rparr>"
  using assms unfolding update_control_def
  by (auto simp: insert_event_def control_updated_def elim!: rbind_InrE)

lemma control_updated_keeps:
  assumes "control_updated l l'" "ledger_inv l"
  shows "ledger_inv l'" "status_of l' = status_of l"
proof -
  have a: "lg_attempts l' = lg_attempts l" using assms(1) by (simp add: control_updated_def)
  show st: "status_of l' = status_of l"
    by (rule ext) (simp add: status_of_def get_attempt_from_connection_def a)
  have "history l' c = history l c" for c
    using assms(1) by (auto simp: control_updated_def history_def)
  then show "ledger_inv l'" using assms(2) by (simp add: ledger_inv_def a st)
qed

text \<open>The two status updates, from their arguments to the tables.\<close>

lemma read_back_snd [simp]: "snd (read_back fault e c outcome) = snd outcome"
  by (auto simp: read_back_def split: prod.splits sum.splits)

lemma marked_status_cases:
  assumes inv: "ledger_inv l"
    and mark: "transaction fault sql_error (write_status c signal transition st code now event_type) l
                 = (r, l')"
    and step: "\<And>s u. transition s = Inr u \<Longrightarrow> attempt_step (Some s) st"
  shows "l' = l \<or> (\<exists>a. pa_attempt_status a = st \<and> updated_attempt l c a l')"
proof (cases rule: transaction_cases [of fault sql_error
    "write_status c signal transition st code now event_type" l])
  case (committed u l1)
  then have "write_status c signal transition st code now event_type l = Inr (u, l')"
    using mark by simp
  then show ?thesis
  proof (rule write_statusE [OF inv _ step])
    fix prior
    assume "updated_attempt l c (prior\<lparr>pa_attempt_status := st, pa_failure_code := Some code,
       pa_updated_at_utc := now\<rparr>) l'"
    then show ?thesis by (intro disjI2 exI conjI) simp_all
  qed
qed (use mark in simp)

lemma mark_submission_unknown_cases:
  assumes inv: "ledger_inv l"
    and mark: "mark_submission_unknown fault client signal code now event_type l = (r, l')"
  shows "l' = l \<or> (\<exists>c a. client = PyStr c \<and> pa_attempt_status a = PAPER_ATTEMPT_SUBMISSION_UNKNOWN \<and>
      updated_attempt l c a l')"
proof (cases "status_arguments client signal code")
  case (Inr args)
  obtain c s f where args: "args = (c, s, f)" by (cases args)
  obtain r' l1 where t: "transaction fault (PaperExecutionIntegrityError ''attempt_unknown_update_failed'')
    (write_status c s require_submission_unknown_transition PAPER_ATTEMPT_SUBMISSION_UNKNOWN f now
       event_type) l = (r', l1)" by fastforce
  have "l' = l1" using arg_cong [OF mark, of snd] Inr by (simp add: mark_submission_unknown_def args t Let_def)
  then show ?thesis
    using marked_status_cases [OF inv t transitions_are_steps(2)] Inr by (auto simp: args)
qed (use mark in \<open>simp add: mark_submission_unknown_def\<close>)

lemma mark_failure_cases:
  assumes inv: "ledger_inv l" and mark: "mark_failure fault client signal st code now event_type l = (r, l')"
  shows "l' = l \<or> (\<exists>c a. client = PyStr c \<and> pa_attempt_status a = st \<and> updated_attempt l c a l')"
proof (cases "st \<in> set failure_target_states")
  case True
  show ?thesis
  proof (cases "status_arguments client signal code")
    case (Inr args)
    obtain c s f where args: "args = (c, s, f)" by (cases args)
    obtain r' l1 where t: "transaction fault (PaperExecutionIntegrityError ''attempt_failure_update_failed'')
      (write_status c s (require_failure_transition st) st f now event_type) l = (r', l1)" by fastforce
    have "l' = l1" using arg_cong [OF mark, of snd] Inr True by (simp add: mark_failure_def args t Let_def)
    then show ?thesis
      using marked_status_cases [OF inv t transitions_are_steps(3)] Inr by (auto simp: args)
  qed (use mark True in \<open>simp add: mark_failure_def\<close>)
qed (use mark in \<open>simp add: mark_failure_def\<close>)

lemma record_receipt_cases:
  assumes inv: "ledger_inv l" and rec: "record_receipt fault r st account now event_type l = (m, l')"
  shows "(\<exists>e. m = Inl e \<and> l' = l) \<or>
    (\<exists>prior. get_attempt_from_connection l (re_client_order_id r) = Inr prior \<and> receipt_matches r prior \<and>
       m = Inr (attempt_with_receipt r st account now prior) \<and>
       updated_attempt l (re_client_order_id r) (attempt_with_receipt r st account now prior) l')"
proof (cases m)
  case (Inl e)
  then show ?thesis using rec transaction_Inl by (auto simp: record_receipt_def)
next
  case (Inr att)
  then have "write_receipt r st account now event_type l = Inr (att, l')"
    using rec by (simp add: record_receipt_def transaction_Inr_iff)
  then show ?thesis using Inr by (elim write_receiptE [OF inv]) auto
qed

lemma reserve_attempt_cases:
  assumes inv: "ledger_inv l" and wf: "wf_instruction digest i" "wf_approval a"
    and res: "reserve_attempt fault i a ok now l = (m, l')"
  shows "(\<exists>e. m = Inl e \<and> l' = l) \<or>
    (m = Inr (attempt_of_reservation i a ok now) \<and> ledger_inv l' \<and>
     status_of l (in_client_order_id i) = None \<and>
     status_of l' = (status_of l)(in_client_order_id i \<mapsto> PAPER_ATTEMPT_RESERVED) \<and>
     lg_control l' = lg_control l \<and>
     lg_attempts l' = lg_attempts l @ [row_of_reservation i a ok now])"
proof (cases m)
  case (Inl e)
  then show ?thesis using res transaction_Inl by (auto simp: reserve_attempt_def)
next
  case (Inr att)
  then have "insert_reservation i a ok now l = Inr (att, l')"
    using res by (simp add: reserve_attempt_def transaction_Inr_iff)
  from insert_reservationE [OF this inv wf] show ?thesis using Inr by simp
qed

lemma set_kill_switch_cases:
  assumes set: "set_paper_execution_kill_switch fault engaged reason now confirmation l = (m, l')"
  shows "l' = l \<or> control_updated l l' \<and>
    (engaged \<or> confirmation = Some DISENGAGE_KILL_SWITCH_CONFIRMATION) \<and>
    (\<exists>row. lg_control l' = Some row \<and> cr_kill_switch_engaged row = bool_to_int engaged)"
proof (cases "nonblank_text ''reason'' reason")
  case (Inr safe)
  obtain r1 l1 where t: "transaction fault (PaperExecutionIntegrityError ''kill_switch_update_failed'')
     (update_control engaged safe now) l = (r1, l1)" by fastforce
  show ?thesis
  proof (cases "\<not> engaged \<and> confirmation \<noteq> Some DISENGAGE_KILL_SWITCH_CONFIRMATION")
    case False
    have l1: "l' = l1" using arg_cong [OF set, of snd] Inr False
      by (auto simp: set_paper_execution_kill_switch_def t split: sum.splits if_splits)
    show ?thesis
    proof (cases r1)
      case (Inl e)
      then show ?thesis using t transaction_Inl l1 by blast
    next
      case (Inr u)
      then have "update_control engaged safe now l = Inr (u, l1)"
        using t by (simp add: transaction_Inr_iff)
      from update_controlE [OF this] show ?thesis using l1 False by auto
    qed
  qed (use set Inr in \<open>simp add: set_paper_execution_kill_switch_def\<close>)
qed (use set in \<open>simp add: set_paper_execution_kill_switch_def\<close>)

section \<open>The repository keeps the contract\<close>

lemma insert_reservation_events:
  "insert_reservation i a ok now l = Inr (att, l') \<Longrightarrow> \<exists>e. lg_events l' = lg_events l @ [e]"
  by (auto simp: insert_reservation_def insert_event_def Let_def elim!: rbind_InrE)

definition op_effect :: "ledger \<Rightarrow> ledger \<Rightarrow> bool" where
  "op_effect l l' \<longleftrightarrow>
     l' = l \<or> control_updated l l' \<or>
     (\<exists>c t. ledger_inv l' \<and> status_of l' = (status_of l)(c \<mapsto> t) \<and>
        attempt_step (status_of l c) t \<and> lg_control l' = lg_control l \<and>
        (\<exists>e. lg_events l' = lg_events l @ [e]) \<and>
        (\<exists>keys. map session_key (lg_attempts l') = map session_key (lg_attempts l) @ keys))"

lemma updated_attempt_effect: "updated_attempt l c a l' \<Longrightarrow> op_effect l l'"
  unfolding updated_attempt_def op_effect_def by (metis append_Nil2)

lemma same_effect: "op_effect l l"
  by (simp add: op_effect_def)

lemma control_effect: "control_updated l l' \<Longrightarrow> op_effect l l'"
  by (simp add: op_effect_def)

lemma reserve_effect:
  assumes "ledger_inv l" "wf_instruction digest i" "wf_approval a"
    "reserve_attempt fault i a ok now l = (m, l')"
  shows "op_effect l l'"
proof (cases m)
  case (Inl e)
  then have "l' = l" using assms(4) by (auto simp: reserve_attempt_def dest: transaction_Inl)
  then show ?thesis by (simp add: same_effect)
next
  case (Inr att)
  then have ins: "insert_reservation i a ok now l = Inr (att, l')"
    using assms(4) by (simp add: reserve_attempt_def transaction_Inr_iff)
  note E = insert_reservationE [OF ins assms(1-3)]
  have "attempt_step (status_of l (in_client_order_id i)) PAPER_ATTEMPT_RESERVED" using E(3) by simp
  moreover have "map session_key (lg_attempts l') =
      map session_key (lg_attempts l) @ [session_key (row_of_reservation i a ok now)]"
    using E(7) by simp
  ultimately show ?thesis
    unfolding op_effect_def using E(1,4,6) insert_reservation_events [OF ins] by blast
qed

lemma apply_op_effect:
  assumes "ledger_inv l" "admissible_op digest x"
  shows "op_effect l (apply_op x l)"
proof -
  obtain fault operation where x: "x = (fault, operation)" by (cases x)
  show ?thesis
  proof (cases operation)
    case (Set_kill_switch engaged reason now confirmation)
    then show ?thesis
      using set_kill_switch_cases [of fault engaged reason now confirmation l] control_effect same_effect
      by (cases "set_paper_execution_kill_switch fault engaged reason now confirmation l")
         (auto simp: apply_op_def x)
  next
    case (Reserve_attempt i a ok now)
    then show ?thesis using assms reserve_effect [of l digest i a fault ok now]
      by (cases "reserve_attempt fault i a ok now l") (auto simp: apply_op_def x admissible_op_def)
  next
    case (Record_receipt r st account now ty)
    then show ?thesis
      using record_receipt_cases [OF assms(1), of fault r st account now ty] updated_attempt_effect same_effect
      by (cases "record_receipt fault r st account now ty l") (fastforce simp: apply_op_def x)
  next
    case (Mark_submission_unknown c s code now ty)
    then show ?thesis
      using mark_submission_unknown_cases [OF assms(1), of fault c s code now ty]
        updated_attempt_effect same_effect
      by (cases "mark_submission_unknown fault c s code now ty l") (fastforce simp: apply_op_def x)
  next
    case (Mark_failure c s st code now ty)
    then show ?thesis
      using mark_failure_cases [OF assms(1), of fault c s st code now ty]
        updated_attempt_effect same_effect
      by (cases "mark_failure fault c s st code now ty l") (fastforce simp: apply_op_def x)
  qed
qed

interpretation history: attempt_ledger apply_op "admissible_op digest" ledger_inv status_of
  for digest :: "instruction_content \<Rightarrow> string"
proof unfold_locales
  fix l :: ledger and x :: "db_fault \<times> ledger_op" and c :: string
  assume inv: "ledger_inv l" and adm: "admissible_op digest x"
  note e = apply_op_effect [OF this]
  show "ledger_inv (apply_op x l)"
    using e inv control_updated_keeps(1) by (auto simp: op_effect_def)
  show "status_of (apply_op x l) c = status_of l c \<or>
    (\<exists>t. status_of (apply_op x l) c = Some t \<and> attempt_step (status_of l c) t)"
    using e control_updated_keeps(2) [OF _ inv] by (auto simp: op_effect_def)
qed

end
