(* ===== verification/Exec_Ledger_Properties.thy ===== *)
theory Exec_Ledger_Properties
  imports Exec_Ledger_Ops
begin

text \<open>
  The properties of the paper-execution ledger: what holds after any history of its write operations, what each
  operation returns on every branch, and the kill switch.
\<close>

section \<open>Histories\<close>

text \<open>C12: after any sequence of kill-switch updates, reservations, receipts and failure marks on an initialized
  database, each with any database fault, every stored attempt reads back, no client order id, signal
  id, approval id or execution session is used by two attempts, and the events of every client
  order id are, in order, the legal transitions from nothing to its present status.\<close>

theorem ledger_history_safe:
  assumes "list_all (admissible_op digest) ops"
    and "l = fold apply_op ops (initialized_ledger t0)"
  shows "(\<forall>row \<in> set (lg_attempts l). \<exists>a. attempt_from_row row = Inr a) \<and>
     distinct (map ar_client_order_id (lg_attempts l)) \<and>
     distinct (map ar_signal_id (lg_attempts l)) \<and>
     distinct (map ar_approval_id (lg_attempts l)) \<and>
     distinct (map (\<lambda>row. (ar_symbol row, ar_execution_session row)) (lg_attempts l)) \<and>
     (\<forall>c. event_chain None (filter (\<lambda>e. ev_client_order_id e = Some c) (lg_events l))
            (status_of l c))"
  using history.run_inv [OF ledger_inv_initialized assms(1)] assms(2)
  by (simp add: ledger_inv_def history_def session_key_def [abs_def])

text \<open>C23: an attempt is never forgotten; once accepted, matched with an existing order, rejected,
  reconciled or blocked, its status never changes again; once its outcome is unknown, it can only be
  reconciled. No later operation, whatever its arguments or faults, revives it.\<close>

theorem settled_attempts_stay_settled:
  assumes "ledger_inv l" and "list_all (admissible_op digest) ops"
    and "status_of l c = Some s"
  shows "\<exists>t. status_of (fold apply_op ops l) c = Some t \<and>
     (s \<notin> {PAPER_ATTEMPT_RESERVED, PAPER_ATTEMPT_SUBMISSION_UNKNOWN} \<longrightarrow> t = s) \<and>
     (s = PAPER_ATTEMPT_SUBMISSION_UNKNOWN \<longrightarrow>
        t \<in> {PAPER_ATTEMPT_SUBMISSION_UNKNOWN, PAPER_ATTEMPT_RECONCILED})"
proof -
  note run = history.run_known [OF assms(1,2), of c] history.run_terminal [OF assms]
    history.run_unknown_state [OF assms(1,2), of c]
  obtain t where "status_of (fold apply_op ops l) c = Some t" using run(1) assms(3) by auto
  then show ?thesis using run assms(3) by (auto simp: terminal_def)
qed

section \<open>The kill switch\<close>

definition switch_engaged :: "ledger \<Rightarrow> bool" where
  "switch_engaged l \<longleftrightarrow> (\<forall>s. read_control (lg_control l) = Inr s \<longrightarrow> cs_kill_switch_engaged s)"

lemma int_to_bool_of [simp]: "int_to_bool (bool_to_int b) = Inr b"
  by simp

lemma read_control_engaged:
  "lg_control l = Some row \<Longrightarrow> cr_kill_switch_engaged row = bool_to_int True \<Longrightarrow> switch_engaged l"
  by (auto simp: switch_engaged_def read_control_def elim!: rbind_InrE)

fun confirmed_disengage :: "ledger_op \<Rightarrow> bool" where
  "confirmed_disengage (Set_kill_switch engaged reason now confirmation) \<longleftrightarrow>
     \<not> engaged \<and> confirmation = Some DISENGAGE_KILL_SWITCH_CONFIRMATION"
| "confirmed_disengage _ \<longleftrightarrow> False"

lemma apply_op_control:
  assumes "ledger_inv l" "admissible_op digest x"
    "\<And>engaged reason now confirmation. snd x \<noteq> Set_kill_switch engaged reason now confirmation"
  shows "lg_control (apply_op x l) = lg_control l"
proof -
  obtain fault operation where x: "x = (fault, operation)" by (cases x)
  show ?thesis
  proof (cases operation)
    case (Reserve_attempt i a ok now)
    then show ?thesis using assms(2) reserve_attempt_cases [OF assms(1), of digest i a fault ok now]
      by (cases "reserve_attempt fault i a ok now l") (auto simp: apply_op_def x admissible_op_def)
  next
    case (Record_receipt r st account now ty)
    then show ?thesis
      using record_receipt_cases [OF assms(1), of fault r st account now ty]
      by (cases "record_receipt fault r st account now ty l")
         (auto simp: apply_op_def x updated_attempt_def)
  next
    case (Mark_submission_unknown c s code now ty)
    then show ?thesis
      using mark_submission_unknown_cases [OF assms(1), of fault c s code now ty]
      by (cases "mark_submission_unknown fault c s code now ty l")
         (auto simp: apply_op_def x updated_attempt_def)
  next
    case (Mark_failure c s st code now ty)
    then show ?thesis
      using mark_failure_cases [OF assms(1), of fault c s st code now ty]
      by (cases "mark_failure fault c s st code now ty l")
         (auto simp: apply_op_def x updated_attempt_def)
  qed (use assms(3) x in auto)
qed

lemma switch_stays_engaged:
  assumes "ledger_inv l" "admissible_op digest x" "switch_engaged l" "\<not> confirmed_disengage (snd x)"
  shows "switch_engaged (apply_op x l)"
proof (cases "snd x")
  case (Set_kill_switch engaged reason now confirmation)
  obtain m l' where set: "set_paper_execution_kill_switch (fst x) engaged reason now confirmation l = (m, l')"
    by fastforce
  then have l': "apply_op x l = l'" by (simp add: apply_op_def Set_kill_switch)
  show ?thesis
    using set_kill_switch_cases [OF set] assms(3,4) read_control_engaged [of l'] Set_kill_switch
    unfolding l' by (cases engaged) auto
next
  case (Reserve_attempt i a ok now)
  then show ?thesis using apply_op_control [OF assms(1,2)] assms(3) by (simp add: switch_engaged_def)
next
  case (Record_receipt r st account now ty)
  then show ?thesis using apply_op_control [OF assms(1,2)] assms(3) by (simp add: switch_engaged_def)
next
  case (Mark_submission_unknown c s code now ty)
  then show ?thesis using apply_op_control [OF assms(1,2)] assms(3) by (simp add: switch_engaged_def)
next
  case (Mark_failure c s st code now ty)
  then show ?thesis using apply_op_control [OF assms(1,2)] assms(3) by (simp add: switch_engaged_def)
qed

lemma switch_engaged_run:
  "ledger_inv l \<Longrightarrow> list_all (admissible_op digest) ops \<Longrightarrow> switch_engaged l \<Longrightarrow>
     \<not> list_ex (\<lambda>x. confirmed_disengage (snd x)) ops \<Longrightarrow> switch_engaged (fold apply_op ops l)"
proof (induction ops arbitrary: l)
  case (Cons x ops)
  then show ?case using switch_stays_engaged [of l digest x] history.step_inv [of l digest x] by simp
qed simp

text \<open>C25: the kill switch of an initialized database reads engaged, and it can only read disengaged after a
  history that contains a disengaging update with the exact confirmation text; nothing else, and no
  fault, disengages it.\<close>

theorem disengaging_needs_confirmation:
  assumes "list_all (admissible_op digest) ops"
    and "get_kill_switch_state fault (fold apply_op ops (initialized_ledger t0)) = Inr state"
    and "\<not> cs_kill_switch_engaged state"
  shows "\<exists>f reason now.
     (f, Set_kill_switch False reason now (Some ''DISENGAGE_PAPER_EXECUTION_KILL_SWITCH'')) \<in> set ops"
proof -
  have "switch_engaged (initialized_ledger t0)"
    by (auto simp: switch_engaged_def initialized_ledger_def read_control_def bool_to_int_def
        elim!: rbind_InrE split: if_splits)
  moreover have "\<not> switch_engaged (fold apply_op ops (initialized_ledger t0))"
    using assms(2,3) by (auto simp: switch_engaged_def get_kill_switch_state_def read_only_def
        split: if_splits elim!: rbind_InrE)
  ultimately have "list_ex (\<lambda>x. confirmed_disengage (snd x)) ops"
    using switch_engaged_run [OF ledger_inv_initialized assms(1)] by blast
  then obtain f x where x: "(f, x) \<in> set ops" "confirmed_disengage x" by (auto simp: list_ex_iff)
  from x(2) obtain reason now where
    "x = Set_kill_switch False reason now (Some ''DISENGAGE_PAPER_EXECUTION_KILL_SWITCH'')"
    by (cases x) (auto simp: DISENGAGE_KILL_SWITCH_CONFIRMATION_def)
  then show ?thesis using x(1) by blast
qed

section \<open>Failures\<close>

lemma get_attempt_from_connection_paper_error:
  "get_attempt_from_connection l c = Inl e \<Longrightarrow> is_paper_execution_error e"
  by (auto simp: get_attempt_from_connection_def attempt_from_row_def dest!: or_integrity_error_Inl
      split: option.splits)

lemma insert_event_paper_error: "insert_event ev l = Inl e \<Longrightarrow> is_paper_execution_error e"
  by (auto simp: insert_event_def nonblank_text_def rbind_eq_Inl_iff split: if_splits)

lemma update_attempt_paper_error: "update_attempt c f l = Inl e \<Longrightarrow> is_paper_execution_error e"
  by (auto simp: update_attempt_def Let_def rbind_eq_Inl_iff)

lemma transitions_paper_error:
  "require_submission_unknown_transition s = Inl e \<Longrightarrow> is_paper_execution_error e"
  "require_failure_transition t s = Inl e \<Longrightarrow> is_paper_execution_error e"
  "validate_receipt_against_attempt r a st = Inl e \<Longrightarrow> is_paper_execution_error e"
  by (auto simp: require_submission_unknown_transition_def require_failure_transition_def
      validate_receipt_against_attempt_def rbind_eq_Inl_iff split: if_splits)

lemma not_found_replaced:
  "(case m of Inl (PaperExecutionNotFoundError c) \<Rightarrow> Inl (PaperExecutionIntegrityError k) | m \<Rightarrow> m)
     = Inl e \<Longrightarrow> e = PaperExecutionIntegrityError k \<or> m = Inl e"
  by (auto split: sum.splits exn.splits)

lemma write_status_paper_error:
  assumes "write_status c s tr st code now ty l = Inl e" "\<And>s e. tr s = Inl e \<Longrightarrow> is_paper_execution_error e"
  shows "is_paper_execution_error e"
  using assms unfolding write_status_def rbind_eq_Inl_iff
  by (auto dest: get_attempt_from_connection_paper_error insert_event_paper_error
      update_attempt_paper_error)

lemma write_receipt_paper_error:
  assumes "write_receipt r st account now ty l = Inl e"
  shows "is_paper_execution_error e"
  using assms unfolding write_receipt_def rbind_eq_Inl_iff
  by (auto dest: get_attempt_from_connection_paper_error insert_event_paper_error
      update_attempt_paper_error transitions_paper_error(3) not_found_replaced)

lemma insert_reservation_paper_error:
  assumes "insert_reservation i a ok now l = Inl e"
  shows "is_paper_execution_error e"
  using assms unfolding insert_reservation_def rbind_eq_Inl_iff Let_def
  by (auto dest: get_attempt_from_connection_paper_error insert_event_paper_error not_found_replaced)

lemma update_control_paper_error:
  assumes "update_control engaged reason now l = Inl e"
  shows "is_paper_execution_error e"
  using assms unfolding update_control_def rbind_eq_Inl_iff read_control_def
  by (auto dest: insert_event_paper_error or_integrity_error_Inl split: option.splits)

lemma status_arguments_paper_error:
  "status_arguments c s f = Inl e \<Longrightarrow> is_paper_execution_error e"
  by (auto simp: status_arguments_def require_execution_id_def nonblank_text_def rbind_eq_Inl_iff
      split: option.splits pyval.splits if_splits)

text \<open>The errors of a transaction.\<close>

lemma transaction_error:
  assumes "transaction fault sql_error body l = (Inl e, l')" "is_paper_execution_error sql_error"
    "\<And>e. body l = Inl e \<Longrightarrow> is_paper_execution_error e"
  shows "is_paper_execution_error e \<or> fault = Database_missing"
  using assms by (cases fault; cases "body l") (auto simp: transaction_def connect_def)


lemma read_back_error:
  assumes "read_back fault sql_error c (transaction fault sql_error body l) = (Inl e, l')"
    "is_paper_execution_error sql_error" "\<And>e. body l = Inl e \<Longrightarrow> is_paper_execution_error e"
    "\<And>u l1. body l = Inr (u, l1) \<Longrightarrow> \<exists>a. get_attempt_from_connection l1 c = Inr a"
  shows "(is_paper_execution_error e \<or> fault = Database_missing) \<and>
    (l' = l \<or> fault = Read_back_failure)"
proof (cases rule: transaction_cases [of fault sql_error body l])
  case (failed e')
  then show ?thesis using assms(1) transaction_error [OF failed assms(2,3)] by (simp add: read_back_def)
next
  case (committed u l1)
  then show ?thesis using assms(1,2) assms(4) [OF committed(2)] by (auto simp: read_back_def split: if_splits)
qed

lemma written_attempt_found:
  assumes inv: "ledger_inv l"
    and body: "write_status c s tr st code now ty l = Inr (u, l')"
    and step: "\<And>s u. tr s = Inr u \<Longrightarrow> attempt_step (Some s) st"
  shows "\<exists>a. get_attempt_from_connection l' c = Inr a"
  by (rule write_statusE [OF inv body step]) (auto simp: updated_attempt_def)

lemma mark_submission_unknown_error:
  assumes "ledger_inv l" "mark_submission_unknown fault c s code now ty l = (Inl e, l')"
  shows "(is_paper_execution_error e \<or> fault = Database_missing) \<and>
    (l' = l \<or> fault = Read_back_failure)"
proof (cases "status_arguments c s code")
  case (Inl e')
  then show ?thesis using assms(2) status_arguments_paper_error by (auto simp: mark_submission_unknown_def)
next
  case (Inr args)
  then obtain c' s' f' where "status_arguments c s code = Inr (c', s', f')" by (cases args) auto
  with assms(2) have "read_back fault (PaperExecutionIntegrityError ''attempt_unknown_update_failed'') c'
     (transaction fault (PaperExecutionIntegrityError ''attempt_unknown_update_failed'')
       (write_status c' s' require_submission_unknown_transition PAPER_ATTEMPT_SUBMISSION_UNKNOWN
         f' now ty) l) = (Inl e, l')"
    by (simp add: mark_submission_unknown_def Let_def del: status_arguments_Inr)
  then show ?thesis
    by (rule read_back_error)
       (auto elim: write_status_paper_error intro: transitions_paper_error(1)
         written_attempt_found [OF assms(1) _ transitions_are_steps(2)])
qed

lemma mark_failure_error:
  assumes "ledger_inv l" "mark_failure fault c s st code now ty l = (Inl e, l')"
  shows "(is_paper_execution_error e \<or> fault = Database_missing) \<and>
    (l' = l \<or> fault = Read_back_failure)"
proof (cases "st \<in> set failure_target_states")
  case True
  show ?thesis
  proof (cases "status_arguments c s code")
    case (Inl e')
    then show ?thesis using assms(2) True status_arguments_paper_error by (auto simp: mark_failure_def)
  next
    case (Inr args)
    then obtain c' s' f' where "status_arguments c s code = Inr (c', s', f')" by (cases args) auto
    with assms(2) True have "read_back fault (PaperExecutionIntegrityError ''attempt_failure_update_failed'') c'
       (transaction fault (PaperExecutionIntegrityError ''attempt_failure_update_failed'')
         (write_status c' s' (require_failure_transition st) st f' now ty) l) = (Inl e, l')"
      by (simp add: mark_failure_def Let_def del: status_arguments_Inr)
    then show ?thesis
      by (rule read_back_error)
         (auto elim: write_status_paper_error intro: transitions_paper_error(2)
           written_attempt_found [OF assms(1) _ transitions_are_steps(3)])
  qed
qed (use assms(2) in \<open>auto simp: mark_failure_def\<close>)

lemma kill_switch_update_error:
  assumes "set_paper_execution_kill_switch fault engaged reason now confirmation l = (Inl e, l')"
  shows "(is_paper_execution_error e \<or> fault = Database_missing) \<and>
    (l' = l \<or> fault = Read_back_failure)"
proof (cases "nonblank_text ''reason'' reason")
  case (Inl e')
  then have "is_paper_execution_error e'" by (auto simp: nonblank_text_def split: pyval.splits if_splits)
  then show ?thesis using assms Inl by (simp add: set_paper_execution_kill_switch_def)
next
  case (Inr safe)
  then have safe: "is_safe_text safe" by simp
  let ?err = "PaperExecutionIntegrityError ''kill_switch_update_failed''"
  show ?thesis
  proof (cases "\<not> engaged \<and> confirmation \<noteq> Some DISENGAGE_KILL_SWITCH_CONFIRMATION")
    case False
    show ?thesis
    proof (cases rule: transaction_cases [of fault ?err "update_control engaged safe now" l])
      case (failed e')
      then show ?thesis using assms Inr False transaction_error [OF failed _ update_control_paper_error]
        by (auto simp: set_paper_execution_kill_switch_def)
    next
      case (committed u l1)
      have "\<exists>s. read_control (lg_control l1) = Inr s"
        using safe by (auto simp: update_controlE(2) [OF committed(2)] read_control_def
            rbind_eq_Inr_iff is_safe_text_def is_trimmed_text_def)
      then show ?thesis using assms Inr False committed(1)
        by (auto simp: set_paper_execution_kill_switch_def split: if_splits)
    qed
  qed (use assms Inr in \<open>auto simp: set_paper_execution_kill_switch_def\<close>)
qed

text \<open>C36: a write operation that reports an error has changed nothing (it was rolled back), unless only
  the read after its commit failed; and what it raises is a paper-execution error, unless the database
  file is missing.\<close>

theorem failed_write_changes_nothing:
  assumes "ledger_inv l" and "run_op fault operation l = (Some e, l')"
  shows "(l' = l \<or> fault = Read_back_failure) \<and>
     (is_paper_execution_error e \<or> fault = Database_missing)"
proof (cases operation)
  case (Set_kill_switch engaged reason now confirmation)
  then show ?thesis using assms(2) kill_switch_update_error [of fault engaged reason now confirmation l e l']
    by (auto simp: failure_of_def map_prod_def split: prod.splits sum.splits)
next
  case (Reserve_attempt i a ok now)
  then have "reserve_attempt fault i a ok now l = (Inl e, l')"
    using assms(2) by (auto simp: failure_of_def map_prod_def split: prod.splits sum.splits)
  then show ?thesis unfolding reserve_attempt_def
    using transaction_Inl transaction_error [OF _ _ insert_reservation_paper_error] by fastforce
next
  case (Record_receipt r st account now ty)
  then have "record_receipt fault r st account now ty l = (Inl e, l')"
    using assms(2) by (auto simp: failure_of_def map_prod_def split: prod.splits sum.splits)
  then show ?thesis unfolding record_receipt_def
    using transaction_Inl transaction_error [OF _ _ write_receipt_paper_error] by fastforce
next
  case (Mark_submission_unknown c s code now ty)
  then show ?thesis using assms(2) mark_submission_unknown_error [OF assms(1), of fault c s code now ty e l']
    by (auto simp: failure_of_def map_prod_def split: prod.splits sum.splits)
next
  case (Mark_failure c s st code now ty)
  then show ?thesis using assms(2) mark_failure_error [OF assms(1), of fault c s st code now ty e l']
    by (auto simp: failure_of_def map_prod_def split: prod.splits sum.splits)
qed

end
