(* ===== verification/Exec_Ledger_Specs.thy ===== *)
theory Exec_Ledger_Specs
  imports Exec_Ledger_Properties
begin

text \<open>
  The ledger against its abstract specification: a set of attempts. A reservation inserts an attempt, the
  updates replace one, and each operation succeeds exactly when the specification allows it.
\<close>

section \<open>The abstract ledger\<close>

definition stored_attempts :: "ledger \<Rightarrow> attempt set" where
  "stored_attempts l = {a. \<exists>row \<in> set (lg_attempts l). attempt_from_row row = Inr a}"

lemma get_attempt_stored:
  assumes "ledger_inv l"
  shows "get_attempt_from_connection l c = Inr a \<longleftrightarrow> a \<in> stored_attempts l \<and> pa_client_order_id a = c"
  using get_attempt_Inr [OF assms, of c a] by (auto simp: stored_attempts_def)

lemma every_row_stored:
  "ledger_inv l \<Longrightarrow> row \<in> set (lg_attempts l) \<Longrightarrow> \<exists>a \<in> stored_attempts l. attempt_from_row row = Inr a"
  unfolding ledger_inv_def stored_attempts_def by blast

lemma session_taken_iff:
  assumes "ledger_inv l"
  shows "session_taken l (PyStr SUPPORTED_SYMBOL) (PyDate d) \<longleftrightarrow>
     (\<exists>b \<in> stored_attempts l. pa_execution_session b = d)"
  using every_row_stored [OF assms] attempt_columns(5,6)
  by (fastforce simp: session_taken_def list_ex_iff stored_attempts_def)

lemma ar_approval_column: "attempt_from_row row = Inr a \<Longrightarrow> ar_approval_id row = PyStr (pa_approval_id a)"
  by (simp add: attempt_row_iff)

lemma identifier_taken_iff:
  assumes "ledger_inv l"
  shows "identifier_taken l (row_of_reservation i a ok now) \<longleftrightarrow>
     (\<exists>b \<in> stored_attempts l. pa_client_order_id b = in_client_order_id i \<or>
        pa_signal_id b = in_signal_id i \<or> pa_approval_id b = ap_approval_id a)"
proof -
  have cols: "(ar_client_order_id row = PyStr c \<or> ar_signal_id row = PyStr s \<or> ar_approval_id row = PyStr p)
     \<longleftrightarrow> pa_client_order_id b = c \<or> pa_signal_id b = s \<or> pa_approval_id b = p"
    if "attempt_from_row row = Inr b" for row b c s p
    using attempt_columns(1,2,3) [OF that] by simp
  have "identifier_taken l (row_of_reservation i a ok now) \<longleftrightarrow>
    (\<exists>row \<in> set (lg_attempts l). \<exists>b. attempt_from_row row = Inr b \<and>
       (ar_client_order_id row = PyStr (in_client_order_id i) \<or> ar_signal_id row = PyStr (in_signal_id i) \<or>
        ar_approval_id row = PyStr (ap_approval_id a)))"
    using assms by (fastforce simp: identifier_taken_def list_ex_iff row_of_reservation_def ledger_inv_def)
  also have "\<dots> \<longleftrightarrow> (\<exists>row \<in> set (lg_attempts l). \<exists>b. attempt_from_row row = Inr b \<and>
       (pa_client_order_id b = in_client_order_id i \<or> pa_signal_id b = in_signal_id i \<or>
        pa_approval_id b = ap_approval_id a))"
    using cols by meson
  finally show ?thesis by (auto simp: stored_attempts_def)
qed

definition new_identifiers :: "ledger \<Rightarrow> instruction \<Rightarrow> approval \<Rightarrow> bool" where
  "new_identifiers l i a \<longleftrightarrow>
     (\<forall>b \<in> stored_attempts l. pa_client_order_id b \<noteq> in_client_order_id i \<and>
        pa_signal_id b \<noteq> in_signal_id i \<and> pa_approval_id b \<noteq> ap_approval_id a)"

lemma insert_reservation_succeeds:
  assumes inv: "ledger_inv l" and wf: "wf_instruction digest i" "wf_approval a"
    and free: "\<not> session_taken l (PyStr SUPPORTED_SYMBOL) (PyDate (po_execution_session (in_proposed_order i)))"
      "\<not> identifier_taken l (row_of_reservation i a ok now)"
  shows "\<exists>x. insert_reservation i a ok now l = Inr x"
proof -
  let ?new = "row_of_reservation i a ok now" and ?c = "in_client_order_id i"
  have q: "\<not> po_quantity (in_proposed_order i) \<le> 0" "po_symbol (in_proposed_order i) = SUPPORTED_SYMBOL"
    using wf(1) by (auto simp: wf_instruction_def)
  have cols: "ar_symbol ?new = PyStr (po_symbol (in_proposed_order i))"
    "ar_execution_session ?new = PyDate (po_execution_session (in_proposed_order i))"
    "ar_client_order_id ?new = PyStr ?c"
    by (simp_all add: row_of_reservation_def)
  have "\<forall>row \<in> set (lg_attempts l). ar_client_order_id row \<noteq> PyStr ?c"
    using free(2) cols by (auto simp: identifier_taken_def list_ex_iff)
  then have "List.find (\<lambda>row. ar_client_order_id row = PyStr ?c) (lg_attempts l @ [?new]) = Some ?new"
    using cols(3) by (auto simp: find_append find_None_iff split: option.splits dest!: find_Some_mem)
  then have get: "get_attempt_from_connection (l\<lparr>lg_attempts := lg_attempts l @ [?new], lg_events := es\<rparr>) ?c
      = Inr (attempt_of_reservation i a ok now)" for es
    by (simp add: get_attempt_from_connection_def reservation_reads_back [OF wf])
  have ev: "nonblank_text ''event_type'' (PyStr ''attempt_reserved'') = Inr ''attempt_reserved''"
    "nonblank_text ''safe_reason_code'' (PyStr ''reserved'') = Inr ''reserved''"
    by (simp_all add: is_safe_text_def is_trimmed_text_def) code_simp+
  show ?thesis
    unfolding insert_reservation_def Let_def insert_event_def
    using free q cols by (simp add: ev get)
qed

text \<open>C28: a reservation refines the insertion into a set of attempts. It is refused, with nothing written, when an attempt
  for the execution session is stored, and otherwise when the client order id, the signal id or the
  approval id is in use; else the stored attempts are the old ones and the new one, which reads back
  exactly as it was reserved.\<close>

theorem reserve_attempt_refines_insert:
  assumes "ledger_inv l" and "wf_instruction digest i" and "wf_approval a"
    and "reserve_attempt No_fault i a ok now l = (m, l')"
  shows "if \<exists>b \<in> stored_attempts l. pa_execution_session b = po_execution_session (in_proposed_order i)
     then m = Inl (PaperExecutionDuplicateError ''execution_session_already_reserved'') \<and> l' = l
     else if \<not> new_identifiers l i a
     then m = Inl (PaperExecutionDuplicateError ''duplicate_execution_identifier'') \<and> l' = l
     else m = Inr (attempt_of_reservation i a ok now) \<and>
          stored_attempts l' = insert (attempt_of_reservation i a ok now) (stored_attempts l) \<and>
          get_attempt No_fault (PyStr (in_client_order_id i)) l' = Inr (attempt_of_reservation i a ok now)"
proof -
  let ?new = "row_of_reservation i a ok now"
  have q: "\<not> po_quantity (in_proposed_order i) \<le> 0" "po_symbol (in_proposed_order i) = SUPPORTED_SYMBOL"
    and id: "is_run_id (in_client_order_id i)"
    using assms(2) by (auto simp: wf_instruction_def)
  have cols: "ar_symbol ?new = PyStr SUPPORTED_SYMBOL"
    "ar_execution_session ?new = PyDate (po_execution_session (in_proposed_order i))"
    by (simp_all add: row_of_reservation_def q)
  have ids: "identifier_taken l ?new \<longleftrightarrow> \<not> new_identifiers l i a"
    using identifier_taken_iff [OF assms(1), of i a ok now] by (auto simp: new_identifiers_def)
  note taken = session_taken_iff [OF assms(1), of "po_execution_session (in_proposed_order i)"]
  have body: "(m, l') = (case insert_reservation i a ok now l of Inl e \<Rightarrow> (Inl e, l) | Inr (x, l') \<Rightarrow> (Inr x, l'))"
    using assms(4) by (simp add: reserve_attempt_def)
  show ?thesis
  proof (cases "session_taken l (PyStr SUPPORTED_SYMBOL) (PyDate (po_execution_session (in_proposed_order i)))
      \<or> identifier_taken l ?new")
    case True
    have "insert_reservation i a ok now l = Inl (PaperExecutionDuplicateError
        (if session_taken l (PyStr SUPPORTED_SYMBOL) (PyDate (po_execution_session (in_proposed_order i)))
         then ''execution_session_already_reserved'' else ''duplicate_execution_identifier''))"
      using True q(1)
      by (cases "session_taken l (PyStr SUPPORTED_SYMBOL) (PyDate (po_execution_session (in_proposed_order i)))")
         (simp_all add: insert_reservation_def Let_def cols)
    then show ?thesis using body True taken ids by (simp split: if_splits)
  next
    case False
    then obtain att l1 where ins: "insert_reservation i a ok now l = Inr (att, l1)"
      using insert_reservation_succeeds [OF assms(1-3), of ok now] by auto
    note E = insert_reservationE [OF ins assms(1-3)]
    have out: "m = Inr att" "l' = l1" using body ins by auto
    have stored: "stored_attempts l1 = insert att (stored_attempts l)"
      using E(2,7) reservation_reads_back [OF assms(2,3), of ok now] by (auto simp: stored_attempts_def)
    then have "get_attempt_from_connection l1 (in_client_order_id i) = Inr att"
      using E(2) by (simp add: get_attempt_stored [OF E(1)] attempt_of_reservation_def)
    then have "get_attempt No_fault (PyStr (in_client_order_id i)) l1 = Inr att"
      using id by (auto simp: get_attempt_def read_only_def connect_def rbind_eq_Inr_iff)
    then show ?thesis using out stored E(2) taken ids False by auto
  qed
qed

section \<open>Updates of an attempt\<close>

lemma nonblank_text_safe: "is_safe_text t \<Longrightarrow> nonblank_text f (PyStr t) = Inr t"
  by simp

lemma insert_event_safe:
  "is_safe_text (ev_event_type e) \<Longrightarrow> is_safe_text (ev_safe_reason_code e) \<Longrightarrow>
     insert_event e l = Inr (l\<lparr>lg_events := lg_events l @ [e]\<rparr>)"
  by (simp add: insert_event_def nonblank_text_safe)

lemma one_row:
  assumes "ledger_inv l" "get_attempt_from_connection l c = Inr a"
  shows "length (filter (\<lambda>row. ar_client_order_id row = PyStr c) (lg_attempts l)) = 1"
proof -
  have d: "distinct (map ar_client_order_id (lg_attempts l))"
    using assms(1) by (simp add: ledger_inv_def)
  obtain row where row: "row \<in> set (lg_attempts l)" "ar_client_order_id row = PyStr c"
    using assms attempt_columns(1) by (auto simp: get_attempt_Inr)
  let ?F = "filter (\<lambda>row. ar_client_order_id row = PyStr c) (lg_attempts l)"
  have "set ?F = {row}" using row d by (auto simp: distinct_map inj_on_def)
  moreover have "distinct ?F" using d by (simp add: distinct_map)
  ultimately show ?thesis by (metis card.empty card_insert_if distinct_card empty_iff finite.emptyI One_nat_def)
qed

lemma update_attempt_succeeds:
  assumes "ledger_inv l" "get_attempt_from_connection l c = Inr a"
  shows "\<exists>l1. update_attempt c f l = Inr l1"
  using one_row [OF assms] by (simp add: update_attempt_def Let_def)

lemma write_status_succeeds:
  assumes "ledger_inv l" "get_attempt_from_connection l c = Inr a" "tr (pa_attempt_status a) = Inr ()"
    "is_safe_text code" "is_safe_text ty"
  shows "\<exists>l'. write_status c (pa_signal_id a) tr st code now ty l = Inr ((), l')"
proof -
  obtain l1 where "update_attempt c (\<lambda>row. row\<lparr>ar_attempt_status := PyStr (state_text st),
      ar_failure_code := PyStr code, ar_updated_at_utc := PyAware now\<rparr>) l = Inr l1"
    using update_attempt_succeeds [OF assms(1,2)] by blast
  then show ?thesis using assms(2-5) by (simp add: write_status_def insert_event_safe)
qed

text \<open>What an update leaves in the set: the attempt is replaced.\<close>

lemma updated_attempt_replaces:
  assumes "ledger_inv l" "a \<in> stored_attempts l" "c = pa_client_order_id a" "updated_attempt l c b l'"
  shows "stored_attempts l' = insert b (stored_attempts l - {a})"
proof -
  have inv': "ledger_inv l'" and b: "get_attempt_from_connection l' c = Inr b"
    and others: "\<And>d. d \<noteq> c \<Longrightarrow> get_attempt_from_connection l' d = get_attempt_from_connection l d"
    using assms(4) by (auto simp: updated_attempt_def)
  have a: "get_attempt_from_connection l c = Inr a"
    using assms(1-3) by (simp add: get_attempt_stored)
  have "x \<in> stored_attempts l' \<longleftrightarrow> x = b \<or> (x \<in> stored_attempts l \<and> x \<noteq> a)" for x
  proof (cases "pa_client_order_id x = c")
    case True
    then show ?thesis
      using get_attempt_stored [OF inv', of c x] get_attempt_stored [OF assms(1), of c x] a b by auto
  next
    case False
    then show ?thesis
      using get_attempt_stored [OF inv', of "pa_client_order_id x" x]
        get_attempt_stored [OF assms(1), of "pa_client_order_id x" x] others [OF False]
        get_attempt_stored [OF inv', of c b] b assms(3) by auto
  qed
  then show ?thesis by auto
qed

lemma write_status_refines:
  fixes now :: instant
  assumes inv: "ledger_inv l" and a: "a \<in> stored_attempts l" and safe: "is_safe_text code" "is_safe_text ty"
    and step: "\<And>s u. tr s = Inr u \<Longrightarrow> attempt_step (Some s) st"
  defines "b \<equiv> a\<lparr>pa_attempt_status := st, pa_failure_code := Some code, pa_updated_at_utc := now\<rparr>"
  shows "case tr (pa_attempt_status a) of
      Inl e \<Rightarrow> write_status (pa_client_order_id a) (pa_signal_id a) tr st code now ty l = Inl e
    | Inr _ \<Rightarrow> \<exists>l'. write_status (pa_client_order_id a) (pa_signal_id a) tr st code now ty l = Inr ((), l') \<and>
        get_attempt_from_connection l' (pa_client_order_id a) = Inr b \<and>
        stored_attempts l' = insert b (stored_attempts l - {a})"
proof -
  let ?c = "pa_client_order_id a" and ?s = "pa_signal_id a"
  have get: "get_attempt_from_connection l ?c = Inr a"
    using inv a by (simp add: get_attempt_stored)
  show ?thesis
  proof (cases "tr (pa_attempt_status a)")
    case (Inl e)
    then show ?thesis by (simp add: write_status_def get)
  next
    case (Inr u)
    then have "tr (pa_attempt_status a) = Inr ()" by simp
    from write_status_succeeds [OF inv get, of tr code ty st now, OF this safe] obtain l' where
      w: "write_status ?c ?s tr st code now ty l = Inr ((), l')" by blast
    have "updated_attempt l ?c b l'"
      by (rule write_statusE [OF inv w step]) (use get in \<open>auto simp: b_def\<close>)
    then show ?thesis
      using Inr w updated_attempt_replaces [OF inv a refl, of b l'] by (simp add: updated_attempt_def)
  qed
qed

lemma legal_failure:
  "st \<in> {PAPER_ATTEMPT_BLOCKED, PAPER_ATTEMPT_REJECTED} \<and> attempt_step (Some s) st \<longleftrightarrow>
     st \<in> set failure_target_states \<and> require_failure_transition st s = Inr ()"
  by (cases st; cases s)
     (auto simp: require_failure_transition_def failure_target_states_def intro: attempt_step.intros)

lemma legal_unknown:
  "attempt_step (Some s) PAPER_ATTEMPT_SUBMISSION_UNKNOWN \<longleftrightarrow>
     require_submission_unknown_transition s = Inr ()"
  by (cases s) (auto simp: require_submission_unknown_transition_def
      submission_unknown_prior_states_def intro: attempt_step.intros)

lemma legal_receipt:
  "(\<exists>allowed. receipt_transitions st = Some allowed \<and> s \<in> set allowed) \<longleftrightarrow>
     st \<in> {PAPER_ATTEMPT_ACCEPTED, PAPER_ATTEMPT_BROKER_EXISTING_ORDER_FOUND, PAPER_ATTEMPT_RECONCILED} \<and>
     attempt_step (Some s) st"
  by (cases st; cases s) (auto simp: receipt_transitions_def intro: attempt_step.intros)

lemma stored_identifiers:
  "a \<in> stored_attempts l \<Longrightarrow> is_run_id (pa_client_order_id a) \<and> is_run_id (pa_signal_id a)"
  using attempt_columns(8,9) by (auto simp: stored_attempts_def)

text \<open>The two failure updates refine the replacement of one attempt in the set. For a stored attempt
  each succeeds exactly when the transition of its status is legal; the attempt that is returned is
  the stored one with the new status, failure code and time, and every other attempt is untouched. Otherwise
  the tables are as before.\<close>

theorem failure_updates_refine_replace:
  assumes "ledger_inv l" and "a \<in> stored_attempts l"
    and "is_safe_text code" and "is_safe_text ty"
  shows "(let (m, l') = mark_failure No_fault (PyStr (pa_client_order_id a)) (PyStr (pa_signal_id a)) st
                          (PyStr code) now ty l;
              b = a\<lparr>pa_attempt_status := st, pa_failure_code := Some code, pa_updated_at_utc := now\<rparr>
          in if st \<in> {PAPER_ATTEMPT_BLOCKED, PAPER_ATTEMPT_REJECTED} \<and> attempt_step (Some (pa_attempt_status a)) st
             then m = Inr b \<and> stored_attempts l' = insert b (stored_attempts l - {a})
             else (\<exists>e. m = Inl e) \<and> l' = l) \<and>
     (let (m, l') = mark_submission_unknown No_fault (PyStr (pa_client_order_id a)) (PyStr (pa_signal_id a))
                      (PyStr code) now ty l;
          b = a\<lparr>pa_attempt_status := PAPER_ATTEMPT_SUBMISSION_UNKNOWN,
                pa_failure_code := Some code, pa_updated_at_utc := now\<rparr>
      in if attempt_step (Some (pa_attempt_status a)) PAPER_ATTEMPT_SUBMISSION_UNKNOWN
         then m = Inr b \<and> stored_attempts l' = insert b (stored_attempts l - {a})
         else (\<exists>e. m = Inl e) \<and> l' = l)"
    (is "?failure \<and> ?unknown")
proof
  have args: "status_arguments (PyStr (pa_client_order_id a)) (PyStr (pa_signal_id a)) (PyStr code)
      = Inr (pa_client_order_id a, pa_signal_id a, code)"
    using assms(3) stored_identifiers [OF assms(2)] by simp
  show ?failure
    using write_status_refines [OF assms, where tr = "require_failure_transition st" and st = st
        and now = now, OF transitions_are_steps(3)]
    unfolding legal_failure mark_failure_def args
    by (cases "require_failure_transition st (pa_attempt_status a)"; cases "st \<in> set failure_target_states")
       (simp_all add: read_back_def Let_def del: status_arguments_Inr split: prod.splits sum.splits, (elim exE conjE, simp)?)
  show ?unknown
    using write_status_refines [OF assms, where tr = require_submission_unknown_transition
        and st = PAPER_ATTEMPT_SUBMISSION_UNKNOWN and now = now, OF transitions_are_steps(2)]
    unfolding legal_unknown mark_submission_unknown_def args
    by (cases "require_submission_unknown_transition (pa_attempt_status a)")
       (simp_all add: read_back_def Let_def del: status_arguments_Inr split: prod.splits sum.splits, (elim exE conjE, simp)?)
qed

lemma write_receipt_succeeds:
  assumes inv: "ledger_inv l" and get: "get_attempt_from_connection l (re_client_order_id r) = Inr a"
    and valid: "validate_receipt_against_attempt r a st = Inr ()" and safe: "is_safe_text ty"
    and account: "\<And>s. account = Some s \<Longrightarrow> is_sha256_text s"
  shows "\<exists>x l'. write_receipt r st account now ty l = Inr (x, l')"
proof -
  obtain l1 where upd: "update_attempt (re_client_order_id r) (row_with_receipt r st account now) l = Inr l1"
    using update_attempt_succeeds [OF inv get] by blast
  have keep: "keeps_keys (row_with_receipt r st account now)"
    by (simp add: keeps_keys_def session_key_def row_with_receipt_def)
  have code: "is_safe_text (state_text st)"
    by (cases st) (simp; code_simp)+
  have reads: "attempt_from_row (row_with_receipt r st account now row) =
       Inr (attempt_with_receipt r st account now a)" if "attempt_from_row row = Inr a" for row
    using receipt_update_reads_back [OF that account] by (simp add: row_with_receipt_def attempt_with_receipt_def)
  have "get_attempt_from_connection (l1\<lparr>lg_events := es\<rparr>) (re_client_order_id r) =
      Inr (attempt_with_receipt r st account now a)" for es
    using update_attempt_lookup(1) [OF inv get upd keep reads, of "re_client_order_id r"]
    by (simp add: get_attempt_from_connection_def)
  then show ?thesis
    using upd valid get code safe
    by (simp add: write_receipt_def row_with_receipt_def [abs_def] insert_event_safe)
qed

text \<open>C35: recording a receipt refines the replacement of one attempt in the set. It succeeds exactly when the
  receipt carries the lineage, quantity and market-day contract of the stored attempt and the new
  status is a legal successor that a receipt may set; the attempt that is returned is the stored one with
  the broker's columns, and every other attempt is untouched. Otherwise the tables are as before.\<close>

theorem receipt_refines_replace:
  assumes "ledger_inv l" and "a \<in> stored_attempts l" and "re_client_order_id r = pa_client_order_id a"
    and "is_safe_text ty" and "\<And>s. account = Some s \<Longrightarrow> is_sha256_text s"
  shows "let (m, l') = record_receipt No_fault r st account now ty l;
             b = attempt_with_receipt r st account now a
         in if receipt_matches r a \<and> attempt_step (Some (pa_attempt_status a)) st \<and>
               st \<in> {PAPER_ATTEMPT_ACCEPTED, PAPER_ATTEMPT_BROKER_EXISTING_ORDER_FOUND,
                      PAPER_ATTEMPT_RECONCILED}
            then m = Inr b \<and> stored_attempts l' = insert b (stored_attempts l - {a})
            else (\<exists>e. m = Inl e) \<and> l' = l"
proof -
  have get: "get_attempt_from_connection l (re_client_order_id r) = Inr a"
    using assms(1-3) by (simp add: get_attempt_stored)
  have legal: "validate_receipt_against_attempt r a st = Inr () \<longleftrightarrow>
      receipt_matches r a \<and> attempt_step (Some (pa_attempt_status a)) st \<and>
      st \<in> {PAPER_ATTEMPT_ACCEPTED, PAPER_ATTEMPT_BROKER_EXISTING_ORDER_FOUND, PAPER_ATTEMPT_RECONCILED}"
    using legal_receipt [of st "pa_attempt_status a"] by (simp only: validate_receipt_Inr) blast
  show ?thesis
  proof (cases "validate_receipt_against_attempt r a st")
    case (Inl e)
    then have "write_receipt r st account now ty l = Inl e" by (simp add: write_receipt_def get)
    moreover have "validate_receipt_against_attempt r a st \<noteq> Inr ()" using Inl by simp
    ultimately show ?thesis unfolding legal [symmetric] by (simp add: record_receipt_def)
  next
    case (Inr u)
    then have valid: "validate_receipt_against_attempt r a st = Inr ()" by simp
    obtain x l' where w: "write_receipt r st account now ty l = Inr (x, l')"
      using write_receipt_succeeds [OF assms(1) get valid assms(4,5)] by blast
    have "x = attempt_with_receipt r st account now a \<and> updated_attempt l (re_client_order_id r) x l'"
      by (rule write_receiptE [OF assms(1) w]) (simp add: get)
    then have "x = attempt_with_receipt r st account now a"
      "stored_attempts l' = insert x (stored_attempts l - {a})"
      using updated_attempt_replaces [OF assms(1,2,3), of x l'] by blast+
    then show ?thesis
      unfolding legal [symmetric] using valid w by (simp add: record_receipt_def)
  qed
qed

section \<open>Open attempts\<close>

lemma row_client_injective:
  assumes "ledger_inv l" "row \<in> set (lg_attempts l)" "row' \<in> set (lg_attempts l)"
    "ar_client_order_id row = ar_client_order_id row'"
  shows "row = row'"
  using assms by (auto simp: ledger_inv_def distinct_map inj_on_def)

text \<open>The count of unresolved submissions is the number of client order ids whose attempt is reserved or
  of unknown outcome.\<close>

theorem unresolved_count_is_open_attempts:
  assumes "ledger_inv l"
  shows "unresolved_submission_count l =
     card {c. status_of l c \<in> {Some PAPER_ATTEMPT_RESERVED, Some PAPER_ATTEMPT_SUBMISSION_UNKNOWN}}"
proof -
  let ?open = "{PyStr (state_text PAPER_ATTEMPT_RESERVED), PyStr (state_text PAPER_ATTEMPT_SUBMISSION_UNKNOWN)}"
  let ?F = "filter (\<lambda>row. ar_attempt_status row \<in> ?open) (lg_attempts l)"
  have d: "distinct (lg_attempts l)" "inj_on ar_client_order_id (set (lg_attempts l))"
    using assms by (auto simp: ledger_inv_def distinct_map)
  have "PyStr ` {c. status_of l c \<in> {Some PAPER_ATTEMPT_RESERVED, Some PAPER_ATTEMPT_SUBMISSION_UNKNOWN}} =
      ar_client_order_id ` set ?F" (is "PyStr ` ?C = _")
  proof (intro set_eqI iffI)
    fix v assume "v \<in> PyStr ` ?C"
    then obtain row a where "row \<in> set (lg_attempts l)" "attempt_from_row row = Inr a"
      "v = PyStr (pa_client_order_id a)"
      "pa_attempt_status a \<in> {PAPER_ATTEMPT_RESERVED, PAPER_ATTEMPT_SUBMISSION_UNKNOWN}"
      by (auto simp: status_of_Some [OF assms])
    then show "v \<in> ar_client_order_id ` set ?F"
      using attempt_columns(1,4) [of row a] by (auto intro!: image_eqI [of _ _ row])
  next
    fix v assume "v \<in> ar_client_order_id ` set ?F"
    then obtain row where row: "row \<in> set (lg_attempts l)" "ar_attempt_status row \<in> ?open"
      "v = ar_client_order_id row" by auto
    then obtain a where a: "attempt_from_row row = Inr a" using assms by (auto simp: ledger_inv_def)
    show "v \<in> PyStr ` ?C"
      using row a attempt_columns(1,4) [OF a]
      by (auto simp: status_of_Some [OF assms] simp del: state_text.simps intro!: image_eqI [of _ _ "pa_client_order_id a"])
  qed
  then have "card ?C = card (ar_client_order_id ` set ?F)"
    by (metis card_image inj_onI pyval.inject(5))
  also have "\<dots> = card (set ?F)" by (rule card_image) (rule inj_on_subset [OF d(2)], auto)
  also have "\<dots> = length ?F" by (rule distinct_card) (simp add: d(1))
  finally show ?thesis by (simp only: unresolved_submission_count_def)
qed

end
