(* ===== verification/Exec_Gates.thy ===== *)
theory Exec_Gates
  imports Exec_Ledger_Ops
begin

text \<open>
  What the paper-execution service runs on: actions that raise or return and change the world, the world (the
  ledger, the broker and a record of what the service saw), and one wrapper per kind of call.

  The broker is the protocol of \<^verbatim>\<open>execution/protocols.py\<close>: one function per method over an unknown
  broker state. Other processes write to the same ledger: before every repository call of the service any number of
  their operations run (\<open>wd_schedule\<close>, which also holds the database fault the call meets; an exhausted
  schedule means no interference and no fault). The record \<open>wd_trace\<close> is not part of the program: it lists what the calls of
  the service returned, in order, for the theorems.

  The gates of \<^verbatim>\<open>execution/service.py\<close>: the checks of the configuration, of the broker's answers and
  of the broker's order against the reserved attempt, and the risk evaluation at execution time. The
  New York date of an instant is a parameter (\<open>ny_date\<close>: the time zone database is not part of the program).
\<close>

section \<open>Actions\<close>

type_synonym ('a, 'w) action = "'w \<Rightarrow> (exn + 'a) \<times> 'w"

definition areturn :: "'a \<Rightarrow> ('a, 'w) action" where
  "areturn x w = (Inr x, w)"

definition araise :: "exn \<Rightarrow> ('a, 'w) action" where
  "araise e w = (Inl e, w)"

definition abind :: "('a, 'w) action \<Rightarrow> ('a \<Rightarrow> ('b, 'w) action) \<Rightarrow> ('b, 'w) action" where
  "abind m f w = (case m w of (Inl e, w') \<Rightarrow> (Inl e, w') | (Inr x, w') \<Rightarrow> f x w')"

text \<open>\<^verbatim>\<open>try: m except Handled: ...\<close>: the handler gets the exceptions that the code lists; any other one
  passes.\<close>

definition acatch :: "('a, 'w) action \<Rightarrow> (exn \<Rightarrow> bool) \<Rightarrow> (exn \<Rightarrow> ('a, 'w) action) \<Rightarrow> ('a, 'w) action" where
  "acatch m handled h w =
     (case m w of (Inl e, w') \<Rightarrow> if handled e then h e w' else (Inl e, w') | (Inr x, w') \<Rightarrow> (Inr x, w'))"

text \<open>A computation without effects, as an action.\<close>

definition alift :: "exn + 'a \<Rightarrow> ('a, 'w) action" where
  "alift m w = (m, w)"

lemma areturn_iff [simp]: "areturn x w = (r, w') \<longleftrightarrow> r = Inr x \<and> w' = w"
  by (auto simp: areturn_def)

lemma araise_iff [simp]: "araise e w = (r, w') \<longleftrightarrow> r = Inl e \<and> w' = w"
  by (auto simp: araise_def)

lemma alift_iff [simp]: "alift m w = (r, w') \<longleftrightarrow> m = r \<and> w' = w"
  by (auto simp: alift_def)

lemma abindE:
  assumes "abind m f w = (r, w')"
  obtains (raised) e where "m w = (Inl e, w')" "r = Inl e"
  | (returned) x w1 where "m w = (Inr x, w1)" "f x w1 = (r, w')"
  using assms by (auto simp: abind_def split: prod.splits sum.splits)

lemma abind_returned: "m w = (Inr x, w1) \<Longrightarrow> abind m f w = f x w1"
  by (simp add: abind_def)

lemma abind_raised: "m w = (Inl e, w1) \<Longrightarrow> abind m f w = (Inl e, w1)"
  by (simp add: abind_def)

lemma acatchE:
  assumes "acatch m handled h w = (r, w')"
  obtains (returned) x where "m w = (Inr x, w')" "r = Inr x"
  | (passed) e where "m w = (Inl e, w')" "r = Inl e" "\<not> handled e"
  | (caught) e w1 where "m w = (Inl e, w1)" "handled e" "h e w1 = (r, w')"
  using assms by (auto simp: acatch_def split: prod.splits sum.splits if_splits)

section \<open>The world\<close>

record 'b broker =
  br_verify_environment :: "(broker_environment, 'b) action"
  br_get_account :: "(broker_account, 'b) action"
  br_get_account_configuration :: "(broker_account_config, 'b) action"
  br_get_clock :: "(broker_clock, 'b) action"
  br_get_asset :: "string \<Rightarrow> (broker_asset, 'b) action"
  br_list_positions :: "(broker_position list, 'b) action"
  br_list_open_orders :: "(broker_open_order list, 'b) action"
  br_get_order_by_client_order_id :: "string \<Rightarrow> (broker_order option, 'b) action"
  br_submit_market_day_order :: "instruction \<Rightarrow> (broker_order, 'b) action"

datatype observation =
    Saw_environment broker_environment
  | Saw_account broker_account
  | Saw_configuration broker_account_config
  | Saw_clock broker_clock
  | Saw_kill_switch control_state
  | Saw_asset broker_asset
  | Saw_positions "broker_position list"
  | Saw_open_orders "broker_open_order list"
  | Saw_attempt attempt
  | Reserved attempt
  | Saw_order "broker_order option"
  | Submitted instruction "exn + broker_order"
  | Wrote_receipt attempt
  | Marked attempt

record 'b world =
  wd_ledger :: ledger
  wd_broker :: 'b
  wd_schedule :: "((db_fault \<times> ledger_op) list \<times> db_fault) list"
  wd_trace :: "observation list"

text \<open>A call of the broker: what it returns is recorded; what it raises is not, except for a submission.\<close>

definition returned :: "('a \<Rightarrow> observation) \<Rightarrow> exn + 'a \<Rightarrow> observation list" where
  "returned seen m = (case m of Inl _ \<Rightarrow> [] | Inr x \<Rightarrow> [seen x])"

definition call_broker :: "('a, 'b) action \<Rightarrow> (exn + 'a \<Rightarrow> observation list) \<Rightarrow> ('a, 'b world) action" where
  "call_broker f seen w =
     (case f (wd_broker w) of
        (m, b) \<Rightarrow> (m, w\<lparr>wd_broker := b, wd_trace := wd_trace w @ seen m\<rparr>))"

definition submit_to_broker :: "'b broker \<Rightarrow> instruction \<Rightarrow> (broker_order, 'b world) action" where
  "submit_to_broker br i = call_broker (br_submit_market_day_order br i) (\<lambda>m. [Submitted i m])"

text \<open>A call of the repository: first the other processes, then the call with its fault.\<close>

definition turn :: "((db_fault \<times> ledger_op) list \<times> db_fault) list \<Rightarrow> (db_fault \<times> ledger_op) list \<times> db_fault" where
  "turn schedule = (case schedule of [] \<Rightarrow> ([], No_fault) | t # _ \<Rightarrow> t)"

definition write_repository ::
  "(db_fault \<Rightarrow> (attempt, ledger) action) \<Rightarrow> (attempt \<Rightarrow> observation) \<Rightarrow> (attempt, 'b world) action" where
  "write_repository f seen w =
     (case turn (wd_schedule w) of (others, fault) \<Rightarrow>
        case f fault (fold apply_op others (wd_ledger w)) of
          (m, l) \<Rightarrow> (m, w\<lparr>wd_ledger := l, wd_schedule := tl (wd_schedule w),
                         wd_trace := wd_trace w @ returned seen m\<rparr>))"

definition read_repository ::
  "(db_fault \<Rightarrow> ledger \<Rightarrow> exn + 'a) \<Rightarrow> ('a \<Rightarrow> observation) \<Rightarrow> ('a, 'b world) action" where
  "read_repository f seen w =
     (case turn (wd_schedule w) of (others, fault) \<Rightarrow>
        let l = fold apply_op others (wd_ledger w);
            m = f fault l
        in (m, w\<lparr>wd_ledger := l, wd_schedule := tl (wd_schedule w),
                wd_trace := wd_trace w @ returned seen m\<rparr>))"

section \<open>Configuration\<close>

text \<open>The fields of \<^verbatim>\<open>Settings\<close> the service reads; a secret is its text.\<close>

record settings =
  st_execution_mode :: string
  st_paper_execution_kill_switch :: bool
  st_enable_paper_execution :: bool
  st_dry_run :: bool
  st_alpaca_api_key :: "string option"
  st_alpaca_secret_key :: "string option"

definition secret_present :: "string option \<Rightarrow> bool" where
  "secret_present value = (case value of None \<Rightarrow> False | Some s \<Rightarrow> strip s \<noteq> [])"

definition assert_local_permission_gates :: "settings \<Rightarrow> exn + unit" where
  "assert_local_permission_gates st =
     (if st_execution_mode st \<noteq> ''paper'' then Inl (RuntimeError ''live execution is not supported.'')
      else if st_paper_execution_kill_switch st
      then Inl (PaperExecutionKillSwitchError ''configuration_kill_switch_engaged'')
      else if \<not> st_enable_paper_execution st
      then Inl (PaperExecutionConfigurationError ''paper_execution_disabled'')
      else if st_dry_run st then Inl (PaperExecutionPermissionError ''dry_run_enabled'')
      else if \<not> secret_present (st_alpaca_api_key st)
      then Inl (PaperExecutionConfigurationError ''alpaca_api_key_missing'')
      else if \<not> secret_present (st_alpaca_secret_key st)
      then Inl (PaperExecutionConfigurationError ''alpaca_secret_key_missing'')
      else Inr ())"

definition execution_permitted :: "settings \<Rightarrow> bool" where
  "execution_permitted st \<longleftrightarrow>
     st_execution_mode st = ''paper'' \<and> \<not> st_paper_execution_kill_switch st \<and>
     st_enable_paper_execution st \<and> \<not> st_dry_run st \<and>
     secret_present (st_alpaca_api_key st) \<and> secret_present (st_alpaca_secret_key st)"

lemma assert_local_permission_gates_Inr [simp]:
  "assert_local_permission_gates st = Inr u \<longleftrightarrow> execution_permitted st"
  by (auto simp: assert_local_permission_gates_def execution_permitted_def)

section \<open>The broker's answers\<close>

definition ALPACA_PAPER_ENDPOINT :: string where
  "ALPACA_PAPER_ENDPOINT = ''https://paper-api.alpaca.markets''"

definition assert_environment :: "broker_environment \<Rightarrow> exn + unit" where
  "assert_environment e =
     reject_if (\<not> be_is_paper e \<or> be_endpoint_identity e \<noteq> ALPACA_PAPER_ENDPOINT)
       (PaperExecutionBrokerStateError ''unsafe_broker_environment'')"

definition assert_account :: "broker_account \<Rightarrow> exn + unit" where
  "assert_account a =
     (if lower (ba_status a) \<noteq> ''active'' then Inl (PaperExecutionBrokerStateError ''account_not_active'')
      else if ba_currency a \<noteq> ''USD'' then Inl (PaperExecutionBrokerStateError ''account_not_usd'')
      else if ba_trading_blocked a \<or> ba_account_blocked a \<or> ba_trade_suspended_by_user a
      then Inl (PaperExecutionBrokerStateError ''account_blocked'')
      else if ba_cash a < 0 \<or> ba_equity a < 0 \<or> ba_buying_power a < 0
      then Inl (PaperExecutionBrokerStateError ''invalid_account_balances'')
      else Inr ())"

definition assert_account_configuration :: "broker_account_config \<Rightarrow> exn + unit" where
  "assert_account_configuration c =
     (if \<not> bf_no_shorting c then Inl (PaperExecutionBrokerStateError ''shorting_enabled'')
      else if bf_max_margin_multiplier c \<noteq> 1 then Inl (PaperExecutionBrokerStateError ''margin_enabled'')
      else if bf_suspend_trade c then Inl (PaperExecutionBrokerStateError ''account_trade_suspended'')
      else Inr ())"

definition assert_clock ::
  "(instant \<Rightarrow> date) \<Rightarrow> string \<Rightarrow> string \<Rightarrow> string \<Rightarrow> broker_clock \<Rightarrow> instruction \<Rightarrow> exn + unit" where
  "assert_clock ny_date market_closed_code instruction_expired_code wrong_session_code k i =
     (if \<not> bk_is_open k then Inl (PaperExecutionStaleSignalError market_closed_code)
      else if in_expires_at_utc i \<le> bk_timestamp k
      then Inl (PaperExecutionStaleSignalError instruction_expired_code)
      else if po_execution_session (in_proposed_order i) \<le> po_signal_session (in_proposed_order i)
      then Inl (PaperExecutionStaleSignalError ''invalid_execution_session'')
      else if ny_date (bk_timestamp k) \<noteq> po_execution_session (in_proposed_order i)
      then Inl (PaperExecutionStaleSignalError wrong_session_code)
      else Inr ())"

definition assert_asset :: "broker_asset \<Rightarrow> exn + unit" where
  "assert_asset s =
     (if bs_symbol s \<noteq> SUPPORTED_SYMBOL \<or> bs_asset_class s \<noteq> ''us_equity''
      then Inl (PaperExecutionBrokerStateError ''invalid_asset'')
      else if \<not> bs_active s \<or> \<not> bs_tradable s
      then Inl (PaperExecutionBrokerStateError ''asset_not_tradable'')
      else Inr ())"

text \<open>\<^verbatim>\<open>int(d)\<close> truncates toward zero.\<close>

definition int_of_decimal :: "rat \<Rightarrow> int" where
  "int_of_decimal r = (if r < 0 then \<lceil>r\<rceil> else \<lfloor>r\<rfloor>)"

definition assert_positions :: "broker_position list \<Rightarrow> instruction \<Rightarrow> exn + unit" where
  "assert_positions positions i =
     (let order = in_proposed_order i
      in if 1 < length positions then Inl (PaperExecutionBrokerStateError ''multiple_positions'')
         else case positions of
           [] \<Rightarrow> if po_side order = SELL_SIDE
                then Inl (PaperExecutionBrokerStateError ''missing_spy_position'') else Inr ()
         | position # _ \<Rightarrow>
             if bp_symbol position \<noteq> SUPPORTED_SYMBOL
             then Inl (PaperExecutionBrokerStateError ''non_spy_position'')
             else if lower (bp_side position) \<noteq> ''long''
             then Inl (PaperExecutionBrokerStateError ''short_position'')
             else let shares = int_of_decimal (bp_quantity position);
                      available = int_of_decimal (bp_available_quantity position)
                  in if po_side order = BUY_SIDE \<and> 0 < shares
                     then Inl (PaperExecutionBrokerStateError ''pyramiding_forbidden'')
                     else if po_side order = SELL_SIDE \<and>
                             (po_quantity order \<noteq> shares \<or> po_quantity order \<noteq> available)
                     then Inl (PaperExecutionBrokerStateError ''full_exit_required'')
                     else Inr ())"

fun assert_open_orders :: "broker_open_order list \<Rightarrow> instruction \<Rightarrow> exn + unit" where
  "assert_open_orders [] i = Inr ()"
| "assert_open_orders (order # orders) i =
     (if bo_client_order_id order = in_client_order_id i then assert_open_orders orders i
      else if bo_symbol order = SUPPORTED_SYMBOL
      then Inl (PaperExecutionBrokerStateError ''conflicting_open_order'')
      else Inl (PaperExecutionBrokerStateError ''unsupported_open_order''))"

section \<open>Risk at execution time\<close>

definition held_shares :: "broker_position list \<Rightarrow> int" where
  "held_shares positions =
     (case positions of [] \<Rightarrow> 0 | position # _ \<Rightarrow> int_of_decimal (bp_quantity position))"

definition execution_portfolio :: "instruction \<Rightarrow> broker_account \<Rightarrow> broker_position list \<Rightarrow> raw_portfolio" where
  "execution_portfolio i account positions =
     (let order = in_proposed_order i; shares = held_shares positions;
          price = po_reference_open order; value = dec_mul (of_int shares) price
      in \<lparr>pso_session = PyDate (po_execution_session order), pso_cash = PyDecimal (Fin (ba_cash account)),
          pso_shares = PyInt shares, pso_reference_price = PyDecimal (Fin price),
          pso_market_value = PyDecimal (Fin value),
          pso_equity = PyDecimal (Fin (dec_add (ba_cash account) value))\<rparr>)"

definition is_risk_error :: "exn \<Rightarrow> bool" where
  "is_risk_error e = (case e of RiskInputError _ \<Rightarrow> True | _ \<Rightarrow> False)"

definition execution_time_risk_decision ::
  "risk_config \<Rightarrow> instruction \<Rightarrow> broker_account \<Rightarrow> broker_position list \<Rightarrow> exn + risk_decision" where
  "execution_time_risk_decision rc i account positions =
     rbind (mk_portfolio_state (execution_portfolio i account positions)) (\<lambda>portfolio.
       case rbind (mk_cost_assumptions (costs_obj (in_cost_assumptions i))) (\<lambda>costs.
              evaluate_order_risk (order_obj (in_proposed_order i)) (portfolio_obj portfolio) rc
                (costs_obj costs)) of
         Inl e \<Rightarrow> if is_risk_error e then Inl (PaperExecutionRiskError ''execution_risk_failed'')
                  else Inl e
       | Inr d \<Rightarrow> Inr d)"

section \<open>The broker's order against the attempt\<close>

definition validate_broker_snapshot_against_attempt :: "broker_order \<Rightarrow> attempt \<Rightarrow> exn + unit" where
  "validate_broker_snapshot_against_attempt s a =
     (if bd_client_order_id s \<noteq> pa_client_order_id a
      then Inl (PaperExecutionBrokerStateError ''broker_client_order_id_mismatch'')
      else if bd_symbol s \<noteq> SUPPORTED_SYMBOL
      then Inl (PaperExecutionBrokerStateError ''broker_symbol_mismatch'')
      else if bd_side s \<noteq> pa_side a then Inl (PaperExecutionBrokerStateError ''broker_side_mismatch'')
      else if bd_submitted_quantity s \<noteq> pa_quantity a
      then Inl (PaperExecutionBrokerStateError ''broker_quantity_mismatch'')
      else if bd_order_type s \<noteq> ''market'' \<or> bd_time_in_force s \<noteq> ''day'' \<or> bd_extended_hours s
      then Inl (PaperExecutionBrokerStateError ''unsupported_broker_order_contract'')
      else if bd_execution_environment s \<noteq> ''alpaca_paper''
      then Inl (PaperExecutionBrokerStateError ''unsupported_broker_environment'')
      else Inr ())"

definition receipt_from_broker_snapshot :: "broker_order \<Rightarrow> attempt \<Rightarrow> string \<Rightarrow> exn + receipt" where
  "receipt_from_broker_snapshot s a reconciliation_status =
     rbind (validate_broker_snapshot_against_attempt s a) (\<lambda>_.
     mk_receipt
       \<lparr>reo_signal_id = PyStr (pa_signal_id a),
        reo_client_order_id = PyStr (bd_client_order_id s),
        reo_instruction_fingerprint = PyStr (pa_instruction_fingerprint a),
        reo_broker_order_id = PyStr (bd_broker_order_id s),
        reo_broker_order_status = PyStr (bd_broker_order_status s),
        reo_symbol = PyStr (bd_symbol s), reo_side = PyStr (side_text (bd_side s)),
        reo_submitted_quantity = PyInt (bd_submitted_quantity s),
        reo_filled_quantity = of_optional PyInt (bd_filled_quantity s),
        reo_order_type = PyStr (bd_order_type s), reo_time_in_force = PyStr (bd_time_in_force s),
        reo_extended_hours = PyBool (bd_extended_hours s),
        reo_submitted_at_utc = PyAware (bd_submitted_at_utc s),
        reo_broker_response_at_utc = of_optional PyAware (bd_broker_response_at_utc s),
        reo_sanitized_request_id = of_optional PyStr (bd_sanitized_request_id s),
        reo_execution_environment = PyStr (bd_execution_environment s),
        reo_reconciliation_status = PyStr reconciliation_status\<rparr>)"

end
