(* ===== verification/Exec_Service.thy ===== *)
theory Exec_Service
  imports Exec_Gates
begin

text \<open>
  \<^verbatim>\<open>PaperExecutionService\<close> of \<^verbatim>\<open>execution/service.py\<close>: the preview, the submission of an approved
  order and the reconciliation of an attempt. The submission is cut, in the order of the code, into the
  checks before the reservation, the handling of an order the broker already knows, the checks
  after the reservation, and the submission with its handlers.
\<close>

record 'b service =
  sv_settings :: settings
  sv_risk_config :: risk_config
  sv_ny_date :: "instant \<Rightarrow> date"
  sv_broker :: "'b broker"

section \<open>Repository calls\<close>

definition read_kill_switch :: "(control_state, 'b world) action" where
  "read_kill_switch = read_repository get_kill_switch_state Saw_kill_switch"

definition do_mark_failure ::
  "string \<Rightarrow> string \<Rightarrow> attempt_state \<Rightarrow> string \<Rightarrow> instant \<Rightarrow> string \<Rightarrow> (attempt, 'b world) action" where
  "do_mark_failure client_order_id signal_id status failure_code now event_type =
     write_repository
       (\<lambda>fault. mark_failure fault (PyStr client_order_id) (PyStr signal_id) status
                  (PyStr failure_code) now event_type) Marked"

definition do_mark_submission_unknown ::
  "string \<Rightarrow> string \<Rightarrow> string \<Rightarrow> instant \<Rightarrow> string \<Rightarrow> (attempt, 'b world) action" where
  "do_mark_submission_unknown client_order_id signal_id failure_code now event_type =
     write_repository
       (\<lambda>fault. mark_submission_unknown fault (PyStr client_order_id) (PyStr signal_id)
                  (PyStr failure_code) now event_type) Marked"

definition do_record_receipt ::
  "receipt \<Rightarrow> attempt_state \<Rightarrow> string option \<Rightarrow> instant \<Rightarrow> string \<Rightarrow> (attempt, 'b world) action" where
  "do_record_receipt r status account now event_type =
     write_repository (\<lambda>fault. record_receipt fault r status account now event_type) Wrote_receipt"

definition do_reserve_attempt ::
  "instruction \<Rightarrow> approval \<Rightarrow> bool \<Rightarrow> instant \<Rightarrow> (attempt, 'b world) action" where
  "do_reserve_attempt i a execution_risk_approved now =
     write_repository (\<lambda>fault. reserve_attempt fault i a execution_risk_approved now) Reserved"

text \<open>\<^verbatim>\<open>with suppress(PaperExecutionError)\<close>.\<close>

definition suppress_paper_error :: "('a, 'w) action \<Rightarrow> (unit, 'w) action" where
  "suppress_paper_error m =
     acatch (abind m (\<lambda>_. areturn ())) is_paper_execution_error (\<lambda>_. areturn ())"

definition mark_reserved_blocked ::
  "instruction \<Rightarrow> instant \<Rightarrow> string \<Rightarrow> string \<Rightarrow> (unit, 'b world) action" where
  "mark_reserved_blocked i now failure_code event_type =
     suppress_paper_error
       (do_mark_failure (in_client_order_id i) (in_signal_id i) PAPER_ATTEMPT_BLOCKED failure_code now
          event_type)"

definition mark_submission_unknown_best_effort ::
  "string \<Rightarrow> string \<Rightarrow> instant \<Rightarrow> string \<Rightarrow> (unit, 'b world) action" where
  "mark_submission_unknown_best_effort client_order_id signal_id now failure_code =
     suppress_paper_error
       (do_mark_submission_unknown client_order_id signal_id failure_code now ''submission_unknown'')"

section \<open>Submission\<close>

text \<open>From the configuration gates to the risk evaluation: the account, the clock and the decision.\<close>

definition check_gates ::
  "'b service \<Rightarrow> instruction \<Rightarrow> approval \<Rightarrow> (broker_account \<times> broker_clock \<times> risk_decision, 'b world) action" where
  "check_gates sv i a =
     abind (alift (assert_local_permission_gates (sv_settings sv))) (\<lambda>_.
     abind (call_broker (br_verify_environment (sv_broker sv)) (returned Saw_environment)) (\<lambda>environment.
     abind (alift (assert_environment environment)) (\<lambda>_.
     abind (call_broker (br_get_account (sv_broker sv)) (returned Saw_account)) (\<lambda>account.
     abind (alift (assert_account account)) (\<lambda>_.
     abind (call_broker (br_get_account_configuration (sv_broker sv)) (returned Saw_configuration)) (\<lambda>config.
     abind (alift (assert_account_configuration config)) (\<lambda>_.
     abind (call_broker (br_get_clock (sv_broker sv)) (returned Saw_clock)) (\<lambda>clock.
     abind (alift (assert_clock (sv_ny_date sv) ''market_closed'' ''instruction_expired''
                     ''wrong_execution_session'' clock i)) (\<lambda>_.
     abind (alift (validate_matching_approval i a (bk_timestamp clock))) (\<lambda>_.
     abind read_kill_switch (\<lambda>control.
     abind (alift (reject_if (cs_kill_switch_engaged control)
                     (PaperExecutionKillSwitchError ''kill_switch_engaged''))) (\<lambda>_.
     abind (call_broker (br_get_asset (sv_broker sv) SUPPORTED_SYMBOL) (returned Saw_asset)) (\<lambda>asset.
     abind (alift (assert_asset asset)) (\<lambda>_.
     abind (call_broker (br_list_positions (sv_broker sv)) (returned Saw_positions)) (\<lambda>positions.
     abind (alift (assert_positions positions i)) (\<lambda>_.
     abind (call_broker (br_list_open_orders (sv_broker sv)) (returned Saw_open_orders)) (\<lambda>open_orders.
     abind (alift (assert_open_orders open_orders i)) (\<lambda>_.
     abind (alift (execution_time_risk_decision (sv_risk_config sv) i account positions)) (\<lambda>execution_risk.
     abind (alift (reject_if (\<not> rd_approved execution_risk)
                     (PaperExecutionRiskError ''execution_risk_rejected''))) (\<lambda>_.
     areturn (account, clock, execution_risk)))))))))))))))))))))"

text \<open>The gates, then the reservation: the account, the clock and the reserved attempt.\<close>

definition preflight ::
  "'b service \<Rightarrow> instruction \<Rightarrow> approval \<Rightarrow> (broker_account \<times> broker_clock \<times> attempt, 'b world) action" where
  "preflight sv i a =
     abind (check_gates sv i a) (\<lambda>(account, clock, execution_risk).
     abind (do_reserve_attempt i a (rd_approved execution_risk) (bk_timestamp clock)) (\<lambda>reserved.
     areturn (account, clock, reserved)))"

text \<open>The broker already has an order with the client order id.\<close>

definition adopt_existing_order ::
  "instruction \<Rightarrow> broker_account \<Rightarrow> instant \<Rightarrow> attempt \<Rightarrow> broker_order \<Rightarrow> (receipt, 'b world) action" where
  "adopt_existing_order i account now reserved existing =
     abind (acatch (alift (receipt_from_broker_snapshot existing reserved ''broker_existing_order_found''))
              is_paper_execution_error (\<lambda>_.
                abind (do_mark_submission_unknown (in_client_order_id i) (in_signal_id i)
                         ''broker_order_mismatch'' now ''broker_order_mismatch'') (\<lambda>_.
                araise (PaperExecutionSubmissionUnknownError ''broker_order_mismatch'')))) (\<lambda>receipt.
     abind (acatch (do_record_receipt receipt PAPER_ATTEMPT_BROKER_EXISTING_ORDER_FOUND
                      (Some (ba_account_id_fingerprint account)) now ''broker_existing_order_found'')
              is_exception (\<lambda>_.
                abind (mark_submission_unknown_best_effort (in_client_order_id i) (in_signal_id i) now
                         ''existing_order_receipt_persistence_failed'') (\<lambda>_.
                araise (PaperExecutionSubmissionUnknownError
                          ''existing_order_receipt_persistence_failed'')))) (\<lambda>_.
     areturn receipt))"

definition is_approval_error :: "exn \<Rightarrow> bool" where
  "is_approval_error e = (case e of PaperExecutionApprovalError _ \<Rightarrow> True | _ \<Rightarrow> False)"

definition is_stale_signal_error :: "exn \<Rightarrow> bool" where
  "is_stale_signal_error e = (case e of PaperExecutionStaleSignalError _ \<Rightarrow> True | _ \<Rightarrow> False)"

definition refresh_pre_submission_clock ::
  "'b service \<Rightarrow> instruction \<Rightarrow> approval \<Rightarrow> instant \<Rightarrow> (broker_clock, 'b world) action" where
  "refresh_pre_submission_clock sv i a fallback_now =
     abind (acatch (call_broker (br_get_clock (sv_broker sv)) (returned Saw_clock)) is_exception (\<lambda>_.
              abind (mark_reserved_blocked i fallback_now ''broker_clock_refresh_failed''
                       ''pre_submission_clock_blocked'') (\<lambda>_.
              araise (PaperExecutionStaleSignalError ''broker_clock_refresh_failed'')))) (\<lambda>refreshed.
     abind (acatch
              (alift (rbind (assert_clock (sv_ny_date sv) ''market_closed_before_submission''
                               ''instruction_expired_before_submission''
                               ''wrong_execution_session_before_submission'' refreshed i) (\<lambda>_.
                      validate_matching_approval i a (bk_timestamp refreshed))))
              (\<lambda>e. is_approval_error e \<or> is_stale_signal_error e) (\<lambda>e.
              if is_approval_error e
              then abind (mark_reserved_blocked i (bk_timestamp refreshed)
                            ''approval_invalid_before_submission'' ''pre_submission_clock_blocked'') (\<lambda>_.
                   araise (PaperExecutionApprovalError ''approval_invalid_before_submission''))
              else abind (mark_reserved_blocked i (bk_timestamp refreshed) (exn_code e)
                            ''pre_submission_clock_blocked'') (\<lambda>_.
                   araise e))) (\<lambda>_.
     areturn refreshed))"

definition assert_final_kill_switch_gate :: "instruction \<Rightarrow> instant \<Rightarrow> (unit, 'b world) action" where
  "assert_final_kill_switch_gate i now =
     abind (acatch read_kill_switch is_paper_execution_error (\<lambda>_.
              abind (mark_reserved_blocked i now ''kill_switch_state_unavailable_before_submission''
                       ''final_kill_switch_blocked'') (\<lambda>_.
              araise (PaperExecutionKillSwitchError
                        ''kill_switch_state_unavailable_before_submission'')))) (\<lambda>control.
     if cs_kill_switch_engaged control
     then abind (mark_reserved_blocked i now ''kill_switch_engaged_before_submission''
                   ''final_kill_switch_blocked'') (\<lambda>_.
          araise (PaperExecutionKillSwitchError ''kill_switch_engaged_before_submission''))
     else areturn ())"

text \<open>The handlers around \<^verbatim>\<open>broker.submit_market_day_order\<close>: each records what happened, and raises.\<close>

definition submission_failed :: "instruction \<Rightarrow> instant \<Rightarrow> exn \<Rightarrow> ('a, 'b world) action" where
  "submission_failed i now e =
     (case e of
        PaperExecutionBrokerRequestError _ \<Rightarrow>
          abind (do_mark_failure (in_client_order_id i) (in_signal_id i) PAPER_ATTEMPT_BLOCKED
                   ''broker_request_construction_failed'' now ''broker_request_construction_failed'') (\<lambda>_.
          araise e)
      | PaperExecutionBrokerRejectionError code \<Rightarrow>
          abind (do_mark_failure (in_client_order_id i) (in_signal_id i) PAPER_ATTEMPT_REJECTED code now
                   ''broker_order_rejected'') (\<lambda>_.
          araise e)
      | PaperExecutionSubmissionUnknownError code \<Rightarrow>
          abind (do_mark_submission_unknown (in_client_order_id i) (in_signal_id i) code now
                   ''submission_unknown'') (\<lambda>_.
          araise e)
      | _ \<Rightarrow>
          abind (do_mark_submission_unknown (in_client_order_id i) (in_signal_id i)
                   ''submission_outcome_unknown'' now ''submission_unknown'') (\<lambda>_.
          araise (PaperExecutionSubmissionUnknownError ''submission_outcome_unknown'')))"

text \<open>The broker answered: the receipt is checked against the attempt, and recorded.\<close>

definition record_accepted ::
  "instruction \<Rightarrow> broker_account \<Rightarrow> instant \<Rightarrow> attempt \<Rightarrow> broker_order \<Rightarrow> (receipt, 'b world) action" where
  "record_accepted i account now reserved snapshot =
     abind (acatch (alift (receipt_from_broker_snapshot snapshot reserved ''broker_verified''))
              (\<lambda>_. True) (\<lambda>_.
                abind (do_mark_submission_unknown (in_client_order_id i) (in_signal_id i)
                         ''broker_snapshot_mismatch'' now ''submission_unknown'') (\<lambda>_.
                araise (PaperExecutionSubmissionUnknownError ''broker_snapshot_mismatch'')))) (\<lambda>receipt.
     abind (acatch (do_record_receipt receipt PAPER_ATTEMPT_ACCEPTED
                      (Some (ba_account_id_fingerprint account)) now ''broker_order_accepted'')
              is_exception (\<lambda>_.
                abind (mark_submission_unknown_best_effort (in_client_order_id i) (in_signal_id i) now
                         ''accepted_receipt_persistence_failed'') (\<lambda>_.
                araise (PaperExecutionSubmissionUnknownError
                          ''accepted_receipt_persistence_failed'')))) (\<lambda>_.
     areturn receipt))"

definition submit_and_record ::
  "'b service \<Rightarrow> instruction \<Rightarrow> broker_account \<Rightarrow> instant \<Rightarrow> attempt \<Rightarrow> (receipt, 'b world) action" where
  "submit_and_record sv i account now reserved =
     abind (acatch (submit_to_broker (sv_broker sv) i) (\<lambda>_. True) (submission_failed i now))
       (record_accepted i account now reserved)"

text \<open>From the reservation on.\<close>

definition submit_fresh_order ::
  "'b service \<Rightarrow> instruction \<Rightarrow> approval \<Rightarrow> broker_account \<Rightarrow> instant \<Rightarrow> attempt \<Rightarrow>
     (receipt, 'b world) action" where
  "submit_fresh_order sv i a account now reserved =
     abind (refresh_pre_submission_clock sv i a now) (\<lambda>submission_clock.
     abind (assert_final_kill_switch_gate i (bk_timestamp submission_clock)) (\<lambda>_.
     submit_and_record sv i account (bk_timestamp submission_clock) reserved))"

definition submit_reserved_order ::
  "'b service \<Rightarrow> instruction \<Rightarrow> approval \<Rightarrow> broker_account \<Rightarrow> instant \<Rightarrow> attempt \<Rightarrow>
     (receipt, 'b world) action" where
  "submit_reserved_order sv i a account now reserved =
     abind (call_broker (br_get_order_by_client_order_id (sv_broker sv) (in_client_order_id i))
              (returned Saw_order)) (\<lambda>existing.
     case existing of
       Some order \<Rightarrow> adopt_existing_order i account now reserved order
     | None \<Rightarrow> submit_fresh_order sv i a account now reserved)"

definition submit_approved_order :: "'b service \<Rightarrow> instruction \<Rightarrow> approval \<Rightarrow> (receipt, 'b world) action" where
  "submit_approved_order sv i a =
     abind (preflight sv i a) (\<lambda>(account, clock, reserved).
     submit_reserved_order sv i a account (bk_timestamp clock) reserved)"

section \<open>Reconciliation\<close>

definition read_attempt_of :: "pyval \<Rightarrow> (attempt, 'b world) action" where
  "read_attempt_of client_order_id =
     read_repository (\<lambda>fault. get_attempt fault client_order_id) Saw_attempt"

text \<open>The broker has an order under the client order id.\<close>

definition reconcile_with_order :: "attempt \<Rightarrow> instant \<Rightarrow> broker_order \<Rightarrow> (receipt option, 'b world) action" where
  "reconcile_with_order attempt now order =
     abind (acatch (alift (receipt_from_broker_snapshot order attempt ''broker_reconciled''))
              is_paper_execution_error (\<lambda>_.
                abind (do_mark_submission_unknown (pa_client_order_id attempt) (pa_signal_id attempt)
                         ''broker_order_mismatch'' now ''broker_order_mismatch'') (\<lambda>_.
                araise (PaperExecutionSubmissionUnknownError ''broker_order_mismatch'')))) (\<lambda>receipt.
     abind (acatch (do_record_receipt receipt PAPER_ATTEMPT_RECONCILED None now
                      ''broker_order_reconciled'')
              is_exception (\<lambda>_.
                abind (mark_submission_unknown_best_effort (pa_client_order_id attempt)
                         (pa_signal_id attempt) now ''reconciliation_receipt_persistence_failed'') (\<lambda>_.
                araise (PaperExecutionSubmissionUnknownError
                          ''reconciliation_receipt_persistence_failed'')))) (\<lambda>_.
     areturn (Some receipt)))"

definition reconcile_attempt :: "'b service \<Rightarrow> attempt \<Rightarrow> instant \<Rightarrow> (receipt option, 'b world) action" where
  "reconcile_attempt sv attempt now =
     abind (alift (reject_if (pa_attempt_status attempt \<notin>
                       {PAPER_ATTEMPT_RESERVED, PAPER_ATTEMPT_SUBMISSION_UNKNOWN})
                     (PaperExecutionIntegrityError ''invalid_reconciliation_state''))) (\<lambda>_.
     abind (call_broker (br_get_order_by_client_order_id (sv_broker sv) (pa_client_order_id attempt))
              (returned Saw_order)) (\<lambda>snapshot.
     case snapshot of
       None \<Rightarrow> areturn None
     | Some order \<Rightarrow> reconcile_with_order attempt now order))"

definition reconcile_by_client_order_id ::
  "'b service \<Rightarrow> pyval \<Rightarrow> instant \<Rightarrow> (receipt option, 'b world) action" where
  "reconcile_by_client_order_id sv client_order_id now =
     abind (read_attempt_of client_order_id) (\<lambda>attempt. reconcile_attempt sv attempt now)"

section \<open>Preview\<close>

record preview =
  pv_allowed :: bool
  pv_blocked_gate_codes :: "string list"

text \<open>The codes of the gates that block: an exception that is not listed passes.\<close>

definition gate_codes :: "exn + 'a \<Rightarrow> (exn \<Rightarrow> bool) \<Rightarrow> ('a \<Rightarrow> string list) \<Rightarrow> exn + string list" where
  "gate_codes m handled codes =
     (case m of Inl e \<Rightarrow> if handled e then Inr [exn_code e] else Inl e | Inr x \<Rightarrow> Inr (codes x))"

definition preview_submission ::
  "'b service \<Rightarrow> instruction \<Rightarrow> approval \<Rightarrow> instant \<Rightarrow> (preview, 'b world) action" where
  "preview_submission sv i a now =
     abind (alift (gate_codes (assert_local_permission_gates (sv_settings sv)) is_paper_execution_error
              (\<lambda>_. []))) (\<lambda>local.
     abind (alift (gate_codes (validate_matching_approval i a now) is_approval_error (\<lambda>_. []))) (\<lambda>approval.
     abind (acatch (abind read_kill_switch (\<lambda>control.
                      areturn (if cs_kill_switch_engaged control then [''kill_switch_engaged''] else [])))
              is_paper_execution_error (\<lambda>e. areturn [exn_code e])) (\<lambda>switch.
     let blocked = local @ approval @ switch
     in areturn \<lparr>pv_allowed = (blocked = []), pv_blocked_gate_codes = blocked\<rparr>)))"

end
