(* ===== verification/Exec_Runs.thy ===== *)
theory Exec_Runs
  imports Exec_Service
begin

text \<open>
  Reasoning about actions: relations between the world before and after that every step of an action
  respects, and what the calls of the service do to the record and to the ledger.
\<close>

section \<open>Relations that actions respect\<close>

definition obeys :: "('w \<Rightarrow> 'w \<Rightarrow> bool) \<Rightarrow> ('a, 'w) action \<Rightarrow> bool" where
  "obeys R m \<longleftrightarrow> (\<forall>w r w'. m w = (r, w') \<longrightarrow> R w w')"

lemma obeysI: "(\<And>w r w'. m w = (r, w') \<Longrightarrow> R w w') \<Longrightarrow> obeys R m"
  by (simp add: obeys_def)

lemma obeysD: "obeys R m \<Longrightarrow> m w = (r, w') \<Longrightarrow> R w w'"
  by (auto simp: obeys_def)

locale world_relation =
  fixes R :: "'w \<Rightarrow> 'w \<Rightarrow> bool"
  assumes refl: "R w w" and trans: "R w w1 \<Longrightarrow> R w1 w2 \<Longrightarrow> R w w2"
begin

lemma obeys_return: "obeys R (areturn x)" "obeys R (araise e)" "obeys R (alift m)"
  by (auto simp: obeys_def refl)

lemma obeys_bind: "obeys R m \<Longrightarrow> (\<And>x. obeys R (f x)) \<Longrightarrow> obeys R (abind m f)"
  by (rule obeysI, erule abindE) (blast dest: obeysD intro: trans)+

lemma obeys_catch: "obeys R m \<Longrightarrow> (\<And>e. obeys R (h e)) \<Longrightarrow> obeys R (acatch m handled h)"
  by (rule obeysI, erule acatchE) (blast dest: obeysD intro: trans)+

lemma obeys_if: "obeys R m \<Longrightarrow> obeys R m' \<Longrightarrow> obeys R (if b then m else m')"
  by simp

lemma obeys_option: "obeys R m \<Longrightarrow> (\<And>x. obeys R (f x)) \<Longrightarrow>
    obeys R (case v of None \<Rightarrow> m | Some x \<Rightarrow> f x)"
  by (cases v) simp_all

lemma obeys_triple: "(\<And>x y z. obeys R (f x y z)) \<Longrightarrow> obeys R (case t of (x, y, z) \<Rightarrow> f x y z)"
  by (cases t) simp

lemma obeys_suppress: "obeys R m \<Longrightarrow> obeys R (suppress_paper_error m)"
  unfolding suppress_paper_error_def by (intro obeys_catch obeys_bind obeys_return)

lemmas obeys_intros = obeys_return obeys_bind obeys_catch obeys_if obeys_option
  obeys_triple obeys_suppress

end

text \<open>A first step with its own relation, then steps that a second relation allows.\<close>

lemma obeys_first_bind:
  assumes "\<And>w w1 w2. S w w1 \<Longrightarrow> R w1 w2 \<Longrightarrow> S w w2" "obeys S m" "\<And>x. obeys R (f x)"
  shows "obeys S (abind m f)"
  by (rule obeysI, erule abindE) (blast dest: obeysD [OF assms(2)] obeysD [OF assms(3)] intro: assms(1))+

lemma obeys_first_catch:
  assumes "\<And>w w1 w2. S w w1 \<Longrightarrow> R w1 w2 \<Longrightarrow> S w w2" "obeys S m" "\<And>e. obeys R (h e)"
  shows "obeys S (acatch m handled h)"
  by (rule obeysI, erule acatchE) (blast dest: obeysD [OF assms(2)] obeysD [OF assms(3)] intro: assms(1))+

section \<open>The record of the submissions\<close>

fun submissions :: "observation list \<Rightarrow> instruction list" where
  "submissions [] = []"
| "submissions (Submitted i m # obs) = i # submissions obs"
| "submissions (_ # obs) = submissions obs"

lemma submissions_append [simp]: "submissions (xs @ ys) = submissions xs @ submissions ys"
  by (induction xs rule: submissions.induct) simp_all

lemma submissions_returned:
  "(\<And>x. submissions [seen x] = []) \<Longrightarrow> submissions (returned seen m) = []"
  by (cases m) (simp_all add: returned_def)

lemma submissions_empty_iff: "submissions obs = [] \<longleftrightarrow> (\<forall>i m. Submitted i m \<notin> set obs)"
  by (induction obs rule: submissions.induct) auto

text \<open>The record only grows, and nothing is submitted.\<close>

definition quiet_step :: "'b world \<Rightarrow> 'b world \<Rightarrow> bool" where
  "quiet_step w w' \<longleftrightarrow> (\<exists>obs. wd_trace w' = wd_trace w @ obs \<and> submissions obs = [])"

interpretation quiet: world_relation quiet_step
proof unfold_locales
  fix w w1 w2 :: "'b world"
  show "quiet_step w w" by (simp add: quiet_step_def)
  show "quiet_step w w1 \<Longrightarrow> quiet_step w1 w2 \<Longrightarrow> quiet_step w w2"
    unfolding quiet_step_def by fastforce
qed

lemma quiet_calls:
  "(\<And>x. submissions [seen x] = []) \<Longrightarrow> obeys quiet_step (call_broker f (returned seen))"
  "(\<And>x. submissions [seen' x] = []) \<Longrightarrow> obeys quiet_step (write_repository g seen')"
  "(\<And>x. submissions [seen'' x] = []) \<Longrightarrow> obeys quiet_step (read_repository h seen'')"
  unfolding obeys_def quiet_step_def call_broker_def write_repository_def read_repository_def
  by (auto simp: submissions_returned Let_def split: prod.splits)

lemma quiet_repository:
  "obeys quiet_step read_kill_switch" "obeys quiet_step (do_mark_failure c s st code now ty)"
  "obeys quiet_step (do_mark_submission_unknown c s code now ty)"
  "obeys quiet_step (do_record_receipt r st acc now ty)" "obeys quiet_step (do_reserve_attempt i a ok now)"
  unfolding read_kill_switch_def do_mark_failure_def do_mark_submission_unknown_def
    do_record_receipt_def do_reserve_attempt_def
  by (auto intro: quiet_calls)

lemma quiet_preflight: "obeys quiet_step (preflight sv i a)"
  unfolding preflight_def check_gates_def by (intro quiet.obeys_intros quiet_repository quiet_calls) simp_all

lemma quiet_adopt: "obeys quiet_step (adopt_existing_order i acc now att existing)"
  unfolding adopt_existing_order_def mark_submission_unknown_best_effort_def
  by (intro quiet.obeys_intros quiet_repository quiet_calls)

lemma quiet_refresh: "obeys quiet_step (refresh_pre_submission_clock sv i a now)"
  unfolding refresh_pre_submission_clock_def mark_reserved_blocked_def
  by (intro quiet.obeys_intros quiet_repository quiet_calls) simp_all

lemma quiet_final_gate: "obeys quiet_step (assert_final_kill_switch_gate i now)"
  unfolding assert_final_kill_switch_gate_def mark_reserved_blocked_def
  by (intro quiet.obeys_intros quiet_repository quiet_calls)

lemma quiet_submission_failed: "obeys quiet_step (submission_failed i now e)"
  unfolding submission_failed_def
  by (cases e) (simp_all, (intro quiet.obeys_intros quiet_repository)+)

lemma quiet_record_accepted: "obeys quiet_step (record_accepted i acc now att snapshot)"
  unfolding record_accepted_def mark_submission_unknown_best_effort_def
  by (intro quiet.obeys_intros quiet_repository)

text \<open>One submission, then nothing more.\<close>

definition submit_step :: "instruction \<Rightarrow> 'b world \<Rightarrow> 'b world \<Rightarrow> bool" where
  "submit_step i w w' \<longleftrightarrow>
     (\<exists>m rest. wd_trace w' = wd_trace w @ Submitted i m # rest \<and> submissions rest = [])"

lemma submit_step_quiet: "submit_step i w w1 \<Longrightarrow> quiet_step w1 w2 \<Longrightarrow> submit_step i w w2"
  unfolding submit_step_def quiet_step_def by fastforce

lemma submit_and_record_step: "obeys (submit_step i) (submit_and_record sv i acc now att)"
  unfolding submit_and_record_def
proof (rule obeys_first_bind [where R = quiet_step])
  have "obeys (submit_step i) (submit_to_broker (sv_broker sv) i)"
    by (rule obeysI) (auto simp: submit_to_broker_def call_broker_def submit_step_def split: prod.splits)
  then show "obeys (submit_step i) (acatch (submit_to_broker (sv_broker sv) i) (\<lambda>_. True)
      (submission_failed i now))"
    by (rule obeys_first_catch [where R = quiet_step, rotated])
       (rule quiet_submission_failed submit_step_quiet; assumption?)+
qed (rule submit_step_quiet quiet_record_accepted; assumption?)+

lemma quiet_reconcile: "obeys quiet_step (reconcile_by_client_order_id sv c now)"
  unfolding reconcile_by_client_order_id_def reconcile_attempt_def reconcile_with_order_def
    read_attempt_of_def mark_submission_unknown_best_effort_def
  by (intro quiet.obeys_intros quiet_repository quiet_calls) simp_all

lemma quiet_preview: "obeys quiet_step (preview_submission sv i a now)"
  unfolding preview_submission_def Let_def
  by (intro quiet.obeys_intros quiet_repository quiet_calls)

section \<open>What happens to the ledger\<close>

text \<open>The other processes hand in instructions and approvals that their constructors accepted, too.\<close>

definition scheduled :: "(instruction_content \<Rightarrow> string) \<Rightarrow> 'b world \<Rightarrow> bool" where
  "scheduled digest w \<longleftrightarrow> list_all (\<lambda>t. list_all (admissible_op digest) (fst t)) (wd_schedule w)"

text \<open>The ledger moves by a history of its own operations.\<close>

definition history_step :: "(instruction_content \<Rightarrow> string) \<Rightarrow> 'b world \<Rightarrow> 'b world \<Rightarrow> bool" where
  "history_step digest w w' \<longleftrightarrow>
     (scheduled digest w \<longrightarrow> scheduled digest w' \<and>
        (\<exists>ops. list_all (admissible_op digest) ops \<and> wd_ledger w' = fold apply_op ops (wd_ledger w)))"

lemma history_step_trans:
  assumes "history_step digest w w1" "history_step digest w1 w2"
  shows "history_step digest w w2"
proof -
  have "scheduled digest w2 \<and>
      (\<exists>ops. list_all (admissible_op digest) ops \<and> wd_ledger w2 = fold apply_op ops (wd_ledger w))"
    if w: "scheduled digest w"
  proof -
    obtain xs where xs: "list_all (admissible_op digest) xs" "wd_ledger w1 = fold apply_op xs (wd_ledger w)"
      and w1: "scheduled digest w1" using assms(1) w by (auto simp: history_step_def)
    obtain ys where ys: "list_all (admissible_op digest) ys" "wd_ledger w2 = fold apply_op ys (wd_ledger w1)"
      and w2: "scheduled digest w2" using assms(2) w1 by (auto simp: history_step_def)
    show ?thesis using xs ys w2 by (intro conjI exI [of _ "xs @ ys"]) simp_all
  qed
  then show ?thesis unfolding history_step_def by blast
qed

interpretation ledger_history: world_relation "history_step digest" for digest
proof unfold_locales
  fix w w1 w2 :: "'b world"
  show "history_step digest w w" unfolding history_step_def by (auto intro: exI [of _ "[]"])
  show "history_step digest w w1 \<Longrightarrow> history_step digest w1 w2 \<Longrightarrow> history_step digest w w2"
    by (rule history_step_trans)
qed

lemma scheduled_turn:
  assumes "scheduled digest w" "turn (wd_schedule w) = (others, fault)"
  shows "list_all (admissible_op digest) others" "list_all (\<lambda>t. list_all (admissible_op digest) (fst t)) (tl (wd_schedule w))"
  using assms by (cases "wd_schedule w"; auto simp: scheduled_def turn_def)+

lemma history_call: "obeys (history_step digest) (call_broker f seen)"
  by (rule obeysI)
     (auto simp: call_broker_def history_step_def scheduled_def split: prod.splits intro: exI [of _ "[]"])

lemma history_read: "obeys (history_step digest) (read_repository f seen)"
proof (rule obeysI)
  fix w r w' assume run: "read_repository f seen w = (r, w')"
  obtain others fault where t: "turn (wd_schedule w) = (others, fault)" by fastforce
  have "wd_ledger w' = fold apply_op others (wd_ledger w)" "wd_schedule w' = tl (wd_schedule w)"
    using run by (auto simp: read_repository_def t Let_def)
  then show "history_step digest w w'"
    using scheduled_turn [OF _ t] unfolding history_step_def scheduled_def by metis
qed

lemma history_write:
  assumes op: "admissible_op digest (No_fault, operation)"
    and run: "\<And>fault l. snd (f fault l) = apply_op (fault, operation) l"
  shows "obeys (history_step digest) (write_repository f seen)"
proof (rule obeysI)
  fix w r w' assume step: "write_repository f seen w = (r, w')"
  obtain others fault where t: "turn (wd_schedule w) = (others, fault)" by fastforce
  have "wd_ledger w' = snd (f fault (fold apply_op others (wd_ledger w)))"
    and s: "wd_schedule w' = tl (wd_schedule w)"
    using step by (auto simp: write_repository_def t split: prod.splits)
  then have l: "wd_ledger w' = fold apply_op (others @ [(fault, operation)]) (wd_ledger w)"
    by (simp add: run)
  have "list_all (admissible_op digest) (others @ [(fault, operation)])" if "scheduled digest w"
    using scheduled_turn(1) [OF that t] op by (simp add: admissible_op_def)
  then show "history_step digest w w'"
    using scheduled_turn(2) [OF _ t] l s unfolding history_step_def scheduled_def by metis
qed

lemma history_repository:
  "obeys (history_step digest) read_kill_switch"
  "obeys (history_step digest) (do_mark_failure c s st code now ty)"
  "obeys (history_step digest) (do_mark_submission_unknown c s code now ty)"
  "obeys (history_step digest) (do_record_receipt r st acc now ty)"
  unfolding read_kill_switch_def do_mark_failure_def do_mark_submission_unknown_def do_record_receipt_def
  by (rule history_read)
     (rule history_write [where operation = "Mark_failure (PyStr c) (PyStr s) st (PyStr code) now ty"]
        history_write [where operation = "Mark_submission_unknown (PyStr c) (PyStr s) (PyStr code) now ty"]
        history_write [where operation = "Record_receipt r st acc now ty"];
      simp add: admissible_op_def apply_op_def)+

lemma history_reserve:
  "wf_instruction digest i \<Longrightarrow> wf_approval a \<Longrightarrow>
     obeys (history_step digest) (do_reserve_attempt i a ok now)"
  unfolding do_reserve_attempt_def
  by (rule history_write [where operation = "Reserve_attempt i a ok now"])
     (simp_all add: admissible_op_def apply_op_def)

lemmas history_intros = ledger_history.obeys_intros history_repository history_call history_read

lemma history_submission_failed: "obeys (history_step digest) (submission_failed i now e)"
  unfolding submission_failed_def by (cases e) (simp_all, (intro history_intros)+)

lemma history_after_preflight:
  "obeys (history_step digest) (adopt_existing_order i acc now att existing)"
  "obeys (history_step digest) (refresh_pre_submission_clock sv i a now)"
  "obeys (history_step digest) (assert_final_kill_switch_gate i now)"
  "obeys (history_step digest) (submit_and_record sv i acc now att)"
  unfolding adopt_existing_order_def mark_submission_unknown_best_effort_def
    refresh_pre_submission_clock_def mark_reserved_blocked_def assert_final_kill_switch_gate_def
    submit_and_record_def submit_to_broker_def record_accepted_def
  by (intro history_intros history_submission_failed)+

lemma history_check_gates: "obeys (history_step digest) (check_gates sv i a)"
  unfolding check_gates_def by (intro history_intros)

lemma history_preflight:
  "wf_instruction digest i \<Longrightarrow> wf_approval a \<Longrightarrow> obeys (history_step digest) (preflight sv i a)"
  unfolding preflight_def by (intro history_intros history_reserve history_check_gates)

lemma history_fresh: "obeys (history_step digest) (submit_fresh_order sv i a acc now att)"
  unfolding submit_fresh_order_def by (intro history_intros history_after_preflight)

lemma history_submit:
  "wf_instruction digest i \<Longrightarrow> wf_approval a \<Longrightarrow>
     obeys (history_step digest) (submit_approved_order sv i a)"
  unfolding submit_approved_order_def submit_reserved_order_def
  by (intro history_intros history_preflight history_fresh history_after_preflight)

lemma history_reconcile: "obeys (history_step digest) (reconcile_by_client_order_id sv c now)"
  unfolding reconcile_by_client_order_id_def reconcile_attempt_def reconcile_with_order_def
    read_attempt_of_def mark_submission_unknown_best_effort_def
  by (intro history_intros)

lemma history_preview: "obeys (history_step digest) (preview_submission sv i a now)"
  unfolding preview_submission_def Let_def by (intro history_intros)

end
