(* ===== verification/Exec_Safety.thy ===== *)
theory Exec_Safety
  imports Exec_Runs
begin

text \<open>
  The safety of the submission: what the gates mean, that an order is submitted only after every one of them,
  at most once, and never by a reconciliation or a preview.
\<close>

section \<open>What the gates mean\<close>

definition account_ok :: "broker_account \<Rightarrow> bool" where
  "account_ok a \<longleftrightarrow> lower (ba_status a) = ''active'' \<and> ba_currency a = ''USD'' \<and>
     \<not> ba_trading_blocked a \<and> \<not> ba_account_blocked a \<and> \<not> ba_trade_suspended_by_user a \<and>
     0 \<le> ba_cash a \<and> 0 \<le> ba_equity a \<and> 0 \<le> ba_buying_power a"

definition clock_ok :: "(instant \<Rightarrow> date) \<Rightarrow> broker_clock \<Rightarrow> instruction \<Rightarrow> bool" where
  "clock_ok ny_date k i \<longleftrightarrow> bk_is_open k \<and> bk_timestamp k < in_expires_at_utc i \<and>
     po_signal_session (in_proposed_order i) < po_execution_session (in_proposed_order i) \<and>
     ny_date (bk_timestamp k) = po_execution_session (in_proposed_order i)"

definition positions_ok :: "broker_position list \<Rightarrow> proposed_order \<Rightarrow> bool" where
  "positions_ok positions order \<longleftrightarrow>
     (case positions of
        [] \<Rightarrow> po_side order = BUY_SIDE
      | [p] \<Rightarrow> bp_symbol p = SUPPORTED_SYMBOL \<and> lower (bp_side p) = ''long'' \<and>
          (case po_side order of
             BUY_SIDE \<Rightarrow> int_of_decimal (bp_quantity p) \<le> 0
           | SELL_SIDE \<Rightarrow> int_of_decimal (bp_quantity p) = po_quantity order \<and>
                         int_of_decimal (bp_available_quantity p) = po_quantity order)
      | _ \<Rightarrow> False)"

lemma gates_Inr:
  "assert_environment e = Inr u \<longleftrightarrow> be_is_paper e \<and> be_endpoint_identity e = ALPACA_PAPER_ENDPOINT"
  "assert_account acc = Inr u \<longleftrightarrow> account_ok acc"
  "assert_account_configuration c = Inr u \<longleftrightarrow>
     bf_no_shorting c \<and> bf_max_margin_multiplier c = 1 \<and> \<not> bf_suspend_trade c"
  "assert_clock ny_date c1 c2 c3 k i = Inr u \<longleftrightarrow> clock_ok ny_date k i"
  "assert_asset s = Inr u \<longleftrightarrow> bs_symbol s = SUPPORTED_SYMBOL \<and> bs_asset_class s = ''us_equity'' \<and>
     bs_active s \<and> bs_tradable s"
  by (auto simp: assert_environment_def assert_account_def account_ok_def not_less
      assert_account_configuration_def assert_clock_def clock_ok_def assert_asset_def)

lemma assert_positions_Inr: "assert_positions ps i = Inr u \<longleftrightarrow> positions_ok ps (in_proposed_order i)"
  by (cases "po_side (in_proposed_order i)"; cases ps)
     (auto simp: assert_positions_def positions_ok_def Let_def split: list.splits)

lemma assert_open_orders_Inr:
  "assert_open_orders os i = Inr u \<longleftrightarrow> (\<forall>x \<in> set os. bo_client_order_id x = in_client_order_id i)"
  by (induction os i rule: assert_open_orders.induct) auto

section \<open>The record of a passed preflight\<close>

lemma abind_Inr_iff:
  "abind m f w = (Inr y, w') \<longleftrightarrow> (\<exists>x w1. m w = (Inr x, w1) \<and> f x w1 = (Inr y, w'))"
  by (auto simp: abind_def split: prod.splits sum.splits)

lemma call_broker_Inr:
  "call_broker f (returned seen) w = (Inr x, w') \<Longrightarrow> wd_trace w' = wd_trace w @ [seen x]"
  by (auto simp: call_broker_def returned_def split: prod.splits)

lemma read_repository_Inr:
  "read_repository f seen w = (Inr x, w') \<Longrightarrow> wd_trace w' = wd_trace w @ [seen x]"
  by (auto simp: read_repository_def returned_def Let_def split: prod.splits)

lemma write_repository_Inr:
  "write_repository f seen w = (Inr x, w') \<Longrightarrow> wd_trace w' = wd_trace w @ [seen x]"
  by (auto simp: write_repository_def returned_def split: prod.splits)

text \<open>What the service has seen when it has reserved the attempt.\<close>

definition passed_preflight ::
  "'b service \<Rightarrow> instruction \<Rightarrow> approval \<Rightarrow> broker_account \<Rightarrow> broker_clock \<Rightarrow> attempt \<Rightarrow> observation list \<Rightarrow> bool" where
  "passed_preflight sv i a account clock reserved obs \<longleftrightarrow>
     (\<exists>environment config control asset positions open_orders d.
        obs = [Saw_environment environment, Saw_account account, Saw_configuration config,
               Saw_clock clock, Saw_kill_switch control, Saw_asset asset, Saw_positions positions,
               Saw_open_orders open_orders, Reserved reserved] \<and>
        execution_permitted (sv_settings sv) \<and>
        be_is_paper environment \<and> be_endpoint_identity environment = ALPACA_PAPER_ENDPOINT \<and>
        account_ok account \<and>
        bf_no_shorting config \<and> bf_max_margin_multiplier config = 1 \<and> \<not> bf_suspend_trade config \<and>
        clock_ok (sv_ny_date sv) clock i \<and> approval_covers i a (bk_timestamp clock) \<and>
        \<not> cs_kill_switch_engaged control \<and>
        bs_symbol asset = SUPPORTED_SYMBOL \<and> bs_asset_class asset = ''us_equity'' \<and>
        bs_active asset \<and> bs_tradable asset \<and>
        positions_ok positions (in_proposed_order i) \<and>
        (\<forall>x \<in> set open_orders. bo_client_order_id x = in_client_order_id i) \<and>
        execution_time_risk_decision (sv_risk_config sv) i account positions = Inr d \<and> rd_approved d)"

lemma preflight_passed:
  assumes "preflight sv i a w = (Inr (account, clock, reserved), w')"
  shows "\<exists>obs. wd_trace w' = wd_trace w @ obs \<and> passed_preflight sv i a account clock reserved obs"
  using assms
  unfolding preflight_def check_gates_def abind_Inr_iff read_kill_switch_def do_reserve_attempt_def
  by (auto dest!: call_broker_Inr read_repository_Inr write_repository_Inr
      simp: abind_Inr_iff passed_preflight_def gates_Inr assert_positions_Inr assert_open_orders_Inr)

section \<open>The record of a submission\<close>

lemma abind_araise [simp]: "abind m (\<lambda>_. araise e) w = (Inr x, w') \<longleftrightarrow> False"
  by (auto simp: abind_Inr_iff)

lemma acatch_Inr_iff:
  "acatch m handled h w = (Inr x, w') \<longleftrightarrow>
     m w = (Inr x, w') \<or> (\<exists>e w1. m w = (Inl e, w1) \<and> handled e \<and> h e w1 = (Inr x, w'))"
  by (auto simp: acatch_def split: prod.splits sum.splits)

lemma refreshed_clock:
  assumes "refresh_pre_submission_clock sv i a now w = (Inr k, w')"
  shows "wd_trace w' = wd_trace w @ [Saw_clock k] \<and> clock_ok (sv_ny_date sv) k i \<and>
    approval_covers i a (bk_timestamp k)"
  using assms unfolding refresh_pre_submission_clock_def
  by (auto simp: abind_Inr_iff acatch_Inr_iff gates_Inr rbind_eq_Inr_iff
      dest!: call_broker_Inr split: if_splits)

lemma final_gate_passed:
  assumes "assert_final_kill_switch_gate i now w = (Inr u, w')"
  shows "\<exists>control. wd_trace w' = wd_trace w @ [Saw_kill_switch control] \<and> \<not> cs_kill_switch_engaged control"
  using assms unfolding assert_final_kill_switch_gate_def read_kill_switch_def
  by (auto simp: abind_Inr_iff acatch_Inr_iff dest!: read_repository_Inr split: if_splits)

text \<open>Everything that a submission rests on, as the service saw it, in order.\<close>

definition submission_record ::
  "'b service \<Rightarrow> instruction \<Rightarrow> approval \<Rightarrow> observation list \<Rightarrow> bool" where
  "submission_record sv i a obs \<longleftrightarrow>
     (\<exists>account clock reserved pre k control m rest.
        passed_preflight sv i a account clock reserved pre \<and>
        obs = pre @ [Saw_order None, Saw_clock k, Saw_kill_switch control, Submitted i m] @ rest \<and>
        clock_ok (sv_ny_date sv) k i \<and> approval_covers i a (bk_timestamp k) \<and>
        \<not> cs_kill_switch_engaged control \<and> submissions rest = [])"

text \<open>An action either stays quiet, or it reaches its last step by quiet ones.\<close>

lemma fresh_order_cases:
  assumes "submit_fresh_order sv i a account now reserved w = (r, w')"
  obtains (quiet) "quiet_step w w'"
  | (sent) w1 w2 k u where
      "refresh_pre_submission_clock sv i a now w = (Inr k, w1)"
      "assert_final_kill_switch_gate i (bk_timestamp k) w1 = (Inr u, w2)"
      "submit_and_record sv i account (bk_timestamp k) reserved w2 = (r, w')"
  using assms unfolding submit_fresh_order_def
proof (cases rule: abindE)
  case (raised e)
  then show ?thesis using obeysD [OF quiet_refresh] quiet by blast
next
  case (returned k w1)
  note q = obeysD [OF quiet_refresh returned(1)]
  show ?thesis using returned(2)
  proof (cases rule: abindE)
    case (raised e)
    then show ?thesis using q obeysD [OF quiet_final_gate] quiet.trans quiet by blast
  next
    case gate: (returned u w2)
    show ?thesis by (rule sent [OF returned(1) gate])
  qed
qed

lemma submit_cases:
  assumes "submit_approved_order sv i a w = (r, w')"
  obtains (quiet) "quiet_step w w'"
  | (sent) account clock reserved w1 w2 where
      "preflight sv i a w = (Inr (account, clock, reserved), w1)"
      "call_broker (br_get_order_by_client_order_id (sv_broker sv) (in_client_order_id i))
         (returned Saw_order) w1 = (Inr None, w2)"
      "submit_fresh_order sv i a account (bk_timestamp clock) reserved w2 = (r, w')"
  using assms unfolding submit_approved_order_def
proof (cases rule: abindE)
  case (raised e)
  then show ?thesis using obeysD [OF quiet_preflight] quiet by blast
next
  case (returned x w1)
  obtain account clock reserved where x: "x = (account, clock, reserved)" by (cases x)
  note q = obeysD [OF quiet_preflight returned(1)]
  have lookup: "quiet_step w1 w2" if "call_broker f (Exec_Gates.returned Saw_order) w1 = (m, w2)" for f m w2
    using that obeysD [OF quiet_calls(1) [of Saw_order]] by simp
  show ?thesis using returned(2) unfolding x prod.case submit_reserved_order_def
  proof (cases rule: abindE)
    case (raised e)
    then show ?thesis using q lookup quiet.trans quiet by blast
  next
    case found: (returned existing w2)
    then have q2: "quiet_step w w2" using q lookup quiet.trans by blast
    show ?thesis
    proof (cases existing)
      case (Some order)
      then show ?thesis using found(2) q2 obeysD [OF quiet_adopt] quiet.trans quiet by fastforce
    next
      case None
      then show ?thesis using sent returned(1) x found by simp
    qed
  qed
qed

lemma submit_trace:
  assumes "submit_approved_order sv i a w = (r, w')"
  shows "\<exists>obs. wd_trace w' = wd_trace w @ obs \<and>
    (submissions obs = [] \<or> submission_record sv i a obs)"
  using assms
proof (cases rule: submit_cases)
  case quiet
  then show ?thesis by (auto simp: quiet_step_def)
next
  case (sent account clock reserved w1 w2)
  obtain pre where pre: "wd_trace w1 = wd_trace w @ pre" "passed_preflight sv i a account clock reserved pre"
    using preflight_passed [OF sent(1)] by blast
  have "wd_trace w2 = wd_trace w1 @ [Saw_order None]" using call_broker_Inr [OF sent(2)] by simp
  note w2 = this [unfolded pre(1)]
  show ?thesis using sent(3)
  proof (cases rule: fresh_order_cases)
    case quiet
    then obtain obs where "wd_trace w' = wd_trace w2 @ obs" "submissions obs = []"
      by (auto simp: quiet_step_def)
    moreover have "submissions pre = []" using pre(2) by (auto simp: passed_preflight_def)
    ultimately show ?thesis using w2 by auto
  next
    case (sent w3 w4 k u)
    obtain control where "wd_trace w4 = wd_trace w3 @ [Saw_kill_switch control]" "\<not> cs_kill_switch_engaged control"
      using final_gate_passed [OF sent(2)] by blast
    moreover obtain m rest where "wd_trace w' = wd_trace w4 @ Submitted i m # rest" "submissions rest = []"
      using obeysD [OF submit_and_record_step sent(3)] by (auto simp: submit_step_def)
    moreover note refreshed_clock [OF sent(1)]
    ultimately have "wd_trace w' = wd_trace w @ pre @ [Saw_order None, Saw_clock k, Saw_kill_switch control,
        Submitted i m] @ rest" "submission_record sv i a (pre @ [Saw_order None, Saw_clock k,
        Saw_kill_switch control, Submitted i m] @ rest)"
      unfolding submission_record_def using w2 pre(2) by (simp, blast)
    then show ?thesis by blast
  qed
qed

text \<open>C1: an order is handed to the broker only for the instruction of the call, and only after the service has seen,
  in this order: the paper endpoint, an active unblocked cash account without shorting or margin, an
  open market on the execution session with an approval that covers the time, a disengaged kill switch, the
  tradable asset, a position that the order fits, no other open order, an approving risk evaluation, its own reservation, no
  order at the broker under the client order id, and then again an open market with a valid approval
  and a disengaged kill switch. It is handed over once.\<close>

theorem order_sent_only_after_every_gate:
  assumes "submit_approved_order sv i a w = (r, w')" and "wd_trace w' = wd_trace w @ obs"
    and "Submitted j m \<in> set obs"
  shows "submission_record sv i a obs \<and> submissions obs = [i] \<and> j = i"
proof -
  have seen: "submission_record sv i a obs"
    using submit_trace [OF assms(1)] assms(2,3) by (auto simp: submissions_empty_iff)
  then have "submissions obs = [i]"
    by (auto simp: submission_record_def passed_preflight_def)
  moreover have "j \<in> set (submissions obs)"
    using assms(3) by (induction obs rule: submissions.induct) auto
  ultimately show ?thesis using seen by simp
qed

end
