(* ===== verification/Exec_Once.thy ===== *)
theory Exec_Once
  imports Exec_Safety
begin

text \<open>
  At most one submission: any sequence of submissions, reconciliations and previews, interleaved with the
  writes of other processes and with database faults.
\<close>

section \<open>Sequences of calls\<close>

datatype service_call =
    Submit_call instruction approval
  | Reconcile_call pyval instant
  | Preview_call instruction approval instant

fun perform :: "'b service \<Rightarrow> service_call \<Rightarrow> 'b world \<Rightarrow> 'b world" where
  "perform sv (Submit_call i a) w = snd (submit_approved_order sv i a w)"
| "perform sv (Reconcile_call c now) w = snd (reconcile_by_client_order_id sv c now w)"
| "perform sv (Preview_call i a now) w = snd (preview_submission sv i a now w)"

fun valid_call :: "(instruction_content \<Rightarrow> string) \<Rightarrow> service_call \<Rightarrow> bool" where
  "valid_call digest (Submit_call i a) \<longleftrightarrow> wf_instruction digest i \<and> wf_approval a"
| "valid_call digest _ \<longleftrightarrow> True"

section \<open>What the ledger keeps\<close>

definition session_reserved :: "ledger \<Rightarrow> date \<Rightarrow> bool" where
  "session_reserved l d \<longleftrightarrow> (PyStr SUPPORTED_SYMBOL, PyDate d) \<in> set (map session_key (lg_attempts l))"

lemma session_reserved_taken:
  "session_taken l (PyStr SUPPORTED_SYMBOL) (PyDate d) \<longleftrightarrow> session_reserved l d"
  by (force simp: session_taken_def session_reserved_def session_key_def list_ex_iff image_iff)

lemma apply_op_session:
  assumes "ledger_inv l" "admissible_op digest x" "session_reserved l d"
  shows "session_reserved (apply_op x l) d"
proof -
  from apply_op_effect [OF assms(1,2)] obtain keys where
    "map session_key (lg_attempts (apply_op x l)) = map session_key (lg_attempts l) @ keys"
    unfolding op_effect_def control_updated_def by (metis append_Nil2)
  then show ?thesis using assms(3) by (simp add: session_reserved_def)
qed

lemma history_session:
  "ledger_inv l \<Longrightarrow> list_all (admissible_op digest) ops \<Longrightarrow> session_reserved l d \<Longrightarrow>
     session_reserved (fold apply_op ops l) d"
proof (induction ops arbitrary: l)
  case (Cons x ops)
  then show ?case using apply_op_session [of l digest x d] history.step_inv [of l digest x] by simp
qed simp

text \<open>The instruction has its attempt and its session in the ledger.\<close>

definition claimed :: "ledger \<Rightarrow> instruction \<Rightarrow> bool" where
  "claimed l i \<longleftrightarrow> status_of l (in_client_order_id i) \<noteq> None \<and>
     session_reserved l (po_execution_session (in_proposed_order i))"

lemma history_claimed:
  "ledger_inv l \<Longrightarrow> list_all (admissible_op digest) ops \<Longrightarrow> claimed l i \<Longrightarrow> claimed (fold apply_op ops l) i"
  unfolding claimed_def using history.run_known history_session by blast

section \<open>The invariant of the world\<close>

definition once_inv :: "(instruction_content \<Rightarrow> string) \<Rightarrow> 'b world \<Rightarrow> bool" where
  "once_inv digest w \<longleftrightarrow>
     ledger_inv (wd_ledger w) \<and> scheduled digest w \<and>
     distinct (map in_client_order_id (submissions (wd_trace w))) \<and>
     distinct (map (\<lambda>i. po_execution_session (in_proposed_order i)) (submissions (wd_trace w))) \<and>
     (\<forall>i \<in> set (submissions (wd_trace w)). claimed (wd_ledger w) i)"

lemma once_inv_ledger_step:
  assumes "once_inv digest w" "history_step digest w w'"
  shows "ledger_inv (wd_ledger w')" "scheduled digest w'"
    "\<forall>i. claimed (wd_ledger w) i \<longrightarrow> claimed (wd_ledger w') i"
proof -
  obtain ops where "list_all (admissible_op digest) ops" "wd_ledger w' = fold apply_op ops (wd_ledger w)"
    and "scheduled digest w'" using assms by (auto simp: once_inv_def history_step_def)
  then show "ledger_inv (wd_ledger w')" "scheduled digest w'"
    "\<forall>i. claimed (wd_ledger w) i \<longrightarrow> claimed (wd_ledger w') i"
    using assms(1) history.run_inv history_claimed by (auto simp: once_inv_def)
qed

lemma once_inv_quiet:
  assumes "once_inv digest w" "history_step digest w w'" "quiet_step w w'"
  shows "once_inv digest w'"
  using once_inv_ledger_step [OF assms(1,2)] assms(1,3) by (auto simp: once_inv_def quiet_step_def)

text \<open>The reservation inside a submission: the attempt was not there, and then it is.\<close>

lemma reservation_claims:
  assumes wf: "wf_instruction digest i" "wf_approval a" and inv: "ledger_inv (wd_ledger w)" "scheduled digest w"
    and res: "do_reserve_attempt i a ok now w = (Inr att, w')"
  shows "\<exists>l. (\<exists>ops. list_all (admissible_op digest) ops \<and> l = fold apply_op ops (wd_ledger w)) \<and>
     status_of l (in_client_order_id i) = None \<and>
     \<not> session_reserved l (po_execution_session (in_proposed_order i)) \<and> claimed (wd_ledger w') i"
proof -
  obtain others fault where t: "turn (wd_schedule w) = (others, fault)" by fastforce
  define l where "l = fold apply_op others (wd_ledger w)"
  note others = scheduled_turn(1) [OF inv(2) t]
  have l: "ledger_inv l" using history.run_inv [OF inv(1) others] by (simp add: l_def)
  have "insert_reservation i a ok now l = Inr (att, wd_ledger w')"
    using res by (auto simp: do_reserve_attempt_def write_repository_def t l_def [symmetric]
        reserve_attempt_def split: prod.splits simp: transaction_Inr_iff)
  note E = insert_reservationE [OF this l wf]
  have symbol: "po_symbol (in_proposed_order i) = SUPPORTED_SYMBOL" using wf(1) by (simp add: wf_instruction_def)
  have "claimed (wd_ledger w') i"
    using E(4,7) by (simp add: claimed_def session_reserved_def session_key_def row_of_reservation_def symbol)
  then show ?thesis
    using others E(3,5) l_def unfolding symbol session_reserved_taken by blast
qed

lemma preflight_claims:
  assumes wf: "wf_instruction digest i" "wf_approval a" and inv: "once_inv digest w"
    and pre: "preflight sv i a w = (Inr (account, clock, reserved), w1)"
  shows "claimed (wd_ledger w1) i" "\<not> claimed (wd_ledger w) i"
    "status_of (wd_ledger w) (in_client_order_id i) = None"
    "\<not> session_reserved (wd_ledger w) (po_execution_session (in_proposed_order i))"
proof -
  obtain d w0 where gates: "check_gates sv i a w = (Inr (account, clock, d), w0)"
    and res: "do_reserve_attempt i a (rd_approved d) (bk_timestamp clock) w0 = (Inr reserved, w1)"
    using pre by (auto simp: preflight_def abind_Inr_iff)
  have h: "history_step digest w w0" by (rule obeysD [OF history_check_gates gates])
  have w0: "ledger_inv (wd_ledger w0)" "scheduled digest w0"
    using once_inv_ledger_step [OF inv h] by simp_all
  obtain xs where xs: "list_all (admissible_op digest) xs" "wd_ledger w0 = fold apply_op xs (wd_ledger w)"
    using h inv by (auto simp: history_step_def once_inv_def)
  obtain ys where ys: "list_all (admissible_op digest) ys"
    and none: "status_of (fold apply_op ys (wd_ledger w0)) (in_client_order_id i) = None"
    and free: "\<not> session_reserved (fold apply_op ys (wd_ledger w0)) (po_execution_session (in_proposed_order i))"
    and claims: "claimed (wd_ledger w1) i"
    using reservation_claims [OF wf w0 res] by blast
  show "claimed (wd_ledger w1) i" by (rule claims)
  have all: "list_all (admissible_op digest) (xs @ ys)"
    "fold apply_op ys (wd_ledger w0) = fold apply_op (xs @ ys) (wd_ledger w)"
    using xs ys by simp_all
  have l: "ledger_inv (wd_ledger w)" using inv by (simp add: once_inv_def)
  show "status_of (wd_ledger w) (in_client_order_id i) = None"
    using history.run_known [OF l all(1)] none all(2) by metis
  then show "\<not> claimed (wd_ledger w) i" by (simp add: claimed_def)
  show "\<not> session_reserved (wd_ledger w) (po_execution_session (in_proposed_order i))"
    using history_session [OF l all(1)] free all(2) by metis
qed

lemma fresh_order_quiet_or_sent:
  assumes "submit_fresh_order sv i a account now reserved w = (r, w')"
  shows "quiet_step w w' \<or> (\<exists>obs. wd_trace w' = wd_trace w @ obs \<and> submissions obs = [i])"
  using assms
proof (cases rule: fresh_order_cases)
  case (sent w1 w2 k u)
  have "quiet_step w w2"
    using obeysD [OF quiet_refresh sent(1)] obeysD [OF quiet_final_gate sent(2)] by (rule quiet.trans)
  then show ?thesis
    using obeysD [OF submit_and_record_step sent(3)] unfolding quiet_step_def submit_step_def by force
qed simp

lemma once_inv_submit:
  assumes wf: "wf_instruction digest i" "wf_approval a" and inv: "once_inv digest w"
    and run: "submit_approved_order sv i a w = (r, w')"
  shows "once_inv digest w'"
proof -
  have h: "history_step digest w w'" by (rule obeysD [OF history_submit [OF wf] run])
  show ?thesis
    using run
  proof (cases rule: submit_cases)
    case quiet
    then show ?thesis by (rule once_inv_quiet [OF inv h])
  next
    case (sent account clock reserved w1 w2)
    note pre = preflight_claims [OF wf inv sent(1)]
    have w1: "ledger_inv (wd_ledger w1)" "scheduled digest w1"
      using once_inv_ledger_step [OF inv] obeysD [OF history_preflight [OF wf] sent(1)] by auto
    have rest: "history_step digest w1 w'"
      using ledger_history.trans obeysD [OF history_call sent(2)] obeysD [OF history_fresh sent(3)] by blast
    have kept: "claimed (wd_ledger w') i"
      using rest w1 pre(1) history_claimed by (auto simp: history_step_def)
    have "quiet_step w w2"
      using obeysD [OF quiet_preflight sent(1)] obeysD [OF quiet_calls(1) sent(2)] quiet.trans by simp blast
    then have "quiet_step w w' \<or> (\<exists>obs. wd_trace w' = wd_trace w @ obs \<and> submissions obs = [i])"
      using fresh_order_quiet_or_sent [OF sent(3)] quiet.trans [of w w2 w']
      by (auto simp: quiet_step_def)
    then show ?thesis
    proof
      assume "quiet_step w w'"
      then show ?thesis by (rule once_inv_quiet [OF inv h])
    next
      assume "\<exists>obs. wd_trace w' = wd_trace w @ obs \<and> submissions obs = [i]"
      then have "submissions (wd_trace w') = submissions (wd_trace w) @ [i]" by auto
      then show ?thesis
        using once_inv_ledger_step [OF inv h] inv kept pre(3,4)
        by (auto simp: once_inv_def claimed_def)
    qed
  qed
qed

lemma once_inv_perform:
  assumes "once_inv digest w" "valid_call digest c"
  shows "once_inv digest (perform sv c w)"
proof (cases c)
  case (Submit_call i a)
  then show ?thesis using assms once_inv_submit [of digest i a w sv]
    by (cases "submit_approved_order sv i a w") auto
next
  case (Reconcile_call cid now)
  obtain r w' where run: "reconcile_by_client_order_id sv cid now w = (r, w')" by fastforce
  have "once_inv digest w'"
    by (rule once_inv_quiet [OF assms(1) obeysD [OF history_reconcile run] obeysD [OF quiet_reconcile run]])
  then show ?thesis by (simp add: Reconcile_call run)
next
  case (Preview_call i a now)
  obtain r w' where run: "preview_submission sv i a now w = (r, w')" by fastforce
  have "once_inv digest w'"
    by (rule once_inv_quiet [OF assms(1) obeysD [OF history_preview run] obeysD [OF quiet_preview run]])
  then show ?thesis by (simp add: Preview_call run)
qed

lemma once_inv_run:
  "once_inv digest w \<Longrightarrow> list_all (valid_call digest) calls \<Longrightarrow> once_inv digest (fold (perform sv) calls w)"
  by (induction calls arbitrary: w) (auto intro: once_inv_perform)

text \<open>C2: whatever calls are made, in whatever order, with whatever broker, other writers of the ledger and database
  faults, no client order id and no execution session is ever submitted twice, and every submission
  has a stored attempt and a taken session.\<close>

theorem at_most_one_submission:
  assumes "ledger_inv (wd_ledger w)" and "scheduled digest w" and "wd_trace w = []"
    and "list_all (valid_call digest) calls"
  shows "let w' = fold (perform sv) calls w
     in distinct (map in_client_order_id (submissions (wd_trace w'))) \<and>
        distinct (map (\<lambda>i. po_execution_session (in_proposed_order i)) (submissions (wd_trace w'))) \<and>
        (\<forall>i \<in> set (submissions (wd_trace w')).
           status_of (wd_ledger w') (in_client_order_id i) \<noteq> None \<and>
           session_taken (wd_ledger w') (PyStr ''SPY'') (PyDate (po_execution_session (in_proposed_order i))))"
proof -
  have "once_inv digest w" using assms(1-3) by (simp add: once_inv_def)
  then have "once_inv digest (fold (perform sv) calls w)" by (rule once_inv_run) (rule assms(4))
  then show ?thesis
    using session_reserved_taken
    by (auto simp: once_inv_def claimed_def Let_def SUPPORTED_SYMBOL_def)
qed

end
