(* ===== verification/Exec_Outcome.thy ===== *)
theory Exec_Outcome
  imports Exec_Once Exec_Ledger_Properties
begin

text \<open>
  What a submission leaves behind when no other process writes to the ledger, under any database faults: the status of
  the attempt agrees with what the broker answered, and an order that may be live stays open or accepted.
\<close>

section \<open>One attempt in a world without interference\<close>

definition solo :: "'b world \<Rightarrow> bool" where
  "solo w \<longleftrightarrow> list_all (\<lambda>t. fst t = []) (wd_schedule w)"

definition database_may_vanish :: "'b world \<Rightarrow> bool" where
  "database_may_vanish w \<longleftrightarrow> list_ex (\<lambda>t. snd t = Database_missing) (wd_schedule w)"

definition attempt_status_in :: "'b world \<Rightarrow> string \<Rightarrow> attempt_state option" where
  "attempt_status_in w c = status_of (wd_ledger w) c"

text \<open>The status of one attempt is kept, or it becomes one of a set.\<close>

definition settle_step :: "string \<Rightarrow> attempt_state set \<Rightarrow> 'b world \<Rightarrow> 'b world \<Rightarrow> bool" where
  "settle_step c S w w' \<longleftrightarrow>
     (solo w \<and> ledger_inv (wd_ledger w) \<longrightarrow>
        solo w' \<and> ledger_inv (wd_ledger w') \<and> (database_may_vanish w' \<longrightarrow> database_may_vanish w) \<and>
        (attempt_status_in w' c = attempt_status_in w c \<or> attempt_status_in w' c \<in> Some ` S))"

interpretation settle: world_relation "settle_step c S" for c S
proof unfold_locales
  fix w w1 w2 :: "'b world"
  show "settle_step c S w w" by (simp add: settle_step_def)
  show "settle_step c S w w1 \<Longrightarrow> settle_step c S w1 w2 \<Longrightarrow> settle_step c S w w2"
    unfolding settle_step_def by metis
qed

lemma solo_turn:
  assumes "solo w"
  obtains fault where "turn (wd_schedule w) = ([], fault)"
    "fault = Database_missing \<longrightarrow> database_may_vanish w"
  using assms by (cases "wd_schedule w") (auto simp: solo_def turn_def database_may_vanish_def)

lemma solo_tl:
  assumes "solo w" "wd_schedule w' = tl (wd_schedule w)"
  shows "solo w'" "database_may_vanish w' \<longrightarrow> database_may_vanish w"
  using assms by (cases "wd_schedule w"; auto simp: solo_def database_may_vanish_def)+

lemma settle_write:
  assumes "\<And>fault l m l'. ledger_inv l \<Longrightarrow> f fault l = (m, l') \<Longrightarrow>
      l' = l \<or> (\<exists>a. pa_attempt_status a \<in> S \<and> updated_attempt l c a l')"
  shows "obeys (settle_step c S) (write_repository f seen)"
proof (rule obeysI)
  fix w r w' assume run: "write_repository f seen w = (r, w')"
  show "settle_step c S w w'"
    unfolding settle_step_def
  proof
    assume good: "solo w \<and> ledger_inv (wd_ledger w)"
    then obtain fault where t: "turn (wd_schedule w) = ([], fault)" using solo_turn by blast
    have s: "wd_schedule w' = tl (wd_schedule w)" and "f fault (wd_ledger w) = (r, wd_ledger w')"
      using run by (auto simp: write_repository_def t split: prod.splits)
    from assms [OF _ this(2)] good
    have "wd_ledger w' = wd_ledger w \<or> (\<exists>a. pa_attempt_status a \<in> S \<and>
        updated_attempt (wd_ledger w) c a (wd_ledger w'))" by blast
    then show "solo w' \<and> ledger_inv (wd_ledger w') \<and> (database_may_vanish w' \<longrightarrow> database_may_vanish w) \<and>
        (attempt_status_in w' c = attempt_status_in w c \<or> attempt_status_in w' c \<in> Some ` S)"
      using good solo_tl [OF _ s] by (auto simp: attempt_status_in_def updated_attempt_def)
  qed
qed

lemma settle_marks:
  "obeys (settle_step c {st}) (do_mark_failure c s st code now ty)"
  "obeys (settle_step c {PAPER_ATTEMPT_SUBMISSION_UNKNOWN}) (do_mark_submission_unknown c s code now ty)"
  unfolding do_mark_failure_def do_mark_submission_unknown_def
  by (rule settle_write, use mark_failure_cases in fastforce)
     (rule settle_write, use mark_submission_unknown_cases in fastforce)

lemma settle_same:
  assumes "wd_ledger w' = wd_ledger w" "wd_schedule w' = wd_schedule w"
  shows "settle_step c S w w'"
  using assms by (simp add: settle_step_def solo_def database_may_vanish_def attempt_status_in_def)

section \<open>Failures after the submission\<close>

text \<open>The error a write reports is a paper-execution error, unless the database vanished.\<close>

definition fails_safely :: "('a, 'b world) action \<Rightarrow> bool" where
  "fails_safely m \<longleftrightarrow> (\<forall>w e w'. solo w \<longrightarrow> ledger_inv (wd_ledger w) \<longrightarrow> m w = (Inl e, w') \<longrightarrow>
     is_paper_execution_error e \<or> database_may_vanish w)"

lemma fails_safelyD:
  "fails_safely m \<Longrightarrow> solo w \<Longrightarrow> ledger_inv (wd_ledger w) \<Longrightarrow> m w = (Inl e, w') \<Longrightarrow>
     is_paper_execution_error e \<or> database_may_vanish w"
  by (auto simp: fails_safely_def)

lemma fails_safely_write:
  assumes "\<And>fault l e l'. ledger_inv l \<Longrightarrow> f fault l = (Inl e, l') \<Longrightarrow>
      is_paper_execution_error e \<or> fault = Database_missing"
  shows "fails_safely (write_repository f seen)"
  unfolding fails_safely_def
proof (intro allI impI)
  fix w e w'
  assume good: "solo w" "ledger_inv (wd_ledger w)" and run: "write_repository f seen w = (Inl e, w')"
  obtain fault where t: "turn (wd_schedule w) = ([], fault)"
    "fault = Database_missing \<longrightarrow> database_may_vanish w" using solo_turn [OF good(1)] .
  have "f fault (wd_ledger w) = (Inl e, wd_ledger w')"
    using run by (auto simp: write_repository_def t split: prod.splits)
  from assms [OF good(2) this] t(2) show "is_paper_execution_error e \<or> database_may_vanish w" by blast
qed

lemma fails_safely_marks:
  "fails_safely (do_mark_failure c s st code now ty)"
  "fails_safely (do_mark_submission_unknown c s code now ty)"
  unfolding do_mark_failure_def do_mark_submission_unknown_def
  by (rule fails_safely_write, use mark_failure_error in blast)
     (rule fails_safely_write, use mark_submission_unknown_error in blast)

lemma fails_safely_then_raise:
  assumes "fails_safely m" "is_paper_execution_error e"
  shows "fails_safely (abind m (\<lambda>_. araise e))"
  using assms by (auto simp: fails_safely_def elim!: abindE)

section \<open>The outcome of the last step\<close>

text \<open>The status a failed submission is to be given.\<close>

fun failure_status :: "exn + broker_order \<Rightarrow> attempt_state" where
  "failure_status (Inl (PaperExecutionBrokerRequestError code)) = PAPER_ATTEMPT_BLOCKED"
| "failure_status (Inl (PaperExecutionBrokerRejectionError code)) = PAPER_ATTEMPT_REJECTED"
| "failure_status _ = PAPER_ATTEMPT_SUBMISSION_UNKNOWN"

lemma submission_failed_settles:
  "obeys (settle_step (in_client_order_id i) {failure_status (Inl e)}) (submission_failed i now e)"
  unfolding submission_failed_def
  by (cases e) (simp_all, (intro settle.obeys_intros settle_marks)+)

lemma submission_failed_safe: "fails_safely (submission_failed i now e)"
  unfolding submission_failed_def
  by (cases e) (simp_all, (intro fails_safely_then_raise fails_safely_marks; simp)+)

lemma submission_failed_raises: "submission_failed i now e w \<noteq> (Inr x, w')"
  unfolding submission_failed_def by (cases e) (auto simp: abind_Inr_iff)

lemma best_effort_settles:
  "obeys (settle_step c {PAPER_ATTEMPT_SUBMISSION_UNKNOWN}) (mark_submission_unknown_best_effort c s now code)"
  unfolding mark_submission_unknown_best_effort_def by (intro settle.obeys_suppress settle_marks)

lemma best_effort_safe: "fails_safely (mark_submission_unknown_best_effort c s now code)"
  by (auto simp: mark_submission_unknown_best_effort_def suppress_paper_error_def fails_safely_def
      elim!: acatchE abindE dest: fails_safelyD [OF fails_safely_marks(2)])

text \<open>The receipt of a broker order that matches the attempt.\<close>

definition receipt_of :: "broker_order \<Rightarrow> attempt \<Rightarrow> string \<Rightarrow> receipt" where
  "receipt_of s a reconciliation_status =
     \<lparr>re_signal_id = pa_signal_id a, re_client_order_id = bd_client_order_id s,
      re_instruction_fingerprint = pa_instruction_fingerprint a,
      re_broker_order_id = bd_broker_order_id s, re_broker_order_status = bd_broker_order_status s,
      re_symbol = bd_symbol s, re_side = bd_side s, re_submitted_quantity = bd_submitted_quantity s,
      re_filled_quantity = bd_filled_quantity s, re_order_type = bd_order_type s,
      re_time_in_force = bd_time_in_force s, re_extended_hours = bd_extended_hours s,
      re_submitted_at_utc = bd_submitted_at_utc s,
      re_broker_response_at_utc = bd_broker_response_at_utc s,
      re_sanitized_request_id = bd_sanitized_request_id s,
      re_execution_environment = bd_execution_environment s,
      re_reconciliation_status = reconciliation_status\<rparr>"

lemma receipt_from_broker_snapshot_eq:
  "receipt_from_broker_snapshot s a st =
     rbind (validate_broker_snapshot_against_attempt s a) (\<lambda>_. mk_receipt (receipt_obj (receipt_of s a st)))"
  by (simp add: receipt_from_broker_snapshot_def receipt_obj_def receipt_of_def)

definition snapshot_matches :: "broker_order \<Rightarrow> attempt \<Rightarrow> bool" where
  "snapshot_matches s a \<longleftrightarrow>
     bd_client_order_id s = pa_client_order_id a \<and> bd_symbol s = SUPPORTED_SYMBOL \<and>
     bd_side s = pa_side a \<and> bd_submitted_quantity s = pa_quantity a \<and>
     bd_order_type s = ''market'' \<and> bd_time_in_force s = ''day'' \<and> \<not> bd_extended_hours s \<and>
     bd_execution_environment s = ''alpaca_paper''"

lemma validate_snapshot_Inr:
  "validate_broker_snapshot_against_attempt s a = Inr u \<longleftrightarrow> snapshot_matches s a"
  by (auto simp: validate_broker_snapshot_against_attempt_def snapshot_matches_def)

lemma receipt_of_snapshot:
  assumes "receipt_from_broker_snapshot s a status = Inr r"
  shows "r = receipt_of s a status" "snapshot_matches s a" "wf_receipt r"
    "re_client_order_id r = pa_client_order_id a"
proof -
  have v: "snapshot_matches s a" and r: "mk_receipt (receipt_obj (receipt_of s a status)) = Inr r"
    using assms by (auto simp: receipt_from_broker_snapshot_eq validate_snapshot_Inr elim!: rbind_InrE)
  show "r = receipt_of s a status" by (rule mk_receipt_same [OF r])
  then show "wf_receipt r" "re_client_order_id r = pa_client_order_id a"
    using r v by (simp_all add: wf_receipt_def snapshot_matches_def receipt_of_def)
  show "snapshot_matches s a" by (rule v)
qed

lemma recorded_receipt_solo:
  assumes good: "solo w" "ledger_inv (wd_ledger w)"
    and run: "do_record_receipt r st account now ty w = (m, w')"
  shows "settle_step (re_client_order_id r) {st} w w'"
    "case m of Inl e \<Rightarrow> wd_ledger w' = wd_ledger w
     | Inr a \<Rightarrow> attempt_status_in w' (re_client_order_id r) = Some st"
proof -
  obtain fault where t: "turn (wd_schedule w) = ([], fault)" using solo_turn [OF good(1)] .
  have "record_receipt fault r st account now ty (wd_ledger w) = (m, wd_ledger w')"
    using run by (auto simp: do_record_receipt_def write_repository_def t split: prod.splits)
  note cases = record_receipt_cases [OF good(2) this]
  then show "case m of Inl e \<Rightarrow> wd_ledger w' = wd_ledger w
     | Inr a \<Rightarrow> attempt_status_in w' (re_client_order_id r) = Some st"
    by (auto simp: attempt_status_in_def updated_attempt_def attempt_with_receipt_def)
  have "obeys (settle_step (re_client_order_id r) {st}) (do_record_receipt r st account now ty)"
    unfolding do_record_receipt_def
  proof (rule settle_write)
    fix fault l m l'
    assume "ledger_inv l" "record_receipt fault r st account now ty l = (m, l')"
    from record_receipt_cases [OF this]
    show "l' = l \<or> (\<exists>a. pa_attempt_status a \<in> {st} \<and> updated_attempt l (re_client_order_id r) a l')"
      by (auto simp: attempt_with_receipt_def)
  qed
  then show "settle_step (re_client_order_id r) {st} w w'" using run by (rule obeysD)
qed

lemma fails_safely_record: "fails_safely (do_record_receipt r st account now ty)"
  unfolding do_record_receipt_def
proof (rule fails_safely_write)
  fix fault l e l'
  assume "record_receipt fault r st account now ty l = (Inl e, l')"
  then show "is_paper_execution_error e \<or> fault = Database_missing"
    unfolding record_receipt_def
    by (rule transaction_error) (auto elim: write_receipt_paper_error)
qed

lemma abind_raising:
  fixes f :: "'a \<Rightarrow> ('c, 'w) action"
  shows "abind (abind m (\<lambda>_. araise e)) f w = (r, w') \<longleftrightarrow>
     (\<exists>e'. r = Inl e' \<and> abind m (\<lambda>_. araise e :: ('a, 'w) action) w = (Inl e', w'))"
  by (cases "m w"; cases "fst (m w)") (auto simp: abind_def araise_def)

text \<open>Recording a receipt with the best-effort mark behind it.\<close>

lemma recorded_or_unknown:
  fixes w :: "'b world"
  assumes good: "solo w" "ledger_inv (wd_ledger w)" and c: "re_client_order_id receipt = c"
    and paper: "is_paper_execution_error failure"
    and run: "abind (acatch (do_record_receipt receipt st account now ty) is_exception (\<lambda>_.
        abind (mark_submission_unknown_best_effort c sig now code) (\<lambda>_. araise failure)))
      (\<lambda>_. areturn x) w = (r, w')"
  shows "case r of
      Inr y \<Rightarrow> attempt_status_in w' c = Some st \<and> y = x
    | Inl e \<Rightarrow> settle_step c {PAPER_ATTEMPT_SUBMISSION_UNKNOWN} w w' \<and>
        (is_paper_execution_error e \<or> database_may_vanish w)"
proof -
  obtain m w1 where m: "do_record_receipt receipt st account now ty w = (m, w1)" by fastforce
  note written = recorded_receipt_solo [OF good m, unfolded c]
  show ?thesis
  proof (cases m)
    case (Inr a)
    then show ?thesis using run m written(2) by (auto simp: abind_def acatch_def)
  next
    case (Inl e)
    have same: "wd_ledger w1 = wd_ledger w" using written(2) Inl by simp
    have w1: "solo w1" "database_may_vanish w1 \<longrightarrow> database_may_vanish w"
      using written(1) good by (auto simp: settle_step_def)
    have kept: "settle_step c {PAPER_ATTEMPT_SUBMISSION_UNKNOWN} w w1"
      using same w1 good by (simp add: settle_step_def attempt_status_in_def)
    show ?thesis
    proof (cases "is_exception e")
      case False
      then have "r = Inl e \<and> w' = w1" using run m Inl by (auto simp: abind_def acatch_def)
      then show ?thesis
        using kept fails_safelyD [OF fails_safely_record good m [unfolded Inl]] by simp
    next
      case True
      let ?h = "abind (mark_submission_unknown_best_effort c sig now code) (\<lambda>_. araise failure)
        :: (attempt, 'b world) action"
      have "abind ?h (\<lambda>_. areturn x) w1 = (r, w')"
        using run m Inl True by (simp add: abind_def [of "acatch _ _ _"] abind_def [of ?h] acatch_def)
      then obtain e' where r: "r = Inl e'" and h: "?h w1 = (Inl e', w')"
        unfolding abind_raising by blast
      have "settle_step c {PAPER_ATTEMPT_SUBMISSION_UNKNOWN} w1 w'"
        by (rule obeysD [where m = ?h, OF _ h]) (intro settle.obeys_intros best_effort_settles)
      moreover have "is_paper_execution_error e' \<or> database_may_vanish w1"
        by (rule fails_safelyD [where m = ?h, OF _ w1(1) _ h])
           (simp_all add: same good fails_safely_then_raise best_effort_safe paper)
      ultimately show ?thesis using r w1(2) settle.trans [OF kept] by auto
    qed
  qed
qed

lemma record_accepted_outcome:
  assumes good: "solo w" "ledger_inv (wd_ledger w)" and client: "pa_client_order_id reserved = in_client_order_id i"
    and run: "record_accepted i account now reserved snapshot w = (r, w')"
  shows "case r of
      Inr receipt \<Rightarrow> attempt_status_in w' (in_client_order_id i) = Some PAPER_ATTEMPT_ACCEPTED \<and>
        receipt = receipt_of snapshot reserved ''broker_verified'' \<and> snapshot_matches snapshot reserved
    | Inl e \<Rightarrow> settle_step (in_client_order_id i) {PAPER_ATTEMPT_SUBMISSION_UNKNOWN} w w' \<and>
        (is_paper_execution_error e \<or> database_may_vanish w)"
proof (cases "receipt_from_broker_snapshot snapshot reserved ''broker_verified''")
  case (Inl e)
  let ?mark = "abind (do_mark_submission_unknown (in_client_order_id i) (in_signal_id i)
       ''broker_snapshot_mismatch'' now ''submission_unknown'') (\<lambda>_.
     araise (PaperExecutionSubmissionUnknownError ''broker_snapshot_mismatch'')) :: (receipt, 'a world) action"
  obtain e' where r: "r = Inl e'" "?mark w = (Inl e', w')"
    using run unfolding record_accepted_def
    by (auto simp: acatch_def alift_def Inl elim!: abindE)
  have "settle_step (in_client_order_id i) {PAPER_ATTEMPT_SUBMISSION_UNKNOWN} w w'"
    by (rule obeysD [where m = ?mark, OF _ r(2)]) (intro settle.obeys_intros settle_marks)
  moreover have "is_paper_execution_error e' \<or> database_may_vanish w"
    by (rule fails_safelyD [where m = ?mark, OF _ good r(2)])
       (simp add: fails_safely_then_raise fails_safely_marks(2))
  ultimately show ?thesis by (simp add: r)
next
  case (Inr receipt)
  note rc = receipt_of_snapshot [OF Inr]
  have "abind (acatch (do_record_receipt receipt PAPER_ATTEMPT_ACCEPTED
          (Some (ba_account_id_fingerprint account)) now ''broker_order_accepted'') is_exception (\<lambda>_.
        abind (mark_submission_unknown_best_effort (in_client_order_id i) (in_signal_id i) now
                 ''accepted_receipt_persistence_failed'') (\<lambda>_.
        araise (PaperExecutionSubmissionUnknownError ''accepted_receipt_persistence_failed''))))
      (\<lambda>_. areturn receipt) w = (r, w')"
    using run unfolding record_accepted_def by (simp add: Inr abind_def [of "acatch (alift _) _ _"] acatch_def [of "alift _"] alift_def)
  from recorded_or_unknown [OF good _ _ this] rc client show ?thesis
    by (cases r) auto
qed

section \<open>The outcome of a submission\<close>

definition solo_step :: "'b world \<Rightarrow> 'b world \<Rightarrow> bool" where
  "solo_step w w' \<longleftrightarrow> (solo w \<longrightarrow> solo w' \<and> (database_may_vanish w' \<longrightarrow> database_may_vanish w))"

interpretation solo: world_relation solo_step
  by unfold_locales (auto simp: solo_step_def)

lemma solo_schedule:
  "wd_schedule w' = wd_schedule w \<or> wd_schedule w' = tl (wd_schedule w) \<Longrightarrow> solo_step w w'"
  using solo_tl [of w w'] by (auto simp: solo_step_def solo_def database_may_vanish_def)

lemma solo_calls:
  "obeys solo_step (call_broker f seen)" "obeys solo_step (write_repository g seen')"
  "obeys solo_step (read_repository h seen'')"
  by (rule obeysI, rule solo_schedule,
      auto simp: call_broker_def write_repository_def read_repository_def Let_def split: prod.splits)+

lemma solo_check_gates: "obeys solo_step (check_gates sv i a)"
  unfolding check_gates_def read_kill_switch_def by (intro solo.obeys_intros solo_calls)

lemma solo_preflight: "obeys solo_step (preflight sv i a)"
  unfolding preflight_def do_reserve_attempt_def
  by (intro solo.obeys_intros solo_calls solo_check_gates)

lemma solo_scheduled: "solo w \<Longrightarrow> scheduled digest w"
  by (auto simp: solo_def scheduled_def list_all_iff)

lemma preflight_reserves:
  assumes wf: "wf_instruction digest i" "wf_approval a" and good: "solo w" "ledger_inv (wd_ledger w)"
    and pre: "preflight sv i a w = (Inr (account, clock, reserved), w1)"
  shows "solo w1" "ledger_inv (wd_ledger w1)" "database_may_vanish w1 \<longrightarrow> database_may_vanish w"
    "attempt_status_in w1 (in_client_order_id i) = Some PAPER_ATTEMPT_RESERVED"
    "reserved = attempt_of_reservation i a True (bk_timestamp clock)"
proof -
  show "solo w1" "database_may_vanish w1 \<longrightarrow> database_may_vanish w"
    using obeysD [OF solo_preflight pre] good(1) by (auto simp: solo_step_def)
  have "history_step digest w w1" by (rule obeysD [OF history_preflight [OF wf] pre])
  then show "ledger_inv (wd_ledger w1)"
    using solo_scheduled [OF good(1)] good(2) history.run_inv by (auto simp: history_step_def)
  obtain d w0 where gates: "check_gates sv i a w = (Inr (account, clock, d), w0)"
    and res: "do_reserve_attempt i a (rd_approved d) (bk_timestamp clock) w0 = (Inr reserved, w1)"
    using pre by (auto simp: preflight_def abind_Inr_iff)
  have d: "rd_approved d" using gates by (auto simp: check_gates_def abind_Inr_iff)
  have w0: "solo w0" using obeysD [OF solo_check_gates gates] good(1) by (auto simp: solo_step_def)
  have "history_step digest w w0" by (rule obeysD [OF history_check_gates gates])
  then have inv: "ledger_inv (wd_ledger w0)"
    using solo_scheduled [OF good(1)] good(2) history.run_inv by (auto simp: history_step_def)
  obtain fault where t: "turn (wd_schedule w0) = ([], fault)" using solo_turn [OF w0] .
  have "insert_reservation i a True (bk_timestamp clock) (wd_ledger w0) = Inr (reserved, wd_ledger w1)"
    using res d by (auto simp: do_reserve_attempt_def write_repository_def t reserve_attempt_def
        split: prod.splits simp: transaction_Inr_iff)
  note E = insert_reservationE [OF this inv wf]
  show "attempt_status_in w1 (in_client_order_id i) = Some PAPER_ATTEMPT_RESERVED"
    using E(4) by (simp add: attempt_status_in_def)
  show "reserved = attempt_of_reservation i a True (bk_timestamp clock)" by (rule E(2))
qed

text \<open>The last gates leave the ledger alone when they pass.\<close>

definition same_ledger :: "'b world \<Rightarrow> 'b world \<Rightarrow> bool" where
  "same_ledger w w' \<longleftrightarrow> solo w' \<and> (database_may_vanish w' \<longrightarrow> database_may_vanish w) \<and>
     wd_ledger w' = wd_ledger w"

lemma gates_keep_ledger:
  "solo w \<Longrightarrow> call_broker f seen w = (r, w') \<Longrightarrow> same_ledger w w'"
  "solo w \<Longrightarrow> refresh_pre_submission_clock sv i a now w = (Inr k, w') \<Longrightarrow> same_ledger w w'"
  "solo w \<Longrightarrow> assert_final_kill_switch_gate i now w = (Inr u, w') \<Longrightarrow> same_ledger w w'"
proof -
  have call: "same_ledger w w'" if "solo w" "call_broker f seen w = (r, w')" for f seen r and w w' :: "'a world"
    using that by (auto simp: call_broker_def same_ledger_def solo_def database_may_vanish_def split: prod.splits)
  show "solo w \<Longrightarrow> call_broker f seen w = (r, w') \<Longrightarrow> same_ledger w w'" by (rule call)
  show "solo w \<Longrightarrow> refresh_pre_submission_clock sv i a now w = (Inr k, w') \<Longrightarrow> same_ledger w w'"
    unfolding refresh_pre_submission_clock_def
    by (auto simp: abind_Inr_iff acatch_Inr_iff dest: call split: if_splits)
  assume "solo w" and gate: "assert_final_kill_switch_gate i now w = (Inr u, w')"
  then obtain control where "read_kill_switch w = (Inr control, w')"
    unfolding assert_final_kill_switch_gate_def
    by (auto simp: abind_Inr_iff acatch_Inr_iff split: if_splits)
  moreover obtain fault where "turn (wd_schedule w) = ([], fault)" using solo_turn [OF \<open>solo w\<close>] .
  ultimately show "same_ledger w w'"
    using \<open>solo w\<close> solo_tl [of w w']
    by (auto simp: read_kill_switch_def read_repository_def Let_def same_ledger_def)
qed

lemma submit_and_record_outcome:
  fixes w :: "'b world"
  assumes good: "solo w" "ledger_inv (wd_ledger w)" and client: "pa_client_order_id reserved = in_client_order_id i"
    and run: "submit_and_record sv i account now reserved w = (r, w')"
  shows "\<exists>m rest. wd_trace w' = wd_trace w @ Submitted i m # rest \<and> submissions rest = [] \<and>
    (case r of
       Inr receipt \<Rightarrow> attempt_status_in w' (in_client_order_id i) = Some PAPER_ATTEMPT_ACCEPTED \<and>
         (\<exists>snapshot. m = Inr snapshot \<and> snapshot_matches snapshot reserved \<and>
            receipt = receipt_of snapshot reserved ''broker_verified'')
     | Inl e \<Rightarrow> settle_step (in_client_order_id i) {failure_status m} w w' \<and>
         (is_paper_execution_error e \<or> database_may_vanish w))"
proof -
  let ?c = "in_client_order_id i"
  obtain m w1 where m: "submit_to_broker (sv_broker sv) i w = (m, w1)" by fastforce
  have w1: "wd_trace w1 = wd_trace w @ [Submitted i m]" "wd_ledger w1 = wd_ledger w"
    "wd_schedule w1 = wd_schedule w"
    using m by (auto simp: submit_to_broker_def call_broker_def split: prod.splits)
  have good1: "solo w1" "ledger_inv (wd_ledger w1)" "database_may_vanish w1 = database_may_vanish w"
    using good w1 by (simp_all add: solo_def database_may_vanish_def)
  have first: "settle_step ?c S w w1" for S by (rule settle_same [OF w1(2,3)])
  show ?thesis
  proof (cases m)
    case (Inl e)
    let ?failed = "submission_failed i now e :: (broker_order, 'b world) action"
    obtain e' w2 where "?failed w1 = (Inl e', w2)"
      using submission_failed_raises [of i now e w1] by (metis sum.exhaust surj_pair)
    then have r: "r = Inl e'" "?failed w1 = (Inl e', w')"
      using run m Inl unfolding submit_and_record_def by (auto simp: abind_def acatch_def)
    have "quiet_step w1 w'" by (rule obeysD [OF quiet_submission_failed r(2)])
    then show ?thesis
      using w1(1) settle.trans [OF first obeysD [OF submission_failed_settles r(2)]]
        fails_safelyD [OF submission_failed_safe good1(1,2) r(2)] good1(3) Inl r(1)
      by (auto simp: quiet_step_def)
  next
    case (Inr snapshot)
    have run1: "record_accepted i account now reserved snapshot w1 = (r, w')"
      using run m Inr unfolding submit_and_record_def
      by (simp add: abind_def [of "acatch _ _ _"] acatch_def)
    have "quiet_step w1 w'" by (rule obeysD [OF quiet_record_accepted run1])
    then show ?thesis
      using w1(1) record_accepted_outcome [OF good1(1,2) client run1] good1(3) Inr
        settle.trans [OF first [of "{PAPER_ATTEMPT_SUBMISSION_UNKNOWN}"]]
      by (cases r) (auto simp: quiet_step_def)
  qed
qed


end
