(* ===== verification/Exec_Reconcile.thy ===== *)
theory Exec_Reconcile
  imports Exec_Outcome
begin

text \<open>
  The reconciliation of an attempt and the preview of a submission: neither submits, and what each
  answers is the state of the ledger and of the broker.
\<close>

section \<open>Reconciliation\<close>

lemma read_solo:
  assumes "solo w" "read_repository f seen w = (m, w')"
  shows "same_ledger w w'" "\<exists>fault. m = f fault (wd_ledger w) \<and>
     (fault = Database_missing \<longrightarrow> database_may_vanish w)"
proof -
  obtain fault where t: "turn (wd_schedule w) = ([], fault)"
    "fault = Database_missing \<longrightarrow> database_may_vanish w" using solo_turn [OF assms(1)] .
  show "same_ledger w w'"
    using assms t(1) solo_tl [of w w'] by (auto simp: read_repository_def Let_def same_ledger_def)
  show "\<exists>fault. m = f fault (wd_ledger w) \<and> (fault = Database_missing \<longrightarrow> database_may_vanish w)"
    using assms(2) t by (auto simp: read_repository_def Let_def)
qed

lemma get_attempt_returned:
  assumes "ledger_inv l" "get_attempt fault c l = Inr a"
  shows "c = PyStr (pa_client_order_id a)" "get_attempt_from_connection l (pa_client_order_id a) = Inr a"
proof -
  obtain s where s: "c = PyStr s" "get_attempt_from_connection l s = Inr a"
    using assms(2) by (auto simp: get_attempt_def read_only_def elim!: rbind_InrE split: if_splits)
  have "pa_client_order_id a = s"
    using s(2) get_attempt_Inr [OF assms(1)] by auto
  then show "c = PyStr (pa_client_order_id a)" "get_attempt_from_connection l (pa_client_order_id a) = Inr a"
    using s by simp_all
qed

lemma same_ledger_settles: "same_ledger w w' \<Longrightarrow> settle_step c S w w'"
  by (simp add: same_ledger_def settle_step_def attempt_status_in_def)

text \<open>What a reconciliation may answer for an attempt.\<close>

definition reconciled_with ::
  "attempt \<Rightarrow> exn + receipt option \<Rightarrow> broker_order option \<Rightarrow> attempt_state option \<Rightarrow> attempt_state option \<Rightarrow> bool" where
  "reconciled_with a r found before after \<longleftrightarrow>
     (case r of
        Inr None \<Rightarrow> found = None \<and> after = before
      | Inr (Some receipt) \<Rightarrow> (\<exists>s. found = Some s \<and> snapshot_matches s a \<and>
          receipt = receipt_of s a ''broker_reconciled'') \<and> after = Some PAPER_ATTEMPT_RECONCILED
      | Inl e \<Rightarrow> after = before \<or> after = Some PAPER_ATTEMPT_SUBMISSION_UNKNOWN)"

lemma reconcile_found:
  fixes w :: "'b world"
  assumes good: "solo w" "ledger_inv (wd_ledger w)"
    and run: "reconcile_with_order a now order w = (r, w')"
  shows "reconciled_with a r (Some order) (attempt_status_in w (pa_client_order_id a))
     (attempt_status_in w' (pa_client_order_id a))"
proof (cases "receipt_from_broker_snapshot order a ''broker_reconciled''")
  case (Inl e)
  let ?mark = "abind (do_mark_submission_unknown (pa_client_order_id a) (pa_signal_id a)
       ''broker_order_mismatch'' now ''broker_order_mismatch'') (\<lambda>_.
     araise (PaperExecutionSubmissionUnknownError ''broker_order_mismatch'')) :: (receipt, 'b world) action"
  obtain e' where r: "r = Inl e'" "?mark w = (Inl e', w') \<or> w' = w"
    using run unfolding reconcile_with_order_def
    by (auto simp: acatch_def alift_def Inl elim!: abindE split: if_splits)
  have "settle_step (pa_client_order_id a) {PAPER_ATTEMPT_SUBMISSION_UNKNOWN} w w'"
    using r(2)
  proof
    assume "?mark w = (Inl e', w')"
    then show ?thesis
      by (rule obeysD [where m = ?mark, rotated]) (intro settle.obeys_intros settle_marks)
  qed (simp add: settle.refl)
  then show ?thesis using good by (auto simp: reconciled_with_def r(1) settle_step_def)
next
  case (Inr receipt)
  note rc = receipt_of_snapshot [OF Inr]
  have "abind (acatch (do_record_receipt receipt PAPER_ATTEMPT_RECONCILED None now
          ''broker_order_reconciled'') is_exception (\<lambda>_.
        abind (mark_submission_unknown_best_effort (pa_client_order_id a) (pa_signal_id a) now
                 ''reconciliation_receipt_persistence_failed'') (\<lambda>_.
        araise (PaperExecutionSubmissionUnknownError ''reconciliation_receipt_persistence_failed''))))
      (\<lambda>_. areturn (Some receipt)) w = (r, w')"
    using run unfolding reconcile_with_order_def
    by (simp add: Inr abind_def [of "acatch (alift _) _ _"] acatch_def [of "alift _"] alift_def)
  from recorded_or_unknown [OF good _ _ this] rc show ?thesis
    using good by (cases r) (auto simp: reconciled_with_def settle_step_def)
qed

definition eligible :: "ledger \<Rightarrow> pyval \<Rightarrow> attempt \<Rightarrow> bool" where
  "eligible l c a \<longleftrightarrow> c = PyStr (pa_client_order_id a) \<and>
     get_attempt_from_connection l (pa_client_order_id a) = Inr a \<and>
     pa_attempt_status a \<in> {PAPER_ATTEMPT_RESERVED, PAPER_ATTEMPT_SUBMISSION_UNKNOWN}"

lemma get_attempt_eligible:
  assumes "ledger_inv l" "eligible l c a"
  shows "get_attempt No_fault c l = Inr a"
proof -
  have "is_run_id (pa_client_order_id a)"
    using assms attempt_columns(8) get_attempt_Inr [OF assms(1)]
    by (auto simp: eligible_def)
  then have "require_execution_id ''client_order_id'' c = Inr (pa_client_order_id a)"
    using assms(2) by (simp add: eligible_def)
  then show ?thesis using assms(2)
    by (simp add: get_attempt_def read_only_def connect_def eligible_def del: exec_validators_Inr)
qed

lemma reconcile_eligible:
  fixes w :: "'b world"
  assumes good: "solo w" "ledger_inv (wd_ledger w)" and run: "reconcile_by_client_order_id sv c now w = (r, w')"
    and m: "read_attempt_of c w = (Inr a, w1)"
    and a: "eligible (wd_ledger w) c a"
  shows "case br_get_order_by_client_order_id (sv_broker sv) (pa_client_order_id a) (wd_broker w) of
      (Inl e, b) \<Rightarrow> r = Inl e \<and> wd_ledger w' = wd_ledger w
    | (Inr found, b) \<Rightarrow> reconciled_with a r found (status_of (wd_ledger w) (pa_client_order_id a))
        (status_of (wd_ledger w') (pa_client_order_id a))"
proof -
  let ?c = "pa_client_order_id a"
  obtain found b where found: "br_get_order_by_client_order_id (sv_broker sv) ?c (wd_broker w) = (found, b)"
    by fastforce
  have same: "same_ledger w w1" by (rule read_solo(1) [OF good(1) m [unfolded read_attempt_of_def]])
  have w1: "wd_broker w1 = wd_broker w" using m by (auto simp: read_attempt_of_def read_repository_def Let_def split: prod.splits)
  define w2 where "w2 = w1\<lparr>wd_broker := b, wd_trace := wd_trace w1 @ returned Saw_order found\<rparr>"
  have call: "call_broker (br_get_order_by_client_order_id (sv_broker sv) ?c) (returned Saw_order) w1
      = (found, w2)" by (simp add: call_broker_def w1 found w2_def)
  have good2: "solo w2" "ledger_inv (wd_ledger w2)" "wd_ledger w2 = wd_ledger w"
    using same good(2) by (simp_all add: same_ledger_def solo_def w2_def)
  have "\<not> pa_attempt_status a \<notin> {PAPER_ATTEMPT_RESERVED, PAPER_ATTEMPT_SUBMISSION_UNKNOWN}"
    using a by (simp add: eligible_def)
  note legal = this [THEN if_not_P]
  have "reconcile_attempt sv a now w1 = (r, w')"
    using run [unfolded reconcile_by_client_order_id_def
      abind_returned [where m = "read_attempt_of c" and w = w, OF m]] .
  then have step: "abind (call_broker (br_get_order_by_client_order_id (sv_broker sv) ?c) (returned Saw_order))
      (\<lambda>snapshot. case snapshot of None \<Rightarrow> areturn None
        | Some order \<Rightarrow> reconcile_with_order a now order) w1 = (r, w')"
    unfolding reconcile_attempt_def reject_if_def legal by (simp add: abind_def [of "alift _"] alift_def)
  show ?thesis
  proof (cases found)
    case (Inl e)
    then show ?thesis using step call good2 found
      by (auto simp: abind_def)
  next
    case (Inr x)
    show ?thesis
    proof (cases x)
      case None
      then show ?thesis using step call Inr good2 found
        by (auto simp: abind_def reconciled_with_def)
    next
      case (Some order)
      have "reconciled_with a r (Some order) (attempt_status_in w2 ?c) (attempt_status_in w' ?c)"
        by (rule reconcile_found [OF good2(1,2), of a now])
           (use step call Inr Some in \<open>simp add: abind_def\<close>)
      then show ?thesis using Inr Some found good2(3) by (simp add: attempt_status_in_def)
    qed
  qed
qed

lemma reconcile_refused:
  assumes good: "solo w" "ledger_inv (wd_ledger w)" and run: "reconcile_by_client_order_id sv c now w = (r, w')"
    and m: "read_attempt_of c w = (m, w1)"
    and not: "\<And>a. m = Inr a \<Longrightarrow> \<not> eligible (wd_ledger w) c a"
  shows "\<exists>e. r = Inl e \<and> wd_ledger w' = wd_ledger w \<and> wd_broker w' = wd_broker w \<and>
     (wd_schedule w = [] \<longrightarrow> (\<forall>a. \<not> eligible (wd_ledger w) c a))"
proof -
  have same: "wd_ledger w1 = wd_ledger w" "wd_broker w1 = wd_broker w"
    using read_solo(1) [OF good(1) m [unfolded read_attempt_of_def]] m
    by (auto simp: same_ledger_def read_attempt_of_def read_repository_def Let_def split: prod.splits)
  have none: "\<not> eligible (wd_ledger w) c a" if "wd_schedule w = []" for a
  proof
    assume "eligible (wd_ledger w) c a"
    then have "m = Inr a" using m that get_attempt_eligible [OF good(2)]
      by (auto simp: read_attempt_of_def read_repository_def turn_def Let_def)
    then show False using not \<open>eligible (wd_ledger w) c a\<close> by blast
  qed
  show ?thesis
  proof (cases m)
    case (Inl e)
    then show ?thesis using run m same none
      by (auto simp: reconcile_by_client_order_id_def abind_raised)
  next
    case (Inr a)
    obtain fault where "get_attempt fault c (wd_ledger w) = Inr a" 
      using read_solo(2) [OF good(1) m [unfolded read_attempt_of_def]] Inr by auto
    then have "pa_attempt_status a \<notin> {PAPER_ATTEMPT_RESERVED, PAPER_ATTEMPT_SUBMISSION_UNKNOWN}"
      using not [OF Inr] get_attempt_returned [OF good(2)] by (auto simp: eligible_def)
    then show ?thesis using run same none
      unfolding reconcile_by_client_order_id_def abind_returned [where m = "read_attempt_of c" and w = w, OF m [unfolded Inr]]
      by (auto simp: reconcile_attempt_def abind_def alift_def)
  qed
qed


section \<open>Preview\<close>

lemma gate_codes_Inr:
  "gate_codes m handled (\<lambda>_. []) = Inr codes \<longleftrightarrow>
     (case m of Inl e \<Rightarrow> handled e \<and> codes = [exn_code e] | Inr x \<Rightarrow> codes = [])"
  by (auto simp: gate_codes_def split: sum.splits)

lemma local_gates_error:
  "assert_local_permission_gates st = Inl e \<Longrightarrow> st_execution_mode st = ''paper'' \<Longrightarrow> is_paper_execution_error e"
  by (auto simp: assert_local_permission_gates_def split: if_splits)

lemma read_control_error: "read_control control = Inl e \<Longrightarrow> is_paper_execution_error e"
  by (auto simp: read_control_def dest: or_integrity_error_Inl split: option.splits)

lemma switch_codes:
  assumes "wd_schedule w = []"
  shows "\<exists>codes w'. acatch (abind read_kill_switch (\<lambda>control.
            areturn (if cs_kill_switch_engaged control then [''kill_switch_engaged''] else [])))
          is_paper_execution_error (\<lambda>e. areturn [exn_code e]) w = (Inr codes, w') \<and>
     wd_ledger w' = wd_ledger w \<and>
     (codes = [] \<longleftrightarrow> (\<exists>s. read_control (lg_control (wd_ledger w)) = Inr s \<and> \<not> cs_kill_switch_engaged s))"
proof (cases "read_control (lg_control (wd_ledger w))")
  case (Inl e)
  then show ?thesis using assms read_control_error [OF Inl]
    by (simp add: read_kill_switch_def read_repository_def turn_def Let_def get_kill_switch_state_def
        read_only_def connect_def acatch_def abind_def areturn_def)
next
  case (Inr s)
  then show ?thesis using assms
    by (simp add: read_kill_switch_def read_repository_def turn_def Let_def get_kill_switch_state_def
        read_only_def connect_def acatch_def abind_def areturn_def)
qed

text \<open>A preview writes and submits nothing. Outside of paper mode it raises as the submission does; otherwise it
  returns, and it allows exactly when the configuration permits the execution, the approval covers the
  instruction at the given time and the kill switch reads disengaged, with one code per gate that blocks.\<close>

theorem preview_reports_the_local_gates:
  assumes "wd_schedule w = []" and "preview_submission sv i a now w = (m, w')"
  shows "wd_ledger w' = wd_ledger w \<and> submissions (wd_trace w') = submissions (wd_trace w) \<and>
     (if st_execution_mode (sv_settings sv) \<noteq> ''paper''
      then m = Inl (RuntimeError ''live execution is not supported.'')
      else \<exists>p. m = Inr p \<and> (pv_allowed p \<longleftrightarrow> pv_blocked_gate_codes p = []) \<and>
        (pv_allowed p \<longleftrightarrow> execution_permitted (sv_settings sv) \<and> approval_covers i a now \<and>
           (\<exists>s. read_control (lg_control (wd_ledger w)) = Inr s \<and> \<not> cs_kill_switch_engaged s)))"
proof -
  have quiet: "submissions (wd_trace w') = submissions (wd_trace w)"
    using obeysD [OF quiet_preview assms(2)] by (auto simp: quiet_step_def)
  obtain codes w1 where sw: "acatch (abind read_kill_switch (\<lambda>control.
            areturn (if cs_kill_switch_engaged control then [''kill_switch_engaged''] else [])))
          is_paper_execution_error (\<lambda>e. areturn [exn_code e]) w = (Inr codes, w1)"
    "wd_ledger w1 = wd_ledger w"
    "codes = [] \<longleftrightarrow> (\<exists>s. read_control (lg_control (wd_ledger w)) = Inr s \<and> \<not> cs_kill_switch_engaged s)"
    using switch_codes [OF assms(1)] by blast
  show ?thesis
  proof (cases "st_execution_mode (sv_settings sv) = ''paper''")
    case False
    then show ?thesis using assms(2) quiet
      by (auto simp: preview_submission_def abind_def alift_def gate_codes_def assert_local_permission_gates_def)
  next
    case True
    obtain local where l: "gate_codes (assert_local_permission_gates (sv_settings sv)) is_paper_execution_error
        (\<lambda>_. []) = Inr local" "local = [] \<longleftrightarrow> execution_permitted (sv_settings sv)"
      using local_gates_error [OF _ True] assert_local_permission_gates_Inr [of "sv_settings sv" "()"]
      by (cases "assert_local_permission_gates (sv_settings sv)") (auto simp: gate_codes_def)
    obtain appr where p: "gate_codes (validate_matching_approval i a now) is_approval_error (\<lambda>_. []) = Inr appr"
      "appr = [] \<longleftrightarrow> approval_covers i a now"
      using validate_matching_approval_Inl [of i a now] validate_matching_approval_Inr [of i a now "()"]
      by (cases "validate_matching_approval i a now") (auto simp: gate_codes_def is_approval_error_def)
    have "m = Inr \<lparr>pv_allowed = (local @ appr @ codes = []), pv_blocked_gate_codes = local @ appr @ codes\<rparr>
        \<and> w' = w1"
      using assms(2) l(1) p(1) sw(1)
      by (simp add: preview_submission_def abind_def alift_def areturn_def Let_def)
    then show ?thesis using True quiet sw(2,3) l(2) p(2) by auto
  qed
qed

end
