(* ===== verification/Exec_Identity.thy ===== *)
theory Exec_Identity
  imports Exec_Models
begin

text \<open>
  What an instruction's fingerprint, an approval and a broker's order identify: constructed objects are accepted again
  unchanged, and an approval is bound to the content of one instruction.
\<close>

lemma wf_instruction_digest:
  "wf_instruction digest i \<Longrightarrow> in_instruction_fingerprint i = digest (instruction_content_of i)"
  by (simp add: wf_instruction_def)

lemma same_content:
  assumes "wf_instruction digest i" "wf_instruction digest j"
    "instruction_content_of i = instruction_content_of j"
  shows "i = j"
  using assms by (cases i; cases j) (simp add: instruction_content_of_def wf_instruction_def)

text \<open>C37: an instruction that is built is accepted again, unchanged, from its own fields; it is an approved whole-share
  SPY order with a positive lifetime, and changing any content while keeping the fingerprint is
  refused unless the digest collides.\<close>

theorem built_instruction_is_tamper_evident:
  assumes "build_paper_order_instruction digest arguments = Inr i"
  shows "mk_instruction digest (instruction_obj i) = Inr i \<and>
     rd_approved (in_original_risk_decision i) \<and> po_symbol (in_proposed_order i) = ''SPY'' \<and>
     1 \<le> po_quantity (in_proposed_order i) \<and> in_created_at_utc i < in_expires_at_utc i \<and>
     (\<forall>obj j. ino_instruction_fingerprint obj = PyStr (in_instruction_fingerprint i) \<longrightarrow>
        mk_instruction digest obj = Inr j \<longrightarrow>
        j = i \<or> (instruction_content_of j \<noteq> instruction_content_of i \<and>
                 digest (instruction_content_of j) = digest (instruction_content_of i)))"
proof -
  have wf: "wf_instruction digest i"
    using assms mk_instruction_wf unfolding build_paper_order_instruction_def by (elim rbind_InrE) blast
  have same: "j = i \<or> (instruction_content_of j \<noteq> instruction_content_of i \<and>
      digest (instruction_content_of j) = digest (instruction_content_of i))"
    if obj: "ino_instruction_fingerprint obj = PyStr (in_instruction_fingerprint i)"
      and j: "mk_instruction digest obj = Inr j" for obj j
  proof -
    have "in_instruction_fingerprint j = in_instruction_fingerprint i"
      using j obj unfolding mk_instruction_def by (elim rbind_InrE) auto
    then show ?thesis
      using wf_instruction_digest [OF wf] wf_instruction_digest [OF mk_instruction_wf [OF j]]
        same_content [OF mk_instruction_wf [OF j] wf] by auto
  qed
  then show ?thesis
    using wf mk_instruction_obj [OF wf] by (auto simp: wf_instruction_def SUPPORTED_SYMBOL_def)
qed

text \<open>C38: one approval covers one instruction: when it is accepted for two instructions, they are equal or their
  contents collide under the digest. It is accepted from the time it was given, after the instruction was
  created, until the instruction expires, and at no other time.\<close>

theorem approval_covers_one_instruction:
  assumes "mk_instruction digest obj_i = Inr i" and "mk_instruction digest obj_j = Inr j"
    and "mk_approval obj_a = Inr a"
    and "validate_matching_approval i a t = Inr ()" and "validate_matching_approval j a t' = Inr ()"
  shows "ap_approved a \<and> in_created_at_utc i < ap_approved_at_utc a \<and> ap_approved_at_utc a \<le> t \<and>
     t < in_expires_at_utc i \<and> in_client_order_id i = in_client_order_id j \<and>
     in_signal_id i = in_signal_id j \<and>
     (i = j \<or> (instruction_content_of i \<noteq> instruction_content_of j \<and>
               digest (instruction_content_of i) = digest (instruction_content_of j)))"
proof -
  have wf: "wf_instruction digest i" "wf_instruction digest j" "wf_approval a"
    using assms(1-3) mk_instruction_wf mk_approval_wf by blast+
  have covers: "approval_covers i a t" "approval_covers j a t'" using assms(4,5) by simp_all
  then have "in_instruction_fingerprint i = in_instruction_fingerprint j"
    by (simp add: approval_covers_def)
  then have "digest (instruction_content_of i) = digest (instruction_content_of j)"
    using wf_instruction_digest [OF wf(1)] wf_instruction_digest [OF wf(2)] by simp
  then show ?thesis
    using covers wf same_content [OF wf(1,2)] by (auto simp: approval_covers_def wf_approval_iff)
qed

lemma mk_receipt_wf: "mk_receipt obj = Inr r \<Longrightarrow> wf_receipt r"
  unfolding mk_receipt_def
  by (elim rbind_InrE) (auto simp: wf_receipt_iff optional_value_Inr exceeds_submitted_def
      split: option.splits)

text \<open>The constructors of the broker's order, of the receipt and of the approval return well-formed
  values that they accept again unchanged; a receipt is a whole-share SPY market order of the day with a filled
  quantity of at most the submitted one.\<close>

theorem constructors_are_idempotent:
  assumes "mk_broker_order raw_order = Inr d" and "mk_receipt raw_receipt = Inr r"
    and "mk_approval raw_approval = Inr a"
  shows "mk_broker_order (broker_order_obj d) = Inr d \<and> 1 \<le> bd_submitted_quantity d \<and>
     mk_receipt (receipt_obj r) = Inr r \<and> re_symbol r = ''SPY'' \<and> 1 \<le> re_submitted_quantity r \<and>
     re_order_type r = ''market'' \<and> re_time_in_force r = ''day'' \<and> \<not> re_extended_hours r \<and>
     (\<forall>q. re_filled_quantity r = Some q \<longrightarrow> 0 \<le> q \<and> q \<le> re_submitted_quantity r) \<and>
     mk_approval (approval_obj a) = Inr a \<and> ap_approved a"
proof -
  have "wf_broker_order d" "wf_receipt r" "wf_approval a"
    using assms mk_broker_order_wf mk_receipt_wf mk_approval_wf by blast+
  then show ?thesis
    using wf_broker_order_iff [of d] wf_receipt_iff [of r] wf_approval_iff [of a]
    unfolding wf_broker_order_def wf_receipt_def wf_approval_def by (auto simp: SUPPORTED_SYMBOL_def)
qed

end
