(* ===== verification/Exec_Examples.thy ===== *)
theory Exec_Examples
  imports Risk_Properties Exec_Ledger_Specs Exec_Reconcile Exec_Identity
begin

text \<open>
  Concrete runs of the ledger and of the service: the sample buy of 99 shares, approved, reserved, submitted to a broker that
  accepts it, and recorded; and the failures around it.
\<close>

section \<open>Sample objects\<close>

definition sample_digest :: "instruction_content \<Rightarrow> string" where
  "sample_digest content = replicate 64 CHR ''a''"

definition sample_decision :: risk_decision where
  "sample_decision = \<lparr>rd_order_sequence_number = 1, rd_approved = True, rd_reason_codes = [APPROVED_REASON],
     rd_evaluated_session = 20, rd_projected_cash = 97, rd_projected_shares = 99,
     rd_projected_market_value = 9900, rd_projected_equity = 9997\<rparr>"

definition sample_instruction :: instruction where
  "sample_instruction = \<lparr>in_schema_version = PAPER_EXECUTION_SCHEMA_VERSION, in_signal_id = ''signal-1'',
     in_client_order_id = ''order-1'', in_proposed_order = sample_buy,
     in_original_risk_decision = sample_decision,
     in_cost_assumptions = \<lparr>ca_commission_bps_per_side = 1, ca_slippage_bps_per_side = 2\<rparr>,
     in_decimal_texts = [], in_created_at_utc = 100, in_expires_at_utc = 1000,
     in_instruction_fingerprint = replicate 64 CHR ''a''\<rparr>"

definition sample_approval :: approval where
  "sample_approval = \<lparr>ap_approval_id = ''approval-1'', ap_signal_id = ''signal-1'',
     ap_client_order_id = ''order-1'', ap_instruction_fingerprint = replicate 64 CHR ''a'',
     ap_approved = True, ap_approved_at_utc = 200, ap_approved_by = ''operator'',
     ap_approval_reason = ''reviewed''\<rparr>"

lemma sample_texts:
  "is_run_id ''signal-1''" "is_run_id ''order-1''" "is_run_id ''approval-1''"
  "is_sha256_text (replicate 64 CHR ''a'')" "is_safe_text ''operator''" "is_safe_text ''reviewed''"
  "is_safe_text ''open''" "is_safe_text ''broker-1''" "is_safe_text ''accepted''" "is_safe_text ''alpaca_paper''"
  "is_safe_text ''market''" "is_safe_text ''day''" "is_safe_text ''broker_verified''" "is_safe_text ''SPY''"
  "is_safe_text ''broker_order_accepted''"
  by code_simp+

lemma sample_instruction_wf: "wf_instruction sample_digest sample_instruction"
  using sample_texts by (simp add: wf_instruction_def sample_instruction_def sample_buy_def
      sample_decision_def SUPPORTED_SYMBOL_def sample_digest_def)

lemma sample_approval_wf: "wf_approval sample_approval"
  using sample_texts by (simp add: wf_approval_iff sample_approval_def)

definition sample_account :: broker_account where
  "sample_account = \<lparr>ba_status = ''ACTIVE'', ba_currency = ''USD'', ba_cash = 10000, ba_equity = 10000,
     ba_buying_power = 10000, ba_trading_blocked = False, ba_account_blocked = False,
     ba_trade_suspended_by_user = False, ba_account_id_fingerprint = replicate 64 CHR ''b'',
     ba_retrieved_at_utc = 300\<rparr>"

definition sample_order :: broker_order where
  "sample_order = \<lparr>bd_broker_order_id = ''broker-1'', bd_client_order_id = ''order-1'',
     bd_broker_order_status = ''accepted'', bd_symbol = ''SPY'', bd_side = BUY_SIDE,
     bd_submitted_quantity = 99, bd_filled_quantity = None, bd_order_type = ''market'',
     bd_time_in_force = ''day'', bd_extended_hours = False, bd_submitted_at_utc = 400,
     bd_broker_response_at_utc = None, bd_sanitized_request_id = None,
     bd_execution_environment = ''alpaca_paper''\<rparr>"

definition sample_clock :: broker_clock where
  "sample_clock = \<lparr>bk_timestamp = 400, bk_is_open = True, bk_next_open = 2000, bk_next_close = 900\<rparr>"

text \<open>A broker that accepts the order: its state is the order it holds.\<close>

definition sample_broker :: "broker_order option broker" where
  "sample_broker =
     \<lparr>br_verify_environment = areturn \<lparr>be_environment_name = ''paper'',
        be_endpoint_identity = ALPACA_PAPER_ENDPOINT, be_is_paper = True, be_verified_at_utc = 300\<rparr>,
      br_get_account = areturn sample_account,
      br_get_account_configuration = areturn \<lparr>bf_no_shorting = True, bf_fractional_trading_enabled = False,
        bf_suspend_trade = False, bf_max_margin_multiplier = 1, bf_retrieved_at_utc = 300\<rparr>,
      br_get_clock = areturn sample_clock,
      br_get_asset = (\<lambda>symbol. areturn \<lparr>bs_symbol = symbol, bs_active = True, bs_tradable = True,
        bs_fractionable = True, bs_asset_class = ''us_equity''\<rparr>),
      br_list_positions = areturn [], br_list_open_orders = areturn [],
      br_get_order_by_client_order_id = (\<lambda>client held. (Inr held, held)),
      br_submit_market_day_order = (\<lambda>i held. (Inr sample_order, Some sample_order))\<rparr>"

definition sample_service :: "broker_order option service" where
  "sample_service =
     \<lparr>sv_settings = \<lparr>st_execution_mode = ''paper'', st_paper_execution_kill_switch = False,
        st_enable_paper_execution = True, st_dry_run = False, st_alpaca_api_key = Some ''key'',
        st_alpaca_secret_key = Some ''value''\<rparr>,
      sv_risk_config = default_risk_config, sv_ny_date = (\<lambda>t. 20), sv_broker = sample_broker\<rparr>"

definition sample_disengage :: ledger_op where
  "sample_disengage = Set_kill_switch False (PyStr ''open'') 50 (Some DISENGAGE_KILL_SWITCH_CONFIRMATION)"

definition sample_ledger :: ledger where
  "sample_ledger = apply_op (No_fault, sample_disengage) (initialized_ledger 0)"

definition sample_world :: "broker_order option world" where
  "sample_world = \<lparr>wd_ledger = sample_ledger, wd_broker = None, wd_schedule = [], wd_trace = []\<rparr>"

lemma sample_ledger_inv: "ledger_inv sample_ledger"
  unfolding sample_ledger_def
  by (rule history.step_inv [of _ sample_digest])
     (simp_all add: ledger_inv_initialized admissible_op_def sample_disengage_def)

lemma sample_ledger_control:
  "\<exists>s. read_control (lg_control sample_ledger) = Inr s \<and> \<not> cs_kill_switch_engaged s"
  "lg_attempts sample_ledger = []"
proof -
  have "nonblank_text ''reason'' (PyStr ''open'') = Inr ''open''"
    "nonblank_text ''safe_reason_code'' (PyStr ''open'') = Inr ''open''"
    "nonblank_text ''event_type'' (PyStr ''kill_switch_updated'') = Inr ''kill_switch_updated''"
    by code_simp+
  note texts = this
  have "read_control (lg_control (initialized_ledger 0)) = Inr \<lparr>cs_kill_switch_engaged = True,
      cs_updated_at_utc = 0, cs_reason = ''default_engaged'',
      cs_control_schema_version = ''spy-paper-execution-control-v1''\<rparr>"
    by code_simp
  then show "\<exists>s. read_control (lg_control sample_ledger) = Inr s \<and> \<not> cs_kill_switch_engaged s"
    "lg_attempts sample_ledger = []"
    by (simp_all add: sample_ledger_def sample_disengage_def apply_op_def
        set_paper_execution_kill_switch_def texts update_control_def insert_event_def)
       (simp_all add: read_control_def int_to_bool_def bool_to_int_def text_to_datetime_def
        required_text_def or_integrity_error_def initialized_ledger_def)
qed

section \<open>The run\<close>

lemma sample_risk:
  "\<exists>d. execution_time_risk_decision default_risk_config sample_instruction sample_account [] = Inr d \<and>
     rd_approved d"
proof -
  have portfolio: "execution_portfolio sample_instruction sample_account [] = portfolio_obj sample_flat"
    by (simp add: execution_portfolio_def sample_instruction_def sample_buy_def sample_account_def
        held_shares_def portfolio_obj_def sample_flat_def Let_def dec_eval)
  have state: "mk_portfolio_state (portfolio_obj sample_flat) = Inr sample_flat"
    using samples_wf(2) by (simp add: mk_portfolio_state_obj)
  have costs: "mk_cost_assumptions (costs_obj (in_cost_assumptions sample_instruction)) =
      Inr (in_cost_assumptions sample_instruction)"
    "costs_obj (in_cost_assumptions sample_instruction) = decimal_costs 1 2"
    by (rule mk_cost_assumptions_obj)
       (simp_all add: sample_instruction_def costs_obj_def decimal_costs_def wf_costs_def)
  have "in_proposed_order sample_instruction = sample_buy" by (simp add: sample_instruction_def)
  then show ?thesis
    using sample_buy_approved
    by (simp add: execution_time_risk_decision_def portfolio state costs(2) costs(1) [unfolded costs(2)]) auto
qed

text \<open>One step of an action at a time.\<close>

lemma abind_gate: "m = Inr () \<Longrightarrow> abind (alift m) f w = f () w"
  by (simp add: abind_def alift_def)

lemma abind_value: "m = Inr x \<Longrightarrow> abind (alift m) f w = f x w"
  by (simp add: abind_def alift_def)

lemma abind_call:
  "f (wd_broker w) = (Inr x, b) \<Longrightarrow> abind (call_broker f (returned seen)) g w =
     g x (w\<lparr>wd_broker := b, wd_trace := wd_trace w @ [seen x]\<rparr>)"
  by (simp add: abind_def call_broker_def returned_def)

lemma read_kill_switch_quiet:
  "wd_schedule w = [] \<Longrightarrow> read_control (lg_control (wd_ledger w)) = Inr c \<Longrightarrow>
     read_kill_switch w = (Inr c, w\<lparr>wd_trace := wd_trace w @ [Saw_kill_switch c]\<rparr>)"
  by (simp add: read_kill_switch_def read_repository_def turn_def Let_def get_kill_switch_state_def
      read_only_def connect_def returned_def)

lemma abind_switch:
  "wd_schedule w = [] \<Longrightarrow> read_control (lg_control (wd_ledger w)) = Inr c \<Longrightarrow>
     abind read_kill_switch g w = g c (w\<lparr>wd_trace := wd_trace w @ [Saw_kill_switch c]\<rparr>)"
  by (simp add: abind_def read_kill_switch_quiet)

lemmas abind_steps = abind_gate abind_call abind_switch

lemma sample_local_gates: "execution_permitted (sv_settings sample_service)"
  by (simp add: sample_service_def) code_simp

lemma sample_account_gate: "assert_account sample_account = Inr ()"
  unfolding gates_Inr account_ok_def by (simp add: sample_account_def) code_simp

lemma sample_clock_gates:
  "assert_clock (sv_ny_date sample_service) c1 c2 c3 sample_clock sample_instruction = Inr ()"
  "approval_covers sample_instruction sample_approval (bk_timestamp sample_clock)"
  unfolding gates_Inr
  by (simp_all add: clock_ok_def sample_service_def sample_clock_def sample_instruction_def
      sample_approval_def sample_buy_def approval_covers_def)

lemma sample_services:
  "sv_broker sample_service = sample_broker" "sv_risk_config sample_service = default_risk_config"
  "br_get_account sample_broker = areturn sample_account"
  "br_get_clock sample_broker = areturn sample_clock" "br_list_positions sample_broker = areturn []"
  "br_list_open_orders sample_broker = areturn []"
  "br_get_order_by_client_order_id sample_broker client = (\<lambda>held. (Inr held, held))"
  "br_submit_market_day_order sample_broker i = (\<lambda>held. (Inr sample_order, Some sample_order))"
  by (simp_all add: sample_service_def sample_broker_def)

lemma sample_gates:
  "\<exists>d w. check_gates sample_service sample_instruction sample_approval sample_world =
      (Inr (sample_account, sample_clock, d), w) \<and> rd_approved d \<and>
     wd_ledger w = sample_ledger \<and> wd_schedule w = [] \<and> wd_broker w = None"
proof -
  obtain d where d: "execution_time_risk_decision default_risk_config sample_instruction sample_account [] = Inr d"
    "rd_approved d" using sample_risk by blast
  obtain c where c: "read_control (lg_control sample_ledger) = Inr c" "\<not> cs_kill_switch_engaged c"
    using sample_ledger_control by blast
  have side: "po_side (in_proposed_order sample_instruction) \<noteq> SELL_SIDE"
    by (simp add: sample_instruction_def sample_buy_def)
  have broker: "br_verify_environment sample_broker b = (Inr \<lparr>be_environment_name = ''paper'',
        be_endpoint_identity = ALPACA_PAPER_ENDPOINT, be_is_paper = True, be_verified_at_utc = 300\<rparr>, b)"
    "br_get_account_configuration sample_broker b = (Inr \<lparr>bf_no_shorting = True,
        bf_fractional_trading_enabled = False, bf_suspend_trade = False, bf_max_margin_multiplier = 1,
        bf_retrieved_at_utc = 300\<rparr>, b)"
    "br_get_asset sample_broker symbol b = (Inr \<lparr>bs_symbol = symbol, bs_active = True, bs_tradable = True,
        bs_fractionable = True, bs_asset_class = ''us_equity''\<rparr>, b)" for b symbol
    by (simp_all add: sample_broker_def)
  show ?thesis
    unfolding check_gates_def
    by (simp add: abind_steps abind_value [OF d(1)] broker sample_services sample_local_gates
        sample_account_gate sample_clock_gates c d(2) side sample_world_def
        assert_environment_def assert_account_configuration_def assert_asset_def assert_positions_def)
qed

lemma sample_reserved:
  "\<exists>w1. preflight sample_service sample_instruction sample_approval sample_world =
      (Inr (sample_account, sample_clock, attempt_of_reservation sample_instruction sample_approval True 400), w1) \<and>
     ledger_inv (wd_ledger w1) \<and> lg_control (wd_ledger w1) = lg_control sample_ledger \<and>
     status_of (wd_ledger w1) ''order-1'' = Some PAPER_ATTEMPT_RESERVED \<and>
     get_attempt_from_connection (wd_ledger w1) ''order-1'' =
       Inr (attempt_of_reservation sample_instruction sample_approval True 400) \<and>
     wd_schedule w1 = [] \<and> wd_broker w1 = None"
proof -
  obtain d w where gates: "check_gates sample_service sample_instruction sample_approval sample_world =
      (Inr (sample_account, sample_clock, d), w)" "rd_approved d"
    "wd_ledger w = sample_ledger" "wd_schedule w = []" "wd_broker w = None"
    using sample_gates by blast
  have free: "\<not> session_taken sample_ledger s t" "\<not> identifier_taken sample_ledger row" for s t row
    using sample_ledger_control(2) by (simp_all add: session_taken_def identifier_taken_def)
  obtain att l where ins: "insert_reservation sample_instruction sample_approval True 400 sample_ledger = Inr (att, l)"
    using insert_reservation_succeeds [OF sample_ledger_inv sample_instruction_wf sample_approval_wf free]
    by (metis surj_pair)
  note E = insert_reservationE [OF ins sample_ledger_inv sample_instruction_wf sample_approval_wf]
  have client: "in_client_order_id sample_instruction = ''order-1''" by (simp add: sample_instruction_def)
  have "do_reserve_attempt sample_instruction sample_approval True 400 w =
      (Inr att, w\<lparr>wd_ledger := l, wd_schedule := [], wd_trace := wd_trace w @ [Reserved att]\<rparr>)"
    using gates(3,4) ins
    by (simp add: do_reserve_attempt_def write_repository_def turn_def reserve_attempt_def returned_def)
  then have "preflight sample_service sample_instruction sample_approval sample_world =
      (Inr (sample_account, sample_clock, att),
       w\<lparr>wd_ledger := l, wd_schedule := [], wd_trace := wd_trace w @ [Reserved att]\<rparr>)"
    using gates(1,2) by (simp add: preflight_def abind_def areturn_def sample_clock_def)
  moreover have "get_attempt_from_connection l ''order-1'' = Inr att"
    using E(1,2,7) reservation_reads_back [OF sample_instruction_wf sample_approval_wf, of True 400]
    by (auto simp: get_attempt_Inr [OF E(1)] attempt_of_reservation_def client)
  ultimately show ?thesis using E(1,2,4,6) gates(5) client by simp
qed

definition sample_receipt :: receipt where
  "sample_receipt = receipt_of sample_order
     (attempt_of_reservation sample_instruction sample_approval True 400) ''broker_verified''"

lemma sample_receipt_ok:
  "receipt_from_broker_snapshot sample_order
     (attempt_of_reservation sample_instruction sample_approval True 400) ''broker_verified'' = Inr sample_receipt"
  "receipt_matches sample_receipt (attempt_of_reservation sample_instruction sample_approval True 400)"
  "re_client_order_id sample_receipt = ''order-1''"
proof -
  let ?a = "attempt_of_reservation sample_instruction sample_approval True 400"
  have "snapshot_matches sample_order ?a"
    by (simp add: snapshot_matches_def sample_order_def attempt_of_reservation_def sample_instruction_def
        sample_buy_def SUPPORTED_SYMBOL_def)
  then have valid: "validate_broker_snapshot_against_attempt sample_order ?a = Inr ()"
    by (simp add: validate_snapshot_Inr)
  have "wf_receipt sample_receipt"
    using sample_texts
    by (simp add: wf_receipt_iff sample_receipt_def receipt_of_def sample_order_def attempt_of_reservation_def
        sample_instruction_def SUPPORTED_SYMBOL_def)
  then show "receipt_from_broker_snapshot sample_order ?a ''broker_verified'' = Inr sample_receipt"
    by (simp add: receipt_from_broker_snapshot_eq valid wf_receipt_def sample_receipt_def)
  show "receipt_matches sample_receipt ?a" "re_client_order_id sample_receipt = ''order-1''"
    by (simp_all add: receipt_matches_def sample_receipt_def receipt_of_def sample_order_def
        attempt_of_reservation_def sample_instruction_def sample_buy_def SUPPORTED_SYMBOL_def)
qed

text \<open>The whole submission: the order reaches the broker, and the attempt is accepted.\<close>

lemma sample_submission:
  "\<exists>w'. submit_approved_order sample_service sample_instruction sample_approval sample_world =
      (Inr sample_receipt, w') \<and>
     Submitted sample_instruction (Inr sample_order) \<in> set (wd_trace w') \<and>
     wd_broker w' = Some sample_order"
proof -
  let ?a = "attempt_of_reservation sample_instruction sample_approval True 400"
  obtain w1 where pre: "preflight sample_service sample_instruction sample_approval sample_world =
      (Inr (sample_account, sample_clock, ?a), w1)"
    and w1: "ledger_inv (wd_ledger w1)" "lg_control (wd_ledger w1) = lg_control sample_ledger"
      "get_attempt_from_connection (wd_ledger w1) ''order-1'' = Inr ?a" "wd_schedule w1 = []" "wd_broker w1 = None"
    using sample_reserved by blast
  obtain c where c: "read_control (lg_control sample_ledger) = Inr c" "\<not> cs_kill_switch_engaged c"
    using sample_ledger_control by blast
  obtain x l where rec: "write_receipt sample_receipt PAPER_ATTEMPT_ACCEPTED
      (Some (ba_account_id_fingerprint sample_account)) 400 ''broker_order_accepted'' (wd_ledger w1) = Inr (x, l)"
  proof -
    have "validate_receipt_against_attempt sample_receipt ?a PAPER_ATTEMPT_ACCEPTED = Inr ()"
      using sample_receipt_ok(2)
      by (simp add: validate_receipt_Inr receipt_transitions_def attempt_of_reservation_def)
    moreover have "is_sha256_text (ba_account_id_fingerprint sample_account)"
      by (simp add: sample_account_def) code_simp
    ultimately show ?thesis
      using write_receipt_succeeds [OF w1(1), of sample_receipt ?a PAPER_ATTEMPT_ACCEPTED "''broker_order_accepted''"
          "Some (ba_account_id_fingerprint sample_account)" 400] w1(3) sample_receipt_ok(3) sample_texts that by auto
  qed
  have clock: "bk_timestamp sample_clock = 400" by (simp add: sample_clock_def)
  have approved: "validate_matching_approval sample_instruction sample_approval 400 = Inr ()"
    using sample_clock_gates(2) by (simp add: clock)
  have refresh: "refresh_pre_submission_clock sample_service sample_instruction sample_approval 400 w =
      (Inr sample_clock, w\<lparr>wd_trace := wd_trace w @ [Saw_clock sample_clock]\<rparr>)" for w
    unfolding refresh_pre_submission_clock_def
    by (simp add: sample_services call_broker_def acatch_def abind_def alift_def areturn_def returned_def
        sample_clock_gates(1) clock approved del: validate_matching_approval_Inr)
  have gate: "assert_final_kill_switch_gate sample_instruction 400 w =
      (Inr (), w\<lparr>wd_trace := wd_trace w @ [Saw_kill_switch c]\<rparr>)"
    if "wd_schedule w = []" "lg_control (wd_ledger w) = lg_control sample_ledger" for w :: "broker_order option world"
    using that c by (simp add: assert_final_kill_switch_gate_def acatch_def abind_def areturn_def
        read_kill_switch_quiet)
  have accepted: "record_accepted sample_instruction sample_account 400 ?a sample_order w =
      (Inr sample_receipt, w\<lparr>wd_ledger := l, wd_schedule := [], wd_trace := wd_trace w @ [Wrote_receipt x]\<rparr>)"
    if "wd_schedule w = []" "wd_ledger w = wd_ledger w1" for w :: "broker_order option world"
    using that rec unfolding record_accepted_def
    by (simp add: sample_receipt_ok(1) acatch_def abind_def alift_def areturn_def do_record_receipt_def
        write_repository_def turn_def record_receipt_def returned_def)
  show ?thesis
    using w1 unfolding submit_approved_order_def submit_reserved_order_def submit_fresh_order_def
    by (simp add: abind_def [of "preflight _ _ _"] pre clock abind_call sample_services
        abind_def [of "refresh_pre_submission_clock _ _ _ _"] refresh
        abind_def [of "assert_final_kill_switch_gate _ _"] gate submit_and_record_def submit_to_broker_def
        abind_def [of "acatch _ _ _"] acatch_def call_broker_def accepted)
qed

end
