(* ===== verification/Exec_Witnesses.thy ===== *)
theory Exec_Witnesses
  imports Exec_Examples
begin

text \<open>The properties of the ledger and of the service, applied to the sample run.\<close>

section \<open>Ledger\<close>

definition sample_reserve :: ledger_op where
  "sample_reserve = Reserve_attempt sample_instruction sample_approval True 400"

definition sample_history :: "(db_fault \<times> ledger_op) list" where
  "sample_history = [(No_fault, sample_disengage), (Commit_failure, sample_reserve), (No_fault, sample_reserve)]"

lemma sample_history_admissible: "list_all (admissible_op sample_digest) sample_history"
  by (simp add: sample_history_def sample_disengage_def sample_reserve_def admissible_op_def
      sample_instruction_wf sample_approval_wf)

theorem ledger_history_safe_witness:
  "let l = fold apply_op sample_history (initialized_ledger 0)
   in distinct (map ar_signal_id (lg_attempts l)) \<and>
      event_chain None (filter (\<lambda>e. ev_client_order_id e = Some ''order-1'') (lg_events l)) (status_of l ''order-1'')"
  using ledger_history_safe [OF sample_history_admissible refl, of 0] by (simp add: Let_def)

lemma sample_reserved_ledger:
  "\<exists>l. ledger_inv l \<and> status_of l ''order-1'' = Some PAPER_ATTEMPT_RESERVED \<and>
     attempt_of_reservation sample_instruction sample_approval True 400 \<in> stored_attempts l"
proof -
  obtain w1 :: "broker_order option world" where w1: "ledger_inv (wd_ledger w1)" "status_of (wd_ledger w1) ''order-1'' = Some PAPER_ATTEMPT_RESERVED"
    "get_attempt_from_connection (wd_ledger w1) ''order-1'' =
       Inr (attempt_of_reservation sample_instruction sample_approval True 400)"
    using sample_reserved by blast
  show ?thesis
    using w1 by (intro exI [of _ "wd_ledger w1"]) (simp add: get_attempt_stored)
qed

theorem settled_attempts_stay_settled_witness:
  "\<exists>l t. status_of l ''order-1'' = Some PAPER_ATTEMPT_RESERVED \<and>
     status_of (fold apply_op sample_history l) ''order-1'' = Some t"
proof -
  obtain l where "ledger_inv l" "status_of l ''order-1'' = Some PAPER_ATTEMPT_RESERVED"
    using sample_reserved_ledger by blast
  with settled_attempts_stay_settled [OF _ sample_history_admissible, of l "''order-1''"] show ?thesis by blast
qed

theorem disengaging_needs_confirmation_witness:
  "\<exists>f reason now. (f, Set_kill_switch False reason now (Some ''DISENGAGE_PAPER_EXECUTION_KILL_SWITCH''))
     \<in> set [(No_fault, sample_disengage)]"
proof -
  obtain s where "read_control (lg_control sample_ledger) = Inr s" "\<not> cs_kill_switch_engaged s"
    using sample_ledger_control by blast
  then have "get_kill_switch_state No_fault (fold apply_op [(No_fault, sample_disengage)] (initialized_ledger 0)) = Inr s"
    "\<not> cs_kill_switch_engaged s"
    by (simp_all add: get_kill_switch_state_def read_only_def connect_def sample_ledger_def)
  moreover have "list_all (admissible_op sample_digest) [(No_fault, sample_disengage)]"
    by (simp add: sample_disengage_def admissible_op_def)
  ultimately show ?thesis using disengaging_needs_confirmation by blast
qed

theorem failed_write_changes_nothing_witness:
  "\<exists>e. run_op Commit_failure sample_reserve sample_ledger = (Some e, sample_ledger) \<and> is_paper_execution_error e"
proof -
  obtain e l' where run: "run_op Commit_failure sample_reserve sample_ledger = (Some e, l')"
    by (cases "insert_reservation sample_instruction sample_approval True 400 sample_ledger")
       (auto simp: sample_reserve_def reserve_attempt_def transaction_def connect_def)
  from failed_write_changes_nothing [OF sample_ledger_inv this] run show ?thesis by simp
qed

theorem reserve_attempt_refines_insert_witness:
  "\<exists>m l'. reserve_attempt No_fault sample_instruction sample_approval True 400 sample_ledger = (m, l') \<and>
     stored_attempts l' = {attempt_of_reservation sample_instruction sample_approval True 400}"
proof -
  obtain m l' where run: "reserve_attempt No_fault sample_instruction sample_approval True 400 sample_ledger = (m, l')"
    by fastforce
  have "stored_attempts sample_ledger = {}" "new_identifiers sample_ledger sample_instruction sample_approval"
    using sample_ledger_control(2) by (simp_all add: stored_attempts_def new_identifiers_def)
  with reserve_attempt_refines_insert [OF sample_ledger_inv sample_instruction_wf sample_approval_wf run] run
  show ?thesis by simp
qed

theorem failure_updates_refine_replace_witness:
  "\<exists>l m l' b. mark_failure No_fault (PyStr ''order-1'') (PyStr ''signal-1'') PAPER_ATTEMPT_BLOCKED
     (PyStr ''accepted'') 500 ''open'' l = (m, l') \<and> m = Inr b \<and> b \<in> stored_attempts l'"
proof -
  let ?a = "attempt_of_reservation sample_instruction sample_approval True 400"
  obtain l where l: "ledger_inv l" "?a \<in> stored_attempts l" using sample_reserved_ledger by blast
  have a: "pa_client_order_id ?a = ''order-1''" "pa_signal_id ?a = ''signal-1''"
    "pa_attempt_status ?a = PAPER_ATTEMPT_RESERVED"
    by (simp_all add: attempt_of_reservation_def sample_instruction_def)
  obtain m l' where run: "mark_failure No_fault (PyStr ''order-1'') (PyStr ''signal-1'') PAPER_ATTEMPT_BLOCKED
      (PyStr ''accepted'') 500 ''open'' l = (m, l')" by fastforce
  have "attempt_step (Some PAPER_ATTEMPT_RESERVED) PAPER_ATTEMPT_BLOCKED" by (rule attempt_step.intros)
  with failure_updates_refine_replace [OF l sample_texts(9,7), of PAPER_ATTEMPT_BLOCKED 500] run
  have "\<exists>b. m = Inr b \<and> b \<in> stored_attempts l'" unfolding a by (simp add: Let_def)
  with run show ?thesis by blast
qed

theorem receipt_refines_replace_witness:
  "\<exists>l m l' b. record_receipt No_fault sample_receipt PAPER_ATTEMPT_ACCEPTED None 500 ''open'' l = (m, l') \<and>
     m = Inr b \<and> b \<in> stored_attempts l'"
proof -
  let ?a = "attempt_of_reservation sample_instruction sample_approval True 400"
  obtain l where l: "ledger_inv l" "?a \<in> stored_attempts l" using sample_reserved_ledger by blast
  have a: "re_client_order_id sample_receipt = pa_client_order_id ?a"
    "pa_attempt_status ?a = PAPER_ATTEMPT_RESERVED"
    using sample_receipt_ok(3) by (simp_all add: attempt_of_reservation_def sample_instruction_def)
  obtain m l' where run: "record_receipt No_fault sample_receipt PAPER_ATTEMPT_ACCEPTED None 500 ''open'' l = (m, l')"
    by fastforce
  have "attempt_step (Some PAPER_ATTEMPT_RESERVED) PAPER_ATTEMPT_ACCEPTED" by (rule attempt_step.intros)
  with receipt_refines_replace [OF l a(1) sample_texts(7), of None PAPER_ATTEMPT_ACCEPTED 500] run
    sample_receipt_ok(2)
  have "\<exists>b. m = Inr b \<and> b \<in> stored_attempts l'" unfolding a(2) by (simp add: Let_def)
  with run show ?thesis by blast
qed

theorem unresolved_count_is_open_attempts_witness:
  "unresolved_submission_count sample_ledger = 0 \<and>
   {c. status_of sample_ledger c \<in> {Some PAPER_ATTEMPT_RESERVED, Some PAPER_ATTEMPT_SUBMISSION_UNKNOWN}} = {}"
proof -
  have "unresolved_submission_count sample_ledger = 0"
    using sample_ledger_control(2) by (simp add: unresolved_submission_count_def)
  moreover have "status_of sample_ledger c = None" for c
    using sample_ledger_control(2) by (simp add: status_of_def get_attempt_from_connection_def)
  ultimately show ?thesis using unresolved_count_is_open_attempts [OF sample_ledger_inv] by simp
qed

section \<open>Service\<close>

theorem order_sent_only_after_every_gate_witness:
  "\<exists>r w'. submit_approved_order sample_service sample_instruction sample_approval sample_world = (r, w') \<and>
     submission_record sample_service sample_instruction sample_approval (wd_trace w')"
proof -
  obtain w' where run: "submit_approved_order sample_service sample_instruction sample_approval sample_world =
      (Inr sample_receipt, w')" "Submitted sample_instruction (Inr sample_order) \<in> set (wd_trace w')"
    using sample_submission by blast
  have "wd_trace w' = wd_trace sample_world @ wd_trace w'" by (simp add: sample_world_def)
  from order_sent_only_after_every_gate [OF run(1) this run(2)] run(1) show ?thesis by blast
qed

lemma sample_world_good: "ledger_inv (wd_ledger sample_world)" "scheduled sample_digest sample_world"
  "wd_trace sample_world = []" "solo sample_world" "wd_schedule sample_world = []"
  by (simp_all add: sample_world_def sample_ledger_inv scheduled_def solo_def)

theorem at_most_one_submission_witness:
  "distinct (map in_client_order_id (submissions (wd_trace (fold (perform sample_service)
     [Submit_call sample_instruction sample_approval, Submit_call sample_instruction sample_approval] sample_world))))"
  using at_most_one_submission [OF sample_world_good(1-3),
      of "[Submit_call sample_instruction sample_approval, Submit_call sample_instruction sample_approval]"]
  by (simp add: sample_instruction_wf sample_approval_wf Let_def)



theorem preview_reports_the_local_gates_witness:
  "\<exists>p w'. preview_submission sample_service sample_instruction sample_approval 400 sample_world = (Inr p, w') \<and>
     pv_allowed p"
proof -
  obtain m w' where run: "preview_submission sample_service sample_instruction sample_approval 400 sample_world = (m, w')"
    by fastforce
  have "st_execution_mode (sv_settings sample_service) = ''paper''" by (simp add: sample_service_def)
  moreover have "approval_covers sample_instruction sample_approval 400"
    using sample_clock_gates(2) by (simp add: sample_clock_def)
  ultimately show ?thesis
    using preview_reports_the_local_gates [OF sample_world_good(5) run] run sample_local_gates sample_ledger_control(1)
    by (auto simp: sample_world_def)
qed

section \<open>Identity\<close>

lemma sample_instruction_accepted: "mk_instruction sample_digest (instruction_obj sample_instruction) = Inr sample_instruction"
  by (rule mk_instruction_obj [OF sample_instruction_wf])

theorem built_instruction_is_tamper_evident_witness:
  "\<exists>i. build_paper_order_instruction sample_digest (instruction_obj sample_instruction) = Inr i \<and>
     mk_instruction sample_digest (instruction_obj i) = Inr i"
proof -
  have "(instruction_obj sample_instruction)\<lparr>ino_schema_version := PyStr PAPER_EXECUTION_SCHEMA_VERSION,
      ino_instruction_fingerprint := PyStr (replicate 64 CHR ''a'')\<rparr> = instruction_obj sample_instruction"
    by (simp add: instruction_obj_def sample_instruction_def)
  moreover have "compute_instruction_fingerprint sample_digest (instruction_obj sample_instruction) =
      Inr (replicate 64 CHR ''a'')"
    using sample_texts(1,2)
    by (auto simp: compute_instruction_fingerprint_def instruction_obj_def sample_instruction_def
        sample_digest_def rbind_eq_Inr_iff)
  ultimately have "build_paper_order_instruction sample_digest (instruction_obj sample_instruction) = Inr sample_instruction"
    by (simp add: build_paper_order_instruction_def sample_instruction_accepted)
  with built_instruction_is_tamper_evident [OF this] show ?thesis by blast
qed

lemma sample_approval_accepted: "mk_approval (approval_obj sample_approval) = Inr sample_approval"
  using sample_approval_wf by (simp add: wf_approval_def)

theorem approval_covers_one_instruction_witness:
  "in_created_at_utc sample_instruction < ap_approved_at_utc sample_approval \<and> ap_approved sample_approval"
proof -
  have "validate_matching_approval sample_instruction sample_approval 400 = Inr ()"
    using sample_clock_gates(2) by (simp add: sample_clock_def)
  from approval_covers_one_instruction [OF sample_instruction_accepted sample_instruction_accepted
      sample_approval_accepted this this] show ?thesis by blast
qed

theorem constructors_are_idempotent_witness:
  "mk_receipt (receipt_obj sample_receipt) = Inr sample_receipt \<and> re_submitted_quantity sample_receipt = 99 \<and>
   mk_broker_order (broker_order_obj sample_order) = Inr sample_order"
proof -
  have "wf_broker_order sample_order" using sample_texts by (simp add: wf_broker_order_iff sample_order_def)
  moreover have "wf_receipt sample_receipt" by (rule receipt_of_snapshot(3) [OF sample_receipt_ok(1)])
  ultimately show ?thesis
    using constructors_are_idempotent [of "broker_order_obj sample_order" sample_order
        "receipt_obj sample_receipt" sample_receipt, OF _ _ sample_approval_accepted]
    by (simp add: wf_broker_order_def wf_receipt_def sample_receipt_def receipt_of_def sample_order_def)
qed

end
