(* ===== verification/Data_Values.thy ===== *)
theory Data_Values
  imports Backtest_Models
begin

text \<open>
  What the research data pipeline (\<^verbatim>\<open>market_data\<close>, \<^verbatim>\<open>features\<close>, \<^verbatim>\<open>datasets\<close>, \<^verbatim>\<open>research\<close>,
  \<^verbatim>\<open>strategies\<close>) shares: its exceptions, binary64 arithmetic with infinities, and the validators of
  sessions, checksums and float columns, which every stage has in a copy of its own.

  A data frame is a list of rows with its column names and the dtype of each column. The cells of an object
  column are Python values, those of a float64 column are floats (\<^typ>\<open>dec\<close>), those of an integer column
  integers or missing; where the code checks the dtype, the model does.
\<close>

section \<open>Exceptions\<close>

text \<open>The exception classes of the pipeline with the code of the (first) issue.
  \<open>ValidationError\<close> is pydantic's, which wraps what a model's validators raise.\<close>

datatype data_exn =
    TradingCostAssumptionError string
  | LabelConstructionError string
  | DatasetAlignmentError string
  | InvalidSplitSpecError "string list"
  | DatasetSplitError string
  | EmptySplitError string
  | FeatureEngineeringError string
  | WalkForwardSplitError string
  | LeakageValidationError string
  | ModelInputError string
  | ModelTrainingError string
  | ModelEvaluationError string
  | ModelSelectionError string
  | LockedModelError string
  | StrategyInputError string
  | ValidationError
  | ZeroDivisionError
  | LookupFailure

section \<open>Loops that only check\<close>

fun check_all :: "('a \<Rightarrow> 'e + unit) \<Rightarrow> 'a list \<Rightarrow> 'e + unit" where
  "check_all f [] = Inr ()"
| "check_all f (x # xs) = rbind (f x) (\<lambda>_. check_all f xs)"

lemma check_all_Inr [simp]: "check_all f xs = Inr u \<longleftrightarrow> (\<forall>x \<in> set xs. f x = Inr ())"
  by (induction xs) (auto simp: rbind_eq_Inr_iff)

lemma check_all_Inl: "check_all f xs = Inl e \<Longrightarrow> \<exists>x \<in> set xs. f x = Inl e"
  by (induction xs) (auto simp: rbind_eq_Inl_iff)

section \<open>Float arithmetic\<close>

text \<open>Operations round to nearest and overflow to an infinity; only a division by zero raises.\<close>

definition float_limit :: rat where "float_limit = 2 ^ 1024"

definition fl :: "rat \<Rightarrow> dec" where
  "fl x = (let r = float_round x in if float_limit \<le> \<bar>r\<bar> then Infinite (r < 0) else Fin r)"

fun fl_add :: "dec \<Rightarrow> dec \<Rightarrow> dec" where
  "fl_add (Fin a) (Fin b) = fl (a + b)"
| "fl_add (Infinite s) (Fin b) = Infinite s"
| "fl_add (Fin a) (Infinite t) = Infinite t"
| "fl_add (Infinite s) (Infinite t) = (if s = t then Infinite s else NaN)"
| "fl_add _ _ = NaN"

fun fl_neg :: "dec \<Rightarrow> dec" where
  "fl_neg (Fin a) = Fin (- a)"
| "fl_neg (Infinite s) = Infinite (\<not> s)"
| "fl_neg NaN = NaN"

definition fl_sub :: "dec \<Rightarrow> dec \<Rightarrow> dec" where
  "fl_sub x y = fl_add x (fl_neg y)"

fun fl_mul :: "dec \<Rightarrow> dec \<Rightarrow> dec" where
  "fl_mul (Fin a) (Fin b) = fl (a * b)"
| "fl_mul (Infinite s) (Fin b) = (if b = 0 then NaN else Infinite (s \<noteq> (b < 0)))"
| "fl_mul (Fin a) (Infinite t) = (if a = 0 then NaN else Infinite (t \<noteq> (a < 0)))"
| "fl_mul (Infinite s) (Infinite t) = Infinite (s \<noteq> t)"
| "fl_mul _ _ = NaN"

fun fl_quotient :: "dec \<Rightarrow> dec \<Rightarrow> dec" where
  "fl_quotient (Fin a) (Fin b) = fl (a / b)"
| "fl_quotient (Infinite s) (Fin b) = Infinite (s \<noteq> (b < 0))"
| "fl_quotient (Fin a) (Infinite t) = Fin 0"
| "fl_quotient _ _ = NaN"

definition fl_div :: "dec \<Rightarrow> dec \<Rightarrow> data_exn + dec" where
  "fl_div x y = (if y = Fin 0 then Inl ZeroDivisionError else Inr (fl_quotient x y))"

fun fl_positive :: "dec \<Rightarrow> bool" where
  "fl_positive (Fin a) \<longleftrightarrow> 0 < a"
| "fl_positive (Infinite s) \<longleftrightarrow> \<not> s"
| "fl_positive NaN \<longleftrightarrow> False"

fun is_finite_float :: "dec \<Rightarrow> bool" where
  "is_finite_float (Fin _) = True"
| "is_finite_float _ = False"

fun the_float :: "dec \<Rightarrow> rat" where
  "the_float (Fin a) = a"
| "the_float _ = 0"

lemma is_finite_float_iff: "is_finite_float x \<longleftrightarrow> (\<exists>r. x = Fin r)"
  by (cases x) simp_all

lemma the_float_Fin [simp]: "is_finite_float x \<Longrightarrow> Fin (the_float x) = x"
  by (cases x) simp_all

lemma fl_cases: "fl x = Fin (float_round x) \<or> (\<exists>s. fl x = Infinite s)"
  by (simp add: fl_def Let_def)

lemma fl_Fin: "fl x = Fin r \<Longrightarrow> r = float_round x"
  using fl_cases [of x] by auto

lemma fl_not_NaN [simp]: "fl x \<noteq> NaN"
  by (simp add: fl_def Let_def)

text \<open>\<^verbatim>\<open>float(value)\<close> of a Python value that is not a bool; \<open>None\<close> when it raises.\<close>

definition finite_only :: "dec \<Rightarrow> dec option" where
  "finite_only d = (if is_finite_float d then Some d else None)"

fun fl_of_dec :: "dec \<Rightarrow> dec" where
  "fl_of_dec (Fin r) = fl r"
| "fl_of_dec d = d"

fun float_of :: "pyval \<Rightarrow> dec option" where
  "float_of (PyInt i) = finite_only (fl (of_int i))"
| "float_of (PyFloat d _) = Some d"
| "float_of (PyDecimal d) = Some (fl_of_dec d)"
| "float_of (PyStr s) = map_option fl_of_dec (parse_decimal s)"
| "float_of _ = None"

section \<open>Sessions\<close>

definition plain_date_of :: "(string \<Rightarrow> 'e) \<Rightarrow> string \<Rightarrow> pyval \<Rightarrow> 'e + date" where
  "plain_date_of error_type field_name value =
     (case value of
        PyDate d \<Rightarrow> Inr d
      | _ \<Rightarrow> Inl (error_type (''invalid_'' @ field_name)))"

lemma plain_date_of_Inr [simp]: "plain_date_of et f v = Inr d \<longleftrightarrow> v = PyDate d"
  by (auto simp: plain_date_of_def split: pyval.splits)

lemma plain_date_of_PyDate [simp]: "plain_date_of et f (PyDate d) = Inr d"
  by (simp add: plain_date_of_def)

definition validate_strictly_increasing_sessions ::
  "(string \<Rightarrow> 'e) \<Rightarrow> string \<Rightarrow> string \<Rightarrow> string \<Rightarrow> pyval list \<Rightarrow> 'e + date list" where
  "validate_strictly_increasing_sessions error_type field_name duplicate_code unordered_code values =
     rbind (map_results (plain_date_of error_type field_name) values) (\<lambda>sessions.
     rbind (reject_if (\<not> distinct sessions) (error_type duplicate_code)) (\<lambda>_.
     rbind (reject_if (sessions \<noteq> sort sessions) (error_type unordered_code)) (\<lambda>_.
     Inr sessions)))"

abbreviation increasing :: "date list \<Rightarrow> bool" where
  "increasing \<equiv> sorted_wrt (<)"

lemma plain_dates: "map_results (plain_date_of et f) values = Inr ds \<longleftrightarrow> values = map PyDate ds"
  by (auto simp: map_results_Inr_iff list_all2_conv_all_nth intro!: nth_equalityI)

lemma increasing_iff: "increasing ds \<longleftrightarrow> distinct ds \<and> ds = sort ds"
  by (metis sorted_sort sort_key_id_if_sorted strict_sorted_iff sorted_sort_id)

lemma increasing_sessions_Inr [simp]:
  "validate_strictly_increasing_sessions et f dup unord values = Inr ds \<longleftrightarrow>
     values = map PyDate ds \<and> increasing ds"
  by (auto simp: validate_strictly_increasing_sessions_def rbind_eq_Inr_iff plain_dates increasing_iff)

lemma increasing_nth: "increasing ds \<Longrightarrow> i < j \<Longrightarrow> j < length ds \<Longrightarrow> ds ! i < ds ! j"
  by (simp add: sorted_wrt_iff_nth_less)

lemma increasing_nth_le: "increasing ds \<Longrightarrow> i \<le> j \<Longrightarrow> j < length ds \<Longrightarrow> ds ! i \<le> ds ! j"
  using increasing_nth [of ds i j] by (cases "i = j") auto

lemma increasing_nth_iff:
  assumes "increasing ds" "i < length ds" "j < length ds"
  shows "ds ! i < ds ! j \<longleftrightarrow> i < j"
  using increasing_nth [OF assms(1)] assms(2,3) by (metis linorder_neqE_nat order_less_asym order_less_irrefl)

lemma increasing_filter: "increasing ds \<Longrightarrow> increasing (filter P ds)"
  by (rule sorted_wrt_filter)

section \<open>Checksums and float columns\<close>

definition validate_checksum_text :: "(string \<Rightarrow> 'e) \<Rightarrow> string \<Rightarrow> pyval \<Rightarrow> 'e + string" where
  "validate_checksum_text error_type field_name value =
     (case value of
        PyStr s \<Rightarrow>
          if length s \<noteq> 64 \<or> (\<exists>c \<in> set s. \<not> is_hex_digit c)
          then Inl (error_type (''invalid_'' @ field_name)) else Inr s
      | _ \<Rightarrow> Inl (error_type (''invalid_'' @ field_name)))"

definition is_checksum :: "string \<Rightarrow> bool" where
  "is_checksum s \<longleftrightarrow> length s = 64 \<and> list_all is_hex_digit s"

lemma validate_checksum_text_Inr [simp]:
  "validate_checksum_text et f v = Inr s \<longleftrightarrow> v = PyStr s \<and> is_checksum s"
  by (auto simp: validate_checksum_text_def is_checksum_def list_all_iff split: pyval.splits if_splits)

definition aware_utc :: "(string \<Rightarrow> 'e) \<Rightarrow> string \<Rightarrow> pyval \<Rightarrow> 'e + instant" where
  "aware_utc error_type field_name value =
     (case value of
        PyAware t \<Rightarrow> Inr t
      | PyNaive _ \<Rightarrow> Inl (error_type (''naive_'' @ field_name))
      | _ \<Rightarrow> Inl (error_type (''invalid_'' @ field_name)))"

lemma aware_utc_Inr [simp]: "aware_utc et f v = Inr t \<longleftrightarrow> v = PyAware t"
  by (auto simp: aware_utc_def split: pyval.splits)

lemma aware_utc_PyAware: "aware_utc err f (PyAware now) = Inr now"
  by simp

text \<open>The named columns in order: each has dtype float64 and finite cells.\<close>

definition validate_finite_float64_columns ::
  "(string \<Rightarrow> 'e) \<Rightarrow> string \<Rightarrow> string \<Rightarrow> (string \<Rightarrow> string) \<Rightarrow> (string \<times> dec list) list \<Rightarrow> 'e + unit" where
  "validate_finite_float64_columns error_type dtype_code finite_code dtype columns =
     check_all (\<lambda>(name, cells).
       rbind (reject_if (dtype name \<noteq> ''float64'') (error_type dtype_code)) (\<lambda>_.
       reject_if (\<not> list_all is_finite_float cells) (error_type finite_code))) columns"

lemma finite_float64_columns_Inr [simp]:
  "validate_finite_float64_columns et c1 c2 dtype columns = Inr u \<longleftrightarrow>
     (\<forall>(name, cells) \<in> set columns. dtype name = ''float64'' \<and> list_all is_finite_float cells)"
  by (auto simp: validate_finite_float64_columns_def)

end
