(* ===== verification/Data_Market.thy ===== *)
theory Data_Market
  imports Data_Values
begin

text \<open>
  \<^verbatim>\<open>market_data/models.py\<close> and \<^verbatim>\<open>market_data/checksum.py\<close>: the metadata of a dataset of daily SPY bars, and the
  batch whose constructor recomputes the checksum of its rows. The SHA-256 digest is a parameter, a function of the rows
  the checksum serializes. A \<open>raw_\<close> record is what the constructor is given; a bar of a batch holds the
  date and the floats the checksum has read.
\<close>

definition MARKET_SYMBOL :: string where "MARKET_SYMBOL = ''SPY''"
definition MARKET_TIMEFRAME :: string where "MARKET_TIMEFRAME = ''1Day''"
definition ADJUSTMENT_POLICY :: string where "ADJUSTMENT_POLICY = ''adjusted''"
definition SCHEMA_VERSION :: string where "SCHEMA_VERSION = ''spy-daily-ohlcv-v1''"
definition CANONICAL_COLUMNS :: "string list" where
  "CANONICAL_COLUMNS = [''session'', ''open'', ''high'', ''low'', ''close'', ''volume'']"

section \<open>Metadata\<close>

record raw_market_metadata =
  mmo_provider_name :: string
  mmo_symbol :: string
  mmo_timeframe :: string
  mmo_adjustment_policy :: string
  mmo_downloaded_at :: pyval
  mmo_created_at :: pyval
  mmo_first_session :: date
  mmo_last_session :: date
  mmo_row_count :: int
  mmo_dataset_checksum :: string
  mmo_schema_version :: string
  mmo_source_description :: "string option"

record market_metadata =
  mm_provider_name :: string
  mm_symbol :: string
  mm_timeframe :: string
  mm_adjustment_policy :: string
  mm_downloaded_at :: instant
  mm_created_at :: instant
  mm_first_session :: date
  mm_last_session :: date
  mm_row_count :: int
  mm_dataset_checksum :: string
  mm_schema_version :: string
  mm_source_description :: "string option"

definition require_exact :: "string \<Rightarrow> string \<Rightarrow> data_exn + string" where
  "require_exact value expected = (if value \<noteq> expected then Inl ValidationError else Inr value)"

definition require_utc_datetime :: "pyval \<Rightarrow> data_exn + instant" where
  "require_utc_datetime value = (case value of PyAware t \<Rightarrow> Inr t | _ \<Rightarrow> Inl ValidationError)"

lemma require_exact_Inr [simp]: "require_exact v x = Inr s \<longleftrightarrow> v = x \<and> s = x"
  by (auto simp: require_exact_def)

lemma require_utc_datetime_Inr [simp]: "require_utc_datetime v = Inr t \<longleftrightarrow> v = PyAware t"
  by (auto simp: require_utc_datetime_def split: pyval.splits)

definition mk_market_metadata :: "raw_market_metadata \<Rightarrow> data_exn + market_metadata" where
  "mk_market_metadata obj =
     rbind (reject_if (strip (mmo_provider_name obj) = []) ValidationError) (\<lambda>_.
     rbind (require_exact (mmo_symbol obj) MARKET_SYMBOL) (\<lambda>symbol.
     rbind (require_exact (mmo_timeframe obj) MARKET_TIMEFRAME) (\<lambda>timeframe.
     rbind (require_exact (mmo_adjustment_policy obj) ADJUSTMENT_POLICY) (\<lambda>adjustment.
     rbind (require_utc_datetime (mmo_downloaded_at obj)) (\<lambda>downloaded_at.
     rbind (require_utc_datetime (mmo_created_at obj)) (\<lambda>created_at.
     rbind (reject_if (mmo_row_count obj \<le> 0) ValidationError) (\<lambda>_.
     rbind (reject_if (length (mmo_dataset_checksum obj) \<noteq> 64) ValidationError) (\<lambda>_.
     rbind (reject_if (list_ex (\<lambda>c. \<not> is_hex_digit c) (mmo_dataset_checksum obj)) ValidationError) (\<lambda>_.
     rbind (require_exact (mmo_schema_version obj) SCHEMA_VERSION) (\<lambda>schema_version.
     rbind (reject_if (created_at < downloaded_at) ValidationError) (\<lambda>_.
     rbind (reject_if (mmo_last_session obj < mmo_first_session obj) ValidationError) (\<lambda>_.
     Inr \<lparr>mm_provider_name = strip (mmo_provider_name obj), mm_symbol = symbol,
          mm_timeframe = timeframe, mm_adjustment_policy = adjustment,
          mm_downloaded_at = downloaded_at, mm_created_at = created_at,
          mm_first_session = mmo_first_session obj, mm_last_session = mmo_last_session obj,
          mm_row_count = mmo_row_count obj, mm_dataset_checksum = mmo_dataset_checksum obj,
          mm_schema_version = schema_version,
          mm_source_description = mmo_source_description obj\<rparr>))))))))))))"

section \<open>The checksum\<close>

record raw_bar =
  mbo_session :: pyval
  mbo_open :: pyval
  mbo_high :: pyval
  mbo_low :: pyval
  mbo_close :: pyval
  mbo_volume :: pyval

record bar =
  mb_session :: date
  mb_open :: rat
  mb_high :: rat
  mb_low :: rat
  mb_close :: rat
  mb_volume :: int

definition session_cell :: "pyval \<Rightarrow> data_exn + date" where
  "session_cell value = (case value of PyDate d \<Rightarrow> Inr d | _ \<Rightarrow> Inl ValidationError)"

text \<open>\<^verbatim>\<open>numeric.hex()\<close> determines the finite float, which stands for it.\<close>

definition price_cell :: "pyval \<Rightarrow> data_exn + rat" where
  "price_cell value =
     (case value of
        PyBool _ \<Rightarrow> Inl ValidationError
      | _ \<Rightarrow> (case float_of value of
               Some (Fin r) \<Rightarrow> Inr r
             | _ \<Rightarrow> Inl ValidationError))"

text \<open>\<^verbatim>\<open>volume = int(value)\<close> and \<^verbatim>\<open>value != volume\<close>: a number that is an integer.\<close>

definition volume_cell :: "pyval \<Rightarrow> data_exn + int" where
  "volume_cell value =
     (case value of
        PyBool _ \<Rightarrow> Inl ValidationError
      | _ \<Rightarrow> (case py_num value of
               Some r \<Rightarrow> if r = of_int \<lfloor>r\<rfloor> then Inr \<lfloor>r\<rfloor> else Inl ValidationError
             | None \<Rightarrow> Inl ValidationError))"

definition read_bar :: "raw_bar \<Rightarrow> data_exn + bar" where
  "read_bar row =
     rbind (session_cell (mbo_session row)) (\<lambda>session.
     rbind (price_cell (mbo_open row)) (\<lambda>open_price.
     rbind (price_cell (mbo_high row)) (\<lambda>high.
     rbind (price_cell (mbo_low row)) (\<lambda>low.
     rbind (price_cell (mbo_close row)) (\<lambda>close.
     rbind (volume_cell (mbo_volume row)) (\<lambda>volume.
     Inr \<lparr>mb_session = session, mb_open = open_price, mb_high = high, mb_low = low,
          mb_close = close, mb_volume = volume\<rparr>))))))"

definition compute_market_data_checksum ::
  "(bar list \<Rightarrow> string) \<Rightarrow> string list \<Rightarrow> raw_bar list \<Rightarrow> data_exn + bar list \<times> string" where
  "compute_market_data_checksum digest columns rows =
     rbind (reject_if (columns \<noteq> CANONICAL_COLUMNS) ValidationError) (\<lambda>_.
     rbind (map_results read_bar rows) (\<lambda>bars.
     Inr (bars, digest bars)))"

section \<open>Batches\<close>

record market_batch =
  md_bars :: "bar list"
  md_metadata :: market_metadata

definition mk_market_batch ::
  "(bar list \<Rightarrow> string) \<Rightarrow> string list \<Rightarrow> raw_bar list \<Rightarrow> market_metadata \<Rightarrow> data_exn + market_batch" where
  "mk_market_batch digest columns rows metadata =
     rbind (reject_if (columns \<noteq> CANONICAL_COLUMNS) ValidationError) (\<lambda>_.
     rbind (reject_if (rows = []) ValidationError) (\<lambda>_.
     rbind (reject_if (int (length rows) \<noteq> mm_row_count metadata) ValidationError) (\<lambda>_.
     rbind (session_cell (mbo_session (hd rows))) (\<lambda>first_session.
     rbind (session_cell (mbo_session (last rows))) (\<lambda>last_session.
     rbind (reject_if (first_session \<noteq> mm_first_session metadata) ValidationError) (\<lambda>_.
     rbind (reject_if (last_session \<noteq> mm_last_session metadata) ValidationError) (\<lambda>_.
     rbind (compute_market_data_checksum digest columns rows) (\<lambda>(bars, checksum).
     rbind (reject_if (checksum \<noteq> mm_dataset_checksum metadata) ValidationError) (\<lambda>_.
     Inr \<lparr>md_bars = bars, md_metadata = metadata\<rparr>)))))))))"

text \<open>What the constructor checks of the batch it returns.\<close>

definition wf_batch :: "(bar list \<Rightarrow> string) \<Rightarrow> market_batch \<Rightarrow> bool" where
  "wf_batch digest b \<longleftrightarrow>
     md_bars b \<noteq> [] \<and> int (length (md_bars b)) = mm_row_count (md_metadata b) \<and>
     mb_session (hd (md_bars b)) = mm_first_session (md_metadata b) \<and>
     mb_session (last (md_bars b)) = mm_last_session (md_metadata b) \<and>
     digest (md_bars b) = mm_dataset_checksum (md_metadata b)"

lemma session_cell_Inr [simp]: "session_cell v = Inr d \<longleftrightarrow> v = PyDate d"
  by (auto simp: session_cell_def split: pyval.splits)

lemma read_bar_session: "read_bar row = Inr x \<Longrightarrow> mbo_session row = PyDate (mb_session x)"
  by (auto simp: read_bar_def rbind_eq_Inr_iff)

lemma mk_market_batch_wf:
  assumes "mk_market_batch digest columns rows metadata = Inr b"
  shows "wf_batch digest b" and "md_metadata b = metadata"
    and "map mbo_session rows = map (PyDate \<circ> mb_session) (md_bars b)"
proof -
  from assms have ne: "rows \<noteq> []" and count: "int (length rows) = mm_row_count metadata"
    and ends: "mbo_session (hd rows) = PyDate (mm_first_session metadata)"
      "mbo_session (last rows) = PyDate (mm_last_session metadata)"
    and bars: "map_results read_bar rows = Inr (md_bars b)"
    and sum: "digest (md_bars b) = mm_dataset_checksum metadata" and meta: "md_metadata b = metadata"
    by (auto simp: mk_market_batch_def compute_market_data_checksum_def rbind_eq_Inr_iff)
  from bars have all: "list_all2 (\<lambda>x y. read_bar x = Inr y) rows (md_bars b)"
    by (simp add: map_results_Inr_iff)
  then have len: "length rows = length (md_bars b)" by (rule list_all2_lengthD)
  have nth: "mbo_session (rows ! i) = PyDate (mb_session (md_bars b ! i))" if "i < length rows" for i
    using list_all2_nthD [OF all that] by (rule read_bar_session)
  show "md_metadata b = metadata" by (rule meta)
  show "map mbo_session rows = map (PyDate \<circ> mb_session) (md_bars b)"
    using nth len by (auto intro: nth_equalityI)
  have ne': "md_bars b \<noteq> []" using ne len by auto
  have "mbo_session (hd rows) = PyDate (mb_session (hd (md_bars b)))"
    "mbo_session (last rows) = PyDate (mb_session (last (md_bars b)))"
    using nth [of 0] nth [of "length rows - 1"] ne ne' len by (simp_all add: hd_conv_nth last_conv_nth)
  then show "wf_batch digest b"
    using ne' count ends sum meta len by (simp add: wf_batch_def)
qed

end
