(* ===== verification/Data_Labels.thy ===== *)
theory Data_Labels
  imports Data_Market
begin

text \<open>
  The forward labels: the trading costs, the label timeline and the label set of
  \<^verbatim>\<open>datasets/models.py\<close>, and \<^verbatim>\<open>build_forward_label_set\<close> of \<^verbatim>\<open>datasets/labels.py\<close>, which looks one session ahead for
  the entry and six for the exit.
\<close>

definition LABEL_SCHEMA_VERSION :: string where
  "LABEL_SCHEMA_VERSION = ''spy-open-t1-to-open-t6-net-positive-v1''"

definition ENTRY_OFFSET_SESSIONS :: nat where "ENTRY_OFFSET_SESSIONS = 1"
definition EXIT_OFFSET_SESSIONS :: nat where "EXIT_OFFSET_SESSIONS = 6"

definition LABEL_COLUMNS :: "string list" where
  "LABEL_COLUMNS = [''session'', ''entry_session'', ''exit_session'', ''gross_forward_return'',
     ''net_forward_return'', ''target'']"

section \<open>Trading costs\<close>

record trading_costs =
  tc_commission_bps_per_side :: rat
  tc_slippage_bps_per_side :: rat

definition coerce_decimal :: "string \<Rightarrow> pyval \<Rightarrow> data_exn + rat" where
  "coerce_decimal field_name value =
     (case value of
        PyBool _ \<Rightarrow> Inl (TradingCostAssumptionError (''invalid_'' @ field_name))
      | _ \<Rightarrow> (case decimal_of value of
               None \<Rightarrow> Inl (TradingCostAssumptionError (''invalid_'' @ field_name))
             | Some (Fin r) \<Rightarrow>
                 if r < 0 then Inl (TradingCostAssumptionError (''negative_'' @ field_name)) else Inr r
             | Some _ \<Rightarrow> Inl (TradingCostAssumptionError (''non_finite_'' @ field_name))))"

definition mk_trading_costs :: "pyval \<Rightarrow> pyval \<Rightarrow> data_exn + trading_costs" where
  "mk_trading_costs commission slippage =
     rbind (coerce_decimal ''commission_bps_per_side'' commission) (\<lambda>c.
     rbind (coerce_decimal ''slippage_bps_per_side'' slippage) (\<lambda>s.
     Inr \<lparr>tc_commission_bps_per_side = c, tc_slippage_bps_per_side = s\<rparr>))"

definition side_cost_rate :: "trading_costs \<Rightarrow> rat" where
  "side_cost_rate costs =
     dec_div (dec_add (tc_commission_bps_per_side costs) (tc_slippage_bps_per_side costs)) 10000"

section \<open>The label timeline\<close>

record raw_label =
  lo_session :: pyval
  lo_entry_session :: pyval
  lo_exit_session :: pyval
  lo_gross_forward_return :: dec
  lo_net_forward_return :: dec
  lo_target :: "int option"

record label_frame =
  lf_columns :: "string list"
  lf_dtype :: "string \<Rightarrow> string"
  lf_rows :: "raw_label list"

record label =
  lb_session :: date
  lb_entry_session :: date
  lb_exit_session :: date
  lb_gross_forward_return :: rat
  lb_net_forward_return :: rat
  lb_target :: int

definition timeline_row :: "(string \<Rightarrow> 'e) \<Rightarrow> string \<Rightarrow> date \<times> date \<times> date \<Rightarrow> 'e + unit" where
  "timeline_row error_type prefix = (\<lambda>(session, entry_session, exit_session).
     if \<not> session < entry_session then Inl (error_type (prefix @ ''invalid_entry_session_timeline''))
     else if \<not> entry_session < exit_session
     then Inl (error_type (prefix @ ''invalid_exit_session_timeline''))
     else Inr ())"

text \<open>The loops over \<^verbatim>\<open>range(len(sessions) - offset)\<close>.\<close>

definition offset_matches :: "nat \<Rightarrow> date list \<Rightarrow> date list \<Rightarrow> bool" where
  "offset_matches offset later sessions \<longleftrightarrow>
     list_all (\<lambda>i. later ! i = sessions ! (i + offset)) [0..<length sessions - offset]"

definition validate_label_timeline ::
  "(string \<Rightarrow> 'e) \<Rightarrow> string \<Rightarrow> raw_label list \<Rightarrow> 'e + date list \<times> date list \<times> date list" where
  "validate_label_timeline error_type prefix rows =
     rbind (validate_strictly_increasing_sessions error_type ''session''
              (prefix @ ''duplicate_label_sessions'') (prefix @ ''unordered_label_sessions'')
              (map lo_session rows)) (\<lambda>sessions.
     rbind (validate_strictly_increasing_sessions error_type ''entry_session''
              (prefix @ ''duplicate_entry_sessions'') (prefix @ ''unordered_entry_sessions'')
              (map lo_entry_session rows)) (\<lambda>entry_sessions.
     rbind (validate_strictly_increasing_sessions error_type ''exit_session''
              (prefix @ ''duplicate_exit_sessions'') (prefix @ ''unordered_exit_sessions'')
              (map lo_exit_session rows)) (\<lambda>exit_sessions.
     rbind (check_all (timeline_row error_type prefix)
              (zip sessions (zip entry_sessions exit_sessions))) (\<lambda>_.
     rbind (reject_if (\<not> offset_matches ENTRY_OFFSET_SESSIONS entry_sessions sessions)
              (error_type (prefix @ ''entry_session_alignment_mismatch''))) (\<lambda>_.
     rbind (reject_if (\<not> offset_matches EXIT_OFFSET_SESSIONS exit_sessions sessions)
              (error_type (prefix @ ''exit_session_alignment_mismatch''))) (\<lambda>_.
     Inr (sessions, entry_sessions, exit_sessions)))))))"

text \<open>What the timeline promises of the labels it accepts.\<close>

definition timeline :: "label list \<Rightarrow> bool" where
  "timeline ls \<longleftrightarrow>
     increasing (map lb_session ls) \<and> increasing (map lb_entry_session ls) \<and>
     increasing (map lb_exit_session ls) \<and>
     (\<forall>l \<in> set ls. lb_session l < lb_entry_session l \<and> lb_entry_session l < lb_exit_session l) \<and>
     (\<forall>i. i + ENTRY_OFFSET_SESSIONS < length ls \<longrightarrow>
        lb_entry_session (ls ! i) = lb_session (ls ! (i + ENTRY_OFFSET_SESSIONS))) \<and>
     (\<forall>i. i + EXIT_OFFSET_SESSIONS < length ls \<longrightarrow>
        lb_exit_session (ls ! i) = lb_session (ls ! (i + EXIT_OFFSET_SESSIONS)))"

section \<open>Targets\<close>

definition integer_dtypes :: "string list" where
  "integer_dtypes = [''int8'', ''int16'', ''int32'', ''int64'', ''uint8'', ''uint16'', ''uint32'', ''uint64'',
     ''Int8'', ''Int16'', ''Int32'', ''Int64'', ''UInt8'', ''UInt16'', ''UInt32'', ''UInt64'']"

definition expected_target :: "dec \<Rightarrow> int" where
  "expected_target net_forward_return = (if fl_positive net_forward_return then 1 else 0)"

definition validate_target_consistency ::
  "(string \<Rightarrow> 'e) \<Rightarrow> string \<Rightarrow> string \<Rightarrow> string \<Rightarrow> string \<Rightarrow> string \<Rightarrow> raw_label list \<Rightarrow> 'e + unit" where
  "validate_target_consistency error_type dtype_code missing_code value_code consistency_code dtype rows =
     rbind (reject_if (list_ex (\<lambda>r. lo_target r = None) rows) (error_type missing_code)) (\<lambda>_.
     rbind (reject_if (dtype \<notin> set integer_dtypes) (error_type dtype_code)) (\<lambda>_.
     rbind (reject_if (list_ex (\<lambda>r. lo_target r \<noteq> Some 0 \<and> lo_target r \<noteq> Some 1) rows)
              (error_type value_code)) (\<lambda>_.
     reject_if (list_ex (\<lambda>r. lo_target r \<noteq> Some (expected_target (lo_net_forward_return r))) rows)
       (error_type consistency_code))))"

definition return_columns :: "raw_label list \<Rightarrow> (string \<times> dec list) list" where
  "return_columns rows =
     [(''gross_forward_return'', map lo_gross_forward_return rows),
      (''net_forward_return'', map lo_net_forward_return rows)]"

text \<open>The rows of a frame whose sessions are dates, returns finite and targets present.\<close>

fun date_cell :: "pyval \<Rightarrow> date" where
  "date_cell (PyDate d) = d"
| "date_cell _ = 0"

definition typed_label :: "raw_label \<Rightarrow> label" where
  "typed_label r =
     \<lparr>lb_session = date_cell (lo_session r), lb_entry_session = date_cell (lo_entry_session r),
      lb_exit_session = date_cell (lo_exit_session r),
      lb_gross_forward_return = the_float (lo_gross_forward_return r),
      lb_net_forward_return = the_float (lo_net_forward_return r),
      lb_target = the (lo_target r)\<rparr>"

definition label_row :: "label \<Rightarrow> raw_label" where
  "label_row l =
     \<lparr>lo_session = PyDate (lb_session l), lo_entry_session = PyDate (lb_entry_session l),
      lo_exit_session = PyDate (lb_exit_session l),
      lo_gross_forward_return = Fin (lb_gross_forward_return l),
      lo_net_forward_return = Fin (lb_net_forward_return l), lo_target = Some (lb_target l)\<rparr>"

definition label_target_ok :: "label \<Rightarrow> bool" where
  "label_target_ok l \<longleftrightarrow> lb_target l = (if 0 < lb_net_forward_return l then 1 else 0)"

definition canonical_label_dtype :: "string \<Rightarrow> string" where
  "canonical_label_dtype column =
     (if column = ''target'' then ''int64''
      else if column = ''gross_forward_return'' \<or> column = ''net_forward_return'' then ''float64''
      else ''object'')"

definition label_frame_of :: "label list \<Rightarrow> label_frame" where
  "label_frame_of ls =
     \<lparr>lf_columns = LABEL_COLUMNS, lf_dtype = canonical_label_dtype, lf_rows = map label_row ls\<rparr>"

section \<open>Label sets\<close>

record raw_label_set =
  lso_data :: label_frame
  lso_source_market_data_checksum :: pyval
  lso_source_schema_version :: pyval
  lso_label_schema_version :: pyval
  lso_entry_offset_sessions :: pyval
  lso_exit_offset_sessions :: pyval
  lso_cost_assumptions :: trading_costs
  lso_first_label_session :: pyval
  lso_last_label_session :: pyval
  lso_row_count :: pyval
  lso_source_rows_excluded :: pyval
  lso_created_at :: pyval

record label_set =
  ls_data :: "label list"
  ls_source_market_data_checksum :: string
  ls_source_schema_version :: string
  ls_label_schema_version :: string
  ls_cost_assumptions :: trading_costs
  ls_created_at :: instant

definition equals_int :: "pyval \<Rightarrow> nat \<Rightarrow> bool" where
  "equals_int value n \<longleftrightarrow> py_num value = Some (of_nat n)"

definition mk_label_set :: "raw_label_set \<Rightarrow> data_exn + label_set" where
  "mk_label_set obj =
     (let err = LabelConstructionError; data = lso_data obj; rows = lf_rows data in
     rbind (validate_checksum_text err ''source_market_data_checksum''
              (lso_source_market_data_checksum obj)) (\<lambda>checksum.
     rbind (reject_if (lso_source_schema_version obj \<noteq> PyStr SCHEMA_VERSION)
              (err ''invalid_source_schema_version'')) (\<lambda>_.
     rbind (reject_if (lso_label_schema_version obj \<noteq> PyStr LABEL_SCHEMA_VERSION)
              (err ''invalid_label_schema_version'')) (\<lambda>_.
     rbind (reject_if (\<not> equals_int (lso_entry_offset_sessions obj) ENTRY_OFFSET_SESSIONS)
              (err ''invalid_entry_offset'')) (\<lambda>_.
     rbind (reject_if (\<not> equals_int (lso_exit_offset_sessions obj) EXIT_OFFSET_SESSIONS)
              (err ''invalid_exit_offset'')) (\<lambda>_.
     rbind (reject_if (\<not> equals_int (lso_source_rows_excluded obj) EXIT_OFFSET_SESSIONS)
              (err ''invalid_label_horizon_exclusion_count'')) (\<lambda>_.
     rbind (aware_utc err ''created_at'' (lso_created_at obj)) (\<lambda>created_at.
     rbind (reject_if (lf_columns data \<noteq> LABEL_COLUMNS) (err ''invalid_label_columns'')) (\<lambda>_.
     rbind (reject_if (rows = []) (err ''empty_label_set'')) (\<lambda>_.
     rbind (reject_if (\<not> equals_int (lso_row_count obj) (length rows))
              (err ''label_row_count_mismatch'')) (\<lambda>_.
     rbind (validate_label_timeline err '''' rows) (\<lambda>(sessions, _, _).
     rbind (reject_if (lso_first_label_session obj \<noteq> PyDate (hd sessions))
              (err ''first_label_session_mismatch'')) (\<lambda>_.
     rbind (reject_if (lso_last_label_session obj \<noteq> PyDate (last sessions))
              (err ''last_label_session_mismatch'')) (\<lambda>_.
     rbind (validate_finite_float64_columns err ''invalid_label_return_dtype'' ''non_finite_label_return''
              (lf_dtype data) (return_columns rows)) (\<lambda>_.
     rbind (validate_target_consistency err ''invalid_target_dtype'' ''missing_target''
              ''invalid_target_values'' ''target_return_mismatch'' (lf_dtype data ''target'') rows) (\<lambda>_.
     Inr \<lparr>ls_data = map typed_label rows, ls_source_market_data_checksum = checksum,
          ls_source_schema_version = SCHEMA_VERSION, ls_label_schema_version = LABEL_SCHEMA_VERSION,
          ls_cost_assumptions = lso_cost_assumptions obj, ls_created_at = created_at\<rparr>))))))))))))))))"

section \<open>Building the labels\<close>

definition label_at :: "dec \<Rightarrow> bar list \<Rightarrow> nat \<Rightarrow> data_exn + raw_label" where
  "label_at cost_rate source index =
     (let entry_bar = source ! (index + ENTRY_OFFSET_SESSIONS);
          exit_bar = source ! (index + EXIT_OFFSET_SESSIONS);
          entry_open = Fin (mb_open entry_bar);
          exit_open = Fin (mb_open exit_bar);
          effective_entry_price = fl_mul entry_open (fl_add (Fin 1) cost_rate);
          effective_exit_price = fl_mul exit_open (fl_sub (Fin 1) cost_rate) in
     rbind (fl_div exit_open entry_open) (\<lambda>gross_ratio.
     rbind (fl_div effective_exit_price effective_entry_price) (\<lambda>net_ratio.
     let gross_forward_return = fl_sub gross_ratio (Fin 1);
         net_forward_return = fl_sub net_ratio (Fin 1) in
     rbind (reject_if (\<not> is_finite_float gross_forward_return \<or> \<not> is_finite_float net_forward_return)
              (LabelConstructionError ''non_finite_forward_return'')) (\<lambda>_.
     Inr \<lparr>lo_session = PyDate (mb_session (source ! index)),
          lo_entry_session = PyDate (mb_session entry_bar),
          lo_exit_session = PyDate (mb_session exit_bar),
          lo_gross_forward_return = gross_forward_return,
          lo_net_forward_return = net_forward_return,
          lo_target = Some (expected_target net_forward_return)\<rparr>))))"

definition build_forward_label_set ::
  "market_batch \<Rightarrow> trading_costs \<Rightarrow> pyval \<Rightarrow> data_exn + label_set" where
  "build_forward_label_set market_data costs created_at =
     (let source = md_bars market_data in
     rbind (reject_if (length source \<le> EXIT_OFFSET_SESSIONS)
              (LabelConstructionError ''insufficient_source_rows'')) (\<lambda>_.
     rbind (map_results (label_at (fl (side_cost_rate costs)) source)
              [0..<length source - EXIT_OFFSET_SESSIONS]) (\<lambda>records.
     mk_label_set
       \<lparr>lso_data = \<lparr>lf_columns = LABEL_COLUMNS, lf_dtype = canonical_label_dtype, lf_rows = records\<rparr>,
        lso_source_market_data_checksum = PyStr (mm_dataset_checksum (md_metadata market_data)),
        lso_source_schema_version = PyStr (mm_schema_version (md_metadata market_data)),
        lso_label_schema_version = PyStr LABEL_SCHEMA_VERSION,
        lso_entry_offset_sessions = PyInt (int ENTRY_OFFSET_SESSIONS),
        lso_exit_offset_sessions = PyInt (int EXIT_OFFSET_SESSIONS),
        lso_cost_assumptions = costs,
        lso_first_label_session = lo_session (hd records),
        lso_last_label_session = lo_session (last records),
        lso_row_count = PyInt (int (length records)),
        lso_source_rows_excluded = PyInt (int EXIT_OFFSET_SESSIONS),
        lso_created_at = created_at\<rparr>)))"

end
