(* ===== verification/Data_Label_Facts.thy ===== *)
theory Data_Label_Facts
  imports Data_Labels
begin

text \<open>
  What the label constructors accept, the frames they accept back, and the rows that
  \<^verbatim>\<open>build_forward_label_set\<close> builds.
\<close>

section \<open>The timeline\<close>

lemma offset_matches_iff:
  "offset_matches k later sessions \<longleftrightarrow> (\<forall>i. i + k < length sessions \<longrightarrow> later ! i = sessions ! (i + k))"
  by (auto simp: offset_matches_def list_all_iff less_diff_conv)

lemma timeline_row_Inr [simp]:
  "timeline_row et p (s, e, x) = Inr u \<longleftrightarrow> s < e \<and> e < x"
  by (auto simp: timeline_row_def)

lemma typed_label_sessions [simp]:
  "lb_session (typed_label r) = date_cell (lo_session r)"
  "lb_entry_session (typed_label r) = date_cell (lo_entry_session r)"
  "lb_exit_session (typed_label r) = date_cell (lo_exit_session r)"
  by (simp_all add: typed_label_def)

definition dated :: "raw_label \<Rightarrow> bool" where
  "dated r \<longleftrightarrow> lo_session r = PyDate (date_cell (lo_session r)) \<and>
     lo_entry_session r = PyDate (date_cell (lo_entry_session r)) \<and>
     lo_exit_session r = PyDate (date_cell (lo_exit_session r))"

lemma dates_of_cells:
  "map f rows = map PyDate ds \<longleftrightarrow>
     ds = map (\<lambda>r. date_cell (f r)) rows \<and> (\<forall>r \<in> set rows. f r = PyDate (date_cell (f r)))"
proof
  assume eq: "map f rows = map PyDate ds"
  then have len: "length rows = length ds" by (metis length_map)
  have nth: "f (rows ! i) = PyDate (ds ! i)" if "i < length rows" for i
    using arg_cong [OF eq, of "\<lambda>l. l ! i"] that len by simp
  show "ds = map (\<lambda>r. date_cell (f r)) rows \<and> (\<forall>r \<in> set rows. f r = PyDate (date_cell (f r)))"
    using nth len by (auto simp: in_set_conv_nth intro: nth_equalityI)
qed auto

lemma timeline_typed:
  "timeline (map typed_label rows) \<longleftrightarrow>
     increasing (map (\<lambda>r. date_cell (lo_session r)) rows) \<and>
     increasing (map (\<lambda>r. date_cell (lo_entry_session r)) rows) \<and>
     increasing (map (\<lambda>r. date_cell (lo_exit_session r)) rows) \<and>
     (\<forall>r \<in> set rows. date_cell (lo_session r) < date_cell (lo_entry_session r) \<and>
        date_cell (lo_entry_session r) < date_cell (lo_exit_session r)) \<and>
     offset_matches ENTRY_OFFSET_SESSIONS (map (\<lambda>r. date_cell (lo_entry_session r)) rows)
       (map (\<lambda>r. date_cell (lo_session r)) rows) \<and>
     offset_matches EXIT_OFFSET_SESSIONS (map (\<lambda>r. date_cell (lo_exit_session r)) rows)
       (map (\<lambda>r. date_cell (lo_session r)) rows)"
  by (simp add: timeline_def offset_matches_iff comp_def)

lemma timeline_rows_checked:
  "check_all (timeline_row et p) (zip (map a rows) (zip (map b rows) (map c rows))) = Inr u \<longleftrightarrow>
     (\<forall>r \<in> set rows. a r < b r \<and> b r < c r)"
  by (induction rows) (auto simp: rbind_eq_Inr_iff)

lemma validate_label_timeline_Inr:
  "validate_label_timeline et p rows = Inr (ss, es, xs) \<longleftrightarrow>
     list_all dated rows \<and> timeline (map typed_label rows) \<and>
     ss = map (\<lambda>r. date_cell (lo_session r)) rows \<and> es = map (\<lambda>r. date_cell (lo_entry_session r)) rows \<and>
     xs = map (\<lambda>r. date_cell (lo_exit_session r)) rows"
proof
  assume "validate_label_timeline et p rows = Inr (ss, es, xs)"
  then have cells: "map lo_session rows = map PyDate ss" "map lo_entry_session rows = map PyDate es"
      "map lo_exit_session rows = map PyDate xs" "increasing ss" "increasing es" "increasing xs"
    and checked: "check_all (timeline_row et p) (zip ss (zip es xs)) = Inr ()"
      "offset_matches ENTRY_OFFSET_SESSIONS es ss" "offset_matches EXIT_OFFSET_SESSIONS xs ss"
    unfolding validate_label_timeline_def by (auto elim!: rbind_InrE simp del: check_all_Inr)
  note dates = cells(1-3) [unfolded dates_of_cells]
  show "list_all dated rows \<and> timeline (map typed_label rows) \<and>
     ss = map (\<lambda>r. date_cell (lo_session r)) rows \<and> es = map (\<lambda>r. date_cell (lo_entry_session r)) rows \<and>
     xs = map (\<lambda>r. date_cell (lo_exit_session r)) rows"
    using dates cells(4-6) checked unfolding timeline_typed
    by (simp add: timeline_rows_checked dated_def list_all_iff del: check_all_Inr)
next
  assume typed: "list_all dated rows \<and> timeline (map typed_label rows) \<and>
     ss = map (\<lambda>r. date_cell (lo_session r)) rows \<and> es = map (\<lambda>r. date_cell (lo_entry_session r)) rows \<and>
     xs = map (\<lambda>r. date_cell (lo_exit_session r)) rows"
  then have "map lo_session rows = map PyDate ss" "map lo_entry_session rows = map PyDate es"
      "map lo_exit_session rows = map PyDate xs"
    by (simp_all add: dates_of_cells dated_def list_all_iff)
  then show "validate_label_timeline et p rows = Inr (ss, es, xs)"
    using typed [unfolded timeline_typed] unfolding validate_label_timeline_def rbind_eq_Inr_iff
    by (simp add: timeline_rows_checked del: check_all_Inr)
qed

lemma return_columns_all [simp]:
  "(\<forall>(name, cells) \<in> set (return_columns rows). dtype name = t \<and> list_all is_finite_float cells) \<longleftrightarrow>
     dtype ''gross_forward_return'' = t \<and> dtype ''net_forward_return'' = t \<and>
     (\<forall>r \<in> set rows. is_finite_float (lo_gross_forward_return r) \<and> is_finite_float (lo_net_forward_return r))"
  by (auto simp: return_columns_def list_all_iff)

lemma validate_target_Inr [simp]:
  "validate_target_consistency et c1 c2 c3 c4 dtype rows = Inr u \<longleftrightarrow>
     dtype \<in> set integer_dtypes \<and>
     (\<forall>r \<in> set rows. lo_target r = Some (expected_target (lo_net_forward_return r)))"
proof -
  have "lo_target r = Some (expected_target (lo_net_forward_return r)) \<Longrightarrow>
      lo_target r \<noteq> None \<and> (lo_target r = Some 0 \<or> lo_target r = Some 1)" for r
    by (auto simp: expected_target_def)
  then show ?thesis
    unfolding validate_target_consistency_def rbind_reject_eq_Inr reject_if_eq_Inr list_ex_iff
    by (auto simp: list_all_iff)
qed

section \<open>Label sets\<close>

definition wf_labels :: "label list \<Rightarrow> bool" where
  "wf_labels ls \<longleftrightarrow> timeline ls \<and> list_all label_target_ok ls"

lemma expected_target_Fin [simp]: "expected_target (Fin r) = (if 0 < r then 1 else 0)"
  by (simp add: expected_target_def)

lemma typed_label_target:
  "is_finite_float (lo_net_forward_return r) \<Longrightarrow>
     lo_target r = Some (expected_target (lo_net_forward_return r)) \<Longrightarrow> label_target_ok (typed_label r)"
  by (cases "lo_net_forward_return r") (simp_all add: label_target_ok_def typed_label_def)

lemma typed_label_row [simp]: "typed_label (label_row l) = l"
  by (simp add: typed_label_def label_row_def)

lemma label_row_simps [simp]:
  "lo_session (label_row l) = PyDate (lb_session l)"
  "lo_entry_session (label_row l) = PyDate (lb_entry_session l)"
  "lo_exit_session (label_row l) = PyDate (lb_exit_session l)"
  "lo_gross_forward_return (label_row l) = Fin (lb_gross_forward_return l)"
  "lo_net_forward_return (label_row l) = Fin (lb_net_forward_return l)"
  "lo_target (label_row l) = Some (lb_target l)" "dated (label_row l)"
  by (simp_all add: label_row_def dated_def)

lemma mk_label_set_Inr:
  assumes "mk_label_set obj = Inr l"
  shows "ls_data l = map typed_label (lf_rows (lso_data obj))" and "wf_labels (ls_data l)"
    and "ls_data l \<noteq> []" and "is_checksum (ls_source_market_data_checksum l)"
    and "ls_source_schema_version l = SCHEMA_VERSION" and "ls_label_schema_version l = LABEL_SCHEMA_VERSION"
    and "lso_source_market_data_checksum obj = PyStr (ls_source_market_data_checksum l)"
proof -
  let ?rows = "lf_rows (lso_data obj)"
  from assms have facts: "ls_data l = map typed_label ?rows" "?rows \<noteq> []" "timeline (map typed_label ?rows)"
    "\<forall>r \<in> set ?rows. is_finite_float (lo_net_forward_return r) \<and>
       lo_target r = Some (expected_target (lo_net_forward_return r))"
    and meta: "is_checksum (ls_source_market_data_checksum l)" "ls_source_schema_version l = SCHEMA_VERSION"
      "ls_label_schema_version l = LABEL_SCHEMA_VERSION"
      "lso_source_market_data_checksum obj = PyStr (ls_source_market_data_checksum l)"
    unfolding mk_label_set_def Let_def
    by (auto simp: rbind_eq_Inr_iff validate_label_timeline_Inr)
  show "ls_data l = map typed_label ?rows" "ls_data l \<noteq> []" using facts(1,2) by simp_all
  show "wf_labels (ls_data l)"
    using facts by (auto simp: wf_labels_def list_all_iff typed_label_target)
  show "is_checksum (ls_source_market_data_checksum l)" "ls_source_schema_version l = SCHEMA_VERSION"
    "ls_label_schema_version l = LABEL_SCHEMA_VERSION"
    "lso_source_market_data_checksum obj = PyStr (ls_source_market_data_checksum l)"
    by (fact meta)+
qed

section \<open>Comparing floats\<close>

definition is_float :: "rat \<Rightarrow> bool" where
  "is_float r \<longleftrightarrow> float_round r = r \<and> \<bar>r\<bar> < float_limit"

lemma is_float_one: "is_float 1" and is_float_zero: "is_float 0"
  by (simp_all add: is_float_def binary64.one binary64.zero float_limit_def)

lemma fl_at_least:
  assumes "y \<le> x" "is_float y"
  shows "fl x = Infinite False \<or> (\<exists>r. fl x = Fin r \<and> y \<le> r)"
proof -
  have le: "y \<le> float_round x" and y: "- float_limit < y"
    using assms binary64.fixed_le [OF assms(1)] by (auto simp: is_float_def abs_less_iff)
  show ?thesis
  proof (cases "float_limit \<le> \<bar>float_round x\<bar>")
    case True
    then have "\<not> float_round x < 0" using le y by (simp add: abs_if split: if_splits)
    with True show ?thesis by (simp add: fl_def Let_def)
  next
    case False
    then show ?thesis using le by (simp add: fl_def Let_def)
  qed
qed

lemma float_limit_pos: "0 < float_limit"
  by (simp add: float_limit_def)

lemma fl_neg_fl: "fl_neg (fl x) = fl (- x)"
  using float_limit_pos by (auto simp: fl_def Let_def binary64.odd)

lemma fl_at_most:
  assumes "x \<le> y" "is_float y"
  shows "fl x = Infinite True \<or> (\<exists>r. fl x = Fin r \<and> r \<le> y)"
proof -
  have "is_float (- y)" using assms(2) by (simp add: is_float_def binary64.odd)
  from fl_at_least [OF _ this, of "- x"] assms(1) float_limit_pos show ?thesis
    by (auto simp: fl_def Let_def binary64.odd split: if_splits)
qed

text \<open>The price a side pays or gets after costs.\<close>

lemma price_with_costs:
  assumes "0 \<le> y" "is_float y" "0 \<le> c"
  shows "fl_mul (Fin y) (fl_add (Fin 1) (fl c)) = Infinite False \<or>
         (\<exists>r. fl_mul (Fin y) (fl_add (Fin 1) (fl c)) = Fin r \<and> y \<le> r) \<or> y = 0"
proof -
  from fl_at_least [OF assms(3) is_float_zero] consider "fl c = Infinite False" | c' where "fl c = Fin c'" "0 \<le> c'"
    by blast
  then show ?thesis
  proof cases
    case 1
    then show ?thesis using assms(1) by simp
  next
    case 2
    from 2(2) fl_at_least [OF _ is_float_one, of "1 + c'"]
    consider "fl (1 + c') = Infinite False" | m where "fl (1 + c') = Fin m" "1 \<le> m" by auto
    then show ?thesis
    proof cases
      case 1
      then show ?thesis using 2(1) assms(1) by simp
    next
      case m: 2
      have "y \<le> y * m" using assms(1) m(2) by (simp add: mult_le_cancel_left1)
      from fl_at_least [OF this assms(2)] show ?thesis using 2(1) m(1) by auto
    qed
  qed
qed

lemma price_after_costs:
  assumes "0 < y" "is_float y" "0 \<le> c"
  shows "fl_mul (Fin y) (fl_sub (Fin 1) (fl c)) = Infinite True \<or>
         (\<exists>r. fl_mul (Fin y) (fl_sub (Fin 1) (fl c)) = Fin r \<and> r \<le> y)"
proof -
  from fl_at_least [OF assms(3) is_float_zero] consider "fl c = Infinite False" | c' where "fl c = Fin c'" "0 \<le> c'"
    by blast
  then show ?thesis
  proof cases
    case 1
    then show ?thesis using assms(1) by (simp add: fl_sub_def)
  next
    case 2
    from 2(2) fl_at_most [OF _ is_float_one, of "1 - c'"]
    consider "fl (1 - c') = Infinite True" | m where "fl (1 - c') = Fin m" "m \<le> 1" by auto
    then show ?thesis
    proof cases
      case 1
      then show ?thesis using 2(1) assms(1) by (simp add: fl_sub_def)
    next
      case m: 2
      have "y * m \<le> y" using assms(1) m(2) by (simp add: mult_le_cancel_left2)
      from fl_at_most [OF this assms(2)] show ?thesis using 2(1) m(1) by (simp add: fl_sub_def)
    qed
  qed
qed

lemma ratio_above_one:
  assumes "fl_sub (fl_quotient (Fin x) (Fin y)) (Fin 1) = Fin r" "0 < r" "0 < y"
  shows "y < x"
proof -
  obtain q where q: "fl (x / y) = Fin q" "fl (q - 1) = Fin r"
    using assms(1) by (cases "fl (x / y)") (auto simp: fl_sub_def)
  have "0 < float_round (q - 1)" using fl_Fin [OF q(2)] assms(2) by simp
  then have "1 < q" using binary64.posD [of "q - 1"] by simp
  then have "1 < x / y" using binary64.gt_oneD fl_Fin [OF q(1)] by simp
  then show ?thesis using assms(3) by (simp add: less_divide_eq)
qed

section \<open>Building\<close>

lemma label_at_Inr:
  assumes "label_at c source i = Inr r"
  shows "lo_session r = PyDate (mb_session (source ! i))"
    and "lo_entry_session r = PyDate (mb_session (source ! (i + ENTRY_OFFSET_SESSIONS)))"
    and "lo_exit_session r = PyDate (mb_session (source ! (i + EXIT_OFFSET_SESSIONS)))"
    and "is_finite_float (lo_gross_forward_return r)" and "is_finite_float (lo_net_forward_return r)"
    and "lo_target r = Some (expected_target (lo_net_forward_return r))"
  using assms by (auto simp: label_at_def Let_def rbind_eq_Inr_iff)

lemma effective_entry_not_zero:
  assumes "0 < y" "is_float y" "0 \<le> c"
  shows "fl_mul (Fin y) (fl_add (Fin 1) (fl c)) \<noteq> Fin 0"
  using price_with_costs [of y c] assms by auto

lemma label_at_Inl:
  assumes "0 < mb_open (source ! (i + ENTRY_OFFSET_SESSIONS))"
    "is_float (mb_open (source ! (i + ENTRY_OFFSET_SESSIONS)))" "0 \<le> c"
    "label_at (fl c) source i = Inl e"
  shows "e = LabelConstructionError ''non_finite_forward_return''"
  using assms(4) assms(1) effective_entry_not_zero [OF assms(1-3)]
  by (auto simp: label_at_def Let_def fl_div_def rbind_eq_Inl_iff)

lemma label_target_price:
  assumes entry: "0 < mb_open (source ! (i + ENTRY_OFFSET_SESSIONS))"
      "is_float (mb_open (source ! (i + ENTRY_OFFSET_SESSIONS)))"
    and exit: "0 < mb_open (source ! (i + EXIT_OFFSET_SESSIONS))"
      "is_float (mb_open (source ! (i + EXIT_OFFSET_SESSIONS)))"
    and "0 \<le> c" and r: "label_at (fl c) source i = Inr r" "lo_target r = Some 1"
  shows "mb_open (source ! (i + ENTRY_OFFSET_SESSIONS)) < mb_open (source ! (i + EXIT_OFFSET_SESSIONS))"
proof -
  define y where "y = mb_open (source ! (i + ENTRY_OFFSET_SESSIONS))"
  define x where "x = mb_open (source ! (i + EXIT_OFFSET_SESSIONS))"
  define paid where "paid = fl_mul (Fin y) (fl_add (Fin 1) (fl c))"
  define got where "got = fl_mul (Fin x) (fl_sub (Fin 1) (fl c))"
  have net: "lo_net_forward_return r = fl_sub (fl_quotient got paid) (Fin 1)"
    "is_finite_float (fl_sub (fl_quotient got paid) (Fin 1))"
    using r(1) by (auto simp: label_at_def Let_def fl_div_def rbind_eq_Inr_iff paid_def got_def x_def y_def
        split: if_splits)
  then obtain n where n: "fl_sub (fl_quotient got paid) (Fin 1) = Fin n" "0 < n"
    using r(2) label_at_Inr(6) [OF r(1)] by (auto simp: is_finite_float_iff split: if_splits)
  have "paid = Infinite False \<or> (\<exists>p. paid = Fin p \<and> y \<le> p)"
    using price_with_costs [of y c] entry \<open>0 \<le> c\<close> by (auto simp: paid_def y_def)
  moreover have "got = Infinite True \<or> (\<exists>g. got = Fin g \<and> g \<le> x)"
    using price_after_costs [of x c] exit \<open>0 \<le> c\<close> by (simp add: got_def x_def)
  moreover have "fl_sub (Fin 0) (Fin 1) = Fin (- 1)"
    using float_limit_pos by (simp add: fl_sub_def fl_def Let_def binary64.odd binary64.one float_limit_def)
  ultimately obtain p g where pg: "paid = Fin p" "y \<le> p" "got = Fin g" "g \<le> x"
    using n by (auto simp: fl_sub_def)
  with ratio_above_one [of g p n] n entry show ?thesis by (simp add: x_def y_def)
qed

lemma map_results_upt:
  "map_results f [0..<n] = Inr ys \<longleftrightarrow> length ys = n \<and> (\<forall>i < n. f i = Inr (ys ! i))"
  by (auto simp: map_results_Inr_iff list_all2_conv_all_nth)

lemma build_labels_Inr:
  assumes "build_forward_label_set md costs created = Inr l"
  obtains records where "length (md_bars md) = length records + EXIT_OFFSET_SESSIONS"
    and "\<And>i. i < length records \<Longrightarrow> label_at (fl (side_cost_rate costs)) (md_bars md) i = Inr (records ! i)"
    and "ls_data l = map typed_label records" and "wf_labels (ls_data l)"
    and "ls_source_market_data_checksum l = mm_dataset_checksum (md_metadata md)"
    and "mm_schema_version (md_metadata md) = SCHEMA_VERSION"
proof -
  from assms obtain records where long: "\<not> length (md_bars md) \<le> EXIT_OFFSET_SESSIONS"
    and records: "map_results (label_at (fl (side_cost_rate costs)) (md_bars md))
        [0..<length (md_bars md) - EXIT_OFFSET_SESSIONS] = Inr records"
    and l: "mk_label_set
       \<lparr>lso_data = \<lparr>lf_columns = LABEL_COLUMNS, lf_dtype = canonical_label_dtype, lf_rows = records\<rparr>,
        lso_source_market_data_checksum = PyStr (mm_dataset_checksum (md_metadata md)),
        lso_source_schema_version = PyStr (mm_schema_version (md_metadata md)),
        lso_label_schema_version = PyStr LABEL_SCHEMA_VERSION,
        lso_entry_offset_sessions = PyInt (int ENTRY_OFFSET_SESSIONS),
        lso_exit_offset_sessions = PyInt (int EXIT_OFFSET_SESSIONS),
        lso_cost_assumptions = costs,
        lso_first_label_session = lo_session (hd records),
        lso_last_label_session = lo_session (last records),
        lso_row_count = PyInt (int (length records)),
        lso_source_rows_excluded = PyInt (int EXIT_OFFSET_SESSIONS),
        lso_created_at = created\<rparr> = Inr l"
    unfolding build_forward_label_set_def Let_def rbind_reject_eq_Inr by (auto elim: rbind_InrE)
  note L = mk_label_set_Inr [OF l]
  have schema: "mm_schema_version (md_metadata md) = SCHEMA_VERSION"
    using l unfolding mk_label_set_def Let_def by (auto elim!: rbind_InrE)
  show thesis
  proof (rule that)
    show "length (md_bars md) = length records + EXIT_OFFSET_SESSIONS"
      using records long by (simp add: map_results_upt)
    show "label_at (fl (side_cost_rate costs)) (md_bars md) i = Inr (records ! i)"
      if "i < length records" for i
      using records that by (simp add: map_results_upt)
    show "ls_data l = map typed_label records" "wf_labels (ls_data l)" using L(1,2) by simp_all
    show "ls_source_market_data_checksum l = mm_dataset_checksum (md_metadata md)" using L(7) by simp
  qed (rule schema)
qed

end
