(* ===== verification/Data_Supervised.thy ===== *)
theory Data_Supervised
  imports Data_Label_Facts
begin

text \<open>
  \<^verbatim>\<open>FeatureSet\<close> of \<^verbatim>\<open>features/models.py\<close>, and the supervised dataset of \<^verbatim>\<open>datasets/models.py\<close>: its metadata, its
  constructor and \<^verbatim>\<open>build_supervised_dataset\<close>, which joins features and labels on their sessions. The
  feature values themselves (\<^verbatim>\<open>features/engineering.py\<close>, pandas rolling windows) are not computed here: they are cells of the frame.
\<close>

definition FEATURE_SCHEMA_VERSION :: string where
  "FEATURE_SCHEMA_VERSION = ''spy-daily-features-v1''"

definition FEATURE_COLUMNS :: "string list" where
  "FEATURE_COLUMNS = [''close_return_1d'', ''close_return_5d'', ''close_return_20d'', ''overnight_gap_1d'',
     ''intraday_return_1d'', ''range_pct_1d'', ''close_to_sma_5'', ''close_to_sma_20'',
     ''realized_volatility_5'', ''realized_volatility_20'', ''log_volume_change_1d'',
     ''log_volume_deviation_20'']"

definition FEATURE_FRAME_COLUMNS :: "string list" where
  "FEATURE_FRAME_COLUMNS = ''session'' # FEATURE_COLUMNS"

definition TRAILING_WARMUP_ROWS :: nat where "TRAILING_WARMUP_ROWS = 20"

definition FORBIDDEN_MODEL_FEATURE_COLUMNS :: "string list" where
  "FORBIDDEN_MODEL_FEATURE_COLUMNS = [''entry_session'', ''exit_session'', ''gross_forward_return'',
     ''net_forward_return'', ''target'']"

section \<open>Feature frames\<close>

text \<open>A row has a session and one float cell per feature column, in the order of the columns.\<close>

record raw_feature_row =
  fro_session :: pyval
  fro_values :: "dec list"

record feature_frame =
  ff_columns :: "string list"
  ff_dtype :: "string \<Rightarrow> string"
  ff_rows :: "raw_feature_row list"

record feature_row =
  fr_session :: date
  fr_values :: "rat list"

definition feature_columns_of :: "raw_feature_row list \<Rightarrow> (string \<times> dec list) list" where
  "feature_columns_of rows =
     map (\<lambda>k. (FEATURE_COLUMNS ! k, map (\<lambda>r. fro_values r ! k) rows)) [0..<length FEATURE_COLUMNS]"

definition typed_feature_row :: "raw_feature_row \<Rightarrow> feature_row" where
  "typed_feature_row r =
     \<lparr>fr_session = date_cell (fro_session r),
      fr_values = map (\<lambda>k. the_float (fro_values r ! k)) [0..<length FEATURE_COLUMNS]\<rparr>"

definition raw_feature_row_of :: "feature_row \<Rightarrow> raw_feature_row" where
  "raw_feature_row_of r = \<lparr>fro_session = PyDate (fr_session r), fro_values = map Fin (fr_values r)\<rparr>"

definition feature_frame_of :: "feature_row list \<Rightarrow> feature_frame" where
  "feature_frame_of rows =
     \<lparr>ff_columns = FEATURE_FRAME_COLUMNS,
      ff_dtype = (\<lambda>column. if column = ''session'' then ''object'' else ''float64''),
      ff_rows = map raw_feature_row_of rows\<rparr>"

definition require_python_int :: "(string \<Rightarrow> data_exn) \<Rightarrow> string \<Rightarrow> pyval \<Rightarrow> data_exn + int" where
  "require_python_int error_type code value =
     (case value of PyInt i \<Rightarrow> Inr i | _ \<Rightarrow> Inl (error_type code))"

lemma require_python_int_Inr [simp]: "require_python_int et c v = Inr i \<longleftrightarrow> v = PyInt i"
  by (auto simp: require_python_int_def split: pyval.splits)

section \<open>Feature sets\<close>

record raw_feature_set =
  fso_data :: feature_frame
  fso_source_market_data_checksum :: pyval
  fso_source_schema_version :: pyval
  fso_feature_schema_version :: pyval
  fso_feature_columns :: "string list"
  fso_first_feature_session :: pyval
  fso_last_feature_session :: pyval
  fso_row_count :: pyval
  fso_trailing_warmup_rows_excluded :: pyval
  fso_created_at :: pyval

record feature_set =
  fs_data :: "feature_row list"
  fs_source_market_data_checksum :: string
  fs_source_schema_version :: string
  fs_feature_schema_version :: string
  fs_feature_columns :: "string list"
  fs_created_at :: instant

definition mk_feature_set :: "raw_feature_set \<Rightarrow> data_exn + feature_set" where
  "mk_feature_set obj =
     (let err = FeatureEngineeringError; data = fso_data obj; rows = ff_rows data in
     rbind (validate_checksum_text err ''source_market_data_checksum''
              (fso_source_market_data_checksum obj)) (\<lambda>checksum.
     rbind (reject_if (fso_source_schema_version obj \<noteq> PyStr SCHEMA_VERSION)
              (err ''invalid_source_schema_version'')) (\<lambda>_.
     rbind (reject_if (fso_feature_schema_version obj \<noteq> PyStr FEATURE_SCHEMA_VERSION)
              (err ''invalid_feature_schema_version'')) (\<lambda>_.
     rbind (reject_if (fso_feature_columns obj \<noteq> FEATURE_COLUMNS) (err ''invalid_feature_columns'')) (\<lambda>_.
     rbind (require_python_int err ''invalid_row_count'' (fso_row_count obj)) (\<lambda>row_count.
     rbind (reject_if (\<not> equals_int (fso_trailing_warmup_rows_excluded obj) TRAILING_WARMUP_ROWS)
              (err ''invalid_warmup_row_count'')) (\<lambda>_.
     rbind (aware_utc err ''created_at'' (fso_created_at obj)) (\<lambda>created_at.
     rbind (reject_if (ff_columns data \<noteq> FEATURE_FRAME_COLUMNS)
              (err ''invalid_feature_frame_columns'')) (\<lambda>_.
     rbind (reject_if (rows = []) (err ''empty_feature_set'')) (\<lambda>_.
     rbind (reject_if (int (length rows) \<noteq> row_count) (err ''feature_row_count_mismatch'')) (\<lambda>_.
     rbind (validate_strictly_increasing_sessions err ''session'' ''duplicate_feature_sessions''
              ''unordered_feature_sessions'' (map fro_session rows)) (\<lambda>sessions.
     rbind (reject_if (fso_first_feature_session obj \<noteq> PyDate (hd sessions))
              (err ''first_feature_session_mismatch'')) (\<lambda>_.
     rbind (reject_if (fso_last_feature_session obj \<noteq> PyDate (last sessions))
              (err ''last_feature_session_mismatch'')) (\<lambda>_.
     rbind (validate_finite_float64_columns err ''invalid_feature_dtype'' ''undefined_feature_value''
              (ff_dtype data) (feature_columns_of rows)) (\<lambda>_.
     Inr \<lparr>fs_data = map typed_feature_row rows, fs_source_market_data_checksum = checksum,
          fs_source_schema_version = SCHEMA_VERSION,
          fs_feature_schema_version = FEATURE_SCHEMA_VERSION,
          fs_feature_columns = FEATURE_COLUMNS, fs_created_at = created_at\<rparr>)))))))))))))))"

section \<open>Metadata of a supervised dataset\<close>

record raw_dataset_metadata =
  dmo_source_market_data_checksum :: pyval
  dmo_source_schema_version :: pyval
  dmo_feature_schema_version :: pyval
  dmo_label_schema_version :: pyval
  dmo_feature_columns :: "string list"
  dmo_row_count :: pyval
  dmo_first_session :: pyval
  dmo_last_session :: pyval
  dmo_created_at :: pyval

record dataset_metadata =
  dm_source_market_data_checksum :: string
  dm_source_schema_version :: string
  dm_feature_schema_version :: string
  dm_label_schema_version :: string
  dm_feature_columns :: "string list"
  dm_row_count :: int
  dm_first_session :: date
  dm_last_session :: date
  dm_created_at :: instant

definition mk_dataset_metadata :: "raw_dataset_metadata \<Rightarrow> data_exn + dataset_metadata" where
  "mk_dataset_metadata obj =
     (let err = DatasetAlignmentError in
     rbind (validate_checksum_text err ''source_market_data_checksum''
              (dmo_source_market_data_checksum obj)) (\<lambda>checksum.
     rbind (reject_if (dmo_source_schema_version obj \<noteq> PyStr SCHEMA_VERSION)
              (err ''invalid_source_schema_version'')) (\<lambda>_.
     rbind (reject_if (dmo_feature_schema_version obj \<noteq> PyStr FEATURE_SCHEMA_VERSION)
              (err ''invalid_feature_schema_version'')) (\<lambda>_.
     rbind (reject_if (dmo_label_schema_version obj \<noteq> PyStr LABEL_SCHEMA_VERSION)
              (err ''invalid_label_schema_version'')) (\<lambda>_.
     rbind (reject_if (dmo_feature_columns obj \<noteq> FEATURE_COLUMNS) (err ''invalid_feature_columns'')) (\<lambda>_.
     rbind (require_python_int err ''invalid_row_count'' (dmo_row_count obj)) (\<lambda>row_count.
     rbind (plain_date_of err ''first_session'' (dmo_first_session obj)) (\<lambda>first_session.
     rbind (plain_date_of err ''last_session'' (dmo_last_session obj)) (\<lambda>last_session.
     rbind (reject_if (row_count \<le> 0) (err ''empty_supervised_dataset'')) (\<lambda>_.
     rbind (reject_if (last_session < first_session) (err ''invalid_supervised_session_bounds'')) (\<lambda>_.
     rbind (aware_utc err ''created_at'' (dmo_created_at obj)) (\<lambda>created_at.
     Inr \<lparr>dm_source_market_data_checksum = checksum, dm_source_schema_version = SCHEMA_VERSION,
          dm_feature_schema_version = FEATURE_SCHEMA_VERSION,
          dm_label_schema_version = LABEL_SCHEMA_VERSION, dm_feature_columns = FEATURE_COLUMNS,
          dm_row_count = row_count, dm_first_session = first_session, dm_last_session = last_session,
          dm_created_at = created_at\<rparr>))))))))))))"

section \<open>Supervised datasets\<close>

record supervised_dataset =
  sd_features :: "feature_row list"
  sd_labels :: "label list"
  sd_metadata :: dataset_metadata

definition mk_supervised_dataset ::
  "feature_frame \<Rightarrow> label_frame \<Rightarrow> dataset_metadata \<Rightarrow> data_exn + supervised_dataset" where
  "mk_supervised_dataset features labels metadata =
     (let err = DatasetAlignmentError in
     rbind (reject_if (ff_columns features \<noteq> ''session'' # dm_feature_columns metadata)
              (err ''invalid_supervised_feature_columns'')) (\<lambda>_.
     rbind (reject_if (list_ex (\<lambda>c. c \<in> set FORBIDDEN_MODEL_FEATURE_COLUMNS) (ff_columns features))
              (err ''future_or_target_column_in_features'')) (\<lambda>_.
     rbind (reject_if (lf_columns labels \<noteq> LABEL_COLUMNS) (err ''invalid_supervised_label_columns'')) (\<lambda>_.
     rbind (reject_if (length (ff_rows features) \<noteq> length (lf_rows labels))
              (err ''feature_label_row_count_mismatch'')) (\<lambda>_.
     rbind (reject_if (int (length (ff_rows features)) \<noteq> dm_row_count metadata)
              (err ''metadata_row_count_mismatch'')) (\<lambda>_.
     rbind (reject_if (ff_rows features = []) (err ''empty_supervised_dataset'')) (\<lambda>_.
     rbind (validate_strictly_increasing_sessions err ''session'' ''duplicate_supervised_feature_sessions''
              ''unordered_supervised_feature_sessions'' (map fro_session (ff_rows features))) (\<lambda>feature_sessions.
     rbind (validate_label_timeline err ''supervised_'' (lf_rows labels)) (\<lambda>(label_sessions, _, _).
     rbind (reject_if (feature_sessions \<noteq> label_sessions) (err ''feature_label_session_mismatch'')) (\<lambda>_.
     rbind (reject_if (hd feature_sessions \<noteq> dm_first_session metadata)
              (err ''metadata_first_session_mismatch'')) (\<lambda>_.
     rbind (reject_if (last feature_sessions \<noteq> dm_last_session metadata)
              (err ''metadata_last_session_mismatch'')) (\<lambda>_.
     rbind (validate_finite_float64_columns err ''invalid_supervised_feature_dtype''
              ''non_finite_supervised_feature'' (ff_dtype features) (feature_columns_of (ff_rows features))) (\<lambda>_.
     rbind (validate_finite_float64_columns err ''invalid_supervised_label_return_dtype''
              ''non_finite_supervised_label_return'' (lf_dtype labels) (return_columns (lf_rows labels))) (\<lambda>_.
     rbind (validate_target_consistency err ''invalid_supervised_target_dtype'' ''missing_supervised_target''
              ''invalid_supervised_target_values'' ''supervised_target_return_mismatch''
              (lf_dtype labels ''target'') (lf_rows labels)) (\<lambda>_.
     Inr \<lparr>sd_features = map typed_feature_row (ff_rows features),
          sd_labels = map typed_label (lf_rows labels), sd_metadata = metadata\<rparr>)))))))))))))))"

text \<open>\<^verbatim>\<open>label_by_session.loc[list(common_sessions)]\<close>: the label of each session, in the order of the list.\<close>

definition label_of_session :: "label list \<Rightarrow> date \<Rightarrow> label option" where
  "label_of_session labels session = List.find (\<lambda>l. lb_session l = session) labels"

definition build_supervised_dataset ::
  "feature_set \<Rightarrow> label_set \<Rightarrow> pyval \<Rightarrow> data_exn + supervised_dataset" where
  "build_supervised_dataset feature_set label_set created_at =
     (let err = DatasetAlignmentError;
          feature_sessions = map fr_session (fs_data feature_set);
          label_sessions = map lb_session (ls_data label_set);
          common_sessions = filter (\<lambda>s. s \<in> set label_sessions) feature_sessions;
          within_label_span = filter (\<lambda>s. hd label_sessions \<le> s \<and> s \<le> last label_sessions) feature_sessions;
          within_feature_span = filter (\<lambda>s. hd feature_sessions \<le> s \<and> s \<le> last feature_sessions) label_sessions in
     rbind (reject_if (fs_source_market_data_checksum feature_set \<noteq> ls_source_market_data_checksum label_set)
              (err ''source_checksum_mismatch'')) (\<lambda>_.
     rbind (reject_if (fs_source_schema_version feature_set \<noteq> ls_source_schema_version label_set)
              (err ''source_schema_version_mismatch'')) (\<lambda>_.
     rbind (reject_if (common_sessions = []) (err ''no_common_feature_label_sessions'')) (\<lambda>_.
     rbind (reject_if (common_sessions \<noteq> within_label_span) (err ''missing_labels_for_feature_sessions'')) (\<lambda>_.
     rbind (reject_if (common_sessions \<noteq> within_feature_span) (err ''extra_labels_inside_feature_span'')) (\<lambda>_.
     let aligned_features = filter (\<lambda>r. fr_session r \<in> set common_sessions) (fs_data feature_set);
         aligned_labels = map (\<lambda>s. the (label_of_session (ls_data label_set) s)) common_sessions in
     rbind (mk_dataset_metadata
       \<lparr>dmo_source_market_data_checksum = PyStr (fs_source_market_data_checksum feature_set),
        dmo_source_schema_version = PyStr (fs_source_schema_version feature_set),
        dmo_feature_schema_version = PyStr (fs_feature_schema_version feature_set),
        dmo_label_schema_version = PyStr (ls_label_schema_version label_set),
        dmo_feature_columns = fs_feature_columns feature_set,
        dmo_row_count = PyInt (int (length aligned_features)),
        dmo_first_session = PyDate (fr_session (hd aligned_features)),
        dmo_last_session = PyDate (fr_session (last aligned_features)),
        dmo_created_at = created_at\<rparr>) (\<lambda>metadata.
     mk_supervised_dataset (feature_frame_of aligned_features) (label_frame_of aligned_labels) metadata)))))))"

end
