(* ===== verification/Data_Splits.thy ===== *)
theory Data_Splits
  imports Data_Supervised
begin

text \<open>
  \<^verbatim>\<open>datasets/splits.py\<close>: the chronological split specification, the partitions with their metadata, and
  \<^verbatim>\<open>split_supervised_dataset\<close>, which purges every row whose label reaches past the end of its partition.
\<close>

definition PARTITION_NAMES :: "string list" where
  "PARTITION_NAMES = [''train'', ''validation'', ''test'']"

section \<open>Split specifications\<close>

record raw_split_spec =
  sso_train_start :: pyval
  sso_train_end :: pyval
  sso_validation_start :: pyval
  sso_validation_end :: pyval
  sso_test_start :: pyval
  sso_test_end :: pyval

record split_spec =
  ss_train_start :: date
  ss_train_end :: date
  ss_validation_start :: date
  ss_validation_end :: date
  ss_test_start :: date
  ss_test_end :: date

definition split_issues :: "split_spec \<Rightarrow> string list" where
  "split_issues s =
     (if ss_train_end s < ss_train_start s then [''invalid_train_bounds''] else []) @
     (if ss_validation_start s \<le> ss_train_end s then [''train_validation_overlap''] else []) @
     (if ss_validation_end s < ss_validation_start s then [''invalid_validation_bounds''] else []) @
     (if ss_test_start s \<le> ss_validation_end s then [''validation_test_overlap''] else []) @
     (if ss_test_end s < ss_test_start s then [''invalid_test_bounds''] else [])"

definition mk_split_spec :: "raw_split_spec \<Rightarrow> data_exn + split_spec" where
  "mk_split_spec obj =
     (let err = (\<lambda>code. InvalidSplitSpecError [code]) in
     rbind (plain_date_of err ''train_start_session'' (sso_train_start obj)) (\<lambda>train_start.
     rbind (plain_date_of err ''train_end_session'' (sso_train_end obj)) (\<lambda>train_end.
     rbind (plain_date_of err ''validation_start_session'' (sso_validation_start obj)) (\<lambda>validation_start.
     rbind (plain_date_of err ''validation_end_session'' (sso_validation_end obj)) (\<lambda>validation_end.
     rbind (plain_date_of err ''test_start_session'' (sso_test_start obj)) (\<lambda>test_start.
     rbind (plain_date_of err ''test_end_session'' (sso_test_end obj)) (\<lambda>test_end.
     let spec = \<lparr>ss_train_start = train_start, ss_train_end = train_end,
                 ss_validation_start = validation_start, ss_validation_end = validation_end,
                 ss_test_start = test_start, ss_test_end = test_end\<rparr>
     in if split_issues spec \<noteq> [] then Inl (InvalidSplitSpecError (split_issues spec))
        else Inr spec)))))))"

definition wf_split :: "split_spec \<Rightarrow> bool" where
  "wf_split s \<longleftrightarrow>
     ss_train_start s \<le> ss_train_end s \<and> ss_train_end s < ss_validation_start s \<and>
     ss_validation_start s \<le> ss_validation_end s \<and> ss_validation_end s < ss_test_start s \<and>
     ss_test_start s \<le> ss_test_end s"

lemma split_issues_Nil [simp]: "split_issues s = [] \<longleftrightarrow> wf_split s"
  by (auto simp: split_issues_def wf_split_def)

lemma mk_split_spec_wf: "mk_split_spec obj = Inr s \<Longrightarrow> wf_split s"
  by (auto simp: mk_split_spec_def Let_def rbind_eq_Inr_iff split: if_splits)

definition partition_bounds :: "split_spec \<Rightarrow> string \<Rightarrow> data_exn + date \<times> date" where
  "partition_bounds spec name =
     (if name = ''train'' then Inr (ss_train_start spec, ss_train_end spec)
      else if name = ''validation'' then Inr (ss_validation_start spec, ss_validation_end spec)
      else if name = ''test'' then Inr (ss_test_start spec, ss_test_end spec)
      else Inl (DatasetSplitError ''invalid_partition_name''))"

section \<open>Partition metadata\<close>

record raw_partition_metadata =
  pmo_name :: string
  pmo_included_row_count :: pyval
  pmo_first_feature_session :: pyval
  pmo_last_feature_session :: pyval
  pmo_first_exit_session :: pyval
  pmo_last_exit_session :: pyval
  pmo_rows_excluded_boundary_crossing :: pyval
  pmo_split_spec :: split_spec
  pmo_source_market_data_checksum :: pyval
  pmo_source_schema_version :: pyval
  pmo_feature_schema_version :: pyval
  pmo_label_schema_version :: pyval
  pmo_feature_columns :: "string list"

record partition_metadata =
  pm_name :: string
  pm_included_row_count :: int
  pm_first_feature_session :: date
  pm_last_feature_session :: date
  pm_first_exit_session :: date
  pm_last_exit_session :: date
  pm_rows_excluded_boundary_crossing :: int
  pm_split_spec :: split_spec
  pm_source_market_data_checksum :: string

definition mk_partition_metadata :: "raw_partition_metadata \<Rightarrow> data_exn + partition_metadata" where
  "mk_partition_metadata obj =
     (let err = DatasetSplitError in
     rbind (reject_if (pmo_name obj \<notin> set PARTITION_NAMES) (err ''invalid_partition_name'')) (\<lambda>_.
     rbind (plain_date_of err ''first_feature_session'' (pmo_first_feature_session obj)) (\<lambda>first_feature.
     rbind (plain_date_of err ''last_feature_session'' (pmo_last_feature_session obj)) (\<lambda>last_feature.
     rbind (plain_date_of err ''first_exit_session'' (pmo_first_exit_session obj)) (\<lambda>first_exit.
     rbind (plain_date_of err ''last_exit_session'' (pmo_last_exit_session obj)) (\<lambda>last_exit.
     rbind (validate_checksum_text err ''source_market_data_checksum''
              (pmo_source_market_data_checksum obj)) (\<lambda>checksum.
     rbind (reject_if (pmo_source_schema_version obj \<noteq> PyStr SCHEMA_VERSION)
              (err ''invalid_partition_source_schema_version'')) (\<lambda>_.
     rbind (reject_if (pmo_feature_schema_version obj \<noteq> PyStr FEATURE_SCHEMA_VERSION)
              (err ''invalid_partition_feature_schema_version'')) (\<lambda>_.
     rbind (reject_if (pmo_label_schema_version obj \<noteq> PyStr LABEL_SCHEMA_VERSION)
              (err ''invalid_partition_label_schema_version'')) (\<lambda>_.
     rbind (reject_if (pmo_feature_columns obj \<noteq> FEATURE_COLUMNS)
              (err ''invalid_partition_feature_columns'')) (\<lambda>_.
     rbind (require_python_int err ''invalid_partition_included_row_count''
              (pmo_included_row_count obj)) (\<lambda>included_row_count.
     rbind (require_python_int err ''invalid_partition_boundary_exclusion_count''
              (pmo_rows_excluded_boundary_crossing obj)) (\<lambda>boundary_exclusions.
     rbind (reject_if (included_row_count \<le> 0)
              (EmptySplitError (''empty_'' @ pmo_name obj @ ''_partition''))) (\<lambda>_.
     rbind (reject_if (boundary_exclusions < 0)
              (err ''negative_partition_boundary_exclusion_count'')) (\<lambda>_.
     rbind (reject_if (last_feature < first_feature) (err ''invalid_partition_feature_bounds'')) (\<lambda>_.
     rbind (reject_if (last_exit < first_exit) (err ''invalid_partition_exit_bounds'')) (\<lambda>_.
     Inr \<lparr>pm_name = pmo_name obj, pm_included_row_count = included_row_count,
          pm_first_feature_session = first_feature, pm_last_feature_session = last_feature,
          pm_first_exit_session = first_exit, pm_last_exit_session = last_exit,
          pm_rows_excluded_boundary_crossing = boundary_exclusions,
          pm_split_spec = pmo_split_spec obj,
          pm_source_market_data_checksum = checksum\<rparr>)))))))))))))))))"

section \<open>Partitions\<close>

record dataset_partition =
  dp_features :: "feature_row list"
  dp_labels :: "label list"
  dp_metadata :: partition_metadata

definition mk_partition ::
  "feature_frame \<Rightarrow> label_frame \<Rightarrow> partition_metadata \<Rightarrow> data_exn + dataset_partition" where
  "mk_partition features labels metadata =
     (let err = DatasetSplitError in
     rbind (reject_if (ff_columns features \<noteq> FEATURE_FRAME_COLUMNS)
              (err ''invalid_partition_feature_schema'')) (\<lambda>_.
     rbind (reject_if (lf_columns labels \<noteq> LABEL_COLUMNS) (err ''invalid_partition_label_schema'')) (\<lambda>_.
     rbind (reject_if (length (ff_rows features) \<noteq> length (lf_rows labels))
              (err ''partition_feature_label_count_mismatch'')) (\<lambda>_.
     rbind (reject_if (int (length (ff_rows features)) \<noteq> pm_included_row_count metadata)
              (err ''partition_metadata_count_mismatch'')) (\<lambda>_.
     rbind (partition_bounds (pm_split_spec metadata) (pm_name metadata)) (\<lambda>(start_session, end_session).
     rbind (validate_strictly_increasing_sessions err ''session'' ''duplicate_partition_feature_sessions''
              ''unordered_partition_feature_sessions'' (map fro_session (ff_rows features))) (\<lambda>feature_sessions.
     rbind (validate_label_timeline err ''partition_'' (lf_rows labels)) (\<lambda>(label_sessions, _, exit_sessions).
     rbind (reject_if (feature_sessions \<noteq> label_sessions) (err ''partition_session_mismatch'')) (\<lambda>_.
     rbind (validate_finite_float64_columns err ''invalid_partition_feature_dtype''
              ''non_finite_partition_feature'' (ff_dtype features) (feature_columns_of (ff_rows features))) (\<lambda>_.
     rbind (validate_finite_float64_columns err ''invalid_partition_label_return_dtype''
              ''non_finite_partition_label_return'' (lf_dtype labels) (return_columns (lf_rows labels))) (\<lambda>_.
     rbind (validate_target_consistency err ''invalid_partition_target_dtype'' ''missing_partition_target''
              ''invalid_partition_target_values'' ''partition_target_return_mismatch''
              (lf_dtype labels ''target'') (lf_rows labels)) (\<lambda>_.
     rbind (reject_if (hd feature_sessions \<noteq> pm_first_feature_session metadata)
              (err ''partition_first_feature_session_mismatch'')) (\<lambda>_.
     rbind (reject_if (last feature_sessions \<noteq> pm_last_feature_session metadata)
              (err ''partition_last_feature_session_mismatch'')) (\<lambda>_.
     rbind (reject_if (hd exit_sessions \<noteq> pm_first_exit_session metadata)
              (err ''partition_first_exit_session_mismatch'')) (\<lambda>_.
     rbind (reject_if (last exit_sessions \<noteq> pm_last_exit_session metadata)
              (err ''partition_last_exit_session_mismatch'')) (\<lambda>_.
     rbind (reject_if (list_ex (\<lambda>s. s < start_session) feature_sessions)
              (err ''partition_feature_before_start'')) (\<lambda>_.
     rbind (reject_if (list_ex (\<lambda>s. end_session < s) feature_sessions)
              (err ''partition_feature_after_end'')) (\<lambda>_.
     rbind (reject_if (list_ex (\<lambda>s. end_session < s) exit_sessions)
              (err ''partition_exit_after_end'')) (\<lambda>_.
     Inr \<lparr>dp_features = map typed_feature_row (ff_rows features),
          dp_labels = map typed_label (lf_rows labels), dp_metadata = metadata\<rparr>)))))))))))))))))))"

record chronological_partitions =
  cp_train :: dataset_partition
  cp_validation :: dataset_partition
  cp_test :: dataset_partition
  cp_split_spec :: split_spec

definition check_partition :: "split_spec \<Rightarrow> string \<times> dataset_partition \<Rightarrow> data_exn + unit" where
  "check_partition spec = (\<lambda>(expected_name, p).
     rbind (reject_if (pm_name (dp_metadata p) \<noteq> expected_name)
              (DatasetSplitError ''incorrect_partition_name'')) (\<lambda>_.
     reject_if (pm_split_spec (dp_metadata p) \<noteq> spec) (DatasetSplitError ''partition_split_spec_mismatch'')))"

definition mk_partitions ::
  "dataset_partition \<Rightarrow> dataset_partition \<Rightarrow> dataset_partition \<Rightarrow> split_spec \<Rightarrow> data_exn + chronological_partitions" where
  "mk_partitions train validation test spec =
     rbind (check_all (check_partition spec)
              [(''train'', train), (''validation'', validation), (''test'', test)]) (\<lambda>_.
     rbind (reject_if (\<not> distinct (map lb_session (dp_labels train) @
                map lb_session (dp_labels validation) @ map lb_session (dp_labels test)))
              (DatasetSplitError ''partition_session_overlap'')) (\<lambda>_.
     Inr \<lparr>cp_train = train, cp_validation = validation, cp_test = test, cp_split_spec = spec\<rparr>))"

section \<open>Splitting\<close>

definition included_in :: "date \<Rightarrow> date \<Rightarrow> label \<Rightarrow> bool" where
  "included_in start_session end_session l \<longleftrightarrow>
     start_session \<le> lb_session l \<and> lb_session l \<le> end_session \<and> lb_exit_session l \<le> end_session"

definition crossing_in :: "date \<Rightarrow> date \<Rightarrow> label \<Rightarrow> bool" where
  "crossing_in start_session end_session l \<longleftrightarrow>
     (start_session \<le> lb_session l \<and> lb_session l \<le> end_session) \<and> end_session < lb_exit_session l"

definition build_partition ::
  "supervised_dataset \<Rightarrow> split_spec \<Rightarrow> string \<Rightarrow> date \<Rightarrow> date \<Rightarrow> data_exn + dataset_partition" where
  "build_partition d spec name start_session end_session =
     (let err = DatasetSplitError;
          included = included_in start_session end_session;
          partition_features = map fst (filter (\<lambda>(f, l). included l) (zip (sd_features d) (sd_labels d)));
          partition_labels = filter included (sd_labels d);
          crossing = filter (crossing_in start_session end_session) (sd_labels d) in
     rbind (reject_if (partition_features = []) (EmptySplitError (''empty_'' @ name @ ''_partition''))) (\<lambda>_.
     rbind (validate_strictly_increasing_sessions err ''session'' (name @ ''_duplicate_feature_sessions'')
              (name @ ''_unordered_feature_sessions'')
              (map (PyDate \<circ> fr_session) partition_features)) (\<lambda>feature_sessions.
     rbind (validate_label_timeline err (name @ ''_'') (map label_row partition_labels)) (\<lambda>(_, _, exit_sessions).
     rbind (reject_if (list_ex (\<lambda>s. end_session < s) feature_sessions)
              (err (name @ ''_feature_after_end''))) (\<lambda>_.
     rbind (reject_if (list_ex (\<lambda>s. end_session < s) exit_sessions)
              (err (name @ ''_exit_boundary_crossing''))) (\<lambda>_.
     rbind (reject_if (list_ex (\<lambda>s. s < start_session) feature_sessions)
              (err (name @ ''_feature_before_start''))) (\<lambda>_.
     rbind (reject_if (map fr_session partition_features \<noteq> map lb_session partition_labels)
              (err (name @ ''_partition_alignment_failed''))) (\<lambda>_.
     rbind (mk_partition_metadata
       \<lparr>pmo_name = name, pmo_included_row_count = PyInt (int (length partition_features)),
        pmo_first_feature_session = PyDate (fr_session (hd partition_features)),
        pmo_last_feature_session = PyDate (fr_session (last partition_features)),
        pmo_first_exit_session = PyDate (hd exit_sessions),
        pmo_last_exit_session = PyDate (last exit_sessions),
        pmo_rows_excluded_boundary_crossing = PyInt (int (length crossing)),
        pmo_split_spec = spec,
        pmo_source_market_data_checksum = PyStr (dm_source_market_data_checksum (sd_metadata d)),
        pmo_source_schema_version = PyStr (dm_source_schema_version (sd_metadata d)),
        pmo_feature_schema_version = PyStr (dm_feature_schema_version (sd_metadata d)),
        pmo_label_schema_version = PyStr (dm_label_schema_version (sd_metadata d)),
        pmo_feature_columns = dm_feature_columns (sd_metadata d)\<rparr>) (\<lambda>metadata.
     mk_partition (feature_frame_of partition_features) (label_frame_of partition_labels) metadata)))))))))"

definition split_supervised_dataset ::
  "supervised_dataset \<Rightarrow> split_spec \<Rightarrow> data_exn + chronological_partitions" where
  "split_supervised_dataset d spec =
     rbind (build_partition d spec ''train'' (ss_train_start spec) (ss_train_end spec)) (\<lambda>train.
     rbind (build_partition d spec ''validation'' (ss_validation_start spec) (ss_validation_end spec)) (\<lambda>validation.
     rbind (build_partition d spec ''test'' (ss_test_start spec) (ss_test_end spec)) (\<lambda>test.
     mk_partitions train validation test spec)))"

end
