(* ===== verification/Model_Values.thy ===== *)
theory Model_Values
  imports Data_Splits
begin

text \<open>
  \<^verbatim>\<open>modeling/models.py\<close>, first part: the prediction sets, the classification metrics, the metric snapshots and the
  rule that chooses between the two candidate models. The fields have their declared types, so the checks that only reject
  values of another type are left out; floats may be infinite or NaN and a datetime may be naive, and are checked.
\<close>

section \<open>Constants\<close>

definition MODEL_SCHEMA_VERSION :: string where "MODEL_SCHEMA_VERSION = ''spy-binary-models-v1''"

definition MODEL_SELECTION_RULE_VERSION :: string where
  "MODEL_SELECTION_RULE_VERSION = ''validation-roc-auc-log-loss-brier-v1''"

definition LOGISTIC_REGRESSION_MODEL :: string where "LOGISTIC_REGRESSION_MODEL = ''logistic_regression''"
definition GRADIENT_BOOSTING_MODEL :: string where "GRADIENT_BOOSTING_MODEL = ''gradient_boosting''"

definition MODEL_NAMES :: "string list" where
  "MODEL_NAMES = [LOGISTIC_REGRESSION_MODEL, GRADIENT_BOOSTING_MODEL]"

definition PREDICTION_COLUMNS :: "string list" where
  "PREDICTION_COLUMNS = [''session'', ''probability_positive'', ''predicted_class'', ''target'']"

text \<open>The literals \<^verbatim>\<open>1e-12\<close> and \<^verbatim>\<open>1e-15\<close>, read as binary64.\<close>

definition SELECTION_TIE_TOLERANCE :: rat where
  "SELECTION_TIE_TOLERANCE = float_round (1 / 1000000000000)"

definition RATE_TOLERANCE :: rat where
  "RATE_TOLERANCE = float_round (1 / 1000000000000000)"

section \<open>Validators\<close>

definition validate_model_name :: "(string \<Rightarrow> data_exn) \<Rightarrow> string \<Rightarrow> data_exn + string" where
  "validate_model_name error_type value =
     (if value \<notin> set MODEL_NAMES then Inl (error_type ''invalid_model_name'') else Inr value)"

definition validate_partition_name :: "(string \<Rightarrow> data_exn) \<Rightarrow> string \<Rightarrow> data_exn + string" where
  "validate_partition_name error_type value =
     (if value \<notin> set PARTITION_NAMES then Inl (error_type ''invalid_partition_name'') else Inr value)"

definition validate_int :: "(string \<Rightarrow> data_exn) \<Rightarrow> string \<Rightarrow> int \<Rightarrow> int \<Rightarrow> data_exn + int" where
  "validate_int error_type code minimum value =
     (if value < minimum then Inl (error_type code) else Inr value)"

definition validate_finite_float :: "(string \<Rightarrow> data_exn) \<Rightarrow> string \<Rightarrow> dec \<Rightarrow> data_exn + rat" where
  "validate_finite_float error_type code value =
     (case value of Fin r \<Rightarrow> Inr r | _ \<Rightarrow> Inl (error_type code))"

text \<open>A threshold is a finite float strictly between 0 and 1.\<close>

definition validate_threshold :: "(string \<Rightarrow> data_exn) \<Rightarrow> string \<Rightarrow> dec \<Rightarrow> data_exn + rat" where
  "validate_threshold error_type code value =
     rbind (validate_finite_float error_type code value) (\<lambda>threshold.
     rbind (reject_if (\<not> (0 < threshold \<and> threshold < 1)) (error_type code)) (\<lambda>_. Inr threshold))"

definition validate_runtime_sklearn_version :: "string \<Rightarrow> (string \<Rightarrow> data_exn) \<Rightarrow> string \<Rightarrow> data_exn + string" where
  "validate_runtime_sklearn_version sklearn_version error_type value =
     rbind (reject_if (strip value = []) (error_type ''invalid_sklearn_version'')) (\<lambda>_.
     rbind (reject_if (value \<noteq> sklearn_version) (error_type ''sklearn_version_mismatch'')) (\<lambda>_. Inr value))"

definition validate_binary_integer_series ::
  "(string \<Rightarrow> data_exn) \<Rightarrow> string \<Rightarrow> string \<Rightarrow> string \<Rightarrow> string \<Rightarrow> int option list \<Rightarrow> data_exn + int list" where
  "validate_binary_integer_series error_type missing_code dtype_code value_code dtype values =
     rbind (reject_if (list_ex (\<lambda>v. v = None) values) (error_type missing_code)) (\<lambda>_.
     rbind (reject_if (dtype \<notin> set integer_dtypes) (error_type dtype_code)) (\<lambda>_.
     rbind (reject_if (\<not> set (map the values) \<subseteq> {0, 1}) (error_type value_code)) (\<lambda>_.
     Inr (map the values))))"

lemma model_validators_Inr [simp]:
  "validate_model_name et n = Inr n' \<longleftrightarrow> n \<in> set MODEL_NAMES \<and> n' = n"
  "validate_partition_name et n = Inr n' \<longleftrightarrow> n \<in> set PARTITION_NAMES \<and> n' = n"
  "validate_int et c m i = Inr i' \<longleftrightarrow> m \<le> i \<and> i' = i"
  "validate_finite_float et c d = Inr r \<longleftrightarrow> d = Fin r"
  "validate_threshold et c d = Inr r \<longleftrightarrow> d = Fin r \<and> 0 < r \<and> r < 1"
  "validate_runtime_sklearn_version sk et v = Inr v' \<longleftrightarrow> strip v \<noteq> [] \<and> v = sk \<and> v' = v"
  "validate_binary_integer_series et c1 c2 c3 dtype vs = Inr is \<longleftrightarrow>
     vs = map Some is \<and> dtype \<in> set integer_dtypes \<and> set is \<subseteq> {0, 1}"
proof -
  show "validate_model_name et n = Inr n' \<longleftrightarrow> n \<in> set MODEL_NAMES \<and> n' = n"
    "validate_partition_name et n = Inr n' \<longleftrightarrow> n \<in> set PARTITION_NAMES \<and> n' = n"
    "validate_int et c m i = Inr i' \<longleftrightarrow> m \<le> i \<and> i' = i"
    "validate_finite_float et c d = Inr r \<longleftrightarrow> d = Fin r"
    by (auto simp: validate_model_name_def validate_partition_name_def validate_int_def validate_finite_float_def
        split: dec.splits)
  then show "validate_threshold et c d = Inr r \<longleftrightarrow> d = Fin r \<and> 0 < r \<and> r < 1"
    by (auto simp: validate_threshold_def rbind_eq_Inr_iff validate_finite_float_def split: dec.splits)
  show "validate_runtime_sklearn_version sk et v = Inr v' \<longleftrightarrow> strip v \<noteq> [] \<and> v = sk \<and> v' = v"
    by (auto simp: validate_runtime_sklearn_version_def rbind_eq_Inr_iff)
  have "\<not> list_ex (\<lambda>v. v = None) vs \<longleftrightarrow> vs = map Some (map the vs)"
    by (induction vs) auto
  then show "validate_binary_integer_series et c1 c2 c3 dtype vs = Inr is \<longleftrightarrow>
     vs = map Some is \<and> dtype \<in> set integer_dtypes \<and> set is \<subseteq> {0, 1}"
    by (auto simp: validate_binary_integer_series_def rbind_eq_Inr_iff comp_def subset_iff) blast
qed

section \<open>Prediction sets\<close>

record prediction_row =
  pn_session :: pyval
  pn_probability_positive :: dec
  pn_predicted_class :: "int option"
  pn_target :: "int option"

record prediction_frame =
  pf_columns :: "string list"
  pf_dtype :: "string \<Rightarrow> string"
  pf_rows :: "prediction_row list"

record prediction_set =
  ps_model_name :: string
  ps_partition_name :: string
  ps_data :: prediction_frame
  ps_diagnostic_classification_threshold :: dec
  ps_row_count :: int
  ps_first_session :: date
  ps_last_session :: date
  ps_created_at :: pyval

definition check_probability :: "dec \<Rightarrow> data_exn + unit" where
  "check_probability probability =
     (case probability of
        Fin p \<Rightarrow> reject_if (\<not> (0 \<le> p \<and> p \<le> 1)) (ModelEvaluationError ''probability_out_of_bounds'')
      | _ \<Rightarrow> Inl (ModelEvaluationError ''non_finite_probability''))"

definition expected_class :: "rat \<Rightarrow> rat \<Rightarrow> int" where
  "expected_class threshold probability = (if threshold \<le> probability then 1 else 0)"

definition mk_prediction_set :: "prediction_set \<Rightarrow> data_exn + prediction_set" where
  "mk_prediction_set p =
     (let err = ModelEvaluationError; data = ps_data p; rows = pf_rows data in
     rbind (validate_model_name err (ps_model_name p)) (\<lambda>_.
     rbind (validate_partition_name err (ps_partition_name p)) (\<lambda>_.
     rbind (validate_threshold err ''invalid_prediction_threshold''
              (ps_diagnostic_classification_threshold p)) (\<lambda>threshold.
     rbind (validate_int err ''invalid_prediction_row_count'' 1 (ps_row_count p)) (\<lambda>row_count.
     rbind (aware_utc err ''created_at'' (ps_created_at p)) (\<lambda>_.
     rbind (reject_if (pf_columns data \<noteq> PREDICTION_COLUMNS) (err ''invalid_prediction_columns'')) (\<lambda>_.
     rbind (reject_if (int (length rows) \<noteq> row_count) (err ''prediction_row_count_mismatch'')) (\<lambda>_.
     rbind (validate_strictly_increasing_sessions err ''session'' ''duplicate_prediction_sessions''
              ''unordered_prediction_sessions'' (map pn_session rows)) (\<lambda>sessions.
     rbind (reject_if (hd sessions \<noteq> ps_first_session p \<or> last sessions \<noteq> ps_last_session p)
              (err ''prediction_session_bounds_mismatch'')) (\<lambda>_.
     rbind (reject_if (pf_dtype data ''probability_positive'' \<noteq> ''float64'')
              (err ''invalid_probability_dtype'')) (\<lambda>_.
     rbind (check_all check_probability (map pn_probability_positive rows)) (\<lambda>_.
     rbind (validate_binary_integer_series err ''missing_predicted_class'' ''invalid_predicted_class_dtype''
              ''invalid_predicted_class_values'' (pf_dtype data ''predicted_class'')
              (map pn_predicted_class rows)) (\<lambda>predicted_values.
     rbind (validate_binary_integer_series err ''missing_prediction_target'' ''invalid_prediction_target_dtype''
              ''invalid_prediction_target_values'' (pf_dtype data ''target'') (map pn_target rows)) (\<lambda>_.
     rbind (check_all (\<lambda>(probability, predicted).
                reject_if (predicted \<noteq> expected_class threshold (the_float probability))
                  (err ''prediction_threshold_mismatch''))
              (zip (map pn_probability_positive rows) predicted_values)) (\<lambda>_.
     Inr p)))))))))))))))"

definition prediction_target_counts :: "prediction_set \<Rightarrow> int \<times> int \<times> int" where
  "prediction_target_counts p =
     (let target_values = map (the \<circ> pn_target) (pf_rows (ps_data p));
          row_count = int (length target_values); positive_count = sum_list target_values
      in (row_count, positive_count, row_count - positive_count))"

section \<open>Classification metrics\<close>

record classification_metrics =
  cm_model_name :: string
  cm_partition_name :: string
  cm_diagnostic_classification_threshold :: dec
  cm_row_count :: int
  cm_positive_count :: int
  cm_negative_count :: int
  cm_positive_rate :: dec
  cm_log_loss :: dec
  cm_brier_score :: dec
  cm_roc_auc :: dec
  cm_average_precision :: dec
  cm_accuracy_at_0_5 :: dec
  cm_precision_at_0_5 :: dec
  cm_recall_at_0_5 :: dec
  cm_f1_at_0_5 :: dec
  cm_true_negative_count :: int
  cm_false_positive_count :: int
  cm_false_negative_count :: int
  cm_true_positive_count :: int
  cm_created_at :: pyval

definition float_fields :: "classification_metrics \<Rightarrow> (string \<times> dec) list" where
  "float_fields m =
     [(''positive_rate'', cm_positive_rate m), (''log_loss'', cm_log_loss m), (''brier_score'', cm_brier_score m),
      (''roc_auc'', cm_roc_auc m), (''average_precision'', cm_average_precision m),
      (''accuracy_at_0_5'', cm_accuracy_at_0_5 m), (''precision_at_0_5'', cm_precision_at_0_5 m),
      (''recall_at_0_5'', cm_recall_at_0_5 m), (''f1_at_0_5'', cm_f1_at_0_5 m)]"

definition count_fields :: "classification_metrics \<Rightarrow> (string \<times> int) list" where
  "count_fields m =
     [(''row_count'', cm_row_count m), (''positive_count'', cm_positive_count m),
      (''negative_count'', cm_negative_count m), (''true_negative_count'', cm_true_negative_count m),
      (''false_positive_count'', cm_false_positive_count m), (''false_negative_count'', cm_false_negative_count m),
      (''true_positive_count'', cm_true_positive_count m)]"

text \<open>\<^verbatim>\<open>math.isclose(a, b, rel_tol=0.0, abs_tol=1e-15)\<close> on finite floats.\<close>

definition is_close :: "rat \<Rightarrow> rat \<Rightarrow> bool" where
  "is_close a b \<longleftrightarrow> a = b \<or>
     (case fl (a - b) of Fin d \<Rightarrow> \<bar>d\<bar> \<le> RATE_TOLERANCE | _ \<Rightarrow> False)"

definition mk_classification_metrics :: "classification_metrics \<Rightarrow> data_exn + classification_metrics" where
  "mk_classification_metrics m =
     (let err = ModelEvaluationError in
     rbind (validate_model_name err (cm_model_name m)) (\<lambda>_.
     rbind (validate_partition_name err (cm_partition_name m)) (\<lambda>_.
     rbind (validate_threshold err ''invalid_metric_threshold'' (cm_diagnostic_classification_threshold m)) (\<lambda>_.
     rbind (map_results (\<lambda>(name, value). validate_int err (''invalid_'' @ name) 0 value) (count_fields m)) (\<lambda>_.
     rbind (reject_if (cm_row_count m \<le> 0) (err ''empty_metric_result'')) (\<lambda>_.
     rbind (reject_if (cm_positive_count m + cm_negative_count m \<noteq> cm_row_count m)
              (err ''class_count_mismatch'')) (\<lambda>_.
     rbind (reject_if (cm_positive_count m \<le> 0 \<or> cm_negative_count m \<le> 0)
              (err ''single_class_metric_result'')) (\<lambda>_.
     rbind (reject_if (cm_true_negative_count m + cm_false_positive_count m + cm_false_negative_count m +
                cm_true_positive_count m \<noteq> cm_row_count m) (err ''confusion_count_mismatch'')) (\<lambda>_.
     rbind (reject_if (cm_true_negative_count m + cm_false_positive_count m \<noteq> cm_negative_count m)
              (err ''negative_confusion_count_mismatch'')) (\<lambda>_.
     rbind (reject_if (cm_false_negative_count m + cm_true_positive_count m \<noteq> cm_positive_count m)
              (err ''positive_confusion_count_mismatch'')) (\<lambda>_.
     rbind (map_results (\<lambda>(name, value). validate_finite_float err (''invalid_'' @ name) value)
              (float_fields m)) (\<lambda>_.
     rbind (reject_if (\<not> is_close (the_float (cm_positive_rate m))
                (float_round (of_int (cm_positive_count m) / of_int (cm_row_count m))))
              (err ''positive_rate_mismatch'')) (\<lambda>_.
     rbind (reject_if (the_float (cm_log_loss m) < 0) (err ''negative_log_loss'')) (\<lambda>_.
     rbind (check_all (\<lambda>(name, value).
                reject_if (\<not> (0 \<le> the_float value \<and> the_float value \<le> 1)) (err (name @ ''_out_of_bounds'')))
              (filter (\<lambda>(name, _). name \<noteq> ''log_loss'') (float_fields m))) (\<lambda>_.
     rbind (aware_utc err ''created_at'' (cm_created_at m)) (\<lambda>_.
     Inr m))))))))))))))))"

end
