(* ===== verification/Model_Selection.thy ===== *)
theory Model_Selection
  imports Model_Values
begin

text \<open>
  \<^verbatim>\<open>modeling/models.py\<close>, second part, and \<^verbatim>\<open>modeling/selection.py\<close>: the fixed parameters, the candidate results and
  the locked selection, which is revalidated from its own metric snapshots wherever it is used.
  The type \<open>'est\<close> of fitted estimators and what scikit-learn says of them are parameters.
\<close>

section \<open>scikit-learn\<close>

datatype 'est fit_outcome = Fitted 'est | FitValueError | NotConverged

text \<open>What the code uses of scikit-learn: its version; \<open>fit\<close> of a fresh estimator with the fixed parameters of a
  model name and a seed; the code of the first defect that inspecting a fitted
  estimator finds; its \<open>classes_\<close>; \<open>predict_proba\<close>; and the metric functions, \<open>None\<close> where they raise.\<close>

record 'est sklearn =
  sk_version :: string
  sk_fit :: "string \<Rightarrow> int \<Rightarrow> rat list list \<Rightarrow> int list \<Rightarrow> 'est fit_outcome"
  sk_defect :: "'est \<Rightarrow> string \<Rightarrow> int \<Rightarrow> string option"
  sk_classes :: "'est \<Rightarrow> pyval list option"
  sk_predict_proba :: "'est \<Rightarrow> rat list list \<Rightarrow> dec list list option"
  sk_log_loss :: "int list \<Rightarrow> rat list \<Rightarrow> dec option"
  sk_brier_score :: "int list \<Rightarrow> rat list \<Rightarrow> dec option"
  sk_roc_auc :: "int list \<Rightarrow> rat list \<Rightarrow> dec option"
  sk_average_precision :: "int list \<Rightarrow> rat list \<Rightarrow> dec option"
  sk_accuracy :: "int list \<Rightarrow> int list \<Rightarrow> dec option"
  sk_precision :: "int list \<Rightarrow> int list \<Rightarrow> dec option"
  sk_recall :: "int list \<Rightarrow> int list \<Rightarrow> dec option"
  sk_f1 :: "int list \<Rightarrow> int list \<Rightarrow> dec option"
  sk_confusion :: "int list \<Rightarrow> int list \<Rightarrow> (int \<times> int \<times> int \<times> int) option"

definition validate_fitted_estimator_spec ::
  "'est sklearn \<Rightarrow> (string \<Rightarrow> data_exn) \<Rightarrow> 'est \<Rightarrow> string \<Rightarrow> int \<Rightarrow> data_exn + unit" where
  "validate_fitted_estimator_spec sk error_type estimator model_name random_seed =
     (case sk_defect sk estimator model_name random_seed of None \<Rightarrow> Inr () | Some code \<Rightarrow> Inl (error_type code))"

text \<open>The \<open>reconstruct_\<close> functions turn every validation error into one code.\<close>

definition reconstruct :: "(string \<Rightarrow> data_exn) \<Rightarrow> string \<Rightarrow> data_exn + 'a \<Rightarrow> data_exn + 'a" where
  "reconstruct error_type code result = (case result of Inl _ \<Rightarrow> Inl (error_type code) | Inr x \<Rightarrow> Inr x)"

lemma reconstruct_Inr [simp]: "reconstruct et c r = Inr x \<longleftrightarrow> r = Inr x"
  by (auto simp: reconstruct_def split: sum.splits)

section \<open>Metric snapshots and the selection rule\<close>

record metric_snapshot =
  ms_model_name :: string
  ms_row_count :: int
  ms_positive_count :: int
  ms_negative_count :: int
  ms_log_loss :: dec
  ms_brier_score :: dec
  ms_roc_auc :: dec

definition mk_metric_snapshot :: "metric_snapshot \<Rightarrow> data_exn + metric_snapshot" where
  "mk_metric_snapshot s =
     (let err = ModelSelectionError in
     rbind (validate_model_name err (ms_model_name s)) (\<lambda>_.
     rbind (validate_int err ''invalid_metric_snapshot_row_count'' 1 (ms_row_count s)) (\<lambda>row_count.
     rbind (validate_int err ''invalid_metric_snapshot_positive_count'' 1 (ms_positive_count s)) (\<lambda>positive_count.
     rbind (validate_int err ''invalid_metric_snapshot_negative_count'' 1 (ms_negative_count s)) (\<lambda>negative_count.
     rbind (reject_if (positive_count + negative_count \<noteq> row_count)
              (err ''metric_snapshot_class_count_mismatch'')) (\<lambda>_.
     rbind (validate_finite_float err ''invalid_metric_snapshot_log_loss'' (ms_log_loss s)) (\<lambda>log_loss.
     rbind (validate_finite_float err ''invalid_metric_snapshot_brier_score'' (ms_brier_score s)) (\<lambda>brier_score.
     rbind (validate_finite_float err ''invalid_metric_snapshot_roc_auc'' (ms_roc_auc s)) (\<lambda>roc_auc.
     rbind (reject_if (log_loss < 0) (err ''negative_metric_snapshot_log_loss'')) (\<lambda>_.
     rbind (reject_if (\<not> (0 \<le> brier_score \<and> brier_score \<le> 1))
              (err ''metric_snapshot_brier_score_out_of_bounds'')) (\<lambda>_.
     rbind (reject_if (\<not> (0 \<le> roc_auc \<and> roc_auc \<le> 1)) (err ''metric_snapshot_roc_auc_out_of_bounds'')) (\<lambda>_.
     Inr s))))))))))))"

definition snapshot_from_metrics :: "classification_metrics \<Rightarrow> data_exn + metric_snapshot" where
  "snapshot_from_metrics m =
     mk_metric_snapshot
       \<lparr>ms_model_name = cm_model_name m, ms_row_count = cm_row_count m,
        ms_positive_count = cm_positive_count m, ms_negative_count = cm_negative_count m,
        ms_log_loss = cm_log_loss m, ms_brier_score = cm_brier_score m, ms_roc_auc = cm_roc_auc m\<rparr>"

record selection_decision =
  sn_selected_model_name :: string
  sn_selection_reason :: string
  sn_roc_auc_tie_break_required :: bool
  sn_log_loss_tie_break_required :: bool
  sn_brier_score_tie_break_required :: bool

definition mk_selection_decision :: "selection_decision \<Rightarrow> data_exn + selection_decision" where
  "mk_selection_decision s =
     rbind (validate_model_name ModelSelectionError (sn_selected_model_name s)) (\<lambda>_.
     rbind (reject_if (sn_selection_reason s = []) (ModelSelectionError ''missing_selection_reason'')) (\<lambda>_.
     Inr s))"

text \<open>\<^verbatim>\<open>abs(difference) > SELECTION_TIE_TOLERANCE\<close>.\<close>

fun beyond_tolerance :: "dec \<Rightarrow> bool" where
  "beyond_tolerance (Fin d) \<longleftrightarrow> SELECTION_TIE_TOLERANCE < \<bar>d\<bar>"
| "beyond_tolerance (Infinite _) \<longleftrightarrow> True"
| "beyond_tolerance NaN \<longleftrightarrow> False"

definition decide :: "string \<Rightarrow> string \<Rightarrow> bool \<Rightarrow> bool \<Rightarrow> bool \<Rightarrow> data_exn + selection_decision" where
  "decide name reason roc_auc_tie log_loss_tie brier_score_tie =
     mk_selection_decision
       \<lparr>sn_selected_model_name = name, sn_selection_reason = reason,
        sn_roc_auc_tie_break_required = roc_auc_tie, sn_log_loss_tie_break_required = log_loss_tie,
        sn_brier_score_tie_break_required = brier_score_tie\<rparr>"

definition choose_model_by_metric_snapshots ::
  "metric_snapshot \<Rightarrow> metric_snapshot \<Rightarrow> data_exn + selection_decision" where
  "choose_model_by_metric_snapshots logistic gradient =
     rbind (reject_if (ms_model_name logistic \<noteq> LOGISTIC_REGRESSION_MODEL)
              (ModelSelectionError ''invalid_logistic_metric_model'')) (\<lambda>_.
     rbind (reject_if (ms_model_name gradient \<noteq> GRADIENT_BOOSTING_MODEL)
              (ModelSelectionError ''invalid_gradient_boosting_metric_model'')) (\<lambda>_.
     let roc_auc_difference = fl_sub (ms_roc_auc logistic) (ms_roc_auc gradient);
         log_loss_difference = fl_sub (ms_log_loss logistic) (ms_log_loss gradient);
         brier_difference = fl_sub (ms_brier_score logistic) (ms_brier_score gradient) in
     if beyond_tolerance roc_auc_difference then
       if fl_positive roc_auc_difference
       then decide LOGISTIC_REGRESSION_MODEL ''Selected logistic_regression by higher validation ROC AUC.''
              False False False
       else decide GRADIENT_BOOSTING_MODEL ''Selected gradient_boosting by higher validation ROC AUC.''
              False False False
     else if beyond_tolerance log_loss_difference then
       if fl_positive (fl_neg log_loss_difference)
       then decide LOGISTIC_REGRESSION_MODEL
              ''Validation ROC AUC tied within 1e-12; selected logistic_regression by lower validation log loss.''
              True True False
       else decide GRADIENT_BOOSTING_MODEL
              ''Validation ROC AUC tied within 1e-12; selected gradient_boosting by lower validation log loss.''
              True True False
     else if beyond_tolerance brier_difference then
       if fl_positive (fl_neg brier_difference)
       then decide LOGISTIC_REGRESSION_MODEL
              ''Validation ROC AUC and log loss tied within 1e-12; selected logistic_regression by lower validation Brier score.''
              True True True
       else decide GRADIENT_BOOSTING_MODEL
              ''Validation ROC AUC and log loss tied within 1e-12; selected gradient_boosting by lower validation Brier score.''
              True True True
     else decide LOGISTIC_REGRESSION_MODEL
            ''Validation ROC AUC, log loss, and Brier score tied within 1e-12; selected logistic_regression by the simpler-baseline tie-break.''
            True True True))"

definition choose_model_by_validation_metrics ::
  "classification_metrics \<Rightarrow> classification_metrics \<Rightarrow> data_exn + selection_decision" where
  "choose_model_by_validation_metrics logistic_metrics gradient_metrics =
     (let err = ModelSelectionError in
     rbind (reconstruct err ''invalid_logistic_metrics'' (mk_classification_metrics logistic_metrics)) (\<lambda>logistic.
     rbind (reconstruct err ''invalid_gradient_boosting_metrics'' (mk_classification_metrics gradient_metrics)) (\<lambda>gradient.
     rbind (reject_if (cm_model_name logistic \<noteq> LOGISTIC_REGRESSION_MODEL) (err ''invalid_logistic_metric_model'')) (\<lambda>_.
     rbind (reject_if (cm_model_name gradient \<noteq> GRADIENT_BOOSTING_MODEL)
              (err ''invalid_gradient_boosting_metric_model'')) (\<lambda>_.
     rbind (reject_if (cm_partition_name logistic \<noteq> ''validation'') (err ''invalid_logistic_metric_partition'')) (\<lambda>_.
     rbind (reject_if (cm_partition_name gradient \<noteq> ''validation'')
              (err ''invalid_gradient_boosting_metric_partition'')) (\<lambda>_.
     rbind (snapshot_from_metrics logistic) (\<lambda>logistic_snapshot.
     rbind (snapshot_from_metrics gradient) (\<lambda>gradient_snapshot.
     choose_model_by_metric_snapshots logistic_snapshot gradient_snapshot)))))))))"

section \<open>Parameters and configuration\<close>

record parameter_set =
  mp_model_name :: string
  mp_parameters :: "(string \<times> pyval) list"

fun is_primitive :: "pyval \<Rightarrow> bool" where
  "is_primitive (PyStr _) = True"
| "is_primitive (PyInt _) = True"
| "is_primitive (PyFloat _ _) = True"
| "is_primitive (PyBool _) = True"
| "is_primitive PyNone = True"
| "is_primitive _ = False"

definition mk_parameter_set :: "parameter_set \<Rightarrow> data_exn + parameter_set" where
  "mk_parameter_set p =
     rbind (validate_model_name ModelSelectionError (mp_model_name p)) (\<lambda>_.
     rbind (check_all (\<lambda>(key, value).
                rbind (reject_if (key = []) (ModelSelectionError ''invalid_model_parameter_name'')) (\<lambda>_.
                reject_if (\<not> is_primitive value) (ModelSelectionError ''invalid_model_parameter_value'')))
              (mp_parameters p)) (\<lambda>_.
     Inr p))"

text \<open>\<^verbatim>\<open>==\<close> on parameter sets: numbers compare by value.\<close>

definition py_equal :: "pyval \<Rightarrow> pyval \<Rightarrow> bool" where
  "py_equal x y \<longleftrightarrow> x = y \<or> (py_num x \<noteq> None \<and> py_num x = py_num y)"

definition same_parameters :: "parameter_set \<Rightarrow> parameter_set \<Rightarrow> bool" where
  "same_parameters p q \<longleftrightarrow> mp_model_name p = mp_model_name q \<and>
     list_all2 (\<lambda>(a, x) (b, y). a = b \<and> py_equal x y) (mp_parameters p) (mp_parameters q)"

definition fixed_model_parameters :: "string \<Rightarrow> int \<Rightarrow> data_exn + parameter_set" where
  "fixed_model_parameters model_name random_seed =
     rbind (validate_model_name ModelSelectionError model_name) (\<lambda>parsed_name.
     rbind (validate_int ModelSelectionError ''invalid_random_seed'' 0 random_seed) (\<lambda>parsed_seed.
     mk_parameter_set
       (if parsed_name = LOGISTIC_REGRESSION_MODEL
        then \<lparr>mp_model_name = parsed_name, mp_parameters =
               [(''estimator'', PyStr ''Pipeline''), (''scaler'', PyStr ''StandardScaler''),
                (''classifier'', PyStr ''LogisticRegression''), (''classifier.penalty'', PyStr ''l2''),
                (''classifier.C'', PyFloat (Fin 1) ''1.0''), (''classifier.solver'', PyStr ''liblinear''),
                (''classifier.max_iter'', PyInt 2000), (''classifier.class_weight'', PyNone),
                (''classifier.random_state'', PyInt parsed_seed)]\<rparr>
        else \<lparr>mp_model_name = parsed_name, mp_parameters =
               [(''estimator'', PyStr ''GradientBoostingClassifier''), (''n_estimators'', PyInt 100),
                (''learning_rate'', PyFloat (fl (5 / 100)) ''0.05''), (''max_depth'', PyInt 2),
                (''min_samples_leaf'', PyInt 5), (''subsample'', PyFloat (Fin 1) ''1.0''),
                (''random_state'', PyInt parsed_seed), (''n_iter_no_change'', PyNone)]\<rparr>)))"

record training_config =
  mc_random_seed :: int
  mc_diagnostic_classification_threshold :: dec

definition mk_training_config :: "training_config \<Rightarrow> data_exn + training_config" where
  "mk_training_config c =
     rbind (validate_int ModelInputError ''invalid_random_seed'' 0 (mc_random_seed c)) (\<lambda>_.
     rbind (validate_threshold ModelInputError ''invalid_diagnostic_classification_threshold''
              (mc_diagnostic_classification_threshold c)) (\<lambda>_.
     Inr c))"

section \<open>Lineage\<close>

text \<open>The metadata that candidates, selections, final models and evaluations share.\<close>

record model_lineage =
  ml_source_market_data_checksum :: string
  ml_source_schema_version :: string
  ml_feature_schema_version :: string
  ml_label_schema_version :: string
  ml_feature_columns :: "string list"
  ml_split_spec :: split_spec
  ml_random_seed :: int
  ml_sklearn_version :: string
  ml_model_schema_version :: string

definition check_checksum_and_schemas :: "(string \<Rightarrow> data_exn) \<Rightarrow> model_lineage \<Rightarrow> data_exn + unit" where
  "check_checksum_and_schemas err l =
     rbind (reject_if (\<not> is_checksum (ml_source_market_data_checksum l))
              (err ''invalid_source_market_data_checksum'')) (\<lambda>_.
     rbind (reject_if (ml_source_schema_version l \<noteq> SCHEMA_VERSION) (err ''invalid_source_schema_version'')) (\<lambda>_.
     rbind (reject_if (ml_feature_schema_version l \<noteq> FEATURE_SCHEMA_VERSION)
              (err ''invalid_feature_schema_version'')) (\<lambda>_.
     rbind (reject_if (ml_label_schema_version l \<noteq> LABEL_SCHEMA_VERSION)
              (err ''invalid_label_schema_version'')) (\<lambda>_.
     reject_if (ml_feature_columns l \<noteq> FEATURE_COLUMNS) (err ''invalid_feature_columns'')))))"

end
