(* ===== verification/Model_Lock.thy ===== *)
theory Model_Lock
  imports Model_Selection
begin

text \<open>
  \<^verbatim>\<open>CandidateModelResult\<close>, \<^verbatim>\<open>LockedModelSelection\<close> and \<^verbatim>\<open>CandidateModelComparison\<close> of
  \<^verbatim>\<open>modeling/models.py\<close>, and \<^verbatim>\<open>select_locked_model\<close> of \<^verbatim>\<open>modeling/selection.py\<close>.
\<close>

section \<open>Candidates\<close>

record 'est candidate_result =
  cr_model_name :: string
  cr_estimator :: 'est
  cr_fixed_parameters :: parameter_set
  cr_train_predictions :: prediction_set
  cr_validation_predictions :: prediction_set
  cr_train_metrics :: classification_metrics
  cr_validation_metrics :: classification_metrics
  cr_lineage :: model_lineage
  cr_created_at :: pyval

definition metric_counts :: "classification_metrics \<Rightarrow> int \<times> int \<times> int" where
  "metric_counts m = (cm_row_count m, cm_positive_count m, cm_negative_count m)"

definition mk_candidate_result :: "'est sklearn \<Rightarrow> 'est candidate_result \<Rightarrow> data_exn + 'est candidate_result" where
  "mk_candidate_result sk c =
     (let err = ModelTrainingError; lineage = cr_lineage c; spec = ml_split_spec lineage;
          name = cr_model_name c in
     rbind (validate_model_name err name) (\<lambda>_.
     rbind (validate_int err ''invalid_random_seed'' 0 (ml_random_seed lineage)) (\<lambda>random_seed.
     rbind (reject_if (ml_model_schema_version lineage \<noteq> MODEL_SCHEMA_VERSION)
              (err ''invalid_model_schema_version'')) (\<lambda>_.
     rbind (check_checksum_and_schemas err lineage) (\<lambda>_.
     rbind (reconstruct err ''invalid_fixed_parameters'' (mk_parameter_set (cr_fixed_parameters c))) (\<lambda>fixed_parameters.
     rbind (fixed_model_parameters name random_seed) (\<lambda>canonical_parameters.
     rbind (reject_if (\<not> same_parameters fixed_parameters canonical_parameters)
              (err ''fixed_parameter_spec_mismatch'')) (\<lambda>_.
     rbind (validate_fitted_estimator_spec sk err (cr_estimator c) name random_seed) (\<lambda>_.
     rbind (reconstruct err ''invalid_train_predictions'' (mk_prediction_set (cr_train_predictions c))) (\<lambda>tp.
     rbind (reconstruct err ''invalid_validation_predictions'' (mk_prediction_set (cr_validation_predictions c))) (\<lambda>vp.
     rbind (reconstruct err ''invalid_train_metrics'' (mk_classification_metrics (cr_train_metrics c))) (\<lambda>tm.
     rbind (reconstruct err ''invalid_validation_metrics'' (mk_classification_metrics (cr_validation_metrics c))) (\<lambda>vm.
     rbind (reject_if (ps_model_name tp \<noteq> name \<or> ps_partition_name tp \<noteq> ''train'' \<or>
                ps_model_name vp \<noteq> name \<or> ps_partition_name vp \<noteq> ''validation'')
              (err ''prediction_result_mismatch'')) (\<lambda>_.
     rbind (reject_if (cm_model_name tm \<noteq> name \<or> cm_partition_name tm \<noteq> ''train'' \<or>
                cm_model_name vm \<noteq> name \<or> cm_partition_name vm \<noteq> ''validation'')
              (err ''metric_result_mismatch'')) (\<lambda>_.
     rbind (reject_if (card {ps_diagnostic_classification_threshold tp, ps_diagnostic_classification_threshold vp,
                cm_diagnostic_classification_threshold tm, cm_diagnostic_classification_threshold vm} \<noteq> 1)
              (err ''candidate_threshold_mismatch'')) (\<lambda>_.
     rbind (reject_if (ps_row_count tp \<noteq> cm_row_count tm) (err ''train_prediction_metric_count_mismatch'')) (\<lambda>_.
     rbind (reject_if (ps_row_count vp \<noteq> cm_row_count vm) (err ''validation_prediction_metric_count_mismatch'')) (\<lambda>_.
     rbind (reject_if (prediction_target_counts tp \<noteq> metric_counts tm)
              (err ''train_prediction_metric_class_count_mismatch'')) (\<lambda>_.
     rbind (reject_if (prediction_target_counts vp \<noteq> metric_counts vm)
              (err ''validation_prediction_metric_class_count_mismatch'')) (\<lambda>_.
     rbind (reject_if (ps_first_session tp < ss_train_start spec \<or> ss_train_end spec < ps_last_session tp)
              (err ''train_prediction_split_bounds_mismatch'')) (\<lambda>_.
     rbind (reject_if (ps_first_session vp < ss_validation_start spec \<or> ss_validation_end spec < ps_last_session vp)
              (err ''validation_prediction_split_bounds_mismatch'')) (\<lambda>_.
     rbind (reject_if (ps_first_session vp \<le> ps_last_session tp)
              (err ''train_validation_prediction_overlap'')) (\<lambda>_.
     rbind (aware_utc err ''created_at'' (cr_created_at c)) (\<lambda>created_at.
     rbind (reject_if (list_ex (\<lambda>nested. nested \<noteq> PyAware created_at)
                [ps_created_at tp, ps_created_at vp, cm_created_at tm, cm_created_at vm])
              (err ''candidate_created_at_mismatch'')) (\<lambda>_.
     rbind (validate_runtime_sklearn_version (sk_version sk) err (ml_sklearn_version lineage)) (\<lambda>_.
     Inr c))))))))))))))))))))))))))"

section \<open>The locked selection\<close>

record locked_selection =
  lk_selected_model_name :: string
  lk_selection_rule_version :: string
  lk_selection_reason :: string
  lk_roc_auc_tie_break_required :: bool
  lk_log_loss_tie_break_required :: bool
  lk_brier_score_tie_break_required :: bool
  lk_validation_metric_snapshots :: "metric_snapshot list"
  lk_candidate_parameters :: "parameter_set list"
  lk_lineage :: model_lineage
  lk_train_row_count :: int
  lk_validation_row_count :: int
  lk_train_first_session :: date
  lk_train_last_session :: date
  lk_validation_first_session :: date
  lk_validation_last_session :: date
  lk_diagnostic_classification_threshold :: dec
  lk_created_at :: pyval

definition locked_decision :: "locked_selection \<Rightarrow> selection_decision" where
  "locked_decision l =
     \<lparr>sn_selected_model_name = lk_selected_model_name l, sn_selection_reason = lk_selection_reason l,
      sn_roc_auc_tie_break_required = lk_roc_auc_tie_break_required l,
      sn_log_loss_tie_break_required = lk_log_loss_tie_break_required l,
      sn_brier_score_tie_break_required = lk_brier_score_tie_break_required l\<rparr>"

definition mk_locked_selection :: "string \<Rightarrow> locked_selection \<Rightarrow> data_exn + locked_selection" where
  "mk_locked_selection sklearn_version l =
     (let err = ModelSelectionError; lineage = lk_lineage l; spec = ml_split_spec lineage in
     rbind (validate_model_name err (lk_selected_model_name l)) (\<lambda>_.
     rbind (reject_if (lk_selection_rule_version l \<noteq> MODEL_SELECTION_RULE_VERSION)
              (err ''invalid_selection_rule_version'')) (\<lambda>_.
     rbind (reject_if (ml_model_schema_version lineage \<noteq> MODEL_SCHEMA_VERSION)
              (err ''invalid_model_schema_version'')) (\<lambda>_.
     rbind (reject_if (lk_selection_reason l = []) (err ''missing_selection_reason'')) (\<lambda>_.
     rbind (map_results (\<lambda>s. reconstruct err ''invalid_validation_metric_snapshots'' (mk_metric_snapshot s))
              (lk_validation_metric_snapshots l)) (\<lambda>snapshots.
     rbind (reject_if (map ms_model_name snapshots \<noteq> MODEL_NAMES)
              (err ''invalid_validation_metric_snapshots'')) (\<lambda>_.
     rbind (map_results (\<lambda>p. reconstruct err ''invalid_candidate_parameters'' (mk_parameter_set p))
              (lk_candidate_parameters l)) (\<lambda>candidate_parameters.
     rbind (reject_if (map mp_model_name candidate_parameters \<noteq> MODEL_NAMES)
              (err ''invalid_candidate_parameters'')) (\<lambda>_.
     rbind (check_checksum_and_schemas err lineage) (\<lambda>_.
     rbind (validate_int err ''invalid_train_row_count'' 1 (lk_train_row_count l)) (\<lambda>_.
     rbind (validate_int err ''invalid_validation_row_count'' 1 (lk_validation_row_count l)) (\<lambda>validation_row_count.
     rbind (reject_if (list_ex (\<lambda>s. ms_row_count s \<noteq> validation_row_count) snapshots)
              (err ''metric_snapshot_validation_count_mismatch'')) (\<lambda>_.
     rbind (reject_if (card (set (map ms_positive_count snapshots)) \<noteq> 1 \<or>
                card (set (map ms_negative_count snapshots)) \<noteq> 1)
              (err ''metric_snapshot_class_count_mismatch'')) (\<lambda>_.
     rbind (reject_if (lk_train_last_session l < lk_train_first_session l)
              (err ''invalid_train_session_bounds'')) (\<lambda>_.
     rbind (reject_if (lk_validation_last_session l < lk_validation_first_session l)
              (err ''invalid_validation_session_bounds'')) (\<lambda>_.
     rbind (reject_if (lk_validation_first_session l \<le> lk_train_last_session l)
              (err ''train_validation_overlap'')) (\<lambda>_.
     rbind (reject_if (lk_train_first_session l < ss_train_start spec \<or> ss_train_end spec < lk_train_last_session l)
              (err ''train_session_split_bounds_mismatch'')) (\<lambda>_.
     rbind (reject_if (lk_validation_first_session l < ss_validation_start spec \<or>
                ss_validation_end spec < lk_validation_last_session l)
              (err ''validation_session_split_bounds_mismatch'')) (\<lambda>_.
     rbind (validate_int err ''invalid_random_seed'' 0 (ml_random_seed lineage)) (\<lambda>random_seed.
     rbind (map_results (\<lambda>name. fixed_model_parameters name random_seed) MODEL_NAMES) (\<lambda>canonical_parameters.
     rbind (reject_if (\<not> list_all2 same_parameters candidate_parameters canonical_parameters)
              (err ''candidate_parameter_spec_mismatch'')) (\<lambda>_.
     rbind (choose_model_by_metric_snapshots (snapshots ! 0) (snapshots ! 1)) (\<lambda>recomputed_decision.
     rbind (reject_if (recomputed_decision \<noteq> locked_decision l) (err ''selection_decision_mismatch'')) (\<lambda>_.
     rbind (validate_threshold err ''invalid_diagnostic_classification_threshold''
              (lk_diagnostic_classification_threshold l)) (\<lambda>_.
     rbind (validate_runtime_sklearn_version sklearn_version err (ml_sklearn_version lineage)) (\<lambda>_.
     rbind (aware_utc err ''created_at'' (lk_created_at l)) (\<lambda>_.
     Inr l)))))))))))))))))))))))))))"

section \<open>Selecting\<close>

definition candidate_thresholds :: "'est candidate_result \<Rightarrow> dec list" where
  "candidate_thresholds c =
     [ps_diagnostic_classification_threshold (cr_train_predictions c),
      ps_diagnostic_classification_threshold (cr_validation_predictions c),
      cm_diagnostic_classification_threshold (cr_train_metrics c),
      cm_diagnostic_classification_threshold (cr_validation_metrics c)]"

definition check_candidate_config :: "training_config \<Rightarrow> 'est candidate_result \<Rightarrow> data_exn + unit" where
  "check_candidate_config config c =
     rbind (reject_if (list_ex (\<lambda>t. t \<noteq> mc_diagnostic_classification_threshold config) (candidate_thresholds c))
              (ModelSelectionError ''candidate_config_threshold_mismatch'')) (\<lambda>_.
     rbind (fixed_model_parameters (cr_model_name c) (mc_random_seed config)) (\<lambda>expected_parameters.
     reject_if (\<not> same_parameters (cr_fixed_parameters c) expected_parameters)
       (ModelSelectionError ''candidate_parameter_spec_mismatch'')))"

definition select_locked_model ::
  "'est sklearn \<Rightarrow> 'est candidate_result \<Rightarrow> 'est candidate_result \<Rightarrow> training_config \<Rightarrow> pyval \<Rightarrow>
     data_exn + locked_selection" where
  "select_locked_model sk logistic_result gradient_result config created_at =
     (let err = ModelSelectionError in
     rbind (reconstruct err ''invalid_logistic_result'' (mk_candidate_result sk logistic_result)) (\<lambda>logistic.
     rbind (reconstruct err ''invalid_gradient_boosting_result'' (mk_candidate_result sk gradient_result)) (\<lambda>gradient.
     rbind (reconstruct err ''invalid_training_config'' (mk_training_config config)) (\<lambda>config.
     rbind (aware_utc err ''created_at'' created_at) (\<lambda>created_at_utc.
     rbind (reject_if (cr_model_name logistic \<noteq> LOGISTIC_REGRESSION_MODEL) (err ''invalid_logistic_result'')) (\<lambda>_.
     rbind (reject_if (cr_model_name gradient \<noteq> GRADIENT_BOOSTING_MODEL)
              (err ''invalid_gradient_boosting_result'')) (\<lambda>_.
     rbind (reject_if (cr_lineage logistic \<noteq> cr_lineage gradient) (err ''candidate_lineage_mismatch'')) (\<lambda>_.
     rbind (reject_if (ml_random_seed (cr_lineage logistic) \<noteq> mc_random_seed config)
              (err ''logistic_config_seed_mismatch'')) (\<lambda>_.
     rbind (reject_if (ml_random_seed (cr_lineage gradient) \<noteq> mc_random_seed config)
              (err ''gradient_boosting_config_seed_mismatch'')) (\<lambda>_.
     rbind (check_all (check_candidate_config config) [logistic, gradient]) (\<lambda>_.
     rbind (choose_model_by_validation_metrics (cr_validation_metrics logistic)
              (cr_validation_metrics gradient)) (\<lambda>decision.
     rbind (snapshot_from_metrics (cr_validation_metrics logistic)) (\<lambda>logistic_snapshot.
     rbind (snapshot_from_metrics (cr_validation_metrics gradient)) (\<lambda>gradient_snapshot.
     rbind (fixed_model_parameters LOGISTIC_REGRESSION_MODEL (mc_random_seed config)) (\<lambda>logistic_parameters.
     rbind (fixed_model_parameters GRADIENT_BOOSTING_MODEL (mc_random_seed config)) (\<lambda>gradient_parameters.
     mk_locked_selection (sk_version sk)
       \<lparr>lk_selected_model_name = sn_selected_model_name decision,
        lk_selection_rule_version = MODEL_SELECTION_RULE_VERSION,
        lk_selection_reason = sn_selection_reason decision,
        lk_roc_auc_tie_break_required = sn_roc_auc_tie_break_required decision,
        lk_log_loss_tie_break_required = sn_log_loss_tie_break_required decision,
        lk_brier_score_tie_break_required = sn_brier_score_tie_break_required decision,
        lk_validation_metric_snapshots = [logistic_snapshot, gradient_snapshot],
        lk_candidate_parameters = [logistic_parameters, gradient_parameters],
        lk_lineage = (cr_lineage logistic)
          \<lparr>ml_random_seed := mc_random_seed config, ml_model_schema_version := MODEL_SCHEMA_VERSION\<rparr>,
        lk_train_row_count = ps_row_count (cr_train_predictions logistic),
        lk_validation_row_count = ps_row_count (cr_validation_predictions logistic),
        lk_train_first_session = ps_first_session (cr_train_predictions logistic),
        lk_train_last_session = ps_last_session (cr_train_predictions logistic),
        lk_validation_first_session = ps_first_session (cr_validation_predictions logistic),
        lk_validation_last_session = ps_last_session (cr_validation_predictions logistic),
        lk_diagnostic_classification_threshold = mc_diagnostic_classification_threshold config,
        lk_created_at = PyAware created_at_utc\<rparr>))))))))))))))))"

section \<open>The comparison\<close>

record 'est candidate_comparison =
  cc_logistic_regression :: "'est candidate_result"
  cc_gradient_boosting :: "'est candidate_result"
  cc_locked_selection :: locked_selection
  cc_config :: training_config
  cc_lineage :: model_lineage
  cc_created_at :: pyval

definition check_comparison_field :: "string \<Rightarrow> bool \<Rightarrow> bool \<Rightarrow> data_exn + unit" where
  "check_comparison_field field_name candidates_agree selection_agrees =
     rbind (reject_if (\<not> candidates_agree)
              (ModelTrainingError (''candidate_'' @ field_name @ ''_mismatch''))) (\<lambda>_.
     reject_if (\<not> selection_agrees) (ModelTrainingError (''locked_selection_'' @ field_name @ ''_mismatch'')))"

text \<open>The loop over the nine metadata fields.\<close>

definition check_comparison_lineage ::
  "model_lineage \<Rightarrow> model_lineage \<Rightarrow> model_lineage \<Rightarrow> model_lineage \<Rightarrow> data_exn + unit" where
  "check_comparison_lineage l logistic gradient locked =
     check_all (\<lambda>(name, agrees). check_comparison_field name (agrees logistic \<and> agrees gradient) (agrees locked))
       [(''source_market_data_checksum'', \<lambda>x. ml_source_market_data_checksum x = ml_source_market_data_checksum l),
        (''source_schema_version'', \<lambda>x. ml_source_schema_version x = ml_source_schema_version l),
        (''feature_schema_version'', \<lambda>x. ml_feature_schema_version x = ml_feature_schema_version l),
        (''label_schema_version'', \<lambda>x. ml_label_schema_version x = ml_label_schema_version l),
        (''feature_columns'', \<lambda>x. ml_feature_columns x = ml_feature_columns l),
        (''split_spec'', \<lambda>x. ml_split_spec x = ml_split_spec l),
        (''random_seed'', \<lambda>x. ml_random_seed x = ml_random_seed l),
        (''sklearn_version'', \<lambda>x. ml_sklearn_version x = ml_sklearn_version l),
        (''model_schema_version'', \<lambda>x. ml_model_schema_version x = ml_model_schema_version l)]"

definition check_comparison_candidate ::
  "training_config \<Rightarrow> locked_selection \<Rightarrow> 'est candidate_result \<Rightarrow> data_exn + unit" where
  "check_comparison_candidate config locked c =
     rbind (reject_if (list_ex (\<lambda>t. t \<noteq> mc_diagnostic_classification_threshold config) (candidate_thresholds c))
              (ModelTrainingError ''candidate_config_threshold_mismatch'')) (\<lambda>_.
     reject_if (ps_row_count (cr_train_predictions c) \<noteq> lk_train_row_count locked \<or>
         ps_row_count (cr_validation_predictions c) \<noteq> lk_validation_row_count locked \<or>
         ps_first_session (cr_train_predictions c) \<noteq> lk_train_first_session locked \<or>
         ps_last_session (cr_train_predictions c) \<noteq> lk_train_last_session locked \<or>
         ps_first_session (cr_validation_predictions c) \<noteq> lk_validation_first_session locked \<or>
         ps_last_session (cr_validation_predictions c) \<noteq> lk_validation_last_session locked)
       (ModelTrainingError ''candidate_locked_selection_partition_mismatch''))"

definition mk_candidate_comparison ::
  "'est sklearn \<Rightarrow> 'est candidate_comparison \<Rightarrow> data_exn + 'est candidate_comparison" where
  "mk_candidate_comparison sk c =
     (let err = ModelTrainingError; lineage = cc_lineage c in
     rbind (reconstruct err ''invalid_logistic_regression_result'' (mk_candidate_result sk (cc_logistic_regression c))) (\<lambda>logistic.
     rbind (reconstruct err ''invalid_gradient_boosting_result'' (mk_candidate_result sk (cc_gradient_boosting c))) (\<lambda>gradient.
     rbind (reconstruct err ''invalid_locked_selection'' (mk_locked_selection (sk_version sk) (cc_locked_selection c))) (\<lambda>locked.
     rbind (reconstruct err ''invalid_training_config'' (mk_training_config (cc_config c))) (\<lambda>config.
     rbind (reject_if (cr_model_name logistic \<noteq> LOGISTIC_REGRESSION_MODEL)
              (err ''missing_logistic_regression_result'')) (\<lambda>_.
     rbind (reject_if (cr_model_name gradient \<noteq> GRADIENT_BOOSTING_MODEL)
              (err ''missing_gradient_boosting_result'')) (\<lambda>_.
     rbind (reject_if (ml_model_schema_version lineage \<noteq> MODEL_SCHEMA_VERSION)
              (err ''invalid_model_schema_version'')) (\<lambda>_.
     rbind (reject_if (ml_random_seed (lk_lineage locked) \<noteq> mc_random_seed config)
              (err ''locked_selection_seed_mismatch'')) (\<lambda>_.
     rbind (reject_if (\<not> is_checksum (ml_source_market_data_checksum lineage))
              (err ''invalid_source_market_data_checksum'')) (\<lambda>_.
     rbind (reject_if (ml_feature_columns lineage \<noteq> FEATURE_COLUMNS) (err ''invalid_feature_columns'')) (\<lambda>_.
     rbind (aware_utc err ''created_at'' (cc_created_at c)) (\<lambda>created_at.
     rbind (check_checksum_and_schemas err lineage) (\<lambda>_.
     rbind (validate_int err ''invalid_random_seed'' 0 (ml_random_seed lineage)) (\<lambda>random_seed.
     rbind (validate_runtime_sklearn_version (sk_version sk) err (ml_sklearn_version lineage)) (\<lambda>_.
     rbind (check_comparison_lineage lineage (cr_lineage logistic) (cr_lineage gradient) (lk_lineage locked)) (\<lambda>_.
     rbind (reject_if (list_ex (\<lambda>t. t \<noteq> PyAware created_at)
                [cr_created_at logistic, cr_created_at gradient, lk_created_at locked])
              (err ''comparison_created_at_mismatch'')) (\<lambda>_.
     rbind (reject_if (random_seed \<noteq> mc_random_seed config) (err ''comparison_config_seed_mismatch'')) (\<lambda>_.
     rbind (reject_if (lk_diagnostic_classification_threshold locked \<noteq> mc_diagnostic_classification_threshold config)
              (err ''comparison_config_threshold_mismatch'')) (\<lambda>_.
     rbind (check_all (check_comparison_candidate config locked) [logistic, gradient]) (\<lambda>_.
     rbind (snapshot_from_metrics (cr_validation_metrics logistic)) (\<lambda>logistic_snapshot.
     rbind (snapshot_from_metrics (cr_validation_metrics gradient)) (\<lambda>gradient_snapshot.
     rbind (reject_if (lk_validation_metric_snapshots locked \<noteq> [logistic_snapshot, gradient_snapshot])
              (err ''locked_selection_metric_snapshot_mismatch'')) (\<lambda>_.
     rbind (reject_if (\<not> list_all2 same_parameters (lk_candidate_parameters locked)
                [cr_fixed_parameters logistic, cr_fixed_parameters gradient])
              (err ''locked_selection_parameter_snapshot_mismatch'')) (\<lambda>_.
     Inr c))))))))))))))))))))))))"

end
