(* ===== verification/Model_Pipeline.thy ===== *)
theory Model_Pipeline
  imports Model_Lock
begin

text \<open>
  \<^verbatim>\<open>modeling/training.py\<close> and \<^verbatim>\<open>modeling/evaluation.py\<close> with the last classes of \<^verbatim>\<open>modeling/models.py\<close>:
  training the two candidates on the training rows, selecting by validation metrics, refitting the locked
  model on training and validation rows, and evaluating it once on the test partition.
\<close>

section \<open>Partitions as model input\<close>

record validated_partition =
  vp_partition :: dataset_partition
  vp_X :: "rat list list"
  vp_y :: "int list"
  vp_sessions :: "date list"
  vp_entry_sessions :: "date list"
  vp_exit_sessions :: "date list"

definition validate_modeling_partition ::
  "(string \<Rightarrow> data_exn) \<Rightarrow> string \<Rightarrow> string \<Rightarrow> dataset_partition \<Rightarrow> data_exn + validated_partition" where
  "validate_modeling_partition err expected_name class_error_code part =
     rbind (reconstruct err ''invalid_phase4_partition''
       (mk_partition (feature_frame_of (dp_features part)) (label_frame_of (dp_labels part))
         (dp_metadata part))) (\<lambda>validated.
     rbind (reject_if (pm_name (dp_metadata validated) \<noteq> expected_name) (err ''unexpected_partition_name'')) (\<lambda>_.
     let X = map fr_values (dp_features validated); frame = feature_frame_of (dp_features validated);
         labels = dp_labels validated in
     rbind (reject_if (list_ex (\<lambda>c. c \<in> set (''session'' # FORBIDDEN_MODEL_FEATURE_COLUMNS)) FEATURE_COLUMNS)
              (err ''forbidden_model_feature_column'')) (\<lambda>_.
     rbind (validate_finite_float64_columns err ''invalid_model_feature_dtype'' ''non_finite_model_feature''
              (ff_dtype frame) (feature_columns_of (ff_rows frame))) (\<lambda>_.
     rbind (validate_binary_integer_series err ''missing_model_target'' ''invalid_model_target_dtype''
              ''invalid_model_target_values'' (canonical_label_dtype ''target'')
              (map (Some \<circ> lb_target) labels)) (\<lambda>y.
     rbind (reject_if (set y \<noteq> {0, 1}) (err class_error_code)) (\<lambda>_.
     rbind (reject_if (length X \<noteq> length y) (err ''feature_target_count_mismatch'')) (\<lambda>_.
     rbind (validate_strictly_increasing_sessions err ''session'' ''duplicate_model_sessions''
              ''unordered_model_sessions'' (map (PyDate \<circ> fr_session) (dp_features validated))) (\<lambda>sessions.
     rbind (validate_strictly_increasing_sessions err ''entry_session'' ''duplicate_model_entry_sessions''
              ''unordered_model_entry_sessions'' (map (PyDate \<circ> lb_entry_session) labels)) (\<lambda>entry_sessions.
     rbind (validate_strictly_increasing_sessions err ''exit_session'' ''duplicate_model_exit_sessions''
              ''unordered_model_exit_sessions'' (map (PyDate \<circ> lb_exit_session) labels)) (\<lambda>exit_sessions.
     Inr \<lparr>vp_partition = validated, vp_X = X, vp_y = y, vp_sessions = sessions,
          vp_entry_sessions = entry_sessions, vp_exit_sessions = exit_sessions\<rparr>))))))))))"

text \<open>The schema versions of a partition are the constants that its constructor requires.\<close>

definition partition_lineage :: "partition_metadata \<Rightarrow> int \<Rightarrow> string \<Rightarrow> model_lineage" where
  "partition_lineage m random_seed sklearn_version =
     \<lparr>ml_source_market_data_checksum = pm_source_market_data_checksum m,
      ml_source_schema_version = SCHEMA_VERSION, ml_feature_schema_version = FEATURE_SCHEMA_VERSION,
      ml_label_schema_version = LABEL_SCHEMA_VERSION, ml_feature_columns = FEATURE_COLUMNS,
      ml_split_spec = pm_split_spec m, ml_random_seed = random_seed, ml_sklearn_version = sklearn_version,
      ml_model_schema_version = MODEL_SCHEMA_VERSION\<rparr>"

definition validate_partition_lineage_and_order ::
  "(string \<Rightarrow> data_exn) \<Rightarrow> string \<Rightarrow> string \<Rightarrow> validated_partition \<Rightarrow> validated_partition \<Rightarrow> data_exn + unit" where
  "validate_partition_lineage_and_order err earlier_name later_name earlier later =
     (let m1 = dp_metadata (vp_partition earlier); m2 = dp_metadata (vp_partition later) in
     rbind (reject_if (pm_source_market_data_checksum m1 \<noteq> pm_source_market_data_checksum m2)
              (err ''source_checksum_mismatch'')) (\<lambda>_.
     rbind (reject_if (pm_split_spec m1 \<noteq> pm_split_spec m2) (err ''split_spec_mismatch'')) (\<lambda>_.
     reject_if (hd (vp_sessions later) \<le> last (vp_sessions earlier))
       (err (earlier_name @ ''_'' @ later_name @ ''_overlap'')))))"

section \<open>Probabilities\<close>

definition class_to_int :: "pyval \<Rightarrow> data_exn + int" where
  "class_to_int value =
     (case value of
        PyBool _ \<Rightarrow> Inl (ModelEvaluationError ''unexpected_estimator_classes'')
      | _ \<Rightarrow> (if py_num value = Some 0 then Inr 0 else if py_num value = Some 1 then Inr 1
              else Inl (ModelEvaluationError ''unexpected_estimator_classes'')))"

definition probability_of_row :: "nat \<Rightarrow> nat \<Rightarrow> dec list \<Rightarrow> data_exn + rat" where
  "probability_of_row class_count positive_class_index row_values =
     rbind (reject_if (length row_values \<noteq> class_count) (ModelEvaluationError ''invalid_probability_shape'')) (\<lambda>_.
     case row_values ! positive_class_index of
       Fin p \<Rightarrow> if 0 \<le> p \<and> p \<le> 1 then Inr p else Inl (ModelEvaluationError ''probability_out_of_bounds'')
     | _ \<Rightarrow> Inl (ModelEvaluationError ''probability_out_of_bounds''))"

definition index_of :: "'a \<Rightarrow> 'a list \<Rightarrow> nat" where
  "index_of x xs = length (takeWhile (\<lambda>y. y \<noteq> x) xs)"

definition positive_class_probabilities ::
  "'est sklearn \<Rightarrow> 'est \<Rightarrow> rat list list \<Rightarrow> data_exn + rat list" where
  "positive_class_probabilities sk estimator X =
     (let err = ModelEvaluationError in
      case sk_classes sk estimator of
        None \<Rightarrow> Inl (err ''missing_estimator_classes'')
      | Some class_values \<Rightarrow>
          rbind (map_results class_to_int class_values) (\<lambda>parsed_classes.
          rbind (reject_if (length parsed_classes \<noteq> 2 \<or> set parsed_classes \<noteq> {0, 1})
                   (err ''unexpected_estimator_classes'')) (\<lambda>_.
          case sk_predict_proba sk estimator X of
            None \<Rightarrow> Inl (err ''probability_generation_failed'')
          | Some probability_matrix \<Rightarrow>
              rbind (reject_if (length probability_matrix \<noteq> length X)
                       (err ''probability_row_count_mismatch'')) (\<lambda>_.
              map_results (probability_of_row (length parsed_classes) (index_of 1 parsed_classes))
                probability_matrix))))"

definition prediction_rows :: "rat \<Rightarrow> date list \<Rightarrow> rat list \<Rightarrow> int list \<Rightarrow> prediction_row list" where
  "prediction_rows threshold sessions probabilities targets =
     map (\<lambda>(session, p, target). \<lparr>pn_session = PyDate session, pn_probability_positive = Fin p,
            pn_predicted_class = Some (if threshold \<le> p then 1 else 0), pn_target = Some target\<rparr>)
       (zip sessions (zip probabilities targets))"

definition build_prediction_set_from_probabilities ::
  "validated_partition \<Rightarrow> rat list \<Rightarrow> string \<Rightarrow> training_config \<Rightarrow> pyval \<Rightarrow> data_exn + prediction_set" where
  "build_prediction_set_from_probabilities view probabilities model_name config created_at =
     (let err = ModelEvaluationError in
     rbind (reconstruct err ''invalid_prediction_config'' (mk_training_config config)) (\<lambda>config.
     rbind (reject_if (length probabilities \<noteq> length (vp_y view)) (err ''probability_target_count_mismatch'')) (\<lambda>_.
     let threshold = mc_diagnostic_classification_threshold config;
         rows = prediction_rows (the_float threshold) (vp_sessions view) probabilities (vp_y view) in
     mk_prediction_set
       \<lparr>ps_model_name = model_name, ps_partition_name = pm_name (dp_metadata (vp_partition view)),
        ps_data = \<lparr>pf_columns = PREDICTION_COLUMNS,
          pf_dtype = (\<lambda>column. if column = ''probability_positive'' then ''float64''
             else if column = ''session'' then ''object'' else ''int64''),
          pf_rows = rows\<rparr>,
        ps_diagnostic_classification_threshold = threshold, ps_row_count = int (length rows),
        ps_first_session = hd (vp_sessions view), ps_last_session = last (vp_sessions view),
        ps_created_at = created_at\<rparr>)))"

section \<open>Metrics\<close>

text \<open>A metric function that raises stops the calculation; its value is converted to a float.\<close>

definition metric :: "dec option \<Rightarrow> data_exn + dec" where
  "metric result = (case result of None \<Rightarrow> Inl (ModelEvaluationError ''metric_calculation_failed'') | Some v \<Rightarrow> Inr v)"

definition calculate_classification_metrics ::
  "'est sklearn \<Rightarrow> prediction_set \<Rightarrow> pyval \<Rightarrow> data_exn + classification_metrics" where
  "calculate_classification_metrics sk predictions created_at =
     (let err = ModelEvaluationError in
     rbind (reconstruct err ''invalid_prediction_set'' (mk_prediction_set predictions)) (\<lambda>ps.
     rbind (aware_utc err ''created_at'' created_at) (\<lambda>created_at_utc.
     let rows = pf_rows (ps_data ps); targets = map (the \<circ> pn_target) rows;
         probabilities = map (the_float \<circ> pn_probability_positive) rows;
         classes = map (the \<circ> pn_predicted_class) rows;
         row_count = int (length targets); positive_count = sum_list targets in
     rbind (reject_if (set targets \<noteq> {0, 1}) (err ''single_class_evaluation_target'')) (\<lambda>_.
     rbind (metric (sk_log_loss sk targets probabilities)) (\<lambda>log_loss.
     rbind (metric (sk_brier_score sk targets probabilities)) (\<lambda>brier_score.
     rbind (metric (sk_roc_auc sk targets probabilities)) (\<lambda>roc_auc.
     rbind (metric (sk_average_precision sk targets probabilities)) (\<lambda>average_precision.
     rbind (metric (sk_accuracy sk targets classes)) (\<lambda>accuracy.
     rbind (metric (sk_precision sk targets classes)) (\<lambda>precision.
     rbind (metric (sk_recall sk targets classes)) (\<lambda>recall.
     rbind (metric (sk_f1 sk targets classes)) (\<lambda>f1.
     case sk_confusion sk targets classes of
       None \<Rightarrow> Inl (err ''metric_calculation_failed'')
     | Some (true_negative, false_positive, false_negative, true_positive) \<Rightarrow>
         mk_classification_metrics
           \<lparr>cm_model_name = ps_model_name ps, cm_partition_name = ps_partition_name ps,
            cm_diagnostic_classification_threshold = ps_diagnostic_classification_threshold ps,
            cm_row_count = row_count, cm_positive_count = positive_count,
            cm_negative_count = row_count - positive_count,
            cm_positive_rate = fl (of_int positive_count / of_int row_count),
            cm_log_loss = log_loss, cm_brier_score = brier_score, cm_roc_auc = roc_auc,
            cm_average_precision = average_precision, cm_accuracy_at_0_5 = accuracy,
            cm_precision_at_0_5 = precision, cm_recall_at_0_5 = recall, cm_f1_at_0_5 = f1,
            cm_true_negative_count = true_negative, cm_false_positive_count = false_positive,
            cm_false_negative_count = false_negative, cm_true_positive_count = true_positive,
            cm_created_at = PyAware created_at_utc\<rparr>))))))))))))"

section \<open>Training the candidates\<close>

text \<open>\<^verbatim>\<open>build_candidate_estimator\<close> and \<^verbatim>\<open>_fit_estimator\<close>: a fresh estimator of the given name and seed, fitted on the rows.\<close>

definition fit_estimator ::
  "'est sklearn \<Rightarrow> string \<Rightarrow> int \<Rightarrow> rat list list \<Rightarrow> int list \<Rightarrow> data_exn + 'est" where
  "fit_estimator sk model_name random_seed X y =
     (let err = ModelTrainingError in
     rbind (validate_model_name err model_name) (\<lambda>parsed_name.
     rbind (validate_int err ''invalid_random_seed'' 0 random_seed) (\<lambda>parsed_seed.
     case sk_fit sk parsed_name parsed_seed X y of
       Fitted estimator \<Rightarrow> Inr estimator
     | FitValueError \<Rightarrow> Inl (err ''model_fit_failed'')
     | NotConverged \<Rightarrow> Inl (err ''model_convergence_failed''))))"

definition train_candidate ::
  "'est sklearn \<Rightarrow> string \<Rightarrow> validated_partition \<Rightarrow> validated_partition \<Rightarrow> training_config \<Rightarrow> pyval \<Rightarrow>
     data_exn + 'est candidate_result" where
  "train_candidate sk model_name train_view validation_view config created_at =
     rbind (fit_estimator sk model_name (mc_random_seed config) (vp_X train_view) (vp_y train_view)) (\<lambda>fitted.
     rbind (positive_class_probabilities sk fitted (vp_X train_view)) (\<lambda>train_probabilities.
     rbind (build_prediction_set_from_probabilities train_view train_probabilities model_name config created_at) (\<lambda>tp.
     rbind (positive_class_probabilities sk fitted (vp_X validation_view)) (\<lambda>validation_probabilities.
     rbind (build_prediction_set_from_probabilities validation_view validation_probabilities model_name config
              created_at) (\<lambda>vp.
     rbind (calculate_classification_metrics sk tp created_at) (\<lambda>tm.
     rbind (calculate_classification_metrics sk vp created_at) (\<lambda>vm.
     rbind (fixed_model_parameters model_name (mc_random_seed config)) (\<lambda>parameters.
     mk_candidate_result sk
       \<lparr>cr_model_name = model_name, cr_estimator = fitted, cr_fixed_parameters = parameters,
        cr_train_predictions = tp, cr_validation_predictions = vp, cr_train_metrics = tm,
        cr_validation_metrics = vm,
        cr_lineage = partition_lineage (dp_metadata (vp_partition train_view)) (mc_random_seed config) (sk_version sk),
        cr_created_at = created_at\<rparr>))))))))"

definition train_candidate_models ::
  "'est sklearn \<Rightarrow> dataset_partition \<Rightarrow> dataset_partition \<Rightarrow> training_config \<Rightarrow> pyval \<Rightarrow>
     data_exn + 'est candidate_comparison" where
  "train_candidate_models sk train_partition validation_partition config created_at =
     rbind (aware_utc ModelTrainingError ''created_at'' created_at) (\<lambda>created_at_utc.
     rbind (validate_modeling_partition ModelInputError ''train'' ''single_class_training_target''
              train_partition) (\<lambda>train_view.
     rbind (validate_modeling_partition ModelInputError ''validation'' ''single_class_validation_target''
              validation_partition) (\<lambda>validation_view.
     rbind (validate_partition_lineage_and_order ModelInputError ''train'' ''validation'' train_view
              validation_view) (\<lambda>_.
     let now = PyAware created_at_utc in
     rbind (train_candidate sk LOGISTIC_REGRESSION_MODEL train_view validation_view config now) (\<lambda>logistic.
     rbind (train_candidate sk GRADIENT_BOOSTING_MODEL train_view validation_view config now) (\<lambda>gradient.
     rbind (select_locked_model sk logistic gradient config now) (\<lambda>locked.
     mk_candidate_comparison sk
       \<lparr>cc_logistic_regression = logistic, cc_gradient_boosting = gradient, cc_locked_selection = locked,
        cc_config = config,
        cc_lineage = partition_lineage (dp_metadata (vp_partition train_view)) (mc_random_seed config) (sk_version sk),
        cc_created_at = now\<rparr>)))))))"

end
