(* ===== verification/Model_Final.thy ===== *)
theory Model_Final
  imports Model_Pipeline
begin

text \<open>
  \<^verbatim>\<open>FinalModelBundle\<close> and \<^verbatim>\<open>FinalTestEvaluation\<close>, with \<^verbatim>\<open>fit_locked_model_on_train_validation\<close> of
  \<^verbatim>\<open>modeling/training.py\<close> and \<^verbatim>\<open>evaluate_locked_model_on_test\<close> of \<^verbatim>\<open>modeling/evaluation.py\<close>.
\<close>

section \<open>The final model\<close>

record 'est final_model =
  fm_selected_model_name :: string
  fm_estimator :: 'est
  fm_locked_selection :: locked_selection
  fm_fixed_parameters :: parameter_set
  fm_lineage :: model_lineage
  fm_train_row_count :: int
  fm_validation_row_count :: int
  fm_combined_row_count :: int
  fm_train_first_session :: date
  fm_train_last_session :: date
  fm_validation_first_session :: date
  fm_validation_last_session :: date
  fm_combined_first_session :: date
  fm_combined_last_session :: date
  fm_diagnostic_classification_threshold :: dec
  fm_created_at :: pyval

definition mk_final_model :: "'est sklearn \<Rightarrow> 'est final_model \<Rightarrow> data_exn + 'est final_model" where
  "mk_final_model sk m =
     (let err = LockedModelError; lineage = fm_lineage m; name = fm_selected_model_name m in
     rbind (validate_model_name err name) (\<lambda>_.
     rbind (reconstruct err ''invalid_locked_selection''
              (mk_locked_selection (sk_version sk) (fm_locked_selection m))) (\<lambda>locked.
     rbind (reconstruct err ''invalid_fixed_parameters'' (mk_parameter_set (fm_fixed_parameters m))) (\<lambda>parameters.
     rbind (reject_if (lk_selected_model_name locked \<noteq> name) (err ''locked_selection_model_mismatch'')) (\<lambda>_.
     rbind (reject_if (mp_model_name parameters \<noteq> name) (err ''final_parameter_model_mismatch'')) (\<lambda>_.
     rbind (reject_if (ml_model_schema_version lineage \<noteq> MODEL_SCHEMA_VERSION)
              (err ''invalid_model_schema_version'')) (\<lambda>_.
     rbind (check_checksum_and_schemas err lineage) (\<lambda>_.
     let other = lk_lineage locked in
     rbind (reject_if (ml_source_market_data_checksum other \<noteq> ml_source_market_data_checksum lineage)
              (err ''locked_selection_source_checksum_mismatch'')) (\<lambda>_.
     rbind (reject_if (ml_source_schema_version other \<noteq> ml_source_schema_version lineage)
              (err ''locked_selection_source_schema_mismatch'')) (\<lambda>_.
     rbind (reject_if (ml_feature_schema_version other \<noteq> ml_feature_schema_version lineage)
              (err ''locked_selection_feature_schema_mismatch'')) (\<lambda>_.
     rbind (reject_if (ml_label_schema_version other \<noteq> ml_label_schema_version lineage)
              (err ''locked_selection_label_schema_mismatch'')) (\<lambda>_.
     rbind (reject_if (ml_feature_columns other \<noteq> ml_feature_columns lineage)
              (err ''locked_selection_feature_column_mismatch'')) (\<lambda>_.
     rbind (reject_if (ml_split_spec other \<noteq> ml_split_spec lineage)
              (err ''locked_selection_split_spec_mismatch'')) (\<lambda>_.
     rbind (validate_int err ''invalid_train_row_count'' 1 (fm_train_row_count m)) (\<lambda>_.
     rbind (validate_int err ''invalid_validation_row_count'' 1 (fm_validation_row_count m)) (\<lambda>_.
     rbind (validate_int err ''invalid_combined_row_count'' 1 (fm_combined_row_count m)) (\<lambda>_.
     rbind (reject_if (fm_train_row_count m + fm_validation_row_count m \<noteq> fm_combined_row_count m)
              (err ''combined_row_count_mismatch'')) (\<lambda>_.
     rbind (reject_if (fm_train_row_count m \<noteq> lk_train_row_count locked \<or>
                fm_validation_row_count m \<noteq> lk_validation_row_count locked)
              (err ''locked_selection_count_mismatch'')) (\<lambda>_.
     rbind (reject_if (fm_validation_first_session m \<le> fm_train_last_session m)
              (err ''train_validation_overlap'')) (\<lambda>_.
     rbind (reject_if (fm_combined_first_session m \<noteq> fm_train_first_session m)
              (err ''combined_first_session_mismatch'')) (\<lambda>_.
     rbind (reject_if (fm_combined_last_session m \<noteq> fm_validation_last_session m)
              (err ''combined_last_session_mismatch'')) (\<lambda>_.
     rbind (reject_if (fm_train_first_session m \<noteq> lk_train_first_session locked \<or>
                fm_train_last_session m \<noteq> lk_train_last_session locked \<or>
                fm_validation_first_session m \<noteq> lk_validation_first_session locked \<or>
                fm_validation_last_session m \<noteq> lk_validation_last_session locked)
              (err ''locked_selection_session_bounds_mismatch'')) (\<lambda>_.
     rbind (validate_int err ''invalid_random_seed'' 0 (ml_random_seed lineage)) (\<lambda>random_seed.
     rbind (reject_if (random_seed \<noteq> ml_random_seed other) (err ''locked_selection_seed_mismatch'')) (\<lambda>_.
     rbind (fixed_model_parameters name random_seed) (\<lambda>canonical_parameters.
     rbind (reject_if (\<not> same_parameters parameters canonical_parameters)
              (err ''final_parameter_spec_mismatch'')) (\<lambda>_.
     rbind (validate_threshold err ''invalid_diagnostic_classification_threshold''
              (fm_diagnostic_classification_threshold m)) (\<lambda>_.
     rbind (reject_if (fm_diagnostic_classification_threshold m \<noteq> lk_diagnostic_classification_threshold locked)
              (err ''locked_selection_threshold_mismatch'')) (\<lambda>_.
     rbind (validate_runtime_sklearn_version (sk_version sk) err (ml_sklearn_version lineage)) (\<lambda>_.
     rbind (reject_if (ml_sklearn_version lineage \<noteq> ml_sklearn_version other)
              (err ''locked_selection_sklearn_version_mismatch'')) (\<lambda>_.
     rbind (validate_fitted_estimator_spec sk err (fm_estimator m) name random_seed) (\<lambda>_.
     rbind (aware_utc err ''created_at'' (fm_created_at m)) (\<lambda>_.
     Inr m)))))))))))))))))))))))))))))))))"

section \<open>The refit\<close>

definition verify_locked_selection_matches_partitions ::
  "string \<Rightarrow> locked_selection \<Rightarrow> validated_partition \<Rightarrow> validated_partition \<Rightarrow> data_exn + unit" where
  "verify_locked_selection_matches_partitions sklearn_version locked train_view validation_view =
     (let err = LockedModelError; lineage = lk_lineage locked;
          train = dp_metadata (vp_partition train_view); validation = dp_metadata (vp_partition validation_view) in
     rbind (reject_if (ml_source_market_data_checksum lineage \<noteq> pm_source_market_data_checksum train)
              (err ''locked_selection_source_checksum_mismatch'')) (\<lambda>_.
     rbind (reject_if (ml_source_market_data_checksum lineage \<noteq> pm_source_market_data_checksum validation)
              (err ''locked_selection_validation_checksum_mismatch'')) (\<lambda>_.
     rbind (reject_if (ml_source_schema_version lineage \<noteq> SCHEMA_VERSION \<or>
                ml_feature_schema_version lineage \<noteq> FEATURE_SCHEMA_VERSION \<or>
                ml_label_schema_version lineage \<noteq> LABEL_SCHEMA_VERSION \<or>
                ml_feature_columns lineage \<noteq> FEATURE_COLUMNS \<or> ml_split_spec lineage \<noteq> pm_split_spec train)
              (err ''locked_selection_train_lineage_mismatch'')) (\<lambda>_.
     rbind (reject_if (ml_split_spec lineage \<noteq> pm_split_spec validation)
              (err ''locked_selection_validation_lineage_mismatch'')) (\<lambda>_.
     rbind (reject_if (lk_train_row_count locked \<noteq> int (length (vp_X train_view)))
              (err ''locked_selection_train_count_mismatch'')) (\<lambda>_.
     rbind (reject_if (lk_validation_row_count locked \<noteq> int (length (vp_X validation_view)))
              (err ''locked_selection_validation_count_mismatch'')) (\<lambda>_.
     rbind (reject_if (lk_train_first_session locked \<noteq> hd (vp_sessions train_view) \<or>
                lk_train_last_session locked \<noteq> last (vp_sessions train_view) \<or>
                lk_validation_first_session locked \<noteq> hd (vp_sessions validation_view) \<or>
                lk_validation_last_session locked \<noteq> last (vp_sessions validation_view))
              (err ''locked_selection_session_bounds_mismatch'')) (\<lambda>_.
     reject_if (ml_sklearn_version lineage \<noteq> sklearn_version) (err ''sklearn_version_mismatch'')))))))))"

definition fit_locked_model_on_train_validation ::
  "'est sklearn \<Rightarrow> dataset_partition \<Rightarrow> dataset_partition \<Rightarrow> locked_selection \<Rightarrow> pyval \<Rightarrow> data_exn + 'est final_model" where
  "fit_locked_model_on_train_validation sk train_partition validation_partition locked_selection created_at =
     (let err = LockedModelError in
     rbind (aware_utc err ''created_at'' created_at) (\<lambda>created_at_utc.
     rbind (reconstruct err ''invalid_locked_selection'' (mk_locked_selection (sk_version sk) locked_selection)) (\<lambda>locked.
     rbind (validate_modeling_partition err ''train'' ''single_class_training_target'' train_partition) (\<lambda>train_view.
     rbind (validate_modeling_partition err ''validation'' ''single_class_validation_target''
              validation_partition) (\<lambda>validation_view.
     rbind (validate_partition_lineage_and_order err ''train'' ''validation'' train_view validation_view) (\<lambda>_.
     rbind (verify_locked_selection_matches_partitions (sk_version sk) locked train_view validation_view) (\<lambda>_.
     let combined_sessions = vp_sessions train_view @ vp_sessions validation_view;
         X = vp_X train_view @ vp_X validation_view; y = vp_y train_view @ vp_y validation_view;
         name = lk_selected_model_name locked; random_seed = ml_random_seed (lk_lineage locked) in
     rbind (reject_if (\<not> distinct combined_sessions) (err ''train_validation_session_overlap'')) (\<lambda>_.
     rbind (reject_if (combined_sessions \<noteq> sort combined_sessions)
              (err ''unordered_train_validation_sessions'')) (\<lambda>_.
     rbind (reject_if (set y \<noteq> {0, 1}) (err ''single_class_final_refit_target'')) (\<lambda>_.
     rbind (fit_estimator sk name random_seed X y) (\<lambda>fitted_estimator.
     rbind (fixed_model_parameters name random_seed) (\<lambda>selected_parameters.
     rbind (reject_if (\<not> list_ex (same_parameters selected_parameters) (lk_candidate_parameters locked))
              (err ''locked_selection_parameter_mismatch'')) (\<lambda>_.
     mk_final_model sk
       \<lparr>fm_selected_model_name = name, fm_estimator = fitted_estimator, fm_locked_selection = locked,
        fm_fixed_parameters = selected_parameters,
        fm_lineage = (lk_lineage locked)
          \<lparr>ml_sklearn_version := sk_version sk, ml_model_schema_version := MODEL_SCHEMA_VERSION\<rparr>,
        fm_train_row_count = int (length (vp_X train_view)),
        fm_validation_row_count = int (length (vp_X validation_view)), fm_combined_row_count = int (length X),
        fm_train_first_session = hd (vp_sessions train_view), fm_train_last_session = last (vp_sessions train_view),
        fm_validation_first_session = hd (vp_sessions validation_view),
        fm_validation_last_session = last (vp_sessions validation_view),
        fm_combined_first_session = hd combined_sessions, fm_combined_last_session = last combined_sessions,
        fm_diagnostic_classification_threshold = lk_diagnostic_classification_threshold locked,
        fm_created_at = PyAware created_at_utc\<rparr>)))))))))))))"

section \<open>The final evaluation\<close>

record final_evaluation =
  fe_selected_model_name :: string
  fe_locked_selection :: locked_selection
  fe_prediction_set :: prediction_set
  fe_metrics :: classification_metrics
  fe_lineage :: model_lineage
  fe_test_row_count :: int
  fe_test_first_session :: date
  fe_test_last_session :: date
  fe_diagnostic_classification_threshold :: dec
  fe_created_at :: pyval

definition check_evaluation_schema :: "string \<Rightarrow> string \<Rightarrow> string \<Rightarrow> string \<Rightarrow> data_exn + unit" where
  "check_evaluation_schema field_name expected own locked =
     rbind (reject_if (own \<noteq> expected) (LockedModelError (''invalid_'' @ field_name))) (\<lambda>_.
     reject_if (locked \<noteq> own) (LockedModelError (''locked_selection_'' @ field_name @ ''_mismatch'')))"

definition mk_final_evaluation :: "string \<Rightarrow> final_evaluation \<Rightarrow> data_exn + final_evaluation" where
  "mk_final_evaluation sklearn_version e =
     (let err = LockedModelError; lineage = fe_lineage e; spec = ml_split_spec lineage;
          name = fe_selected_model_name e in
     rbind (validate_model_name err name) (\<lambda>_.
     rbind (reconstruct err ''invalid_locked_selection''
              (mk_locked_selection sklearn_version (fe_locked_selection e))) (\<lambda>locked.
     rbind (reconstruct err ''invalid_test_prediction_set'' (mk_prediction_set (fe_prediction_set e))) (\<lambda>predictions.
     rbind (reconstruct err ''invalid_test_metrics'' (mk_classification_metrics (fe_metrics e))) (\<lambda>metrics.
     rbind (reject_if (lk_selected_model_name locked \<noteq> name) (err ''locked_selection_model_mismatch'')) (\<lambda>_.
     rbind (reject_if (ps_model_name predictions \<noteq> name) (err ''test_prediction_model_mismatch'')) (\<lambda>_.
     rbind (reject_if (ps_partition_name predictions \<noteq> ''test'' \<or> cm_partition_name metrics \<noteq> ''test'')
              (err ''invalid_test_partition_result'')) (\<lambda>_.
     rbind (reject_if (cm_model_name metrics \<noteq> name) (err ''test_metric_model_mismatch'')) (\<lambda>_.
     rbind (reject_if (ml_model_schema_version lineage \<noteq> MODEL_SCHEMA_VERSION)
              (err ''invalid_model_schema_version'')) (\<lambda>_.
     rbind (reject_if (\<not> is_checksum (ml_source_market_data_checksum lineage))
              (err ''invalid_source_market_data_checksum'')) (\<lambda>_.
     let other = lk_lineage locked in
     rbind (reject_if (ml_source_market_data_checksum lineage \<noteq> ml_source_market_data_checksum other)
              (err ''locked_selection_source_checksum_mismatch'')) (\<lambda>_.
     rbind (check_all (\<lambda>(field, expected, own, locked_value). check_evaluation_schema field expected own locked_value)
       [(''source_schema_version'', SCHEMA_VERSION, ml_source_schema_version lineage, ml_source_schema_version other),
        (''feature_schema_version'', FEATURE_SCHEMA_VERSION, ml_feature_schema_version lineage,
         ml_feature_schema_version other),
        (''label_schema_version'', LABEL_SCHEMA_VERSION, ml_label_schema_version lineage,
         ml_label_schema_version other)]) (\<lambda>_.
     rbind (reject_if (ml_feature_columns lineage \<noteq> FEATURE_COLUMNS) (err ''invalid_feature_columns'')) (\<lambda>_.
     rbind (reject_if (ml_feature_columns lineage \<noteq> ml_feature_columns other)
              (err ''locked_selection_feature_column_mismatch'')) (\<lambda>_.
     rbind (reject_if (spec \<noteq> ml_split_spec other) (err ''locked_selection_split_spec_mismatch'')) (\<lambda>_.
     rbind (validate_int err ''invalid_test_row_count'' 1 (fe_test_row_count e)) (\<lambda>test_row_count.
     rbind (reject_if (fe_test_last_session e < fe_test_first_session e) (err ''invalid_test_session_bounds'')) (\<lambda>_.
     rbind (reject_if (fe_test_first_session e < ss_test_start spec \<or> ss_test_end spec < fe_test_last_session e)
              (err ''test_session_split_bounds_mismatch'')) (\<lambda>_.
     rbind (reject_if (ps_row_count predictions \<noteq> test_row_count \<or> cm_row_count metrics \<noteq> test_row_count)
              (err ''test_result_count_mismatch'')) (\<lambda>_.
     rbind (reject_if (ps_first_session predictions \<noteq> fe_test_first_session e \<or>
                ps_last_session predictions \<noteq> fe_test_last_session e) (err ''test_prediction_bounds_mismatch'')) (\<lambda>_.
     rbind (reject_if (ps_first_session predictions < ss_test_start spec \<or>
                ss_test_end spec < ps_last_session predictions) (err ''test_prediction_split_bounds_mismatch'')) (\<lambda>_.
     rbind (reject_if (fe_test_first_session e \<le> lk_validation_last_session locked)
              (err ''validation_test_overlap'')) (\<lambda>_.
     rbind (validate_int err ''invalid_random_seed'' 0 (ml_random_seed lineage)) (\<lambda>random_seed.
     rbind (reject_if (random_seed \<noteq> ml_random_seed other) (err ''locked_selection_seed_mismatch'')) (\<lambda>_.
     rbind (validate_threshold err ''invalid_diagnostic_classification_threshold''
              (fe_diagnostic_classification_threshold e)) (\<lambda>_.
     rbind (reject_if (fe_diagnostic_classification_threshold e \<noteq> lk_diagnostic_classification_threshold locked)
              (err ''locked_selection_threshold_mismatch'')) (\<lambda>_.
     rbind (reject_if (ps_diagnostic_classification_threshold predictions \<noteq> fe_diagnostic_classification_threshold e \<or>
                cm_diagnostic_classification_threshold metrics \<noteq> fe_diagnostic_classification_threshold e)
              (err ''test_threshold_mismatch'')) (\<lambda>_.
     rbind (reject_if (prediction_target_counts predictions \<noteq> metric_counts metrics)
              (err ''test_prediction_metric_class_count_mismatch'')) (\<lambda>_.
     rbind (validate_runtime_sklearn_version sklearn_version err (ml_sklearn_version lineage)) (\<lambda>_.
     rbind (reject_if (ml_sklearn_version lineage \<noteq> ml_sklearn_version other)
              (err ''locked_selection_sklearn_version_mismatch'')) (\<lambda>_.
     rbind (aware_utc err ''created_at'' (fe_created_at e)) (\<lambda>created_at.
     rbind (reject_if (ps_created_at predictions \<noteq> PyAware created_at \<or> cm_created_at metrics \<noteq> PyAware created_at)
              (err ''test_created_at_mismatch'')) (\<lambda>_.
     Inr e)))))))))))))))))))))))))))))))))"

definition evaluate_locked_model_on_test ::
  "'est sklearn \<Rightarrow> 'est final_model \<Rightarrow> dataset_partition \<Rightarrow> pyval \<Rightarrow> data_exn + final_evaluation" where
  "evaluate_locked_model_on_test sk final_model test_partition created_at =
     (let err = LockedModelError in
     rbind (aware_utc err ''created_at'' created_at) (\<lambda>created_at_utc.
     rbind (mk_final_model sk final_model) (\<lambda>model.
     rbind (validate_modeling_partition err ''test'' ''single_class_test_target'' test_partition) (\<lambda>test_view.
     let metadata = dp_metadata (vp_partition test_view); lineage = fm_lineage model; now = PyAware created_at_utc in
     rbind (reject_if (pm_source_market_data_checksum metadata \<noteq> ml_source_market_data_checksum lineage)
              (err ''test_source_checksum_mismatch'')) (\<lambda>_.
     rbind (reject_if (SCHEMA_VERSION \<noteq> ml_source_schema_version lineage) (err ''test_source_schema_mismatch'')) (\<lambda>_.
     rbind (reject_if (FEATURE_SCHEMA_VERSION \<noteq> ml_feature_schema_version lineage)
              (err ''test_feature_schema_mismatch'')) (\<lambda>_.
     rbind (reject_if (LABEL_SCHEMA_VERSION \<noteq> ml_label_schema_version lineage)
              (err ''test_label_schema_mismatch'')) (\<lambda>_.
     rbind (reject_if (FEATURE_COLUMNS \<noteq> ml_feature_columns lineage) (err ''test_feature_column_mismatch'')) (\<lambda>_.
     rbind (reject_if (pm_split_spec metadata \<noteq> ml_split_spec lineage) (err ''test_split_spec_mismatch'')) (\<lambda>_.
     rbind (reject_if (hd (vp_sessions test_view) \<le> fm_validation_last_session model)
              (err ''validation_test_overlap'')) (\<lambda>_.
     rbind (reject_if (sk_version sk \<noteq> ml_sklearn_version lineage) (err ''sklearn_version_mismatch'')) (\<lambda>_.
     rbind (positive_class_probabilities sk (fm_estimator model) (vp_X test_view)) (\<lambda>probabilities.
     rbind (mk_training_config \<lparr>mc_random_seed = ml_random_seed lineage,
         mc_diagnostic_classification_threshold = fm_diagnostic_classification_threshold model\<rparr>) (\<lambda>config.
     rbind (build_prediction_set_from_probabilities test_view probabilities (fm_selected_model_name model)
              config now) (\<lambda>predictions.
     rbind (calculate_classification_metrics sk predictions now) (\<lambda>metrics.
     mk_final_evaluation (sk_version sk)
       \<lparr>fe_selected_model_name = fm_selected_model_name model, fe_locked_selection = fm_locked_selection model,
        fe_prediction_set = predictions, fe_metrics = metrics,
        fe_lineage = lineage \<lparr>ml_model_schema_version := MODEL_SCHEMA_VERSION\<rparr>,
        fe_test_row_count = ps_row_count predictions, fe_test_first_session = ps_first_session predictions,
        fe_test_last_session = ps_last_session predictions,
        fe_diagnostic_classification_threshold = fm_diagnostic_classification_threshold model,
        fe_created_at = now\<rparr>))))))))))))))))"

end
