(* ===== verification/Data_Signals.thy ===== *)
theory Data_Signals
  imports Model_Final
begin

text \<open>
  \<^verbatim>\<open>strategies/models.py\<close> and \<^verbatim>\<open>strategies/signal_policy.py\<close>: the long-or-cash signals, one for each prediction of the final
  test evaluation, executed at the next session of the market data.
\<close>

definition STRATEGY_SCHEMA_VERSION :: string where
  "STRATEGY_SCHEMA_VERSION = ''spy-long-cash-strategy-v1''"

definition STRATEGY_LONG_PROBABILITY_THRESHOLD :: rat where
  "STRATEGY_LONG_PROBABILITY_THRESHOLD = 1 / 2"

definition SIGNAL_COLUMNS :: "string list" where
  "SIGNAL_COLUMNS = [''signal_session'', ''execution_session'', ''probability_positive'', ''target_position'']"

section \<open>Signal sets\<close>

record signal_row =
  sr_signal_session :: pyval
  sr_execution_session :: pyval
  sr_probability_positive :: dec
  sr_target_position :: int

record signal_frame =
  sf_columns :: "string list"
  sf_dtype :: "string \<Rightarrow> string"
  sf_rows :: "signal_row list"

record signal_set =
  sgs_data :: signal_frame
  sgs_selected_model_name :: string
  sgs_strategy_threshold :: dec
  sgs_source_market_data_checksum :: string
  sgs_source_schema_version :: string
  sgs_feature_schema_version :: string
  sgs_label_schema_version :: string
  sgs_model_schema_version :: string
  sgs_strategy_schema_version :: string
  sgs_feature_columns :: "string list"
  sgs_split_spec :: split_spec
  sgs_market_sessions :: "date list"
  sgs_first_signal_session :: date
  sgs_last_signal_session :: date
  sgs_first_execution_session :: date
  sgs_last_execution_session :: date
  sgs_row_count :: int
  sgs_sklearn_version :: string
  sgs_created_at :: pyval

text \<open>\<^verbatim>\<open>_validate_strictly_increasing\<close> on plain dates.\<close>

definition increasing_dates_of :: "string \<Rightarrow> date list \<Rightarrow> data_exn + unit" where
  "increasing_dates_of field_name values =
     rbind (reject_if (\<not> distinct values) (StrategyInputError (''duplicate_'' @ field_name))) (\<lambda>_.
     reject_if (values \<noteq> sort values) (StrategyInputError (''unordered_'' @ field_name)))"

lemma increasing_dates_of_Inr [simp]: "increasing_dates_of f ds = Inr u \<longleftrightarrow> increasing ds"
  by (simp add: increasing_dates_of_def rbind_eq_Inr_iff)
     (metis sorted_sort sort_key_id_if_sorted strict_sorted_iff map_ident)

definition check_signal_pair :: "date list \<Rightarrow> date \<times> date \<Rightarrow> data_exn + unit" where
  "check_signal_pair market_sessions = (\<lambda>(signal_session, execution_session).
     rbind (reject_if (execution_session \<le> signal_session)
              (StrategyInputError ''same_candle_or_backward_execution'')) (\<lambda>_.
     rbind (reject_if (signal_session \<notin> set market_sessions \<or> execution_session \<notin> set market_sessions)
              (StrategyInputError ''signal_session_missing_from_market_sessions'')) (\<lambda>_.
     reject_if (index_of execution_session market_sessions \<noteq> index_of signal_session market_sessions + 1)
       (StrategyInputError ''non_adjacent_execution_session''))))"

definition check_signal_target :: "rat \<Rightarrow> signal_row \<Rightarrow> data_exn + unit" where
  "check_signal_target threshold row =
     (case sr_probability_positive row of
        Fin p \<Rightarrow>
          rbind (reject_if (p < 0 \<or> 1 < p) (StrategyInputError ''probability_out_of_bounds'')) (\<lambda>_.
          rbind (reject_if (sr_target_position row \<notin> {0, 1})
                   (StrategyInputError ''invalid_target_position_value'')) (\<lambda>_.
          reject_if (sr_target_position row \<noteq> (if threshold \<le> p then 1 else 0))
            (StrategyInputError ''target_position_threshold_mismatch'')))
      | _ \<Rightarrow> Inl (StrategyInputError ''invalid_probability_value''))"

definition mk_signal_set :: "string \<Rightarrow> signal_set \<Rightarrow> data_exn + signal_set" where
  "mk_signal_set sklearn_version s =
     (let err = StrategyInputError; data = sgs_data s; rows = sf_rows data; spec = sgs_split_spec s;
          market_sessions = sgs_market_sessions s in
     rbind (reject_if (sgs_selected_model_name s \<notin> set MODEL_NAMES) (err ''invalid_selected_model_name'')) (\<lambda>_.
     rbind (validate_finite_float err ''invalid_strategy_threshold'' (sgs_strategy_threshold s)) (\<lambda>threshold.
     rbind (reject_if (threshold \<noteq> STRATEGY_LONG_PROBABILITY_THRESHOLD) (err ''invalid_strategy_threshold'')) (\<lambda>_.
     rbind (reject_if (\<not> is_checksum (sgs_source_market_data_checksum s))
              (err ''invalid_source_market_data_checksum'')) (\<lambda>_.
     rbind (reject_if (sgs_source_schema_version s \<noteq> SCHEMA_VERSION) (err ''invalid_source_schema_version'')) (\<lambda>_.
     rbind (reject_if (sgs_feature_schema_version s \<noteq> FEATURE_SCHEMA_VERSION)
              (err ''invalid_feature_schema_version'')) (\<lambda>_.
     rbind (reject_if (sgs_label_schema_version s \<noteq> LABEL_SCHEMA_VERSION) (err ''invalid_label_schema_version'')) (\<lambda>_.
     rbind (reject_if (sgs_model_schema_version s \<noteq> MODEL_SCHEMA_VERSION) (err ''invalid_model_schema_version'')) (\<lambda>_.
     rbind (reject_if (sgs_strategy_schema_version s \<noteq> STRATEGY_SCHEMA_VERSION)
              (err ''invalid_strategy_schema_version'')) (\<lambda>_.
     rbind (reject_if (sgs_feature_columns s \<noteq> FEATURE_COLUMNS) (err ''invalid_feature_columns'')) (\<lambda>_.
     rbind (reject_if (market_sessions = []) (err ''invalid_market_sessions'')) (\<lambda>_.
     rbind (increasing_dates_of ''market_sessions'' market_sessions) (\<lambda>_.
     rbind (validate_int err ''invalid_row_count'' 1 (sgs_row_count s)) (\<lambda>row_count.
     rbind (aware_utc (\<lambda>_. err ''invalid_created_at'') ''created_at'' (sgs_created_at s)) (\<lambda>_.
     rbind (reject_if (strip (sgs_sklearn_version s) = [] \<or> sgs_sklearn_version s \<noteq> sklearn_version)
              (err ''invalid_sklearn_version'')) (\<lambda>_.
     rbind (reject_if (sf_columns data \<noteq> SIGNAL_COLUMNS) (err ''invalid_signal_columns'')) (\<lambda>_.
     rbind (reject_if (int (length rows) \<noteq> row_count) (err ''signal_row_count_mismatch'')) (\<lambda>_.
     rbind (map_results (plain_date_of err ''signal_session'') (map sr_signal_session rows)) (\<lambda>signal_sessions.
     rbind (map_results (plain_date_of err ''execution_session'') (map sr_execution_session rows)) (\<lambda>execution_sessions.
     rbind (increasing_dates_of ''signal_sessions'' signal_sessions) (\<lambda>_.
     rbind (increasing_dates_of ''execution_sessions'' execution_sessions) (\<lambda>_.
     rbind (reject_if (hd signal_sessions \<noteq> sgs_first_signal_session s \<or>
                last signal_sessions \<noteq> sgs_last_signal_session s) (err ''signal_session_bounds_mismatch'')) (\<lambda>_.
     rbind (reject_if (hd execution_sessions \<noteq> sgs_first_execution_session s \<or>
                last execution_sessions \<noteq> sgs_last_execution_session s)
              (err ''execution_session_bounds_mismatch'')) (\<lambda>_.
     rbind (check_all (check_signal_pair market_sessions) (zip signal_sessions execution_sessions)) (\<lambda>_.
     rbind (reject_if (sgs_first_signal_session s < ss_test_start spec \<or> ss_test_end spec < sgs_last_signal_session s \<or>
                sgs_first_execution_session s < ss_test_start spec \<or> ss_test_end spec < sgs_last_execution_session s)
              (err ''signal_split_bounds_mismatch'')) (\<lambda>_.
     rbind (reject_if (sf_dtype data ''probability_positive'' \<noteq> ''float64'') (err ''invalid_probability_dtype'')) (\<lambda>_.
     rbind (reject_if (sf_dtype data ''target_position'' \<noteq> ''int64'') (err ''invalid_target_position_dtype'')) (\<lambda>_.
     rbind (check_all (check_signal_target threshold) rows) (\<lambda>_.
     Inr (s \<lparr>sgs_sklearn_version := strip (sgs_sklearn_version s)\<rparr>))))))))))))))))))))))))))))))"

section \<open>Building the signals\<close>

text \<open>The cells of a typed bar, as the constructor of the batch reads them again.\<close>

definition raw_bar_of :: "bar \<Rightarrow> raw_bar" where
  "raw_bar_of b =
     \<lparr>mbo_session = PyDate (mb_session b), mbo_open = PyFloat (Fin (mb_open b)) '''',
      mbo_high = PyFloat (Fin (mb_high b)) '''', mbo_low = PyFloat (Fin (mb_low b)) '''',
      mbo_close = PyFloat (Fin (mb_close b)) '''', mbo_volume = PyInt (mb_volume b)\<rparr>"

definition revalidate_market_data :: "(bar list \<Rightarrow> string) \<Rightarrow> market_batch \<Rightarrow> data_exn + market_batch" where
  "revalidate_market_data digest batch =
     reconstruct StrategyInputError ''invalid_market_data''
       (mk_market_batch digest CANONICAL_COLUMNS (map raw_bar_of (md_bars batch)) (md_metadata batch))"

definition signal_of_prediction ::
  "date list \<Rightarrow> split_spec \<Rightarrow> prediction_row \<Rightarrow> data_exn + signal_row" where
  "signal_of_prediction market_sessions spec row =
     (let err = StrategyInputError; signal_session = date_cell (pn_session row);
          probability = the_float (pn_probability_positive row);
          execution_index = index_of signal_session market_sessions + 1;
          execution_session = market_sessions ! execution_index in
     rbind (reject_if (signal_session \<notin> set market_sessions)
              (err ''prediction_session_missing_from_market_data'')) (\<lambda>_.
     rbind (reject_if (length market_sessions \<le> execution_index) (err ''missing_following_execution_session'')) (\<lambda>_.
     rbind (reject_if (ss_test_end spec < execution_session) (err ''execution_session_outside_test_split'')) (\<lambda>_.
     rbind (reject_if (signal_session < ss_test_start spec) (err ''signal_session_outside_test_split'')) (\<lambda>_.
     Inr \<lparr>sr_signal_session = PyDate signal_session, sr_execution_session = PyDate execution_session,
          sr_probability_positive = Fin probability,
          sr_target_position = (if STRATEGY_LONG_PROBABILITY_THRESHOLD \<le> probability then 1 else 0)\<rparr>)))))"

definition build_long_cash_strategy_signals ::
  "string \<Rightarrow> (bar list \<Rightarrow> string) \<Rightarrow> final_evaluation \<Rightarrow> market_batch \<Rightarrow> pyval \<Rightarrow> data_exn + signal_set" where
  "build_long_cash_strategy_signals sklearn_version digest evaluation market_data created_at =
     (let err = StrategyInputError in
     rbind (aware_utc (\<lambda>_. err ''invalid_created_at'') ''created_at'' created_at) (\<lambda>created_at_utc.
     rbind (reconstruct err ''invalid_final_test_evaluation'' (mk_final_evaluation sklearn_version evaluation)) (\<lambda>e.
     rbind (revalidate_market_data digest market_data) (\<lambda>batch.
     let metadata = md_metadata batch; lineage = fe_lineage e; spec = ml_split_spec lineage;
         market_sessions = map mb_session (md_bars batch) in
     rbind (reject_if (mm_symbol metadata \<noteq> MARKET_SYMBOL) (err ''invalid_market_symbol'')) (\<lambda>_.
     rbind (reject_if (mm_dataset_checksum metadata \<noteq> ml_source_market_data_checksum lineage)
              (err ''source_checksum_mismatch'')) (\<lambda>_.
     rbind (reject_if (mm_schema_version metadata \<noteq> SCHEMA_VERSION \<or>
                mm_schema_version metadata \<noteq> ml_source_schema_version lineage)
              (err ''source_schema_mismatch'')) (\<lambda>_.
     rbind (reject_if (ml_label_schema_version lineage \<noteq> LABEL_SCHEMA_VERSION) (err ''label_schema_mismatch'')) (\<lambda>_.
     rbind (reject_if (\<not> (distinct market_sessions \<and> market_sessions = sort market_sessions))
              (err ''invalid_market_sessions'')) (\<lambda>_.
     rbind (map_results (signal_of_prediction market_sessions spec) (pf_rows (ps_data (fe_prediction_set e)))) (\<lambda>signals.
     if signals = [] then Inl LookupFailure else
     mk_signal_set sklearn_version
       \<lparr>sgs_data = \<lparr>sf_columns = SIGNAL_COLUMNS,
          sf_dtype = (\<lambda>column. if column = ''probability_positive'' then ''float64''
             else if column = ''target_position'' then ''int64'' else ''object''),
          sf_rows = signals\<rparr>,
        sgs_selected_model_name = fe_selected_model_name e,
        sgs_strategy_threshold = Fin STRATEGY_LONG_PROBABILITY_THRESHOLD,
        sgs_source_market_data_checksum = ml_source_market_data_checksum lineage,
        sgs_source_schema_version = ml_source_schema_version lineage,
        sgs_feature_schema_version = ml_feature_schema_version lineage,
        sgs_label_schema_version = ml_label_schema_version lineage,
        sgs_model_schema_version = ml_model_schema_version lineage,
        sgs_strategy_schema_version = STRATEGY_SCHEMA_VERSION,
        sgs_feature_columns = ml_feature_columns lineage, sgs_split_spec = spec,
        sgs_market_sessions = market_sessions,
        sgs_first_signal_session = date_cell (sr_signal_session (hd signals)),
        sgs_last_signal_session = date_cell (sr_signal_session (last signals)),
        sgs_first_execution_session = date_cell (sr_execution_session (hd signals)),
        sgs_last_execution_session = date_cell (sr_execution_session (last signals)),
        sgs_row_count = int (length signals), sgs_sklearn_version = ml_sklearn_version lineage,
        sgs_created_at = PyAware created_at_utc\<rparr>))))))))))"

end
