(* ===== verification/Model_Choice.thy ===== *)
theory Model_Choice
  imports Model_Lock
begin

text \<open>The selection rule chooses the candidate with the better validation metrics, and a locked selection is accepted
  only with the choice that its own snapshots give.\<close>

section \<open>Differences of metrics\<close>

definition tolerance_literal :: rat where "tolerance_literal = 1 / 1000000000000"

lemma tolerance_literal: "\<not> subnormal tolerance_literal" "0 < tolerance_literal" "tolerance_literal \<le> 1"
proof -
  have "(1000000000000 :: rat) \<le> 2 ^ 40" by simp
  also have "\<dots> \<le> normal_scale" unfolding normal_scale_def by (rule power_increasing) simp_all
  finally have "1 / normal_scale \<le> tolerance_literal"
    using scales(2) by (simp add: tolerance_literal_def field_simps)
  then show "\<not> subnormal tolerance_literal" by (simp add: not_subnormal tolerance_literal_def)
qed (simp_all add: tolerance_literal_def)

lemma tolerance: "SELECTION_TIE_TOLERANCE = float_round tolerance_literal"
  by (simp only: SELECTION_TIE_TOLERANCE_def tolerance_literal_def)

lemma tolerance_pos: "0 < SELECTION_TIE_TOLERANCE"
  unfolding tolerance float_round_normal [OF tolerance_literal(1)] by (rule digits53.pos [OF tolerance_literal(2)])

lemma tolerance_le_one: "SELECTION_TIE_TOLERANCE \<le> 1"
  unfolding tolerance by (rule binary64.le_fixed [OF tolerance_literal(3) binary64.one])

lemma representable_double: "representable 2 53 x \<Longrightarrow> representable 2 53 (2 * x)"
proof -
  assume "representable 2 53 x"
  then obtain c k where x: "x = of_int c * of_nat 2 powi k" "\<bar>c\<bar> \<le> int 2 ^ 53"
    unfolding representable_def by blast
  have "2 * x = of_int c * of_nat 2 powi (k + 1)" by (simp add: x(1) power_int_add)
  with x(2) show ?thesis unfolding representable_def by blast
qed

lemma tolerance_float: "is_float SELECTION_TIE_TOLERANCE" "is_float (2 * SELECTION_TIE_TOLERANCE)"
proof -
  let ?t = SELECTION_TIE_TOLERANCE
  have small: "\<bar>?t\<bar> < float_limit" "\<bar>2 * ?t\<bar> < float_limit"
  proof -
    have "(4 :: rat) \<le> float_limit" unfolding float_limit_def by simp
    then show "\<bar>?t\<bar> < float_limit" "\<bar>2 * ?t\<bar> < float_limit"
      using tolerance_pos tolerance_le_one by (simp_all add: abs_if)
  qed
  then show "is_float ?t" by (simp add: is_float_def tolerance float_round_idem)
  have "1 / normal_scale \<le> ?t"
  proof -
    have "1 / normal_scale \<le> tolerance_literal"
      using tolerance_literal(1,2) by (simp add: not_subnormal)
    from digits53.fixed_le [OF this smallest_normal] show ?thesis
      by (simp add: tolerance float_round_normal [OF tolerance_literal(1)])
  qed
  then have "\<not> subnormal (2 * ?t)" using tolerance_pos by (simp add: not_subnormal abs_if)
  then have "float_round (2 * ?t) = round_sig 2 53 (2 * ?t)" by (rule float_round_normal)
  also have "\<dots> = 2 * ?t"
    unfolding tolerance float_round_normal [OF tolerance_literal(1)]
    by (intro digits53.round_sig_exact representable_double digits53.representable_round_sig)
  finally show "is_float (2 * ?t)" using small(2) by (simp add: is_float_def)
qed

lemma is_float_minus: "is_float x \<Longrightarrow> is_float (- x)"
  by (simp add: is_float_def binary64.odd)

lemma beyond_fl:
  assumes "beyond_tolerance (fl d)"
  shows "if fl_positive (fl d) then SELECTION_TIE_TOLERANCE < d else d < - SELECTION_TIE_TOLERANCE"
proof (rule ccontr)
  let ?t = SELECTION_TIE_TOLERANCE
  assume asm: "\<not> (if fl_positive (fl d) then ?t < d else d < - ?t)"
  show False
  proof (cases "fl_positive (fl d)")
    case True
    then have "d \<le> ?t" using asm by simp
    from fl_at_most [OF this tolerance_float(1)] show False using True assms by auto
  next
    case False
    then have "- ?t \<le> d" using asm by simp
    from fl_at_least [OF this is_float_minus [OF tolerance_float(1)]] show False
      using False assms by auto
  qed
qed

lemma not_beyond_fl:
  assumes "\<not> beyond_tolerance (fl d)"
  shows "\<bar>d\<bar> < 2 * SELECTION_TIE_TOLERANCE"
proof (rule ccontr)
  let ?t = SELECTION_TIE_TOLERANCE
  assume "\<not> \<bar>d\<bar> < 2 * ?t"
  then consider "2 * ?t \<le> d" | "d \<le> - (2 * ?t)" by linarith
  then show False
  proof cases
    case 1
    from fl_at_least [OF this tolerance_float(2)] show False using assms tolerance_pos by auto
  next
    case 2
    from fl_at_most [OF this is_float_minus [OF tolerance_float(2)]] show False using assms tolerance_pos by auto
  qed
qed

section \<open>What the rule chooses\<close>

text \<open>One snapshot beats another when the first metric that is not tied is better; ROC AUC comes first and is better
  when higher, log loss and Brier score are better when lower.\<close>

definition near :: "rat \<Rightarrow> rat \<Rightarrow> bool" where
  "near x y \<longleftrightarrow> \<bar>x - y\<bar> < 2 * SELECTION_TIE_TOLERANCE"

definition exceeds :: "rat \<Rightarrow> rat \<Rightarrow> bool" where
  "exceeds x y \<longleftrightarrow> SELECTION_TIE_TOLERANCE < x - y"

definition beats :: "metric_snapshot \<Rightarrow> metric_snapshot \<Rightarrow> bool" where
  "beats a b \<longleftrightarrow>
     (let auc = (\<lambda>s. the_float (ms_roc_auc s)); loss = (\<lambda>s. the_float (ms_log_loss s));
          brier = (\<lambda>s. the_float (ms_brier_score s)) in
      exceeds (auc a) (auc b) \<or> near (auc a) (auc b) \<and> exceeds (loss b) (loss a) \<or>
      near (auc a) (auc b) \<and> near (loss a) (loss b) \<and> exceeds (brier b) (brier a))"

definition evenly_matched :: "metric_snapshot \<Rightarrow> metric_snapshot \<Rightarrow> bool" where
  "evenly_matched a b \<longleftrightarrow>
     near (the_float (ms_roc_auc a)) (the_float (ms_roc_auc b)) \<and>
     near (the_float (ms_log_loss a)) (the_float (ms_log_loss b)) \<and>
     near (the_float (ms_brier_score a)) (the_float (ms_brier_score b))"

definition chosen_fairly :: "metric_snapshot \<Rightarrow> metric_snapshot \<Rightarrow> string \<Rightarrow> bool" where
  "chosen_fairly logistic gradient name \<longleftrightarrow>
     (if name = GRADIENT_BOOSTING_MODEL then beats gradient logistic
      else name = LOGISTIC_REGRESSION_MODEL \<and> (beats logistic gradient \<or> evenly_matched logistic gradient))"

lemma mk_metric_snapshotD:
  assumes "mk_metric_snapshot s = Inr s'"
  shows "s' = s" "ms_roc_auc s = Fin (the_float (ms_roc_auc s))"
    "ms_log_loss s = Fin (the_float (ms_log_loss s))" "ms_brier_score s = Fin (the_float (ms_brier_score s))"
  using assms by (auto simp: mk_metric_snapshot_def Let_def rbind_eq_Inr_iff)

lemma model_names_differ: "LOGISTIC_REGRESSION_MODEL \<noteq> GRADIENT_BOOSTING_MODEL"
  by (simp add: LOGISTIC_REGRESSION_MODEL_def GRADIENT_BOOSTING_MODEL_def)

lemma decide_Inr:
  assumes "name \<in> set MODEL_NAMES" "reason \<noteq> []"
  shows "decide name reason a b c =
    Inr \<lparr>sn_selected_model_name = name, sn_selection_reason = reason, sn_roc_auc_tie_break_required = a,
         sn_log_loss_tie_break_required = b, sn_brier_score_tie_break_required = c\<rparr>"
  using assms by (simp add: decide_def mk_selection_decision_def validate_model_name_def)

lemma chosen:
  assumes "mk_metric_snapshot l = Inr l'" "mk_metric_snapshot g = Inr g'"
    and "ms_model_name l = LOGISTIC_REGRESSION_MODEL" "ms_model_name g = GRADIENT_BOOSTING_MODEL"
  shows "\<exists>s. choose_model_by_metric_snapshots l g = Inr s \<and> chosen_fairly l g (sn_selected_model_name s) \<and>
    (2 * SELECTION_TIE_TOLERANCE \<le> \<bar>the_float (ms_roc_auc l) - the_float (ms_roc_auc g)\<bar> \<longrightarrow>
       \<not> sn_roc_auc_tie_break_required s)"
proof -
  let ?auc = "\<lambda>s. the_float (ms_roc_auc s)" let ?loss = "\<lambda>s. the_float (ms_log_loss s)"
  let ?brier = "\<lambda>s. the_float (ms_brier_score s)"
  have sub: "fl_sub (f l) (f g) = fl (the_float (f l) - the_float (f g))"
    if "f l = Fin (the_float (f l))" "f g = Fin (the_float (f g))" for f :: "metric_snapshot \<Rightarrow> dec"
    by (subst that(1), subst that(2)) (simp add: fl_sub_def)
  note l = mk_metric_snapshotD [OF assms(1)] and g = mk_metric_snapshotD [OF assms(2)]
  note subs = sub [OF l(2) g(2)] sub [OF l(3) g(3)] sub [OF l(4) g(4)]
  have names: "LOGISTIC_REGRESSION_MODEL \<in> set MODEL_NAMES" "GRADIENT_BOOSTING_MODEL \<in> set MODEL_NAMES"
    by (simp_all add: MODEL_NAMES_def)
  have flip: "fl_neg (fl d) = fl (- d)" for d by (rule fl_neg_fl)
  have beyond: "beyond_tolerance (fl d) \<Longrightarrow> fl_positive (fl d) \<Longrightarrow> SELECTION_TIE_TOLERANCE < d"
    "beyond_tolerance (fl d) \<Longrightarrow> \<not> fl_positive (fl d) \<Longrightarrow> d < - SELECTION_TIE_TOLERANCE"
    "beyond_tolerance (fl d) \<Longrightarrow> fl_positive (fl (- d)) \<Longrightarrow> d < - SELECTION_TIE_TOLERANCE"
    "beyond_tolerance (fl d) \<Longrightarrow> \<not> fl_positive (fl (- d)) \<Longrightarrow> SELECTION_TIE_TOLERANCE < d" for d
    using beyond_fl [of d] beyond_fl [of "- d"]
    by (cases "fl d"; simp add: flip [symmetric] split: if_splits)+
  show ?thesis
    using not_beyond_fl [of "?auc l - ?auc g"] not_beyond_fl [of "?loss l - ?loss g"]
      not_beyond_fl [of "?brier l - ?brier g"] beyond [of "?auc l - ?auc g"] beyond [of "?loss l - ?loss g"]
      beyond [of "?brier l - ?brier g"] model_names_differ
    unfolding choose_model_by_metric_snapshots_def assms(3,4) Let_def subs flip chosen_fairly_def beats_def
      evenly_matched_def near_def exceeds_def
    by (auto simp: decide_Inr names abs_minus_commute)
qed

text \<open>C27: of two accepted snapshots the rule always chooses one: gradient boosting only when it beats the
  logistic regression in the first metric that is not tied, the logistic regression when it beats or evenly matches gradient
  boosting. The differences are those of the exact values, although the rule computes them in binary64; a
  difference of twice the tolerance in ROC AUC is never treated as a tie.\<close>

theorem selection_prefers_the_better_model:
  assumes "mk_metric_snapshot l = Inr l" "mk_metric_snapshot g = Inr g"
    and "ms_model_name l = LOGISTIC_REGRESSION_MODEL" "ms_model_name g = GRADIENT_BOOSTING_MODEL"
  shows "\<exists>s. choose_model_by_metric_snapshots l g = Inr s \<and> chosen_fairly l g (sn_selected_model_name s) \<and>
    (2 * SELECTION_TIE_TOLERANCE \<le> \<bar>the_float (ms_roc_auc l) - the_float (ms_roc_auc g)\<bar> \<longrightarrow>
       \<not> sn_roc_auc_tie_break_required s)"
  by (rule chosen [OF assms])

section \<open>Locked selections\<close>

text \<open>What the constructor of a locked selection promises.\<close>

definition lock_holds :: "locked_selection \<Rightarrow> bool" where
  "lock_holds l \<longleftrightarrow>
     (\<exists>logistic gradient. lk_validation_metric_snapshots l = [logistic, gradient] \<and>
        mk_metric_snapshot logistic = Inr logistic \<and> mk_metric_snapshot gradient = Inr gradient \<and>
        ms_row_count logistic = lk_validation_row_count l \<and> ms_row_count gradient = lk_validation_row_count l \<and>
        choose_model_by_metric_snapshots logistic gradient = Inr (locked_decision l) \<and>
        chosen_fairly logistic gradient (lk_selected_model_name l)) \<and>
     (let spec = ml_split_spec (lk_lineage l) in
      ss_train_start spec \<le> lk_train_first_session l \<and> lk_train_first_session l \<le> lk_train_last_session l \<and>
      lk_train_last_session l \<le> ss_train_end spec \<and> lk_train_last_session l < lk_validation_first_session l \<and>
      ss_validation_start spec \<le> lk_validation_first_session l \<and>
      lk_validation_first_session l \<le> lk_validation_last_session l \<and>
      lk_validation_last_session l \<le> ss_validation_end spec)"

lemma metric_snapshots_same:
  assumes "map_results (\<lambda>s. reconstruct et c (mk_metric_snapshot s)) xs = Inr ys"
  shows "ys = xs" and "s \<in> set xs \<Longrightarrow> mk_metric_snapshot s = Inr s"
proof -
  have all: "list_all2 (\<lambda>s t. mk_metric_snapshot s = Inr t) xs ys"
    using assms by (simp add: map_results_Inr_iff)
  then show "ys = xs"
    by (induction rule: list_all2_induct) (auto dest: mk_metric_snapshotD(1))
  with all show "s \<in> set xs \<Longrightarrow> mk_metric_snapshot s = Inr s"
    by (auto simp: list_all2_same)
qed

lemma two_snapshots:
  assumes "map ms_model_name xs = MODEL_NAMES"
  obtains a b where "xs = [a, b]" "ms_model_name a = LOGISTIC_REGRESSION_MODEL" "ms_model_name b = GRADIENT_BOOSTING_MODEL"
  using assms by (auto simp: MODEL_NAMES_def)

lemma mk_locked_selectionD:
  assumes "mk_locked_selection version l = Inr l'"
  shows "l' = l" and "lock_holds l"
proof -
  let ?spec = "ml_split_spec (lk_lineage l)"
  from assms obtain snapshots where
    l': "l' = l" and results: "map_results (\<lambda>s. reconstruct ModelSelectionError ''invalid_validation_metric_snapshots''
        (mk_metric_snapshot s)) (lk_validation_metric_snapshots l) = Inr snapshots"
    and names: "map ms_model_name snapshots = MODEL_NAMES"
    and counts: "\<not> list_ex (\<lambda>s. ms_row_count s \<noteq> lk_validation_row_count l) snapshots"
    and decision: "choose_model_by_metric_snapshots (snapshots ! 0) (snapshots ! 1) = Inr (locked_decision l)"
    and order: "\<not> lk_train_last_session l < lk_train_first_session l"
      "\<not> lk_validation_last_session l < lk_validation_first_session l"
      "\<not> lk_validation_first_session l \<le> lk_train_last_session l"
      "\<not> (lk_train_first_session l < ss_train_start ?spec \<or> ss_train_end ?spec < lk_train_last_session l)"
      "\<not> (lk_validation_first_session l < ss_validation_start ?spec \<or> ss_validation_end ?spec < lk_validation_last_session l)"
    unfolding mk_locked_selection_def Let_def
    by (elim rbind_InrE) simp
  show "l' = l" by (rule l')
  note same = metric_snapshots_same [OF results]
  from names obtain a b where ab: "snapshots = [a, b]" "ms_model_name a = LOGISTIC_REGRESSION_MODEL"
    "ms_model_name b = GRADIENT_BOOSTING_MODEL" by (rule two_snapshots)
  have ok: "mk_metric_snapshot a = Inr a" "mk_metric_snapshot b = Inr b"
    using same(2) [of a] same(2) [of b] by (simp_all add: ab(1) flip: same(1))
  have "chosen_fairly a b (lk_selected_model_name l)"
    using chosen [OF ok ab(2,3)] decision
    by (auto simp: ab(1) locked_decision_def)
  then show "lock_holds l"
    using ok counts decision order unfolding lock_holds_def Let_def same(1) [symmetric] ab(1) by auto
qed

text \<open>C26: an accepted locked selection carries the snapshots of both candidates and the choice that the rule
  gives for them, so its model won on validation; its training rows come before its validation rows, both
  inside their split ranges. The same snapshots under any other decision (another model, reason or tie flag) are refused.\<close>

theorem locked_selection_cannot_be_changed:
  assumes "mk_locked_selection version l = Inr l'"
  shows "l' = l \<and> lock_holds l \<and>
    (lk_validation_metric_snapshots other = lk_validation_metric_snapshots l \<longrightarrow>
       locked_decision other \<noteq> locked_decision l \<longrightarrow> (\<nexists>x. mk_locked_selection version' other = Inr x))"
  using mk_locked_selectionD [OF assms] mk_locked_selectionD(2) [of version' other]
  by (auto simp: lock_holds_def)

end
