(* ===== verification/Data_Split_Properties.thy ===== *)
theory Data_Split_Properties
  imports Data_Splits
begin

text \<open>
  Why the checks of the supervised dataset and of the partitions pass: frames made of typed rows are accepted, a mask
  that keeps a range of the sessions keeps a slice of the rows, and a slice of a timeline is a timeline.

  What a well-formed supervised dataset is, and a chronological split of it: every partition holds the rows of its
  range whose trades are closed at its end, and leaks nothing from a later partition.
\<close>

section \<open>Frames of typed rows\<close>

lemma label_frame_simps [simp]:
  "lf_columns (label_frame_of ls) = LABEL_COLUMNS" "lf_rows (label_frame_of ls) = map label_row ls"
  "lf_dtype (label_frame_of ls) = canonical_label_dtype"
  by (simp_all add: label_frame_of_def)

lemma canonical_label_dtype_simps [simp]:
  "canonical_label_dtype ''gross_forward_return'' = ''float64''"
  "canonical_label_dtype ''net_forward_return'' = ''float64''"
  "canonical_label_dtype ''target'' = ''int64''" "''int64'' \<in> set integer_dtypes"
  by (simp_all add: canonical_label_dtype_def integer_dtypes_def)

lemma timeline_of_rows:
  "validate_label_timeline et p (map label_row ls) = Inr t \<longleftrightarrow>
     timeline ls \<and> t = (map lb_session ls, map lb_entry_session ls, map lb_exit_session ls)"
  by (cases t) (auto simp: validate_label_timeline_Inr list_all_iff comp_def)

lemma targets_of_rows:
  "validate_target_consistency et c1 c2 c3 c4 (canonical_label_dtype ''target'') (map label_row ls) = Inr u \<longleftrightarrow>
     list_all label_target_ok ls"
  by (auto simp: list_all_iff label_target_ok_def)

definition feature_rows_ok :: "feature_row list \<Rightarrow> bool" where
  "feature_rows_ok rows \<longleftrightarrow> list_all (\<lambda>r. length (fr_values r) = length FEATURE_COLUMNS) rows"

lemma feature_frame_simps [simp]:
  "ff_columns (feature_frame_of rows) = FEATURE_FRAME_COLUMNS"
  "ff_rows (feature_frame_of rows) = map raw_feature_row_of rows"
  "fro_session (raw_feature_row_of r) = PyDate (fr_session r)"
  by (simp_all add: feature_frame_of_def raw_feature_row_of_def)

lemma typed_raw_feature_row:
  "length (fr_values r) = length FEATURE_COLUMNS \<Longrightarrow> typed_feature_row (raw_feature_row_of r) = r"
  by (cases r) (auto simp: typed_feature_row_def raw_feature_row_of_def intro: nth_equalityI)

lemma typed_raw_feature_rows:
  "feature_rows_ok rows \<Longrightarrow> map typed_feature_row (map raw_feature_row_of rows) = rows"
  by (induction rows) (simp_all add: feature_rows_ok_def typed_raw_feature_row)

lemma feature_columns_not_session: "''session'' \<notin> set FEATURE_COLUMNS"
  by (simp add: FEATURE_COLUMNS_def)

lemma feature_columns_finite:
  assumes "feature_rows_ok rows"
  shows "validate_finite_float64_columns et c1 c2 (ff_dtype (feature_frame_of rows))
           (feature_columns_of (map raw_feature_row_of rows)) = Inr ()"
proof -
  have "FEATURE_COLUMNS ! k \<noteq> ''session''" if "k < length FEATURE_COLUMNS" for k
    using feature_columns_not_session nth_mem [OF that] by metis
  then show ?thesis
    using assms unfolding finite_float64_columns_Inr
    by (auto simp: feature_columns_of_def feature_rows_ok_def list_all_iff raw_feature_row_of_def
        feature_frame_of_def)
qed

lemma typed_feature_rows_ok: "feature_rows_ok (map typed_feature_row rows)"
  by (simp add: feature_rows_ok_def typed_feature_row_def list_all_iff)

lemma feature_sessions_of_rows:
  "validate_strictly_increasing_sessions et f c1 c2 (map (PyDate \<circ> fr_session) rows) = Inr ds \<longleftrightarrow>
     ds = map fr_session rows \<and> increasing ds"
proof -
  have "inj PyDate" by (rule injI) simp
  then have "map PyDate (map fr_session rows) = map PyDate ds \<longleftrightarrow> map fr_session rows = ds"
    by (rule inj_map_eq_map)
  then show ?thesis by auto
qed

section \<open>Slices\<close>

text \<open>A predicate that holds on a range of the positions keeps a slice of a list.\<close>

definition convex_on :: "('a \<Rightarrow> bool) \<Rightarrow> 'a list \<Rightarrow> bool" where
  "convex_on P xs \<longleftrightarrow>
     (\<forall>i j k. i < j \<longrightarrow> j < k \<longrightarrow> k < length xs \<longrightarrow> P (xs ! i) \<longrightarrow> P (xs ! k) \<longrightarrow> P (xs ! j))"

lemma filter_takeWhile:
  assumes "\<And>j k. j < k \<Longrightarrow> k < length xs \<Longrightarrow> P (xs ! k) \<Longrightarrow> P (xs ! j)"
  shows "filter P xs = takeWhile P xs"
  using assms
proof (induction xs)
  case (Cons x xs)
  show ?case
  proof (cases "P x")
    case True
    have "P (xs ! j)" if "j < k" "k < length xs" "P (xs ! k)" for j k
      using Cons.prems [of "Suc j" "Suc k"] that by simp
    then have "filter P xs = takeWhile P xs" by (rule Cons.IH)
    then show ?thesis using True by simp
  next
    case False
    have "\<not> P y" if "y \<in> set xs" for y
    proof -
      obtain k where "k < length xs" "xs ! k = y" using \<open>y \<in> set xs\<close> by (auto simp: in_set_conv_nth)
      then show ?thesis using Cons.prems [of 0 "Suc k"] False by auto
    qed
    then show ?thesis using False by simp
  qed
qed simp

lemma filter_slice:
  "convex_on P xs \<Longrightarrow> filter P xs = takeWhile P (dropWhile (\<lambda>x. \<not> P x) xs)"
proof (induction xs)
  case (Cons x xs)
  have tail: "convex_on P xs"
    unfolding convex_on_def
  proof (intro allI impI)
    fix i j k assume "i < j" "j < k" "k < length xs" "P (xs ! i)" "P (xs ! k)"
    then show "P (xs ! j)"
      using Cons.prems [unfolded convex_on_def, rule_format, of "Suc i" "Suc j" "Suc k"] by simp
  qed
  show ?case
  proof (cases "P x")
    case True
    have "P (xs ! j)" if "j < k" "k < length xs" "P (xs ! k)" for j k
      using Cons.prems [unfolded convex_on_def, rule_format, of 0 "Suc j" "Suc k"] that True by simp
    then have "filter P xs = takeWhile P xs" by (rule filter_takeWhile)
    then show ?thesis using True by simp
  next
    case False
    then show ?thesis using Cons.IH [OF tail] by simp
  qed
qed simp

lemma timeline_drop: "timeline ls \<Longrightarrow> timeline (drop m ls)"
  by (auto simp: timeline_def drop_map [symmetric] add.assoc dest: in_set_dropD intro: sorted_wrt_drop)

lemma timeline_take: "timeline ls \<Longrightarrow> timeline (take m ls)"
  by (auto simp: timeline_def take_map [symmetric] dest: in_set_takeD intro: sorted_wrt_take)

lemma timeline_filter:
  assumes "timeline ls" "convex_on P ls"
  shows "timeline (filter P ls)"
proof -
  have "filter P ls = takeWhile P (dropWhile (\<lambda>x. \<not> P x) ls)"
    by (rule filter_slice [OF assms(2)])
  also have "\<dots> = take (length (takeWhile P (dropWhile (\<lambda>x. \<not> P x) ls)))
                    (drop (length (takeWhile (\<lambda>x. \<not> P x) ls)) ls)"
    unfolding dropWhile_eq_drop by (rule takeWhile_eq_take)
  finally show ?thesis using timeline_take [OF timeline_drop [OF assms(1)]] by metis
qed

lemma timelineD:
  assumes "timeline ls"
  shows "increasing (map lb_session ls)" "increasing (map lb_exit_session ls)"
    and "\<And>l. l \<in> set ls \<Longrightarrow> lb_session l < lb_exit_session l"
  using assms by (auto simp: timeline_def)

lemma included_convex:
  assumes "timeline ls"
  shows "convex_on (included_in a b) ls"
  unfolding convex_on_def included_in_def
proof (intro allI impI)
  fix i j k
  assume ij: "i < j" "j < k" "k < length ls"
    and "a \<le> lb_session (ls ! i) \<and> lb_session (ls ! i) \<le> b \<and> lb_exit_session (ls ! i) \<le> b"
    and "a \<le> lb_session (ls ! k) \<and> lb_session (ls ! k) \<le> b \<and> lb_exit_session (ls ! k) \<le> b"
  then show "a \<le> lb_session (ls ! j) \<and> lb_session (ls ! j) \<le> b \<and> lb_exit_session (ls ! j) \<le> b"
    using increasing_nth [OF timelineD(1) [OF assms], of i j] increasing_nth [OF timelineD(1) [OF assms], of j k]
      increasing_nth [OF timelineD(2) [OF assms], of j k] by auto
qed

text \<open>At most six rows of a range reach past its end: each of them exits after the end, and the exit of a row is the
  session six rows later.\<close>

lemma card_session_range:
  assumes "timeline ls"
  shows "length (filter (crossing_in a b) ls) \<le> EXIT_OFFSET_SESSIONS"
proof (rule ccontr)
  assume "\<not> ?thesis"
  then have long: "EXIT_OFFSET_SESSIONS < length (filter (crossing_in a b) ls)" by simp
  have "convex_on (crossing_in a b) ls"
    unfolding convex_on_def crossing_in_def
  proof (intro allI impI)
    fix i j k
    assume ij: "i < j" "j < k" "k < length ls"
      and "(a \<le> lb_session (ls ! i) \<and> lb_session (ls ! i) \<le> b) \<and> b < lb_exit_session (ls ! i)"
      and "(a \<le> lb_session (ls ! k) \<and> lb_session (ls ! k) \<le> b) \<and> b < lb_exit_session (ls ! k)"
    then show "(a \<le> lb_session (ls ! j) \<and> lb_session (ls ! j) \<le> b) \<and> b < lb_exit_session (ls ! j)"
      using increasing_nth [OF timelineD(1) [OF assms], of i j] increasing_nth [OF timelineD(1) [OF assms], of j k]
        increasing_nth [OF timelineD(2) [OF assms], of i j] by auto
  qed
  then have slice: "timeline (filter (crossing_in a b) ls)" by (rule timeline_filter [OF assms])
  define rows where "rows = filter (crossing_in a b) ls"
  have "EXIT_OFFSET_SESSIONS < length rows" using long by (simp add: rows_def)
  then have "0 < length rows" "EXIT_OFFSET_SESSIONS < length rows" by linarith+
  then have "rows ! 0 \<in> set rows" "rows ! EXIT_OFFSET_SESSIONS \<in> set rows" by (simp_all only: nth_mem)
  then have "b < lb_exit_session (rows ! 0)" "lb_session (rows ! EXIT_OFFSET_SESSIONS) \<le> b"
    by (auto simp: rows_def crossing_in_def)
  moreover have "lb_exit_session (rows ! 0) = lb_session (rows ! (0 + EXIT_OFFSET_SESSIONS))"
    using slice long unfolding timeline_def rows_def [symmetric] by simp
  ultimately show False by simp
qed

section \<open>Well-formed datasets\<close>

definition wf_dataset_metadata :: "dataset_metadata \<Rightarrow> bool" where
  "wf_dataset_metadata m \<longleftrightarrow>
     is_checksum (dm_source_market_data_checksum m) \<and> dm_source_schema_version m = SCHEMA_VERSION \<and>
     dm_feature_schema_version m = FEATURE_SCHEMA_VERSION \<and>
     dm_label_schema_version m = LABEL_SCHEMA_VERSION \<and> dm_feature_columns m = FEATURE_COLUMNS"

definition wf_supervised :: "supervised_dataset \<Rightarrow> bool" where
  "wf_supervised d \<longleftrightarrow>
     sd_labels d \<noteq> [] \<and> map fr_session (sd_features d) = map lb_session (sd_labels d) \<and>
     feature_rows_ok (sd_features d) \<and> wf_labels (sd_labels d) \<and> wf_dataset_metadata (sd_metadata d)"

lemma mk_dataset_metadata_wf: "mk_dataset_metadata obj = Inr m \<Longrightarrow> wf_dataset_metadata m"
  unfolding mk_dataset_metadata_def Let_def by (elim rbind_InrE) (auto simp: wf_dataset_metadata_def)

lemma mk_supervised_dataset_wf:
  assumes "mk_supervised_dataset features labels m = Inr d" "wf_dataset_metadata m"
  shows "wf_supervised d"
proof -
  from assms(1) obtain es xs where
    d: "d = \<lparr>sd_features = map typed_feature_row (ff_rows features),
          sd_labels = map typed_label (lf_rows labels), sd_metadata = m\<rparr>"
    and rows: "length (ff_rows features) = length (lf_rows labels)" "ff_rows features \<noteq> []"
    and cells: "map fro_session (ff_rows features) = map PyDate (map (\<lambda>r. date_cell (lo_session r)) (lf_rows labels))"
    and timeline: "validate_label_timeline DatasetAlignmentError ''supervised_'' (lf_rows labels) =
        Inr (map (\<lambda>r. date_cell (lo_session r)) (lf_rows labels), es, xs)"
    and targets: "\<forall>r \<in> set (lf_rows labels). is_finite_float (lo_net_forward_return r) \<and>
        lo_target r = Some (expected_target (lo_net_forward_return r))"
    unfolding mk_supervised_dataset_def Let_def
    by (elim rbind_InrE) (auto simp: validate_label_timeline_Inr rbind_eq_Inr_iff)
  have "map fr_session (sd_features d) = map lb_session (sd_labels d)"
    using arg_cong [of _ _ "map date_cell", OF cells]
    by (simp add: d comp_def typed_feature_row_def typed_label_def)
  moreover have "wf_labels (sd_labels d)"
    using timeline targets by (auto simp: wf_labels_def d validate_label_timeline_Inr list_all_iff typed_label_target)
  ultimately show ?thesis
    using rows assms(2) by (auto simp: wf_supervised_def d typed_feature_rows_ok)
qed

section \<open>Building a partition\<close>

lemma aligned_filter:
  assumes "map fr_session fs = map lb_session ls"
  shows "map fr_session (map fst (filter (\<lambda>(f, l). P l) (zip fs ls))) = map lb_session (filter P ls)"
    and "set (map fst (filter (\<lambda>(f, l). P l) (zip fs ls))) \<subseteq> set fs"
proof -
  from assms have "length fs = length ls" by (metis length_map)
  from this assms show "map fr_session (map fst (filter (\<lambda>(f, l). P l) (zip fs ls))) = map lb_session (filter P ls)"
    by (induction fs ls rule: list_induct2) auto
  show "set (map fst (filter (\<lambda>(f, l). P l) (zip fs ls))) \<subseteq> set fs"
    by (auto dest: set_zip_leftD)
qed

text \<open>A partition of a well-formed dataset exists whenever it is not empty, and has exactly the included rows.\<close>

lemma mk_partition_of_rows:
  assumes "timeline ls" "list_all label_target_ok ls" "feature_rows_ok fs" "ls \<noteq> []"
    and "map fr_session fs = map lb_session ls" "partition_bounds spec name = Inr (a, b)"
    and "\<forall>l \<in> set ls. included_in a b l" "name \<in> set PARTITION_NAMES" "is_checksum checksum"
  shows "mk_partition (feature_frame_of fs) (label_frame_of ls)
       \<lparr>pm_name = name, pm_included_row_count = int (length ls),
        pm_first_feature_session = lb_session (hd ls), pm_last_feature_session = lb_session (last ls),
        pm_first_exit_session = lb_exit_session (hd ls), pm_last_exit_session = lb_exit_session (last ls),
        pm_rows_excluded_boundary_crossing = n, pm_split_spec = spec,
        pm_source_market_data_checksum = checksum\<rparr> =
     Inr \<lparr>dp_features = fs, dp_labels = ls,
        dp_metadata = \<lparr>pm_name = name, pm_included_row_count = int (length ls),
          pm_first_feature_session = lb_session (hd ls), pm_last_feature_session = lb_session (last ls),
          pm_first_exit_session = lb_exit_session (hd ls), pm_last_exit_session = lb_exit_session (last ls),
          pm_rows_excluded_boundary_crossing = n, pm_split_spec = spec,
          pm_source_market_data_checksum = checksum\<rparr>\<rparr>"
proof -
  have len: "length fs = length ls" using assms(5) by (metis length_map)
  have sessions: "validate_strictly_increasing_sessions DatasetSplitError f c1 c2
      (map (PyDate \<circ> lb_session) ls) = Inr (map lb_session ls)" for f c1 c2
    using timelineD(1) [OF assms(1)] by simp
  have "map fro_session (map raw_feature_row_of fs) = map PyDate (map lb_session ls)"
    by (simp flip: assms(5))
  then have rows: "map (fro_session \<circ> raw_feature_row_of) fs = map (PyDate \<circ> lb_session) ls" by simp
  have labels: "validate_label_timeline DatasetSplitError p (map label_row ls) =
      Inr (map lb_session ls, map lb_entry_session ls, map lb_exit_session ls)" for p
    using assms(1) by (simp add: timeline_of_rows)
  have "\<not> list_ex (\<lambda>s. s < a) (map lb_session ls)" "\<not> list_ex (\<lambda>s. b < s) (map lb_session ls)"
    "\<not> list_ex (\<lambda>s. b < s) (map lb_exit_session ls)"
    using assms(7) by (auto simp: list_ex_iff included_in_def)
  note bounds = this
  have typed: "map typed_feature_row (map raw_feature_row_of fs) = fs" "map typed_label (map label_row ls) = ls"
    using typed_raw_feature_rows [OF assms(3)] by (simp_all add: comp_def)
  have returns: "validate_finite_float64_columns DatasetSplitError c1 c2 canonical_label_dtype
      (return_columns (map label_row ls)) = Inr ()" for c1 c2
    by simp
  have targets: "validate_target_consistency DatasetSplitError c1 c2 c3 c4 (canonical_label_dtype ''target'')
      (map label_row ls) = Inr ()" for c1 c2 c3 c4
    using assms(2) by (simp only: targets_of_rows)
  show ?thesis
    using assms(4) len
    unfolding mk_partition_def Let_def label_frame_simps labels
      feature_columns_finite [OF assms(3)] feature_frame_simps(1,2) typed
    by (simp add: assms(6) hd_map last_map bounds returns targets feature_columns_finite [OF assms(3), simplified]
        sessions rows del: canonical_label_dtype_simps finite_float64_columns_Inr increasing_sessions_Inr)
qed


lemma increasing_hd_last: "increasing xs \<Longrightarrow> xs \<noteq> [] \<Longrightarrow> hd xs \<le> last xs"
  by (cases xs) (auto simp: less_imp_le)

lemma wf_dataset_metadataD:
  "wf_dataset_metadata m \<Longrightarrow> is_checksum (dm_source_market_data_checksum m)"
  "wf_dataset_metadata m \<Longrightarrow> dm_source_schema_version m = SCHEMA_VERSION"
  "wf_dataset_metadata m \<Longrightarrow> dm_feature_schema_version m = FEATURE_SCHEMA_VERSION"
  "wf_dataset_metadata m \<Longrightarrow> dm_label_schema_version m = LABEL_SCHEMA_VERSION"
  "wf_dataset_metadata m \<Longrightarrow> dm_feature_columns m = FEATURE_COLUMNS"
  by (simp_all add: wf_dataset_metadata_def)

lemma checksum_text_accepted: "is_checksum c \<Longrightarrow> validate_checksum_text et f (PyStr c) = Inr c"
  by simp

lemma python_int_accepted: "require_python_int et c (PyInt i) = Inr i"
  by simp

definition partition_of :: "supervised_dataset \<Rightarrow> split_spec \<Rightarrow> string \<Rightarrow> date \<Rightarrow> date \<Rightarrow> dataset_partition" where
  "partition_of d spec name a b =
     (let fs = map fst (filter (\<lambda>(f, l). included_in a b l) (zip (sd_features d) (sd_labels d)));
          ls = filter (included_in a b) (sd_labels d) in
      \<lparr>dp_features = fs, dp_labels = ls,
       dp_metadata = \<lparr>pm_name = name, pm_included_row_count = int (length ls),
         pm_first_feature_session = lb_session (hd ls), pm_last_feature_session = lb_session (last ls),
         pm_first_exit_session = lb_exit_session (hd ls), pm_last_exit_session = lb_exit_session (last ls),
         pm_rows_excluded_boundary_crossing = int (length (filter (crossing_in a b) (sd_labels d))),
         pm_split_spec = spec,
         pm_source_market_data_checksum = dm_source_market_data_checksum (sd_metadata d)\<rparr>\<rparr>)"

lemma build_partition_Inr:
  assumes "wf_supervised d" "partition_bounds spec name = Inr (a, b)" "name \<in> set PARTITION_NAMES"
    and "filter (included_in a b) (sd_labels d) \<noteq> []"
  shows "build_partition d spec name a b = Inr (partition_of d spec name a b)"
proof -
  define fs where "fs = map fst (filter (\<lambda>(f, l). included_in a b l) (zip (sd_features d) (sd_labels d)))"
  define ls where "ls = filter (included_in a b) (sd_labels d)"
  have d: "map fr_session (sd_features d) = map lb_session (sd_labels d)" "feature_rows_ok (sd_features d)"
    "timeline (sd_labels d)" "list_all label_target_ok (sd_labels d)" "wf_dataset_metadata (sd_metadata d)"
    using assms(1) by (simp_all add: wf_supervised_def wf_labels_def)
  note aligned = aligned_filter [OF d(1), of "included_in a b", folded fs_def ls_def]
  have rows: "feature_rows_ok fs" "list_all label_target_ok ls"
    using d(2,4) aligned(2) by (auto simp: feature_rows_ok_def list_all_iff ls_def)
  have timeline: "timeline ls"
    unfolding ls_def by (rule timeline_filter [OF d(3) included_convex [OF d(3)]])
  have ne: "ls \<noteq> []" "fs \<noteq> []" using assms(4) aligned(1) by (auto simp: ls_def)
  have len: "length fs = length ls" using aligned(1) by (metis length_map)
  have ends: "fr_session (hd fs) = lb_session (hd ls)" "fr_session (last fs) = lb_session (last ls)"
    using aligned(1) ne by (metis hd_map, metis last_map)
  have order: "lb_session (hd ls) \<le> lb_session (last ls)" "lb_exit_session (hd ls) \<le> lb_exit_session (last ls)"
    using increasing_hd_last [OF timelineD(1) [OF timeline]] increasing_hd_last [OF timelineD(2) [OF timeline]] ne
    by (simp_all add: hd_map last_map)
  have bounds: "\<not> list_ex (\<lambda>s. s < a) (map lb_session ls)" "\<not> list_ex (\<lambda>s. b < s) (map lb_session ls)"
    "\<not> list_ex (\<lambda>s. b < s) (map lb_exit_session ls)"
    by (auto simp: list_ex_iff ls_def included_in_def)
  have sessions: "validate_strictly_increasing_sessions DatasetSplitError f c1 c2 (map (PyDate \<circ> fr_session) fs) =
      Inr (map lb_session ls)" for f c1 c2
    using aligned(1) timelineD(1) [OF timeline] by (simp only: feature_sessions_of_rows)
  have labels: "validate_label_timeline DatasetSplitError p (map label_row ls) =
      Inr (map lb_session ls, map lb_entry_session ls, map lb_exit_session ls)" for p
    using timeline by (simp add: timeline_of_rows)
  have included: "\<forall>l \<in> set ls. included_in a b l" by (simp add: ls_def)
  note partition = mk_partition_of_rows [OF timeline rows(2,1) ne(1) aligned(1) assms(2) included assms(3)
      wf_dataset_metadataD(1) [OF d(5)]]
  show ?thesis
    unfolding build_partition_def partition_of_def Let_def fs_def [symmetric] ls_def [symmetric] sessions labels
    using ne order len assms(3)
    by (simp add: bounds aligned(1) mk_partition_metadata_def Let_def hd_map last_map ends
        wf_dataset_metadataD [OF d(5)] checksum_text_accepted [OF wf_dataset_metadataD(1) [OF d(5)]]
        python_int_accepted partition)
qed

lemma build_partition_Inl:
  assumes "wf_supervised d" "filter (included_in a b) (sd_labels d) = []"
  shows "build_partition d spec name a b = Inl (EmptySplitError (''empty_'' @ name @ ''_partition''))"
proof -
  have "map fst (filter (\<lambda>(f, l). included_in a b l) (zip (sd_features d) (sd_labels d))) = []"
    using aligned_filter(1) [of "sd_features d" "sd_labels d" "included_in a b"] assms
    by (simp add: wf_supervised_def del: map_eq_conv filter_empty_conv)
  then show ?thesis unfolding build_partition_def Let_def by simp
qed

section \<open>Splitting\<close>

definition split_ranges :: "split_spec \<Rightarrow> (string \<times> date \<times> date) list" where
  "split_ranges spec =
     [(''train'', ss_train_start spec, ss_train_end spec),
      (''validation'', ss_validation_start spec, ss_validation_end spec),
      (''test'', ss_test_start spec, ss_test_end spec)]"

lemma split_rangesD:
  "(name, a, b) \<in> set (split_ranges spec) \<Longrightarrow> name \<in> set PARTITION_NAMES \<and> partition_bounds spec name = Inr (a, b)"
  by (auto simp: split_ranges_def PARTITION_NAMES_def partition_bounds_def)

text \<open>\<^term>\<open>held_out a b\<close> says that every trade of the rows of \<^term>\<open>a\<close> is closed before the first session of \<^term>\<open>b\<close>.\<close>

definition held_out :: "dataset_partition \<Rightarrow> dataset_partition \<Rightarrow> bool" where
  "held_out a b \<longleftrightarrow> (\<forall>l \<in> set (dp_labels a). \<forall>l' \<in> set (dp_labels b). lb_exit_session l < lb_session l')"

definition partition_holds :: "supervised_dataset \<Rightarrow> split_spec \<Rightarrow> dataset_partition \<Rightarrow> string \<times> date \<times> date \<Rightarrow> bool" where
  "partition_holds d spec p = (\<lambda>(name, a, b).
     pm_name (dp_metadata p) = name \<and> dp_labels p \<noteq> [] \<and>
     dp_labels p = filter (included_in a b) (sd_labels d) \<and>
     map fr_session (dp_features p) = map lb_session (dp_labels p) \<and>
     set (dp_features p) \<subseteq> set (sd_features d) \<and>
     pm_rows_excluded_boundary_crossing (dp_metadata p) \<le> 6)"

lemma partition_of_holds:
  assumes "wf_supervised d" "filter (included_in a b) (sd_labels d) \<noteq> []"
  shows "partition_holds d spec (partition_of d spec name a b) (name, a, b)"
proof -
  have "map fr_session (sd_features d) = map lb_session (sd_labels d)" "timeline (sd_labels d)"
    using assms(1) by (simp_all add: wf_supervised_def wf_labels_def)
  with assms(2) aligned_filter [OF this(1), of "included_in a b"] card_session_range [OF this(2), of a b]
  show ?thesis
    unfolding partition_holds_def partition_of_def Let_def
    by (simp add: EXIT_OFFSET_SESSIONS_def)
qed

lemma included_before:
  assumes "l \<in> set (dp_labels (partition_of d spec n a b))" "l' \<in> set (dp_labels (partition_of d spec n' a' b'))" "b < a'"
  shows "lb_exit_session l < lb_session l'"
  using assms by (auto simp: partition_of_def Let_def included_in_def)

lemma partition_sessions:
  assumes "wf_supervised d"
  shows "distinct (map lb_session (dp_labels (partition_of d spec n a b)))"
    and "x \<in> set (map lb_session (dp_labels (partition_of d spec n a b))) \<Longrightarrow> a \<le> x \<and> x \<le> b"
proof -
  have "timeline (sd_labels d)" using assms by (simp add: wf_supervised_def wf_labels_def)
  then have "timeline (filter (included_in a b) (sd_labels d))" by (blast intro: timeline_filter included_convex)
  from timelineD(1) [OF this] show "distinct (map lb_session (dp_labels (partition_of d spec n a b)))"
    by (simp add: partition_of_def Let_def strict_sorted_iff del: sorted_wrt_map)
qed (auto simp: partition_of_def Let_def included_in_def)

lemma mk_partitions_Inr:
  assumes "wf_supervised d" "wf_split spec"
  shows "mk_partitions (partition_of d spec ''train'' (ss_train_start spec) (ss_train_end spec))
       (partition_of d spec ''validation'' (ss_validation_start spec) (ss_validation_end spec))
       (partition_of d spec ''test'' (ss_test_start spec) (ss_test_end spec)) spec =
     Inr \<lparr>cp_train = partition_of d spec ''train'' (ss_train_start spec) (ss_train_end spec),
       cp_validation = partition_of d spec ''validation'' (ss_validation_start spec) (ss_validation_end spec),
       cp_test = partition_of d spec ''test'' (ss_test_start spec) (ss_test_end spec), cp_split_spec = spec\<rparr>"
  (is "mk_partitions ?train ?validation ?test spec = _")
proof -
  note sessions = partition_sessions [OF assms(1)]
  have disjoint: "set (map lb_session (dp_labels (partition_of d spec n a b))) \<inter>
      set (map lb_session (dp_labels (partition_of d spec n' a' b'))) = {}" if "b < a'" for n a b n' a' b'
    using sessions(2) [of _ spec n a b] sessions(2) [of _ spec n' a' b'] that by fastforce
  have "distinct (map lb_session (dp_labels ?train) @ map lb_session (dp_labels ?validation) @
      map lb_session (dp_labels ?test))"
    using assms(2) disjoint sessions(1)
    by (simp add: wf_split_def Int_Un_distrib del: set_map)
  moreover have "pm_name (dp_metadata (partition_of d spec n a b)) = n"
      "pm_split_spec (dp_metadata (partition_of d spec n a b)) = spec" for n a b
    by (simp_all add: partition_of_def Let_def)
  ultimately show ?thesis
    unfolding mk_partitions_def by (simp add: check_partition_def)
qed

lemma split_nonempty:
  assumes "wf_supervised d" "wf_split spec"
    and ranges: "\<And>name a b. (name, a, b) \<in> set (split_ranges spec) \<Longrightarrow> filter (included_in a b) (sd_labels d) \<noteq> []"
  shows "split_supervised_dataset d spec = Inr
     \<lparr>cp_train = partition_of d spec ''train'' (ss_train_start spec) (ss_train_end spec),
      cp_validation = partition_of d spec ''validation'' (ss_validation_start spec) (ss_validation_end spec),
      cp_test = partition_of d spec ''test'' (ss_test_start spec) (ss_test_end spec), cp_split_spec = spec\<rparr>"
proof -
  have built: "build_partition d spec name a b = Inr (partition_of d spec name a b)"
    if "(name, a, b) \<in> set (split_ranges spec)" for name a b
    using build_partition_Inr [OF assms(1)] ranges [OF that] split_rangesD [OF that] by blast
  show ?thesis
    by (simp add: split_supervised_dataset_def built split_ranges_def mk_partitions_Inr [OF assms(1,2)])
qed

text \<open>C18: splitting a well-formed dataset by a well-formed specification either reports the first partition that has
  no row, or gives three partitions that hold exactly the rows whose session and whose exit fall in their range (at
  most six rows of a range are purged), whose features and labels are aligned, and where every trade of an earlier partition
  is closed strictly before the first session of a later one.\<close>

theorem split_is_leakage_safe:
  assumes "wf_supervised d" "wf_split spec"
  shows "case split_supervised_dataset d spec of
      Inl e \<Rightarrow> (\<exists>(name, a, b) \<in> set (split_ranges spec).
          e = EmptySplitError (''empty_'' @ name @ ''_partition'') \<and> filter (included_in a b) (sd_labels d) = [])
    | Inr p \<Rightarrow>
        list_all2 (partition_holds d spec) [cp_train p, cp_validation p, cp_test p] (split_ranges spec) \<and>
        held_out (cp_train p) (cp_validation p) \<and> held_out (cp_train p) (cp_test p) \<and>
        held_out (cp_validation p) (cp_test p)"
proof (cases "\<exists>(name, a, b) \<in> set (split_ranges spec). filter (included_in a b) (sd_labels d) = []")
  case True
  note found = build_partition_Inr [OF assms(1)] and empty = build_partition_Inl [OF assms(1)]
  let ?rows = "\<lambda>a b. filter (included_in a b) (sd_labels d)"
  consider (train) "?rows (ss_train_start spec) (ss_train_end spec) = []"
    | (validation) "?rows (ss_train_start spec) (ss_train_end spec) \<noteq> []"
        "?rows (ss_validation_start spec) (ss_validation_end spec) = []"
    | (test) "?rows (ss_train_start spec) (ss_train_end spec) \<noteq> []"
        "?rows (ss_validation_start spec) (ss_validation_end spec) \<noteq> []"
        "?rows (ss_test_start spec) (ss_test_end spec) = []"
    using True by (auto simp: split_ranges_def)
  then show ?thesis
  proof cases
    case train
    then show ?thesis by (simp add: split_supervised_dataset_def empty split_ranges_def)
  next
    case validation
    have "build_partition d spec ''train'' (ss_train_start spec) (ss_train_end spec) =
        Inr (partition_of d spec ''train'' (ss_train_start spec) (ss_train_end spec))"
      by (rule found) (use validation(1) in \<open>simp_all add: partition_bounds_def PARTITION_NAMES_def\<close>)
    with validation(2) show ?thesis by (simp add: split_supervised_dataset_def empty split_ranges_def)
  next
    case test
    have "build_partition d spec ''train'' (ss_train_start spec) (ss_train_end spec) =
        Inr (partition_of d spec ''train'' (ss_train_start spec) (ss_train_end spec))"
      "build_partition d spec ''validation'' (ss_validation_start spec) (ss_validation_end spec) =
        Inr (partition_of d spec ''validation'' (ss_validation_start spec) (ss_validation_end spec))"
      by (rule found, use test(1,2) in \<open>simp_all add: partition_bounds_def PARTITION_NAMES_def\<close>)+
    with test(3) show ?thesis by (simp add: split_supervised_dataset_def empty split_ranges_def)
  qed
next
  case False
  have ranges: "filter (included_in a b) (sd_labels d) \<noteq> []" if "(name, a, b) \<in> set (split_ranges spec)" for name a b
    using False that by blast
  have holds: "partition_holds d spec (partition_of d spec name a b) (name, a, b)"
    if "(name, a, b) \<in> set (split_ranges spec)" for name a b
    by (rule partition_of_holds [OF assms(1) ranges [OF that]])
  have "split_supervised_dataset d spec = Inr
     \<lparr>cp_train = partition_of d spec ''train'' (ss_train_start spec) (ss_train_end spec),
      cp_validation = partition_of d spec ''validation'' (ss_validation_start spec) (ss_validation_end spec),
      cp_test = partition_of d spec ''test'' (ss_test_start spec) (ss_test_end spec), cp_split_spec = spec\<rparr>"
    by (rule split_nonempty [OF assms]) (rule ranges)
  then show ?thesis
    using assms(2) holds
    by (auto simp: held_out_def split_ranges_def wf_split_def intro: included_before)
qed

end
