(* ===== verification/Model_Test.thy ===== *)
theory Model_Test
  imports Model_Final Model_Choice Data_Split_Properties
begin

text \<open>
  How the model pipeline runs on the partitions of a well-formed dataset: the views of the partitions, the fitted
  estimators and the prediction sets.

  The final test evaluation is out of sample: the model it evaluates was fitted on training and validation rows
  whose trades are closed before the first test session, and its predictions are those of the test rows.
\<close>

section \<open>Partitions of a split\<close>

text \<open>A partition that its own constructor accepts again, with aligned rows.\<close>

definition partition_ok :: "string \<Rightarrow> dataset_partition \<Rightarrow> bool" where
  "partition_ok name p \<longleftrightarrow>
     pm_name (dp_metadata p) = name \<and> dp_labels p \<noteq> [] \<and>
     map fr_session (dp_features p) = map lb_session (dp_labels p) \<and>
     feature_rows_ok (dp_features p) \<and> timeline (dp_labels p) \<and> list_all label_target_ok (dp_labels p) \<and>
     is_checksum (pm_source_market_data_checksum (dp_metadata p)) \<and>
     mk_partition (feature_frame_of (dp_features p)) (label_frame_of (dp_labels p)) (dp_metadata p) = Inr p"

lemma partition_of_ok:
  assumes d: "wf_supervised d" and range: "(name, a, b) \<in> set (split_ranges spec)"
    and rows: "filter (included_in a b) (sd_labels d) \<noteq> []"
  shows "partition_ok name (partition_of d spec name a b)"
proof -
  let ?p = "partition_of d spec name a b"
  have wf: "map fr_session (sd_features d) = map lb_session (sd_labels d)" "feature_rows_ok (sd_features d)"
    "timeline (sd_labels d)" "list_all label_target_ok (sd_labels d)" "wf_dataset_metadata (sd_metadata d)"
    using d by (simp_all add: wf_supervised_def wf_labels_def)
  note aligned = aligned_filter [OF wf(1), of "included_in a b"]
  have labels: "dp_labels ?p = filter (included_in a b) (sd_labels d)"
    and features: "dp_features ?p = map fst (filter (\<lambda>(f, l). included_in a b l) (zip (sd_features d) (sd_labels d)))"
    and name: "pm_name (dp_metadata ?p) = name"
    and checksum: "pm_source_market_data_checksum (dp_metadata ?p) = dm_source_market_data_checksum (sd_metadata d)"
    by (simp_all add: partition_of_def Let_def)
  have timeline: "timeline (dp_labels ?p)"
    unfolding labels by (rule timeline_filter [OF wf(3) included_convex [OF wf(3)]])
  have targets: "list_all label_target_ok (dp_labels ?p)"
    using wf(4) by (auto simp: labels list_all_iff)
  have ok: "feature_rows_ok (dp_features ?p)"
    using wf(2) aligned(2) by (auto simp: features feature_rows_ok_def list_all_iff)
  have sessions: "map fr_session (dp_features ?p) = map lb_session (dp_labels ?p)"
    unfolding labels features by (rule aligned(1))
  have ne: "dp_labels ?p \<noteq> []" using rows by (simp add: labels)
  note bounds = split_rangesD [OF range]
  have included: "\<forall>l \<in> set (dp_labels ?p). included_in a b l" by (simp add: labels)
  note sum = wf_dataset_metadataD(1) [OF wf(5)]
  have "mk_partition (feature_frame_of (dp_features ?p)) (label_frame_of (dp_labels ?p)) (dp_metadata ?p) = Inr ?p"
    using mk_partition_of_rows [OF timeline targets ok ne sessions conjunct2 [OF bounds] included conjunct1 [OF bounds] sum]
    by (simp add: partition_of_def Let_def)
  then show ?thesis
    using ne sessions ok timeline targets sum by (simp add: partition_ok_def name checksum)
qed

lemma built_partition:
  assumes "wf_supervised d" "(name, a, b) \<in> set (split_ranges spec)" "build_partition d spec name a b = Inr p"
  shows "p = partition_of d spec name a b" "filter (included_in a b) (sd_labels d) \<noteq> []"
proof -
  show ne: "filter (included_in a b) (sd_labels d) \<noteq> []"
    using assms(3) build_partition_Inl [OF assms(1)] by fastforce
  show "p = partition_of d spec name a b"
    using assms(3) build_partition_Inr [OF assms(1) _ _ ne] split_rangesD [OF assms(2)] by simp
qed

text \<open>What a split gives: three partitions of one specification and one source, each earlier one closed before the next.\<close>

definition split_ok :: "split_spec \<Rightarrow> chronological_partitions \<Rightarrow> bool" where
  "split_ok spec p \<longleftrightarrow>
     partition_ok ''train'' (cp_train p) \<and> partition_ok ''validation'' (cp_validation p) \<and>
     partition_ok ''test'' (cp_test p) \<and>
     held_out (cp_train p) (cp_validation p) \<and> held_out (cp_train p) (cp_test p) \<and>
     held_out (cp_validation p) (cp_test p) \<and>
     (\<forall>q \<in> {cp_train p, cp_validation p, cp_test p}. pm_split_spec (dp_metadata q) = spec \<and>
        pm_source_market_data_checksum (dp_metadata q) =
          pm_source_market_data_checksum (dp_metadata (cp_train p))) \<and>
     (\<forall>l \<in> set (dp_labels (cp_train p)). ss_train_start spec \<le> lb_session l \<and> lb_session l \<le> ss_train_end spec) \<and>
     (\<forall>l \<in> set (dp_labels (cp_validation p)).
        ss_validation_start spec \<le> lb_session l \<and> lb_session l \<le> ss_validation_end spec) \<and>
     (\<forall>l \<in> set (dp_labels (cp_test p)). ss_test_start spec \<le> lb_session l \<and> lb_session l \<le> ss_test_end spec)"

lemma split_gives_ok:
  assumes "wf_supervised d" "wf_split spec" "split_supervised_dataset d spec = Inr p"
  shows "split_ok spec p"
proof -
  have ranges: "(''train'', ss_train_start spec, ss_train_end spec) \<in> set (split_ranges spec)"
    "(''validation'', ss_validation_start spec, ss_validation_end spec) \<in> set (split_ranges spec)"
    "(''test'', ss_test_start spec, ss_test_end spec) \<in> set (split_ranges spec)"
    by (simp_all add: split_ranges_def)
  obtain train validation test where
    built: "build_partition d spec ''train'' (ss_train_start spec) (ss_train_end spec) = Inr train"
      "build_partition d spec ''validation'' (ss_validation_start spec) (ss_validation_end spec) = Inr validation"
      "build_partition d spec ''test'' (ss_test_start spec) (ss_test_end spec) = Inr test"
    and p: "mk_partitions train validation test spec = Inr p"
    using assms(3) unfolding split_supervised_dataset_def by (elim rbind_InrE)
  note parts = built_partition [OF assms(1) ranges(1) built(1)] built_partition [OF assms(1) ranges(2) built(2)]
    built_partition [OF assms(1) ranges(3) built(3)]
  note ok = partition_of_ok [OF assms(1) ranges(1) parts(2)] partition_of_ok [OF assms(1) ranges(2) parts(4)]
    partition_of_ok [OF assms(1) ranges(3) parts(6)]
  have p': "p = \<lparr>cp_train = train, cp_validation = validation, cp_test = test, cp_split_spec = spec\<rparr>"
    using p by (auto simp: mk_partitions_def rbind_eq_Inr_iff)
  have held: "held_out train validation" "held_out train test" "held_out validation test"
    using assms(2) unfolding held_out_def parts(1,3,5) wf_split_def by (auto intro: included_before)
  show ?thesis
    unfolding split_ok_def p' chronological_partitions.simps
    using ok held by (auto simp: parts(1,3,5)) (auto simp: partition_of_def Let_def included_in_def)
qed

section \<open>Views\<close>

definition view_of :: "dataset_partition \<Rightarrow> validated_partition" where
  "view_of p =
     \<lparr>vp_partition = p, vp_X = map fr_values (dp_features p), vp_y = map lb_target (dp_labels p),
      vp_sessions = map lb_session (dp_labels p), vp_entry_sessions = map lb_entry_session (dp_labels p),
      vp_exit_sessions = map lb_exit_session (dp_labels p)\<rparr>"

definition two_classes :: "dataset_partition \<Rightarrow> bool" where
  "two_classes p \<longleftrightarrow> set (map lb_target (dp_labels p)) = {0, 1}"

lemma targets_binary: "list_all label_target_ok ls \<Longrightarrow> set (map lb_target ls) \<subseteq> {0, 1}"
  by (auto simp: list_all_iff label_target_ok_def)

lemma validated_view:
  assumes "partition_ok name p"
  shows "validate_modeling_partition err name code p = (if two_classes p then Inr (view_of p) else Inl (err code))"
proof -
  have p: "pm_name (dp_metadata p) = name" "map fr_session (dp_features p) = map lb_session (dp_labels p)"
    "feature_rows_ok (dp_features p)" "timeline (dp_labels p)" "list_all label_target_ok (dp_labels p)"
    "mk_partition (feature_frame_of (dp_features p)) (label_frame_of (dp_labels p)) (dp_metadata p) = Inr p"
    using assms by (simp_all add: partition_ok_def)
  have len: "length (dp_features p) = length (dp_labels p)" using p(2) by (metis length_map)
  have columns: "\<not> list_ex (\<lambda>c. c \<in> set (''session'' # FORBIDDEN_MODEL_FEATURE_COLUMNS)) FEATURE_COLUMNS"
    by (simp add: FEATURE_COLUMNS_def FORBIDDEN_MODEL_FEATURE_COLUMNS_def)
  have series: "validate_binary_integer_series err c1 c2 c3 (canonical_label_dtype ''target'')
      (map (Some \<circ> lb_target) (dp_labels p)) = Inr (map lb_target (dp_labels p))" for c1 c2 c3
    using targets_binary [OF p(5)] by simp
  have sessions: "validate_strictly_increasing_sessions err f c1 c2 (map (PyDate \<circ> fr_session) (dp_features p)) =
      Inr (map lb_session (dp_labels p))" for f c1 c2
    using p(2) timelineD(1) [OF p(4)] by (simp only: feature_sessions_of_rows)
  have others: "validate_strictly_increasing_sessions err f c1 c2 (map (PyDate \<circ> g) (dp_labels p)) =
      Inr (map g (dp_labels p))" if "increasing (map g (dp_labels p))" for f c1 c2 and g :: "label \<Rightarrow> date"
    using that by simp
  have increasing: "increasing (map lb_entry_session (dp_labels p))" "increasing (map lb_exit_session (dp_labels p))"
    using p(4) by (simp_all add: timeline_def)
  note finite = feature_columns_finite [OF p(3)]
  show ?thesis
    using len columns
    unfolding validate_modeling_partition_def Let_def reconstruct_def p(6) sum.case rbind_Inr p(1)
      feature_frame_simps finite series sessions others [OF increasing(1)] others [OF increasing(2)]
    by (simp add: two_classes_def view_of_def del: canonical_label_dtype_simps)
qed

lemma validated_viewD:
  assumes "partition_ok name p" "validate_modeling_partition err name code p = Inr v"
  shows "v = view_of p" "two_classes p"
  using assms(2) by (simp_all add: validated_view [OF assms(1)] split: if_splits)

lemma view_simps [simp]:
  "vp_partition (view_of p) = p" "vp_X (view_of p) = map fr_values (dp_features p)"
  "vp_y (view_of p) = map lb_target (dp_labels p)" "vp_sessions (view_of p) = map lb_session (dp_labels p)"
  by (simp_all add: view_of_def)

section \<open>Prediction rows\<close>

lemma prediction_rows_columns:
  assumes "length sessions = length ps" "length targets = length ps"
  shows "map pn_session (prediction_rows t sessions ps targets) = map PyDate sessions"
    "map pn_probability_positive (prediction_rows t sessions ps targets) = map Fin ps"
    "map pn_target (prediction_rows t sessions ps targets) = map Some targets"
    "map pn_predicted_class (prediction_rows t sessions ps targets) = map Some (map (expected_class t) ps)"
    "length (prediction_rows t sessions ps targets) = length ps"
proof -
  have "length ps = length sessions" "length sessions = length targets" using assms by simp_all
  then have "map pn_session (prediction_rows t sessions ps targets) = map PyDate sessions \<and>
    map pn_probability_positive (prediction_rows t sessions ps targets) = map Fin ps \<and>
    map pn_target (prediction_rows t sessions ps targets) = map Some targets \<and>
    map pn_predicted_class (prediction_rows t sessions ps targets) = map Some (map (expected_class t) ps) \<and>
    length (prediction_rows t sessions ps targets) = length ps"
    by (induction ps sessions targets rule: list_induct3) (simp_all add: prediction_rows_def expected_class_def)
  then show "map pn_session (prediction_rows t sessions ps targets) = map PyDate sessions"
    "map pn_probability_positive (prediction_rows t sessions ps targets) = map Fin ps"
    "map pn_target (prediction_rows t sessions ps targets) = map Some targets"
    "map pn_predicted_class (prediction_rows t sessions ps targets) = map Some (map (expected_class t) ps)"
    "length (prediction_rows t sessions ps targets) = length ps"
    by blast+
qed

section \<open>Steps of the pipeline\<close>

lemma fit_estimator_Inr:
  "fit_estimator sk name seed X y = Inr e \<longleftrightarrow> name \<in> set MODEL_NAMES \<and> 0 \<le> seed \<and> sk_fit sk name seed X y = Fitted e"
  by (auto simp: fit_estimator_def rbind_eq_Inr_iff Let_def split: fit_outcome.splits)

lemma positive_class_probabilities_Inr:
  assumes "positive_class_probabilities sk e X = Inr ps"
  obtains class_values classes matrix where "sk_classes sk e = Some class_values"
    "map_results class_to_int class_values = Inr classes" "set classes = {0, 1}" "length classes = 2"
    "sk_predict_proba sk e X = Some matrix" "length ps = length X"
    "list_all2 (\<lambda>row p. probability_of_row (length classes) (index_of 1 classes) row = Inr p) matrix ps"
proof -
  from assms obtain class_values classes matrix where facts: "sk_classes sk e = Some class_values"
    "map_results class_to_int class_values = Inr classes" "set classes = {0, 1}" "length classes = 2"
    "sk_predict_proba sk e X = Some matrix" "length matrix = length X"
    "map_results (probability_of_row (length classes) (index_of 1 classes)) matrix = Inr ps"
    by (auto simp: positive_class_probabilities_def Let_def rbind_eq_Inr_iff split: option.splits)
  then have rows: "list_all2 (\<lambda>row p. probability_of_row (length classes) (index_of 1 classes) row = Inr p) matrix ps"
    by (simp add: map_results_Inr_iff)
  have "length ps = length X" using list_all2_lengthD [OF rows] facts(6) by simp
  from that [OF facts(1-5) this rows] show ?thesis .
qed

lemma probability_of_row_Inr:
  "probability_of_row n i row = Inr p \<longleftrightarrow> length row = n \<and> row ! i = Fin p \<and> 0 \<le> p \<and> p \<le> 1"
  by (auto simp: probability_of_row_def split: dec.splits)

lemma mk_prediction_setD: "mk_prediction_set p = Inr q \<Longrightarrow> q = p"
  unfolding mk_prediction_set_def Let_def by (elim rbind_InrE) simp

lemma mk_final_modelD:
  assumes "mk_final_model sk m = Inr m'"
  shows "m' = m" "mk_locked_selection (sk_version sk) (fm_locked_selection m) = Inr (fm_locked_selection m)"
    "lk_selected_model_name (fm_locked_selection m) = fm_selected_model_name m"
proof -
  from assms obtain locked where "m' = m"
    and locked: "mk_locked_selection (sk_version sk) (fm_locked_selection m) = Inr locked"
    and name: "lk_selected_model_name locked = fm_selected_model_name m"
    unfolding mk_final_model_def Let_def by (elim rbind_InrE) simp
  then show "m' = m" "mk_locked_selection (sk_version sk) (fm_locked_selection m) = Inr (fm_locked_selection m)"
    "lk_selected_model_name (fm_locked_selection m) = fm_selected_model_name m"
    using mk_locked_selectionD(1) [OF locked] by simp_all
qed

lemma mk_final_evaluationD: "mk_final_evaluation v e = Inr e' \<Longrightarrow> e' = e"
  unfolding mk_final_evaluation_def Let_def by (elim rbind_InrE) simp

lemma built_predictions:
  assumes "build_prediction_set_from_probabilities view ps name config t = Inr s"
  shows "pf_rows (ps_data s) = prediction_rows (the_float (mc_diagnostic_classification_threshold config))
      (vp_sessions view) ps (vp_y view)"
    "ps_diagnostic_classification_threshold s = mc_diagnostic_classification_threshold config"
    "length ps = length (vp_y view)"
proof -
  from assms obtain c where c: "mk_training_config config = Inr c" "length ps = length (vp_y view)"
    and s: "mk_prediction_set
       \<lparr>ps_model_name = name, ps_partition_name = pm_name (dp_metadata (vp_partition view)),
        ps_data = \<lparr>pf_columns = PREDICTION_COLUMNS,
          pf_dtype = (\<lambda>column. if column = ''probability_positive'' then ''float64''
             else if column = ''session'' then ''object'' else ''int64''),
          pf_rows = prediction_rows (the_float (mc_diagnostic_classification_threshold c)) (vp_sessions view) ps
            (vp_y view)\<rparr>,
        ps_diagnostic_classification_threshold = mc_diagnostic_classification_threshold c,
        ps_row_count = int (length (prediction_rows (the_float (mc_diagnostic_classification_threshold c))
          (vp_sessions view) ps (vp_y view))),
        ps_first_session = hd (vp_sessions view), ps_last_session = last (vp_sessions view),
        ps_created_at = t\<rparr> = Inr s"
    by (auto simp: build_prediction_set_from_probabilities_def Let_def rbind_eq_Inr_iff)
  have "c = config" using c(1) by (auto simp: mk_training_config_def rbind_eq_Inr_iff)
  then show "pf_rows (ps_data s) = prediction_rows (the_float (mc_diagnostic_classification_threshold config))
      (vp_sessions view) ps (vp_y view)"
    "ps_diagnostic_classification_threshold s = mc_diagnostic_classification_threshold config"
    "length ps = length (vp_y view)"
    using mk_prediction_setD [OF s] c(2) by simp_all
qed

section \<open>The refit and the evaluation\<close>

lemma refit:
  assumes "partition_ok ''train'' train" "partition_ok ''validation'' validation"
    and "fit_locked_model_on_train_validation sk train validation locked t = Inr m"
  shows "mk_locked_selection (sk_version sk) locked = Inr locked" "fm_locked_selection m = locked"
    "sk_fit sk (lk_selected_model_name locked) (ml_random_seed (lk_lineage locked))
       (map fr_values (dp_features train @ dp_features validation))
       (map lb_target (dp_labels train @ dp_labels validation)) = Fitted (fm_estimator m)"
    "mk_final_model sk m = Inr m"
proof -
  from assms(3) obtain l train_view validation_view e parameters t' where
    locked: "mk_locked_selection (sk_version sk) locked = Inr l"
    and views: "validate_modeling_partition LockedModelError ''train'' ''single_class_training_target'' train = Inr train_view"
      "validate_modeling_partition LockedModelError ''validation'' ''single_class_validation_target'' validation =
         Inr validation_view"
    and fitted: "fit_estimator sk (lk_selected_model_name l) (ml_random_seed (lk_lineage l))
        (vp_X train_view @ vp_X validation_view) (vp_y train_view @ vp_y validation_view) = Inr e"
    and m: "mk_final_model sk
       \<lparr>fm_selected_model_name = lk_selected_model_name l, fm_estimator = e, fm_locked_selection = l,
        fm_fixed_parameters = parameters,
        fm_lineage = (lk_lineage l)
          \<lparr>ml_sklearn_version := sk_version sk, ml_model_schema_version := MODEL_SCHEMA_VERSION\<rparr>,
        fm_train_row_count = int (length (vp_X train_view)),
        fm_validation_row_count = int (length (vp_X validation_view)),
        fm_combined_row_count = int (length (vp_X train_view @ vp_X validation_view)),
        fm_train_first_session = hd (vp_sessions train_view), fm_train_last_session = last (vp_sessions train_view),
        fm_validation_first_session = hd (vp_sessions validation_view),
        fm_validation_last_session = last (vp_sessions validation_view),
        fm_combined_first_session = hd (vp_sessions train_view @ vp_sessions validation_view),
        fm_combined_last_session = last (vp_sessions train_view @ vp_sessions validation_view),
        fm_diagnostic_classification_threshold = lk_diagnostic_classification_threshold l,
        fm_created_at = PyAware t'\<rparr> = Inr m"
    unfolding fit_locked_model_on_train_validation_def Let_def
    by (elim rbind_InrE) (simp only: reconstruct_Inr)
  have l: "l = locked" by (rule mk_locked_selectionD(1) [OF locked])
  note views' = validated_viewD(1) [OF assms(1) views(1)] validated_viewD(1) [OF assms(2) views(2)]
  show "mk_locked_selection (sk_version sk) locked = Inr locked" using locked l by simp
  show "fm_locked_selection m = locked" using mk_final_modelD(1) [OF m] l by simp
  show "sk_fit sk (lk_selected_model_name locked) (ml_random_seed (lk_lineage locked))
       (map fr_values (dp_features train @ dp_features validation))
       (map lb_target (dp_labels train @ dp_labels validation)) = Fitted (fm_estimator m)"
    using fitted mk_final_modelD(1) [OF m] by (simp add: fit_estimator_Inr views' l)
  show "mk_final_model sk m = Inr m" using m mk_final_modelD(1) [OF m] by simp
qed

lemma evaluated:
  assumes "partition_ok ''test'' test" "evaluate_locked_model_on_test sk m test t = Inr e"
  shows "\<exists>ps. positive_class_probabilities sk (fm_estimator m) (map fr_values (dp_features test)) = Inr ps \<and>
      pf_rows (ps_data (fe_prediction_set e)) = prediction_rows (the_float (fe_diagnostic_classification_threshold e))
        (map lb_session (dp_labels test)) ps (map lb_target (dp_labels test)) \<and>
      length ps = length (dp_labels test)"
    "fe_locked_selection e = fm_locked_selection m"
    "fe_diagnostic_classification_threshold e = fm_diagnostic_classification_threshold m"
    "mk_final_evaluation (sk_version sk) e = Inr e"
proof -
  from assms(2) obtain t' model test_view ps config predictions metrics where
    model: "mk_final_model sk m = Inr model"
    and view: "validate_modeling_partition LockedModelError ''test'' ''single_class_test_target'' test = Inr test_view"
    and ps: "positive_class_probabilities sk (fm_estimator model) (vp_X test_view) = Inr ps"
    and config: "mk_training_config \<lparr>mc_random_seed = ml_random_seed (fm_lineage model),
         mc_diagnostic_classification_threshold = fm_diagnostic_classification_threshold model\<rparr> = Inr config"
    and predictions: "build_prediction_set_from_probabilities test_view ps (fm_selected_model_name model) config
         (PyAware t') = Inr predictions"
    and e: "mk_final_evaluation (sk_version sk)
       \<lparr>fe_selected_model_name = fm_selected_model_name model, fe_locked_selection = fm_locked_selection model,
        fe_prediction_set = predictions, fe_metrics = metrics,
        fe_lineage = (fm_lineage model) \<lparr>ml_model_schema_version := MODEL_SCHEMA_VERSION\<rparr>,
        fe_test_row_count = ps_row_count predictions, fe_test_first_session = ps_first_session predictions,
        fe_test_last_session = ps_last_session predictions,
        fe_diagnostic_classification_threshold = fm_diagnostic_classification_threshold model,
        fe_created_at = PyAware t'\<rparr> = Inr e"
    unfolding evaluate_locked_model_on_test_def Let_def
    by (elim rbind_InrE) simp
  have same: "model = m" by (rule mk_final_modelD(1) [OF model])
  note v = validated_viewD(1) [OF assms(1) view]
  note e' = mk_final_evaluationD [OF e]
  have "config = \<lparr>mc_random_seed = ml_random_seed (fm_lineage m),
      mc_diagnostic_classification_threshold = fm_diagnostic_classification_threshold m\<rparr>"
    using config by (auto simp: mk_training_config_def rbind_eq_Inr_iff same)
  with built_predictions [OF predictions] ps show "\<exists>ps. positive_class_probabilities sk (fm_estimator m)
      (map fr_values (dp_features test)) = Inr ps \<and>
      pf_rows (ps_data (fe_prediction_set e)) = prediction_rows (the_float (fe_diagnostic_classification_threshold e))
        (map lb_session (dp_labels test)) ps (map lb_target (dp_labels test)) \<and>
      length ps = length (dp_labels test)"
    by (auto simp: e' same v)
  show "fe_locked_selection e = fm_locked_selection m"
    "fe_diagnostic_classification_threshold e = fm_diagnostic_classification_threshold m"
    by (simp_all add: e' same)
  show "mk_final_evaluation (sk_version sk) e = Inr e" using e e' by simp
qed

section \<open>Out of sample\<close>

text \<open>The estimator was fitted on exactly these rows, by the locked choice.\<close>

definition fitted_on :: "'est sklearn \<Rightarrow> locked_selection \<Rightarrow> dataset_partition \<Rightarrow> dataset_partition \<Rightarrow> 'est \<Rightarrow> bool" where
  "fitted_on sk locked train validation estimator \<longleftrightarrow>
     sk_fit sk (lk_selected_model_name locked) (ml_random_seed (lk_lineage locked))
       (map fr_values (dp_features train @ dp_features validation))
       (map lb_target (dp_labels train @ dp_labels validation)) = Fitted estimator"

definition predicts :: "'est sklearn \<Rightarrow> 'est \<Rightarrow> rat \<Rightarrow> dataset_partition \<Rightarrow> prediction_row list \<Rightarrow> bool" where
  "predicts sk estimator threshold test rows \<longleftrightarrow>
     (\<exists>ps. positive_class_probabilities sk estimator (map fr_values (dp_features test)) = Inr ps \<and>
        map pn_session rows = map (PyDate \<circ> lb_session) (dp_labels test) \<and>
        map pn_target rows = map (Some \<circ> lb_target) (dp_labels test) \<and>
        map pn_probability_positive rows = map Fin ps \<and> (\<forall>p \<in> set ps. 0 \<le> p \<and> p \<le> 1) \<and>
        map pn_predicted_class rows = map (\<lambda>p. Some (expected_class threshold p)) ps)"

text \<open>C20: over the partitions of a split of a well-formed dataset, a final evaluation that was produced evaluates the
  locked choice, refitted on exactly the training and validation rows, on exactly the test rows; every trade of a row it was fitted
  on is closed before every session it predicts, and the predicted classes follow the locked threshold.\<close>

theorem final_test_is_out_of_sample:
  assumes "wf_supervised d" "wf_split spec" "split_supervised_dataset d spec = Inr p"
    and "fit_locked_model_on_train_validation sk (cp_train p) (cp_validation p) locked t = Inr m"
    and "evaluate_locked_model_on_test sk m (cp_test p) t' = Inr e"
  shows "lock_holds locked \<and> fe_locked_selection e = locked \<and>
    fitted_on sk locked (cp_train p) (cp_validation p) (fm_estimator m) \<and>
    predicts sk (fm_estimator m) (the_float (fe_diagnostic_classification_threshold e)) (cp_test p)
      (pf_rows (ps_data (fe_prediction_set e))) \<and>
    (\<forall>l \<in> set (dp_labels (cp_train p) @ dp_labels (cp_validation p)). \<forall>l' \<in> set (dp_labels (cp_test p)).
       lb_exit_session l < lb_session l')"
proof -
  have ok: "split_ok spec p" by (rule split_gives_ok [OF assms(1-3)])
  then have parts: "partition_ok ''train'' (cp_train p)" "partition_ok ''validation'' (cp_validation p)"
    "partition_ok ''test'' (cp_test p)" "held_out (cp_train p) (cp_test p)" "held_out (cp_validation p) (cp_test p)"
    by (simp_all add: split_ok_def)
  note fit = refit [OF parts(1,2) assms(4)] and test = evaluated [OF parts(3) assms(5)]
  obtain ps where ps: "positive_class_probabilities sk (fm_estimator m) (map fr_values (dp_features (cp_test p))) = Inr ps"
    "length ps = length (dp_labels (cp_test p))"
    and rows: "pf_rows (ps_data (fe_prediction_set e)) =
      prediction_rows (the_float (fe_diagnostic_classification_threshold e))
        (map lb_session (dp_labels (cp_test p))) ps (map lb_target (dp_labels (cp_test p)))"
    using test(1) by blast
  have "0 \<le> x \<and> x \<le> 1" if "x \<in> set ps" for x
    by (rule positive_class_probabilities_Inr [OF ps(1)])
       (use that in \<open>auto simp: list_all2_conv_all_nth in_set_conv_nth probability_of_row_Inr\<close>)
  then have "predicts sk (fm_estimator m) (the_float (fe_diagnostic_classification_threshold e)) (cp_test p)
      (pf_rows (ps_data (fe_prediction_set e)))"
    using ps unfolding predicts_def rows by (intro exI [of _ ps]) (simp add: prediction_rows_columns)
  moreover have "fitted_on sk locked (cp_train p) (cp_validation p) (fm_estimator m)"
    using fit(3) by (simp add: fitted_on_def)
  ultimately show ?thesis
    using mk_locked_selectionD(2) [OF fit(1)] test(2) fit(2) parts(4,5) by (auto simp: held_out_def)
qed

end
