(* ===== verification/Signal_Properties.thy ===== *)
theory Signal_Properties
  imports Data_Signals Model_Test
begin

text \<open>What the signals are: each prediction of the final test becomes one signal, executed at the first market session
  after it.\<close>

section \<open>The next session\<close>

definition next_session :: "date list \<Rightarrow> date \<Rightarrow> date option" where
  "next_session sessions d = find (\<lambda>s. d < s) sessions"

lemma index_of_nth:
  assumes "distinct xs" "i < length xs"
  shows "index_of (xs ! i) xs = i"
proof -
  have "takeWhile (\<lambda>y. y \<noteq> xs ! i) xs = take i xs"
    using assms by (intro takeWhile_eq_take_P_nth) (auto simp: nth_eq_iff_index_eq)
  then show ?thesis using assms(2) by (simp add: index_of_def)
qed

lemma next_session_nth:
  assumes "increasing ds" "i < length ds"
  shows "next_session ds (ds ! i) = (if Suc i < length ds then Some (ds ! Suc i) else None)"
proof -
  have after: "ds ! i < ds ! j \<longleftrightarrow> i < j" if "j < length ds" for j
    by (rule increasing_nth_iff [OF assms that])
  show ?thesis
  proof (cases "Suc i < length ds")
    case True
    then show ?thesis
      by (auto simp: next_session_def find_Some_iff after intro!: exI [of _ "Suc i"])
  next
    case False
    then show ?thesis
      using after assms(2) by (auto simp: next_session_def find_None_iff in_set_conv_nth)
  qed
qed

lemma next_session_index:
  assumes "increasing ds" "d \<in> set ds"
  shows "next_session ds d = (if index_of d ds + 1 < length ds then Some (ds ! (index_of d ds + 1)) else None)"
proof -
  have "distinct ds" using assms(1) by (simp add: increasing_iff)
  moreover obtain i where "i < length ds" "d = ds ! i" using assms(2) by (auto simp: in_set_conv_nth)
  ultimately show ?thesis using next_session_nth [OF assms(1)] by (simp add: index_of_nth)
qed

lemma next_session_mono:
  assumes "increasing ds" "d < d'" "d' \<in> set ds" "next_session ds d = Some t" "next_session ds d' = Some t'"
  shows "t < t'"
proof -
  from assms(5) have "d' < t'" by (auto simp: next_session_def find_Some_iff)
  moreover have "t \<le> d'"
  proof (rule ccontr)
    obtain j where j: "j < length ds" "d' = ds ! j" using assms(3) by (auto simp: in_set_conv_nth)
    from assms(4) obtain i where i: "i < length ds" "t = ds ! i" "\<forall>k < i. \<not> d < ds ! k"
      by (auto simp: next_session_def find_Some_iff)
    assume "\<not> t \<le> d'"
    then have "j < i" using increasing_nth_iff [OF assms(1) j(1) i(1)] i j by simp
    then show False using i(3) j(2) assms(2) by simp
  qed
  ultimately show ?thesis by simp
qed

lemma next_session_in: "next_session ds d = Some t \<Longrightarrow> t \<in> set ds \<and> d < t"
  by (auto simp: next_session_def find_Some_iff)

section \<open>One signal\<close>

text \<open>The split leaves room for the trade at the next session.\<close>

definition executable_in :: "split_spec \<Rightarrow> date list \<Rightarrow> date \<Rightarrow> bool" where
  "executable_in spec sessions d \<longleftrightarrow>
     d \<in> set sessions \<and> ss_test_start spec \<le> d \<and> (\<exists>t. next_session sessions d = Some t \<and> t \<le> ss_test_end spec)"

definition signal_for :: "date list \<Rightarrow> prediction_row \<Rightarrow> signal_row" where
  "signal_for sessions row =
     (let d = date_cell (pn_session row); p = the_float (pn_probability_positive row) in
      \<lparr>sr_signal_session = PyDate d, sr_execution_session = PyDate (the (next_session sessions d)),
       sr_probability_positive = Fin p, sr_target_position = (if 1 / 2 \<le> p then 1 else 0)\<rparr>)"

lemma signal_of_prediction_eq:
  assumes "increasing sessions"
  shows "signal_of_prediction sessions spec row = Inr s \<longleftrightarrow>
    executable_in spec sessions (date_cell (pn_session row)) \<and> s = signal_for sessions row"
proof (cases "date_cell (pn_session row) \<in> set sessions")
  case True
  then show ?thesis
    using next_session_index [OF assms True]
    by (auto simp: signal_of_prediction_def Let_def rbind_eq_Inr_iff executable_in_def signal_for_def
        STRATEGY_LONG_PROBABILITY_THRESHOLD_def)
qed (simp add: signal_of_prediction_def Let_def executable_in_def)

lemma signals_of_predictions:
  assumes "increasing sessions"
  shows "map_results (signal_of_prediction sessions spec) rows = Inr ss \<longleftrightarrow>
    (\<forall>row \<in> set rows. executable_in spec sessions (date_cell (pn_session row))) \<and> ss = map (signal_for sessions) rows"
  unfolding map_results_Inr_iff signal_of_prediction_eq [OF assms]
  by (auto simp: list_all2_conv_all_nth all_set_conv_all_nth intro!: nth_equalityI)

section \<open>Accepted evaluations\<close>

text \<open>What the constructor of an evaluation guarantees to the strategy.\<close>

lemma mk_prediction_set_rows:
  assumes "mk_prediction_set p = Inr q"
  shows "pf_rows (ps_data p) \<noteq> []"
    "\<exists>ds. map pn_session (pf_rows (ps_data p)) = map PyDate ds \<and> increasing ds \<and>
      hd ds = ps_first_session p \<and> last ds = ps_last_session p"
    "\<forall>row \<in> set (pf_rows (ps_data p)). \<exists>r. pn_probability_positive row = Fin r \<and> 0 \<le> r \<and> r \<le> 1"
proof -
  have "int (length (pf_rows (ps_data p))) = ps_row_count p" "1 \<le> ps_row_count p"
    using assms unfolding mk_prediction_set_def Let_def by (elim rbind_InrE; simp)+
  then show "pf_rows (ps_data p) \<noteq> []" by auto
  show "\<exists>ds. map pn_session (pf_rows (ps_data p)) = map PyDate ds \<and> increasing ds \<and>
      hd ds = ps_first_session p \<and> last ds = ps_last_session p"
    using assms unfolding mk_prediction_set_def Let_def by (elim rbind_InrE) (simp, blast)
  have "\<forall>row \<in> set (pf_rows (ps_data p)). check_probability (pn_probability_positive row) = Inr ()"
    using assms unfolding mk_prediction_set_def Let_def by (elim rbind_InrE) simp
  then show "\<forall>row \<in> set (pf_rows (ps_data p)). \<exists>r. pn_probability_positive row = Fin r \<and> 0 \<le> r \<and> r \<le> 1"
    by (simp add: check_probability_def split: dec.splits) (metis dec.exhaust)
qed

lemma mk_final_evaluation_facts:
  assumes "mk_final_evaluation v e = Inr e'"
  shows "mk_prediction_set (fe_prediction_set e) = Inr (fe_prediction_set e)"
    "fe_selected_model_name e \<in> set MODEL_NAMES" "ml_model_schema_version (fe_lineage e) = MODEL_SCHEMA_VERSION"
    "is_checksum (ml_source_market_data_checksum (fe_lineage e))"
    "ml_source_schema_version (fe_lineage e) = SCHEMA_VERSION"
    "ml_feature_schema_version (fe_lineage e) = FEATURE_SCHEMA_VERSION"
    "ml_label_schema_version (fe_lineage e) = LABEL_SCHEMA_VERSION"
    "ml_feature_columns (fe_lineage e) = FEATURE_COLUMNS"
    "ss_test_start (ml_split_spec (fe_lineage e)) \<le> ps_first_session (fe_prediction_set e)"
    "strip (ml_sklearn_version (fe_lineage e)) \<noteq> []" "ml_sklearn_version (fe_lineage e) = v"
proof -
  obtain q where q: "mk_prediction_set (fe_prediction_set e) = Inr q"
    and start: "ss_test_start (ml_split_spec (fe_lineage e)) \<le> ps_first_session q"
    using assms unfolding mk_final_evaluation_def Let_def by (elim rbind_InrE) simp
  note same = mk_prediction_setD [OF q]
  show "mk_prediction_set (fe_prediction_set e) = Inr (fe_prediction_set e)"
    "ss_test_start (ml_split_spec (fe_lineage e)) \<le> ps_first_session (fe_prediction_set e)"
    using q start by (simp_all add: same)
  show "fe_selected_model_name e \<in> set MODEL_NAMES" "ml_model_schema_version (fe_lineage e) = MODEL_SCHEMA_VERSION"
    "is_checksum (ml_source_market_data_checksum (fe_lineage e))"
    "ml_source_schema_version (fe_lineage e) = SCHEMA_VERSION"
    "ml_feature_schema_version (fe_lineage e) = FEATURE_SCHEMA_VERSION"
    "ml_label_schema_version (fe_lineage e) = LABEL_SCHEMA_VERSION"
    "ml_feature_columns (fe_lineage e) = FEATURE_COLUMNS"
    "strip (ml_sklearn_version (fe_lineage e)) \<noteq> []" "ml_sklearn_version (fe_lineage e) = v"
    using assms unfolding mk_final_evaluation_def Let_def check_evaluation_schema_def
    by (elim rbind_InrE; simp add: rbind_eq_Inr_iff)+
qed

section \<open>The market data\<close>

lemma read_bar_raw: "read_bar (raw_bar_of b) = Inr b"
  by (cases b) (simp add: read_bar_def raw_bar_of_def price_cell_def volume_cell_def session_cell_def)

text \<open>A batch as its constructors return it.\<close>

definition batch_ok :: "(bar list \<Rightarrow> string) \<Rightarrow> market_batch \<Rightarrow> bool" where
  "batch_ok digest b \<longleftrightarrow> wf_batch digest b \<and>
     mm_symbol (md_metadata b) = MARKET_SYMBOL \<and> mm_schema_version (md_metadata b) = SCHEMA_VERSION"

lemma market_metadata_identity:
  "mk_market_metadata raw = Inr m \<Longrightarrow> mm_symbol m = MARKET_SYMBOL \<and> mm_schema_version m = SCHEMA_VERSION"
  unfolding mk_market_metadata_def by (elim rbind_InrE) auto

lemma built_batch_ok:
  assumes "mk_market_metadata raw = Inr m" "mk_market_batch digest columns rows m = Inr b"
  shows "batch_ok digest b"
  using mk_market_batch_wf [OF assms(2)] market_metadata_identity [OF assms(1)] by (simp add: batch_ok_def)

lemma batch_accepted:
  assumes "wf_batch digest b"
  shows "mk_market_batch digest CANONICAL_COLUMNS (map raw_bar_of (md_bars b)) (md_metadata b) = Inr b"
proof -
  have "map_results read_bar (map raw_bar_of (md_bars b)) = Inr (md_bars b)"
    using map_results_map [of "md_bars b" read_bar raw_bar_of id] by (simp add: read_bar_raw)
  then show ?thesis using assms
    by (cases b) (simp add: mk_market_batch_def compute_market_data_checksum_def wf_batch_def hd_map last_map
      raw_bar_of_def session_cell_def)
qed

section \<open>The signals of an evaluation\<close>

text \<open>The sessions of the predictions.\<close>

definition prediction_dates :: "final_evaluation \<Rightarrow> date list" where
  "prediction_dates e = map (date_cell \<circ> pn_session) (pf_rows (ps_data (fe_prediction_set e)))"

definition market_dates :: "market_batch \<Rightarrow> date list" where
  "market_dates b = map mb_session (md_bars b)"

lemma prediction_dates_of:
  assumes "mk_final_evaluation v e = Inr e'"
  shows "increasing (prediction_dates e)" "prediction_dates e \<noteq> []"
    "hd (prediction_dates e) = ps_first_session (fe_prediction_set e)"
proof -
  note rows = mk_prediction_set_rows [OF mk_final_evaluation_facts(1) [OF assms]]
  obtain ds where ds: "map pn_session (pf_rows (ps_data (fe_prediction_set e))) = map PyDate ds" "increasing ds"
    "hd ds = ps_first_session (fe_prediction_set e)"
    using rows(2) by blast
  have "prediction_dates e = map date_cell (map pn_session (pf_rows (ps_data (fe_prediction_set e))))"
    by (simp add: prediction_dates_def)
  also have "\<dots> = ds" unfolding ds(1) by (simp add: comp_def)
  finally have d: "prediction_dates e = ds" .
  show "increasing (prediction_dates e)" "hd (prediction_dates e) = ps_first_session (fe_prediction_set e)"
    using ds d by simp_all
  show "prediction_dates e \<noteq> []" using rows(1) by (simp add: prediction_dates_def)
qed

definition signal_rows :: "final_evaluation \<Rightarrow> market_batch \<Rightarrow> signal_row list" where
  "signal_rows e b = map (signal_for (market_dates b)) (pf_rows (ps_data (fe_prediction_set e)))"

definition execution_dates :: "final_evaluation \<Rightarrow> market_batch \<Rightarrow> date list" where
  "execution_dates e b = map (\<lambda>d. the (next_session (market_dates b) d)) (prediction_dates e)"

definition signals_possible :: "final_evaluation \<Rightarrow> market_batch \<Rightarrow> bool" where
  "signals_possible e b \<longleftrightarrow>
     mm_dataset_checksum (md_metadata b) = ml_source_market_data_checksum (fe_lineage e) \<and>
     increasing (market_dates b) \<and>
     (\<forall>d \<in> set (prediction_dates e). executable_in (ml_split_spec (fe_lineage e)) (market_dates b) d)"

lemma signal_rows_columns:
  "map sr_signal_session (signal_rows e b) = map PyDate (prediction_dates e)"
  "map sr_execution_session (signal_rows e b) = map PyDate (execution_dates e b)"
  "length (signal_rows e b) = length (prediction_dates e)"
  by (simp_all add: signal_rows_def prediction_dates_def execution_dates_def signal_for_def Let_def comp_def)

lemma executions_increase:
  assumes "increasing (prediction_dates e)" "signals_possible e b"
  shows "increasing (execution_dates e b)"
proof -
  have "the (next_session (market_dates b) d) < the (next_session (market_dates b) d')"
    if "d < d'" "d \<in> set (prediction_dates e)" "d' \<in> set (prediction_dates e)" for d d'
  proof -
    from assms(2) that obtain t t' where "increasing (market_dates b)" "d' \<in> set (market_dates b)"
      "next_session (market_dates b) d = Some t" "next_session (market_dates b) d' = Some t'"
      unfolding signals_possible_def executable_in_def by blast
    then show ?thesis using next_session_mono [OF _ that(1)] by auto
  qed
  then show ?thesis
    using assms(1) by (auto simp: execution_dates_def sorted_wrt_map intro: sorted_wrt_mono_rel [rotated])
qed

lemma signal_pair_ok:
  assumes "increasing ms" "executable_in spec ms d"
  shows "check_signal_pair ms (d, the (next_session ms d)) = Inr ()"
proof -
  have d: "d \<in> set ms" using assms(2) by (simp add: executable_in_def)
  obtain t where t: "next_session ms d = Some t" using assms(2) by (auto simp: executable_in_def)
  have "index_of t ms = index_of d ms + 1"
    using t assms(1) by (auto simp: next_session_index [OF assms(1) d] increasing_iff index_of_nth split: if_splits)
  then show ?thesis
    using d t next_session_in [OF t] by (simp add: check_signal_pair_def)
qed

lemma signal_target_ok:
  assumes "pn_probability_positive row = Fin r" "0 \<le> r" "r \<le> 1"
  shows "check_signal_target STRATEGY_LONG_PROBABILITY_THRESHOLD (signal_for ms row) = Inr ()"
  using assms by (simp add: check_signal_target_def signal_for_def Let_def STRATEGY_LONG_PROBABILITY_THRESHOLD_def)

definition signal_set_of :: "final_evaluation \<Rightarrow> market_batch \<Rightarrow> instant \<Rightarrow> signal_set" where
  "signal_set_of e b t =
     (let lineage = fe_lineage e in
      \<lparr>sgs_data = \<lparr>sf_columns = SIGNAL_COLUMNS,
          sf_dtype = (\<lambda>column. if column = ''probability_positive'' then ''float64''
             else if column = ''target_position'' then ''int64'' else ''object''),
          sf_rows = signal_rows e b\<rparr>,
        sgs_selected_model_name = fe_selected_model_name e,
        sgs_strategy_threshold = Fin STRATEGY_LONG_PROBABILITY_THRESHOLD,
        sgs_source_market_data_checksum = ml_source_market_data_checksum lineage,
        sgs_source_schema_version = ml_source_schema_version lineage,
        sgs_feature_schema_version = ml_feature_schema_version lineage,
        sgs_label_schema_version = ml_label_schema_version lineage,
        sgs_model_schema_version = ml_model_schema_version lineage,
        sgs_strategy_schema_version = STRATEGY_SCHEMA_VERSION,
        sgs_feature_columns = ml_feature_columns lineage, sgs_split_spec = ml_split_spec lineage,
        sgs_market_sessions = market_dates b,
        sgs_first_signal_session = hd (prediction_dates e), sgs_last_signal_session = last (prediction_dates e),
        sgs_first_execution_session = hd (execution_dates e b), sgs_last_execution_session = last (execution_dates e b),
        sgs_row_count = int (length (signal_rows e b)), sgs_sklearn_version = ml_sklearn_version lineage,
        sgs_created_at = PyAware t\<rparr>)"

lemma signal_set_accepted:
  assumes "mk_final_evaluation v e = Inr e'" "signals_possible e b"
  shows "mk_signal_set v (signal_set_of e b t) =
    Inr (signal_set_of e b t \<lparr>sgs_sklearn_version := strip v\<rparr>)"
proof -
  note f = mk_final_evaluation_facts [OF assms(1)] and pd = prediction_dates_of [OF assms(1)]
  let ?spec = "ml_split_spec (fe_lineage e)"
  have exec: "executable_in ?spec (market_dates b) d" if "d \<in> set (prediction_dates e)" for d
    using assms(2) that by (simp add: signals_possible_def)
  have ms: "increasing (market_dates b)" using assms(2) by (simp add: signals_possible_def)
  have pairs: "\<forall>x \<in> set (zip (prediction_dates e) (execution_dates e b)). check_signal_pair (market_dates b) x = Inr ()"
    using signal_pair_ok [OF ms exec] by (auto simp: execution_dates_def set_zip)
  have targets: "\<forall>s \<in> set (signal_rows e b). check_signal_target STRATEGY_LONG_PROBABILITY_THRESHOLD s = Inr ()"
    using mk_prediction_set_rows(3) [OF f(1)] signal_target_ok by (fastforce simp: signal_rows_def)
  have ends: "hd (prediction_dates e) \<in> set (prediction_dates e)" "last (prediction_dates e) \<in> set (prediction_dates e)"
    using pd(2) by simp_all
  have bounds: "ss_test_start ?spec \<le> hd (prediction_dates e)" "last (prediction_dates e) \<le> ss_test_end ?spec"
    "ss_test_start ?spec \<le> hd (execution_dates e b)" "last (execution_dates e b) \<le> ss_test_end ?spec"
    using exec [OF ends(1)] exec [OF ends(2)] pd(2) next_session_in
    by (auto simp: executable_in_def execution_dates_def hd_map last_map) fastforce+
  have ne: "market_dates b \<noteq> []" using exec [OF ends(1)] by (auto simp: executable_in_def)
  have ne': "Suc 0 \<le> length (signal_rows e b)"
    using pd(2) signal_rows_columns(3) [of e b] by (cases "prediction_dates e") simp_all
  note parse = plain_dates [THEN iffD2, OF signal_rows_columns(1)] plain_dates [THEN iffD2, OF signal_rows_columns(2)]
  show ?thesis
    using f pd(1) executions_increase [OF pd(1) assms(2)] pairs targets bounds ms ne ne'
    by (simp add: mk_signal_set_def signal_set_of_def parse Let_def rbind_eq_Inr_iff)
qed

lemma signal_refusal: "signal_of_prediction ms spec row = Inl er \<Longrightarrow> \<exists>code. er = StrategyInputError code"
  by (auto simp: signal_of_prediction_def Let_def rbind_eq_Inl_iff)

text \<open>What the builder evaluates to before it looks at the predictions.\<close>

lemma builder_reads:
  assumes "mk_final_evaluation v e = Inr e" "batch_ok digest b"
  shows "revalidate_market_data digest b = Inr b" "mk_final_evaluation v e = Inr e"
    "map mb_session (md_bars b) = market_dates b"
    "mm_symbol (md_metadata b) = MARKET_SYMBOL" "mm_schema_version (md_metadata b) = SCHEMA_VERSION"
  using batch_accepted [of digest b] assms
  by (simp_all add: revalidate_market_data_def batch_ok_def reconstruct_def market_dates_def)

lemma refused_signals:
  assumes "mk_final_evaluation v e = Inr e" "batch_ok digest b" "\<not> signals_possible e b"
  shows "\<exists>code. build_long_cash_strategy_signals v digest e b (PyAware t) = Inl (StrategyInputError code)"
proof -
  note f = mk_final_evaluation_facts [OF assms(1)] and reads = builder_reads [OF assms(1,2)]
  let ?rows = "pf_rows (ps_data (fe_prediction_set e))" and ?ms = "market_dates b"
  let ?spec = "ml_split_spec (fe_lineage e)"
  show ?thesis
  proof (cases "increasing ?ms \<and> mm_dataset_checksum (md_metadata b) = ml_source_market_data_checksum (fe_lineage e)")
    case True
    have "map_results (signal_of_prediction ?ms ?spec) ?rows \<noteq> Inr ss" for ss
      using True assms(3) signals_of_predictions [of ?ms ?spec ?rows ss]
      by (simp add: signals_possible_def prediction_dates_def)
    then obtain er where er: "map_results (signal_of_prediction ?ms ?spec) ?rows = Inl er"
      by (cases "map_results (signal_of_prediction ?ms ?spec) ?rows") blast+
    then obtain code where "er = StrategyInputError code"
      using map_results_Inl [OF er] signal_refusal by blast
    then show ?thesis
      using True f reads er
      by (simp add: build_long_cash_strategy_signals_def Let_def increasing_iff [symmetric] aware_utc_PyAware
          reconstruct_def)
  next
    case False
    then show ?thesis
      using f reads
      by (cases "mm_dataset_checksum (md_metadata b) = ml_source_market_data_checksum (fe_lineage e)")
        (simp_all add: build_long_cash_strategy_signals_def Let_def increasing_iff [symmetric] aware_utc_PyAware
          reconstruct_def)
  qed
qed

lemma possible_signals:
  assumes "mk_final_evaluation v e = Inr e" "batch_ok digest b" "signals_possible e b"
  shows "build_long_cash_strategy_signals v digest e b (PyAware t) =
    Inr (signal_set_of e b t \<lparr>sgs_sklearn_version := strip v\<rparr>)"
proof -
  note f = mk_final_evaluation_facts [OF assms(1)] and pd = prediction_dates_of [OF assms(1)]
    and reads = builder_reads [OF assms(1,2)]
  let ?rows = "pf_rows (ps_data (fe_prediction_set e))" and ?ms = "market_dates b"
  let ?spec = "ml_split_spec (fe_lineage e)"
  have ok: "increasing ?ms" "\<forall>row \<in> set ?rows. executable_in ?spec ?ms (date_cell (pn_session row))"
    "mm_dataset_checksum (md_metadata b) = ml_source_market_data_checksum (fe_lineage e)"
    using assms(3) by (simp_all add: signals_possible_def prediction_dates_def)
  have rows: "map_results (signal_of_prediction ?ms ?spec) ?rows = Inr (signal_rows e b)"
    using ok(2) by (simp add: signals_of_predictions [OF ok(1)] signal_rows_def)
  have ne: "signal_rows e b \<noteq> []" "prediction_dates e \<noteq> []" "execution_dates e b \<noteq> []"
    using pd(2) signal_rows_columns(3) [of e b] by (auto simp: execution_dates_def)
  have ends: "sr_signal_session (hd (signal_rows e b)) = PyDate (hd (prediction_dates e))"
    "sr_signal_session (last (signal_rows e b)) = PyDate (last (prediction_dates e))"
    "sr_execution_session (hd (signal_rows e b)) = PyDate (hd (execution_dates e b))"
    "sr_execution_session (last (signal_rows e b)) = PyDate (last (execution_dates e b))"
    using ne signal_rows_columns(1,2) [of e b] by (metis hd_map last_map)+
  have "build_long_cash_strategy_signals v digest e b (PyAware t) = mk_signal_set v (signal_set_of e b t)"
    using ok ne(1) f ends reads rows
    by (simp add: build_long_cash_strategy_signals_def Let_def signal_set_of_def increasing_iff [symmetric]
        aware_utc_PyAware reconstruct_def)
  then show ?thesis using signal_set_accepted [OF assms(1,3)] by simp
qed

text \<open>C24: for an accepted final test evaluation and an accepted batch of market data the strategy either raises, exactly
  when the data is not that of the evaluation, is not in order, or leaves a prediction without a next session inside the
  test split, or it makes one signal per prediction, in order: executed at the first market session after the
  prediction, long exactly when the probability is at least one half.\<close>

theorem signals_execute_at_the_next_session:
  assumes "mk_final_evaluation v e = Inr e" "batch_ok digest b"
  shows "case build_long_cash_strategy_signals v digest e b (PyAware t) of
      Inl _ \<Rightarrow> mm_dataset_checksum (md_metadata b) \<noteq> ml_source_market_data_checksum (fe_lineage e) \<or>
        \<not> increasing (market_dates b) \<or>
        (\<exists>d \<in> set (prediction_dates e). \<not> executable_in (ml_split_spec (fe_lineage e)) (market_dates b) d)
    | Inr s \<Rightarrow> signals_possible e b \<and> sf_rows (sgs_data s) = signal_rows e b \<and>
        increasing (execution_dates e b)"
proof (cases "signals_possible e b")
  case True
  then show ?thesis
    using possible_signals [OF assms True] executions_increase [OF prediction_dates_of(1) [OF assms(1)] True]
    by (simp add: signal_set_of_def Let_def)
next
  case False
  then show ?thesis
    using refused_signals [OF assms False, of t] by (auto simp: signals_possible_def)
qed

end
