(* ===== verification/Model_Complete.thy ===== *)
theory Model_Complete
  imports Model_Test
begin

text \<open>When scikit-learn behaves as documented and every partition has both classes, the pipeline runs to its end: none of
  the many checks between the stages refuses what an earlier stage has produced.\<close>

section \<open>What scikit-learn promises\<close>

definition unit_metric :: "dec option \<Rightarrow> bool" where
  "unit_metric m \<longleftrightarrow> (\<exists>r. m = Some (Fin r) \<and> 0 \<le> r \<and> r \<le> 1)"

definition estimator_behaves :: "'est sklearn \<Rightarrow> string \<Rightarrow> int \<Rightarrow> 'est \<Rightarrow> bool" where
  "estimator_behaves sk name seed e \<longleftrightarrow>
     sk_defect sk e name seed = None \<and> sk_classes sk e = Some [PyInt 0, PyInt 1] \<and>
     (\<forall>X. \<exists>matrix. sk_predict_proba sk e X = Some matrix \<and> length matrix = length X \<and>
        (\<forall>row \<in> set matrix. \<exists>q p. row = [q, Fin p] \<and> 0 \<le> p \<and> p \<le> 1))"

definition scores_behave :: "'est sklearn \<Rightarrow> bool" where
  "scores_behave sk \<longleftrightarrow>
     (\<forall>y ps. set y = {0, 1} \<longrightarrow> length ps = length y \<longrightarrow>
        (\<exists>r. sk_log_loss sk y ps = Some (Fin r) \<and> 0 \<le> r) \<and> unit_metric (sk_brier_score sk y ps) \<and>
        unit_metric (sk_roc_auc sk y ps) \<and> unit_metric (sk_average_precision sk y ps)) \<and>
     (\<forall>y cs. set y = {0, 1} \<longrightarrow> set cs \<subseteq> {0, 1} \<longrightarrow> length cs = length y \<longrightarrow>
        unit_metric (sk_accuracy sk y cs) \<and> unit_metric (sk_precision sk y cs) \<and>
        unit_metric (sk_recall sk y cs) \<and> unit_metric (sk_f1 sk y cs) \<and>
        (\<exists>tn fp fn tp. sk_confusion sk y cs = Some (tn, fp, fn, tp) \<and> 0 \<le> tn \<and> 0 \<le> fp \<and> 0 \<le> fn \<and> 0 \<le> tp \<and>
           tn + fp = int (length y) - sum_list y \<and> fn + tp = sum_list y))"

text \<open>Fitting converges, on rows with both classes.\<close>

definition sklearn_behaves :: "'est sklearn \<Rightarrow> bool" where
  "sklearn_behaves sk \<longleftrightarrow>
     strip (sk_version sk) \<noteq> [] \<and> scores_behave sk \<and>
     (\<forall>name seed X y. name \<in> set MODEL_NAMES \<longrightarrow> 0 \<le> seed \<longrightarrow> length X = length y \<longrightarrow> set y = {0, 1} \<longrightarrow>
        (\<exists>e. sk_fit sk name seed X y = Fitted e \<and> estimator_behaves sk name seed e))"

section \<open>Parameters\<close>

lemma fixed_parameters_ok:
  assumes "name \<in> set MODEL_NAMES" "0 \<le> seed"
  obtains q where "fixed_model_parameters name seed = Inr q" "mk_parameter_set q = Inr q" "mp_model_name q = name"
proof -
  have set_ok: "mk_parameter_set q = Inr q"
    if "mp_model_name q \<in> set MODEL_NAMES" "\<forall>(k, v) \<in> set (mp_parameters q). k \<noteq> [] \<and> is_primitive v" for q
    using that by (auto simp: mk_parameter_set_def rbind_eq_Inr_iff)
  have "\<exists>q. fixed_model_parameters name seed = mk_parameter_set q \<and> mp_model_name q = name \<and>
      (\<forall>(k, v) \<in> set (mp_parameters q). k \<noteq> [] \<and> is_primitive v)"
  proof (cases "name = LOGISTIC_REGRESSION_MODEL")
    case True
    then show ?thesis
      using assms
      by (simp add: fixed_model_parameters_def validate_model_name_def validate_int_def)
         (rule exI, rule conjI, rule refl, simp)
  next
    case False
    then show ?thesis
      using assms
      by (simp add: fixed_model_parameters_def validate_model_name_def validate_int_def)
         (rule exI, rule conjI, rule refl, simp)
  qed
  with that set_ok assms(1) show thesis by metis
qed

lemma same_parameters_refl [simp]: "same_parameters q q"
  by (auto simp: same_parameters_def py_equal_def intro: list_all2_refl)

section \<open>Prediction sets\<close>

lemma probabilities_exist:
  assumes "estimator_behaves sk name seed e"
  obtains ps where "positive_class_probabilities sk e X = Inr ps" "length ps = length X" "\<forall>p \<in> set ps. 0 \<le> p \<and> p \<le> 1"
proof -
  have "\<exists>matrix. sk_predict_proba sk e X = Some matrix \<and> length matrix = length X \<and>
      (\<forall>row \<in> set matrix. \<exists>q p. row = [q, Fin p] \<and> 0 \<le> p \<and> p \<le> 1)"
    using assms by (simp add: estimator_behaves_def)
  then obtain matrix where m: "sk_predict_proba sk e X = Some matrix" "length matrix = length X"
    "\<forall>row \<in> set matrix. \<exists>q p. row = [q, Fin p] \<and> 0 \<le> p \<and> p \<le> 1" by blast
  have classes: "map_results class_to_int [PyInt 0, PyInt 1] = Inr [0, 1]"
    by (simp add: class_to_int_def)
  let ?p = "\<lambda>row. the_float (row ! 1)"
  have index: "index_of 1 [0, 1 :: int] = 1" by (simp add: index_of_def)
  have "probability_of_row 2 1 row = Inr (?p row)" if "row \<in> set matrix" for row
    using m(3) that by (fastforce simp: probability_of_row_def)
  then have "map_results (probability_of_row 2 1) (map (\<lambda>x. x) matrix) = Inr (map ?p matrix)"
    by (rule map_results_map)
  then have "positive_class_probabilities sk e X = Inr (map ?p matrix)"
    using assms m(1,2) classes index
    by (simp add: eval_nat_numeral positive_class_probabilities_def estimator_behaves_def insert_commute)
  moreover have "\<forall>p \<in> set (map ?p matrix). 0 \<le> p \<and> p \<le> 1" using m(3) by fastforce
  ultimately show thesis using that m(2) by simp
qed

definition predictions_of ::
  "dataset_partition \<Rightarrow> rat list \<Rightarrow> string \<Rightarrow> training_config \<Rightarrow> pyval \<Rightarrow> prediction_set" where
  "predictions_of p ps name config now =
     \<lparr>ps_model_name = name, ps_partition_name = pm_name (dp_metadata p),
      ps_data = \<lparr>pf_columns = PREDICTION_COLUMNS,
        pf_dtype = (\<lambda>column. if column = ''probability_positive'' then ''float64''
           else if column = ''session'' then ''object'' else ''int64''),
        pf_rows = prediction_rows (the_float (mc_diagnostic_classification_threshold config))
          (map lb_session (dp_labels p)) ps (map lb_target (dp_labels p))\<rparr>,
      ps_diagnostic_classification_threshold = mc_diagnostic_classification_threshold config,
      ps_row_count = int (length (dp_labels p)), ps_first_session = lb_session (hd (dp_labels p)),
      ps_last_session = lb_session (last (dp_labels p)), ps_created_at = now\<rparr>"

lemma mk_training_configD:
  assumes "mk_training_config c = Inr c'"
  shows "c' = c" "0 \<le> mc_random_seed c"
    "\<exists>t. mc_diagnostic_classification_threshold c = Fin t \<and> 0 < t \<and> t < 1"
  using assms by (auto simp: mk_training_config_def rbind_eq_Inr_iff)

lemma predictions_accepted:
  assumes p: "partition_ok n p" "n \<in> set PARTITION_NAMES" and ps: "length ps = length (dp_labels p)" "\<forall>x \<in> set ps. 0 \<le> x \<and> x \<le> 1"
    and name: "name \<in> set MODEL_NAMES" and config: "mk_training_config config = Inr config"
  shows "mk_prediction_set (predictions_of p ps name config (PyAware now)) = Inr (predictions_of p ps name config (PyAware now))"
proof -
  obtain t where t: "mc_diagnostic_classification_threshold config = Fin t" "0 < t" "t < 1"
    using mk_training_configD(3) [OF config] by blast
  have ok: "dp_labels p \<noteq> []" "timeline (dp_labels p)" "list_all label_target_ok (dp_labels p)" "pm_name (dp_metadata p) = n"
    using p(1) by (simp_all add: partition_ok_def)
  have targets: "set (map lb_target (dp_labels p)) \<subseteq> {0, 1}" by (rule targets_binary [OF ok(3)])
  have classes: "set (map (expected_class t) ps) \<subseteq> {0, 1}" by (auto simp: expected_class_def)
  have dtype: "''int64'' \<in> set integer_dtypes" by (simp add: integer_dtypes_def)
  note columns = prediction_rows_columns [of "map lb_session (dp_labels p)" ps "map lb_target (dp_labels p)" t]
  have "(case z of (probability, predicted) \<Rightarrow>
          reject_if (predicted \<noteq> expected_class t (the_float probability)) e) = Inr ()"
    if "z \<in> set (zip (map Fin ps) (map (expected_class t) ps))" for z e
    using that by (auto simp: zip_map_map zip_same_conv_map)
  note matches = this
  have sessions: "validate_strictly_increasing_sessions ModelEvaluationError f c1 c2
      (map PyDate (map lb_session (dp_labels p))) = Inr (map lb_session (dp_labels p))" for f c1 c2
    using timelineD(1) [OF ok(2)] by (simp del: map_map)
  have probabilities: "check_all check_probability (map Fin ps) = Inr ()"
    using ps(2) by (simp add: check_probability_def)
  have ends: "hd (map lb_session (dp_labels p)) = lb_session (hd (dp_labels p))"
    "last (map lb_session (dp_labels p)) = lb_session (last (dp_labels p))"
    using ok(1) by (simp_all add: hd_map last_map)
  show ?thesis
    using name p(2) ok(1,4) ps(1) targets classes dtype t columns ends
    unfolding mk_prediction_set_def Let_def
    by (simp add: predictions_of_def rbind_eq_Inr_iff matches sessions probabilities Suc_le_eq
        del: map_map set_map increasing_sessions_Inr)
qed

lemma predictions_built:
  assumes "partition_ok n p" "n \<in> set PARTITION_NAMES" "length ps = length (dp_labels p)" "\<forall>x \<in> set ps. 0 \<le> x \<and> x \<le> 1"
    and "name \<in> set MODEL_NAMES" "mk_training_config config = Inr config"
  shows "build_prediction_set_from_probabilities (view_of p) ps name config (PyAware now) =
    Inr (predictions_of p ps name config (PyAware now))"
proof -
  have "dp_labels p \<noteq> []" using assms(1) by (simp add: partition_ok_def)
  moreover have "length (prediction_rows t (map lb_session (dp_labels p)) ps (map lb_target (dp_labels p))) = length (dp_labels p)" for t
    using assms(3) by (simp add: prediction_rows_columns)
  ultimately show ?thesis
    using predictions_accepted [OF assms] assms(3)
    unfolding build_prediction_set_from_probabilities_def assms(6) reconstruct_def Let_def
    by (simp add: predictions_of_def hd_map last_map)
qed

section \<open>Metrics\<close>

text \<open>Metrics of a model on a partition: accepted again, and counted over its rows.\<close>

definition metrics_ok :: "string \<Rightarrow> dataset_partition \<Rightarrow> training_config \<Rightarrow> pyval \<Rightarrow> classification_metrics \<Rightarrow> bool" where
  "metrics_ok name p config now m \<longleftrightarrow>
     mk_classification_metrics m = Inr m \<and> cm_model_name m = name \<and> cm_partition_name m = pm_name (dp_metadata p) \<and>
     cm_diagnostic_classification_threshold m = mc_diagnostic_classification_threshold config \<and>
     cm_row_count m = int (length (dp_labels p)) \<and> cm_positive_count m = sum_list (map lb_target (dp_labels p)) \<and>
     cm_negative_count m = int (length (dp_labels p)) - sum_list (map lb_target (dp_labels p)) \<and> cm_created_at m = now"

lemma binary_sum:
  fixes ys :: "int list"
  assumes "set ys = {0, 1}"
  shows "0 < sum_list ys" "sum_list ys < int (length ys)"
proof -
  have bounds: "0 \<le> sum_list zs \<and> sum_list zs \<le> int (length zs) \<and> (1 \<in> set zs \<longrightarrow> 0 < sum_list zs) \<and>
      (0 \<in> set zs \<longrightarrow> sum_list zs < int (length zs))" if "list_all (\<lambda>z. z = 0 \<or> z = 1) zs" for zs :: "int list"
    using that by (induction zs) auto
  have "list_all (\<lambda>z. z = 0 \<or> z = 1) ys" "0 \<in> set ys" "1 \<in> set ys" using assms by (auto simp: list_all_iff)
  then show "0 < sum_list ys" "sum_list ys < int (length ys)" using bounds [of ys] by simp_all
qed

lemma rate_rounds:
  assumes "0 < a" "a < b"
  shows "fl (of_int a / of_int b) = Fin (float_round (of_int a / of_int b))"
    "0 \<le> float_round (of_int a / of_int b)" "float_round (of_int a / of_int b) \<le> 1"
proof -
  have q: "0 \<le> of_int a / (of_int b :: rat)" "of_int a / (of_int b :: rat) \<le> 1"
    using assms by (simp_all add: divide_le_eq)
  show bounds: "0 \<le> float_round (of_int a / of_int b)" "float_round (of_int a / of_int b) \<le> 1"
    using float_round_nonneg [OF q(1)] binary64.le_fixed [OF q(2) binary64.one] by simp_all
  then have "\<bar>float_round (of_int a / of_int b)\<bar> < float_limit"
    by (simp add: float_limit_def abs_if)
  then show "fl (of_int a / of_int b) = Fin (float_round (of_int a / of_int b))"
    by (simp add: fl_def Let_def)
qed

lemma scores_exist:
  assumes "scores_behave sk" "set y = {0, 1}" "length ps = length y" "set cs \<subseteq> {0, 1}" "length cs = length y"
  obtains ll bs auc ap acc pr rc f1 tn fp fn tp where
    "sk_log_loss sk y ps = Some (Fin ll)" "0 \<le> ll" "sk_brier_score sk y ps = Some (Fin bs)" "0 \<le> bs" "bs \<le> 1"
    "sk_roc_auc sk y ps = Some (Fin auc)" "0 \<le> auc" "auc \<le> 1"
    "sk_average_precision sk y ps = Some (Fin ap)" "0 \<le> ap" "ap \<le> 1"
    "sk_accuracy sk y cs = Some (Fin acc)" "0 \<le> acc" "acc \<le> 1"
    "sk_precision sk y cs = Some (Fin pr)" "0 \<le> pr" "pr \<le> 1" "sk_recall sk y cs = Some (Fin rc)" "0 \<le> rc" "rc \<le> 1"
    "sk_f1 sk y cs = Some (Fin f1)" "0 \<le> f1" "f1 \<le> 1"
    "sk_confusion sk y cs = Some (tn, fp, fn, tp)" "0 \<le> tn" "0 \<le> fp" "0 \<le> fn" "0 \<le> tp"
    "tn + fp = int (length y) - sum_list y" "fn + tp = sum_list y"
proof -
  have probability_scores: "\<exists>r. sk_log_loss sk y ps = Some (Fin r) \<and> 0 \<le> r" "unit_metric (sk_brier_score sk y ps)"
    "unit_metric (sk_roc_auc sk y ps)" "unit_metric (sk_average_precision sk y ps)"
    using assms(1-3) unfolding scores_behave_def by blast+
  have class_scores: "unit_metric (sk_accuracy sk y cs)" "unit_metric (sk_precision sk y cs)"
    "unit_metric (sk_recall sk y cs)" "unit_metric (sk_f1 sk y cs)"
    "\<exists>tn fp fn tp. sk_confusion sk y cs = Some (tn, fp, fn, tp) \<and> 0 \<le> tn \<and> 0 \<le> fp \<and> 0 \<le> fn \<and> 0 \<le> tp \<and>
        tn + fp = int (length y) - sum_list y \<and> fn + tp = sum_list y"
    using assms(1,2,4,5) unfolding scores_behave_def by blast+
  show thesis
    using probability_scores class_scores unfolding unit_metric_def by (elim exE conjE) (rule that)
qed

lemma metrics_exist:
  assumes sk: "scores_behave sk" and p: "partition_ok n p" "n \<in> set PARTITION_NAMES" "two_classes p"
    and ps: "length ps = length (dp_labels p)" "\<forall>x \<in> set ps. 0 \<le> x \<and> x \<le> 1"
    and name: "name \<in> set MODEL_NAMES" and config: "mk_training_config config = Inr config"
  obtains m where "calculate_classification_metrics sk (predictions_of p ps name config (PyAware now)) (PyAware now) = Inr m"
    "metrics_ok name p config (PyAware now) m"
proof -
  let ?y = "map lb_target (dp_labels p)"
  obtain t where t: "mc_diagnostic_classification_threshold config = Fin t" "0 < t" "t < 1"
    using mk_training_configD(3) [OF config] by blast
  let ?c = "map (expected_class t) ps"
  let ?set = "predictions_of p ps name config (PyAware now)"
  have pn: "pm_name (dp_metadata p) = n" and ne: "dp_labels p \<noteq> []" using p(1) by (simp_all add: partition_ok_def)
  have y: "set ?y = {0, 1}" using p(3) by (simp add: two_classes_def)
  have c: "set ?c \<subseteq> {0, 1}" by (auto simp: expected_class_def)
  have lens: "length ps = length ?y" "length ?c = length ?y" using ps(1) by simp_all
  obtain ll bs auc ap acc pr rc f1 tn fp fn tp where scores:
    "sk_log_loss sk ?y ps = Some (Fin ll)" "0 \<le> ll" "sk_brier_score sk ?y ps = Some (Fin bs)" "0 \<le> bs" "bs \<le> 1"
    "sk_roc_auc sk ?y ps = Some (Fin auc)" "0 \<le> auc" "auc \<le> 1"
    "sk_average_precision sk ?y ps = Some (Fin ap)" "0 \<le> ap" "ap \<le> 1"
    "sk_accuracy sk ?y ?c = Some (Fin acc)" "0 \<le> acc" "acc \<le> 1"
    "sk_precision sk ?y ?c = Some (Fin pr)" "0 \<le> pr" "pr \<le> 1" "sk_recall sk ?y ?c = Some (Fin rc)" "0 \<le> rc" "rc \<le> 1"
    "sk_f1 sk ?y ?c = Some (Fin f1)" "0 \<le> f1" "f1 \<le> 1"
    "sk_confusion sk ?y ?c = Some (tn, fp, fn, tp)" "0 \<le> tn" "0 \<le> fp" "0 \<le> fn" "0 \<le> tp"
    "tn + fp = int (length ?y) - sum_list ?y" "fn + tp = sum_list ?y"
    by (rule scores_exist [OF sk y lens(1) c lens(2)])
  note sums = binary_sum [OF y]
  note rate = rate_rounds [OF sums]
  define m where "m = \<lparr>cm_model_name = name, cm_partition_name = n, cm_diagnostic_classification_threshold = Fin t,
     cm_row_count = int (length ?y), cm_positive_count = sum_list ?y, cm_negative_count = int (length ?y) - sum_list ?y,
     cm_positive_rate = Fin (float_round (of_int (sum_list ?y) / of_int (int (length ?y)))), cm_log_loss = Fin ll,
     cm_brier_score = Fin bs, cm_roc_auc = Fin auc, cm_average_precision = Fin ap, cm_accuracy_at_0_5 = Fin acc,
     cm_precision_at_0_5 = Fin pr, cm_recall_at_0_5 = Fin rc, cm_f1_at_0_5 = Fin f1, cm_true_negative_count = tn,
     cm_false_positive_count = fp, cm_false_negative_count = fn, cm_true_positive_count = tp,
     cm_created_at = PyAware now\<rparr>"
  have accepted: "mk_classification_metrics m = Inr m"
    using name p(2) t scores sums rate(2,3) ne
    unfolding mk_classification_metrics_def Let_def
    by (simp add: m_def count_fields_def float_fields_def validate_int_def validate_finite_float_def
        rbind_eq_Inr_iff is_close_def)
  note columns = prediction_rows_columns [of "map lb_session (dp_labels p)" ps ?y t]
  have targets: "map (the \<circ> pn_target) (prediction_rows t (map lb_session (dp_labels p)) ps ?y) = ?y"
    "map (the_float \<circ> pn_probability_positive) (prediction_rows t (map lb_session (dp_labels p)) ps ?y) = ps"
    "map (the \<circ> pn_predicted_class) (prediction_rows t (map lb_session (dp_labels p)) ps ?y) = ?c"
    using arg_cong [OF columns(3), of "map the"] arg_cong [OF columns(2), of "map the_float"]
      arg_cong [OF columns(4), of "map the"] lens by (simp_all add: comp_def)
  have rows: "pf_rows (ps_data ?set) = prediction_rows t (map lb_session (dp_labels p)) ps ?y"
    "ps_model_name ?set = name" "ps_partition_name ?set = n" "ps_diagnostic_classification_threshold ?set = Fin t"
    by (simp_all add: predictions_of_def t(1) pn)
  note ok = predictions_accepted [OF p(1,2) ps name config, of now]
  have "calculate_classification_metrics sk ?set (PyAware now) = mk_classification_metrics m"
    using y scores rate(1)
    unfolding calculate_classification_metrics_def Let_def ok reconstruct_def sum.case rbind_Inr rows targets
    by (simp add: metric_def m_def aware_utc_PyAware)
  moreover have "metrics_ok name p config (PyAware now) m"
    using accepted by (simp add: metrics_ok_def m_def pn t(1))
  ultimately show thesis using that accepted by simp
qed

section \<open>Candidates\<close>

text \<open>What a trained candidate holds: predictions and metrics of both partitions, all accepted again.\<close>

definition predictions_for :: "string \<Rightarrow> dataset_partition \<Rightarrow> training_config \<Rightarrow> pyval \<Rightarrow> prediction_set \<Rightarrow> bool" where
  "predictions_for name p config now s \<longleftrightarrow>
     (\<exists>ps. s = predictions_of p ps name config now \<and> length ps = length (dp_labels p)) \<and> mk_prediction_set s = Inr s"

definition candidate_ok ::
  "'est sklearn \<Rightarrow> chronological_partitions \<Rightarrow> training_config \<Rightarrow> pyval \<Rightarrow> string \<Rightarrow> 'est candidate_result \<Rightarrow> bool" where
  "candidate_ok sk p config now name c \<longleftrightarrow>
     mk_candidate_result sk c = Inr c \<and> cr_model_name c = name \<and> cr_created_at c = now \<and>
     cr_lineage c = partition_lineage (dp_metadata (cp_train p)) (mc_random_seed config) (sk_version sk) \<and>
     fixed_model_parameters name (mc_random_seed config) = Inr (cr_fixed_parameters c) \<and>
     predictions_for name (cp_train p) config now (cr_train_predictions c) \<and>
     predictions_for name (cp_validation p) config now (cr_validation_predictions c) \<and>
     metrics_ok name (cp_train p) config now (cr_train_metrics c) \<and>
     metrics_ok name (cp_validation p) config now (cr_validation_metrics c)"

lemma predictions_forD:
  assumes "predictions_for name p config now s" "dp_labels p \<noteq> []"
  shows "ps_model_name s = name" "ps_partition_name s = pm_name (dp_metadata p)"
    "ps_diagnostic_classification_threshold s = mc_diagnostic_classification_threshold config"
    "ps_row_count s = int (length (dp_labels p))" "ps_first_session s = lb_session (hd (dp_labels p))"
    "ps_last_session s = lb_session (last (dp_labels p))" "ps_created_at s = now" "mk_prediction_set s = Inr s"
    "prediction_target_counts s = (int (length (dp_labels p)), sum_list (map lb_target (dp_labels p)),
       int (length (dp_labels p)) - sum_list (map lb_target (dp_labels p)))"
proof -
  from assms(1) obtain ps where s: "s = predictions_of p ps name config now" "length ps = length (dp_labels p)"
    and ok: "mk_prediction_set s = Inr s" by (auto simp: predictions_for_def)
  show "mk_prediction_set s = Inr s" by (rule ok)
  let ?t = "the_float (mc_diagnostic_classification_threshold config)"
  note columns = prediction_rows_columns [of "map lb_session (dp_labels p)" ps "map lb_target (dp_labels p)" ?t]
  have "map (the \<circ> pn_target) (prediction_rows ?t (map lb_session (dp_labels p)) ps (map lb_target (dp_labels p))) =
      map lb_target (dp_labels p)"
    using arg_cong [OF columns(3), of "map the"] s(2) by (simp add: comp_def)
  then show "prediction_target_counts s = (int (length (dp_labels p)), sum_list (map lb_target (dp_labels p)),
       int (length (dp_labels p)) - sum_list (map lb_target (dp_labels p)))"
    by (simp add: prediction_target_counts_def Let_def s(1) predictions_of_def comp_def)
qed (use assms in \<open>auto simp: predictions_for_def predictions_of_def\<close>)

lemma predictions_stage:
  assumes "estimator_behaves sk name seed e" "scores_behave sk" "partition_ok n p" "n \<in> set PARTITION_NAMES" "two_classes p"
    and "name \<in> set MODEL_NAMES" "mk_training_config config = Inr config"
  obtains ps s m where "positive_class_probabilities sk e (vp_X (view_of p)) = Inr ps"
    "build_prediction_set_from_probabilities (view_of p) ps name config (PyAware now) = Inr s"
    "calculate_classification_metrics sk s (PyAware now) = Inr m"
    "predictions_for name p config (PyAware now) s" "metrics_ok name p config (PyAware now) m"
proof -
  have len: "length (dp_features p) = length (dp_labels p)"
    using assms(3) unfolding partition_ok_def by (metis length_map)
  obtain ps where ps: "positive_class_probabilities sk e (vp_X (view_of p)) = Inr ps" "length ps = length (dp_labels p)"
    "\<forall>x \<in> set ps. 0 \<le> x \<and> x \<le> 1"
    using probabilities_exist [OF assms(1), of "vp_X (view_of p)"] len by auto
  obtain m where m: "calculate_classification_metrics sk (predictions_of p ps name config (PyAware now)) (PyAware now) = Inr m"
    "metrics_ok name p config (PyAware now) m"
    by (rule metrics_exist [OF assms(2-5) ps(2,3) assms(6,7)])
  have "predictions_for name p config (PyAware now) (predictions_of p ps name config (PyAware now))"
    using ps(2) predictions_accepted [OF assms(3,4) ps(2,3) assms(6,7)] by (auto simp: predictions_for_def)
  with that ps(1) predictions_built [OF assms(3,4) ps(2,3) assms(6,7)] m show thesis by blast
qed

end
