(* ===== verification/Model_Liveness.thy ===== *)
theory Model_Liveness
  imports Model_Complete
begin

text \<open>The stages of the pipeline one after the other: both candidates are trained, one is locked, refitted and evaluated.\<close>

section \<open>Sessions of a split\<close>

text \<open>What the checks of the stages compare.\<close>

lemma label_times: "timeline ls \<Longrightarrow> l \<in> set ls \<Longrightarrow> lb_session l < lb_exit_session l"
  by (auto simp: timeline_def)

lemma first_le_last: "timeline ls \<Longrightarrow> ls \<noteq> [] \<Longrightarrow> lb_session (hd ls) \<le> lb_session (last ls)"
  using increasing_hd_last [OF timelineD(1), of ls] by (simp add: hd_map last_map)

definition split_bounds :: "split_spec \<Rightarrow> chronological_partitions \<Rightarrow> bool" where
  "split_bounds spec p \<longleftrightarrow>
     (let first = (\<lambda>q. lb_session (hd (dp_labels q))); final = (\<lambda>q. lb_session (last (dp_labels q)));
          train = cp_train p; validation = cp_validation p; test = cp_test p in
      ss_train_start spec \<le> first train \<and> first train \<le> final train \<and> final train \<le> ss_train_end spec \<and>
      ss_validation_start spec \<le> first validation \<and> first validation \<le> final validation \<and>
      final validation \<le> ss_validation_end spec \<and>
      ss_test_start spec \<le> first test \<and> first test \<le> final test \<and> final test \<le> ss_test_end spec \<and>
      final train < first validation \<and> final validation < first test)"

lemma split_ok_bounds:
  assumes "split_ok spec p"
  shows "split_bounds spec p"
proof -
  have parts: "dp_labels q \<noteq> []" "timeline (dp_labels q)" if "q \<in> {cp_train p, cp_validation p, cp_test p}" for q
    using assms that by (auto simp: split_ok_def partition_ok_def)
  have order: "lb_session (last (dp_labels q)) < lb_session (hd (dp_labels r))"
    if "held_out q r" "q \<in> {cp_train p, cp_validation p, cp_test p}" "r \<in> {cp_train p, cp_validation p, cp_test p}" for q r
  proof -
    have "last (dp_labels q) \<in> set (dp_labels q)" "hd (dp_labels r) \<in> set (dp_labels r)"
      using parts(1) that(2,3) by simp_all
    then show ?thesis
      using that(1) label_times [OF parts(2) [OF that(2)]] by (fastforce simp: held_out_def)
  qed
  have inside: "hd (dp_labels q) \<in> set (dp_labels q)" "last (dp_labels q) \<in> set (dp_labels q)"
    if "q \<in> {cp_train p, cp_validation p, cp_test p}" for q
    using parts(1) [OF that] by simp_all
  show ?thesis
    unfolding split_bounds_def Let_def
    using assms order inside first_le_last [OF parts(2,1)] by (simp add: split_ok_def)
qed

section \<open>Training\<close>

lemma partition_lineage_ok:
  "is_checksum (pm_source_market_data_checksum m) \<Longrightarrow>
     check_checksum_and_schemas err (partition_lineage m seed v) = Inr ()"
  by (simp add: check_checksum_and_schemas_def partition_lineage_def rbind_eq_Inr_iff)

lemma candidate_accepted:
  assumes ok: "split_ok spec p" and config: "mk_training_config config = Inr config"
    and name: "name \<in> set MODEL_NAMES" and version: "strip (sk_version sk) \<noteq> []"
    and c: "cr_model_name c = name" "cr_created_at c = PyAware now"
      "cr_lineage c = partition_lineage (dp_metadata (cp_train p)) (mc_random_seed config) (sk_version sk)"
      "fixed_model_parameters name (mc_random_seed config) = Inr (cr_fixed_parameters c)"
      "predictions_for name (cp_train p) config (PyAware now) (cr_train_predictions c)"
      "predictions_for name (cp_validation p) config (PyAware now) (cr_validation_predictions c)"
      "metrics_ok name (cp_train p) config (PyAware now) (cr_train_metrics c)"
      "metrics_ok name (cp_validation p) config (PyAware now) (cr_validation_metrics c)"
    and defect: "sk_defect sk (cr_estimator c) name (mc_random_seed config) = None"
  shows "candidate_ok sk p config (PyAware now) name c"
proof -
  have seed: "0 \<le> mc_random_seed config" using mk_training_configD(2) [OF config] .
  have p: "partition_ok ''train'' (cp_train p)" "partition_ok ''validation'' (cp_validation p)"
    "pm_split_spec (dp_metadata (cp_train p)) = spec"
    using ok by (simp_all add: split_ok_def)
  have ne: "dp_labels (cp_train p) \<noteq> []" "dp_labels (cp_validation p) \<noteq> []"
    "is_checksum (pm_source_market_data_checksum (dp_metadata (cp_train p)))"
    "pm_name (dp_metadata (cp_train p)) = ''train''" "pm_name (dp_metadata (cp_validation p)) = ''validation''"
    using p(1,2) by (simp_all add: partition_ok_def)
  obtain q where q: "fixed_model_parameters name (mc_random_seed config) = Inr q" "mk_parameter_set q = Inr q"
    by (rule fixed_parameters_ok [OF name seed])
  have parameters: "mk_parameter_set (cr_fixed_parameters c) = Inr (cr_fixed_parameters c)" using c(4) q by simp
  note tp = predictions_forD [OF c(5) ne(1)] and vp = predictions_forD [OF c(6) ne(2)]
  have bounds: "split_bounds spec p" by (rule split_ok_bounds [OF ok])
  have "mk_candidate_result sk c = Inr c"
    using bounds name seed version
    unfolding mk_candidate_result_def Let_def c(1-4) split_bounds_def
    by (simp add: rbind_eq_Inr_iff reconstruct_def parameters tp vp c(2) ne(4,5) p(3)
        c(7,8) [unfolded metrics_ok_def] metric_counts_def validate_fitted_estimator_spec_def defect
        partition_lineage_ok [OF ne(3)])
       (simp add: partition_lineage_def p(3) c(4) defect)
  then show ?thesis using c by (simp add: candidate_ok_def)
qed

lemma candidate_trained:
  assumes sk: "sklearn_behaves sk" and ok: "split_ok spec p" and classes: "two_classes (cp_train p)" "two_classes (cp_validation p)"
    and config: "mk_training_config config = Inr config" and name: "name \<in> set MODEL_NAMES"
  obtains c where "train_candidate sk name (view_of (cp_train p)) (view_of (cp_validation p)) config (PyAware now) = Inr c"
    "candidate_ok sk p config (PyAware now) name c"
proof -
  have seed: "0 \<le> mc_random_seed config" using mk_training_configD(2) [OF config] .
  have p: "partition_ok ''train'' (cp_train p)" "partition_ok ''validation'' (cp_validation p)"
    using ok by (simp_all add: split_ok_def)
  have names: "''train'' \<in> set PARTITION_NAMES" "''validation'' \<in> set PARTITION_NAMES"
    by (simp_all add: PARTITION_NAMES_def)
  have scores: "scores_behave sk" "strip (sk_version sk) \<noteq> []" using sk by (simp_all add: sklearn_behaves_def)
  have len: "length (dp_features (cp_train p)) = length (dp_labels (cp_train p))"
    using p(1) unfolding partition_ok_def by (metis length_map)
  obtain e where e: "sk_fit sk name (mc_random_seed config) (vp_X (view_of (cp_train p))) (vp_y (view_of (cp_train p))) = Fitted e"
    "estimator_behaves sk name (mc_random_seed config) e"
    using sk name seed len classes(1) unfolding sklearn_behaves_def two_classes_def
    by (metis length_map view_simps(2,3))
  have fitted: "fit_estimator sk name (mc_random_seed config) (vp_X (view_of (cp_train p))) (vp_y (view_of (cp_train p))) = Inr e"
    using name seed e(1) by (simp add: fit_estimator_Inr)
  obtain ps s m where train: "positive_class_probabilities sk e (vp_X (view_of (cp_train p))) = Inr ps"
    "build_prediction_set_from_probabilities (view_of (cp_train p)) ps name config (PyAware now) = Inr s"
    "calculate_classification_metrics sk s (PyAware now) = Inr m"
    "predictions_for name (cp_train p) config (PyAware now) s" "metrics_ok name (cp_train p) config (PyAware now) m"
    by (rule predictions_stage [OF e(2) scores(1) p(1) names(1) classes(1) name config])
  obtain ps' s' m' where validation: "positive_class_probabilities sk e (vp_X (view_of (cp_validation p))) = Inr ps'"
    "build_prediction_set_from_probabilities (view_of (cp_validation p)) ps' name config (PyAware now) = Inr s'"
    "calculate_classification_metrics sk s' (PyAware now) = Inr m'"
    "predictions_for name (cp_validation p) config (PyAware now) s'" "metrics_ok name (cp_validation p) config (PyAware now) m'"
    by (rule predictions_stage [OF e(2) scores(1) p(2) names(2) classes(2) name config])
  obtain q where q: "fixed_model_parameters name (mc_random_seed config) = Inr q"
    by (rule fixed_parameters_ok [OF name seed])
  define c where "c = \<lparr>cr_model_name = name, cr_estimator = e, cr_fixed_parameters = q,
        cr_train_predictions = s, cr_validation_predictions = s', cr_train_metrics = m,
        cr_validation_metrics = m',
        cr_lineage = partition_lineage (dp_metadata (cp_train p)) (mc_random_seed config) (sk_version sk),
        cr_created_at = PyAware now\<rparr>"
  have c_ok: "candidate_ok sk p config (PyAware now) name c"
    by (rule candidate_accepted [OF ok config name scores(2)])
       (use q train(4,5) validation(4,5) e(2) in \<open>simp_all add: c_def estimator_behaves_def\<close>)
  have "train_candidate sk name (view_of (cp_train p)) (view_of (cp_validation p)) config (PyAware now) = Inr c"
    unfolding train_candidate_def fitted rbind_Inr train(1-3) validation(1-3) q
    using c_ok by (simp add: candidate_ok_def c_def)
  with that c_ok show thesis by blast
qed

section \<open>Locking\<close>

lemma mk_classification_metricsD:
  assumes "mk_classification_metrics m = Inr m'"
  shows "0 < cm_positive_count m" "0 < cm_negative_count m" "cm_positive_count m + cm_negative_count m = cm_row_count m"
    "\<exists>ll bs auc. cm_log_loss m = Fin ll \<and> 0 \<le> ll \<and> cm_brier_score m = Fin bs \<and> 0 \<le> bs \<and> bs \<le> 1 \<and>
       cm_roc_auc m = Fin auc \<and> 0 \<le> auc \<and> auc \<le> 1"
  using assms
  by (auto simp: mk_classification_metrics_def Let_def rbind_eq_Inr_iff float_fields_def)

lemma snapshot_ok:
  assumes "metrics_ok name p config now m" "name \<in> set MODEL_NAMES"
  obtains s where "snapshot_from_metrics m = Inr s" "mk_metric_snapshot s = Inr s" "ms_model_name s = name"
    "ms_row_count s = cm_row_count m" "ms_positive_count s = cm_positive_count m" "ms_negative_count s = cm_negative_count m"
proof -
  have m: "mk_classification_metrics m = Inr m" "cm_model_name m = name" using assms(1) by (simp_all add: metrics_ok_def)
  define s where "s = \<lparr>ms_model_name = cm_model_name m, ms_row_count = cm_row_count m,
        ms_positive_count = cm_positive_count m, ms_negative_count = cm_negative_count m,
        ms_log_loss = cm_log_loss m, ms_brier_score = cm_brier_score m, ms_roc_auc = cm_roc_auc m\<rparr>"
  note facts = mk_classification_metricsD [OF m(1)]
  obtain ll bs auc where scores: "cm_log_loss m = Fin ll" "0 \<le> ll" "cm_brier_score m = Fin bs" "0 \<le> bs" "bs \<le> 1"
    "cm_roc_auc m = Fin auc" "0 \<le> auc" "auc \<le> 1"
    using facts(4) by blast
  have "mk_metric_snapshot s = Inr s"
    using facts(1-3) scores assms(2) m(2)
    by (simp add: mk_metric_snapshot_def Let_def s_def validate_finite_float_def validate_model_name_def validate_int_def)
  moreover have "snapshot_from_metrics m = mk_metric_snapshot s" by (simp add: snapshot_from_metrics_def s_def)
  ultimately show thesis using that by (simp add: s_def m(2))
qed

lemma chosen_reason:
  assumes "choose_model_by_metric_snapshots l g = Inr s"
  shows "sn_selection_reason s \<noteq> []" "sn_selected_model_name s \<in> set MODEL_NAMES"
proof -
  have "sn_selection_reason s \<noteq> [] \<and> sn_selected_model_name s \<in> set MODEL_NAMES"
    if "decide name reason a b c = Inr s" for name reason a b c
    using that by (auto simp: decide_def mk_selection_decision_def rbind_eq_Inr_iff)
  with assms show "sn_selection_reason s \<noteq> []" "sn_selected_model_name s \<in> set MODEL_NAMES"
    unfolding choose_model_by_metric_snapshots_def Let_def rbind_reject_eq_Inr by (auto split: if_splits)
qed

text \<open>A locked selection of the two candidates, as the later stages rely on it.\<close>

definition lock_ok ::
  "'est sklearn \<Rightarrow> chronological_partitions \<Rightarrow> training_config \<Rightarrow> pyval \<Rightarrow> 'est candidate_result \<Rightarrow> 'est candidate_result \<Rightarrow>
     locked_selection \<Rightarrow> bool" where
  "lock_ok sk p config now logistic gradient l \<longleftrightarrow>
     mk_locked_selection (sk_version sk) l = Inr l \<and> lk_selected_model_name l \<in> set MODEL_NAMES \<and>
     snapshot_from_metrics (cr_validation_metrics logistic) = Inr (lk_validation_metric_snapshots l ! 0) \<and>
     snapshot_from_metrics (cr_validation_metrics gradient) = Inr (lk_validation_metric_snapshots l ! 1) \<and>
     length (lk_validation_metric_snapshots l) = 2 \<and>
     lk_candidate_parameters l = [cr_fixed_parameters logistic, cr_fixed_parameters gradient] \<and>
     lk_lineage l = partition_lineage (dp_metadata (cp_train p)) (mc_random_seed config) (sk_version sk) \<and>
     lk_train_row_count l = int (length (dp_labels (cp_train p))) \<and>
     lk_validation_row_count l = int (length (dp_labels (cp_validation p))) \<and>
     lk_train_first_session l = lb_session (hd (dp_labels (cp_train p))) \<and>
     lk_train_last_session l = lb_session (last (dp_labels (cp_train p))) \<and>
     lk_validation_first_session l = lb_session (hd (dp_labels (cp_validation p))) \<and>
     lk_validation_last_session l = lb_session (last (dp_labels (cp_validation p))) \<and>
     lk_diagnostic_classification_threshold l = mc_diagnostic_classification_threshold config \<and> lk_created_at l = now"

lemma candidate_config_ok:
  assumes "candidate_ok sk p config now name c" "dp_labels (cp_train p) \<noteq> []" "dp_labels (cp_validation p) \<noteq> []"
  shows "check_candidate_config config c = Inr ()"
    "list_all (\<lambda>t. t = mc_diagnostic_classification_threshold config) (candidate_thresholds c)"
proof -
  have c: "predictions_for name (cp_train p) config now (cr_train_predictions c)"
    "predictions_for name (cp_validation p) config now (cr_validation_predictions c)"
    "metrics_ok name (cp_train p) config now (cr_train_metrics c)"
    "metrics_ok name (cp_validation p) config now (cr_validation_metrics c)" "cr_model_name c = name"
    "fixed_model_parameters name (mc_random_seed config) = Inr (cr_fixed_parameters c)"
    using assms(1) by (simp_all add: candidate_ok_def)
  note tp = predictions_forD(3) [OF c(1) assms(2)] and vp = predictions_forD(3) [OF c(2) assms(3)]
  show "list_all (\<lambda>t. t = mc_diagnostic_classification_threshold config) (candidate_thresholds c)"
    using c(3,4) by (simp add: candidate_thresholds_def tp vp metrics_ok_def)
  then have "\<not> list_ex (\<lambda>t. t \<noteq> mc_diagnostic_classification_threshold config) (candidate_thresholds c)"
    by (auto simp: list_all_iff list_ex_iff)
  then show "check_candidate_config config c = Inr ()"
    by (simp add: check_candidate_config_def c(5,6))
qed

lemma lock_accepted:
  assumes ok: "split_ok spec p" and config: "mk_training_config config = Inr config" and version: "strip (sk_version sk) \<noteq> []"
    and snaps: "mk_metric_snapshot sl = Inr sl" "mk_metric_snapshot sg = Inr sg"
      "ms_model_name sl = LOGISTIC_REGRESSION_MODEL" "ms_model_name sg = GRADIENT_BOOSTING_MODEL"
      "ms_row_count sl = lk_validation_row_count l" "ms_row_count sg = lk_validation_row_count l"
      "ms_positive_count sl = ms_positive_count sg" "ms_negative_count sl = ms_negative_count sg"
      "lk_validation_metric_snapshots l = [sl, sg]" "choose_model_by_metric_snapshots sl sg = Inr (locked_decision l)"
    and parameters: "fixed_model_parameters LOGISTIC_REGRESSION_MODEL (mc_random_seed config) = Inr ql"
      "fixed_model_parameters GRADIENT_BOOSTING_MODEL (mc_random_seed config) = Inr qg"
      "mk_parameter_set ql = Inr ql" "mk_parameter_set qg = Inr qg" "mp_model_name ql = LOGISTIC_REGRESSION_MODEL"
      "mp_model_name qg = GRADIENT_BOOSTING_MODEL" "lk_candidate_parameters l = [ql, qg]"
    and fields: "lk_selection_rule_version l = MODEL_SELECTION_RULE_VERSION"
      "lk_lineage l = partition_lineage (dp_metadata (cp_train p)) (mc_random_seed config) (sk_version sk)"
      "lk_train_row_count l = int (length (dp_labels (cp_train p)))"
      "lk_validation_row_count l = int (length (dp_labels (cp_validation p)))"
      "lk_train_first_session l = lb_session (hd (dp_labels (cp_train p)))"
      "lk_train_last_session l = lb_session (last (dp_labels (cp_train p)))"
      "lk_validation_first_session l = lb_session (hd (dp_labels (cp_validation p)))"
      "lk_validation_last_session l = lb_session (last (dp_labels (cp_validation p)))"
      "lk_diagnostic_classification_threshold l = mc_diagnostic_classification_threshold config" "lk_created_at l = PyAware now"
  shows "mk_locked_selection (sk_version sk) l = Inr l" "lk_selected_model_name l \<in> set MODEL_NAMES"
proof -
  have p: "dp_labels (cp_train p) \<noteq> []" "dp_labels (cp_validation p) \<noteq> []"
    "is_checksum (pm_source_market_data_checksum (dp_metadata (cp_train p)))" "pm_split_spec (dp_metadata (cp_train p)) = spec"
    using ok by (simp_all add: split_ok_def partition_ok_def)
  note bounds = split_ok_bounds [OF ok, unfolded split_bounds_def Let_def]
  have reason: "lk_selection_reason l \<noteq> []" and name: "lk_selected_model_name l \<in> set MODEL_NAMES"
    using chosen_reason [OF snaps(10)] by (simp_all add: locked_decision_def)
  show "lk_selected_model_name l \<in> set MODEL_NAMES" by (rule name)
  have seed: "0 \<le> mc_random_seed config" using mk_training_configD(2) [OF config] .
  obtain t where t: "mc_diagnostic_classification_threshold config = Fin t" "0 < t" "t < 1"
    using mk_training_configD(3) [OF config] by blast
  have rows: "0 < length (dp_labels (cp_train p))" "0 < length (dp_labels (cp_validation p))" using p(1,2) by simp_all
  have names: "map_results (\<lambda>name. fixed_model_parameters name (mc_random_seed config)) MODEL_NAMES = Inr [ql, qg]"
    by (simp add: MODEL_NAMES_def parameters(1,2))
  have lineage: "ml_split_spec (lk_lineage l) = spec" "ml_model_schema_version (lk_lineage l) = MODEL_SCHEMA_VERSION"
    "ml_random_seed (lk_lineage l) = mc_random_seed config" "ml_sklearn_version (lk_lineage l) = sk_version sk"
    "check_checksum_and_schemas err (lk_lineage l) = Inr ()" for err
    by (simp_all add: fields(2) partition_lineage_ok [OF p(3)]) (simp_all add: partition_lineage_def p(4))
  show "mk_locked_selection (sk_version sk) l = Inr l"
    using bounds reason name seed rows version
    unfolding mk_locked_selection_def Let_def lineage names rbind_Inr snaps(9) parameters(7)
    by (simp add: fields snaps(1-8) [unfolded fields(4)] snaps(10) parameters reconstruct_def
        MODEL_NAMES_def names t validate_int_def Suc_le_eq)
       (simp add: rbind_eq_Inr_iff MODEL_NAMES_def t)
qed

lemma locked:
  assumes sk: "strip (sk_version sk) \<noteq> []" and ok: "split_ok spec p" and config: "mk_training_config config = Inr config"
    and logistic: "candidate_ok sk p config (PyAware now) LOGISTIC_REGRESSION_MODEL logistic"
    and gradient: "candidate_ok sk p config (PyAware now) GRADIENT_BOOSTING_MODEL gradient"
  obtains l where "select_locked_model sk logistic gradient config (PyAware now) = Inr l"
    "lock_ok sk p config (PyAware now) logistic gradient l"
proof -
  have names: "LOGISTIC_REGRESSION_MODEL \<in> set MODEL_NAMES" "GRADIENT_BOOSTING_MODEL \<in> set MODEL_NAMES"
    by (simp_all add: MODEL_NAMES_def)
  have ne: "dp_labels (cp_train p) \<noteq> []" "dp_labels (cp_validation p) \<noteq> []" "pm_name (dp_metadata (cp_validation p)) = ''validation''"
    using ok by (simp_all add: split_ok_def partition_ok_def)
  have seed: "0 \<le> mc_random_seed config" using mk_training_configD(2) [OF config] .
  have ml: "metrics_ok LOGISTIC_REGRESSION_MODEL (cp_validation p) config (PyAware now) (cr_validation_metrics logistic)"
    and mg: "metrics_ok GRADIENT_BOOSTING_MODEL (cp_validation p) config (PyAware now) (cr_validation_metrics gradient)"
    using logistic gradient by (simp_all add: candidate_ok_def)
  obtain sl where sl: "snapshot_from_metrics (cr_validation_metrics logistic) = Inr sl" "mk_metric_snapshot sl = Inr sl"
    "ms_model_name sl = LOGISTIC_REGRESSION_MODEL" "ms_row_count sl = cm_row_count (cr_validation_metrics logistic)"
    "ms_positive_count sl = cm_positive_count (cr_validation_metrics logistic)"
    "ms_negative_count sl = cm_negative_count (cr_validation_metrics logistic)"
    by (rule snapshot_ok [OF ml names(1)])
  obtain sg where sg: "snapshot_from_metrics (cr_validation_metrics gradient) = Inr sg" "mk_metric_snapshot sg = Inr sg"
    "ms_model_name sg = GRADIENT_BOOSTING_MODEL" "ms_row_count sg = cm_row_count (cr_validation_metrics gradient)"
    "ms_positive_count sg = cm_positive_count (cr_validation_metrics gradient)"
    "ms_negative_count sg = cm_negative_count (cr_validation_metrics gradient)"
    by (rule snapshot_ok [OF mg names(2)])
  obtain decision where decision: "choose_model_by_metric_snapshots sl sg = Inr decision"
    using chosen [OF sl(2) sg(2) sl(3) sg(3)] by blast
  obtain ql where ql: "fixed_model_parameters LOGISTIC_REGRESSION_MODEL (mc_random_seed config) = Inr ql"
    "mk_parameter_set ql = Inr ql" "mp_model_name ql = LOGISTIC_REGRESSION_MODEL"
    by (rule fixed_parameters_ok [OF names(1) seed])
  obtain qg where qg: "fixed_model_parameters GRADIENT_BOOSTING_MODEL (mc_random_seed config) = Inr qg"
    "mk_parameter_set qg = Inr qg" "mp_model_name qg = GRADIENT_BOOSTING_MODEL"
    by (rule fixed_parameters_ok [OF names(2) seed])
  have c: "mk_candidate_result sk logistic = Inr logistic" "mk_candidate_result sk gradient = Inr gradient"
    "cr_model_name logistic = LOGISTIC_REGRESSION_MODEL" "cr_model_name gradient = GRADIENT_BOOSTING_MODEL"
    "cr_lineage logistic = partition_lineage (dp_metadata (cp_train p)) (mc_random_seed config) (sk_version sk)"
    "cr_lineage gradient = partition_lineage (dp_metadata (cp_train p)) (mc_random_seed config) (sk_version sk)"
    "cr_fixed_parameters logistic = ql" "cr_fixed_parameters gradient = qg"
    using logistic gradient ql(1) qg(1) by (simp_all add: candidate_ok_def)
  have tp: "predictions_for LOGISTIC_REGRESSION_MODEL (cp_train p) config (PyAware now) (cr_train_predictions logistic)"
    and vp: "predictions_for LOGISTIC_REGRESSION_MODEL (cp_validation p) config (PyAware now) (cr_validation_predictions logistic)"
    using logistic by (simp_all add: candidate_ok_def)
  note tp' = predictions_forD(4-6) [OF tp ne(1)] and vp' = predictions_forD(4-6) [OF vp ne(2)]
  define l where "l = \<lparr>lk_selected_model_name = sn_selected_model_name decision,
        lk_selection_rule_version = MODEL_SELECTION_RULE_VERSION,
        lk_selection_reason = sn_selection_reason decision,
        lk_roc_auc_tie_break_required = sn_roc_auc_tie_break_required decision,
        lk_log_loss_tie_break_required = sn_log_loss_tie_break_required decision,
        lk_brier_score_tie_break_required = sn_brier_score_tie_break_required decision,
        lk_validation_metric_snapshots = [sl, sg], lk_candidate_parameters = [ql, qg],
        lk_lineage = partition_lineage (dp_metadata (cp_train p)) (mc_random_seed config) (sk_version sk),
        lk_train_row_count = int (length (dp_labels (cp_train p))),
        lk_validation_row_count = int (length (dp_labels (cp_validation p))),
        lk_train_first_session = lb_session (hd (dp_labels (cp_train p))),
        lk_train_last_session = lb_session (last (dp_labels (cp_train p))),
        lk_validation_first_session = lb_session (hd (dp_labels (cp_validation p))),
        lk_validation_last_session = lb_session (last (dp_labels (cp_validation p))),
        lk_diagnostic_classification_threshold = mc_diagnostic_classification_threshold config,
        lk_created_at = PyAware now\<rparr>"
  have l_decision: "locked_decision l = decision" by (simp add: locked_decision_def l_def)
  have accepted: "mk_locked_selection (sk_version sk) l = Inr l" "lk_selected_model_name l \<in> set MODEL_NAMES"
    by (rule lock_accepted [OF ok config sk sl(2) sg(2) sl(3) sg(3), of l ql qg];
        use sl sg ql qg decision l_decision ml mg in \<open>simp add: l_def metrics_ok_def\<close>)+
  have metrics: "choose_model_by_validation_metrics (cr_validation_metrics logistic) (cr_validation_metrics gradient) = Inr decision"
    using ml mg sl(1) sg(1) decision ne(3)
    by (simp add: choose_model_by_validation_metrics_def metrics_ok_def reconstruct_def)
  have lineage: "(partition_lineage m seed v) \<lparr>ml_random_seed := seed, ml_model_schema_version := MODEL_SCHEMA_VERSION\<rparr> =
      partition_lineage m seed v" "ml_random_seed (partition_lineage m seed v) = seed" for m seed v
    by (simp_all add: partition_lineage_def)
  have "select_locked_model sk logistic gradient config (PyAware now) = mk_locked_selection (sk_version sk) l"
    using candidate_config_ok(1) [OF logistic ne(1,2)] candidate_config_ok(1) [OF gradient ne(1,2)]
    unfolding select_locked_model_def Let_def reconstruct_def c config sum.case rbind_Inr metrics sl(1) sg(1) ql(1) qg(1)
      lineage tp' vp' aware_utc_PyAware
    by (simp add: l_def)
  moreover have "lock_ok sk p config (PyAware now) logistic gradient l"
    using accepted sl(1) sg(1) c(7,8) by (simp add: lock_ok_def l_def)
  ultimately show thesis using that accepted(1) by simp
qed

end
