(* ===== verification/Model_Progress.thy ===== *)
theory Model_Progress
  imports Model_Liveness
begin

text \<open>The pipeline completes: comparison, refit and final evaluation after the training and the locking of the candidates.\<close>

section \<open>The comparison\<close>

lemma two_elements: "length xs = 2 \<Longrightarrow> xs = [xs ! 0, xs ! 1]"
  by (auto simp: numeral_2_eq_2 length_Suc_conv)

lemma comparison_accepted:
  assumes sk: "strip (sk_version sk) \<noteq> []" and ok: "split_ok spec p" and config: "mk_training_config config = Inr config"
    and logistic: "candidate_ok sk p config (PyAware now) LOGISTIC_REGRESSION_MODEL logistic"
    and gradient: "candidate_ok sk p config (PyAware now) GRADIENT_BOOSTING_MODEL gradient"
    and locked: "lock_ok sk p config (PyAware now) logistic gradient l"
  defines "c \<equiv> \<lparr>cc_logistic_regression = logistic, cc_gradient_boosting = gradient, cc_locked_selection = l,
        cc_config = config,
        cc_lineage = partition_lineage (dp_metadata (cp_train p)) (mc_random_seed config) (sk_version sk),
        cc_created_at = PyAware now\<rparr>"
  shows "mk_candidate_comparison sk c = Inr c"
proof -
  have ne: "dp_labels (cp_train p) \<noteq> []" "dp_labels (cp_validation p) \<noteq> []"
    "is_checksum (pm_source_market_data_checksum (dp_metadata (cp_train p)))"
    using ok by (simp_all add: split_ok_def partition_ok_def)
  have seed: "0 \<le> mc_random_seed config" using mk_training_configD(2) [OF config] .
  have fields: "mk_candidate_result sk x = Inr x" "cr_model_name x = name" "cr_created_at x = PyAware now"
    "cr_lineage x = partition_lineage (dp_metadata (cp_train p)) (mc_random_seed config) (sk_version sk)"
    and rows: "ps_row_count (cr_train_predictions x) = lk_train_row_count l"
      "ps_row_count (cr_validation_predictions x) = lk_validation_row_count l"
      "ps_first_session (cr_train_predictions x) = lk_train_first_session l"
      "ps_last_session (cr_train_predictions x) = lk_train_last_session l"
      "ps_first_session (cr_validation_predictions x) = lk_validation_first_session l"
      "ps_last_session (cr_validation_predictions x) = lk_validation_last_session l"
    if "candidate_ok sk p config (PyAware now) name x" for name x
  proof -
    have tp: "predictions_for name (cp_train p) config (PyAware now) (cr_train_predictions x)"
      and vp: "predictions_for name (cp_validation p) config (PyAware now) (cr_validation_predictions x)"
      using that by (simp_all add: candidate_ok_def)
    show "mk_candidate_result sk x = Inr x" "cr_model_name x = name" "cr_created_at x = PyAware now"
      "cr_lineage x = partition_lineage (dp_metadata (cp_train p)) (mc_random_seed config) (sk_version sk)"
      using that by (simp_all add: candidate_ok_def)
    show "ps_row_count (cr_train_predictions x) = lk_train_row_count l"
      "ps_row_count (cr_validation_predictions x) = lk_validation_row_count l"
      "ps_first_session (cr_train_predictions x) = lk_train_first_session l"
      "ps_last_session (cr_train_predictions x) = lk_train_last_session l"
      "ps_first_session (cr_validation_predictions x) = lk_validation_first_session l"
      "ps_last_session (cr_validation_predictions x) = lk_validation_last_session l"
      using predictions_forD(4-6) [OF tp ne(1)] predictions_forD(4-6) [OF vp ne(2)] locked by (simp_all add: lock_ok_def)
  qed
  have candidates: "check_comparison_candidate config l x = Inr ()" if "candidate_ok sk p config (PyAware now) name x" for name x
    using candidate_config_ok(2) [OF that ne(1,2)] rows [OF that]
    by (auto simp: check_comparison_candidate_def list_ex_iff list_all_iff)
  have lk: "mk_locked_selection (sk_version sk) l = Inr l" "lk_created_at l = PyAware now"
    "lk_lineage l = partition_lineage (dp_metadata (cp_train p)) (mc_random_seed config) (sk_version sk)"
    "lk_diagnostic_classification_threshold l = mc_diagnostic_classification_threshold config"
    "lk_candidate_parameters l = [cr_fixed_parameters logistic, cr_fixed_parameters gradient]"
    "snapshot_from_metrics (cr_validation_metrics logistic) = Inr (lk_validation_metric_snapshots l ! 0)"
    "snapshot_from_metrics (cr_validation_metrics gradient) = Inr (lk_validation_metric_snapshots l ! 1)"
    "lk_validation_metric_snapshots l = [lk_validation_metric_snapshots l ! 0, lk_validation_metric_snapshots l ! 1]"
    using locked two_elements [of "lk_validation_metric_snapshots l"] by (simp_all add: lock_ok_def)
  have lineage: "check_comparison_lineage x x x x = Inr ()" for x
    by (simp add: check_comparison_lineage_def check_comparison_field_def)
  have parts: "ml_model_schema_version (partition_lineage m s v) = MODEL_SCHEMA_VERSION" "ml_random_seed (partition_lineage m s v) = s"
    "ml_feature_columns (partition_lineage m s v) = FEATURE_COLUMNS" "ml_sklearn_version (partition_lineage m s v) = v"
    "ml_source_market_data_checksum (partition_lineage m s v) = pm_source_market_data_checksum m" for m s v
    by (simp_all add: partition_lineage_def)
  show ?thesis
    using fields [OF logistic] fields [OF gradient] candidates [OF logistic] candidates [OF gradient] seed sk lk(8) [symmetric]
    unfolding mk_candidate_comparison_def Let_def c_def candidate_comparison.simps
    by (simp add: reconstruct_def lk(1-5) config parts ne(3) aware_utc_PyAware partition_lineage_ok [OF ne(3)] lineage lk(6,7))
       (simp add: rbind_eq_Inr_iff)
qed

section \<open>The refit\<close>

lemma final_model_accepted:
  assumes sk: "strip (sk_version sk) \<noteq> []" and ok: "split_ok spec p" and config: "mk_training_config config = Inr config"
    and locked: "lock_ok sk p config now logistic gradient l"
    and parameters: "fixed_model_parameters (lk_selected_model_name l) (mc_random_seed config) = Inr q"
    and estimator: "sk_defect sk e (lk_selected_model_name l) (mc_random_seed config) = None"
    and m: "fm_selected_model_name m = lk_selected_model_name l" "fm_estimator m = e" "fm_locked_selection m = l"
      "fm_fixed_parameters m = q" "fm_lineage m = lk_lineage l"
      "fm_train_row_count m = lk_train_row_count l" "fm_validation_row_count m = lk_validation_row_count l"
      "fm_combined_row_count m = lk_train_row_count l + lk_validation_row_count l"
      "fm_train_first_session m = lk_train_first_session l" "fm_train_last_session m = lk_train_last_session l"
      "fm_validation_first_session m = lk_validation_first_session l"
      "fm_validation_last_session m = lk_validation_last_session l"
      "fm_combined_first_session m = lk_train_first_session l" "fm_combined_last_session m = lk_validation_last_session l"
      "fm_diagnostic_classification_threshold m = lk_diagnostic_classification_threshold l" "fm_created_at m = PyAware t"
  shows "mk_final_model sk m = Inr m"
proof -
  have ne: "dp_labels (cp_train p) \<noteq> []" "dp_labels (cp_validation p) \<noteq> []"
    "is_checksum (pm_source_market_data_checksum (dp_metadata (cp_train p)))"
    using ok by (simp_all add: split_ok_def partition_ok_def)
  have seed: "0 \<le> mc_random_seed config" using mk_training_configD(2) [OF config] .
  have lk: "mk_locked_selection (sk_version sk) l = Inr l" "lk_selected_model_name l \<in> set MODEL_NAMES"
    "lk_lineage l = partition_lineage (dp_metadata (cp_train p)) (mc_random_seed config) (sk_version sk)"
    "lk_diagnostic_classification_threshold l = mc_diagnostic_classification_threshold config"
    "lk_train_row_count l = int (length (dp_labels (cp_train p)))"
    "lk_validation_row_count l = int (length (dp_labels (cp_validation p)))"
    using locked by (simp_all add: lock_ok_def)
  have rows: "0 < length (dp_labels (cp_train p))" "0 < length (dp_labels (cp_validation p))" using ne by simp_all
  obtain t where t: "mc_diagnostic_classification_threshold config = Fin t" "0 < t" "t < 1"
    using mk_training_configD(3) [OF config] by blast
  have q: "mk_parameter_set q = Inr q" "mp_model_name q = lk_selected_model_name l"
    using parameters fixed_parameters_ok [OF lk(2) seed] by (metis sum.inject(2))+
  have order: "\<not> lk_validation_first_session l \<le> lk_train_last_session l"
    using mk_locked_selectionD(2) [OF lk(1)] by (simp add: lock_holds_def Let_def)
  have lineage: "ml_model_schema_version (lk_lineage l) = MODEL_SCHEMA_VERSION" "ml_random_seed (lk_lineage l) = mc_random_seed config"
    "ml_sklearn_version (lk_lineage l) = sk_version sk" "check_checksum_and_schemas err (lk_lineage l) = Inr ()" for err
    by (simp_all add: lk(3) partition_lineage_ok [OF ne(3)]) (simp_all add: partition_lineage_def)
  have name: "validate_model_name err (lk_selected_model_name l) = Inr (lk_selected_model_name l)" for err
    using lk(2) by simp
  have threshold: "validate_threshold err code (mc_diagnostic_classification_threshold config) = Inr t" for err code
    using t by simp
  have version: "validate_runtime_sklearn_version (sk_version sk) err (sk_version sk) = Inr (sk_version sk)" for err
    using sk by simp
  have seed': "validate_int err code 0 (mc_random_seed config) = Inr (mc_random_seed config)" for err code
    using seed by simp
  have total: "\<not> int (length (dp_labels (cp_train p))) + int (length (dp_labels (cp_validation p))) < 1"
    using rows by linarith
  show ?thesis
    using order rows total
    unfolding mk_final_model_def Let_def m name rbind_Inr reconstruct_def lk(1) q(1) sum.case q(2) lineage
      parameters version seed'
    by (simp add: lk(4-6) threshold validate_int_def validate_fitted_estimator_spec_def estimator aware_utc_PyAware Suc_le_eq)
qed

lemma refitted:
  assumes sk: "sklearn_behaves sk" and ok: "split_ok spec p" and classes: "two_classes (cp_train p)" "two_classes (cp_validation p)"
    and config: "mk_training_config config = Inr config" and locked: "lock_ok sk p config now logistic gradient l"
    and candidates: "fixed_model_parameters LOGISTIC_REGRESSION_MODEL (mc_random_seed config) = Inr (cr_fixed_parameters logistic)"
      "fixed_model_parameters GRADIENT_BOOSTING_MODEL (mc_random_seed config) = Inr (cr_fixed_parameters gradient)"
  obtains m e where "fit_locked_model_on_train_validation sk (cp_train p) (cp_validation p) l (PyAware t) = Inr m"
    "mk_final_model sk m = Inr m" "fm_estimator m = e" "fm_lineage m = lk_lineage l" "fm_locked_selection m = l"
    "estimator_behaves sk (lk_selected_model_name l) (mc_random_seed config) e"
    "fm_selected_model_name m = lk_selected_model_name l" "fm_validation_last_session m = lk_validation_last_session l"
    "fm_diagnostic_classification_threshold m = mc_diagnostic_classification_threshold config"
proof -
  let ?name = "lk_selected_model_name l" and ?train = "cp_train p" and ?validation = "cp_validation p"
  have version: "strip (sk_version sk) \<noteq> []" using sk by (simp add: sklearn_behaves_def)
  have seed: "0 \<le> mc_random_seed config" using mk_training_configD(2) [OF config] .
  have p: "partition_ok ''train'' ?train" "partition_ok ''validation'' ?validation" "held_out ?train ?validation"
    "pm_split_spec (dp_metadata ?train) = spec" "pm_split_spec (dp_metadata ?validation) = spec"
    "pm_source_market_data_checksum (dp_metadata ?validation) = pm_source_market_data_checksum (dp_metadata ?train)"
    using ok by (simp_all add: split_ok_def)
  have ne: "dp_labels ?train \<noteq> []" "dp_labels ?validation \<noteq> []" "timeline (dp_labels ?train)" "timeline (dp_labels ?validation)"
    "length (dp_features ?train) = length (dp_labels ?train)" "length (dp_features ?validation) = length (dp_labels ?validation)"
    using p(1,2) unfolding partition_ok_def by (simp_all, metis length_map, metis length_map)
  have lk: "mk_locked_selection (sk_version sk) l = Inr l" "?name \<in> set MODEL_NAMES"
    "lk_lineage l = partition_lineage (dp_metadata ?train) (mc_random_seed config) (sk_version sk)"
    "lk_candidate_parameters l = [cr_fixed_parameters logistic, cr_fixed_parameters gradient]"
    "lk_diagnostic_classification_threshold l = mc_diagnostic_classification_threshold config"
    using locked by (simp_all add: lock_ok_def)
  let ?X = "vp_X (view_of ?train) @ vp_X (view_of ?validation)" and ?y = "vp_y (view_of ?train) @ vp_y (view_of ?validation)"
  have y: "set ?y = {0, 1}" "length ?X = length ?y"
    using classes ne(5,6) by (simp_all add: two_classes_def)
  then obtain e where e: "sk_fit sk ?name (mc_random_seed config) ?X ?y = Fitted e"
    "estimator_behaves sk ?name (mc_random_seed config) e"
    using sk lk(2) seed unfolding sklearn_behaves_def by metis
  have fitted: "fit_estimator sk ?name (mc_random_seed config) ?X ?y = Inr e"
    using lk(2) seed e(1) by (simp add: fit_estimator_Inr)
  obtain q where q: "fixed_model_parameters ?name (mc_random_seed config) = Inr q"
    by (rule fixed_parameters_ok [OF lk(2) seed])
  have q_listed: "list_ex (same_parameters q) (lk_candidate_parameters l)"
    using lk(2) q candidates by (auto simp: lk(4) MODEL_NAMES_def)
  have sorted: "increasing (vp_sessions (view_of ?train) @ vp_sessions (view_of ?validation))"
    using timelineD(1) [OF ne(3)] timelineD(1) [OF ne(4)] p(3) label_times [OF ne(3)]
    by (fastforce simp: sorted_wrt_append held_out_def)
  define m where "m = \<lparr>fm_selected_model_name = ?name, fm_estimator = e, fm_locked_selection = l, fm_fixed_parameters = q,
        fm_lineage = lk_lineage l, fm_train_row_count = lk_train_row_count l,
        fm_validation_row_count = lk_validation_row_count l, fm_combined_row_count = lk_train_row_count l + lk_validation_row_count l,
        fm_train_first_session = lk_train_first_session l, fm_train_last_session = lk_train_last_session l,
        fm_validation_first_session = lk_validation_first_session l, fm_validation_last_session = lk_validation_last_session l,
        fm_combined_first_session = lk_train_first_session l, fm_combined_last_session = lk_validation_last_session l,
        fm_diagnostic_classification_threshold = lk_diagnostic_classification_threshold l, fm_created_at = PyAware t\<rparr>"
  have accepted: "mk_final_model sk m = Inr m"
    by (rule final_model_accepted [OF version ok config locked q, where e = e])
       (use e(2) in \<open>simp_all add: m_def estimator_behaves_def\<close>)
  have overlap: "validate_partition_lineage_and_order err n n' (view_of ?train) (view_of ?validation) = Inr ()" for err n n'
    using split_ok_bounds [OF ok] ne(1,2) p(4-6)
    by (simp add: validate_partition_lineage_and_order_def split_bounds_def Let_def hd_map last_map)
  have verified: "verify_locked_selection_matches_partitions (sk_version sk) l (view_of ?train) (view_of ?validation) = Inr ()"
    using locked ne(1,2,5,6) p(4-6)
    by (simp add: verify_locked_selection_matches_partitions_def Let_def lock_ok_def hd_map last_map)
       (simp add: partition_lineage_def)
  have lineage: "(lk_lineage l) \<lparr>ml_sklearn_version := sk_version sk, ml_model_schema_version := MODEL_SCHEMA_VERSION\<rparr> = lk_lineage l"
    "ml_random_seed (lk_lineage l) = mc_random_seed config"
    by (simp_all add: lk(3) partition_lineage_def)
  have views: "validate_modeling_partition err ''train'' c ?train = Inr (view_of ?train)"
    "validate_modeling_partition err ''validation'' c ?validation = Inr (view_of ?validation)" for err c
    using classes by (simp_all add: validated_view [OF p(1)] validated_view [OF p(2)])
  have "fit_locked_model_on_train_validation sk ?train ?validation l (PyAware t) = mk_final_model sk m"
    using sorted y(1) q_listed increasing_iff [THEN iffD1, OF sorted] locked ne(1,2,5,6)
    unfolding fit_locked_model_on_train_validation_def Let_def aware_utc_PyAware rbind_Inr reconstruct_def lk(1) sum.case
      views overlap verified lineage fitted q
    by (simp add: m_def lock_ok_def hd_map last_map)
  with that accepted e(2) lk(5) show thesis by (simp add: m_def)
qed

section \<open>The final evaluation\<close>

lemma evaluation_completes:
  assumes sk: "scores_behave sk" and ok: "split_ok spec p" and classes: "two_classes (cp_test p)"
    and config: "mk_training_config config = Inr config" and locked: "lock_ok sk p config now logistic gradient l"
    and model: "mk_final_model sk m = Inr m" "fm_lineage m = lk_lineage l" "fm_locked_selection m = l"
      "estimator_behaves sk (lk_selected_model_name l) (mc_random_seed config) (fm_estimator m)"
      "fm_selected_model_name m = lk_selected_model_name l" "fm_validation_last_session m = lk_validation_last_session l"
      "fm_diagnostic_classification_threshold m = mc_diagnostic_classification_threshold config"
  shows "\<exists>e. evaluate_locked_model_on_test sk m (cp_test p) (PyAware t) = Inr e"
proof -
  let ?name = "lk_selected_model_name l" and ?test = "cp_test p"
  have seed: "0 \<le> mc_random_seed config" using mk_training_configD(2) [OF config] .
  have p: "partition_ok ''test'' ?test" "pm_split_spec (dp_metadata ?test) = spec"
    "pm_source_market_data_checksum (dp_metadata ?test) = pm_source_market_data_checksum (dp_metadata (cp_train p))"
    "pm_split_spec (dp_metadata (cp_train p)) = spec"
    using ok by (simp_all add: split_ok_def)
  have ne: "dp_labels ?test \<noteq> []" "pm_name (dp_metadata ?test) = ''test''"
    "is_checksum (pm_source_market_data_checksum (dp_metadata ?test))"
    using p(1) by (simp_all add: partition_ok_def)
  have names: "''test'' \<in> set PARTITION_NAMES" by (simp add: PARTITION_NAMES_def)
  have lk: "mk_locked_selection (sk_version sk) l = Inr l" "?name \<in> set MODEL_NAMES"
    "lk_lineage l = partition_lineage (dp_metadata (cp_train p)) (mc_random_seed config) (sk_version sk)"
    "lk_diagnostic_classification_threshold l = mc_diagnostic_classification_threshold config"
    "lk_validation_last_session l = lb_session (last (dp_labels (cp_validation p)))"
    using locked by (simp_all add: lock_ok_def)
  obtain ps s cm where stage: "positive_class_probabilities sk (fm_estimator m) (vp_X (view_of ?test)) = Inr ps"
    "build_prediction_set_from_probabilities (view_of ?test) ps ?name config (PyAware t) = Inr s"
    "calculate_classification_metrics sk s (PyAware t) = Inr cm"
    "predictions_for ?name ?test config (PyAware t) s" "metrics_ok ?name ?test config (PyAware t) cm"
    by (rule predictions_stage [OF model(4) sk p(1) names classes lk(2) config])
  note s = predictions_forD [OF stage(4) ne(1)]
  note bounds = split_ok_bounds [OF ok, unfolded split_bounds_def Let_def]
  have config': "mk_training_config \<lparr>mc_random_seed = ml_random_seed (lk_lineage l),
      mc_diagnostic_classification_threshold = mc_diagnostic_classification_threshold config\<rparr> = Inr config"
    using config by (cases config) (simp add: lk(3) partition_lineage_def)
  have view: "validate_modeling_partition err ''test'' c ?test = Inr (view_of ?test)" for err c
    using classes by (simp add: validated_view [OF p(1)])
  have lineage: "ml_random_seed (lk_lineage l) = mc_random_seed config" "ml_sklearn_version (lk_lineage l) = sk_version sk"
    "ml_split_spec (lk_lineage l) = spec" "ml_feature_columns (lk_lineage l) = FEATURE_COLUMNS"
    "ml_source_market_data_checksum (lk_lineage l) = pm_source_market_data_checksum (dp_metadata ?test)"
    "ml_source_schema_version (lk_lineage l) = SCHEMA_VERSION" "ml_feature_schema_version (lk_lineage l) = FEATURE_SCHEMA_VERSION"
    "ml_label_schema_version (lk_lineage l) = LABEL_SCHEMA_VERSION" "ml_model_schema_version (lk_lineage l) = MODEL_SCHEMA_VERSION"
    "(lk_lineage l) \<lparr>ml_model_schema_version := MODEL_SCHEMA_VERSION\<rparr> = lk_lineage l"
    by (simp_all add: lk(3) partition_lineage_def p(3,4))
  have version: "strip (sk_version sk) \<noteq> []"
    using model(1) lineage(2) unfolding mk_final_model_def Let_def by (elim rbind_InrE) (simp add: model(2))
  define e where "e = \<lparr>fe_selected_model_name = ?name, fe_locked_selection = l, fe_prediction_set = s, fe_metrics = cm,
        fe_lineage = lk_lineage l, fe_test_row_count = int (length (dp_labels ?test)),
        fe_test_first_session = lb_session (hd (dp_labels ?test)), fe_test_last_session = lb_session (last (dp_labels ?test)),
        fe_diagnostic_classification_threshold = mc_diagnostic_classification_threshold config, fe_created_at = PyAware t\<rparr>"
  obtain th where th: "mc_diagnostic_classification_threshold config = Fin th" "0 < th" "th < 1"
    using mk_training_configD(3) [OF config] by blast
  have threshold: "validate_threshold err code (mc_diagnostic_classification_threshold config) = Inr th" for err code
    using th by simp
  have rows: "1 \<le> int (length (dp_labels ?test))" using ne(1) by (simp add: Suc_le_eq)
  have accepted: "mk_final_evaluation (sk_version sk) e = Inr e"
    using bounds seed version rows stage(5) lk(2)
    unfolding mk_final_evaluation_def Let_def e_def final_evaluation.simps lineage lk(1) reconstruct_def sum.case s threshold
    by (simp add: metrics_ok_def ne check_evaluation_schema_def lk(4,5) metric_counts_def aware_utc_PyAware
        validate_int_def validate_model_name_def validate_runtime_sklearn_version_def s lineage)
  have "evaluate_locked_model_on_test sk m ?test (PyAware t) = mk_final_evaluation (sk_version sk) e"
    using bounds ne(1) lk(5)
    unfolding evaluate_locked_model_on_test_def Let_def aware_utc_PyAware rbind_Inr model(1-3,5-7) view lineage(10) config' stage(1-3) s
    by (simp add: e_def lineage(2-8) p(2) hd_map)
  with accepted show ?thesis by simp
qed

section \<open>The pipeline\<close>

lemma trained_and_locked:
  assumes sk: "sklearn_behaves sk" and ok: "split_ok spec p" and classes: "two_classes (cp_train p)" "two_classes (cp_validation p)"
    and config: "mk_training_config config = Inr config"
  obtains c where "train_candidate_models sk (cp_train p) (cp_validation p) config (PyAware now) = Inr c"
    "lock_ok sk p config (PyAware now) (cc_logistic_regression c) (cc_gradient_boosting c) (cc_locked_selection c)"
    "fixed_model_parameters LOGISTIC_REGRESSION_MODEL (mc_random_seed config) = Inr (cr_fixed_parameters (cc_logistic_regression c))"
    "fixed_model_parameters GRADIENT_BOOSTING_MODEL (mc_random_seed config) = Inr (cr_fixed_parameters (cc_gradient_boosting c))"
proof -
  have version: "strip (sk_version sk) \<noteq> []" using sk by (simp add: sklearn_behaves_def)
  have p: "partition_ok ''train'' (cp_train p)" "partition_ok ''validation'' (cp_validation p)"
    "pm_split_spec (dp_metadata (cp_train p)) = spec" "pm_split_spec (dp_metadata (cp_validation p)) = spec"
    "pm_source_market_data_checksum (dp_metadata (cp_validation p)) = pm_source_market_data_checksum (dp_metadata (cp_train p))"
    using ok by (simp_all add: split_ok_def)
  have ne: "dp_labels (cp_train p) \<noteq> []" "dp_labels (cp_validation p) \<noteq> []"
    using p(1,2) by (simp_all add: partition_ok_def)
  have names: "LOGISTIC_REGRESSION_MODEL \<in> set MODEL_NAMES" "GRADIENT_BOOSTING_MODEL \<in> set MODEL_NAMES"
    by (simp_all add: MODEL_NAMES_def)
  obtain logistic where logistic: "train_candidate sk LOGISTIC_REGRESSION_MODEL (view_of (cp_train p)) (view_of (cp_validation p))
      config (PyAware now) = Inr logistic" "candidate_ok sk p config (PyAware now) LOGISTIC_REGRESSION_MODEL logistic"
    by (rule candidate_trained [OF sk ok classes config names(1)])
  obtain gradient where gradient: "train_candidate sk GRADIENT_BOOSTING_MODEL (view_of (cp_train p)) (view_of (cp_validation p))
      config (PyAware now) = Inr gradient" "candidate_ok sk p config (PyAware now) GRADIENT_BOOSTING_MODEL gradient"
    by (rule candidate_trained [OF sk ok classes config names(2)])
  obtain l where l: "select_locked_model sk logistic gradient config (PyAware now) = Inr l"
    "lock_ok sk p config (PyAware now) logistic gradient l"
    by (rule locked [OF version ok config logistic(2) gradient(2)])
  note comparison = comparison_accepted [OF version ok config logistic(2) gradient(2) l(2)]
  have overlap: "validate_partition_lineage_and_order err n n' (view_of (cp_train p)) (view_of (cp_validation p)) = Inr ()" for err n n'
    using split_ok_bounds [OF ok] ne p(3-5)
    by (simp add: validate_partition_lineage_and_order_def split_bounds_def Let_def hd_map last_map)
  have "train_candidate_models sk (cp_train p) (cp_validation p) config (PyAware now) =
      Inr \<lparr>cc_logistic_regression = logistic, cc_gradient_boosting = gradient, cc_locked_selection = l, cc_config = config,
        cc_lineage = partition_lineage (dp_metadata (cp_train p)) (mc_random_seed config) (sk_version sk),
        cc_created_at = PyAware now\<rparr>"
    using classes unfolding train_candidate_models_def Let_def aware_utc_PyAware rbind_Inr
    by (simp add: validated_view [OF p(1)] validated_view [OF p(2)] overlap logistic(1) gradient(1) l(1) comparison)
  with that l(2) logistic(2) gradient(2) show thesis by (simp add: candidate_ok_def)
qed


end
