(* ===== verification/Data_Label_Properties.thy ===== *)
theory Data_Label_Properties
  imports Data_Label_Facts
begin

text \<open>What the forward labels are: one session ahead for the entry, six for the exit, for every session that has
  both, and a positive target only where the price rose.\<close>

definition bars_ok :: "bar list \<Rightarrow> bool" where
  "bars_ok bars \<longleftrightarrow> increasing (map mb_session bars) \<and>
     list_all (\<lambda>b. 0 < mb_open b \<and> is_float (mb_open b)) bars"

definition costs_ok :: "trading_costs \<Rightarrow> bool" where
  "costs_ok costs \<longleftrightarrow> 0 \<le> tc_commission_bps_per_side costs \<and> 0 \<le> tc_slippage_bps_per_side costs"

lemma mk_trading_costs_ok: "mk_trading_costs c s = Inr costs \<Longrightarrow> costs_ok costs"
  by (auto simp: mk_trading_costs_def costs_ok_def rbind_eq_Inr_iff coerce_decimal_def
      split: pyval.splits option.splits dec.splits if_splits)

lemma side_cost_rate_nonneg: "costs_ok costs \<Longrightarrow> 0 \<le> side_cost_rate costs"
  by (simp add: costs_ok_def side_cost_rate_def dec_div_def dec_add_def dec.nonneg_iff)

text \<open>The rows built from increasing sessions form a timeline.\<close>

definition labels_of_bars :: "raw_label list \<Rightarrow> bar list \<Rightarrow> bool" where
  "labels_of_bars records bars \<longleftrightarrow> length bars = length records + EXIT_OFFSET_SESSIONS \<and>
     (\<forall>i < length records.
        lo_session (records ! i) = PyDate (mb_session (bars ! i)) \<and>
        lo_entry_session (records ! i) = PyDate (mb_session (bars ! (i + ENTRY_OFFSET_SESSIONS))) \<and>
        lo_exit_session (records ! i) = PyDate (mb_session (bars ! (i + EXIT_OFFSET_SESSIONS))))"

lemma labels_of_bars_timeline:
  assumes inc: "increasing (map mb_session bars)" and rows: "labels_of_bars records bars"
  shows "timeline (map typed_label records)"
proof -
  have mono: "mb_session (bars ! i) < mb_session (bars ! j)" if "i < j" "j < length bars" for i j
    using increasing_nth [OF inc, of i j] that by simp
  have offsets: "ENTRY_OFFSET_SESSIONS = 1" "EXIT_OFFSET_SESSIONS = 6"
    by (simp_all add: ENTRY_OFFSET_SESSIONS_def EXIT_OFFSET_SESSIONS_def)
  show ?thesis
    using rows mono unfolding timeline_def labels_of_bars_def
    by (auto simp: sorted_wrt_iff_nth_less in_set_conv_nth offsets)
qed

lemma labels_of_bars_dated: "labels_of_bars records bars \<Longrightarrow> list_all dated records"
  by (auto simp: labels_of_bars_def list_all_iff dated_def in_set_conv_nth)

lemma mk_label_set_of_bars:
  assumes "labels_of_bars records bars" "increasing (map mb_session bars)" "records \<noteq> []"
    and "is_checksum checksum"
    and "\<forall>r \<in> set records. is_finite_float (lo_gross_forward_return r) \<and>
           is_finite_float (lo_net_forward_return r) \<and>
           lo_target r = Some (expected_target (lo_net_forward_return r))"
  shows "\<exists>l. mk_label_set
       \<lparr>lso_data = \<lparr>lf_columns = LABEL_COLUMNS, lf_dtype = canonical_label_dtype, lf_rows = records\<rparr>,
        lso_source_market_data_checksum = PyStr checksum,
        lso_source_schema_version = PyStr SCHEMA_VERSION,
        lso_label_schema_version = PyStr LABEL_SCHEMA_VERSION,
        lso_entry_offset_sessions = PyInt (int ENTRY_OFFSET_SESSIONS),
        lso_exit_offset_sessions = PyInt (int EXIT_OFFSET_SESSIONS),
        lso_cost_assumptions = costs,
        lso_first_label_session = lo_session (hd records),
        lso_last_label_session = lo_session (last records),
        lso_row_count = PyInt (int (length records)),
        lso_source_rows_excluded = PyInt (int EXIT_OFFSET_SESSIONS),
        lso_created_at = PyAware created\<rparr> = Inr l"
proof -
  note dated = labels_of_bars_dated [OF assms(1)]
  have dates: "dated r" if "r \<in> set records" for r using dated that by (simp add: list_all_iff)
  have ends: "lo_session (hd records) = PyDate (hd (map (\<lambda>r. date_cell (lo_session r)) records))"
    "lo_session (last records) = PyDate (last (map (\<lambda>r. date_cell (lo_session r)) records))"
    using assms(3) dates [of "hd records"] dates [of "last records"]
    by (simp_all add: hd_map last_map dated_def)
  have types: "canonical_label_dtype ''gross_forward_return'' = ''float64''"
    "canonical_label_dtype ''net_forward_return'' = ''float64''"
    "canonical_label_dtype ''target'' \<in> set integer_dtypes"
    by (simp_all add: canonical_label_dtype_def integer_dtypes_def)
  obtain es xs where timeline: "validate_label_timeline LabelConstructionError '''' records =
      Inr (map (\<lambda>r. date_cell (lo_session r)) records, es, xs)"
    using dated labels_of_bars_timeline [OF assms(2,1)] validate_label_timeline_Inr by blast
  show ?thesis
    using assms(3-5) ends types
    by (simp add: mk_label_set_def rbind_eq_Inr_iff equals_int_def timeline)
qed

lemma build_labels_Inl:
  assumes "bars_ok (md_bars md)" "costs_ok costs"
    and "is_checksum (mm_dataset_checksum (md_metadata md))"
      "mm_schema_version (md_metadata md) = SCHEMA_VERSION"
    and "build_forward_label_set md costs (PyAware created) = Inl e"
  shows "length (md_bars md) \<le> EXIT_OFFSET_SESSIONS \<and>
           e = LabelConstructionError ''insufficient_source_rows'' \<or>
         EXIT_OFFSET_SESSIONS < length (md_bars md) \<and>
           e = LabelConstructionError ''non_finite_forward_return''"
proof (cases "length (md_bars md) \<le> EXIT_OFFSET_SESSIONS")
  case True
  then show ?thesis using assms(5) by (auto simp: build_forward_label_set_def Let_def)
next
  case False
  let ?f = "label_at (fl (side_cost_rate costs)) (md_bars md)"
  let ?n = "length (md_bars md) - EXIT_OFFSET_SESSIONS"
  have ahead: "ENTRY_OFFSET_SESSIONS \<le> EXIT_OFFSET_SESSIONS"
    by (simp add: ENTRY_OFFSET_SESSIONS_def EXIT_OFFSET_SESSIONS_def)
  have opens: "0 < mb_open (md_bars md ! j)" "is_float (mb_open (md_bars md ! j))" if "j < length (md_bars md)" for j
    using assms(1) that by (auto simp: bars_ok_def list_all_length)
  show ?thesis
  proof (cases "map_results ?f [0..<?n]")
    case (Inl e')
    from map_results_Inl [OF this] obtain i where "i \<in> set [0..<?n]" "?f i = Inl e'" by blast
    then have i: "i < ?n" "?f i = Inl e'" by simp_all
    then have "i + ENTRY_OFFSET_SESSIONS < length (md_bars md)" using ahead by simp
    from label_at_Inl [OF opens [OF this] side_cost_rate_nonneg [OF assms(2)] i(2)]
    have "e' = LabelConstructionError ''non_finite_forward_return''" .
    moreover have "e = e'"
      using assms(5) False Inl by (simp only: build_forward_label_set_def Let_def reject_if_False rbind_Inr rbind_Inl sum.inject)
    ultimately show ?thesis using False by simp
  next
    case (Inr records)
    then have at: "length records = ?n" "\<And>i. i < ?n \<Longrightarrow> ?f i = Inr (records ! i)"
      by (simp_all add: map_results_upt)
    have "labels_of_bars records (md_bars md)"
      using at(1) False label_at_Inr(1-3) [OF at(2)] by (simp add: labels_of_bars_def)
    moreover have "\<forall>r \<in> set records. is_finite_float (lo_gross_forward_return r) \<and>
           is_finite_float (lo_net_forward_return r) \<and>
           lo_target r = Some (expected_target (lo_net_forward_return r))"
      using at(1) label_at_Inr(4-6) [OF at(2)] by (auto simp: in_set_conv_nth)
    moreover have "records \<noteq> []" using at(1) False by auto
    ultimately have "\<exists>l. build_forward_label_set md costs (PyAware created) = Inr l"
      using mk_label_set_of_bars [of records "md_bars md" "mm_dataset_checksum (md_metadata md)" costs created]
        assms(1,3,4) False Inr
      by (simp add: build_forward_label_set_def Let_def bars_ok_def)
    then show ?thesis using assms(5) by simp
  qed
qed

text \<open>C22: over a validated batch with increasing sessions and positive opening prices, the labels are
  exactly one row for every session but the last six, entered at the next session and left at the sixth; a label is positive
  exactly when its net return is, and then the price rose from entry to exit. Nothing else can go
  wrong than too few rows or returns that are no finite floats.\<close>

theorem labels_look_exactly_six_sessions_ahead:
  assumes "bars_ok (md_bars md)" and "costs_ok costs"
    and "is_checksum (mm_dataset_checksum (md_metadata md))"
    and "mm_schema_version (md_metadata md) = SCHEMA_VERSION"
  shows "case build_forward_label_set md costs (PyAware created) of
      Inl e \<Rightarrow>
        length (md_bars md) \<le> 6 \<and> e = LabelConstructionError ''insufficient_source_rows'' \<or>
        6 < length (md_bars md) \<and> e = LabelConstructionError ''non_finite_forward_return''
    | Inr ls \<Rightarrow>
        length (ls_data ls) + 6 = length (md_bars md) \<and>
        (\<forall>i < length (ls_data ls).
           let l = ls_data ls ! i; bar = (\<lambda>k. md_bars md ! (i + k))
           in lb_session l = mb_session (bar 0) \<and> lb_entry_session l = mb_session (bar 1) \<and>
              lb_exit_session l = mb_session (bar 6) \<and>
              lb_target l = (if 0 < lb_net_forward_return l then 1 else 0) \<and>
              (lb_target l = 1 \<longrightarrow> mb_open (bar 1) < mb_open (bar 6)))"
proof (cases "build_forward_label_set md costs (PyAware created)")
  case (Inl e)
  then show ?thesis using build_labels_Inl [OF assms Inl] by (simp add: EXIT_OFFSET_SESSIONS_def)
next
  case (Inr ls)
  obtain records where len: "length (md_bars md) = length records + EXIT_OFFSET_SESSIONS"
    and at: "\<And>i. i < length records \<Longrightarrow> label_at (fl (side_cost_rate costs)) (md_bars md) i = Inr (records ! i)"
    and data: "ls_data ls = map typed_label records" and wf: "wf_labels (ls_data ls)"
    using build_labels_Inr [OF Inr] by metis
  have offsets: "ENTRY_OFFSET_SESSIONS = 1" "EXIT_OFFSET_SESSIONS = 6"
    by (simp_all add: ENTRY_OFFSET_SESSIONS_def EXIT_OFFSET_SESSIONS_def)
  have opens: "0 < mb_open (md_bars md ! j)" "is_float (mb_open (md_bars md ! j))" if "j < length (md_bars md)" for j
    using assms(1) that by (auto simp: bars_ok_def list_all_length)
  have "mb_open (md_bars md ! (i + 1)) < mb_open (md_bars md ! (i + 6))"
    if i: "i < length records" and target: "lb_target (typed_label (records ! i)) = 1" for i
  proof -
    have "lo_target (records ! i) = Some 1"
      using label_at_Inr(6) [OF at [OF i]] target by (simp add: typed_label_def)
    then show ?thesis
      using label_target_price [OF _ _ _ _ side_cost_rate_nonneg [OF assms(2)] at [OF i]] opens i len
      by (simp add: offsets)
  qed
  moreover have "label_target_ok (typed_label (records ! i))" if "i < length records" for i
    using wf that by (simp add: wf_labels_def data list_all_length)
  ultimately show ?thesis
    using label_at_Inr(1-3) [OF at] len by (simp add: Inr data offsets label_target_ok_def Let_def)
qed

end
