(* ===== verification/Fold_Build.thy ===== *)
theory Fold_Build
  imports Data_Supervised "HOL-Library.List_Lexorder"
begin

text \<open>
  The walk-forward research models of \<^verbatim>\<open>research/models.py\<close>: lineage, the fold policy, session windows,
  folds and their manifest. Each \<open>mk_\<close> function is the pydantic constructor on values of the
  declared types: the field validators first, then the model validator.

  \<^verbatim>\<open>research/leakage.py\<close>, the guards against leakage, and \<^verbatim>\<open>research/folds.py\<close>, which cuts a supervised dataset into expanding
  walk-forward folds. The loop that builds the folds is a partial function: \<open>None\<close> means it does not
  return. The SHA-256 digests of \<^verbatim>\<open>research/identity.py\<close> are a parameter.
\<close>

section \<open>Constants\<close>

definition PHASE3_ARTIFACT_SCHEMA_VERSION :: string where
  "PHASE3_ARTIFACT_SCHEMA_VERSION = ''spy-v2-phase3-research-artifacts-v1''"

definition PHASE3_FOLD_ID_VERSION :: string where
  "PHASE3_FOLD_ID_VERSION = ''spy-v2-phase3-fold-id-v1''"

definition PHASE3_FOLD_MANIFEST_ID_VERSION :: string where
  "PHASE3_FOLD_MANIFEST_ID_VERSION = ''spy-v2-phase3-fold-manifest-id-v1''"

definition FEATURE_WARMUP_ROWS :: int where "FEATURE_WARMUP_ROWS = 20"
definition MANDATORY_GAP_SESSIONS :: int where "MANDATORY_GAP_SESSIONS = 5"
definition BOUNDARY_EXCLUSION_SESSIONS :: int where "BOUNDARY_EXCLUSION_SESSIONS = 6"
definition MINIMUM_INITIAL_TRAINING_ROWS :: int where "MINIMUM_INITIAL_TRAINING_ROWS = 756"
definition DEFAULT_ASSESSMENT_WINDOW_ROWS :: int where "DEFAULT_ASSESSMENT_WINDOW_ROWS = 126"
definition DEFAULT_STEP_ROWS :: int where "DEFAULT_STEP_ROWS = 63"
definition MINIMUM_FINAL_ASSESSMENT_ROWS :: int where "MINIMUM_FINAL_ASSESSMENT_ROWS = 63"

definition WALK_FORWARD_FOLD_POLICY_ID :: string where
  "WALK_FORWARD_FOLD_POLICY_ID = ''phase3-expanding-window-756-train-126-assess-63-step-6-purge-v1''"

definition is_nonempty_safe_identifier :: "string \<Rightarrow> bool" where
  "is_nonempty_safe_identifier value \<longleftrightarrow>
     strip value \<noteq> [] \<and> \<not> list_ex (\<lambda>part. contains_text part value) [''/'', [CHR 0x5C], ''..'']"

text \<open>\<^verbatim>\<open>sessions == tuple(sorted(sessions))\<close> and no duplicates.\<close>

definition strictly_increasing :: "date list \<Rightarrow> bool" where
  "strictly_increasing ds \<longleftrightarrow> distinct ds \<and> ds = sort ds"

lemma strictly_increasing_iff [simp]: "strictly_increasing ds \<longleftrightarrow> increasing ds"
  by (metis strictly_increasing_def sorted_sort sort_key_id_if_sorted strict_sorted_iff map_ident)

section \<open>Lineage\<close>

record runtime_lineage =
  rl_git_commit_sha :: string
  rl_package_version :: string
  rl_python_version :: string
  rl_dependency_versions :: "(string \<times> string) list"

definition mk_runtime_lineage :: "runtime_lineage \<Rightarrow> data_exn + runtime_lineage" where
  "mk_runtime_lineage obj =
     rbind (check_all (\<lambda>text. reject_if (strip text = []) ValidationError)
              [rl_git_commit_sha obj, rl_package_version obj, rl_python_version obj]) (\<lambda>_.
     rbind (reject_if (rl_dependency_versions obj = []) ValidationError) (\<lambda>_.
     rbind (check_all (\<lambda>(package, version). reject_if (strip package = [] \<or> strip version = []) ValidationError)
              (rl_dependency_versions obj)) (\<lambda>_.
     Inr (obj \<lparr>rl_dependency_versions := sort_key fst (rl_dependency_versions obj)\<rparr>))))"

record dataset_lineage =
  dl_dataset_id :: string
  dl_canonical_dataset_checksum :: string
  dl_provider :: string
  dl_feed :: string
  dl_timeframe :: string
  dl_adjustment :: string
  dl_first_session :: date
  dl_last_session :: date

definition mk_dataset_lineage :: "dataset_lineage \<Rightarrow> data_exn + dataset_lineage" where
  "mk_dataset_lineage obj =
     rbind (check_all (\<lambda>text. reject_if (\<not> is_nonempty_safe_identifier text) ValidationError)
              [dl_dataset_id obj, dl_provider obj, dl_feed obj, dl_timeframe obj, dl_adjustment obj]) (\<lambda>_.
     rbind (reject_if (\<not> is_checksum (dl_canonical_dataset_checksum obj)) ValidationError) (\<lambda>_.
     rbind (reject_if (dl_last_session obj < dl_first_session obj) ValidationError) (\<lambda>_.
     Inr obj)))"

section \<open>The fold policy\<close>

record fold_policy =
  fp_artifact_schema_version :: string
  fp_fold_policy_id :: string
  fp_feature_warmup_rows :: int
  fp_entry_offset_sessions :: int
  fp_exit_offset_sessions :: int
  fp_mandatory_gap_sessions :: int
  fp_boundary_exclusion_sessions :: int
  fp_minimum_initial_training_rows :: int
  fp_assessment_window_rows :: int
  fp_step_rows :: int
  fp_minimum_final_assessment_rows :: int
  fp_require_two_classes_per_fold :: bool

definition default_fold_policy :: fold_policy where
  "default_fold_policy =
     \<lparr>fp_artifact_schema_version = PHASE3_ARTIFACT_SCHEMA_VERSION,
      fp_fold_policy_id = WALK_FORWARD_FOLD_POLICY_ID, fp_feature_warmup_rows = FEATURE_WARMUP_ROWS,
      fp_entry_offset_sessions = int ENTRY_OFFSET_SESSIONS, fp_exit_offset_sessions = int EXIT_OFFSET_SESSIONS,
      fp_mandatory_gap_sessions = MANDATORY_GAP_SESSIONS,
      fp_boundary_exclusion_sessions = BOUNDARY_EXCLUSION_SESSIONS,
      fp_minimum_initial_training_rows = MINIMUM_INITIAL_TRAINING_ROWS,
      fp_assessment_window_rows = DEFAULT_ASSESSMENT_WINDOW_ROWS, fp_step_rows = DEFAULT_STEP_ROWS,
      fp_minimum_final_assessment_rows = MINIMUM_FINAL_ASSESSMENT_ROWS,
      fp_require_two_classes_per_fold = True\<rparr>"

definition mk_fold_policy :: "fold_policy \<Rightarrow> data_exn + fold_policy" where
  "mk_fold_policy p =
     rbind (reject_if (fp_artifact_schema_version p \<noteq> PHASE3_ARTIFACT_SCHEMA_VERSION) ValidationError) (\<lambda>_.
     rbind (reject_if (fp_feature_warmup_rows p < FEATURE_WARMUP_ROWS) ValidationError) (\<lambda>_.
     rbind (check_all (\<lambda>(actual, expected). reject_if (actual \<noteq> expected) ValidationError)
              [(fp_entry_offset_sessions p, int ENTRY_OFFSET_SESSIONS),
               (fp_exit_offset_sessions p, int EXIT_OFFSET_SESSIONS),
               (fp_mandatory_gap_sessions p, MANDATORY_GAP_SESSIONS),
               (fp_boundary_exclusion_sessions p, BOUNDARY_EXCLUSION_SESSIONS)]) (\<lambda>_.
     rbind (reject_if (fp_fold_policy_id p \<noteq> WALK_FORWARD_FOLD_POLICY_ID) ValidationError) (\<lambda>_.
     rbind (reject_if (fp_minimum_initial_training_rows p < MINIMUM_INITIAL_TRAINING_ROWS) ValidationError) (\<lambda>_.
     rbind (reject_if (fp_assessment_window_rows p < fp_minimum_final_assessment_rows p) ValidationError) (\<lambda>_.
     rbind (reject_if (fp_step_rows p \<le> 0) ValidationError) (\<lambda>_.
     Inr p)))))))"

section \<open>Session windows\<close>

record session_window =
  sw_prediction_sessions :: "date list"
  sw_entry_sessions :: "date list"
  sw_exit_sessions :: "date list"
  sw_positive_count :: int
  sw_negative_count :: int

definition mk_session_window :: "session_window \<Rightarrow> data_exn + session_window" where
  "mk_session_window w =
     (let row_count = length (sw_prediction_sessions w) in
     rbind (reject_if (row_count = 0) ValidationError) (\<lambda>_.
     rbind (reject_if (length (sw_entry_sessions w) \<noteq> row_count \<or> length (sw_exit_sessions w) \<noteq> row_count \<or>
              sw_positive_count w + sw_negative_count w \<noteq> int row_count) ValidationError) (\<lambda>_.
     rbind (check_all (\<lambda>sessions. reject_if (\<not> strictly_increasing sessions) ValidationError)
              [sw_prediction_sessions w, sw_entry_sessions w, sw_exit_sessions w]) (\<lambda>_.
     rbind (reject_if (sw_positive_count w < 0 \<or> sw_negative_count w < 0) ValidationError) (\<lambda>_.
     Inr w)))))"

definition sw_row_count :: "session_window \<Rightarrow> nat" where
  "sw_row_count w = length (sw_prediction_sessions w)"

definition first_prediction_session :: "session_window \<Rightarrow> date" where
  "first_prediction_session w = hd (sw_prediction_sessions w)"

definition last_prediction_session :: "session_window \<Rightarrow> date" where
  "last_prediction_session w = last (sw_prediction_sessions w)"

definition last_exit_session :: "session_window \<Rightarrow> date" where
  "last_exit_session w = last (sw_exit_sessions w)"

section \<open>Folds and manifests\<close>

record walk_forward_fold =
  wff_fold_id :: string
  wff_fold_index :: int
  wff_dataset_id :: string
  wff_canonical_dataset_checksum :: string
  wff_feature_schema :: string
  wff_label_schema :: string
  wff_fold_policy_id :: string
  wff_training :: session_window
  wff_boundary_excluded_sessions :: "date list"
  wff_assessment :: session_window
  wff_runtime_lineage :: runtime_lineage

definition mk_walk_forward_fold :: "walk_forward_fold \<Rightarrow> data_exn + walk_forward_fold" where
  "mk_walk_forward_fold f =
     (let boundary = wff_boundary_excluded_sessions f; training = wff_training f; assessment = wff_assessment f in
     rbind (check_all (\<lambda>text. reject_if (\<not> is_nonempty_safe_identifier text) ValidationError)
              [wff_fold_id f, wff_dataset_id f, wff_feature_schema f, wff_label_schema f, wff_fold_policy_id f]) (\<lambda>_.
     rbind (reject_if (\<not> is_checksum (wff_canonical_dataset_checksum f)) ValidationError) (\<lambda>_.
     rbind (reject_if (wff_fold_index f < 0) ValidationError) (\<lambda>_.
     rbind (reject_if (int (length boundary) \<noteq> BOUNDARY_EXCLUSION_SESSIONS) ValidationError) (\<lambda>_.
     rbind (reject_if (\<not> strictly_increasing boundary) ValidationError) (\<lambda>_.
     rbind (reject_if (\<not> (last_prediction_session training < hd boundary \<and> hd boundary < last boundary \<and>
              last boundary < first_prediction_session assessment)) ValidationError) (\<lambda>_.
     rbind (reject_if (last_exit_session training \<noteq> last boundary) ValidationError) (\<lambda>_.
     rbind (reject_if (first_prediction_session assessment \<le> last_exit_session training) ValidationError) (\<lambda>_.
     rbind (reject_if (wff_fold_policy_id f \<noteq> WALK_FORWARD_FOLD_POLICY_ID) ValidationError) (\<lambda>_.
     Inr f))))))))))"

record walk_forward_manifest =
  wfm_fold_manifest_id :: string
  wfm_dataset_lineage :: dataset_lineage
  wfm_feature_schema :: string
  wfm_label_schema :: string
  wfm_fold_policy :: fold_policy
  wfm_supervised_row_count :: int
  wfm_folds :: "walk_forward_fold list"

definition check_manifest_fold :: "walk_forward_manifest \<Rightarrow> walk_forward_fold \<Rightarrow> data_exn + unit" where
  "check_manifest_fold m f =
     rbind (reject_if (wff_dataset_id f \<noteq> dl_dataset_id (wfm_dataset_lineage m)) ValidationError) (\<lambda>_.
     rbind (reject_if (wff_canonical_dataset_checksum f \<noteq>
              dl_canonical_dataset_checksum (wfm_dataset_lineage m)) ValidationError) (\<lambda>_.
     reject_if (wff_feature_schema f \<noteq> wfm_feature_schema m \<or> wff_label_schema f \<noteq> wfm_label_schema m)
       ValidationError))"

definition mk_walk_forward_manifest :: "walk_forward_manifest \<Rightarrow> data_exn + walk_forward_manifest" where
  "mk_walk_forward_manifest m =
     rbind (reject_if (wfm_folds m = []) ValidationError) (\<lambda>_.
     rbind (reject_if (wfm_supervised_row_count m \<le> 0) ValidationError) (\<lambda>_.
     rbind (reject_if (map wff_fold_index (wfm_folds m) \<noteq> map int [0..<length (wfm_folds m)])
              ValidationError) (\<lambda>_.
     rbind (check_all (check_manifest_fold m) (wfm_folds m)) (\<lambda>_.
     Inr m))))"

section \<open>Leakage guards\<close>

definition FUTURE_COLUMN_TOKENS :: "string list" where
  "FUTURE_COLUMN_TOKENS = [''future'', ''forward_return'', ''gross_forward_return'', ''net_forward_return'',
     ''target'', ''label'', ''exit_session'', ''entry_session'']"

definition PHASE2_FINAL_TEST_ARTIFACT_TOKENS :: "string list" where
  "PHASE2_FINAL_TEST_ARTIFACT_TOKENS = [''final_test_results.json'', ''final_test_access.json'',
     ''final_test_completion.json'', ''final_test_predictions.json'', ''final_test_prediction_rows.json'',
     ''final_test_model_predictions.json'', ''phase2_final_test_predictions.json'',
     ''benchmark_strategy_rows.json'', ''final_test_strategy_rows.json'',
     ''phase2_final_test_strategy_rows.json'', ''backtest_results.json'', ''cost_sensitivity.json'',
     ''regime_results.json'']"

text \<open>\<^verbatim>\<open>value.replace("\\", "/").lower()\<close> and its part after the last slash.\<close>

definition normalized_reference :: "string \<Rightarrow> string" where
  "normalized_reference value = lower (map (\<lambda>c. if c = CHR 0x5C then CHR ''/'' else c) value)"

definition is_phase2_final_test_artifact_reference :: "string \<Rightarrow> bool" where
  "is_phase2_final_test_artifact_reference value =
     (let normalized = normalized_reference value;
          artifact_name = rev (takeWhile (\<lambda>c. c \<noteq> CHR ''/'') (rev normalized)) in
      if artifact_name \<in> set PHASE2_FINAL_TEST_ARTIFACT_TOKENS then True
      else contains_text ''artifacts/benchmarks'' normalized \<and>
        list_ex (\<lambda>token. contains_text token normalized) PHASE2_FINAL_TEST_ARTIFACT_TOKENS)"

definition validate_phase2_final_test_isolation :: "string list \<Rightarrow> data_exn + unit" where
  "validate_phase2_final_test_isolation paths_or_names =
     reject_if (filter is_phase2_final_test_artifact_reference paths_or_names \<noteq> [])
       (LeakageValidationError ''phase2_final_test_artifact_rejected'')"

definition validate_no_forbidden_feature_columns :: "string list \<Rightarrow> data_exn + unit" where
  "validate_no_forbidden_feature_columns observed =
     reject_if (list_ex (\<lambda>c. c \<in> set FORBIDDEN_MODEL_FEATURE_COLUMNS) observed \<or>
         list_ex (\<lambda>column. list_ex (\<lambda>token. contains_text token (lower column)) FUTURE_COLUMN_TOKENS) observed)
       (LeakageValidationError ''forbidden_model_feature_columns'')"

definition validate_supervised_leakage_contract :: "supervised_dataset \<Rightarrow> data_exn + unit" where
  "validate_supervised_leakage_contract d =
     rbind (validate_no_forbidden_feature_columns FEATURE_FRAME_COLUMNS) (\<lambda>_.
     check_all (\<lambda>row. reject_if (\<not> (lb_session row < lb_entry_session row \<and> lb_entry_session row < lb_exit_session row))
         (LeakageValidationError ''invalid_prediction_entry_exit_timeline'')) (sd_labels d))"

definition validate_no_future_sessions :: "date list \<Rightarrow> date \<Rightarrow> data_exn + unit" where
  "validate_no_future_sessions sessions latest_allowed_session =
     reject_if (filter (\<lambda>session. latest_allowed_session < session) sessions \<noteq> [])
       (LeakageValidationError ''future_session_in_scope'')"

record transformation_fit_record =
  tf_record_name :: string
  tf_fitted_sessions :: "date list"
  tf_fitted_on_outer_assessment :: bool
  tf_fitted_on_protected_rows :: bool

definition mk_transformation_fit_record :: "transformation_fit_record \<Rightarrow> data_exn + transformation_fit_record" where
  "mk_transformation_fit_record r =
     rbind (reject_if (strip (tf_record_name r) = []) ValidationError) (\<lambda>_.
     rbind (reject_if (tf_fitted_sessions r = []) ValidationError) (\<lambda>_.
     rbind (reject_if (\<not> distinct (tf_fitted_sessions r)) ValidationError) (\<lambda>_.
     rbind (reject_if (tf_fitted_sessions r \<noteq> sort (tf_fitted_sessions r)) ValidationError) (\<lambda>_.
     Inr r))))"

definition validate_training_only_fit_scope ::
  "walk_forward_fold \<Rightarrow> transformation_fit_record \<Rightarrow> date list \<Rightarrow> data_exn + unit" where
  "validate_training_only_fit_scope the_fold fit_record protected_sessions =
     (let training_sessions = set (sw_prediction_sessions (wff_training the_fold));
          assessment_sessions = set (sw_prediction_sessions (wff_assessment the_fold));
          boundary_sessions = set (wff_boundary_excluded_sessions the_fold);
          fitted_sessions = set (tf_fitted_sessions fit_record) in
     rbind (reject_if (tf_fitted_on_outer_assessment fit_record \<or> fitted_sessions \<inter> assessment_sessions \<noteq> {})
              (LeakageValidationError ''outer_assessment_used_for_fit'')) (\<lambda>_.
     rbind (reject_if (fitted_sessions \<inter> boundary_sessions \<noteq> {})
              (LeakageValidationError ''boundary_rows_used_for_fit'')) (\<lambda>_.
     rbind (reject_if (tf_fitted_on_protected_rows fit_record \<or> fitted_sessions \<inter> set protected_sessions \<noteq> {})
              (LeakageValidationError ''protected_rows_used_for_fit'')) (\<lambda>_.
     reject_if (\<not> fitted_sessions \<subseteq> training_sessions)
       (LeakageValidationError ''non_training_rows_used_for_fit'')))))"

section \<open>Slices\<close>

text \<open>\<^verbatim>\<open>frame.iloc[start:stop]\<close>, with Python's reading of negative bounds.\<close>

definition slice_bound :: "nat \<Rightarrow> int \<Rightarrow> nat" where
  "slice_bound n i = nat (if i < 0 then max 0 (i + int n) else min i (int n))"

definition py_slice :: "int \<Rightarrow> int \<Rightarrow> 'a list \<Rightarrow> 'a list" where
  "py_slice start stop xs =
     take (slice_bound (length xs) stop - slice_bound (length xs) start) (drop (slice_bound (length xs) start) xs)"

section \<open>Building a fold\<close>

text \<open>The digests of the payloads: the object without its identifier, with the version of the identifier.\<close>

record fold_digests =
  fd_fold :: "walk_forward_fold \<times> string \<Rightarrow> string"
  fd_manifest :: "walk_forward_manifest \<times> string \<Rightarrow> string"

definition research_fold_identity :: "fold_digests \<Rightarrow> walk_forward_fold \<Rightarrow> string" where
  "research_fold_identity sha f =
     ''spy-v2p3-fold-'' @ take 20 (fd_fold sha (f \<lparr>wff_fold_id := ''''\<rparr>, PHASE3_FOLD_ID_VERSION))"

definition fold_manifest_identity :: "fold_digests \<Rightarrow> walk_forward_manifest \<Rightarrow> string" where
  "fold_manifest_identity sha m =
     ''spy-v2p3-folds-'' @
     take 20 (fd_manifest sha (m \<lparr>wfm_fold_manifest_id := ''''\<rparr>, PHASE3_FOLD_MANIFEST_ID_VERSION))"

definition window_of_labels :: "label list \<Rightarrow> string \<Rightarrow> fold_policy \<Rightarrow> data_exn + session_window" where
  "window_of_labels labels name policy =
     (let err = WalkForwardSplitError in
     rbind (reject_if (labels = []) (err (''empty_'' @ name @ ''_window''))) (\<lambda>_.
     rbind (reject_if (int (length labels) < (if name = ''training'' then fp_minimum_initial_training_rows policy
                else fp_minimum_final_assessment_rows policy))
              (err (name @ ''_window_too_short''))) (\<lambda>_.
     let positive_count = sum_list (map lb_target labels) in
     mk_session_window
       \<lparr>sw_prediction_sessions = map lb_session labels, sw_entry_sessions = map lb_entry_session labels,
        sw_exit_sessions = map lb_exit_session labels, sw_positive_count = positive_count,
        sw_negative_count = int (length labels) - positive_count\<rparr>)))"

definition require_two_classes :: "session_window \<Rightarrow> string \<Rightarrow> data_exn + unit" where
  "require_two_classes window name =
     reject_if (sw_positive_count window \<le> 0 \<or> sw_negative_count window \<le> 0)
       (WalkForwardSplitError (name @ ''_window_single_class''))"

definition build_fold ::
  "fold_digests \<Rightarrow> label list \<Rightarrow> dataset_lineage \<Rightarrow> string \<Rightarrow> string \<Rightarrow> runtime_lineage \<Rightarrow> fold_policy \<Rightarrow> int \<Rightarrow>
     int \<times> int \<Rightarrow> int \<times> int \<Rightarrow> int \<times> int \<Rightarrow> data_exn + walk_forward_fold" where
  "build_fold sha labels lineage feature_schema label_schema runtime policy fold_index
     train_slice boundary_slice assessment_slice =
     (let err = WalkForwardSplitError;
          train_labels = py_slice (fst train_slice) (snd train_slice) labels;
          boundary_labels = py_slice (fst boundary_slice) (snd boundary_slice) labels;
          assessment_labels = py_slice (fst assessment_slice) (snd assessment_slice) labels in
     rbind (reject_if (int (length boundary_labels) \<noteq> BOUNDARY_EXCLUSION_SESSIONS)
              (err ''boundary_exclusion_size_mismatch'')) (\<lambda>_.
     rbind (window_of_labels train_labels ''training'' policy) (\<lambda>training.
     rbind (window_of_labels assessment_labels ''assessment'' policy) (\<lambda>assessment.
     rbind (if fp_require_two_classes_per_fold policy
            then rbind (require_two_classes training ''training'') (\<lambda>_. require_two_classes assessment ''assessment'')
            else Inr ()) (\<lambda>_.
     let boundary_sessions = map lb_session boundary_labels in
     rbind (reject_if (last_exit_session training \<noteq> last boundary_sessions)
              (err ''label_horizon_purge_mismatch'')) (\<lambda>_.
     rbind (reject_if (first_prediction_session assessment \<le> last_exit_session training)
              (err ''training_label_crosses_assessment'')) (\<lambda>_.
     rbind (mk_walk_forward_fold
       \<lparr>wff_fold_id = ''pending'', wff_fold_index = fold_index, wff_dataset_id = dl_dataset_id lineage,
        wff_canonical_dataset_checksum = dl_canonical_dataset_checksum lineage,
        wff_feature_schema = feature_schema, wff_label_schema = label_schema,
        wff_fold_policy_id = WALK_FORWARD_FOLD_POLICY_ID, wff_training = training,
        wff_boundary_excluded_sessions = boundary_sessions, wff_assessment = assessment,
        wff_runtime_lineage = runtime\<rparr>) (\<lambda>pending.
     mk_walk_forward_fold (pending \<lparr>wff_fold_id := research_fold_identity sha pending\<rparr>)))))))))"

section \<open>The loop\<close>

partial_function (option) fold_loop ::
  "(int \<Rightarrow> int \<Rightarrow> int \<Rightarrow> data_exn + walk_forward_fold) \<Rightarrow> int \<Rightarrow> fold_policy \<Rightarrow> int \<Rightarrow> int \<Rightarrow> walk_forward_fold list \<Rightarrow>
     (data_exn + walk_forward_fold list) option" where
  "fold_loop build row_count policy train_end_exclusive fold_index folds =
     (let assessment_start = train_end_exclusive + fp_boundary_exclusion_sessions policy;
          remaining_assessment_rows = row_count - assessment_start in
      if remaining_assessment_rows < fp_minimum_final_assessment_rows policy then Some (Inr folds)
      else (case build fold_index train_end_exclusive
                   (min (fp_assessment_window_rows policy) remaining_assessment_rows) of
              Inl e \<Rightarrow> Some (Inl e)
            | Inr new \<Rightarrow>
                fold_loop build row_count policy (train_end_exclusive + fp_step_rows policy) (fold_index + 1)
                  (folds @ [new])))"

text \<open>The body of the loop: the three slices of the fold whose training ends at \<open>train_end_exclusive\<close>.\<close>

definition build_fold_at ::
  "fold_digests \<Rightarrow> label list \<Rightarrow> dataset_lineage \<Rightarrow> string \<Rightarrow> string \<Rightarrow> runtime_lineage \<Rightarrow> fold_policy \<Rightarrow>
     int \<Rightarrow> int \<Rightarrow> int \<Rightarrow> data_exn + walk_forward_fold" where
  "build_fold_at sha labels lineage feature_schema label_schema runtime policy fold_index train_end assessment_rows =
     (let assessment_start = train_end + fp_boundary_exclusion_sessions policy in
      build_fold sha labels lineage feature_schema label_schema runtime policy fold_index
        (0, train_end) (train_end, assessment_start) (assessment_start, assessment_start + assessment_rows))"

definition validated_labels :: "supervised_dataset \<Rightarrow> dataset_lineage \<Rightarrow> data_exn + label list" where
  "validated_labels d lineage =
     (let err = WalkForwardSplitError; metadata = sd_metadata d; sessions = map lb_session (sd_labels d) in
     rbind (reject_if (dm_source_market_data_checksum metadata \<noteq> dl_canonical_dataset_checksum lineage)
              (err ''dataset_checksum_mismatch'')) (\<lambda>_.
     rbind (reject_if (dm_first_session metadata < dl_first_session lineage)
              (err ''supervised_before_dataset_range'')) (\<lambda>_.
     rbind (reject_if (dl_last_session lineage < dm_last_session metadata)
              (err ''supervised_after_dataset_range'')) (\<lambda>_.
     rbind (reject_if (length (sd_features d) \<noteq> length (sd_labels d))
              (err ''supervised_row_count_mismatch'')) (\<lambda>_.
     rbind (reject_if (\<not> strictly_increasing sessions) (err ''invalid_supervised_sessions'')) (\<lambda>_.
     Inr (sd_labels d)))))))"

definition construct_walk_forward_manifest ::
  "fold_digests \<Rightarrow> supervised_dataset \<Rightarrow> dataset_lineage \<Rightarrow> runtime_lineage \<Rightarrow> fold_policy option \<Rightarrow>
     (data_exn + walk_forward_manifest) option" where
  "construct_walk_forward_manifest sha d lineage runtime policy =
     (let fold_policy = (case policy of None \<Rightarrow> default_fold_policy | Some p \<Rightarrow> p);
          feature_schema = dm_feature_schema_version (sd_metadata d);
          label_schema = dm_label_schema_version (sd_metadata d) in
      case rbind (validate_phase2_final_test_isolation [dl_dataset_id lineage]) (\<lambda>_.
             rbind (validated_labels d lineage) (\<lambda>labels.
             let first_assessment_start =
                   fp_minimum_initial_training_rows fold_policy + fp_boundary_exclusion_sessions fold_policy in
             rbind (reject_if (int (length labels) - first_assessment_start < fp_minimum_final_assessment_rows fold_policy)
                      (WalkForwardSplitError ''insufficient_walk_forward_rows'')) (\<lambda>_.
             Inr labels))) of
        Inl e \<Rightarrow> Some (Inl e)
      | Inr labels \<Rightarrow>
          (case fold_loop (build_fold_at sha labels lineage feature_schema label_schema runtime fold_policy)
                  (int (length labels)) fold_policy (fp_minimum_initial_training_rows fold_policy) 0 [] of
             None \<Rightarrow> None
           | Some (Inl e) \<Rightarrow> Some (Inl e)
           | Some (Inr folds) \<Rightarrow>
               Some (rbind (mk_walk_forward_manifest
                   \<lparr>wfm_fold_manifest_id = ''pending'', wfm_dataset_lineage = lineage,
                    wfm_feature_schema = feature_schema, wfm_label_schema = label_schema,
                    wfm_fold_policy = fold_policy, wfm_supervised_row_count = int (length labels),
                    wfm_folds = folds\<rparr>) (\<lambda>manifest.
                 mk_walk_forward_manifest
                   (manifest \<lparr>wfm_fold_manifest_id := fold_manifest_identity sha manifest\<rparr>)))))"

end
