(* ===== verification/Data_Join.thy ===== *)
theory Data_Join
  imports Data_Split_Properties
begin

text \<open>The supervised dataset is the join of the feature and the label sessions, when neither side has a gap in the
  span of the other.\<close>

definition wf_feature_set :: "feature_set \<Rightarrow> bool" where
  "wf_feature_set f \<longleftrightarrow>
     fs_data f \<noteq> [] \<and> increasing (map fr_session (fs_data f)) \<and> feature_rows_ok (fs_data f) \<and>
     is_checksum (fs_source_market_data_checksum f) \<and> fs_source_schema_version f = SCHEMA_VERSION \<and>
     fs_feature_schema_version f = FEATURE_SCHEMA_VERSION \<and> fs_feature_columns f = FEATURE_COLUMNS"

definition wf_label_set :: "label_set \<Rightarrow> bool" where
  "wf_label_set l \<longleftrightarrow>
     ls_data l \<noteq> [] \<and> wf_labels (ls_data l) \<and> is_checksum (ls_source_market_data_checksum l) \<and>
     ls_source_schema_version l = SCHEMA_VERSION \<and> ls_label_schema_version l = LABEL_SCHEMA_VERSION"

lemma mk_feature_set_wf: "mk_feature_set obj = Inr f \<Longrightarrow> wf_feature_set f"
  unfolding mk_feature_set_def Let_def
  by (elim rbind_InrE)
     (auto simp: wf_feature_set_def typed_feature_rows_ok dates_of_cells comp_def typed_feature_row_def)

lemma mk_label_set_wf:
  assumes "mk_label_set obj = Inr l"
  shows "wf_label_set l"
proof -
  have "ls_data l \<noteq> []" "is_checksum (ls_source_market_data_checksum l)"
    "ls_source_schema_version l = SCHEMA_VERSION" "ls_label_schema_version l = LABEL_SCHEMA_VERSION"
    using assms unfolding mk_label_set_def Let_def
    by (elim rbind_InrE; auto simp: rbind_eq_Inr_iff split: prod.splits)+
  then show ?thesis using mk_label_set_Inr(2) [OF assms] by (simp add: wf_label_set_def)
qed

section \<open>The common sessions\<close>

definition feature_sessions :: "feature_set \<Rightarrow> date list" where
  "feature_sessions f = map fr_session (fs_data f)"

definition label_sessions :: "label_set \<Rightarrow> date list" where
  "label_sessions l = map lb_session (ls_data l)"

definition covers :: "date list \<Rightarrow> date list \<Rightarrow> bool" where
  "covers ss ts \<longleftrightarrow> (\<forall>s \<in> set ts. hd ss \<le> s \<and> s \<le> last ss \<longrightarrow> s \<in> set ss)"

lemma increasing_span:
  assumes "increasing ss" "s \<in> set ss"
  shows "hd ss \<le> s" "s \<le> last ss"
proof -
  obtain ys zs where "ss = ys @ s # zs" using assms(2) by (auto simp: in_set_conv_decomp)
  then show "hd ss \<le> s" "s \<le> last ss"
    using assms(1) by (cases ys; cases zs rule: rev_cases; auto simp: sorted_wrt_append less_imp_le)+
qed

lemma within_span_common:
  assumes "increasing ss"
  shows "filter (\<lambda>s. s \<in> set ss) ts = filter (\<lambda>s. hd ss \<le> s \<and> s \<le> last ss) ts \<longleftrightarrow> covers ss ts"
proof
  assume eq: "filter (\<lambda>s. s \<in> set ss) ts = filter (\<lambda>s. hd ss \<le> s \<and> s \<le> last ss) ts"
  show "covers ss ts"
    unfolding covers_def
  proof (intro ballI impI)
    fix s assume "s \<in> set ts" "hd ss \<le> s \<and> s \<le> last ss"
    then have "s \<in> set (filter (\<lambda>s. hd ss \<le> s \<and> s \<le> last ss) ts)" by simp
    then show "s \<in> set ss" unfolding eq [symmetric] by simp
  qed
next
  assume covers: "covers ss ts"
  show "filter (\<lambda>s. s \<in> set ss) ts = filter (\<lambda>s. hd ss \<le> s \<and> s \<le> last ss) ts"
  proof (rule filter_cong [OF refl])
    fix s assume "s \<in> set ts"
    then have "hd ss \<le> s \<and> s \<le> last ss \<longrightarrow> s \<in> set ss" using covers by (simp add: covers_def)
    then show "s \<in> set ss \<longleftrightarrow> hd ss \<le> s \<and> s \<le> last ss"
      using increasing_span [OF assms, of s] by blast
  qed
qed

lemma common_either_side:
  assumes "increasing ss" "increasing ts"
  shows "filter (\<lambda>s. s \<in> set ts) ss = filter (\<lambda>s. s \<in> set ss) ts"
  by (rule strict_sorted_equal) (use assms in \<open>auto simp: increasing_filter\<close>)

lemma label_of_session_in:
  assumes "increasing (map lb_session ls)" "l \<in> set ls"
  shows "label_of_session ls (lb_session l) = Some l"
  using assms by (induction ls) (auto simp: label_of_session_def)

lemma aligned_labels:
  assumes "increasing (map lb_session ls)"
  shows "map (\<lambda>s. the (label_of_session ls s)) (filter P (map lb_session ls)) = filter (\<lambda>l. P (lb_session l)) ls"
proof -
  have "map (\<lambda>s. the (label_of_session ls s)) (map lb_session xs) = xs" if "set xs \<subseteq> set ls" for xs
    using that by (induction xs) (auto simp: label_of_session_in [OF assms])
  from this [of "filter (\<lambda>l. P (lb_session l)) ls"] show ?thesis by (simp add: filter_map comp_def)
qed

lemma span_convex:
  assumes "timeline ls"
  shows "convex_on (\<lambda>l. a \<le> lb_session l \<and> lb_session l \<le> b) ls"
  unfolding convex_on_def
proof (intro allI impI)
  fix i j k
  assume ij: "i < j" "j < k" "k < length ls"
    and "a \<le> lb_session (ls ! i) \<and> lb_session (ls ! i) \<le> b"
    and "a \<le> lb_session (ls ! k) \<and> lb_session (ls ! k) \<le> b"
  then show "a \<le> lb_session (ls ! j) \<and> lb_session (ls ! j) \<le> b"
    using increasing_nth [OF timelineD(1) [OF assms], of i j] increasing_nth [OF timelineD(1) [OF assms], of j k] by auto
qed

section \<open>Building the dataset\<close>

lemma reject_if_same: "x = y \<Longrightarrow> reject_if (x \<noteq> y) e = Inr ()"
  by simp

lemma reject_if_other: "x \<noteq> y \<Longrightarrow> reject_if (x = y) e = Inr ()"
  by simp

text \<open>A dataset of well-formed aligned rows is accepted as it is.\<close>

lemma mk_supervised_dataset_of_rows:
  assumes "timeline ls" "list_all label_target_ok ls" "feature_rows_ok fs" "ls \<noteq> []"
    and "map fr_session fs = map lb_session ls" "wf_dataset_metadata m"
    and "dm_row_count m = int (length ls)" "dm_first_session m = lb_session (hd ls)"
      "dm_last_session m = lb_session (last ls)"
  shows "mk_supervised_dataset (feature_frame_of fs) (label_frame_of ls) m =
     Inr \<lparr>sd_features = fs, sd_labels = ls, sd_metadata = m\<rparr>"
proof -
  have len: "length fs = length ls" using assms(5) by (metis length_map)
  have sessions: "validate_strictly_increasing_sessions DatasetAlignmentError f c1 c2
      (map (PyDate \<circ> lb_session) ls) = Inr (map lb_session ls)" for f c1 c2
    using timelineD(1) [OF assms(1)] by simp
  have "map fro_session (map raw_feature_row_of fs) = map PyDate (map lb_session ls)"
    by (simp flip: assms(5))
  then have rows: "map (fro_session \<circ> raw_feature_row_of) fs = map (PyDate \<circ> lb_session) ls" by simp
  have labels: "validate_label_timeline DatasetAlignmentError p (map label_row ls) =
      Inr (map lb_session ls, map lb_entry_session ls, map lb_exit_session ls)" for p
    using assms(1) by (simp add: timeline_of_rows)
  have typed: "map typed_feature_row (map raw_feature_row_of fs) = fs" "map typed_label (map label_row ls) = ls"
    using typed_raw_feature_rows [OF assms(3)] by (simp_all add: comp_def)
  have returns: "validate_finite_float64_columns DatasetAlignmentError c1 c2 canonical_label_dtype
      (return_columns (map label_row ls)) = Inr ()" for c1 c2
    by simp
  have targets: "validate_target_consistency DatasetAlignmentError c1 c2 c3 c4 (canonical_label_dtype ''target'')
      (map label_row ls) = Inr ()" for c1 c2 c3 c4
    using assms(2) by (simp only: targets_of_rows)
  have columns: "\<not> list_ex (\<lambda>c. c \<in> set FORBIDDEN_MODEL_FEATURE_COLUMNS) FEATURE_FRAME_COLUMNS"
    "''session'' # FEATURE_COLUMNS = FEATURE_FRAME_COLUMNS"
    by (simp_all add: FORBIDDEN_MODEL_FEATURE_COLUMNS_def FEATURE_FRAME_COLUMNS_def FEATURE_COLUMNS_def)
  have ne: "fs \<noteq> []" using assms(4) len by auto
  show ?thesis
    using assms(4,7-9) len ne
    unfolding mk_supervised_dataset_def Let_def label_frame_simps labels
      feature_columns_finite [OF assms(3)] feature_frame_simps(1,2) typed
    by (simp add: wf_dataset_metadataD [OF assms(6)] columns hd_map last_map returns targets
        feature_columns_finite [OF assms(3), simplified] sessions rows
        del: canonical_label_dtype_simps finite_float64_columns_Inr increasing_sessions_Inr)
qed

definition joined_features :: "feature_set \<Rightarrow> label_set \<Rightarrow> feature_row list" where
  "joined_features f l = filter (\<lambda>r. fr_session r \<in> set (label_sessions l)) (fs_data f)"

definition joined_labels :: "feature_set \<Rightarrow> label_set \<Rightarrow> label list" where
  "joined_labels f l = filter (\<lambda>r. lb_session r \<in> set (feature_sessions f)) (ls_data l)"

abbreviation common_sessions :: "feature_set \<Rightarrow> label_set \<Rightarrow> date list" where
  "common_sessions f l \<equiv> filter (\<lambda>s. s \<in> set (label_sessions l)) (feature_sessions f)"

lemma wf_sessions:
  "wf_feature_set f \<Longrightarrow> increasing (feature_sessions f)"
  "wf_label_set l \<Longrightarrow> increasing (label_sessions l)"
  "wf_label_set l \<Longrightarrow> timeline (ls_data l)"
  "wf_label_set l \<Longrightarrow> list_all label_target_ok (ls_data l)"
  by (simp_all add: wf_feature_set_def wf_label_set_def wf_labels_def feature_sessions_def label_sessions_def timelineD)

lemma aligned_label_set:
  assumes "wf_label_set l"
  shows "map (\<lambda>s. the (label_of_session (ls_data l) s)) (filter P (label_sessions l)) =
    filter (\<lambda>r. P (lb_session r)) (ls_data l)"
  unfolding label_sessions_def
  by (rule aligned_labels) (use wf_sessions(2) [OF assms] in \<open>simp add: label_sessions_def\<close>)

lemma joined_sessions:
  assumes "wf_feature_set f" "wf_label_set l"
  shows "map fr_session (joined_features f l) = common_sessions f l"
    and "map lb_session (joined_labels f l) = common_sessions f l"
    and "map (\<lambda>s. the (label_of_session (ls_data l) s)) (common_sessions f l) = joined_labels f l"
    and "filter (\<lambda>r. fr_session r \<in> set (common_sessions f l)) (fs_data f) = joined_features f l"
proof -
  note inc = wf_sessions(1) [OF assms(1)] wf_sessions(2) [OF assms(2)]
  note both = common_either_side [OF inc]
  show "map fr_session (joined_features f l) = common_sessions f l"
    by (simp add: joined_features_def feature_sessions_def filter_map comp_def)
  show "map lb_session (joined_labels f l) = common_sessions f l"
    unfolding both by (simp add: joined_labels_def label_sessions_def filter_map comp_def)
  show "map (\<lambda>s. the (label_of_session (ls_data l) s)) (common_sessions f l) = joined_labels f l"
    unfolding both joined_labels_def by (rule aligned_label_set [OF assms(2)])
  show "filter (\<lambda>r. fr_session r \<in> set (common_sessions f l)) (fs_data f) = joined_features f l"
    unfolding joined_features_def by (rule filter_cong) (auto simp: feature_sessions_def)
qed

lemma common_spans:
  assumes "wf_feature_set f" "wf_label_set l"
  shows "common_sessions f l =
        filter (\<lambda>s. hd (label_sessions l) \<le> s \<and> s \<le> last (label_sessions l)) (feature_sessions f) \<longleftrightarrow>
      covers (label_sessions l) (feature_sessions f)"
    and "common_sessions f l =
        filter (\<lambda>s. hd (feature_sessions f) \<le> s \<and> s \<le> last (feature_sessions f)) (label_sessions l) \<longleftrightarrow>
      covers (feature_sessions f) (label_sessions l)"
proof -
  note inc = wf_sessions(1) [OF assms(1)] wf_sessions(2) [OF assms(2)]
  show "common_sessions f l =
        filter (\<lambda>s. hd (label_sessions l) \<le> s \<and> s \<le> last (label_sessions l)) (feature_sessions f) \<longleftrightarrow>
      covers (label_sessions l) (feature_sessions f)"
    by (rule within_span_common [OF inc(2)])
  show "common_sessions f l =
        filter (\<lambda>s. hd (feature_sessions f) \<le> s \<and> s \<le> last (feature_sessions f)) (label_sessions l) \<longleftrightarrow>
      covers (feature_sessions f) (label_sessions l)"
    unfolding common_either_side [OF inc] by (rule within_span_common [OF inc(1)])
qed

lemma joined_labels_timeline:
  assumes "wf_feature_set f" "wf_label_set l" "covers (feature_sessions f) (label_sessions l)"
  shows "timeline (joined_labels f l)"
proof -
  let ?align = "map (\<lambda>s. the (label_of_session (ls_data l) s))"
  have "joined_labels f l = ?align (common_sessions f l)"
    by (rule joined_sessions(3) [OF assms(1,2), symmetric])
  also have "\<dots> = ?align (filter (\<lambda>s. hd (feature_sessions f) \<le> s \<and> s \<le> last (feature_sessions f)) (label_sessions l))"
    by (rule arg_cong [OF common_spans(2) [OF assms(1,2), THEN iffD2, OF assms(3)]])
  also have "\<dots> = filter (\<lambda>r. hd (feature_sessions f) \<le> lb_session r \<and> lb_session r \<le> last (feature_sessions f)) (ls_data l)"
    by (rule aligned_label_set [OF assms(2)])
  finally show ?thesis
    using timeline_filter [OF wf_sessions(3) [OF assms(2)] span_convex [OF wf_sessions(3) [OF assms(2)]]] by simp
qed

lemma build_supervised_dataset_Inr:
  assumes wf: "wf_feature_set f" "wf_label_set l"
    and checksum: "fs_source_market_data_checksum f = ls_source_market_data_checksum l"
    and common: "common_sessions f l \<noteq> []"
    and covers: "covers (label_sessions l) (feature_sessions f)" "covers (feature_sessions f) (label_sessions l)"
  shows "\<exists>m. build_supervised_dataset f l (PyAware created) =
      Inr \<lparr>sd_features = joined_features f l, sd_labels = joined_labels f l, sd_metadata = m\<rparr> \<and>
      wf_dataset_metadata m"
proof -
  note sessions = joined_sessions [OF wf]
  note spans = common_spans(1) [OF wf, THEN iffD2, OF covers(1)] common_spans(2) [OF wf, THEN iffD2, OF covers(2)]
  define fs where "fs = joined_features f l"
  define ls where "ls = joined_labels f l"
  have same: "map fr_session fs = map lb_session ls" by (simp add: fs_def ls_def sessions)
  then have len: "length fs = length ls" by (metis length_map)
  have ne: "fs \<noteq> []" "ls \<noteq> []" using common sessions(1,2) by (auto simp: fs_def ls_def)
  have ends: "fr_session (hd fs) = lb_session (hd ls)" "fr_session (last fs) = lb_session (last ls)"
    using same ne by (metis hd_map, metis last_map)
  have timeline: "timeline ls" unfolding ls_def by (rule joined_labels_timeline [OF wf covers(2)])
  have order: "lb_session (hd ls) \<le> lb_session (last ls)"
    using increasing_hd_last [OF timelineD(1) [OF timeline]] ne by (simp add: hd_map last_map)
  have rows: "feature_rows_ok fs" "list_all label_target_ok ls"
    using wf(1) wf_sessions(4) [OF wf(2)]
    by (auto simp: wf_feature_set_def feature_rows_ok_def list_all_iff fs_def ls_def joined_features_def joined_labels_def)
  define m where "m = \<lparr>dm_source_market_data_checksum = fs_source_market_data_checksum f,
      dm_source_schema_version = SCHEMA_VERSION, dm_feature_schema_version = FEATURE_SCHEMA_VERSION,
      dm_label_schema_version = LABEL_SCHEMA_VERSION, dm_feature_columns = FEATURE_COLUMNS,
      dm_row_count = int (length ls), dm_first_session = lb_session (hd ls),
      dm_last_session = lb_session (last ls), dm_created_at = created\<rparr>"
  have m: "wf_dataset_metadata m" using wf(1) by (simp add: m_def wf_dataset_metadata_def wf_feature_set_def)
  have metadata: "mk_dataset_metadata
      \<lparr>dmo_source_market_data_checksum = PyStr (fs_source_market_data_checksum f),
       dmo_source_schema_version = PyStr (fs_source_schema_version f),
       dmo_feature_schema_version = PyStr (fs_feature_schema_version f),
       dmo_label_schema_version = PyStr (ls_label_schema_version l),
       dmo_feature_columns = fs_feature_columns f, dmo_row_count = PyInt (int (length fs)),
       dmo_first_session = PyDate (fr_session (hd fs)), dmo_last_session = PyDate (fr_session (last fs)),
       dmo_created_at = PyAware created\<rparr> = Inr m"
    using wf ne order
    by (simp add: mk_dataset_metadata_def rbind_eq_Inr_iff m_def wf_feature_set_def wf_label_set_def ends len)
  have built: "mk_supervised_dataset (feature_frame_of fs) (label_frame_of ls) m =
      Inr \<lparr>sd_features = fs, sd_labels = ls, sd_metadata = m\<rparr>"
    by (rule mk_supervised_dataset_of_rows [OF timeline rows(2,1) ne(2) same m]) (simp_all add: m_def)
  have versions: "fs_source_schema_version f = ls_source_schema_version l"
    using wf by (simp add: wf_feature_set_def wf_label_set_def)
  show ?thesis
    unfolding build_supervised_dataset_def Let_def feature_sessions_def [symmetric] label_sessions_def [symmetric]
      sessions(3,4) fs_def [symmetric] ls_def [symmetric] reject_if_same [OF checksum] reject_if_same [OF versions]
      reject_if_same [OF spans(1)] reject_if_same [OF spans(2)] reject_if_other [OF common] rbind_Inr metadata
    using built m by blast
qed

text \<open>C31: when the features and the labels come from the same data and neither has a gap inside the span of the
  other, the dataset has exactly the rows of their common sessions, the features next to the labels of the same
  session, and is well formed; it is refused only for different sources, no common session, a gap, or a
  creation time that is no aware timestamp.\<close>

theorem supervised_dataset_is_the_join:
  assumes "wf_feature_set f" and "wf_label_set l"
  shows "case build_supervised_dataset f l created_at of
      Inl e \<Rightarrow>
        fs_source_market_data_checksum f \<noteq> ls_source_market_data_checksum l \<or>
        set (feature_sessions f) \<inter> set (label_sessions l) = {} \<or>
        \<not> covers (label_sessions l) (feature_sessions f) \<or> \<not> covers (feature_sessions f) (label_sessions l) \<or>
        (\<nexists>t. created_at = PyAware t)
    | Inr d \<Rightarrow>
        wf_supervised d \<and> fs_source_market_data_checksum f = ls_source_market_data_checksum l \<and>
        sd_features d = filter (\<lambda>r. fr_session r \<in> set (label_sessions l)) (fs_data f) \<and>
        sd_labels d = filter (\<lambda>r. lb_session r \<in> set (feature_sessions f)) (ls_data l)"
proof (cases "build_supervised_dataset f l created_at")
  case (Inl e)
  have "common_sessions f l = [] \<longleftrightarrow> set (feature_sessions f) \<inter> set (label_sessions l) = {}"
    by (auto simp: filter_empty_conv)
  moreover have False
    if "fs_source_market_data_checksum f = ls_source_market_data_checksum l" "common_sessions f l \<noteq> []"
      "covers (label_sessions l) (feature_sessions f)" "covers (feature_sessions f) (label_sessions l)"
      "created_at = PyAware t" for t
    using Inl build_supervised_dataset_Inr [OF assms that(1-4), of t] that(5) by auto
  ultimately show ?thesis unfolding Inl sum.case by blast
next
  case (Inr d)
  then have checks: "fs_source_market_data_checksum f = ls_source_market_data_checksum l"
    "common_sessions f l \<noteq> []" "covers (label_sessions l) (feature_sessions f)"
    "covers (feature_sessions f) (label_sessions l)" "\<exists>t. created_at = PyAware t"
    unfolding common_spans [OF assms, symmetric] unfolding feature_sessions_def label_sessions_def
    by (auto simp: build_supervised_dataset_def Let_def rbind_eq_Inr_iff mk_dataset_metadata_def)
  then obtain t where "created_at = PyAware t" by blast
  with Inr build_supervised_dataset_Inr [OF assms checks(1-4), of t] obtain m where
    d: "d = \<lparr>sd_features = joined_features f l, sd_labels = joined_labels f l, sd_metadata = m\<rparr>"
    and m: "wf_dataset_metadata m" by auto
  have "map fr_session (sd_features d) = map lb_session (sd_labels d)" "sd_labels d \<noteq> []"
    using joined_sessions(1,2) [OF assms] checks(2) by (auto simp: d)
  moreover have "timeline (sd_labels d)"
    using joined_labels_timeline [OF assms checks(4)] by (simp add: d)
  ultimately have "wf_supervised d"
    using assms wf_sessions(4) [OF assms(2)] m unfolding wf_supervised_def
    by (auto simp: d wf_labels_def wf_feature_set_def feature_rows_ok_def list_all_iff joined_features_def joined_labels_def)
  then show ?thesis using checks(1) by (simp add: Inr d joined_features_def joined_labels_def)
qed

end
