(* ===== verification/Fold_Properties.thy ===== *)
theory Fold_Properties
  imports Fold_Build Data_Join
begin

text \<open>The walk-forward loop returns for every accepted policy, and its folds leak nothing from an assessment window
  into the training rows before it.\<close>

section \<open>The loop returns\<close>

lemma fold_loop_returns:
  assumes "0 < fp_step_rows policy"
  shows "\<exists>r. fold_loop build n policy t i fs = Some r"
proof (induction "nat (n - t - fp_boundary_exclusion_sessions policy - fp_minimum_final_assessment_rows policy + 1)"
    arbitrary: t i fs rule: less_induct)
  case less
  show ?case
  proof (cases "n - (t + fp_boundary_exclusion_sessions policy) < fp_minimum_final_assessment_rows policy")
    case True
    then show ?thesis by (subst fold_loop.simps) (simp add: Let_def)
  next
    case False
    then have "\<exists>r. fold_loop build n policy (t + fp_step_rows policy) i' fs' = Some r" for i' fs'
      using assms by (intro less) simp
    then show ?thesis by (subst fold_loop.simps) (auto simp: Let_def split: sum.split)
  qed
qed

lemma mk_fold_policyD:
  assumes "mk_fold_policy p = Inr q"
  shows "q = p" "fp_boundary_exclusion_sessions p = 6" "756 \<le> fp_minimum_initial_training_rows p"
    "fp_minimum_final_assessment_rows p \<le> fp_assessment_window_rows p" "0 < fp_step_rows p"
  using assms
  by (auto simp: mk_fold_policy_def rbind_eq_Inr_iff BOUNDARY_EXCLUSION_SESSIONS_def MINIMUM_INITIAL_TRAINING_ROWS_def)

lemma default_fold_policy_accepted: "mk_fold_policy default_fold_policy = Inr default_fold_policy"
  by (simp add: mk_fold_policy_def default_fold_policy_def rbind_eq_Inr_iff MINIMUM_FINAL_ASSESSMENT_ROWS_def
      DEFAULT_ASSESSMENT_WINDOW_ROWS_def DEFAULT_STEP_ROWS_def)

text \<open>The policy that the construction uses.\<close>

definition policy_used :: "fold_policy option \<Rightarrow> fold_policy" where
  "policy_used policy = (case policy of None \<Rightarrow> default_fold_policy | Some p \<Rightarrow> p)"

definition policy_accepted :: "fold_policy option \<Rightarrow> bool" where
  "policy_accepted policy \<longleftrightarrow> (case policy of None \<Rightarrow> True | Some p \<Rightarrow> mk_fold_policy p = Inr p)"

lemma policy_used_accepted: "policy_accepted policy \<Longrightarrow> mk_fold_policy (policy_used policy) = Inr (policy_used policy)"
  by (auto simp: policy_accepted_def policy_used_def default_fold_policy_accepted split: option.splits)

text \<open>C32: the construction of the walk-forward folds returns, with a manifest or an error, for every dataset and
  every policy that the policy's constructor accepts.\<close>

theorem walk_forward_construction_returns:
  assumes "policy_accepted policy"
  shows "\<exists>r. construct_walk_forward_manifest sha d lineage runtime policy = Some r"
proof -
  have "0 < fp_step_rows (policy_used policy)"
    by (rule mk_fold_policyD(5) [OF policy_used_accepted [OF assms]])
  note loop = fold_loop_returns [OF this]
  have "\<exists>r. (case fold_loop build n (policy_used policy) t i fs of None \<Rightarrow> None
      | Some (Inl e) \<Rightarrow> Some (Inl e) | Some (Inr folds) \<Rightarrow> Some (g folds)) = Some r" for build n t i fs and g
    using loop [of build n t i fs] by (auto split: sum.split)
  then show ?thesis
    unfolding construct_walk_forward_manifest_def Let_def policy_used_def [symmetric]
    by (auto split: sum.split)
qed

section \<open>Windows\<close>

lemma py_slice_nat:
  assumes "a \<le> b" "b \<le> length xs"
  shows "py_slice (int a) (int b) xs = take (b - a) (drop a xs)"
  using assms by (simp add: py_slice_def slice_bound_def min_def)

definition window_of :: "label list \<Rightarrow> session_window" where
  "window_of ls =
     \<lparr>sw_prediction_sessions = map lb_session ls, sw_entry_sessions = map lb_entry_session ls,
      sw_exit_sessions = map lb_exit_session ls, sw_positive_count = sum_list (map lb_target ls),
      sw_negative_count = int (length ls) - sum_list (map lb_target ls)\<rparr>"

lemma target_sum:
  "list_all label_target_ok ls \<Longrightarrow> 0 \<le> sum_list (map lb_target ls) \<and> sum_list (map lb_target ls) \<le> int (length ls)"
  by (induction ls) (auto simp: label_target_ok_def)

lemma window_of_labels_Inr:
  assumes "wf_labels ls" "ls \<noteq> []"
    and "(if name = ''training'' then fp_minimum_initial_training_rows policy
          else fp_minimum_final_assessment_rows policy) \<le> int (length ls)"
  shows "window_of_labels ls name policy = Inr (window_of ls)"
proof -
  have sessions: "increasing (map lb_session ls)" "increasing (map lb_entry_session ls)"
    "increasing (map lb_exit_session ls)" and targets: "list_all label_target_ok ls"
    using assms(1) by (simp_all add: wf_labels_def timeline_def)
  have "mk_session_window (window_of ls) = Inr (window_of ls)"
    using assms(2) sessions target_sum [OF targets]
    by (simp add: window_of_def mk_session_window_def rbind_eq_Inr_iff)
  moreover have "\<not> int (length ls) < (if name = ''training'' then fp_minimum_initial_training_rows policy
      else fp_minimum_final_assessment_rows policy)"
    using assms(3) by simp
  ultimately show ?thesis
    using assms(2) unfolding window_of_labels_def Let_def by (simp add: window_of_def)
qed

lemma wf_labels_slice: "wf_labels ls \<Longrightarrow> wf_labels (take m (drop k ls))"
  by (auto simp: wf_labels_def timeline_take timeline_drop list_all_iff dest: in_set_takeD in_set_dropD)

section \<open>The folds that fit\<close>

definition training_end :: "fold_policy \<Rightarrow> nat \<Rightarrow> nat" where
  "training_end policy k = nat (fp_minimum_initial_training_rows policy + int k * fp_step_rows policy)"

definition assessment_rows :: "fold_policy \<Rightarrow> nat \<Rightarrow> nat \<Rightarrow> nat" where
  "assessment_rows policy n k = min (nat (fp_assessment_window_rows policy)) (n - (training_end policy k + 6))"

definition fold_fits :: "fold_policy \<Rightarrow> nat \<Rightarrow> nat \<Rightarrow> bool" where
  "fold_fits policy n k \<longleftrightarrow> training_end policy k + 6 + nat (fp_minimum_final_assessment_rows policy) \<le> n"

text \<open>Fold \<open>k\<close> as it is meant to be: a prefix for training, the next six rows purged, the rows after them assessed.\<close>

definition planned_fold ::
  "fold_digests \<Rightarrow> supervised_dataset \<Rightarrow> dataset_lineage \<Rightarrow> runtime_lineage \<Rightarrow> fold_policy \<Rightarrow> nat \<Rightarrow> walk_forward_fold" where
  "planned_fold sha d lineage runtime policy k =
     (let t = training_end policy k; ls = sd_labels d;
          pending = \<lparr>wff_fold_id = ''pending'', wff_fold_index = int k, wff_dataset_id = dl_dataset_id lineage,
            wff_canonical_dataset_checksum = dl_canonical_dataset_checksum lineage,
            wff_feature_schema = dm_feature_schema_version (sd_metadata d),
            wff_label_schema = dm_label_schema_version (sd_metadata d),
            wff_fold_policy_id = WALK_FORWARD_FOLD_POLICY_ID, wff_training = window_of (take t ls),
            wff_boundary_excluded_sessions = map lb_session (take 6 (drop t ls)),
            wff_assessment = window_of (take (assessment_rows policy (length ls) k) (drop (t + 6) ls)),
            wff_runtime_lineage = runtime\<rparr>
      in pending \<lparr>wff_fold_id := research_fold_identity sha pending\<rparr>)"

definition single_class_errors :: "data_exn set" where
  "single_class_errors =
     {WalkForwardSplitError ''training_window_single_class'', WalkForwardSplitError ''assessment_window_single_class''}"

lemma boundary_of_timeline:
  assumes "timeline ls" "0 < t" "t + 6 < length ls"
  shows "lb_exit_session (last (take t ls)) = lb_session (ls ! (t + 5))"
    and "lb_session (last (take t ls)) < lb_session (ls ! t)"
    and "lb_session (ls ! t) < lb_session (ls ! (t + 5))" and "lb_session (ls ! (t + 5)) < lb_session (ls ! (t + 6))"
proof -
  have last: "last (take t ls) = ls ! (t - 1)" using assms(2,3) by (subst last_conv_nth) (auto simp: min_def)
  have "\<forall>i. i + 6 < length ls \<longrightarrow> lb_exit_session (ls ! i) = lb_session (ls ! (i + 6))"
    using assms(1) by (simp add: timeline_def EXIT_OFFSET_SESSIONS_def)
  from this [rule_format, of "t - 1"] show "lb_exit_session (last (take t ls)) = lb_session (ls ! (t + 5))"
    using assms(2,3) by (simp add: last add.commute)
  note nth = increasing_nth [OF timelineD(1) [OF assms(1)]]
  show "lb_session (last (take t ls)) < lb_session (ls ! t)"
    using nth [of "t - 1" t] assms(2,3) by (simp add: last)
  show "lb_session (ls ! t) < lb_session (ls ! (t + 5))" "lb_session (ls ! (t + 5)) < lb_session (ls ! (t + 6))"
    using nth [of t "t + 5"] nth [of "t + 5" "t + 6"] assms(3) by simp_all
qed

section \<open>Identifiers\<close>

lemma contains_text_chars: "contains_text needle s \<Longrightarrow> set needle \<subseteq> set s"
proof (induction needle s rule: contains_text.induct)
  case (2 needle c cs)
  show ?case
  proof (cases "take (length needle) (c # cs) = needle")
    case True
    then show ?thesis by (metis set_take_subset)
  next
    case False
    then show ?thesis using 2 by auto
  qed
qed simp

lemma strip_nonempty:
  assumes "\<not> is_space c" "c \<in> set s"
  shows "strip s \<noteq> []"
proof -
  have "c \<in> set (takeWhile is_space s) \<or> c \<in> set (dropWhile is_space s)"
    using assms(2) by (metis UnE set_append takeWhile_dropWhile_id)
  then have "c \<in> set (dropWhile is_space s)" using assms(1) by (auto dest: set_takeWhileD)
  then show ?thesis using assms(1) by (auto simp: strip_def dropWhile_eq_Nil_conv)
qed

lemma safe_identifierI:
  assumes "\<exists>c \<in> set s. \<not> is_space c" "CHR ''/'' \<notin> set s" "CHR 0x5C \<notin> set s" "CHR ''.'' \<notin> set s"
  shows "is_nonempty_safe_identifier s"
  using assms strip_nonempty contains_text_chars [of _ s]
  by (fastforce simp: is_nonempty_safe_identifier_def)

lemma fold_identity_safe:
  assumes "is_checksum h"
  shows "is_nonempty_safe_identifier (''spy-v2p3-fold-'' @ take 20 h)"
proof (rule safe_identifierI)
  have "c \<in> set (take 20 h) \<Longrightarrow> is_hex_digit c" for c
    using assms by (auto simp: is_checksum_def list_all_iff dest: in_set_takeD)
  then have "CHR ''/'' \<notin> set (take 20 h)" "CHR 0x5C \<notin> set (take 20 h)" "CHR ''.'' \<notin> set (take 20 h)"
    by (auto simp: is_hex_digit_def)
  then show "CHR ''/'' \<notin> set (''spy-v2p3-fold-'' @ take 20 h)" "CHR 0x5C \<notin> set (''spy-v2p3-fold-'' @ take 20 h)"
    "CHR ''.'' \<notin> set (''spy-v2p3-fold-'' @ take 20 h)" by simp_all
  show "\<exists>c \<in> set (''spy-v2p3-fold-'' @ take 20 h). \<not> is_space c" by (simp add: is_space_def)
qed

lemma schema_identifiers_safe:
  "is_nonempty_safe_identifier ''pending''" "is_nonempty_safe_identifier FEATURE_SCHEMA_VERSION"
  "is_nonempty_safe_identifier LABEL_SCHEMA_VERSION" "is_nonempty_safe_identifier WALK_FORWARD_FOLD_POLICY_ID"
  by (rule safe_identifierI; simp add: FEATURE_SCHEMA_VERSION_def LABEL_SCHEMA_VERSION_def
      WALK_FORWARD_FOLD_POLICY_ID_def is_space_def)+

section \<open>Building the planned folds\<close>

definition lineage_ok :: "dataset_lineage \<Rightarrow> bool" where
  "lineage_ok lineage \<longleftrightarrow> mk_dataset_lineage lineage = Inr lineage"

definition hex_digests :: "fold_digests \<Rightarrow> bool" where
  "hex_digests sha \<longleftrightarrow> (\<forall>x. is_checksum (fd_fold sha x)) \<and> (\<forall>x. is_checksum (fd_manifest sha x))"

lemma mk_planned_fold:
  fixes sha d lineage runtime policy k
  defines "f \<equiv> planned_fold sha d lineage runtime policy k"
  assumes d: "wf_supervised d" and lineage: "lineage_ok lineage"
    and t: "0 < training_end policy k" "training_end policy k + 6 < length (sd_labels d)"
    and rows: "0 < assessment_rows policy (length (sd_labels d)) k"
    and id: "is_nonempty_safe_identifier i"
  shows "mk_walk_forward_fold (f \<lparr>wff_fold_id := i\<rparr>) = Inr (f \<lparr>wff_fold_id := i\<rparr>)"
    and "last_exit_session (wff_training f) = last (wff_boundary_excluded_sessions f)"
    and "last_exit_session (wff_training f) < first_prediction_session (wff_assessment f)"
proof -
  let ?ls = "sd_labels d" and ?t = "training_end policy k"
  define a where "a = assessment_rows policy (length ?ls) k"
  have timeline: "timeline ?ls" using d by (simp add: wf_supervised_def wf_labels_def)
  note at = boundary_of_timeline [OF timeline t]
  have boundary: "length (map lb_session (take 6 (drop ?t ?ls))) = 6" using t by simp
  have bsess: "hd (map lb_session (take 6 (drop ?t ?ls))) = lb_session (?ls ! ?t)"
    "last (map lb_session (take 6 (drop ?t ?ls))) = lb_session (?ls ! (?t + 5))"
    using t boundary by (simp_all add: hd_map hd_drop_conv_nth hd_take last_map last_conv_nth)
  have train: "last_prediction_session (window_of (take ?t ?ls)) = lb_session (last (take ?t ?ls))"
    "last_exit_session (window_of (take ?t ?ls)) = lb_exit_session (last (take ?t ?ls))"
    using t by (auto simp: last_prediction_session_def last_exit_session_def window_of_def intro!: last_map)
  have assess: "first_prediction_session (window_of (take a (drop (?t + 6) ?ls))) = lb_session (?ls ! (?t + 6))"
    using t rows by (simp add: a_def first_prediction_session_def window_of_def hd_map hd_take hd_drop_conv_nth)
  have inc: "increasing (map lb_session (take 6 (drop ?t ?ls)))"
    using timelineD(1) [OF timeline_take [OF timeline_drop [OF timeline]]] .
  show "last_exit_session (wff_training f) = last (wff_boundary_excluded_sessions f)"
    "last_exit_session (wff_training f) < first_prediction_session (wff_assessment f)"
    using train assess bsess at by (simp_all add: f_def planned_fold_def Let_def a_def [symmetric])
  show "mk_walk_forward_fold (f \<lparr>wff_fold_id := i\<rparr>) = Inr (f \<lparr>wff_fold_id := i\<rparr>)"
    using lineage id boundary d train assess bsess at inc
    by (simp add: mk_walk_forward_fold_def f_def planned_fold_def Let_def rbind_eq_Inr_iff lineage_ok_def
        mk_dataset_lineage_def schema_identifiers_safe wf_supervised_def wf_dataset_metadata_def a_def [symmetric]
        BOUNDARY_EXCLUSION_SESSIONS_def)
qed

definition policy_ok :: "fold_policy \<Rightarrow> bool" where
  "policy_ok p \<longleftrightarrow> mk_fold_policy p = Inr p \<and> 0 < fp_minimum_final_assessment_rows p"

lemma policy_okD:
  assumes "policy_ok p"
  shows "fp_boundary_exclusion_sessions p = 6" "756 \<le> fp_minimum_initial_training_rows p"
    "fp_minimum_final_assessment_rows p \<le> fp_assessment_window_rows p" "0 < fp_step_rows p"
    "0 < fp_minimum_final_assessment_rows p"
    "int (training_end p k) = fp_minimum_initial_training_rows p + int k * fp_step_rows p" "756 \<le> training_end p k"
    "fp_minimum_initial_training_rows p \<le> int (training_end p k)"
proof -
  have "mk_fold_policy p = Inr p" using assms by (simp add: policy_ok_def)
  note facts = mk_fold_policyD(2-5) [OF this]
  then show "fp_boundary_exclusion_sessions p = 6" "756 \<le> fp_minimum_initial_training_rows p"
    "fp_minimum_final_assessment_rows p \<le> fp_assessment_window_rows p" "0 < fp_step_rows p" by simp_all
  have "0 \<le> int k * fp_step_rows p" using facts(4) by simp
  then show "int (training_end p k) = fp_minimum_initial_training_rows p + int k * fp_step_rows p" "756 \<le> training_end p k"
    "fp_minimum_initial_training_rows p \<le> int (training_end p k)"
    using facts(2) by (simp_all add: training_end_def)
  show "0 < fp_minimum_final_assessment_rows p" using assms by (simp add: policy_ok_def)
qed

lemma training_end_mono:
  assumes "policy_ok p" "k \<le> j"
  shows "training_end p k \<le> training_end p j"
proof -
  have "int k * fp_step_rows p \<le> int j * fp_step_rows p"
    using assms(2) policy_okD(4) [OF assms(1)] by (intro mult_right_mono) simp_all
  then have "int (training_end p k) \<le> int (training_end p j)"
    using policy_okD(6) [OF assms(1), of k] policy_okD(6) [OF assms(1), of j] by linarith
  then show ?thesis by simp
qed

lemma fold_fits_iff:
  assumes "policy_ok p"
  shows "fold_fits p n k \<longleftrightarrow>
      fp_minimum_final_assessment_rows p \<le> int n - (int (training_end p k) + fp_boundary_exclusion_sessions p)"
  using policy_okD(1,5) [OF assms] by (auto simp: fold_fits_def)

lemma fold_fits_rows:
  assumes "policy_ok p" "fold_fits p n k"
  shows "training_end p k + 6 < n" "fp_minimum_final_assessment_rows p \<le> int (assessment_rows p n k)"
    "training_end p k + 6 + assessment_rows p n k \<le> n"
    "int (assessment_rows p n k) =
       min (fp_assessment_window_rows p) (int n - (int (training_end p k) + fp_boundary_exclusion_sessions p))"
  using policy_okD(1,3,5) [OF assms(1)] assms(2) by (auto simp: fold_fits_def assessment_rows_def min_def)

lemma planned_slices:
  assumes "wf_labels ls" "policy_ok policy" and fits: "fold_fits policy (length ls) k"
  defines "t \<equiv> training_end policy k" and "a \<equiv> assessment_rows policy (length ls) k"
  shows "py_slice 0 (int t) ls = take t ls" "py_slice (int t) (int t + 6) ls = take 6 (drop t ls)"
    "py_slice (int t + 6) (int t + 6 + int a) ls = take a (drop (t + 6) ls)"
    and "window_of_labels (take t ls) ''training'' policy = Inr (window_of (take t ls))"
    "window_of_labels (take a (drop (t + 6) ls)) ''assessment'' policy = Inr (window_of (take a (drop (t + 6) ls)))"
    and "0 < t" "0 < a" "t + 6 < length ls"
proof -
  note rows = fold_fits_rows [OF assms(2) fits, folded t_def, folded a_def]
  note pol = policy_okD [OF assms(2)]
  show "py_slice 0 (int t) ls = take t ls" "py_slice (int t) (int t + 6) ls = take 6 (drop t ls)"
    "py_slice (int t + 6) (int t + 6 + int a) ls = take a (drop (t + 6) ls)"
    using py_slice_nat [of 0 t ls] py_slice_nat [of t "t + 6" ls] py_slice_nat [of "t + 6" "t + 6 + a" ls] rows
    by simp_all
  show pos: "0 < t" "0 < a" "t + 6 < length ls" using pol(7) [of k] pol(5) rows(1,2) by (simp_all add: t_def)
  show "window_of_labels (take t ls) ''training'' policy = Inr (window_of (take t ls))"
    "window_of_labels (take a (drop (t + 6) ls)) ''assessment'' policy = Inr (window_of (take a (drop (t + 6) ls)))"
    using wf_labels_slice [OF assms(1), of t 0] wf_labels_slice [OF assms(1), of a "t + 6"] rows pol(8) [of k] pos
    by (auto intro!: window_of_labels_Inr simp: t_def)
qed

lemma build_fold_at_planned:
  assumes "wf_supervised d" "lineage_ok lineage" "hex_digests sha" "policy_ok policy"
    and fits: "fold_fits policy (length (sd_labels d)) k"
  shows "case build_fold_at sha (sd_labels d) lineage (dm_feature_schema_version (sd_metadata d))
      (dm_label_schema_version (sd_metadata d)) runtime policy (int k) (int (training_end policy k))
      (int (assessment_rows policy (length (sd_labels d)) k)) of
    Inl e \<Rightarrow> e \<in> single_class_errors | Inr f \<Rightarrow> f = planned_fold sha d lineage runtime policy k"
proof -
  define ls where "ls = sd_labels d"
  define t where "t = training_end policy k"
  define a where "a = assessment_rows policy (length ls) k"
  define P where "P = planned_fold sha d lineage runtime policy k"
  let ?pending = "P \<lparr>wff_fold_id := ''pending''\<rparr>"
  have "wf_labels (sd_labels d)" using assms(1) by (simp add: wf_supervised_def)
  note slices = planned_slices [OF this assms(4) fits, folded ls_def, folded t_def, folded a_def]
  note planned = mk_planned_fold [OF assms(1,2), where policy = policy and k = k and sha = sha and runtime = runtime,
      folded ls_def, folded t_def, folded a_def, OF slices(6,8,7), folded P_def]
  have fields: "wff_training P = window_of (take t ls)" "wff_boundary_excluded_sessions P = map lb_session (take 6 (drop t ls))"
    "wff_assessment P = window_of (take a (drop (t + 6) ls))"
    and P: "P = ?pending \<lparr>wff_fold_id := research_fold_identity sha ?pending\<rparr>"
    by (simp_all add: P_def planned_fold_def Let_def t_def a_def ls_def)
  have "is_nonempty_safe_identifier (research_fold_identity sha ?pending)"
    unfolding research_fold_identity_def by (rule fold_identity_safe) (use assms(3) in \<open>simp add: hex_digests_def\<close>)
  from planned(1) [OF this] have final:
    "mk_walk_forward_fold (?pending \<lparr>wff_fold_id := research_fold_identity sha ?pending\<rparr>) = Inr P"
    using P by simp
  note pending = planned(1) [OF schema_identifiers_safe(1)]
  have built: "\<lparr>wff_fold_id = ''pending'', wff_fold_index = int k, wff_dataset_id = dl_dataset_id lineage,
        wff_canonical_dataset_checksum = dl_canonical_dataset_checksum lineage,
        wff_feature_schema = dm_feature_schema_version (sd_metadata d),
        wff_label_schema = dm_label_schema_version (sd_metadata d),
        wff_fold_policy_id = WALK_FORWARD_FOLD_POLICY_ID, wff_training = window_of (take t ls),
        wff_boundary_excluded_sessions = map lb_session (take 6 (drop t ls)),
        wff_assessment = window_of (take a (drop (t + 6) ls)), wff_runtime_lineage = runtime\<rparr> = ?pending"
    by (simp add: P_def planned_fold_def Let_def t_def a_def ls_def)
  note checks = planned(2,3) [OF schema_identifiers_safe(1), unfolded fields]
  have six: "int (length (take 6 (drop t ls))) = BOUNDARY_EXCLUSION_SESSIONS"
    using slices(8) by (simp add: BOUNDARY_EXCLUSION_SESSIONS_def)
  show ?thesis
    using checks(2) pending final
    unfolding build_fold_at_def build_fold_def Let_def ls_def [symmetric] t_def [symmetric] a_def [symmetric]
      P_def [symmetric] policy_okD(1) [OF assms(4)] fst_conv snd_conv slices(1-5) rbind_Inr built checks(1) six
    by (auto simp: rbind_def require_two_classes_def reject_if_def single_class_errors_def not_le)
qed

section \<open>The loop builds the planned folds\<close>

lemma fold_loop_planned:
  assumes pol: "policy_ok policy"
    and build: "\<And>k. fold_fits policy n k \<Longrightarrow>
      case build (int k) (int (training_end policy k)) (int (assessment_rows policy n k)) of
        Inl e \<Rightarrow> e \<in> E | Inr f \<Rightarrow> f = P k"
    and before: "\<And>j. j < k \<Longrightarrow> fold_fits policy n j"
  shows "case fold_loop build (int n) policy (int (training_end policy k)) (int k) (map P [0..<k]) of
      None \<Rightarrow> False
    | Some (Inl e) \<Rightarrow> e \<in> E
    | Some (Inr fs) \<Rightarrow> \<exists>c. fs = map P [0..<c] \<and> (\<forall>j. fold_fits policy n j \<longleftrightarrow> j < c)"
  using before
proof (induction "n - training_end policy k" arbitrary: k rule: less_induct)
  case less
  let ?t = "\<lambda>k. training_end policy k"
  note facts = policy_okD [OF pol]
  have step: "int (?t k) + fp_step_rows policy = int (?t (Suc k))"
    using facts(6) [of k] facts(6) [of "Suc k"] by (simp add: algebra_simps)
  note mono = training_end_mono [OF pol]
  show ?case
  proof (cases "fold_fits policy n k")
    case False
    have "fold_fits policy n j \<longleftrightarrow> j < k" for j
      using False less.prems mono [of k j] by (cases "j < k") (auto simp: fold_fits_def)
    moreover have "fold_loop build (int n) policy (int (?t k)) (int k) (map P [0..<k]) = Some (Inr (map P [0..<k]))"
      using False fold_fits_iff [OF pol, of n k] by (subst fold_loop.simps) (simp add: Let_def)
    ultimately show ?thesis by auto
  next
    case True
    note rows = fold_fits_rows [OF pol True]
    have unfold: "fold_loop build (int n) policy (int (?t k)) (int k) (map P [0..<k]) =
        (case build (int k) (int (?t k)) (int (assessment_rows policy n k)) of
           Inl e \<Rightarrow> Some (Inl e)
         | Inr new \<Rightarrow> fold_loop build (int n) policy (int (?t (Suc k))) (int (Suc k)) (map P [0..<k] @ [new]))"
    proof -
      have cond: "(int n - (int (?t k) + fp_boundary_exclusion_sessions policy) < fp_minimum_final_assessment_rows policy) = False"
        using True fold_fits_iff [OF pol, of n k] by simp
      have suc: "int k + 1 = int (Suc k)" by simp
      show ?thesis
        by (subst fold_loop.simps) (simp only: Let_def rows(4) [symmetric] step suc cond if_False)
    qed
    show ?thesis
    proof (cases "build (int k) (int (?t k)) (int (assessment_rows policy n k))")
      case (Inl e)
      then show ?thesis using build [OF True] unfold by simp
    next
      case (Inr f)
      then have "f = P k" using build [OF True] by simp
      have "n - ?t (Suc k) < n - ?t k" using step rows(1) facts(4) by linarith
      moreover have "\<And>j. j < Suc k \<Longrightarrow> fold_fits policy n j" using less.prems True by (auto simp: less_Suc_eq)
      ultimately show ?thesis using less.hyps [of "Suc k"] unfold Inr \<open>f = P k\<close> by simp
    qed
  qed
qed

section \<open>The manifest\<close>

lemma training_exits_before:
  assumes "timeline ls" "i < t" "s \<in> set (map lb_session (drop (t + 6) ls))"
  shows "lb_exit_session (ls ! i) < s"
proof -
  obtain j where j: "t + 6 + j < length ls" "s = lb_session (ls ! (t + 6 + j))"
    using assms(3) by (auto simp: in_set_conv_nth less_diff_conv add.commute)
  have "i + 6 < length ls" using j(1) assms(2) by simp
  then have "lb_exit_session (ls ! i) = lb_session (ls ! (i + 6))"
    using assms(1) by (simp add: timeline_def EXIT_OFFSET_SESSIONS_def)
  then show ?thesis
    using increasing_nth [OF timelineD(1) [OF assms(1)], of "i + 6" "t + 6 + j"] j assms(2) by simp
qed

definition fold_holds :: "supervised_dataset \<Rightarrow> fold_policy \<Rightarrow> nat \<Rightarrow> walk_forward_fold \<Rightarrow> bool" where
  "fold_holds d policy k f \<longleftrightarrow>
     (let sessions = map lb_session (sd_labels d); t = training_end policy k in
      wff_fold_index f = int k \<and> sw_prediction_sessions (wff_training f) = take t sessions \<and>
      wff_boundary_excluded_sessions f = take 6 (drop t sessions) \<and>
      sw_prediction_sessions (wff_assessment f) =
        take (assessment_rows policy (length (sd_labels d)) k) (drop (t + 6) sessions) \<and>
      (\<forall>x \<in> set (sw_exit_sessions (wff_training f)). \<forall>s \<in> set (sw_prediction_sessions (wff_assessment f)). x < s))"

lemma planned_fold_holds:
  assumes "wf_supervised d"
  shows "fold_holds d policy k (planned_fold sha d lineage runtime policy k)"
proof -
  have timeline: "timeline (sd_labels d)" using assms by (simp add: wf_supervised_def wf_labels_def)
  have "x < s" if "x \<in> set (map lb_exit_session (take t (sd_labels d)))"
    "s \<in> set (map lb_session (take a (drop (t + 6) (sd_labels d))))" for x s t a
  proof -
    note mem = that
    obtain l where l: "l \<in> set (take t (sd_labels d))" "x = lb_exit_session l"
      using mem(1) unfolding set_map by blast
    then obtain i where "i < t" "x = lb_exit_session (sd_labels d ! i)"
      unfolding in_set_conv_nth by auto
    then show ?thesis using training_exits_before [OF timeline, of i t s] mem(2) by (auto dest: in_set_takeD)
  qed
  then show ?thesis
    by (simp add: fold_holds_def planned_fold_def Let_def window_of_def take_map drop_map)
qed

definition manifest_of ::
  "supervised_dataset \<Rightarrow> dataset_lineage \<Rightarrow> fold_policy \<Rightarrow> walk_forward_fold list \<Rightarrow> string \<Rightarrow> walk_forward_manifest" where
  "manifest_of d lineage policy folds i =
     \<lparr>wfm_fold_manifest_id = i, wfm_dataset_lineage = lineage,
      wfm_feature_schema = dm_feature_schema_version (sd_metadata d),
      wfm_label_schema = dm_label_schema_version (sd_metadata d), wfm_fold_policy = policy,
      wfm_supervised_row_count = int (length (sd_labels d)), wfm_folds = folds\<rparr>"

lemma mk_planned_manifest:
  assumes "folds = map (planned_fold sha d lineage runtime policy) [0..<c]" "0 < c" "sd_labels d \<noteq> []"
    and "m = \<lparr>wfm_fold_manifest_id = i, wfm_dataset_lineage = lineage,
      wfm_feature_schema = dm_feature_schema_version (sd_metadata d),
      wfm_label_schema = dm_label_schema_version (sd_metadata d), wfm_fold_policy = policy,
      wfm_supervised_row_count = int (length (sd_labels d)), wfm_folds = folds\<rparr>"
  shows "mk_walk_forward_manifest m = Inr m"
  using assms
  by (auto simp: mk_walk_forward_manifest_def check_manifest_fold_def rbind_eq_Inr_iff planned_fold_def Let_def)

definition walk_forward_errors :: "data_exn set" where
  "walk_forward_errors =
     {LeakageValidationError ''phase2_final_test_artifact_rejected'', WalkForwardSplitError ''dataset_checksum_mismatch'',
      WalkForwardSplitError ''supervised_before_dataset_range'', WalkForwardSplitError ''supervised_after_dataset_range'',
      WalkForwardSplitError ''insufficient_walk_forward_rows''}"

lemma wf_supervised_checks:
  assumes "wf_supervised d"
  shows "length (sd_features d) = length (sd_labels d)" "increasing (map lb_session (sd_labels d))"
  using assms timelineD(1) [of "sd_labels d"]
  by (auto simp: wf_supervised_def wf_labels_def dest: map_eq_imp_length_eq)

text \<open>What is checked before the loop.\<close>

lemma construction_checks:
  assumes "wf_supervised d" "policy_ok p"
  shows "case rbind (validate_phase2_final_test_isolation [dl_dataset_id lineage]) (\<lambda>_.
             rbind (validated_labels d lineage) (\<lambda>labels.
             rbind (reject_if (int (length labels) - (fp_minimum_initial_training_rows p + fp_boundary_exclusion_sessions p)
                 < fp_minimum_final_assessment_rows p)
               (WalkForwardSplitError ''insufficient_walk_forward_rows'')) (\<lambda>_. Inr labels))) of
      Inl e \<Rightarrow> e \<in> walk_forward_errors
    | Inr labels \<Rightarrow> labels = sd_labels d \<and> fold_fits p (length (sd_labels d)) 0"
  using wf_supervised_checks [OF assms(1)] fold_fits_iff [OF assms(2), of "length (sd_labels d)" 0]
    policy_okD(6) [OF assms(2), of 0]
  by (auto simp: validate_phase2_final_test_isolation_def validated_labels_def Let_def rbind_def reject_if_def
      walk_forward_errors_def)

text \<open>C19: over a well-formed dataset and an accepted policy that assesses at least one row, the construction
  returns a manifest or one of the documented errors. The folds are all those that fit; fold \<open>k\<close> trains on the first
  \<open>training_end k\<close> rows, purges the next six, assesses the rows after them, and every trade of a training row is closed
  before every session of its assessment window.\<close>

theorem walk_forward_folds_leak_nothing:
  assumes "wf_supervised d" and "lineage_ok lineage" and "hex_digests sha"
    and "policy_ok (policy_used policy)"
  shows "case construct_walk_forward_manifest sha d lineage runtime policy of
      None \<Rightarrow> False
    | Some (Inl e) \<Rightarrow> e \<in> walk_forward_errors \<union> single_class_errors
    | Some (Inr m) \<Rightarrow>
        (\<forall>k. fold_fits (policy_used policy) (length (sd_labels d)) k \<longleftrightarrow> k < length (wfm_folds m)) \<and>
        wfm_folds m \<noteq> [] \<and>
        (\<forall>k < length (wfm_folds m). fold_holds d (policy_used policy) k (wfm_folds m ! k))"
proof -
  define p where "p = policy_used policy"
  define n where "n = length (sd_labels d)"
  let ?build = "build_fold_at sha (sd_labels d) lineage (dm_feature_schema_version (sd_metadata d))
      (dm_label_schema_version (sd_metadata d)) runtime p"
  let ?P = "planned_fold sha d lineage runtime p"
  have pol: "policy_ok p" using assms(4) by (simp add: p_def)
  have loop: "case fold_loop ?build (int n) p (int (training_end p 0)) (int 0) (map ?P [0..<0]) of
      None \<Rightarrow> False | Some (Inl e) \<Rightarrow> e \<in> single_class_errors
    | Some (Inr fs) \<Rightarrow> \<exists>c. fs = map ?P [0..<c] \<and> (\<forall>j. fold_fits p n j \<longleftrightarrow> j < c)"
    by (rule fold_loop_planned [OF pol]) (use build_fold_at_planned [OF assms(1-3) pol] in \<open>simp_all add: n_def\<close>)
  have start: "int (training_end p 0) = fp_minimum_initial_training_rows p"
    using policy_okD(6) [OF pol, of 0] by simp
  note checks = construction_checks [OF assms(1) pol, of lineage]
  let ?labels = "rbind (validate_phase2_final_test_isolation [dl_dataset_id lineage]) (\<lambda>_.
             rbind (validated_labels d lineage) (\<lambda>labels.
             rbind (reject_if (int (length labels) - (fp_minimum_initial_training_rows p + fp_boundary_exclusion_sessions p)
                 < fp_minimum_final_assessment_rows p)
               (WalkForwardSplitError ''insufficient_walk_forward_rows'')) (\<lambda>_. Inr labels)))"
  show ?thesis
  proof (cases ?labels)
    case (Inl e)
    then show ?thesis
      using checks unfolding construct_walk_forward_manifest_def Let_def policy_used_def [symmetric] p_def [symmetric]
      by simp
  next
    case (Inr labels)
    then have labels: "labels = sd_labels d" and fits: "fold_fits p n 0" using checks by (simp_all add: n_def)
    let ?result = "fold_loop ?build (int n) p (fp_minimum_initial_training_rows p) 0 []"
    have result: "construct_walk_forward_manifest sha d lineage runtime policy =
      (case ?result of None \<Rightarrow> None | Some (Inl e) \<Rightarrow> Some (Inl e)
       | Some (Inr folds) \<Rightarrow> Some (rbind (mk_walk_forward_manifest (manifest_of d lineage p folds ''pending''))
           (\<lambda>m. mk_walk_forward_manifest (m \<lparr>wfm_fold_manifest_id := fold_manifest_identity sha m\<rparr>))))"
      using Inr labels unfolding construct_walk_forward_manifest_def Let_def policy_used_def [symmetric] p_def [symmetric]
        manifest_of_def
      by (simp add: n_def)
    consider (error) e where "?result = Some (Inl e)" "e \<in> single_class_errors"
      | (folds) c where "?result = Some (Inr (map ?P [0..<c]))" "\<forall>j. fold_fits p n j \<longleftrightarrow> j < c"
      using loop start by (auto split: option.splits sum.splits)
    then show ?thesis
    proof cases
      case error
      then show ?thesis unfolding result by simp
    next
      case folds
      have c: "0 < c" using folds(2) fits by simp
      have "mk_walk_forward_manifest (manifest_of d lineage p (map ?P [0..<c]) i) = Inr (manifest_of d lineage p (map ?P [0..<c]) i)" for i
        by (rule mk_planned_manifest [OF refl c _ manifest_of_def]) (use assms(1) in \<open>simp add: wf_supervised_def\<close>)
      then show ?thesis
        unfolding result folds(1) using folds(2) c planned_fold_holds [OF assms(1)]
        by (simp add: manifest_of_def n_def p_def)
    qed
  qed
qed

section \<open>Where a transformation may be fitted\<close>

text \<open>C33: for a fold whose windows and chronology were accepted, a fit record passes exactly when it reports no outer or
  protected rows, its sessions all lie in the training window and none is protected: the purged rows and the assessment rows are
  then out of reach.\<close>

theorem fit_scope_is_the_training_window:
  assumes "mk_walk_forward_fold f = Inr f" and "mk_session_window (wff_training f) = Inr (wff_training f)"
    and "mk_session_window (wff_assessment f) = Inr (wff_assessment f)"
  shows "validate_training_only_fit_scope f r protected = Inr () \<longleftrightarrow>
      \<not> tf_fitted_on_outer_assessment r \<and> \<not> tf_fitted_on_protected_rows r \<and>
      set (tf_fitted_sessions r) \<subseteq> set (sw_prediction_sessions (wff_training f)) \<and>
      set (tf_fitted_sessions r) \<inter> set protected = {}"
proof -
  let ?train = "sw_prediction_sessions (wff_training f)" and ?assess = "sw_prediction_sessions (wff_assessment f)"
    and ?boundary = "wff_boundary_excluded_sessions f"
  have inc: "increasing ?train" "increasing ?assess" "increasing ?boundary"
    and order: "last ?train < hd ?boundary" "hd ?boundary < last ?boundary" "last ?boundary < hd ?assess"
    using assms by (auto simp: mk_walk_forward_fold_def mk_session_window_def Let_def rbind_eq_Inr_iff
        last_prediction_session_def first_prediction_session_def)
  have "s < t" if "s \<in> set ?train" "t \<in> set ?boundary \<union> set ?assess" for s t
    using increasing_span(2) [OF inc(1) that(1)] increasing_span(1) [OF inc(3), of t] increasing_span(1) [OF inc(2), of t]
      that(2) order
    by auto
  then have "set ?train \<inter> set ?assess = {}" "set ?train \<inter> set ?boundary = {}" by fastforce+
  then show ?thesis
    unfolding validate_training_only_fit_scope_def Let_def by (auto simp: rbind_eq_Inr_iff)
qed

end
