(* ===== verification/Data_Witnesses.thy ===== *)
theory Data_Witnesses
  imports Data_Label_Properties Fold_Properties
begin

text \<open>The properties of the data pipeline, applied to a sample dataset whose sessions are consecutive days and whose
  labels alternate.\<close>

section \<open>Bars\<close>

definition sample_checksum :: string where "sample_checksum = replicate 64 (CHR ''a'')"

lemma sample_checksum_ok: "is_checksum sample_checksum"
  by (simp add: sample_checksum_def is_checksum_def is_hex_digit_def list_all_iff)

definition sample_bar :: "nat \<Rightarrow> bar" where
  "sample_bar i = \<lparr>mb_session = int i, mb_open = 1, mb_high = 1, mb_low = 1, mb_close = 1, mb_volume = 100\<rparr>"

definition sample_batch :: "nat \<Rightarrow> market_batch" where
  "sample_batch n =
     \<lparr>md_bars = map sample_bar [0..<n],
      md_metadata = \<lparr>mm_provider_name = ''sample'', mm_symbol = MARKET_SYMBOL, mm_timeframe = MARKET_TIMEFRAME,
        mm_adjustment_policy = ADJUSTMENT_POLICY, mm_downloaded_at = 0, mm_created_at = 0, mm_first_session = 0,
        mm_last_session = int n - 1, mm_row_count = int n, mm_dataset_checksum = sample_checksum,
        mm_schema_version = SCHEMA_VERSION, mm_source_description = None\<rparr>\<rparr>"

definition sample_costs :: trading_costs where
  "sample_costs = \<lparr>tc_commission_bps_per_side = 0, tc_slippage_bps_per_side = 5\<rparr>"

lemma increasing_upt:
  assumes "\<And>i j. i < j \<Longrightarrow> f i < f j"
  shows "increasing (map f [a..<b])"
  using assms by (auto simp: sorted_wrt_iff_nth_less)

theorem labels_look_exactly_six_sessions_ahead_witness:
  "bars_ok (md_bars (sample_batch 8)) \<and> costs_ok sample_costs \<and>
   (case build_forward_label_set (sample_batch 8) sample_costs (PyAware 0) of
      Inl e \<Rightarrow> e = LabelConstructionError ''non_finite_forward_return''
    | Inr ls \<Rightarrow> length (ls_data ls) = 2 \<and> lb_exit_session (ls_data ls ! 1) = 7)"
proof -
  have bars: "bars_ok (md_bars (sample_batch 8))"
    unfolding bars_ok_def sample_batch_def market_batch.simps map_map
    by (intro conjI increasing_upt) (simp_all add: sample_bar_def list_all_iff is_float_one)
  have costs: "costs_ok sample_costs" by (simp add: costs_ok_def sample_costs_def)
  have len: "length (md_bars (sample_batch 8)) = 8" by (simp add: sample_batch_def)
  have "mb_session (md_bars (sample_batch 8) ! 7) = 7"
    by (simp add: sample_batch_def sample_bar_def nth_map del: upt_Suc upt_rec_numeral)
  then show ?thesis
    using labels_look_exactly_six_sessions_ahead [OF bars costs, of 0] bars costs len
    by (simp add: sample_batch_def sample_checksum_ok Let_def del: upt_Suc upt_rec_numeral map_map
        split: sum.splits)
qed

section \<open>A dataset\<close>

definition sample_label :: "nat \<Rightarrow> label" where
  "sample_label i =
     \<lparr>lb_session = int i, lb_entry_session = int i + 1, lb_exit_session = int i + 6, lb_gross_forward_return = 1,
      lb_net_forward_return = (if even i then 1 else 0), lb_target = (if even i then 1 else 0)\<rparr>"

definition sample_feature :: "nat \<Rightarrow> feature_row" where
  "sample_feature i = \<lparr>fr_session = int i, fr_values = replicate 12 0\<rparr>"

definition sample_metadata :: "nat \<Rightarrow> dataset_metadata" where
  "sample_metadata n =
     \<lparr>dm_source_market_data_checksum = sample_checksum, dm_source_schema_version = SCHEMA_VERSION,
      dm_feature_schema_version = FEATURE_SCHEMA_VERSION, dm_label_schema_version = LABEL_SCHEMA_VERSION,
      dm_feature_columns = FEATURE_COLUMNS, dm_row_count = int n, dm_first_session = 0,
      dm_last_session = int n - 1, dm_created_at = 0\<rparr>"

definition sample_dataset :: "nat \<Rightarrow> supervised_dataset" where
  "sample_dataset n =
     \<lparr>sd_features = map sample_feature [0..<n], sd_labels = map sample_label [0..<n],
      sd_metadata = sample_metadata n\<rparr>"

lemma sample_labels_wf: "wf_labels (map sample_label [0..<n])"
proof -
  have "increasing (map lb_session (map sample_label [0..<n]))"
    "increasing (map lb_entry_session (map sample_label [0..<n]))"
    "increasing (map lb_exit_session (map sample_label [0..<n]))"
    unfolding map_map by (intro increasing_upt; simp add: sample_label_def)+
  then show ?thesis
    by (auto simp: wf_labels_def timeline_def list_all_iff label_target_ok_def sample_label_def
        ENTRY_OFFSET_SESSIONS_def EXIT_OFFSET_SESSIONS_def simp del: map_map)
qed

lemma sample_features_ok: "feature_rows_ok (map sample_feature [0..<n])"
  by (simp add: feature_rows_ok_def list_all_iff sample_feature_def FEATURE_COLUMNS_def)

lemma sample_dataset_wf: "0 < n \<Longrightarrow> wf_supervised (sample_dataset n)"
  using sample_labels_wf [of n] sample_features_ok [of n]
  by (simp add: wf_supervised_def sample_dataset_def sample_metadata_def wf_dataset_metadata_def sample_checksum_ok
      sample_feature_def sample_label_def comp_def)

definition sample_split :: split_spec where
  "sample_split =
     \<lparr>ss_train_start = 0, ss_train_end = 19, ss_validation_start = 20, ss_validation_end = 39,
      ss_test_start = 40, ss_test_end = 59\<rparr>"

lemma sample_split_wf: "wf_split sample_split"
  by (simp add: wf_split_def sample_split_def)

theorem split_is_leakage_safe_witness:
  "\<exists>p. split_supervised_dataset (sample_dataset 70) sample_split = Inr p \<and>
     held_out (cp_train p) (cp_validation p) \<and> held_out (cp_validation p) (cp_test p)"
proof -
  have "filter (included_in a b) (sd_labels (sample_dataset 70)) \<noteq> []"
    if "(n, a, b) \<in> set (split_ranges sample_split)" for n a b
  proof -
    have "sample_label (nat a) \<in> set (filter (included_in a b) (sd_labels (sample_dataset 70)))"
      using that by (auto simp: split_ranges_def sample_split_def sample_dataset_def included_in_def sample_label_def)
    then show ?thesis by (auto simp del: set_filter)
  qed
  then show ?thesis
    using split_is_leakage_safe [OF sample_dataset_wf [of 70] sample_split_wf]
    by (auto split: sum.splits)
qed

section \<open>The join\<close>

definition sample_feature_set :: feature_set where
  "sample_feature_set =
     \<lparr>fs_data = map sample_feature [20..<70], fs_source_market_data_checksum = sample_checksum,
      fs_source_schema_version = SCHEMA_VERSION, fs_feature_schema_version = FEATURE_SCHEMA_VERSION,
      fs_feature_columns = FEATURE_COLUMNS, fs_created_at = 0\<rparr>"

definition sample_label_set :: label_set where
  "sample_label_set =
     \<lparr>ls_data = map sample_label [0..<64], ls_source_market_data_checksum = sample_checksum,
      ls_source_schema_version = SCHEMA_VERSION, ls_label_schema_version = LABEL_SCHEMA_VERSION,
      ls_cost_assumptions = sample_costs, ls_created_at = 0\<rparr>"

lemma sample_sessions:
  "label_sessions sample_label_set = map int [0..<64]"
  "feature_sessions sample_feature_set = map int [20..<70]"
  unfolding label_sessions_def feature_sessions_def sample_label_set_def sample_feature_set_def
    label_set.simps feature_set.simps map_map
  by (rule map_cong [OF refl], simp add: sample_label_def sample_feature_def)+

lemma covers_upt: "a < b \<Longrightarrow> covers (map int [a..<b]) ts"
  unfolding covers_def
  by (auto simp: hd_map last_map intro!: image_eqI [where x = "nat s" for s] simp del: upt_Suc)

theorem supervised_dataset_is_the_join_witness:
  "\<exists>d. build_supervised_dataset sample_feature_set sample_label_set (PyAware 5) = Inr d \<and>
     sd_labels d = filter (\<lambda>r. 20 \<le> lb_session r) (map sample_label [0..<64])"
proof -
  have "wf_feature_set sample_feature_set"
    using sample_features_ok [of 70] increasing_upt [of "fr_session \<circ> sample_feature" 20 70]
    by (auto simp: wf_feature_set_def sample_feature_set_def sample_checksum_ok feature_rows_ok_def list_all_iff
        sample_feature_def FEATURE_COLUMNS_def comp_def simp del: upt_rec_numeral)
  moreover have "wf_label_set sample_label_set"
    using sample_labels_wf [of 64] by (simp add: wf_label_set_def sample_label_set_def sample_checksum_ok del: upt_rec_numeral)
  moreover have "20 \<in> set (feature_sessions sample_feature_set) \<inter> set (label_sessions sample_label_set)"
    unfolding sample_sessions by (auto simp del: upt_rec_numeral intro!: image_eqI [where x = 20])
  moreover have "covers (label_sessions sample_label_set) (feature_sessions sample_feature_set)"
    "covers (feature_sessions sample_feature_set) (label_sessions sample_label_set)"
    unfolding sample_sessions by (intro covers_upt; simp)+
  ultimately obtain d where d: "build_supervised_dataset sample_feature_set sample_label_set (PyAware 5) = Inr d"
    and rows: "sd_labels d = filter (\<lambda>r. lb_session r \<in> set (feature_sessions sample_feature_set)) (ls_data sample_label_set)"
    using supervised_dataset_is_the_join [of sample_feature_set sample_label_set "PyAware 5"]
    by (auto simp: sample_feature_set_def sample_label_set_def simp del: upt_rec_numeral split: sum.splits)
  have "sd_labels d = filter (\<lambda>r. 20 \<le> lb_session r) (map sample_label [0..<64])"
    unfolding rows sample_sessions sample_label_set_def label_set.simps
    by (rule filter_cong [OF refl]) (auto simp: sample_label_def simp del: upt_rec_numeral)
  with d show ?thesis by blast
qed

section \<open>Walk-forward folds\<close>

definition sample_lineage :: dataset_lineage where
  "sample_lineage =
     \<lparr>dl_dataset_id = ''sample'', dl_canonical_dataset_checksum = sample_checksum, dl_provider = ''sample'',
      dl_feed = ''iex'', dl_timeframe = ''1Day'', dl_adjustment = ''all'', dl_first_session = 0, dl_last_session = 2000\<rparr>"

definition sample_runtime :: runtime_lineage where
  "sample_runtime =
     \<lparr>rl_git_commit_sha = ''abc'', rl_package_version = ''1'', rl_python_version = ''3'',
      rl_dependency_versions = [(''numpy'', ''2'')]\<rparr>"

definition sample_fold_digests :: fold_digests where
  "sample_fold_digests = \<lparr>fd_fold = (\<lambda>_. sample_checksum), fd_manifest = (\<lambda>_. sample_checksum)\<rparr>"

theorem walk_forward_construction_returns_witness:
  "\<exists>r. construct_walk_forward_manifest sample_fold_digests (sample_dataset 900) sample_lineage sample_runtime None = Some r"
  by (rule walk_forward_construction_returns) (simp add: policy_accepted_def)

lemma sample_lineage_ok: "lineage_ok sample_lineage"
  by (simp add: lineage_ok_def mk_dataset_lineage_def sample_lineage_def sample_checksum_ok)
     (code_simp)

theorem walk_forward_folds_leak_nothing_witness:
  "case construct_walk_forward_manifest sample_fold_digests (sample_dataset 900) sample_lineage sample_runtime None of
     None \<Rightarrow> False
   | Some (Inl e) \<Rightarrow> e \<in> walk_forward_errors \<union> single_class_errors
   | Some (Inr m) \<Rightarrow> wfm_folds m \<noteq> [] \<and> fold_holds (sample_dataset 900) default_fold_policy 0 (wfm_folds m ! 0)"
proof -
  have "hex_digests sample_fold_digests"
    by (simp add: hex_digests_def sample_fold_digests_def sample_checksum_ok)
  moreover have "policy_ok (policy_used None)"
    by (simp add: policy_ok_def policy_used_def default_fold_policy_accepted)
       (simp add: default_fold_policy_def MINIMUM_FINAL_ASSESSMENT_ROWS_def)
  ultimately show ?thesis
    using walk_forward_folds_leak_nothing [OF sample_dataset_wf [of 900] sample_lineage_ok, of sample_fold_digests None sample_runtime]
    by (auto simp: policy_used_def split: option.splits sum.splits)
qed

definition sample_window :: "date \<Rightarrow> session_window" where
  "sample_window t =
     \<lparr>sw_prediction_sessions = [t, t + 1], sw_entry_sessions = [t + 1, t + 2], sw_exit_sessions = [t + 6, t + 7],
      sw_positive_count = 1, sw_negative_count = 1\<rparr>"

definition sample_fold :: walk_forward_fold where
  "sample_fold =
     \<lparr>wff_fold_id = ''sample-fold'', wff_fold_index = 0, wff_dataset_id = ''sample'',
      wff_canonical_dataset_checksum = sample_checksum, wff_feature_schema = FEATURE_SCHEMA_VERSION,
      wff_label_schema = LABEL_SCHEMA_VERSION, wff_fold_policy_id = WALK_FORWARD_FOLD_POLICY_ID,
      wff_training = sample_window 0, wff_boundary_excluded_sessions = [2, 3, 4, 5, 6, 7],
      wff_assessment = sample_window 8, wff_runtime_lineage = sample_runtime\<rparr>"

definition sample_fit :: transformation_fit_record where
  "sample_fit = \<lparr>tf_record_name = ''scaler'', tf_fitted_sessions = [0, 1], tf_fitted_on_outer_assessment = False,
     tf_fitted_on_protected_rows = False\<rparr>"

theorem fit_scope_is_the_training_window_witness:
  "validate_training_only_fit_scope sample_fold sample_fit [20] = Inr () \<and>
   validate_training_only_fit_scope sample_fold (sample_fit \<lparr>tf_fitted_sessions := [1, 2]\<rparr>) [20] \<noteq> Inr ()"
proof -
  have "is_nonempty_safe_identifier t"
    if "t \<in> {''sample-fold'', ''sample'', FEATURE_SCHEMA_VERSION, LABEL_SCHEMA_VERSION, WALK_FORWARD_FOLD_POLICY_ID}" for t
    using that by (elim insertE emptyE; hypsubst; code_simp)
  then have "mk_walk_forward_fold sample_fold = Inr sample_fold"
    by (simp add: mk_walk_forward_fold_def sample_fold_def sample_checksum_ok sample_window_def Let_def
        BOUNDARY_EXCLUSION_SESSIONS_def last_prediction_session_def first_prediction_session_def last_exit_session_def)
  then have scope: "validate_training_only_fit_scope sample_fold r [20] = Inr () \<longleftrightarrow>
      \<not> tf_fitted_on_outer_assessment r \<and> \<not> tf_fitted_on_protected_rows r \<and>
      set (tf_fitted_sessions r) \<subseteq> set (sw_prediction_sessions (wff_training sample_fold)) \<and>
      set (tf_fitted_sessions r) \<inter> set [20] = {}" for r
    by (rule fit_scope_is_the_training_window)
       (simp_all add: sample_fold_def mk_session_window_def sample_window_def Let_def)
  have sessions: "set (sw_prediction_sessions (wff_training sample_fold)) = {0, 1}"
    by (simp add: sample_fold_def sample_window_def)
  show ?thesis unfolding scope sessions by (simp add: sample_fit_def)
qed

end
