(* ===== verification/Model_Witnesses.thy ===== *)
theory Model_Witnesses
  imports Model_Progress Data_Witnesses
begin

text \<open>The properties of the model pipeline, applied to the sample dataset and a scikit-learn that always predicts the positive class.\<close>

section \<open>A run of the pipeline\<close>

definition sample_sklearn :: "unit sklearn" where
  "sample_sklearn =
     \<lparr>sk_version = ''1'', sk_fit = (\<lambda>_ _ _ _. Fitted ()), sk_defect = (\<lambda>_ _ _. None),
      sk_classes = (\<lambda>_. Some [PyInt 0, PyInt 1]),
      sk_predict_proba = (\<lambda>_ X. Some (map (\<lambda>_. [Fin 0, Fin 1]) X)),
      sk_log_loss = (\<lambda>_ _. Some (Fin 1)), sk_brier_score = (\<lambda>_ _. Some (Fin (1 / 4))),
      sk_roc_auc = (\<lambda>_ _. Some (Fin (1 / 2))), sk_average_precision = (\<lambda>_ _. Some (Fin (1 / 2))),
      sk_accuracy = (\<lambda>_ _. Some (Fin (1 / 2))), sk_precision = (\<lambda>_ _. Some (Fin (1 / 2))),
      sk_recall = (\<lambda>_ _. Some (Fin 1)), sk_f1 = (\<lambda>_ _. Some (Fin (1 / 2))),
      sk_confusion = (\<lambda>y _. Some (0, int (length y) - sum_list y, 0, sum_list y))\<rparr>"

lemma unit_metric_Fin: "unit_metric (Some (Fin r)) \<longleftrightarrow> 0 \<le> r \<and> r \<le> 1"
  by (auto simp: unit_metric_def)

lemma sample_sklearn_behaves: "sklearn_behaves sample_sklearn"
proof -
  have "scores_behave sample_sklearn"
    using binary_sum by (auto simp: scores_behave_def sample_sklearn_def unit_metric_Fin less_imp_le)
  moreover have "strip (sk_version sample_sklearn) \<noteq> []" by (simp add: sample_sklearn_def, code_simp)
  ultimately show ?thesis
    by (auto simp: sklearn_behaves_def estimator_behaves_def) (auto simp: sample_sklearn_def)
qed

definition sample_training_config :: training_config where
  "sample_training_config = \<lparr>mc_random_seed = 42, mc_diagnostic_classification_threshold = Fin (1 / 2)\<rparr>"

lemma sample_training_config_ok: "mk_training_config sample_training_config = Inr sample_training_config"
  by (simp add: mk_training_config_def sample_training_config_def rbind_eq_Inr_iff) (rule exI [of _ "1 / 2"], simp)

definition sample_partitions :: chronological_partitions where
  "sample_partitions =
     \<lparr>cp_train = partition_of (sample_dataset 70) sample_split ''train'' 0 19,
      cp_validation = partition_of (sample_dataset 70) sample_split ''validation'' 20 39,
      cp_test = partition_of (sample_dataset 70) sample_split ''test'' 40 59, cp_split_spec = sample_split\<rparr>"

lemma sample_rows:
  "filter (included_in (int a) (int a + 19)) (sd_labels (sample_dataset 70)) = map sample_label [a..<a + 14]" if "a + 20 \<le> 70"
proof -
  have "included_in (int a) (int a + 19) (sample_label i) \<longleftrightarrow> a \<le> i \<and> i < a + 14" for i
    by (auto simp: included_in_def sample_label_def)
  then have "filter (included_in (int a) (int a + 19)) (map sample_label [0..<70]) = map sample_label (filter (\<lambda>i. a \<le> i \<and> i < a + 14) [0..<70])"
    by (simp add: filter_map comp_def del: upt_rec_numeral)
  also have "filter (\<lambda>i. a \<le> i \<and> i < a + 14) [0..<70] = [a..<a + 14]"
    by (rule sorted_distinct_set_unique) (use that in \<open>auto simp: sorted_wrt_filter simp del: upt_rec_numeral\<close>)
  finally show ?thesis by (simp add: sample_dataset_def del: upt_rec_numeral)
qed

lemma sample_split_done: "split_supervised_dataset (sample_dataset 70) sample_split = Inr sample_partitions"
proof -
  have "filter (included_in a b) (sd_labels (sample_dataset 70)) \<noteq> []"
    if "(n, a, b) \<in> set (split_ranges sample_split)" for n a b
    using that sample_rows [of 0] sample_rows [of 20] sample_rows [of 40]
    by (auto simp: split_ranges_def sample_split_def simp del: upt_rec_numeral filter_empty_conv)
  from split_nonempty [OF sample_dataset_wf sample_split_wf this] show ?thesis
    by (simp add: sample_partitions_def sample_split_def)
qed

lemma sample_two_classes:
  "two_classes (cp_train sample_partitions)" "two_classes (cp_validation sample_partitions)"
  "two_classes (cp_test sample_partitions)"
proof -
  have "two_classes (partition_of (sample_dataset 70) sample_split n (int a) (int a + 19))" if "a + 20 \<le> 70" "even a" for n a
  proof -
    have "dp_labels (partition_of (sample_dataset 70) sample_split n (int a) (int a + 19)) = map sample_label [a..<a + 14]"
      using sample_rows [OF that(1)] by (simp add: partition_of_def Let_def)
    moreover have "a \<in> {a..<a + 14}" "a + 1 \<in> {a..<a + 14}" by simp_all
    then have "lb_target (sample_label a) \<in> lb_target ` sample_label ` {a..<a + 14}"
      "lb_target (sample_label (a + 1)) \<in> lb_target ` sample_label ` {a..<a + 14}" by blast+
    ultimately show ?thesis using that(2) by (auto simp: two_classes_def sample_label_def split: if_splits)
  qed
  from this [of 0] this [of 20] this [of 40] show
    "two_classes (cp_train sample_partitions)" "two_classes (cp_validation sample_partitions)"
    "two_classes (cp_test sample_partitions)"
    by (simp_all add: sample_partitions_def)
qed


lemma sample_pipeline_run:
  obtains l m e where "mk_locked_selection ''1'' l = Inr l"
    "fit_locked_model_on_train_validation sample_sklearn (cp_train sample_partitions) (cp_validation sample_partitions) l
       (PyAware 2) = Inr m"
    "evaluate_locked_model_on_test sample_sklearn m (cp_test sample_partitions) (PyAware 3) = Inr e"
proof -
  have ok: "split_ok sample_split sample_partitions"
    by (rule split_gives_ok [OF sample_dataset_wf sample_split_wf sample_split_done]) simp
  obtain c where trained: "train_candidate_models sample_sklearn (cp_train sample_partitions) (cp_validation sample_partitions)
      sample_training_config (PyAware 1) = Inr c"
    and c: "lock_ok sample_sklearn sample_partitions sample_training_config (PyAware 1)
      (cc_logistic_regression c) (cc_gradient_boosting c) (cc_locked_selection c)"
    "fixed_model_parameters LOGISTIC_REGRESSION_MODEL (mc_random_seed sample_training_config) =
       Inr (cr_fixed_parameters (cc_logistic_regression c))"
    "fixed_model_parameters GRADIENT_BOOSTING_MODEL (mc_random_seed sample_training_config) =
       Inr (cr_fixed_parameters (cc_gradient_boosting c))"
    by (rule trained_and_locked [OF sample_sklearn_behaves ok sample_two_classes(1,2) sample_training_config_ok, of 1])
  obtain m e where m: "fit_locked_model_on_train_validation sample_sklearn (cp_train sample_partitions)
      (cp_validation sample_partitions) (cc_locked_selection c) (PyAware 2) = Inr m"
    "mk_final_model sample_sklearn m = Inr m" "fm_estimator m = e" "fm_lineage m = lk_lineage (cc_locked_selection c)"
    "fm_locked_selection m = cc_locked_selection c"
    "estimator_behaves sample_sklearn (lk_selected_model_name (cc_locked_selection c)) (mc_random_seed sample_training_config) e"
    "fm_selected_model_name m = lk_selected_model_name (cc_locked_selection c)"
    "fm_validation_last_session m = lk_validation_last_session (cc_locked_selection c)"
    "fm_diagnostic_classification_threshold m = mc_diagnostic_classification_threshold sample_training_config"
    by (rule refitted [OF sample_sklearn_behaves ok sample_two_classes(1,2) sample_training_config_ok c])
  have "scores_behave sample_sklearn" using sample_sklearn_behaves by (simp add: sklearn_behaves_def)
  then obtain e' where "evaluate_locked_model_on_test sample_sklearn m (cp_test sample_partitions) (PyAware 3) = Inr e'"
    using evaluation_completes [OF _ ok sample_two_classes(3) sample_training_config_ok c(1) m(2,4,5) m(6) [folded m(3)] m(7-9)]
    by blast
  moreover have "mk_locked_selection ''1'' (cc_locked_selection c) = Inr (cc_locked_selection c)"
    using c(1) by (simp add: lock_ok_def sample_sklearn_def)
  ultimately show thesis using that m(1) by blast
qed

theorem final_test_is_out_of_sample_witness:
  "\<exists>l (e :: final_evaluation). fe_locked_selection e = l \<and> lock_holds l \<and>
     predicts sample_sklearn () (the_float (fe_diagnostic_classification_threshold e)) (cp_test sample_partitions)
       (pf_rows (ps_data (fe_prediction_set e)))"
proof -
  obtain l m e where "fit_locked_model_on_train_validation sample_sklearn (cp_train sample_partitions)
      (cp_validation sample_partitions) l (PyAware 2) = Inr m"
    "evaluate_locked_model_on_test sample_sklearn m (cp_test sample_partitions) (PyAware 3) = Inr e"
    by (rule sample_pipeline_run)
  from final_test_is_out_of_sample [OF sample_dataset_wf sample_split_wf sample_split_done this]
  have "fe_locked_selection e = l" "lock_holds l" "predicts sample_sklearn ()
      (the_float (fe_diagnostic_classification_threshold e)) (cp_test sample_partitions) (pf_rows (ps_data (fe_prediction_set e)))"
    by simp_all
  then show ?thesis by blast
qed

theorem locked_selection_cannot_be_changed_witness:
  "\<exists>l. mk_locked_selection ''1'' l = Inr l \<and> lock_holds l \<and>
     (\<nexists>x. mk_locked_selection ''1'' (l \<lparr>lk_selection_reason := lk_selection_reason l @ ''!''\<rparr>) = Inr x)"
proof -
  obtain l :: locked_selection where l: "mk_locked_selection ''1'' l = Inr l"
    by (rule sample_pipeline_run)
  then show ?thesis
    using locked_selection_cannot_be_changed [OF l, of "l \<lparr>lk_selection_reason := lk_selection_reason l @ ''!''\<rparr>" "''1''"]
    by (auto simp: locked_decision_def)
qed

definition sample_snapshot :: "string \<Rightarrow> rat \<Rightarrow> metric_snapshot" where
  "sample_snapshot name auc =
     \<lparr>ms_model_name = name, ms_row_count = 14, ms_positive_count = 7, ms_negative_count = 7, ms_log_loss = Fin (1 / 2),
      ms_brier_score = Fin (1 / 4), ms_roc_auc = Fin auc\<rparr>"

lemma sample_snapshot_ok:
  "name \<in> set MODEL_NAMES \<Longrightarrow> 0 \<le> auc \<Longrightarrow> auc \<le> 1 \<Longrightarrow>
     mk_metric_snapshot (sample_snapshot name auc) = Inr (sample_snapshot name auc)"
  by (simp add: sample_snapshot_def mk_metric_snapshot_def validate_model_name_def validate_int_def validate_finite_float_def)

theorem selection_prefers_the_better_model_witness:
  "\<exists>s. choose_model_by_metric_snapshots (sample_snapshot LOGISTIC_REGRESSION_MODEL (1 / 2))
       (sample_snapshot GRADIENT_BOOSTING_MODEL (3 / 4)) = Inr s \<and>
     chosen_fairly (sample_snapshot LOGISTIC_REGRESSION_MODEL (1 / 2)) (sample_snapshot GRADIENT_BOOSTING_MODEL (3 / 4))
       (sn_selected_model_name s)"
proof -
  have "mk_metric_snapshot (sample_snapshot LOGISTIC_REGRESSION_MODEL (1 / 2)) = Inr (sample_snapshot LOGISTIC_REGRESSION_MODEL (1 / 2))"
    "mk_metric_snapshot (sample_snapshot GRADIENT_BOOSTING_MODEL (3 / 4)) = Inr (sample_snapshot GRADIENT_BOOSTING_MODEL (3 / 4))"
    by (rule sample_snapshot_ok; simp add: MODEL_NAMES_def)+
  from selection_prefers_the_better_model [OF this] show ?thesis by (auto simp: sample_snapshot_def)
qed

end
