(* ===== verification/Float_Text.thy ===== *)
theory Float_Text
  imports Backtest_Models
begin

text \<open>
  The text Python prints for a finite float, \<^verbatim>\<open>repr\<close> and \<^verbatim>\<open>str\<close>: the shortest decimal that rounds back to the
  float, in positional notation from 0.0001 up to 16 digits before the point and with an exponent otherwise. The
  program turns market prices into decimals by \<^verbatim>\<open>Decimal(str(price))\<close>.
\<close>

section \<open>Integers\<close>

definition digit_char :: "nat \<Rightarrow> char" where
  "digit_char d = char_of (48 + d)"

function show_nat :: "nat \<Rightarrow> string" where
  "show_nat n = (if n < 10 then [digit_char n] else show_nat (n div 10) @ [digit_char (n mod 10)])"
  by pat_completeness auto
termination by (relation "measure id") simp_all

declare show_nat.simps [simp del]

lemma digit_char_value: "d < 10 \<Longrightarrow> is_digit (digit_char d) \<and> of_char (digit_char d) = int (48 + d)"
  by (simp add: digit_char_def is_digit_def flip: of_nat_of_char [where 'a = int])

lemma digits_value_Nil: "digits_value [] = 0"
  by (simp add: digits_value_def)

lemma digits_value_snoc: "digits_value (s @ [c]) = 10 * digits_value s + (of_char c - 48)"
  by (simp add: digits_value_def)

lemma show_nat_digits: "list_all is_digit (show_nat n)" "show_nat n \<noteq> []"
  by (induction n rule: show_nat.induct; subst show_nat.simps; simp add: digit_char_value)+

lemma show_nat_value: "digits_value (show_nat n) = int n"
proof (induction n rule: show_nat.induct)
  case (1 n)
  then show ?case
    using digits_value_snoc [of "[]"]
    by (subst show_nat.simps) (simp add: digits_value_snoc digits_value_Nil digit_char_value, presburger)
qed

lemma digits_value_zeros: "digits_value (s @ replicate k (CHR ''0'')) = digits_value s * 10 ^ k"
  by (induction k) (simp_all add: replicate_append_same [symmetric] digits_value_snoc append_assoc [symmetric] del: append_assoc)

lemma digits_value_leading: "digits_value (replicate k (CHR ''0'') @ s) = digits_value s"
  by (induction k) (simp_all add: digits_value_def)

section \<open>The shortest decimal\<close>

definition short_digits :: "rat \<Rightarrow> nat" where
  "short_digits x = (case find (\<lambda>n. float_round (round_sig 10 n x) = x) [1..<17] of Some n \<Rightarrow> n | None \<Rightarrow> 17)"

definition short_decimal :: "rat \<Rightarrow> rat" where
  "short_decimal x = round_sig 10 (short_digits x) x"

text \<open>The significand of a positive decimal and its exponent, without trailing zeros.\<close>

function strip_zeros :: "nat \<Rightarrow> int \<Rightarrow> nat \<times> int" where
  "strip_zeros m e = (if m = 0 \<or> m mod 10 \<noteq> 0 then (m, e) else strip_zeros (m div 10) (e + 1))"
  by pat_completeness auto
termination by (relation "measure fst") simp_all

declare strip_zeros.simps [simp del]

lemma strip_zeros_value:
  "strip_zeros m e = (m', e') \<Longrightarrow> (of_nat m :: rat) * 10 powi e = of_nat m' * 10 powi e'"
proof (induction m e rule: strip_zeros.induct)
  case (1 m e)
  show ?case
  proof (cases "m = 0 \<or> m mod 10 \<noteq> 0")
    case True
    then show ?thesis using 1(2) by (subst (asm) strip_zeros.simps) auto
  next
    case False
    then have "m = 10 * (m div 10)" by presburger
    then have "(of_nat m :: rat) = of_nat (m div 10) * 10"
      by (metis of_nat_mult of_nat_numeral mult.commute)
    then have "(of_nat m :: rat) * 10 powi e = of_nat (m div 10) * 10 powi (e + 1)"
      by (simp add: power_int_add)
    then show ?thesis using 1 False by (subst (asm) (2) strip_zeros.simps) simp
  qed
qed

definition significand :: "rat \<Rightarrow> nat \<times> int" where
  "significand x =
     (let p = short_digits x; e = lead_exp 10 p x in strip_zeros (nat (rhe (x / 10 powi e))) e)"

lemma significand_value:
  assumes "0 < x" "significand x = (m, e)"
  shows "short_decimal x = of_nat m * 10 powi e"
proof -
  define p where "p = short_digits x"
  let ?e = "lead_exp 10 p x"
  have "0 \<le> rhe (x / 10 powi ?e)" using rhe_mono [of 0 "x / 10 powi ?e"] assms(1) rhe_of_int [of 0] by simp
  then have "short_decimal x = of_nat (nat (rhe (x / 10 powi ?e))) * 10 powi ?e"
    using assms(1) by (simp add: short_decimal_def round_sig_def Let_def p_def)
  also have "\<dots> = of_nat m * 10 powi e"
    by (rule strip_zeros_value) (use assms(2) in \<open>simp add: significand_def Let_def p_def\<close>)
  finally show ?thesis .
qed

section \<open>The text\<close>

definition show_exponent :: "int \<Rightarrow> string" where
  "show_exponent e =
     ''e'' @ (if e < 0 then ''-'' else ''+'') @ (if \<bar>e\<bar> < 10 then ''0'' else []) @ show_nat (nat \<bar>e\<bar>)"

text \<open>\<open>ds\<close> are the digits, the decimal point stands after the first \<open>decpt\<close> of them.\<close>

definition place_point :: "string \<Rightarrow> int \<Rightarrow> string" where
  "place_point ds decpt =
     (if decpt \<le> - 4 \<or> 16 < decpt
      then take 1 ds @ (if length ds = 1 then [] else ''.'' @ drop 1 ds) @ show_exponent (decpt - 1)
      else if decpt \<le> 0 then ''0.'' @ replicate (nat (- decpt)) (CHR ''0'') @ ds
      else if nat decpt < length ds then take (nat decpt) ds @ ''.'' @ drop (nat decpt) ds
      else ds @ replicate (nat decpt - length ds) (CHR ''0'') @ ''.0'')"

definition float_repr :: "rat \<Rightarrow> string" where
  "float_repr x =
     (if x = 0 then ''0.0''
      else (let (m, e) = significand \<bar>x\<bar>; ds = show_nat m
            in (if x < 0 then ''-'' else []) @ place_point ds (int (length ds) + e)))"

section \<open>The parser reads it back\<close>

lemma digit_not_special:
  assumes "is_digit c"
  shows "\<not> is_space c" "c \<noteq> CHR ''_''" "c \<noteq> CHR ''-''" "c \<noteq> CHR ''+''" "lower_char c = c" "c \<noteq> CHR ''n''" "c \<noteq> CHR ''i''"
    "c \<noteq> CHR ''s''"
  using assms unfolding is_digit_def is_space_def lower_char_def Let_def by auto

lemma strip_solid:
  assumes "s \<noteq> []" "\<not> is_space (hd s)" "\<not> is_space (last s)"
  shows "strip s = s"
proof -
  have "dropWhile is_space s = s" using assms by (cases s) simp_all
  moreover have "dropWhile is_space (rev s) = rev s"
    using assms by (cases "rev s") (simp_all add: hd_rev [symmetric])
  ultimately show ?thesis by (simp add: strip_def)
qed

text \<open>A literal: digits, a fraction, an exponent.\<close>

definition number_char :: "char \<Rightarrow> bool" where
  "number_char c \<longleftrightarrow> is_digit c \<or> c \<in> {CHR ''.'', CHR ''e'', CHR ''-'', CHR ''+''}"

lemma number_char_solid: "number_char c \<Longrightarrow> \<not> is_space c \<and> c \<noteq> CHR ''_''"
  using digit_not_special(1,2) [of c] by (cases "is_digit c") (auto simp: number_char_def, auto simp: is_space_def)

lemma parse_number:
  assumes "s \<noteq> []" "is_digit (hd s)" "list_all number_char s"
  shows "parse_decimal s = map_option Fin (parse_unsigned s)"
    "parse_decimal (CHR ''-'' # s) = map_option (\<lambda>v. Fin (- v)) (parse_unsigned s)"
proof -
  have ends: "\<not> is_space (hd s)" "\<not> is_space (last s)"
    using assms number_char_solid by (auto simp: list_all_iff digit_not_special)
  have keep: "filter (\<lambda>c. c \<noteq> CHR ''_'') s = s"
    using assms(3) number_char_solid by (auto simp: list_all_iff filter_id_conv)
  obtain c r where s: "s = c # r" using assms(1) by (cases s) simp_all
  note c = digit_not_special [OF assms(2) [unfolded s list.sel]]
  have "parse_special s = None"
    using c by (auto simp: s parse_special_def lower_def Let_def)
  moreover have "strip s = s" by (rule strip_solid [OF assms(1) ends])
  moreover have "strip (CHR ''-'' # s) = CHR ''-'' # s"
    using assms(1) ends by (intro strip_solid) (simp_all add: is_space_def)
  moreover have "hd s \<noteq> CHR ''-''" "hd s \<noteq> CHR ''+''" using c by (simp_all add: s)
  ultimately show "parse_decimal s = map_option Fin (parse_unsigned s)"
    "parse_decimal (CHR ''-'' # s) = map_option (\<lambda>v. Fin (- v)) (parse_unsigned s)"
    using assms(1) keep by (simp_all add: parse_decimal_def Let_def)
qed

lemma span_digits:
  assumes "list_all is_digit ds" "r = [] \<or> \<not> is_digit (hd r)"
  shows "takeWhile is_digit (ds @ r) = ds" "dropWhile is_digit (ds @ r) = r"
  using assms by (induction ds) (cases r; simp)+

lemma parse_positional:
  assumes "list_all is_digit ip" "list_all is_digit fp" "ip \<noteq> []"
    and "r = [] \<or> hd r = CHR ''e''" "parse_exponent r = Some e"
  shows "parse_unsigned (ip @ ''.'' @ fp @ r) = Some (of_int (digits_value (ip @ fp)) * 10 powi (e - int (length fp)))"
proof -
  have point: "\<not> is_digit (CHR ''.'')" "\<not> is_digit (CHR ''e'')" by (simp_all add: is_digit_def)
  have "takeWhile is_digit (ip @ ''.'' @ fp @ r) = ip" "dropWhile is_digit (ip @ ''.'' @ fp @ r) = ''.'' @ fp @ r"
    using assms(1) point by (intro span_digits; simp)+
  moreover have "takeWhile is_digit (fp @ r) = fp" "dropWhile is_digit (fp @ r) = r"
    using assms(2,4) point by (intro span_digits; auto)+
  ultimately show ?thesis using assms by (simp add: parse_unsigned_def Let_def)
qed

lemma parse_plain:
  assumes "list_all is_digit ip" "ip \<noteq> []" "r = [] \<or> hd r = CHR ''e''" "parse_exponent r = Some e"
  shows "parse_unsigned (ip @ r) = Some (of_int (digits_value ip) * 10 powi e)"
proof -
  have point: "\<not> is_digit (CHR ''.'')" "\<not> is_digit (CHR ''e'')" by (simp_all add: is_digit_def)
  have "takeWhile is_digit (ip @ r) = ip" "dropWhile is_digit (ip @ r) = r"
    using assms point by (intro span_digits; auto)+
  moreover have "(r \<noteq> [] \<and> hd r = CHR ''.'') = False" using assms(3) by auto
  ultimately show ?thesis using assms by (simp only: parse_unsigned_def Let_def) simp
qed

lemma parse_show_exponent: "parse_exponent (show_exponent e) = Some e"
proof -
  have digits: "list_all is_digit ((if \<bar>e\<bar> < 10 then ''0'' else []) @ show_nat (nat \<bar>e\<bar>))"
    using show_nat_digits by (simp add: is_digit_def)
  define ds where "ds = (if \<bar>e\<bar> < 10 then ''0'' else []) @ show_nat (nat \<bar>e\<bar>)"
  have "digits_value ds = \<bar>e\<bar>"
    using digits_value_leading [of 1] show_nat_value [of "nat \<bar>e\<bar>"] by (simp add: ds_def)
  moreover have "ds \<noteq> []" "list_all is_digit ds" using digits show_nat_digits(2) by (simp_all add: ds_def)
  ultimately show ?thesis
    by (auto simp: show_exponent_def parse_exponent_def Let_def ds_def [symmetric])
qed

text \<open>Wherever the point is placed, the text has the value of the digits scaled by a power of ten.\<close>

lemma digits_number: "list_all is_digit s \<Longrightarrow> list_all number_char s"
  by (auto simp: list_all_iff number_char_def)

lemma show_exponent_number: "list_all number_char (show_exponent e)"
  using digits_number [OF show_nat_digits(1) [of "nat \<bar>e\<bar>"]]
  by (simp add: show_exponent_def number_char_def is_digit_def)

lemma digit_zero: "is_digit (CHR ''0'')" "list_all is_digit (replicate k (CHR ''0''))"
  by (simp_all add: is_digit_def list_all_iff)

lemma place_point_parses:
  assumes "list_all is_digit ds" "ds \<noteq> []"
  shows "parse_unsigned (place_point ds decpt) =
    Some (of_int (digits_value ds) * 10 powi (decpt - int (length ds)))"
proof -
  have cut: "list_all is_digit (take k ds)" "list_all is_digit (drop k ds)" for k
    using assms(1) by (auto simp: list_all_iff dest: in_set_takeD in_set_dropD)
  have hd_exp: "hd (show_exponent e) = CHR ''e''" for e by (simp add: show_exponent_def)
  consider "(decpt \<le> - 4 \<or> 16 < decpt) \<and> length ds = 1" | "(decpt \<le> - 4 \<or> 16 < decpt) \<and> length ds \<noteq> 1"
    | "- 4 < decpt \<and> decpt \<le> 0" | "0 < decpt \<and> decpt \<le> 16 \<and> nat decpt < length ds"
    | "0 < decpt \<and> decpt \<le> 16 \<and> length ds \<le> nat decpt" by linarith
  then show ?thesis
  proof cases
    case 1
    then show ?thesis
      using parse_plain [OF assms disjI2 [OF hd_exp] parse_show_exponent, of "decpt - 1"]
      by (simp add: place_point_def)
  next
    case 2
    have "int (length ds - 1) = int (length ds) - 1" using assms(2) by (cases ds) simp_all
    then show ?thesis
      using 2 parse_positional [OF cut(1) [of 1] cut(2) [of 1] _ disjI2 [OF hd_exp] parse_show_exponent, of "decpt - 1"] assms(2)
      by (simp add: place_point_def diff_diff_eq)
  next
    case 3
    let ?z = "replicate (nat (- decpt)) (CHR ''0'')"
    have "parse_unsigned (''0'' @ ''.'' @ (?z @ ds) @ []) =
        Some (of_int (digits_value (''0'' @ ?z @ ds)) * 10 powi (0 - int (length (?z @ ds))))"
      by (rule parse_positional) (use assms(1) digit_zero in \<open>simp_all add: parse_exponent_def\<close>)
    moreover have "digits_value (''0'' @ ?z @ ds) = digits_value ds"
      using digits_value_leading [of "Suc (nat (- decpt))" ds] by simp
    ultimately show ?thesis using 3 by (simp add: place_point_def)
  next
    case 4
    have "parse_unsigned (take (nat decpt) ds @ ''.'' @ drop (nat decpt) ds @ []) =
        Some (of_int (digits_value (take (nat decpt) ds @ drop (nat decpt) ds)) * 10 powi (0 - int (length (drop (nat decpt) ds))))"
      by (rule parse_positional) (use cut assms(2) 4 in \<open>simp_all add: parse_exponent_def\<close>)
    then show ?thesis using 4 by (simp add: place_point_def of_nat_diff)
  next
    case 5
    let ?k = "nat decpt - length ds"
    have "parse_unsigned ((ds @ replicate ?k (CHR ''0'')) @ ''.'' @ ''0'' @ []) =
        Some (of_int (digits_value ((ds @ replicate ?k (CHR ''0'')) @ ''0'')) * 10 powi (0 - int (length ''0'')))"
      by (rule parse_positional) (use assms digit_zero in \<open>simp_all add: parse_exponent_def\<close>)
    moreover have "digits_value ((ds @ replicate ?k (CHR ''0'')) @ ''0'') = digits_value ds * 10 ^ Suc ?k"
      using digits_value_zeros [of ds "Suc ?k"] by (simp add: replicate_append_same)
    moreover have "(10 :: rat) ^ Suc ?k * 10 powi (- 1) = 10 ^ ?k"
      by (simp add: power_int_minus)
    moreover have "(10 :: rat) powi (decpt - int (length ds)) = 10 ^ ?k"
    proof -
      have "decpt - int (length ds) = int ?k" using 5 by (simp add: of_nat_diff)
      then show ?thesis by (simp only: power_int_of_nat)
    qed
    ultimately show ?thesis using 5 by (simp add: place_point_def mult.assoc del: power_Suc)
  qed
qed

lemma place_point_number:
  assumes "list_all is_digit ds" "ds \<noteq> []"
  shows "place_point ds decpt \<noteq> []" "is_digit (hd (place_point ds decpt))" "list_all number_char (place_point ds decpt)"
proof -
  obtain c r where ds: "ds = c # r" using assms(2) by (cases ds) simp_all
  have c: "is_digit c" "list_all is_digit r" using assms(1) by (simp_all add: ds)
  show "place_point ds decpt \<noteq> []" by (simp add: place_point_def ds)
  show "is_digit (hd (place_point ds decpt))"
    using c digit_zero by (cases "nat decpt") (auto simp: place_point_def ds)
  have cut: "list_all number_char (take k ds)" "list_all number_char (drop k ds)" for k
    using digits_number [OF assms(1)] by (auto simp: list_all_iff dest: in_set_takeD in_set_dropD)
  have "number_char (CHR ''.'')" "number_char (CHR ''0'')" by (simp_all add: number_char_def digit_zero)
  then show "list_all number_char (place_point ds decpt)"
    using cut cut(2) [of 0] digits_number [OF digit_zero(2)] show_exponent_number
    by (auto simp: place_point_def)
qed

lemma short_decimal_minus: "short_decimal (- x) = - short_decimal x"
proof -
  have minus: "round_sig 10 n (- x) = - round_sig 10 n x" for n
    by (simp add: round_sig_def Let_def sgn_minus)
  then show ?thesis by (simp add: short_decimal_def short_digits_def float_round_minus)
qed

theorem float_repr_parses: "decimal_of (PyFloat (Fin x) (float_repr x)) = Some (Fin (short_decimal x))"
proof -
  have pos: "parse_unsigned (place_point (show_nat m) (int (length (show_nat m)) + e)) = Some (short_decimal y)"
    if "0 < y" "significand y = (m, e)" for y m e
    using place_point_parses [OF show_nat_digits] significand_value [OF that] by (simp add: show_nat_value)
  show ?thesis
  proof (cases "x = 0")
    case True
    have "parse_decimal ''0.0'' = Some (Fin 0)" by (simp add: parse_eval)
    then show ?thesis using True by (simp add: float_repr_def short_decimal_def round_sig_def)
  next
    case False
    obtain m e where me: "significand \<bar>x\<bar> = (m, e)" by fastforce
    note number = parse_number [OF place_point_number [OF show_nat_digits]]
    show ?thesis
      using False me number pos [of "\<bar>x\<bar>" m e] short_decimal_minus [of x]
      by (cases "x < 0") (simp_all add: float_repr_def Let_def)
  qed
qed

section \<open>The text determines the float\<close>

text \<open>The exponent of the unit in the last place.\<close>

definition min_exp :: int where "min_exp = - 1074"

definition unit_exp :: "rat \<Rightarrow> int" where
  "unit_exp z = (if subnormal z then min_exp else lead_exp 2 53 z)"

lemma ulp_power: "(2 :: rat) powi min_exp = 1 / ulp_scale"
  by (simp only: min_exp_def ulp_scale_def power_int_minus power_int_numeral divide_inverse mult_1)

lemma normal_power: "1 / normal_scale = 2 ^ 52 * (2 :: rat) powi min_exp"
  unfolding ulp_power using scales by (simp add: field_simps del: power_numeral)

lemma float_round_unit:
  assumes "0 < z"
  shows "float_round z = of_int (rhe (z / 2 powi unit_exp z)) * 2 powi unit_exp z"
proof (cases "subnormal z")
  case True
  then show ?thesis by (simp add: unit_exp_def float_round_subnormal ulp_power)
next
  case False
  then show ?thesis using digits53.round_sig_pos_eq [OF assms] by (simp add: unit_exp_def float_round_normal)
qed

lemma unit_exp_upper:
  assumes "0 < z"
  shows "z < 2 ^ 53 * 2 powi unit_exp z"
proof (cases "subnormal z")
  case True
  then have "z < 1 / normal_scale" using assms scales(2) by (simp add: subnormal_def less_divide_eq)
  also have "1 / normal_scale \<le> 2 ^ 53 * (2 :: rat) powi min_exp"
    unfolding normal_power by (intro mult_right_mono) simp_all
  finally show ?thesis using True by (simp add: unit_exp_def)
next
  case False
  have "z / 2 powi lead_exp 2 53 z < 2 ^ 53" using lead_exp_bounds(2) [of 2 53 z] assms by simp
  then show ?thesis using False by (simp add: unit_exp_def divide_less_eq)
qed

lemma unit_exp_lower:
  assumes "0 < z" "\<not> subnormal z"
  shows "2 ^ 52 * 2 powi unit_exp z \<le> z" "min_exp \<le> unit_exp z"
proof -
  have "(2 :: rat) ^ 52 \<le> z / 2 powi lead_exp 2 53 z" using lead_exp_bounds(1) [of 2 53 z] assms by simp
  then show "2 ^ 52 * 2 powi unit_exp z \<le> z" using assms(2) by (simp add: unit_exp_def le_divide_eq)
  show "min_exp \<le> unit_exp z"
  proof (rule ccontr)
    assume "\<not> ?thesis"
    then have "(2 :: rat) powi (unit_exp z + 1) \<le> 2 powi min_exp" by (intro power_int_increasing) simp_all
    then have "2 ^ 53 * (2 :: rat) powi unit_exp z \<le> 2 ^ 52 * 2 powi min_exp" by (simp add: power_int_add)
    then have "z < 1 / normal_scale" using unit_exp_upper [OF assms(1)] normal_power by simp
    moreover have "1 / normal_scale \<le> z" using assms by (simp add: not_subnormal)
    ultimately show False by simp
  qed
qed

lemma rhe_near: "\<bar>y - of_int k\<bar> < 1 / 2 \<Longrightarrow> rhe y = k"
  using rhe_error [of y] by linarith

lemma half_unit: "x < 2 ^ 53 * u \<Longrightarrow> 0 < x \<Longrightarrow> 2 * 10 ^ 16 * d \<le> x \<Longrightarrow> d < u / 2" for u d x :: rat
  by simp

lemma nearest_float:
  assumes "0 < x" "float_round x = x" "0 < y" "2 * 10 ^ 16 * \<bar>y - x\<bar> \<le> x"
  shows "float_round y = x"
proof -
  define a where "a = unit_exp x"
  define b where "b = unit_exp y"
  let ?A = "2 powi a :: rat" and ?B = "2 powi b :: rat"
  have pos: "0 < ?A" "0 < ?B" by simp_all
  obtain k where k: "x = of_int k * ?A" using float_round_unit [OF assms(1)] assms(2) by (metis a_def)
  have small: "\<bar>y - x\<bar> < ?A / 2"
    using unit_exp_upper [OF assms(1), folded a_def] assms(1,4) by (rule half_unit)
  have "b \<le> a"
  proof (rule ccontr)
    assume less: "\<not> b \<le> a"
    have "min_exp \<le> a" using unit_exp_lower(2) [OF assms(1)] by (cases "subnormal x") (simp_all add: a_def unit_exp_def)
    then have normal: "\<not> subnormal y" using less by (auto simp: b_def unit_exp_def)
    have "2 powi (a + 1) \<le> ?B" using less by (intro power_int_increasing) simp_all
    then have "2 ^ 53 * ?A \<le> y" using unit_exp_lower(1) [OF assms(3) normal] by (simp add: b_def power_int_add)
    moreover have "k \<le> 2 ^ 53 - 1"
    proof -
      have "of_int k * ?A < of_int (2 ^ 53) * ?A" using unit_exp_upper [OF assms(1), folded a_def] k by simp
      then have "k < 2 ^ 53" using pos(1) by (simp only: mult_less_cancel_right_pos of_int_less_iff)
      then show ?thesis by simp
    qed
    then have "(of_int k :: rat) \<le> of_int (2 ^ 53 - 1)" by (simp only: of_int_le_iff)
    then have "of_int k * ?A \<le> of_int (2 ^ 53 - 1) * ?A" using pos(1) by (intro mult_right_mono) simp_all
    moreover have "of_int (2 ^ 53 - 1) * ?A = 2 ^ 53 * ?A - ?A" by (simp add: algebra_simps)
    ultimately have "?A \<le> y - x" using k by linarith
    then show False using small pos(1) by linarith
  qed
  then obtain n where n: "a = b + int n" by (metis zle_iff_zadd)
  then have whole: "x = of_int (k * 2 ^ n) * ?B" using k by (simp add: power_int_add)
  have "y < 2 ^ 53 * ?B" using unit_exp_upper [OF assms(3)] by (simp add: b_def)
  then have "\<bar>y - x\<bar> < ?B / 2" using assms(1,4) by (simp add: abs_if split: if_splits)
  then have "\<bar>y / ?B - of_int (k * 2 ^ n)\<bar> < 1 / 2"
    using pos(2) whole by (simp add: abs_less_iff field_simps)
  then have "rhe (y / ?B) = k * 2 ^ n" by (rule rhe_near)
  then show ?thesis using float_round_unit [OF assms(3)] whole by (simp add: b_def)
qed

lemma short_decimal_pos: "0 < x \<Longrightarrow> 0 < short_decimal x"
proof -
  assume x: "0 < x"
  have "short_digits x \<in> {1..17}"
    by (auto simp: short_digits_def find_Some_iff split: option.splits)
  then have "significant_digits 10 (short_digits x)" by (auto simp: significant_digits_def)
  from significant_digits.round_sig_pos [OF this x] show ?thesis by (simp add: short_decimal_def)
qed

theorem short_decimal_roundtrip:
  assumes "float_round x = x"
  shows "float_round (short_decimal x) = x"
proof -
  have pos: "float_round (short_decimal x) = x" if x: "0 < x" "float_round x = x" for x
  proof (cases "find (\<lambda>n. float_round (round_sig 10 n x) = x) [1..<17]")
    case None
    have "significant_digits 10 17" by unfold_locales simp_all
    from significant_digits.round_sig_error [OF this, of x] x(1)
    have "2 * 10 ^ 16 * \<bar>round_sig 10 17 x - x\<bar> \<le> x" by simp
    then show ?thesis
      using nearest_float [OF x, of "round_sig 10 17 x"] None short_decimal_pos [OF x(1)]
      by (simp add: short_decimal_def short_digits_def)
  next
    case (Some n)
    then have "float_round (round_sig 10 n x) = x" by (auto simp: find_Some_iff)
    then show ?thesis by (simp only: short_decimal_def short_digits_def Some option.case)
  qed
  consider "0 < x" | "x = 0" | "0 < - x" by linarith
  then show ?thesis
  proof cases
    case 3
    then show ?thesis using pos [of "- x"] assms by (simp add: short_decimal_minus float_round_minus)
  qed (use pos assms in \<open>simp_all add: short_decimal_def round_sig_def\<close>)
qed

end
