(* ===== verification/Backtest_Market.thy ===== *)
theory Backtest_Market
  imports Backtest_Engine Data_Signals Float_Text
begin

text \<open>
  From a final test evaluation and market data to the records of a simulation: \<^verbatim>\<open>ExecutionPriceSet\<close> of
  \<^verbatim>\<open>backtesting/models.py\<close>, and the entry points of \<^verbatim>\<open>backtesting/engine.py\<close> up to the records of the loop. The prices are
  read from the market data at the execution sessions only; the engine turns a float price into a decimal through its
  printed text.
\<close>

section \<open>Execution prices\<close>

definition EXECUTION_PRICE_COLUMNS :: "string list" where
  "EXECUTION_PRICE_COLUMNS = [''execution_session'', ''reference_open'', ''close_price'']"

record price_row =
  xr_execution_session :: pyval
  xr_reference_open :: dec
  xr_close_price :: dec

record price_frame =
  xf_columns :: "string list"
  xf_dtype :: "string \<Rightarrow> string"
  xf_rows :: "price_row list"

record execution_prices =
  xp_data :: price_frame
  xp_source_market_data_checksum :: string
  xp_source_schema_version :: string
  xp_first_execution_session :: date
  xp_last_execution_session :: date
  xp_row_count :: int
  xp_created_at :: pyval
  xp_execution_price_checksum :: string

text \<open>\<^verbatim>\<open>require_finite_float\<close> on a float cell.\<close>

definition require_finite_float :: "(string \<Rightarrow> exn) \<Rightarrow> string \<Rightarrow> dec \<Rightarrow> exn + rat" where
  "require_finite_float error_type field_name value =
     (case value of Fin r \<Rightarrow> Inr r | _ \<Rightarrow> Inl (error_type (''non_finite_'' @ field_name)))"

text \<open>The digest is that of the lines, which print the session and 17 digits of each price: it is a function of them.\<close>

definition checksum_row :: "price_row \<Rightarrow> exn + date \<times> rat \<times> rat" where
  "checksum_row row =
     rbind (bt_require_plain_date BacktestInputError ''execution_session'' (xr_execution_session row)) (\<lambda>session.
     rbind (require_finite_float BacktestInputError ''reference_open'' (xr_reference_open row)) (\<lambda>reference_open.
     rbind (require_finite_float BacktestInputError ''close_price'' (xr_close_price row)) (\<lambda>close_price.
     Inr (session, reference_open, close_price))))"

definition calculate_execution_price_checksum ::
  "((date \<times> rat \<times> rat) list \<Rightarrow> string) \<Rightarrow> price_frame \<Rightarrow> exn + string" where
  "calculate_execution_price_checksum digest frame =
     rbind (reject_if (xf_columns frame \<noteq> EXECUTION_PRICE_COLUMNS)
              (BacktestInputError ''invalid_execution_price_columns'')) (\<lambda>_.
     rbind (map_results checksum_row (xf_rows frame)) (\<lambda>rows. Inr (digest rows)))"

definition check_execution_price :: "price_row \<Rightarrow> exn + unit" where
  "check_execution_price row =
     (let err = BacktestAccountingError in
     rbind (require_finite_float err ''execution_price_reference_open'' (xr_reference_open row)) (\<lambda>reference_open.
     rbind (require_finite_float err ''execution_price_close_price'' (xr_close_price row)) (\<lambda>close_price.
     reject_if (reference_open \<le> 0 \<or> close_price \<le> 0) (err ''non_positive_execution_price''))))"

definition require_column_dtype :: "string \<Rightarrow> string list \<Rightarrow> string \<Rightarrow> (string \<Rightarrow> string) \<Rightarrow> exn + unit" where
  "require_column_dtype frame_name columns dtype_name dtype =
     check_all (\<lambda>column. reject_if (dtype column \<noteq> dtype_name)
        (BacktestAccountingError (''invalid_'' @ frame_name @ ''_'' @ column @ ''_dtype''))) columns"

definition mk_execution_prices ::
  "((date \<times> rat \<times> rat) list \<Rightarrow> string) \<Rightarrow> execution_prices \<Rightarrow> exn + execution_prices" where
  "mk_execution_prices digest x =
     (let inp = BacktestInputError; acc = BacktestAccountingError; data = xp_data x; rows = xf_rows data in
     rbind (validate_backtest_checksum inp ''source_market_data_checksum''
              (PyStr (xp_source_market_data_checksum x))) (\<lambda>_.
     rbind (reject_if (xp_source_schema_version x \<noteq> SCHEMA_VERSION) (inp ''invalid_source_schema_version'')) (\<lambda>_.
     rbind (reject_if (xp_last_execution_session x < xp_first_execution_session x)
              (inp ''invalid_execution_session_bounds'')) (\<lambda>_.
     rbind (require_int inp 1 ''row_count'' (PyInt (xp_row_count x))) (\<lambda>row_count.
     rbind (require_aware_utc inp ''created_at'' (xp_created_at x)) (\<lambda>created_at.
     rbind (validate_backtest_checksum acc ''execution_price_checksum''
              (PyStr (xp_execution_price_checksum x))) (\<lambda>checksum.
     rbind (reject_if (xf_columns data \<noteq> EXECUTION_PRICE_COLUMNS) (acc ''invalid_execution_prices_columns'')) (\<lambda>_.
     rbind (reject_if (int (length rows) \<noteq> row_count) (acc ''execution_price_row_count_mismatch'')) (\<lambda>_.
     rbind (require_column_dtype ''execution_prices'' [''reference_open'', ''close_price''] ''float64''
              (xf_dtype data)) (\<lambda>_.
     rbind (map_results (bt_require_plain_date acc ''execution_session'') (map xr_execution_session rows)) (\<lambda>sessions.
     rbind (reject_if (sessions \<noteq> sort sessions \<or> \<not> distinct sessions)
              (acc ''unordered_execution_price_sessions'')) (\<lambda>_.
     rbind (reject_if (hd sessions \<noteq> xp_first_execution_session x \<or> last sessions \<noteq> xp_last_execution_session x)
              (acc ''execution_price_session_bounds_mismatch'')) (\<lambda>_.
     rbind (check_all check_execution_price rows) (\<lambda>_.
     rbind (calculate_execution_price_checksum digest data) (\<lambda>recomputed_checksum.
     rbind (reject_if (checksum \<noteq> recomputed_checksum) (acc ''execution_price_checksum_mismatch'')) (\<lambda>_.
     Inr (x \<lparr>xp_created_at := PyAware created_at\<rparr>)))))))))))))))))"

section \<open>Prices from the market data\<close>

definition revalidate_backtest_market_data :: "(bar list \<Rightarrow> string) \<Rightarrow> market_batch \<Rightarrow> exn + market_batch" where
  "revalidate_backtest_market_data digest batch =
     (case mk_market_batch digest CANONICAL_COLUMNS (map raw_bar_of (md_bars batch)) (md_metadata batch) of
        Inl _ \<Rightarrow> Inl (BacktestInputError ''invalid_market_data'')
      | Inr b \<Rightarrow> Inr b)"

text \<open>\<^verbatim>\<open>market_by_session.loc[session]\<close>: a row, or a frame when the session is repeated, which has no float price.\<close>

definition market_row_at :: "bar list \<Rightarrow> date \<Rightarrow> exn + bar" where
  "market_row_at bars session =
     (case filter (\<lambda>b. mb_session b = session) bars of
        [] \<Rightarrow> Inl (OtherException ''KeyError'')
      | [b] \<Rightarrow> Inr b
      | _ \<Rightarrow> Inl (OtherException ''TypeError''))"

definition price_row_of :: "bar \<Rightarrow> price_row" where
  "price_row_of b =
     \<lparr>xr_execution_session = PyDate (mb_session b), xr_reference_open = Fin (mb_open b),
      xr_close_price = Fin (mb_close b)\<rparr>"

definition build_execution_prices ::
  "((date \<times> rat \<times> rat) list \<Rightarrow> string) \<Rightarrow> signal_set \<Rightarrow> market_batch \<Rightarrow> instant \<Rightarrow> exn + execution_prices" where
  "build_execution_prices price_digest signal_set batch created_at =
     rbind (map_results (\<lambda>row. market_row_at (md_bars batch) (date_cell (sr_execution_session row)))
              (sf_rows (sgs_data signal_set))) (\<lambda>bars.
     let frame = \<lparr>xf_columns = EXECUTION_PRICE_COLUMNS,
           xf_dtype = (\<lambda>column. if column = ''execution_session'' then ''object'' else ''float64''),
           xf_rows = map price_row_of bars\<rparr> in
     rbind (calculate_execution_price_checksum price_digest frame) (\<lambda>checksum.
     if bars = [] then Inl (OtherException ''IndexError'') else
     mk_execution_prices price_digest
       \<lparr>xp_data = frame, xp_source_market_data_checksum = mm_dataset_checksum (md_metadata batch),
        xp_source_schema_version = mm_schema_version (md_metadata batch),
        xp_first_execution_session = mb_session (hd bars), xp_last_execution_session = mb_session (last bars),
        xp_row_count = int (length bars), xp_created_at = PyAware created_at,
        xp_execution_price_checksum = checksum\<rparr>))"

section \<open>Running the signals\<close>

text \<open>\<^verbatim>\<open>str\<close> of a float cell.\<close>

definition float_cell :: "dec \<Rightarrow> pyval" where
  "float_cell d = PyFloat d (case d of Fin r \<Rightarrow> float_repr r | Infinite b \<Rightarrow> (if b then ''-inf'' else ''inf'')
     | NaN \<Rightarrow> ''nan'')"

definition price_by_session :: "execution_prices \<Rightarrow> date \<Rightarrow> market_row option" where
  "price_by_session x session =
     map_option (\<lambda>row. \<lparr>mr_reference_open = float_cell (xr_reference_open row),
         mr_close_price = float_cell (xr_close_price row)\<rparr>)
       (find (\<lambda>row. xr_execution_session row = PyDate session) (xf_rows (xp_data x)))"

definition signal_of_row :: "signal_row \<Rightarrow> signal" where
  "signal_of_row row =
     \<lparr>sg_signal_session = date_cell (sr_signal_session row), sg_execution_session = date_cell (sr_execution_session row),
      sg_target_position = sr_target_position row\<rparr>"

definition simulate_signal_set ::
  "signal_set \<Rightarrow> backtest_config \<Rightarrow> risk_config \<Rightarrow> execution_prices \<Rightarrow> exn + run_state" where
  "simulate_signal_set signal_set config risk execution_prices =
     run_validated_signal_backtest (price_by_session execution_prices) config risk
       (map signal_of_row (sf_rows (sgs_data signal_set)))"

text \<open>\<^verbatim>\<open>except StrategyError\<close>: the errors of the strategy become one error of the backtest.\<close>

definition strategy_failure :: "data_exn \<Rightarrow> exn" where
  "strategy_failure e =
     (case e of
        StrategyInputError _ \<Rightarrow> BacktestInputError ''invalid_strategy_inputs''
      | _ \<Rightarrow> OtherException ''IndexError'')"

record backtest_environment =
  be_sklearn_version :: string
  be_market_digest :: "bar list \<Rightarrow> string"
  be_price_digest :: "(date \<times> rat \<times> rat) list \<Rightarrow> string"

definition run_long_or_cash_backtest ::
  "backtest_environment \<Rightarrow> final_evaluation \<Rightarrow> market_batch \<Rightarrow> raw_backtest_config \<Rightarrow> risk_config \<Rightarrow> pyval \<Rightarrow>
     exn + signal_set \<times> execution_prices \<times> run_state" where
  "run_long_or_cash_backtest env evaluation market_data backtest_config risk_config created_at =
     rbind (require_aware_utc BacktestInputError ''created_at'' created_at) (\<lambda>created_at_utc.
     rbind (mk_backtest_config backtest_config) (\<lambda>config.
     rbind (mk_risk_config risk_config) (\<lambda>risk.
     rbind (revalidate_backtest_market_data (be_market_digest env) market_data) (\<lambda>batch.
     rbind (case build_long_cash_strategy_signals (be_sklearn_version env) (be_market_digest env) evaluation batch
              (PyAware created_at_utc) of
              Inl e \<Rightarrow> Inl (strategy_failure e) | Inr s \<Rightarrow> Inr s) (\<lambda>signal_set.
     rbind (build_execution_prices (be_price_digest env) signal_set batch created_at_utc) (\<lambda>execution_prices.
     rbind (simulate_signal_set signal_set config risk execution_prices) (\<lambda>run.
     Inr (signal_set, execution_prices, run))))))))"

definition run_strategy_signal_backtest ::
  "backtest_environment \<Rightarrow> signal_set \<Rightarrow> market_batch \<Rightarrow> raw_backtest_config \<Rightarrow> risk_config \<Rightarrow> pyval \<Rightarrow>
     exn + signal_set \<times> execution_prices \<times> run_state" where
  "run_strategy_signal_backtest env signal_set market_data backtest_config risk_config created_at =
     rbind (require_aware_utc BacktestInputError ''created_at'' created_at) (\<lambda>created_at_utc.
     rbind (mk_backtest_config backtest_config) (\<lambda>config.
     rbind (mk_risk_config risk_config) (\<lambda>risk.
     rbind (revalidate_backtest_market_data (be_market_digest env) market_data) (\<lambda>batch.
     rbind (case mk_signal_set (be_sklearn_version env) signal_set of
              Inl e \<Rightarrow> Inl (strategy_failure e) | Inr s \<Rightarrow> Inr s) (\<lambda>signals.
     rbind (reject_if (sgs_created_at signals \<noteq> PyAware created_at_utc)
              (BacktestInputError ''strategy_created_at_mismatch'')) (\<lambda>_.
     rbind (build_execution_prices (be_price_digest env) signals batch created_at_utc) (\<lambda>execution_prices.
     rbind (simulate_signal_set signals config risk execution_prices) (\<lambda>run.
     Inr (signals, execution_prices, run)))))))))"

end
