(* ===== verification/Backtest_Trades.thy ===== *)
theory Backtest_Trades
  imports Backtest_Safety
begin

text \<open>
  Where the records of a run come from: every order, decision, fill and close belongs to the signal of its session
  and reads the prices of that session only. The records up to a session are therefore those of the signals up to
  it.
\<close>

section \<open>What an iteration appends\<close>

definition price_read :: "(date \<Rightarrow> market_row option) \<Rightarrow> (market_row \<Rightarrow> pyval) \<Rightarrow> date \<Rightarrow> rat \<Rightarrow> bool" where
  "price_read prices field d value \<longleftrightarrow>
     (\<exists>row r. prices d = Some row \<and> decimal_of (field row) = Some (Fin r) \<and> value = float_round r)"

definition order_made :: "(date \<Rightarrow> market_row option) \<Rightarrow> signal \<Rightarrow> proposed_order \<Rightarrow> bool" where
  "order_made prices sg p \<longleftrightarrow>
     po_signal_session p = sg_signal_session sg \<and> po_execution_session p = sg_execution_session sg \<and>
     po_target_position p = sg_target_position sg \<and> (po_side p = BUY_SIDE \<longleftrightarrow> sg_target_position sg = 1) \<and>
     price_read prices mr_reference_open (sg_execution_session sg) (po_reference_open p)"

definition fill_made :: "(date \<Rightarrow> market_row option) \<Rightarrow> signal \<Rightarrow> fill_record \<Rightarrow> bool" where
  "fill_made prices sg f \<longleftrightarrow>
     fi_signal_session f = sg_signal_session sg \<and> fi_execution_session f = sg_execution_session sg \<and>
     (fi_side f = BUY_SIDE \<longleftrightarrow> sg_target_position sg = 1) \<and>
     price_read prices mr_reference_open (sg_execution_session sg) (fi_reference_open f)"

definition close_made :: "(date \<Rightarrow> market_row option) \<Rightarrow> signal \<Rightarrow> portfolio_row \<Rightarrow> bool" where
  "close_made prices sg row \<longleftrightarrow>
     pr_session row = sg_execution_session sg \<and> pr_signal_session row = sg_signal_session sg \<and>
     pr_target_position row = sg_target_position sg \<and>
     price_read prices mr_close_price (sg_execution_session sg) (pr_close_price row)"

definition appends :: "run_state \<Rightarrow> proposed_order list \<Rightarrow> risk_decision list \<Rightarrow> fill_record list \<Rightarrow> portfolio_row list \<Rightarrow>
    run_state \<Rightarrow> bool" where
  "appends st os ds fs rows st' \<longleftrightarrow>
     rs_proposed_records st' = rs_proposed_records st @ os \<and> rs_decision_records st' = rs_decision_records st @ ds \<and>
     rs_fill_records st' = rs_fill_records st @ fs \<and> rs_portfolio_records st' = rs_portfolio_records st @ rows"

lemma order_record_fields:
  "order_record p = Inr p' \<Longrightarrow> po_signal_session p' = po_signal_session p \<and>
     po_execution_session p' = po_execution_session p \<and> po_target_position p' = po_target_position p \<and>
     po_side p' = po_side p \<and> po_reference_open p' = float_round (po_reference_open p)"
  unfolding order_record_def by (elim rbind_InrE) (auto dest!: decimal_to_float_Inr)

lemma fill_row_fields:
  "fill_row f = Inr f' \<Longrightarrow> fi_signal_session f' = fi_signal_session f \<and>
     fi_execution_session f' = fi_execution_session f \<and> fi_side f' = fi_side f \<and>
     fi_reference_open f' = float_round (fi_reference_open f)"
  unfolding fill_row_def by (elim rbind_InrE) (auto dest!: decimal_to_float_Inr)

lemma decision_record_session: "decision_record d = Inr d' \<Longrightarrow> rd_evaluated_session d' = rd_evaluated_session d"
  unfolding decision_record_def by (elim rbind_InrE) auto

lemma decision_session:
  assumes "evaluate_order_risk (order_obj p) ps rc costs = Inr d"
  shows "rd_evaluated_session d = po_execution_session p"
proof -
  have "ov_execution_date (read_order config state (order_obj p)) = po_execution_session p" for config state
    by (simp add: read_order_def read_sessions_def order_obj_def Let_def split: sum.split option.split)
  then show ?thesis
    using assms
    by (auto simp: evaluate_order_risk_def unchanged_projection_def mk_risk_decision_iff Let_def split_def
        split: sum.splits if_splits elim!: rbind_InrE)
qed

lemma trade_appends:
  assumes run: "trade_at_open config risk sg r st = Inr st'"
    and ok: "wf_costs (bc_cost_assumptions config)" "0 < r" "0 \<le> rs_shares st"
    and row: "prices (sg_execution_session sg) = Some row" "decimal_of (mr_reference_open row) = Some (Fin r)"
  shows "\<exists>os ds fs. appends st os ds fs [] st' \<and> (\<forall>p \<in> set os. order_made prices sg p) \<and>
    (\<forall>d \<in> set ds. rd_evaluated_session d = sg_execution_session sg) \<and> (\<forall>f \<in> set fs. fill_made prices sg f)"
proof -
  obtain proposal where made: "proposal_of config sg r st = Inr proposal"
    using run by (auto simp: trade_at_open_def elim: rbind_InrE)
  show ?thesis
  proof (cases proposal)
    case None
    then have "st' = st" using run made by (simp add: trade_at_open_def)
    then show ?thesis by (intro exI [of _ "[]"]) (simp add: appends_def)
  next
    case (Some p)
    note p = propose_order_Inr [OF made [unfolded Some] ok]
    have sessions: "po_signal_session p = sg_signal_session sg" "po_execution_session p = sg_execution_session sg"
      "po_target_position p = sg_target_position sg" "po_reference_open p = r" "po_symbol p = SUPPORTED_SYMBOL"
      by (subst p(3), simp add: engine_order_def)+
    have read: "price_read prices mr_reference_open (sg_execution_session sg) (float_round r)"
      using row by (auto simp: price_read_def)
    obtain orow os d drow where orow: "order_record p = Inr orow"
      and d: "evaluate_order_risk (order_obj p) (portfolio_obj os) risk
          (costs_obj (bc_cost_assumptions config)) = Inr d"
      and drow: "decision_record d = Inr drow"
      and rest: "(if \<not> rd_approved d then Inr (with_decision st orow drow)
          else rbind (fill_from_approved_order p (rs_cash st) (rs_shares st) config) (\<lambda>fill.
               rbind (fill_row fill) (\<lambda>row.
               Inr (with_fill (with_decision st orow drow) fill row)))) = Inr st'"
      using run made Some
      by (auto simp: trade_at_open_def with_decision_def with_fill_def Let_def elim!: rbind_InrE
          cong: if_cong)
    have order: "order_made prices sg orow"
      using order_record_fields [OF orow] sessions read p(5) by (simp add: order_made_def)
    have session: "rd_evaluated_session drow = sg_execution_session sg"
      using decision_record_session [OF drow] decision_session [OF d] sessions by simp
    show ?thesis
    proof (cases "rd_approved d")
      case False
      then have "appends st [orow] [drow] [] [] st'" using rest by (auto simp: appends_def with_decision_def)
      then show ?thesis using order session by fastforce
    next
      case True
      obtain f frow where f: "fill_from_approved_order p (rs_cash st) (rs_shares st) config = Inr f"
        "fill_row f = Inr frow" "st' = with_fill (with_decision st orow drow) f frow"
        using rest True by (auto elim!: rbind_InrE)
      have "mk_fill (fill_obj (engine_fill p (rs_cash st) (rs_shares st) (commission_rate (bc_cost_assumptions config))
          (slippage_rate (bc_cost_assumptions config)))) = Inr f"
        using f(1) p(4) sessions(4) by (simp add: fill_from_approved_order_eq [OF p(2) ok(1)])
      from mk_fill_same [OF this] have "fill_made prices sg frow"
        using fill_row_fields [OF f(2)] sessions read p(5) by (simp add: fill_made_def engine_fill_def Let_def)
      moreover have "appends st [orow] [drow] [frow] [] st'"
        using f(3) by (simp add: appends_def with_fill_def with_decision_def)
      ultimately show ?thesis using order session by fastforce
    qed
  qed
qed

lemma mark_appends:
  assumes "mark_to_close config sg cp st = Inr st'"
    and "prices (sg_execution_session sg) = Some row" "decimal_of (mr_close_price row) = Some (Fin cp)"
  shows "\<exists>row. appends st [] [] [] [row] st' \<and> close_made prices sg row"
  using assms unfolding mark_to_close_def Let_def
  by (elim rbind_InrE) (auto simp: decimal_divide_def appends_def close_made_def price_read_def split: if_splits
      dest!: decimal_to_float_Inr)

lemma iteration_appends:
  assumes "run_signal prices config risk sg st = Inr st'" "run_inv st" "priced_signal prices sg"
    "wf_backtest_config config"
  shows "\<exists>os ds fs row. appends st os ds fs [row] st' \<and> (\<forall>p \<in> set os. order_made prices sg p) \<and>
    (\<forall>d \<in> set ds. rd_evaluated_session d = sg_execution_session sg) \<and> (\<forall>f \<in> set fs. fill_made prices sg f) \<and>
    close_made prices sg row"
proof -
  obtain row r cp where row: "prices (sg_execution_session sg) = Some row" "decimal_of (mr_reference_open row) = Some (Fin r)"
    "decimal_of (mr_close_price row) = Some (Fin cp)" "0 < r" "0 < cp"
    using assms(3) by (auto simp: priced_signal_def positive_price_def)
  obtain st1 where st1: "trade_at_open config risk sg r st = Inr st1" "mark_to_close config sg cp st1 = Inr st'"
    using assms(1) row by (auto simp: run_signal_def price_decimal_def elim!: rbind_InrE)
  have "wf_costs (bc_cost_assumptions config)" "0 \<le> rs_shares st"
    using assms(2,4) by (simp_all add: wf_backtest_config_def run_inv_def)
  from trade_appends [where prices = prices, OF st1(1) this(1) row(4) this(2) row(1,2)] obtain os ds fs where
    "appends st os ds fs [] st1" "\<forall>p \<in> set os. order_made prices sg p"
    "\<forall>d \<in> set ds. rd_evaluated_session d = sg_execution_session sg" "\<forall>f \<in> set fs. fill_made prices sg f"
    by blast
  moreover obtain crow where "appends st1 [] [] [] [crow] st'" "close_made prices sg crow"
    using mark_appends [where prices = prices, OF st1(2) row(1,3)] by blast
  ultimately show ?thesis
    by (intro exI [of _ os] exI [of _ ds] exI [of _ fs] exI [of _ crow]) (simp add: appends_def)
qed

section \<open>What a run records\<close>

text \<open>The records of a run, signal by signal.\<close>

definition recorded :: "(date \<Rightarrow> market_row option) \<Rightarrow> signal list \<Rightarrow> run_state \<Rightarrow> bool" where
  "recorded prices sigs st \<longleftrightarrow>
     (\<forall>p \<in> set (rs_proposed_records st). \<exists>sg \<in> set sigs. order_made prices sg p) \<and>
     (\<forall>d \<in> set (rs_decision_records st). \<exists>sg \<in> set sigs. rd_evaluated_session d = sg_execution_session sg) \<and>
     (\<forall>f \<in> set (rs_fill_records st). \<exists>sg \<in> set sigs. fill_made prices sg f) \<and>
     list_all2 (close_made prices) sigs (rs_portfolio_records st)"

lemma run_signals_recorded:
  assumes "run_signals prices config risk sigs (initial_run_state config) = Inr st"
    and "list_all (priced_signal prices) sigs" "wf_backtest_config config"
  shows "recorded prices sigs st \<and> run_inv st"
  using assms(1,2)
proof (induction sigs arbitrary: st rule: rev_induct)
  case Nil
  then show ?case
    using run_inv_initial [OF assms(3)] by (simp add: recorded_def run_signals_def) (auto simp: initial_run_state_def)
next
  case (snoc sg sigs)
  from snoc(2) obtain st1 where st1: "run_signals prices config risk sigs (initial_run_state config) = Inr st1"
    and last: "run_signal prices config risk sg st1 = Inr st"
    by (auto simp: run_signals_def run_steps_append elim!: rbind_InrE)
  have old: "recorded prices sigs st1" "run_inv st1" using snoc(1) [OF st1] snoc(3) by simp_all
  have sg: "priced_signal prices sg" using snoc(3) by simp
  obtain os ds fs row where new: "appends st1 os ds fs [row] st" "\<forall>p \<in> set os. order_made prices sg p"
    "\<forall>d \<in> set ds. rd_evaluated_session d = sg_execution_session sg" "\<forall>f \<in> set fs. fill_made prices sg f"
    "close_made prices sg row"
    using iteration_appends [OF last old(2) sg assms(3)] by blast
  have "recorded prices (sigs @ [sg]) st"
    using old(1) new unfolding recorded_def appends_def by (auto intro: list_all2_appendI)
  moreover have "run_inv st"
    using accounting.step_keeps [OF _ old(2) last] sg assms(3) by simp
  ultimately show ?case by simp
qed

text \<open>What has happened up to a session.\<close>

type_synonym history = "proposed_order list \<times> risk_decision list \<times> fill_record list \<times> portfolio_row list"

definition history_until :: "date \<Rightarrow> run_state \<Rightarrow> history" where
  "history_until d st =
     (filter (\<lambda>p. po_execution_session p \<le> d) (rs_proposed_records st),
      filter (\<lambda>x. rd_evaluated_session x \<le> d) (rs_decision_records st),
      filter (\<lambda>f. fi_execution_session f \<le> d) (rs_fill_records st),
      filter (\<lambda>row. pr_session row \<le> d) (rs_portfolio_records st))"

lemma history_kept:
  assumes "run_signals prices config risk sigs st = Inr st'" "run_inv st"
    and "list_all (priced_signal prices) sigs" "wf_backtest_config config"
    and "list_all (\<lambda>sg. d < sg_execution_session sg) sigs"
  shows "history_until d st' = history_until d st"
  using assms(1-3,5)
proof (induction sigs arbitrary: st)
  case Nil
  then show ?case by (simp add: run_signals_def)
next
  case (Cons sg sigs)
  obtain st1 where st1: "run_signal prices config risk sg st = Inr st1"
    and rest: "run_signals prices config risk sigs st1 = Inr st'"
    using Cons(2) by (auto simp: run_signals_def elim!: rbind_InrE)
  have sg: "priced_signal prices sg" "d < sg_execution_session sg" using Cons(4,5) by simp_all
  obtain os ds fs row where new: "appends st os ds fs [row] st1" "\<forall>p \<in> set os. order_made prices sg p"
    "\<forall>x \<in> set ds. rd_evaluated_session x = sg_execution_session sg" "\<forall>f \<in> set fs. fill_made prices sg f"
    "close_made prices sg row"
    using iteration_appends [OF st1 Cons(3) sg(1) assms(4)] by blast
  have "filter (\<lambda>p. po_execution_session p \<le> d) os = []" "filter (\<lambda>x. rd_evaluated_session x \<le> d) ds = []"
    "filter (\<lambda>f. fi_execution_session f \<le> d) fs = []" "\<not> pr_session row \<le> d"
    using new(2-5) sg(2) by (auto simp: filter_empty_conv order_made_def fill_made_def close_made_def)
  then have "history_until d st1 = history_until d st"
    using new(1) by (simp add: history_until_def appends_def)
  moreover have "run_inv st1"
    using accounting.step_keeps [OF _ Cons(3) st1] sg(1) assms(4) by simp
  ultimately show ?case using Cons(1) [OF rest] Cons(4,5) by simp
qed

end
