(* ===== verification/Backtest_Whole.thy ===== *)
theory Backtest_Whole
  imports Backtest_Market Backtest_Trades Signal_Properties
begin

text \<open>
  The whole backtest, from an evaluation and market data to the records of the run: what is traded, when and at which
  price, and that nothing depends on later data.
\<close>

section \<open>The bars of the execution sessions\<close>

definition bar_on :: "market_batch \<Rightarrow> date \<Rightarrow> bar" where
  "bar_on b d = the (find (\<lambda>x. mb_session x = d) (md_bars b))"

lemma bar_on_session:
  assumes "d \<in> set (market_dates b)"
  shows "bar_on b d \<in> set (md_bars b)" "mb_session (bar_on b d) = d"
proof -
  obtain x where x: "find (\<lambda>x. mb_session x = d) (md_bars b) = Some x"
    using assms by (cases "find (\<lambda>x. mb_session x = d) (md_bars b)") (auto simp: market_dates_def find_None_iff)
  then have "x \<in> set (md_bars b)" "mb_session x = d" by (auto simp: find_Some_iff)
  moreover have "bar_on b d = x" by (simp add: bar_on_def x)
  ultimately show "bar_on b d \<in> set (md_bars b)" "mb_session (bar_on b d) = d" by simp_all
qed

lemma filter_only: "distinct xs \<Longrightarrow> a \<in> set xs \<Longrightarrow> filter (\<lambda>x. x = a) xs = [a]"
  by (induction xs) (auto simp: filter_empty_conv)

lemma market_row_at_bar:
  assumes "increasing (market_dates b)" "d \<in> set (market_dates b)"
  shows "market_row_at (md_bars b) d = Inr (bar_on b d)"
proof -
  note bar = bar_on_session [OF assms(2)]
  have "distinct (market_dates b)" using assms(1) by (simp add: increasing_iff)
  then have inj: "inj_on mb_session (set (md_bars b))" and dist: "distinct (md_bars b)"
    by (simp_all add: market_dates_def distinct_map)
  have "filter (\<lambda>x. mb_session x = d) (md_bars b) = filter (\<lambda>x. x = bar_on b d) (md_bars b)"
    using bar inj by (intro filter_cong) (auto dest: inj_onD)
  also have "\<dots> = [bar_on b d]"
    by (rule filter_only [OF dist bar(1)])
  finally show ?thesis by (simp add: market_row_at_def)
qed

section \<open>The execution prices of a signal set\<close>

definition exec_prices_of ::
  "((date \<times> rat \<times> rat) list \<Rightarrow> string) \<Rightarrow> final_evaluation \<Rightarrow> market_batch \<Rightarrow> instant \<Rightarrow> execution_prices" where
  "exec_prices_of price_digest e b t =
     (let bars = map (bar_on b) (execution_dates e b) in
      \<lparr>xp_data = \<lparr>xf_columns = EXECUTION_PRICE_COLUMNS,
         xf_dtype = (\<lambda>column. if column = ''execution_session'' then ''object'' else ''float64''),
         xf_rows = map price_row_of bars\<rparr>,
       xp_source_market_data_checksum = mm_dataset_checksum (md_metadata b),
       xp_source_schema_version = mm_schema_version (md_metadata b),
       xp_first_execution_session = hd (execution_dates e b), xp_last_execution_session = last (execution_dates e b),
       xp_row_count = int (length bars), xp_created_at = PyAware t,
       xp_execution_price_checksum = price_digest (map (\<lambda>x. (mb_session x, mb_open x, mb_close x)) bars)\<rparr>)"

lemma execution_dates_in:
  assumes "signals_possible e b" "d \<in> set (execution_dates e b)"
  shows "d \<in> set (market_dates b)"
proof -
  obtain p where p: "p \<in> set (prediction_dates e)" "d = the (next_session (market_dates b) p)"
    using assms(2) by (auto simp: execution_dates_def)
  then obtain t where "next_session (market_dates b) p = Some t"
    using assms(1) by (auto simp: signals_possible_def executable_in_def)
  then show ?thesis using p(2) next_session_in by simp
qed

text \<open>Prices that are positive floats.\<close>

definition tradable :: "market_batch \<Rightarrow> bool" where
  "tradable b \<longleftrightarrow> (\<forall>x \<in> set (md_bars b). 0 < mb_open x \<and> 0 < mb_close x \<and> is_float (mb_open x) \<and> is_float (mb_close x))"

lemma checksum_rows: "map_results checksum_row (map price_row_of bars) = Inr (map (\<lambda>x. (mb_session x, mb_open x, mb_close x)) bars)"
  by (rule map_results_map) (simp add: checksum_row_def price_row_of_def require_finite_float_def)

lemma exec_prices_accepted:
  assumes "mk_final_evaluation v e = Inr e'" "signals_possible e b" "batch_ok digest b" "tradable b"
    and "\<And>rows. is_checksum (price_digest rows)"
  shows "mk_execution_prices price_digest (exec_prices_of price_digest e b t) = Inr (exec_prices_of price_digest e b t)"
proof -
  note pd = prediction_dates_of [OF assms(1)]
  have bars: "mb_session (bar_on b d) = d" "bar_on b d \<in> set (md_bars b)" if "d \<in> set (execution_dates e b)" for d
    using bar_on_session [OF execution_dates_in [OF assms(2) that]] by simp_all
  have sessions: "map mb_session (map (bar_on b) (execution_dates e b)) = execution_dates e b"
    using bars(1) by (simp add: map_idI)
  have inc: "increasing (execution_dates e b)" by (rule executions_increase [OF pd(1) assms(2)])
  have ne: "execution_dates e b \<noteq> []" using pd(2) by (simp add: execution_dates_def)
  have order: "hd (execution_dates e b) \<le> last (execution_dates e b)"
    using increasing_nth_le [OF inc, of 0 "length (execution_dates e b) - 1"] ne by (simp add: hd_conv_nth last_conv_nth)
  have source: "is_checksum (mm_dataset_checksum (md_metadata b))"
    using assms(2) mk_final_evaluation_facts(4) [OF assms(1)] by (simp add: signals_possible_def)
  have rows: "map_results (bt_require_plain_date BacktestAccountingError ''execution_session'')
      (map xr_execution_session (map price_row_of (map (bar_on b) (execution_dates e b)))) = Inr (execution_dates e b)"
    using map_results_map [of "execution_dates e b" "bt_require_plain_date BacktestAccountingError ''execution_session''" PyDate id]
      bars(1) by (simp add: price_row_of_def comp_def cong: map_cong)
  have prices: "\<forall>row \<in> set (map price_row_of (map (bar_on b) (execution_dates e b))). check_execution_price row = Inr ()"
    using bars(2) assms(4)
    by (auto simp: tradable_def check_execution_price_def price_row_of_def require_finite_float_def not_le)
  have "Suc 0 \<le> length (execution_dates e b)" using ne by (cases "execution_dates e b") simp_all
  moreover have "execution_dates e b = sort (execution_dates e b) \<and> distinct (execution_dates e b)"
    using inc by (simp only: increasing_iff simp_thms conj_commute)
  ultimately show ?thesis
    using source assms(3,5) order rows prices
    by (simp add: mk_execution_prices_def exec_prices_of_def Let_def is_checksum_def batch_ok_def
        require_column_dtype_def calculate_execution_price_checksum_def checksum_rows rbind_eq_Inr_iff
        del: map_map)
qed

lemma execution_prices_built:
  assumes "mk_final_evaluation v e = Inr e'" "signals_possible e b" "batch_ok digest b" "tradable b"
    and "\<And>rows. is_checksum (price_digest rows)" and "sf_rows (sgs_data s) = signal_rows e b"
  shows "build_execution_prices price_digest s b t = Inr (exec_prices_of price_digest e b t)"
proof -
  have ms: "increasing (market_dates b)" using assms(2) by (simp add: signals_possible_def)
  have rows: "map_results (\<lambda>row. market_row_at (md_bars b) (date_cell (sr_execution_session row))) (signal_rows e b) =
      Inr (map (bar_on b) (execution_dates e b))"
  proof -
    have "map_results (\<lambda>row. market_row_at (md_bars b) (date_cell (sr_execution_session row))) (map (signal_for (market_dates b))
        (pf_rows (ps_data (fe_prediction_set e)))) =
      Inr (map (\<lambda>row. bar_on b (the (next_session (market_dates b) (date_cell (pn_session row)))))
        (pf_rows (ps_data (fe_prediction_set e))))"
    proof (rule map_results_map)
      fix row assume "row \<in> set (pf_rows (ps_data (fe_prediction_set e)))"
      then have "the (next_session (market_dates b) (date_cell (pn_session row))) \<in> set (execution_dates e b)"
        by (auto simp: execution_dates_def prediction_dates_def)
      from market_row_at_bar [OF ms execution_dates_in [OF assms(2) this]]
      show "market_row_at (md_bars b) (date_cell (sr_execution_session (signal_for (market_dates b) row))) =
          Inr (bar_on b (the (next_session (market_dates b) (date_cell (pn_session row)))))"
        by (simp add: signal_for_def Let_def)
    qed
    then show ?thesis by (simp add: signal_rows_def execution_dates_def prediction_dates_def comp_def)
  qed
  have ne: "execution_dates e b \<noteq> []" using prediction_dates_of(2) [OF assms(1)] by (simp add: execution_dates_def)
  have session: "mb_session (bar_on b d) = d" if "d \<in> set (execution_dates e b)" for d
    using bar_on_session [OF execution_dates_in [OF assms(2) that]] by simp
  have ends: "mb_session (hd (map (bar_on b) (execution_dates e b))) = hd (execution_dates e b)"
    "mb_session (last (map (bar_on b) (execution_dates e b))) = last (execution_dates e b)"
    using ne session by (simp_all add: hd_map last_map)
  have "build_execution_prices price_digest s b t = mk_execution_prices price_digest (exec_prices_of price_digest e b t)"
    unfolding build_execution_prices_def assms(6) rows rbind_Inr
    using ne ends by (simp add: Let_def calculate_execution_price_checksum_def checksum_rows exec_prices_of_def del: map_map)
  then show ?thesis using exec_prices_accepted [OF assms(1-5)] by simp
qed

text \<open>The price the engine reads at an execution session is that of the session's bar.\<close>

lemma price_at:
  assumes "signals_possible e b" "tradable b" "d \<in> set (execution_dates e b)"
  obtains row where "price_by_session (exec_prices_of price_digest e b t) d = Some row"
    "decimal_of (mr_reference_open row) = Some (Fin (short_decimal (mb_open (bar_on b d))))"
    "decimal_of (mr_close_price row) = Some (Fin (short_decimal (mb_close (bar_on b d))))"
proof -
  let ?rows = "map (price_row_of \<circ> bar_on b) (execution_dates e b)"
  have session: "mb_session (bar_on b x) = x" if "x \<in> set (execution_dates e b)" for x
    using bar_on_session [OF execution_dates_in [OF assms(1) that]] by simp
  obtain row where row: "find (\<lambda>row. xr_execution_session row = PyDate d) ?rows = Some row"
    using assms(3) session by (cases "find (\<lambda>row. xr_execution_session row = PyDate d) ?rows")
      (auto simp: find_None_iff price_row_of_def)
  then have "row \<in> set ?rows" "xr_execution_session row = PyDate d" by (auto simp: find_Some_iff)
  then have "row = price_row_of (bar_on b d)" using session by (auto simp: price_row_of_def)
  then show thesis
    using that row float_repr_parses
    by (simp add: price_by_session_def exec_prices_of_def Let_def float_cell_def price_row_of_def)
qed

section \<open>The whole run\<close>

abbreviation signals_of :: "final_evaluation \<Rightarrow> market_batch \<Rightarrow> signal list" where
  "signals_of e b \<equiv> map signal_of_row (signal_rows e b)"

lemma signals_of_fields:
  "map sg_signal_session (signals_of e b) = prediction_dates e"
  "map sg_execution_session (signals_of e b) = execution_dates e b"
  "map sg_target_position (signals_of e b) =
     map (\<lambda>row. if 1 / 2 \<le> the_float (pn_probability_positive row) then 1 else 0) (pf_rows (ps_data (fe_prediction_set e)))"
  by (simp_all add: signal_rows_def signal_of_row_def signal_for_def prediction_dates_def execution_dates_def Let_def)

lemma signal_of_prediction_row:
  assumes "sg \<in> set (signals_of e b)"
  obtains row where "row \<in> set (pf_rows (ps_data (fe_prediction_set e)))"
    "sg_signal_session sg = date_cell (pn_session row)"
    "sg_execution_session sg = the (next_session (market_dates b) (date_cell (pn_session row)))"
    "sg_target_position sg = (if 1 / 2 \<le> the_float (pn_probability_positive row) then 1 else 0)"
    "date_cell (pn_session row) \<in> set (prediction_dates e)" "sg_execution_session sg \<in> set (execution_dates e b)"
  using assms by (auto simp: signal_rows_def signal_of_row_def signal_for_def prediction_dates_def execution_dates_def
      Let_def intro: that)

definition evaluation_market :: "backtest_environment \<Rightarrow> final_evaluation \<Rightarrow> market_batch \<Rightarrow> bool" where
  "evaluation_market env e b \<longleftrightarrow>
     mk_final_evaluation (be_sklearn_version env) e = Inr e \<and> batch_ok (be_market_digest env) b \<and> tradable b \<and>
     (\<forall>rows. is_checksum (be_price_digest env rows))"

abbreviation prices_of :: "backtest_environment \<Rightarrow> final_evaluation \<Rightarrow> market_batch \<Rightarrow> instant \<Rightarrow> date \<Rightarrow> market_row option" where
  "prices_of env e b t \<equiv> price_by_session (exec_prices_of (be_price_digest env) e b t)"

lemma run_of_evaluation:
  assumes "evaluation_market env e b" "mk_backtest_config raw = Inr config"
  shows "run_long_or_cash_backtest env e b raw default_risk_config (PyAware t) =
    (if signals_possible e b
     then rbind (run_signals (prices_of env e b t) config default_risk_config (signals_of e b) (initial_run_state config))
       (\<lambda>st. Inr (signal_set_of e b t \<lparr>sgs_sklearn_version := strip (be_sklearn_version env)\<rparr>,
          exec_prices_of (be_price_digest env) e b t, st))
     else Inl (BacktestInputError ''invalid_strategy_inputs''))"
proof -
  have e: "mk_final_evaluation (be_sklearn_version env) e = Inr e" and b: "batch_ok (be_market_digest env) b"
    and tr: "tradable b" and pd: "\<And>rows. is_checksum (be_price_digest env rows)"
    using assms(1) by (simp_all add: evaluation_market_def)
  have batch: "revalidate_backtest_market_data (be_market_digest env) b = Inr b"
    using batch_accepted [of "be_market_digest env" b] b by (simp add: revalidate_backtest_market_data_def batch_ok_def)
  show ?thesis
  proof (cases "signals_possible e b")
    case True
    let ?s = "signal_set_of e b t \<lparr>sgs_sklearn_version := strip (be_sklearn_version env)\<rparr>"
    have rows: "sf_rows (sgs_data ?s) = signal_rows e b" by (simp add: signal_set_of_def Let_def)
    have "build_execution_prices (be_price_digest env) ?s b t = Inr (exec_prices_of (be_price_digest env) e b t)"
      by (rule execution_prices_built [OF e True b tr pd rows])
    then show ?thesis
      using True assms(2) batch rows possible_signals [OF e b True]
      by (simp add: run_long_or_cash_backtest_def simulate_signal_set_def run_validated_signal_backtest_def
          require_aware_utc_def)
  next
    case False
    then show ?thesis
      using refused_signals [OF e b False, of t] assms(2) batch
      by (auto simp: run_long_or_cash_backtest_def strategy_failure_def require_aware_utc_def)
  qed
qed

lemma signals_priced:
  assumes "evaluation_market env e b" "signals_possible e b"
  shows "list_all (priced_signal (prices_of env e b t)) (signals_of e b)"
proof -
  have "priced_signal (prices_of env e b t) sg" if sg: "sg \<in> set (signals_of e b)" for sg
  proof -
    obtain row where row: "row \<in> set (pf_rows (ps_data (fe_prediction_set e)))"
      "sg_signal_session sg = date_cell (pn_session row)"
      "sg_execution_session sg = the (next_session (market_dates b) (date_cell (pn_session row)))"
      "sg_target_position sg = (if 1 / 2 \<le> the_float (pn_probability_positive row) then 1 else 0)"
      "date_cell (pn_session row) \<in> set (prediction_dates e)" "sg_execution_session sg \<in> set (execution_dates e b)"
      by (rule signal_of_prediction_row [OF sg])
    obtain d where "next_session (market_dates b) (date_cell (pn_session row)) = Some d"
      using assms(2) row(5) by (auto simp: signals_possible_def executable_in_def)
    then have valid: "valid_signal sg" using row next_session_in by (simp add: valid_signal_def)
    have tr: "tradable b" using assms(1) by (simp add: evaluation_market_def)
    have "bar_on b (sg_execution_session sg) \<in> set (md_bars b)"
      using bar_on_session(1) execution_dates_in [OF assms(2) row(6)] by blast
    then have "0 < mb_open (bar_on b (sg_execution_session sg))" "0 < mb_close (bar_on b (sg_execution_session sg))"
      using tr by (simp_all add: tradable_def)
    then show ?thesis
      using price_at [OF assms(2) tr row(6), of "be_price_digest env" t] valid short_decimal_pos
      by (fastforce simp: priced_signal_def positive_price_def)
  qed
  then show ?thesis by (simp add: list_all_iff)
qed

text \<open>A price read back as a float is the float of the bar.\<close>

lemma price_read_bar:
  assumes "signals_possible e b" "tradable b" "d \<in> set (execution_dates e b)"
  shows "price_read (prices_of env e b t) mr_reference_open d r \<longleftrightarrow> r = mb_open (bar_on b d)"
    "price_read (prices_of env e b t) mr_close_price d r \<longleftrightarrow> r = mb_close (bar_on b d)"
proof -
  have "bar_on b d \<in> set (md_bars b)" using bar_on_session(1) execution_dates_in [OF assms(1,3)] by blast
  then have "is_float (mb_open (bar_on b d))" "is_float (mb_close (bar_on b d))"
    using assms(2) by (simp_all add: tradable_def)
  then have exact: "float_round (short_decimal (mb_open (bar_on b d))) = mb_open (bar_on b d)"
    "float_round (short_decimal (mb_close (bar_on b d))) = mb_close (bar_on b d)"
    using short_decimal_roundtrip by (simp_all add: is_float_def)
  obtain row where "prices_of env e b t d = Some row"
    "decimal_of (mr_reference_open row) = Some (Fin (short_decimal (mb_open (bar_on b d))))"
    "decimal_of (mr_close_price row) = Some (Fin (short_decimal (mb_close (bar_on b d))))"
    by (rule price_at [OF assms])
  then show "price_read (prices_of env e b t) mr_reference_open d r \<longleftrightarrow> r = mb_open (bar_on b d)"
    "price_read (prices_of env e b t) mr_close_price d r \<longleftrightarrow> r = mb_close (bar_on b d)"
    using exact by (auto simp: price_read_def)
qed

section \<open>What the run trades\<close>

lemma config_moderate:
  assumes "mk_backtest_config raw = Inr config" "moderate_costs (bc_cost_assumptions config)"
    and "list_all (priced_signal prices) sigs"
  shows "list_all (\<lambda>sg. priced_signal prices sg \<and> wf_backtest_config config \<and>
    moderate_costs (bc_cost_assumptions config)) sigs"
  using assms mk_backtest_config_wf [OF assms(1)] by (simp add: list_all_iff)

lemma run_of_evaluation_fails:
  assumes "evaluation_market env e b" "mk_backtest_config raw = Inr config"
    "moderate_costs (bc_cost_assumptions config)"
    and "run_long_or_cash_backtest env e b raw default_risk_config (PyAware t) = Inl er"
  shows "er = BacktestInputError ''invalid_strategy_inputs'' \<and> \<not> signals_possible e b \<or>
    signals_possible e b \<and> run_failure er"
proof (cases "signals_possible e b")
  case True
  then have "run_signals (prices_of env e b t) config default_risk_config (signals_of e b)
      (initial_run_state config) = Inl er"
    using assms(4) by (simp add: run_of_evaluation [OF assms(1,2)] rbind_eq_Inl_iff)
  then have "run_failure er"
    using simulation.steps_raise [OF config_moderate [OF assms(2,3) signals_priced [OF assms(1) True]]]
      run_inv_initial [OF mk_backtest_config_wf [OF assms(2)]]
    by (simp add: run_signals_def)
  then show ?thesis using True by simp
next
  case False
  then show ?thesis using assms(4) by (simp add: run_of_evaluation [OF assms(1,2)])
qed

lemma run_of_evaluation_succeeds:
  assumes "evaluation_market env e b" "mk_backtest_config raw = Inr config"
    and "run_long_or_cash_backtest env e b raw default_risk_config (PyAware t) = Inr (s, x, st)"
  shows "signals_possible e b"
    "run_signals (prices_of env e b t) config default_risk_config (signals_of e b) (initial_run_state config) = Inr st"
  using assms(3) by (auto simp: run_of_evaluation [OF assms(1,2)] rbind_eq_Inr_iff split: if_splits)

text \<open>The decision behind a fill: the prediction of the session before.\<close>

definition fill_of_prediction :: "final_evaluation \<Rightarrow> market_batch \<Rightarrow> fill_record \<Rightarrow> bool" where
  "fill_of_prediction e b f \<longleftrightarrow>
     (\<exists>row \<in> set (pf_rows (ps_data (fe_prediction_set e))).
        fi_signal_session f = date_cell (pn_session row) \<and>
        next_session (market_dates b) (date_cell (pn_session row)) = Some (fi_execution_session f) \<and>
        fi_reference_open f = mb_open (bar_on b (fi_execution_session f)) \<and>
        (fi_side f = BUY_SIDE \<longleftrightarrow> 1 / 2 \<le> the_float (pn_probability_positive row)))"

lemma fill_made_from_prediction:
  assumes "evaluation_market env e b" "signals_possible e b"
    and "sg \<in> set (signals_of e b)" "fill_made (prices_of env e b t) sg f"
  shows "fill_of_prediction e b f"
proof -
  have tr: "tradable b" using assms(1) by (simp add: evaluation_market_def)
  obtain row where row: "row \<in> set (pf_rows (ps_data (fe_prediction_set e)))"
    "sg_signal_session sg = date_cell (pn_session row)"
    "sg_execution_session sg = the (next_session (market_dates b) (date_cell (pn_session row)))"
    "sg_target_position sg = (if 1 / 2 \<le> the_float (pn_probability_positive row) then 1 else 0)"
    "date_cell (pn_session row) \<in> set (prediction_dates e)" "sg_execution_session sg \<in> set (execution_dates e b)"
    by (rule signal_of_prediction_row [OF assms(3)])
  obtain d where "next_session (market_dates b) (date_cell (pn_session row)) = Some d"
    using assms(2) row(5) by (auto simp: signals_possible_def executable_in_def)
  then show ?thesis
    using assms(4) row price_read_bar(1) [OF assms(2) tr row(6)]
    by (auto simp: fill_of_prediction_def fill_made_def intro!: bexI [of _ row])
qed

lemma closes_of_run:
  assumes "evaluation_market env e b" "signals_possible e b"
    and "list_all2 (close_made (prices_of env e b t)) (signals_of e b) rows"
  shows "map pr_session rows = execution_dates e b" "map pr_signal_session rows = prediction_dates e"
    "map pr_close_price rows = map (\<lambda>d. mb_close (bar_on b d)) (execution_dates e b)"
proof -
  have tr: "tradable b" using assms(1) by (simp add: evaluation_market_def)
  have len: "length rows = length (signals_of e b)" using list_all2_lengthD [OF assms(3)] by simp
  have made: "close_made (prices_of env e b t) (signals_of e b ! i) (rows ! i)" if "i < length rows" for i
    using list_all2_nthD2 [OF assms(3) that] .
  have keys: "map pr_session rows = map sg_execution_session (signals_of e b)"
    "map pr_signal_session rows = map sg_signal_session (signals_of e b)"
    using list_all2_map_eq [OF assms(3), where f = pr_session and g = sg_execution_session]
      list_all2_map_eq [OF assms(3), where f = pr_signal_session and g = sg_signal_session]
    by (simp_all only: close_made_def simp_thms)
  then show d: "map pr_session rows = execution_dates e b" "map pr_signal_session rows = prediction_dates e"
    by (simp_all only: signals_of_fields)
  have "pr_close_price (rows ! i) = mb_close (bar_on b (execution_dates e b ! i))" if "i < length rows" for i
  proof -
    have "sg_execution_session (signals_of e b ! i) = execution_dates e b ! i"
      using that len by (metis nth_map signals_of_fields(2))
    moreover have "execution_dates e b ! i \<in> set (execution_dates e b)"
      using that d(1) by (metis length_map nth_mem)
    ultimately show ?thesis
      using made [OF that] price_read_bar(2) [OF assms(2) tr, of "execution_dates e b ! i" env t]
      by (simp only: close_made_def)
  qed
  moreover have "length rows = length (execution_dates e b)" using d(1) by (metis length_map)
  ultimately show "map pr_close_price rows = map (\<lambda>d. mb_close (bar_on b d)) (execution_dates e b)"
    by (simp add: list_eq_iff_nth_eq)
qed


end
