(* ===== verification/Backtest_Lookahead.thy ===== *)
theory Backtest_Lookahead
  imports Backtest_Whole
begin

text \<open>
  No lookahead: what a backtest has recorded up to a session is decided by the bars up to that session and the
  predictions before it.
\<close>

section \<open>The part of the signals that is decided\<close>

definition bars_until :: "date \<Rightarrow> market_batch \<Rightarrow> bar list" where
  "bars_until d b = filter (\<lambda>x. mb_session x \<le> d) (md_bars b)"

definition predictions_before :: "date \<Rightarrow> final_evaluation \<Rightarrow> prediction_row list" where
  "predictions_before d e = filter (\<lambda>row. date_cell (pn_session row) < d) (pf_rows (ps_data (fe_prediction_set e)))"

lemma split_by_session:
  assumes "increasing (map f xs)"
  shows "xs = filter (\<lambda>x. f x \<le> d) xs @ filter (\<lambda>x. d < f x) xs"
  using assms
proof (induction xs)
  case (Cons x xs)
  have later: "f x < f y" if "y \<in> set xs" for y
    using Cons(2) that by simp
  have tail: "xs = filter (\<lambda>x. f x \<le> d) xs @ filter (\<lambda>x. d < f x) xs" using Cons by simp
  show ?case
  proof (cases "f x \<le> d")
    case True
    then show ?thesis using tail by simp
  next
    case False
    then have "filter (\<lambda>x. f x \<le> d) xs = []" "filter (\<lambda>x. d < f x) xs = xs"
      using later by (force simp: filter_empty_conv filter_id_conv)+
    then show ?thesis using False by simp
  qed
qed simp

text \<open>Whether the next session is at most \<open>d\<close>, and which it is, is seen from the sessions up to \<open>d\<close>.\<close>

lemma next_session_until:
  assumes "increasing ds"
  shows "(next_session ds p = Some t \<and> t \<le> d) \<longleftrightarrow> next_session (filter (\<lambda>s. s \<le> d) ds) p = Some t"
  using assms
proof (induction ds)
  case (Cons a ds)
  have later: "a < s" if "s \<in> set ds" for s using Cons(2) that by simp
  show ?case
  proof (cases "a \<le> d")
    case True
    then show ?thesis using Cons by (auto simp: next_session_def)
  next
    case False
    then have "filter (\<lambda>s. s \<le> d) ds = []" using later by (force simp: filter_empty_conv)
    moreover have "\<not> t \<le> d" if "next_session (a # ds) p = Some t"
      using next_session_in [OF that] later False by fastforce
    ultimately show ?thesis using False by (auto simp: next_session_def)
  qed
qed (simp add: next_session_def)

definition signals_until :: "date \<Rightarrow> final_evaluation \<Rightarrow> market_batch \<Rightarrow> signal list" where
  "signals_until d e b = filter (\<lambda>sg. sg_execution_session sg \<le> d) (signals_of e b)"

abbreviation signal_at :: "market_batch \<Rightarrow> prediction_row \<Rightarrow> signal" where
  "signal_at b row \<equiv> signal_of_row (signal_for (market_dates b) row)"

lemma signal_at_fields:
  "sg_signal_session (signal_at b row) = date_cell (pn_session row)"
  "sg_execution_session (signal_at b row) = the (next_session (market_dates b) (date_cell (pn_session row)))"
  "sg_target_position (signal_at b row) = (if 1 / 2 \<le> the_float (pn_probability_positive row) then 1 else 0)"
  by (simp_all add: signal_of_row_def signal_for_def Let_def)

definition executed_until :: "date \<Rightarrow> market_batch \<Rightarrow> prediction_row \<Rightarrow> bool" where
  "executed_until d b row \<longleftrightarrow>
     (\<exists>t. next_session (map mb_session (bars_until d b)) (date_cell (pn_session row)) = Some t)"

lemma executed_until_signal:
  assumes "signals_possible e b" "row \<in> set (pf_rows (ps_data (fe_prediction_set e)))"
  shows "sg_execution_session (signal_at b row) \<le> d \<longleftrightarrow> executed_until d b row"
    "executed_until d b row \<Longrightarrow> signal_at b row =
       \<lparr>sg_signal_session = date_cell (pn_session row),
        sg_execution_session = the (next_session (map mb_session (bars_until d b)) (date_cell (pn_session row))),
        sg_target_position = (if 1 / 2 \<le> the_float (pn_probability_positive row) then 1 else 0)\<rparr>"
    "executed_until d b row \<Longrightarrow> date_cell (pn_session row) < d"
proof -
  have until: "map mb_session (bars_until d b) = filter (\<lambda>s. s \<le> d) (market_dates b)"
    by (simp add: bars_until_def market_dates_def filter_map comp_def)
  have inc: "increasing (market_dates b)" using assms(1) by (simp add: signals_possible_def)
  have "date_cell (pn_session row) \<in> set (prediction_dates e)" using assms(2) by (simp add: prediction_dates_def)
  then obtain t where t: "next_session (market_dates b) (date_cell (pn_session row)) = Some t"
    using assms(1) by (auto simp: signals_possible_def executable_in_def)
  note ex = next_session_until [OF inc, of "date_cell (pn_session row)" _ d]
  show iff: "sg_execution_session (signal_at b row) \<le> d \<longleftrightarrow> executed_until d b row"
    unfolding executed_until_def until signal_at_fields t option.sel ex [symmetric] by (simp add: t)
  assume due: "executed_until d b row"
  then have "t \<le> d" using iff t by (simp add: signal_at_fields)
  then show "date_cell (pn_session row) < d" using next_session_in [OF t] by simp
  have "next_session (map mb_session (bars_until d b)) (date_cell (pn_session row)) = Some t"
    unfolding until ex [symmetric] using t \<open>t \<le> d\<close> by simp
  then show "signal_at b row =
       \<lparr>sg_signal_session = date_cell (pn_session row),
        sg_execution_session = the (next_session (map mb_session (bars_until d b)) (date_cell (pn_session row))),
        sg_target_position = (if 1 / 2 \<le> the_float (pn_probability_positive row) then 1 else 0)\<rparr>"
    using t by (intro signal.equality) (simp_all only: signal_at_fields signal.simps option.sel unit_eq)
qed

lemma signals_until_eq:
  assumes "signals_possible e b"
  shows "signals_until d e b =
    map (\<lambda>row. \<lparr>sg_signal_session = date_cell (pn_session row),
        sg_execution_session = the (next_session (map mb_session (bars_until d b)) (date_cell (pn_session row))),
        sg_target_position = (if 1 / 2 \<le> the_float (pn_probability_positive row) then 1 else 0)\<rparr>)
      (filter (executed_until d b) (predictions_before d e))"
proof -
  let ?rows = "pf_rows (ps_data (fe_prediction_set e))"
  have "signals_until d e b = map (signal_at b) (filter (\<lambda>row. sg_execution_session (signal_at b row) \<le> d) ?rows)"
    by (simp add: signals_until_def signal_rows_def filter_map comp_def)
  also have "filter (\<lambda>row. sg_execution_session (signal_at b row) \<le> d) ?rows =
      filter (executed_until d b) (predictions_before d e)"
    unfolding predictions_before_def filter_filter
    using executed_until_signal(1,3) [OF assms] by (intro filter_cong) auto
  finally show ?thesis
    using executed_until_signal(2) [OF assms] by (simp add: predictions_before_def)
qed

section \<open>The prices that are read\<close>

lemma bar_on_until:
  assumes "d' \<le> d"
  shows "bar_on b d' = the (find (\<lambda>x. mb_session x = d') (bars_until d b))"
proof -
  have same: "find (\<lambda>x. mb_session x = d') (filter (\<lambda>x. mb_session x \<le> d) xs) = find (\<lambda>x. mb_session x = d') xs" for xs
    using assms by (induction xs) auto
  show ?thesis by (simp add: bar_on_def bars_until_def same)
qed

lemma prices_of_bar:
  assumes "signals_possible e b" "d \<in> set (execution_dates e b)"
  shows "prices_of env e b t d = Some \<lparr>mr_reference_open = float_cell (Fin (mb_open (bar_on b d))),
    mr_close_price = float_cell (Fin (mb_close (bar_on b d)))\<rparr>"
proof -
  let ?rows = "map (price_row_of \<circ> bar_on b) (execution_dates e b)"
  have session: "mb_session (bar_on b x) = x" if "x \<in> set (execution_dates e b)" for x
    using bar_on_session [OF execution_dates_in [OF assms(1) that]] by simp
  obtain row where row: "find (\<lambda>row. xr_execution_session row = PyDate d) ?rows = Some row"
    using assms(2) session by (cases "find (\<lambda>row. xr_execution_session row = PyDate d) ?rows")
      (auto simp: find_None_iff price_row_of_def)
  then have "row \<in> set ?rows" "xr_execution_session row = PyDate d" by (auto simp: find_Some_iff)
  then have "row = price_row_of (bar_on b d)" using session by (auto simp: price_row_of_def)
  then show ?thesis using row by (simp add: price_by_session_def exec_prices_of_def Let_def price_row_of_def)
qed

lemma run_signals_cong:
  assumes "\<And>sg. sg \<in> set sigs \<Longrightarrow> prices (sg_execution_session sg) = prices' (sg_execution_session sg)"
  shows "run_signals prices config risk sigs st = run_signals prices' config risk sigs st"
  using assms
proof (induction sigs arbitrary: st)
  case (Cons sg sigs)
  have "run_signal prices config risk sg st = run_signal prices' config risk sg st"
    using Cons(2) by (simp add: run_signal_def)
  then show ?case using Cons by (cases "run_signal prices' config risk sg st") (simp_all add: run_signals_def)
qed (simp add: run_signals_def)

lemma history_of_prefix:
  assumes "evaluation_market env e b" "signals_possible e b" "mk_backtest_config raw = Inr config"
    and "run_signals (prices_of env e b t) config default_risk_config (signals_of e b) (initial_run_state config) = Inr st"
  obtains st1 where "run_signals (prices_of env e b t) config default_risk_config (signals_until d e b)
      (initial_run_state config) = Inr st1" "history_until d st = history_until d st1"
proof -
  have wf: "wf_backtest_config config" by (rule mk_backtest_config_wf [OF assms(3)])
  have e: "mk_final_evaluation (be_sklearn_version env) e = Inr e" using assms(1) by (simp add: evaluation_market_def)
  have "increasing (map sg_execution_session (signals_of e b))"
    unfolding signals_of_fields(2) by (rule executions_increase [OF prediction_dates_of(1) [OF e] assms(2)])
  from split_by_session [OF this, of d] have parts: "signals_of e b = signals_until d e b @
      filter (\<lambda>sg. d < sg_execution_session sg) (signals_of e b)" (is "_ = _ @ ?later")
    unfolding signals_until_def .
  have priced: "list_all (priced_signal (prices_of env e b t)) (signals_until d e b)"
    "list_all (priced_signal (prices_of env e b t)) ?later"
    using signals_priced [OF assms(1,2), of t] by (auto simp: list_all_iff signals_until_def)
  obtain st1 where st1: "run_signals (prices_of env e b t) config default_risk_config (signals_until d e b)
      (initial_run_state config) = Inr st1"
    and rest: "run_signals (prices_of env e b t) config default_risk_config ?later st1 = Inr st"
    using assms(4) unfolding run_signals_def
    by (subst (asm) parts) (auto simp only: run_steps_append elim!: rbind_InrE)
  have "run_inv st1" using run_signals_recorded [OF st1 priced(1) wf] by simp
  from history_kept [OF rest this priced(2) wf] have "history_until d st = history_until d st1"
    by (simp add: list_all_iff)
  with st1 show thesis by (rule that)
qed

lemma same_prefix_run:
  assumes "signals_possible e b" "signals_possible e' b'"
    and "bars_until d b = bars_until d b'" "predictions_before d e = predictions_before d e'"
  shows "signals_until d e b = signals_until d e' b'"
    "run_signals (prices_of env e b t) config risk (signals_until d e b) st =
     run_signals (prices_of env' e' b' t') config risk (signals_until d e' b') st"
proof -
  have "executed_until d b = executed_until d b'" using assms(3) by (auto simp: executed_until_def)
  then show same: "signals_until d e b = signals_until d e' b'"
    using assms(3,4) by (simp add: signals_until_eq [OF assms(1)] signals_until_eq [OF assms(2)])
  have "prices_of env e b t (sg_execution_session sg) = prices_of env' e' b' t' (sg_execution_session sg)"
    if sg: "sg \<in> set (signals_until d e b)" for sg
  proof -
    have "sg_execution_session sg \<in> sg_execution_session ` set (signals_of e b)"
      "sg_execution_session sg \<in> sg_execution_session ` set (signals_of e' b')"
      using sg sg [unfolded same] by (auto simp: signals_until_def)
    then have "sg_execution_session sg \<in> set (execution_dates e b)" "sg_execution_session sg \<in> set (execution_dates e' b')"
      unfolding signals_of_fields(2) [symmetric] set_map by blast+
    moreover have "sg_execution_session sg \<le> d" using sg by (simp add: signals_until_def)
    then have "bar_on b (sg_execution_session sg) = bar_on b' (sg_execution_session sg)"
      using assms(3) by (simp add: bar_on_until)
    ultimately show ?thesis using prices_of_bar [OF assms(1)] prices_of_bar [OF assms(2)] by simp
  qed
  from run_signals_cong [where prices = "prices_of env e b t" and prices' = "prices_of env' e' b' t'", OF this]
  show "run_signals (prices_of env e b t) config risk (signals_until d e b) st =
     run_signals (prices_of env' e' b' t') config risk (signals_until d e' b') st"
    using same by simp
qed

text \<open>C5: a backtest has no lookahead. Two runs with one configuration whose bars up to a session and whose predictions
  before it are the same have recorded the same orders, risk decisions, fills and closes up to it, whatever follows in
  the data, the predictions and the checksums. A run that gives no result was refused for its signals or left the range of
  the floats or the decimals.\<close>

theorem backtest_has_no_lookahead:
  assumes "evaluation_market env e b" "evaluation_market env' e' b'"
    and "mk_backtest_config raw = Inr config" "moderate_costs (bc_cost_assumptions config)"
    and "bars_until d b = bars_until d b'" "predictions_before d e = predictions_before d e'"
  shows "case (run_long_or_cash_backtest env e b raw default_risk_config (PyAware t),
        run_long_or_cash_backtest env' e' b' raw default_risk_config (PyAware t')) of
      (Inr (_, _, st), Inr (_, _, st')) \<Rightarrow> history_until d st = history_until d st'
    | (Inl er, _) \<Rightarrow> \<not> signals_possible e b \<or> run_failure er
    | (_, Inl er) \<Rightarrow> \<not> signals_possible e' b' \<or> run_failure er"
proof (cases "run_long_or_cash_backtest env e b raw default_risk_config (PyAware t)")
  case (Inl er)
  then show ?thesis using run_of_evaluation_fails [OF assms(1,3,4) Inl] by auto
next
  case first: (Inr r)
  show ?thesis
  proof (cases "run_long_or_cash_backtest env' e' b' raw default_risk_config (PyAware t')")
    case (Inl er)
    then show ?thesis using first run_of_evaluation_fails [OF assms(2-4) Inl] by (auto split: prod.split)
  next
    case second: (Inr r')
    obtain s x st s' x' st' where r: "r = (s, x, st)" "r' = (s', x', st')" by (cases r; cases r')
    note run = run_of_evaluation_succeeds [OF assms(1,3) first [unfolded r]]
      and run' = run_of_evaluation_succeeds [OF assms(2,3) second [unfolded r]]
    obtain st1 where st1: "run_signals (prices_of env e b t) config default_risk_config (signals_until d e b)
        (initial_run_state config) = Inr st1" "history_until d st = history_until d st1"
      by (rule history_of_prefix [OF assms(1) run(1) assms(3) run(2)])
    obtain st1' where st1': "run_signals (prices_of env' e' b' t') config default_risk_config (signals_until d e' b')
        (initial_run_state config) = Inr st1'" "history_until d st' = history_until d st1'"
      by (rule history_of_prefix [OF assms(2) run'(1) assms(3) run'(2)])
    have "st1 = st1'"
      using st1(1) st1'(1) same_prefix_run(2) [OF run(1) run'(1) assms(5,6)] by (metis sum.inject(2))
    then show ?thesis using first second r st1(2) st1'(2) by simp
  qed
qed

end
