(* ===== verification/Backtest_Whole_Witnesses.thy ===== *)
theory Backtest_Whole_Witnesses
  imports Signal_Properties Model_Witnesses Backtest_Lookahead
begin

text \<open>
  The signals of the sample run of the model pipeline.

  The backtest of the sample evaluation on the sample bars.
\<close>

lemma evaluated_lineage:
  assumes "partition_ok ''test'' test" "evaluate_locked_model_on_test sk m test t = Inr e"
  shows "ml_source_market_data_checksum (fe_lineage e) = pm_source_market_data_checksum (dp_metadata test)"
    "ml_split_spec (fe_lineage e) = pm_split_spec (dp_metadata test)"
  using assms(2) unfolding evaluate_locked_model_on_test_def Let_def validated_view [OF assms(1)]
  by (elim rbind_InrE; auto dest!: mk_final_evaluationD split: if_splits)+

lemma sample_evaluation:
  obtains e where "mk_final_evaluation ''1'' e = Inr e" "prediction_dates e = map int [40..<54]"
    "ml_source_market_data_checksum (fe_lineage e) = sample_checksum" "ml_split_spec (fe_lineage e) = sample_split"
proof -
  obtain l m e where run: "evaluate_locked_model_on_test sample_sklearn m (cp_test sample_partitions) (PyAware 3) = Inr e"
    "mk_locked_selection ''1'' l = Inr l"
    by (rule sample_pipeline_run)
  have test: "partition_ok ''test'' (cp_test sample_partitions)"
    using split_gives_ok [OF sample_dataset_wf sample_split_wf sample_split_done] by (simp add: split_ok_def)
  obtain ps where ps: "pf_rows (ps_data (fe_prediction_set e)) = prediction_rows
      (the_float (fe_diagnostic_classification_threshold e)) (map lb_session (dp_labels (cp_test sample_partitions))) ps
      (map lb_target (dp_labels (cp_test sample_partitions)))" "length ps = length (dp_labels (cp_test sample_partitions))"
    using evaluated(1) [OF test run(1)] by blast
  have labels: "dp_labels (cp_test sample_partitions) = map sample_label [40..<54]"
    using sample_rows [of 40] by (simp add: sample_partitions_def partition_of_def Let_def del: upt_rec_numeral)
  have "prediction_dates e = map date_cell (map pn_session (pf_rows (ps_data (fe_prediction_set e))))"
    by (simp add: prediction_dates_def)
  also have "\<dots> = map lb_session (dp_labels (cp_test sample_partitions))"
    using ps by (simp add: prediction_rows_columns comp_def)
  also have "\<dots> = map int [40..<54]" by (simp add: labels sample_label_def comp_def del: upt_rec_numeral)
  finally show thesis
    using that evaluated(4) [OF test run(1)] evaluated_lineage [OF test run(1)]
    by (simp add: sample_partitions_def partition_of_def Let_def sample_dataset_def sample_metadata_def sample_sklearn_def
        del: upt_rec_numeral)
qed

lemma sample_batch_ok: "0 < n \<Longrightarrow> batch_ok (\<lambda>_. sample_checksum) (sample_batch n)"
  by (simp add: batch_ok_def wf_batch_def sample_batch_def sample_bar_def hd_map last_map)

lemma sample_market_dates: "market_dates (sample_batch n) = map int [0..<n]"
  by (simp add: market_dates_def sample_batch_def sample_bar_def comp_def)

lemma sample_next_session: "d + 1 < n \<Longrightarrow> next_session (map int [0..<n]) (int d) = Some (int d + 1)"
  using next_session_nth [of "map int [0..<n]" d] increasing_upt [of int 0 n] by simp

lemma sample_signals:
  obtains e where "mk_final_evaluation ''1'' e = Inr e"
    "\<And>n. 55 \<le> n \<Longrightarrow> signals_possible e (sample_batch n) \<and> execution_dates e (sample_batch n) = map int [41..<55]"
proof -
  obtain e where e: "mk_final_evaluation ''1'' e = Inr e" "prediction_dates e = map int [40..<54]"
    "ml_source_market_data_checksum (fe_lineage e) = sample_checksum" "ml_split_spec (fe_lineage e) = sample_split"
    by (rule sample_evaluation)
  have "signals_possible e (sample_batch n) \<and> execution_dates e (sample_batch n) = map int [41..<55]" if n: "55 \<le> n" for n
  proof
    have "executable_in sample_split (map int [0..<n]) d" if "d \<in> set (prediction_dates e)" for d
    proof -
      from that obtain k where "d = int k" "40 \<le> k" "k < 54" by (auto simp: e(2) simp del: upt_rec_numeral)
      then show ?thesis using sample_next_session [of k n] n by (simp add: executable_in_def sample_split_def)
    qed
    moreover have "increasing (map int [0..<n])" by (rule increasing_upt) simp
    ultimately show "signals_possible e (sample_batch n)"
      by (simp add: signals_possible_def sample_market_dates e) (simp add: sample_batch_def)
    have "execution_dates e (sample_batch n) = map (\<lambda>k. int k + 1) [40..<54]"
      unfolding execution_dates_def e(2) sample_market_dates map_map
      by (rule map_cong [OF refl]) (use n in \<open>simp add: sample_next_session del: upt_rec_numeral\<close>)
    also have "\<dots> = map int [41..<55]"
      by (rule nth_equalityI) (simp_all del: upt_rec_numeral)
    finally show "execution_dates e (sample_batch n) = map int [41..<55]" .
  qed
  with e(1) show thesis by (rule that)
qed

theorem signals_execute_at_the_next_session_witness:
  "\<exists>e s. mk_final_evaluation ''1'' e = Inr e \<and>
     build_long_cash_strategy_signals ''1'' (\<lambda>_. sample_checksum) e (sample_batch 70) (PyAware 5) = Inr s \<and>
     execution_dates e (sample_batch 70) = map int [41..<55] \<and> sf_rows (sgs_data s) = signal_rows e (sample_batch 70)"
proof -
  obtain e where e: "mk_final_evaluation ''1'' e = Inr e" "signals_possible e (sample_batch 70)"
    "execution_dates e (sample_batch 70) = map int [41..<55]"
    by (rule sample_signals) (simp del: upt_rec_numeral)
  then show ?thesis
    using signals_execute_at_the_next_session [OF e(1) sample_batch_ok, of 70 5]
    by (auto simp: signals_possible_def split: sum.splits simp del: upt_rec_numeral)
qed

definition sample_environment :: backtest_environment where
  "sample_environment = \<lparr>be_sklearn_version = ''1'', be_market_digest = (\<lambda>_. sample_checksum),
     be_price_digest = (\<lambda>_. sample_checksum)\<rparr>"

definition sample_raw_config :: raw_backtest_config where
  "sample_raw_config =
     \<lparr>bco_cost_assumptions = costs_obj \<lparr>ca_commission_bps_per_side = 1, ca_slippage_bps_per_side = 5\<rparr>,
      bco_initial_cash = PyDecimal (Fin 10000)\<rparr>"

lemma sample_raw_config_ok:
  "mk_backtest_config sample_raw_config =
     Inr \<lparr>bc_cost_assumptions = \<lparr>ca_commission_bps_per_side = 1, ca_slippage_bps_per_side = 5\<rparr>, bc_initial_cash = 10000\<rparr>"
  by (simp add: mk_backtest_config_def sample_raw_config_def mk_cost_assumptions_obj wf_costs_def
      INITIAL_SIMULATED_CASH_def)

lemma sample_market:
  assumes "mk_final_evaluation ''1'' e = Inr e" "0 < n"
  shows "evaluation_market sample_environment e (sample_batch n)"
  using assms sample_batch_ok [OF assms(2)] sample_checksum_ok
  by (auto simp: evaluation_market_def sample_environment_def tradable_def sample_batch_def sample_bar_def is_float_one)


theorem backtest_has_no_lookahead_witness:
  "\<exists>e. signals_possible e (sample_batch 60) \<and> signals_possible e (sample_batch 70) \<and>
     bars_until 50 (sample_batch 60) = bars_until 50 (sample_batch 70) \<and>
     (case (run_long_or_cash_backtest sample_environment e (sample_batch 60) sample_raw_config default_risk_config (PyAware 5),
        run_long_or_cash_backtest sample_environment e (sample_batch 70) sample_raw_config default_risk_config (PyAware 6)) of
        (Inr (_, _, st), Inr (_, _, st')) \<Rightarrow> history_until 50 st = history_until 50 st'
      | (Inl er, _) \<Rightarrow> run_failure er
      | (_, Inl er) \<Rightarrow> run_failure er)"
proof -
  obtain e where e: "mk_final_evaluation ''1'' e = Inr e" "signals_possible e (sample_batch 60)"
    "signals_possible e (sample_batch 70)"
    by (rule sample_signals) (simp del: upt_rec_numeral)
  have "bars_until 50 (sample_batch n) = map sample_bar [0..<51]" if "51 \<le> n" for n
  proof -
    have "[0..<n] = [0..<51] @ [51..<n]" using upt_add_eq_append [of 0 51 "n - 51"] that by (simp del: upt_rec_numeral)
    then show ?thesis
      by (simp add: bars_until_def sample_batch_def sample_bar_def filter_map comp_def filter_empty_conv
          del: upt_rec_numeral)
  qed
  then have same: "bars_until 50 (sample_batch 60) = bars_until 50 (sample_batch 70)" by simp
  have "moderate_costs \<lparr>ca_commission_bps_per_side = 1, ca_slippage_bps_per_side = 5\<rparr>"
    by (simp add: moderate_costs_def wf_costs_def)
  then show ?thesis
    using e same backtest_has_no_lookahead [OF sample_market [OF e(1), of 60] sample_market [OF e(1), of 70]
        sample_raw_config_ok _ same refl, of 5 6]
    by (intro exI [of _ e]) (auto split: sum.splits prod.splits)
qed

end
