(* ===== verification/Audit_Rows.thy ===== *)
theory Audit_Rows
  imports Backtest_Market
begin

text \<open>
  \<^verbatim>\<open>backtesting/models.py\<close>, the audit of a finished backtest: the rows of its four frames and the objects they are
  read back into. A cell of a numeric column is a number of the column's dtype; the cells of the other columns are Python
  values.
\<close>

section \<open>Comparing floats\<close>

text \<open>The literals \<^verbatim>\<open>1e-8\<close>, \<^verbatim>\<open>1e-9\<close> and \<^verbatim>\<open>1e-12\<close>.\<close>

definition tolerance_of :: "nat \<Rightarrow> rat" where
  "tolerance_of digits = float_round (1 / 10 ^ digits)"

fun fl_abs :: "dec \<Rightarrow> dec" where
  "fl_abs (Fin a) = Fin \<bar>a\<bar>"
| "fl_abs (Infinite s) = Infinite False"
| "fl_abs NaN = NaN"

fun fl_le :: "dec \<Rightarrow> dec \<Rightarrow> bool" where
  "fl_le (Fin a) (Fin b) \<longleftrightarrow> a \<le> b"
| "fl_le (Infinite s) (Infinite t) \<longleftrightarrow> s \<or> \<not> t"
| "fl_le (Infinite s) (Fin b) \<longleftrightarrow> s"
| "fl_le (Fin a) (Infinite t) \<longleftrightarrow> \<not> t"
| "fl_le _ _ \<longleftrightarrow> False"

text \<open>\<^verbatim>\<open>math.isclose\<close>.\<close>

definition isclose :: "rat \<Rightarrow> rat \<Rightarrow> dec \<Rightarrow> dec \<Rightarrow> bool" where
  "isclose rel_tol abs_tol a b \<longleftrightarrow>
     a \<noteq> NaN \<and> b \<noteq> NaN \<and>
     (a = b \<or> is_finite_float a \<and> is_finite_float b \<and>
       (let diff = fl_abs (fl_sub b a) in
        fl_le diff (fl_abs (fl_mul (Fin rel_tol) b)) \<or> fl_le diff (fl_abs (fl_mul (Fin rel_tol) a)) \<or>
        fl_le diff (Fin abs_tol)))"

definition accounting_close :: "dec \<Rightarrow> dec \<Rightarrow> bool" where
  "accounting_close = isclose (tolerance_of 12) (tolerance_of 8)"

definition portfolio_close :: "dec \<Rightarrow> dec \<Rightarrow> bool" where
  "portfolio_close = isclose (tolerance_of 12) (tolerance_of 9)"

lemma isclose_refl [simp]: "isclose rel_tol abs_tol (Fin x) (Fin x)"
  by (simp add: isclose_def)

section \<open>Rows\<close>

record 'row audit_frame =
  fr_columns :: "string list"
  fr_dtype :: "string \<Rightarrow> string"
  fr_rows :: "'row list"

definition PROPOSED_ORDER_COLUMNS :: "string list" where
  "PROPOSED_ORDER_COLUMNS =
     [''sequence_number'', ''symbol'', ''side'', ''quantity'', ''signal_session'', ''execution_session'',
      ''target_position'', ''reference_open'', ''estimated_execution_price'', ''estimated_commission'',
      ''estimated_cash_change'', ''current_cash'', ''current_shares'']"

definition RISK_DECISION_COLUMNS :: "string list" where
  "RISK_DECISION_COLUMNS =
     [''order_sequence_number'', ''approved'', ''reason_codes'', ''evaluated_session'', ''projected_cash'',
      ''projected_shares'', ''projected_market_value'', ''projected_equity'']"

definition FILL_COLUMNS :: "string list" where
  "FILL_COLUMNS =
     [''order_sequence_number'', ''symbol'', ''side'', ''quantity'', ''signal_session'', ''execution_session'',
      ''reference_open'', ''execution_price'', ''reference_notional'', ''execution_notional'', ''commission'',
      ''slippage_cost'', ''total_transaction_cost'', ''cash_change'', ''shares_before'', ''shares_after'',
      ''cash_before'', ''cash_after'', ''risk_approved'']"

definition PORTFOLIO_COLUMNS :: "string list" where
  "PORTFOLIO_COLUMNS =
     [''session'', ''signal_session'', ''target_position'', ''cash'', ''shares'', ''close_price'', ''market_value'',
      ''equity'', ''daily_return'', ''drawdown'']"

record order_row =
  ao_sequence_number :: int
  ao_symbol :: pyval
  ao_side :: pyval
  ao_quantity :: int
  ao_signal_session :: pyval
  ao_execution_session :: pyval
  ao_target_position :: int
  ao_reference_open :: dec
  ao_estimated_execution_price :: dec
  ao_estimated_commission :: dec
  ao_estimated_cash_change :: dec
  ao_current_cash :: dec
  ao_current_shares :: int

record decision_row =
  ad_order_sequence_number :: int
  ad_approved :: bool
  ad_reason_codes :: "reason_code list"
  ad_evaluated_session :: pyval
  ad_projected_cash :: dec
  ad_projected_shares :: int
  ad_projected_market_value :: dec
  ad_projected_equity :: dec

record fill_cells =
  af_order_sequence_number :: int
  af_symbol :: pyval
  af_side :: pyval
  af_quantity :: int
  af_signal_session :: pyval
  af_execution_session :: pyval
  af_reference_open :: dec
  af_execution_price :: dec
  af_reference_notional :: dec
  af_execution_notional :: dec
  af_commission :: dec
  af_slippage_cost :: dec
  af_total_transaction_cost :: dec
  af_cash_change :: dec
  af_shares_before :: int
  af_shares_after :: int
  af_cash_before :: dec
  af_cash_after :: dec
  af_risk_approved :: bool

record close_row =
  ac_session :: pyval
  ac_signal_session :: pyval
  ac_target_position :: int
  ac_cash :: dec
  ac_shares :: int
  ac_close_price :: dec
  ac_market_value :: dec
  ac_equity :: dec
  ac_daily_return :: dec
  ac_drawdown :: dec

definition validate_audit_frame :: "string list \<Rightarrow> string \<Rightarrow> 'row audit_frame \<Rightarrow> exn + 'row audit_frame" where
  "validate_audit_frame columns frame_name frame =
     rbind (reject_if (fr_columns frame \<noteq> columns)
              (BacktestAccountingError (''invalid_'' @ frame_name @ ''_columns''))) (\<lambda>_. Inr frame)"

definition validate_audit_dtypes ::
  "order_row audit_frame \<Rightarrow> decision_row audit_frame \<Rightarrow> fill_cells audit_frame \<Rightarrow> close_row audit_frame \<Rightarrow> exn + unit" where
  "validate_audit_dtypes proposed_orders risk_decisions fills portfolio =
     rbind (require_column_dtype ''proposed_orders'' [''sequence_number'', ''quantity'', ''target_position'', ''current_shares'']
              ''int64'' (fr_dtype proposed_orders)) (\<lambda>_.
     rbind (require_column_dtype ''proposed_orders'' [''reference_open'', ''estimated_execution_price'',
              ''estimated_commission'', ''estimated_cash_change'', ''current_cash''] ''float64'' (fr_dtype proposed_orders)) (\<lambda>_.
     rbind (require_column_dtype ''risk_decisions'' [''order_sequence_number'', ''projected_shares''] ''int64''
              (fr_dtype risk_decisions)) (\<lambda>_.
     rbind (require_column_dtype ''risk_decisions'' [''projected_cash'', ''projected_market_value'', ''projected_equity'']
              ''float64'' (fr_dtype risk_decisions)) (\<lambda>_.
     rbind (require_column_dtype ''risk_decisions'' [''approved''] ''bool'' (fr_dtype risk_decisions)) (\<lambda>_.
     rbind (require_column_dtype ''fills'' [''order_sequence_number'', ''quantity'', ''shares_before'', ''shares_after'']
              ''int64'' (fr_dtype fills)) (\<lambda>_.
     rbind (require_column_dtype ''fills'' [''reference_open'', ''execution_price'', ''reference_notional'',
              ''execution_notional'', ''commission'', ''slippage_cost'', ''total_transaction_cost'', ''cash_change'',
              ''cash_before'', ''cash_after''] ''float64'' (fr_dtype fills)) (\<lambda>_.
     rbind (require_column_dtype ''fills'' [''risk_approved''] ''bool'' (fr_dtype fills)) (\<lambda>_.
     rbind (require_column_dtype ''portfolio'' [''target_position'', ''shares''] ''int64'' (fr_dtype portfolio)) (\<lambda>_.
     require_column_dtype ''portfolio'' [''cash'', ''close_price'', ''market_value'', ''equity'', ''daily_return'',
       ''drawdown''] ''float64'' (fr_dtype portfolio))))))))))"

section \<open>Decimals of the cells\<close>

definition audit_signed_decimal :: "string \<Rightarrow> dec \<Rightarrow> exn + rat" where
  "audit_signed_decimal field_name value =
     rbind (require_finite_float BacktestAccountingError field_name value) (\<lambda>parsed.
     price_decimal (float_cell (Fin parsed)))"

definition audit_decimal :: "bool \<Rightarrow> string \<Rightarrow> dec \<Rightarrow> exn + rat" where
  "audit_decimal strictly_positive field_name value =
     rbind (audit_signed_decimal field_name value) (\<lambda>decimal.
     rbind (reject_if (strictly_positive \<and> decimal \<le> 0)
              (BacktestAccountingError (''non_positive_'' @ field_name))) (\<lambda>_.
     rbind (reject_if (\<not> strictly_positive \<and> decimal < 0)
              (BacktestAccountingError (''negative_'' @ field_name))) (\<lambda>_.
     Inr decimal)))"

lemma price_decimal_float_cell [simp]: "price_decimal (float_cell (Fin r)) = Inr (short_decimal r)"
  unfolding price_decimal_def float_cell_def dec.case float_repr_parses by simp

lemma require_finite_float_Inr [simp]: "require_finite_float err f v = Inr r \<longleftrightarrow> v = Fin r"
  by (cases v) (auto simp: require_finite_float_def)

lemma audit_signed_decimal_Inr [simp]: "audit_signed_decimal f v = Inr d \<longleftrightarrow> (\<exists>r. v = Fin r \<and> d = short_decimal r)"
  by (auto simp: audit_signed_decimal_def rbind_eq_Inr_iff)

lemma audit_decimal_Inr [simp]:
  "audit_decimal strict f v = Inr d \<longleftrightarrow>
     (\<exists>r. v = Fin r \<and> d = short_decimal r) \<and> (if strict then 0 < d else 0 \<le> d)"
  by (auto simp: audit_decimal_def rbind_eq_Inr_iff not_less not_le)

definition assert_float_matches_decimal :: "string \<Rightarrow> dec \<Rightarrow> rat \<Rightarrow> exn + unit" where
  "assert_float_matches_decimal field_name observed expected =
     rbind (require_finite_float BacktestAccountingError field_name observed) (\<lambda>observed_float.
     rbind (decimal_to_float expected) (\<lambda>expected_float.
     reject_if (\<not> accounting_close (Fin observed_float) (Fin expected_float))
       (BacktestAccountingError (field_name @ ''_mismatch''))))"

definition assert_decimal_matches_decimal :: "string \<Rightarrow> rat \<Rightarrow> rat \<Rightarrow> exn + unit" where
  "assert_decimal_matches_decimal field_name observed expected =
     rbind (decimal_to_float observed) (\<lambda>observed_float.
     rbind (decimal_to_float expected) (\<lambda>expected_float.
     reject_if (\<not> accounting_close (Fin observed_float) (Fin expected_float))
       (BacktestAccountingError (field_name @ ''_mismatch''))))"

section \<open>Reading the rows back\<close>

text \<open>\<^verbatim>\<open>except RiskError\<close> and \<^verbatim>\<open>except BacktestError\<close> around a constructor.\<close>

fun is_risk_error :: "exn \<Rightarrow> bool" where
  "is_risk_error (RiskInputError _) = True"
| "is_risk_error _ = False"

fun is_backtest_error :: "exn \<Rightarrow> bool" where
  "is_backtest_error (BacktestInputError _) = True"
| "is_backtest_error (BacktestAccountingError _) = True"
| "is_backtest_error (BacktestMetricError _) = True"
| "is_backtest_error _ = False"

definition as_row_error :: "(exn \<Rightarrow> bool) \<Rightarrow> string \<Rightarrow> exn + 'a \<Rightarrow> exn + 'a" where
  "as_row_error caught code result =
     (case result of
        Inl e \<Rightarrow> Inl (if caught e then BacktestAccountingError code else e)
      | Inr x \<Rightarrow> Inr x)"

lemma as_row_error_Inr [simp]: "as_row_error caught code m = Inr x \<longleftrightarrow> m = Inr x"
  by (cases m) (simp_all add: as_row_error_def)

definition reconstruct_proposed_order :: "order_row \<Rightarrow> exn + proposed_order" where
  "reconstruct_proposed_order row =
     as_row_error is_risk_error ''invalid_proposed_order_row''
       (rbind (audit_decimal True ''order_reference_open'' (ao_reference_open row)) (\<lambda>reference_open.
        rbind (audit_decimal True ''order_estimated_execution_price'' (ao_estimated_execution_price row)) (\<lambda>execution_price.
        rbind (audit_decimal False ''order_estimated_commission'' (ao_estimated_commission row)) (\<lambda>commission.
        rbind (audit_signed_decimal ''order_estimated_cash_change'' (ao_estimated_cash_change row)) (\<lambda>cash_change.
        rbind (audit_decimal False ''order_current_cash'' (ao_current_cash row)) (\<lambda>current_cash.
        mk_proposed_order
          \<lparr>poo_sequence_number = PyInt (ao_sequence_number row), poo_symbol = ao_symbol row, poo_side = ao_side row,
           poo_quantity = PyInt (ao_quantity row), poo_signal_session = ao_signal_session row,
           poo_execution_session = ao_execution_session row, poo_target_position = PyInt (ao_target_position row),
           poo_reference_open = PyDecimal (Fin reference_open),
           poo_estimated_execution_price = PyDecimal (Fin execution_price),
           poo_estimated_commission = PyDecimal (Fin commission),
           poo_estimated_cash_change = PyDecimal (Fin cash_change),
           poo_current_cash = PyDecimal (Fin current_cash),
           poo_current_shares = PyInt (ao_current_shares row)\<rparr>))))))"

definition reconstruct_risk_decision :: "decision_row \<Rightarrow> exn + risk_decision" where
  "reconstruct_risk_decision row =
     as_row_error is_risk_error ''invalid_risk_decision_row''
       (rbind (audit_decimal False ''decision_projected_cash'' (ad_projected_cash row)) (\<lambda>projected_cash.
        rbind (audit_decimal False ''decision_projected_market_value'' (ad_projected_market_value row)) (\<lambda>projected_market_value.
        rbind (audit_decimal False ''decision_projected_equity'' (ad_projected_equity row)) (\<lambda>observed_projected_equity.
        let expected_projected_equity = dec_add projected_cash projected_market_value in
        rbind (assert_decimal_matches_decimal ''decision_projected_equity'' observed_projected_equity
                 expected_projected_equity) (\<lambda>_.
        rbind (require_plain_date RiskInputError ''evaluated_session'' (ad_evaluated_session row)) (\<lambda>evaluated_session.
        mk_risk_decision
          \<lparr>rd_order_sequence_number = ad_order_sequence_number row, rd_approved = ad_approved row,
           rd_reason_codes = ad_reason_codes row, rd_evaluated_session = evaluated_session,
           rd_projected_cash = projected_cash, rd_projected_shares = ad_projected_shares row,
           rd_projected_market_value = projected_market_value,
           rd_projected_equity = expected_projected_equity\<rparr>))))))"

definition reconstruct_fill :: "fill_cells \<Rightarrow> exn + fill_record" where
  "reconstruct_fill row =
     as_row_error is_backtest_error ''invalid_fill_row''
       (rbind (require_int BacktestAccountingError 1 ''fill_quantity'' (PyInt (af_quantity row))) (\<lambda>quantity.
        rbind (audit_decimal True ''fill_reference_open'' (af_reference_open row)) (\<lambda>reference_open.
        rbind (audit_decimal True ''fill_execution_price'' (af_execution_price row)) (\<lambda>execution_price.
        rbind (audit_decimal False ''fill_reference_notional'' (af_reference_notional row)) (\<lambda>observed_reference_notional.
        rbind (audit_decimal False ''fill_execution_notional'' (af_execution_notional row)) (\<lambda>observed_execution_notional.
        rbind (audit_decimal False ''fill_commission'' (af_commission row)) (\<lambda>commission.
        rbind (audit_decimal False ''fill_slippage_cost'' (af_slippage_cost row)) (\<lambda>observed_slippage_cost.
        rbind (audit_decimal False ''fill_total_transaction_cost'' (af_total_transaction_cost row)) (\<lambda>observed_total_cost.
        rbind (audit_signed_decimal ''fill_cash_change'' (af_cash_change row)) (\<lambda>observed_cash_change.
        rbind (audit_decimal False ''fill_cash_before'' (af_cash_before row)) (\<lambda>cash_before.
        rbind (audit_decimal False ''fill_cash_after'' (af_cash_after row)) (\<lambda>observed_cash_after.
        let quantity_decimal = of_int quantity;
            expected_reference_notional = dec_mul quantity_decimal reference_open;
            expected_execution_notional = dec_mul quantity_decimal execution_price;
            expected_slippage_cost = dec_mul (dec_abs (dec_sub execution_price reference_open)) quantity_decimal;
            expected_total_cost = dec_add commission expected_slippage_cost in
        rbind (case side_of (af_side row) of
                 None \<Rightarrow> Inl (BacktestAccountingError ''invalid_fill_side'')
               | Some s \<Rightarrow> Inr s) (\<lambda>side.
        let expected_cash_change =
              (if side = BUY_SIDE then dec_neg (dec_add expected_execution_notional commission)
               else dec_sub expected_execution_notional commission);
            expected_cash_after = dec_add cash_before expected_cash_change in
        rbind (assert_decimal_matches_decimal ''fill_reference_notional'' observed_reference_notional
                 expected_reference_notional) (\<lambda>_.
        rbind (assert_decimal_matches_decimal ''fill_execution_notional'' observed_execution_notional
                 expected_execution_notional) (\<lambda>_.
        rbind (assert_decimal_matches_decimal ''fill_slippage_cost'' observed_slippage_cost expected_slippage_cost) (\<lambda>_.
        rbind (assert_decimal_matches_decimal ''fill_total_transaction_cost'' observed_total_cost expected_total_cost) (\<lambda>_.
        rbind (assert_decimal_matches_decimal ''fill_cash_change'' observed_cash_change expected_cash_change) (\<lambda>_.
        rbind (assert_decimal_matches_decimal ''fill_cash_after'' observed_cash_after expected_cash_after) (\<lambda>_.
        mk_fill
          \<lparr>fio_order_sequence_number = PyInt (af_order_sequence_number row), fio_symbol = af_symbol row,
           fio_side = af_side row, fio_quantity = PyInt quantity, fio_signal_session = af_signal_session row,
           fio_execution_session = af_execution_session row, fio_reference_open = PyDecimal (Fin reference_open),
           fio_execution_price = PyDecimal (Fin execution_price),
           fio_reference_notional = PyDecimal (Fin expected_reference_notional),
           fio_execution_notional = PyDecimal (Fin expected_execution_notional),
           fio_commission = PyDecimal (Fin commission), fio_slippage_cost = PyDecimal (Fin expected_slippage_cost),
           fio_total_transaction_cost = PyDecimal (Fin expected_total_cost),
           fio_cash_change = PyDecimal (Fin expected_cash_change), fio_shares_before = PyInt (af_shares_before row),
           fio_shares_after = PyInt (af_shares_after row), fio_cash_before = PyDecimal (Fin cash_before),
           fio_cash_after = PyDecimal (Fin expected_cash_after),
           fio_risk_approved = PyBool (af_risk_approved row)\<rparr>)))))))))))))))))))"

end
