(* ===== verification/Audit_Replay.thy ===== *)
theory Audit_Replay
  imports Audit_Rows
begin

text \<open>
  \<^verbatim>\<open>backtesting/models.py\<close>: the audit replays a finished backtest from its signals and prices and compares every order,
  decision, fill and close with the recorded rows.
\<close>

section \<open>The portfolio frame by itself\<close>

definition float_divide :: "dec \<Rightarrow> dec \<Rightarrow> exn + dec" where
  "float_divide x y = (if y = Fin 0 then Inl (OtherException ''ZeroDivisionError'') else Inr (fl_quotient x y))"

record portfolio_walk =
  pw_running_peak :: rat
  pw_previous_equity :: rat

definition check_portfolio_row :: "close_row \<Rightarrow> portfolio_walk \<Rightarrow> exn + portfolio_walk" where
  "check_portfolio_row row w =
     (let err = BacktestAccountingError in
     rbind (require_finite_float err ''cash'' (ac_cash row)) (\<lambda>cash.
     rbind (require_int err 0 ''shares'' (PyInt (ac_shares row))) (\<lambda>shares.
     rbind (require_finite_float err ''close_price'' (ac_close_price row)) (\<lambda>close_price.
     rbind (require_finite_float err ''market_value'' (ac_market_value row)) (\<lambda>market_value.
     rbind (require_finite_float err ''equity'' (ac_equity row)) (\<lambda>equity.
     rbind (require_finite_float err ''daily_return'' (ac_daily_return row)) (\<lambda>daily_return.
     rbind (require_finite_float err ''drawdown'' (ac_drawdown row)) (\<lambda>drawdown.
     rbind (reject_if (cash < 0 \<or> shares < 0 \<or> close_price \<le> 0) (err ''invalid_portfolio_values'')) (\<lambda>_.
     rbind (reject_if (\<not> portfolio_close (Fin market_value) (fl_mul (fl (of_int shares)) (Fin close_price)))
              (err ''portfolio_market_value_mismatch'')) (\<lambda>_.
     rbind (reject_if (\<not> portfolio_close (Fin equity) (fl_add (Fin cash) (Fin market_value)))
              (err ''portfolio_equity_mismatch'')) (\<lambda>_.
     rbind (float_divide (Fin equity) (Fin (pw_previous_equity w))) (\<lambda>growth.
     rbind (reject_if (\<not> portfolio_close (Fin daily_return) (fl_sub growth (Fin 1)))
              (err ''portfolio_daily_return_mismatch'')) (\<lambda>_.
     let running_peak = max (pw_running_peak w) equity in
     rbind (float_divide (Fin equity) (Fin running_peak)) (\<lambda>of_peak.
     rbind (reject_if (0 < drawdown \<or> \<not> portfolio_close (Fin drawdown) (fl_sub of_peak (Fin 1)))
              (err ''portfolio_drawdown_mismatch'')) (\<lambda>_.
     Inr \<lparr>pw_running_peak = running_peak, pw_previous_equity = equity\<rparr>)))))))))))))))"

definition validate_portfolio_frame :: "close_row audit_frame \<Rightarrow> rat \<Rightarrow> exn + unit" where
  "validate_portfolio_frame frame initial_cash =
     (let err = BacktestAccountingError in
     rbind (reject_if (fr_rows frame = []) (err ''empty_portfolio_frame'')) (\<lambda>_.
     rbind (map_results (bt_require_plain_date BacktestInputError ''session'') (map ac_session (fr_rows frame))) (\<lambda>sessions.
     rbind (reject_if (sessions \<noteq> sort sessions \<or> \<not> distinct sessions) (err ''unordered_portfolio_sessions'')) (\<lambda>_.
     rbind (run_steps check_portfolio_row (fr_rows frame)
              \<lparr>pw_running_peak = initial_cash, pw_previous_equity = initial_cash\<rparr>) (\<lambda>_.
     Inr ())))))"

section \<open>Comparing with the replay\<close>

definition assert_decision_matches_recomputed :: "risk_decision \<Rightarrow> risk_decision \<Rightarrow> exn + unit" where
  "assert_decision_matches_recomputed recorded recomputed =
     (let err = BacktestAccountingError in
     rbind (reject_if (rd_approved recorded \<noteq> rd_approved recomputed) (err ''risk_approval_mismatch'')) (\<lambda>_.
     rbind (reject_if (rd_reason_codes recorded \<noteq> rd_reason_codes recomputed) (err ''risk_reason_codes_mismatch'')) (\<lambda>_.
     rbind (reject_if (rd_evaluated_session recorded \<noteq> rd_evaluated_session recomputed)
              (err ''risk_evaluated_session_mismatch'')) (\<lambda>_.
     rbind (reject_if (rd_projected_shares recorded \<noteq> rd_projected_shares recomputed)
              (err ''risk_projected_shares_mismatch'')) (\<lambda>_.
     rbind (assert_decimal_matches_decimal ''risk_projected_cash'' (rd_projected_cash recorded)
              (rd_projected_cash recomputed)) (\<lambda>_.
     rbind (assert_decimal_matches_decimal ''risk_projected_market_value'' (rd_projected_market_value recorded)
              (rd_projected_market_value recomputed)) (\<lambda>_.
     assert_decimal_matches_decimal ''risk_projected_equity'' (rd_projected_equity recorded)
       (rd_projected_equity recomputed))))))))"

definition order_estimate :: "proposed_order \<Rightarrow> rat \<Rightarrow> cost_assumptions \<Rightarrow> exn + cost_estimate" where
  "order_estimate order reference_open costs =
     estimate_order_cost (PyStr (side_text (po_side order))) (PyInt (po_quantity order))
       (PyDecimal (Fin reference_open)) (costs_obj costs)"

definition validate_order_estimate :: "proposed_order \<Rightarrow> cost_assumptions \<Rightarrow> exn + unit" where
  "validate_order_estimate order costs =
     rbind (order_estimate order (po_reference_open order) costs) (\<lambda>estimate.
     rbind (assert_decimal_matches_decimal ''order_estimated_execution_price'' (po_estimated_execution_price order)
              (oc_execution_price estimate)) (\<lambda>_.
     rbind (assert_decimal_matches_decimal ''order_estimated_commission'' (po_estimated_commission order)
              (oc_commission estimate)) (\<lambda>_.
     assert_decimal_matches_decimal ''order_estimated_cash_change'' (po_estimated_cash_change order)
       (oc_cash_change estimate))))"

definition canonical_order_for_replay ::
  "proposed_order \<Rightarrow> rat \<Rightarrow> int \<Rightarrow> rat \<Rightarrow> cost_assumptions \<Rightarrow> exn + proposed_order" where
  "canonical_order_for_replay order cash shares reference_open costs =
     rbind (order_estimate order reference_open costs) (\<lambda>estimate.
     mk_proposed_order (order_obj
       (order\<lparr>po_reference_open := reference_open,
              po_estimated_execution_price := oc_execution_price estimate,
              po_estimated_commission := oc_commission estimate,
              po_estimated_cash_change := oc_cash_change estimate,
              po_current_cash := cash, po_current_shares := shares\<rparr>)))"

definition validate_fill_matches_order_and_cost ::
  "fill_record \<Rightarrow> proposed_order \<Rightarrow> rat \<Rightarrow> int \<Rightarrow> risk_decision \<Rightarrow> cost_assumptions \<Rightarrow> exn + unit" where
  "validate_fill_matches_order_and_cost fill order cash_before shares_before decision costs =
     (let err = BacktestAccountingError; matches = assert_decimal_matches_decimal in
     rbind (reject_if (fi_symbol fill \<noteq> po_symbol order \<or> fi_side fill \<noteq> po_side order \<or>
                fi_quantity fill \<noteq> po_quantity order \<or> fi_signal_session fill \<noteq> po_signal_session order \<or>
                fi_execution_session fill \<noteq> po_execution_session order) (err ''fill_order_identity_mismatch'')) (\<lambda>_.
     rbind (matches ''fill_reference_open'' (fi_reference_open fill) (po_reference_open order)) (\<lambda>_.
     rbind (order_estimate order (po_reference_open order) costs) (\<lambda>estimate.
     rbind (matches ''fill_execution_price'' (fi_execution_price fill) (oc_execution_price estimate)) (\<lambda>_.
     rbind (matches ''fill_reference_notional'' (fi_reference_notional fill) (oc_reference_notional estimate)) (\<lambda>_.
     rbind (matches ''fill_execution_notional'' (fi_execution_notional fill) (oc_execution_notional estimate)) (\<lambda>_.
     rbind (matches ''fill_commission'' (fi_commission fill) (oc_commission estimate)) (\<lambda>_.
     rbind (matches ''fill_slippage_cost'' (fi_slippage_cost fill) (oc_slippage_cost estimate)) (\<lambda>_.
     rbind (matches ''fill_total_transaction_cost'' (fi_total_transaction_cost fill)
              (oc_total_transaction_cost estimate)) (\<lambda>_.
     rbind (matches ''fill_cash_change'' (fi_cash_change fill) (oc_cash_change estimate)) (\<lambda>_.
     rbind (matches ''fill_cash_before'' (fi_cash_before fill) cash_before) (\<lambda>_.
     rbind (reject_if (fi_shares_before fill \<noteq> shares_before) (err ''fill_shares_before_mismatch'')) (\<lambda>_.
     rbind (reject_if (fi_shares_after fill \<noteq>
                (if po_side order = BUY_SIDE then shares_before + po_quantity order
                 else shares_before - po_quantity order)) (err ''fill_shares_after_mismatch'')) (\<lambda>_.
     rbind (matches ''fill_cash_after'' (fi_cash_after fill) (dec_add cash_before (oc_cash_change estimate))) (\<lambda>_.
     rbind (matches ''fill_decision_projected_cash'' (fi_cash_after fill) (rd_projected_cash decision)) (\<lambda>_.
     reject_if (fi_shares_after fill \<noteq> rd_projected_shares decision)
       (err ''fill_decision_projected_shares_mismatch'')))))))))))))))))"

section \<open>Collecting the rows\<close>

text \<open>The loops that read a frame into a dictionary by sequence number, which keeps the order of insertion: a repeated
  number is an error, \<open>check\<close> is the rest of the body.\<close>

fun collect_rows ::
  "('row \<Rightarrow> exn + 'a) \<Rightarrow> ('a \<Rightarrow> int) \<Rightarrow> string \<Rightarrow> ('a \<Rightarrow> exn + unit) \<Rightarrow> 'row list \<Rightarrow> 'a list \<Rightarrow> exn + 'a list" where
  "collect_rows read key code check [] seen = Inr seen"
| "collect_rows read key code check (row # rows) seen =
     rbind (read row) (\<lambda>x.
     rbind (reject_if (key x \<in> set (map key seen)) (BacktestAccountingError code)) (\<lambda>_.
     rbind (check x) (\<lambda>_.
     collect_rows read key code check rows (seen @ [x]))))"

definition order_key :: "proposed_order \<Rightarrow> pyval \<times> pyval" where
  "order_key order = (PyDate (po_signal_session order), PyDate (po_execution_session order))"

definition orders_for :: "proposed_order list \<Rightarrow> pyval \<times> pyval \<Rightarrow> proposed_order list" where
  "orders_for orders key = filter (\<lambda>order. order_key order = key) orders"

definition signal_targets :: "signal_row list \<Rightarrow> pyval \<times> pyval \<Rightarrow> int option" where
  "signal_targets rows =
     map_of (rev (map (\<lambda>row. ((sr_signal_session row, sr_execution_session row), sr_target_position row)) rows))"

definition check_order_key :: "proposed_order list \<Rightarrow> signal_row list \<Rightarrow> pyval \<times> pyval \<Rightarrow> exn + unit" where
  "check_order_key orders signals key =
     (let err = BacktestAccountingError; for_key = orders_for orders key in
     case signal_targets signals key of
       None \<Rightarrow> Inl (err ''order_signal_mismatch'')
     | Some target \<Rightarrow>
         rbind (reject_if (length for_key \<noteq> 1) (err ''multiple_orders_for_signal'')) (\<lambda>_.
         reject_if (po_target_position (hd for_key) \<noteq> target) (err ''order_target_signal_mismatch'')))"

record audit_books =
  bk_orders :: "proposed_order list"
  bk_decisions :: "risk_decision list"
  bk_fills :: "fill_record list"

definition collect_books ::
  "cost_assumptions \<Rightarrow> signal_row list \<Rightarrow> order_row list \<Rightarrow> decision_row list \<Rightarrow> fill_cells list \<Rightarrow> exn + audit_books" where
  "collect_books costs signals proposed_orders risk_decisions fills =
     (let err = BacktestAccountingError in
     rbind (collect_rows reconstruct_proposed_order po_sequence_number ''duplicate_proposed_orders''
              (\<lambda>order. validate_order_estimate order costs) proposed_orders []) (\<lambda>orders.
     rbind (reject_if (map po_sequence_number orders \<noteq> [1..int (length orders)])
              (err ''non_contiguous_order_sequences'')) (\<lambda>_.
     rbind (collect_rows reconstruct_risk_decision rd_order_sequence_number ''duplicate_risk_decisions''
              (\<lambda>_. Inr ()) risk_decisions []) (\<lambda>decisions.
     rbind (reject_if (set (map rd_order_sequence_number decisions) \<noteq> set (map po_sequence_number orders))
              (err ''risk_decision_order_mismatch'')) (\<lambda>_.
     rbind (collect_rows reconstruct_fill fi_order_sequence_number ''duplicate_fills'' (\<lambda>_. Inr ()) fills []) (\<lambda>fill_list.
     rbind (check_all (check_order_key orders signals) (dedup (map order_key orders))) (\<lambda>_.
     Inr \<lparr>bk_orders = orders, bk_decisions = decisions, bk_fills = fill_list\<rparr>)))))))"

section \<open>The replay\<close>

record replay_state =
  ry_cash :: rat
  ry_shares :: int
  ry_previous_equity :: rat
  ry_running_peak :: rat
  ry_consumed_fills :: "int list"

definition initial_replay :: "backtest_config \<Rightarrow> replay_state" where
  "initial_replay config =
     \<lparr>ry_cash = bc_initial_cash config, ry_shares = 0, ry_previous_equity = bc_initial_cash config,
      ry_running_peak = bc_initial_cash config, ry_consumed_fills = []\<rparr>"

text \<open>\<^verbatim>\<open>frame.iloc[index]\<close>.\<close>

definition row_at :: "'row list \<Rightarrow> nat \<Rightarrow> exn + 'row" where
  "row_at rows i = (if i < length rows then Inr (rows ! i) else Inl (OtherException ''IndexError''))"

text \<open>Whether the signal may, or must, have an order.\<close>

definition check_order_presence :: "int \<Rightarrow> int \<Rightarrow> proposed_order option \<Rightarrow> exn + unit" where
  "check_order_presence target_position shares matched_order =
     (let err = BacktestAccountingError in
     if target_position = 1 then
       rbind (reject_if (0 < shares \<and> matched_order \<noteq> None) (err ''repeated_long_rebalance_order'')) (\<lambda>_.
       reject_if (shares = 0 \<and> matched_order = None) (err ''missing_long_entry_order''))
     else
       rbind (reject_if (shares = 0 \<and> matched_order \<noteq> None) (err ''repeated_cash_order'')) (\<lambda>_.
       reject_if (0 < shares \<and> matched_order = None) (err ''missing_cash_exit_order'')))"

definition check_order_size ::
  "int \<Rightarrow> proposed_order \<Rightarrow> rat \<Rightarrow> int \<Rightarrow> rat \<Rightarrow> cost_assumptions \<Rightarrow> exn + unit" where
  "check_order_size target_position order cash shares reference_open costs =
     (let err = BacktestAccountingError in
     if target_position = 1 then
       rbind (reject_if (po_side order \<noteq> BUY_SIDE) (err ''invalid_long_entry_order_side'')) (\<lambda>_.
       rbind (maximum_affordable_buy_quantity (PyDecimal (Fin cash)) (PyDecimal (Fin reference_open)) (costs_obj costs)) (\<lambda>n.
       reject_if (po_quantity order \<noteq> (if n \<le> 0 then 1 else n)) (err ''buy_quantity_sizing_mismatch'')))
     else reject_if (po_side order \<noteq> SELL_SIDE \<or> po_quantity order \<noteq> shares) (err ''full_exit_order_mismatch''))"

definition replay_order ::
  "audit_books \<Rightarrow> backtest_config \<Rightarrow> risk_config \<Rightarrow> date \<Rightarrow> int \<Rightarrow> rat \<Rightarrow> proposed_order \<Rightarrow> replay_state \<Rightarrow>
     exn + replay_state" where
  "replay_order books config risk execution_session target_position reference_open order st =
     (let err = BacktestAccountingError; costs = bc_cost_assumptions config; cash = ry_cash st; shares = ry_shares st in
     rbind (assert_decimal_matches_decimal ''order_market_reference_open'' (po_reference_open order) reference_open) (\<lambda>_.
     rbind (assert_decimal_matches_decimal ''order_current_cash'' (po_current_cash order) cash) (\<lambda>_.
     rbind (reject_if (po_current_shares order \<noteq> shares) (err ''order_current_shares_mismatch'')) (\<lambda>_.
     rbind (check_order_size target_position order cash shares reference_open costs) (\<lambda>_.
     rbind (canonical_order_for_replay order cash shares reference_open costs) (\<lambda>replayed.
     case find (\<lambda>d. rd_order_sequence_number d = po_sequence_number order) (bk_decisions books) of
       None \<Rightarrow> Inl (OtherException ''KeyError'')
     | Some decision \<Rightarrow>
     rbind (portfolio_state_at execution_session cash shares (po_reference_open replayed)) (\<lambda>open_state.
     rbind (evaluate_order_risk (order_obj replayed) (portfolio_obj open_state) risk (costs_obj costs)) (\<lambda>recomputed.
     rbind (assert_decision_matches_recomputed decision recomputed) (\<lambda>_.
     let matched_fill = find (\<lambda>f. fi_order_sequence_number f = po_sequence_number order) (bk_fills books) in
     if rd_approved decision then
       (case matched_fill of
          None \<Rightarrow> Inl (err ''missing_approved_fill'')
        | Some fill \<Rightarrow>
            rbind (validate_fill_matches_order_and_cost fill replayed cash shares decision costs) (\<lambda>_.
            Inr (st\<lparr>ry_cash := fi_cash_after fill, ry_shares := fi_shares_after fill,
                    ry_consumed_fills := ry_consumed_fills st @ [fi_order_sequence_number fill]\<rparr>)))
     else rbind (reject_if (matched_fill \<noteq> None) (err ''fill_for_rejected_decision'')) (\<lambda>_. Inr st))))))))))"

definition replay_close ::
  "backtest_config \<Rightarrow> nat \<Rightarrow> rat \<Rightarrow> close_row \<Rightarrow> replay_state \<Rightarrow> exn + replay_state" where
  "replay_close config index close_price row st =
     (let expected_market_value = dec_mul (of_int (ry_shares st)) close_price;
          expected_equity = dec_add (ry_cash st) expected_market_value;
          running_peak = max (ry_running_peak st) expected_equity;
          base = (if 0 < index then ry_previous_equity st else bc_initial_cash config) in
     rbind (audit_decimal True ''portfolio_close_price'' (ac_close_price row)) (\<lambda>portfolio_close_price.
     rbind (assert_decimal_matches_decimal ''portfolio_market_close_price'' portfolio_close_price close_price) (\<lambda>_.
     rbind (decimal_divide expected_equity base) (\<lambda>growth.
     rbind (decimal_divide expected_equity running_peak) (\<lambda>of_peak.
     rbind (assert_float_matches_decimal ''portfolio_cash'' (ac_cash row) (ry_cash st)) (\<lambda>_.
     rbind (reject_if (ac_shares row \<noteq> ry_shares st)
              (BacktestAccountingError ''portfolio_shares_replay_mismatch'')) (\<lambda>_.
     rbind (assert_float_matches_decimal ''portfolio_market_value'' (ac_market_value row) expected_market_value) (\<lambda>_.
     rbind (assert_float_matches_decimal ''portfolio_equity'' (ac_equity row) expected_equity) (\<lambda>_.
     rbind (assert_float_matches_decimal ''portfolio_daily_return'' (ac_daily_return row) (dec_sub growth 1)) (\<lambda>_.
     rbind (assert_float_matches_decimal ''portfolio_drawdown'' (ac_drawdown row) (dec_sub of_peak 1)) (\<lambda>_.
     Inr (st\<lparr>ry_previous_equity := expected_equity, ry_running_peak := running_peak\<rparr>))))))))))))"

definition replay_signal ::
  "audit_books \<Rightarrow> price_row list \<Rightarrow> close_row list \<Rightarrow> backtest_config \<Rightarrow> risk_config \<Rightarrow> nat \<times> signal_row \<Rightarrow>
     replay_state \<Rightarrow> exn + replay_state" where
  "replay_signal books prices closes config risk = (\<lambda>(index, signal) st.
     let err = BacktestAccountingError in
     rbind (bt_require_plain_date err ''signal_session'' (sr_signal_session signal)) (\<lambda>signal_session.
     rbind (bt_require_plain_date err ''execution_session'' (sr_execution_session signal)) (\<lambda>execution_session.
     rbind (require_int err 0 ''signal_target_position'' (PyInt (sr_target_position signal))) (\<lambda>target_position.
     rbind (row_at prices index) (\<lambda>price.
     rbind (reject_if (xr_execution_session price \<noteq> PyDate execution_session)
              (err ''execution_price_session_mismatch'')) (\<lambda>_.
     rbind (audit_decimal True ''execution_price_reference_open'' (xr_reference_open price)) (\<lambda>reference_open.
     rbind (audit_decimal True ''execution_price_close_price'' (xr_close_price price)) (\<lambda>close_price.
     rbind (row_at closes index) (\<lambda>row.
     rbind (reject_if (ac_session row \<noteq> PyDate execution_session) (err ''portfolio_execution_session_mismatch'')) (\<lambda>_.
     rbind (reject_if (ac_signal_session row \<noteq> PyDate signal_session) (err ''portfolio_signal_session_mismatch'')) (\<lambda>_.
     rbind (reject_if (ac_target_position row \<noteq> target_position) (err ''portfolio_target_signal_mismatch'')) (\<lambda>_.
     let matched_order = (case orders_for (bk_orders books) (PyDate signal_session, PyDate execution_session) of
             [] \<Rightarrow> None | order # _ \<Rightarrow> Some order) in
     rbind (check_order_presence target_position (ry_shares st) matched_order) (\<lambda>_.
     rbind (case matched_order of
              None \<Rightarrow> Inr st
            | Some order \<Rightarrow>
                replay_order books config risk execution_session target_position reference_open order st) (\<lambda>st1.
     replay_close config index close_price row st1))))))))))))))"

record audit_evidence =
  ev_signals :: signal_set
  ev_execution_prices :: execution_prices
  ev_proposed_orders :: "order_row audit_frame"
  ev_risk_decisions :: "decision_row audit_frame"
  ev_fills :: "fill_cells audit_frame"
  ev_portfolio :: "close_row audit_frame"

definition validate_backtest_audit_replay :: "audit_evidence \<Rightarrow> backtest_config \<Rightarrow> risk_config \<Rightarrow> exn + unit" where
  "validate_backtest_audit_replay ev config risk =
     (let err = BacktestAccountingError; signals = sf_rows (sgs_data (ev_signals ev));
          prices = xf_rows (xp_data (ev_execution_prices ev)) in
     rbind (validate_audit_dtypes (ev_proposed_orders ev) (ev_risk_decisions ev) (ev_fills ev) (ev_portfolio ev)) (\<lambda>_.
     rbind (reject_if (map xr_execution_session prices \<noteq> map sr_execution_session signals)
              (err ''execution_price_signal_session_mismatch'')) (\<lambda>_.
     rbind (collect_books (bc_cost_assumptions config) signals (fr_rows (ev_proposed_orders ev))
              (fr_rows (ev_risk_decisions ev)) (fr_rows (ev_fills ev))) (\<lambda>books.
     rbind (run_steps (replay_signal books prices (fr_rows (ev_portfolio ev)) config risk)
              (enumerate 0 signals) (initial_replay config)) (\<lambda>st.
     reject_if (set (map fi_order_sequence_number (bk_fills books)) \<noteq> set (ry_consumed_fills st))
       (err ''unconsumed_fill_records''))))))"

end
