(* ===== verification/Audit_Metrics.thy ===== *)
theory Audit_Metrics
  imports Audit_Rows
begin

text \<open>
  \<^verbatim>\<open>BacktestMetrics\<close> of \<^verbatim>\<open>backtesting/models.py\<close> and \<^verbatim>\<open>backtesting/metrics.py\<close>: the statistics of a finished backtest, in float
  arithmetic over the cells of its frames.
\<close>

section \<open>\<^verbatim>\<open>BacktestMetrics\<close>\<close>

record backtest_metrics =
  bm_session_count :: int
  bm_initial_cash :: dec
  bm_final_cash :: dec
  bm_final_shares :: int
  bm_final_market_value :: dec
  bm_final_equity :: dec
  bm_total_return :: dec
  bm_maximum_drawdown :: dec
  bm_total_reference_notional :: dec
  bm_total_execution_notional :: dec
  bm_total_commission :: dec
  bm_total_slippage_cost :: dec
  bm_total_transaction_cost :: dec
  bm_turnover_ratio :: dec
  bm_exposure_fraction :: dec
  bm_proposed_order_count :: int
  bm_approved_order_count :: int
  bm_rejected_order_count :: int
  bm_fill_count :: int
  bm_buy_fill_count :: int
  bm_sell_fill_count :: int

definition backtest_count_fields :: "backtest_metrics \<Rightarrow> (string \<times> int) list" where
  "backtest_count_fields m =
     [(''session_count'', bm_session_count m), (''final_shares'', bm_final_shares m),
      (''proposed_order_count'', bm_proposed_order_count m), (''approved_order_count'', bm_approved_order_count m),
      (''rejected_order_count'', bm_rejected_order_count m), (''fill_count'', bm_fill_count m),
      (''buy_fill_count'', bm_buy_fill_count m), (''sell_fill_count'', bm_sell_fill_count m)]"

definition backtest_float_fields :: "backtest_metrics \<Rightarrow> (string \<times> dec) list" where
  "backtest_float_fields m =
     [(''initial_cash'', bm_initial_cash m), (''final_cash'', bm_final_cash m),
      (''final_market_value'', bm_final_market_value m), (''final_equity'', bm_final_equity m),
      (''total_return'', bm_total_return m), (''maximum_drawdown'', bm_maximum_drawdown m),
      (''total_reference_notional'', bm_total_reference_notional m),
      (''total_execution_notional'', bm_total_execution_notional m), (''total_commission'', bm_total_commission m),
      (''total_slippage_cost'', bm_total_slippage_cost m),
      (''total_transaction_cost'', bm_total_transaction_cost m), (''turnover_ratio'', bm_turnover_ratio m),
      (''exposure_fraction'', bm_exposure_fraction m)]"

definition metric_close :: "dec \<Rightarrow> dec \<Rightarrow> bool" where
  "metric_close = isclose (tolerance_of 12) (tolerance_of 12)"

text \<open>The comparisons of the constructor, on finite floats.\<close>

definition mk_backtest_metrics :: "backtest_metrics \<Rightarrow> exn + backtest_metrics" where
  "mk_backtest_metrics m =
     (let err = BacktestMetricError; non_negative = filter (\<lambda>(name, _). name \<noteq> ''total_return'') (backtest_float_fields m) in
     rbind (check_all (\<lambda>(name, value). rbind (require_int err 0 name (PyInt value)) (\<lambda>_. Inr ())) (backtest_count_fields m)) (\<lambda>_.
     rbind (reject_if (bm_session_count m \<le> 0) (err ''invalid_session_count'')) (\<lambda>_.
     rbind (check_all (\<lambda>(name, value). rbind (require_finite_float err name value) (\<lambda>_. Inr ())) (backtest_float_fields m)) (\<lambda>_.
     rbind (check_all (\<lambda>(name, value). reject_if (the_float value < 0) (err (''negative_'' @ name))) non_negative) (\<lambda>_.
     rbind (reject_if (\<not> isclose 0 0 (bm_initial_cash m) (Fin (float_round INITIAL_SIMULATED_CASH)))
              (err ''invalid_initial_cash'')) (\<lambda>_.
     rbind (reject_if (\<not> portfolio_close (bm_final_equity m) (fl_add (bm_final_cash m) (bm_final_market_value m)))
              (err ''final_equity_identity_mismatch'')) (\<lambda>_.
     rbind (reject_if (\<not> metric_close (bm_total_return m)
                (fl_sub (fl_quotient (bm_final_equity m) (bm_initial_cash m)) (Fin 1))) (err ''total_return_mismatch'')) (\<lambda>_.
     rbind (reject_if (\<not> portfolio_close (bm_total_transaction_cost m)
                (fl_add (bm_total_commission m) (bm_total_slippage_cost m))) (err ''transaction_cost_identity_mismatch'')) (\<lambda>_.
     rbind (reject_if (1 < the_float (bm_maximum_drawdown m) \<or> 1 < the_float (bm_exposure_fraction m))
              (err ''bounded_metric_out_of_range'')) (\<lambda>_.
     rbind (reject_if (bm_approved_order_count m + bm_rejected_order_count m \<noteq> bm_proposed_order_count m)
              (err ''order_count_identity_mismatch'')) (\<lambda>_.
     rbind (reject_if (bm_fill_count m \<noteq> bm_approved_order_count m) (err ''fill_count_identity_mismatch'')) (\<lambda>_.
     rbind (reject_if (bm_buy_fill_count m + bm_sell_fill_count m \<noteq> bm_fill_count m)
              (err ''fill_side_count_identity_mismatch'')) (\<lambda>_.
     Inr m)))))))))))))"

section \<open>Validators\<close>

definition metric_float :: "bool \<Rightarrow> bool \<Rightarrow> string \<Rightarrow> dec \<Rightarrow> exn + rat" where
  "metric_float strictly_positive allow_negative field_name value =
     rbind (require_finite_float BacktestMetricError field_name value) (\<lambda>parsed.
     rbind (reject_if (strictly_positive \<and> parsed \<le> 0) (BacktestMetricError (''non_positive_'' @ field_name))) (\<lambda>_.
     rbind (reject_if (\<not> strictly_positive \<and> \<not> allow_negative \<and> parsed < 0)
              (BacktestMetricError (''negative_'' @ field_name))) (\<lambda>_.
     Inr parsed)))"

abbreviation metric_amount :: "string \<Rightarrow> dec \<Rightarrow> exn + rat" where
  "metric_amount \<equiv> metric_float False False"

definition metric_int :: "int \<Rightarrow> string \<Rightarrow> int \<Rightarrow> exn + int" where
  "metric_int minimum field_name value = require_int BacktestMetricError minimum field_name (PyInt value)"

definition metric_str :: "string \<Rightarrow> pyval \<Rightarrow> exn + string" where
  "metric_str field_name value =
     (case value of
        PyStr s \<Rightarrow> if s = [] then Inl (BacktestMetricError (''invalid_'' @ field_name)) else Inr s
      | _ \<Rightarrow> Inl (BacktestMetricError (''invalid_'' @ field_name)))"

abbreviation metric_date :: "string \<Rightarrow> pyval \<Rightarrow> exn + date" where
  "metric_date \<equiv> bt_require_plain_date BacktestMetricError"

definition assert_close :: "string \<Rightarrow> dec \<Rightarrow> dec \<Rightarrow> exn + unit" where
  "assert_close field_name observed expected =
     reject_if (\<not> accounting_close observed expected) (BacktestMetricError (field_name @ ''_mismatch''))"

lemma metric_float_Inr [simp]:
  "metric_float strict neg f v = Inr r \<longleftrightarrow> v = Fin r \<and> (strict \<longrightarrow> 0 < r) \<and> (\<not> neg \<longrightarrow> 0 \<le> r)"
  by (auto simp: metric_float_def rbind_eq_Inr_iff not_less not_le)

lemma metric_int_Inr [simp]: "metric_int m f v = Inr i \<longleftrightarrow> i = v \<and> m \<le> v"
  by (auto simp: metric_int_def)

lemma metric_str_Inr [simp]: "metric_str f v = Inr s \<longleftrightarrow> v = PyStr s \<and> s \<noteq> []"
  by (auto simp: metric_str_def split: pyval.splits if_splits)

lemma assert_close_Inr [simp]: "assert_close f a b = Inr u \<longleftrightarrow> accounting_close a b"
  by (simp add: assert_close_def)

section \<open>The frames\<close>

record metric_walk =
  mw_index :: nat
  mw_previous_equity :: rat
  mw_running_peak :: rat

definition metric_portfolio_row :: "rat \<Rightarrow> close_row \<Rightarrow> metric_walk \<Rightarrow> exn + metric_walk" where
  "metric_portfolio_row initial_cash row w =
     (let err = BacktestMetricError in
     rbind (metric_date ''portfolio_session'' (ac_session row)) (\<lambda>_.
     rbind (metric_date ''portfolio_signal_session'' (ac_signal_session row)) (\<lambda>_.
     rbind (metric_int 0 ''portfolio_target_position'' (ac_target_position row)) (\<lambda>target_position.
     rbind (reject_if (target_position \<noteq> 0 \<and> target_position \<noteq> 1) (err ''invalid_portfolio_target_position'')) (\<lambda>_.
     rbind (metric_amount ''portfolio_cash'' (ac_cash row)) (\<lambda>cash.
     rbind (metric_int 0 ''portfolio_shares'' (ac_shares row)) (\<lambda>shares.
     rbind (metric_float True False ''portfolio_close_price'' (ac_close_price row)) (\<lambda>close_price.
     rbind (metric_amount ''portfolio_market_value'' (ac_market_value row)) (\<lambda>market_value.
     rbind (metric_amount ''portfolio_equity'' (ac_equity row)) (\<lambda>equity.
     rbind (metric_float False True ''portfolio_daily_return'' (ac_daily_return row)) (\<lambda>daily_return.
     rbind (metric_float False True ''portfolio_drawdown'' (ac_drawdown row)) (\<lambda>drawdown.
     rbind (reject_if (drawdown < - 1 \<or> 0 < drawdown) (err ''portfolio_drawdown_out_of_bounds'')) (\<lambda>_.
     rbind (assert_close ''portfolio_market_value'' (Fin market_value)
              (fl_mul (fl (of_int shares)) (Fin close_price))) (\<lambda>_.
     rbind (assert_close ''portfolio_equity'' (Fin equity) (fl_add (Fin cash) (Fin market_value))) (\<lambda>_.
     rbind (reject_if (mw_previous_equity w \<le> 0) (err ''non_positive_previous_equity'')) (\<lambda>_.
     let base = (if mw_index w = 0 then initial_cash else mw_previous_equity w);
         running_peak = max (mw_running_peak w) equity in
     rbind (assert_close ''portfolio_daily_return'' (Fin daily_return)
              (fl_sub (fl_quotient (Fin equity) (Fin base)) (Fin 1))) (\<lambda>_.
     rbind (assert_close ''portfolio_drawdown'' (Fin drawdown)
              (fl_sub (fl_quotient (Fin equity) (Fin running_peak)) (Fin 1))) (\<lambda>_.
     Inr \<lparr>mw_index = mw_index w + 1, mw_previous_equity = equity, mw_running_peak = running_peak\<rparr>))))))))))))))))))"

definition validate_metric_portfolio :: "close_row list \<Rightarrow> rat \<Rightarrow> exn + unit" where
  "validate_metric_portfolio rows initial_cash =
     rbind (reject_if (rows = []) (BacktestMetricError ''empty_portfolio_frame'')) (\<lambda>_.
     rbind (run_steps (metric_portfolio_row initial_cash) rows
              \<lparr>mw_index = 0, mw_previous_equity = initial_cash, mw_running_peak = initial_cash\<rparr>) (\<lambda>_.
     rbind (map_results (metric_date ''portfolio_session'') (map ac_session rows)) (\<lambda>sessions.
     reject_if (sessions \<noteq> sort sessions \<or> \<not> distinct sessions) (BacktestMetricError ''unordered_portfolio_sessions''))))"

record fill_totals =
  ft_reference_notional :: dec
  ft_execution_notional :: dec
  ft_commission :: dec
  ft_slippage_cost :: dec
  ft_transaction_cost :: dec
  ft_buy_fills :: int
  ft_sell_fills :: int

definition no_fills :: fill_totals where
  "no_fills = \<lparr>ft_reference_notional = Fin 0, ft_execution_notional = Fin 0, ft_commission = Fin 0,
     ft_slippage_cost = Fin 0, ft_transaction_cost = Fin 0, ft_buy_fills = 0, ft_sell_fills = 0\<rparr>"

definition metric_side :: "string \<Rightarrow> pyval \<Rightarrow> exn + order_side" where
  "metric_side prefix value =
     rbind (metric_str (prefix @ ''_side'') value) (\<lambda>_.
     case side_of value of
       None \<Rightarrow> Inl (BacktestMetricError (''invalid_'' @ prefix @ ''_side''))
     | Some side \<Rightarrow> Inr side)"

definition metric_symbol :: "string \<Rightarrow> pyval \<Rightarrow> exn + unit" where
  "metric_symbol prefix value =
     rbind (metric_str (prefix @ ''_symbol'') value) (\<lambda>symbol.
     reject_if (symbol \<noteq> SUPPORTED_SYMBOL) (BacktestMetricError (''invalid_'' @ prefix @ ''_symbol'')))"

definition metric_fill_row :: "fill_cells \<Rightarrow> fill_totals \<Rightarrow> exn + fill_totals" where
  "metric_fill_row row t =
     (let err = BacktestMetricError in
     rbind (metric_int 1 ''fill_order_sequence_number'' (af_order_sequence_number row)) (\<lambda>_.
     rbind (metric_symbol ''fill'' (af_symbol row)) (\<lambda>_.
     rbind (metric_side ''fill'' (af_side row)) (\<lambda>side.
     rbind (metric_int 1 ''fill_quantity'' (af_quantity row)) (\<lambda>quantity.
     rbind (metric_date ''fill_signal_session'' (af_signal_session row)) (\<lambda>signal_session.
     rbind (metric_date ''fill_execution_session'' (af_execution_session row)) (\<lambda>execution_session.
     rbind (reject_if (execution_session \<le> signal_session) (err ''same_candle_fill'')) (\<lambda>_.
     rbind (metric_float True False ''fill_reference_open'' (af_reference_open row)) (\<lambda>reference_open.
     rbind (metric_float True False ''fill_execution_price'' (af_execution_price row)) (\<lambda>execution_price.
     rbind (metric_amount ''fill_reference_notional'' (af_reference_notional row)) (\<lambda>reference_notional.
     rbind (metric_amount ''fill_execution_notional'' (af_execution_notional row)) (\<lambda>execution_notional.
     rbind (metric_amount ''fill_commission'' (af_commission row)) (\<lambda>commission.
     rbind (metric_amount ''fill_slippage_cost'' (af_slippage_cost row)) (\<lambda>slippage_cost.
     rbind (metric_amount ''fill_total_transaction_cost'' (af_total_transaction_cost row)) (\<lambda>total_cost.
     rbind (metric_float False True ''fill_cash_change'' (af_cash_change row)) (\<lambda>cash_change.
     rbind (metric_int 0 ''fill_shares_before'' (af_shares_before row)) (\<lambda>shares_before.
     rbind (metric_int 0 ''fill_shares_after'' (af_shares_after row)) (\<lambda>shares_after.
     rbind (metric_amount ''fill_cash_before'' (af_cash_before row)) (\<lambda>cash_before.
     rbind (metric_amount ''fill_cash_after'' (af_cash_after row)) (\<lambda>cash_after.
     rbind (reject_if (\<not> af_risk_approved row) (err ''fill_without_approved_risk_decision'')) (\<lambda>_.
     let q = fl (of_int quantity) in
     rbind (assert_close ''fill_reference_notional'' (Fin reference_notional) (fl_mul q (Fin reference_open))) (\<lambda>_.
     rbind (assert_close ''fill_execution_notional'' (Fin execution_notional) (fl_mul q (Fin execution_price))) (\<lambda>_.
     rbind (assert_close ''fill_slippage_cost'' (Fin slippage_cost)
              (fl_mul (fl_abs (fl_sub (Fin execution_price) (Fin reference_open))) q)) (\<lambda>_.
     rbind (assert_close ''fill_total_transaction_cost'' (Fin total_cost) (fl_add (Fin commission) (Fin slippage_cost))) (\<lambda>_.
     let expected_cash_change =
           (if side = BUY_SIDE then fl_neg (fl_add (Fin execution_notional) (Fin commission))
            else fl_sub (Fin execution_notional) (Fin commission));
         expected_shares_after = (if side = BUY_SIDE then shares_before + quantity else shares_before - quantity) in
     rbind (assert_close ''fill_cash_change'' (Fin cash_change) expected_cash_change) (\<lambda>_.
     rbind (reject_if (shares_after \<noteq> expected_shares_after) (err ''fill_share_transition_mismatch'')) (\<lambda>_.
     rbind (assert_close ''fill_cash_after'' (Fin cash_after) (fl_add (Fin cash_before) (Fin cash_change))) (\<lambda>_.
     Inr \<lparr>ft_reference_notional = fl_add (ft_reference_notional t) (Fin reference_notional),
          ft_execution_notional = fl_add (ft_execution_notional t) (Fin execution_notional),
          ft_commission = fl_add (ft_commission t) (Fin commission),
          ft_slippage_cost = fl_add (ft_slippage_cost t) (Fin slippage_cost),
          ft_transaction_cost = fl_add (ft_transaction_cost t) (Fin total_cost),
          ft_buy_fills = ft_buy_fills t + (if side = BUY_SIDE then 1 else 0),
          ft_sell_fills = ft_sell_fills t + (if side = BUY_SIDE then 0 else 1)\<rparr>))))))))))))))))))))))))))))"

definition validate_metric_fills :: "fill_cells list \<Rightarrow> exn + fill_totals" where
  "validate_metric_fills rows = run_steps metric_fill_row rows no_fills"

definition metric_order_row :: "order_row \<Rightarrow> exn + int" where
  "metric_order_row row =
     (let err = BacktestMetricError in
     rbind (metric_int 1 ''order_sequence_number'' (ao_sequence_number row)) (\<lambda>sequence.
     rbind (metric_symbol ''order'' (ao_symbol row)) (\<lambda>_.
     rbind (metric_side ''order'' (ao_side row)) (\<lambda>_.
     rbind (metric_int 1 ''order_quantity'' (ao_quantity row)) (\<lambda>_.
     rbind (metric_date ''order_signal_session'' (ao_signal_session row)) (\<lambda>signal_session.
     rbind (metric_date ''order_execution_session'' (ao_execution_session row)) (\<lambda>execution_session.
     rbind (reject_if (execution_session \<le> signal_session) (err ''same_candle_order'')) (\<lambda>_.
     rbind (metric_int 0 ''order_target_position'' (ao_target_position row)) (\<lambda>target_position.
     rbind (reject_if (target_position \<noteq> 0 \<and> target_position \<noteq> 1) (err ''invalid_order_target_position'')) (\<lambda>_.
     rbind (metric_float True False ''order_reference_open'' (ao_reference_open row)) (\<lambda>_.
     rbind (metric_float True False ''order_estimated_execution_price'' (ao_estimated_execution_price row)) (\<lambda>_.
     rbind (metric_amount ''order_estimated_commission'' (ao_estimated_commission row)) (\<lambda>_.
     rbind (metric_float False True ''order_estimated_cash_change'' (ao_estimated_cash_change row)) (\<lambda>_.
     rbind (metric_amount ''order_current_cash'' (ao_current_cash row)) (\<lambda>_.
     rbind (metric_int 0 ''order_current_shares'' (ao_current_shares row)) (\<lambda>_.
     Inr sequence))))))))))))))))"

definition validate_metric_proposed_orders :: "order_row list \<Rightarrow> exn + int list" where
  "validate_metric_proposed_orders rows =
     rbind (map_results metric_order_row rows) (\<lambda>sequences.
     rbind (reject_if (\<not> distinct sequences) (BacktestMetricError ''duplicate_proposed_orders'')) (\<lambda>_.
     Inr sequences))"

text \<open>That a reason code is a known string is its type.\<close>

definition metric_decision_row :: "decision_row \<Rightarrow> exn + int" where
  "metric_decision_row row =
     (let err = BacktestMetricError; codes = ad_reason_codes row in
     rbind (metric_int 1 ''decision_order_sequence_number'' (ad_order_sequence_number row)) (\<lambda>sequence.
     rbind (reject_if (codes = []) (err ''invalid_decision_reason_codes'')) (\<lambda>_.
     rbind (reject_if (\<not> distinct codes) (err ''duplicate_decision_reason_codes'')) (\<lambda>_.
     rbind (reject_if (ad_approved row \<and> codes \<noteq> [APPROVED_REASON]) (err ''invalid_approved_reason_codes'')) (\<lambda>_.
     rbind (reject_if (\<not> ad_approved row \<and> APPROVED_REASON \<in> set codes) (err ''invalid_rejected_reason_codes'')) (\<lambda>_.
     rbind (metric_date ''decision_evaluated_session'' (ad_evaluated_session row)) (\<lambda>_.
     rbind (metric_amount ''decision_projected_cash'' (ad_projected_cash row)) (\<lambda>projected_cash.
     rbind (metric_int 0 ''decision_projected_shares'' (ad_projected_shares row)) (\<lambda>projected_shares.
     rbind (metric_amount ''decision_projected_market_value'' (ad_projected_market_value row)) (\<lambda>projected_market_value.
     rbind (metric_amount ''decision_projected_equity'' (ad_projected_equity row)) (\<lambda>projected_equity.
     rbind (assert_close ''decision_projected_equity'' (Fin projected_equity)
              (fl_add (Fin projected_cash) (Fin projected_market_value))) (\<lambda>_.
     rbind (reject_if (projected_shares < 0) (err ''negative_decision_projected_shares'')) (\<lambda>_.
     Inr sequence)))))))))))))"

definition validate_metric_risk_decisions :: "decision_row list \<Rightarrow> exn + int list \<times> int" where
  "validate_metric_risk_decisions rows =
     rbind (map_results metric_decision_row rows) (\<lambda>sequences.
     rbind (reject_if (\<not> distinct sequences) (BacktestMetricError ''duplicate_risk_decisions'')) (\<lambda>_.
     Inr (sequences, int (length (filter ad_approved rows)))))"

section \<open>The metrics\<close>

text \<open>\<^verbatim>\<open>sum\<close> of floats in CPython 3.12: compensated summation.\<close>

fun compensated_sum :: "dec \<Rightarrow> dec \<Rightarrow> dec list \<Rightarrow> dec" where
  "compensated_sum acc c [] = (if c \<noteq> Fin 0 \<and> is_finite_float c then fl_add acc c else acc)"
| "compensated_sum acc c (x # xs) =
     (let t = fl_add acc x in
      compensated_sum t
        (fl_add c (if fl_le (fl_abs x) (fl_abs acc) then fl_add (fl_sub acc t) x
           else fl_add (fl_sub x t) acc)) xs)"

definition float_sum :: "dec list \<Rightarrow> dec" where
  "float_sum xs = (case xs of [] \<Rightarrow> Fin 0 | y # ys \<Rightarrow> compensated_sum y (Fin 0) ys)"

definition require_frame :: "string list \<Rightarrow> string \<Rightarrow> 'row audit_frame \<Rightarrow> exn + 'row list" where
  "require_frame columns name frame =
     rbind (reject_if (fr_columns frame \<noteq> columns) (BacktestMetricError (''invalid_'' @ name @ ''_columns''))) (\<lambda>_.
     Inr (fr_rows frame))"

definition calculate_backtest_metrics ::
  "close_row audit_frame \<Rightarrow> fill_cells audit_frame \<Rightarrow> order_row audit_frame \<Rightarrow> decision_row audit_frame \<Rightarrow> pyval \<Rightarrow>
     exn + backtest_metrics" where
  "calculate_backtest_metrics portfolio fills proposed_orders risk_decisions initial_cash =
     (let err = BacktestMetricError in
     rbind (require_frame PORTFOLIO_COLUMNS ''portfolio'' portfolio) (\<lambda>closes.
     rbind (require_frame FILL_COLUMNS ''fills'' fills) (\<lambda>fill_rows.
     rbind (require_frame PROPOSED_ORDER_COLUMNS ''proposed_orders'' proposed_orders) (\<lambda>order_rows.
     rbind (require_frame RISK_DECISION_COLUMNS ''risk_decisions'' risk_decisions) (\<lambda>decision_rows.
     rbind (bt_require_decimal err False True ''initial_cash'' initial_cash) (\<lambda>initial_cash_decimal.
     rbind (reject_if (initial_cash_decimal \<noteq> INITIAL_SIMULATED_CASH) (err ''invalid_initial_cash'')) (\<lambda>_.
     let initial = float_round initial_cash_decimal in
     rbind (validate_metric_portfolio closes initial) (\<lambda>_.
     rbind (validate_metric_fills fill_rows) (\<lambda>totals.
     rbind (validate_metric_proposed_orders order_rows) (\<lambda>proposed_sequences.
     rbind (validate_metric_risk_decisions decision_rows) (\<lambda>(decision_sequences, approved_order_count).
     rbind (reject_if (sort proposed_sequences \<noteq> sort decision_sequences) (err ''decision_order_sequence_mismatch'')) (\<lambda>_.
     let final_row = last closes; equities = map ac_equity closes; shares_values = map ac_shares closes;
         drawdowns = map (the_float \<circ> ac_drawdown) closes; sessions = length closes in
     rbind (metric_amount ''final_cash'' (ac_cash final_row)) (\<lambda>final_cash.
     rbind (metric_amount ''final_market_value'' (ac_market_value final_row)) (\<lambda>final_market_value.
     let equity_mean = fl_quotient (float_sum equities) (fl (of_nat sessions)) in
     rbind (reject_if (\<not> is_finite_float equity_mean \<or> \<not> fl_positive equity_mean) (err ''invalid_mean_equity'')) (\<lambda>_.
     mk_backtest_metrics
       \<lparr>bm_session_count = int sessions, bm_initial_cash = Fin initial, bm_final_cash = Fin final_cash,
        bm_final_shares = last shares_values, bm_final_market_value = Fin final_market_value,
        bm_final_equity = last equities,
        bm_total_return = fl_sub (fl_quotient (last equities) (Fin initial)) (Fin 1),
        bm_maximum_drawdown = Fin \<bar>Min (set drawdowns)\<bar>,
        bm_total_reference_notional = ft_reference_notional totals,
        bm_total_execution_notional = ft_execution_notional totals, bm_total_commission = ft_commission totals,
        bm_total_slippage_cost = ft_slippage_cost totals, bm_total_transaction_cost = ft_transaction_cost totals,
        bm_turnover_ratio = fl_quotient (ft_reference_notional totals) equity_mean,
        bm_exposure_fraction = fl (of_nat (length (filter (\<lambda>n. 0 < n) shares_values)) / of_nat sessions),
        bm_proposed_order_count = int (length proposed_sequences), bm_approved_order_count = approved_order_count,
        bm_rejected_order_count = int (length proposed_sequences) - approved_order_count,
        bm_fill_count = int (length fill_rows), bm_buy_fill_count = ft_buy_fills totals,
        bm_sell_fill_count = ft_sell_fills totals\<rparr>)))))))))))))))"

end
