(* ===== verification/Audit_Result.thy ===== *)
theory Audit_Result
  imports Audit_Replay Audit_Metrics
begin

text \<open>
  \<^verbatim>\<open>BacktestResult\<close> of \<^verbatim>\<open>backtesting/models.py\<close>, whose constructor audits a finished backtest against its market data, its
  signals and a replay; and the end of \<^verbatim>\<open>_run_validated_signal_backtest\<close>, which hands it the records of the loop. The sum
  of a float column is pandas', and a parameter.
\<close>

definition RISK_SCHEMA_VERSION :: string where "RISK_SCHEMA_VERSION = ''spy-long-only-risk-v1''"
definition BACKTEST_SCHEMA_VERSION :: string where "BACKTEST_SCHEMA_VERSION = ''spy-daily-next-open-backtest-v1''"

section \<open>The retained market data\<close>

text \<open>The frame of a batch holds dates, floats and integers, so that only their order and range are left to check.\<close>

definition validate_source_market_frame :: "bar list \<Rightarrow> exn + bar list" where
  "validate_source_market_frame bars =
     (let err = BacktestInputError; sessions = map mb_session bars in
     rbind (reject_if (bars = []) (err ''empty_source_market_data'')) (\<lambda>_.
     rbind (reject_if (\<not> distinct sessions) (err ''duplicate_source_market_sessions'')) (\<lambda>_.
     rbind (reject_if (list_ex (\<lambda>(previous, current). current \<le> previous) (zip sessions (tl sessions)))
              (err ''unordered_source_market_sessions'')) (\<lambda>_.
     rbind (check_all (\<lambda>price. reject_if (price \<le> 0) (err ''non_positive_source_market_ohlc''))
              (concat (map (\<lambda>column. map column bars) [mb_open, mb_high, mb_low, mb_close]))) (\<lambda>_.
     rbind (check_all (\<lambda>bar. rbind (require_int err 0 ''source_market_volume'' (PyInt (mb_volume bar))) (\<lambda>_. Inr ())) bars) (\<lambda>_.
     Inr bars))))))"

definition metadata_obj :: "market_metadata \<Rightarrow> raw_market_metadata" where
  "metadata_obj m =
     \<lparr>mmo_provider_name = mm_provider_name m, mmo_symbol = mm_symbol m, mmo_timeframe = mm_timeframe m,
      mmo_adjustment_policy = mm_adjustment_policy m, mmo_downloaded_at = PyAware (mm_downloaded_at m),
      mmo_created_at = PyAware (mm_created_at m), mmo_first_session = mm_first_session m,
      mmo_last_session = mm_last_session m, mmo_row_count = mm_row_count m,
      mmo_dataset_checksum = mm_dataset_checksum m, mmo_schema_version = mm_schema_version m,
      mmo_source_description = mm_source_description m\<rparr>"

definition validate_source_market_metadata :: "market_metadata \<Rightarrow> bar list \<Rightarrow> exn + string" where
  "validate_source_market_metadata metadata source_data =
     (let err = BacktestInputError in
     rbind (reject_if (mm_symbol metadata \<noteq> MARKET_SYMBOL) (err ''source_market_data_mismatch'')) (\<lambda>_.
     rbind (reject_if (mm_timeframe metadata \<noteq> MARKET_TIMEFRAME) (err ''source_market_data_mismatch'')) (\<lambda>_.
     rbind (reject_if (mm_adjustment_policy metadata \<noteq> ADJUSTMENT_POLICY) (err ''source_market_data_mismatch'')) (\<lambda>_.
     rbind (reject_if (mm_schema_version metadata \<noteq> SCHEMA_VERSION) (err ''invalid_source_schema_version'')) (\<lambda>_.
     rbind (reject_if (mm_row_count metadata \<le> 0) (err ''invalid_source_market_row_count'')) (\<lambda>_.
     rbind (reject_if (mm_row_count metadata \<noteq> int (length source_data))
              (err ''source_market_metadata_row_count_mismatch'')) (\<lambda>_.
     rbind (reject_if (mm_first_session metadata \<noteq> mb_session (hd source_data))
              (err ''source_market_metadata_first_session_mismatch'')) (\<lambda>_.
     rbind (reject_if (mm_last_session metadata \<noteq> mb_session (last source_data))
              (err ''source_market_metadata_last_session_mismatch'')) (\<lambda>_.
     validate_backtest_checksum err ''source_market_data_checksum'' (PyStr (mm_dataset_checksum metadata)))))))))))"

definition reconstruct_source_market_data :: "(bar list \<Rightarrow> string) \<Rightarrow> market_batch \<Rightarrow> exn + market_batch" where
  "reconstruct_source_market_data digest value =
     (let err = BacktestInputError in
     rbind (validate_source_market_frame (md_bars value)) (\<lambda>source_data.
     rbind (case mk_market_metadata (metadata_obj (md_metadata value)) of
              Inl _ \<Rightarrow> Inl (err ''source_market_data_mismatch'') | Inr m \<Rightarrow> Inr m) (\<lambda>metadata.
     rbind (validate_source_market_metadata metadata source_data) (\<lambda>metadata_checksum.
     rbind (case compute_market_data_checksum digest CANONICAL_COLUMNS (map raw_bar_of source_data) of
              Inl _ \<Rightarrow> Inl (err ''source_market_checksum_generation_failed'') | Inr (_, checksum) \<Rightarrow> Inr checksum) (\<lambda>recomputed.
     rbind (reject_if (recomputed \<noteq> metadata_checksum) (err ''source_market_checksum_recomputation_mismatch'')) (\<lambda>_.
     case mk_market_batch digest CANONICAL_COLUMNS (map raw_bar_of source_data) metadata of
       Inl _ \<Rightarrow> Inl (err ''source_market_data_mismatch'')
     | Inr batch \<Rightarrow> Inr batch))))))"

definition source_price_row :: "bar list \<Rightarrow> signal_row \<Rightarrow> exn + price_row" where
  "source_price_row bars signal =
     rbind (bt_require_plain_date BacktestAccountingError ''execution_session'' (sr_execution_session signal)) (\<lambda>session.
     case filter (\<lambda>bar. mb_session bar = session) bars of
       [bar] \<Rightarrow> Inr (price_row_of bar)
     | _ \<Rightarrow> Inl (BacktestAccountingError ''execution_session_missing_from_source''))"

definition derive_execution_prices_from_source ::
  "((date \<times> rat \<times> rat) list \<Rightarrow> string) \<Rightarrow> market_batch \<Rightarrow> signal_set \<Rightarrow> pyval \<Rightarrow> exn + execution_prices" where
  "derive_execution_prices_from_source price_digest source_market_data signals created_at =
     rbind (map_results (source_price_row (md_bars source_market_data)) (sf_rows (sgs_data signals))) (\<lambda>rows.
     let frame = \<lparr>xf_columns = EXECUTION_PRICE_COLUMNS,
           xf_dtype = (\<lambda>column. if column = ''execution_session'' then ''object'' else ''float64''), xf_rows = rows\<rparr> in
     rbind (calculate_execution_price_checksum price_digest frame) (\<lambda>checksum.
     mk_execution_prices price_digest
       \<lparr>xp_data = frame, xp_source_market_data_checksum = mm_dataset_checksum (md_metadata source_market_data),
        xp_source_schema_version = mm_schema_version (md_metadata source_market_data),
        xp_first_execution_session = sgs_first_execution_session signals,
        xp_last_execution_session = sgs_last_execution_session signals, xp_row_count = sgs_row_count signals,
        xp_created_at = created_at, xp_execution_price_checksum = checksum\<rparr>))"

definition price_rows_match :: "price_row \<times> price_row \<Rightarrow> exn + unit" where
  "price_rows_match = (\<lambda>(stored, expected).
     rbind (reject_if (\<not> isclose 0 0 (xr_reference_open stored) (xr_reference_open expected))
              (BacktestAccountingError ''execution_price_source_open_mismatch'')) (\<lambda>_.
     reject_if (\<not> isclose 0 0 (xr_close_price stored) (xr_close_price expected))
       (BacktestAccountingError ''execution_price_source_close_mismatch'')))"

definition validate_execution_prices_match_source ::
  "((date \<times> rat \<times> rat) list \<Rightarrow> string) \<Rightarrow> execution_prices \<Rightarrow> execution_prices \<Rightarrow> exn + unit" where
  "validate_execution_prices_match_source price_digest stored expected =
     (let err = BacktestAccountingError; rows = xf_rows (xp_data stored); expected_rows = xf_rows (xp_data expected) in
     rbind (calculate_execution_price_checksum price_digest (xp_data stored)) (\<lambda>checksum.
     rbind (reject_if (xp_execution_price_checksum stored \<noteq> checksum) (err ''execution_price_checksum_mismatch'')) (\<lambda>_.
     rbind (reject_if (map xr_execution_session rows \<noteq> map xr_execution_session expected_rows)
              (err ''execution_price_signal_session_mismatch'')) (\<lambda>_.
     rbind (check_all price_rows_match (zip rows expected_rows)) (\<lambda>_.
     reject_if (xp_execution_price_checksum stored \<noteq> xp_execution_price_checksum expected)
       (err ''execution_price_checksum_mismatch''))))))"

section \<open>The frames against each other\<close>

text \<open>The rest of the constructor's checks of the frames, after the replay.\<close>

definition check_fill_identity :: "fill_cells \<Rightarrow> exn + unit" where
  "check_fill_identity row =
     (let err = BacktestAccountingError; q = fl (of_int (af_quantity row)) in
     rbind (bt_require_plain_date err ''fill_signal_session'' (af_signal_session row)) (\<lambda>signal_session.
     rbind (bt_require_plain_date err ''fill_execution_session'' (af_execution_session row)) (\<lambda>execution_session.
     rbind (reject_if (execution_session \<le> signal_session) (err ''same_candle_fill'')) (\<lambda>_.
     rbind (require_int err 1 ''fill_quantity'' (PyInt (af_quantity row))) (\<lambda>quantity.
     rbind (case side_of (af_side row) of None \<Rightarrow> Inl (err ''invalid_fill_side'') | Some s \<Rightarrow> Inr s) (\<lambda>side.
     rbind (check_all (\<lambda>(name, value). rbind (require_finite_float err (''fill_'' @ name) value) (\<lambda>_. Inr ()))
              [(''reference_open'', af_reference_open row), (''execution_price'', af_execution_price row),
               (''reference_notional'', af_reference_notional row), (''execution_notional'', af_execution_notional row),
               (''commission'', af_commission row), (''slippage_cost'', af_slippage_cost row),
               (''total_transaction_cost'', af_total_transaction_cost row), (''cash_change'', af_cash_change row),
               (''cash_before'', af_cash_before row), (''cash_after'', af_cash_after row)]) (\<lambda>_.
     rbind (reject_if (\<not> accounting_close (af_reference_notional row) (fl_mul q (af_reference_open row)))
              (err ''fill_reference_notional_mismatch'')) (\<lambda>_.
     rbind (reject_if (\<not> accounting_close (af_execution_notional row) (fl_mul q (af_execution_price row)))
              (err ''fill_execution_notional_mismatch'')) (\<lambda>_.
     rbind (reject_if (\<not> accounting_close (af_slippage_cost row)
                (fl_mul (fl_abs (fl_sub (af_execution_price row) (af_reference_open row))) q))
              (err ''fill_slippage_cost_mismatch'')) (\<lambda>_.
     rbind (reject_if (\<not> accounting_close (af_total_transaction_cost row) (fl_add (af_commission row) (af_slippage_cost row)))
              (err ''fill_total_cost_mismatch'')) (\<lambda>_.
     let expected_cash_change =
           (if side = BUY_SIDE then fl_neg (fl_add (af_execution_notional row) (af_commission row))
            else fl_sub (af_execution_notional row) (af_commission row));
         expected_shares_after =
           (if side = BUY_SIDE then af_shares_before row + quantity else af_shares_before row - quantity) in
     rbind (reject_if (af_shares_after row \<noteq> expected_shares_after) (err ''fill_share_transition_mismatch'')) (\<lambda>_.
     rbind (reject_if (\<not> accounting_close (af_cash_change row) expected_cash_change) (err ''fill_cash_change_mismatch'')) (\<lambda>_.
     reject_if (\<not> accounting_close (af_cash_after row) (fl_add (af_cash_before row) (af_cash_change row)))
       (err ''fill_cash_after_mismatch''))))))))))))))"

definition check_frames_agree :: "audit_evidence \<Rightarrow> exn + unit" where
  "check_frames_agree ev =
     (let err = BacktestAccountingError; signals = sf_rows (sgs_data (ev_signals ev));
          orders = fr_rows (ev_proposed_orders ev); decisions = fr_rows (ev_risk_decisions ev);
          fills = fr_rows (ev_fills ev); closes = fr_rows (ev_portfolio ev);
          proposed_sequences = map ao_sequence_number orders;
          decision_sequences = map ad_order_sequence_number decisions;
          fill_sequences = map af_order_sequence_number fills;
          approved_sequences = map ad_order_sequence_number (filter ad_approved decisions) in
     rbind (reject_if (int (length closes) \<noteq> sgs_row_count (ev_signals ev)) (err ''portfolio_signal_row_count_mismatch'')) (\<lambda>_.
     rbind (reject_if (map ac_session closes \<noteq> map sr_execution_session signals)
              (err ''portfolio_execution_session_mismatch'')) (\<lambda>_.
     rbind (reject_if (map ac_session closes \<noteq> map xr_execution_session (xf_rows (xp_data (ev_execution_prices ev))))
              (err ''portfolio_execution_price_session_mismatch'')) (\<lambda>_.
     rbind (reject_if (map ac_signal_session closes \<noteq> map sr_signal_session signals)
              (err ''portfolio_signal_session_mismatch'')) (\<lambda>_.
     rbind (reject_if (\<not> distinct proposed_sequences) (err ''duplicate_proposed_orders'')) (\<lambda>_.
     rbind (reject_if (sort proposed_sequences \<noteq> sort decision_sequences) (err ''risk_decision_order_mismatch'')) (\<lambda>_.
     rbind (reject_if (\<not> distinct decision_sequences) (err ''duplicate_risk_decisions'')) (\<lambda>_.
     rbind (reject_if (sort fill_sequences \<noteq> sort approved_sequences) (err ''fill_risk_decision_mismatch'')) (\<lambda>_.
     rbind (reject_if (\<not> distinct fill_sequences) (err ''duplicate_fills'')) (\<lambda>_.
     rbind (reject_if (list_ex (\<lambda>row. \<not> af_risk_approved row) fills) (err ''fill_without_approved_risk_decision'')) (\<lambda>_.
     rbind (check_all check_fill_identity fills) (\<lambda>_.
     reject_if (list_ex (\<lambda>row. ad_reason_codes row \<noteq> [APPROVED_REASON]) (filter ad_approved decisions))
       (err ''approved_reason_code_mismatch'')))))))))))))"

definition check_metrics :: "(dec list \<Rightarrow> dec) \<Rightarrow> audit_evidence \<Rightarrow> pyval \<Rightarrow> backtest_metrics \<Rightarrow> exn + backtest_metrics" where
  "check_metrics column_sum ev initial_cash stored =
     (let err = BacktestMetricError; fills = fr_rows (ev_fills ev);
          total = (\<lambda>column. if fills = [] then Fin 0 else column_sum (map column fills)) in
     rbind (mk_backtest_metrics stored) (\<lambda>metrics.
     rbind (reject_if (bm_session_count metrics \<noteq> int (length (fr_rows (ev_portfolio ev))))
              (err ''metric_session_count_mismatch'')) (\<lambda>_.
     rbind (reject_if (bm_proposed_order_count metrics \<noteq> int (length (fr_rows (ev_proposed_orders ev))))
              (err ''metric_proposed_order_count_mismatch'')) (\<lambda>_.
     rbind (reject_if (bm_approved_order_count metrics \<noteq> int (length (filter ad_approved (fr_rows (ev_risk_decisions ev)))))
              (err ''metric_approved_order_count_mismatch'')) (\<lambda>_.
     rbind (reject_if (bm_fill_count metrics \<noteq> int (length fills)) (err ''metric_fill_count_mismatch'')) (\<lambda>_.
     rbind (check_all (\<lambda>(name, value, expected). reject_if (\<not> portfolio_close value expected)
                (err (''metric_'' @ name @ ''_mismatch'')))
              [(''total_reference_notional'', bm_total_reference_notional metrics, total af_reference_notional),
               (''total_execution_notional'', bm_total_execution_notional metrics, total af_execution_notional),
               (''total_commission'', bm_total_commission metrics, total af_commission),
               (''total_slippage_cost'', bm_total_slippage_cost metrics, total af_slippage_cost),
               (''total_transaction_cost'', bm_total_transaction_cost metrics, total af_total_transaction_cost)]) (\<lambda>_.
     rbind (calculate_backtest_metrics (ev_portfolio ev) (ev_fills ev) (ev_proposed_orders ev) (ev_risk_decisions ev)
              initial_cash) (\<lambda>recomputed.
     rbind (reject_if (metrics \<noteq> recomputed) (err ''backtest_metrics_recomputation_mismatch'')) (\<lambda>_.
     Inr metrics)))))))))"

end
