(* ===== verification/Audit_Outcome.thy ===== *)
theory Audit_Outcome
  imports Audit_Result
begin

text \<open>
  The constructor of \<^verbatim>\<open>BacktestResult\<close>, and the entry points of the simulation up to the result they return.
\<close>

section \<open>\<^verbatim>\<open>BacktestResult\<close>\<close>

record backtest_result =
  br_strategy_signal_set :: signal_set
  br_source_market_data :: market_batch
  br_execution_prices :: execution_prices
  br_proposed_orders :: "order_row audit_frame"
  br_risk_decisions :: "decision_row audit_frame"
  br_fills :: "fill_cells audit_frame"
  br_portfolio :: "close_row audit_frame"
  br_metrics :: backtest_metrics
  br_backtest_config :: raw_backtest_config
  br_risk_config :: risk_config
  br_selected_model_name :: string
  br_source_market_data_checksum :: string
  br_source_schema_version :: string
  br_feature_schema_version :: string
  br_label_schema_version :: string
  br_model_schema_version :: string
  br_strategy_schema_version :: string
  br_risk_schema_version :: string
  br_backtest_schema_version :: string
  br_feature_columns :: "string list"
  br_split_spec :: split_spec
  br_strategy_threshold :: dec
  br_first_signal_session :: date
  br_last_signal_session :: date
  br_first_execution_session :: date
  br_last_execution_session :: date
  br_initial_cash :: pyval
  br_cost_assumptions :: raw_costs
  br_sklearn_version :: string
  br_created_at :: pyval

definition evidence_of :: "backtest_result \<Rightarrow> signal_set \<Rightarrow> execution_prices \<Rightarrow> audit_evidence" where
  "evidence_of r signals prices =
     \<lparr>ev_signals = signals, ev_execution_prices = prices, ev_proposed_orders = br_proposed_orders r,
      ev_risk_decisions = br_risk_decisions r, ev_fills = br_fills r, ev_portfolio = br_portfolio r\<rparr>"

text \<open>A \<^verbatim>\<open>StrategyError\<close> is no \<^verbatim>\<open>BacktestError\<close> and leaves the constructor as it is.\<close>

definition strategy_raises :: "data_exn \<Rightarrow> exn" where
  "strategy_raises e =
     OtherException (case e of StrategyInputError code \<Rightarrow> ''StrategyError '' @ code | _ \<Rightarrow> ''IndexError'')"

definition check_lineage :: "backtest_result \<Rightarrow> exn + unit" where
  "check_lineage r =
     check_all (\<lambda>(name, value, expected). reject_if (value \<noteq> expected) (BacktestInputError (''invalid_'' @ name)))
       [(''source_schema_version'', br_source_schema_version r, SCHEMA_VERSION),
        (''feature_schema_version'', br_feature_schema_version r, FEATURE_SCHEMA_VERSION),
        (''label_schema_version'', br_label_schema_version r, LABEL_SCHEMA_VERSION),
        (''model_schema_version'', br_model_schema_version r, MODEL_SCHEMA_VERSION),
        (''strategy_schema_version'', br_strategy_schema_version r, STRATEGY_SCHEMA_VERSION),
        (''risk_schema_version'', br_risk_schema_version r, RISK_SCHEMA_VERSION),
        (''backtest_schema_version'', br_backtest_schema_version r, BACKTEST_SCHEMA_VERSION)]"

definition check_sources ::
  "backtest_environment \<Rightarrow> backtest_result \<Rightarrow> signal_set \<Rightarrow> market_batch \<Rightarrow> execution_prices \<Rightarrow> string \<Rightarrow> exn + unit" where
  "check_sources env r signals source execution_prices source_checksum =
     (let err = BacktestInputError; metadata = md_metadata source in
     rbind (reject_if (source_checksum \<noteq> sgs_source_market_data_checksum signals)
              (err ''strategy_source_checksum_mismatch'')) (\<lambda>_.
     rbind (reject_if (mm_schema_version metadata \<noteq> br_source_schema_version r) (err ''source_market_data_mismatch'')) (\<lambda>_.
     rbind (derive_execution_prices_from_source (be_price_digest env) source signals (sgs_created_at signals)) (\<lambda>expected.
     rbind (validate_execution_prices_match_source (be_price_digest env) execution_prices expected) (\<lambda>_.
     rbind (reject_if (mm_dataset_checksum metadata \<noteq> source_checksum) (err ''source_market_checksum_mismatch'')) (\<lambda>_.
     rbind (reject_if (mm_dataset_checksum metadata \<noteq> sgs_source_market_data_checksum signals)
              (err ''source_market_checksum_mismatch'')) (\<lambda>_.
     rbind (reject_if (mm_dataset_checksum metadata \<noteq> xp_source_market_data_checksum execution_prices)
              (err ''source_market_checksum_mismatch'')) (\<lambda>_.
     rbind (reject_if (xp_source_market_data_checksum execution_prices \<noteq> source_checksum)
              (err ''execution_price_source_checksum_mismatch'')) (\<lambda>_.
     rbind (reject_if (sgs_source_schema_version signals \<noteq> br_source_schema_version r)
              (err ''strategy_source_schema_mismatch'')) (\<lambda>_.
     rbind (reject_if (xp_source_schema_version execution_prices \<noteq> br_source_schema_version r)
              (err ''execution_price_source_schema_mismatch'')) (\<lambda>_.
     check_all (\<lambda>(name, value, expected). reject_if (value \<noteq> expected) (err (''strategy_'' @ name @ ''_mismatch'')))
       [(''feature_schema_version'', sgs_feature_schema_version signals, br_feature_schema_version r),
        (''label_schema_version'', sgs_label_schema_version signals, br_label_schema_version r),
        (''model_schema_version'', sgs_model_schema_version signals, br_model_schema_version r),
        (''strategy_schema_version'', sgs_strategy_schema_version signals, br_strategy_schema_version r)])))))))))))"

definition check_terms ::
  "backtest_environment \<Rightarrow> backtest_result \<Rightarrow> signal_set \<Rightarrow> execution_prices \<Rightarrow> backtest_config \<Rightarrow>
     exn + rat \<times> cost_assumptions \<times> instant" where
  "check_terms env r signals prices config =
     (let inp = BacktestInputError in
     rbind (reject_if (br_feature_columns r \<noteq> FEATURE_COLUMNS) (inp ''invalid_feature_columns'')) (\<lambda>_.
     rbind (reject_if (sgs_feature_columns signals \<noteq> br_feature_columns r) (inp ''strategy_feature_columns_mismatch'')) (\<lambda>_.
     rbind (reject_if (br_split_spec r \<noteq> sgs_split_spec signals) (inp ''strategy_split_spec_mismatch'')) (\<lambda>_.
     rbind (require_finite_float inp ''strategy_threshold'' (br_strategy_threshold r)) (\<lambda>threshold.
     rbind (reject_if (threshold \<noteq> STRATEGY_LONG_PROBABILITY_THRESHOLD \<or>
                Fin threshold \<noteq> sgs_strategy_threshold signals) (inp ''strategy_threshold_mismatch'')) (\<lambda>_.
     rbind (reject_if (br_first_signal_session r \<noteq> sgs_first_signal_session signals \<or>
                br_last_signal_session r \<noteq> sgs_last_signal_session signals \<or>
                br_first_execution_session r \<noteq> sgs_first_execution_session signals \<or>
                br_last_execution_session r \<noteq> sgs_last_execution_session signals)
              (inp ''strategy_session_bounds_mismatch'')) (\<lambda>_.
     rbind (bt_require_decimal inp False True ''initial_cash'' (br_initial_cash r)) (\<lambda>initial_cash.
     rbind (reject_if (initial_cash \<noteq> INITIAL_SIMULATED_CASH \<or> initial_cash \<noteq> bc_initial_cash config)
              (inp ''initial_cash_mismatch'')) (\<lambda>_.
     rbind (mk_cost_assumptions (br_cost_assumptions r)) (\<lambda>costs.
     rbind (reject_if (costs \<noteq> bc_cost_assumptions config) (inp ''cost_assumptions_mismatch'')) (\<lambda>_.
     rbind (reject_if (br_sklearn_version r \<noteq> sgs_sklearn_version signals \<or>
                br_sklearn_version r \<noteq> be_sklearn_version env) (inp ''sklearn_version_mismatch'')) (\<lambda>_.
     rbind (require_aware_utc inp ''created_at'' (br_created_at r)) (\<lambda>created_at.
     rbind (reject_if (PyAware created_at \<noteq> sgs_created_at signals) (inp ''created_at_strategy_mismatch'')) (\<lambda>_.
     rbind (reject_if (PyAware created_at \<noteq> xp_created_at prices) (inp ''created_at_execution_prices_mismatch'')) (\<lambda>_.
     Inr (initial_cash, costs, created_at))))))))))))))))"

definition mk_backtest_result ::
  "backtest_environment \<Rightarrow> (dec list \<Rightarrow> dec) \<Rightarrow> backtest_result \<Rightarrow> exn + backtest_result" where
  "mk_backtest_result env column_sum r =
     (let inp = BacktestInputError; acc = BacktestAccountingError in
     rbind (case mk_signal_set (be_sklearn_version env) (br_strategy_signal_set r) of
              Inl e \<Rightarrow> Inl (strategy_raises e) | Inr s \<Rightarrow> Inr s) (\<lambda>signals.
     rbind (reconstruct_source_market_data (be_market_digest env) (br_source_market_data r)) (\<lambda>source.
     rbind (mk_execution_prices (be_price_digest env) (br_execution_prices r)) (\<lambda>prices.
     rbind (reject_if (map xr_execution_session (xf_rows (xp_data prices)) \<noteq>
                map sr_execution_session (sf_rows (sgs_data signals))) (acc ''execution_price_signal_session_mismatch'')) (\<lambda>_.
     rbind (reject_if (xp_first_execution_session prices \<noteq> sgs_first_execution_session signals \<or>
                xp_last_execution_session prices \<noteq> sgs_last_execution_session signals)
              (acc ''execution_price_bounds_mismatch'')) (\<lambda>_.
     rbind (mk_backtest_config (br_backtest_config r)) (\<lambda>config.
     rbind (mk_risk_config (br_risk_config r)) (\<lambda>risk.
     rbind (reject_if (br_selected_model_name r \<notin> set MODEL_NAMES) (inp ''invalid_selected_model_name'')) (\<lambda>_.
     rbind (reject_if (br_selected_model_name r \<noteq> sgs_selected_model_name signals) (inp ''selected_model_mismatch'')) (\<lambda>_.
     rbind (validate_backtest_checksum inp ''source_market_data_checksum''
              (PyStr (br_source_market_data_checksum r))) (\<lambda>source_checksum.
     rbind (check_lineage r) (\<lambda>_.
     rbind (check_sources env r signals source prices source_checksum) (\<lambda>_.
     rbind (check_terms env r signals prices config) (\<lambda>(initial_cash, costs, created_at).
     rbind (validate_audit_frame PROPOSED_ORDER_COLUMNS ''proposed_orders'' (br_proposed_orders r)) (\<lambda>_.
     rbind (validate_audit_frame RISK_DECISION_COLUMNS ''risk_decisions'' (br_risk_decisions r)) (\<lambda>_.
     rbind (validate_audit_frame FILL_COLUMNS ''fills'' (br_fills r)) (\<lambda>_.
     rbind (validate_audit_frame PORTFOLIO_COLUMNS ''portfolio'' (br_portfolio r)) (\<lambda>_.
     rbind (decimal_to_float initial_cash) (\<lambda>initial_float.
     rbind (validate_portfolio_frame (br_portfolio r) initial_float) (\<lambda>_.
     let ev = evidence_of r signals prices in
     rbind (validate_backtest_audit_replay ev config risk) (\<lambda>_.
     rbind (check_frames_agree ev) (\<lambda>_.
     rbind (check_metrics column_sum ev (PyDecimal (Fin initial_cash)) (br_metrics r)) (\<lambda>metrics.
     Inr (r\<lparr>br_strategy_signal_set := signals, br_source_market_data := source, br_execution_prices := prices,
            br_metrics := metrics, br_risk_config := risk, br_initial_cash := PyDecimal (Fin initial_cash),
            br_backtest_config := \<lparr>bco_cost_assumptions = costs_obj (bc_cost_assumptions config),
              bco_initial_cash = PyDecimal (Fin (bc_initial_cash config))\<rparr>,
            br_cost_assumptions := costs_obj costs, br_created_at := PyAware created_at\<rparr>))))))))))))))))))))))))"

section \<open>The result of a run\<close>

text \<open>The records of the loop as frames, with their columns cast to \<^verbatim>\<open>float64\<close>, \<^verbatim>\<open>int64\<close> and \<^verbatim>\<open>bool\<close>.\<close>

definition order_cells :: "proposed_order \<Rightarrow> order_row" where
  "order_cells p =
     \<lparr>ao_sequence_number = po_sequence_number p, ao_symbol = PyStr (po_symbol p),
      ao_side = PyStr (side_text (po_side p)), ao_quantity = po_quantity p,
      ao_signal_session = PyDate (po_signal_session p), ao_execution_session = PyDate (po_execution_session p),
      ao_target_position = po_target_position p, ao_reference_open = Fin (po_reference_open p),
      ao_estimated_execution_price = Fin (po_estimated_execution_price p),
      ao_estimated_commission = Fin (po_estimated_commission p),
      ao_estimated_cash_change = Fin (po_estimated_cash_change p), ao_current_cash = Fin (po_current_cash p),
      ao_current_shares = po_current_shares p\<rparr>"

definition decision_cells :: "risk_decision \<Rightarrow> decision_row" where
  "decision_cells d =
     \<lparr>ad_order_sequence_number = rd_order_sequence_number d, ad_approved = rd_approved d,
      ad_reason_codes = rd_reason_codes d, ad_evaluated_session = PyDate (rd_evaluated_session d),
      ad_projected_cash = Fin (rd_projected_cash d), ad_projected_shares = rd_projected_shares d,
      ad_projected_market_value = Fin (rd_projected_market_value d),
      ad_projected_equity = Fin (rd_projected_equity d)\<rparr>"

definition cells_of_fill :: "fill_record \<Rightarrow> fill_cells" where
  "cells_of_fill f =
     \<lparr>af_order_sequence_number = fi_order_sequence_number f, af_symbol = PyStr (fi_symbol f),
      af_side = PyStr (side_text (fi_side f)), af_quantity = fi_quantity f,
      af_signal_session = PyDate (fi_signal_session f), af_execution_session = PyDate (fi_execution_session f),
      af_reference_open = Fin (fi_reference_open f), af_execution_price = Fin (fi_execution_price f),
      af_reference_notional = Fin (fi_reference_notional f), af_execution_notional = Fin (fi_execution_notional f),
      af_commission = Fin (fi_commission f), af_slippage_cost = Fin (fi_slippage_cost f),
      af_total_transaction_cost = Fin (fi_total_transaction_cost f), af_cash_change = Fin (fi_cash_change f),
      af_shares_before = fi_shares_before f, af_shares_after = fi_shares_after f,
      af_cash_before = Fin (fi_cash_before f), af_cash_after = Fin (fi_cash_after f),
      af_risk_approved = fi_risk_approved f\<rparr>"

definition close_cells :: "portfolio_row \<Rightarrow> close_row" where
  "close_cells p =
     \<lparr>ac_session = PyDate (pr_session p), ac_signal_session = PyDate (pr_signal_session p),
      ac_target_position = pr_target_position p, ac_cash = Fin (pr_cash p), ac_shares = pr_shares p,
      ac_close_price = Fin (pr_close_price p), ac_market_value = Fin (pr_market_value p),
      ac_equity = Fin (pr_equity p), ac_daily_return = Fin (pr_daily_return p), ac_drawdown = Fin (pr_drawdown p)\<rparr>"

definition frame_of :: "string list \<Rightarrow> string list \<Rightarrow> string list \<Rightarrow> string list \<Rightarrow> 'row list \<Rightarrow> 'row audit_frame" where
  "frame_of columns floats ints bools rows =
     \<lparr>fr_columns = columns,
      fr_dtype = (\<lambda>c. if c \<in> set floats then ''float64'' else if c \<in> set ints then ''int64''
         else if c \<in> set bools then ''bool'' else ''object''),
      fr_rows = rows\<rparr>"

definition orders_frame :: "proposed_order list \<Rightarrow> order_row audit_frame" where
  "orders_frame records =
     frame_of PROPOSED_ORDER_COLUMNS
       [''reference_open'', ''estimated_execution_price'', ''estimated_commission'', ''estimated_cash_change'', ''current_cash'']
       [''sequence_number'', ''quantity'', ''target_position'', ''current_shares''] [] (map order_cells records)"

definition decisions_frame :: "risk_decision list \<Rightarrow> decision_row audit_frame" where
  "decisions_frame records =
     frame_of RISK_DECISION_COLUMNS [''projected_cash'', ''projected_market_value'', ''projected_equity'']
       [''order_sequence_number'', ''projected_shares''] [''approved''] (map decision_cells records)"

definition fills_frame :: "fill_record list \<Rightarrow> fill_cells audit_frame" where
  "fills_frame records =
     frame_of FILL_COLUMNS
       [''reference_open'', ''execution_price'', ''reference_notional'', ''execution_notional'', ''commission'',
        ''slippage_cost'', ''total_transaction_cost'', ''cash_change'', ''cash_before'', ''cash_after'']
       [''order_sequence_number'', ''quantity'', ''shares_before'', ''shares_after''] [''risk_approved'']
       (map cells_of_fill records)"

definition portfolio_frame :: "portfolio_row list \<Rightarrow> close_row audit_frame" where
  "portfolio_frame records =
     frame_of PORTFOLIO_COLUMNS [''cash'', ''close_price'', ''market_value'', ''equity'', ''daily_return'', ''drawdown'']
       [''target_position'', ''shares''] [] (map close_cells records)"

definition result_of_run ::
  "backtest_environment \<Rightarrow> (dec list \<Rightarrow> dec) \<Rightarrow> signal_set \<Rightarrow> market_batch \<Rightarrow> backtest_config \<Rightarrow> risk_config \<Rightarrow>
     execution_prices \<Rightarrow> instant \<Rightarrow> run_state \<Rightarrow> exn + backtest_result" where
  "result_of_run env column_sum signal_set batch config risk execution_prices created_at st =
     (let proposed_orders = orders_frame (rs_proposed_records st); risk_decisions = decisions_frame (rs_decision_records st);
          fills = fills_frame (rs_fill_records st); portfolio = portfolio_frame (rs_portfolio_records st) in
     rbind (calculate_backtest_metrics portfolio fills proposed_orders risk_decisions
              (PyDecimal (Fin (bc_initial_cash config)))) (\<lambda>metrics.
     mk_backtest_result env column_sum
       \<lparr>br_strategy_signal_set = signal_set, br_source_market_data = batch, br_execution_prices = execution_prices,
        br_proposed_orders = proposed_orders, br_risk_decisions = risk_decisions, br_fills = fills,
        br_portfolio = portfolio, br_metrics = metrics,
        br_backtest_config = \<lparr>bco_cost_assumptions = costs_obj (bc_cost_assumptions config),
          bco_initial_cash = PyDecimal (Fin (bc_initial_cash config))\<rparr>,
        br_risk_config = risk, br_selected_model_name = sgs_selected_model_name signal_set,
        br_source_market_data_checksum = sgs_source_market_data_checksum signal_set,
        br_source_schema_version = sgs_source_schema_version signal_set,
        br_feature_schema_version = sgs_feature_schema_version signal_set,
        br_label_schema_version = sgs_label_schema_version signal_set,
        br_model_schema_version = sgs_model_schema_version signal_set,
        br_strategy_schema_version = STRATEGY_SCHEMA_VERSION, br_risk_schema_version = RISK_SCHEMA_VERSION,
        br_backtest_schema_version = BACKTEST_SCHEMA_VERSION, br_feature_columns = sgs_feature_columns signal_set,
        br_split_spec = sgs_split_spec signal_set, br_strategy_threshold = sgs_strategy_threshold signal_set,
        br_first_signal_session = sgs_first_signal_session signal_set,
        br_last_signal_session = sgs_last_signal_session signal_set,
        br_first_execution_session = sgs_first_execution_session signal_set,
        br_last_execution_session = sgs_last_execution_session signal_set,
        br_initial_cash = PyDecimal (Fin (bc_initial_cash config)),
        br_cost_assumptions = costs_obj (bc_cost_assumptions config), br_sklearn_version = be_sklearn_version env,
        br_created_at = PyAware created_at\<rparr>))"

text \<open>\<^verbatim>\<open>run_long_or_cash_backtest\<close> up to its result: the records of the run, with what it has validated before.\<close>

definition long_or_cash_backtest_result ::
  "backtest_environment \<Rightarrow> (dec list \<Rightarrow> dec) \<Rightarrow> final_evaluation \<Rightarrow> market_batch \<Rightarrow> raw_backtest_config \<Rightarrow> risk_config \<Rightarrow>
     pyval \<Rightarrow> exn + backtest_result" where
  "long_or_cash_backtest_result env column_sum evaluation market_data backtest_config risk_config created_at =
     rbind (run_long_or_cash_backtest env evaluation market_data backtest_config risk_config created_at) (\<lambda>(signals, prices, st).
     rbind (require_aware_utc BacktestInputError ''created_at'' created_at) (\<lambda>created_at_utc.
     rbind (mk_backtest_config backtest_config) (\<lambda>config.
     rbind (mk_risk_config risk_config) (\<lambda>risk.
     rbind (revalidate_backtest_market_data (be_market_digest env) market_data) (\<lambda>batch.
     result_of_run env column_sum signals batch config risk prices created_at_utc st)))))"

end
