(* ===== verification/Audit_Properties.thy ===== *)
theory Audit_Properties
  imports Audit_Outcome Backtest_Trades
begin

text \<open>What an accepted \<^verbatim>\<open>BacktestResult\<close> tells: every change of the position is a fill of an approved order of the signal
  of that session.\<close>

section \<open>The books\<close>

lemma collect_rows_Inr:
  assumes "collect_rows read key code check rows seen = Inr xs" "distinct (map key seen)"
  shows "\<exists>new. xs = seen @ new \<and> list_all2 (\<lambda>row x. read row = Inr x \<and> check x = Inr ()) rows new \<and> distinct (map key xs)"
  using assms
proof (induction rows arbitrary: seen)
  case Nil
  then show ?case by simp
next
  case (Cons row rows)
  obtain x where x: "read row = Inr x" "key x \<notin> set (map key seen)" "check x = Inr ()"
    and rest: "collect_rows read key code check rows (seen @ [x]) = Inr xs"
    using Cons(2) by (auto simp: rbind_eq_Inr_iff)
  have "distinct (map key (seen @ [x]))" using x(2) Cons(3) by simp
  from Cons(1) [OF rest this] obtain new where "xs = seen @ x # new" "distinct (map key xs)"
    "list_all2 (\<lambda>row x. read row = Inr x \<and> check x = Inr ()) rows new" by auto
  then show ?case using x(1,3) by (intro exI [of _ "x # new"]) simp
qed

lemma reconstructed_order:
  assumes "reconstruct_proposed_order row = Inr p"
  shows "po_sequence_number p = ao_sequence_number row" "ao_side row = PyStr (side_text (po_side p))"
    "po_quantity p = ao_quantity row" "ao_signal_session row = PyDate (po_signal_session p)"
    "ao_execution_session row = PyDate (po_execution_session p)" "po_target_position p = ao_target_position row"
proof -
  obtain obj where "mk_proposed_order obj = Inr p" "poo_sequence_number obj = PyInt (ao_sequence_number row)"
    "poo_side obj = ao_side row" "poo_quantity obj = PyInt (ao_quantity row)"
    "poo_signal_session obj = ao_signal_session row" "poo_execution_session obj = ao_execution_session row"
    "poo_target_position obj = PyInt (ao_target_position row)"
    using assms unfolding reconstruct_proposed_order_def as_row_error_Inr by (elim rbind_InrE) auto
  then show "po_sequence_number p = ao_sequence_number row" "ao_side row = PyStr (side_text (po_side p))"
    "po_quantity p = ao_quantity row" "ao_signal_session row = PyDate (po_signal_session p)"
    "ao_execution_session row = PyDate (po_execution_session p)" "po_target_position p = ao_target_position row"
    by (auto simp: mk_proposed_order_def rbind_eq_Inr_iff)
qed

lemma reconstructed_decision:
  assumes "reconstruct_risk_decision row = Inr d"
  shows "rd_order_sequence_number d = ad_order_sequence_number row" "rd_approved d = ad_approved row"
    "rd_reason_codes d = ad_reason_codes row" "wf_decision d"
  using assms unfolding reconstruct_risk_decision_def as_row_error_Inr Let_def
  by (elim rbind_InrE; simp add: mk_risk_decision_iff)+

lemma mk_fillD:
  assumes "mk_fill obj = Inr f"
  shows "fio_order_sequence_number obj = PyInt (fi_order_sequence_number f)" "fio_side obj = PyStr (side_text (fi_side f))"
    "fio_quantity obj = PyInt (fi_quantity f)" "fio_signal_session obj = PyDate (fi_signal_session f)"
    "fio_execution_session obj = PyDate (fi_execution_session f)" "fio_shares_before obj = PyInt (fi_shares_before f)"
    "fio_shares_after obj = PyInt (fi_shares_after f)" "fio_risk_approved obj = PyBool True"
proof -
  have "read_fill obj = Inr f"
    using assms unfolding mk_fill_def by (elim rbind_InrE) (metis check_fill_Inr)
  then show "fio_order_sequence_number obj = PyInt (fi_order_sequence_number f)" "fio_side obj = PyStr (side_text (fi_side f))"
    "fio_quantity obj = PyInt (fi_quantity f)" "fio_signal_session obj = PyDate (fi_signal_session f)"
    "fio_execution_session obj = PyDate (fi_execution_session f)" "fio_shares_before obj = PyInt (fi_shares_before f)"
    "fio_shares_after obj = PyInt (fi_shares_after f)" "fio_risk_approved obj = PyBool True"
    unfolding read_fill_def by (elim rbind_InrE; auto split: option.splits)+
qed

lemma reconstructed_fill:
  assumes "reconstruct_fill row = Inr f"
  shows "fi_order_sequence_number f = af_order_sequence_number row" "af_side row = PyStr (side_text (fi_side f))"
    "fi_quantity f = af_quantity row" "af_signal_session row = PyDate (fi_signal_session f)"
    "af_execution_session row = PyDate (fi_execution_session f)" "fi_shares_before f = af_shares_before row"
    "fi_shares_after f = af_shares_after row" "af_risk_approved row" "wf_fill f"
proof -
  obtain obj where obj: "mk_fill obj = Inr f" "fio_order_sequence_number obj = PyInt (af_order_sequence_number row)"
    "fio_side obj = af_side row" "fio_quantity obj = PyInt (af_quantity row)" "fio_signal_session obj = af_signal_session row"
    "fio_execution_session obj = af_execution_session row" "fio_shares_before obj = PyInt (af_shares_before row)"
    "fio_shares_after obj = PyInt (af_shares_after row)" "fio_risk_approved obj = PyBool (af_risk_approved row)"
    using assms unfolding reconstruct_fill_def as_row_error_Inr Let_def by (elim rbind_InrE) auto
  show "wf_fill f" using obj(1) by (rule mk_fill_wf)
  show "fi_order_sequence_number f = af_order_sequence_number row" "af_side row = PyStr (side_text (fi_side f))"
    "fi_quantity f = af_quantity row" "af_signal_session row = PyDate (fi_signal_session f)"
    "af_execution_session row = PyDate (fi_execution_session f)" "fi_shares_before f = af_shares_before row"
    "fi_shares_after f = af_shares_after row" "af_risk_approved row"
    using mk_fillD [OF obj(1)] obj(2-) by auto
qed

section \<open>One session of the replay\<close>

text \<open>An order of the signal, decided and filled: a buy of everything from a flat position or the sale of everything.\<close>

definition books_trade ::
  "audit_books \<Rightarrow> signal_row \<Rightarrow> int \<Rightarrow> int \<Rightarrow> proposed_order \<Rightarrow> risk_decision \<Rightarrow> fill_record \<Rightarrow> bool" where
  "books_trade books signal before after p d f \<longleftrightarrow>
     p \<in> set (bk_orders books) \<and> d \<in> set (bk_decisions books) \<and> f \<in> set (bk_fills books) \<and>
     rd_order_sequence_number d = po_sequence_number p \<and> fi_order_sequence_number f = po_sequence_number p \<and>
     rd_approved d \<and> fi_side f = po_side p \<and> fi_quantity f = po_quantity p \<and>
     PyDate (fi_signal_session f) = sr_signal_session signal \<and>
     PyDate (fi_execution_session f) = sr_execution_session signal \<and>
     fi_shares_before f = before \<and> fi_shares_after f = after \<and>
     (if sr_target_position signal = 1 then fi_side f = BUY_SIDE \<and> before = 0 \<and> after = fi_quantity f
      else fi_side f = SELL_SIDE \<and> before = fi_quantity f \<and> after = 0)"

lemma replayed_fields:
  assumes "canonical_order_for_replay p cash shares r costs = Inr p'"
  shows "po_side p' = po_side p" "po_quantity p' = po_quantity p" "po_signal_session p' = po_signal_session p"
    "po_execution_session p' = po_execution_session p" "po_target_position p' = po_target_position p"
    "po_symbol p' = po_symbol p" "wf_order p'"
proof -
  obtain q obj where q: "mk_proposed_order obj = Inr p'" "obj = order_obj q" "po_side q = po_side p" "po_quantity q = po_quantity p"
    "po_signal_session q = po_signal_session p" "po_execution_session q = po_execution_session p"
    "po_target_position q = po_target_position p" "po_symbol q = po_symbol p"
    using assms unfolding canonical_order_for_replay_def by (elim rbind_InrE) auto
  show "wf_order p'" using q(1) by (rule mk_proposed_order_wf)
  have "poo_side obj = PyStr (side_text (po_side p'))" "poo_quantity obj = PyInt (po_quantity p')"
    "poo_signal_session obj = PyDate (po_signal_session p')"
    "poo_execution_session obj = PyDate (po_execution_session p')"
    "poo_target_position obj = PyInt (po_target_position p')" "poo_symbol obj = PyStr (po_symbol p')"
    using q(1) by (auto simp: mk_proposed_order_def rbind_eq_Inr_iff)
  then show "po_side p' = po_side p" "po_quantity p' = po_quantity p" "po_signal_session p' = po_signal_session p"
    "po_execution_session p' = po_execution_session p" "po_target_position p' = po_target_position p"
    "po_symbol p' = po_symbol p"
    using q by (simp_all add: order_obj_def)
qed

lemma order_replayed:
  assumes "replay_order books config risk e target r p st = Inr st'"
  obtains d where "find (\<lambda>d. rd_order_sequence_number d = po_sequence_number p) (bk_decisions books) = Some d"
    "\<not> rd_approved d" "find (\<lambda>f. fi_order_sequence_number f = po_sequence_number p) (bk_fills books) = None" "st' = st"
  | d f where "find (\<lambda>d. rd_order_sequence_number d = po_sequence_number p) (bk_decisions books) = Some d"
    "rd_approved d" "find (\<lambda>f. fi_order_sequence_number f = po_sequence_number p) (bk_fills books) = Some f"
    "st' = st\<lparr>ry_cash := fi_cash_after f, ry_shares := fi_shares_after f,
       ry_consumed_fills := ry_consumed_fills st @ [fi_order_sequence_number f]\<rparr>"
    "fi_side f = po_side p" "fi_quantity f = po_quantity p" "fi_signal_session f = po_signal_session p"
    "fi_execution_session f = po_execution_session p" "fi_shares_before f = ry_shares st"
    "fi_shares_after f = (if po_side p = BUY_SIDE then ry_shares st + po_quantity p else ry_shares st - po_quantity p)"
    "if target = 1 then po_side p = BUY_SIDE else po_side p = SELL_SIDE \<and> po_quantity p = ry_shares st"
proof -
  have size: "if target = 1 then po_side p = BUY_SIDE else po_side p = SELL_SIDE \<and> po_quantity p = ry_shares st"
    using assms unfolding replay_order_def Let_def
    by (elim rbind_InrE) (auto simp: check_order_size_def rbind_eq_Inr_iff split: if_splits)
  obtain p' d where p': "canonical_order_for_replay p (ry_cash st) (ry_shares st) r (bc_cost_assumptions config) = Inr p'"
    and d: "find (\<lambda>d. rd_order_sequence_number d = po_sequence_number p) (bk_decisions books) = Some d"
    and rest: "(if rd_approved d then
       (case find (\<lambda>f. fi_order_sequence_number f = po_sequence_number p) (bk_fills books) of
          None \<Rightarrow> Inl (BacktestAccountingError ''missing_approved_fill'')
        | Some fill \<Rightarrow>
            rbind (validate_fill_matches_order_and_cost fill p' (ry_cash st) (ry_shares st) d (bc_cost_assumptions config)) (\<lambda>_.
            Inr (st\<lparr>ry_cash := fi_cash_after fill, ry_shares := fi_shares_after fill,
                    ry_consumed_fills := ry_consumed_fills st @ [fi_order_sequence_number fill]\<rparr>)))
     else rbind (reject_if (find (\<lambda>f. fi_order_sequence_number f = po_sequence_number p) (bk_fills books) \<noteq> None)
       (BacktestAccountingError ''fill_for_rejected_decision'')) (\<lambda>_. Inr st)) = Inr st'"
  proof (cases "find (\<lambda>d. rd_order_sequence_number d = po_sequence_number p) (bk_decisions books)")
    case None
    then show thesis using assms unfolding replay_order_def Let_def by (elim rbind_InrE) simp
  next
    case (Some d)
    with assms show thesis
      unfolding replay_order_def Let_def by (elim rbind_InrE) (simp only: option.case, elim rbind_InrE, rule that)
  qed
  show thesis
  proof (cases "rd_approved d")
    case False
    then show thesis using that(1) d rest by (auto simp: rbind_eq_Inr_iff)
  next
    case True
    obtain f where f: "find (\<lambda>f. fi_order_sequence_number f = po_sequence_number p) (bk_fills books) = Some f"
      "validate_fill_matches_order_and_cost f p' (ry_cash st) (ry_shares st) d (bc_cost_assumptions config) = Inr ()"
      "st' = st\<lparr>ry_cash := fi_cash_after f, ry_shares := fi_shares_after f,
         ry_consumed_fills := ry_consumed_fills st @ [fi_order_sequence_number f]\<rparr>"
      using rest True by (auto simp: rbind_eq_Inr_iff split: option.splits)
    have "fi_side f = po_side p' \<and> fi_quantity f = po_quantity p' \<and> fi_signal_session f = po_signal_session p' \<and>
      fi_execution_session f = po_execution_session p' \<and> fi_shares_before f = ry_shares st \<and>
      fi_shares_after f = (if po_side p' = BUY_SIDE then ry_shares st + po_quantity p' else ry_shares st - po_quantity p')"
      using f(2) unfolding validate_fill_matches_order_and_cost_def Let_def by (elim rbind_InrE) auto
    then show thesis using that(2) d True f size replayed_fields [OF p'] by simp
  qed
qed

lemma close_replayed:
  assumes "replay_close config i cp row st = Inr st'"
  shows "ac_shares row = ry_shares st'" "ry_shares st' = ry_shares st" "ry_consumed_fills st' = ry_consumed_fills st"
  using assms unfolding replay_close_def Let_def by (elim rbind_InrE; auto)+

lemma orders_forD:
  assumes "orders_for orders key = p # ps"
  shows "p \<in> set orders" "order_key p = key"
proof -
  have "p \<in> set (orders_for orders key)" using assms by simp
  then show "p \<in> set orders" "order_key p = key" by (simp_all add: orders_for_def)
qed

text \<open>What a session of the replay leaves: the row of the portfolio, and the position as it was or after one trade.\<close>

definition session_replayed :: "audit_books \<Rightarrow> close_row list \<Rightarrow> nat \<Rightarrow> signal_row \<Rightarrow> replay_state \<Rightarrow> replay_state \<Rightarrow> bool" where
  "session_replayed books closes i sg st st' \<longleftrightarrow>
     i < length closes \<and> ac_session (closes ! i) = sr_execution_session sg \<and>
     ac_signal_session (closes ! i) = sr_signal_session sg \<and> ac_target_position (closes ! i) = sr_target_position sg \<and>
     ac_shares (closes ! i) = ry_shares st' \<and> 0 \<le> ry_shares st' \<and>
     (ry_shares st' = ry_shares st \<and> ry_consumed_fills st' = ry_consumed_fills st \<or>
      (\<exists>p d f. books_trade books sg (ry_shares st) (ry_shares st') p d f \<and>
         ry_consumed_fills st' = ry_consumed_fills st @ [fi_order_sequence_number f]))"

lemma row_at_Inr [simp]: "row_at rows i = Inr row \<longleftrightarrow> i < length rows \<and> row = rows ! i"
  by (auto simp: row_at_def)

lemma order_presence_flat:
  "check_order_presence target shares (Some p) = Inr u \<Longrightarrow> target = 1 \<Longrightarrow> shares \<le> 0"
  by (auto simp: check_order_presence_def rbind_eq_Inr_iff)

lemma signal_replayed:
  assumes "replay_signal books prices closes config risk (i, sg) st = Inr st'"
    and "0 \<le> ry_shares st" "\<forall>f \<in> set (bk_fills books). wf_fill f"
  shows "session_replayed books closes i sg st st'"
proof -
  obtain s e r cp st1 matched where sg: "sr_signal_session sg = PyDate s" "sr_execution_session sg = PyDate e"
    and row: "i < length closes" "ac_session (closes ! i) = PyDate e" "ac_signal_session (closes ! i) = PyDate s"
      "ac_target_position (closes ! i) = sr_target_position sg"
    and matched: "matched = (case orders_for (bk_orders books) (PyDate s, PyDate e) of [] \<Rightarrow> None | order # _ \<Rightarrow> Some order)"
    and presence: "check_order_presence (sr_target_position sg) (ry_shares st) matched = Inr ()"
    and traded: "(case matched of None \<Rightarrow> Inr st
       | Some order \<Rightarrow> replay_order books config risk e (sr_target_position sg) r order st) = Inr st1"
    and closed: "replay_close config i cp (closes ! i) st1 = Inr st'"
    using assms(1) unfolding replay_signal_def Let_def case_prod_conv by (elim rbind_InrE) auto
  note close = close_replayed [OF closed]
  show ?thesis
  proof (cases matched)
    case None
    then have "st1 = st" using traded by simp
    then show ?thesis using sg row close assms(2) by (simp add: session_replayed_def)
  next
    case (Some p)
    then obtain ps where "orders_for (bk_orders books) (PyDate s, PyDate e) = p # ps"
      using matched by (auto split: list.splits)
    note p = orders_forD [OF this]
    have "replay_order books config risk e (sr_target_position sg) r p st = Inr st1" using traded Some by simp
    then show ?thesis
    proof (cases rule: order_replayed)
      case (1 d)
      then show ?thesis using sg row close assms(2) by (simp add: session_replayed_def)
    next
      case (2 d f)
      have d: "d \<in> set (bk_decisions books)" "rd_order_sequence_number d = po_sequence_number p"
        and f: "f \<in> set (bk_fills books)" "fi_order_sequence_number f = po_sequence_number p"
        using 2(1,3) by (auto simp: find_Some_iff)
      have "0 \<le> fi_shares_after f" using assms(3) f(1) by (simp add: wf_fill_def)
      moreover have "ry_shares st = 0" if "sr_target_position sg = 1"
        using order_presence_flat [OF presence [unfolded Some] that] assms(2) by simp
      ultimately have "books_trade books sg (ry_shares st) (ry_shares st1) p d f \<and> 0 \<le> ry_shares st1"
        using 2 d f p sg by (auto simp: books_trade_def order_key_def)
      then show ?thesis using 2(4) sg row close by (auto simp: session_replayed_def)
    qed
  qed
qed

section \<open>The whole replay\<close>

definition position_before :: "close_row list \<Rightarrow> nat \<Rightarrow> int" where
  "position_before closes i = (if i = 0 then 0 else ac_shares (closes ! (i - 1)))"

abbreviation trades_at :: "audit_books \<Rightarrow> close_row list \<Rightarrow> signal_row list \<Rightarrow> nat \<Rightarrow> proposed_order \<Rightarrow> risk_decision \<Rightarrow> fill_record \<Rightarrow> bool" where
  "trades_at books closes sigs i \<equiv> books_trade books (sigs ! i) (position_before closes i) (ac_shares (closes ! i))"

definition replayed_until :: "audit_books \<Rightarrow> close_row list \<Rightarrow> signal_row list \<Rightarrow> replay_state \<Rightarrow> bool" where
  "replayed_until books closes sigs st \<longleftrightarrow>
     length sigs \<le> length closes \<and> ry_shares st = position_before closes (length sigs) \<and> 0 \<le> ry_shares st \<and>
     (\<forall>i < length sigs. ac_session (closes ! i) = sr_execution_session (sigs ! i) \<and>
        ac_signal_session (closes ! i) = sr_signal_session (sigs ! i) \<and>
        ac_target_position (closes ! i) = sr_target_position (sigs ! i) \<and> 0 \<le> ac_shares (closes ! i) \<and>
        (ac_shares (closes ! i) = position_before closes i \<or> (\<exists>p d f. trades_at books closes sigs i p d f))) \<and>
     (\<forall>n \<in> set (ry_consumed_fills st). \<exists>i < length sigs. \<exists>p d f. trades_at books closes sigs i p d f \<and>
        fi_order_sequence_number f = n)"

lemma replayed_until_snoc:
  assumes "replayed_until books closes sigs st" "session_replayed books closes (length sigs) sg st st'"
  shows "replayed_until books closes (sigs @ [sg]) st'"
proof -
  note old = assms(1) [unfolded replayed_until_def] and new = assms(2) [unfolded session_replayed_def]
  have len: "length (sigs @ [sg]) \<le> length closes" using new by simp
  have pos: "ry_shares st' = position_before closes (length (sigs @ [sg]))" using new by (simp add: position_before_def)
  have split: "i < length (sigs @ [sg]) \<longleftrightarrow> i < length sigs \<or> i = length sigs" for i by auto
  have keep: "trades_at books closes (sigs @ [sg]) i = trades_at books closes sigs i" if "i < length sigs" for i
    using that by (simp add: nth_append)
  have here: "trades_at books closes (sigs @ [sg]) (length sigs) =
      books_trade books sg (ry_shares st) (ry_shares st')"
    using old new by simp
  have rows: "ac_session (closes ! i) = sr_execution_session ((sigs @ [sg]) ! i) \<and>
        ac_signal_session (closes ! i) = sr_signal_session ((sigs @ [sg]) ! i) \<and>
        ac_target_position (closes ! i) = sr_target_position ((sigs @ [sg]) ! i) \<and> 0 \<le> ac_shares (closes ! i) \<and>
        (ac_shares (closes ! i) = position_before closes i \<or> (\<exists>p d f. trades_at books closes (sigs @ [sg]) i p d f))"
    if "i < length (sigs @ [sg])" for i
    using that old new here keep [of i] by (cases "i < length sigs") (auto simp: nth_append less_Suc_eq)
  have consumed: "\<exists>i < length (sigs @ [sg]). \<exists>p d f. trades_at books closes (sigs @ [sg]) i p d f \<and> fi_order_sequence_number f = n"
    if n: "n \<in> set (ry_consumed_fills st')" for n
  proof (cases "n \<in> set (ry_consumed_fills st)")
    case True
    then obtain i p d f where "i < length sigs" "trades_at books closes sigs i p d f" "fi_order_sequence_number f = n"
      using old by blast
    then show ?thesis using keep [of i] by (intro exI [of _ i]) auto
  next
    case False
    then obtain p d f where "books_trade books sg (ry_shares st) (ry_shares st') p d f" "fi_order_sequence_number f = n"
      using n new by auto
    then show ?thesis using here by (intro exI [of _ "length sigs"]) auto
  qed
  show ?thesis
    unfolding replayed_until_def using len pos rows consumed new by blast
qed

lemma replay_sessions:
  assumes "run_steps (replay_signal books prices closes config risk) (enumerate 0 sigs) (initial_replay config) = Inr st"
    and "\<forall>f \<in> set (bk_fills books). wf_fill f"
  shows "replayed_until books closes sigs st"
  using assms(1)
proof (induction sigs arbitrary: st rule: rev_induct)
  case Nil
  then show ?case by (auto simp: replayed_until_def initial_replay_def position_before_def)
next
  case (snoc sg sigs)
  obtain st1 where st1: "run_steps (replay_signal books prices closes config risk) (enumerate 0 sigs)
      (initial_replay config) = Inr st1"
    and last: "replay_signal books prices closes config risk (length sigs, sg) st1 = Inr st"
    using snoc(2) by (auto simp: enumerate_append_eq run_steps_append elim!: rbind_InrE)
  note old = snoc(1) [OF st1]
  then have "0 \<le> ry_shares st1" by (simp add: replayed_until_def)
  from replayed_until_snoc [OF old signal_replayed [OF last this assms(2)]] show ?case .
qed

section \<open>An accepted result\<close>

abbreviation result_signals :: "backtest_result \<Rightarrow> signal_row list" where
  "result_signals r \<equiv> sf_rows (sgs_data (br_strategy_signal_set r))"

text \<open>A fill row that is accounted for: it carries out the signal of session \<open>i\<close> with an approved order, and moves the
  position from that of the session before to that of its own.\<close>

definition accounted_fill :: "backtest_result \<Rightarrow> nat \<Rightarrow> fill_cells \<Rightarrow> bool" where
  "accounted_fill r i f \<longleftrightarrow>
     (let sg = result_signals r ! i; closes = fr_rows (br_portfolio r);
          before = position_before closes i; after = ac_shares (closes ! i) in
      f \<in> set (fr_rows (br_fills r)) \<and>
      (\<exists>order \<in> set (fr_rows (br_proposed_orders r)). \<exists>d \<in> set (fr_rows (br_risk_decisions r)).
         ao_sequence_number order = af_order_sequence_number f \<and>
         ad_order_sequence_number d = af_order_sequence_number f \<and> ad_approved d \<and> ad_reason_codes d = [APPROVED_REASON] \<and>
         ao_side order = af_side f \<and> ao_quantity order = af_quantity f) \<and>
      af_signal_session f = sr_signal_session sg \<and> af_execution_session f = sr_execution_session sg \<and>
      af_shares_before f = before \<and> af_shares_after f = after \<and>
      (if sr_target_position sg = 1 then af_side f = PyStr ''buy'' \<and> before = 0 \<and> after = af_quantity f
       else af_side f = PyStr ''sell'' \<and> before = af_quantity f \<and> after = 0))"

lemma books_of:
  assumes "collect_books costs signals orders decisions fills = Inr books"
  shows "list_all2 (\<lambda>row p. reconstruct_proposed_order row = Inr p) orders (bk_orders books)"
    "list_all2 (\<lambda>row d. reconstruct_risk_decision row = Inr d) decisions (bk_decisions books)"
    "list_all2 (\<lambda>row f. reconstruct_fill row = Inr f) fills (bk_fills books)"
    "map po_sequence_number (bk_orders books) = [1..int (length (bk_orders books))]"
    "distinct (map fi_order_sequence_number (bk_fills books))"
proof -
  obtain ps ds fs where books: "books = \<lparr>bk_orders = ps, bk_decisions = ds, bk_fills = fs\<rparr>"
    and ps: "collect_rows reconstruct_proposed_order po_sequence_number ''duplicate_proposed_orders''
      (\<lambda>order. validate_order_estimate order costs) orders [] = Inr ps" "map po_sequence_number ps = [1..int (length ps)]"
    and ds: "collect_rows reconstruct_risk_decision rd_order_sequence_number ''duplicate_risk_decisions''
      (\<lambda>_. Inr ()) decisions [] = Inr ds"
    and fs: "collect_rows reconstruct_fill fi_order_sequence_number ''duplicate_fills'' (\<lambda>_. Inr ()) fills [] = Inr fs"
    using assms unfolding collect_books_def Let_def by (elim rbind_InrE) auto
  from collect_rows_Inr [OF ps(1)] collect_rows_Inr [OF ds] collect_rows_Inr [OF fs]
  show "list_all2 (\<lambda>row p. reconstruct_proposed_order row = Inr p) orders (bk_orders books)"
    "list_all2 (\<lambda>row d. reconstruct_risk_decision row = Inr d) decisions (bk_decisions books)"
    "list_all2 (\<lambda>row f. reconstruct_fill row = Inr f) fills (bk_fills books)"
    "map po_sequence_number (bk_orders books) = [1..int (length (bk_orders books))]"
    "distinct (map fi_order_sequence_number (bk_fills books))"
    using ps(2) by (auto simp: books elim!: list_all2_mono)
qed

text \<open>The rows behind a trade of the books.\<close>

lemma trade_rows:
  assumes "collect_books costs signals (fr_rows (br_proposed_orders r)) (fr_rows (br_risk_decisions r)) (fr_rows (br_fills r)) =
      Inr books"
    and "trades_at books (fr_rows (br_portfolio r)) (result_signals r) i p d f"
    and "row \<in> set (fr_rows (br_fills r))" "reconstruct_fill row = Inr f"
  shows "accounted_fill r i row"
proof -
  note trade = assms(2) [unfolded books_trade_def] and books = books_of [OF assms(1)] and f = reconstructed_fill [OF assms(4)]
  obtain orow where orow: "orow \<in> set (fr_rows (br_proposed_orders r))" "reconstruct_proposed_order orow = Inr p"
    using list_all2_right [OF books(1)] trade by blast
  obtain drow where drow: "drow \<in> set (fr_rows (br_risk_decisions r))" "reconstruct_risk_decision drow = Inr d"
    using list_all2_right [OF books(2)] trade by blast
  note po = reconstructed_order [OF orow(2)] and de = reconstructed_decision [OF drow(2)]
  have "ad_reason_codes drow = [APPROVED_REASON]" using de trade by (simp add: wf_decision_def)
  moreover have "af_side row = (if sr_target_position (result_signals r ! i) = 1 then PyStr ''buy'' else PyStr ''sell'')"
    using f(2) trade by (auto simp: side_text_def split: if_splits)
  ultimately show ?thesis
    using trade po de f assms(3) orow(1) drow(1)
    by (auto simp: accounted_fill_def Let_def intro!: bexI [of _ orow] bexI [of _ drow] split: if_splits)
qed

text \<open>C7: a \<^verbatim>\<open>BacktestResult\<close> can only hold trades that were approved and signalled. In an accepted result the orders are
  numbered from one, the approved decisions are exactly those that were filled, the portfolio has one row for each signal,
  and the position of a row is that of the row before or the effect of one fill row of that session: a buy of the whole
  position from nothing on a long signal, or the sale of all of it on a cash signal, by an approved order of the same side,
  quantity and number. Every fill row is such a fill, and the metrics are those of the rows.\<close>

theorem accepted_result_holds_only_approved_trades:
  assumes "mk_backtest_result env column_sum r = Inr r'"
  shows "let signals = result_signals r'; closes = fr_rows (br_portfolio r'); fills = fr_rows (br_fills r');
      orders = fr_rows (br_proposed_orders r'); decisions = fr_rows (br_risk_decisions r') in
    map ao_sequence_number orders = [1..int (length orders)] \<and>
    set (map ad_order_sequence_number (filter ad_approved decisions)) = set (map af_order_sequence_number fills) \<and>
    map ac_session closes = map sr_execution_session signals \<and>
    (\<forall>i < length signals. 0 \<le> ac_shares (closes ! i) \<and>
       (ac_shares (closes ! i) = position_before closes i \<or> (\<exists>f. accounted_fill r' i f))) \<and>
    (\<forall>f \<in> set fills. \<exists>i < length signals. accounted_fill r' i f) \<and>
    calculate_backtest_metrics (br_portfolio r') (br_fills r') (br_proposed_orders r') (br_risk_decisions r')
      (br_initial_cash r') = Inr (br_metrics r')"
proof -
  obtain signals prices config risk cash metrics where
    replay: "validate_backtest_audit_replay (evidence_of r signals prices) config risk = Inr ()"
    and agree: "check_frames_agree (evidence_of r signals prices) = Inr ()"
    and metrics: "check_metrics column_sum (evidence_of r signals prices) (PyDecimal (Fin cash)) (br_metrics r) = Inr metrics"
    and r': "br_strategy_signal_set r' = signals" "br_portfolio r' = br_portfolio r" "br_fills r' = br_fills r"
      "br_proposed_orders r' = br_proposed_orders r" "br_risk_decisions r' = br_risk_decisions r"
      "br_metrics r' = metrics" "br_initial_cash r' = PyDecimal (Fin cash)"
    using assms unfolding mk_backtest_result_def Let_def by (elim rbind_InrE) (auto elim!: rbind_InrE)
  let ?sigs = "result_signals r'" and ?closes = "fr_rows (br_portfolio r')" and ?fills = "fr_rows (br_fills r')"
  let ?orders = "fr_rows (br_proposed_orders r')" and ?decisions = "fr_rows (br_risk_decisions r')"
  obtain books st where books: "collect_books (bc_cost_assumptions config) ?sigs ?orders ?decisions ?fills = Inr books"
    and run: "run_steps (replay_signal books (xf_rows (xp_data prices)) ?closes config risk) (enumerate 0 ?sigs)
        (initial_replay config) = Inr st"
    and all: "set (map fi_order_sequence_number (bk_fills books)) = set (ry_consumed_fills st)"
    using replay unfolding validate_backtest_audit_replay_def Let_def evidence_of_def r'
    by (elim rbind_InrE) auto
  note b = books_of [OF books]
  have wf: "\<forall>f \<in> set (bk_fills books). wf_fill f"
    using list_all2_right [OF b(3)] reconstructed_fill(9) by blast
  note done_all = replay_sessions [OF run wf, unfolded replayed_until_def]
  have row_of: "\<exists>row \<in> set ?fills. reconstruct_fill row = Inr f" if "f \<in> set (bk_fills books)" for f
    using list_all2_right [OF b(3) that] .
  have trade: "\<exists>row. accounted_fill r' i row" if t: "trades_at books ?closes ?sigs i p d f" for i p d f
    using row_of [of f] t trade_rows [OF books t] by (auto simp: books_trade_def)
  have orders: "map ao_sequence_number ?orders = [1..int (length ?orders)]"
  proof -
    have "map po_sequence_number (bk_orders books) = map ao_sequence_number ?orders"
      using list_all2_map_eq [OF b(1), where f = po_sequence_number and g = ao_sequence_number] reconstructed_order(1) by blast
    then show ?thesis using b(4) list_all2_lengthD [OF b(1)] by simp
  qed
  have approved: "set (map ad_order_sequence_number (filter ad_approved ?decisions)) = set (map af_order_sequence_number ?fills)"
    and sessions: "map ac_session ?closes = map sr_execution_session ?sigs"
  proof -
    have "sort (map af_order_sequence_number ?fills) = sort (map ad_order_sequence_number (filter ad_approved ?decisions))"
      "map ac_session ?closes = map sr_execution_session ?sigs"
      using agree unfolding check_frames_agree_def Let_def evidence_of_def r' by (elim rbind_InrE; simp)+
    then show "set (map ad_order_sequence_number (filter ad_approved ?decisions)) = set (map af_order_sequence_number ?fills)"
      "map ac_session ?closes = map sr_execution_session ?sigs" by (metis set_sort)+
  qed
  have fills: "\<exists>i < length ?sigs. accounted_fill r' i row" if row: "row \<in> set ?fills" for row
  proof -
    obtain f where f: "f \<in> set (bk_fills books)" "reconstruct_fill row = Inr f"
      using list_all2_left [OF b(3) row] by blast
    then have "fi_order_sequence_number f \<in> set (ry_consumed_fills st)" using all by auto
    then obtain i p d f' where i: "i < length ?sigs" "trades_at books ?closes ?sigs i p d f'"
      "fi_order_sequence_number f' = fi_order_sequence_number f"
      using done_all by blast
    then have "f' \<in> set (bk_fills books)" by (simp add: books_trade_def)
    then have "f' = f" using b(5) f(1) i(3) by (auto simp: distinct_map dest: inj_onD)
    then show ?thesis using trade_rows [OF books _ row f(2)] i(1,2) by blast
  qed
  have "calculate_backtest_metrics (br_portfolio r') (br_fills r') (br_proposed_orders r') (br_risk_decisions r')
      (br_initial_cash r') = Inr (br_metrics r')"
    using metrics unfolding check_metrics_def Let_def evidence_of_def r' by (elim rbind_InrE) auto
  then show ?thesis
    unfolding Let_def using orders approved sessions fills done_all trade by blast
qed

end
