(* ===== verification/Audit_Witnesses.thy ===== *)
theory Audit_Witnesses
  imports Audit_Properties Backtest_Examples Data_Witnesses Signal_Properties
begin

text \<open>A finished backtest of one signal that the audit accepts: all prices are one and there are no costs, so that the whole
  cash buys ten thousand shares.\<close>

section \<open>The floats and decimals of the sample\<close>

lemma float_round_int:
  assumes "\<bar>k\<bar> \<le> 2 ^ 53"
  shows "float_round (of_int k) = of_int k"
proof (cases "k = 0")
  case False
  have "representable 2 53 (of_int k)"
    using assms unfolding representable_def by (intro exI [of _ k] exI [of _ 0]) simp
  moreover have "1 \<le> \<bar>of_int k :: rat\<bar>" using False by (metis of_int_1_le_iff of_int_abs zero_less_abs_iff int_one_le_iff_zero_less)
  then have "\<not> \<bar>of_int k :: rat\<bar> * 2 ^ 1022 < 1"
    using mult_mono [of 1 "\<bar>of_int k :: rat\<bar>" 1 "2 ^ 1022"] by simp
  ultimately show ?thesis by (simp only: float_round_def if_False digits53.round_sig_exact)
qed (simp add: binary64.zero)

lemma sample_floats [simp]: "float_round 10000 = 10000" "float_round (- 10000) = - 10000" "float_round 1 = 1" "float_round 0 = 0"
  using float_round_int [of 10000] float_round_int [of "- 10000"] by (simp_all add: binary64.one binary64.zero)

lemma sample_fl [simp]: "fl 10000 = Fin 10000" "fl (- 10000) = Fin (- 10000)" "fl 1 = Fin 1" "fl 0 = Fin 0"
  by (simp_all add: fl_def float_limit_def Let_def)

lemma sample_to_float [simp]: "decimal_to_float 10000 = Inr 10000" "decimal_to_float (- 10000) = Inr (- 10000)"
  "decimal_to_float 1 = Inr 1" "decimal_to_float 0 = Inr 0"
  by (simp_all add: decimal_to_float_small)

lemma sample_shortest: "short_decimal (of_int c * 10 ^ k) = of_int c * 10 ^ k"
  if "0 < c" "c < 10" "float_round (of_int c * 10 ^ k) = of_int c * 10 ^ k"
proof -
  have "significant_digits 10 1" by unfold_locales simp_all
  moreover have "representable 10 1 (of_int c * 10 ^ k)"
    using that unfolding representable_def by (intro exI [of _ c] exI [of _ "int k"]) simp
  ultimately have exact: "round_sig 10 1 (of_int c * 10 ^ k) = of_int c * 10 ^ k"
    by (rule significant_digits.round_sig_exact)
  have "[1..<17] = 1 # [Suc 1..<17]" by (rule upt_conv_Cons) simp
  then have "short_digits (of_int c * 10 ^ k) = 1"
    using exact that(3) by (simp add: short_digits_def del: upt_rec_numeral One_nat_def)
  then show ?thesis using exact by (simp add: short_decimal_def)
qed

lemma sample_decimals [simp]: "short_decimal 10000 = 10000" "short_decimal 1 = 1" "short_decimal 0 = 0"
  "short_decimal (- 10000) = - 10000"
  using sample_shortest [of 1 4] sample_shortest [of 1 0]
  by (simp_all add: short_decimal_minus) (simp add: short_decimal_def round_sig_def)

section \<open>The sample result\<close>

definition audited_metadata :: market_metadata where
  "audited_metadata =
     \<lparr>mm_provider_name = ''sample'', mm_symbol = MARKET_SYMBOL, mm_timeframe = MARKET_TIMEFRAME,
      mm_adjustment_policy = ADJUSTMENT_POLICY, mm_downloaded_at = 0, mm_created_at = 0, mm_first_session = 40,
      mm_last_session = 41, mm_row_count = 2, mm_dataset_checksum = sample_checksum,
      mm_schema_version = SCHEMA_VERSION, mm_source_description = None\<rparr>"

definition audited_market :: market_batch where
  "audited_market = \<lparr>md_bars = [sample_bar 40, sample_bar 41], md_metadata = audited_metadata\<rparr>"

definition audited_signals :: signal_set where
  "audited_signals =
     \<lparr>sgs_data = \<lparr>sf_columns = SIGNAL_COLUMNS,
        sf_dtype = (\<lambda>column. if column = ''probability_positive'' then ''float64''
           else if column = ''target_position'' then ''int64'' else ''object''),
        sf_rows = [\<lparr>sr_signal_session = PyDate 40, sr_execution_session = PyDate 41,
          sr_probability_positive = Fin 1, sr_target_position = 1\<rparr>]\<rparr>,
      sgs_selected_model_name = hd MODEL_NAMES, sgs_strategy_threshold = Fin STRATEGY_LONG_PROBABILITY_THRESHOLD,
      sgs_source_market_data_checksum = sample_checksum, sgs_source_schema_version = SCHEMA_VERSION,
      sgs_feature_schema_version = FEATURE_SCHEMA_VERSION, sgs_label_schema_version = LABEL_SCHEMA_VERSION,
      sgs_model_schema_version = MODEL_SCHEMA_VERSION, sgs_strategy_schema_version = STRATEGY_SCHEMA_VERSION,
      sgs_feature_columns = FEATURE_COLUMNS, sgs_split_spec = sample_split, sgs_market_sessions = [40, 41],
      sgs_first_signal_session = 40, sgs_last_signal_session = 40, sgs_first_execution_session = 41,
      sgs_last_execution_session = 41, sgs_row_count = 1, sgs_sklearn_version = ''1'', sgs_created_at = PyAware 5\<rparr>"

definition audited_prices :: execution_prices where
  "audited_prices =
     \<lparr>xp_data = \<lparr>xf_columns = EXECUTION_PRICE_COLUMNS,
        xf_dtype = (\<lambda>column. if column = ''execution_session'' then ''object'' else ''float64''),
        xf_rows = [\<lparr>xr_execution_session = PyDate 41, xr_reference_open = Fin 1, xr_close_price = Fin 1\<rparr>]\<rparr>,
      xp_source_market_data_checksum = sample_checksum, xp_source_schema_version = SCHEMA_VERSION,
      xp_first_execution_session = 41, xp_last_execution_session = 41, xp_row_count = 1, xp_created_at = PyAware 5,
      xp_execution_price_checksum = sample_checksum\<rparr>"

definition no_costs :: cost_assumptions where
  "no_costs = \<lparr>ca_commission_bps_per_side = 0, ca_slippage_bps_per_side = 0\<rparr>"

definition audited_config :: backtest_config where
  "audited_config = \<lparr>bc_cost_assumptions = no_costs, bc_initial_cash = 10000\<rparr>"

definition audited_order :: proposed_order where
  "audited_order =
     \<lparr>po_sequence_number = 1, po_symbol = SUPPORTED_SYMBOL, po_side = BUY_SIDE, po_quantity = 10000, po_signal_session = 40,
      po_execution_session = 41, po_target_position = 1, po_reference_open = 1, po_estimated_execution_price = 1,
      po_estimated_commission = 0, po_estimated_cash_change = - 10000, po_current_cash = 10000, po_current_shares = 0\<rparr>"

definition audited_decision :: risk_decision where
  "audited_decision =
     \<lparr>rd_order_sequence_number = 1, rd_approved = True, rd_reason_codes = [APPROVED_REASON], rd_evaluated_session = 41,
      rd_projected_cash = 0, rd_projected_shares = 10000, rd_projected_market_value = 10000, rd_projected_equity = 10000\<rparr>"

definition audited_fill :: fill_record where
  "audited_fill =
     \<lparr>fi_order_sequence_number = 1, fi_symbol = SUPPORTED_SYMBOL, fi_side = BUY_SIDE, fi_quantity = 10000,
      fi_signal_session = 40, fi_execution_session = 41, fi_reference_open = 1, fi_execution_price = 1,
      fi_reference_notional = 10000, fi_execution_notional = 10000, fi_commission = 0, fi_slippage_cost = 0,
      fi_total_transaction_cost = 0, fi_cash_change = - 10000, fi_shares_before = 0, fi_shares_after = 10000,
      fi_cash_before = 10000, fi_cash_after = 0, fi_risk_approved = True\<rparr>"

definition audited_close :: portfolio_row where
  "audited_close =
     \<lparr>pr_session = 41, pr_signal_session = 40, pr_target_position = 1, pr_cash = 0, pr_shares = 10000, pr_close_price = 1,
      pr_market_value = 10000, pr_equity = 10000, pr_daily_return = 0, pr_drawdown = 0\<rparr>"

definition audited_metrics :: backtest_metrics where
  "audited_metrics =
     \<lparr>bm_session_count = 1, bm_initial_cash = Fin 10000, bm_final_cash = Fin 0, bm_final_shares = 10000,
      bm_final_market_value = Fin 10000, bm_final_equity = Fin 10000, bm_total_return = Fin 0,
      bm_maximum_drawdown = Fin 0, bm_total_reference_notional = Fin 10000, bm_total_execution_notional = Fin 10000,
      bm_total_commission = Fin 0, bm_total_slippage_cost = Fin 0, bm_total_transaction_cost = Fin 0,
      bm_turnover_ratio = Fin 1, bm_exposure_fraction = Fin 1, bm_proposed_order_count = 1,
      bm_approved_order_count = 1, bm_rejected_order_count = 0, bm_fill_count = 1, bm_buy_fill_count = 1,
      bm_sell_fill_count = 0\<rparr>"

definition audit_environment :: backtest_environment where
  "audit_environment = \<lparr>be_sklearn_version = ''1'', be_market_digest = (\<lambda>_. sample_checksum),
     be_price_digest = (\<lambda>_. sample_checksum)\<rparr>"

definition audited_result :: backtest_result where
  "audited_result =
     \<lparr>br_strategy_signal_set = audited_signals, br_source_market_data = audited_market,
      br_execution_prices = audited_prices, br_proposed_orders = orders_frame [audited_order],
      br_risk_decisions = decisions_frame [audited_decision], br_fills = fills_frame [audited_fill],
      br_portfolio = portfolio_frame [audited_close], br_metrics = audited_metrics,
      br_backtest_config = \<lparr>bco_cost_assumptions = costs_obj no_costs, bco_initial_cash = PyDecimal (Fin 10000)\<rparr>,
      br_risk_config = default_risk_config, br_selected_model_name = hd MODEL_NAMES,
      br_source_market_data_checksum = sample_checksum, br_source_schema_version = SCHEMA_VERSION,
      br_feature_schema_version = FEATURE_SCHEMA_VERSION, br_label_schema_version = LABEL_SCHEMA_VERSION,
      br_model_schema_version = MODEL_SCHEMA_VERSION, br_strategy_schema_version = STRATEGY_SCHEMA_VERSION,
      br_risk_schema_version = RISK_SCHEMA_VERSION, br_backtest_schema_version = BACKTEST_SCHEMA_VERSION,
      br_feature_columns = FEATURE_COLUMNS, br_split_spec = sample_split,
      br_strategy_threshold = Fin STRATEGY_LONG_PROBABILITY_THRESHOLD, br_first_signal_session = 40,
      br_last_signal_session = 40, br_first_execution_session = 41, br_last_execution_session = 41,
      br_initial_cash = PyDecimal (Fin 10000), br_cost_assumptions = costs_obj no_costs, br_sklearn_version = ''1'',
      br_created_at = PyAware 5\<rparr>"

section \<open>Its parts are accepted\<close>

lemma sample_sorted [simp]: "sort [a] = [a]" "(a :: 'a :: linorder) \<le> b \<Longrightarrow> sort [a, b] = [a, b]"
  by simp_all

lemma audited_signals_ok: "mk_signal_set ''1'' audited_signals = Inr audited_signals"
proof -
  have strip: "strip ''1'' = ''1''" by (simp add: strip_solid is_space_def)
  have model: "hd MODEL_NAMES \<in> set MODEL_NAMES" by (simp add: MODEL_NAMES_def)
  show ?thesis
    using model sample_checksum_ok
    by (simp add: mk_signal_set_def audited_signals_def Let_def strip sample_split_def increasing_dates_of_def
        check_signal_pair_def check_signal_target_def index_of_def validate_finite_float_def validate_int_def
        aware_utc_def plain_date_of_def STRATEGY_LONG_PROBABILITY_THRESHOLD_def)
qed

lemma audited_metadata_ok: "mk_market_metadata (metadata_obj audited_metadata) = Inr audited_metadata"
  using sample_checksum_ok
  by (simp add: mk_market_metadata_def metadata_obj_def audited_metadata_def strip_solid is_space_def Let_def require_exact_def
      require_utc_datetime_def is_checksum_def list_ex_iff list_all_iff)

lemma audited_batch_ok:
  "mk_market_batch (\<lambda>_. sample_checksum) CANONICAL_COLUMNS (map raw_bar_of (md_bars audited_market)) audited_metadata =
     Inr audited_market"
  "compute_market_data_checksum (\<lambda>_. sample_checksum) CANONICAL_COLUMNS (map raw_bar_of (md_bars audited_market)) =
     Inr (md_bars audited_market, sample_checksum)"
proof -
  have "wf_batch (\<lambda>_. sample_checksum) audited_market"
    by (simp add: wf_batch_def audited_market_def audited_metadata_def sample_bar_def)
  from batch_accepted [OF this]
  show "mk_market_batch (\<lambda>_. sample_checksum) CANONICAL_COLUMNS (map raw_bar_of (md_bars audited_market)) audited_metadata =
     Inr audited_market" by (simp add: audited_market_def)
  have "map_results read_bar (map raw_bar_of (md_bars audited_market)) = Inr (md_bars audited_market)"
    using map_results_map [of "md_bars audited_market" read_bar raw_bar_of id] by (simp add: read_bar_raw)
  then show "compute_market_data_checksum (\<lambda>_. sample_checksum) CANONICAL_COLUMNS (map raw_bar_of (md_bars audited_market)) =
     Inr (md_bars audited_market, sample_checksum)" by (simp add: compute_market_data_checksum_def)
qed

lemma audited_source_ok: "validate_source_market_frame (md_bars audited_market) = Inr (md_bars audited_market)"
  by (simp add: validate_source_market_frame_def audited_market_def sample_bar_def Let_def)

lemma audited_source_metadata_ok:
  "validate_source_market_metadata audited_metadata (md_bars audited_market) = Inr sample_checksum"
  using sample_checksum_ok
  by (simp add: validate_source_market_metadata_def audited_market_def audited_metadata_def sample_bar_def Let_def
      validate_backtest_checksum_def is_checksum_def list_all_iff)

lemma audited_market_ok: "reconstruct_source_market_data (\<lambda>_. sample_checksum) audited_market = Inr audited_market"
proof -
  have "md_metadata audited_market = audited_metadata" by (simp add: audited_market_def)
  then show ?thesis
    by (simp add: reconstruct_source_market_data_def audited_metadata_ok audited_batch_ok audited_source_ok
        audited_source_metadata_ok Let_def del: list.map)
qed

lemma audited_prices_ok: "mk_execution_prices (\<lambda>_. sample_checksum) audited_prices = Inr audited_prices"
  using sample_checksum_ok
  by (simp add: mk_execution_prices_def audited_prices_def Let_def is_checksum_def rbind_eq_Inr_iff
      require_column_dtype_def calculate_execution_price_checksum_def checksum_row_def check_execution_price_def
      require_aware_utc_def)

lemma audited_config_ok:
  "mk_backtest_config \<lparr>bco_cost_assumptions = costs_obj no_costs, bco_initial_cash = PyDecimal (Fin 10000)\<rparr> = Inr audited_config"
  by (simp add: mk_backtest_config_def audited_config_def mk_cost_assumptions_obj wf_costs_def no_costs_def
      INITIAL_SIMULATED_CASH_def)

lemmas audited_frames = orders_frame_def decisions_frame_def fills_frame_def portfolio_frame_def frame_of_def
lemmas audited_cells = audited_frames order_cells_def decision_cells_def cells_of_fill_def close_cells_def audited_order_def
  audited_decision_def audited_fill_def audited_close_def SUPPORTED_SYMBOL_def

text \<open>The values of the sample are the same floats and decimals on both sides of every comparison.\<close>

lemma audited_close_same [simp]: "accounting_close (Fin x) (Fin x)" "portfolio_close (Fin x) (Fin x)" "metric_close (Fin x) (Fin x)"
  by (simp_all add: accounting_close_def portfolio_close_def metric_close_def)

lemma side_text_solid [simp]: "side_text s \<noteq> []"
  by (cases s) (simp_all add: side_text_def)

lemma audited_portfolio_ok: "validate_portfolio_frame (portfolio_frame [audited_close]) 10000 = Inr ()"
  by (simp add: validate_portfolio_frame_def audited_cells Let_def check_portfolio_row_def require_finite_float_def
      float_divide_def fl_sub_def)

lemma audited_dtypes_ok: "validate_audit_dtypes (orders_frame os) (decisions_frame ds) (fills_frame fs) (portfolio_frame ps) = Inr ()"
  by (simp add: validate_audit_dtypes_def audited_frames require_column_dtype_def rbind_eq_Inr_iff)

lemma audited_agree_ok: "check_frames_agree (evidence_of audited_result audited_signals audited_prices) = Inr ()"
  by (simp add: check_frames_agree_def evidence_of_def audited_result_def Let_def audited_cells audited_signals_def
      audited_prices_def check_fill_identity_def require_finite_float_def fl_sub_def)

lemma audited_metrics_accepted: "mk_backtest_metrics audited_metrics = Inr audited_metrics"
  by (simp add: mk_backtest_metrics_def audited_metrics_def backtest_count_fields_def backtest_float_fields_def Let_def
      require_finite_float_def INITIAL_SIMULATED_CASH_def fl_sub_def)

lemma audited_walks:
  "validate_metric_portfolio [close_cells audited_close] 10000 = Inr ()"
  "validate_metric_fills [cells_of_fill audited_fill] =
     Inr \<lparr>ft_reference_notional = Fin 10000, ft_execution_notional = Fin 10000, ft_commission = Fin 0,
       ft_slippage_cost = Fin 0, ft_transaction_cost = Fin 0, ft_buy_fills = 1, ft_sell_fills = 0\<rparr>"
  "validate_metric_proposed_orders [order_cells audited_order] = Inr [1]"
  "validate_metric_risk_decisions [decision_cells audited_decision] = Inr ([1], 1)"
  by (simp_all add: validate_metric_portfolio_def metric_portfolio_row_def validate_metric_fills_def metric_fill_row_def
      validate_metric_proposed_orders_def metric_order_row_def validate_metric_risk_decisions_def metric_decision_row_def
      audited_cells Let_def metric_float_def metric_int_def metric_str_def metric_side_def metric_symbol_def assert_close_def
      require_finite_float_def no_fills_def fl_sub_def)

lemma audited_metrics_computed:
  "calculate_backtest_metrics (portfolio_frame [audited_close]) (fills_frame [audited_fill]) (orders_frame [audited_order])
     (decisions_frame [audited_decision]) (PyDecimal (Fin 10000)) = Inr audited_metrics"
proof -
  have frames: "require_frame PORTFOLIO_COLUMNS n (portfolio_frame [audited_close]) = Inr [close_cells audited_close]"
    "require_frame FILL_COLUMNS n (fills_frame [audited_fill]) = Inr [cells_of_fill audited_fill]"
    "require_frame PROPOSED_ORDER_COLUMNS n (orders_frame [audited_order]) = Inr [order_cells audited_order]"
    "require_frame RISK_DECISION_COLUMNS n (decisions_frame [audited_decision]) = Inr [decision_cells audited_decision]" for n
    by (simp_all add: require_frame_def audited_frames)
  have cash: "bt_require_decimal BacktestMetricError False True n (PyDecimal (Fin 10000)) = Inr 10000" for n
    by simp
  show ?thesis
    using audited_metrics_accepted
    by (simp add: calculate_backtest_metrics_def frames cash audited_walks Let_def INITIAL_SIMULATED_CASH_def)
       (simp add: audited_cells float_sum_def fl_sub_def audited_metrics_def metric_float_def require_finite_float_def)
qed

lemma audited_metrics_ok:
  "check_metrics float_sum (evidence_of audited_result audited_signals audited_prices) (PyDecimal (Fin 10000)) audited_metrics =
     Inr audited_metrics"
  by (simp add: check_metrics_def evidence_of_def audited_result_def audited_metrics_accepted audited_metrics_computed Let_def)
     (simp add: audited_metrics_def audited_cells float_sum_def)

section \<open>Its replay\<close>

lemma no_cost_rates [simp]: "commission_rate no_costs = 0" "slippage_rate no_costs = 0" "wf_costs no_costs"
  by (simp_all add: commission_rate_def slippage_rate_def no_costs_def wf_costs_def dec_eval)

definition audited_estimate :: cost_estimate where
  "audited_estimate = \<lparr>oc_side = BUY_SIDE, oc_quantity = 10000, oc_reference_open = 1, oc_execution_price = 1, oc_reference_notional = 10000,
     oc_execution_notional = 10000, oc_commission = 0, oc_slippage_cost = 0, oc_total_transaction_cost = 0,
     oc_cash_change = - 10000\<rparr>"

lemma audited_order_wf: "wf_order audited_order"
  by (simp add: audited_order_def wf_order_def SUPPORTED_SYMBOL_def)

lemma audited_fill_wf: "wf_fill audited_fill"
  by (simp add: audited_fill_def wf_fill_def check_fill_def Let_def dec_eval)

lemma audited_estimated: "order_estimate audited_order 1 no_costs = Inr audited_estimate"
proof -
  have price: "execution_price_of BUY_SIDE 1 0 = 1" by (simp add: execution_price_of_def dec_eval)
  show ?thesis
    using estimate_order_cost_eq [of 10000 1 no_costs BUY_SIDE] price
    by (simp add: order_estimate_def audited_order_def estimate_of_def audited_estimate_def dec_eval cost_spec_defs Let_def)
qed

lemma audited_order_estimate_ok: "validate_order_estimate audited_order no_costs = Inr ()"
proof -
  have "po_reference_open audited_order = 1" by (simp add: audited_order_def)
  then show ?thesis
    by (simp add: validate_order_estimate_def audited_estimated)
       (simp add: audited_estimate_def audited_order_def assert_decimal_matches_decimal_def)
qed

lemma audited_order_read: "reconstruct_proposed_order (order_cells audited_order) = Inr audited_order"
  using mk_proposed_order_obj [OF audited_order_wf]
  by (simp add: reconstruct_proposed_order_def order_cells_def order_obj_def)
     (simp add: audited_order_def rbind_eq_Inr_iff)

lemma audited_decision_read: "reconstruct_risk_decision (decision_cells audited_decision) = Inr audited_decision"
  by (simp add: reconstruct_risk_decision_def audited_cells audited_close_def assert_decimal_matches_decimal_def dec_eval
      require_plain_date_def mk_risk_decision_iff wf_decision_def rbind_eq_Inr_iff)

lemma audited_fill_read: "reconstruct_fill (cells_of_fill audited_fill) = Inr audited_fill"
  using mk_fill_obj [OF audited_fill_wf]
  by (simp add: reconstruct_fill_def cells_of_fill_def fill_obj_def)
     (simp add: audited_fill_def rbind_eq_Inr_iff assert_decimal_matches_decimal_def dec_eval Let_def)

lemma audited_canonical: "canonical_order_for_replay audited_order 10000 0 1 no_costs = Inr audited_order"
proof -
  have "audited_order\<lparr>po_reference_open := 1, po_estimated_execution_price := oc_execution_price audited_estimate,
              po_estimated_commission := oc_commission audited_estimate,
              po_estimated_cash_change := oc_cash_change audited_estimate,
              po_current_cash := 10000, po_current_shares := 0\<rparr> = audited_order"
    by (simp add: audited_order_def audited_estimate_def)
  then show ?thesis
    by (simp add: canonical_order_for_replay_def audited_estimated mk_proposed_order_obj [OF audited_order_wf])
qed

lemma audited_open_state:
  "portfolio_state_at 41 10000 0 1 = Inr (sample_state 41 10000 0 1)" "wf_portfolio (sample_state 41 10000 0 1)"
  by (simp_all add: portfolio_state_at_def sample_state_def mk_portfolio_state_obj Let_def wf_portfolio_def dec_eval)

lemma audited_approval:
  "evaluate_order_risk (order_obj audited_order) (portfolio_obj (sample_state 41 10000 0 1)) default_risk_config
     (costs_obj no_costs) = Inr audited_decision"
proof -
  let ?view = "\<lparr>ov_side = Some BUY_SIDE, ov_quantity = 10000, ov_execution_date = 41, ov_target_position = Some 1,
      ov_reference_open = 1, ov_codes = []\<rparr>"
  have view: "read_order default_risk_config (sample_state 41 10000 0 1) (order_obj audited_order) = ?view"
    by (simp add: read_order_validated audited_order_wf) (simp add: audited_order_def sample_state_def SUPPORTED_SYMBOL_def)
  have codes: "field_codes 0 0 (order_obj audited_order) ?view = []"
    by (simp add: field_codes_def estimate_ok_validated audited_order_wf) (simp add: audited_order_def cost_spec_defs dec_eval)
  have rules: "apply_side_rules default_risk_config 0 0 (sample_state 41 10000 0 1) ?view =
     Inr ([], \<lparr>pj_cash = 0, pj_shares = 10000, pj_market_value = 10000, pj_equity = 10000\<rparr>)"
    by (simp add: apply_side_rules_def buy_rules_def Let_def sample_state_def default_risk_config_def exceeds_weight_def
        sample_price_values dec_eval)
  have costs: "costs_obj no_costs = decimal_costs 0 0" by (simp add: costs_obj_decimal no_costs_def)
  have rate: "dec_div 0 10000 = 0" by (simp add: dec_eval)
  have fields: "po_sequence_number audited_order = 1" "po_execution_session audited_order = 41"
    by (simp_all add: audited_order_def)
  have "wf_decision audited_decision" by (simp add: audited_decision_def wf_decision_def dec_eval)
  then show ?thesis
    unfolding costs
    by (simp add: evaluate_validated audited_order_wf audited_open_state risk_outcome_def rate view codes rules fields
        mk_risk_decision_iff) (simp add: audited_decision_def)
qed

lemma audited_fill_matches:
  "validate_fill_matches_order_and_cost audited_fill audited_order 10000 0 audited_decision no_costs = Inr ()"
proof -
  have "po_reference_open audited_order = 1" by (simp add: audited_order_def)
  then show ?thesis
    by (simp add: validate_fill_matches_order_and_cost_def audited_estimated Let_def)
       (simp add: audited_estimate_def audited_order_def audited_fill_def audited_decision_def
         assert_decimal_matches_decimal_def dec_eval)
qed

definition audited_books :: audit_books where
  "audited_books = \<lparr>bk_orders = [audited_order], bk_decisions = [audited_decision], bk_fills = [audited_fill]\<rparr>"

abbreviation audited_signal :: signal_row where
  "audited_signal \<equiv> \<lparr>sr_signal_session = PyDate 40, sr_execution_session = PyDate 41, sr_probability_positive = Fin 1,
     sr_target_position = 1\<rparr>"

lemma audited_numbers: "po_sequence_number audited_order = 1" "rd_order_sequence_number audited_decision = 1"
  "fi_order_sequence_number audited_fill = 1" "order_key audited_order = (PyDate 40, PyDate 41)"
  "po_target_position audited_order = 1" "po_reference_open audited_order = 1" "po_current_cash audited_order = 10000"
  "po_current_shares audited_order = 0" "po_side audited_order = BUY_SIDE" "po_quantity audited_order = 10000"
  "rd_approved audited_decision" "fi_cash_after audited_fill = 0" "fi_shares_after audited_fill = 10000"
  by (simp_all add: audited_order_def audited_decision_def audited_fill_def order_key_def)

lemma audited_collected:
  "collect_books no_costs [audited_signal] [order_cells audited_order] [decision_cells audited_decision]
     [cells_of_fill audited_fill] = Inr audited_books"
  by (simp add: collect_books_def audited_order_read audited_decision_read audited_fill_read audited_order_estimate_ok
      audited_numbers check_order_key_def orders_for_def signal_targets_def Let_def dedup_def audited_books_def)

lemma audited_order_replayed:
  "replay_order audited_books audited_config default_risk_config 41 1 1 audited_order (initial_replay audited_config) =
     Inr ((initial_replay audited_config)\<lparr>ry_cash := 0, ry_shares := 10000, ry_consumed_fills := [1]\<rparr>)"
proof -
  have affordable: "maximum_affordable_buy_quantity (PyDecimal (Fin 10000)) (PyDecimal (Fin 1)) (costs_obj no_costs) = Inr 10000"
  proof -
    have "per_share_cash 1 0 0 = 1" by (simp add: per_share_cash_def execution_price_of_def dec_eval)
    then show ?thesis by (simp add: maximum_affordable_eq Let_def)
  qed
  have size: "check_order_size 1 audited_order 10000 0 1 no_costs = Inr ()"
    by (simp add: check_order_size_def affordable audited_numbers)
  have same: "assert_decision_matches_recomputed audited_decision audited_decision = Inr ()"
    by (simp add: assert_decision_matches_recomputed_def)
       (simp add: audited_decision_def assert_decimal_matches_decimal_def)
  show ?thesis
    by (simp add: replay_order_def initial_replay_def audited_config_def audited_books_def Let_def size audited_canonical
        audited_open_state audited_approval same audited_fill_matches audited_numbers assert_decimal_matches_decimal_def)
qed

lemma audited_close_replayed:
  "replay_close audited_config 0 1 (close_cells audited_close)
       ((initial_replay audited_config)\<lparr>ry_cash := 0, ry_shares := 10000, ry_consumed_fills := [1]\<rparr>) =
     Inr ((initial_replay audited_config)\<lparr>ry_cash := 0, ry_shares := 10000, ry_consumed_fills := [1]\<rparr>)"
  by (simp add: replay_close_def initial_replay_def audited_config_def Let_def close_cells_def audited_close_def
      assert_decimal_matches_decimal_def assert_float_matches_decimal_def require_finite_float_def decimal_divide_def
      rbind_eq_Inr_iff dec_eval)

lemma audited_signal_replayed:
  "replay_signal audited_books [\<lparr>xr_execution_session = PyDate 41, xr_reference_open = Fin 1, xr_close_price = Fin 1\<rparr>]
     [close_cells audited_close] audited_config default_risk_config (0, audited_signal) (initial_replay audited_config) =
     Inr ((initial_replay audited_config)\<lparr>ry_cash := 0, ry_shares := 10000, ry_consumed_fills := [1]\<rparr>)"
proof -
  have found: "orders_for (bk_orders audited_books) (PyDate 40, PyDate 41) = [audited_order]"
    by (simp add: orders_for_def audited_books_def audited_numbers)
  have row: "ac_session (close_cells audited_close) = PyDate 41" "ac_signal_session (close_cells audited_close) = PyDate 40"
    "ac_target_position (close_cells audited_close) = 1" by (simp_all add: close_cells_def audited_close_def)
  have shares: "ry_shares (initial_replay audited_config) = 0" by (simp add: initial_replay_def)
  have read: "audit_decimal True n (Fin 1) = Inr 1" for n by simp
  show ?thesis
    by (simp add: replay_signal_def row_at_def Let_def found row shares read check_order_presence_def audited_order_replayed
        audited_close_replayed)
qed

lemma audited_replay_ok:
  "validate_backtest_audit_replay (evidence_of audited_result audited_signals audited_prices) audited_config default_risk_config =
     Inr ()"
proof -
  have costs: "bc_cost_assumptions audited_config = no_costs" by (simp add: audited_config_def)
  have signals: "sf_rows (sgs_data audited_signals) = [audited_signal]" by (simp add: audited_signals_def)
  have prices: "xf_rows (xp_data audited_prices) =
      [\<lparr>xr_execution_session = PyDate 41, xr_reference_open = Fin 1, xr_close_price = Fin 1\<rparr>]"
    by (simp add: audited_prices_def)
  have rows: "fr_rows (orders_frame [audited_order]) = [order_cells audited_order]"
    "fr_rows (decisions_frame [audited_decision]) = [decision_cells audited_decision]"
    "fr_rows (fills_frame [audited_fill]) = [cells_of_fill audited_fill]"
    "fr_rows (portfolio_frame [audited_close]) = [close_cells audited_close]" by (simp_all add: audited_frames)
  show ?thesis
    by (simp add: validate_backtest_audit_replay_def evidence_of_def audited_result_def audited_dtypes_ok Let_def costs signals
        prices rows audited_collected audited_signal_replayed) (simp add: audited_books_def audited_numbers)
qed

section \<open>The result is accepted\<close>

lemma audited_lineage_ok: "check_lineage audited_result = Inr ()"
  by (simp add: check_lineage_def audited_result_def)

lemma audited_sources_ok:
  "check_sources audit_environment audited_result audited_signals audited_market audited_prices sample_checksum = Inr ()"
proof -
  have derived: "derive_execution_prices_from_source (\<lambda>_. sample_checksum) audited_market audited_signals (PyAware 5) =
      Inr audited_prices"
  proof -
    have "map_results (source_price_row (md_bars audited_market)) (sf_rows (sgs_data audited_signals)) =
        Inr (xf_rows (xp_data audited_prices))"
      by (simp add: source_price_row_def audited_market_def audited_signals_def audited_prices_def sample_bar_def
          price_row_of_def bt_require_plain_date_def)
    moreover have "calculate_execution_price_checksum (\<lambda>_. sample_checksum) (xp_data audited_prices) = Inr sample_checksum"
      by (simp add: calculate_execution_price_checksum_def audited_prices_def checksum_row_def require_finite_float_def
          rbind_eq_Inr_iff)
    ultimately show ?thesis
      using audited_prices_ok
      by (simp add: derive_execution_prices_from_source_def Let_def)
         (simp add: audited_prices_def audited_market_def audited_metadata_def audited_signals_def)
  qed
  have matched: "validate_execution_prices_match_source (\<lambda>_. sample_checksum) audited_prices audited_prices = Inr ()"
    by (simp add: validate_execution_prices_match_source_def calculate_execution_price_checksum_def checksum_row_def
        require_finite_float_def audited_prices_def price_rows_match_def Let_def)
  have created: "sgs_created_at audited_signals = PyAware 5" by (simp add: audited_signals_def)
  show ?thesis
    by (simp add: check_sources_def audit_environment_def Let_def created derived matched)
       (simp add: audited_result_def audited_signals_def audited_prices_def audited_market_def audited_metadata_def)
qed

lemma audited_terms_ok:
  "check_terms audit_environment audited_result audited_signals audited_prices audited_config = Inr (10000, no_costs, 5)"
proof -
  have "mk_cost_assumptions (costs_obj no_costs) = Inr no_costs" by (simp add: mk_cost_assumptions_obj)
  then show ?thesis
    by (simp add: check_terms_def audited_result_def Let_def)
       (simp add: audited_signals_def audited_prices_def audited_config_def audit_environment_def
         INITIAL_SIMULATED_CASH_def STRATEGY_LONG_PROBABILITY_THRESHOLD_def require_finite_float_def require_aware_utc_def
         rbind_eq_Inr_iff)
qed

lemma audited_result_ok: "\<exists>r. mk_backtest_result audit_environment float_sum audited_result = Inr r \<and>
    br_strategy_signal_set r = audited_signals \<and> br_portfolio r = br_portfolio audited_result"
proof -
  have env: "be_sklearn_version audit_environment = ''1''" "be_market_digest audit_environment = (\<lambda>_. sample_checksum)"
    "be_price_digest audit_environment = (\<lambda>_. sample_checksum)" by (simp_all add: audit_environment_def)
  have fields: "br_strategy_signal_set audited_result = audited_signals" "br_source_market_data audited_result = audited_market"
    "br_execution_prices audited_result = audited_prices" "br_risk_config audited_result = default_risk_config"
    "br_backtest_config audited_result = \<lparr>bco_cost_assumptions = costs_obj no_costs, bco_initial_cash = PyDecimal (Fin 10000)\<rparr>"
    "br_selected_model_name audited_result = hd MODEL_NAMES" "br_source_market_data_checksum audited_result = sample_checksum"
    "br_proposed_orders audited_result = orders_frame [audited_order]"
    "br_risk_decisions audited_result = decisions_frame [audited_decision]" "br_fills audited_result = fills_frame [audited_fill]"
    "br_portfolio audited_result = portfolio_frame [audited_close]" "br_metrics audited_result = audited_metrics"
    by (simp_all add: audited_result_def)
  have frames: "validate_audit_frame PROPOSED_ORDER_COLUMNS n (orders_frame os) = Inr (orders_frame os)"
    "validate_audit_frame RISK_DECISION_COLUMNS n (decisions_frame ds) = Inr (decisions_frame ds)"
    "validate_audit_frame FILL_COLUMNS n (fills_frame fs) = Inr (fills_frame fs)"
    "validate_audit_frame PORTFOLIO_COLUMNS n (portfolio_frame ps) = Inr (portfolio_frame ps)" for n os ds fs ps
    by (simp_all add: validate_audit_frame_def audited_frames)
  have dates: "map xr_execution_session (xf_rows (xp_data audited_prices)) =
      map sr_execution_session (sf_rows (sgs_data audited_signals))"
    "xp_first_execution_session audited_prices = sgs_first_execution_session audited_signals"
    "xp_last_execution_session audited_prices = sgs_last_execution_session audited_signals"
    "sgs_selected_model_name audited_signals = hd MODEL_NAMES" "hd MODEL_NAMES \<in> set MODEL_NAMES"
    by (simp_all add: audited_prices_def audited_signals_def MODEL_NAMES_def)
  have risk: "mk_risk_config default_risk_config = Inr default_risk_config"
    by (simp add: mk_risk_config_def default_risk_config_def)
  have checksum: "validate_backtest_checksum err n (PyStr sample_checksum) = Inr sample_checksum" for err n
    using sample_checksum_ok by (simp add: validate_backtest_checksum_def is_checksum_def list_all_iff)
  show ?thesis
    unfolding mk_backtest_result_def Let_def env fields audited_signals_ok audited_market_ok audited_prices_ok sum.case rbind_Inr
      audited_config_ok risk checksum audited_lineage_ok audited_sources_ok audited_terms_ok prod.case frames
      sample_to_float audited_portfolio_ok audited_replay_ok audited_agree_ok audited_metrics_ok
    by (simp add: dates fields)
qed

theorem accepted_result_holds_only_approved_trades_witness:
  "\<exists>r. mk_backtest_result audit_environment float_sum audited_result = Inr r \<and>
     map ac_shares (fr_rows (br_portfolio r)) = [10000] \<and> (\<exists>f. accounted_fill r 0 f)"
proof -
  obtain r where r: "mk_backtest_result audit_environment float_sum audited_result = Inr r"
    "br_strategy_signal_set r = audited_signals" "br_portfolio r = br_portfolio audited_result"
    using audited_result_ok by blast
  have shares: "map ac_shares (fr_rows (br_portfolio r)) = [10000]"
    by (simp add: r(3) audited_result_def portfolio_frame_def frame_of_def close_cells_def audited_close_def)
  then have moved: "ac_shares (fr_rows (br_portfolio r) ! 0) \<noteq> position_before (fr_rows (br_portfolio r)) 0"
    by (cases "fr_rows (br_portfolio r)") (simp_all add: position_before_def)
  have signalled: "0 < length (result_signals r)" by (simp add: r(2) audited_signals_def)
  from accepted_result_holds_only_approved_trades [OF r(1), unfolded Let_def, THEN conjunct2, THEN conjunct2, THEN conjunct2,
      THEN conjunct1, THEN spec, THEN mp, OF signalled, THEN conjunct2] moved
  have "\<exists>f. accounted_fill r 0 f" by (elim disjE) (erule notE)
  show ?thesis by (rule exI [of _ r], intro conjI; fact)
qed

end
