(* ===== verification/Gov_Values.thy ===== *)
theory Gov_Values
  imports Exec_Models
begin

text \<open>
  Governed paper operation, its values: the errors of its records, their identities, \<^verbatim>\<open>paper_ops/types.py\<close>, \<^verbatim>\<open>gates.py\<close>,
  \<^verbatim>\<open>policy.py\<close> and \<^verbatim>\<open>recovery.py\<close>, and the records of human supervision (\<^verbatim>\<open>supervision/\<close>).
\<close>

section \<open>Errors\<close>

text \<open>A record that its pydantic validators refuse, any other \<^verbatim>\<open>ValueError\<close>, the two errors of the registries with their
  codes, and what the execution service raises.\<close>

datatype gov_exn =
    ValidationFailed
  | ContractError
  | RegistryError string
  | ArtifactError string
  | ServiceRaised exn

abbreviation validated :: "bool \<Rightarrow> gov_exn + unit" where
  "validated ok \<equiv> reject_if (\<not> ok) ValidationFailed"

abbreviation required :: "bool \<Rightarrow> gov_exn + unit" where
  "required ok \<equiv> reject_if (\<not> ok) ContractError"

section \<open>Identities\<close>

text \<open>\<^verbatim>\<open>^<prefix>[0-9a-f]{24}$\<close>, \<^verbatim>\<open>^[0-9a-f]{64}$\<close> and \<^verbatim>\<open>^[A-Za-z0-9][A-Za-z0-9._:-]{0,127}$\<close>.\<close>

definition is_identity :: "string \<Rightarrow> string \<Rightarrow> bool" where
  "is_identity prefix value \<longleftrightarrow>
     take (length prefix) value = prefix \<and> length value = length prefix + 24 \<and>
     list_all is_hex_digit (drop (length prefix) value)"

definition identity_of :: "string \<Rightarrow> string \<Rightarrow> string" where
  "identity_of prefix checksum = prefix @ take 24 checksum"

definition reference_char :: "char \<Rightarrow> bool" where
  "reference_char c \<longleftrightarrow> run_id_char c \<or> c = CHR '':''"

definition is_safe_reference :: "string \<Rightarrow> bool" where
  "is_safe_reference value \<longleftrightarrow>
     value \<noteq> [] \<and> length value \<le> 128 \<and> run_id_start (hd value) \<and> list_all reference_char (tl value)"

lemma identity_of_identity: "is_sha256_text checksum \<Longrightarrow> is_identity prefix (identity_of prefix checksum)"
  by (auto simp: is_sha256_text_def is_identity_def identity_of_def list_all_iff dest: in_set_takeD)

lemma identity_of_same_prefix [simp]: "identity_of p a = identity_of p b \<longleftrightarrow> take 24 a = take 24 b"
  by (simp add: identity_of_def)

section \<open>\<^verbatim>\<open>paper_ops/types.py\<close>\<close>

datatype phase5_gate_status = AUTHORIZED | BLOCKED_PENDING_SEPARATE_OWNER_AUTHORIZATION | BLOCKED_NO_APPROVED_PAPER_MODEL

datatype recovery_disposition = NO_ACTION_TERMINAL | RECONCILIATION_REQUIRED | BLOCKED_DISPOSITION | INVALID_STATE

datatype operational_issue =
    PHASE5_BROKER_SUBMISSION_NOT_AUTHORIZED
  | NO_APPROVED_PAPER_MODEL
  | RECONCILIATION_REQUIRED_ISSUE
  | TERMINAL_NO_RESUBMISSION
  | BLOCKED_ATTEMPT
  | UNKNOWN_ATTEMPT_STATE
  | INVALID_ATTEMPT_STATE

record operation_readiness =
  or_gate :: string
  or_status :: phase5_gate_status
  or_allowed :: bool
  or_reason :: string
  or_issues :: "operational_issue list"

record recovery_decision =
  rc_attempt_status :: string
  rc_disposition :: recovery_disposition
  rc_reason :: string
  rc_issues :: "operational_issue list"
  rc_broker_submission_allowed :: bool
  rc_automatic_resubmission_allowed :: bool
  rc_requires_client_order_id_lookup :: bool

definition mk_recovery_decision :: "recovery_decision \<Rightarrow> gov_exn + recovery_decision" where
  "mk_recovery_decision d =
     rbind (required (\<not> rc_broker_submission_allowed d)) (\<lambda>_.
     rbind (required (\<not> rc_automatic_resubmission_allowed d)) (\<lambda>_. Inr d))"

section \<open>\<^verbatim>\<open>paper_ops/gates.py\<close> and \<^verbatim>\<open>policy.py\<close>\<close>

definition PHASE5_GATE_INFRASTRUCTURE :: string where "PHASE5_GATE_INFRASTRUCTURE = ''P5-A''"
definition PHASE5_GATE_BROKER_SUBMISSION :: string where "PHASE5_GATE_BROKER_SUBMISSION = ''P5-B''"
definition PHASE5_GATE_MODEL_CONNECTED_PAPER :: string where "PHASE5_GATE_MODEL_CONNECTED_PAPER = ''P5-C''"

definition evaluate_phase5_infrastructure_gate :: operation_readiness where
  "evaluate_phase5_infrastructure_gate =
     \<lparr>or_gate = PHASE5_GATE_INFRASTRUCTURE, or_status = AUTHORIZED, or_allowed = True,
      or_reason = ''Phase 4 Beta 1 is released, and Phase 5 specification plus offline safety/recovery scaffolding is authorized.'',
      or_issues = []\<rparr>"

text \<open>The metadata of the caller is an argument that the gates do not read.\<close>

definition evaluate_phase5_broker_submission_gate :: "'metadata \<Rightarrow> operation_readiness" where
  "evaluate_phase5_broker_submission_gate _ =
     \<lparr>or_gate = PHASE5_GATE_BROKER_SUBMISSION, or_status = BLOCKED_PENDING_SEPARATE_OWNER_AUTHORIZATION, or_allowed = False,
      or_reason = ''Actual Phase 5 paper broker submission requires separate owner authorization.'',
      or_issues = [PHASE5_BROKER_SUBMISSION_NOT_AUTHORIZED]\<rparr>"

definition evaluate_phase5_model_connected_paper_gate :: "'metadata \<Rightarrow> operation_readiness" where
  "evaluate_phase5_model_connected_paper_gate _ =
     \<lparr>or_gate = PHASE5_GATE_MODEL_CONNECTED_PAPER, or_status = BLOCKED_NO_APPROVED_PAPER_MODEL, or_allowed = False,
      or_reason = ''Phase 3 produced NO CANDIDATE PROMOTION, so no paper model or model-generated paper proposal source is approved.'',
      or_issues = [NO_APPROVED_PAPER_MODEL]\<rparr>"

definition evaluate_phase5_readiness :: "'metadata \<Rightarrow> 'metadata \<Rightarrow> operation_readiness list" where
  "evaluate_phase5_readiness broker_metadata model_metadata =
     [evaluate_phase5_infrastructure_gate, evaluate_phase5_broker_submission_gate broker_metadata,
      evaluate_phase5_model_connected_paper_gate model_metadata]"

lemma readiness_ignores_metadata: "evaluate_phase5_readiness a b = evaluate_phase5_readiness c d"
  by (simp add: evaluate_phase5_readiness_def evaluate_phase5_broker_submission_gate_def
      evaluate_phase5_model_connected_paper_gate_def)

section \<open>\<^verbatim>\<open>paper_ops/recovery.py\<close>\<close>

definition PAPER_ATTEMPT_RECOVERY_DISPOSITIONS :: "(string \<times> recovery_disposition) list" where
  "PAPER_ATTEMPT_RECOVERY_DISPOSITIONS =
     [(''reserved'', RECONCILIATION_REQUIRED), (''submission_unknown'', RECONCILIATION_REQUIRED),
      (''accepted'', NO_ACTION_TERMINAL), (''broker_existing_order_found'', NO_ACTION_TERMINAL),
      (''reconciled'', NO_ACTION_TERMINAL), (''blocked'', BLOCKED_DISPOSITION), (''rejected'', BLOCKED_DISPOSITION)]"

text \<open>What may be classified: a status, or an object with attributes (\<open>None\<close>: it has none of that name).\<close>

record attempt_object =
  at_attempt_status :: pyval
  at_paper_readiness_assessment_id :: pyval
  at_client_order_id :: pyval

datatype attempt_argument = Status_text string | Attempt_object attempt_object

definition coerce_attempt_status :: "attempt_argument \<Rightarrow> string" where
  "coerce_attempt_status a =
     (case a of
        Status_text s \<Rightarrow> s
      | Attempt_object obj \<Rightarrow> (case at_attempt_status obj of PyStr s \<Rightarrow> s | _ \<Rightarrow> []))"

definition recovery_of :: "string \<Rightarrow> recovery_disposition \<Rightarrow> string \<Rightarrow> operational_issue list \<Rightarrow> bool \<Rightarrow> recovery_decision" where
  "recovery_of status disposition reason issues lookup =
     \<lparr>rc_attempt_status = status, rc_disposition = disposition, rc_reason = reason, rc_issues = issues,
      rc_broker_submission_allowed = False, rc_automatic_resubmission_allowed = False,
      rc_requires_client_order_id_lookup = lookup\<rparr>"

definition classify_paper_attempt_recovery :: "attempt_argument \<Rightarrow> gov_exn + recovery_decision" where
  "classify_paper_attempt_recovery attempt_or_status =
     (let status = coerce_attempt_status attempt_or_status in
      mk_recovery_decision
        (case map_of PAPER_ATTEMPT_RECOVERY_DISPOSITIONS status of
           None \<Rightarrow> recovery_of status INVALID_STATE
             ''Unrecognized paper-attempt state. Fail closed and investigate manually.'' [UNKNOWN_ATTEMPT_STATE] False
         | Some disposition \<Rightarrow>
             if disposition = RECONCILIATION_REQUIRED then
               recovery_of status disposition
                 ''Attempt is incomplete or uncertain. Reconcile by deterministic client_order_id before any future action.''
                 [RECONCILIATION_REQUIRED_ISSUE] True
             else if disposition = NO_ACTION_TERMINAL then
               recovery_of status disposition ''Attempt is terminal. Do not resubmit or mutate it automatically.''
                 [TERMINAL_NO_RESUBMISSION] False
             else
               recovery_of status disposition ''Attempt is blocked or definitively rejected. Do not resubmit automatically.''
                 [BLOCKED_ATTEMPT, TERMINAL_NO_RESUBMISSION] False))"

text \<open>The recovery matrix covers every state of the ledger, and asks for a reconciliation exactly in those states in which
  the service accepts one.\<close>

lemma recovery_of_state:
  "map_of PAPER_ATTEMPT_RECOVERY_DISPOSITIONS (state_text s) =
     Some (case s of
        PAPER_ATTEMPT_RESERVED \<Rightarrow> RECONCILIATION_REQUIRED
      | PAPER_ATTEMPT_SUBMISSION_UNKNOWN \<Rightarrow> RECONCILIATION_REQUIRED
      | PAPER_ATTEMPT_BLOCKED \<Rightarrow> BLOCKED_DISPOSITION
      | PAPER_ATTEMPT_REJECTED \<Rightarrow> BLOCKED_DISPOSITION
      | _ \<Rightarrow> NO_ACTION_TERMINAL)"
  by (cases s) (simp_all add: PAPER_ATTEMPT_RECOVERY_DISPOSITIONS_def)

lemma recovery_of_other: "state_of_text t = None \<Longrightarrow> map_of PAPER_ATTEMPT_RECOVERY_DISPOSITIONS t = None"
  by (auto simp: state_of_text_def PAPER_ATTEMPT_STATES_def PAPER_ATTEMPT_RECOVERY_DISPOSITIONS_def split: if_splits)

lemma classified:
  assumes "classify_paper_attempt_recovery a = Inr d"
  shows "rc_attempt_status d = coerce_attempt_status a" "\<not> rc_broker_submission_allowed d"
    "\<not> rc_automatic_resubmission_allowed d"
    "rc_requires_client_order_id_lookup d \<longleftrightarrow>
       coerce_attempt_status a \<in> {state_text PAPER_ATTEMPT_RESERVED, state_text PAPER_ATTEMPT_SUBMISSION_UNKNOWN}"
    "rc_disposition d = INVALID_STATE \<longleftrightarrow> state_of_text (coerce_attempt_status a) = None"
proof -
  show "rc_attempt_status d = coerce_attempt_status a" "\<not> rc_broker_submission_allowed d" "\<not> rc_automatic_resubmission_allowed d"
    using assms by (auto simp: classify_paper_attempt_recovery_def mk_recovery_decision_def recovery_of_def Let_def
        split: option.splits if_splits)
  have "(rc_requires_client_order_id_lookup d \<longleftrightarrow>
       coerce_attempt_status a \<in> {state_text PAPER_ATTEMPT_RESERVED, state_text PAPER_ATTEMPT_SUBMISSION_UNKNOWN}) \<and>
    (rc_disposition d = INVALID_STATE \<longleftrightarrow> state_of_text (coerce_attempt_status a) = None)"
  proof (cases "state_of_text (coerce_attempt_status a)")
    case None
    then have "coerce_attempt_status a \<noteq> state_text s" for s by (metis option.distinct(1) state_of_state_text)
    then show ?thesis
      using assms recovery_of_other [OF None] None
      by (auto simp: classify_paper_attempt_recovery_def mk_recovery_decision_def recovery_of_def simp del: state_text.simps)
  next
    case (Some s)
    then have status: "coerce_attempt_status a = state_text s" by (simp add: state_of_text_Some)
    show ?thesis
      using assms unfolding classify_paper_attempt_recovery_def Let_def status recovery_of_state
      by (cases s) (auto simp: mk_recovery_decision_def recovery_of_def simp del: state_text.simps)
  qed
  then show "rc_requires_client_order_id_lookup d \<longleftrightarrow>
       coerce_attempt_status a \<in> {state_text PAPER_ATTEMPT_RESERVED, state_text PAPER_ATTEMPT_SUBMISSION_UNKNOWN}"
    "rc_disposition d = INVALID_STATE \<longleftrightarrow> state_of_text (coerce_attempt_status a) = None" by blast+
qed

section \<open>The records of phase 4\<close>

text \<open>\<^verbatim>\<open>supervision/\<close>: a session over a phase 3 report, its review item, the disposition a person recorded, and the references to both
  reports. A time is an instant in UTC, or one with another offset or none.\<close>

datatype decision_support_verdict = PRESENT_FOR_HUMAN_REVIEW | ABSTAIN
datatype review_status = PENDING_HUMAN_REVIEW | NON_REVIEWABLE_ABSTENTION
datatype human_disposition = OBSERVED | DEFERRED | DISMISSED | ABSTENTION_ACKNOWLEDGED
datatype recorded_time = Utc instant | Not_utc string

record intelligence_report =
  ir_report_id :: string
  ir_assessment_id :: string
  ir_evidence_id :: string
  ir_session_id :: string
  ir_experiment_id :: string
  ir_verdict :: decision_support_verdict
  ir_relative_path :: string
  ir_checksum :: string

record supervised_session =
  ss_id :: string
  ss_invocation_id :: string
  ss_report :: intelligence_report
  ss_report_id :: string
  ss_assessment_id :: string
  ss_evidence_id :: string
  ss_intelligence_session_id :: string
  ss_experiment_id :: string
  ss_phase3_verdict :: decision_support_verdict

record review_item =
  ri_id :: string
  ri_session :: supervised_session
  ri_session_id :: string
  ri_report_id :: string
  ri_experiment_id :: string
  ri_phase3_verdict :: decision_support_verdict
  ri_review_status :: review_status

record supervised_disposition =
  sd_id :: string
  sd_review_item :: review_item
  sd_review_item_id :: string
  sd_session_id :: string
  sd_report_id :: string
  sd_experiment_id :: string
  sd_disposition :: human_disposition
  sd_human_review_reference :: string
  sd_recorded_at :: recorded_time

record supervision_report =
  sp_report_id :: string
  sp_disposition_id :: string
  sp_review_item_id :: string
  sp_supervision_session_id :: string
  sp_phase3_report_id :: string
  sp_experiment_id :: string
  sp_phase3_verdict :: decision_support_verdict
  sp_review_status :: review_status
  sp_disposition :: human_disposition
  sp_relative_path :: string
  sp_checksum :: string

text \<open>\<^verbatim>\<open>PurePosixPath\<close>: the components, without the empty ones and the single dots, and the path they make.\<close>

fun split_slash :: "string \<Rightarrow> string \<Rightarrow> string list" where
  "split_slash acc [] = [rev acc]"
| "split_slash acc (c # cs) = (if c = CHR ''/'' then rev acc # split_slash [] cs else split_slash (c # acc) cs)"

definition path_parts :: "string \<Rightarrow> string list" where
  "path_parts value = filter (\<lambda>part. part \<noteq> [] \<and> part \<noteq> ''.'') (split_slash [] value)"

fun join_slash :: "string list \<Rightarrow> string" where
  "join_slash [] = ''.''"
| "join_slash [p] = p"
| "join_slash (p # ps) = p @ ''/'' @ join_slash ps"

definition relative_path_of :: "string \<Rightarrow> gov_exn + string" where
  "relative_path_of value =
     rbind (validated (strip value \<noteq> [] \<and> CHR 0x5C \<notin> set value)) (\<lambda>_.
     rbind (validated (hd value \<noteq> CHR ''/'' \<and> ''..'' \<notin> set (path_parts value))) (\<lambda>_.
     Inr (join_slash (path_parts value))))"

definition mk_supervision_report :: "supervision_report \<Rightarrow> gov_exn + supervision_report" where
  "mk_supervision_report r =
     rbind (relative_path_of (sp_relative_path r)) (\<lambda>path.
     rbind (validated (is_identity ''aq-supervision-report-'' (sp_report_id r))) (\<lambda>_.
     rbind (validated (is_identity ''aq-supervision-disposition-'' (sp_disposition_id r))) (\<lambda>_.
     rbind (validated (is_identity ''aq-supervision-review-'' (sp_review_item_id r))) (\<lambda>_.
     rbind (validated (is_identity ''aq-supervision-session-'' (sp_supervision_session_id r))) (\<lambda>_.
     rbind (validated (is_identity ''aq-intel-report-'' (sp_phase3_report_id r))) (\<lambda>_.
     rbind (validated (is_sha256_text (sp_checksum r))) (\<lambda>_.
     rbind (validated (sp_report_id r = identity_of ''aq-supervision-report-'' (sp_checksum r))) (\<lambda>_.
     Inr (r\<lparr>sp_relative_path := path\<rparr>)))))))))"

definition mk_intelligence_report :: "intelligence_report \<Rightarrow> gov_exn + intelligence_report" where
  "mk_intelligence_report r =
     rbind (validated (is_identity ''aq-intel-report-'' (ir_report_id r))) (\<lambda>_.
     rbind (validated (is_identity ''aq-intel-assessment-'' (ir_assessment_id r))) (\<lambda>_.
     rbind (validated (is_identity ''aq-intel-evidence-'' (ir_evidence_id r))) (\<lambda>_.
     rbind (validated (is_identity ''aq-intel-session-'' (ir_session_id r))) (\<lambda>_.
     rbind (relative_path_of (ir_relative_path r)) (\<lambda>path.
     rbind (validated (is_sha256_text (ir_checksum r))) (\<lambda>_.
     rbind (validated (ir_report_id r = identity_of ''aq-intel-report-'' (ir_checksum r))) (\<lambda>_.
     Inr (r\<lparr>ir_relative_path := path\<rparr>))))))))"

end
