(* ===== verification/Gov_Chain.thy ===== *)
theory Gov_Chain
  imports Gov_Values
begin

text \<open>
  The records of governed paper operation, from the readiness session to the outcome of an authorized submission:
  \<^verbatim>\<open>paper_ops/session.py\<close>, \<^verbatim>\<open>assessment.py\<close>, \<^verbatim>\<open>recovery_case.py\<close>, \<^verbatim>\<open>execution_session.py\<close>, \<^verbatim>\<open>authorization.py\<close>, and the records
  of \<^verbatim>\<open>phase6_execution/\<close>. Each embeds its parent and is named by a digest of its content. Fields with one permitted value
  (\<^verbatim>\<open>Literal\<close>) are left out.
\<close>

section \<open>Records\<close>

record readiness_session =
  qs_id :: string
  qs_invocation_id :: string
  qs_report :: supervision_report
  qs_supervision_report_id :: string
  qs_disposition_id :: string
  qs_review_item_id :: string
  qs_supervision_session_id :: string
  qs_phase3_report_id :: string
  qs_experiment_id :: string
  qs_phase3_verdict :: decision_support_verdict
  qs_phase4_review_status :: review_status
  qs_phase4_disposition :: human_disposition

record gate_snapshot =
  qg_gate :: string
  qg_status :: phase5_gate_status
  qg_allowed :: bool
  qg_reason :: string
  qg_issues :: "operational_issue list"

datatype readiness_outcome = OFFLINE_READINESS_ONLY | BLOCKED_READINESS

record readiness_assessment =
  qa_id :: string
  qa_session :: readiness_session
  qa_session_id :: string
  qa_experiment_id :: string
  qa_phase4_review_status :: review_status
  qa_phase4_disposition :: human_disposition
  qa_gates :: "gate_snapshot list"
  qa_outcome :: readiness_outcome

record recovery_case =
  qr_id :: string
  qr_assessment :: readiness_assessment
  qr_assessment_id :: string
  qr_session_id :: string
  qr_experiment_id :: string
  qr_attempt_status :: string
  qr_recovery_disposition :: recovery_disposition
  qr_reason :: string
  qr_issues :: "operational_issue list"
  qr_requires_client_order_reference :: bool
  qr_client_order_reference :: "string option"
  qr_operator_reference :: string

record execution_session =
  xs_id :: string
  xs_invocation_id :: string
  xs_assessment :: readiness_assessment
  xs_assessment_id :: string
  xs_readiness_session_id :: string
  xs_supervision_report_id :: string
  xs_experiment_id :: string

record authorization =
  au_id :: string
  au_session :: execution_session
  au_session_id :: string
  au_experiment_id :: string
  au_signal_id :: string
  au_client_order_id :: string
  au_instruction_fingerprint :: string
  au_instruction_checksum :: string
  au_approval_id :: string
  au_approval_checksum :: string

record consumption =
  cn_id :: string
  cn_authorization_id :: string
  cn_session_id :: string
  cn_experiment_id :: string
  cn_signal_id :: string
  cn_client_order_id :: string

datatype execution_disposition =
  Outcome_accepted | Outcome_rejected | Outcome_blocked | Outcome_submission_unknown | Outcome_reconciled

record execution_outcome =
  eo_id :: string
  eo_authorization :: authorization
  eo_authorization_id :: string
  eo_session_id :: string
  eo_experiment_id :: string
  eo_signal_id :: string
  eo_client_order_id :: string
  eo_disposition :: execution_disposition
  eo_receipt_checksum :: "string option"
  eo_failure_code :: "string option"
  eo_reconciliation_lookup_only :: bool

datatype gov_document =
    Supervised_session_document supervised_session
  | Review_document review_item
  | Disposition_document supervised_disposition
  | Session_document readiness_session
  | Assessment_document readiness_assessment
  | Recovery_document recovery_case
  | Execution_session_document execution_session
  | Authorization_document authorization
  | Consumption_document consumption
  | Outcome_document execution_outcome
  | Guard_document string bool \<comment> \<open>the authorization, and whether it guards the reconciliation\<close>

text \<open>The content of a file: the canonical JSON of a document, another JSON text of its data, a JSON object that is no
  document, another JSON value, or bytes that are no JSON text.\<close>

datatype artifact =
    Canonical gov_document
  | Other_json gov_document string
  | Other_object string
  | Other_value string
  | Other_bytes string

text \<open>SHA-256, of the canonical JSON of an object or of the bytes of a file. The digest of a document is that of its fields
  without its identity (which is blank there), with the version of the identity.\<close>

record digests =
  dg_content :: "gov_document \<Rightarrow> string"
  dg_instruction :: "instruction \<Rightarrow> string"
  dg_approval :: "approval \<Rightarrow> string"
  dg_receipt :: "receipt \<Rightarrow> string"
  dg_artifact :: "artifact \<Rightarrow> string"

section \<open>\<^verbatim>\<open>paper_ops/session.py\<close>\<close>

definition paper_readiness_session_identity :: "digests \<Rightarrow> readiness_session \<Rightarrow> string" where
  "paper_readiness_session_identity dg s =
     identity_of ''aq-paper-readiness-session-'' (dg_content dg (Session_document (s\<lparr>qs_id := []\<rparr>)))"

text \<open>An embedded record is validated when it is read, and again by the record that embeds it.\<close>

definition mk_readiness_session :: "digests \<Rightarrow> readiness_session \<Rightarrow> gov_exn + readiness_session" where
  "mk_readiness_session dg obj =
     rbind (mk_supervision_report (qs_report obj)) (\<lambda>report.
     let s = obj\<lparr>qs_report := report\<rparr> in
     rbind (validated (is_identity ''aq-paper-readiness-session-'' (qs_id s))) (\<lambda>_.
     rbind (validated (is_safe_reference (qs_invocation_id s))) (\<lambda>_.
     rbind (mk_supervision_report report) (\<lambda>canonical_report.
     rbind (validated (report = canonical_report)) (\<lambda>_.
     rbind (validated
       (qs_supervision_report_id s = sp_report_id canonical_report \<and>
        qs_disposition_id s = sp_disposition_id canonical_report \<and>
        qs_review_item_id s = sp_review_item_id canonical_report \<and>
        qs_supervision_session_id s = sp_supervision_session_id canonical_report \<and>
        qs_phase3_report_id s = sp_phase3_report_id canonical_report \<and>
        qs_experiment_id s = sp_experiment_id canonical_report \<and>
        qs_phase3_verdict s = sp_phase3_verdict canonical_report \<and>
        qs_phase4_review_status s = sp_review_status canonical_report \<and>
        qs_phase4_disposition s = sp_disposition canonical_report)) (\<lambda>_.
     rbind (validated (qs_id s = paper_readiness_session_identity dg s)) (\<lambda>_.
     Inr s)))))))"

section \<open>\<^verbatim>\<open>paper_ops/assessment.py\<close>\<close>

definition gate_snapshot_of :: "operation_readiness \<Rightarrow> gate_snapshot" where
  "gate_snapshot_of r =
     \<lparr>qg_gate = or_gate r, qg_status = or_status r, qg_allowed = or_allowed r, qg_reason = or_reason r,
      qg_issues = or_issues r\<rparr>"

definition outcome_for_session :: "readiness_session \<Rightarrow> readiness_outcome" where
  "outcome_for_session s =
     (if qs_phase4_review_status s = PENDING_HUMAN_REVIEW \<and> qs_phase4_disposition s = OBSERVED
      then OFFLINE_READINESS_ONLY else BLOCKED_READINESS)"

definition paper_readiness_assessment_identity :: "digests \<Rightarrow> readiness_assessment \<Rightarrow> string" where
  "paper_readiness_assessment_identity dg a =
     identity_of ''aq-paper-readiness-assessment-'' (dg_content dg (Assessment_document (a\<lparr>qa_id := []\<rparr>)))"

definition mk_readiness_assessment :: "digests \<Rightarrow> readiness_assessment \<Rightarrow> gov_exn + readiness_assessment" where
  "mk_readiness_assessment dg obj =
     rbind (mk_readiness_session dg (qa_session obj)) (\<lambda>session.
     let a = obj\<lparr>qa_session := session\<rparr> in
     rbind (validated (is_identity ''aq-paper-readiness-assessment-'' (qa_id a))) (\<lambda>_.
     rbind (mk_readiness_session dg session) (\<lambda>canonical_session.
     rbind (validated (session = canonical_session)) (\<lambda>_.
     rbind (validated
       (qa_session_id a = qs_id canonical_session \<and> qa_experiment_id a = qs_experiment_id canonical_session \<and>
        qa_phase4_review_status a = qs_phase4_review_status canonical_session \<and>
        qa_phase4_disposition a = qs_phase4_disposition canonical_session)) (\<lambda>_.
     rbind (validated (qa_gates a = map gate_snapshot_of (evaluate_phase5_readiness () ()))) (\<lambda>_.
     rbind (validated (map qg_gate (qa_gates a) =
       [PHASE5_GATE_INFRASTRUCTURE, PHASE5_GATE_BROKER_SUBMISSION, PHASE5_GATE_MODEL_CONNECTED_PAPER])) (\<lambda>_.
     rbind (validated (\<not> qg_allowed (qa_gates a ! 1) \<and> \<not> qg_allowed (qa_gates a ! 2))) (\<lambda>_.
     rbind (validated (qa_outcome a = outcome_for_session canonical_session)) (\<lambda>_.
     rbind (validated (qa_id a = paper_readiness_assessment_identity dg a)) (\<lambda>_.
     Inr a))))))))))"

section \<open>\<^verbatim>\<open>paper_ops/recovery_case.py\<close>\<close>

definition paper_recovery_case_identity :: "digests \<Rightarrow> recovery_case \<Rightarrow> string" where
  "paper_recovery_case_identity dg c =
     identity_of ''aq-paper-recovery-case-'' (dg_content dg (Recovery_document (c\<lparr>qr_id := []\<rparr>)))"

text \<open>Inside a validator any \<^verbatim>\<open>ValueError\<close> refuses the record.\<close>

definition in_validator :: "gov_exn + 'a \<Rightarrow> gov_exn + 'a" where
  "in_validator m = (case m of Inl ContractError \<Rightarrow> Inl ValidationFailed | _ \<Rightarrow> m)"

definition mk_recovery_case :: "digests \<Rightarrow> recovery_case \<Rightarrow> gov_exn + recovery_case" where
  "mk_recovery_case dg obj =
     rbind (mk_readiness_assessment dg (qr_assessment obj)) (\<lambda>assessment.
     let c = obj\<lparr>qr_assessment := assessment\<rparr> in
     rbind (validated (is_identity ''aq-paper-recovery-case-'' (qr_id c))) (\<lambda>_.
     rbind (validated (is_safe_reference (qr_operator_reference c))) (\<lambda>_.
     rbind (validated (case qr_client_order_reference c of None \<Rightarrow> True | Some r \<Rightarrow> is_safe_reference r)) (\<lambda>_.
     rbind (mk_readiness_assessment dg assessment) (\<lambda>canonical_assessment.
     rbind (validated (assessment = canonical_assessment)) (\<lambda>_.
     rbind (validated
       (qr_assessment_id c = qa_id canonical_assessment \<and> qr_session_id c = qa_session_id canonical_assessment \<and>
        qr_experiment_id c = qa_experiment_id canonical_assessment)) (\<lambda>_.
     rbind (in_validator (classify_paper_attempt_recovery (Status_text (qr_attempt_status c)))) (\<lambda>decision.
     rbind (validated (rc_disposition decision \<noteq> INVALID_STATE)) (\<lambda>_.
     rbind (validated
       (qr_recovery_disposition c = rc_disposition decision \<and> qr_reason c = rc_reason decision \<and>
        qr_issues c = rc_issues decision \<and>
        qr_requires_client_order_reference c = rc_requires_client_order_id_lookup decision)) (\<lambda>_.
     rbind (validated (rc_requires_client_order_id_lookup decision \<longleftrightarrow> qr_client_order_reference c \<noteq> None)) (\<lambda>_.
     rbind (validated (qr_id c = paper_recovery_case_identity dg c)) (\<lambda>_.
     Inr c))))))))))))"

section \<open>\<^verbatim>\<open>paper_ops/execution_session.py\<close>\<close>

definition paper_execution_session_identity :: "digests \<Rightarrow> execution_session \<Rightarrow> string" where
  "paper_execution_session_identity dg s =
     identity_of ''aq-paper-execution-session-'' (dg_content dg (Execution_session_document (s\<lparr>xs_id := []\<rparr>)))"

definition mk_execution_session :: "digests \<Rightarrow> execution_session \<Rightarrow> gov_exn + execution_session" where
  "mk_execution_session dg obj =
     rbind (mk_readiness_assessment dg (xs_assessment obj)) (\<lambda>assessment.
     let s = obj\<lparr>xs_assessment := assessment\<rparr> in
     rbind (validated (is_identity ''aq-paper-execution-session-'' (xs_id s))) (\<lambda>_.
     rbind (validated (is_safe_reference (xs_invocation_id s))) (\<lambda>_.
     rbind (mk_readiness_assessment dg assessment) (\<lambda>canonical.
     rbind (validated (assessment = canonical)) (\<lambda>_.
     rbind (validated (qa_outcome canonical = OFFLINE_READINESS_ONLY)) (\<lambda>_.
     rbind (validated
       (xs_assessment_id s = qa_id canonical \<and> xs_readiness_session_id s = qa_session_id canonical \<and>
        xs_supervision_report_id s = qs_supervision_report_id (qa_session canonical) \<and>
        xs_experiment_id s = qa_experiment_id canonical)) (\<lambda>_.
     rbind (validated (xs_id s = paper_execution_session_identity dg s)) (\<lambda>_.
     Inr s))))))))"

section \<open>\<^verbatim>\<open>paper_ops/authorization.py\<close>\<close>

definition paper_submission_authorization_identity :: "digests \<Rightarrow> authorization \<Rightarrow> string" where
  "paper_submission_authorization_identity dg a =
     identity_of ''aq-paper-submission-authorization-'' (dg_content dg (Authorization_document (a\<lparr>au_id := []\<rparr>)))"

definition mk_authorization :: "digests \<Rightarrow> authorization \<Rightarrow> gov_exn + authorization" where
  "mk_authorization dg obj =
     rbind (mk_execution_session dg (au_session obj)) (\<lambda>session.
     let a = obj\<lparr>au_session := session\<rparr> in
     rbind (validated (is_identity ''aq-paper-submission-authorization-'' (au_id a))) (\<lambda>_.
     rbind (validated (is_sha256_text (au_instruction_checksum a) \<and> is_sha256_text (au_approval_checksum a))) (\<lambda>_.
     rbind (mk_execution_session dg session) (\<lambda>canonical_session.
     rbind (validated (session = canonical_session)) (\<lambda>_.
     rbind (validated (au_session_id a = xs_id canonical_session \<and> au_experiment_id a = xs_experiment_id canonical_session)) (\<lambda>_.
     rbind (validated (\<not> qg_allowed (qa_gates (xs_assessment canonical_session) ! 2))) (\<lambda>_.
     rbind (validated (au_id a = paper_submission_authorization_identity dg a)) (\<lambda>_.
     Inr a))))))))"

record legacy_pair =
  lp_signal_id :: string
  lp_client_order_id :: string
  lp_instruction_fingerprint :: string
  lp_instruction_checksum :: string
  lp_approval_id :: string
  lp_approval_checksum :: string

text \<open>The instruction and the approval are those of \<^verbatim>\<open>execution/models.py\<close>, whose instants are aware of their zone.\<close>

definition legacy_pair_binding :: "digests \<Rightarrow> instruction \<Rightarrow> approval \<Rightarrow> gov_exn + legacy_pair" where
  "legacy_pair_binding dg i ap =
     rbind (required (in_signal_id i \<noteq> [] \<and> in_client_order_id i \<noteq> [] \<and> in_instruction_fingerprint i \<noteq> [] \<and>
              ap_approval_id ap \<noteq> [])) (\<lambda>_.
     rbind (required (ap_approved ap)) (\<lambda>_.
     rbind (required (ap_signal_id ap = in_signal_id i \<and> ap_client_order_id ap = in_client_order_id i \<and>
              ap_instruction_fingerprint ap = in_instruction_fingerprint i)) (\<lambda>_.
     rbind (required (in_created_at_utc i < ap_approved_at_utc ap \<and> ap_approved_at_utc ap < in_expires_at_utc i)) (\<lambda>_.
     Inr \<lparr>lp_signal_id = in_signal_id i, lp_client_order_id = in_client_order_id i,
          lp_instruction_fingerprint = in_instruction_fingerprint i, lp_instruction_checksum = dg_instruction dg i,
          lp_approval_id = ap_approval_id ap, lp_approval_checksum = dg_approval dg ap\<rparr>))))"

definition authorized_pair :: "authorization \<Rightarrow> legacy_pair" where
  "authorized_pair a =
     \<lparr>lp_signal_id = au_signal_id a, lp_client_order_id = au_client_order_id a,
      lp_instruction_fingerprint = au_instruction_fingerprint a, lp_instruction_checksum = au_instruction_checksum a,
      lp_approval_id = au_approval_id a, lp_approval_checksum = au_approval_checksum a\<rparr>"

definition verify_authorization_legacy_pair ::
  "digests \<Rightarrow> authorization \<Rightarrow> instruction \<Rightarrow> approval \<Rightarrow> gov_exn + unit" where
  "verify_authorization_legacy_pair dg a i ap =
     rbind (mk_authorization dg a) (\<lambda>canonical.
     rbind (legacy_pair_binding dg i ap) (\<lambda>pair.
     required (authorized_pair canonical = pair)))"

section \<open>The records of \<^verbatim>\<open>phase6_execution/\<close>\<close>

definition paper_authorization_consumption_identity :: "digests \<Rightarrow> consumption \<Rightarrow> string" where
  "paper_authorization_consumption_identity dg c =
     identity_of ''aq-paper-authorization-consumption-'' (dg_content dg (Consumption_document (c\<lparr>cn_id := []\<rparr>)))"

definition mk_consumption :: "digests \<Rightarrow> consumption \<Rightarrow> gov_exn + consumption" where
  "mk_consumption dg c =
     rbind (validated (is_identity ''aq-paper-authorization-consumption-'' (cn_id c))) (\<lambda>_.
     rbind (validated (cn_id c = paper_authorization_consumption_identity dg c)) (\<lambda>_.
     Inr c))"

definition build_paper_authorization_consumption :: "digests \<Rightarrow> authorization \<Rightarrow> gov_exn + consumption" where
  "build_paper_authorization_consumption dg a =
     rbind (mk_authorization dg a) (\<lambda>canonical.
     let payload = \<lparr>cn_id = [], cn_authorization_id = au_id canonical, cn_session_id = au_session_id canonical,
           cn_experiment_id = au_experiment_id canonical, cn_signal_id = au_signal_id canonical,
           cn_client_order_id = au_client_order_id canonical\<rparr> in
     mk_consumption dg (payload\<lparr>cn_id := paper_authorization_consumption_identity dg payload\<rparr>))"

definition paper_execution_outcome_identity :: "digests \<Rightarrow> execution_outcome \<Rightarrow> string" where
  "paper_execution_outcome_identity dg out =
     identity_of ''aq-paper-execution-outcome-'' (dg_content dg (Outcome_document (out\<lparr>eo_id := []\<rparr>)))"

definition mk_execution_outcome :: "digests \<Rightarrow> execution_outcome \<Rightarrow> gov_exn + execution_outcome" where
  "mk_execution_outcome dg obj =
     rbind (mk_authorization dg (eo_authorization obj)) (\<lambda>embedded.
     let out = obj\<lparr>eo_authorization := embedded\<rparr> in
     rbind (validated (is_identity ''aq-paper-execution-outcome-'' (eo_id out))) (\<lambda>_.
     rbind (validated (case eo_receipt_checksum out of None \<Rightarrow> True | Some c \<Rightarrow> is_sha256_text c)) (\<lambda>_.
     rbind (mk_authorization dg embedded) (\<lambda>authorization.
     rbind (validated (authorization = embedded)) (\<lambda>_.
     rbind (validated
       (eo_authorization_id out = au_id authorization \<and> eo_session_id out = au_session_id authorization \<and>
        eo_experiment_id out = au_experiment_id authorization \<and> eo_signal_id out = au_signal_id authorization \<and>
        eo_client_order_id out = au_client_order_id authorization)) (\<lambda>_.
     rbind (validated (\<not> (eo_disposition out \<in> {Outcome_accepted, Outcome_reconciled} \<and> eo_receipt_checksum out = None))) (\<lambda>_.
     rbind (validated (\<not> (eo_disposition out \<in> {Outcome_rejected, Outcome_blocked, Outcome_submission_unknown} \<and>
              eo_failure_code out \<in> {None, Some []}))) (\<lambda>_.
     rbind (validated (\<not> (eo_disposition out = Outcome_reconciled \<and> \<not> eo_reconciliation_lookup_only out))) (\<lambda>_.
     rbind (validated (eo_id out = paper_execution_outcome_identity dg out)) (\<lambda>_.
     Inr out))))))))))"

definition build_outcome ::
  "digests \<Rightarrow> authorization \<Rightarrow> execution_disposition \<Rightarrow> receipt option \<Rightarrow> string option \<Rightarrow> bool \<Rightarrow> gov_exn + execution_outcome" where
  "build_outcome dg a disposition receipt failure_code lookup_only =
     (let payload = \<lparr>eo_id = [], eo_authorization = a, eo_authorization_id = au_id a, eo_session_id = au_session_id a,
           eo_experiment_id = au_experiment_id a, eo_signal_id = au_signal_id a,
           eo_client_order_id = au_client_order_id a, eo_disposition = disposition,
           eo_receipt_checksum = map_option (dg_receipt dg) receipt, eo_failure_code = failure_code,
           eo_reconciliation_lookup_only = lookup_only\<rparr> in
      mk_execution_outcome dg (payload\<lparr>eo_id := paper_execution_outcome_identity dg payload\<rparr>))"

end
