(* ===== verification/Gov_Files.thy ===== *)
theory Gov_Files
  imports Gov_Chain "HOL-Library.Char_ord" "HOL-Library.List_Lexorder"
begin

text \<open>
  The artifact store (\<^verbatim>\<open>research/artifacts.py\<close>) as the governed registries use it. The store is the list of the files under its
  root, newest first, each with its experiment and its name: a regular file, no link, always readable. Files are never
  deleted, only added or put in place of another.
\<close>

section \<open>Files\<close>

type_synonym file_key = "string \<times> string"
type_synonym store = "(file_key \<times> artifact) list"

text \<open>The environment: the digests, the artifact root relative to the repository, and \<open>ge_verify_intelligence\<close>, which is
  \<^verbatim>\<open>load_intelligence_report\<close> of phase 3, whose registry reads the same store.\<close>

record gov_env =
  ge_digests :: digests
  ge_root :: string
  ge_verify_intelligence :: "store \<Rightarrow> intelligence_report \<Rightarrow> gov_exn + unit"

definition validate_component :: "string \<Rightarrow> gov_exn + unit" where
  "validate_component value =
     reject_if (strip value = [] \<or> hd value = CHR ''.'' \<or> CHR ''/'' \<in> set value \<or> CHR 0x5C \<in> set value)
       (ArtifactError ''unsafe_research_artifact_component'')"

definition ends_with :: "string \<Rightarrow> string \<Rightarrow> bool" where
  "ends_with ending value \<longleftrightarrow>
     length ending \<le> length value \<and> drop (length value - length ending) value = ending"

definition artifact_path :: "string \<Rightarrow> string \<Rightarrow> gov_exn + file_key" where
  "artifact_path experiment name =
     rbind (validate_component name) (\<lambda>_.
     rbind (reject_if (\<not> (ends_with ''.json'' name \<or> ends_with ''.md'' name \<or> name = ''.gitkeep''))
       (ArtifactError ''unsupported_research_artifact_name'')) (\<lambda>_.
     rbind (validate_component experiment) (\<lambda>_.
     Inr (experiment, name))))"

definition read_json :: "store \<Rightarrow> string \<Rightarrow> string \<Rightarrow> gov_exn + artifact" where
  "read_json st experiment name =
     rbind (artifact_path experiment name) (\<lambda>path.
     case map_of st path of
       None \<Rightarrow> Inl (ArtifactError ''research_artifact_missing'')
     | Some (Other_bytes _) \<Rightarrow> Inl (ArtifactError ''research_artifact_json_load_failed'')
     | Some (Other_value _) \<Rightarrow> Inl (ArtifactError ''research_artifact_json_not_object'')
     | Some payload \<Rightarrow> Inr payload)"

definition existing_artifacts :: "store \<Rightarrow> string \<Rightarrow> gov_exn + string list" where
  "existing_artifacts st experiment =
     rbind (validate_component experiment) (\<lambda>_.
     Inr (sort (remdups (map snd (filter (\<lambda>key. fst key = experiment) (map fst st))))))"

definition relative_path :: "string \<Rightarrow> file_key \<Rightarrow> string" where
  "relative_path base path = base @ ''/'' @ fst path @ ''/'' @ snd path"

text \<open>\<^verbatim>\<open>_list_ids\<close>, of the registries of phases 5 and 6; they differ in the code of the error.\<close>

definition list_ids :: "string \<Rightarrow> store \<Rightarrow> string \<Rightarrow> string \<Rightarrow> string \<Rightarrow> gov_exn + string list" where
  "list_ids code st experiment prefix id_prefix =
     rbind (existing_artifacts st experiment) (\<lambda>names.
     rbind (map_results (\<lambda>name.
         rbind (reject_if (\<not> ends_with ''.json'' name) (RegistryError code)) (\<lambda>_.
         let identity = take (length name - length prefix - 5) (drop (length prefix) name) in
         rbind (reject_if (\<not> is_identity id_prefix identity) (RegistryError code)) (\<lambda>_.
         Inr identity)))
       (filter (\<lambda>name. take (length prefix) name = prefix) names)) (\<lambda>identities.
     Inr (sort identities)))"

text \<open>The data that a JSON object gives to a record: only a document of its kind has the fields and the version that the
  record asks for.\<close>

definition document_of :: "artifact \<Rightarrow> gov_document option" where
  "document_of file = (case file of Canonical d \<Rightarrow> Some d | Other_json d _ \<Rightarrow> Some d | _ \<Rightarrow> None)"

definition refused_as :: "string \<Rightarrow> gov_exn + 'a \<Rightarrow> gov_exn + 'a" where
  "refused_as code m = (case m of Inl ValidationFailed \<Rightarrow> Inl (RegistryError code) | _ \<Rightarrow> m)"

text \<open>The registry of phase 4 validates; those of phases 5 and 6 also compare the bytes.\<close>

definition load_record ::
  "string \<Rightarrow> (gov_document \<Rightarrow> 'a option) \<Rightarrow> ('a \<Rightarrow> gov_exn + 'a) \<Rightarrow> store \<Rightarrow> string \<Rightarrow> string \<Rightarrow> gov_exn + 'a" where
  "load_record invalid_code data build st experiment name =
     rbind (read_json st experiment name) (\<lambda>payload.
     case Option.bind (document_of payload) data of
       None \<Rightarrow> Inl (RegistryError invalid_code)
     | Some obj \<Rightarrow> refused_as invalid_code (build obj))"

definition load_model ::
  "string \<Rightarrow> string \<Rightarrow> (gov_document \<Rightarrow> 'a option) \<Rightarrow> ('a \<Rightarrow> gov_exn + 'a) \<Rightarrow> ('a \<Rightarrow> gov_document) \<Rightarrow>
     store \<Rightarrow> string \<Rightarrow> string \<Rightarrow> gov_exn + 'a" where
  "load_model invalid_code noncanonical_code data build document st experiment name =
     rbind (read_json st experiment name) (\<lambda>payload.
     rbind (case Option.bind (document_of payload) data of
              None \<Rightarrow> Inl (RegistryError invalid_code)
            | Some obj \<Rightarrow> refused_as invalid_code (build obj)) (\<lambda>model.
     rbind (reject_if (payload \<noteq> Canonical (document model)) (RegistryError noncanonical_code)) (\<lambda>_.
     Inr model)))"

definition artifact_name :: "string \<Rightarrow> string \<Rightarrow> string \<Rightarrow> string \<Rightarrow> gov_exn + string" where
  "artifact_name code prefix id_prefix value =
     rbind (reject_if (\<not> is_identity id_prefix value) (RegistryError code)) (\<lambda>_.
     Inr (prefix @ value @ ''.json''))"

end
