(* ===== verification/Gov_Review.thy ===== *)
theory Gov_Review
  imports Gov_Files Float_Text
begin

text \<open>
  Human supervision (phase 4): the constructors of \<^verbatim>\<open>supervision/session.py\<close>, \<^verbatim>\<open>review_queue.py\<close> and \<^verbatim>\<open>disposition.py\<close>, the loads of
  \<^verbatim>\<open>supervision/memory.py\<close>, and the verification of a supervision report (\<^verbatim>\<open>supervision/reporting.py\<close>).
\<close>

section \<open>Constructors\<close>

definition supervised_session_identity :: "digests \<Rightarrow> supervised_session \<Rightarrow> string" where
  "supervised_session_identity dg s =
     identity_of ''aq-supervision-session-'' (dg_content dg (Supervised_session_document (s\<lparr>ss_id := []\<rparr>)))"

definition mk_supervised_session :: "digests \<Rightarrow> supervised_session \<Rightarrow> gov_exn + supervised_session" where
  "mk_supervised_session dg obj =
     rbind (mk_intelligence_report (ss_report obj)) (\<lambda>report.
     let s = obj\<lparr>ss_report := report\<rparr> in
     rbind (validated (is_identity ''aq-supervision-session-'' (ss_id s))) (\<lambda>_.
     rbind (validated (is_safe_reference (ss_invocation_id s))) (\<lambda>_.
     rbind (mk_intelligence_report report) (\<lambda>canonical_report.
     rbind (validated (report = canonical_report)) (\<lambda>_.
     rbind (validated
       (ss_report_id s = ir_report_id canonical_report \<and> ss_assessment_id s = ir_assessment_id canonical_report \<and>
        ss_evidence_id s = ir_evidence_id canonical_report \<and> ss_intelligence_session_id s = ir_session_id canonical_report \<and>
        ss_experiment_id s = ir_experiment_id canonical_report \<and> ss_phase3_verdict s = ir_verdict canonical_report)) (\<lambda>_.
     rbind (validated (ss_id s = supervised_session_identity dg s)) (\<lambda>_.
     Inr s)))))))"

fun review_status_for_verdict :: "decision_support_verdict \<Rightarrow> review_status" where
  "review_status_for_verdict PRESENT_FOR_HUMAN_REVIEW = PENDING_HUMAN_REVIEW"
| "review_status_for_verdict ABSTAIN = NON_REVIEWABLE_ABSTENTION"

definition supervised_review_item_identity :: "digests \<Rightarrow> review_item \<Rightarrow> string" where
  "supervised_review_item_identity dg item =
     identity_of ''aq-supervision-review-'' (dg_content dg (Review_document (item\<lparr>ri_id := []\<rparr>)))"

definition mk_review_item :: "digests \<Rightarrow> review_item \<Rightarrow> gov_exn + review_item" where
  "mk_review_item dg obj =
     rbind (mk_supervised_session dg (ri_session obj)) (\<lambda>session.
     let item = obj\<lparr>ri_session := session\<rparr> in
     rbind (validated (is_identity ''aq-supervision-review-'' (ri_id item))) (\<lambda>_.
     rbind (mk_supervised_session dg session) (\<lambda>canonical_session.
     rbind (validated (session = canonical_session)) (\<lambda>_.
     rbind (validated
       (ri_session_id item = ss_id canonical_session \<and> ri_report_id item = ss_report_id canonical_session \<and>
        ri_experiment_id item = ss_experiment_id canonical_session \<and>
        ri_phase3_verdict item = ss_phase3_verdict canonical_session)) (\<lambda>_.
     rbind (validated (ri_review_status item = review_status_for_verdict (ss_phase3_verdict canonical_session))) (\<lambda>_.
     rbind (validated (ri_id item = supervised_review_item_identity dg item)) (\<lambda>_.
     Inr item)))))))"

text \<open>\<^verbatim>\<open>_validate_disposition\<close>: an abstention may only be acknowledged, and only an abstention may.\<close>

definition validate_disposition :: "review_status \<Rightarrow> human_disposition \<Rightarrow> gov_exn + unit" where
  "validate_disposition status disposition =
     (case status of
        NON_REVIEWABLE_ABSTENTION \<Rightarrow> required (disposition = ABSTENTION_ACKNOWLEDGED)
      | PENDING_HUMAN_REVIEW \<Rightarrow> required (disposition \<noteq> ABSTENTION_ACKNOWLEDGED))"

definition supervised_disposition_identity :: "digests \<Rightarrow> supervised_disposition \<Rightarrow> string" where
  "supervised_disposition_identity dg d =
     identity_of ''aq-supervision-disposition-'' (dg_content dg (Disposition_document (d\<lparr>sd_id := []\<rparr>)))"

definition mk_supervised_disposition :: "digests \<Rightarrow> supervised_disposition \<Rightarrow> gov_exn + supervised_disposition" where
  "mk_supervised_disposition dg obj =
     rbind (mk_review_item dg (sd_review_item obj)) (\<lambda>item.
     let d = obj\<lparr>sd_review_item := item\<rparr> in
     rbind (validated (is_identity ''aq-supervision-disposition-'' (sd_id d))) (\<lambda>_.
     rbind (validated (is_safe_reference (sd_human_review_reference d))) (\<lambda>_.
     rbind (validated (case sd_recorded_at d of Utc _ \<Rightarrow> True | Not_utc _ \<Rightarrow> False)) (\<lambda>_.
     rbind (mk_review_item dg item) (\<lambda>canonical_item.
     rbind (validated (item = canonical_item)) (\<lambda>_.
     rbind (validated
       (sd_review_item_id d = ri_id canonical_item \<and> sd_session_id d = ri_session_id canonical_item \<and>
        sd_report_id d = ri_report_id canonical_item \<and> sd_experiment_id d = ri_experiment_id canonical_item)) (\<lambda>_.
     rbind (in_validator (validate_disposition (ri_review_status canonical_item) (sd_disposition d))) (\<lambda>_.
     rbind (validated (sd_id d = supervised_disposition_identity dg d)) (\<lambda>_.
     Inr d)))))))))"

section \<open>Loads\<close>

fun supervised_session_data :: "gov_document \<Rightarrow> supervised_session option" where
  "supervised_session_data (Supervised_session_document s) = Some s" | "supervised_session_data _ = None"
fun review_item_data :: "gov_document \<Rightarrow> review_item option" where
  "review_item_data (Review_document item) = Some item" | "review_item_data _ = None"
fun disposition_data :: "gov_document \<Rightarrow> supervised_disposition option" where
  "disposition_data (Disposition_document d) = Some d" | "disposition_data _ = None"

definition supervised_session_name :: "string \<Rightarrow> gov_exn + string" where
  "supervised_session_name = artifact_name ''invalid_supervision_session_id'' ''axiom_supervision_session_'' ''aq-supervision-session-''"

definition review_name :: "string \<Rightarrow> gov_exn + string" where
  "review_name = artifact_name ''invalid_supervision_review_id'' ''axiom_supervision_review_'' ''aq-supervision-review-''"

definition disposition_name :: "string \<Rightarrow> gov_exn + string" where
  "disposition_name = artifact_name ''invalid_supervision_disposition_id'' ''axiom_supervision_disposition_'' ''aq-supervision-disposition-''"

definition load_supervised_session :: "gov_env \<Rightarrow> store \<Rightarrow> string \<Rightarrow> string \<Rightarrow> gov_exn + supervised_session" where
  "load_supervised_session env st experiment session_id =
     rbind (supervised_session_name session_id) (\<lambda>name.
     rbind (load_record ''invalid_supervision_session_record'' supervised_session_data (mk_supervised_session (ge_digests env))
       st experiment name) (\<lambda>session.
     rbind (reject_if (ss_id session \<noteq> session_id \<or> ss_experiment_id session \<noteq> experiment)
       (RegistryError ''supervision_session_identity_mismatch'')) (\<lambda>_.
     rbind (ge_verify_intelligence env st (ss_report session)) (\<lambda>_.
     Inr session))))"

definition load_review_item :: "gov_env \<Rightarrow> store \<Rightarrow> string \<Rightarrow> string \<Rightarrow> gov_exn + review_item" where
  "load_review_item env st experiment item_id =
     rbind (review_name item_id) (\<lambda>name.
     rbind (load_record ''invalid_supervision_review_record'' review_item_data (mk_review_item (ge_digests env)) st experiment name) (\<lambda>item.
     rbind (reject_if (ri_id item \<noteq> item_id \<or> ri_experiment_id item \<noteq> experiment)
       (RegistryError ''supervision_review_identity_mismatch'')) (\<lambda>_.
     rbind (load_supervised_session env st experiment (ri_session_id item)) (\<lambda>stored_session.
     rbind (reject_if (stored_session \<noteq> ri_session item) (RegistryError ''supervision_review_session_link_mismatch'')) (\<lambda>_.
     Inr item)))))"

definition load_disposition :: "gov_env \<Rightarrow> store \<Rightarrow> string \<Rightarrow> string \<Rightarrow> gov_exn + supervised_disposition" where
  "load_disposition env st experiment disposition_id =
     rbind (disposition_name disposition_id) (\<lambda>name.
     rbind (load_record ''invalid_supervision_disposition_record'' disposition_data (mk_supervised_disposition (ge_digests env))
       st experiment name) (\<lambda>d.
     rbind (reject_if (sd_id d \<noteq> disposition_id \<or> sd_experiment_id d \<noteq> experiment)
       (RegistryError ''supervision_disposition_identity_mismatch'')) (\<lambda>_.
     rbind (load_review_item env st experiment (sd_review_item_id d)) (\<lambda>stored_item.
     rbind (reject_if (stored_item \<noteq> sd_review_item d) (RegistryError ''supervision_disposition_review_link_mismatch'')) (\<lambda>_.
     Inr d)))))"

text \<open>\<^verbatim>\<open>_list_ids\<close> of this registry passes over the files that do not end in \<^verbatim>\<open>.json\<close>.\<close>

definition list_supervision_ids :: "store \<Rightarrow> string \<Rightarrow> string \<Rightarrow> string \<Rightarrow> gov_exn + string list" where
  "list_supervision_ids st experiment prefix id_prefix =
     rbind (existing_artifacts st experiment) (\<lambda>names.
     rbind (map_results (\<lambda>name.
         let identity = take (length name - length prefix - 5) (drop (length prefix) name) in
         rbind (reject_if (\<not> is_identity id_prefix identity) (RegistryError ''invalid_supervision_artifact_name'')) (\<lambda>_.
         Inr identity))
       (filter (\<lambda>name. take (length prefix) name = prefix \<and> ends_with ''.json'' name) names)) (\<lambda>identities.
     Inr (sort identities)))"

section \<open>Texts\<close>

fun verdict_text :: "decision_support_verdict \<Rightarrow> string" where
  "verdict_text PRESENT_FOR_HUMAN_REVIEW = ''present_for_human_review''" | "verdict_text ABSTAIN = ''abstain''"

fun review_status_text :: "review_status \<Rightarrow> string" where
  "review_status_text PENDING_HUMAN_REVIEW = ''pending_human_review''"
| "review_status_text NON_REVIEWABLE_ABSTENTION = ''non_reviewable_abstention''"

fun human_disposition_text :: "human_disposition \<Rightarrow> string" where
  "human_disposition_text OBSERVED = ''observed''"
| "human_disposition_text DEFERRED = ''deferred''"
| "human_disposition_text DISMISSED = ''dismissed''"
| "human_disposition_text ABSTENTION_ACKNOWLEDGED = ''abstention_acknowledged''"

text \<open>\<^verbatim>\<open>datetime.isoformat\<close> of an instant in UTC, which counts microseconds from the start of 1970: the Gregorian date of a day, and the
  time.\<close>

definition civil_date :: "int \<Rightarrow> int \<times> int \<times> int" where
  "civil_date day =
     (let z = day + 719468; era = z div 146097; doe = z mod 146097;
          yoe = (doe - doe div 1460 + doe div 36524 - doe div 146096) div 365;
          doy = doe - (365 * yoe + yoe div 4 - yoe div 100);
          mp = (5 * doy + 2) div 153;
          month = (if mp < 10 then mp + 3 else mp - 9)
      in (yoe + 400 * era + (if month \<le> 2 then 1 else 0), month, doy - (153 * mp + 2) div 5 + 1))"

definition padded :: "nat \<Rightarrow> int \<Rightarrow> string" where
  "padded width n = (let t = show_nat (nat n) in replicate (width - length t) CHR ''0'' @ t)"

definition isoformat :: "instant \<Rightarrow> string" where
  "isoformat t =
     (let day = t div 86400000000; rest = t mod 86400000000; seconds = rest div 1000000; micros = rest mod 1000000 in
      case civil_date day of (year, month, d) \<Rightarrow>
        padded 4 year @ ''-'' @ padded 2 month @ ''-'' @ padded 2 d @ ''T'' @
        padded 2 (seconds div 3600) @ '':'' @ padded 2 (seconds div 60 mod 60) @ '':'' @ padded 2 (seconds mod 60) @
        (if micros = 0 then [] else ''.'' @ padded 6 micros) @ ''+00:00'')"

definition recorded_text :: "recorded_time \<Rightarrow> string" where
  "recorded_text time = (case time of Utc t \<Rightarrow> isoformat t | Not_utc t \<Rightarrow> t)"

fun join_lines :: "string list \<Rightarrow> string" where
  "join_lines [] = []"
| "join_lines [l] = l"
| "join_lines (l # ls) = l @ CHR 0x0A # join_lines ls"

section \<open>The supervision report\<close>

definition code_line :: "string \<Rightarrow> string \<Rightarrow> string" where
  "code_line label value = ''- '' @ label @ '': `'' @ value @ ''`''"

definition supervision_report_name :: "supervised_disposition \<Rightarrow> string" where
  "supervision_report_name d = ''axiom_supervision_report_'' @ sd_id d @ ''.md''"

definition render_supervision_report :: "digests \<Rightarrow> supervised_disposition \<Rightarrow> gov_exn + string" where
  "render_supervision_report dg disposition =
     rbind (mk_supervised_disposition dg disposition) (\<lambda>canonical.
     let item = sd_review_item canonical; session = ri_session item in
     Inr (join_lines (
       [''# Axiom Quantum Supervised Operations Report'', [],
        code_line ''Report schema'' ''axiom-supervision-report-v1'',
        code_line ''Supervision session ID'' (ss_id session),
        code_line ''Human invocation ID'' (ss_invocation_id session),
        code_line ''Invocation source'' ''human_requested'',
        code_line ''Phase 3 report ID'' (ss_report_id session),
        code_line ''Phase 3 verdict'' (verdict_text (ss_phase3_verdict session)),
        code_line ''Review item ID'' (ri_id item),
        code_line ''Review status'' (review_status_text (ri_review_status item)),
        code_line ''Disposition ID'' (sd_id canonical),
        code_line ''Human disposition'' (human_disposition_text (sd_disposition canonical)),
        code_line ''Human review reference'' (sd_human_review_reference canonical),
        code_line ''Recorded at'' (recorded_text (sd_recorded_at canonical)),
        code_line ''Execution authority'' ''none'', [],
        ''## Verified lineage'', [],
        code_line ''Experiment ID'' (sd_experiment_id canonical),
        code_line ''Phase 3 assessment ID'' (ss_assessment_id session),
        code_line ''Phase 3 evidence ID'' (ss_evidence_id session),
        code_line ''Phase 3 Intelligence Session ID'' (ss_intelligence_session_id session), [],
        ''## Human supervision outcome'', [],
        (if ri_review_status item = NON_REVIEWABLE_ABSTENTION
         then ''The underlying Phase 3 result remains an abstention. Phase 4 records only the human acknowledgement and grants no downstream authority.''
         else ''The Phase 3 result was presented for human review. The recorded disposition is observational only and grants no downstream authority.''),
        [], ''Execution authority remains `none`.'', []])))"

text \<open>A stored text is verified against a checksum and against what is rendered; a report is the bytes of its text.\<close>

definition verify_text ::
  "gov_env \<Rightarrow> string \<Rightarrow> store \<Rightarrow> file_key \<Rightarrow> string \<Rightarrow> gov_exn + string \<Rightarrow> gov_exn + string" where
  "verify_text env prefix st path checksum rendered =
     (case map_of st path of
        None \<Rightarrow> Inl (ArtifactError ''research_artifact_missing'')
      | Some file \<Rightarrow>
          rbind (reject_if (dg_artifact (ge_digests env) file \<noteq> checksum) (RegistryError (prefix @ ''_checksum_mismatch''))) (\<lambda>_.
          rbind rendered (\<lambda>expected.
          rbind (reject_if (dg_artifact (ge_digests env) (Other_bytes expected) \<noteq> checksum)
            (RegistryError (prefix @ ''_content_mismatch''))) (\<lambda>_.
          rbind (reject_if (file \<noteq> Other_bytes expected) (RegistryError (prefix @ ''_content_mismatch''))) (\<lambda>_.
          Inr expected)))))"

definition load_supervision_report :: "gov_env \<Rightarrow> store \<Rightarrow> supervision_report \<Rightarrow> gov_exn + string" where
  "load_supervision_report env st obj =
     rbind (mk_supervision_report obj) (\<lambda>canonical.
     rbind (load_disposition env st (sp_experiment_id canonical) (sp_disposition_id canonical)) (\<lambda>d.
     let item = sd_review_item d; session = ri_session item in
     rbind (reject_if (ri_id item \<noteq> sp_review_item_id canonical \<or> ss_id session \<noteq> sp_supervision_session_id canonical \<or>
              ss_report_id session \<noteq> sp_phase3_report_id canonical \<or> ri_phase3_verdict item \<noteq> sp_phase3_verdict canonical \<or>
              ri_review_status item \<noteq> sp_review_status canonical \<or> sd_disposition d \<noteq> sp_disposition canonical)
       (RegistryError ''supervision_report_lineage_mismatch'')) (\<lambda>_.
     rbind (artifact_path (sp_experiment_id canonical) (supervision_report_name d)) (\<lambda>path.
     rbind (reject_if (relative_path (ge_root env) path \<noteq> sp_relative_path canonical)
       (RegistryError ''supervision_report_path_mismatch'')) (\<lambda>_.
     verify_text env ''supervision_report'' st path (sp_checksum canonical)
       (render_supervision_report (ge_digests env) d))))))"

end
