(* ===== verification/Gov_Store.thy ===== *)
theory Gov_Store
  imports Gov_Review
begin

text \<open>
  What the registries of phases 5 and 6 read: \<^verbatim>\<open>paper_ops/memory.py\<close> and the loads of \<^verbatim>\<open>phase6_execution/memory.py\<close>. A load verifies the
  file, the record and its whole stored ancestry.
\<close>

section \<open>Data\<close>

fun readiness_session_data :: "gov_document \<Rightarrow> readiness_session option" where
  "readiness_session_data (Session_document s) = Some s" | "readiness_session_data _ = None"
fun readiness_assessment_data :: "gov_document \<Rightarrow> readiness_assessment option" where
  "readiness_assessment_data (Assessment_document a) = Some a" | "readiness_assessment_data _ = None"
fun recovery_case_data :: "gov_document \<Rightarrow> recovery_case option" where
  "recovery_case_data (Recovery_document c) = Some c" | "recovery_case_data _ = None"
fun execution_session_data :: "gov_document \<Rightarrow> execution_session option" where
  "execution_session_data (Execution_session_document s) = Some s" | "execution_session_data _ = None"
fun authorization_data :: "gov_document \<Rightarrow> authorization option" where
  "authorization_data (Authorization_document a) = Some a" | "authorization_data _ = None"
fun consumption_data :: "gov_document \<Rightarrow> consumption option" where
  "consumption_data (Consumption_document c) = Some c" | "consumption_data _ = None"
fun outcome_data :: "gov_document \<Rightarrow> execution_outcome option" where
  "outcome_data (Outcome_document out) = Some out" | "outcome_data _ = None"

section \<open>\<^verbatim>\<open>paper_ops/memory.py\<close>\<close>

definition readiness_session_name :: "string \<Rightarrow> gov_exn + string" where
  "readiness_session_name = artifact_name ''invalid_paper_readiness_session_id'' ''axiom_paper_readiness_session_''
     ''aq-paper-readiness-session-''"

definition readiness_assessment_name :: "string \<Rightarrow> gov_exn + string" where
  "readiness_assessment_name = artifact_name ''invalid_paper_readiness_assessment_id'' ''axiom_paper_readiness_assessment_''
     ''aq-paper-readiness-assessment-''"

definition recovery_case_name :: "string \<Rightarrow> gov_exn + string" where
  "recovery_case_name = artifact_name ''invalid_paper_recovery_case_id'' ''axiom_paper_recovery_case_''
     ''aq-paper-recovery-case-''"

definition load_readiness_session :: "gov_env \<Rightarrow> store \<Rightarrow> string \<Rightarrow> string \<Rightarrow> gov_exn + readiness_session" where
  "load_readiness_session env st experiment session_id =
     rbind (readiness_session_name session_id) (\<lambda>name.
     rbind (load_model ''invalid_paper_readiness_session_record'' ''noncanonical_paper_readiness_session_record''
       readiness_session_data (mk_readiness_session (ge_digests env)) Session_document st experiment name) (\<lambda>session.
     rbind (reject_if (qs_id session \<noteq> session_id \<or> qs_experiment_id session \<noteq> experiment)
       (RegistryError ''paper_readiness_session_identity_mismatch'')) (\<lambda>_.
     rbind (load_supervision_report env st (qs_report session)) (\<lambda>_.
     Inr session))))"

definition load_assessment :: "gov_env \<Rightarrow> store \<Rightarrow> string \<Rightarrow> string \<Rightarrow> gov_exn + readiness_assessment" where
  "load_assessment env st experiment assessment_id =
     rbind (readiness_assessment_name assessment_id) (\<lambda>name.
     rbind (load_model ''invalid_paper_readiness_assessment_record'' ''noncanonical_paper_readiness_assessment_record''
       readiness_assessment_data (mk_readiness_assessment (ge_digests env)) Assessment_document st experiment name) (\<lambda>assessment.
     rbind (reject_if (qa_id assessment \<noteq> assessment_id \<or> qa_experiment_id assessment \<noteq> experiment)
       (RegistryError ''paper_readiness_assessment_identity_mismatch'')) (\<lambda>_.
     rbind (load_readiness_session env st experiment (qa_session_id assessment)) (\<lambda>stored_session.
     rbind (reject_if (stored_session \<noteq> qa_session assessment)
       (RegistryError ''paper_readiness_assessment_session_link_mismatch'')) (\<lambda>_.
     Inr assessment)))))"

definition load_recovery_case :: "gov_env \<Rightarrow> store \<Rightarrow> string \<Rightarrow> string \<Rightarrow> gov_exn + recovery_case" where
  "load_recovery_case env st experiment case_id =
     rbind (recovery_case_name case_id) (\<lambda>name.
     rbind (load_model ''invalid_paper_recovery_record'' ''noncanonical_paper_recovery_record''
       recovery_case_data (mk_recovery_case (ge_digests env)) Recovery_document st experiment name) (\<lambda>stored.
     rbind (reject_if (qr_id stored \<noteq> case_id \<or> qr_experiment_id stored \<noteq> experiment)
       (RegistryError ''paper_recovery_identity_mismatch'')) (\<lambda>_.
     rbind (load_assessment env st experiment (qr_assessment_id stored)) (\<lambda>stored_assessment.
     rbind (reject_if (stored_assessment \<noteq> qr_assessment stored) (RegistryError ''paper_recovery_assessment_link_mismatch'')) (\<lambda>_.
     Inr stored)))))"

section \<open>The loads of \<^verbatim>\<open>phase6_execution/memory.py\<close>\<close>

definition phase6_name :: "string \<Rightarrow> string \<Rightarrow> string \<Rightarrow> gov_exn + string" where
  "phase6_name = artifact_name ''invalid_phase6_execution_identity''"

definition load_phase6 ::
  "string \<Rightarrow> (gov_document \<Rightarrow> 'a option) \<Rightarrow> ('a \<Rightarrow> gov_exn + 'a) \<Rightarrow> ('a \<Rightarrow> gov_document) \<Rightarrow>
     store \<Rightarrow> string \<Rightarrow> string \<Rightarrow> gov_exn + 'a" where
  "load_phase6 code = load_model code ''noncanonical_phase6_execution_record''"

definition execution_session_name :: "string \<Rightarrow> gov_exn + string" where
  "execution_session_name = phase6_name ''axiom_paper_execution_session_'' ''aq-paper-execution-session-''"

definition authorization_name :: "string \<Rightarrow> gov_exn + string" where
  "authorization_name = phase6_name ''axiom_paper_submission_authorization_'' ''aq-paper-submission-authorization-''"

definition consumption_name :: "string \<Rightarrow> gov_exn + string" where
  "consumption_name = phase6_name ''axiom_paper_authorization_consumption_'' ''aq-paper-authorization-consumption-''"

definition outcome_name :: "string \<Rightarrow> gov_exn + string" where
  "outcome_name = phase6_name ''axiom_paper_execution_outcome_'' ''aq-paper-execution-outcome-''"

definition outcome_guard_name :: "bool \<Rightarrow> string \<Rightarrow> gov_exn + string" where
  "outcome_guard_name reconciliation =
     phase6_name (if reconciliation then ''axiom_paper_reconciliation_outcome_guard_'' else ''axiom_paper_submission_outcome_guard_'')
       ''aq-paper-submission-authorization-''"

definition load_execution_session :: "gov_env \<Rightarrow> store \<Rightarrow> string \<Rightarrow> string \<Rightarrow> gov_exn + execution_session" where
  "load_execution_session env st experiment session_id =
     rbind (execution_session_name session_id) (\<lambda>name.
     rbind (load_phase6 ''invalid_paper_execution_session_record'' execution_session_data (mk_execution_session (ge_digests env))
       Execution_session_document st experiment name) (\<lambda>session.
     rbind (reject_if (xs_id session \<noteq> session_id \<or> xs_experiment_id session \<noteq> experiment)
       (RegistryError ''paper_execution_session_identity_mismatch'')) (\<lambda>_.
     rbind (load_assessment env st experiment (xs_assessment_id session)) (\<lambda>stored.
     rbind (reject_if (stored \<noteq> xs_assessment session) (RegistryError ''paper_execution_session_assessment_link_mismatch'')) (\<lambda>_.
     Inr session)))))"

definition load_authorization :: "gov_env \<Rightarrow> store \<Rightarrow> string \<Rightarrow> string \<Rightarrow> gov_exn + authorization" where
  "load_authorization env st experiment authorization_id =
     rbind (authorization_name authorization_id) (\<lambda>name.
     rbind (load_phase6 ''invalid_paper_submission_authorization_record'' authorization_data (mk_authorization (ge_digests env))
       Authorization_document st experiment name) (\<lambda>authorization.
     rbind (reject_if (au_id authorization \<noteq> authorization_id \<or> au_experiment_id authorization \<noteq> experiment)
       (RegistryError ''paper_submission_authorization_identity_mismatch'')) (\<lambda>_.
     rbind (load_execution_session env st experiment (au_session_id authorization)) (\<lambda>stored.
     rbind (reject_if (stored \<noteq> au_session authorization)
       (RegistryError ''paper_submission_authorization_session_link_mismatch'')) (\<lambda>_.
     Inr authorization)))))"

definition load_consumption :: "gov_env \<Rightarrow> store \<Rightarrow> string \<Rightarrow> string \<Rightarrow> gov_exn + consumption" where
  "load_consumption env st experiment claim_id =
     rbind (consumption_name claim_id) (\<lambda>name.
     rbind (load_phase6 ''invalid_paper_authorization_consumption_record'' consumption_data (mk_consumption (ge_digests env))
       Consumption_document st experiment name) (\<lambda>claim.
     rbind (reject_if (cn_id claim \<noteq> claim_id \<or> cn_experiment_id claim \<noteq> experiment)
       (RegistryError ''paper_authorization_consumption_identity_mismatch'')) (\<lambda>_.
     rbind (load_authorization env st experiment (cn_authorization_id claim)) (\<lambda>authorization.
     rbind (reject_if (cn_session_id claim \<noteq> au_session_id authorization \<or> cn_signal_id claim \<noteq> au_signal_id authorization \<or>
              cn_client_order_id claim \<noteq> au_client_order_id authorization)
       (RegistryError ''paper_authorization_consumption_lineage_mismatch'')) (\<lambda>_.
     Inr claim)))))"

definition load_consumption_for_authorization :: "gov_env \<Rightarrow> store \<Rightarrow> authorization \<Rightarrow> gov_exn + consumption" where
  "load_consumption_for_authorization env st authorization =
     rbind (load_authorization env st (au_experiment_id authorization) (au_id authorization)) (\<lambda>stored.
     rbind (build_paper_authorization_consumption (ge_digests env) stored) (\<lambda>expected.
     load_consumption env st (au_experiment_id stored) (cn_id expected)))"

definition load_outcome :: "gov_env \<Rightarrow> store \<Rightarrow> string \<Rightarrow> string \<Rightarrow> gov_exn + execution_outcome" where
  "load_outcome env st experiment outcome_id =
     rbind (outcome_name outcome_id) (\<lambda>name.
     rbind (load_phase6 ''invalid_paper_execution_outcome_record'' outcome_data (mk_execution_outcome (ge_digests env))
       Outcome_document st experiment name) (\<lambda>out.
     rbind (reject_if (eo_id out \<noteq> outcome_id \<or> eo_experiment_id out \<noteq> experiment)
       (RegistryError ''paper_execution_outcome_identity_mismatch'')) (\<lambda>_.
     rbind (load_authorization env st experiment (eo_authorization_id out)) (\<lambda>stored.
     rbind (reject_if (stored \<noteq> eo_authorization out) (RegistryError ''paper_execution_outcome_authorization_link_mismatch'')) (\<lambda>_.
     Inr out)))))"

definition list_outcome_ids :: "store \<Rightarrow> string \<Rightarrow> gov_exn + string list" where
  "list_outcome_ids st experiment =
     list_ids ''invalid_phase6_execution_artifact_name'' st experiment ''axiom_paper_execution_outcome_'' ''aq-paper-execution-outcome-''"

definition list_outcome_ids_for_authorization :: "gov_env \<Rightarrow> store \<Rightarrow> authorization \<Rightarrow> gov_exn + string list" where
  "list_outcome_ids_for_authorization env st authorization =
     rbind (load_authorization env st (au_experiment_id authorization) (au_id authorization)) (\<lambda>stored.
     rbind (list_outcome_ids st (au_experiment_id stored)) (\<lambda>ids.
     rbind (map_results (load_outcome env st (au_experiment_id stored)) ids) (\<lambda>outcomes.
     Inr (sort (map fst (filter (\<lambda>pair. eo_authorization_id (snd pair) = au_id stored) (zip ids outcomes)))))))"

end
