(* ===== verification/Gov_Memory.thy ===== *)
theory Gov_Memory
  imports Gov_Store Exec_Service
begin

text \<open>
  The world of a governed operation, the writes of the artifact store, the records of both registries (\<^verbatim>\<open>paper_ops/memory.py\<close>,
  \<^verbatim>\<open>phase6_execution/memory.py\<close>) and the builders of the chain, each over what is stored.

  Other processes write to the same store: before a write, and between its check and its replacement, any files may be added or
  replaced (\<open>gw_turns\<close>, which also holds how the write of the file goes; no turn left means no other process and no fault).
\<close>

section \<open>The world\<close>

datatype write_fault = Write_succeeds | Write_fails | Readback_fails

record store_turn =
  tn_before :: store
  tn_during :: store
  tn_fault :: write_fault

text \<open>The calls of the execution service are listed for the theorems.\<close>

datatype governed_event = Submitted_under authorization instruction approval | Reconciled_under authorization instant

record 'b gov_world =
  gw_store :: store
  gw_turns :: "store_turn list"
  gw_service :: "'b world"
  gw_events :: "governed_event list"

type_synonym ('a, 'b) gov_action = "'b gov_world \<Rightarrow> (gov_exn + 'a) \<times> 'b gov_world"

definition gbind :: "('a, 'b) gov_action \<Rightarrow> ('a \<Rightarrow> ('c, 'b) gov_action) \<Rightarrow> ('c, 'b) gov_action" where
  "gbind m f w = (case m w of (Inl e, w') \<Rightarrow> (Inl e, w') | (Inr x, w') \<Rightarrow> f x w')"

definition glift :: "gov_exn + 'a \<Rightarrow> ('a, 'b) gov_action" where
  "glift m w = (m, w)"

definition gread :: "(store \<Rightarrow> gov_exn + 'a) \<Rightarrow> ('a, 'b) gov_action" where
  "gread f w = (f (gw_store w), w)"

abbreviation greturn :: "'a \<Rightarrow> ('a, 'b) gov_action" where
  "greturn x \<equiv> glift (Inr x)"

abbreviation gcheck :: "bool \<Rightarrow> string \<Rightarrow> (unit, 'b) gov_action" where
  "gcheck ok code \<equiv> glift (reject_if (\<not> ok) (RegistryError code))"

lemma glift_iff [simp]: "glift m w = (r, w') \<longleftrightarrow> m = r \<and> w' = w"
  by (auto simp: glift_def)

lemma gread_iff [simp]: "gread f w = (r, w') \<longleftrightarrow> f (gw_store w) = r \<and> w' = w"
  by (auto simp: gread_def)

lemma gbindE:
  assumes "gbind m f w = (r, w')"
  obtains (raised) e where "m w = (Inl e, w')" "r = Inl e"
  | (returned) x w1 where "m w = (Inr x, w1)" "f x w1 = (r, w')"
  using assms by (auto simp: gbind_def split: prod.splits sum.splits)

lemma gbind_Inr_iff:
  "gbind m f w = (Inr y, w') \<longleftrightarrow> (\<exists>x w1. m w = (Inr x, w1) \<and> f x w1 = (Inr y, w'))"
  by (auto simp: gbind_def split: prod.splits sum.splits)

section \<open>Writes\<close>

definition store_turn_of :: "'b gov_world \<Rightarrow> store_turn" where
  "store_turn_of w =
     (case gw_turns w of [] \<Rightarrow> \<lparr>tn_before = [], tn_during = [], tn_fault = Write_succeeds\<rparr> | t # _ \<Rightarrow> t)"

text \<open>\<^verbatim>\<open>write_bytes(..., allow_replace=False)\<close>: a file with the same checksum is kept; the new file is written beside its
  place, verified and put there.\<close>

definition write_bytes :: "digests \<Rightarrow> string \<Rightarrow> string \<Rightarrow> artifact \<Rightarrow> (unit, 'b) gov_action" where
  "write_bytes dg experiment name payload w =
     (case artifact_path experiment name of
        Inl e \<Rightarrow> (Inl e, w)
      | Inr path \<Rightarrow>
          let turn = store_turn_of w;
              st = tn_before turn @ gw_store w;
              after = (\<lambda>st'. w\<lparr>gw_store := st', gw_turns := tl (gw_turns w)\<rparr>)
          in case map_of st path of
               Some existing \<Rightarrow>
                 (reject_if (dg_artifact dg existing \<noteq> dg_artifact dg payload) (ArtifactError ''research_artifact_conflict''), after st)
             | None \<Rightarrow>
                 (case tn_fault turn of
                    Write_succeeds \<Rightarrow> (Inr (), after ((path, payload) # tn_during turn @ st))
                  | Write_fails \<Rightarrow> (Inl (ArtifactError ''research_atomic_write_failed''), after (tn_during turn @ st))
                  | Readback_fails \<Rightarrow>
                      (Inl (ArtifactError ''research_atomic_write_failed''), after ((path, payload) # tn_during turn @ st))))"

abbreviation write_json :: "digests \<Rightarrow> string \<Rightarrow> string \<Rightarrow> gov_document \<Rightarrow> (unit, 'b) gov_action" where
  "write_json dg experiment name payload \<equiv> write_bytes dg experiment name (Canonical payload)"

text \<open>\<^verbatim>\<open>_write_json_exclusive\<close>: created only where no file is; a failed write deletes the file it created.\<close>

definition write_json_exclusive :: "string \<Rightarrow> string \<Rightarrow> string \<Rightarrow> gov_document \<Rightarrow> (unit, 'b) gov_action" where
  "write_json_exclusive conflict_code experiment name payload w =
     (case artifact_path experiment name of
        Inl e \<Rightarrow> (Inl e, w)
      | Inr path \<Rightarrow>
          let turn = store_turn_of w;
              st = tn_before turn @ gw_store w;
              after = (\<lambda>st'. w\<lparr>gw_store := st', gw_turns := tl (gw_turns w)\<rparr>)
          in if map_of st path \<noteq> None then (Inl (RegistryError conflict_code), after st)
             else case tn_fault turn of
                    Write_succeeds \<Rightarrow> (Inr (), after ((path, Canonical payload) # st))
                  | Write_fails \<Rightarrow> (Inl (RegistryError ''phase6_exclusive_write_failed''), after st)
                  | Readback_fails \<Rightarrow>
                      (Inl (RegistryError ''phase6_exclusive_write_failed''), after ((path, Canonical payload) # st)))"

section \<open>The records of phase 5\<close>

definition build_paper_readiness_session ::
  "gov_env \<Rightarrow> supervision_report \<Rightarrow> string \<Rightarrow> store \<Rightarrow> gov_exn + readiness_session" where
  "build_paper_readiness_session env report invocation_id st =
     rbind (mk_supervision_report report) (\<lambda>canonical_report.
     rbind (load_supervision_report env st canonical_report) (\<lambda>_.
     let payload = \<lparr>qs_id = [], qs_invocation_id = invocation_id, qs_report = canonical_report,
           qs_supervision_report_id = sp_report_id canonical_report, qs_disposition_id = sp_disposition_id canonical_report,
           qs_review_item_id = sp_review_item_id canonical_report,
           qs_supervision_session_id = sp_supervision_session_id canonical_report,
           qs_phase3_report_id = sp_phase3_report_id canonical_report, qs_experiment_id = sp_experiment_id canonical_report,
           qs_phase3_verdict = sp_phase3_verdict canonical_report, qs_phase4_review_status = sp_review_status canonical_report,
           qs_phase4_disposition = sp_disposition canonical_report\<rparr> in
     mk_readiness_session (ge_digests env)
       (payload\<lparr>qs_id := paper_readiness_session_identity (ge_digests env) payload\<rparr>)))"

definition record_readiness_session :: "gov_env \<Rightarrow> readiness_session \<Rightarrow> (string, 'b) gov_action" where
  "record_readiness_session env session =
     gbind (glift (mk_readiness_session (ge_digests env) session)) (\<lambda>canonical.
     gbind (gread (\<lambda>st. load_supervision_report env st (qs_report canonical))) (\<lambda>_.
     gbind (glift (readiness_session_name (qs_id canonical))) (\<lambda>name.
     gbind (write_json (ge_digests env) (qs_experiment_id canonical) name (Session_document canonical)) (\<lambda>_.
     gbind (gread (\<lambda>st. load_readiness_session env st (qs_experiment_id canonical) (qs_id canonical))) (\<lambda>loaded.
     gbind (gcheck (loaded = canonical) ''paper_readiness_session_reload_mismatch'') (\<lambda>_.
     greturn (qs_id canonical)))))))"

definition build_paper_readiness_assessment ::
  "gov_env \<Rightarrow> readiness_session \<Rightarrow> 'metadata \<Rightarrow> 'metadata \<Rightarrow> store \<Rightarrow> gov_exn + readiness_assessment" where
  "build_paper_readiness_assessment env session broker_metadata model_metadata st =
     rbind (mk_readiness_session (ge_digests env) session) (\<lambda>canonical_session.
     rbind (load_supervision_report env st (qs_report canonical_session)) (\<lambda>_.
     let payload = \<lparr>qa_id = [], qa_session = canonical_session, qa_session_id = qs_id canonical_session,
           qa_experiment_id = qs_experiment_id canonical_session,
           qa_phase4_review_status = qs_phase4_review_status canonical_session,
           qa_phase4_disposition = qs_phase4_disposition canonical_session,
           qa_gates = map gate_snapshot_of (evaluate_phase5_readiness broker_metadata model_metadata),
           qa_outcome = outcome_for_session canonical_session\<rparr> in
     mk_readiness_assessment (ge_digests env)
       (payload\<lparr>qa_id := paper_readiness_assessment_identity (ge_digests env) payload\<rparr>)))"

definition record_assessment :: "gov_env \<Rightarrow> readiness_assessment \<Rightarrow> (string, 'b) gov_action" where
  "record_assessment env assessment =
     gbind (glift (mk_readiness_assessment (ge_digests env) assessment)) (\<lambda>canonical.
     gbind (gread (\<lambda>st. load_readiness_session env st (qa_experiment_id canonical) (qa_session_id canonical))) (\<lambda>stored_session.
     gbind (gcheck (stored_session = qa_session canonical) ''paper_readiness_assessment_session_link_mismatch'') (\<lambda>_.
     gbind (glift (readiness_assessment_name (qa_id canonical))) (\<lambda>name.
     gbind (write_json (ge_digests env) (qa_experiment_id canonical) name (Assessment_document canonical)) (\<lambda>_.
     gbind (gread (\<lambda>st. load_assessment env st (qa_experiment_id canonical) (qa_id canonical))) (\<lambda>loaded.
     gbind (gcheck (loaded = canonical) ''paper_readiness_assessment_reload_mismatch'') (\<lambda>_.
     greturn (qa_id canonical))))))))"

definition build_paper_recovery_case ::
  "gov_env \<Rightarrow> readiness_assessment \<Rightarrow> attempt_object \<Rightarrow> string \<Rightarrow> string option \<Rightarrow> store \<Rightarrow> gov_exn + recovery_case" where
  "build_paper_recovery_case env assessment attempt operator_reference client_order_reference st =
     rbind (mk_readiness_assessment (ge_digests env) assessment) (\<lambda>canonical_assessment.
     rbind (build_paper_readiness_assessment env (qa_session canonical_assessment) () () st) (\<lambda>verified_assessment.
     rbind (reject_if (verified_assessment \<noteq> canonical_assessment) (RegistryError ''paper_recovery_assessment_link_mismatch'')) (\<lambda>_.
     rbind (required (at_paper_readiness_assessment_id attempt = PyStr (qa_id canonical_assessment))) (\<lambda>_.
     rbind (classify_paper_attempt_recovery (Attempt_object attempt)) (\<lambda>decision.
     rbind (required (rc_disposition decision \<noteq> INVALID_STATE)) (\<lambda>_.
     rbind (if rc_requires_client_order_id_lookup decision then
              (case at_client_order_id attempt of
                 PyStr persisted \<Rightarrow>
                   rbind (required (is_safe_reference persisted)) (\<lambda>_.
                   rbind (required (client_order_reference \<in> {None, Some persisted})) (\<lambda>_.
                   Inr (Some persisted)))
               | _ \<Rightarrow> Inl ContractError)
            else rbind (required (client_order_reference = None)) (\<lambda>_. Inr None)) (\<lambda>canonical_client_order_reference.
     let payload = \<lparr>qr_id = [], qr_assessment = canonical_assessment, qr_assessment_id = qa_id canonical_assessment,
           qr_session_id = qa_session_id canonical_assessment, qr_experiment_id = qa_experiment_id canonical_assessment,
           qr_attempt_status = rc_attempt_status decision, qr_recovery_disposition = rc_disposition decision,
           qr_reason = rc_reason decision, qr_issues = rc_issues decision,
           qr_requires_client_order_reference = rc_requires_client_order_id_lookup decision,
           qr_client_order_reference = canonical_client_order_reference, qr_operator_reference = operator_reference\<rparr> in
     mk_recovery_case (ge_digests env) (payload\<lparr>qr_id := paper_recovery_case_identity (ge_digests env) payload\<rparr>))))))))"

definition record_recovery_case :: "gov_env \<Rightarrow> recovery_case \<Rightarrow> (string, 'b) gov_action" where
  "record_recovery_case env obj =
     gbind (glift (mk_recovery_case (ge_digests env) obj)) (\<lambda>canonical.
     gbind (gread (\<lambda>st. load_assessment env st (qr_experiment_id canonical) (qr_assessment_id canonical))) (\<lambda>stored_assessment.
     gbind (gcheck (stored_assessment = qr_assessment canonical) ''paper_recovery_assessment_link_mismatch'') (\<lambda>_.
     gbind (glift (recovery_case_name (qr_id canonical))) (\<lambda>name.
     gbind (write_json (ge_digests env) (qr_experiment_id canonical) name (Recovery_document canonical)) (\<lambda>_.
     gbind (gread (\<lambda>st. load_recovery_case env st (qr_experiment_id canonical) (qr_id canonical))) (\<lambda>loaded.
     gbind (gcheck (loaded = canonical) ''paper_recovery_reload_mismatch'') (\<lambda>_.
     greturn (qr_id canonical))))))))"

section \<open>The records of phase 6\<close>

definition build_paper_execution_session ::
  "gov_env \<Rightarrow> readiness_assessment \<Rightarrow> string \<Rightarrow> store \<Rightarrow> gov_exn + execution_session" where
  "build_paper_execution_session env assessment invocation_id st =
     rbind (mk_readiness_assessment (ge_digests env) assessment) (\<lambda>canonical.
     rbind (load_assessment env st (qa_experiment_id canonical) (qa_id canonical)) (\<lambda>stored.
     rbind (required (stored = canonical)) (\<lambda>_.
     rbind (required (qa_outcome canonical = OFFLINE_READINESS_ONLY)) (\<lambda>_.
     let payload = \<lparr>xs_id = [], xs_invocation_id = invocation_id, xs_assessment = canonical, xs_assessment_id = qa_id canonical,
           xs_readiness_session_id = qa_session_id canonical,
           xs_supervision_report_id = qs_supervision_report_id (qa_session canonical),
           xs_experiment_id = qa_experiment_id canonical\<rparr> in
     mk_execution_session (ge_digests env)
       (payload\<lparr>xs_id := paper_execution_session_identity (ge_digests env) payload\<rparr>)))))"

definition record_execution_session :: "gov_env \<Rightarrow> execution_session \<Rightarrow> (string, 'b) gov_action" where
  "record_execution_session env session =
     gbind (glift (mk_execution_session (ge_digests env) session)) (\<lambda>canonical.
     gbind (gread (\<lambda>st. load_assessment env st (xs_experiment_id canonical) (xs_assessment_id canonical))) (\<lambda>stored.
     gbind (gcheck (stored = xs_assessment canonical) ''paper_execution_session_assessment_link_mismatch'') (\<lambda>_.
     gbind (glift (execution_session_name (xs_id canonical))) (\<lambda>name.
     gbind (write_json (ge_digests env) (xs_experiment_id canonical) name (Execution_session_document canonical)) (\<lambda>_.
     gbind (gread (\<lambda>st. load_execution_session env st (xs_experiment_id canonical) (xs_id canonical))) (\<lambda>loaded.
     gbind (gcheck (loaded = canonical) ''paper_execution_session_reload_mismatch'') (\<lambda>_.
     greturn (xs_id canonical))))))))"

definition build_paper_submission_authorization ::
  "gov_env \<Rightarrow> execution_session \<Rightarrow> instruction \<Rightarrow> approval \<Rightarrow> store \<Rightarrow> gov_exn + authorization" where
  "build_paper_submission_authorization env session i ap st =
     rbind (mk_execution_session (ge_digests env) session) (\<lambda>canonical_session.
     rbind (load_assessment env st (xs_experiment_id canonical_session) (xs_assessment_id canonical_session)) (\<lambda>stored_assessment.
     rbind (required (stored_assessment = xs_assessment canonical_session)) (\<lambda>_.
     rbind (required (\<not> qg_allowed (qa_gates (xs_assessment canonical_session) ! 2))) (\<lambda>_.
     rbind (legacy_pair_binding (ge_digests env) i ap) (\<lambda>pair.
     let payload = \<lparr>au_id = [], au_session = canonical_session, au_session_id = xs_id canonical_session,
           au_experiment_id = xs_experiment_id canonical_session, au_signal_id = lp_signal_id pair,
           au_client_order_id = lp_client_order_id pair, au_instruction_fingerprint = lp_instruction_fingerprint pair,
           au_instruction_checksum = lp_instruction_checksum pair, au_approval_id = lp_approval_id pair,
           au_approval_checksum = lp_approval_checksum pair\<rparr> in
     mk_authorization (ge_digests env)
       (payload\<lparr>au_id := paper_submission_authorization_identity (ge_digests env) payload\<rparr>))))))"

definition record_authorization :: "gov_env \<Rightarrow> authorization \<Rightarrow> (string, 'b) gov_action" where
  "record_authorization env authorization =
     gbind (glift (mk_authorization (ge_digests env) authorization)) (\<lambda>canonical.
     gbind (gread (\<lambda>st. load_execution_session env st (au_experiment_id canonical) (au_session_id canonical))) (\<lambda>stored.
     gbind (gcheck (stored = au_session canonical) ''paper_submission_authorization_session_link_mismatch'') (\<lambda>_.
     gbind (glift (authorization_name (au_id canonical))) (\<lambda>name.
     gbind (write_json (ge_digests env) (au_experiment_id canonical) name (Authorization_document canonical)) (\<lambda>_.
     gbind (gread (\<lambda>st. load_authorization env st (au_experiment_id canonical) (au_id canonical))) (\<lambda>loaded.
     gbind (gcheck (loaded = canonical) ''paper_submission_authorization_reload_mismatch'') (\<lambda>_.
     greturn (au_id canonical))))))))"

definition claim_submission :: "gov_env \<Rightarrow> authorization \<Rightarrow> (unit, 'b) gov_action" where
  "claim_submission env authorization =
     gbind (glift (mk_authorization (ge_digests env) authorization)) (\<lambda>canonical.
     gbind (gread (\<lambda>st. load_authorization env st (au_experiment_id canonical) (au_id canonical))) (\<lambda>stored.
     gbind (gcheck (stored = canonical) ''paper_submission_authorization_claim_link_mismatch'') (\<lambda>_.
     gbind (glift (build_paper_authorization_consumption (ge_digests env) canonical)) (\<lambda>claim.
     gbind (glift (consumption_name (cn_id claim))) (\<lambda>name.
     gbind (write_json_exclusive ''paper_submission_authorization_already_consumed'' (au_experiment_id canonical) name
       (Consumption_document claim)) (\<lambda>_.
     gbind (gread (\<lambda>st. load_consumption env st (au_experiment_id canonical) (cn_id claim))) (\<lambda>loaded.
     gcheck (loaded = claim) ''paper_authorization_consumption_reload_mismatch'')))))))"

text \<open>What \<^verbatim>\<open>record_outcome\<close> requires of the outcomes of the authorization that are stored: the code of the conflict.\<close>

definition outcome_slot :: "execution_outcome list \<Rightarrow> execution_outcome \<Rightarrow> gov_exn + string" where
  "outcome_slot prior canonical =
     (let submissions = filter (\<lambda>item. \<not> eo_reconciliation_lookup_only item) prior;
          reconciliations = filter eo_reconciliation_lookup_only prior
      in if eo_reconciliation_lookup_only canonical then
           rbind (reject_if (length submissions \<noteq> 1 \<or> eo_disposition (hd submissions) \<noteq> Outcome_submission_unknown)
             (RegistryError ''paper_reconciliation_without_unknown_submission'')) (\<lambda>_.
           rbind (reject_if (reconciliations \<noteq> []) (RegistryError ''paper_reconciliation_already_recorded'')) (\<lambda>_.
           Inr ''paper_reconciliation_already_recorded''))
         else
           rbind (reject_if (submissions \<noteq> []) (RegistryError ''paper_submission_outcome_already_recorded'')) (\<lambda>_.
           Inr ''paper_submission_outcome_already_recorded''))"

text \<open>The guard of the slot, the outcome and its reload.\<close>

definition append_outcome :: "gov_env \<Rightarrow> string \<Rightarrow> authorization \<Rightarrow> execution_outcome \<Rightarrow> (string, 'b) gov_action" where
  "append_outcome env conflict_code authorization canonical =
     gbind (glift (outcome_guard_name (eo_reconciliation_lookup_only canonical) (au_id authorization))) (\<lambda>guard_name.
     gbind (write_json_exclusive conflict_code (eo_experiment_id canonical) guard_name
       (Guard_document (au_id authorization) (eo_reconciliation_lookup_only canonical))) (\<lambda>_.
     gbind (glift (outcome_name (eo_id canonical))) (\<lambda>name.
     gbind (write_json (ge_digests env) (eo_experiment_id canonical) name (Outcome_document canonical)) (\<lambda>_.
     gbind (gread (\<lambda>st. load_outcome env st (eo_experiment_id canonical) (eo_id canonical))) (\<lambda>loaded.
     gbind (gcheck (loaded = canonical) ''paper_execution_outcome_reload_mismatch'') (\<lambda>_.
     greturn (eo_id canonical)))))))"

definition record_outcome :: "gov_env \<Rightarrow> execution_outcome \<Rightarrow> (string, 'b) gov_action" where
  "record_outcome env out =
     gbind (glift (mk_execution_outcome (ge_digests env) out)) (\<lambda>canonical.
     gbind (gread (\<lambda>st. load_authorization env st (eo_experiment_id canonical) (eo_authorization_id canonical))) (\<lambda>authorization.
     gbind (gcheck (authorization = eo_authorization canonical) ''paper_execution_outcome_authorization_link_mismatch'') (\<lambda>_.
     gbind (gread (\<lambda>st. load_consumption_for_authorization env st authorization)) (\<lambda>_.
     gbind (gread (\<lambda>st. rbind (list_outcome_ids_for_authorization env st authorization)
       (map_results (load_outcome env st (eo_experiment_id canonical))))) (\<lambda>prior.
     gbind (glift (outcome_slot prior canonical)) (\<lambda>conflict_code.
     append_outcome env conflict_code authorization canonical))))))"

end
