(* ===== verification/Gov_Operations.thy ===== *)
theory Gov_Operations
  imports Gov_Memory
begin

text \<open>
  The operations of human supervision and of offline readiness: builders, records, reports and the workflow of \<^verbatim>\<open>supervision/\<close>
  (phase 4), the report and the workflow of \<^verbatim>\<open>paper_ops/reporting.py\<close> (phase 5). One store serves both registries.
\<close>

section \<open>Supervision\<close>

abbreviation gverify :: "(store \<Rightarrow> gov_exn + 'a) \<Rightarrow> ('c, 'b) gov_action \<Rightarrow> ('c, 'b) gov_action" where
  "gverify f m \<equiv> gbind (gread f) (\<lambda>_. m)"

definition build_supervised_session :: "gov_env \<Rightarrow> intelligence_report \<Rightarrow> string \<Rightarrow> store \<Rightarrow> gov_exn + supervised_session" where
  "build_supervised_session env report invocation_id st =
     rbind (mk_intelligence_report report) (\<lambda>canonical_report.
     rbind (ge_verify_intelligence env st canonical_report) (\<lambda>_.
     let payload = \<lparr>ss_id = [], ss_invocation_id = invocation_id, ss_report = canonical_report,
           ss_report_id = ir_report_id canonical_report, ss_assessment_id = ir_assessment_id canonical_report,
           ss_evidence_id = ir_evidence_id canonical_report, ss_intelligence_session_id = ir_session_id canonical_report,
           ss_experiment_id = ir_experiment_id canonical_report, ss_phase3_verdict = ir_verdict canonical_report\<rparr> in
     mk_supervised_session (ge_digests env) (payload\<lparr>ss_id := supervised_session_identity (ge_digests env) payload\<rparr>)))"

definition record_supervised_session :: "gov_env \<Rightarrow> supervised_session \<Rightarrow> (string, 'b) gov_action" where
  "record_supervised_session env session =
     gbind (glift (mk_supervised_session (ge_digests env) session)) (\<lambda>canonical.
     gverify (\<lambda>st. ge_verify_intelligence env st (ss_report canonical)) (
     gbind (glift (supervised_session_name (ss_id canonical))) (\<lambda>name.
     gbind (write_json (ge_digests env) (ss_experiment_id canonical) name (Supervised_session_document canonical)) (\<lambda>_.
     gbind (gread (\<lambda>st. load_supervised_session env st (ss_experiment_id canonical) (ss_id canonical))) (\<lambda>loaded.
     gbind (gcheck (loaded = canonical) ''supervision_session_reload_mismatch'') (\<lambda>_.
     greturn (ss_id canonical)))))))"

definition build_supervised_review_item :: "gov_env \<Rightarrow> supervised_session \<Rightarrow> store \<Rightarrow> gov_exn + review_item" where
  "build_supervised_review_item env session st =
     rbind (mk_supervised_session (ge_digests env) session) (\<lambda>canonical_session.
     rbind (ge_verify_intelligence env st (ss_report canonical_session)) (\<lambda>_.
     let payload = \<lparr>ri_id = [], ri_session = canonical_session, ri_session_id = ss_id canonical_session,
           ri_report_id = ss_report_id canonical_session, ri_experiment_id = ss_experiment_id canonical_session,
           ri_phase3_verdict = ss_phase3_verdict canonical_session,
           ri_review_status = review_status_for_verdict (ss_phase3_verdict canonical_session)\<rparr> in
     mk_review_item (ge_digests env) (payload\<lparr>ri_id := supervised_review_item_identity (ge_digests env) payload\<rparr>)))"

definition record_review_item :: "gov_env \<Rightarrow> review_item \<Rightarrow> (string, 'b) gov_action" where
  "record_review_item env item =
     gbind (glift (mk_review_item (ge_digests env) item)) (\<lambda>canonical.
     gbind (gread (\<lambda>st. load_supervised_session env st (ri_experiment_id canonical) (ri_session_id canonical))) (\<lambda>stored_session.
     gbind (gcheck (stored_session = ri_session canonical) ''supervision_review_session_link_mismatch'') (\<lambda>_.
     gbind (glift (review_name (ri_id canonical))) (\<lambda>name.
     gbind (write_json (ge_digests env) (ri_experiment_id canonical) name (Review_document canonical)) (\<lambda>_.
     gbind (gread (\<lambda>st. load_review_item env st (ri_experiment_id canonical) (ri_id canonical))) (\<lambda>loaded.
     gbind (gcheck (loaded = canonical) ''supervision_review_reload_mismatch'') (\<lambda>_.
     greturn (ri_id canonical))))))))"

definition build_supervised_disposition ::
  "gov_env \<Rightarrow> review_item \<Rightarrow> human_disposition \<Rightarrow> string \<Rightarrow> recorded_time \<Rightarrow> store \<Rightarrow> gov_exn + supervised_disposition" where
  "build_supervised_disposition env item disposition human_review_reference recorded_at st =
     rbind (mk_review_item (ge_digests env) item) (\<lambda>canonical_item.
     rbind (ge_verify_intelligence env st (ss_report (ri_session canonical_item))) (\<lambda>_.
     rbind (validate_disposition (ri_review_status canonical_item) disposition) (\<lambda>_.
     let payload = \<lparr>sd_id = [], sd_review_item = canonical_item, sd_review_item_id = ri_id canonical_item,
           sd_session_id = ri_session_id canonical_item, sd_report_id = ri_report_id canonical_item,
           sd_experiment_id = ri_experiment_id canonical_item, sd_disposition = disposition,
           sd_human_review_reference = human_review_reference, sd_recorded_at = recorded_at\<rparr> in
     mk_supervised_disposition (ge_digests env)
       (payload\<lparr>sd_id := supervised_disposition_identity (ge_digests env) payload\<rparr>))))"

definition record_disposition :: "gov_env \<Rightarrow> supervised_disposition \<Rightarrow> (string, 'b) gov_action" where
  "record_disposition env disposition =
     gbind (glift (mk_supervised_disposition (ge_digests env) disposition)) (\<lambda>canonical.
     gbind (gread (\<lambda>st. load_review_item env st (sd_experiment_id canonical) (sd_review_item_id canonical))) (\<lambda>stored_item.
     gbind (gcheck (stored_item = sd_review_item canonical) ''supervision_disposition_review_link_mismatch'') (\<lambda>_.
     gbind (glift (disposition_name (sd_id canonical))) (\<lambda>name.
     gbind (write_json (ge_digests env) (sd_experiment_id canonical) name (Disposition_document canonical)) (\<lambda>_.
     gbind (gread (\<lambda>st. load_disposition env st (sd_experiment_id canonical) (sd_id canonical))) (\<lambda>loaded.
     gbind (gcheck (loaded = canonical) ''supervision_disposition_reload_mismatch'') (\<lambda>_.
     greturn (sd_id canonical))))))))"

definition write_supervision_report :: "gov_env \<Rightarrow> supervised_disposition \<Rightarrow> (supervision_report, 'b) gov_action" where
  "write_supervision_report env disposition =
     gbind (glift (mk_supervised_disposition (ge_digests env) disposition)) (\<lambda>canonical.
     gbind (gread (\<lambda>st. load_disposition env st (sd_experiment_id canonical) (sd_id canonical))) (\<lambda>stored.
     gbind (gcheck (stored = canonical) ''supervision_report_disposition_link_mismatch'') (\<lambda>_.
     gbind (glift (render_supervision_report (ge_digests env) canonical)) (\<lambda>content.
     let checksum = dg_artifact (ge_digests env) (Other_bytes content); name = supervision_report_name canonical in
     gbind (write_bytes (ge_digests env) (sd_experiment_id canonical) name (Other_bytes content)) (\<lambda>_.
     gbind (glift (artifact_path (sd_experiment_id canonical) name)) (\<lambda>path.
     gbind (glift (mk_supervision_report
       \<lparr>sp_report_id = identity_of ''aq-supervision-report-'' checksum, sp_disposition_id = sd_id canonical,
        sp_review_item_id = sd_review_item_id canonical, sp_supervision_session_id = sd_session_id canonical,
        sp_phase3_report_id = sd_report_id canonical, sp_experiment_id = sd_experiment_id canonical,
        sp_phase3_verdict = ri_phase3_verdict (sd_review_item canonical),
        sp_review_status = ri_review_status (sd_review_item canonical), sp_disposition = sd_disposition canonical,
        sp_relative_path = relative_path (ge_root env) path, sp_checksum = checksum\<rparr>)) (\<lambda>artifact.
     gbind (gread (\<lambda>st. load_supervision_report env st artifact)) (\<lambda>loaded.
     gbind (gcheck (loaded = content) ''supervision_report_reload_mismatch'') (\<lambda>_.
     greturn artifact)))))))))"

record supervision_result =
  vr_session :: supervised_session
  vr_review_item :: review_item
  vr_disposition :: supervised_disposition
  vr_report :: supervision_report

definition mk_supervision_result :: "supervision_result \<Rightarrow> gov_exn + supervision_result" where
  "mk_supervision_result r =
     rbind (validated (ri_session (vr_review_item r) = vr_session r)) (\<lambda>_.
     rbind (validated (sd_review_item (vr_disposition r) = vr_review_item r)) (\<lambda>_.
     rbind (validated
       (sp_disposition_id (vr_report r) = sd_id (vr_disposition r) \<and> sp_review_item_id (vr_report r) = ri_id (vr_review_item r) \<and>
        sp_supervision_session_id (vr_report r) = ss_id (vr_session r) \<and>
        sp_phase3_report_id (vr_report r) = ss_report_id (vr_session r) \<and>
        sp_experiment_id (vr_report r) = ss_experiment_id (vr_session r))) (\<lambda>_.
     Inr r)))"

definition run_supervised_operations_workflow ::
  "gov_env \<Rightarrow> intelligence_report \<Rightarrow> string \<Rightarrow> human_disposition \<Rightarrow> string \<Rightarrow> recorded_time \<Rightarrow> (supervision_result, 'b) gov_action" where
  "run_supervised_operations_workflow env report invocation_id disposition human_review_reference recorded_at =
     gbind (gread (build_supervised_session env report invocation_id)) (\<lambda>session.
     gbind (record_supervised_session env session) (\<lambda>_.
     gbind (gread (build_supervised_review_item env session)) (\<lambda>item.
     gbind (record_review_item env item) (\<lambda>_.
     gbind (gread (build_supervised_disposition env item disposition human_review_reference recorded_at)) (\<lambda>reviewed.
     gbind (record_disposition env reviewed) (\<lambda>_.
     gbind (write_supervision_report env reviewed) (\<lambda>artifact.
     glift (mk_supervision_result
       \<lparr>vr_session = session, vr_review_item = item, vr_disposition = reviewed, vr_report = artifact\<rparr>))))))))"

section \<open>The readiness report\<close>

record readiness_report =
  rr_report_id :: string
  rr_recovery_case_id :: string
  rr_assessment_id :: string
  rr_session_id :: string
  rr_supervision_report_id :: string
  rr_experiment_id :: string
  rr_readiness_outcome :: readiness_outcome
  rr_recovery_disposition :: recovery_disposition
  rr_attempt_status :: string
  rr_relative_path :: string
  rr_checksum :: string

definition mk_readiness_report :: "readiness_report \<Rightarrow> gov_exn + readiness_report" where
  "mk_readiness_report r =
     rbind (relative_path_of (rr_relative_path r)) (\<lambda>path.
     rbind (validated (is_identity ''aq-paper-readiness-report-'' (rr_report_id r))) (\<lambda>_.
     rbind (validated (is_identity ''aq-paper-recovery-case-'' (rr_recovery_case_id r))) (\<lambda>_.
     rbind (validated (is_identity ''aq-paper-readiness-assessment-'' (rr_assessment_id r))) (\<lambda>_.
     rbind (validated (is_identity ''aq-paper-readiness-session-'' (rr_session_id r))) (\<lambda>_.
     rbind (validated (is_identity ''aq-supervision-report-'' (rr_supervision_report_id r))) (\<lambda>_.
     rbind (validated (is_sha256_text (rr_checksum r))) (\<lambda>_.
     rbind (validated (rr_report_id r = identity_of ''aq-paper-readiness-report-'' (rr_checksum r))) (\<lambda>_.
     Inr (r\<lparr>rr_relative_path := path\<rparr>)))))))))"

fun readiness_outcome_text :: "readiness_outcome \<Rightarrow> string" where
  "readiness_outcome_text OFFLINE_READINESS_ONLY = ''offline_readiness_only''"
| "readiness_outcome_text BLOCKED_READINESS = ''blocked''"

fun gate_status_text :: "phase5_gate_status \<Rightarrow> string" where
  "gate_status_text AUTHORIZED = ''authorized''"
| "gate_status_text BLOCKED_PENDING_SEPARATE_OWNER_AUTHORIZATION = ''blocked_pending_separate_owner_authorization''"
| "gate_status_text BLOCKED_NO_APPROVED_PAPER_MODEL = ''blocked_no_approved_paper_model''"

fun recovery_disposition_text :: "recovery_disposition \<Rightarrow> string" where
  "recovery_disposition_text NO_ACTION_TERMINAL = ''no_action_terminal''"
| "recovery_disposition_text RECONCILIATION_REQUIRED = ''reconciliation_required''"
| "recovery_disposition_text BLOCKED_DISPOSITION = ''blocked''"
| "recovery_disposition_text INVALID_STATE = ''invalid_state''"

fun issue_text :: "operational_issue \<Rightarrow> string" where
  "issue_text PHASE5_BROKER_SUBMISSION_NOT_AUTHORIZED = ''phase5_broker_submission_not_authorized''"
| "issue_text NO_APPROVED_PAPER_MODEL = ''no_approved_paper_model''"
| "issue_text RECONCILIATION_REQUIRED_ISSUE = ''reconciliation_required''"
| "issue_text TERMINAL_NO_RESUBMISSION = ''terminal_no_resubmission''"
| "issue_text BLOCKED_ATTEMPT = ''blocked_attempt''"
| "issue_text UNKNOWN_ATTEMPT_STATE = ''unknown_attempt_state''"
| "issue_text INVALID_ATTEMPT_STATE = ''invalid_attempt_state''"

fun comma_separated :: "string list \<Rightarrow> string" where
  "comma_separated [] = []"
| "comma_separated [t] = t"
| "comma_separated (t # ts) = t @ '', '' @ comma_separated ts"

definition gate_line :: "gate_snapshot \<Rightarrow> string" where
  "gate_line g =
     ''- '' @ qg_gate g @ '': status='' @ gate_status_text (qg_status g) @ '', allowed='' @ (if qg_allowed g then ''true'' else ''false'') @
     '', issues='' @ (if qg_issues g = [] then ''none'' else comma_separated (map issue_text (qg_issues g)))"

definition option_text :: "string option \<Rightarrow> string" where
  "option_text value = (case value of None \<Rightarrow> ''None'' | Some t \<Rightarrow> t)"

definition readiness_report_name :: "recovery_case \<Rightarrow> string" where
  "readiness_report_name c = ''axiom_paper_readiness_report_'' @ qr_id c @ ''.md''"

definition render_paper_readiness_report :: "digests \<Rightarrow> recovery_case \<Rightarrow> gov_exn + string" where
  "render_paper_readiness_report dg obj =
     rbind (mk_recovery_case dg obj) (\<lambda>canonical.
     let assessment = qr_assessment canonical; session = qa_session assessment in
     Inr (join_lines (
       [''# Axiom Quantum Paper Readiness and Recovery Report'', [],
        ''- Report schema: axiom-paper-readiness-report-v1'',
        ''- Paper-readiness session ID: '' @ qs_id session,
        ''- Human invocation ID: '' @ qs_invocation_id session,
        ''- Invocation source: human_requested'',
        ''- Phase 4 supervision report ID: '' @ qs_supervision_report_id session,
        ''- Phase 4 review status: '' @ review_status_text (qs_phase4_review_status session),
        ''- Phase 4 disposition: '' @ human_disposition_text (qs_phase4_disposition session),
        ''- Readiness assessment ID: '' @ qa_id assessment,
        ''- Readiness outcome: '' @ readiness_outcome_text (qa_outcome assessment),
        ''- Recovery case ID: '' @ qr_id canonical,
        ''- Attempt status: '' @ qr_attempt_status canonical,
        ''- Recovery disposition: '' @ recovery_disposition_text (qr_recovery_disposition canonical),
        ''- Operator reference: '' @ qr_operator_reference canonical,
        ''- Execution authority: none'', [],
        ''## Phase 5 inherited gate posture'', []] @
       map gate_line (qa_gates assessment) @
       [[], ''## Offline recovery classification'', [], qr_reason canonical, [],
        (if qr_requires_client_order_reference canonical
         then ''Reconciliation is required by deterministic client-order reference '' @ option_text (qr_client_order_reference canonical) @
              '' before any future separately authorized action.''
         else if qr_recovery_disposition canonical = NO_ACTION_TERMINAL
         then ''The persisted attempt is terminal. No automatic resubmission or mutation is allowed.''
         else ''The persisted attempt remains blocked. No automatic retry or submission is allowed.''), [],
        ''P5-B broker paper submission remains blocked pending separate owner authorization.'',
        ''P5-C model-connected paper operation remains blocked because no approved paper model exists.'',
        ''Execution authority remains none.'', []])))"

definition load_paper_readiness_report :: "gov_env \<Rightarrow> readiness_report \<Rightarrow> store \<Rightarrow> gov_exn + string" where
  "load_paper_readiness_report env obj st =
     rbind (mk_readiness_report obj) (\<lambda>canonical.
     rbind (load_recovery_case env st (rr_experiment_id canonical) (rr_recovery_case_id canonical)) (\<lambda>c.
     let assessment = qr_assessment c; session = qa_session assessment in
     rbind (reject_if (qa_id assessment \<noteq> rr_assessment_id canonical \<or> qs_id session \<noteq> rr_session_id canonical \<or>
              qs_supervision_report_id session \<noteq> rr_supervision_report_id canonical \<or>
              qa_outcome assessment \<noteq> rr_readiness_outcome canonical \<or>
              qr_recovery_disposition c \<noteq> rr_recovery_disposition canonical \<or> qr_attempt_status c \<noteq> rr_attempt_status canonical)
       (RegistryError ''paper_readiness_report_lineage_mismatch'')) (\<lambda>_.
     rbind (artifact_path (rr_experiment_id canonical) (readiness_report_name c)) (\<lambda>path.
     rbind (reject_if (relative_path (ge_root env) path \<noteq> rr_relative_path canonical)
       (RegistryError ''paper_readiness_report_path_mismatch'')) (\<lambda>_.
     verify_text env ''paper_readiness_report'' st path (rr_checksum canonical)
       (render_paper_readiness_report (ge_digests env) c))))))"

definition write_paper_readiness_report :: "gov_env \<Rightarrow> recovery_case \<Rightarrow> (readiness_report, 'b) gov_action" where
  "write_paper_readiness_report env obj =
     gbind (glift (mk_recovery_case (ge_digests env) obj)) (\<lambda>canonical.
     gbind (gread (\<lambda>st. load_recovery_case env st (qr_experiment_id canonical) (qr_id canonical))) (\<lambda>stored.
     gbind (gcheck (stored = canonical) ''paper_readiness_report_recovery_link_mismatch'') (\<lambda>_.
     gbind (glift (render_paper_readiness_report (ge_digests env) canonical)) (\<lambda>content.
     let checksum = dg_artifact (ge_digests env) (Other_bytes content); name = readiness_report_name canonical in
     gbind (write_bytes (ge_digests env) (qr_experiment_id canonical) name (Other_bytes content)) (\<lambda>_.
     gbind (glift (artifact_path (qr_experiment_id canonical) name)) (\<lambda>path.
     gbind (glift (mk_readiness_report
       \<lparr>rr_report_id = identity_of ''aq-paper-readiness-report-'' checksum, rr_recovery_case_id = qr_id canonical,
        rr_assessment_id = qr_assessment_id canonical, rr_session_id = qr_session_id canonical,
        rr_supervision_report_id = qs_supervision_report_id (qa_session (qr_assessment canonical)),
        rr_experiment_id = qr_experiment_id canonical, rr_readiness_outcome = qa_outcome (qr_assessment canonical),
        rr_recovery_disposition = qr_recovery_disposition canonical, rr_attempt_status = qr_attempt_status canonical,
        rr_relative_path = relative_path (ge_root env) path, rr_checksum = checksum\<rparr>)) (\<lambda>artifact.
     gbind (gread (load_paper_readiness_report env artifact)) (\<lambda>loaded.
     gbind (gcheck (loaded = content) ''paper_readiness_report_reload_mismatch'') (\<lambda>_.
     greturn artifact)))))))))"

record readiness_result =
  vq_session :: readiness_session
  vq_assessment :: readiness_assessment
  vq_recovery_case :: recovery_case
  vq_report :: readiness_report

definition mk_readiness_result :: "readiness_result \<Rightarrow> gov_exn + readiness_result" where
  "mk_readiness_result r =
     rbind (validated (qa_session (vq_assessment r) = vq_session r)) (\<lambda>_.
     rbind (validated (qr_assessment (vq_recovery_case r) = vq_assessment r)) (\<lambda>_.
     rbind (validated
       (rr_recovery_case_id (vq_report r) = qr_id (vq_recovery_case r) \<and> rr_assessment_id (vq_report r) = qa_id (vq_assessment r) \<and>
        rr_session_id (vq_report r) = qs_id (vq_session r) \<and>
        rr_supervision_report_id (vq_report r) = qs_supervision_report_id (vq_session r) \<and>
        rr_experiment_id (vq_report r) = qs_experiment_id (vq_session r))) (\<lambda>_.
     Inr r)))"

definition run_paper_readiness_workflow ::
  "gov_env \<Rightarrow> supervision_report \<Rightarrow> string \<Rightarrow> string \<Rightarrow> string \<Rightarrow> string \<Rightarrow> string option \<Rightarrow> (readiness_result, 'b) gov_action" where
  "run_paper_readiness_workflow env report invocation_id attempt_status client_order_id operator_reference client_order_reference =
     gbind (gread (build_paper_readiness_session env report invocation_id)) (\<lambda>session.
     gbind (record_readiness_session env session) (\<lambda>_.
     gbind (gread (build_paper_readiness_assessment env session () ())) (\<lambda>assessment.
     gbind (record_assessment env assessment) (\<lambda>_.
     let attempt = \<lparr>at_attempt_status = PyStr attempt_status, at_paper_readiness_assessment_id = PyStr (qa_id assessment),
           at_client_order_id = PyStr client_order_id\<rparr> in
     gbind (gread (build_paper_recovery_case env assessment attempt operator_reference client_order_reference)) (\<lambda>c.
     gbind (record_recovery_case env c) (\<lambda>_.
     gbind (write_paper_readiness_report env c) (\<lambda>artifact.
     glift (mk_readiness_result
       \<lparr>vq_session = session, vq_assessment = assessment, vq_recovery_case = c, vq_report = artifact\<rparr>))))))))"

end
