(* ===== verification/Gov_Bridge.thy ===== *)
theory Gov_Bridge
  imports Gov_Operations
begin

text \<open>
  The governed calls of the execution service (\<^verbatim>\<open>phase6_execution/bridge.py\<close>), the reports and the two workflows a person invokes
  (\<^verbatim>\<open>phase6_execution/reporting.py\<close>). One store serves both registries.
\<close>

section \<open>\<^verbatim>\<open>phase6_execution/bridge.py\<close>\<close>

definition verify_authorization_lineage :: "gov_env \<Rightarrow> authorization \<Rightarrow> store \<Rightarrow> gov_exn + authorization" where
  "verify_authorization_lineage env authorization st =
     rbind (mk_authorization (ge_digests env) authorization) (\<lambda>canonical.
     rbind (load_assessment env st (au_experiment_id canonical) (xs_assessment_id (au_session canonical))) (\<lambda>stored.
     rbind (required (stored = xs_assessment (au_session canonical))) (\<lambda>_.
     Inr canonical)))"

text \<open>A call of the service ends with its result or with what it raised.\<close>

definition service_submit :: "'b service \<Rightarrow> authorization \<Rightarrow> instruction \<Rightarrow> approval \<Rightarrow> (exn + receipt, 'b) gov_action" where
  "service_submit sv a i ap w =
     (case submit_approved_order sv i ap (gw_service w) of
        (m, service_world) \<Rightarrow>
          (Inr m, w\<lparr>gw_service := service_world, gw_events := gw_events w @ [Submitted_under a i ap]\<rparr>))"

definition service_reconcile :: "'b service \<Rightarrow> authorization \<Rightarrow> instant \<Rightarrow> (exn + receipt option, 'b) gov_action" where
  "service_reconcile sv a now w =
     (case reconcile_by_client_order_id sv (PyStr (au_client_order_id a)) now (gw_service w) of
        (m, service_world) \<Rightarrow>
          (Inr m, w\<lparr>gw_service := service_world, gw_events := gw_events w @ [Reconciled_under a now]\<rparr>))"

definition submission_outcome :: "digests \<Rightarrow> authorization \<Rightarrow> exn + receipt \<Rightarrow> gov_exn + execution_outcome" where
  "submission_outcome dg a m =
     (case m of
        Inr receipt \<Rightarrow> build_outcome dg a Outcome_accepted (Some receipt) None False
      | Inl (PaperExecutionSubmissionUnknownError code) \<Rightarrow> build_outcome dg a Outcome_submission_unknown None (Some code) False
      | Inl (PaperExecutionBrokerRejectionError code) \<Rightarrow> build_outcome dg a Outcome_rejected None (Some code) False
      | Inl e \<Rightarrow> if is_paper_execution_error e then build_outcome dg a Outcome_blocked None (Some (exn_code e)) False
                 else Inl (ServiceRaised e))"

definition submit_authorized_paper_order ::
  "gov_env \<Rightarrow> 'b service \<Rightarrow> authorization \<Rightarrow> instruction \<Rightarrow> approval \<Rightarrow> (execution_outcome, 'b) gov_action" where
  "submit_authorized_paper_order env sv authorization i ap =
     gbind (gread (verify_authorization_lineage env authorization)) (\<lambda>canonical.
     gbind (glift (verify_authorization_legacy_pair (ge_digests env) canonical i ap)) (\<lambda>_.
     gbind (claim_submission env canonical) (\<lambda>_.
     gbind (service_submit sv canonical i ap) (\<lambda>m.
     glift (submission_outcome (ge_digests env) canonical m)))))"

definition reconciliation_outcome :: "digests \<Rightarrow> authorization \<Rightarrow> exn + receipt option \<Rightarrow> gov_exn + execution_outcome" where
  "reconciliation_outcome dg a m =
     (case m of
        Inr (Some receipt) \<Rightarrow> build_outcome dg a Outcome_reconciled (Some receipt) None True
      | Inr None \<Rightarrow> build_outcome dg a Outcome_submission_unknown None (Some ''reconciliation_order_not_found'') True
      | Inl (PaperExecutionSubmissionUnknownError code) \<Rightarrow> build_outcome dg a Outcome_submission_unknown None (Some code) True
      | Inl e \<Rightarrow> if is_paper_execution_error e then build_outcome dg a Outcome_blocked None (Some (exn_code e)) True
                 else Inl (ServiceRaised e))"

definition reconcile_authorized_paper_order ::
  "gov_env \<Rightarrow> 'b service \<Rightarrow> authorization \<Rightarrow> instant \<Rightarrow> (execution_outcome, 'b) gov_action" where
  "reconcile_authorized_paper_order env sv authorization now =
     gbind (gread (verify_authorization_lineage env authorization)) (\<lambda>canonical.
     gbind (service_reconcile sv canonical now) (\<lambda>m.
     glift (reconciliation_outcome (ge_digests env) canonical m)))"

section \<open>Reports\<close>

record report_artifact =
  rp_report_id :: string
  rp_authorization_id :: string
  rp_session_id :: string
  rp_experiment_id :: string
  rp_outcome_ids :: "string list"
  rp_final_outcome_id :: string
  rp_final_disposition :: execution_disposition
  rp_relative_path :: string
  rp_checksum :: string

definition mk_report_artifact :: "report_artifact \<Rightarrow> gov_exn + report_artifact" where
  "mk_report_artifact r =
     rbind (relative_path_of (rp_relative_path r)) (\<lambda>path.
     rbind (validated (is_identity ''aq-paper-execution-report-'' (rp_report_id r))) (\<lambda>_.
     rbind (validated (is_identity ''aq-paper-submission-authorization-'' (rp_authorization_id r))) (\<lambda>_.
     rbind (validated (is_identity ''aq-paper-execution-session-'' (rp_session_id r))) (\<lambda>_.
     rbind (validated (rp_outcome_ids r \<noteq> [] \<and> list_all (is_identity ''aq-paper-execution-outcome-'') (rp_outcome_ids r))) (\<lambda>_.
     rbind (validated (distinct (rp_outcome_ids r))) (\<lambda>_.
     rbind (validated (rp_final_outcome_id r = last (rp_outcome_ids r))) (\<lambda>_.
     rbind (validated (is_sha256_text (rp_checksum r))) (\<lambda>_.
     rbind (validated (rp_report_id r = identity_of ''aq-paper-execution-report-'' (rp_checksum r))) (\<lambda>_.
     Inr (r\<lparr>rp_relative_path := path\<rparr>))))))))))"

record workflow_result =
  wr_session :: execution_session
  wr_authorization :: authorization
  wr_outcomes :: "execution_outcome list"
  wr_report :: report_artifact

definition mk_workflow_result :: "workflow_result \<Rightarrow> gov_exn + workflow_result" where
  "mk_workflow_result r =
     rbind (validated (au_session (wr_authorization r) = wr_session r)) (\<lambda>_.
     rbind (validated (wr_outcomes r \<noteq> [])) (\<lambda>_.
     rbind (validated (\<forall>item \<in> set (wr_outcomes r). eo_authorization item = wr_authorization r)) (\<lambda>_.
     rbind (validated (rp_outcome_ids (wr_report r) = map eo_id (wr_outcomes r))) (\<lambda>_.
     rbind (validated (rp_final_disposition (wr_report r) = eo_disposition (last (wr_outcomes r)))) (\<lambda>_.
     Inr r)))))"

definition paper_execution_report_name :: "execution_outcome \<Rightarrow> string" where
  "paper_execution_report_name out = ''axiom_paper_execution_report_'' @ eo_id out @ ''.md''"

definition ordered_outcomes :: "gov_env \<Rightarrow> authorization \<Rightarrow> store \<Rightarrow> gov_exn + execution_outcome list" where
  "ordered_outcomes env authorization st =
     rbind (rbind (list_outcome_ids_for_authorization env st authorization)
       (map_results (load_outcome env st (au_experiment_id authorization)))) (\<lambda>loaded.
     let submissions = filter (\<lambda>item. \<not> eo_reconciliation_lookup_only item) loaded;
         reconciliations = filter eo_reconciliation_lookup_only loaded in
     rbind (reject_if (length submissions \<noteq> 1 \<or> 1 < length reconciliations)
       (RegistryError ''invalid_phase6_execution_outcome_chain'')) (\<lambda>_.
     rbind (reject_if (reconciliations \<noteq> [] \<and> eo_disposition (hd submissions) \<noteq> Outcome_submission_unknown)
       (RegistryError ''invalid_phase6_reconciliation_chain'')) (\<lambda>_.
     Inr (submissions @ reconciliations))))"

fun disposition_text :: "execution_disposition \<Rightarrow> string" where
  "disposition_text Outcome_accepted = ''accepted''"
| "disposition_text Outcome_rejected = ''rejected''"
| "disposition_text Outcome_blocked = ''blocked''"
| "disposition_text Outcome_submission_unknown = ''submission_unknown''"
| "disposition_text Outcome_reconciled = ''reconciled''"

definition or_none :: "string option \<Rightarrow> string" where
  "or_none value = (case value of None \<Rightarrow> ''none'' | Some t \<Rightarrow> if t = [] then ''none'' else t)"

definition outcome_lines :: "nat \<Rightarrow> execution_outcome \<Rightarrow> string list" where
  "outcome_lines index out =
     [''### Outcome '' @ show_nat index, [],
      ''- Outcome ID: '' @ eo_id out,
      ''- Disposition: '' @ disposition_text (eo_disposition out),
      ''- Reconciliation lookup-only: '' @ (if eo_reconciliation_lookup_only out then ''true'' else ''false''),
      ''- Receipt checksum: '' @ or_none (eo_receipt_checksum out),
      ''- Failure code: '' @ or_none (eo_failure_code out), []]"

definition render_paper_execution_report ::
  "digests \<Rightarrow> authorization \<Rightarrow> execution_outcome list \<Rightarrow> gov_exn + string" where
  "render_paper_execution_report dg authorization outs =
     rbind (mk_authorization dg authorization) (\<lambda>a.
     rbind (map_results (mk_execution_outcome dg) outs) (\<lambda>canonical_outcomes.
     rbind (required (canonical_outcomes \<noteq> [])) (\<lambda>_.
     rbind (required (\<forall>item \<in> set canonical_outcomes. eo_authorization item = a)) (\<lambda>_.
     let session = au_session a; assessment = xs_assessment session; final = last canonical_outcomes in
     Inr (join_lines (
       [''# Axiom Quantum Phase 6 Human-Confirmed Paper Execution Report'', [],
        ''- Report schema: axiom-paper-execution-report-v1'',
        ''- Experiment ID: '' @ au_experiment_id a,
        ''- Paper execution session ID: '' @ xs_id session,
        ''- Human invocation ID: '' @ xs_invocation_id session,
        ''- Invocation source: human_requested'',
        ''- Phase 5 readiness assessment ID: '' @ qa_id assessment,
        ''- Readiness outcome: '' @ readiness_outcome_text (qa_outcome assessment),
        ''- Submission authorization ID: '' @ au_id a,
        ''- Authorization source: human_confirmed'',
        ''- Authorization use policy: single_use'',
        ''- Signal ID: '' @ au_signal_id a,
        ''- Client order ID: '' @ au_client_order_id a,
        ''- Instruction fingerprint: '' @ au_instruction_fingerprint a,
        ''- Execution scope: paper_only'',
        ''- Model-connected execution: blocked_no_approved_paper_model'', [],
        ''## Outcome chain'', []] @
       concat (map (\<lambda>(index, out). outcome_lines index out) (zip [1 ..< length canonical_outcomes + 1] canonical_outcomes)) @
       [''## Safety posture'', [],
        ''- Operation remains paper-only.'',
        ''- Model-connected paper execution remains blocked because no approved paper model exists.'',
        ''- No scheduler, recurrence, unattended execution, automatic resubmission, or live trading is authorized.'',
        (if eo_reconciliation_lookup_only final
         then ''- Reconciliation was lookup-only by client_order_id and did not submit a new order.''
         else ''- This report creates no additional execution authority.''), [],
        ''Final disposition: '' @ disposition_text (eo_disposition final), []]))))))"

text \<open>A report is the bytes of its text.\<close>

definition load_paper_execution_report :: "gov_env \<Rightarrow> report_artifact \<Rightarrow> store \<Rightarrow> gov_exn + string" where
  "load_paper_execution_report env obj st =
     rbind (mk_report_artifact obj) (\<lambda>canonical.
     rbind (load_authorization env st (rp_experiment_id canonical) (rp_authorization_id canonical)) (\<lambda>authorization.
     rbind (reject_if (au_session_id authorization \<noteq> rp_session_id canonical)
       (RegistryError ''paper_execution_report_session_link_mismatch'')) (\<lambda>_.
     rbind (map_results (load_outcome env st (rp_experiment_id canonical)) (rp_outcome_ids canonical)) (\<lambda>outs.
     rbind (reject_if (\<exists>item \<in> set outs. eo_authorization_id item \<noteq> rp_authorization_id canonical)
       (RegistryError ''paper_execution_report_outcome_chain_mismatch'')) (\<lambda>_.
     let final = last outs; name = paper_execution_report_name final in
     rbind (reject_if (eo_id final \<noteq> rp_final_outcome_id canonical \<or> eo_disposition final \<noteq> rp_final_disposition canonical)
       (RegistryError ''paper_execution_report_final_outcome_mismatch'')) (\<lambda>_.
     rbind (artifact_path (rp_experiment_id canonical) name) (\<lambda>path.
     rbind (reject_if (relative_path (ge_root env) path \<noteq> rp_relative_path canonical)
       (RegistryError ''paper_execution_report_path_mismatch'')) (\<lambda>_.
     verify_text env ''paper_execution_report'' st path (rp_checksum canonical)
       (render_paper_execution_report (ge_digests env) authorization outs)))))))))"

definition write_paper_execution_report :: "gov_env \<Rightarrow> execution_outcome \<Rightarrow> (report_artifact, 'b) gov_action" where
  "write_paper_execution_report env out =
     gbind (gread (\<lambda>st. load_outcome env st (eo_experiment_id out) (eo_id out))) (\<lambda>final.
     gbind (gcheck (final = out) ''paper_execution_report_outcome_link_mismatch'') (\<lambda>_.
     gbind (gread (\<lambda>st. load_authorization env st (eo_experiment_id final) (eo_authorization_id final))) (\<lambda>authorization.
     gbind (gread (ordered_outcomes env authorization)) (\<lambda>outs.
     gbind (gcheck (last outs = final) ''paper_execution_report_not_latest_outcome'') (\<lambda>_.
     gbind (glift (render_paper_execution_report (ge_digests env) authorization outs)) (\<lambda>content.
     let checksum = dg_artifact (ge_digests env) (Other_bytes content); name = paper_execution_report_name final in
     gbind (write_bytes (ge_digests env) (eo_experiment_id final) name (Other_bytes content)) (\<lambda>_.
     gbind (glift (artifact_path (eo_experiment_id final) name)) (\<lambda>path.
     gbind (glift (mk_report_artifact
       \<lparr>rp_report_id = identity_of ''aq-paper-execution-report-'' checksum, rp_authorization_id = au_id authorization,
        rp_session_id = au_session_id authorization, rp_experiment_id = au_experiment_id authorization,
        rp_outcome_ids = map eo_id outs, rp_final_outcome_id = eo_id final, rp_final_disposition = eo_disposition final,
        rp_relative_path = relative_path (ge_root env) path, rp_checksum = checksum\<rparr>)) (\<lambda>artifact.
     gbind (gread (load_paper_execution_report env artifact)) (\<lambda>loaded.
     gbind (gcheck (loaded = content) ''paper_execution_report_reload_mismatch'') (\<lambda>_.
     greturn artifact)))))))))))"

section \<open>The workflows\<close>

definition run_paper_submission_workflow ::
  "gov_env \<Rightarrow> 'b service \<Rightarrow> readiness_assessment \<Rightarrow> string \<Rightarrow> instruction \<Rightarrow> approval \<Rightarrow> (workflow_result, 'b) gov_action" where
  "run_paper_submission_workflow env sv assessment invocation_id i ap =
     gbind (gread (build_paper_execution_session env assessment invocation_id)) (\<lambda>session.
     gbind (record_execution_session env session) (\<lambda>_.
     gbind (gread (build_paper_submission_authorization env session i ap)) (\<lambda>authorization.
     gbind (record_authorization env authorization) (\<lambda>_.
     gbind (submit_authorized_paper_order env sv authorization i ap) (\<lambda>out.
     gbind (record_outcome env out) (\<lambda>_.
     gbind (write_paper_execution_report env out) (\<lambda>report.
     glift (mk_workflow_result
       \<lparr>wr_session = session, wr_authorization = authorization, wr_outcomes = [out], wr_report = report\<rparr>))))))))"

definition run_paper_reconciliation_workflow ::
  "gov_env \<Rightarrow> 'b service \<Rightarrow> authorization \<Rightarrow> pyval \<Rightarrow> (workflow_result, 'b) gov_action" where
  "run_paper_reconciliation_workflow env sv authorization now_utc =
     gbind (gread (\<lambda>st. load_authorization env st (au_experiment_id authorization) (au_id authorization))) (\<lambda>canonical.
     gbind (gcheck (canonical = authorization) ''paper_reconciliation_authorization_link_mismatch'') (\<lambda>_.
     gbind (glift (map_sum ServiceRaised id (utc_datetime ''now_utc'' now_utc))) (\<lambda>timestamp.
     gbind (reconcile_authorized_paper_order env sv canonical timestamp) (\<lambda>out.
     gbind (record_outcome env out) (\<lambda>_.
     gbind (gread (ordered_outcomes env canonical)) (\<lambda>outs.
     gbind (write_paper_execution_report env out) (\<lambda>report.
     glift (mk_workflow_result
       \<lparr>wr_session = au_session canonical, wr_authorization = canonical, wr_outcomes = outs, wr_report = report\<rparr>))))))))"

end
