(* ===== verification/Gov_Facts.thy ===== *)
theory Gov_Facts
  imports Gov_Bridge Exec_Once
begin

text \<open>
  What the records, the loads and the writes of governed operation guarantee: constructors return records they accept again,
  a load returns a record whose whole ancestry is stored, and a write only adds files.
\<close>

section \<open>Constructors\<close>

lemma mk_supervised_session_stable:
  "mk_supervised_session dg obj = Inr s \<Longrightarrow> mk_supervised_session dg s = Inr s"
  unfolding mk_supervised_session_def Let_def by (auto simp: rbind_eq_Inr_iff)

lemma mk_review_item_stable:
  assumes "mk_review_item dg obj = Inr item"
  shows "mk_review_item dg item = Inr item" "mk_supervised_session dg (ri_session item) = Inr (ri_session item)"
    "ri_review_status item = review_status_for_verdict (ss_phase3_verdict (ri_session item))"
    "ri_phase3_verdict item = ss_phase3_verdict (ri_session item)"
  using assms unfolding mk_review_item_def Let_def
  by (auto simp: rbind_eq_Inr_iff dest: mk_supervised_session_stable)

lemma mk_supervised_disposition_stable:
  assumes "mk_supervised_disposition dg obj = Inr d"
  shows "mk_supervised_disposition dg d = Inr d" "mk_review_item dg (sd_review_item d) = Inr (sd_review_item d)"
  using assms unfolding mk_supervised_disposition_def Let_def
  by (auto simp: rbind_eq_Inr_iff dest: mk_review_item_stable)

lemma mk_readiness_session_stable:
  assumes "mk_readiness_session dg obj = Inr s"
  shows "mk_readiness_session dg s = Inr s" "mk_supervision_report (qs_report s) = Inr (qs_report s)"
    "qs_disposition_id s = sp_disposition_id (qs_report s)" "qs_experiment_id s = sp_experiment_id (qs_report s)"
    "qs_phase4_disposition s = sp_disposition (qs_report s)" "qs_phase4_review_status s = sp_review_status (qs_report s)"
    "qs_phase3_verdict s = sp_phase3_verdict (qs_report s)"
  using assms unfolding mk_readiness_session_def Let_def by (auto simp: rbind_eq_Inr_iff)

lemma mk_readiness_assessment_stable:
  assumes "mk_readiness_assessment dg obj = Inr a"
  shows "mk_readiness_assessment dg a = Inr a" "mk_readiness_session dg (qa_session a) = Inr (qa_session a)"
    "qa_outcome a = outcome_for_session (qa_session a)"
    "qa_gates a = map gate_snapshot_of (evaluate_phase5_readiness () ())"
    "qa_session_id a = qs_id (qa_session a)" "qa_experiment_id a = qs_experiment_id (qa_session a)"
  using assms unfolding mk_readiness_assessment_def Let_def
  by (auto simp: rbind_eq_Inr_iff dest: mk_readiness_session_stable(1))

lemma mk_execution_session_stable:
  assumes "mk_execution_session dg obj = Inr s"
  shows "mk_execution_session dg s = Inr s" "mk_readiness_assessment dg (xs_assessment s) = Inr (xs_assessment s)"
    "qa_outcome (xs_assessment s) = OFFLINE_READINESS_ONLY" "xs_assessment_id s = qa_id (xs_assessment s)"
    "xs_experiment_id s = qa_experiment_id (xs_assessment s)"
  using assms unfolding mk_execution_session_def Let_def
  by (auto simp: rbind_eq_Inr_iff dest: mk_readiness_assessment_stable(1))

lemma mk_authorization_stable:
  assumes "mk_authorization dg obj = Inr a"
  shows "mk_authorization dg a = Inr a" "mk_execution_session dg (au_session a) = Inr (au_session a)"
    "au_session_id a = xs_id (au_session a)" "au_experiment_id a = xs_experiment_id (au_session a)"
    "is_identity ''aq-paper-submission-authorization-'' (au_id a)"
  using assms unfolding mk_authorization_def Let_def
  by (auto simp: rbind_eq_Inr_iff dest: mk_execution_session_stable(1))

lemma mk_execution_outcome_stable:
  assumes "mk_execution_outcome dg obj = Inr out"
  shows "mk_execution_outcome dg out = Inr out" "mk_authorization dg (eo_authorization out) = Inr (eo_authorization out)"
    "eo_authorization_id out = au_id (eo_authorization out)" "eo_experiment_id out = au_experiment_id (eo_authorization out)"
    "eo_experiment_id out = eo_experiment_id obj" "eo_authorization_id out = eo_authorization_id obj"
    "eo_reconciliation_lookup_only out = eo_reconciliation_lookup_only obj"
  using assms unfolding mk_execution_outcome_def Let_def
  by (auto simp: rbind_eq_Inr_iff dest: mk_authorization_stable(1))

text \<open>The claim of an authorization.\<close>

definition claim_of :: "digests \<Rightarrow> authorization \<Rightarrow> consumption" where
  "claim_of dg a =
     (let payload = \<lparr>cn_id = [], cn_authorization_id = au_id a, cn_session_id = au_session_id a, cn_experiment_id = au_experiment_id a,
           cn_signal_id = au_signal_id a, cn_client_order_id = au_client_order_id a\<rparr>
      in payload\<lparr>cn_id := paper_authorization_consumption_identity dg payload\<rparr>)"

definition claim_key :: "digests \<Rightarrow> authorization \<Rightarrow> file_key" where
  "claim_key dg a = (au_experiment_id a, ''axiom_paper_authorization_consumption_'' @ cn_id (claim_of dg a) @ ''.json'')"

lemma built_claim:
  assumes "mk_authorization dg a = Inr a" "build_paper_authorization_consumption dg a = Inr c"
  shows "c = claim_of dg a"
  using assms by (auto simp: build_paper_authorization_consumption_def claim_of_def mk_consumption_def Let_def)

text \<open>What a verified authorization and pair say.\<close>

definition authorized :: "digests \<Rightarrow> authorization \<Rightarrow> instruction \<Rightarrow> approval \<Rightarrow> bool" where
  "authorized dg a i ap \<longleftrightarrow>
     mk_authorization dg a = Inr a \<and> legacy_pair_binding dg i ap = Inr (authorized_pair a)"

lemma outcome_offline:
  "outcome_for_session s = OFFLINE_READINESS_ONLY \<longleftrightarrow>
     qs_phase4_review_status s = PENDING_HUMAN_REVIEW \<and> qs_phase4_disposition s = OBSERVED"
  by (simp add: outcome_for_session_def)

lemma authorizedD:
  assumes "authorized dg a i ap"
  shows "qs_phase4_review_status (qa_session (xs_assessment (au_session a))) = PENDING_HUMAN_REVIEW"
    "qs_phase4_disposition (qa_session (xs_assessment (au_session a))) = OBSERVED"
    "ap_approved ap" "ap_client_order_id ap = in_client_order_id i" "au_client_order_id a = in_client_order_id i"
    "in_created_at_utc i < ap_approved_at_utc ap" "ap_approved_at_utc ap < in_expires_at_utc i"
    "au_instruction_checksum a = dg_instruction dg i" "au_approval_checksum a = dg_approval dg ap"
proof -
  have "mk_authorization dg a = Inr a" using assms by (simp add: authorized_def)
  note a = mk_authorization_stable(2) [OF this]
  show "qs_phase4_review_status (qa_session (xs_assessment (au_session a))) = PENDING_HUMAN_REVIEW"
    "qs_phase4_disposition (qa_session (xs_assessment (au_session a))) = OBSERVED"
    using mk_execution_session_stable(3) [OF a] mk_readiness_assessment_stable(3) [OF mk_execution_session_stable(2) [OF a]]
    by (simp_all add: outcome_offline)
  show "ap_approved ap" "ap_client_order_id ap = in_client_order_id i" "au_client_order_id a = in_client_order_id i"
    "in_created_at_utc i < ap_approved_at_utc ap" "ap_approved_at_utc ap < in_expires_at_utc i"
    "au_instruction_checksum a = dg_instruction dg i" "au_approval_checksum a = dg_approval dg ap"
    using assms by (auto simp: authorized_def legacy_pair_binding_def authorized_pair_def)
qed

section \<open>Loads\<close>

text \<open>A document stored under its canonical bytes.\<close>

definition stored_at :: "store \<Rightarrow> string \<Rightarrow> string \<Rightarrow> gov_document \<Rightarrow> bool" where
  "stored_at st experiment name d \<longleftrightarrow> map_of st (experiment, name) = Some (Canonical d)"

lemma artifact_path_Inr: "artifact_path e n = Inr p \<Longrightarrow> p = (e, n)"
  by (auto simp: artifact_path_def rbind_eq_Inr_iff)

lemma read_json_Inr:
  assumes "read_json st e n = Inr a"
  shows "map_of st (e, n) = Some a"
proof -
  obtain path where path: "artifact_path e n = Inr path" using assms by (auto simp: read_json_def rbind_eq_Inr_iff)
  show ?thesis
    using assms unfolding read_json_def path rbind_Inr artifact_path_Inr [OF path]
    by (cases "map_of st (e, n)") (auto split: artifact.splits)
qed

lemma refused_as_Inr [simp]: "refused_as code m = Inr x \<longleftrightarrow> m = Inr x"
  by (auto simp: refused_as_def split: sum.splits gov_exn.splits)

lemma load_model_Inr:
  assumes "load_model c c' data build document st e n = Inr x"
  shows "stored_at st e n (document x) \<and> (\<exists>obj. build obj = Inr x)"
  using assms by (auto simp: load_model_def stored_at_def rbind_eq_Inr_iff dest!: read_json_Inr split: option.splits)

lemma read_json_stored: "stored_at st e n d \<Longrightarrow> artifact_path e n = Inr (e, n) \<Longrightarrow> read_json st e n = Inr (Canonical d)"
  by (simp add: read_json_def stored_at_def)

lemma load_model_stored:
  assumes "stored_at st e n (document x)" "artifact_path e n = Inr (e, n)" "data (document x) = Some x" "build x = Inr x"
  shows "load_model c c' data build document st e n = Inr x"
  using assms by (simp add: load_model_def read_json_stored document_of_def refused_as_def)

lemma load_record_Inr:
  assumes "load_record c data build st e n = Inr x"
  shows "\<exists>file obj. map_of st (e, n) = Some file \<and> Option.bind (document_of file) data = Some obj \<and> build obj = Inr x"
  using assms by (auto simp: load_record_def rbind_eq_Inr_iff dest!: read_json_Inr split: option.splits)

lemma load_record_stored:
  assumes "stored_at st e n (document x)" "artifact_path e n = Inr (e, n)" "data (document x) = Some x" "build x = Inr x"
  shows "load_record c data build st e n = Inr x"
  using assms by (simp add: load_record_def read_json_stored document_of_def refused_as_def)

lemma artifact_name_Inr [simp]: "artifact_name code prefix ip v = Inr n \<longleftrightarrow> is_identity ip v \<and> n = prefix @ v @ ''.json''"
  by (auto simp: artifact_name_def)

lemmas registry_names = supervised_session_name_def review_name_def disposition_name_def
  readiness_session_name_def readiness_assessment_name_def recovery_case_name_def phase6_name_def
  execution_session_name_def authorization_name_def consumption_name_def outcome_name_def outcome_guard_name_def

lemma loaded_supervised_session:
  assumes "load_supervised_session env st e i = Inr s"
  shows "ss_id s = i" "ss_experiment_id s = e" "ge_verify_intelligence env st (ss_report s) = Inr ()"
    "mk_supervised_session (ge_digests env) s = Inr s"
  using assms unfolding load_supervised_session_def registry_names
  by (auto simp: rbind_eq_Inr_iff dest!: load_record_Inr dest: mk_supervised_session_stable)

lemma loaded_review_item:
  assumes "load_review_item env st e i = Inr item"
  shows "ri_id item = i" "load_supervised_session env st e (ri_session_id item) = Inr (ri_session item)"
    "mk_review_item (ge_digests env) item = Inr item"
  using assms unfolding load_review_item_def registry_names
  by (auto simp: rbind_eq_Inr_iff dest!: load_record_Inr dest: mk_review_item_stable)

lemma loaded_disposition:
  assumes "load_disposition env st e i = Inr d"
  shows "sd_id d = i" "load_review_item env st e (sd_review_item_id d) = Inr (sd_review_item d)"
    "mk_supervised_disposition (ge_digests env) d = Inr d"
  using assms unfolding load_disposition_def registry_names
  by (auto simp: rbind_eq_Inr_iff dest!: load_record_Inr dest: mk_supervised_disposition_stable)

text \<open>The report of a supervision that verifies is stored with the text of its disposition, whose review was pending because the engine of
  phase 3 presented it.\<close>

lemma loaded_supervision_report:
  assumes "load_supervision_report env st r = Inr t" "mk_supervision_report r = Inr r"
  shows "\<exists>d. load_disposition env st (sp_experiment_id r) (sp_disposition_id r) = Inr d \<and>
     sd_disposition d = sp_disposition r \<and> ri_review_status (sd_review_item d) = sp_review_status r \<and>
     ss_phase3_verdict (ri_session (sd_review_item d)) = sp_phase3_verdict r \<and>
     sp_review_status r = review_status_for_verdict (sp_phase3_verdict r) \<and>
     render_supervision_report (ge_digests env) d = Inr t \<and>
     map_of st (sp_experiment_id r, supervision_report_name d) = Some (Other_bytes t) \<and>
     ge_verify_intelligence env st (ss_report (ri_session (sd_review_item d))) = Inr ()"
proof -
  obtain d path where d: "load_disposition env st (sp_experiment_id r) (sp_disposition_id r) = Inr d"
    and same: "ri_phase3_verdict (sd_review_item d) = sp_phase3_verdict r" "ri_review_status (sd_review_item d) = sp_review_status r"
      "sd_disposition d = sp_disposition r"
    and path: "artifact_path (sp_experiment_id r) (supervision_report_name d) = Inr path"
    and t: "verify_text env ''supervision_report'' st path (sp_checksum r) (render_supervision_report (ge_digests env) d) = Inr t"
    using assms(1) unfolding load_supervision_report_def assms(2) Let_def by (auto simp: rbind_eq_Inr_iff)
  note item = loaded_review_item [OF loaded_disposition(2) [OF d]]
  note verdict = mk_review_item_stable(3,4) [OF item(3)]
  have "map_of st path = Some (Other_bytes t) \<and> render_supervision_report (ge_digests env) d = Inr t"
    using t unfolding verify_text_def by (auto simp: rbind_eq_Inr_iff split: option.splits)
  then show ?thesis
    using d same verdict loaded_supervised_session(3) [OF item(2)] unfolding artifact_path_Inr [OF path] by auto
qed

lemma loaded_readiness_session:
  assumes "load_readiness_session env st e i = Inr s"
  shows "qs_id s = i" "qs_experiment_id s = e" "\<exists>t. load_supervision_report env st (qs_report s) = Inr t"
    "stored_at st e (''axiom_paper_readiness_session_'' @ i @ ''.json'') (Session_document s)"
    "mk_readiness_session (ge_digests env) s = Inr s"
  using assms unfolding load_readiness_session_def registry_names
  by (auto simp: rbind_eq_Inr_iff dest!: load_model_Inr dest: mk_readiness_session_stable(1))

lemma loaded_assessment:
  assumes "load_assessment env st e i = Inr a"
  shows "qa_id a = i" "qa_experiment_id a = e" "load_readiness_session env st e (qa_session_id a) = Inr (qa_session a)"
    "stored_at st e (''axiom_paper_readiness_assessment_'' @ i @ ''.json'') (Assessment_document a)"
    "mk_readiness_assessment (ge_digests env) a = Inr a"
  using assms unfolding load_assessment_def registry_names
  by (auto simp: rbind_eq_Inr_iff dest!: load_model_Inr dest: mk_readiness_assessment_stable)

lemma loaded_execution_session:
  assumes "load_execution_session env st e i = Inr s"
  shows "xs_id s = i" "xs_experiment_id s = e" "load_assessment env st e (xs_assessment_id s) = Inr (xs_assessment s)"
    "stored_at st e (''axiom_paper_execution_session_'' @ i @ ''.json'') (Execution_session_document s)"
    "mk_execution_session (ge_digests env) s = Inr s"
  using assms unfolding load_execution_session_def registry_names load_phase6_def
  by (auto simp: rbind_eq_Inr_iff dest!: load_model_Inr dest: mk_execution_session_stable)

lemma loaded_authorization:
  assumes "load_authorization env st e i = Inr a"
  shows "au_id a = i" "au_experiment_id a = e" "load_execution_session env st e (au_session_id a) = Inr (au_session a)"
    "stored_at st e (''axiom_paper_submission_authorization_'' @ i @ ''.json'') (Authorization_document a)"
    "mk_authorization (ge_digests env) a = Inr a"
  using assms unfolding load_authorization_def registry_names load_phase6_def
  by (auto simp: rbind_eq_Inr_iff dest!: load_model_Inr dest: mk_authorization_stable)

section \<open>Writes\<close>

lemma store_found: "(\<exists>v. map_of (xs @ ys :: store) path = Some v) \<longleftrightarrow> (\<exists>v. map_of xs path = Some v) \<or> (\<exists>v. map_of ys path = Some v)"
  by (auto simp: map_add_def split: option.splits)

lemma store_dom_append: "dom (map_of (xs @ ys :: store)) = dom (map_of xs) \<union> dom (map_of ys)"
  by (auto simp: map_add_def split: option.splits)

lemma write_bytes_store:
  assumes "write_bytes dg e n payload w = (r, w')"
  shows "dom (map_of (gw_store w)) \<subseteq> dom (map_of (gw_store w'))"
    "gw_events w' = gw_events w" "gw_service w' = gw_service w"
  using assms unfolding write_bytes_def Let_def
  by (auto simp: store_found simp del: map_of_append split: sum.splits option.splits write_fault.splits)

lemma write_exclusive_store:
  assumes "write_json_exclusive c e n payload w = (r, w')"
  shows "dom (map_of (gw_store w)) \<subseteq> dom (map_of (gw_store w'))"
    "gw_events w' = gw_events w" "gw_service w' = gw_service w"
  using assms unfolding write_json_exclusive_def Let_def
  by (auto simp: store_found simp del: map_of_append split: sum.splits option.splits write_fault.splits if_splits)

lemma write_exclusive_once:
  assumes "write_json_exclusive c e n payload w = (Inr u, w')"
  shows "(e, n) \<notin> dom (map_of (gw_store w))" "(e, n) \<in> dom (map_of (gw_store w'))"
proof -
  obtain path where path: "artifact_path e n = Inr path"
    using assms by (cases "artifact_path e n") (auto simp: write_json_exclusive_def)
  note run = assms [unfolded write_json_exclusive_def path artifact_path_Inr [OF path] Let_def, simplified]
  have "(e, n) \<notin> dom (map_of (tn_before (store_turn_of w) @ gw_store w))"
    using run by (auto split: if_splits)
  then show "(e, n) \<notin> dom (map_of (gw_store w))" by (auto simp: store_dom_append simp del: map_of_append)
  show "(e, n) \<in> dom (map_of (gw_store w'))"
    using run by (auto split: if_splits write_fault.splits)
qed

end
