(* ===== verification/Gov_Properties.thy ===== *)
theory Gov_Properties
  imports Gov_Facts "HOL-Library.Sublist"
begin

text \<open>
  Sequences of governed calls: an authorization reaches the execution service at most once, only for the pair it
  authenticates, and every order at the broker belongs to one of them.

  The properties of governed operation: single use of an authorization, refinement of a run of the execution service, the
  outcome of a submission, one outcome per slot, and the stored ancestry of an authorization.
\<close>

section \<open>Calm actions\<close>

text \<open>An action that does not call the service keeps its world, and files only appear.\<close>

definition calm_step :: "'b gov_world \<Rightarrow> 'b gov_world \<Rightarrow> bool" where
  "calm_step w w' \<longleftrightarrow>
     gw_events w' = gw_events w \<and> gw_service w' = gw_service w \<and> dom (map_of (gw_store w)) \<subseteq> dom (map_of (gw_store w'))"

definition follows :: "('b gov_world \<Rightarrow> 'b gov_world \<Rightarrow> bool) \<Rightarrow> ('a, 'b) gov_action \<Rightarrow> bool" where
  "follows R m \<longleftrightarrow> (\<forall>w r w'. m w = (r, w') \<longrightarrow> R w w')"

lemma followsD: "follows R m \<Longrightarrow> m w = (r, w') \<Longrightarrow> R w w'"
  by (auto simp: follows_def)

locale governed_relation = world_relation R for R :: "'b gov_world \<Rightarrow> 'b gov_world \<Rightarrow> bool"
begin

lemma follows_pure: "follows R (glift m)" "follows R (gread f)"
  by (auto simp: follows_def refl)

lemma follows_bind:
  assumes "follows R m" "\<And>x. follows R (f x)"
  shows "follows R (gbind m f)"
  unfolding follows_def
proof (intro allI impI)
  fix w r w'
  assume "gbind m f w = (r, w')"
  then show "R w w'"
  proof (cases rule: gbindE)
    case (raised e)
    show ?thesis by (rule followsD [OF assms(1) raised(1)])
  next
    case (returned x w1)
    show ?thesis
      by (rule trans [OF followsD [OF assms(1) returned(1)] followsD [OF assms(2) returned(2)]])
  qed
qed

lemmas follows_intros = follows_pure follows_bind

end

interpretation calm: governed_relation calm_step
  by unfold_locales (auto simp: calm_step_def)

lemma calm_writes: "follows calm_step (write_bytes dg e n payload)" "follows calm_step (write_json_exclusive c e n document)"
  unfolding follows_def calm_step_def by (blast dest: write_bytes_store write_exclusive_store)+

lemma calm_records:
  "follows calm_step (record_supervised_session env ss)" "follows calm_step (record_review_item env item)"
  "follows calm_step (record_disposition env d)" "follows calm_step (write_supervision_report env d)"
  "follows calm_step (write_paper_readiness_report env c)"
  "follows calm_step (record_readiness_session env s)" "follows calm_step (record_assessment env a)"
  "follows calm_step (record_recovery_case env c)" "follows calm_step (record_execution_session env xs)"
  "follows calm_step (record_authorization env au)" "follows calm_step (claim_submission env au)"
  "follows calm_step (record_outcome env out)"
  unfolding record_supervised_session_def record_review_item_def record_disposition_def write_supervision_report_def
    write_paper_readiness_report_def Let_def record_readiness_session_def record_assessment_def record_recovery_case_def record_execution_session_def
    record_authorization_def claim_submission_def record_outcome_def append_outcome_def
  by (intro calm.follows_intros calm_writes)+

lemma calm_report: "follows calm_step (write_paper_execution_report env out)"
  unfolding write_paper_execution_report_def Let_def by (intro calm.follows_intros calm_writes)

lemma calm_workflows:
  "follows calm_step (run_supervised_operations_workflow env report invocation disposition reference time)"
  "follows calm_step (run_paper_readiness_workflow env supervision invocation status cid operator client)"
  unfolding run_supervised_operations_workflow_def run_paper_readiness_workflow_def Let_def
  by (intro calm.follows_intros calm_records)+

section \<open>Calls\<close>

datatype governed_call =
    Record_supervised_session supervised_session
  | Record_review_item review_item
  | Record_disposition supervised_disposition
  | Write_supervision_report supervised_disposition
  | Run_supervision intelligence_report string human_disposition string recorded_time
  | Write_readiness_report recovery_case
  | Run_readiness supervision_report string string string string "string option"
  | Record_readiness_session readiness_session
  | Record_assessment readiness_assessment
  | Record_recovery_case recovery_case
  | Record_execution_session execution_session
  | Record_authorization authorization
  | Claim_submission authorization
  | Submit_authorized authorization instruction approval
  | Reconcile_authorized authorization instant
  | Record_outcome execution_outcome
  | Write_report execution_outcome
  | Run_submission readiness_assessment string instruction approval
  | Run_reconciliation authorization pyval

fun govern :: "gov_env \<Rightarrow> 'b service \<Rightarrow> governed_call \<Rightarrow> 'b gov_world \<Rightarrow> 'b gov_world" where
  "govern env sv (Record_supervised_session s) w = snd (record_supervised_session env s w)"
| "govern env sv (Record_review_item item) w = snd (record_review_item env item w)"
| "govern env sv (Record_disposition d) w = snd (record_disposition env d w)"
| "govern env sv (Write_supervision_report d) w = snd (write_supervision_report env d w)"
| "govern env sv (Run_supervision r invocation d reference time) w =
     snd (run_supervised_operations_workflow env r invocation d reference time w)"
| "govern env sv (Write_readiness_report c) w = snd (write_paper_readiness_report env c w)"
| "govern env sv (Run_readiness r invocation status cid operator client) w =
     snd (run_paper_readiness_workflow env r invocation status cid operator client w)"
| "govern env sv (Record_readiness_session s) w = snd (record_readiness_session env s w)"
| "govern env sv (Record_assessment a) w = snd (record_assessment env a w)"
| "govern env sv (Record_recovery_case c) w = snd (record_recovery_case env c w)"
| "govern env sv (Record_execution_session s) w = snd (record_execution_session env s w)"
| "govern env sv (Record_authorization a) w = snd (record_authorization env a w)"
| "govern env sv (Claim_submission a) w = snd (claim_submission env a w)"
| "govern env sv (Submit_authorized a i ap) w = snd (submit_authorized_paper_order env sv a i ap w)"
| "govern env sv (Reconcile_authorized a now) w = snd (reconcile_authorized_paper_order env sv a now w)"
| "govern env sv (Record_outcome out) w = snd (record_outcome env out w)"
| "govern env sv (Write_report out) w = snd (write_paper_execution_report env out w)"
| "govern env sv (Run_submission assessment invocation i ap) w = snd (run_paper_submission_workflow env sv assessment invocation i ap w)"
| "govern env sv (Run_reconciliation a now) w = snd (run_paper_reconciliation_workflow env sv a now w)"

text \<open>What was submitted under which authorization.\<close>

fun submitted_under :: "governed_event list \<Rightarrow> (authorization \<times> instruction \<times> approval) list" where
  "submitted_under [] = []"
| "submitted_under (Submitted_under a i ap # events) = (a, i, ap) # submitted_under events"
| "submitted_under (Reconciled_under a now # events) = submitted_under events"

lemma submitted_under_append [simp]: "submitted_under (xs @ ys) = submitted_under xs @ submitted_under ys"
  by (induction xs rule: submitted_under.induct) simp_all

fun service_call_of :: "governed_event \<Rightarrow> service_call" where
  "service_call_of (Submitted_under a i ap) = Submit_call i ap"
| "service_call_of (Reconciled_under a now) = Reconcile_call (PyStr (au_client_order_id a)) now"

section \<open>The invariant\<close>

definition governed_inv :: "gov_env \<Rightarrow> 'b gov_world \<Rightarrow> bool" where
  "governed_inv env w \<longleftrightarrow>
     (\<forall>(a, i, ap) \<in> set (submitted_under (gw_events w)).
        authorized (ge_digests env) a i ap \<and> claim_key (ge_digests env) a \<in> dom (map_of (gw_store w))) \<and>
     distinct (map (\<lambda>(a, i, ap). claim_key (ge_digests env) a) (submitted_under (gw_events w))) \<and>
     subseq (submissions (wd_trace (gw_service w))) (map (\<lambda>(a, i, ap). i) (submitted_under (gw_events w)))"

definition keeps :: "('b gov_world \<Rightarrow> bool) \<Rightarrow> ('a, 'b) gov_action \<Rightarrow> bool" where
  "keeps P m \<longleftrightarrow> (\<forall>w r w'. P w \<longrightarrow> m w = (r, w') \<longrightarrow> P w')"

lemma keepsD: "keeps P m \<Longrightarrow> P w \<Longrightarrow> m w = (r, w') \<Longrightarrow> P w'"
  by (auto simp: keeps_def)

lemma keeps_bind: "keeps P m \<Longrightarrow> (\<And>x. keeps P (f x)) \<Longrightarrow> keeps P (gbind m f)"
  unfolding keeps_def by (blast elim: gbindE)

lemma keeps_pure: "keeps P (glift m)" "keeps P (gread f)"
  by (auto simp: keeps_def)

lemma governed_inv_calm: "governed_inv env w \<Longrightarrow> calm_step w w' \<Longrightarrow> governed_inv env w'"
  unfolding governed_inv_def calm_step_def by fastforce

lemma keeps_calm: "follows calm_step m \<Longrightarrow> keeps (governed_inv env) m"
  unfolding keeps_def using governed_inv_calm followsD by blast

section \<open>Submission and reconciliation\<close>

lemma claim_submission_once:
  assumes "claim_submission env a w = (Inr u, w')" "mk_authorization (ge_digests env) a = Inr a"
  shows "claim_key (ge_digests env) a \<notin> dom (map_of (gw_store w))" "claim_key (ge_digests env) a \<in> dom (map_of (gw_store w'))"
proof -
  obtain c w1 where "build_paper_authorization_consumption (ge_digests env) a = Inr c"
    and created: "write_json_exclusive ''paper_submission_authorization_already_consumed'' (au_experiment_id a)
      (''axiom_paper_authorization_consumption_'' @ cn_id c @ ''.json'') (Consumption_document c) w = (Inr (), w1)"
    and w': "w' = w1"
    using assms unfolding claim_submission_def registry_names by (auto simp: gbind_Inr_iff)
  note key = built_claim [OF assms(2) this(1)]
  show "claim_key (ge_digests env) a \<notin> dom (map_of (gw_store w))" "claim_key (ge_digests env) a \<in> dom (map_of (gw_store w'))"
    using write_exclusive_once [OF created] unfolding key claim_key_def w' by simp_all
qed

text \<open>A governed submission either leaves the service alone, or it has verified and claimed the authorization and calls the
  service once.\<close>

lemma submit_authorized_cases:
  assumes "submit_authorized_paper_order env sv a i ap w = (r, w')"
  obtains (refused) e where "calm_step w w'" "r = Inl e"
  | (called) c w1 m sw where
      "mk_authorization (ge_digests env) a = Inr c" "authorized (ge_digests env) c i ap" "calm_step w w1"
      "load_assessment env (gw_store w) (au_experiment_id c) (xs_assessment_id (au_session c)) = Inr (xs_assessment (au_session c))"
      "claim_key (ge_digests env) c \<notin> dom (map_of (gw_store w))" "claim_key (ge_digests env) c \<in> dom (map_of (gw_store w1))"
      "submit_approved_order sv i ap (gw_service w) = (m, sw)"
      "w' = w1\<lparr>gw_service := sw, gw_events := gw_events w1 @ [Submitted_under c i ap]\<rparr>"
      "r = submission_outcome (ge_digests env) c m"
  using assms unfolding submit_authorized_paper_order_def
proof (cases rule: gbindE)
  case (raised e)
  then show ?thesis using refused calm.refl by auto
next
  case lineage: (returned c wa)
  then have c: "mk_authorization (ge_digests env) a = Inr c" and w: "wa = w"
    and stored: "load_assessment env (gw_store w) (au_experiment_id c) (xs_assessment_id (au_session c)) = Inr (xs_assessment (au_session c))"
    by (auto simp: verify_authorization_lineage_def rbind_eq_Inr_iff)
  note canonical = mk_authorization_stable(1) [OF c]
  show ?thesis using lineage(2) unfolding w
  proof (cases rule: gbindE)
    case (raised e)
    then show ?thesis using refused calm.refl by auto
  next
    case pair: (returned u wb)
    then have auth: "authorized (ge_digests env) c i ap" and wb: "wb = w"
      using canonical by (auto simp: verify_authorization_legacy_pair_def authorized_def rbind_eq_Inr_iff)
    show ?thesis using pair(2) unfolding wb
    proof (cases rule: gbindE)
      case (raised e)
      then show ?thesis using refused followsD [OF calm_records(11)] by blast
    next
      case claimed: (returned u' w1)
      note calm = followsD [OF calm_records(11) claimed(1)]
      obtain m sw where service: "submit_approved_order sv i ap (gw_service w) = (m, sw)" by fastforce
      have kept: "gw_service w1 = gw_service w" using calm by (simp add: calm_step_def)
      have r: "r = submission_outcome (ge_digests env) c m"
        and w': "w' = w1\<lparr>gw_service := sw, gw_events := gw_events w1 @ [Submitted_under c i ap]\<rparr>"
        using claimed(2) service by (auto simp: gbind_def service_submit_def kept)
      show ?thesis
        by (rule called [OF c auth calm stored claim_submission_once [OF claimed(1) canonical] service w' r])
    qed
  qed
qed

lemma governed_inv_submit: "keeps (governed_inv env) (submit_authorized_paper_order env sv a i ap)"
  unfolding keeps_def
proof (intro allI impI)
  fix w r w'
  assume inv: "governed_inv env w" and run: "submit_authorized_paper_order env sv a i ap w = (r, w')"
  show "governed_inv env w'" using run
  proof (cases rule: submit_authorized_cases)
    case (refused e)
    then show ?thesis using governed_inv_calm [OF inv] by simp
  next
    case (called c w1 m sw)
    obtain obs where obs: "wd_trace sw = wd_trace (gw_service w) @ obs" "submissions obs = [] \<or> submission_record sv i ap obs"
      using submit_trace [OF called(7)] by blast
    then have "submissions obs = [] \<or> submissions obs = [i]"
      by (auto simp: submission_record_def passed_preflight_def)
    then have sent: "subseq (submissions obs) [i]" by auto
    have w1: "governed_inv env w1" "gw_events w1 = gw_events w" "gw_service w1 = gw_service w"
      using governed_inv_calm [OF inv called(3)] called(3) by (simp_all add: calm_step_def)
    have fresh: "claim_key (ge_digests env) c \<notin> (\<lambda>(a, i, ap). claim_key (ge_digests env) a) ` set (submitted_under (gw_events w1))"
      using inv called(5) unfolding governed_inv_def w1(2) by fastforce
    have "subseq (submissions (wd_trace sw)) (map (\<lambda>(a, i, ap). i) (submitted_under (gw_events w1)) @ [i])"
      using w1(1,3) sent unfolding governed_inv_def obs(1) submissions_append w1(3)
      by (intro list_emb_append_mono) simp_all
    then show ?thesis
      using w1(1) fresh called(2,6) unfolding governed_inv_def called(8) by auto
  qed
qed

lemma governed_inv_reconcile: "keeps (governed_inv env) (reconcile_authorized_paper_order env sv a now)"
proof -
  have service: "keeps (governed_inv env) (service_reconcile sv c now)" for c
    unfolding keeps_def
  proof (intro allI impI)
    fix w r w'
    assume inv: "governed_inv env w" and run: "service_reconcile sv c now w = (r, w')"
    obtain m sw where sw: "reconcile_by_client_order_id sv (PyStr (au_client_order_id c)) now (gw_service w) = (m, sw)" by fastforce
    have "submissions (wd_trace sw) = submissions (wd_trace (gw_service w))"
      using obeysD [OF quiet_reconcile sw] by (auto simp: quiet_step_def)
    then show "governed_inv env w'"
      using inv run by (auto simp: service_reconcile_def sw governed_inv_def)
  qed
  show ?thesis
    unfolding reconcile_authorized_paper_order_def by (intro keeps_bind keeps_pure service)
qed

lemma governed_inv_workflows:
  "keeps (governed_inv env) (run_paper_submission_workflow env sv assessment invocation i ap)"
  "keeps (governed_inv env) (run_paper_reconciliation_workflow env sv a now)"
  unfolding run_paper_submission_workflow_def run_paper_reconciliation_workflow_def
  by (intro keeps_bind keeps_pure keeps_calm calm_records calm_report governed_inv_submit governed_inv_reconcile)+

lemma governed_inv_govern: "governed_inv env w \<Longrightarrow> governed_inv env (govern env sv call w)"
  by (cases call; simp; rule keepsD [OF _ _ prod.collapse [symmetric]])
    (auto intro: keeps_calm calm_records calm_report calm_workflows governed_inv_submit governed_inv_reconcile governed_inv_workflows)

lemma governed_inv_run: "governed_inv env w \<Longrightarrow> governed_inv env (fold (govern env sv) calls w)"
  by (induction calls arbitrary: w) (auto intro: governed_inv_govern)

section \<open>Single use\<close>

text \<open>C4: from a fresh world, whatever governed calls are made, in whatever order, with whatever files other processes add or
  replace and whatever writes fail: the service is called for a submission only under an authorization that authenticates exactly
  the instruction and the approval, whose approval is given inside the window of the instruction and whose readiness was observed by
  a person; no authorization is used twice and each use is claimed in the store; and every order at the broker belongs to
  its own use, in order.\<close>

theorem orders_are_authorized_once:
  assumes "gw_events w = []" and "wd_trace (gw_service w) = []"
  shows "let w' = fold (govern env sv) calls w; uses = submitted_under (gw_events w') in
     (\<forall>(a, i, ap) \<in> set uses.
        mk_authorization (ge_digests env) a = Inr a \<and> au_client_order_id a = in_client_order_id i \<and>
        au_instruction_checksum a = dg_instruction (ge_digests env) i \<and>
        au_approval_checksum a = dg_approval (ge_digests env) ap \<and>
        ap_approved ap \<and> ap_client_order_id ap = in_client_order_id i \<and>
        in_created_at_utc i < ap_approved_at_utc ap \<and> ap_approved_at_utc ap < in_expires_at_utc i \<and>
        qs_phase4_review_status (qa_session (xs_assessment (au_session a))) = PENDING_HUMAN_REVIEW \<and>
        qs_phase4_disposition (qa_session (xs_assessment (au_session a))) = OBSERVED \<and>
        claim_key (ge_digests env) a \<in> dom (map_of (gw_store w'))) \<and>
     distinct (map (\<lambda>(a, i, ap). a) uses) \<and>
     subseq (submissions (wd_trace (gw_service w'))) (map (\<lambda>(a, i, ap). i) uses)"
proof -
  define uses where "uses = submitted_under (gw_events (fold (govern env sv) calls w))"
  have "governed_inv env w" using assms by (simp add: governed_inv_def)
  note inv = governed_inv_run [OF this, of sv calls, unfolded governed_inv_def, folded uses_def]
  have all: "\<forall>(a, i, ap) \<in> set uses. authorized (ge_digests env) a i ap \<and>
      claim_key (ge_digests env) a \<in> dom (map_of (gw_store (fold (govern env sv) calls w)))"
    by (rule conjunct1 [OF inv])
  have keys: "map (\<lambda>(a, i, ap). claim_key (ge_digests env) a) uses =
      map (claim_key (ge_digests env)) (map (\<lambda>(a, i, ap). a) uses)"
    by (simp add: case_prod_beta')
  have "distinct (map (claim_key (ge_digests env)) (map (\<lambda>(a, i, ap). a) uses))"
    unfolding keys [symmetric] by (rule conjunct1 [OF conjunct2 [OF inv]])
  then have once: "distinct (map (\<lambda>(a, i, ap). a) uses)" by (simp only: distinct_map)
  have details: "mk_authorization (ge_digests env) a = Inr a \<and> au_client_order_id a = in_client_order_id i \<and>
        au_instruction_checksum a = dg_instruction (ge_digests env) i \<and>
        au_approval_checksum a = dg_approval (ge_digests env) ap \<and>
        ap_approved ap \<and> ap_client_order_id ap = in_client_order_id i \<and>
        in_created_at_utc i < ap_approved_at_utc ap \<and> ap_approved_at_utc ap < in_expires_at_utc i \<and>
        qs_phase4_review_status (qa_session (xs_assessment (au_session a))) = PENDING_HUMAN_REVIEW \<and>
        qs_phase4_disposition (qa_session (xs_assessment (au_session a))) = OBSERVED \<and>
        claim_key (ge_digests env) a \<in> dom (map_of (gw_store (fold (govern env sv) calls w)))"
    if "(a, i, ap) \<in> set uses" for a i ap
  proof -
    have auth: "authorized (ge_digests env) a i ap"
      and stored: "claim_key (ge_digests env) a \<in> dom (map_of (gw_store (fold (govern env sv) calls w)))"
      using all that by auto
    show ?thesis using authorizedD [OF auth] auth [unfolded authorized_def] stored by (intro conjI) simp_all
  qed
  show ?thesis
    unfolding Let_def uses_def [symmetric] using details once conjunct2 [OF conjunct2 [OF inv]] by auto
qed

section \<open>Refinement\<close>

definition refines_service :: "'b service \<Rightarrow> 'b gov_world \<Rightarrow> 'b gov_world \<Rightarrow> bool" where
  "refines_service sv w w' \<longleftrightarrow>
     (\<exists>events. gw_events w' = gw_events w @ events \<and>
        gw_service w' = fold (perform sv) (map service_call_of events) (gw_service w))"

interpretation service_run: governed_relation "refines_service (sv :: 'b service)" for sv
proof unfold_locales
  show "refines_service sv w w" for w by (simp add: refines_service_def)
  fix w w1 w2 :: "'b gov_world"
  assume "refines_service sv w w1" "refines_service sv w1 w2"
  then obtain xs ys where "gw_events w1 = gw_events w @ xs" "gw_service w1 = fold (perform sv) (map service_call_of xs) (gw_service w)"
    "gw_events w2 = gw_events w1 @ ys" "gw_service w2 = fold (perform sv) (map service_call_of ys) (gw_service w1)"
    by (auto simp: refines_service_def)
  then show "refines_service sv w w2" by (auto simp: refines_service_def intro!: exI [of _ "xs @ ys"])
qed

lemma calm_refines: "follows calm_step m \<Longrightarrow> follows (refines_service sv) m"
  unfolding follows_def calm_step_def refines_service_def by fastforce

lemma service_refines: "follows (refines_service sv) (service_submit sv a i ap)" "follows (refines_service sv) (service_reconcile sv a now)"
  unfolding follows_def refines_service_def service_submit_def service_reconcile_def
  by (auto split: prod.splits)

lemma bridge_refines:
  "follows (refines_service sv) (submit_authorized_paper_order env sv a i ap)"
  "follows (refines_service sv) (reconcile_authorized_paper_order env sv a now)"
  unfolding submit_authorized_paper_order_def reconcile_authorized_paper_order_def
  by (intro service_run.follows_intros service_refines calm_refines calm_records)+

lemma workflows_refine:
  "follows (refines_service sv) (run_paper_submission_workflow env sv assessment invocation i ap)"
  "follows (refines_service sv) (run_paper_reconciliation_workflow env sv a now_utc)"
  unfolding run_paper_submission_workflow_def run_paper_reconciliation_workflow_def
  by (intro service_run.follows_intros bridge_refines calm_refines calm_records calm_report)+

lemma govern_refines: "refines_service sv w (govern env sv call w)"
  by (cases call; simp; rule followsD [OF _ prod.collapse [symmetric]])
    (auto intro: calm_refines calm_records calm_report calm_workflows bridge_refines workflows_refine)


section \<open>The outcome of a submission\<close>

definition digest_texts :: "digests \<Rightarrow> bool" where
  "digest_texts dg \<longleftrightarrow> (\<forall>d. is_sha256_text (dg_content dg d)) \<and> (\<forall>r. is_sha256_text (dg_receipt dg r))"

lemma outcome_built:
  assumes "digest_texts dg" "mk_authorization dg a = Inr a"
    and "disposition \<in> {Outcome_accepted, Outcome_reconciled} \<longleftrightarrow> receipt \<noteq> None"
    and "receipt = None \<longleftrightarrow> code \<notin> {None, Some []}"
    and "disposition = Outcome_reconciled \<longrightarrow> lookup"
  shows "\<exists>out. build_outcome dg a disposition receipt code lookup = Inr out \<and> eo_authorization out = a \<and>
     eo_client_order_id out = au_client_order_id a \<and>
     eo_disposition out = disposition \<and> eo_receipt_checksum out = map_option (dg_receipt dg) receipt \<and>
     eo_failure_code out = code \<and> eo_reconciliation_lookup_only out = lookup"
proof -
  have "is_identity ''aq-paper-execution-outcome-'' (identity_of ''aq-paper-execution-outcome-'' (dg_content dg d))" for d
    using assms(1) by (simp add: identity_of_identity digest_texts_def)
  then show ?thesis
    using assms unfolding build_outcome_def mk_execution_outcome_def Let_def paper_execution_outcome_identity_def
    by (auto simp: digest_texts_def split: option.splits)
qed

text \<open>C15: a governed submission that calls the service ends with an outcome that says what the service did: accepted with the checksum
  of its receipt, submission unknown, rejected by the broker, or blocked, each with the code of the error; and what is no expected
  failure of paper execution is raised again.\<close>

theorem submission_outcome_reports_the_service:
  assumes "digest_texts (ge_digests env)"
    and "submit_authorized_paper_order env sv a i ap w = (r, w')" and "gw_events w' \<noteq> gw_events w"
    and "\<And>e. fst (submit_approved_order sv i ap (gw_service w)) = Inl e \<Longrightarrow> is_paper_execution_error e \<Longrightarrow> exn_code e \<noteq> []"
  shows "case fst (submit_approved_order sv i ap (gw_service w)) of
       Inr receipt \<Rightarrow> (\<exists>out. r = Inr out \<and> eo_disposition out = Outcome_accepted \<and>
          eo_receipt_checksum out = Some (dg_receipt (ge_digests env) receipt) \<and> eo_client_order_id out = in_client_order_id i)
     | Inl e \<Rightarrow>
         if is_paper_execution_error e then
           (\<exists>out. r = Inr out \<and> eo_failure_code out = Some (exn_code e) \<and> eo_receipt_checksum out = None \<and>
              eo_client_order_id out = in_client_order_id i \<and>
              eo_disposition out = (case e of PaperExecutionSubmissionUnknownError _ \<Rightarrow> Outcome_submission_unknown
                 | PaperExecutionBrokerRejectionError _ \<Rightarrow> Outcome_rejected | _ \<Rightarrow> Outcome_blocked))
         else r = Inl (ServiceRaised e)"
  using assms(2)
proof (cases rule: submit_authorized_cases)
  case (refused e)
  then show ?thesis using assms(3) by (simp add: calm_step_def)
next
  case (called c w1 m sw)
  have c: "mk_authorization (ge_digests env) c = Inr c" using called(2) by (simp add: authorized_def)
  note build = outcome_built [OF assms(1) c]
  have order: "au_client_order_id c = in_client_order_id i" by (rule authorizedD(5) [OF called(2)])
  have m: "fst (submit_approved_order sv i ap (gw_service w)) = m" by (simp add: called(7))
  show ?thesis
  proof (cases m)
    case (Inr receipt)
    show ?thesis
      using build [of Outcome_accepted "Some receipt" None False]
      unfolding m Inr called(9) submission_outcome_def by (auto simp: order)
  next
    case (Inl e)
    show ?thesis
    proof (cases "is_paper_execution_error e")
      case False
      then show ?thesis unfolding m Inl called(9) submission_outcome_def by (cases e) simp_all
    next
      case True
      have code: "exn_code e \<noteq> []" by (rule assms(4) [OF _ True]) (simp add: m Inl)
      note built = build [of _ None "Some (exn_code e)" False]
      show ?thesis
        using built [of Outcome_submission_unknown] built [of Outcome_rejected] built [of Outcome_blocked] code True
        unfolding m Inl called(9) submission_outcome_def by (cases e) (auto simp: order)
    qed
  qed
qed

section \<open>One outcome per slot\<close>

definition guard_key :: "string \<Rightarrow> bool \<Rightarrow> string \<Rightarrow> file_key" where
  "guard_key experiment reconciliation authorization_id =
     (experiment, (if reconciliation then ''axiom_paper_reconciliation_outcome_guard_'' else ''axiom_paper_submission_outcome_guard_'') @
        authorization_id @ ''.json'')"

lemma appended_outcome:
  assumes "append_outcome env code authorization canonical w = (Inr x, w')"
  defines "key \<equiv> guard_key (eo_experiment_id canonical) (eo_reconciliation_lookup_only canonical) (au_id authorization)"
  shows "key \<notin> dom (map_of (gw_store w))" "key \<in> dom (map_of (gw_store w'))"
proof -
  let ?rest = "gbind (glift (outcome_name (eo_id canonical))) (\<lambda>name.
     gbind (write_json (ge_digests env) (eo_experiment_id canonical) name (Outcome_document canonical)) (\<lambda>_.
     gbind (gread (\<lambda>st. load_outcome env st (eo_experiment_id canonical) (eo_id canonical))) (\<lambda>loaded.
     gbind (gcheck (loaded = canonical) ''paper_execution_outcome_reload_mismatch'') (\<lambda>_.
     greturn (eo_id canonical)))))"
  obtain w1 where created: "write_json_exclusive code (eo_experiment_id canonical) (snd key)
       (Guard_document (au_id authorization) (eo_reconciliation_lookup_only canonical)) w = (Inr (), w1)"
    and rest: "?rest w1 = (Inr x, w')"
    using assms(1) unfolding append_outcome_def
    by (auto simp: gbind_Inr_iff outcome_guard_name_def phase6_name_def key_def guard_key_def)
  have calm: "follows calm_step ?rest" by (intro calm.follows_intros calm_writes)
  have key: "key = (eo_experiment_id canonical, snd key)" by (simp add: key_def guard_key_def)
  show "key \<notin> dom (map_of (gw_store w))" by (subst key) (rule write_exclusive_once(1) [OF created])
  have "key \<in> dom (map_of (gw_store w1))" by (subst key) (rule write_exclusive_once(2) [OF created])
  then show "key \<in> dom (map_of (gw_store w'))" using followsD [OF calm rest] by (auto simp: calm_step_def)
qed

lemma recorded_outcome:
  assumes "record_outcome env out w = (Inr x, w')"
  defines "key \<equiv> guard_key (eo_experiment_id out) (eo_reconciliation_lookup_only out) (eo_authorization_id out)"
  shows "key \<notin> dom (map_of (gw_store w))" "key \<in> dom (map_of (gw_store w'))"
proof -
  obtain canonical code where c: "mk_execution_outcome (ge_digests env) out = Inr canonical"
    and appended: "append_outcome env code (eo_authorization canonical) canonical w = (Inr x, w')"
    using assms(1) unfolding record_outcome_def by (auto simp: gbind_Inr_iff)
  have key: "key = guard_key (eo_experiment_id canonical) (eo_reconciliation_lookup_only canonical) (au_id (eo_authorization canonical))"
    using mk_execution_outcome_stable(3,5-7) [OF c] by (simp add: key_def)
  show "key \<notin> dom (map_of (gw_store w))" "key \<in> dom (map_of (gw_store w'))"
    unfolding key using appended_outcome [OF appended] by simp_all
qed

text \<open>Files only appear, also in the calls that run the service.\<close>

definition files_appear :: "'b gov_world \<Rightarrow> 'b gov_world \<Rightarrow> bool" where
  "files_appear w w' \<longleftrightarrow> dom (map_of (gw_store w)) \<subseteq> dom (map_of (gw_store w'))"

interpretation files: governed_relation files_appear
  by unfold_locales (auto simp: files_appear_def)

lemma calm_files: "follows calm_step m \<Longrightarrow> follows files_appear m"
  by (auto simp: follows_def calm_step_def files_appear_def)

lemma service_files: "follows files_appear (service_submit sv a i ap)" "follows files_appear (service_reconcile sv a now)"
  unfolding follows_def files_appear_def service_submit_def service_reconcile_def by (auto split: prod.splits)

lemma bridge_files:
  "follows files_appear (submit_authorized_paper_order env sv a i ap)"
  "follows files_appear (reconcile_authorized_paper_order env sv a now)"
  unfolding submit_authorized_paper_order_def reconcile_authorized_paper_order_def
  by (intro files.follows_intros service_files calm_files calm_records)+

lemma workflow_files:
  "follows files_appear (run_paper_submission_workflow env sv assessment invocation i ap)"
  "follows files_appear (run_paper_reconciliation_workflow env sv a now_utc)"
  unfolding run_paper_submission_workflow_def run_paper_reconciliation_workflow_def
  by (intro files.follows_intros bridge_files calm_files calm_records calm_report)+

lemma govern_files: "files_appear w (govern env sv call w)"
  by (cases call; simp; rule followsD [OF _ prod.collapse [symmetric]])
    (auto intro: calm_files calm_records calm_report calm_workflows bridge_files workflow_files)

lemma run_files: "files_appear w (fold (govern env sv) calls w)"
proof (induction calls arbitrary: w)
  case (Cons call calls)
  show ?case by (simp, rule files.trans [OF govern_files Cons.IH])
qed (simp add: files.refl)

text \<open>C16: an outcome of an authorization is recorded at most once per slot: after a submission outcome has been recorded, no governed
  calls, other processes or failed writes make a second submission outcome of that authorization acceptable, and the same for its
  reconciliation.\<close>

theorem outcome_is_recorded_once:
  assumes "record_outcome env out w = (Inr x, w1)"
    and "eo_experiment_id out' = eo_experiment_id out" and "eo_authorization_id out' = eo_authorization_id out"
    and "eo_reconciliation_lookup_only out' = eo_reconciliation_lookup_only out"
  shows "\<exists>e. fst (record_outcome env out' (fold (govern env sv) calls w1)) = Inl e"
proof (cases "record_outcome env out' (fold (govern env sv) calls w1)")
  case (Pair r w2)
  show ?thesis
  proof (cases r)
    case (Inr y)
    have "guard_key (eo_experiment_id out) (eo_reconciliation_lookup_only out) (eo_authorization_id out) \<in>
        dom (map_of (gw_store (fold (govern env sv) calls w1)))"
      by (rule subsetD [OF run_files [unfolded files_appear_def] recorded_outcome(2) [OF assms(1)]])
    then show ?thesis using recorded_outcome(1) [OF Pair [unfolded Inr]] assms(2-4) by simp
  qed (simp add: Pair)
qed

section \<open>Ancestry\<close>

text \<open>C0: an authorization that loads is stored under its own identity as the canonical bytes of its record, and so are the execution session,
  the readiness assessment and the readiness session it embeds; the records are accepted again as they are; the assessment
  keeps broker submission and model-connected operation blocked; and the supervision report below it verifies: its text is
  stored and is that of the disposition in which a person recorded the review as observed, a review that was pending because
  the engine of phase 3 presented it, and whose own report verifies.\<close>

theorem loaded_authorization_has_its_ancestry:
  assumes "load_authorization env st experiment i = Inr a"
  shows "let dg = ge_digests env; xs = au_session a; qa = xs_assessment xs; qs = qa_session qa in
     stored_at st experiment (''axiom_paper_submission_authorization_'' @ i @ ''.json'') (Authorization_document a) \<and>
     stored_at st experiment (''axiom_paper_execution_session_'' @ xs_id xs @ ''.json'') (Execution_session_document xs) \<and>
     stored_at st experiment (''axiom_paper_readiness_assessment_'' @ qa_id qa @ ''.json'') (Assessment_document qa) \<and>
     stored_at st experiment (''axiom_paper_readiness_session_'' @ qs_id qs @ ''.json'') (Session_document qs) \<and>
     au_id a = i \<and> mk_authorization dg a = Inr a \<and> mk_execution_session dg xs = Inr xs \<and>
     mk_readiness_assessment dg qa = Inr qa \<and> mk_readiness_session dg qs = Inr qs \<and>
     map qg_allowed (qa_gates qa) = [True, False, False] \<and>
     (\<exists>d t. load_disposition env st experiment (qs_disposition_id qs) = Inr d \<and> sd_disposition d = OBSERVED \<and>
        ri_review_status (sd_review_item d) = PENDING_HUMAN_REVIEW \<and>
        ss_phase3_verdict (ri_session (sd_review_item d)) = PRESENT_FOR_HUMAN_REVIEW \<and>
        render_supervision_report dg d = Inr t \<and>
        map_of st (experiment, supervision_report_name d) = Some (Other_bytes t) \<and>
        ge_verify_intelligence env st (ss_report (ri_session (sd_review_item d))) = Inr ())"
proof -
  note au = loaded_authorization [OF assms]
  note xs = loaded_execution_session [OF au(3)]
  note qa = loaded_assessment [OF xs(3)]
  note qs = loaded_readiness_session [OF qa(3)]
  note fields = mk_readiness_session_stable [OF qs(5)]
  have offline: "outcome_for_session (qa_session (xs_assessment (au_session a))) = OFFLINE_READINESS_ONLY"
    using mk_execution_session_stable(3) [OF xs(5)] mk_readiness_assessment_stable(3) [OF qa(5)] by simp
  have gates: "map qg_allowed (qa_gates (xs_assessment (au_session a))) = [True, False, False]"
    unfolding mk_readiness_assessment_stable(4) [OF qa(5)]
    by (simp add: evaluate_phase5_readiness_def gate_snapshot_of_def evaluate_phase5_infrastructure_gate_def
        evaluate_phase5_broker_submission_gate_def evaluate_phase5_model_connected_paper_gate_def)
  have presented: "v = PRESENT_FOR_HUMAN_REVIEW" if "PENDING_HUMAN_REVIEW = review_status_for_verdict v" for v
    using that by (cases v) simp_all
  obtain t where "load_supervision_report env st (qs_report (qa_session (xs_assessment (au_session a)))) = Inr t"
    using qs(3) by blast
  note report = loaded_supervision_report [OF this fields(2)]
  have reviewed: "\<exists>d t. load_disposition env st experiment (qs_disposition_id (qa_session (xs_assessment (au_session a)))) = Inr d \<and>
        sd_disposition d = OBSERVED \<and> ri_review_status (sd_review_item d) = PENDING_HUMAN_REVIEW \<and>
        ss_phase3_verdict (ri_session (sd_review_item d)) = PRESENT_FOR_HUMAN_REVIEW \<and>
        render_supervision_report (ge_digests env) d = Inr t \<and>
        map_of st (experiment, supervision_report_name d) = Some (Other_bytes t) \<and>
        ge_verify_intelligence env st (ss_report (ri_session (sd_review_item d))) = Inr ()"
    using report offline [unfolded outcome_offline] qs(2) fields(3-7) presented by auto
  show ?thesis
    unfolding Let_def by (intro conjI; (rule reviewed | insert au xs qa qs(1,4,5) gates, simp))
qed

end
