(* ===== verification/Gov_Witnesses.thy ===== *)
theory Gov_Witnesses
  imports Gov_Properties Exec_Examples
begin

text \<open>
  A concrete chain of governed records over the sample instruction, approval and broker of the execution service, and the
  governed submission that runs it, for the witnesses.

  The properties of governed operation at the sample chain: its authorization used twice, its submission, and its outcome recorded
  twice.
\<close>

section \<open>Records\<close>

definition sample_hash :: string where "sample_hash = replicate 64 CHR ''a''"

definition sample_digests :: digests where
  "sample_digests =
     \<lparr>dg_content = (\<lambda>_. sample_hash), dg_instruction = (\<lambda>_. sample_hash), dg_approval = (\<lambda>_. sample_hash),
      dg_receipt = (\<lambda>_. sample_hash), dg_artifact = (\<lambda>_. sample_hash)\<rparr>"

definition sample_intelligence_report :: intelligence_report where
  "sample_intelligence_report =
     \<lparr>ir_report_id = identity_of ''aq-intel-report-'' sample_hash, ir_assessment_id = identity_of ''aq-intel-assessment-'' sample_hash,
      ir_evidence_id = identity_of ''aq-intel-evidence-'' sample_hash, ir_session_id = identity_of ''aq-intel-session-'' sample_hash,
      ir_experiment_id = ''exp-1'', ir_verdict = PRESENT_FOR_HUMAN_REVIEW, ir_relative_path = ''artifacts/exp-1/report.md'',
      ir_checksum = sample_hash\<rparr>"

definition sample_supervised_session :: supervised_session where
  "sample_supervised_session =
     \<lparr>ss_id = identity_of ''aq-supervision-session-'' sample_hash, ss_invocation_id = ''run-0'',
      ss_report = sample_intelligence_report, ss_report_id = ir_report_id sample_intelligence_report,
      ss_assessment_id = ir_assessment_id sample_intelligence_report, ss_evidence_id = ir_evidence_id sample_intelligence_report,
      ss_intelligence_session_id = ir_session_id sample_intelligence_report, ss_experiment_id = ''exp-1'',
      ss_phase3_verdict = PRESENT_FOR_HUMAN_REVIEW\<rparr>"

definition sample_review_item :: review_item where
  "sample_review_item =
     \<lparr>ri_id = identity_of ''aq-supervision-review-'' sample_hash, ri_session = sample_supervised_session,
      ri_session_id = ss_id sample_supervised_session, ri_report_id = ss_report_id sample_supervised_session,
      ri_experiment_id = ''exp-1'', ri_phase3_verdict = PRESENT_FOR_HUMAN_REVIEW, ri_review_status = PENDING_HUMAN_REVIEW\<rparr>"

definition sample_disposition :: supervised_disposition where
  "sample_disposition =
     \<lparr>sd_id = identity_of ''aq-supervision-disposition-'' sample_hash, sd_review_item = sample_review_item,
      sd_review_item_id = ri_id sample_review_item, sd_session_id = ri_session_id sample_review_item,
      sd_report_id = ri_report_id sample_review_item, sd_experiment_id = ''exp-1'', sd_disposition = OBSERVED,
      sd_human_review_reference = ''review-1'', sd_recorded_at = Utc 0\<rparr>"

definition sample_report_name :: string where
  "sample_report_name = ''axiom_supervision_report_'' @ sd_id sample_disposition @ ''.md''"

definition sample_report_text :: string where
  "sample_report_text = projr (render_supervision_report sample_digests sample_disposition)"

definition sample_supervision_report :: supervision_report where
  "sample_supervision_report =
     \<lparr>sp_report_id = identity_of ''aq-supervision-report-'' sample_hash,
      sp_disposition_id = sd_id sample_disposition, sp_review_item_id = ri_id sample_review_item,
      sp_supervision_session_id = ss_id sample_supervised_session,
      sp_phase3_report_id = ir_report_id sample_intelligence_report, sp_experiment_id = ''exp-1'',
      sp_phase3_verdict = PRESENT_FOR_HUMAN_REVIEW, sp_review_status = PENDING_HUMAN_REVIEW, sp_disposition = OBSERVED,
      sp_relative_path = ''artifacts/exp-1/'' @ sample_report_name, sp_checksum = sample_hash\<rparr>"

definition sample_env :: gov_env where
  "sample_env = \<lparr>ge_digests = sample_digests, ge_root = ''artifacts'',
     ge_verify_intelligence = (\<lambda>st r. if r = sample_intelligence_report then Inr () else Inl ContractError)\<rparr>"

definition sample_readiness_session :: readiness_session where
  "sample_readiness_session =
     \<lparr>qs_id = identity_of ''aq-paper-readiness-session-'' sample_hash, qs_invocation_id = ''run-1'',
      qs_report = sample_supervision_report, qs_supervision_report_id = sp_report_id sample_supervision_report,
      qs_disposition_id = sp_disposition_id sample_supervision_report,
      qs_review_item_id = sp_review_item_id sample_supervision_report,
      qs_supervision_session_id = sp_supervision_session_id sample_supervision_report,
      qs_phase3_report_id = sp_phase3_report_id sample_supervision_report, qs_experiment_id = ''exp-1'',
      qs_phase3_verdict = PRESENT_FOR_HUMAN_REVIEW, qs_phase4_review_status = PENDING_HUMAN_REVIEW,
      qs_phase4_disposition = OBSERVED\<rparr>"

definition sample_assessment :: readiness_assessment where
  "sample_assessment =
     \<lparr>qa_id = identity_of ''aq-paper-readiness-assessment-'' sample_hash, qa_session = sample_readiness_session,
      qa_session_id = qs_id sample_readiness_session, qa_experiment_id = ''exp-1'',
      qa_phase4_review_status = PENDING_HUMAN_REVIEW, qa_phase4_disposition = OBSERVED,
      qa_gates = map gate_snapshot_of (evaluate_phase5_readiness () ()), qa_outcome = OFFLINE_READINESS_ONLY\<rparr>"

definition sample_execution_session :: execution_session where
  "sample_execution_session =
     \<lparr>xs_id = identity_of ''aq-paper-execution-session-'' sample_hash, xs_invocation_id = ''run-2'',
      xs_assessment = sample_assessment, xs_assessment_id = qa_id sample_assessment,
      xs_readiness_session_id = qs_id sample_readiness_session,
      xs_supervision_report_id = sp_report_id sample_supervision_report, xs_experiment_id = ''exp-1''\<rparr>"

definition sample_authorization :: authorization where
  "sample_authorization =
     \<lparr>au_id = identity_of ''aq-paper-submission-authorization-'' sample_hash, au_session = sample_execution_session,
      au_session_id = xs_id sample_execution_session, au_experiment_id = ''exp-1'', au_signal_id = ''signal-1'',
      au_client_order_id = ''order-1'', au_instruction_fingerprint = sample_hash, au_instruction_checksum = sample_hash,
      au_approval_id = ''approval-1'', au_approval_checksum = sample_hash\<rparr>"

definition sample_store :: store where
  "sample_store =
     [((''exp-1'', ''axiom_paper_submission_authorization_'' @ au_id sample_authorization @ ''.json''),
         Canonical (Authorization_document sample_authorization)),
      ((''exp-1'', ''axiom_paper_execution_session_'' @ xs_id sample_execution_session @ ''.json''),
         Canonical (Execution_session_document sample_execution_session)),
      ((''exp-1'', ''axiom_paper_readiness_assessment_'' @ qa_id sample_assessment @ ''.json''),
         Canonical (Assessment_document sample_assessment)),
      ((''exp-1'', ''axiom_paper_readiness_session_'' @ qs_id sample_readiness_session @ ''.json''),
         Canonical (Session_document sample_readiness_session)),
      ((''exp-1'', sample_report_name), Other_bytes sample_report_text),
      ((''exp-1'', ''axiom_supervision_disposition_'' @ sd_id sample_disposition @ ''.json''),
         Canonical (Disposition_document sample_disposition)),
      ((''exp-1'', ''axiom_supervision_review_'' @ ri_id sample_review_item @ ''.json''),
         Canonical (Review_document sample_review_item)),
      ((''exp-1'', ''axiom_supervision_session_'' @ ss_id sample_supervised_session @ ''.json''),
         Canonical (Supervised_session_document sample_supervised_session))]"

definition sample_claim :: consumption where
  "sample_claim = claim_of sample_digests sample_authorization"

definition sample_claimed_store :: store where
  "sample_claimed_store =
     ((''exp-1'', ''axiom_paper_authorization_consumption_'' @ cn_id sample_claim @ ''.json''),
        Canonical (Consumption_document sample_claim)) # sample_store"

definition sample_gov_world :: "broker_order option gov_world" where
  "sample_gov_world = \<lparr>gw_store = sample_store, gw_turns = [], gw_service = sample_world, gw_events = []\<rparr>"

section \<open>Validation\<close>

lemma sample_hash_text [simp]: "is_sha256_text sample_hash"
  unfolding sample_hash_def by (rule sample_texts(4))

lemma sample_identity [simp]: "is_identity p (identity_of p sample_hash)"
  by (simp add: identity_of_identity)

lemma sample_digests_simps [simp]:
  "dg_content sample_digests d = sample_hash" "dg_instruction sample_digests i = sample_hash"
  "dg_approval sample_digests ap = sample_hash" "dg_receipt sample_digests r = sample_hash"
  "dg_artifact sample_digests f = sample_hash"
  by (simp_all add: sample_digests_def)

lemma sample_env_simps [simp]:
  "ge_digests sample_env = sample_digests" "ge_root sample_env = ''artifacts''"
  "ge_verify_intelligence sample_env st sample_intelligence_report = Inr ()"
  by (simp_all add: sample_env_def)

lemma sample_paths:
  "relative_path_of ''artifacts/exp-1/report.md'' = Inr ''artifacts/exp-1/report.md''"
  "relative_path_of (''artifacts/exp-1/'' @ sample_report_name) = Inr (''artifacts/exp-1/'' @ sample_report_name)"
  by code_simp+

lemma sample_references [simp]:
  "is_safe_reference ''run-0''" "is_safe_reference ''run-1''" "is_safe_reference ''run-2''" "is_safe_reference ''review-1''"
  by code_simp+

lemma sample_intelligence_valid: "mk_intelligence_report sample_intelligence_report = Inr sample_intelligence_report"
  by (simp add: mk_intelligence_report_def sample_intelligence_report_def sample_paths)

lemma sample_supervised_session_valid:
  "mk_supervised_session sample_digests sample_supervised_session = Inr sample_supervised_session"
  using sample_intelligence_valid
  by (simp add: mk_supervised_session_def sample_supervised_session_def Let_def supervised_session_identity_def)
    (simp add: sample_intelligence_report_def)

lemma sample_review_valid: "mk_review_item sample_digests sample_review_item = Inr sample_review_item"
proof -
  have fields: "ri_session sample_review_item = sample_supervised_session" by (simp add: sample_review_item_def)
  have same: "sample_review_item\<lparr>ri_session := sample_supervised_session\<rparr> = sample_review_item" by (simp add: sample_review_item_def)
  show ?thesis
    unfolding mk_review_item_def fields sample_supervised_session_valid rbind_Inr same Let_def
    by (simp add: sample_review_item_def supervised_review_item_identity_def) (simp add: sample_supervised_session_def)
qed

lemma sample_disposition_valid: "mk_supervised_disposition sample_digests sample_disposition = Inr sample_disposition"
proof -
  have fields: "sd_review_item sample_disposition = sample_review_item" by (simp add: sample_disposition_def)
  have same: "sample_disposition\<lparr>sd_review_item := sample_review_item\<rparr> = sample_disposition" by (simp add: sample_disposition_def)
  have pending: "ri_review_status sample_review_item = PENDING_HUMAN_REVIEW" "ri_experiment_id sample_review_item = ''exp-1''"
    by (simp_all add: sample_review_item_def)
  show ?thesis
    unfolding mk_supervised_disposition_def fields sample_review_valid rbind_Inr same Let_def pending
    by (simp add: sample_disposition_def supervised_disposition_identity_def validate_disposition_def in_validator_def)
qed

lemma sample_rendered: "render_supervision_report sample_digests sample_disposition = Inr sample_report_text"
  unfolding sample_report_text_def by (simp add: render_supervision_report_def sample_disposition_valid Let_def)

lemma sample_report_valid: "mk_supervision_report sample_supervision_report = Inr sample_supervision_report"
proof -
  have ids: "sd_id sample_disposition = identity_of ''aq-supervision-disposition-'' sample_hash"
    "ri_id sample_review_item = identity_of ''aq-supervision-review-'' sample_hash"
    "ss_id sample_supervised_session = identity_of ''aq-supervision-session-'' sample_hash"
    "ir_report_id sample_intelligence_report = identity_of ''aq-intel-report-'' sample_hash"
    by (simp_all add: sample_disposition_def sample_review_item_def sample_supervised_session_def sample_intelligence_report_def)
  have path: "relative_path_of (sp_relative_path sample_supervision_report) = Inr (sp_relative_path sample_supervision_report)"
    unfolding sample_supervision_report_def by (simp only: supervision_report.simps sample_paths(2))
  show ?thesis
    unfolding mk_supervision_report_def path rbind_Inr by (simp add: sample_supervision_report_def ids)
qed

lemma sample_session_valid: "mk_readiness_session sample_digests sample_readiness_session = Inr sample_readiness_session"
  using sample_report_valid
  by (simp add: mk_readiness_session_def sample_readiness_session_def Let_def paper_readiness_session_identity_def)
    (simp add: sample_supervision_report_def)

lemma sample_posture:
  "map qg_gate (qa_gates sample_assessment) = [PHASE5_GATE_INFRASTRUCTURE, PHASE5_GATE_BROKER_SUBMISSION, PHASE5_GATE_MODEL_CONNECTED_PAPER]"
  "\<not> qg_allowed (qa_gates sample_assessment ! 1)" "\<not> qg_allowed (qa_gates sample_assessment ! 2)"
  "\<not> qg_allowed (qa_gates sample_assessment ! Suc 0)"
  by (simp_all add: sample_assessment_def evaluate_phase5_readiness_def gate_snapshot_of_def evaluate_phase5_infrastructure_gate_def
      evaluate_phase5_broker_submission_gate_def evaluate_phase5_model_connected_paper_gate_def)

lemma sample_assessment_valid: "mk_readiness_assessment sample_digests sample_assessment = Inr sample_assessment"
proof -
  have fields: "qa_session sample_assessment = sample_readiness_session" "qa_gates sample_assessment = map gate_snapshot_of (evaluate_phase5_readiness () ())"
    "qa_id sample_assessment = identity_of ''aq-paper-readiness-assessment-'' sample_hash"
    "qa_session_id sample_assessment = qs_id sample_readiness_session" "qa_experiment_id sample_assessment = qs_experiment_id sample_readiness_session"
    "qa_phase4_review_status sample_assessment = qs_phase4_review_status sample_readiness_session"
    "qa_phase4_disposition sample_assessment = qs_phase4_disposition sample_readiness_session"
    "qa_outcome sample_assessment = outcome_for_session sample_readiness_session"
    by (simp_all add: sample_assessment_def sample_readiness_session_def outcome_for_session_def)
  have same: "sample_assessment\<lparr>qa_session := sample_readiness_session\<rparr> = sample_assessment" by (simp add: sample_assessment_def)
  show ?thesis
    unfolding mk_readiness_assessment_def fields(1) sample_session_valid rbind_Inr same Let_def
    using sample_posture by (simp add: fields paper_readiness_assessment_identity_def)
qed

lemma sample_execution_session_valid:
  "mk_execution_session sample_digests sample_execution_session = Inr sample_execution_session"
proof -
  have fields: "xs_assessment sample_execution_session = sample_assessment" by (simp add: sample_execution_session_def)
  have same: "sample_execution_session\<lparr>xs_assessment := sample_assessment\<rparr> = sample_execution_session"
    by (simp add: sample_execution_session_def)
  show ?thesis
    unfolding mk_execution_session_def fields sample_assessment_valid rbind_Inr same Let_def
    by (simp add: sample_execution_session_def paper_execution_session_identity_def)
      (simp add: sample_assessment_def sample_readiness_session_def)
qed

lemma sample_authorization_valid: "mk_authorization sample_digests sample_authorization = Inr sample_authorization"
proof -
  have fields: "au_session sample_authorization = sample_execution_session" by (simp add: sample_authorization_def)
  have same: "sample_authorization\<lparr>au_session := sample_execution_session\<rparr> = sample_authorization"
    by (simp add: sample_authorization_def)
  have gate: "xs_assessment sample_execution_session = sample_assessment" by (simp add: sample_execution_session_def)
  show ?thesis
    unfolding mk_authorization_def fields sample_execution_session_valid rbind_Inr same Let_def gate
    using sample_posture by (simp add: sample_authorization_def paper_submission_authorization_identity_def)
      (simp add: sample_execution_session_def)
qed

section \<open>What is stored\<close>

lemma sample_fields:
  "qs_id sample_readiness_session = identity_of ''aq-paper-readiness-session-'' sample_hash" "qs_experiment_id sample_readiness_session = ''exp-1''"
  "qs_report sample_readiness_session = sample_supervision_report"
  "qa_id sample_assessment = identity_of ''aq-paper-readiness-assessment-'' sample_hash" "qa_experiment_id sample_assessment = ''exp-1''"
  "qa_session_id sample_assessment = qs_id sample_readiness_session" "qa_session sample_assessment = sample_readiness_session"
  "xs_id sample_execution_session = identity_of ''aq-paper-execution-session-'' sample_hash" "xs_experiment_id sample_execution_session = ''exp-1''"
  "xs_assessment_id sample_execution_session = qa_id sample_assessment" "xs_assessment sample_execution_session = sample_assessment"
  "au_id sample_authorization = identity_of ''aq-paper-submission-authorization-'' sample_hash" "au_experiment_id sample_authorization = ''exp-1''"
  "au_session_id sample_authorization = xs_id sample_execution_session" "au_session sample_authorization = sample_execution_session"
  "au_signal_id sample_authorization = ''signal-1''" "au_client_order_id sample_authorization = ''order-1''"
  by (simp_all add: sample_readiness_session_def sample_assessment_def sample_execution_session_def sample_authorization_def)

lemma sample_review_fields:
  "ss_id sample_supervised_session = identity_of ''aq-supervision-session-'' sample_hash" "ss_experiment_id sample_supervised_session = ''exp-1''"
  "ss_report sample_supervised_session = sample_intelligence_report"
  "ri_id sample_review_item = identity_of ''aq-supervision-review-'' sample_hash" "ri_experiment_id sample_review_item = ''exp-1''"
  "ri_session_id sample_review_item = ss_id sample_supervised_session" "ri_session sample_review_item = sample_supervised_session"
  "sd_id sample_disposition = identity_of ''aq-supervision-disposition-'' sample_hash" "sd_experiment_id sample_disposition = ''exp-1''"
  "sd_review_item_id sample_disposition = ri_id sample_review_item" "sd_review_item sample_disposition = sample_review_item"
  by (simp_all add: sample_supervised_session_def sample_review_item_def sample_disposition_def)

lemma sample_components:
  "artifact_path ''exp-1'' (''axiom_paper_submission_authorization_'' @ au_id sample_authorization @ ''.json'') =
     Inr (''exp-1'', ''axiom_paper_submission_authorization_'' @ au_id sample_authorization @ ''.json'')"
  "artifact_path ''exp-1'' (''axiom_paper_execution_session_'' @ xs_id sample_execution_session @ ''.json'') =
     Inr (''exp-1'', ''axiom_paper_execution_session_'' @ xs_id sample_execution_session @ ''.json'')"
  "artifact_path ''exp-1'' (''axiom_paper_readiness_assessment_'' @ qa_id sample_assessment @ ''.json'') =
     Inr (''exp-1'', ''axiom_paper_readiness_assessment_'' @ qa_id sample_assessment @ ''.json'')"
  "artifact_path ''exp-1'' (''axiom_paper_readiness_session_'' @ qs_id sample_readiness_session @ ''.json'') =
     Inr (''exp-1'', ''axiom_paper_readiness_session_'' @ qs_id sample_readiness_session @ ''.json'')"
  "artifact_path ''exp-1'' sample_report_name = Inr (''exp-1'', sample_report_name)"
  "artifact_path ''exp-1'' (''axiom_supervision_disposition_'' @ sd_id sample_disposition @ ''.json'') =
     Inr (''exp-1'', ''axiom_supervision_disposition_'' @ sd_id sample_disposition @ ''.json'')"
  "artifact_path ''exp-1'' (''axiom_supervision_review_'' @ ri_id sample_review_item @ ''.json'') =
     Inr (''exp-1'', ''axiom_supervision_review_'' @ ri_id sample_review_item @ ''.json'')"
  "artifact_path ''exp-1'' (''axiom_supervision_session_'' @ ss_id sample_supervised_session @ ''.json'') =
     Inr (''exp-1'', ''axiom_supervision_session_'' @ ss_id sample_supervised_session @ ''.json'')"
  unfolding sample_fields sample_review_fields sample_report_name_def by code_simp+

text \<open>A store that holds the chain.\<close>

definition holds_chain :: "store \<Rightarrow> bool" where
  "holds_chain st \<longleftrightarrow>
     stored_at st ''exp-1'' (''axiom_paper_submission_authorization_'' @ au_id sample_authorization @ ''.json'')
       (Authorization_document sample_authorization) \<and>
     stored_at st ''exp-1'' (''axiom_paper_execution_session_'' @ xs_id sample_execution_session @ ''.json'')
       (Execution_session_document sample_execution_session) \<and>
     stored_at st ''exp-1'' (''axiom_paper_readiness_assessment_'' @ qa_id sample_assessment @ ''.json'')
       (Assessment_document sample_assessment) \<and>
     stored_at st ''exp-1'' (''axiom_paper_readiness_session_'' @ qs_id sample_readiness_session @ ''.json'')
       (Session_document sample_readiness_session) \<and>
     map_of st (''exp-1'', sample_report_name) = Some (Other_bytes sample_report_text) \<and>
     stored_at st ''exp-1'' (''axiom_supervision_disposition_'' @ sd_id sample_disposition @ ''.json'')
       (Disposition_document sample_disposition) \<and>
     stored_at st ''exp-1'' (''axiom_supervision_review_'' @ ri_id sample_review_item @ ''.json'')
       (Review_document sample_review_item) \<and>
     stored_at st ''exp-1'' (''axiom_supervision_session_'' @ ss_id sample_supervised_session @ ''.json'')
       (Supervised_session_document sample_supervised_session)"

lemma sample_store_chain: "holds_chain sample_store"
  by (simp add: holds_chain_def stored_at_def sample_store_def sample_report_name_def)

lemma chain_supervised_session:
  assumes "holds_chain st"
  shows "load_supervised_session sample_env st ''exp-1'' (ss_id sample_supervised_session) = Inr sample_supervised_session"
proof -
  have "load_record c supervised_session_data (mk_supervised_session sample_digests) st ''exp-1''
      (''axiom_supervision_session_'' @ ss_id sample_supervised_session @ ''.json'') = Inr sample_supervised_session" for c
    by (rule load_record_stored [where document = Supervised_session_document])
      (use assms sample_components sample_supervised_session_valid in \<open>simp_all add: holds_chain_def\<close>)
  then show ?thesis by (simp add: load_supervised_session_def registry_names artifact_name_def sample_review_fields)
qed

lemma chain_review:
  assumes "holds_chain st"
  shows "load_review_item sample_env st ''exp-1'' (ri_id sample_review_item) = Inr sample_review_item"
proof -
  have "load_record c review_item_data (mk_review_item sample_digests) st ''exp-1''
      (''axiom_supervision_review_'' @ ri_id sample_review_item @ ''.json'') = Inr sample_review_item" for c
    by (rule load_record_stored [where document = Review_document])
      (use assms sample_components sample_review_valid in \<open>simp_all add: holds_chain_def\<close>)
  then show ?thesis
    using chain_supervised_session [OF assms] by (simp add: load_review_item_def registry_names artifact_name_def sample_review_fields)
qed

lemma chain_disposition:
  assumes "holds_chain st"
  shows "load_disposition sample_env st ''exp-1'' (sd_id sample_disposition) = Inr sample_disposition"
proof -
  have "load_record c disposition_data (mk_supervised_disposition sample_digests) st ''exp-1''
      (''axiom_supervision_disposition_'' @ sd_id sample_disposition @ ''.json'') = Inr sample_disposition" for c
    by (rule load_record_stored [where document = Disposition_document])
      (use assms sample_components sample_disposition_valid in \<open>simp_all add: holds_chain_def\<close>)
  then show ?thesis
    using chain_review [OF assms] by (simp add: load_disposition_def registry_names artifact_name_def sample_review_fields)
qed

lemma chain_report:
  assumes "holds_chain st"
  shows "load_supervision_report sample_env st sample_supervision_report = Inr sample_report_text"
proof -
  have name: "supervision_report_name sample_disposition = sample_report_name"
    by (simp add: supervision_report_name_def sample_report_name_def)
  have fields: "sp_experiment_id sample_supervision_report = ''exp-1''" "sp_disposition_id sample_supervision_report = sd_id sample_disposition"
    "sp_review_item_id sample_supervision_report = ri_id sample_review_item"
    "sp_supervision_session_id sample_supervision_report = ss_id sample_supervised_session"
    "sp_phase3_report_id sample_supervision_report = ss_report_id sample_supervised_session"
    "sp_phase3_verdict sample_supervision_report = ri_phase3_verdict sample_review_item"
    "sp_review_status sample_supervision_report = ri_review_status sample_review_item"
    "sp_disposition sample_supervision_report = sd_disposition sample_disposition" "sp_checksum sample_supervision_report = sample_hash"
    by (simp_all add: sample_supervision_report_def sample_supervised_session_def sample_review_item_def sample_disposition_def)
  have path: "relative_path ''artifacts'' (''exp-1'', sample_report_name) = sp_relative_path sample_supervision_report"
    by (simp add: relative_path_def sample_supervision_report_def)
  show ?thesis
    using chain_disposition [OF assms] assms
    by (simp add: load_supervision_report_def sample_report_valid fields sample_review_fields(7,11) name sample_components path
        verify_text_def holds_chain_def sample_rendered)
qed

lemma chain_session:
  assumes "holds_chain st"
  shows "load_readiness_session sample_env st ''exp-1'' (qs_id sample_readiness_session) = Inr sample_readiness_session"
proof -
  have "load_model c c' readiness_session_data (mk_readiness_session sample_digests) Session_document st ''exp-1''
      (''axiom_paper_readiness_session_'' @ qs_id sample_readiness_session @ ''.json'') = Inr sample_readiness_session" for c c'
    by (rule load_model_stored) (use assms sample_components sample_session_valid in \<open>simp_all add: holds_chain_def\<close>)
  then show ?thesis
    using chain_report [OF assms] by (simp add: load_readiness_session_def registry_names artifact_name_def sample_fields)
qed

lemma chain_assessment:
  assumes "holds_chain st"
  shows "load_assessment sample_env st ''exp-1'' (qa_id sample_assessment) = Inr sample_assessment"
proof -
  have "load_model c c' readiness_assessment_data (mk_readiness_assessment sample_digests) Assessment_document st ''exp-1''
      (''axiom_paper_readiness_assessment_'' @ qa_id sample_assessment @ ''.json'') = Inr sample_assessment" for c c'
    by (rule load_model_stored) (use assms sample_components sample_assessment_valid in \<open>simp_all add: holds_chain_def\<close>)
  then show ?thesis
    using chain_session [OF assms] by (simp add: load_assessment_def registry_names artifact_name_def sample_fields)
qed

lemma chain_execution_session:
  assumes "holds_chain st"
  shows "load_execution_session sample_env st ''exp-1'' (xs_id sample_execution_session) = Inr sample_execution_session"
proof -
  have "load_model c c' execution_session_data (mk_execution_session sample_digests) Execution_session_document st ''exp-1''
      (''axiom_paper_execution_session_'' @ xs_id sample_execution_session @ ''.json'') = Inr sample_execution_session" for c c'
    by (rule load_model_stored) (use assms sample_components sample_execution_session_valid in \<open>simp_all add: holds_chain_def\<close>)
  then show ?thesis
    using chain_assessment [OF assms]
    by (simp add: load_execution_session_def load_phase6_def registry_names artifact_name_def sample_fields)
qed

lemma chain_authorization:
  assumes "holds_chain st"
  shows "load_authorization sample_env st ''exp-1'' (au_id sample_authorization) = Inr sample_authorization"
proof -
  have "load_model c c' authorization_data (mk_authorization sample_digests) Authorization_document st ''exp-1''
      (''axiom_paper_submission_authorization_'' @ au_id sample_authorization @ ''.json'') = Inr sample_authorization" for c c'
    by (rule load_model_stored) (use assms sample_components sample_authorization_valid in \<open>simp_all add: holds_chain_def\<close>)
  then show ?thesis
    using chain_execution_session [OF assms]
    by (simp add: load_authorization_def load_phase6_def registry_names artifact_name_def sample_fields)
qed

section \<open>The submission\<close>

lemma sample_pair: "verify_authorization_legacy_pair sample_digests sample_authorization sample_instruction sample_approval = Inr ()"
  unfolding verify_authorization_legacy_pair_def sample_authorization_valid
  by (simp add: legacy_pair_binding_def authorized_pair_def sample_authorization_def sample_instruction_def sample_approval_def
      sample_hash_def)

lemma sample_lineage:
  assumes "holds_chain st"
  shows "verify_authorization_lineage sample_env sample_authorization st = Inr sample_authorization"
  using chain_assessment [OF assms]
  by (simp add: verify_authorization_lineage_def sample_authorization_valid sample_fields)

definition claim_name :: string where
  "claim_name = ''axiom_paper_authorization_consumption_'' @ cn_id sample_claim @ ''.json''"

lemma sample_claim_id: "cn_id sample_claim = identity_of ''aq-paper-authorization-consumption-'' sample_hash"
  by (simp add: sample_claim_def claim_of_def paper_authorization_consumption_identity_def)

lemma sample_claim_valid: "mk_consumption sample_digests sample_claim = Inr sample_claim"
  by (simp add: mk_consumption_def paper_authorization_consumption_identity_def sample_claim_id)

lemma sample_claim_built:
  "build_paper_authorization_consumption sample_digests sample_authorization = Inr sample_claim"
  using sample_claim_valid
  by (simp add: build_paper_authorization_consumption_def sample_authorization_valid sample_claim_def claim_of_def)

lemma sample_claim_fields:
  "cn_authorization_id sample_claim = au_id sample_authorization" "cn_session_id sample_claim = au_session_id sample_authorization"
  "cn_experiment_id sample_claim = ''exp-1''" "cn_signal_id sample_claim = au_signal_id sample_authorization"
  "cn_client_order_id sample_claim = au_client_order_id sample_authorization"
  by (simp_all add: sample_claim_def claim_of_def sample_fields)

lemma sample_claim_name: "consumption_name (cn_id sample_claim) = Inr claim_name"
  unfolding registry_names claim_name_def by (simp add: sample_claim_id)

lemma claim_path: "artifact_path ''exp-1'' claim_name = Inr (''exp-1'', claim_name)"
  unfolding claim_name_def sample_claim_id by code_simp

lemma chain_claim:
  assumes "holds_chain st" "stored_at st ''exp-1'' claim_name (Consumption_document sample_claim)"
  shows "load_consumption sample_env st ''exp-1'' (cn_id sample_claim) = Inr sample_claim"
proof -
  have "load_model c c' consumption_data (mk_consumption sample_digests) Consumption_document st ''exp-1'' claim_name = Inr sample_claim" for c c'
    by (rule load_model_stored) (use assms claim_path sample_claim_valid in simp_all)
  then show ?thesis
    using chain_authorization [OF assms(1)]
    by (simp add: load_consumption_def load_phase6_def sample_claim_name sample_claim_fields)
qed

lemma stored_at_Cons: "(e, n) \<noteq> path \<Longrightarrow> stored_at ((path, f) # st) e n d \<longleftrightarrow> stored_at st e n d"
  by (simp add: stored_at_def)

lemma chain_Cons:
  assumes "holds_chain st"
  shows "holds_chain (((''exp-1'', claim_name), f) # st)"
  using assms unfolding holds_chain_def claim_name_def sample_report_name_def by (simp add: stored_at_Cons)

lemma sample_unclaimed: "map_of sample_store (''exp-1'', claim_name) = None"
  unfolding sample_store_def claim_name_def sample_report_name_def by simp

lemma sample_claim_run:
  "claim_submission sample_env sample_authorization sample_gov_world =
     (Inr (), sample_gov_world\<lparr>gw_store := ((''exp-1'', claim_name), Canonical (Consumption_document sample_claim)) # sample_store\<rparr>)"
proof -
  have loaded: "load_consumption sample_env (((''exp-1'', claim_name), Canonical (Consumption_document sample_claim)) # sample_store)
      ''exp-1'' (cn_id sample_claim) = Inr sample_claim"
    by (rule chain_claim [OF chain_Cons [OF sample_store_chain]]) (simp add: stored_at_def)
  have created: "write_json_exclusive c ''exp-1'' claim_name (Consumption_document sample_claim) sample_gov_world =
      (Inr (), sample_gov_world\<lparr>gw_store := ((''exp-1'', claim_name), Canonical (Consumption_document sample_claim)) # sample_store\<rparr>)" for c
    by (simp add: write_json_exclusive_def claim_path sample_gov_world_def store_turn_of_def sample_unclaimed Let_def)
  have store: "gw_store sample_gov_world = sample_store" by (simp add: sample_gov_world_def)
  show ?thesis
    using chain_authorization [OF sample_store_chain]
    unfolding claim_submission_def gbind_def
    by (simp add: glift_def gread_def sample_authorization_valid store sample_fields(13) sample_claim_built sample_claim_name created loaded)
qed

text \<open>The governed submission: the order is accepted.\<close>

lemma sample_governed_submission:
  "\<exists>out w'. submit_authorized_paper_order sample_env sample_service sample_authorization sample_instruction sample_approval
       sample_gov_world = (Inr out, w') \<and> eo_disposition out = Outcome_accepted \<and>
     gw_events w' = [Submitted_under sample_authorization sample_instruction sample_approval]"
proof -
  let ?w = "sample_gov_world\<lparr>gw_store := ((''exp-1'', claim_name), Canonical (Consumption_document sample_claim)) # sample_store\<rparr>"
  obtain sw where sw: "submit_approved_order sample_service sample_instruction sample_approval sample_world = (Inr sample_receipt, sw)"
    using sample_submission by blast
  have worlds: "gw_service ?w = sample_world" "gw_store sample_gov_world = sample_store" "gw_events ?w = []"
    by (simp_all add: sample_gov_world_def)
  have "digest_texts sample_digests" by (simp add: digest_texts_def)
  then obtain out where out: "build_outcome sample_digests sample_authorization Outcome_accepted (Some sample_receipt) None False = Inr out"
    "eo_disposition out = Outcome_accepted"
    using outcome_built [OF _ sample_authorization_valid, of Outcome_accepted "Some sample_receipt" None False] by auto
  have "submit_authorized_paper_order sample_env sample_service sample_authorization sample_instruction sample_approval
       sample_gov_world = (Inr out, ?w\<lparr>gw_service := sw, gw_events := [Submitted_under sample_authorization sample_instruction sample_approval]\<rparr>)"
    using sample_lineage [OF sample_store_chain] sample_pair sample_claim_run
    unfolding submit_authorized_paper_order_def gbind_def
    by (simp add: glift_def gread_def worlds service_submit_def sw submission_outcome_def out del: gov_world.update_convs)
  then show ?thesis using out(2) by simp
qed

section \<open>Single use\<close>

lemma sample_gov_fresh: "gw_events sample_gov_world = []" "wd_trace (gw_service sample_gov_world) = []"
  by (simp_all add: sample_gov_world_def sample_world_def)

theorem orders_are_authorized_once_witness:
  "distinct (map (\<lambda>(a, i, ap). a) (submitted_under (gw_events (fold (govern sample_env sample_service)
     [Submit_authorized sample_authorization sample_instruction sample_approval,
      Submit_authorized sample_authorization sample_instruction sample_approval] sample_gov_world))))"
  using conjunct1 [OF conjunct2 [OF orders_are_authorized_once [OF sample_gov_fresh,
    of sample_env sample_service
      "[Submit_authorized sample_authorization sample_instruction sample_approval,
        Submit_authorized sample_authorization sample_instruction sample_approval]", unfolded Let_def]]]
  by simp

section \<open>The outcome\<close>

theorem submission_outcome_reports_the_service_witness:
  "\<exists>out. fst (submit_authorized_paper_order sample_env sample_service sample_authorization sample_instruction sample_approval
       sample_gov_world) = Inr out \<and>
     eo_disposition out = Outcome_accepted \<and> eo_receipt_checksum out = Some sample_hash"
proof -
  obtain out w' where run: "submit_authorized_paper_order sample_env sample_service sample_authorization sample_instruction
      sample_approval sample_gov_world = (Inr out, w')"
    and events: "gw_events w' = [Submitted_under sample_authorization sample_instruction sample_approval]"
    using sample_governed_submission by blast
  obtain sw where sw: "submit_approved_order sample_service sample_instruction sample_approval (gw_service sample_gov_world) =
      (Inr sample_receipt, sw)"
    using sample_submission by (auto simp: sample_gov_world_def)
  have texts: "digest_texts (ge_digests sample_env)" by (simp add: digest_texts_def)
  have called: "gw_events w' \<noteq> gw_events sample_gov_world" using events sample_gov_fresh by simp
  show ?thesis
    using submission_outcome_reports_the_service [OF texts run called] by (simp add: sw run)
qed

section \<open>One outcome\<close>

definition sample_outcome :: execution_outcome where
  "sample_outcome =
     \<lparr>eo_id = identity_of ''aq-paper-execution-outcome-'' sample_hash, eo_authorization = sample_authorization,
      eo_authorization_id = au_id sample_authorization, eo_session_id = au_session_id sample_authorization,
      eo_experiment_id = ''exp-1'', eo_signal_id = ''signal-1'', eo_client_order_id = ''order-1'',
      eo_disposition = Outcome_accepted, eo_receipt_checksum = Some sample_hash, eo_failure_code = None,
      eo_reconciliation_lookup_only = False\<rparr>"

lemma sample_outcome_valid: "mk_execution_outcome sample_digests sample_outcome = Inr sample_outcome"
proof -
  have fields: "eo_authorization sample_outcome = sample_authorization" by (simp add: sample_outcome_def)
  have same: "sample_outcome\<lparr>eo_authorization := sample_authorization\<rparr> = sample_outcome" by (simp add: sample_outcome_def)
  show ?thesis
    unfolding mk_execution_outcome_def fields sample_authorization_valid rbind_Inr same Let_def
    by (simp add: sample_outcome_def sample_fields paper_execution_outcome_identity_def)
qed

definition guard_name :: string where
  "guard_name = ''axiom_paper_submission_outcome_guard_'' @ au_id sample_authorization @ ''.json''"

definition sample_outcome_name :: string where
  "sample_outcome_name = ''axiom_paper_execution_outcome_'' @ eo_id sample_outcome @ ''.json''"

lemma sample_outcome_names:
  "outcome_guard_name False (au_id sample_authorization) = Inr guard_name" "outcome_name (eo_id sample_outcome) = Inr sample_outcome_name"
  unfolding registry_names guard_name_def sample_outcome_name_def by (simp_all add: sample_fields sample_outcome_def)

lemma sample_outcome_paths:
  "artifact_path ''exp-1'' guard_name = Inr (''exp-1'', guard_name)"
  "artifact_path ''exp-1'' sample_outcome_name = Inr (''exp-1'', sample_outcome_name)"
proof -
  have ids: "eo_id sample_outcome = identity_of ''aq-paper-execution-outcome-'' sample_hash" by (simp add: sample_outcome_def)
  show "artifact_path ''exp-1'' guard_name = Inr (''exp-1'', guard_name)"
    "artifact_path ''exp-1'' sample_outcome_name = Inr (''exp-1'', sample_outcome_name)"
    unfolding guard_name_def sample_outcome_name_def ids sample_fields by code_simp+
qed

definition claimed_store :: store where
  "claimed_store = ((''exp-1'', claim_name), Canonical (Consumption_document sample_claim)) # sample_store"

lemma claimed_chain: "holds_chain claimed_store" "stored_at claimed_store ''exp-1'' claim_name (Consumption_document sample_claim)"
  unfolding claimed_store_def using chain_Cons [OF sample_store_chain] by (simp_all add: stored_at_def)

lemma no_outcome_names:
  "filter (\<lambda>name. take (length ''axiom_paper_execution_outcome_'') name = ''axiom_paper_execution_outcome_'')
     (sort (remdups (map snd (filter (\<lambda>key. fst key = ''exp-1'') (map fst claimed_store))))) = []"
  by (simp add: filter_empty_conv claimed_store_def sample_store_def claim_name_def sample_report_name_def)

lemma no_outcomes: "list_outcome_ids claimed_store ''exp-1'' = Inr []"
proof -
  have "validate_component ''exp-1'' = Inr ()" by code_simp
  then show ?thesis
    unfolding list_outcome_ids_def list_ids_def existing_artifacts_def by (simp only: rbind_Inr no_outcome_names) simp
qed

text \<open>The store after the guard and the outcome are written.\<close>

definition guarded_store :: store where
  "guarded_store = ((''exp-1'', guard_name), Canonical (Guard_document (au_id sample_authorization) False)) # claimed_store"

definition outcome_store :: store where
  "outcome_store = ((''exp-1'', sample_outcome_name), Canonical (Outcome_document sample_outcome)) # guarded_store"

lemma outcome_names_fresh:
  "map_of claimed_store (''exp-1'', guard_name) = None" "map_of guarded_store (''exp-1'', sample_outcome_name) = None"
  by (simp_all add: guarded_store_def claimed_store_def sample_store_def guard_name_def sample_outcome_name_def claim_name_def sample_report_name_def)

lemma outcome_chain: "holds_chain outcome_store"
  using claimed_chain(1) unfolding holds_chain_def outcome_store_def guarded_store_def
  by (simp add: stored_at_Cons guard_name_def sample_outcome_name_def sample_report_name_def)

lemma outcome_loads: "load_outcome sample_env outcome_store ''exp-1'' (eo_id sample_outcome) = Inr sample_outcome"
proof -
  have "load_model c c' outcome_data (mk_execution_outcome sample_digests) Outcome_document outcome_store ''exp-1'' sample_outcome_name =
      Inr sample_outcome" for c c'
    by (rule load_model_stored) (use sample_outcome_paths sample_outcome_valid in \<open>simp_all add: stored_at_def outcome_store_def\<close>)
  moreover have "eo_experiment_id sample_outcome = ''exp-1''" "eo_authorization_id sample_outcome = au_id sample_authorization"
    "eo_authorization sample_outcome = sample_authorization" by (simp_all add: sample_outcome_def)
  ultimately show ?thesis
    using chain_authorization [OF outcome_chain] by (simp add: load_outcome_def load_phase6_def sample_outcome_names)
qed

definition claimed_world :: "broker_order option gov_world" where
  "claimed_world = sample_gov_world\<lparr>gw_store := claimed_store\<rparr>"

lemma sample_outcome_fields:
  "eo_experiment_id sample_outcome = ''exp-1''" "eo_authorization_id sample_outcome = au_id sample_authorization"
  "eo_authorization sample_outcome = sample_authorization" "\<not> eo_reconciliation_lookup_only sample_outcome"
  by (simp_all add: sample_outcome_def)

lemma sample_outcome_appended:
  "append_outcome sample_env code sample_authorization sample_outcome claimed_world =
     (Inr (eo_id sample_outcome), sample_gov_world\<lparr>gw_store := outcome_store\<rparr>)"
proof -
  have guarded: "write_json_exclusive code ''exp-1'' guard_name (Guard_document (au_id sample_authorization) False) claimed_world =
      (Inr (), sample_gov_world\<lparr>gw_store := guarded_store\<rparr>)"
    by (simp add: write_json_exclusive_def sample_outcome_paths outcome_names_fresh claimed_world_def sample_gov_world_def
        store_turn_of_def guarded_store_def Let_def)
  have written: "write_json dg ''exp-1'' sample_outcome_name (Outcome_document sample_outcome) (sample_gov_world\<lparr>gw_store := guarded_store\<rparr>) =
      (Inr (), sample_gov_world\<lparr>gw_store := outcome_store\<rparr>)" for dg
    by (simp add: write_bytes_def sample_outcome_paths outcome_names_fresh sample_gov_world_def store_turn_of_def outcome_store_def Let_def)
  show ?thesis
    unfolding append_outcome_def gbind_def
    by (simp add: glift_def gread_def sample_outcome_fields sample_outcome_names guarded written outcome_loads)
qed

lemma sample_outcome_recorded:
  "record_outcome sample_env sample_outcome claimed_world = (Inr (eo_id sample_outcome), sample_gov_world\<lparr>gw_store := outcome_store\<rparr>)"
proof -
  have store: "gw_store claimed_world = claimed_store" by (simp add: claimed_world_def)
  have authorization: "load_authorization sample_env claimed_store ''exp-1'' (au_id sample_authorization) = Inr sample_authorization"
    by (rule chain_authorization [OF claimed_chain(1)])
  have consumed: "load_consumption_for_authorization sample_env claimed_store sample_authorization = Inr sample_claim"
    by (simp add: load_consumption_for_authorization_def sample_fields(13) authorization sample_claim_built chain_claim [OF claimed_chain])
  have listed: "list_outcome_ids_for_authorization sample_env claimed_store sample_authorization = Inr []"
    by (simp add: list_outcome_ids_for_authorization_def sample_fields(13) authorization no_outcomes)
  show ?thesis
    unfolding record_outcome_def gbind_def
    by (simp add: glift_def gread_def store sample_outcome_valid sample_outcome_fields authorization consumed listed
        outcome_slot_def sample_outcome_appended)
qed

theorem outcome_is_recorded_once_witness:
  "\<exists>e. fst (record_outcome sample_env sample_outcome (fold (govern sample_env sample_service)
     [Submit_authorized sample_authorization sample_instruction sample_approval]
     (snd (record_outcome sample_env sample_outcome claimed_world)))) = Inl e"
  using outcome_is_recorded_once [OF sample_outcome_recorded refl refl refl,
      of sample_service "[Submit_authorized sample_authorization sample_instruction sample_approval]"]
  by (simp add: sample_outcome_recorded)

section \<open>Ancestry\<close>

theorem loaded_authorization_has_its_ancestry_witness:
  "\<exists>d t. load_disposition sample_env sample_store ''exp-1'' (sd_id sample_disposition) = Inr d \<and> sd_disposition d = OBSERVED \<and>
     map_of sample_store (''exp-1'', supervision_report_name d) = Some (Other_bytes t)"
proof -
  have same: "qs_disposition_id (qa_session (xs_assessment (au_session sample_authorization))) = sd_id sample_disposition"
    by (simp add: sample_fields sample_readiness_session_def sample_supervision_report_def)
  show ?thesis
    using loaded_authorization_has_its_ancestry [OF chain_authorization [OF sample_store_chain]] unfolding Let_def same by blast
qed

end
