(* ===== verification/Spec2Isabelle.thy ===== *)
theory Spec2Isabelle
  imports Risk_Properties Backtest_Examples Exec_Witnesses Backtest_Whole_Witnesses
  Audit_Witnesses Gov_Witnesses
begin

text \<open>
  A verification library of \<^verbatim>\<open>spy_market_agent\<close>, a research and paper-trading system for one instrument (SPY, daily
  bars, long or cash). All file names are under \<^verbatim>\<open>src/src/spy_market_agent/\<close>.

  \<^bold>\<open>The program.\<close> Daily bars become forward labels and, joined with features, a supervised dataset (\<^verbatim>\<open>datasets/\<close>),
  which is cut chronologically (\<^verbatim>\<open>datasets/splits.py\<close>) or into walk-forward folds (\<^verbatim>\<open>research/folds.py\<close>). Two candidate
  models are trained, one is locked by its validation metrics, refitted and evaluated once on the test rows
  (\<^verbatim>\<open>modeling/\<close>). Its predictions become signals (\<^verbatim>\<open>strategies/\<close>), which the next-open simulation turns into
  orders, risk decisions and fills (\<^verbatim>\<open>backtesting/\<close>, \<^verbatim>\<open>risk/\<close>). Apart from that, an order that a human approved may be
  submitted to a paper broker by \<^verbatim>\<open>execution/service.py\<close>, which keeps a ledger of its attempts in SQLite. Governed paper
  operation (\<^verbatim>\<open>paper_ops/\<close>, \<^verbatim>\<open>phase6_execution/\<close>) puts records over that service, stored as content-addressed files: a
  readiness session and its assessment, an execution session, a single-use authorization of one instruction and approval, its
  consumption and its outcome.

  \<^bold>\<open>Theories.\<close>
  \<^item> \<open>Prelude\<close>: errors as the left of a sum and their sequencing (\<open>rbind\<close>, \<open>reject_if\<close>), the loop that may
    raise (locale \<open>raising_loop\<close>), lists. \<open>Rounding\<close>, \<open>Decimals\<close>: correct rounding to a number of significant digits
    (locales \<open>monotone_rounding\<close>, \<open>correct_rounding\<close>, \<open>significant_digits\<close>), and its instance at 28 decimal digits,
    Python's \<^verbatim>\<open>Decimal\<close>. \<open>Py_Values\<close>: Python values of the types the validators distinguish; \<^verbatim>\<open>run_ids.py\<close>.
  \<^item> \<open>Risk_Models\<close>, \<open>Risk_Rules\<close>, \<open>Risk_Properties\<close>: \<^verbatim>\<open>risk/models.py\<close> and \<^verbatim>\<open>evaluate_order_risk\<close> of \<^verbatim>\<open>risk/rules.py\<close>.
  \<^item> \<open>Backtest_Models\<close>, \<open>Backtest_Costs\<close>, \<open>Backtest_Engine\<close>: the values, the order costs and the loop of \<^verbatim>\<open>backtesting/\<close>.
    The state is the cash, the position and the records of orders, decisions, fills and closes.
    \<open>Backtest_Runs\<close>, \<open>Backtest_Safety\<close>: rounding of the affordable quantity, one
    iteration, whole runs.
  \<^item> \<open>Exec_Values\<close>, \<open>Exec_Models\<close>: \<^verbatim>\<open>execution/models.py\<close>, \<^verbatim>\<open>identifiers.py\<close>, \<^verbatim>\<open>approvals.py\<close>, \<^verbatim>\<open>errors.py\<close>.
    \<open>Exec_Ledger\<close>: the three tables of \<^verbatim>\<open>execution/repository.py\<close> and its operations, each one transaction.
    \<open>Exec_Ledger_Inv\<close>, \<open>Exec_Ledger_Ops\<close>, \<open>Exec_Ledger_Properties\<close>, \<open>Exec_Ledger_Specs\<close>: the status
    machine of an attempt (\<open>attempt_step\<close>), the invariant of the tables, histories of operations (locale
    \<open>attempt_ledger\<close>), and the refinement of a set of attempts.
  \<^item> \<open>Exec_Gates\<close>, \<open>Exec_Service\<close>: actions that raise or return and change the world (ledger, broker,
    other processes, a record of what was seen), the gates, and the preview, the submission and the
    reconciliation of \<^verbatim>\<open>execution/service.py\<close>. \<open>Exec_Runs\<close> (locale \<open>world_relation\<close>), \<open>Exec_Safety\<close>, \<open>Exec_Once\<close>,
    \<open>Exec_Outcome\<close>, \<open>Exec_Reconcile\<close>, \<open>Exec_Identity\<close>: what holds of a call and of any interleaving of calls.
  \<^item> \<open>Data_Values\<close>, \<open>Data_Market\<close>, \<open>Data_Labels\<close>, \<open>Data_Supervised\<close>, \<open>Data_Splits\<close>: data frames as lists of rows,
    \<^verbatim>\<open>market_data/models.py\<close>, \<^verbatim>\<open>datasets/models.py\<close>, \<^verbatim>\<open>labels.py\<close>, \<^verbatim>\<open>splits.py\<close>. \<open>Data_Label_Facts\<close>,
    \<open>Data_Label_Properties\<close>, \<open>Data_Split_Properties\<close>, \<open>Data_Join\<close>: what the constructors accept, and
    what labels, join and split are.
  \<^item> \<open>Fold_Build\<close>, \<open>Fold_Properties\<close>: \<^verbatim>\<open>research/models.py\<close> (folds), \<^verbatim>\<open>leakage.py\<close>, \<^verbatim>\<open>folds.py\<close>.
  \<^item> \<open>Model_Values\<close>, \<open>Model_Selection\<close>, \<open>Model_Lock\<close>, \<open>Model_Pipeline\<close>, \<open>Model_Final\<close>: \<^verbatim>\<open>modeling/\<close>. \<open>Model_Choice\<close>: the
    selection rule. \<open>Model_Test\<close>: every stage on the partitions of a split. \<open>Model_Complete\<close>,
    \<open>Model_Liveness\<close>, \<open>Model_Progress\<close>: no check between the stages refuses what an earlier stage produced.
    \<open>Data_Signals\<close>: \<^verbatim>\<open>strategies/\<close>.
    \<open>Signal_Properties\<close>: one signal per prediction, at the next session.
  \<^item> \<open>Float_Text\<close>: the shortest decimal text of a float, which is how \<^verbatim>\<open>Decimal(str(price))\<close> reads a price.
    \<open>Backtest_Market\<close>: the execution prices and the two entry points of \<^verbatim>\<open>backtesting/engine.py\<close>, up to the records of the
    loop. \<open>Backtest_Trades\<close>, \<open>Backtest_Whole\<close>, \<open>Backtest_Lookahead\<close>: whole backtests, from an evaluation to the fills.
  \<^item> \<open>Audit_Rows\<close>, \<open>Audit_Replay\<close>, \<open>Audit_Metrics\<close>, \<open>Audit_Result\<close>, \<open>Audit_Outcome\<close>: \<^verbatim>\<open>BacktestMetrics\<close> and
    \<^verbatim>\<open>BacktestResult\<close> of \<^verbatim>\<open>backtesting/models.py\<close>, whose constructor replays a finished backtest, \<^verbatim>\<open>backtesting/metrics.py\<close>, and
    the end of the engine, which builds them from the records of the loop. The cells of a frame have the types of its
    columns. \<open>Audit_Properties\<close>: what an accepted result tells of its orders, fills and positions.
  \<^item> \<open>Gov_Values\<close>, \<open>Gov_Chain\<close>: the records of governed operation, each embedding its parent and named by a digest of its
    content; the gates and the recovery matrix. \<open>Gov_Store\<close>: the artifact store of \<^verbatim>\<open>research/artifacts.py\<close> as a list of files, and
    the loads of both registries, which verify a record with its whole ancestry. \<open>Gov_Memory\<close>: the world (store, other
    writers and failing writes, the service), the writes, the builders and the records of the registries. \<open>Gov_Bridge\<close>:
    \<^verbatim>\<open>phase6_execution/bridge.py\<close> and \<^verbatim>\<open>reporting.py\<close>. \<open>Gov_Facts\<close>, \<open>Gov_Properties\<close> (locale \<open>governed_relation\<close>, over
    \<open>world_relation\<close>): what constructors, loads and writes guarantee, and what holds of any sequence of
    governed calls.
  \<^item> \<open>Backtest_Examples\<close>, \<open>Exec_Examples\<close>, \<open>Exec_Witnesses\<close>, \<open>Data_Witnesses\<close>, \<open>Model_Witnesses\<close>,
    \<open>Backtest_Whole_Witnesses\<close>, \<open>Audit_Witnesses\<close>, \<open>Gov_Witnesses\<close>: concrete runs at which the properties hold.

  \<^bold>\<open>Conventions.\<close> A \<open>raw_\<close> record is what a constructor is given, \<open>mk_\<close> is its \<^verbatim>\<open>__post_init__\<close>, a \<open>wf_\<close>
  predicate says what an accepted value satisfies. An exception is the left of a sum, with the reason code of the source.
  A decimal is a rational rounded to 28 digits after every operation, a float a rational rounded
  to binary64 (\<open>float_round\<close>) or an infinity or NaN; integers are unbounded, as in Python. A date is
  its day number, an instant a number of microseconds.

  \<^bold>\<open>Parameters.\<close> Code outside the repository is an argument: the digest (SHA-256), the broker, the time zone
  database (\<open>ny_date\<close>), scikit-learn (\<open>sklearn\<close>), the sum of a column in pandas. The
  verification of a phase 4 report (\<^verbatim>\<open>load_supervision_report\<close>) is an argument of governed operation. What is assumed of scikit-learn in the one property that
  needs it is \<open>sklearn_behaves\<close> (binary classes, probabilities in the unit interval that sum to one, metrics
  in their range), and the witnesses instantiate it.

  \<^bold>\<open>Loops.\<close> Structural recursion throughout, except \<^verbatim>\<open>construct_walk_forward_folds\<close>, whose \<^verbatim>\<open>while\<close> is a
  \<open>partial_function (option)\<close>: \<open>walk_forward_construction_returns\<close> shows that it returns for every accepted
  policy. There is no fuel in the development. The digit count of a rational is bounded by its
  numerator and denominator.

  \<^bold>\<open>Not modelled.\<close> The download and storage of market data, the HTTP interface, the dashboards, the command lines and
  the reports are I/O. Feature values are cells of the frame: the rolling windows of pandas are
  not computed. The exponent limits of \<^verbatim>\<open>Decimal\<close>, its signed zeros, and non-Latin-1 text are outside the
  values of the model. The shadow and benchmark runs and the research experiments are orchestration over files and
  statistics in floating point; the intelligence records are advisory and reach no order; the persistence of runs maps finished
  results to rows. Of the artifact store, symbolic links, the choice of its root and files that cannot be read are left out.
\<close>

end
